(* ===== verification/Prelude.thy ===== *)
theory Prelude
  imports Main
begin

text \<open>
  Shared vocabulary of the FleetFlow development: the error values that stand for the
  exceptions of the program, results and stateful actions, Python dictionaries built by a
  comprehension, and the generic lemmas on them that several components use.
\<close>

section \<open>Rule collections\<close>

named_theorems heap_simps \<open>frame equations: what a write to one object leaves alone\<close>
named_theorems inv_intros \<open>preservation rules for the world invariant\<close>

section \<open>Exceptions as values\<close>

text \<open>
  An f-string is kept as the list of its parts, so that two messages are equal exactly when the
  same template was filled with the same values; only the rendering of numbers is left out.
  A weight is a scaled integer here (theory Float64 explains the scale).
\<close>

datatype msg_part = MStr string | MInt int | MFloat int

type_synonym message = "msg_part list"

text \<open>
  The exception classes that the modelled code raises or catches.  A text is kept only where
  the program reads it back (\<open>str(exc)\<close> of a domain conflict becomes the message of a
  per-package assignment error).
\<close>

datatype error =
    DomainValidationError
  | EntityNotFoundError
  | BusinessRuleViolationError
  | DomainConflictError message
  | NotFoundError
  | ConflictError message
  | ValidationError
  | PermissionError
  | DatabaseError
  | PyTypeError
  | PyValueError
  | PyKeyError
  | PyRuntimeError
  | PyOverflowError
  | PyAssertionError
  | DuplicateMessageHandlerError
  | MessageHandlerNotFoundError
  | MessageTypeMismatchError
  | DuplicateEventCodecError
  | EventCodecNotFoundError
  | EventCodecTypeMismatchError
  | EventCodecVersionMismatchError
  | EventCodecContractError

type_synonym 'a result = "error + 'a"

definition is_ok :: "'a result \<Rightarrow> bool" where
  "is_ok r = (case r of Inl _ \<Rightarrow> False | Inr _ \<Rightarrow> True)"

definition res_bind :: "'a result \<Rightarrow> ('a \<Rightarrow> 'b result) \<Rightarrow> 'b result" where
  "res_bind r f = (case r of Inl e \<Rightarrow> Inl e | Inr x \<Rightarrow> f x)"

lemma is_ok_simps [simp]: "is_ok (Inr x)" "\<not> is_ok (Inl e)"
  by (simp_all add: is_ok_def)

lemma res_bind_simps [simp]: "res_bind (Inl e) f = Inl e" "res_bind (Inr x) f = f x"
  by (simp_all add: res_bind_def)

lemma res_bind_Inr_iff: "res_bind r f = Inr y \<longleftrightarrow> (\<exists>x. r = Inr x \<and> f x = Inr y)"
  by (cases r) simp_all

lemma res_bind_Inl_iff: "res_bind r f = Inl e \<longleftrightarrow> r = Inl e \<or> (\<exists>x. r = Inr x \<and> f x = Inl e)"
  by (cases r) auto

text \<open>\<open>tuple(f(x) for x in xs)\<close>: the first failing element decides the exception.\<close>

fun res_map :: "('a \<Rightarrow> 'b result) \<Rightarrow> 'a list \<Rightarrow> 'b list result" where
  "res_map f [] = Inr []"
| "res_map f (x # xs) = res_bind (f x) (\<lambda>y. res_bind (res_map f xs) (\<lambda>ys. Inr (y # ys)))"

lemma res_map_Inr_iff:
  "res_map f xs = Inr ys \<longleftrightarrow> list_all2 (\<lambda>x y. f x = Inr y) xs ys"
proof (induction xs arbitrary: ys)
  case Nil
  then show ?case by auto
next
  case (Cons x xs)
  show ?case by (cases ys) (auto simp: res_bind_Inr_iff Cons.IH)
qed

section \<open>Dictionaries built by comprehension\<close>

text \<open>\<open>{k: v for (k, v) in xs}\<close>: a later pair overwrites an earlier one.\<close>

definition py_dict :: "('k \<times> 'v) list \<Rightarrow> ('k \<rightharpoonup> 'v)" where
  "py_dict xs = map_of (rev xs)"

text \<open>\<open>{x: i for i, x in enumerate(xs)}\<close>\<close>

definition index_dict :: "'a list \<Rightarrow> ('a \<rightharpoonup> nat)" where
  "index_dict xs = py_dict (zip xs [0..<length xs])"

text \<open>\<open>m[k]\<close>\<close>

definition dict_get :: "('k \<rightharpoonup> 'v) \<Rightarrow> 'k \<Rightarrow> 'v result" where
  "dict_get m k = (case m k of None \<Rightarrow> Inl PyKeyError | Some v \<Rightarrow> Inr v)"

lemma dict_get_Some [simp]: "m k = Some v \<Longrightarrow> dict_get m k = Inr v"
  by (simp add: dict_get_def)

lemma py_dict_distinct:
  "distinct (map fst xs) \<Longrightarrow> py_dict xs k = Some v \<longleftrightarrow> (k, v) \<in> set xs"
  by (simp add: py_dict_def rev_map [symmetric] map_of_eq_Some_iff)

lemma py_dict_eq_None_iff: "py_dict xs k = None \<longleftrightarrow> k \<notin> fst ` set xs"
  by (simp add: py_dict_def map_of_eq_None_iff)

lemma py_dict_Some_in: "py_dict xs k = Some v \<Longrightarrow> (k, v) \<in> set xs"
  by (auto simp: py_dict_def dest: map_of_SomeD)

lemma index_dict_None_iff [simp]: "index_dict xs x = None \<longleftrightarrow> x \<notin> set xs"
proof -
  have "fst ` set (zip xs [0..<length xs]) = set (map fst (zip xs [0..<length xs]))"
    by (simp only: set_map)
  then show ?thesis
    by (simp add: index_dict_def py_dict_eq_None_iff)
qed

lemma index_dict_Some_iff:
  "distinct xs \<Longrightarrow> index_dict xs x = Some i \<longleftrightarrow> i < length xs \<and> xs ! i = x"
  by (auto simp: index_dict_def py_dict_distinct set_zip)

lemma index_dict_nth [simp]:
  "distinct xs \<Longrightarrow> i < length xs \<Longrightarrow> index_dict xs (xs ! i) = Some i"
  by (simp add: index_dict_Some_iff)

lemma index_dict_Some_nth: "index_dict xs x = Some i \<Longrightarrow> i < length xs \<and> xs ! i = x"
  unfolding index_dict_def by (drule py_dict_Some_in) (auto simp: set_zip)

section \<open>Adjacent pairs\<close>

text \<open>\<open>itertools.pairwise\<close>\<close>

fun py_pairwise :: "'a list \<Rightarrow> ('a \<times> 'a) list" where
  "py_pairwise (x # y # zs) = (x, y) # py_pairwise (y # zs)"
| "py_pairwise xs = []"

lemma length_pairwise [simp]: "length (py_pairwise xs) = length xs - 1"
  by (induction xs rule: py_pairwise.induct) auto

lemma nth_pairwise: "Suc i < length xs \<Longrightarrow> py_pairwise xs ! i = (xs ! i, xs ! Suc i)"
proof (induction xs arbitrary: i rule: py_pairwise.induct)
  case (1 x y zs)
  then show ?case by (cases i) auto
qed auto

lemma pairwise_zip: "py_pairwise xs = zip xs (tl xs)"
  by (induction xs rule: py_pairwise.induct) auto

lemma distinct_pairwise_neq: "distinct xs \<Longrightarrow> (a, b) \<in> set (py_pairwise xs) \<Longrightarrow> a \<noteq> b"
  by (induction xs rule: py_pairwise.induct) auto

lemma set_pairwise_subset: "(a, b) \<in> set (py_pairwise xs) \<Longrightarrow> a \<in> set xs \<and> b \<in> set xs"
  by (induction xs rule: py_pairwise.induct) auto

end
