(* ===== verification/Float64.thy ===== *)
theory Float64
  imports Prelude "HOL-Library.Log_Nat"
begin

text \<open>
  IEEE double precision as the program uses it: package weights are added up in floating
  point, and a leg's duration is \<open>timedelta(hours=distance_km / speed)\<close>.  Every finite
  non-negative double is an integer multiple of the smallest subnormal \<open>2 ^ -1074\<close>, so such
  a value is represented by that integer; \<open>2 ^ 2098\<close> (the number \<open>2 ^ 1024\<close>, one step
  beyond the largest finite double) stands for infinity.  Arithmetic is exact rational
  arithmetic followed by one rounding to 53 significant bits, ties to even.
\<close>

type_synonym f64 = int

definition f64_unit :: int where
  "f64_unit = 2 ^ 1074"

definition f64_inf :: f64 where
  "f64_inf = 2 ^ 2098"

section \<open>Rounding a quotient to the nearest integer, ties to even\<close>

definition rne :: "int \<Rightarrow> int \<Rightarrow> int" where
  "rne p q =
     (let d = p div q; r = p mod q
      in if 2 * r < q then d else if q < 2 * r then d + 1 else if even d then d else d + 1)"

lemma rne_bound:
  assumes "0 < q"
  shows "2 * \<bar>rne p q * q - p\<bar> \<le> q"
proof -
  have p: "p = p div q * q + p mod q" by simp
  have r: "0 \<le> p mod q" "p mod q < q" using assms by simp_all
  have "(p div q + 1) * q = p div q * q + q" by (simp add: algebra_simps)
  with p r show ?thesis
    unfolding rne_def Let_def by (smt (verit))
qed

lemma rne_unique:
  assumes q: "0 < q" and close: "2 * \<bar>p - n * q\<bar> < q"
  shows "rne p q = n"
proof -
  have "2 * \<bar>rne p q * q - p\<bar> \<le> q" using q by (rule rne_bound)
  with close have "\<bar>rne p q * q - n * q\<bar> < q" by (smt (verit))
  then have "\<bar>rne p q - n\<bar> * q < 1 * q"
    using q by (simp add: abs_mult left_diff_distrib [symmetric])
  then have "\<bar>rne p q - n\<bar> < 1"
    using q by (simp only: mult_less_cancel_right)
  then show ?thesis by simp
qed

lemma rne_exact [simp]: "0 < q \<Longrightarrow> rne (m * q) q = m"
  by (rule rne_unique) simp_all

lemma rne_mono:
  assumes q: "0 < q" and le: "p \<le> p'"
  shows "rne p q \<le> rne p' q"
proof (rule ccontr)
  assume "\<not> ?thesis"
  then have gt: "rne p' q + 1 \<le> rne p q" by simp
  have d: "p div q \<le> p' div q" using q le by (rule zdiv_mono1 [rotated])
  have up: "rne p q \<le> p div q + 1" and lo: "p' div q \<le> rne p' q"
    by (simp_all add: rne_def Let_def)
  from gt d up lo have eqs: "p' div q = p div q" "rne p q = p div q + 1" "rne p' q = p div q"
    by linarith+
  have "p' mod q = p' - p div q * q" "p mod q = p - p div q * q"
    using eqs(1) by (metis minus_div_mult_eq_mod)+
  with le have "p mod q \<le> p' mod q" by simp
  with eqs show False
    by (auto simp: rne_def Let_def split: if_splits)
qed

lemma rne_le: "0 < q \<Longrightarrow> p \<le> m * q \<Longrightarrow> rne p q \<le> m"
  using rne_mono [of q p "m * q"] by simp

lemma rne_ge: "0 < q \<Longrightarrow> m * q \<le> p \<Longrightarrow> m \<le> rne p q"
  using rne_mono [of q "m * q" p] by simp

section \<open>Rounding to double precision\<close>

text \<open>\<open>f64_round p q\<close> is the double nearest to \<open>p / q\<close> units, for \<open>0 \<le> p\<close> and \<open>0 < q\<close>.\<close>

definition f64_shift :: "int \<Rightarrow> nat" where
  "f64_shift n = floorlog 2 (nat n) - 53"

definition f64_round :: "int \<Rightarrow> int \<Rightarrow> f64" where
  "f64_round p q =
     (let k = f64_shift (p div q) in min f64_inf (rne p (q * 2 ^ k) * 2 ^ k))"

lemma f64_shift_mono: "m \<le> n \<Longrightarrow> f64_shift m \<le> f64_shift n"
  unfolding f64_shift_def by (intro diff_le_mono floorlog_mono) simp

lemma f64_shift_upper: "n < 2 ^ (53 + f64_shift n)"
proof (cases "0 < n")
  case True
  then have "nat n < 2 ^ floorlog 2 (nat n)"
    using floorlog_bounds [of "nat n" 2] by simp
  also have "(2::nat) ^ floorlog 2 (nat n) \<le> 2 ^ (53 + f64_shift n)"
    by (intro power_increasing) (simp_all add: f64_shift_def)
  finally have "int (nat n) < int (2 ^ (53 + f64_shift n))" by (rule iffD2 [OF of_nat_less_iff])
  then show ?thesis using True by simp
next
  case False
  then have "n \<le> 0" by simp
  also have "(0::int) < 2 ^ (53 + f64_shift n)" by simp
  finally show ?thesis .
qed

lemma f64_shift_lower: "0 < f64_shift n \<Longrightarrow> 2 ^ (52 + f64_shift n) \<le> n"
proof -
  assume s: "0 < f64_shift n"
  then have fl: "floorlog 2 (nat n) = 53 + f64_shift n" by (simp add: f64_shift_def)
  then have pos: "0 < nat n" by (auto simp: floorlog_def split: if_splits)
  have "2 ^ (floorlog 2 (nat n) - 1) \<le> nat n"
    using floorlog_bounds [of "nat n" 2] pos by simp
  then have "2 ^ (52 + f64_shift n) \<le> nat n" unfolding fl by simp
  then have "int (2 ^ (52 + f64_shift n)) \<le> int (nat n)" by (rule iffD2 [OF of_nat_le_iff])
  then show ?thesis using pos by (simp only: zero_less_nat_eq) simp
qed

lemma f64_shift_le: "n < 2 ^ (53 + k) \<Longrightarrow> f64_shift n \<le> k"
proof (rule ccontr)
  assume n: "n < 2 ^ (53 + k)" and "\<not> f64_shift n \<le> k"
  then have k: "k < f64_shift n" by simp
  then have "(2::int) ^ (53 + k) \<le> 2 ^ (52 + f64_shift n)"
    by (intro power_increasing) simp_all
  also have "\<dots> \<le> n" using k by (intro f64_shift_lower) simp
  finally show False using n by simp
qed

lemma f64_round_0 [simp]: "0 < q \<Longrightarrow> f64_round 0 q = 0"
  by (simp add: f64_round_def Let_def rne_def f64_inf_def)

lemma div_less_scaled:
  assumes "0 < (q::int)" and "p div q < m"
  shows "p < m * q"
proof -
  have "p = p div q * q + p mod q" and "(p div q + 1) * q = p div q * q + q"
    by (simp_all add: distrib_right)
  then have "p < (p div q + 1) * q"
    using assms(1) pos_mod_bound [of q p] by linarith
  also have "\<dots> \<le> m * q" using assms by (intro mult_right_mono) simp_all
  finally show ?thesis .
qed

lemma f64_round_scaled_upper:
  assumes "0 < q"
  shows "rne p (q * 2 ^ f64_shift (p div q)) \<le> 2 ^ 53"
proof (rule rne_le)
  show "0 < q * 2 ^ f64_shift (p div q)" using assms by simp
  have "p < 2 ^ (53 + f64_shift (p div q)) * q"
    using assms f64_shift_upper by (rule div_less_scaled)
  then show "p \<le> 2 ^ 53 * (q * 2 ^ f64_shift (p div q))"
    by (simp add: power_add algebra_simps)
qed

lemma f64_round_scaled_lower:
  assumes "0 < q" and "0 < f64_shift (p div q)"
  shows "2 ^ 52 \<le> rne p (q * 2 ^ f64_shift (p div q))"
proof (rule rne_ge)
  show "0 < q * 2 ^ f64_shift (p div q)" using assms by simp
  have "2 ^ (52 + f64_shift (p div q)) * q \<le> p div q * q"
    using assms by (intro mult_right_mono f64_shift_lower) simp_all
  also have "\<dots> \<le> p"
    using assms(1) pos_mod_sign [of q p] minus_mod_eq_div_mult [of p q] by linarith
  finally show "2 ^ 52 * (q * 2 ^ f64_shift (p div q)) \<le> p"
    by (simp add: power_add algebra_simps)
qed

lemma f64_round_mono:
  assumes q: "0 < q" and le: "p \<le> p'"
  shows "f64_round p q \<le> f64_round p' q"
proof -
  let ?k = "f64_shift (p div q)" and ?k' = "f64_shift (p' div q)"
  have kk: "?k \<le> ?k'" using q le by (intro f64_shift_mono zdiv_mono1)
  have "rne p (q * 2 ^ ?k) * 2 ^ ?k \<le> rne p' (q * 2 ^ ?k') * 2 ^ ?k'"
  proof (cases "?k = ?k'")
    case True
    then show ?thesis using q le by (simp add: rne_mono)
  next
    case False
    with kk have lt: "?k < ?k'" by simp
    have "rne p (q * 2 ^ ?k) * 2 ^ ?k \<le> 2 ^ 53 * 2 ^ ?k"
      using f64_round_scaled_upper [OF q] by (rule mult_right_mono) simp
    also have "\<dots> = 2 ^ (53 + ?k)" by (simp add: power_add)
    also have "\<dots> \<le> 2 ^ (52 + ?k')" using lt by (intro power_increasing) simp_all
    also have "\<dots> = 2 ^ 52 * 2 ^ ?k'" by (simp add: power_add)
    also have "\<dots> \<le> rne p' (q * 2 ^ ?k') * 2 ^ ?k'"
      using f64_round_scaled_lower [OF q, of p'] lt by (intro mult_right_mono) simp_all
    finally show ?thesis .
  qed
  then show ?thesis by (simp add: f64_round_def Let_def min_def)
qed

lemma f64_round_nonneg: "0 < q \<Longrightarrow> 0 \<le> p \<Longrightarrow> 0 \<le> f64_round p q"
  using f64_round_mono [of q 0 p] by simp

lemma f64_round_error:
  assumes "0 < q" and "f64_round p q < f64_inf"
  shows "2 * \<bar>f64_round p q * q - p\<bar> \<le> q * 2 ^ f64_shift (p div q)"
proof -
  let ?k = "f64_shift (p div q)"
  have "f64_round p q = rne p (q * 2 ^ ?k) * 2 ^ ?k"
    using assms(2) by (simp add: f64_round_def Let_def min_def split: if_splits)
  then have "f64_round p q * q = rne p (q * 2 ^ ?k) * (q * 2 ^ ?k)" by simp
  moreover have "2 * \<bar>rne p (q * 2 ^ ?k) * (q * 2 ^ ?k) - p\<bar> \<le> q * 2 ^ ?k"
    using assms(1) by (intro rne_bound) simp
  ultimately show ?thesis by (simp only:)
qed

lemma f64_round_pow:
  assumes "0 < q"
  shows "f64_round (2 ^ n * q) q = min f64_inf (2 ^ n)"
proof -
  let ?s = "f64_shift (2 ^ n)"
  have "?s \<le> n" by (rule f64_shift_le) (rule power_strict_increasing, simp_all)
  then have pow: "(2::int) ^ n = 2 ^ (n - ?s) * 2 ^ ?s" by (simp add: power_add [symmetric])
  have eq: "2 ^ n * q = 2 ^ (n - ?s) * (q * 2 ^ ?s)" by (subst pow) simp
  have "rne (2 ^ n * q) (q * 2 ^ ?s) = 2 ^ (n - ?s)"
    unfolding eq using assms by (intro rne_exact) simp
  then show ?thesis using assms pow by (simp add: f64_round_def Let_def)
qed

lemma f64_round_le_pow: "0 < q \<Longrightarrow> p \<le> 2 ^ n * q \<Longrightarrow> f64_round p q \<le> 2 ^ n"
  using f64_round_mono [of q p "2 ^ n * q"] by (simp add: f64_round_pow)

lemma f64_pow_less_inf: "n < 2098 \<Longrightarrow> 2 ^ n < f64_inf"
  unfolding f64_inf_def by (rule power_strict_increasing) simp_all

text \<open>The absolute error of rounding a quotient known to be at most a power of two.\<close>

lemma f64_round_abs_error:
  assumes q: "0 < q" and p: "0 \<le> p" "p \<le> 2 ^ (52 + k) * q" and k: "52 + k < 2098"
  shows "2 * \<bar>f64_round p q * q - p\<bar> \<le> q * 2 ^ k"
proof -
  have "p div q \<le> 2 ^ (52 + k) * q div q" using q p(2) by (rule zdiv_mono1 [rotated])
  also have "\<dots> = 2 ^ (52 + k)" using q by simp
  finally have "p div q \<le> 2 ^ (52 + k)" .
  also have "(2::int) ^ (52 + k) < 2 ^ (53 + k)" by (rule power_strict_increasing) simp_all
  finally have s: "f64_shift (p div q) \<le> k" by (rule f64_shift_le)
  have "f64_round p q < f64_inf"
    using f64_round_le_pow [OF q p(2)] f64_pow_less_inf [OF k] by simp
  then have "2 * \<bar>f64_round p q * q - p\<bar> \<le> q * 2 ^ f64_shift (p div q)"
    by (rule f64_round_error [OF q])
  also have "\<dots> \<le> q * 2 ^ k" using s q by (intro mult_left_mono power_increasing) simp_all
  finally show ?thesis .
qed

section \<open>Representable values\<close>

definition f64_ok :: "f64 \<Rightarrow> bool" where
  "f64_ok x \<longleftrightarrow> 0 \<le> x \<and> x \<le> f64_inf \<and> f64_round x 1 = x"

lemma f64_round_dvd:
  assumes "2 ^ f64_shift x dvd x"
  shows "f64_round x 1 = min f64_inf x"
proof -
  from assms obtain m where m: "x = m * 2 ^ f64_shift x" by (metis dvdE mult.commute)
  have "rne x (2 ^ f64_shift x) * 2 ^ f64_shift x = x"
    using rne_exact [of "2 ^ f64_shift x" m] m by (metis zero_less_numeral zero_less_power)
  then show ?thesis by (simp add: f64_round_def Let_def)
qed

lemma f64_ok_scaled:
  assumes "0 \<le> m" and "m \<le> 2 ^ 53"
  shows "f64_ok (min f64_inf (m * 2 ^ k))"
proof -
  have dvd: "2 ^ f64_shift (j * 2 ^ i) dvd j * 2 ^ i" if "j < 2 ^ 53" for j :: int and i
  proof -
    have "j * 2 ^ i < 2 ^ (53 + i)" using that by (simp add: power_add)
    then have "f64_shift (j * 2 ^ i) \<le> i" by (rule f64_shift_le)
    then show ?thesis by (simp add: le_imp_power_dvd dvd_mult)
  qed
  have inf: "f64_ok f64_inf"
    using f64_round_dvd [OF dvd [of 1 2098]] by (simp add: f64_ok_def f64_inf_def)
  show ?thesis
  proof (cases "m * 2 ^ k < f64_inf")
    case False
    then show ?thesis using inf by (simp add: min_def)
  next
    case True
    have "2 ^ f64_shift (m * 2 ^ k) dvd m * 2 ^ k"
    proof (cases "m = 2 ^ 53")
      case True
      then show ?thesis using dvd [of 1 "53 + k"] by (simp add: power_add)
    next
      case False
      then show ?thesis using assms by (intro dvd) simp
    qed
    from f64_round_dvd [OF this] True assms show ?thesis by (simp add: f64_ok_def)
  qed
qed

lemma f64_ok_round:
  assumes "0 < q" and "0 \<le> p"
  shows "f64_ok (f64_round p q)"
proof -
  have "0 \<le> rne p (q * 2 ^ f64_shift (p div q))"
    using assms by (intro rne_ge) simp_all
  then show ?thesis
    using f64_round_scaled_upper [OF assms(1)]
    unfolding f64_round_def Let_def by (rule f64_ok_scaled)
qed

lemma f64_ok_0 [simp]: "f64_ok 0"
  by (simp add: f64_ok_def f64_inf_def)

section \<open>Operations\<close>

text \<open>\<open>x + y\<close> on doubles, \<open>float(n)\<close>, \<open>a / b\<close> on integers and \<open>x * y\<close> on doubles.\<close>

definition f64_add :: "f64 \<Rightarrow> f64 \<Rightarrow> f64" where
  "f64_add x y = f64_round (x + y) 1"

definition f64_of_int :: "int \<Rightarrow> f64" where
  "f64_of_int n = f64_round (n * f64_unit) 1"

definition f64_div_int :: "int \<Rightarrow> int \<Rightarrow> f64" where
  "f64_div_int a b = f64_round (a * f64_unit) b"

definition f64_mul :: "f64 \<Rightarrow> f64 \<Rightarrow> f64" where
  "f64_mul x y = f64_round (x * y) f64_unit"

text \<open>\<open>x > n\<close> between a double and an integer is an exact comparison.\<close>

definition f64_gt_int :: "f64 \<Rightarrow> int \<Rightarrow> bool" where
  "f64_gt_int x n \<longleftrightarrow> x = f64_inf \<or> n * f64_unit < x"

lemma f64_add_ok: "0 \<le> x \<Longrightarrow> 0 \<le> y \<Longrightarrow> f64_ok (f64_add x y)"
  unfolding f64_add_def by (rule f64_ok_round) simp_all

lemma f64_add_mono: "x \<le> x' \<Longrightarrow> y \<le> y' \<Longrightarrow> f64_add x y \<le> f64_add x' y'"
  unfolding f64_add_def by (rule f64_round_mono) simp_all

lemma f64_add_increasing: "f64_ok x \<Longrightarrow> 0 \<le> y \<Longrightarrow> x \<le> f64_add x y"
  using f64_round_mono [of 1 x "x + y"] by (simp add: f64_add_def f64_ok_def)

lemma f64_add_0 [simp]: "f64_ok x \<Longrightarrow> f64_add 0 x = x"
  by (simp add: f64_add_def f64_ok_def)

lemma f64_okD: "f64_ok x \<Longrightarrow> 0 \<le> x" "f64_ok x \<Longrightarrow> x \<le> f64_inf"
  by (simp_all add: f64_ok_def)

lemma f64_gt_int_mono:
  "x \<le> y \<Longrightarrow> y \<le> f64_inf \<Longrightarrow> \<not> f64_gt_int y n \<Longrightarrow> \<not> f64_gt_int x n"
  by (auto simp: f64_gt_int_def)

end
