(* ===== verification/Validation.thy ===== *)
theory Validation
  imports Text Float64
begin

text \<open>
  Runtime validation of untyped values: \<open>src/shared/validation.py\<close> and the adapter
  \<open>src/domain/validation.py\<close> that turns its failures into domain errors.  The field name
  argument only fills the text of the exception and is left out.
\<close>

section \<open>Runtime values\<close>

text \<open>
  A datetime is a count of microseconds since 0001-01-01 with the timezone of the object: \<open>None\<close>
  for no \<open>tzinfo\<close>, otherwise what its \<open>utcoffset()\<close> answers (possibly \<open>None\<close>).  A double is a
  signed multiple of \<open>2 ^ -1074\<close>, a decimal a coefficient and an exponent of ten.
\<close>

datatype pydatetime = PyDt (dt_us: int) (dt_tz: "int option option")

datatype pyfloat = FNan | FPosInf | FNegInf | FFin int

datatype pydecimal = DNan | DInf | DFin int int

datatype pyval =
    PyNone
  | PyBool bool
  | PyInt int
  | PyFloat pyfloat
  | PyStr string
  | PyList "pyval list"
  | PyDatetime pydatetime
  | PyUuid int
  | PyDecimal pydecimal
  | PyOther

definition utcoffset :: "pydatetime \<Rightarrow> int option" where
  "utcoffset d = (case dt_tz d of None \<Rightarrow> None | Some off \<Rightarrow> off)"

section \<open>Collections, integers and strings\<close>

definition require_list :: "pyval \<Rightarrow> pyval list result" where
  "require_list v = (case v of PyList xs \<Rightarrow> Inr xs | _ \<Rightarrow> Inl PyTypeError)"

definition require_int :: "pyval \<Rightarrow> int result" where
  "require_int v = (case v of PyInt n \<Rightarrow> Inr n | _ \<Rightarrow> Inl PyTypeError)"

definition require_optional_int :: "pyval \<Rightarrow> int option result" where
  "require_optional_int v =
     (if v = PyNone then Inr None
      else (case require_int v of Inl _ \<Rightarrow> Inl PyTypeError | Inr n \<Rightarrow> Inr (Some n)))"

definition require_positive_int :: "pyval \<Rightarrow> int result" where
  "require_positive_int v =
     res_bind (require_int v) (\<lambda>n. if n < 1 then Inl PyValueError else Inr n)"

definition require_optional_positive_int :: "pyval \<Rightarrow> int option result" where
  "require_optional_positive_int v =
     (if v = PyNone then Inr None
      else res_bind (require_positive_int v) (\<lambda>n. Inr (Some n)))"

definition require_non_negative_int :: "pyval \<Rightarrow> int result" where
  "require_non_negative_int v =
     res_bind (require_int v) (\<lambda>n. if n < 0 then Inl PyValueError else Inr n)"

definition require_str :: "pyval \<Rightarrow> string result" where
  "require_str v = (case v of PyStr s \<Rightarrow> Inr s | _ \<Rightarrow> Inl PyTypeError)"

definition require_optional_str :: "pyval \<Rightarrow> string option result" where
  "require_optional_str v =
     (case v of PyNone \<Rightarrow> Inr None | PyStr s \<Rightarrow> Inr (Some s) | _ \<Rightarrow> Inl PyTypeError)"

definition require_non_empty_str :: "pyval \<Rightarrow> string result" where
  "require_non_empty_str v =
     res_bind (require_str v)
       (\<lambda>s. let normalized = strip s
            in if normalized = [] then Inl PyValueError else Inr normalized)"

section \<open>Datetimes and identifiers\<close>

definition require_datetime :: "pyval \<Rightarrow> pydatetime result" where
  "require_datetime v = (case v of PyDatetime d \<Rightarrow> Inr d | _ \<Rightarrow> Inl PyTypeError)"

definition require_optional_datetime :: "pyval \<Rightarrow> pydatetime option result" where
  "require_optional_datetime v =
     (case v of PyNone \<Rightarrow> Inr None | PyDatetime d \<Rightarrow> Inr (Some d) | _ \<Rightarrow> Inl PyTypeError)"

definition require_naive_datetime :: "pyval \<Rightarrow> pydatetime result" where
  "require_naive_datetime v =
     res_bind (require_datetime v)
       (\<lambda>d. if dt_tz d \<noteq> None \<and> utcoffset d \<noteq> None then Inl PyValueError else Inr d)"

definition require_optional_naive_datetime :: "pyval \<Rightarrow> pydatetime option result" where
  "require_optional_naive_datetime v =
     (if v = PyNone then Inr None
      else res_bind (require_naive_datetime v) (\<lambda>d. Inr (Some d)))"

definition require_aware_datetime :: "pyval \<Rightarrow> pydatetime result" where
  "require_aware_datetime v =
     res_bind (require_datetime v)
       (\<lambda>d. if dt_tz d = None \<or> utcoffset d = None then Inl PyValueError else Inr d)"

definition require_optional_aware_datetime :: "pyval \<Rightarrow> pydatetime option result" where
  "require_optional_aware_datetime v =
     (if v = PyNone then Inr None
      else res_bind (require_aware_datetime v) (\<lambda>d. Inr (Some d)))"

definition require_utc_datetime :: "pyval \<Rightarrow> pydatetime result" where
  "require_utc_datetime v =
     res_bind (require_aware_datetime v)
       (\<lambda>d. if utcoffset d \<noteq> Some 0 then Inl PyValueError else Inr d)"

definition require_optional_utc_datetime :: "pyval \<Rightarrow> pydatetime option result" where
  "require_optional_utc_datetime v =
     (if v = PyNone then Inr None
      else res_bind (require_utc_datetime v) (\<lambda>d. Inr (Some d)))"

definition require_uuid :: "pyval \<Rightarrow> int result" where
  "require_uuid v = (case v of PyUuid u \<Rightarrow> Inr u | _ \<Rightarrow> Inl PyTypeError)"

definition require_optional_uuid :: "pyval \<Rightarrow> int option result" where
  "require_optional_uuid v =
     (case v of PyNone \<Rightarrow> Inr None | PyUuid u \<Rightarrow> Inr (Some u) | _ \<Rightarrow> Inl PyTypeError)"

section \<open>Finite numbers\<close>

text \<open>\<open>float(n)\<close>: the nearest double, or OverflowError beyond the largest one.\<close>

definition py_float_of_int :: "int \<Rightarrow> int result" where
  "py_float_of_int n =
     (let r = f64_of_int \<bar>n\<bar> in if r = f64_inf then Inl PyOverflowError else Inr (sgn n * r))"

definition require_finite_float :: "pyval \<Rightarrow> int result" where
  "require_finite_float v =
     (case v of
        PyInt n \<Rightarrow>
          (case py_float_of_int n of Inl _ \<Rightarrow> Inl PyValueError | Inr x \<Rightarrow> Inr x)
      | PyFloat f \<Rightarrow> (case f of FFin x \<Rightarrow> Inr x | _ \<Rightarrow> Inl PyValueError)
      | _ \<Rightarrow> Inl PyTypeError)"

definition require_non_negative_finite_float :: "pyval \<Rightarrow> int result" where
  "require_non_negative_finite_float v =
     res_bind (require_finite_float v) (\<lambda>x. if x < 0 then Inl PyValueError else Inr x)"

definition require_positive_finite_float :: "pyval \<Rightarrow> int result" where
  "require_positive_finite_float v =
     res_bind (require_finite_float v) (\<lambda>x. if x \<le> 0 then Inl PyValueError else Inr x)"

definition require_finite_decimal :: "pyval \<Rightarrow> pydecimal result" where
  "require_finite_decimal v =
     (case v of
        PyDecimal d \<Rightarrow> (case d of DFin _ _ \<Rightarrow> Inr d | _ \<Rightarrow> Inl PyValueError)
      | _ \<Rightarrow> Inl PyTypeError)"

definition decimal_sign :: "pydecimal \<Rightarrow> int" where
  "decimal_sign d = (case d of DFin c _ \<Rightarrow> sgn c | _ \<Rightarrow> 0)"

definition require_finite_positive_decimal :: "pyval \<Rightarrow> pydecimal result" where
  "require_finite_positive_decimal v =
     res_bind (require_finite_decimal v)
       (\<lambda>d. if decimal_sign d \<le> 0 then Inl PyValueError else Inr d)"

section \<open>The domain adapter\<close>

text \<open>\<open>except (TypeError, ValueError): raise DomainValidationError\<close>; other errors pass through.\<close>

definition as_domain_error :: "'a result \<Rightarrow> 'a result" where
  "as_domain_error r =
     (case r of
        Inl e \<Rightarrow> if e = PyTypeError \<or> e = PyValueError then Inl DomainValidationError else Inl e
      | Inr x \<Rightarrow> Inr x)"

definition domain_require_positive_int :: "pyval \<Rightarrow> int result" where
  "domain_require_positive_int v = as_domain_error (require_positive_int v)"

definition domain_require_optional_positive_int :: "pyval \<Rightarrow> int option result" where
  "domain_require_optional_positive_int v = as_domain_error (require_optional_positive_int v)"

definition domain_require_positive_finite_float :: "pyval \<Rightarrow> int result" where
  "domain_require_positive_finite_float v = as_domain_error (require_positive_finite_float v)"

lemmas validation_defs =
  require_int_def require_positive_int_def require_optional_positive_int_def
  require_positive_finite_float_def require_finite_float_def as_domain_error_def
  domain_require_positive_int_def domain_require_optional_positive_int_def
  domain_require_positive_finite_float_def

text \<open>
  A double that the interpreter can hold: what \<open>PyFloat\<close> carries at run time is representable.
\<close>

definition pyval_ok :: "pyval \<Rightarrow> bool" where
  "pyval_ok v = (case v of PyFloat (FFin x) \<Rightarrow> f64_ok \<bar>x\<bar> \<and> \<bar>x\<bar> < f64_inf | _ \<Rightarrow> True)"

lemma domain_require_positive_int_iff:
  "domain_require_positive_int v = Inr n \<longleftrightarrow> v = PyInt n \<and> 1 \<le> n"
  by (cases v) (auto simp: validation_defs)

lemma domain_require_positive_int_Inl:
  "domain_require_positive_int v = Inl e \<Longrightarrow> e = DomainValidationError"
  by (cases v) (auto simp: validation_defs split: if_splits)

lemma py_float_of_int_ok:
  assumes "py_float_of_int n = Inr x"
  shows "f64_ok \<bar>x\<bar> \<and> \<bar>x\<bar> < f64_inf \<and> (0 < x \<longrightarrow> 0 < n)"
proof -
  have ok: "f64_ok (f64_of_int \<bar>n\<bar>)"
    unfolding f64_of_int_def by (rule f64_ok_round) (simp_all add: f64_unit_def)
  from assms have x: "x = sgn n * f64_of_int \<bar>n\<bar>" and fin: "f64_of_int \<bar>n\<bar> \<noteq> f64_inf"
    by (auto simp: py_float_of_int_def Let_def split: if_splits)
  from ok fin have "0 \<le> f64_of_int \<bar>n\<bar>" "f64_of_int \<bar>n\<bar> < f64_inf"
    by (auto simp: f64_ok_def)
  with ok x show ?thesis
    by (cases n rule: linorder_cases [of _ 0]) (auto simp: abs_mult f64_inf_def)
qed

lemma domain_require_positive_finite_float_ok:
  assumes "domain_require_positive_finite_float v = Inr x" and "pyval_ok v"
  shows "f64_ok x \<and> 0 < x \<and> x < f64_inf"
  using assms
  by (auto simp: validation_defs pyval_ok_def res_bind_Inr_iff split: pyval.splits pyfloat.splits
      sum.splits if_splits dest: py_float_of_int_ok)

lemma domain_require_positive_finite_float_Inl:
  "domain_require_positive_finite_float v = Inl e \<Longrightarrow> e = DomainValidationError"
  by (auto simp: validation_defs res_bind_Inl_iff split: pyval.splits pyfloat.splits sum.splits if_splits)

end
