(* ===== verification/Geography.thy ===== *)
theory Geography
  imports Validation
begin

text \<open>
  Locations: \<open>src/domain/value_objects/location_code.py\<close>, the static map of
  \<open>src/domain/services/map.py\<close> and the validated route path of
  \<open>src/domain/value_objects/route_path.py\<close>.
\<close>

section \<open>Location codes\<close>

text \<open>A \<open>LocationCode\<close> is a string subclass; its construction strips and uppercases.\<close>

type_synonym location = string

definition location_code :: "pyval \<Rightarrow> location result" where
  "location_code v =
     (case v of
        PyStr s \<Rightarrow>
          (let normalized = upper (strip s)
           in if normalized = [] then Inl DomainValidationError else Inr normalized)
      | _ \<Rightarrow> Inl DomainValidationError)"

definition is_location_code :: "location \<Rightarrow> bool" where
  "is_location_code c \<longleftrightarrow> location_code (PyStr c) = Inr c"

text \<open>
  \<open>location_code_or_none\<close> on a value that is \<open>None\<close>, already typed (\<open>Inl\<close>) or raw (\<open>Inr\<close>).
\<close>

definition location_code_or_none :: "(location + pyval) option \<Rightarrow> location option result" where
  "location_code_or_none v =
     (case v of
        None \<Rightarrow> Inr None
      | Some (Inl c) \<Rightarrow> Inr (Some c)
      | Some (Inr raw) \<Rightarrow> res_bind (location_code raw) (\<lambda>c. Inr (Some c)))"

lemma location_code_idem:
  "location_code v = Inr c \<Longrightarrow> location_code (PyStr c) = Inr c"
  by (auto simp: location_code_def Let_def strip_upper split: pyval.splits if_splits)

section \<open>The map\<close>

definition locations :: "location list" where
  "locations = [''SYD'', ''MEL'', ''ADL'', ''ASP'', ''BRI'', ''DAR'', ''PER'']"

definition distances :: "location \<rightharpoonup> (location \<rightharpoonup> int)" where
  "distances = map_of
     [(''SYD'', map_of [(''MEL'', 877), (''ADL'', 1376), (''ASP'', 2762), (''BRI'', 909),
                        (''DAR'', 3935), (''PER'', 4016)]),
      (''MEL'', map_of [(''SYD'', 877), (''ADL'', 725), (''ASP'', 2255), (''BRI'', 1765),
                        (''DAR'', 3752), (''PER'', 3509)]),
      (''ADL'', map_of [(''SYD'', 1376), (''MEL'', 725), (''ASP'', 1530), (''BRI'', 1927),
                        (''DAR'', 3027), (''PER'', 2785)]),
      (''ASP'', map_of [(''SYD'', 2762), (''MEL'', 2255), (''ADL'', 1530), (''BRI'', 2993),
                        (''DAR'', 1497), (''PER'', 2481)]),
      (''BRI'', map_of [(''SYD'', 909), (''MEL'', 1765), (''ADL'', 1927), (''ASP'', 2993),
                        (''DAR'', 3426), (''PER'', 4311)]),
      (''DAR'', map_of [(''SYD'', 3935), (''MEL'', 3752), (''ADL'', 3027), (''ASP'', 1497),
                        (''BRI'', 3426), (''PER'', 4025)]),
      (''PER'', map_of [(''SYD'', 4016), (''MEL'', 3509), (''ADL'', 2785), (''ASP'', 2481),
                        (''BRI'', 4311), (''DAR'', 4025)])]"

definition get_locations :: "location list" where
  "get_locations = locations"

definition is_valid_location :: "pyval \<Rightarrow> bool" where
  "is_valid_location v =
     (case location_code v of Inl _ \<Rightarrow> False | Inr c \<Rightarrow> c \<in> set locations)"

definition get_distance :: "pyval \<Rightarrow> pyval \<Rightarrow> int result" where
  "get_distance x y =
     res_bind (location_code x) (\<lambda>a. res_bind (location_code y) (\<lambda>b.
       if a = b then Inr 0
       else (case (case distances a of None \<Rightarrow> Map.empty | Some m \<Rightarrow> m) b of
               Some d \<Rightarrow> Inr d
             | None \<Rightarrow>
                 (case (case distances b of None \<Rightarrow> Map.empty | Some m \<Rightarrow> m) a of
                    Some d \<Rightarrow> Inr d
                  | None \<Rightarrow> Inl EntityNotFoundError))))"

lemma locations_are_codes: "c \<in> set locations \<Longrightarrow> location_code (PyStr c) = Inr c"
  by (auto simp: locations_def location_code_def strip_def lstrip_def upper_def upper_char_def
      is_lower_def is_space_def code_def Let_def)

text \<open>All supported pairs have a distance, the same in both directions.\<close>

lemma distance_table:
  "list_all (\<lambda>a. list_all (\<lambda>b.
     case get_distance (PyStr a) (PyStr b) of
       Inl _ \<Rightarrow> False
     | Inr d \<Rightarrow> 0 \<le> d \<and> d \<le> 4311 \<and> (d = 0 \<longleftrightarrow> a = b) \<and>
         get_distance (PyStr b) (PyStr a) = Inr d) locations) locations"
  by code_simp

lemma get_distance_supported:
  assumes "a \<in> set locations" and "b \<in> set locations"
  shows "\<exists>d. get_distance (PyStr a) (PyStr b) = Inr d \<and> 0 \<le> d \<and> d \<le> 4311 \<and> (d = 0 \<longleftrightarrow> a = b) \<and>
    get_distance (PyStr b) (PyStr a) = Inr d"
  using distance_table assms unfolding list_all_iff
  by (cases "get_distance (PyStr a) (PyStr b)") fastforce+

lemma get_distance_sym:
  assumes "a \<in> set locations" and "b \<in> set locations"
  shows "get_distance (PyStr a) (PyStr b) = get_distance (PyStr b) (PyStr a)"
  using get_distance_supported [OF assms] by auto

lemma get_distance_pos:
  assumes "a \<in> set locations" and "b \<in> set locations" and "a \<noteq> b"
  obtains d where "get_distance (PyStr a) (PyStr b) = Inr d" and "0 < d" and "d \<le> 4311"
  using get_distance_supported [OF assms(1,2)] assms(3) by (metis order_le_imp_less_or_eq)

section \<open>Route paths\<close>

text \<open>
  The only field of a path that the code reads is its tuple of locations; the private index
  is \<open>index_dict\<close> of it.
\<close>

type_synonym route_path = "location list"

definition route_path :: "location list \<Rightarrow> route_path result" where
  "route_path ls =
     (if \<not> list_all is_location_code ls then Inl DomainValidationError
      else if length ls < 2 then Inl DomainValidationError
      else if \<not> list_all (\<lambda>l. l \<in> set get_locations) ls then Inl DomainValidationError
      else if length (remdups ls) \<noteq> length ls then Inl DomainValidationError
      else Inr ls)"

definition route_path_create :: "pyval list \<Rightarrow> route_path result" where
  "route_path_create raws = res_bind (res_map location_code raws) route_path"

definition path_start :: "route_path \<Rightarrow> location" where
  "path_start p = hd p"

definition path_end :: "route_path \<Rightarrow> location" where
  "path_end p = last p"

definition path_includes_in_order :: "route_path \<Rightarrow> pyval \<Rightarrow> pyval \<Rightarrow> bool result" where
  "path_includes_in_order p x y =
     res_bind (location_code x) (\<lambda>a. res_bind (location_code y) (\<lambda>b.
       Inr (case (index_dict p a, index_dict p b) of
              (Some i, Some j) \<Rightarrow> i < j
            | _ \<Rightarrow> False)))"

definition path_ok :: "route_path \<Rightarrow> bool" where
  "path_ok p \<longleftrightarrow> 2 \<le> length p \<and> distinct p \<and> set p \<subseteq> set locations"

lemma path_ok_code: "path_ok p \<Longrightarrow> c \<in> set p \<Longrightarrow> location_code (PyStr c) = Inr c"
  by (auto simp: path_ok_def intro: locations_are_codes)

lemma path_okD:
  assumes "path_ok p"
  shows "2 \<le> length p" "distinct p" "set p \<subseteq> set locations" "p \<noteq> []"
  using assms by (auto simp: path_ok_def)

lemma route_path_iff: "route_path ls = Inr p \<longleftrightarrow> p = ls \<and> path_ok ls"
proof -
  have "list_all is_location_code ls" if "set ls \<subseteq> set locations"
    using that by (auto simp: list_all_iff is_location_code_def intro: locations_are_codes)
  moreover have "length (remdups ls) = length ls \<longleftrightarrow> distinct ls"
    by (metis distinct_card length_remdups_card_conv card_distinct)
  ultimately show ?thesis
    by (auto simp: route_path_def path_ok_def get_locations_def list_all_iff)
qed

lemma route_path_Inl: "route_path ls = Inl e \<Longrightarrow> e = DomainValidationError"
  by (auto simp: route_path_def split: if_splits)

lemma path_includes_in_order_iff:
  assumes "path_ok p" and "a \<in> set p" and "b \<in> set p"
  shows "path_includes_in_order p (PyStr a) (PyStr b) =
    Inr (the (index_dict p a) < the (index_dict p b))"
proof -
  obtain i j where "index_dict p a = Some i" "index_dict p b = Some j"
    using assms(2,3) by (metis index_dict_None_iff not_None_eq)
  then show ?thesis
    using assms by (simp add: path_includes_in_order_def path_ok_code)
qed

end
