(* ===== verification/Schedule.thy ===== *)
theory Schedule
  imports Geography
begin

text \<open>
  Route schedules and positions in time: \<open>src/domain/value_objects/route_schedule.py\<close>, and the
  scheduler \<open>src/domain/services/route_scheduler.py\<close> that computes them from the map.
\<close>

section \<open>Datetimes and durations\<close>

text \<open>
  A naive business time is its number of microseconds since 0001-01-01; datetime arithmetic
  that leaves the years 1 to 9999 raises OverflowError.
\<close>

type_synonym time = int

definition time_max :: time where
  "time_max = 315537897599999999"

definition naive :: "time \<Rightarrow> pydatetime" where
  "naive t = PyDt t None"

definition dt_add :: "pydatetime \<Rightarrow> int \<Rightarrow> pydatetime result" where
  "dt_add d us =
     (let t = dt_us d + us
      in if t < 0 \<or> time_max < t then Inl PyOverflowError else Inr (PyDt t (dt_tz d)))"

text \<open>
  \<open>timedelta(hours=h)\<close> for a double \<open>h\<close>: CPython converts the integral hours exactly, multiplies
  the fraction by \<open>3600000000\<close> in floating point, and rounds the sum to whole microseconds, ties
  to even.
\<close>

definition us_per_hour :: int where
  "us_per_hour = 3600000000"

definition timedelta_hours :: "f64 \<Rightarrow> int" where
  "timedelta_hours h =
     rne (h div f64_unit * us_per_hour * f64_unit
            + f64_mul (us_per_hour * f64_unit) (h mod f64_unit)) f64_unit"

text \<open>\<open>timedelta(hours=distance_km / speed)\<close>\<close>

definition leg_duration :: "int \<Rightarrow> int \<Rightarrow> int" where
  "leg_duration distance_km speed = timedelta_hours (f64_div_int distance_km speed)"

section \<open>Positions, segments, stops and schedules\<close>

datatype position_kind = UNSCHEDULED | BEFORE_START | AT_STOP | IN_TRANSIT | AFTER_END

record route_position =
  pos_kind :: position_kind
  pos_from_city :: "location option"
  pos_to_city :: "location option"
  pos_stop_city :: "location option"
  pos_next_eta :: "time option"

record route_segment =
  seg_start :: location
  seg_end :: location
  seg_distance_km :: int
  seg_duration :: int

record scheduled_stop =
  stop_location :: location
  stop_arrival_at :: time

record route_schedule =
  sched_departure_time :: time
  sched_segments :: "route_segment list"
  sched_stops :: "scheduled_stop list"

definition arrival_times :: "route_schedule \<Rightarrow> (location \<rightharpoonup> time)" where
  "arrival_times s = py_dict (map (\<lambda>st. (stop_location st, stop_arrival_at st)) (sched_stops s))"

definition stop_indices :: "route_schedule \<Rightarrow> (location \<rightharpoonup> nat)" where
  "stop_indices s = index_dict (map stop_location (sched_stops s))"

text \<open>
  The validation of \<open>RouteSchedule.__post_init__\<close>, on the raw timestamps of the constructor; the
  value that passes it keeps their naive times.
\<close>

fun check_segments :: "route_segment list \<Rightarrow> scheduled_stop list \<Rightarrow> unit result" where
  "check_segments (g # gs) (s # s' # ss) =
     (if seg_distance_km g \<le> 0 then Inl DomainValidationError
      else if seg_duration g \<le> 0 then Inl DomainValidationError
      else if seg_start g \<noteq> stop_location s then Inl DomainValidationError
      else if seg_end g \<noteq> stop_location s' then Inl DomainValidationError
      else res_bind (dt_add (naive (stop_arrival_at s)) (seg_duration g)) (\<lambda>t.
        if dt_us t \<noteq> stop_arrival_at s' then Inl DomainValidationError
        else check_segments gs (s' # ss)))"
| "check_segments _ _ = Inr ()"

definition route_schedule_create ::
    "pydatetime \<Rightarrow> route_segment list \<Rightarrow> (location \<times> pydatetime) list \<Rightarrow> route_schedule result" where
  "route_schedule_create dep segs raw_stops =
     (if \<not> is_ok (require_naive_datetime (PyDatetime dep))
         \<or> \<not> list_all (\<lambda>st. is_ok (require_naive_datetime (PyDatetime (snd st)))) raw_stops
      then Inl DomainValidationError
      else if length raw_stops < 2 then Inl DomainValidationError
      else if length segs \<noteq> length raw_stops - 1 then Inl DomainValidationError
      else if dt_us (snd (hd raw_stops)) \<noteq> dt_us dep then Inl DomainValidationError
      else if length (remdups (map fst raw_stops)) \<noteq> length raw_stops then Inl DomainValidationError
      else let stops = map (\<lambda>st. \<lparr>stop_location = fst st, stop_arrival_at = dt_us (snd st)\<rparr>) raw_stops
           in res_bind (check_segments segs stops) (\<lambda>_.
                Inr \<lparr>sched_departure_time = dt_us dep, sched_segments = segs,
                     sched_stops = stops\<rparr>))"

definition sched_eta_final :: "route_schedule \<Rightarrow> time" where
  "sched_eta_final s = stop_arrival_at (last (sched_stops s))"

definition sched_total_distance_km :: "route_schedule \<Rightarrow> int" where
  "sched_total_distance_km s = sum_list (map seg_distance_km (sched_segments s))"

definition sched_arrival_time_at :: "route_schedule \<Rightarrow> location \<Rightarrow> time result" where
  "sched_arrival_time_at s l =
     (case arrival_times s l of None \<Rightarrow> Inl DomainValidationError | Some t \<Rightarrow> Inr t)"

section \<open>Position at a time\<close>

definition next_stop_eta :: "route_schedule \<Rightarrow> location \<Rightarrow> time option result" where
  "next_stop_eta s city =
     res_bind (dict_get (stop_indices s) city) (\<lambda>i.
       if length (sched_stops s) \<le> i + 1 then Inr None
       else res_bind (dict_get (arrival_times s) (stop_location (sched_stops s ! (i + 1)))) (\<lambda>t.
         Inr (Some t)))"

definition position_on_segment ::
    "route_schedule \<Rightarrow> route_segment \<Rightarrow> time \<Rightarrow> location \<Rightarrow> route_position option result" where
  "position_on_segment s g now first_city =
     res_bind (dict_get (arrival_times s) (seg_start g)) (\<lambda>start_time.
     res_bind (dict_get (arrival_times s) (seg_end g)) (\<lambda>end_time.
       if now = start_time then
         Inr (Some \<lparr>pos_kind = (if seg_start g = first_city then IN_TRANSIT else AT_STOP),
                    pos_from_city = Some (seg_start g), pos_to_city = Some (seg_end g),
                    pos_stop_city = None, pos_next_eta = Some end_time\<rparr>)
       else if now = end_time then
         res_bind (next_stop_eta s (seg_end g)) (\<lambda>eta.
           Inr (Some \<lparr>pos_kind = AT_STOP, pos_from_city = None, pos_to_city = None,
                      pos_stop_city = Some (seg_end g), pos_next_eta = eta\<rparr>))
       else if start_time < now \<and> now < end_time then
         Inr (Some \<lparr>pos_kind = IN_TRANSIT, pos_from_city = Some (seg_start g),
                    pos_to_city = Some (seg_end g), pos_stop_city = None,
                    pos_next_eta = Some end_time\<rparr>)
       else Inr None))"

fun position_on_segments ::
    "route_schedule \<Rightarrow> route_segment list \<Rightarrow> time \<Rightarrow> location \<Rightarrow> route_position option result" where
  "position_on_segments s [] now first_city = Inr None"
| "position_on_segments s (g # gs) now first_city =
     res_bind (position_on_segment s g now first_city) (\<lambda>p.
       case p of
         Some q \<Rightarrow> Inr (Some q)
       | None \<Rightarrow> position_on_segments s gs now first_city)"

definition position_after_segments :: "route_schedule \<Rightarrow> time \<Rightarrow> time \<Rightarrow> route_position result" where
  "position_after_segments s now first_departure =
     res_bind (dict_get (arrival_times s) (stop_location (last (sched_stops s)))) (\<lambda>end_time.
       Inr (if end_time \<le> now then
              \<lparr>pos_kind = AFTER_END, pos_from_city = None, pos_to_city = None,
               pos_stop_city = Some (stop_location (last (sched_stops s))), pos_next_eta = None\<rparr>
            else
              \<lparr>pos_kind = AT_STOP, pos_from_city = None, pos_to_city = None,
               pos_stop_city = Some (stop_location (hd (sched_stops s))),
               pos_next_eta = Some first_departure\<rparr>))"

definition position_at :: "route_schedule \<Rightarrow> pydatetime \<Rightarrow> route_position result" where
  "position_at s instant =
     (case require_naive_datetime (PyDatetime instant) of
        Inl _ \<Rightarrow> Inl DomainValidationError
      | Inr d \<Rightarrow>
          (let now = dt_us d; first_city = stop_location (hd (sched_stops s))
           in res_bind (dict_get (arrival_times s) first_city) (\<lambda>first_departure.
                if now < first_departure then
                  Inr \<lparr>pos_kind = BEFORE_START, pos_from_city = None, pos_to_city = None,
                       pos_stop_city = Some first_city, pos_next_eta = Some first_departure\<rparr>
                else res_bind (position_on_segments s (sched_segments s) now first_city) (\<lambda>p.
                  case p of
                    Some q \<Rightarrow> Inr q
                  | None \<Rightarrow> position_after_segments s now first_departure))))"

section \<open>The scheduler\<close>

definition DEFAULT_SPEED_KMPH :: int where
  "DEFAULT_SPEED_KMPH = 87"

fun build_legs ::
    "(location \<times> location) list \<Rightarrow> int \<Rightarrow> pydatetime \<Rightarrow>
       (route_segment list \<times> (location \<times> pydatetime) list) result" where
  "build_legs [] speed current_time = Inr ([], [])"
| "build_legs ((a, b) # ps) speed current_time =
     res_bind (get_distance (PyStr a) (PyStr b)) (\<lambda>distance_km.
       let duration = leg_duration distance_km speed
       in res_bind (dt_add current_time duration) (\<lambda>next_time.
            res_bind (build_legs ps speed next_time) (\<lambda>(segs, stops).
              Inr (\<lparr>seg_start = a, seg_end = b, seg_distance_km = distance_km,
                    seg_duration = duration\<rparr> # segs,
                   (b, next_time) # stops))))"

definition build_schedule :: "location list \<Rightarrow> pydatetime \<Rightarrow> pyval \<Rightarrow> route_schedule result" where
  "build_schedule locs departure_time speed_kmph =
     (if length locs < 2 then Inl DomainValidationError
      else res_bind (domain_require_positive_int speed_kmph) (\<lambda>speed.
        res_bind (build_legs (py_pairwise locs) speed departure_time) (\<lambda>(segs, stops).
          route_schedule_create departure_time segs ((hd locs, departure_time) # stops))))"


section \<open>Well-formed schedules\<close>

definition schedule_ok :: "route_schedule \<Rightarrow> bool" where
  "schedule_ok s \<longleftrightarrow>
     2 \<le> length (sched_stops s) \<and>
     length (sched_segments s) = length (sched_stops s) - 1 \<and>
     stop_arrival_at (hd (sched_stops s)) = sched_departure_time s \<and>
     distinct (map stop_location (sched_stops s)) \<and>
     (\<forall>i < length (sched_segments s).
        0 < seg_distance_km (sched_segments s ! i) \<and>
        0 < seg_duration (sched_segments s ! i) \<and>
        seg_start (sched_segments s ! i) = stop_location (sched_stops s ! i) \<and>
        seg_end (sched_segments s ! i) = stop_location (sched_stops s ! Suc i) \<and>
        stop_arrival_at (sched_stops s ! i) + seg_duration (sched_segments s ! i)
          = stop_arrival_at (sched_stops s ! Suc i))"

lemma dt_add_Inr_iff:
  "dt_add d us = Inr d' \<longleftrightarrow>
     d' = PyDt (dt_us d + us) (dt_tz d) \<and> 0 \<le> dt_us d + us \<and> dt_us d + us \<le> time_max"
  by (auto simp: dt_add_def Let_def)

lemma naive_simps [simp]: "dt_us (naive t) = t" "dt_tz (naive t) = None" "utcoffset (naive t) = None"
  by (simp_all add: naive_def utcoffset_def)

lemma require_naive_naive [simp]: "require_naive_datetime (PyDatetime (naive t)) = Inr (naive t)"
  by (simp add: require_naive_datetime_def require_datetime_def)

lemma check_segments_Cons_iff:
  "check_segments (g # gs) (s # s' # ss) = Inr () \<longleftrightarrow>
     0 < seg_distance_km g \<and> 0 < seg_duration g \<and>
     seg_start g = stop_location s \<and> seg_end g = stop_location s' \<and>
     stop_arrival_at s + seg_duration g = stop_arrival_at s' \<and>
     0 \<le> stop_arrival_at s' \<and> stop_arrival_at s' \<le> time_max \<and>
     check_segments gs (s' # ss) = Inr ()"
  by (auto simp: res_bind_Inr_iff dt_add_Inr_iff)

lemma check_segments_nth:
  assumes "check_segments gs ss = Inr ()" and "length gs = length ss - 1" and "i < length gs"
  shows "0 < seg_distance_km (gs ! i) \<and> 0 < seg_duration (gs ! i) \<and>
    seg_start (gs ! i) = stop_location (ss ! i) \<and> seg_end (gs ! i) = stop_location (ss ! Suc i) \<and>
    stop_arrival_at (ss ! i) + seg_duration (gs ! i) = stop_arrival_at (ss ! Suc i)"
  using assms
proof (induction gs arbitrary: ss i)
  case (Cons g gs)
  from Cons.prems obtain s s' ss' where ss: "ss = s # s' # ss'"
    by (cases ss rule: remdups_adj.cases) auto
  from Cons.prems(1) have g: "check_segments (g # gs) (s # s' # ss') = Inr ()" by (simp only: ss)
  note g' = this [unfolded check_segments_Cons_iff]
  show ?case
  proof (cases i)
    case 0
    then show ?thesis using g' by (simp add: ss)
  next
    case (Suc j)
    then show ?thesis using Cons.IH [of "s' # ss'" j] g' Cons.prems(2,3) by (simp add: ss)
  qed
qed simp

theorem route_schedule_create_ok:
  assumes "route_schedule_create dep segs raw = Inr s"
  shows "schedule_ok s"
proof -
  let ?stops = "map (\<lambda>st. \<lparr>stop_location = fst st, stop_arrival_at = dt_us (snd st)\<rparr>) raw"
  from assms have s: "s = \<lparr>sched_departure_time = dt_us dep, sched_segments = segs,
      sched_stops = ?stops\<rparr>"
    and len: "2 \<le> length raw" "length segs = length raw - 1"
    and hd: "dt_us (snd (hd raw)) = dt_us dep"
    and dist: "length (remdups (map fst raw)) = length raw"
    and chk: "check_segments segs ?stops = Inr ()"
    by (auto simp: route_schedule_create_def Let_def res_bind_Inr_iff split: if_splits)
  have locs: "map stop_location ?stops = map fst raw" by simp
  have "distinct (map fst raw)"
    using dist by (metis distinct_card length_remdups_card_conv card_distinct length_map)
  moreover have "stop_arrival_at (hd ?stops) = dt_us dep"
    using len hd by (cases raw) auto
  ultimately show ?thesis
    using check_segments_nth [OF chk] len locs by (simp add: schedule_ok_def s o_def)
qed

text \<open>Facts about a well-formed schedule, by stop number.\<close>

lemma schedule_okD:
  assumes "schedule_ok s"
  shows "2 \<le> length (sched_stops s)" "sched_stops s \<noteq> []"
    "Suc (length (sched_segments s)) = length (sched_stops s)"
    "distinct (map stop_location (sched_stops s))"
    "stop_arrival_at (sched_stops s ! 0) = sched_departure_time s"
  using assms by (cases "sched_stops s"; auto simp: schedule_ok_def)+

lemma schedule_segment:
  assumes "schedule_ok s" and "i < length (sched_segments s)"
  shows "seg_start (sched_segments s ! i) = stop_location (sched_stops s ! i)"
    "seg_end (sched_segments s ! i) = stop_location (sched_stops s ! Suc i)"
    "stop_arrival_at (sched_stops s ! Suc i)
       = stop_arrival_at (sched_stops s ! i) + seg_duration (sched_segments s ! i)"
    "0 < seg_duration (sched_segments s ! i)" "0 < seg_distance_km (sched_segments s ! i)"
  using assms by (auto simp: schedule_ok_def)

lemma arrivals_increase:
  assumes "schedule_ok s" and "i < j" and "j < length (sched_stops s)"
  shows "stop_arrival_at (sched_stops s ! i) < stop_arrival_at (sched_stops s ! j)"
  using assms(2,3)
proof (induction j)
  case (Suc j)
  have "j < length (sched_segments s)"
    using Suc.prems schedule_okD(3) [OF assms(1)] by simp
  note step = schedule_segment(3,4) [OF assms(1) this]
  show ?case using Suc step by (cases "i = j") auto
qed simp

lemma arrivals_mono:
  assumes "schedule_ok s" and "i \<le> j" and "j < length (sched_stops s)"
  shows "stop_arrival_at (sched_stops s ! i) \<le> stop_arrival_at (sched_stops s ! j)"
  using arrivals_increase [OF assms(1), of i j] assms(2,3) by (cases "i = j") auto

lemma arrival_times_nth:
  assumes "schedule_ok s" and "i < length (sched_stops s)"
  shows "arrival_times s (stop_location (sched_stops s ! i))
    = Some (stop_arrival_at (sched_stops s ! i))"
  using schedule_okD(4) [OF assms(1)] assms(2)
  by (simp add: arrival_times_def py_dict_distinct o_def)

lemma stop_indices_nth:
  assumes "schedule_ok s" and "i < length (sched_stops s)"
  shows "stop_indices s (stop_location (sched_stops s ! i)) = Some i"
proof -
  have "stop_location (sched_stops s ! i) = map stop_location (sched_stops s) ! i"
    using assms(2) by simp
  then show ?thesis
    using schedule_okD(4) [OF assms(1)] assms(2) unfolding stop_indices_def
    by (simp only: index_dict_nth length_map)
qed

lemma eta_final_nth:
  "schedule_ok s \<Longrightarrow> sched_eta_final s = stop_arrival_at (sched_stops s ! (length (sched_stops s) - 1))"
  by (simp add: sched_eta_final_def last_conv_nth schedule_okD)

lemma arrival_le_eta:
  assumes "schedule_ok s" and "i < length (sched_stops s)"
  shows "stop_arrival_at (sched_stops s ! i) \<le> sched_eta_final s"
  using arrivals_mono [OF assms(1), of i "length (sched_stops s) - 1"] assms
  by (simp add: eta_final_nth)

lemma departure_le_arrival:
  assumes "schedule_ok s" and "i < length (sched_stops s)"
  shows "sched_departure_time s \<le> stop_arrival_at (sched_stops s ! i)"
  using arrivals_mono [OF assms(1), of 0 i] assms schedule_okD(5) [OF assms(1)] by simp

lemma departure_before_eta: "schedule_ok s \<Longrightarrow> sched_departure_time s < sched_eta_final s"
  using arrivals_increase [of s 0 "length (sched_stops s) - 1"] schedule_okD [of s]
  by (simp add: eta_final_nth)

section \<open>What a position means\<close>

text \<open>
  The reference: the stop reached last decides the position.  At the first stop the route counts
  as in transit from its departure on; exactly at a later arrival it is at that stop; after the
  final arrival it has ended.
\<close>

definition last_reached_stop :: "route_schedule \<Rightarrow> time \<Rightarrow> nat" where
  "last_reached_stop s t = length (filter (\<lambda>st. stop_arrival_at st \<le> t) (sched_stops s)) - 1"

definition in_transit_from :: "route_schedule \<Rightarrow> nat \<Rightarrow> route_position" where
  "in_transit_from s i =
     \<lparr>pos_kind = IN_TRANSIT, pos_from_city = Some (stop_location (sched_stops s ! i)),
      pos_to_city = Some (stop_location (sched_stops s ! Suc i)), pos_stop_city = None,
      pos_next_eta = Some (stop_arrival_at (sched_stops s ! Suc i))\<rparr>"

definition at_stop :: "route_schedule \<Rightarrow> nat \<Rightarrow> route_position" where
  "at_stop s i =
     \<lparr>pos_kind = AT_STOP, pos_from_city = None, pos_to_city = None,
      pos_stop_city = Some (stop_location (sched_stops s ! i)),
      pos_next_eta =
        (if Suc i < length (sched_stops s)
         then Some (stop_arrival_at (sched_stops s ! Suc i)) else None)\<rparr>"

definition position_spec :: "route_schedule \<Rightarrow> time \<Rightarrow> route_position" where
  "position_spec s t =
     (if t < sched_departure_time s then
        \<lparr>pos_kind = BEFORE_START, pos_from_city = None, pos_to_city = None,
         pos_stop_city = Some (stop_location (hd (sched_stops s))),
         pos_next_eta = Some (sched_departure_time s)\<rparr>
      else if sched_eta_final s < t then
        \<lparr>pos_kind = AFTER_END, pos_from_city = None, pos_to_city = None,
         pos_stop_city = Some (stop_location (last (sched_stops s))), pos_next_eta = None\<rparr>
      else let i = last_reached_stop s t
           in if i \<noteq> 0 \<and> stop_arrival_at (sched_stops s ! i) = t
              then at_stop s i else in_transit_from s i)"

lemma last_reached_stop_eqI:
  assumes ok: "schedule_ok s" and i: "i < length (sched_stops s)"
    and le: "stop_arrival_at (sched_stops s ! i) \<le> t"
    and lt: "Suc i < length (sched_stops s) \<Longrightarrow> t < stop_arrival_at (sched_stops s ! Suc i)"
  shows "last_reached_stop s t = i"
proof -
  have P: "stop_arrival_at (sched_stops s ! j) \<le> t \<longleftrightarrow> j < Suc i" if "j < length (sched_stops s)" for j
    using that arrivals_increase [OF ok, of j i] arrivals_increase [OF ok, of "Suc i" j] i le lt
    by (cases "j < i"; cases "j = i"; cases "j = Suc i") auto
  have "filter (\<lambda>st. stop_arrival_at st \<le> t) (sched_stops s) = take (Suc i) (sched_stops s)"
  proof -
    have "\<forall>st \<in> set (take (Suc i) (sched_stops s)). stop_arrival_at st \<le> t"
      using i P by (auto simp: in_set_conv_nth)
    moreover have "\<forall>st \<in> set (drop (Suc i) (sched_stops s)). \<not> stop_arrival_at st \<le> t"
      using P by (auto simp: in_set_conv_nth)
    ultimately have "filter (\<lambda>st. stop_arrival_at st \<le> t)
        (take (Suc i) (sched_stops s) @ drop (Suc i) (sched_stops s)) = take (Suc i) (sched_stops s)"
      by (simp only: filter_append filter_True filter_False append_Nil2)
    then show ?thesis by simp
  qed
  then show ?thesis using i by (simp add: last_reached_stop_def)
qed


lemma position_on_segments_spec:
  assumes ok: "schedule_ok s" and k: "k \<le> length (sched_segments s)"
    and t: "stop_arrival_at (sched_stops s ! k) < t \<or>
      k = 0 \<and> stop_arrival_at (sched_stops s ! k) \<le> t"
  shows "position_on_segments s (drop k (sched_segments s)) t (stop_location (sched_stops s ! 0)) =
    Inr (if sched_eta_final s < t then None else Some (position_spec s t))"
  using k t
proof (induction k rule: inc_induct)
  case base
  have "length (sched_stops s) - Suc 0 = length (sched_segments s)" "sched_segments s \<noteq> []"
    using schedule_okD(1,3) [OF ok] by auto
  then show ?case
    using base by (simp add: eta_final_nth [OF ok])
next
  case (step k)
  let ?g = "sched_segments s ! k" and ?arr = "\<lambda>i. stop_arrival_at (sched_stops s ! i)"
  note okD = schedule_okD [OF ok]
  have len: "Suc k < length (sched_stops s)" using step.hyps okD(3) by simp
  note seg = schedule_segment [OF ok step.hyps(2)]
  have arr: "arrival_times s (seg_start ?g) = Some (?arr k)"
      "arrival_times s (seg_end ?g) = Some (?arr (Suc k))"
    using len by (simp_all add: seg arrival_times_nth [OF ok])
  have idx: "stop_indices s (seg_end ?g) = Some (Suc k)"
    using len by (simp add: seg stop_indices_nth [OF ok])
  have lt: "?arr k < ?arr (Suc k)" using seg(3,4) by simp
  have eta: "?arr (Suc k) \<le> sched_eta_final s"
    using len by (rule arrival_le_eta [OF ok])
  have dep: "sched_departure_time s \<le> ?arr k"
    using len by (intro departure_le_arrival [OF ok]) simp
  have drop: "drop k (sched_segments s) = ?g # drop (Suc k) (sched_segments s)"
    using step.hyps(2) by (rule Cons_nth_drop_Suc [symmetric])
  consider (start) "k = 0" "t = ?arr 0" | (inside) "?arr k < t" "t < ?arr (Suc k)"
    | (arrive) "t = ?arr (Suc k)" | (beyond) "?arr (Suc k) < t"
    using step.prems by fastforce
  then show ?case
  proof cases
    case start
    have "last_reached_stop s t = 0"
      using start lt len by (intro last_reached_stop_eqI [OF ok]) auto
    then show ?thesis
      unfolding drop using start lt eta dep seg okD(5) arr
      by (simp add: position_on_segment_def position_spec_def in_transit_from_def)
  next
    case inside
    have "last_reached_stop s t = k"
      using inside len by (intro last_reached_stop_eqI [OF ok]) auto
    then show ?thesis
      using inside lt eta dep seg arr
      by (simp add: drop position_on_segment_def position_spec_def in_transit_from_def)
  next
    case arrive
    have i: "last_reached_stop s t = Suc k"
      using arrive len arrivals_increase [OF ok, of "Suc k" "Suc (Suc k)"]
      by (intro last_reached_stop_eqI [OF ok]) auto
    have "next_stop_eta s (seg_end ?g) = Inr (if Suc (Suc k) < length (sched_stops s)
        then Some (?arr (Suc (Suc k))) else None)"
      using idx by (simp add: next_stop_eta_def arrival_times_nth [OF ok])
    then show ?thesis
      using arrive i lt eta dep seg arr
      by (simp add: drop position_on_segment_def position_spec_def at_stop_def)
  next
    case beyond
    then have "?arr k < t" using lt by simp
    then show ?thesis
      using beyond lt arr step.IH
      by (simp add: drop position_on_segment_def)
  qed
qed

lemma position_at_spec:
  assumes ok: "schedule_ok s"
  shows "position_at s (naive t) = Inr (position_spec s t)"
proof -
  note okD = schedule_okD [OF ok]
  have hd: "hd (sched_stops s) = sched_stops s ! 0" using okD(2) by (rule hd_conv_nth)
  have first: "arrival_times s (stop_location (hd (sched_stops s))) = Some (sched_departure_time s)"
    using okD by (simp add: hd arrival_times_nth [OF ok])
  have last: "arrival_times s (stop_location (last (sched_stops s))) = Some (sched_eta_final s)"
    using okD by (simp add: last_conv_nth arrival_times_nth [OF ok] eta_final_nth [OF ok])
  show ?thesis
  proof (cases "t < sched_departure_time s")
    case True
    then show ?thesis by (simp add: position_at_def first position_spec_def)
  next
    case False
    then have "position_on_segments s (sched_segments s) t (stop_location (hd (sched_stops s))) =
        Inr (if sched_eta_final s < t then None else Some (position_spec s t))"
      using position_on_segments_spec [OF ok, of 0 t] okD(5) by (simp add: hd)
    then show ?thesis
      using False departure_before_eta [OF ok]
      by (simp add: position_at_def first last position_after_segments_def position_spec_def)
  qed
qed


text \<open>The four shapes of a position, by the stop reached last.\<close>

lemma position_spec_cases:
  assumes ok: "schedule_ok s"
  obtains (before) "t < sched_departure_time s" "pos_kind (position_spec s t) = BEFORE_START"
  | (after) "sched_eta_final s < t" "pos_kind (position_spec s t) = AFTER_END"
  | (at) i where "0 < i" "i < length (sched_stops s)" "stop_arrival_at (sched_stops s ! i) = t"
      "position_spec s t = at_stop s i"
  | (transit) i where "Suc i < length (sched_stops s)" "stop_arrival_at (sched_stops s ! i) \<le> t"
      "t < stop_arrival_at (sched_stops s ! Suc i)"
      "i \<noteq> 0 \<longrightarrow> stop_arrival_at (sched_stops s ! i) \<noteq> t"
      "position_spec s t = in_transit_from s i"
proof -
  note okD = schedule_okD [OF ok]
  consider "t < sched_departure_time s" | "sched_eta_final s < t"
    | (mid) "sched_departure_time s \<le> t" "t \<le> sched_eta_final s" by linarith
  then show ?thesis
  proof cases
    case mid
    let ?I = "{j. j < length (sched_stops s) \<and> stop_arrival_at (sched_stops s ! j) \<le> t}"
    define i where "i = Max ?I"
    have fin: "finite ?I" by simp
    have "0 \<in> ?I" using okD mid by auto
    then have "?I \<noteq> {}" by blast
    from Max_in [OF fin this] have i: "i < length (sched_stops s)" "stop_arrival_at (sched_stops s ! i) \<le> t"
      by (simp_all add: i_def)
    have later: "t < stop_arrival_at (sched_stops s ! Suc i)" if "Suc i < length (sched_stops s)"
    proof (rule ccontr)
      assume "\<not> t < stop_arrival_at (sched_stops s ! Suc i)"
      then have "Suc i \<in> ?I" using that by simp
      from Max_ge [OF fin this] show False by (simp add: i_def)
    qed
    have l: "last_reached_stop s t = i"
      by (rule last_reached_stop_eqI [OF ok i]) (rule later)
    have "stop_arrival_at (sched_stops s ! i) = t \<and> 0 < i" if "\<not> Suc i < length (sched_stops s)"
    proof -
      have "i = length (sched_stops s) - 1" using that i by simp
      then show ?thesis using mid i okD(1) eta_final_nth [OF ok] by auto
    qed
    then show ?thesis
      using mid at [of i] transit [of i] i later
      by (cases "0 < i \<and> stop_arrival_at (sched_stops s ! i) = t")
        (auto simp: position_spec_def l Let_def)
  qed (use departure_before_eta [OF ok] before after in \<open>auto simp: position_spec_def\<close>)
qed


section \<open>Durations are correctly rounded\<close>

text \<open>
  At the program's speed the double rounding of the floating-point computation never shows: the
  exact quotient of microseconds is a fraction with denominator 29, at least 1/58 away from every
  tie, and the accumulated error is below 1/256 of a microsecond.
\<close>

lemma f64_div_int_error:
  assumes "0 \<le> d" and "d \<le> 712704"
  shows "2 * \<bar>f64_div_int d 87 * 87 - d * f64_unit\<bar> \<le> 87 * 2 ^ 1035"
  unfolding f64_div_int_def
proof (rule f64_round_abs_error)
  have u: "f64_unit = 2 ^ 1074" by (simp only: f64_unit_def)
  show "0 \<le> d * f64_unit" using assms by (simp add: u)
  have "d * f64_unit \<le> (87 * 2 ^ 13) * f64_unit"
    using assms(2) by (intro mult_right_mono) (simp_all add: u)
  also have "\<dots> = 2 ^ (52 + 1035) * 87"
    by (simp only: u power_add [symmetric] mult.commute mult.left_commute) (simp only: arith_simps)
  finally show "d * f64_unit \<le> 2 ^ (52 + 1035) * 87" .
qed simp_all


lemma abs_double_le: "2 * \<bar>a\<bar> \<le> b \<longleftrightarrow> 2 * a \<le> b \<and> - (2 * a) \<le> (b::int)"
  by arith

lemma abs_double_less: "2 * \<bar>a\<bar> < b \<longleftrightarrow> 2 * a < b \<and> - (2 * a) < (b::int)"
  by arith

lemma timedelta_hours_error:
  assumes "0 \<le> h"
  obtains total where "timedelta_hours h = rne total f64_unit"
    and "2 * \<bar>total - us_per_hour * h\<bar> \<le> 2 ^ 1054"
proof -
  let ?f = "h mod f64_unit" and ?m = "f64_mul (us_per_hour * f64_unit) (h mod f64_unit)"
  let ?t = "h div f64_unit * us_per_hour * f64_unit + ?m"
  have u: "f64_unit = 2 ^ 1074" by (simp only: f64_unit_def)
  then have pos: "0 < f64_unit" by simp
  have f: "0 \<le> ?f" "?f \<le> f64_unit" using pos pos_mod_bound [OF pos, of h] by (simp_all add: less_imp_le)
  have "2 * \<bar>?m * f64_unit - us_per_hour * f64_unit * ?f\<bar> \<le> f64_unit * 2 ^ 1054"
    unfolding f64_mul_def
  proof (rule f64_round_abs_error [OF pos])
    show "0 \<le> us_per_hour * f64_unit * ?f" using pos f by (simp add: us_per_hour_def)
    have "us_per_hour * f64_unit * ?f \<le> (2 ^ 32 * f64_unit) * f64_unit"
      using pos f by (intro mult_mono) (simp_all add: us_per_hour_def)
    also have "\<dots> = 2 ^ (52 + 1054) * f64_unit"
      by (simp only: u power_add [symmetric] arith_simps)
    finally show "us_per_hour * f64_unit * ?f \<le> 2 ^ (52 + 1054) * f64_unit" .
  qed simp
  moreover have "?m * f64_unit - us_per_hour * f64_unit * ?f = (?m - us_per_hour * ?f) * f64_unit"
    by (simp add: algebra_simps)
  then have "2 * \<bar>?m * f64_unit - us_per_hour * f64_unit * ?f\<bar>
      = (2 * \<bar>?m - us_per_hour * ?f\<bar>) * f64_unit"
    using pos by (simp add: abs_mult)
  ultimately have "(2 * \<bar>?m - us_per_hour * ?f\<bar>) * f64_unit \<le> 2 ^ 1054 * f64_unit"
    by (simp only: mult.commute)
  then have "2 * \<bar>?m - us_per_hour * ?f\<bar> \<le> 2 ^ 1054"
    using pos by (simp only: mult_le_cancel_right_pos)
  moreover have "us_per_hour * h = h div f64_unit * us_per_hour * f64_unit + us_per_hour * ?f"
    by (metis (no_types, lifting) div_mult_mod_eq distrib_left mult.commute mult.left_commute)
  ultimately have "2 * \<bar>?t - us_per_hour * h\<bar> \<le> 2 ^ 1054" by simp
  then show ?thesis using that [of ?t] by (simp add: timedelta_hours_def)
qed

lemma exact_quotient_margin: "\<bar>d * us_per_hour - rne (d * us_per_hour) 87 * 87\<bar> \<le> 42"
proof -
  define k where "k = 1200000000 * d - 29 * rne (d * us_per_hour) 87"
  have k: "d * us_per_hour - rne (d * us_per_hour) 87 * 87 = 3 * k"
    by (simp add: k_def us_per_hour_def)
  have "2 * \<bar>rne (d * us_per_hour) 87 * 87 - d * us_per_hour\<bar> \<le> 87"
    by (rule rne_bound) simp
  then have "2 * \<bar>3 * k\<bar> \<le> 87" by (simp only: k [symmetric] abs_minus_commute)
  then have "\<bar>3 * k\<bar> \<le> 42" by arith
  then show ?thesis by (simp only: k)
qed

text \<open>The errors of the two roundings together stay below half a microsecond.\<close>

lemma leg_error_half:
  fixes t h x y w :: int
  assumes "2 * t - 2*(3600000000 * h) \<le> 524288 * w"
    and "3600000000 * x - 87 * y \<le> 42 * w"
    and "2*(h * 87) - 2*(549755813888 * x) \<le> 87 * w"
    and "0 < w"
  shows "2 * t - 2*(549755813888 * y) < 549755813888 * w"
proof -
  have "87 * (2 * t - 2*(3600000000 * h)) \<le> 87 * (524288 * w)" using assms(1) by simp
  moreover have "3600000000 * (2*(h * 87) - 2*(549755813888 * x)) \<le> 3600000000*(87 * w)" using assms(3) by simp
  moreover have "(2*549755813888) * (3600000000 * x - 87 * y) \<le> (2*549755813888) * (42 * w)" using assms(2) by simp
  ultimately have "87 * (2 * t - 2*(549755813888 * y)) \<le> 87 * (524288 * w) + 3600000000*(87 * w) + (2*549755813888) * (42 * w)"
    by (simp add: algebra_simps)
  also have "\<dots> < 87 * (549755813888 * w)" using assms(4) by simp
  finally show ?thesis by simp
qed
lemma leg_error_budget:
  fixes t h x y w :: int
  assumes "2 * \<bar>t - 3600000000 * h\<bar> \<le> 524288 * w"
    and "\<bar>3600000000 * x - 87 * y\<bar> \<le> 42 * w"
    and "2 * \<bar>h * 87 - 549755813888 * x\<bar> \<le> 87 * w"
    and "0 < w"
  shows "2 * \<bar>t - 549755813888 * y\<bar> < 549755813888 * w"
proof -
  have "2 * t - 2*(549755813888 * y) < 549755813888 * w"
  proof (rule leg_error_half [where h = h and x = x])
    show "2 * t - 2*(3600000000 * h) \<le> 524288 * w" using assms(1) abs_ge_self[of "t - 3600000000 * h"] by simp
    show "3600000000 * x - 87 * y \<le> 42 * w" using assms(2) abs_ge_self[of "3600000000 * x - 87 * y"] by simp
    show "2*(h * 87) - 2*(549755813888 * x) \<le> 87 * w" using assms(3) abs_ge_self[of "h * 87 - 549755813888 * x"] by simp
  qed fact
  moreover have "2 * (-t) - 2*(549755813888 * (-y)) < 549755813888 * w"
  proof (rule leg_error_half [where h = "-h" and x = "-x"])
    show "2 * (-t) - 2*(3600000000 * (-h)) \<le> 524288 * w" using assms(1) abs_ge_minus_self[of "t - 3600000000 * h"] by simp
    show "3600000000 * (-x) - 87 * (-y) \<le> 42 * w" using assms(2) abs_ge_minus_self[of "3600000000 * x - 87 * y"] by simp
    show "2*((-h) * 87) - 2*(549755813888 * (-x)) \<le> 87 * w" using assms(3) abs_ge_minus_self[of "h * 87 - 549755813888 * x"] by simp
  qed fact
  ultimately show ?thesis by (cases "0 \<le> t - 549755813888 * y") simp_all
qed
theorem leg_duration_exact:
  assumes "0 \<le> d" and "d \<le> 712704"
  shows "leg_duration d 87 = rne (d * us_per_hour) 87"
proof -
  define w :: int where "w = 2 ^ 1035"
  let ?h = "f64_div_int d 87" and ?n = "rne (d * us_per_hour) 87"
  have pw: "2 ^ 1054 = 524288 * w" and pu: "f64_unit = 549755813888 * w"
    unfolding w_def f64_unit_def by simp_all
  have w: "0 < w" by (simp add: w_def)
  have h: "2 * \<bar>?h * 87 - d * f64_unit\<bar> \<le> 87 * w"
    using f64_div_int_error [OF assms] by (simp only: w_def)
  have "0 \<le> ?h"
    unfolding f64_div_int_def using assms w by (intro f64_round_nonneg) (simp_all add: pu)
  then obtain t where t: "leg_duration d 87 = rne t f64_unit"
      "2 * \<bar>t - us_per_hour * ?h\<bar> \<le> 524288 * w"
    unfolding leg_duration_def using timedelta_hours_error pw by metis
  have "\<bar>(d * us_per_hour - ?n * 87) * w\<bar> \<le> 42 * w"
    using exact_quotient_margin [of d] w by (simp add: abs_mult)
  then have e: "\<bar>us_per_hour * (d * w) - 87 * (?n * w)\<bar> \<le> 42 * w"
    by (simp add: algebra_simps)
  from h have h': "2 * \<bar>?h * 87 - 549755813888 * (d * w)\<bar> \<le> 87 * w"
    by (simp add: pu mult.left_commute)
  have "2 * \<bar>t - 549755813888 * (?n * w)\<bar> < 549755813888 * w"
    using leg_error_budget [OF t(2) [unfolded us_per_hour_def] e [unfolded us_per_hour_def] h' w]
    by (simp only: us_per_hour_def)
  then have "rne t f64_unit = ?n"
    using w by (intro rne_unique) (simp_all add: pu mult.left_commute)
  then show ?thesis using t(1) by simp
qed

section \<open>What the scheduler builds\<close>

text \<open>The distance and the travel time of a leg between two supported cities.\<close>

definition leg_km :: "location \<Rightarrow> location \<Rightarrow> int" where
  "leg_km a b = (case get_distance (PyStr a) (PyStr b) of Inl _ \<Rightarrow> 0 | Inr d \<Rightarrow> d)"

definition travel_time :: "location list \<Rightarrow> int" where
  "travel_time ls = (\<Sum>(a, b) \<leftarrow> py_pairwise ls. leg_duration (leg_km a b) DEFAULT_SPEED_KMPH)"

lemma travel_time_simps [simp]:
  "travel_time [a] = 0"
  "travel_time (a # b # ls) = leg_duration (leg_km a b) DEFAULT_SPEED_KMPH + travel_time (b # ls)"
  by (simp_all add: travel_time_def)

lemma rne_mono_87:
  assumes "a \<le> b"
  shows "rne a 87 \<le> rne b 87"
  using assms by (intro rne_mono) simp_all

lemma leg_duration_bounds:
  assumes "1 \<le> d" and "d \<le> 4311"
  shows "0 < leg_duration d DEFAULT_SPEED_KMPH" "leg_duration d DEFAULT_SPEED_KMPH \<le> 178386206897"
proof -
  have *: "leg_duration d DEFAULT_SPEED_KMPH = rne (d * us_per_hour) 87"
    unfolding DEFAULT_SPEED_KMPH_def using assms by (intro leg_duration_exact) simp_all
  have "rne (1 * us_per_hour) 87 \<le> rne (d * us_per_hour) 87"
    using assms by (intro rne_mono_87) (simp_all add: us_per_hour_def)
  moreover have "rne (d * us_per_hour) 87 \<le> rne (4311 * us_per_hour) 87"
    using assms by (intro rne_mono_87) (simp_all add: us_per_hour_def)
  moreover have "0 < rne (1 * us_per_hour) 87" "rne (4311 * us_per_hour) 87 = 178386206897"
    by (simp_all add: rne_def us_per_hour_def)
  ultimately show "0 < leg_duration d DEFAULT_SPEED_KMPH"
    "leg_duration d DEFAULT_SPEED_KMPH \<le> 178386206897"
    unfolding * by simp_all
qed

lemma leg_supported:
  assumes "a \<in> set locations" and "b \<in> set locations" and "a \<noteq> b"
  shows "get_distance (PyStr a) (PyStr b) = Inr (leg_km a b)" "0 < leg_km a b"
    "0 < leg_duration (leg_km a b) DEFAULT_SPEED_KMPH"
    "leg_duration (leg_km a b) DEFAULT_SPEED_KMPH \<le> 178386206897"
proof -
  obtain d where d: "get_distance (PyStr a) (PyStr b) = Inr d" "0 < d" "d \<le> 4311"
    using get_distance_pos [OF assms] .
  then have "leg_km a b = d" by (simp add: leg_km_def)
  with d leg_duration_bounds [of d]
  show "get_distance (PyStr a) (PyStr b) = Inr (leg_km a b)" "0 < leg_km a b"
    "0 < leg_duration (leg_km a b) DEFAULT_SPEED_KMPH"
    "leg_duration (leg_km a b) DEFAULT_SPEED_KMPH \<le> 178386206897" by auto
qed

lemma travel_time_nonneg:
  "set ls \<subseteq> set locations \<Longrightarrow> distinct ls \<Longrightarrow> 0 \<le> travel_time ls"
proof (induction ls rule: py_pairwise.induct)
  case (1 a b ls)
  then show ?case using leg_supported(3) [of a b] by fastforce
qed (simp_all add: travel_time_def)

lemma travel_time_le:
  "set ls \<subseteq> set locations \<Longrightarrow> distinct ls \<Longrightarrow>
     travel_time ls \<le> 178386206897 * int (length ls - 1)"
proof (induction ls rule: py_pairwise.induct)
  case (1 a b ls)
  then show ?case using leg_supported(4) [of a b] by fastforce
qed (simp_all add: travel_time_def)

text \<open>Seven cities: at most six legs, less than thirteen days of driving.\<close>

lemma path_travel_time:
  assumes "path_ok p"
  shows "0 \<le> travel_time p" "travel_time p \<le> 1070317241382"
proof -
  show "0 \<le> travel_time p" using assms by (simp add: path_ok_def travel_time_nonneg)
  have "length p = card (set p)" using assms by (simp add: path_ok_def distinct_card)
  also have "\<dots> \<le> card (set locations)" using assms by (simp add: path_ok_def card_mono)
  also have "\<dots> \<le> 7" using card_length [of locations] by (simp add: locations_def)
  finally have "length p - 1 \<le> 6" by simp
  then show "travel_time p \<le> 1070317241382"
    using assms travel_time_le [of p] by (simp add: path_ok_def)
qed

definition stop_of :: "location \<times> pydatetime \<Rightarrow> scheduled_stop" where
  "stop_of st = \<lparr>stop_location = fst st, stop_arrival_at = dt_us (snd st)\<rparr>"

lemma stop_of_simps [simp]:
  "stop_location (stop_of st) = fst st" "stop_arrival_at (stop_of st) = dt_us (snd st)"
  by (simp_all add: stop_of_def)

lemma dt_add_naive:
  "dt_add (naive t) us = (if t + us < 0 \<or> time_max < t + us then Inl PyOverflowError
                          else Inr (naive (t + us)))"
  by (simp add: dt_add_def Let_def naive_def)

definition legs_built :: "location list \<Rightarrow> time \<Rightarrow> route_segment list \<Rightarrow> (location \<times> pydatetime) list \<Rightarrow> bool" where
  "legs_built ls t segs stops \<longleftrightarrow>
     build_legs (py_pairwise ls) DEFAULT_SPEED_KMPH (naive t) = Inr (segs, stops) \<and>
     map fst stops = tl ls \<and> length segs = length stops \<and>
     list_all (\<lambda>st. \<exists>u. snd st = naive u) stops \<and>
     check_segments segs (stop_of (hd ls, naive t) # map stop_of stops) = Inr () \<and>
     dt_us (snd (last ((hd ls, naive t) # stops))) = t + travel_time ls"

lemma build_legs_ok:
  assumes "ls \<noteq> []" and "set ls \<subseteq> set locations" and "distinct ls"
    and "0 \<le> t" and "t + travel_time ls \<le> time_max"
  shows "\<exists>segs stops. legs_built ls t segs stops"
  using assms
proof (induction ls arbitrary: t rule: py_pairwise.induct)
  case (1 a b ls)
  note prems = "1.prems"
  from prems have ab: "a \<in> set locations" "b \<in> set locations" "a \<noteq> b" by auto
  let ?d = "leg_duration (leg_km a b) DEFAULT_SPEED_KMPH"
  note leg = leg_supported [OF ab]
  have tt: "0 \<le> travel_time (b # ls)" using prems by (intro travel_time_nonneg) auto
  have "\<exists>segs stops. legs_built (b # ls) (t + ?d) segs stops"
    by (rule "1.IH") (use prems leg in auto)
  then obtain segs stops where IH: "legs_built (b # ls) (t + ?d) segs stops" by blast
  note IH' = IH [unfolded legs_built_def]
  have add: "dt_add (naive t) ?d = Inr (naive (t + ?d))"
    using leg tt prems by (simp add: dt_add_naive)
  let ?g = "\<lparr>seg_start = a, seg_end = b, seg_distance_km = leg_km a b, seg_duration = ?d\<rparr>"
  have "build_legs (py_pairwise (a # b # ls)) DEFAULT_SPEED_KMPH (naive t)
      = Inr (?g # segs, (b, naive (t + ?d)) # stops)"
    using IH' add leg(1) by (simp add: Let_def)
  moreover have "check_segments (?g # segs)
      (stop_of (hd (a # b # ls), naive t) # map stop_of ((b, naive (t + ?d)) # stops)) = Inr ()"
    using IH' leg tt prems unfolding list.map check_segments_Cons_iff by (simp add: stop_of_def)
  moreover have "dt_us (snd (last ((hd (a # b # ls), naive t) # (b, naive (t + ?d)) # stops)))
      = t + travel_time (a # b # ls)"
    using IH' by simp
  ultimately have "legs_built (a # b # ls) t (?g # segs) ((b, naive (t + ?d)) # stops)"
    using IH' unfolding legs_built_def by auto
  then show ?case by blast
qed (auto intro!: exI [of _ "[]"] simp: legs_built_def)

lemma build_legs_overflow:
  assumes "set ls \<subseteq> set locations" and "distinct ls"
    and "0 \<le> t" and "time_max < t + travel_time ls" and "t \<le> time_max"
  shows "build_legs (py_pairwise ls) DEFAULT_SPEED_KMPH (naive t) = Inl PyOverflowError"
  using assms
proof (induction ls arbitrary: t rule: py_pairwise.induct)
  case (1 a b ls)
  from 1 have ab: "a \<in> set locations" "b \<in> set locations" "a \<noteq> b" by auto
  note leg = leg_supported [OF ab]
  let ?d = "leg_duration (leg_km a b) DEFAULT_SPEED_KMPH"
  show ?case
  proof (cases "time_max < t + ?d")
    case True
    then show ?thesis using leg 1 by (simp add: Let_def dt_add_naive)
  next
    case False
    then have "build_legs (py_pairwise (b # ls)) DEFAULT_SPEED_KMPH (naive (t + ?d)) = Inl PyOverflowError"
      using 1 leg by (intro "1.IH") auto
    then show ?thesis using leg False 1 by (simp add: Let_def dt_add_naive)
  qed
qed (simp_all add: travel_time_def)

lemma hd_Cons_tl_eq: "xs \<noteq> [] \<Longrightarrow> ys = tl xs \<Longrightarrow> hd xs # ys = xs"
  by simp

theorem build_schedule_ok:
  assumes p: "path_ok p" and t: "0 \<le> t" "t + travel_time p \<le> time_max"
  obtains s where "build_schedule p (naive t) (PyInt DEFAULT_SPEED_KMPH) = Inr s"
    "schedule_ok s" "map stop_location (sched_stops s) = p"
    "sched_departure_time s = t" "sched_eta_final s = t + travel_time p"
proof -
  note pd = path_okD [OF p]
  obtain segs stops where l:
    "build_legs (py_pairwise p) DEFAULT_SPEED_KMPH (naive t) = Inr (segs, stops)"
    "map fst stops = tl p" "length segs = length stops"
    "list_all (\<lambda>st. \<exists>u. snd st = naive u) stops"
    "check_segments segs (stop_of (hd p, naive t) # map stop_of stops) = Inr ()"
    "dt_us (snd (last ((hd p, naive t) # stops))) = t + travel_time p"
    using build_legs_ok [OF pd(4,3,2) t] unfolding legs_built_def by metis
  have fst_all: "hd p # map fst stops = p" using l(2) pd(4) by simp
  have len: "length stops = length p - 1" using l(2) by (metis length_map length_tl)
  have nv: "list_all (\<lambda>st. is_ok (require_naive_datetime (PyDatetime (snd st)))) stops"
    using l(4) by (auto simp: list_all_iff)
  let ?s = "\<lparr>sched_departure_time = t, sched_segments = segs,
    sched_stops = stop_of (hd p, naive t) # map stop_of stops\<rparr>"
  have "length (remdups (hd p # map fst stops)) = Suc (length stops)"
    using fst_all pd(2) len by (metis distinct_remdups_id length_Cons length_map)
  then have "route_schedule_create (naive t) segs ((hd p, naive t) # stops) = Inr ?s"
    using l(3,5) nv len pd(1)
    by (simp add: route_schedule_create_def stop_of_def [symmetric] del: remdups.simps)
  then have b: "build_schedule p (naive t) (PyInt DEFAULT_SPEED_KMPH) = Inr ?s"
    using l(1) pd(1) by (simp add: build_schedule_def domain_require_positive_int_def
        validation_defs DEFAULT_SPEED_KMPH_def)
  have "schedule_ok ?s"
    using b by (auto simp: build_schedule_def res_bind_Inr_iff split: if_splits
        dest!: route_schedule_create_ok)
  moreover have "map stop_location (sched_stops ?s) = p"
    using fst_all by (simp add: o_def)
  moreover have "sched_eta_final ?s = t + travel_time p"
    using l(6) by (cases stops rule: rev_cases) (simp_all add: sched_eta_final_def)
  ultimately show ?thesis using that b by simp
qed

text \<open>The exact boundary: the scheduler fails only when the last arrival is after year 9999.\<close>

theorem build_schedule_overflow:
  assumes "path_ok p" and "0 \<le> t" and "t \<le> time_max" and "time_max < t + travel_time p"
  shows "build_schedule p (naive t) (PyInt DEFAULT_SPEED_KMPH) = Inl PyOverflowError"
  using build_legs_overflow [of p t] assms path_okD [OF assms(1)]
  by (simp add: build_schedule_def domain_require_positive_int_def validation_defs
      DEFAULT_SPEED_KMPH_def)

text \<open>
  A schedule that was built is well formed, runs over the given locations from the given
  departure, and is built again from its own departure time.
\<close>

lemma build_legs_naive:
  "build_legs ps v d = Inr (segs, stops) \<Longrightarrow>
     build_legs ps v (naive (dt_us d)) = Inr (segs, map (\<lambda>st. (fst st, naive (dt_us (snd st)))) stops)"
proof (induction ps v d arbitrary: segs stops rule: build_legs.induct)
  case (2 a b ps v d)
  from "2.prems" obtain km d' gs ss where *:
    "get_distance (PyStr a) (PyStr b) = Inr km" "dt_add d (leg_duration km v) = Inr d'"
    "build_legs ps v d' = Inr (gs, ss)" "segs = \<lparr>seg_start = a, seg_end = b, seg_distance_km = km,
       seg_duration = leg_duration km v\<rparr> # gs" "stops = (b, d') # ss"
    by (auto simp: Let_def res_bind_Inr_iff)
  then have "dt_add (naive (dt_us d)) (leg_duration km v) = Inr (naive (dt_us d'))"
    by (auto simp: dt_add_Inr_iff naive_def)
  then show ?case using * "2.IH" [OF refl *(3)] by (simp add: Let_def)
qed simp

lemma build_legs_stops:
  "build_legs (py_pairwise ls) v d = Inr (segs, stops) \<Longrightarrow> map fst stops = tl ls"
  by (induction ls arbitrary: d segs stops rule: py_pairwise.induct)
    (auto simp: Let_def res_bind_Inr_iff)

theorem build_schedule_Inr:
  assumes "build_schedule ls d v = Inr s"
  shows "schedule_ok s" "map stop_location (sched_stops s) = ls" "sched_departure_time s = dt_us d"
    "build_schedule ls (naive (sched_departure_time s)) v = Inr s"
proof -
  from assms obtain n segs stops where *: "2 \<le> length ls" "domain_require_positive_int v = Inr n"
    "build_legs (py_pairwise ls) n d = Inr (segs, stops)"
    "route_schedule_create d segs ((hd ls, d) # stops) = Inr s"
    by (auto simp: build_schedule_def res_bind_Inr_iff split: if_splits)
  show "schedule_ok s" by (rule route_schedule_create_ok [OF *(4)])
  have ls: "hd ls # map fst stops = ls" using build_legs_stops [OF *(3)] *(1) by (cases ls) auto
  have s: "sched_departure_time s = dt_us d" "sched_stops s = map stop_of ((hd ls, d) # stops)"
    using *(4) by (auto simp: route_schedule_create_def Let_def res_bind_Inr_iff stop_of_def
        split: if_splits)
  show "sched_departure_time s = dt_us d" by (rule s)
  show "map stop_location (sched_stops s) = ls" using s(2) ls by (simp add: o_def)
  have "route_schedule_create (naive (dt_us d)) segs
      ((hd ls, naive (dt_us d)) # map (\<lambda>st. (fst st, naive (dt_us (snd st)))) stops) = Inr s"
    using *(4) by (auto simp: route_schedule_create_def Let_def res_bind_Inr_iff list_all_iff o_def
        split: if_splits)
  then show "build_schedule ls (naive (sched_departure_time s)) v = Inr s"
    using *(1,2) build_legs_naive [OF *(3)] by (simp add: build_schedule_def s(1))
qed

end
