(* ===== verification/Load.thy ===== *)
theory Load
  imports Geography
begin

text \<open>
  Cargo loads along a route: \<open>src/domain/value_objects/package_load.py\<close> and
  \<open>src/domain/services/route_load_calculator.py\<close>.  The calculator adds every package onto a
  mutable list of segment loads; the reference definition reads off each segment the packages
  that travel over it.
\<close>

record package_load =
  load_start :: location
  load_end :: location
  load_weight :: f64

text \<open>\<open>for segment_index in range(start, end): segment_loads[segment_index] += weight\<close>\<close>

definition add_on_segments :: "nat \<Rightarrow> nat \<Rightarrow> f64 \<Rightarrow> f64 list \<Rightarrow> f64 list" where
  "add_on_segments i j w loads = fold (\<lambda>k ls. ls[k := f64_add (ls ! k) w]) [i..<j] loads"

definition add_package_load :: "(location \<rightharpoonup> nat) \<Rightarrow> package_load \<Rightarrow> f64 list \<Rightarrow> f64 list" where
  "add_package_load indices p loads =
     (case (indices (load_start p), indices (load_end p)) of
        (Some i, Some j) \<Rightarrow> if j \<le> i then loads else add_on_segments i j (load_weight p) loads
      | _ \<Rightarrow> loads)"

definition py_max :: "f64 list \<Rightarrow> f64" where
  "py_max xs = (case xs of [] \<Rightarrow> 0 | y # ys \<Rightarrow> fold max ys y)"

definition maximum_segment_load :: "location list \<Rightarrow> package_load list \<Rightarrow> package_load option \<Rightarrow> f64" where
  "maximum_segment_load locs packages extra_package =
     (let indices = index_dict locs;
          segment_loads = replicate (length locs - 1) 0;
          candidates = (case extra_package of None \<Rightarrow> packages | Some p \<Rightarrow> packages @ [p])
      in py_max (fold (add_package_load indices) candidates segment_loads))"

section \<open>The reference definition\<close>

text \<open>Package \<open>p\<close> is on board while the truck drives segment \<open>k\<close>.\<close>

definition on_board :: "location list \<Rightarrow> package_load \<Rightarrow> nat \<Rightarrow> bool" where
  "on_board locs p k \<longleftrightarrow>
     (case (index_dict locs (load_start p), index_dict locs (load_end p)) of
        (Some i, Some j) \<Rightarrow> i \<le> k \<and> k < j
      | _ \<Rightarrow> False)"

definition segment_load :: "location list \<Rightarrow> package_load list \<Rightarrow> nat \<Rightarrow> f64" where
  "segment_load locs ps k =
     foldl f64_add 0 (map load_weight (filter (\<lambda>p. on_board locs p k) ps))"

lemma length_add_on_segments [simp]: "length (add_on_segments i j w ls) = length ls"
proof -
  have "length (fold (\<lambda>k ls. ls[k := f64_add (ls ! k) w]) ks ls) = length ls" for ks
    by (induction ks arbitrary: ls) simp_all
  then show ?thesis by (simp add: add_on_segments_def)
qed

lemma nth_fold_update:
  "distinct ks \<Longrightarrow> n < length ls \<Longrightarrow>
     fold (\<lambda>k ls. ls[k := g (ls ! k)]) ks ls ! n = (if n \<in> set ks then g (ls ! n) else ls ! n)"
proof (induction ks arbitrary: ls)
  case (Cons a ks)
  then show ?case by (cases "n = a") auto
qed simp

lemma nth_add_on_segments:
  "n < length ls \<Longrightarrow>
     add_on_segments i j w ls ! n = (if i \<le> n \<and> n < j then f64_add (ls ! n) w else ls ! n)"
  unfolding add_on_segments_def by (subst nth_fold_update) auto

lemma length_add_package_load [simp]: "length (add_package_load idx p ls) = length ls"
  by (auto simp: add_package_load_def split: option.splits)

lemma nth_add_package_load:
  "n < length ls \<Longrightarrow>
     add_package_load (index_dict locs) p ls ! n =
       (if on_board locs p n then f64_add (ls ! n) (load_weight p) else ls ! n)"
  by (auto simp: add_package_load_def on_board_def nth_add_on_segments simp del: index_dict_None_iff
      split: option.split)

lemma fold_package_loads:
  "n < length ls \<Longrightarrow>
     fold (add_package_load (index_dict locs)) ps ls ! n
       = foldl f64_add (ls ! n) (map load_weight (filter (\<lambda>p. on_board locs p n) ps))"
  by (induction ps arbitrary: ls) (simp_all add: nth_add_package_load)

lemma length_fold_package_loads [simp]:
  "length (fold (add_package_load idx) ps ls) = length ls"
  by (induction ps arbitrary: ls) simp_all

lemma segment_loads_eq:
  "fold (add_package_load (index_dict locs)) ps (replicate (length locs - 1) 0)
     = map (segment_load locs ps) [0..<length locs - 1]"
  by (rule nth_equalityI) (simp_all add: fold_package_loads segment_load_def)

lemma py_max_Max: "xs \<noteq> [] \<Longrightarrow> py_max xs = Max (set xs)"
  using Max.set_eq_fold [symmetric] by (cases xs) (force simp: py_max_def)+

lemma py_max_ge: "x \<in> set xs \<Longrightarrow> x \<le> py_max xs"
  by (cases "xs = []") (simp_all add: py_max_Max)

lemma py_max_le_iff: "0 \<le> b \<Longrightarrow> py_max xs \<le> b \<longleftrightarrow> (\<forall>x \<in> set xs. x \<le> b)"
  by (cases "xs = []") (simp add: py_max_def, simp add: py_max_Max)

lemma py_max_mono: "list_all2 (\<le>) xs ys \<Longrightarrow> py_max xs \<le> py_max ys"
proof (cases "xs = []")
  case False
  assume a: "list_all2 (\<le>) xs ys"
  from False have "py_max xs \<in> set xs" by (simp add: py_max_Max)
  then obtain i where i: "i < length xs" "py_max xs = xs ! i" by (metis in_set_conv_nth)
  from a i have "xs ! i \<le> ys ! i" "i < length ys" by (auto simp: list_all2_conv_all_nth)
  then show ?thesis using py_max_ge [of "ys ! i" ys] i by simp
qed simp

theorem maximum_segment_load_eq:
  "maximum_segment_load locs ps extra =
     py_max (map (segment_load locs (ps @ (case extra of None \<Rightarrow> [] | Some p \<Rightarrow> [p])))
       [0..<length locs - 1])"
  unfolding maximum_segment_load_def Let_def
  by (cases extra) (simp_all only: segment_loads_eq option.case append_Nil2)

section \<open>Bounds\<close>

definition load_ok :: "package_load \<Rightarrow> bool" where
  "load_ok p \<longleftrightarrow> f64_ok (load_weight p)"

lemma foldl_f64_add_ok: "f64_ok a \<Longrightarrow> list_all f64_ok ws \<Longrightarrow> f64_ok (foldl f64_add a ws)"
  by (induction ws arbitrary: a) (auto intro: f64_add_ok dest: f64_okD(1))

lemma segment_load_ok: "list_all load_ok ps \<Longrightarrow> f64_ok (segment_load locs ps k)"
  unfolding segment_load_def by (rule foldl_f64_add_ok) (auto simp: list_all_iff load_ok_def)

lemma segment_load_snoc:
  assumes "list_all load_ok ps" and "load_ok p"
  shows "segment_load locs ps k \<le> segment_load locs (ps @ [p]) k"
  using f64_add_increasing [OF segment_load_ok [OF assms(1)], of "load_weight p" locs k]
    f64_okD(1) assms(2)
  by (simp add: segment_load_def load_ok_def)

lemma maximum_segment_load_extra:
  assumes "list_all load_ok ps" and "load_ok p"
  shows "maximum_segment_load locs ps None \<le> maximum_segment_load locs ps (Some p)"
  unfolding maximum_segment_load_eq
  by (rule py_max_mono) (simp add: list_all2_conv_all_nth segment_load_snoc assms)

lemma maximum_segment_load_None: "maximum_segment_load locs (ps @ [p]) None = maximum_segment_load locs ps (Some p)"
  by (simp add: maximum_segment_load_eq)

text \<open>A bound on the reported maximum bounds what is on board of every segment.\<close>

lemma maximum_segment_load_le_iff:
  assumes "0 \<le> b"
  shows "maximum_segment_load locs ps None \<le> b \<longleftrightarrow>
    (\<forall>k < length locs - 1. segment_load locs ps k \<le> b)"
  using assms by (auto simp: maximum_segment_load_eq py_max_le_iff)

end
