(* ===== verification/Contacts.thy ===== *)
theory Contacts
  imports Validation
begin

text \<open>
  Validated contact details: \<open>src/domain/value_objects/contact_info.py\<close>.
\<close>

text \<open>\<open>bool(value)\<close>; objects without a truth value of their own are true.\<close>

definition truthy :: "pyval \<Rightarrow> bool" where
  "truthy v =
     (case v of
        PyNone \<Rightarrow> False
      | PyBool b \<Rightarrow> b
      | PyInt n \<Rightarrow> n \<noteq> 0
      | PyFloat f \<Rightarrow> f \<noteq> FFin 0
      | PyStr s \<Rightarrow> s \<noteq> []
      | PyList xs \<Rightarrow> xs \<noteq> []
      | PyDecimal d \<Rightarrow> (case d of DFin c _ \<Rightarrow> c \<noteq> 0 | _ \<Rightarrow> True)
      | _ \<Rightarrow> True)"

record contact_info =
  ci_name :: string
  ci_email :: string
  ci_phone :: string

definition clean_name :: "pyval \<Rightarrow> string result" where
  "clean_name v =
     (case v of
        PyStr s \<Rightarrow>
          (let n = strip s
           in if length n < 3 then Inl DomainValidationError
              else if 30 < length n then Inl DomainValidationError
              else Inr n)
      | _ \<Rightarrow> Inl DomainValidationError)"

text \<open>The two character classes of the regular expressions.\<close>

definition domain_char :: "char \<Rightarrow> bool" where
  "domain_char c \<longleftrightarrow> is_lower c \<or> is_digit c \<or> c = CHR ''-''"

definition local_char :: "char \<Rightarrow> bool" where
  "local_char c \<longleftrightarrow> is_lower c \<or> is_digit c \<or> c \<in> set ''.!#$%&*+/=?^_{|}~-'' \<or> c = CHR 0x27 \<or> c = CHR 0x60"

definition label_ok :: "string \<Rightarrow> bool" where
  "label_ok l \<longleftrightarrow>
     l \<noteq> [] \<and> list_all domain_char l \<and> \<not> startswith l ''-'' \<and> \<not> endswith l ''-''"

definition email_ok :: "string \<Rightarrow> bool" where
  "email_ok v \<longleftrightarrow>
     (case split_on CHR 0x40 v of
        [local, domain] \<Rightarrow>
          local \<noteq> [] \<and> domain \<noteq> [] \<and> \<not> contains v ''..'' \<and>
          (let labels = split_on CHR ''.'' domain
           in 2 \<le> length labels \<and> list_all (\<lambda>l. l \<noteq> []) labels \<and> list_all label_ok labels) \<and>
          list_all local_char local
      | _ \<Rightarrow> False)"

definition clean_email :: "pyval \<Rightarrow> string result" where
  "clean_email v =
     (case v of
        PyNone \<Rightarrow> Inr []
      | PyStr s \<Rightarrow>
          (let e = lower (strip s)
           in if e = [] then Inr []
              else if email_ok e then Inr e
              else Inl DomainValidationError)
      | _ \<Rightarrow> Inl DomainValidationError)"

definition clean_phone :: "pyval \<Rightarrow> string result" where
  "clean_phone v =
     (if \<not> truthy v then Inr []
      else (case v of
              PyStr s \<Rightarrow>
                (let p = strip s
                 in if \<not> isdigit p then Inl DomainValidationError
                    else if length p \<noteq> 10 then Inl DomainValidationError
                    else if \<not> startswith p ''04'' then Inl DomainValidationError
                    else Inr p)
            | _ \<Rightarrow> Inl DomainValidationError))"

text \<open>Every assignment to a field is cleaned.\<close>

datatype contact_field = CName | CEmail | CPhone

definition contact_setattr :: "contact_info \<Rightarrow> contact_field \<Rightarrow> pyval \<Rightarrow> contact_info result" where
  "contact_setattr c key v =
     (case key of
        CName \<Rightarrow> res_bind (clean_name v) (\<lambda>n. Inr (c\<lparr>ci_name := n\<rparr>))
      | CEmail \<Rightarrow> res_bind (clean_email v) (\<lambda>e. Inr (c\<lparr>ci_email := e\<rparr>))
      | CPhone \<Rightarrow> res_bind (clean_phone v) (\<lambda>p. Inr (c\<lparr>ci_phone := p\<rparr>)))"

text \<open>
  The generated constructor assigns the fields in order, each through \<open>__setattr__\<close>; then
  \<open>__post_init__\<close> cleans the stored values once more.
\<close>

definition contact_post_init :: "contact_info \<Rightarrow> contact_info result" where
  "contact_post_init c =
     res_bind (clean_name (PyStr (ci_name c))) (\<lambda>n.
     res_bind (clean_email (PyStr (ci_email c))) (\<lambda>e.
     res_bind (clean_phone (PyStr (ci_phone c))) (\<lambda>p.
       Inr \<lparr>ci_name = n, ci_email = e, ci_phone = p\<rparr>)))"

definition contact_info_create :: "pyval \<Rightarrow> pyval \<Rightarrow> pyval \<Rightarrow> contact_info result" where
  "contact_info_create name email phone =
     res_bind (contact_setattr \<lparr>ci_name = [], ci_email = [], ci_phone = []\<rparr> CName name) (\<lambda>c.
     res_bind (contact_setattr c CEmail email) (\<lambda>c.
     res_bind (contact_setattr c CPhone phone) contact_post_init))"

section \<open>Cleaning is idempotent\<close>

lemma clean_name_idem: "clean_name v = Inr n \<Longrightarrow> clean_name (PyStr n) = Inr n"
  by (auto simp: clean_name_def Let_def split: pyval.splits if_splits)

lemma lower_strip_idem [simp]: "lower (strip (lower (strip s))) = lower (strip s)"
  by (simp add: strip_lower)

lemma clean_email_idem: "clean_email v = Inr e \<Longrightarrow> clean_email (PyStr e) = Inr e"
  by (auto simp: clean_email_def Let_def strip_lower split: pyval.splits if_splits)
    (simp_all add: strip_def lower_def lstrip_def)

lemma clean_phone_idem: "clean_phone v = Inr p \<Longrightarrow> clean_phone (PyStr p) = Inr p"
  by (auto simp: clean_phone_def Let_def truthy_def split: pyval.splits if_splits)

definition contact_ok :: "contact_info \<Rightarrow> bool" where
  "contact_ok c \<longleftrightarrow>
     clean_name (PyStr (ci_name c)) = Inr (ci_name c) \<and>
     clean_email (PyStr (ci_email c)) = Inr (ci_email c) \<and>
     clean_phone (PyStr (ci_phone c)) = Inr (ci_phone c)"

theorem contact_setattr_ok:
  assumes "contact_ok c" and "contact_setattr c key v = Inr c'"
  shows "contact_ok c'"
  using assms
  by (auto simp: contact_setattr_def contact_ok_def res_bind_Inr_iff
      dest: clean_name_idem clean_email_idem clean_phone_idem split: contact_field.splits)

theorem contact_info_create_iff:
  "contact_info_create name email phone = Inr c \<longleftrightarrow>
     clean_name name = Inr (ci_name c) \<and> clean_email email = Inr (ci_email c) \<and>
     clean_phone phone = Inr (ci_phone c)"
proof
  assume "contact_info_create name email phone = Inr c"
  then obtain n e p where ne: "clean_name name = Inr n" "clean_email email = Inr e"
      "clean_phone phone = Inr p"
    and c: "contact_post_init \<lparr>ci_name = n, ci_email = e, ci_phone = p\<rparr> = Inr c"
    by (auto simp: contact_info_create_def contact_setattr_def res_bind_Inr_iff)
  from c have "c = \<lparr>ci_name = n, ci_email = e, ci_phone = p\<rparr>"
    using clean_name_idem [OF ne(1)] clean_email_idem [OF ne(2)] clean_phone_idem [OF ne(3)]
    by (simp add: contact_post_init_def)
  with ne show "clean_name name = Inr (ci_name c) \<and> clean_email email = Inr (ci_email c) \<and>
      clean_phone phone = Inr (ci_phone c)" by simp
next
  assume *: "clean_name name = Inr (ci_name c) \<and> clean_email email = Inr (ci_email c) \<and>
      clean_phone phone = Inr (ci_phone c)"
  then show "contact_info_create name email phone = Inr c"
    by (cases c) (simp add: contact_info_create_def contact_setattr_def contact_post_init_def
        clean_name_idem [of name] clean_email_idem [of email] clean_phone_idem [of phone])
qed

lemma contact_info_create_ok: "contact_info_create name email phone = Inr c \<Longrightarrow> contact_ok c"
  unfolding contact_info_create_iff contact_ok_def
  by (blast dest: clean_name_idem clean_email_idem clean_phone_idem)

lemma clean_Inl:
  "clean_name v = Inl e \<Longrightarrow> e = DomainValidationError"
  "clean_email v = Inl e \<Longrightarrow> e = DomainValidationError"
  "clean_phone v = Inl e \<Longrightarrow> e = DomainValidationError"
  by (auto simp: clean_name_def clean_email_def clean_phone_def Let_def
      split: pyval.splits if_splits)

text \<open>An address that passes has exactly one \<open>@\<close>, and is in lower case.\<close>

lemma split_on_count: "length (split_on c s) = Suc (count_list s c)"
  by (induction c s rule: split_on.induct) (auto split: list.splits)

lemma email_ok_at: "email_ok e \<Longrightarrow> count_list e (CHR 0x40) = 1"
  using split_on_count [of "CHR 0x40" e] by (auto simp: email_ok_def split: list.splits)

end
