(* ===== verification/Fleet.thy ===== *)
theory Fleet
  imports Schedule Load Contacts
begin

text \<open>
  The objects of the domain and the store they live in: the enumerations of
  \<open>src/domain/enums/\<close>, the events of \<open>src/domain/events/\<close>, the instance attributes of the four
  entity classes of \<open>src/domain/entities/\<close>, and the event recorder they all mix in.

  The program mutates shared objects through references, so objects are records in a store and
  an attribute that holds an object holds its reference.  An operation that may raise maps a
  store to a result and the store it leaves, also when it raises.
\<close>

section \<open>References and enumerations\<close>

type_synonym rref = nat
type_synonym pref = nat
type_synonym tref = nat
type_synonym cref = nat

datatype item_status = TODO | PKG_IN_PROGRESS | DONE

datatype route_status = PLANNED | SCHEDULED | IN_PROGRESS | COMPLETED

datatype truck_status = FREE | ON_THE_WAY

datatype truck_model = SCANIA | MAN | ACTROS

datatype package_detachment_reason = DETACH_PACKAGE_REMOVED | DETACH_ROUTE_REMOVED

datatype truck_release_reason = RELEASE_ROUTE_COMPLETED | RELEASE_ROUTE_REMOVED

definition item_status_value :: "item_status \<Rightarrow> string" where
  "item_status_value s =
     (case s of TODO \<Rightarrow> ''To Do'' | PKG_IN_PROGRESS \<Rightarrow> ''In Progress'' | DONE \<Rightarrow> ''Done'')"

definition route_status_value :: "route_status \<Rightarrow> string" where
  "route_status_value s =
     (case s of PLANNED \<Rightarrow> ''PLANNED'' | SCHEDULED \<Rightarrow> ''SCHEDULED''
      | IN_PROGRESS \<Rightarrow> ''IN_PROGRESS'' | COMPLETED \<Rightarrow> ''COMPLETED'')"

definition truck_model_values :: "string list" where
  "truck_model_values = [''Scania'', ''Man'', ''Actros'']"

text \<open>\<open>TruckModel.from_value\<close>, on a raw value or on a member\<close>

definition truck_model_from_value :: "pyval + truck_model \<Rightarrow> truck_model result" where
  "truck_model_from_value v =
     (case v of
        Inr m \<Rightarrow> Inr m
      | Inl (PyStr s) \<Rightarrow>
          if s = ''Scania'' then Inr SCANIA
          else if s = ''Man'' then Inr MAN
          else if s = ''Actros'' then Inr ACTROS
          else Inl DomainValidationError
      | Inl _ \<Rightarrow> Inl DomainValidationError)"

section \<open>Domain events\<close>

text \<open>
  The fields of each event in the order of its class, with \<open>occurred_at\<close> last.  The random
  event id and the wall-clock recording time are left out.
\<close>

datatype domain_event =
    CustomerCreated int time
  | PackageCreated int int location location f64 item_status location "time option" time
  | PackageRemoved int int "int option" item_status location location location f64
      "time option" time
  | PackagePickedUp int int item_status item_status location location "time option" time
  | PackageDelivered int int item_status item_status location location "time option" time
  | RouteCreated int "location list" "time option" route_status "time option" time
  | RouteScheduled int route_status route_status "time option" time "time option" time time
  | PackageAssignedToRoute int "int option" int "time option" "time option" time
  | PackageDetachedFromRoute int int "int option" item_status item_status location location
      "time option" "time option" package_detachment_reason time
  | TruckAssignedToRoute int "int option" int truck_status truck_status location location
      "time option" "time option" "time option" "time option" time
  | TruckReleasedFromRoute int int "int option" truck_status truck_status location location
      "time option" "time option" "time option" "time option" truck_release_reason time
  | RouteStarted int route_status route_status time
  | RouteCompleted int route_status route_status time time time
  | RouteRemoved int route_status "location list" "time option" "time option" "int list"
      "int option" time

section \<open>Entities\<close>

record package =
  package_id :: int
  pkg_start :: location
  pkg_end :: location
  pkg_weight :: f64
  pkg_customer :: cref
  pkg_location_field :: "location option"
  pkg_route :: "rref option"
  pkg_route_id :: "int option"
  pkg_expected_arrival :: "time option"
  pkg_status :: item_status
  pkg_events :: "domain_event list"

record truck =
  vehicle_id :: int
  truck_name :: truck_model
  capacity :: int
  max_range :: int
  truck_status :: truck_status
  truck_location :: "location option"
  truck_route :: "rref option"
  busy_from :: "time option"
  busy_until :: "time option"
  in_transit_to :: "location option"

record customer =
  customer_id :: int
  contact :: contact_info
  delivery_packages :: "pref list"
  cust_events :: "domain_event list"

record route =
  route_id :: int
  path :: route_path
  route_truck :: "tref option"
  route_packages :: "pref list"
  route_status :: route_status
  schedule :: "route_schedule option"
  route_events :: "domain_event list"

record heap =
  routes :: "rref \<Rightarrow> route"
  packages :: "pref \<Rightarrow> package"
  trucks :: "tref \<Rightarrow> truck"
  customers :: "cref \<Rightarrow> customer"
  next_ref :: nat

definition upd_route :: "rref \<Rightarrow> (route \<Rightarrow> route) \<Rightarrow> heap \<Rightarrow> heap" where
  "upd_route r f h = h\<lparr>routes := (routes h)(r := f (routes h r))\<rparr>"

definition upd_package :: "pref \<Rightarrow> (package \<Rightarrow> package) \<Rightarrow> heap \<Rightarrow> heap" where
  "upd_package p f h = h\<lparr>packages := (packages h)(p := f (packages h p))\<rparr>"

definition upd_truck :: "tref \<Rightarrow> (truck \<Rightarrow> truck) \<Rightarrow> heap \<Rightarrow> heap" where
  "upd_truck t f h = h\<lparr>trucks := (trucks h)(t := f (trucks h t))\<rparr>"

definition upd_customer :: "cref \<Rightarrow> (customer \<Rightarrow> customer) \<Rightarrow> heap \<Rightarrow> heap" where
  "upd_customer c f h = h\<lparr>customers := (customers h)(c := f (customers h c))\<rparr>"

lemma upd_simps [simp]:
  "routes (upd_route r f h) = (routes h)(r := f (routes h r))"
  "packages (upd_route r f h) = packages h"
  "trucks (upd_route r f h) = trucks h"
  "customers (upd_route r f h) = customers h"
  "next_ref (upd_route r f h) = next_ref h"
  "routes (upd_package p g h) = routes h"
  "packages (upd_package p g h) = (packages h)(p := g (packages h p))"
  "trucks (upd_package p g h) = trucks h"
  "customers (upd_package p g h) = customers h"
  "next_ref (upd_package p g h) = next_ref h"
  "routes (upd_truck t k h) = routes h"
  "packages (upd_truck t k h) = packages h"
  "trucks (upd_truck t k h) = (trucks h)(t := k (trucks h t))"
  "customers (upd_truck t k h) = customers h"
  "next_ref (upd_truck t k h) = next_ref h"
  "routes (upd_customer c l h) = routes h"
  "packages (upd_customer c l h) = packages h"
  "trucks (upd_customer c l h) = trucks h"
  "customers (upd_customer c l h) = (customers h)(c := l (customers h c))"
  "next_ref (upd_customer c l h) = next_ref h"
  by (simp_all add: upd_route_def upd_package_def upd_truck_def upd_customer_def)

lemma heap_eqI:
  "routes h = routes h' \<Longrightarrow> packages h = packages h' \<Longrightarrow> trucks h = trucks h' \<Longrightarrow>
     customers h = customers h' \<Longrightarrow> next_ref h = next_ref h' \<Longrightarrow> h = (h' :: heap)"
  by (cases h; cases h') simp

section \<open>Operations that may raise\<close>

text \<open>
  A method is a function from the state to its outcome and the state it leaves behind, also when it
  raises: what was written before the exception stays written.  The combinators are shared by the
  object store here and by the application state of the use cases.
\<close>

type_synonym ('s, 'a) act = "'s \<Rightarrow> 'a result \<times> 's"
type_synonym 'a action = "(heap, 'a) act"

definition act_return :: "'a \<Rightarrow> ('s, 'a) act" where
  "act_return x h = (Inr x, h)"

definition act_raise :: "error \<Rightarrow> ('s, 'a) act" where
  "act_raise e h = (Inl e, h)"

definition act_lift :: "'a result \<Rightarrow> ('s, 'a) act" where
  "act_lift r h = (r, h)"

definition act_modify :: "('s \<Rightarrow> 's) \<Rightarrow> ('s, unit) act" where
  "act_modify f h = (Inr (), f h)"

definition act_bind :: "('s, 'a) act \<Rightarrow> ('a \<Rightarrow> ('s, 'b) act) \<Rightarrow> ('s, 'b) act" where
  "act_bind m f h = (case m h of (Inl e, h') \<Rightarrow> (Inl e, h') | (Inr x, h') \<Rightarrow> f x h')"

text \<open>\<open>for x in xs: body\<close>\<close>

fun act_for :: "('a \<Rightarrow> ('s, unit) act) \<Rightarrow> 'a list \<Rightarrow> ('s, unit) act" where
  "act_for f [] h = (Inr (), h)"
| "act_for f (x # xs) h = act_bind (f x) (\<lambda>_. act_for f xs) h"

lemma act_simps [simp]:
  "act_return x h = (Inr x, h)" "act_raise e h = (Inl e, h)" "act_lift r h = (r, h)"
  "act_modify g h = (Inr (), g h)"
  by (simp_all add: act_return_def act_raise_def act_lift_def act_modify_def)

lemma act_bind_eqs:
  "m h = (Inr x, h') \<Longrightarrow> act_bind m f h = f x h'"
  "m h = (Inl e, h') \<Longrightarrow> act_bind m f h = (Inl e, h')"
  by (simp_all add: act_bind_def)

lemma act_bind_Inr_iff:
  "act_bind m f h = (Inr y, h'') \<longleftrightarrow> (\<exists>x h'. m h = (Inr x, h') \<and> f x h' = (Inr y, h''))"
  by (auto simp: act_bind_def split: prod.splits sum.splits)

lemma act_bind_Inl_iff:
  "act_bind m f h = (Inl e, h'') \<longleftrightarrow>
     m h = (Inl e, h'') \<or> (\<exists>x h'. m h = (Inr x, h') \<and> f x h' = (Inl e, h''))"
  by (auto simp: act_bind_def split: prod.splits sum.splits)

lemma act_bind_invariant:
  assumes "Q (snd (m h))" and "\<And>x h'. m h = (Inr x, h') \<Longrightarrow> Q h' \<Longrightarrow> Q (snd (f x h'))"
  shows "Q (snd (act_bind m f h))"
  using assms by (auto simp: act_bind_def split: prod.splits sum.splits)

lemma act_for_invariant:
  assumes "Q h" and "\<And>x h. x \<in> set xs \<Longrightarrow> Q h \<Longrightarrow> Q (snd (f x h))"
  shows "Q (snd (act_for f xs h))"
  using assms
proof (induction xs arbitrary: h)
  case (Cons x xs)
  show ?case unfolding act_for.simps
    by (rule act_bind_invariant) (use Cons in \<open>auto\<close>)
qed simp

section \<open>The event recorder\<close>

text \<open>\<open>src/shared/event_recorder_mixin.py\<close>, on the list of pending events.\<close>

definition record_event :: "'e \<Rightarrow> 'e list \<Rightarrow> 'e list" where
  "record_event e pending = pending @ [e]"

definition clear_events :: "'e list \<Rightarrow> 'e list" where
  "clear_events pending = []"

definition event_checkpoint :: "'e list \<Rightarrow> int" where
  "event_checkpoint pending = int (length pending)"

definition restore_event_checkpoint :: "int \<Rightarrow> 'e list \<Rightarrow> 'e list result" where
  "restore_event_checkpoint checkpoint pending =
     (if \<not> (0 \<le> checkpoint \<and> checkpoint \<le> int (length pending)) then Inl PyValueError
      else Inr (take (nat checkpoint) pending))"

lemma restore_checkpoint_append [simp]:
  "restore_event_checkpoint (event_checkpoint es) (es @ es') = Inr es"
  by (simp add: restore_event_checkpoint_def event_checkpoint_def)

lemma restore_checkpoint_same [simp]:
  "restore_event_checkpoint (event_checkpoint es) es = Inr es"
  using restore_checkpoint_append [of es "[]"] by simp

text \<open>
  The recorder as the objects see it: a list of pending events that lives in one field of the
  store.  Whatever has been recorded on it since a checkpoint, restoring the checkpoint puts
  the field back.
\<close>

locale event_field =
  fixes get :: "heap \<Rightarrow> domain_event list"
    and put :: "domain_event list \<Rightarrow> heap \<Rightarrow> heap"
  assumes get_put: "get (put es h) = es"
    and put_put: "put es (put es' h) = put es h"
    and put_get: "put (get h) h = h"
begin

lemma rollback:
  "restore_event_checkpoint (event_checkpoint (get h)) (get (put (get h @ es) h)) = Inr (get h)"
  by (simp add: get_put)

lemma rollback_store: "put (get h) (put es h) = h"
  by (simp add: put_put put_get)

end

definition put_route_events :: "rref \<Rightarrow> domain_event list \<Rightarrow> heap \<Rightarrow> heap" where
  "put_route_events r es = upd_route r (\<lambda>x. x\<lparr>route_events := es\<rparr>)"

definition put_package_events :: "pref \<Rightarrow> domain_event list \<Rightarrow> heap \<Rightarrow> heap" where
  "put_package_events p es = upd_package p (\<lambda>x. x\<lparr>pkg_events := es\<rparr>)"

definition put_customer_events :: "cref \<Rightarrow> domain_event list \<Rightarrow> heap \<Rightarrow> heap" where
  "put_customer_events c es = upd_customer c (\<lambda>x. x\<lparr>cust_events := es\<rparr>)"

definition record_route_event :: "rref \<Rightarrow> domain_event \<Rightarrow> heap \<Rightarrow> heap" where
  "record_route_event r e = upd_route r (\<lambda>x. x\<lparr>route_events := record_event e (route_events x)\<rparr>)"

definition record_package_event :: "pref \<Rightarrow> domain_event \<Rightarrow> heap \<Rightarrow> heap" where
  "record_package_event p e = upd_package p (\<lambda>x. x\<lparr>pkg_events := record_event e (pkg_events x)\<rparr>)"

definition record_customer_event :: "cref \<Rightarrow> domain_event \<Rightarrow> heap \<Rightarrow> heap" where
  "record_customer_event c e = upd_customer c (\<lambda>x. x\<lparr>cust_events := record_event e (cust_events x)\<rparr>)"

interpretation route_recorder:
  event_field "\<lambda>h. route_events (routes h r)" "put_route_events r" for r
  by unfold_locales (auto simp: put_route_events_def intro!: heap_eqI)

interpretation package_recorder:
  event_field "\<lambda>h. pkg_events (packages h p)" "put_package_events p" for p
  by unfold_locales (auto simp: put_package_events_def intro!: heap_eqI)

interpretation customer_recorder:
  event_field "\<lambda>h. cust_events (customers h c)" "put_customer_events c" for c
  by unfold_locales (auto simp: put_customer_events_def intro!: heap_eqI)

definition restore_route_events :: "rref \<Rightarrow> int \<Rightarrow> unit action" where
  "restore_route_events r k h =
     (case restore_event_checkpoint k (route_events (routes h r)) of
        Inl e \<Rightarrow> (Inl e, h)
      | Inr es \<Rightarrow> (Inr (), put_route_events r es h))"

definition restore_package_events :: "pref \<Rightarrow> int \<Rightarrow> unit action" where
  "restore_package_events p k h =
     (case restore_event_checkpoint k (pkg_events (packages h p)) of
        Inl e \<Rightarrow> (Inl e, h)
      | Inr es \<Rightarrow> (Inr (), put_package_events p es h))"

lemma record_simps [simp]:
  "routes (record_route_event r e h) =
     (routes h)(r := (routes h r)\<lparr>route_events := route_events (routes h r) @ [e]\<rparr>)"
  "packages (record_route_event r e h) = packages h"
  "trucks (record_route_event r e h) = trucks h"
  "customers (record_route_event r e h) = customers h"
  "next_ref (record_route_event r e h) = next_ref h"
  "routes (record_package_event p e h) = routes h"
  "packages (record_package_event p e h) =
     (packages h)(p := (packages h p)\<lparr>pkg_events := pkg_events (packages h p) @ [e]\<rparr>)"
  "trucks (record_package_event p e h) = trucks h"
  "customers (record_package_event p e h) = customers h"
  "next_ref (record_package_event p e h) = next_ref h"
  "routes (record_customer_event c e h) = routes h"
  "packages (record_customer_event c e h) = packages h"
  "trucks (record_customer_event c e h) = trucks h"
  "customers (record_customer_event c e h) =
     (customers h)(c := (customers h c)\<lparr>cust_events := cust_events (customers h c) @ [e]\<rparr>)"
  "next_ref (record_customer_event c e h) = next_ref h"
  by (simp_all add: record_route_event_def record_package_event_def record_customer_event_def
      record_event_def)

end
