(* ===== verification/Parcels.thy ===== *)
theory Parcels
  imports Fleet
begin

text \<open>
  Packages, trucks and customers: the methods of \<open>src/domain/entities/delivery_package.py\<close>,
  \<open>src/domain/entities/truck.py\<close> and \<open>src/domain/entities/customer.py\<close>.
\<close>

section \<open>Delivery packages\<close>

definition current_location :: "package \<Rightarrow> location" where
  "current_location p = (case pkg_location_field p of Some c \<Rightarrow> c | None \<Rightarrow> pkg_start p)"

definition set_current_location :: "location option \<Rightarrow> package \<Rightarrow> package" where
  "set_current_location v p = p\<lparr>pkg_location_field := v\<rparr>"

text \<open>\<open>_validate_locations\<close>\<close>

definition validate_package_locations :: "location \<Rightarrow> location \<Rightarrow> unit result" where
  "validate_package_locations s e =
     (if \<not> is_valid_location (PyStr s) then Inl DomainValidationError
      else if \<not> is_valid_location (PyStr e) then Inl DomainValidationError
      else if s = e then Inl DomainValidationError
      else Inr ())"

definition package_init ::
    "pyval \<Rightarrow> pyval \<Rightarrow> pyval \<Rightarrow> cref \<Rightarrow> pyval \<Rightarrow> pyval \<Rightarrow> package result" where
  "package_init start end weight cust pid rid =
     res_bind (location_code start) (\<lambda>s.
     res_bind (location_code end) (\<lambda>e.
     res_bind (domain_require_positive_int pid) (\<lambda>i.
     res_bind (validate_package_locations s e) (\<lambda>_.
     res_bind (domain_require_positive_finite_float weight) (\<lambda>w.
     res_bind (domain_require_optional_positive_int rid) (\<lambda>ri.
       Inr \<lparr>package_id = i, pkg_start = s, pkg_end = e, pkg_weight = w, pkg_customer = cust,
            pkg_location_field = Some s, pkg_route = None, pkg_route_id = ri,
            pkg_expected_arrival = None, pkg_status = TODO, pkg_events = []\<rparr>))))))"

text \<open>\<open>DeliveryPackage.create\<close>: the new object and its creation event\<close>

definition package_create ::
    "pyval \<Rightarrow> pyval \<Rightarrow> pyval \<Rightarrow> cref \<Rightarrow> pyval \<Rightarrow> time \<Rightarrow> pref action" where
  "package_create start end weight cust pid occurred_at h =
     (case package_init start end weight cust pid PyNone of
        Inl e \<Rightarrow> (Inl e, h)
      | Inr p \<Rightarrow>
          (let ref = next_ref h;
               h1 = h\<lparr>packages := (packages h)(ref := p), next_ref := Suc ref\<rparr>
           in (Inr ref, record_package_event ref
                 (PackageCreated (package_id p) (customer_id (customers h cust)) (pkg_start p)
                   (pkg_end p) (pkg_weight p) (pkg_status p) (current_location p)
                   (pkg_expected_arrival p) occurred_at) h1)))"

text \<open>The setter of \<open>route\<close> keeps the identifier in step.\<close>

definition set_package_route :: "pref \<Rightarrow> rref option \<Rightarrow> heap \<Rightarrow> heap" where
  "set_package_route p v h =
     upd_package p (\<lambda>x. x\<lparr>pkg_route := v, pkg_route_id := map_option (\<lambda>r. route_id (routes h r)) v\<rparr>) h"

definition require_route_id :: "pref \<Rightarrow> heap \<Rightarrow> int result" where
  "require_route_id p h =
     (case pkg_route_id (packages h p) of
        None \<Rightarrow> Inl BusinessRuleViolationError
      | Some i \<Rightarrow> Inr i)"

definition mark_picked_up :: "pref \<Rightarrow> time \<Rightarrow> unit action" where
  "mark_picked_up p occurred_at h =
     (case require_route_id p h of
        Inl e \<Rightarrow> (Inl e, h)
      | Inr rid \<Rightarrow>
          (let x = packages h p
           in if pkg_status x \<noteq> TODO then (Inl BusinessRuleViolationError, h)
              else
                (let x' = set_current_location (Some (pkg_start x)) (x\<lparr>pkg_status := PKG_IN_PROGRESS\<rparr>)
                 in (Inr (), record_package_event p
                       (PackagePickedUp (package_id x) rid (pkg_status x) (pkg_status x')
                         (current_location x) (current_location x') (pkg_expected_arrival x')
                         occurred_at)
                       (upd_package p (\<lambda>_. x') h)))))"

definition mark_delivered :: "pref \<Rightarrow> time \<Rightarrow> unit action" where
  "mark_delivered p occurred_at h =
     (case require_route_id p h of
        Inl e \<Rightarrow> (Inl e, h)
      | Inr rid \<Rightarrow>
          (let x = packages h p
           in if pkg_status x \<noteq> PKG_IN_PROGRESS then (Inl BusinessRuleViolationError, h)
              else
                (let x' = set_current_location (Some (pkg_end x)) (x\<lparr>pkg_status := DONE\<rparr>)
                 in (Inr (), record_package_event p
                       (PackageDelivered (package_id x) rid (pkg_status x) (pkg_status x')
                         (current_location x) (current_location x') (pkg_expected_arrival x')
                         occurred_at)
                       (upd_package p (\<lambda>_. x') h)))))"

definition record_package_removal ::
    "pref \<Rightarrow> int option \<Rightarrow> item_status \<Rightarrow> location \<Rightarrow> time option \<Rightarrow> time \<Rightarrow> heap \<Rightarrow> heap" where
  "record_package_removal p previous_route_id previous_status previous_location
       previous_expected_arrival occurred_at h =
     (let x = packages h p
      in record_package_event p
           (PackageRemoved (package_id x) (customer_id (customers h (pkg_customer x)))
             previous_route_id previous_status previous_location (pkg_start x) (pkg_end x)
             (pkg_weight x) previous_expected_arrival occurred_at) h)"

definition reset_assignment_state :: "pref \<Rightarrow> heap \<Rightarrow> heap" where
  "reset_assignment_state p h =
     upd_package p (\<lambda>x. set_current_location (Some (pkg_start x))
       (x\<lparr>pkg_expected_arrival := None, pkg_status := TODO\<rparr>)) (set_package_route p None h)"

record package_snapshot =
  psnap_route :: "rref option"
  psnap_route_id :: "int option"
  psnap_status :: item_status
  psnap_location :: "location option"
  psnap_expected_arrival :: "time option"

definition package_snapshot_state :: "package \<Rightarrow> package_snapshot" where
  "package_snapshot_state x =
     \<lparr>psnap_route = pkg_route x, psnap_route_id = pkg_route_id x, psnap_status = pkg_status x,
      psnap_location = pkg_location_field x, psnap_expected_arrival = pkg_expected_arrival x\<rparr>"

definition package_restore_state :: "package_snapshot \<Rightarrow> package \<Rightarrow> package" where
  "package_restore_state s x =
     x\<lparr>pkg_route := psnap_route s, pkg_route_id := psnap_route_id s, pkg_status := psnap_status s,
       pkg_location_field := psnap_location s, pkg_expected_arrival := psnap_expected_arrival s\<rparr>"

section \<open>Trucks\<close>

definition truck_init :: "pyval \<Rightarrow> pyval + truck_model \<Rightarrow> pyval \<Rightarrow> pyval \<Rightarrow> truck result" where
  "truck_init vid name cap rng =
     res_bind (domain_require_positive_int vid) (\<lambda>i.
     res_bind (truck_model_from_value name) (\<lambda>m.
     res_bind (domain_require_positive_int cap) (\<lambda>c.
     res_bind (domain_require_positive_int rng) (\<lambda>g.
       Inr \<lparr>vehicle_id = i, truck_name = m, capacity = c, max_range = g, truck_status = FREE,
            truck_location = None, truck_route = None, busy_from = None, busy_until = None,
            in_transit_to = None\<rparr>))))"

definition is_free :: "truck \<Rightarrow> bool" where
  "is_free t \<longleftrightarrow> truck_status t = FREE"

definition departure_time :: "route \<Rightarrow> time option" where
  "departure_time r = map_option sched_departure_time (schedule r)"

definition eta_final :: "route \<Rightarrow> time option" where
  "eta_final r = map_option sched_eta_final (schedule r)"

definition truck_assign :: "tref \<Rightarrow> rref \<Rightarrow> heap \<Rightarrow> heap" where
  "truck_assign t r h =
     upd_truck t (\<lambda>x. x\<lparr>truck_route := Some r, truck_status := ON_THE_WAY,
       busy_from := departure_time (routes h r), busy_until := eta_final (routes h r),
       in_transit_to := None\<rparr>) h"

text \<open>\<open>Truck.release\<close>; its clock argument is the time the caller passes or reads.\<close>

definition truck_release :: "tref \<Rightarrow> time \<Rightarrow> bool \<Rightarrow> heap \<Rightarrow> bool \<times> heap" where
  "truck_release t now force h =
     (let x = trucks h t in
      case truck_route x of
        None \<Rightarrow>
          (False, upd_truck t (\<lambda>_. x\<lparr>truck_status := FREE, in_transit_to := None,
                                    busy_from := None, busy_until := None\<rparr>) h)
      | Some r \<Rightarrow>
          if \<not> force \<and> (case eta_final (routes h r) of None \<Rightarrow> True | Some eta \<Rightarrow> now < eta)
          then (False, h)
          else (True, upd_truck t (\<lambda>_. x\<lparr>truck_location := Some (path_end (path (routes h r))),
                                        truck_route := None, truck_status := FREE,
                                        in_transit_to := None, busy_from := None,
                                        busy_until := None\<rparr>) h))"

record truck_snapshot =
  tsnap_route :: "rref option"
  tsnap_status :: truck_status
  tsnap_location :: "location option"
  tsnap_busy_from :: "time option"
  tsnap_busy_until :: "time option"
  tsnap_in_transit_to :: "location option"

definition truck_snapshot_state :: "truck \<Rightarrow> truck_snapshot" where
  "truck_snapshot_state x =
     \<lparr>tsnap_route = truck_route x, tsnap_status = truck_status x,
      tsnap_location = truck_location x, tsnap_busy_from = busy_from x,
      tsnap_busy_until = busy_until x, tsnap_in_transit_to = in_transit_to x\<rparr>"

definition truck_restore_state :: "truck_snapshot \<Rightarrow> truck \<Rightarrow> truck" where
  "truck_restore_state s x =
     x\<lparr>truck_route := tsnap_route s, truck_status := tsnap_status s,
       truck_location := tsnap_location s, busy_from := tsnap_busy_from s,
       busy_until := tsnap_busy_until s, in_transit_to := tsnap_in_transit_to s\<rparr>"

section \<open>Customers\<close>

definition customer_init :: "contact_info \<Rightarrow> pyval \<Rightarrow> customer result" where
  "customer_init c cid =
     res_bind (domain_require_positive_int cid) (\<lambda>i.
       Inr \<lparr>customer_id = i, contact = c, delivery_packages = [], cust_events = []\<rparr>)"

definition customer_create :: "contact_info \<Rightarrow> pyval \<Rightarrow> time \<Rightarrow> cref action" where
  "customer_create ci cid occurred_at h =
     (case customer_init ci cid of
        Inl e \<Rightarrow> (Inl e, h)
      | Inr c \<Rightarrow>
          (let ref = next_ref h;
               h1 = h\<lparr>customers := (customers h)(ref := c), next_ref := Suc ref\<rparr>
           in (Inr ref, record_customer_event ref (CustomerCreated (customer_id c) occurred_at) h1)))"

definition customer_remove_package :: "cref \<Rightarrow> pref \<Rightarrow> unit action" where
  "customer_remove_package c p h =
     (if p \<in> set (delivery_packages (customers h c))
      then (Inr (), upd_customer c (\<lambda>x. x\<lparr>delivery_packages := remove1 p (delivery_packages x)\<rparr>) h)
      else (Inl EntityNotFoundError, h))"

definition customer_link :: "cref \<Rightarrow> pref \<Rightarrow> heap \<Rightarrow> heap" where
  "customer_link c p h =
     upd_customer c (\<lambda>x. x\<lparr>delivery_packages := delivery_packages x @ [p]\<rparr>)
       (upd_package p (\<lambda>x. x\<lparr>pkg_customer := c\<rparr>) h)"

definition customer_add_package :: "cref \<Rightarrow> pref \<Rightarrow> unit action" where
  "customer_add_package c p h =
     (let old = pkg_customer (packages h p) in
      if customer_id (customers h old) = customer_id (customers h c) then
        if p \<in> set (delivery_packages (customers h c))
        then (Inl (DomainConflictError [MStr ''Package with id '', MInt (package_id (packages h p)),
                MStr '' is already assigned to this customer.'']), h)
        else (Inr (), customer_link c p h)
      else act_bind (customer_remove_package old p) (\<lambda>_. act_modify (customer_link c p)) h)"

definition customer_restore_package_link :: "cref \<Rightarrow> pref \<Rightarrow> heap \<Rightarrow> heap" where
  "customer_restore_package_link c p h =
     (if p \<in> set (delivery_packages (customers h c)) then h else customer_link c p h)"

section \<open>Well-formed objects\<close>

definition package_ok :: "package \<Rightarrow> bool" where
  "package_ok p \<longleftrightarrow>
     0 < package_id p \<and> pkg_start p \<in> set locations \<and> pkg_end p \<in> set locations \<and>
     pkg_start p \<noteq> pkg_end p \<and> f64_ok (pkg_weight p) \<and> 0 < pkg_weight p \<and> pkg_weight p < f64_inf"

lemma is_valid_location_iff:
  "is_valid_location (PyStr s) \<longleftrightarrow> (\<exists>c \<in> set locations. location_code (PyStr s) = Inr c)"
  by (auto simp: is_valid_location_def split: sum.splits)

text \<open>A constructed package lies on the map with different ends and a positive finite weight.\<close>

theorem package_init_ok:
  assumes "package_init start end weight cust pid rid = Inr p" and "pyval_ok weight"
  shows "package_ok p" "current_location p = pkg_start p" "pkg_route p = None" "pkg_status p = TODO"
    "pkg_events p = []" "pkg_customer p = cust"
proof -
  from assms(1) obtain s e i w ri where *:
    "location_code start = Inr s" "location_code end = Inr e" "pid = PyInt i" "1 \<le> i"
    "validate_package_locations s e = Inr ()" "domain_require_positive_finite_float weight = Inr w"
    "p = \<lparr>package_id = i, pkg_start = s, pkg_end = e, pkg_weight = w, pkg_customer = cust,
      pkg_location_field = Some s, pkg_route = None, pkg_route_id = ri,
      pkg_expected_arrival = None, pkg_status = TODO, pkg_events = []\<rparr>"
    by (auto simp: package_init_def res_bind_Inr_iff domain_require_positive_int_iff)
  from *(5) have v: "is_valid_location (PyStr s)" "is_valid_location (PyStr e)" "s \<noteq> e"
    by (auto simp: validate_package_locations_def split: if_splits)
  have "s \<in> set locations" "e \<in> set locations"
    using v location_code_idem [OF *(1)] location_code_idem [OF *(2)]
    by (auto simp: is_valid_location_def)
  with * v show "package_ok p" "current_location p = pkg_start p" "pkg_route p = None"
    "pkg_status p = TODO" "pkg_events p = []" "pkg_customer p = cust"
    using domain_require_positive_finite_float_ok [OF *(6) assms(2)]
    by (simp_all add: package_ok_def current_location_def)
qed

lemma package_init_Inl:
  "package_init start end weight cust pid rid = Inl e \<Longrightarrow> e = DomainValidationError"
  by (auto simp: package_init_def res_bind_Inl_iff location_code_def Let_def
      validate_package_locations_def domain_require_optional_positive_int_def as_domain_error_def
      require_optional_positive_int_def require_positive_int_def require_int_def
      dest: domain_require_positive_int_Inl domain_require_positive_finite_float_Inl
      split: pyval.splits if_splits sum.splits)

section \<open>Snapshots\<close>

text \<open>
  A snapshot restores the mutable attributes and leaves the identity of the object alone; the
  pending events are restored by the recorder's checkpoint.
\<close>

lemma package_restore_snapshot [simp]:
  "package_restore_state (package_snapshot_state x) x = x"
  by (simp add: package_restore_state_def package_snapshot_state_def)

definition package_frame :: "package \<Rightarrow> package \<Rightarrow> bool" where
  "package_frame x y \<longleftrightarrow>
     package_id x = package_id y \<and> pkg_start x = pkg_start y \<and> pkg_end x = pkg_end y \<and>
     pkg_weight x = pkg_weight y \<and> pkg_customer x = pkg_customer y \<and>
     (\<exists>es. pkg_events y = pkg_events x @ es)"

lemma package_frame_refl [simp]: "package_frame x x"
  by (simp add: package_frame_def)

lemma package_frame_trans: "package_frame x y \<Longrightarrow> package_frame y z \<Longrightarrow> package_frame x z"
  by (auto simp: package_frame_def)

text \<open>Restoring the state and the checkpoint undoes every change a frame allows.\<close>

lemma package_rollback:
  assumes "package_frame x y"
  shows "restore_event_checkpoint (event_checkpoint (pkg_events x)) (pkg_events y) = Inr (pkg_events x)"
    "(package_restore_state (package_snapshot_state x) y)\<lparr>pkg_events := pkg_events x\<rparr> = x"
  using assms by (auto simp: package_frame_def package_restore_state_def package_snapshot_state_def)

lemma truck_restore_snapshot:
  assumes "vehicle_id x = vehicle_id y" "truck_name x = truck_name y" "capacity x = capacity y"
    "max_range x = max_range y"
  shows "truck_restore_state (truck_snapshot_state x) y = x"
  using assms by (simp add: truck_restore_state_def truck_snapshot_state_def)

section \<open>Lifecycle of a package\<close>

text \<open>
  Pickup and delivery need an assigned package in the state before; they move the package to
  the end of the leg, record one event, and leave everything else in the store alone.
\<close>

lemma mark_picked_up_iff:
  "mark_picked_up p t h = (Inr (), h') \<longleftrightarrow>
     (\<exists>rid. pkg_route_id (packages h p) = Some rid \<and> pkg_status (packages h p) = TODO \<and>
        h' = upd_package p (\<lambda>x. x\<lparr>pkg_status := PKG_IN_PROGRESS,
               pkg_location_field := Some (pkg_start x),
               pkg_events := pkg_events x @ [PackagePickedUp (package_id x) rid TODO PKG_IN_PROGRESS
                  (current_location x) (pkg_start x) (pkg_expected_arrival x) t]\<rparr>) h)"
  by (auto simp: mark_picked_up_def require_route_id_def Let_def set_current_location_def
      current_location_def record_package_event_def record_event_def upd_package_def
      split: option.splits)

lemma mark_delivered_iff:
  "mark_delivered p t h = (Inr (), h') \<longleftrightarrow>
     (\<exists>rid. pkg_route_id (packages h p) = Some rid \<and> pkg_status (packages h p) = PKG_IN_PROGRESS \<and>
        h' = upd_package p (\<lambda>x. x\<lparr>pkg_status := DONE, pkg_location_field := Some (pkg_end x),
               pkg_events := pkg_events x @ [PackageDelivered (package_id x) rid PKG_IN_PROGRESS DONE
                  (current_location x) (pkg_end x) (pkg_expected_arrival x) t]\<rparr>) h)"
  by (auto simp: mark_delivered_def require_route_id_def Let_def set_current_location_def
      current_location_def record_package_event_def record_event_def upd_package_def
      split: option.splits)

lemma mark_fails:
  "mark_picked_up p t h = (Inl e, h') \<Longrightarrow> h' = h \<and> e = BusinessRuleViolationError"
  "mark_delivered p t h = (Inl e, h') \<Longrightarrow> h' = h \<and> e = BusinessRuleViolationError"
  by (auto simp: mark_picked_up_def mark_delivered_def require_route_id_def Let_def
      split: option.splits if_splits)

section \<open>Ownership\<close>

text \<open>
  A package is in the active collection of at most one customer, the one it names.
\<close>

definition ownership_ok :: "heap \<Rightarrow> bool" where
  "ownership_ok h \<longleftrightarrow>
     (\<forall>c p. p \<in> set (delivery_packages (customers h c)) \<longrightarrow> pkg_customer (packages h p) = c) \<and>
     (\<forall>c. distinct (delivery_packages (customers h c)))"

lemma ownership_okI:
  assumes "\<And>c p. p \<in> set (delivery_packages (customers h c)) \<Longrightarrow> pkg_customer (packages h p) = c"
    and "\<And>c. distinct (delivery_packages (customers h c))"
  shows "ownership_ok h"
  using assms by (simp add: ownership_ok_def)

lemma customer_link_ownership:
  assumes "ownership_ok h" and "\<And>d. p \<notin> set (delivery_packages (customers h d))"
  shows "ownership_ok (customer_link c p h)" "p \<in> set (delivery_packages (customers (customer_link c p h) c))"
    "pkg_customer (packages (customer_link c p h) p) = c"
proof -
  show "ownership_ok (customer_link c p h)"
  proof (rule ownership_okI)
    fix d q
    assume "q \<in> set (delivery_packages (customers (customer_link c p h) d))"
    then show "pkg_customer (packages (customer_link c p h) q) = d"
      using assms by (auto simp: customer_link_def ownership_ok_def split: if_splits)
  next
    fix d
    show "distinct (delivery_packages (customers (customer_link c p h) d))"
      using assms by (auto simp: customer_link_def ownership_ok_def)
  qed
qed (simp_all add: customer_link_def)

lemma ownership_unlink:
  assumes "ownership_ok h" and "pkg_customer (packages h p) = c"
  defines "h' \<equiv> upd_customer c (\<lambda>x. x\<lparr>delivery_packages := remove1 p (delivery_packages x)\<rparr>) h"
  shows "ownership_ok h'" "p \<notin> set (delivery_packages (customers h' d))"
proof -
  show "ownership_ok h'"
    using assms(1) set_remove1_subset [of p] unfolding h'_def
    by (intro ownership_okI) (auto simp: ownership_ok_def distinct_remove1 split: if_splits)
  show "p \<notin> set (delivery_packages (customers h' d))"
    using assms by (auto simp: ownership_ok_def)
qed

theorem customer_add_package_ok:
  assumes "ownership_ok h" and "customer_add_package c p h = (Inr (), h')"
    and "\<And>d. customer_id (customers h d) = customer_id (customers h c) \<Longrightarrow> d = c"
  shows "ownership_ok h' \<and> p \<in> set (delivery_packages (customers h' c)) \<and>
    pkg_customer (packages h' p) = c"
proof -
  let ?old = "pkg_customer (packages h p)"
  consider (same) "?old = c" "p \<notin> set (delivery_packages (customers h c))" "h' = customer_link c p h"
    | (moved) "h' = customer_link c p (upd_customer ?old
           (\<lambda>x. x\<lparr>delivery_packages := remove1 p (delivery_packages x)\<rparr>) h)"
    using assms(2,3)
    by (auto simp: customer_add_package_def Let_def customer_remove_package_def act_bind_Inr_iff
        split: if_splits)
  then show ?thesis
  proof cases
    case same
    have "p \<notin> set (delivery_packages (customers h d))" for d
      using assms(1) same by (cases "d = c") (auto simp: ownership_ok_def)
    then show ?thesis using customer_link_ownership [OF assms(1)] same by blast
  next
    case moved
    then show ?thesis
      using customer_link_ownership [OF ownership_unlink(1) ownership_unlink(2)] assms(1) by blast
  qed
qed

end
