(* ===== verification/Policies.thy ===== *)
theory Policies
  imports Parcels
begin

text \<open>
  The two assignment policies, \<open>src/domain/services/package_assignment_policy.py\<close> and
  \<open>src/domain/services/truck_assignment_policy.py\<close>, and the decisions they return,
  \<open>src/domain/value_objects/package_assignment_decision.py\<close> and
  \<open>truck_assignment_decision.py\<close>.
\<close>

section \<open>Decisions\<close>

datatype package_rejection_reason =
    LOCATIONS_NOT_ON_ROUTE
  | LOCATIONS_OUT_OF_ORDER
  | PICKUP_ALREADY_PASSED
  | TRUCK_CAPACITY_EXCEEDED
  | PKG_TRUCK_RANGE_INSUFFICIENT
  | PACKAGE_ALREADY_ASSIGNED
  | ROUTE_ALREADY_COMPLETED

datatype truck_rejection_reason =
    TRUCK_RANGE_INSUFFICIENT
  | TRUCK_CAPACITY_INSUFFICIENT
  | TRUCK_AT_WRONG_LOCATION
  | TARGET_ROUTE_UNSCHEDULED
  | CURRENT_ROUTE_AVAILABILITY_UNKNOWN
  | AVAILABILITY_WINDOW_OVERLAP

text \<open>Both decision classes have the same fields and validation; only the reasons differ.\<close>

record 'r decision =
  decision_reason :: "'r option"
  decision_message :: "message option"

text \<open>\<open>not message.strip()\<close>: a rendered number is never blank.\<close>

definition blank_message :: "message \<Rightarrow> bool" where
  "blank_message m = list_all (\<lambda>part. case part of MStr s \<Rightarrow> strip s = [] | _ \<Rightarrow> False) m"

definition decision_init :: "'r option \<Rightarrow> message option \<Rightarrow> 'r decision result" where
  "decision_init reason msg =
     (if reason = None \<and> msg \<noteq> None then Inl DomainValidationError
      else if reason \<noteq> None \<and> (case msg of None \<Rightarrow> True | Some m \<Rightarrow> blank_message m)
      then Inl DomainValidationError
      else Inr \<lparr>decision_reason = reason, decision_message = msg\<rparr>)"

definition accept :: "'r decision result" where
  "accept = decision_init None None"

definition reject :: "'r \<Rightarrow> message \<Rightarrow> 'r decision result" where
  "reject reason msg = decision_init (Some reason) (Some msg)"

definition accepted :: "'r decision \<Rightarrow> bool" where
  "accepted d \<longleftrightarrow> decision_reason d = None"

definition decision_ok :: "'r decision \<Rightarrow> bool" where
  "decision_ok d \<longleftrightarrow>
     (case (decision_reason d, decision_message d) of
        (None, None) \<Rightarrow> True
      | (Some _, Some m) \<Rightarrow> \<not> blank_message m
      | _ \<Rightarrow> False)"

lemma decision_init_ok: "decision_init r m = Inr d \<Longrightarrow> decision_ok d"
  by (auto simp: decision_init_def decision_ok_def split: if_splits option.splits)

lemma accept_eq: "accept = Inr \<lparr>decision_reason = None, decision_message = None\<rparr>"
  by (simp add: accept_def decision_init_def)

lemma reject_eq:
  "\<not> blank_message m \<Longrightarrow> reject r m = Inr \<lparr>decision_reason = Some r, decision_message = Some m\<rparr>"
  by (simp add: reject_def decision_init_def)

lemma accepted_iff_message: "decision_ok d \<Longrightarrow> accepted d \<longleftrightarrow> decision_message d = None"
  by (auto simp: decision_ok_def accepted_def split: option.splits)

section \<open>What the policies read of a route\<close>

text \<open>\<open>DeliveryRoute.total_distance_km\<close>\<close>

fun sum_distances :: "(location \<times> location) list \<Rightarrow> int result" where
  "sum_distances [] = Inr 0"
| "sum_distances ((a, b) # ps) =
     res_bind (get_distance (PyStr a) (PyStr b)) (\<lambda>d.
     res_bind (sum_distances ps) (\<lambda>s. Inr (d + s)))"

definition total_distance_km :: "route \<Rightarrow> int result" where
  "total_distance_km r =
     (case schedule r of
        Some s \<Rightarrow> Inr (sched_total_distance_km s)
      | None \<Rightarrow> sum_distances (py_pairwise (path r)))"

text \<open>\<open>DeliveryRoute.current_position\<close>, with the clock value made explicit\<close>

definition route_current_position :: "route \<Rightarrow> time \<Rightarrow> route_position result" where
  "route_current_position r now =
     (case schedule r of
        None \<Rightarrow> Inr \<lparr>pos_kind = UNSCHEDULED, pos_from_city = None, pos_to_city = None,
                     pos_stop_city = Some (path_start (path r)), pos_next_eta = None\<rparr>
      | Some s \<Rightarrow> position_at s (naive now))"

definition package_load_of :: "package \<Rightarrow> package_load" where
  "package_load_of p =
     \<lparr>load_start = pkg_start p, load_end = pkg_end p, load_weight = pkg_weight p\<rparr>"

text \<open>\<open>DeliveryRoute.maximum_segment_load\<close>\<close>

definition route_maximum_segment_load :: "heap \<Rightarrow> rref \<Rightarrow> package option \<Rightarrow> f64" where
  "route_maximum_segment_load h r extra_package =
     maximum_segment_load (path (routes h r))
       (map (\<lambda>p. package_load_of (packages h p)) (route_packages (routes h r)))
       (map_option package_load_of extra_package)"

section \<open>Assigning a package\<close>

definition evaluate_package_route_compatibility ::
    "(location \<rightharpoonup> nat) \<Rightarrow> route \<Rightarrow> package \<Rightarrow> package_rejection_reason decision result" where
  "evaluate_package_route_compatibility location_indices r p =
     (if location_indices (pkg_start p) = None \<or> location_indices (pkg_end p) = None then
        reject LOCATIONS_NOT_ON_ROUTE
          [MStr ''Route '', MInt (route_id r), MStr '' does not include start/end of package '',
           MInt (package_id p), MStr '' ('', MStr (pkg_start p), MStr '' -> '', MStr (pkg_end p), MStr '').'']
      else res_bind (path_includes_in_order (path r) (PyStr (pkg_start p)) (PyStr (pkg_end p))) (\<lambda>ordered.
        if \<not> ordered then
          reject LOCATIONS_OUT_OF_ORDER
            [MStr ''Route '', MInt (route_id r), MStr '' does not pass from '', MStr (pkg_start p),
             MStr '' to '', MStr (pkg_end p), MStr '' in order for package '', MInt (package_id p), MStr ''.'']
        else accept))"

definition pickup_passed_error :: "route \<Rightarrow> package \<Rightarrow> package_rejection_reason decision result" where
  "pickup_passed_error r p =
     reject PICKUP_ALREADY_PASSED
       [MStr ''Route '', MInt (route_id r), MStr '' has already passed pickup location '',
        MStr (pkg_start p), MStr '' for package '', MInt (package_id p), MStr ''.'']"

definition evaluate_pickup_not_passed ::
    "(location \<rightharpoonup> nat) \<Rightarrow> route \<Rightarrow> package \<Rightarrow> time \<Rightarrow> package_rejection_reason decision result" where
  "evaluate_pickup_not_passed location_indices r p now =
     (if departure_time r = None then accept
      else res_bind (dict_get location_indices (pkg_start p)) (\<lambda>pickup_index.
        res_bind (route_current_position r now) (\<lambda>position.
          case pos_kind position of
            UNSCHEDULED \<Rightarrow> accept
          | BEFORE_START \<Rightarrow> accept
          | AT_STOP \<Rightarrow>
              (case pos_stop_city position of
                 None \<Rightarrow> accept
               | Some stop_city \<Rightarrow>
                   if stop_city = [] then accept
                   else res_bind (dict_get location_indices stop_city) (\<lambda>i.
                     if pickup_index < i then pickup_passed_error r p else accept))
          | IN_TRANSIT \<Rightarrow>
              (case pos_from_city position of
                 None \<Rightarrow> accept
               | Some from_city \<Rightarrow>
                   if from_city = [] then accept
                   else res_bind (dict_get location_indices from_city) (\<lambda>i.
                     if pickup_index \<le> i then pickup_passed_error r p else accept))
          | AFTER_END \<Rightarrow> pickup_passed_error r p)))"

definition evaluate_truck_constraints ::
    "heap \<Rightarrow> rref \<Rightarrow> package \<Rightarrow> package_rejection_reason decision result" where
  "evaluate_truck_constraints h r extra_package =
     (case route_truck (routes h r) of
        None \<Rightarrow> accept
      | Some t \<Rightarrow>
          (let max_segment_load = route_maximum_segment_load h r (Some extra_package);
               truck = trucks h t
           in if f64_gt_int max_segment_load (capacity truck) then
                reject TRUCK_CAPACITY_EXCEEDED
                  [MStr ''Truck '', MInt (vehicle_id truck), MStr '' capacity exceeded: segment load '',
                   MFloat max_segment_load, MStr ''kg > '', MInt (capacity truck), MStr ''kg.'']
              else res_bind (total_distance_km (routes h r)) (\<lambda>distance.
                if max_range truck < distance then
                  reject PKG_TRUCK_RANGE_INSUFFICIENT
                    [MStr ''Truck '', MInt (vehicle_id truck), MStr '' lacks range for '',
                     MInt distance, MStr '' km (range: '', MInt (max_range truck), MStr '' km).'']
                else accept)))"

definition evaluate_package ::
    "heap \<Rightarrow> rref \<Rightarrow> package \<Rightarrow> time \<Rightarrow> package_rejection_reason decision result" where
  "evaluate_package h r p now =
     (let location_indices = index_dict (path (routes h r))
      in res_bind (evaluate_package_route_compatibility location_indices (routes h r) p) (\<lambda>decision.
           if \<not> accepted decision then Inr decision
           else res_bind (evaluate_pickup_not_passed location_indices (routes h r) p now) (\<lambda>decision.
             if \<not> accepted decision then Inr decision
             else res_bind (evaluate_truck_constraints h r p) (\<lambda>decision.
               if \<not> accepted decision then Inr decision else accept))))"

section \<open>Assigning a truck\<close>

text \<open>
  The policy sees the target through a view, \<open>RouteSuitabilityView\<close>: a route, or the probe that the
  assignment use case builds for a route that has no departure time yet.
\<close>

record suitability_view =
  view_distance_km :: "int result"
  view_start_location :: location
  view_departure_time :: "time option"
  view_maximum_segment_load :: f64

definition evaluate_truck_view ::
    "heap \<Rightarrow> tref \<Rightarrow> suitability_view \<Rightarrow> truck_rejection_reason decision result" where
  "evaluate_truck_view h t v =
     (let truck = trucks h t
      in res_bind (view_distance_km v) (\<lambda>distance.
           if max_range truck < distance then
             reject TRUCK_RANGE_INSUFFICIENT [MStr ''range too short'']
           else if f64_gt_int (view_maximum_segment_load v) (capacity truck) then
             reject TRUCK_CAPACITY_INSUFFICIENT [MStr ''insufficient capacity'']
           else
             (case truck_route truck of
                None \<Rightarrow>
                  if truck_location truck \<noteq> Some (view_start_location v) then
                    reject TRUCK_AT_WRONG_LOCATION
                      [MStr ''wrong location ('',
                       MStr (case truck_location truck of None \<Rightarrow> ''None'' | Some c \<Rightarrow> c),
                       MStr '' != '', MStr (view_start_location v), MStr '')'']
                  else accept
              | Some current_route \<Rightarrow>
                  (case view_departure_time v of
                     None \<Rightarrow> reject TARGET_ROUTE_UNSCHEDULED [MStr ''route not scheduled yet'']
                   | Some dep \<Rightarrow>
                       (case eta_final (routes h current_route) of
                          None \<Rightarrow>
                            reject CURRENT_ROUTE_AVAILABILITY_UNKNOWN
                              [MStr ''truck already assigned to a route with unknown availability'']
                        | Some current_eta \<Rightarrow>
                            if dep \<le> current_eta then
                              reject AVAILABILITY_WINDOW_OVERLAP
                                [MStr ''truck busy in the requested time window'']
                            else if path_end (path (routes h current_route)) \<noteq> view_start_location v then
                              reject TRUCK_AT_WRONG_LOCATION
                                [MStr ''wrong availability location ('',
                                 MStr (path_end (path (routes h current_route))), MStr '' != '',
                                 MStr (view_start_location v), MStr '')'']
                            else accept)))))"

definition route_view :: "heap \<Rightarrow> rref \<Rightarrow> suitability_view" where
  "route_view h r =
     \<lparr>view_distance_km = total_distance_km (routes h r),
      view_start_location = path_start (path (routes h r)),
      view_departure_time = departure_time (routes h r),
      view_maximum_segment_load = route_maximum_segment_load h r None\<rparr>"

definition evaluate_truck :: "heap \<Rightarrow> tref \<Rightarrow> rref \<Rightarrow> truck_rejection_reason decision result" where
  "evaluate_truck h t r = evaluate_truck_view h t (route_view h r)"

section \<open>Well-formed routes\<close>

definition route_ok :: "route \<Rightarrow> bool" where
  "route_ok r \<longleftrightarrow>
     0 < route_id r \<and> path_ok (path r) \<and>
     (case schedule r of
        None \<Rightarrow> True
      | Some s \<Rightarrow>
          schedule_ok s \<and> map stop_location (sched_stops s) = path r \<and>
          build_schedule (path r) (naive (sched_departure_time s)) (PyInt DEFAULT_SPEED_KMPH) = Inr s)"

lemma route_okD:
  assumes "route_ok r"
  shows "0 < route_id r" "path_ok (path r)"
    "schedule r = Some s \<Longrightarrow> schedule_ok s"
    "schedule r = Some s \<Longrightarrow> map stop_location (sched_stops s) = path r"
    "schedule r = Some s \<Longrightarrow> length (sched_stops s) = length (path r)"
    "schedule r = Some s \<Longrightarrow> i < length (path r) \<Longrightarrow> stop_location (sched_stops s ! i) = path r ! i"
    "schedule r = Some s \<Longrightarrow>
       build_schedule (path r) (naive (sched_departure_time s)) (PyInt DEFAULT_SPEED_KMPH) = Inr s"
proof -
  show a: "schedule r = Some s \<Longrightarrow> map stop_location (sched_stops s) = path r"
    using assms by (simp add: route_ok_def)
  then show l: "schedule r = Some s \<Longrightarrow> length (sched_stops s) = length (path r)"
    by (metis length_map)
  show "schedule r = Some s \<Longrightarrow> i < length (path r) \<Longrightarrow> stop_location (sched_stops s ! i) = path r ! i"
    using a l by (metis nth_map)
qed (use assms in \<open>simp_all add: route_ok_def\<close>)

lemma sum_distances_total:
  assumes "set ls \<subseteq> set locations" and "distinct ls"
  shows "\<exists>d. sum_distances (py_pairwise ls) = Inr d \<and> 0 \<le> d"
  using assms
proof (induction ls rule: py_pairwise.induct)
  case (1 a b ls)
  then obtain d where d: "sum_distances (py_pairwise (b # ls)) = Inr d" "0 \<le> d" by auto
  have "get_distance (PyStr a) (PyStr b) = Inr (leg_km a b)" "0 < leg_km a b"
    using 1 leg_supported [of a b] by auto
  with d show ?case by simp
qed auto

lemma total_distance_total: "route_ok r \<Longrightarrow> \<exists>d. total_distance_km r = Inr d"
  using sum_distances_total [of "path r"]
  by (auto simp: total_distance_km_def route_ok_def path_ok_def split: option.split)

section \<open>The reference for packages\<close>

text \<open>
  The pickup stop is still ahead: its arrival time lies in the future, or is now, unless it is the
  first stop, which the route leaves at once.
\<close>

definition pickup_ahead :: "route \<Rightarrow> nat \<Rightarrow> time \<Rightarrow> bool" where
  "pickup_ahead r i now \<longleftrightarrow>
     (case schedule r of
        None \<Rightarrow> True
      | Some s \<Rightarrow> now < stop_arrival_at (sched_stops s ! i) \<or>
                  (now = stop_arrival_at (sched_stops s ! i) \<and> 0 < i))"

definition truck_fits :: "heap \<Rightarrow> rref \<Rightarrow> f64 \<Rightarrow> bool" where
  "truck_fits h r load \<longleftrightarrow>
     (case route_truck (routes h r) of
        None \<Rightarrow> True
      | Some t \<Rightarrow> \<not> f64_gt_int load (capacity (trucks h t)) \<and>
          (\<exists>d. total_distance_km (routes h r) = Inr d \<and> d \<le> max_range (trucks h t)))"

definition package_fits :: "heap \<Rightarrow> rref \<Rightarrow> package \<Rightarrow> time \<Rightarrow> bool" where
  "package_fits h r p now \<longleftrightarrow>
     (\<exists>i j. i < j \<and> j < length (path (routes h r)) \<and>
        path (routes h r) ! i = pkg_start p \<and> path (routes h r) ! j = pkg_end p \<and>
        pickup_ahead (routes h r) i now) \<and>
     truck_fits h r (route_maximum_segment_load h r (Some p))"

lemma pickup_passed_error_eq:
  "\<exists>d. pickup_passed_error r p = Inr d \<and> \<not> accepted d \<and> decision_ok d"
  unfolding pickup_passed_error_def
  by (subst reject_eq) (simp_all add: blank_message_def strip_def lstrip_def is_space_def code_def
      accepted_def decision_ok_def)

lemma accept_result: "\<exists>d. accept = Inr d \<and> accepted d \<and> decision_ok d"
  by (simp add: accept_eq accepted_def decision_ok_def)

lemma location_nonempty: "c \<in> set locations \<Longrightarrow> c \<noteq> []"
  by (auto simp: locations_def)

text \<open>A decision is returned, and it is the decision \<open>P\<close> says.\<close>

definition decides :: "'r decision result \<Rightarrow> bool \<Rightarrow> bool" where
  "decides res P \<longleftrightarrow> (\<exists>d. res = Inr d \<and> decision_ok d \<and> (accepted d \<longleftrightarrow> P))"

lemma decides_accept [simp]: "decides accept P \<longleftrightarrow> P"
  by (simp add: decides_def accept_eq accepted_def decision_ok_def)

lemma decides_reject: "\<not> blank_message m \<Longrightarrow> decides (reject r m) P \<longleftrightarrow> \<not> P"
  by (auto simp: decides_def reject_eq accepted_def decision_ok_def)

lemma not_blankI: "strip s \<noteq> [] \<Longrightarrow> MStr s \<in> set m \<Longrightarrow> \<not> blank_message m"
  by (force simp: blank_message_def list_all_iff)

lemma not_blank_Cons:
  "c \<noteq> CHR '' '' \<Longrightarrow> \<not> is_space c \<Longrightarrow> \<not> blank_message (MStr (c # s) # m)"
  by (simp add: blank_message_def strip_def lstrip_def)

lemma decides_bind:
  assumes "decides m P" and "\<And>d. accepted d \<Longrightarrow> decides (f d) Q"
    and "\<And>d. \<not> accepted d \<Longrightarrow> f d = Inr d"
  shows "decides (res_bind m f) (P \<and> Q)"
  using assms unfolding decides_def by (cases m) fastforce+

lemma decides_pickup_passed [simp]: "decides (pickup_passed_error r p) P \<longleftrightarrow> \<not> P"
  unfolding pickup_passed_error_def
  by (rule decides_reject, rule not_blank_Cons) (simp_all add: is_space_def code_def)

lemma compatibility_decides:
  assumes "path_ok (path r)"
  shows "decides (evaluate_package_route_compatibility (index_dict (path r)) r p)
    (\<exists>i j. index_dict (path r) (pkg_start p) = Some i \<and> index_dict (path r) (pkg_end p) = Some j \<and> i < j)"
proof (cases "index_dict (path r) (pkg_start p) = None \<or> index_dict (path r) (pkg_end p) = None")
  case True
  have nb: "\<not> blank_message (MStr ''Route '' # m)" for m
    by (rule not_blank_Cons) (simp_all add: is_space_def code_def)
  show ?thesis using True unfolding evaluate_package_route_compatibility_def
    by (auto simp: decides_reject nb simp del: index_dict_None_iff)
next
  case False
  then have "pkg_start p \<in> set (path r)" "pkg_end p \<in> set (path r)"
    by (metis index_dict_None_iff)+
  from path_includes_in_order_iff [OF assms this] False
  show ?thesis
    unfolding evaluate_package_route_compatibility_def
    by (auto simp: decides_reject not_blank_Cons is_space_def code_def simp del: index_dict_None_iff)
qed

lemma pickup_decides:
  assumes r: "route_ok r" and i: "i < length (path r)" and start: "pkg_start p = path r ! i"
  shows "decides (evaluate_pickup_not_passed (index_dict (path r)) r p now) (pickup_ahead r i now)"
proof (cases "schedule r")
  case None
  then show ?thesis
    by (simp add: evaluate_pickup_not_passed_def departure_time_def pickup_ahead_def)
next
  case (Some s)
  note sr = route_okD [OF r]
  have pd: "distinct (path r)" "set (path r) \<subseteq> set locations" using sr(2) by (simp_all add: path_ok_def)
  have s: "schedule_ok s" and len: "length (sched_stops s) = length (path r)"
    using sr(3,5) Some by auto
  have stop: "stop_location (sched_stops s ! k) = path r ! k" if "k < length (path r)" for k
    using sr(6) Some that by auto
  have ne: "path r ! k \<noteq> []" if "k < length (path r)" for k
    using that pd(2) location_nonempty nth_mem by blast
  have idx: "index_dict (path r) (path r ! k) = Some k" if "k < length (path r)" for k
    using pd(1) that by simp
  let ?arr = "\<lambda>k. stop_arrival_at (sched_stops s ! k)"
  have inc: "?arr k < ?arr l" if "k < l" "l < length (path r)" for k l
    using arrivals_increase [OF s that(1)] that(2) len by simp
  have ev: "evaluate_pickup_not_passed (index_dict (path r)) r p now =
      (case pos_kind (position_spec s now) of
         AT_STOP \<Rightarrow> (case pos_stop_city (position_spec s now) of None \<Rightarrow> accept
           | Some c \<Rightarrow> if c = [] then accept else res_bind (dict_get (index_dict (path r)) c) (\<lambda>k.
               if i < k then pickup_passed_error r p else accept))
       | IN_TRANSIT \<Rightarrow> (case pos_from_city (position_spec s now) of None \<Rightarrow> accept
           | Some c \<Rightarrow> if c = [] then accept else res_bind (dict_get (index_dict (path r)) c) (\<lambda>k.
               if i \<le> k then pickup_passed_error r p else accept))
       | AFTER_END \<Rightarrow> pickup_passed_error r p
       | _ \<Rightarrow> accept)"
    using Some i start idx [OF i]
    by (simp add: evaluate_pickup_not_passed_def departure_time_def route_current_position_def
        position_at_spec [OF s] split: position_kind.split)
  from s show ?thesis
  proof (cases rule: position_spec_cases [where t = now])
    case before
    then show ?thesis
      using departure_le_arrival [OF s, of i] i len by (simp add: ev pickup_ahead_def Some)
  next
    case after
    then show ?thesis
      using arrival_le_eta [OF s, of i] i len by (simp add: ev pickup_ahead_def Some)
  next
    case (at k)
    then show ?thesis
      using inc [of i k] inc [of k i] i len stop [of k] ne [of k] idx [of k]
      by (cases i k rule: linorder_cases) (auto simp: ev at_stop_def pickup_ahead_def Some)
  next
    case (transit k)
    then show ?thesis
      using inc [of i k] inc [of "Suc k" i] i len stop [of k] ne [of k] idx [of k]
      by (cases i k rule: linorder_cases; cases "i = Suc k") (auto simp: ev in_transit_from_def pickup_ahead_def Some)
  qed
qed

lemma truck_decides:
  assumes "route_ok (routes h r)"
  shows "decides (evaluate_truck_constraints h r p) (truck_fits h r (route_maximum_segment_load h r (Some p)))"
proof (cases "route_truck (routes h r)")
  case None
  then show ?thesis by (simp add: evaluate_truck_constraints_def truck_fits_def)
next
  case (Some t)
  obtain d where "total_distance_km (routes h r) = Inr d"
    using total_distance_total [OF assms] by blast
  then show ?thesis using Some
    by (auto simp: evaluate_truck_constraints_def truck_fits_def Let_def decides_reject not_blank_Cons
        is_space_def code_def)
qed

text \<open>
  The package policy never raises on well-formed objects, and accepts exactly the packages
  that fit.
\<close>

theorem evaluate_package_decides:
  assumes "route_ok (routes h r)"
  shows "decides (evaluate_package h r p now) (package_fits h r p now)"
proof -
  let ?r = "routes h r" and ?idx = "index_dict (path (routes h r))"
  have pok: "path_ok (path ?r)" and d: "distinct (path ?r)"
    using route_okD(2) [OF assms] by (auto simp: path_ok_def)
  note compat = compatibility_decides [OF pok, of p]
  show ?thesis
  proof (cases "\<exists>i j. ?idx (pkg_start p) = Some i \<and> ?idx (pkg_end p) = Some j \<and> i < j")
    case True
    then obtain i j where ij: "?idx (pkg_start p) = Some i" "?idx (pkg_end p) = Some j" "i < j" by blast
    then have n: "i < length (path ?r)" "path ?r ! i = pkg_start p" "j < length (path ?r)"
        "path ?r ! j = pkg_end p" using d by (auto simp: index_dict_Some_iff)
    have "i' = i \<and> j' = j" if "path ?r ! i' = pkg_start p" "path ?r ! j' = pkg_end p"
      "i' < length (path ?r)" "j' < length (path ?r)" for i' j'
      using that n d by (metis nth_eq_iff_index_eq)
    then have fits: "package_fits h r p now \<longleftrightarrow>
        True \<and> pickup_ahead ?r i now \<and> truck_fits h r (route_maximum_segment_load h r (Some p))"
      unfolding package_fits_def using ij(3) n by (metis order.strict_trans)
    have "decides (evaluate_package_route_compatibility ?idx ?r p) True"
      using compat True by simp
    moreover have "decides (evaluate_pickup_not_passed ?idx ?r p now) (pickup_ahead ?r i now)"
      using pickup_decides [OF assms n(1) n(2) [symmetric]] .
    moreover have "decides (res_bind (evaluate_truck_constraints h r p)
          (\<lambda>decision. if \<not> accepted decision then Inr decision else accept))
        (truck_fits h r (route_maximum_segment_load h r (Some p)) \<and> True)"
      by (rule decides_bind [OF truck_decides [OF assms]]) simp_all
    ultimately show ?thesis
      unfolding fits evaluate_package_def Let_def
      by (elim decides_bind) (simp, elim decides_bind, simp_all)
  next
    case False
    have "\<not> package_fits h r p now"
      using False d unfolding package_fits_def
      by (metis index_dict_Some_iff order.strict_trans)
    with compat False show ?thesis
      by (auto simp: evaluate_package_def decides_def)
  qed
qed

section \<open>The reference for trucks\<close>

text \<open>
  A truck suits a route when its range and capacity do, and it stands at the start of the route,
  or will be there at the end of its current route before the departure.
\<close>

definition truck_suits :: "heap \<Rightarrow> tref \<Rightarrow> rref \<Rightarrow> bool" where
  "truck_suits h t r \<longleftrightarrow>
     (\<exists>d. total_distance_km (routes h r) = Inr d \<and> d \<le> max_range (trucks h t)) \<and>
     \<not> f64_gt_int (route_maximum_segment_load h r None) (capacity (trucks h t)) \<and>
     (case truck_route (trucks h t) of
        None \<Rightarrow> truck_location (trucks h t) = Some (path_start (path (routes h r)))
      | Some q \<Rightarrow> \<exists>dep eta. departure_time (routes h r) = Some dep \<and>
          eta_final (routes h q) = Some eta \<and> eta < dep \<and>
          path_end (path (routes h q)) = path_start (path (routes h r)))"

text \<open>The same condition on a view.\<close>

definition view_suits :: "heap \<Rightarrow> tref \<Rightarrow> suitability_view \<Rightarrow> bool" where
  "view_suits h t v \<longleftrightarrow>
     (\<exists>d. view_distance_km v = Inr d \<and> d \<le> max_range (trucks h t)) \<and>
     \<not> f64_gt_int (view_maximum_segment_load v) (capacity (trucks h t)) \<and>
     (case truck_route (trucks h t) of
        None \<Rightarrow> truck_location (trucks h t) = Some (view_start_location v)
      | Some q \<Rightarrow> \<exists>dep eta. view_departure_time v = Some dep \<and>
          eta_final (routes h q) = Some eta \<and> eta < dep \<and>
          path_end (path (routes h q)) = view_start_location v)"

lemma view_suits_route: "view_suits h t (route_view h r) = truck_suits h t r"
  by (cases "truck_route (trucks h t)") (simp_all add: view_suits_def truck_suits_def route_view_def)

lemma evaluate_truck_view_decides:
  assumes "view_distance_km v = Inr d"
  shows "decides (evaluate_truck_view h t v) (view_suits h t v)"
  unfolding evaluate_truck_view_def view_suits_def Let_def assms
  by (cases "truck_route (trucks h t)"; cases "view_departure_time v")
    (auto simp: decides_reject not_blank_Cons is_space_def code_def split: option.split)

theorem evaluate_truck_decides:
  assumes "route_ok (routes h r)"
  shows "decides (evaluate_truck h t r) (truck_suits h t r)"
proof -
  obtain d where "total_distance_km (routes h r) = Inr d"
    using total_distance_total [OF assms] by blast
  then have "view_distance_km (route_view h r) = Inr d" by (simp add: route_view_def)
  then show ?thesis
    unfolding evaluate_truck_def view_suits_route [symmetric] by (rule evaluate_truck_view_decides)
qed

end
