(* ===== verification/Routes.thy ===== *)
theory Routes
  imports Policies
begin

text \<open>
  The delivery route aggregate: the methods of \<open>src/domain/entities/delivery_route.py\<close>.  An
  operation that fails half way leaves the store as the code leaves it.
\<close>

section \<open>Construction\<close>

definition SPEED_KMPH :: int where
  "SPEED_KMPH = DEFAULT_SPEED_KMPH"

definition route_init :: "pyval list \<Rightarrow> pydatetime option \<Rightarrow> pyval \<Rightarrow> route result" where
  "route_init locs departure rid =
     res_bind (domain_require_positive_int rid) (\<lambda>i.
     res_bind (route_path_create locs) (\<lambda>p.
     res_bind (case departure of
                 None \<Rightarrow> Inr None
               | Some dep \<Rightarrow> res_bind (build_schedule p dep (PyInt SPEED_KMPH)) (\<lambda>s. Inr (Some s))) (\<lambda>sch.
       Inr \<lparr>route_id = i, path = p, route_truck = None, route_packages = [],
            route_status = (if departure \<noteq> None then SCHEDULED else PLANNED),
            schedule = sch, route_events = []\<rparr>)))"

definition route_create :: "pyval list \<Rightarrow> pydatetime option \<Rightarrow> pyval \<Rightarrow> time \<Rightarrow> rref action" where
  "route_create locs departure rid occurred_at h =
     (case route_init locs departure rid of
        Inl e \<Rightarrow> (Inl e, h)
      | Inr r \<Rightarrow>
          (let ref = next_ref h;
               h1 = h\<lparr>routes := (routes h)(ref := r), next_ref := Suc ref\<rparr>
           in (Inr ref, record_route_event ref
                 (RouteCreated (route_id r) (path r) (departure_time r) (route_status r)
                   (eta_final r) occurred_at) h1)))"

section \<open>Lifecycle\<close>

definition mark_started :: "rref \<Rightarrow> time \<Rightarrow> unit action" where
  "mark_started r occurred_at h =
     (let x = routes h r in
      if route_status x \<noteq> SCHEDULED then
        (Inl (DomainConflictError [MStr ''Route '', MInt (route_id x), MStr '' cannot start from status '',
           MStr (route_status_value (route_status x)), MStr ''.'']), h)
      else (Inr (), record_route_event r (RouteStarted (route_id x) (route_status x) IN_PROGRESS occurred_at)
              (upd_route r (\<lambda>x. x\<lparr>route_status := IN_PROGRESS\<rparr>) h)))"

definition mark_completed :: "rref \<Rightarrow> time \<Rightarrow> unit action" where
  "mark_completed r occurred_at h =
     (let x = routes h r in
      if route_status x \<noteq> SCHEDULED \<and> route_status x \<noteq> IN_PROGRESS then
        (Inl (DomainConflictError [MStr ''Route '', MInt (route_id x), MStr '' cannot complete from status '',
           MStr (route_status_value (route_status x)), MStr ''.'']), h)
      else
        (case (departure_time x, eta_final x) of
           (None, _) \<Rightarrow>
             (Inl (DomainConflictError [MStr ''Route '', MInt (route_id x),
                MStr '' cannot complete without a departure time.'']), h)
         | (_, None) \<Rightarrow>
             (Inl (DomainConflictError [MStr ''Route '', MInt (route_id x),
                MStr '' cannot complete without an expected completion time.'']), h)
         | (Some dep, Some eta) \<Rightarrow>
             (Inr (), record_route_event r
                (RouteCompleted (route_id x) (route_status x) COMPLETED dep eta occurred_at)
                (upd_route r (\<lambda>x. x\<lparr>route_status := COMPLETED\<rparr>) h))))"

definition record_route_removal :: "rref \<Rightarrow> int list \<Rightarrow> int option \<Rightarrow> time \<Rightarrow> heap \<Rightarrow> heap" where
  "record_route_removal r detached_package_ids released_truck_id occurred_at h =
     (let x = routes h r
      in record_route_event r
           (RouteRemoved (route_id x) (route_status x) (path x) (departure_time x) (eta_final x)
             detached_package_ids released_truck_id occurred_at) h)"

definition schedule_route :: "rref \<Rightarrow> pydatetime \<Rightarrow> time \<Rightarrow> unit action" where
  "schedule_route r departure occurred_at h =
     (let x = routes h r in
      if schedule x \<noteq> None then
        (Inl (DomainConflictError [MStr ''Route '', MInt (route_id x), MStr '' is already scheduled.'']), h)
      else
        (case build_schedule (path x) departure (PyInt SPEED_KMPH) of
           Inl e \<Rightarrow> (Inl e, h)
         | Inr s \<Rightarrow>
             (Inr (), record_route_event r
                (RouteScheduled (route_id x) (route_status x) SCHEDULED (departure_time x)
                  (dt_us departure) (eta_final x) (sched_eta_final s) occurred_at)
                (upd_route r (\<lambda>x. x\<lparr>schedule := Some s, route_status := SCHEDULED\<rparr>) h))))"

section \<open>Snapshots\<close>

record route_snapshot =
  rsnap_departure_time :: "time option"
  rsnap_status :: route_status
  rsnap_truck :: "tref option"
  rsnap_packages :: "pref list"

definition route_snapshot_state :: "route \<Rightarrow> route_snapshot" where
  "route_snapshot_state x =
     \<lparr>rsnap_departure_time = departure_time x, rsnap_status = route_status x,
      rsnap_truck = route_truck x, rsnap_packages = route_packages x\<rparr>"

text \<open>The schedule is not in the snapshot: it is computed again from the departure time.\<close>

definition route_restore_state :: "rref \<Rightarrow> route_snapshot \<Rightarrow> unit action" where
  "route_restore_state r s h =
     (case (case rsnap_departure_time s of
              None \<Rightarrow> Inr None
            | Some dep \<Rightarrow>
                res_bind (build_schedule (path (routes h r)) (naive dep) (PyInt SPEED_KMPH)) (\<lambda>sch. Inr (Some sch))) of
        Inl e \<Rightarrow> (Inl e, h)
      | Inr restored_schedule \<Rightarrow>
          (Inr (), upd_route r (\<lambda>x. x\<lparr>schedule := restored_schedule, route_status := rsnap_status s,
             route_truck := rsnap_truck s, route_packages := rsnap_packages s\<rparr>) h))"

section \<open>Queries\<close>

definition arrival_time_at :: "route \<Rightarrow> pyval \<Rightarrow> time result" where
  "arrival_time_at x city =
     (case schedule x of
        None \<Rightarrow> Inl (DomainConflictError [MStr ''Route not scheduled yet.''])
      | Some s \<Rightarrow> res_bind (location_code city) (sched_arrival_time_at s))"

definition route_includes_in_order :: "route \<Rightarrow> pyval \<Rightarrow> pyval \<Rightarrow> bool result" where
  "route_includes_in_order x start end = path_includes_in_order (path x) start end"

definition can_accept_package :: "heap \<Rightarrow> rref \<Rightarrow> pref \<Rightarrow> time \<Rightarrow> message option result" where
  "can_accept_package h r p now =
     res_bind (evaluate_package h r (packages h p) now) (\<lambda>decision. Inr (decision_message decision))"

definition has_package :: "heap \<Rightarrow> rref \<Rightarrow> pref \<Rightarrow> bool" where
  "has_package h r p \<longleftrightarrow>
     list_ex (\<lambda>q. package_id (packages h q) = package_id (packages h p)) (route_packages (routes h r))"

section \<open>Packages\<close>

definition update_expected_arrival :: "rref \<Rightarrow> pref \<Rightarrow> unit action" where
  "update_expected_arrival r p h =
     (case schedule (routes h r) of
        None \<Rightarrow> (Inr (), h)
      | Some s \<Rightarrow>
          (case sched_arrival_time_at s (pkg_end (packages h p)) of
             Inl e \<Rightarrow> (Inl e, h)
           | Inr t \<Rightarrow> (Inr (), upd_package p (\<lambda>x. x\<lparr>pkg_expected_arrival := Some t\<rparr>) h)))"

definition append_package :: "rref \<Rightarrow> pref \<Rightarrow> heap \<Rightarrow> heap" where
  "append_package r p h = upd_route r (\<lambda>x. x\<lparr>route_packages := route_packages x @ [p]\<rparr>) h"

definition assign_package :: "rref \<Rightarrow> pref \<Rightarrow> time \<Rightarrow> time \<Rightarrow> unit action" where
  "assign_package r p now occurred_at h =
     (if has_package h r p then (Inr (), h)
      else
        (case can_accept_package h r p now of
           Inl e \<Rightarrow> (Inl e, h)
         | Inr (Some m) \<Rightarrow> (Inl (DomainConflictError m), h)
         | Inr None \<Rightarrow>
             (let previous_route_id = map_option (\<lambda>q. route_id (routes h q)) (pkg_route (packages h p));
                  previous_expected_arrival = pkg_expected_arrival (packages h p)
              in act_bind (update_expected_arrival r p) (\<lambda>_. act_modify (\<lambda>h.
                   record_route_event r
                     (PackageAssignedToRoute (package_id (packages h p)) previous_route_id
                       (route_id (routes h r)) previous_expected_arrival
                       (pkg_expected_arrival (packages h p)) occurred_at) h))
                   (set_package_route p (Some r) (append_package r p h)))))"

text \<open>The loop of \<open>detach_package\<close> finds the first entry with the identifier.\<close>

fun find_package_index :: "heap \<Rightarrow> int \<Rightarrow> pref list \<Rightarrow> nat \<Rightarrow> (nat \<times> pref) option" where
  "find_package_index h i [] k = None"
| "find_package_index h i (p # ps) k =
     (if package_id (packages h p) = i then Some (k, p) else find_package_index h i ps (Suc k))"

definition pop_package :: "rref \<Rightarrow> nat \<Rightarrow> heap \<Rightarrow> heap" where
  "pop_package r i h =
     upd_route r (\<lambda>x. x\<lparr>route_packages := take i (route_packages x) @ drop (Suc i) (route_packages x)\<rparr>) h"

definition detach_package :: "rref \<Rightarrow> pref \<Rightarrow> package_detachment_reason \<Rightarrow> time \<Rightarrow> unit action" where
  "detach_package r p reason occurred_at h =
     (case find_package_index h (package_id (packages h p)) (route_packages (routes h r)) 0 of
        None \<Rightarrow> (Inl EntityNotFoundError, h)
      | Some (i, existing) \<Rightarrow>
          (case pkg_route (packages h existing) of
             None \<Rightarrow>
               (Inl (DomainConflictError [MStr ''Package '', MInt (package_id (packages h existing)),
                  MStr '' is present in route '', MInt (route_id (routes h r)),
                  MStr (CHR 0x27 # ''s package list but has no route reference.'')]), h)
           | Some q \<Rightarrow>
               (let x = packages h existing;
                    h1 = reset_assignment_state existing (pop_package r i h);
                    y = packages h1 existing
                in (Inr (), record_route_event r
                      (PackageDetachedFromRoute (package_id x) (route_id (routes h q)) None
                        (pkg_status x) (pkg_status y) (current_location x) (current_location y)
                        (pkg_expected_arrival x) (pkg_expected_arrival y) reason occurred_at) h1))))"

definition restore_package_link :: "rref \<Rightarrow> pref \<Rightarrow> bool \<Rightarrow> unit action" where
  "restore_package_link r p refresh_expected_arrival h =
     (if has_package h r p then (Inr (), h)
      else (let h1 = set_package_route p (Some r) (append_package r p h)
            in if refresh_expected_arrival then update_expected_arrival r p h1 else (Inr (), h1)))"

section \<open>The truck\<close>

definition assign_truck :: "rref \<Rightarrow> tref \<Rightarrow> time \<Rightarrow> unit action" where
  "assign_truck r t occurred_at h =
     (let x = routes h r; truck = trucks h t in
      case route_truck x of
        Some t' \<Rightarrow>
          (Inl (DomainConflictError [MStr ''Route '', MInt (route_id x), MStr '' already has truck '',
             MInt (vehicle_id (trucks h t')), MStr '' assigned.'']), h)
      | None \<Rightarrow>
          if \<not> is_free truck \<or> truck_route truck \<noteq> None then
            (Inl (DomainConflictError [MStr ''Truck '', MInt (vehicle_id truck),
               MStr '' is already assigned to a route.'']), h)
          else
            (case truck_location truck of
               None \<Rightarrow>
                 (Inl (DomainConflictError [MStr ''Truck '', MInt (vehicle_id truck),
                    MStr '' has no current location.'']), h)
             | Some loc \<Rightarrow>
                 (let h1 = upd_route r (\<lambda>x. x\<lparr>route_truck := Some t\<rparr>) (truck_assign t r h);
                      truck' = trucks h1 t
                  in (Inr (), record_route_event r
                        (TruckAssignedToRoute (vehicle_id truck) None (route_id x)
                          (truck_status truck) (truck_status truck') loc loc
                          (busy_from truck) (busy_from truck') (busy_until truck) (busy_until truck')
                          occurred_at) h1))))"

definition release_truck :: "rref \<Rightarrow> time \<Rightarrow> bool \<Rightarrow> truck_release_reason \<Rightarrow> time \<Rightarrow> bool action" where
  "release_truck r now force reason occurred_at h =
     (case route_truck (routes h r) of
        None \<Rightarrow> (Inr False, h)
      | Some t \<Rightarrow>
          (let truck = trucks h t; snap = truck_snapshot_state truck in
           case (tsnap_route snap, tsnap_location snap) of
             (None, _) \<Rightarrow>
               (Inl (DomainConflictError [MStr ''Truck '', MInt (vehicle_id truck),
                  MStr '' cannot be released if not assigned to a route first.'']), h)
           | (_, None) \<Rightarrow>
               (Inl (DomainConflictError [MStr ''Truck '', MInt (vehicle_id truck),
                  MStr '' has no current location.'']), h)
           | (Some q, Some loc) \<Rightarrow>
               (case truck_release t now force h of
                  (False, h1) \<Rightarrow> (Inr False, h1)
                | (True, h1) \<Rightarrow>
                    (case truck_location (trucks h1 t) of
                       None \<Rightarrow> (Inl PyRuntimeError, upd_truck t (truck_restore_state snap) h1)
                     | Some release_location \<Rightarrow>
                         (let h2 = upd_route r (\<lambda>x. x\<lparr>route_truck := None\<rparr>) h1;
                              truck' = trucks h2 t
                          in (Inr True, record_route_event r
                                (TruckReleasedFromRoute (vehicle_id truck) (route_id (routes h2 q))
                                  (map_option (\<lambda>q'. route_id (routes h2 q')) (truck_route truck'))
                                  (tsnap_status snap) (truck_status truck') loc release_location
                                  (tsnap_busy_from snap) (busy_from truck')
                                  (tsnap_busy_until snap) (busy_until truck') reason occurred_at) h2))))))"

section \<open>Constructed routes\<close>

lemma path_create_ok: "route_path_create locs = Inr p \<Longrightarrow> path_ok p"
  by (auto simp: route_path_create_def res_bind_Inr_iff route_path_iff)

theorem route_init_ok:
  assumes "route_init locs departure rid = Inr r"
  shows "route_ok r" "departure_time r = map_option dt_us departure" "route_truck r = None"
    "route_packages r = []" "route_status r = (if departure = None then PLANNED else SCHEDULED)"
    "route_events r = []" "rid = PyInt (route_id r)"
proof -
  from assms obtain i p sch where *: "route_path_create locs = Inr p" "0 < i" "rid = PyInt i"
    and sch: "(case departure of None \<Rightarrow> Inr None
      | Some dep \<Rightarrow> res_bind (build_schedule p dep (PyInt SPEED_KMPH)) (\<lambda>s. Inr (Some s))) = Inr sch"
    and r: "r = \<lparr>route_id = i, path = p, route_truck = None, route_packages = [],
      route_status = (if departure \<noteq> None then SCHEDULED else PLANNED), schedule = sch,
      route_events = []\<rparr>"
    by (auto simp: route_init_def res_bind_Inr_iff domain_require_positive_int_iff)
  show "route_ok r" "departure_time r = map_option dt_us departure"
    using * sch build_schedule_Inr path_create_ok [OF *(1)]
    by (auto simp: r route_ok_def departure_time_def res_bind_Inr_iff SPEED_KMPH_def
        split: option.splits)
  show "route_truck r = None" "route_packages r = []" "route_events r = []" "rid = PyInt (route_id r)"
    "route_status r = (if departure = None then PLANNED else SCHEDULED)"
    using * by (auto simp: r)
qed

section \<open>What a failed operation may have changed\<close>

text \<open>
  Between a snapshot and its restoration an operation may change the mutable attributes and
  record more events; the identity of the route stays.
\<close>

definition route_frame :: "route \<Rightarrow> route \<Rightarrow> bool" where
  "route_frame x y \<longleftrightarrow>
     route_id x = route_id y \<and> path x = path y \<and> (\<exists>es. route_events y = route_events x @ es)"

definition truck_frame :: "truck \<Rightarrow> truck \<Rightarrow> bool" where
  "truck_frame x y \<longleftrightarrow>
     vehicle_id x = vehicle_id y \<and> truck_name x = truck_name y \<and> capacity x = capacity y \<and>
     max_range x = max_range y"

lemma frame_refl [simp]: "route_frame x x" "truck_frame y y"
  by (simp_all add: route_frame_def truck_frame_def)

lemma route_frame_trans: "route_frame x y \<Longrightarrow> route_frame y z \<Longrightarrow> route_frame x z"
  by (auto simp: route_frame_def)

lemma truck_frame_trans: "truck_frame x y \<Longrightarrow> truck_frame y z \<Longrightarrow> truck_frame x z"
  by (auto simp: truck_frame_def)

text \<open>
  Restoring a snapshot and the event checkpoint gives back the very route that was captured,
  schedule included, although the snapshot does not hold the schedule.
\<close>

lemma route_restore_snapshot:
  assumes "route_ok x" and "route_frame x (routes h r)"
  shows "route_restore_state r (route_snapshot_state x) h =
    (Inr (), upd_route r (\<lambda>y. x\<lparr>route_events := route_events y\<rparr>) h)"
proof -
  have "schedule x = Some s \<Longrightarrow> build_schedule (path x) (naive (sched_departure_time s)) (PyInt SPEED_KMPH) = Inr s" for s
    using route_okD(7) [OF assms(1)] by (simp add: SPEED_KMPH_def)
  with assms(2) show ?thesis
    by (cases "schedule x")
      (auto simp: route_restore_state_def route_snapshot_state_def departure_time_def route_frame_def
        intro!: heap_eqI)
qed

theorem route_rollback:
  assumes "route_ok (routes h r)" and "route_frame (routes h r) (routes h' r)"
  shows "act_bind (route_restore_state r (route_snapshot_state (routes h r)))
      (\<lambda>_. restore_route_events r (event_checkpoint (route_events (routes h r)))) h'
    = (Inr (), upd_route r (\<lambda>_. routes h r) h')"
proof -
  obtain es where es: "route_events (routes h' r) = route_events (routes h r) @ es"
    using assms(2) by (auto simp: route_frame_def)
  show ?thesis
    using es by (auto simp: act_bind_def route_restore_snapshot [OF assms] restore_route_events_def
        put_route_events_def intro!: heap_eqI)
qed

section \<open>Status changes\<close>

lemma mark_started_iff:
  "mark_started r t h = (Inr (), h') \<longleftrightarrow>
     route_status (routes h r) = SCHEDULED \<and>
     h' = upd_route r (\<lambda>x. x\<lparr>route_status := IN_PROGRESS,
            route_events := route_events x @ [RouteStarted (route_id x) SCHEDULED IN_PROGRESS t]\<rparr>) h"
  by (auto simp: mark_started_def Let_def intro!: heap_eqI)

lemma mark_completed_iff:
  "mark_completed r t h = (Inr (), h') \<longleftrightarrow>
     (route_status (routes h r) = SCHEDULED \<or> route_status (routes h r) = IN_PROGRESS) \<and>
     (\<exists>s. schedule (routes h r) = Some s \<and>
        h' = upd_route r (\<lambda>x. x\<lparr>route_status := COMPLETED,
               route_events := route_events x @ [RouteCompleted (route_id x) (route_status x) COMPLETED
                 (sched_departure_time s) (sched_eta_final s) t]\<rparr>) h)"
  by (cases "schedule (routes h r)")
    (auto simp: mark_completed_def Let_def departure_time_def eta_final_def intro!: heap_eqI)

lemma status_change_fails:
  "mark_started r t h = (Inl e, h') \<Longrightarrow> h' = h \<and> (\<exists>m. e = DomainConflictError m)"
  "mark_completed r t h = (Inl e, h') \<Longrightarrow> h' = h \<and> (\<exists>m. e = DomainConflictError m)"
  "schedule_route r d t h = (Inl e, h') \<Longrightarrow> h' = h"
  by (auto simp: mark_started_def mark_completed_def schedule_route_def Let_def
      split: if_splits option.splits sum.splits)

section \<open>Assigning and detaching packages\<close>

lemma find_package_index_mem:
  assumes "p \<in> set ps" and "inj_on (\<lambda>q. package_id (packages h q)) (set ps)"
  shows "\<exists>j. find_package_index h (package_id (packages h p)) ps k = Some (k + j, p) \<and>
    take j ps @ drop (Suc j) ps = remove1 p ps"
  using assms
proof (induction ps arbitrary: k)
  case (Cons q ps)
  show ?case
  proof (cases "q = p")
    case True
    then show ?thesis by (intro exI [of _ 0]) simp
  next
    case False
    then have "package_id (packages h q) \<noteq> package_id (packages h p)" and p: "p \<in> set ps"
      using Cons.prems by (auto dest: inj_onD)
    moreover have "inj_on (\<lambda>q. package_id (packages h q)) (set ps)"
      using Cons.prems(2) by (auto intro: inj_on_subset)
    with Cons.IH [OF p, of "Suc k"] obtain j where
      "find_package_index h (package_id (packages h p)) ps (Suc k) = Some (Suc k + j, p)"
      "take j ps @ drop (Suc j) ps = remove1 p ps" by blast
    ultimately show ?thesis using False by (intro exI [of _ "Suc j"]) simp
  qed
qed simp

text \<open>The effect of a successful detachment on the store.\<close>

definition detached :: "rref \<Rightarrow> pref \<Rightarrow> domain_event \<Rightarrow> heap \<Rightarrow> heap" where
  "detached r p e h =
     record_route_event r e
       (upd_package p (\<lambda>x. x\<lparr>pkg_route := None, pkg_route_id := None, pkg_expected_arrival := None,
           pkg_status := TODO, pkg_location_field := Some (pkg_start x)\<rparr>)
         (upd_route r (\<lambda>x. x\<lparr>route_packages := remove1 p (route_packages x)\<rparr>) h))"

theorem detach_package_linked:
  assumes "p \<in> set (route_packages (routes h r))" and "pkg_route (packages h p) = Some r"
    and "inj_on (\<lambda>q. package_id (packages h q)) (set (route_packages (routes h r)))"
  shows "detach_package r p reason t h =
    (Inr (), detached r p
       (PackageDetachedFromRoute (package_id (packages h p)) (route_id (routes h r)) None
         (pkg_status (packages h p)) TODO (current_location (packages h p)) (pkg_start (packages h p))
         (pkg_expected_arrival (packages h p)) None reason t) h)"
proof -
  obtain j where j: "find_package_index h (package_id (packages h p)) (route_packages (routes h r)) 0
      = Some (j, p)"
    "take j (route_packages (routes h r)) @ drop (Suc j) (route_packages (routes h r))
      = remove1 p (route_packages (routes h r))"
    using find_package_index_mem [OF assms(1,3), of 0] by auto
  have "reset_assignment_state p (pop_package r j h) =
      upd_package p (\<lambda>x. x\<lparr>pkg_route := None, pkg_route_id := None, pkg_expected_arrival := None,
           pkg_status := TODO, pkg_location_field := Some (pkg_start x)\<rparr>)
         (upd_route r (\<lambda>x. x\<lparr>route_packages := remove1 p (route_packages x)\<rparr>) h)"
    using j(2) by (auto simp: reset_assignment_state_def pop_package_def set_package_route_def
        set_current_location_def intro!: heap_eqI)
  then show ?thesis
    using j(1) assms(2)
    by (simp add: detach_package_def Let_def detached_def current_location_def)
qed

lemma detach_package_fails:
  "detach_package r p reason t h = (Inl e, h') \<Longrightarrow> h' = h"
  by (auto simp: detach_package_def Let_def split: option.splits prod.splits)

text \<open>The effect of a successful assignment on the store.\<close>

definition assigned :: "rref \<Rightarrow> pref \<Rightarrow> time option \<Rightarrow> domain_event \<Rightarrow> heap \<Rightarrow> heap" where
  "assigned r p eta e h =
     record_route_event r e
       (upd_package p (\<lambda>x. x\<lparr>pkg_route := Some r, pkg_route_id := Some (route_id (routes h r)),
            pkg_expected_arrival := eta\<rparr>)
         (upd_route r (\<lambda>x. x\<lparr>route_packages := route_packages x @ [p]\<rparr>) h))"

definition new_expected_arrival :: "heap \<Rightarrow> rref \<Rightarrow> pref \<Rightarrow> time option" where
  "new_expected_arrival h r p =
     (case schedule (routes h r) of
        None \<Rightarrow> pkg_expected_arrival (packages h p)
      | Some s \<Rightarrow> arrival_times s (pkg_end (packages h p)))"

lemma sched_arrival_on_path:
  assumes "route_ok x" and "schedule x = Some s" and "c \<in> set (path x)"
  shows "\<exists>t. arrival_times s c = Some t \<and> sched_arrival_time_at s c = Inr t"
proof -
  from assms(3) obtain i where i: "i < length (path x)" "path x ! i = c" by (auto simp: in_set_conv_nth)
  then have "arrival_times s c = Some (stop_arrival_at (sched_stops s ! i))"
    using arrival_times_nth [OF route_okD(3) [OF assms(1,2)], of i] route_okD(5,6) [OF assms(1,2)]
    by simp
  then show ?thesis by (simp add: sched_arrival_time_at_def)
qed

theorem assign_package_cases:
  assumes "route_ok (routes h r)" and "\<not> has_package h r p"
  shows "\<not> package_fits h r (packages h p) now \<Longrightarrow>
      \<exists>m. assign_package r p now t h = (Inl (DomainConflictError m), h)"
    and "package_fits h r (packages h p) now \<Longrightarrow>
      assign_package r p now t h =
        (Inr (), assigned r p (new_expected_arrival h r p)
          (PackageAssignedToRoute (package_id (packages h p))
            (map_option (\<lambda>q. route_id (routes h q)) (pkg_route (packages h p)))
            (route_id (routes h r)) (pkg_expected_arrival (packages h p))
            (new_expected_arrival h r p) t) h)"
proof -
  obtain d where d: "evaluate_package h r (packages h p) now = Inr d" "decision_ok d"
    "accepted d \<longleftrightarrow> package_fits h r (packages h p) now"
    using evaluate_package_decides [OF assms(1)] unfolding decides_def by metis
  note msg = accepted_iff_message [OF d(2)]
  show "\<exists>m. assign_package r p now t h = (Inl (DomainConflictError m), h)"
    if "\<not> package_fits h r (packages h p) now"
    using that d msg assms(2) by (auto simp: assign_package_def can_accept_package_def)
  assume fits: "package_fits h r (packages h p) now"
  then have "pkg_end (packages h p) \<in> set (path (routes h r))"
    unfolding package_fits_def by (metis nth_mem)
  note arr = sched_arrival_on_path [OF assms(1) _ this]
  show "assign_package r p now t h =
        (Inr (), assigned r p (new_expected_arrival h r p)
          (PackageAssignedToRoute (package_id (packages h p))
            (map_option (\<lambda>q. route_id (routes h q)) (pkg_route (packages h p)))
            (route_id (routes h r)) (pkg_expected_arrival (packages h p))
            (new_expected_arrival h r p) t) h)"
  proof (cases "schedule (routes h r)")
    case None
    then show ?thesis using fits d msg assms(2)
      by (auto simp: assign_package_def can_accept_package_def Let_def act_bind_def
          update_expected_arrival_def new_expected_arrival_def assigned_def append_package_def
          set_package_route_def intro!: heap_eqI)
  next
    case (Some s)
    obtain u where u: "arrival_times s (pkg_end (packages h p)) = Some u"
        "sched_arrival_time_at s (pkg_end (packages h p)) = Inr u"
      using arr [OF Some] by blast
    show ?thesis using Some u fits d msg assms(2)
      by (auto simp: assign_package_def can_accept_package_def Let_def act_bind_def
          update_expected_arrival_def new_expected_arrival_def assigned_def append_package_def
          set_package_route_def intro!: heap_eqI)
  qed
qed

section \<open>Assigning and releasing trucks\<close>

definition truck_linked :: "rref \<Rightarrow> tref \<Rightarrow> domain_event \<Rightarrow> heap \<Rightarrow> heap" where
  "truck_linked r t e h =
     record_route_event r e
       (upd_truck t (\<lambda>x. x\<lparr>truck_route := Some r, truck_status := ON_THE_WAY,
            busy_from := departure_time (routes h r), busy_until := eta_final (routes h r),
            in_transit_to := None\<rparr>)
         (upd_route r (\<lambda>x. x\<lparr>route_truck := Some t\<rparr>) h))"

theorem assign_truck_iff:
  "assign_truck r t occurred_at h = (Inr (), h') \<longleftrightarrow>
     route_truck (routes h r) = None \<and> truck_status (trucks h t) = FREE \<and>
     truck_route (trucks h t) = None \<and>
     (\<exists>loc. truck_location (trucks h t) = Some loc \<and>
        h' = truck_linked r t
          (TruckAssignedToRoute (vehicle_id (trucks h t)) None (route_id (routes h r)) FREE ON_THE_WAY
             loc loc (busy_from (trucks h t)) (departure_time (routes h r))
             (busy_until (trucks h t)) (eta_final (routes h r)) occurred_at) h)"
  by (auto simp: assign_truck_def Let_def is_free_def truck_assign_def truck_linked_def
      departure_time_def eta_final_def split: option.splits intro!: heap_eqI)

lemma assign_truck_fails:
  "assign_truck r t occurred_at h = (Inl e, h') \<Longrightarrow> h' = h \<and> (\<exists>m. e = DomainConflictError m)"
  by (auto simp: assign_truck_def Let_def split: option.splits if_splits)

definition truck_unlinked :: "rref \<Rightarrow> tref \<Rightarrow> domain_event \<Rightarrow> heap \<Rightarrow> heap" where
  "truck_unlinked r t e h =
     record_route_event r e
       (upd_route r (\<lambda>x. x\<lparr>route_truck := None\<rparr>)
         (upd_truck t (\<lambda>x. x\<lparr>truck_location := Some (path_end (path (routes h r))), truck_route := None,
            truck_status := FREE, in_transit_to := None, busy_from := None, busy_until := None\<rparr>) h))"

text \<open>A linked truck is released exactly when forced or at the final arrival time.\<close>

definition release_due :: "route \<Rightarrow> time \<Rightarrow> bool \<Rightarrow> bool" where
  "release_due x now force \<longleftrightarrow>
     force \<or> (case eta_final x of None \<Rightarrow> False | Some eta \<Rightarrow> eta \<le> now)"

theorem release_truck_linked:
  assumes "route_truck (routes h r) = Some t" and "truck_route (trucks h t) = Some r"
    and "truck_location (trucks h t) = Some loc"
  shows "release_truck r now force reason occurred_at h =
    (if release_due (routes h r) now force
     then (Inr True, truck_unlinked r t
       (TruckReleasedFromRoute (vehicle_id (trucks h t)) (route_id (routes h r)) None
          (truck_status (trucks h t)) FREE loc (path_end (path (routes h r)))
          (busy_from (trucks h t)) None (busy_until (trucks h t)) None reason occurred_at) h)
     else (Inr False, h))"
proof -
  have "truck_release t now force h =
      (if release_due (routes h r) now force
       then (True, upd_truck t (\<lambda>x. x\<lparr>truck_location := Some (path_end (path (routes h r))),
          truck_route := None, truck_status := FREE, in_transit_to := None, busy_from := None,
          busy_until := None\<rparr>) h)
       else (False, h))"
    using assms(2) by (auto simp: truck_release_def release_due_def Let_def upd_truck_def
        split: option.splits)
  then show ?thesis
    using assms
    by (simp add: release_truck_def truck_snapshot_state_def truck_unlinked_def Let_def)
qed

lemma release_truck_none:
  "route_truck (routes h r) = None \<Longrightarrow> release_truck r now force reason occurred_at h = (Inr False, h)"
  by (simp add: release_truck_def)

text \<open>
  After an assignment, a forced release undoes the link: the truck is free at the end of the route.
\<close>

lemma assign_release:
  assumes "assign_truck r t o1 h = (Inr (), h1)"
  shows "\<exists>h2. release_truck r now True reason o2 h1 = (Inr True, h2) \<and>
    route_truck (routes h2 r) = None \<and> truck_route (trucks h2 t) = None \<and>
    truck_status (trucks h2 t) = FREE \<and>
    truck_location (trucks h2 t) = Some (path_end (path (routes h r)))"
  using assms unfolding assign_truck_iff
  by (auto simp: release_truck_linked truck_linked_def truck_unlinked_def release_due_def)

end
