(* ===== verification/World.thy ===== *)
theory World
  imports Routes
begin

text \<open>
  The consistency of the object graph: what must hold between the routes, packages and trucks
  that the system holds, and that the operations of the aggregates preserve it.
\<close>

section \<open>The world invariant\<close>

text \<open>
  A live route is well formed, its packages and its truck refer back to it, its packages fit its
  truck on every segment, and its status agrees with having a schedule.
\<close>

definition route_links_ok :: "pref set \<Rightarrow> tref set \<Rightarrow> heap \<Rightarrow> rref \<Rightarrow> bool" where
  "route_links_ok P T h r \<longleftrightarrow>
     route_ok (routes h r) \<and>
     (schedule (routes h r) = None \<longleftrightarrow> route_status (routes h r) = PLANNED) \<and>
     distinct (route_packages (routes h r)) \<and> set (route_packages (routes h r)) \<subseteq> P \<and>
     (\<forall>p \<in> set (route_packages (routes h r)). pkg_route (packages h p) = Some r \<and>
        path_includes_in_order (path (routes h r)) (PyStr (pkg_start (packages h p)))
          (PyStr (pkg_end (packages h p))) = Inr True) \<and>
     (case route_truck (routes h r) of
        None \<Rightarrow> True
      | Some t \<Rightarrow> t \<in> T \<and> truck_route (trucks h t) = Some r \<and> schedule (routes h r) \<noteq> None) \<and>
     truck_fits h r (route_maximum_segment_load h r None)"

text \<open>
  A live package is well formed; when assigned it is on the list of its live route, otherwise it
  waits at its start.
\<close>

definition package_links_ok :: "rref set \<Rightarrow> heap \<Rightarrow> pref \<Rightarrow> bool" where
  "package_links_ok R h p \<longleftrightarrow>
     package_ok (packages h p) \<and>
     (case pkg_route (packages h p) of
        None \<Rightarrow> pkg_route_id (packages h p) = None \<and> pkg_status (packages h p) = TODO \<and>
          current_location (packages h p) = pkg_start (packages h p) \<and>
          pkg_expected_arrival (packages h p) = None
      | Some r \<Rightarrow> r \<in> R \<and> p \<in> set (route_packages (routes h r)) \<and>
          pkg_route_id (packages h p) = Some (route_id (routes h r)))"

text \<open>
  A truck of the fleet knows where it is; it is free exactly when it has no route, otherwise its
  live route refers back to it and its busy window is the window of the route.
\<close>

definition truck_links_ok :: "rref set \<Rightarrow> heap \<Rightarrow> tref \<Rightarrow> bool" where
  "truck_links_ok R h t \<longleftrightarrow>
     truck_location (trucks h t) \<noteq> None \<and>
     (case truck_route (trucks h t) of
        None \<Rightarrow> truck_status (trucks h t) = FREE \<and> busy_from (trucks h t) = None \<and>
          busy_until (trucks h t) = None \<and> in_transit_to (trucks h t) = None
      | Some r \<Rightarrow> r \<in> R \<and> route_truck (routes h r) = Some t \<and>
          truck_status (trucks h t) = ON_THE_WAY \<and>
          busy_from (trucks h t) = departure_time (routes h r) \<and>
          busy_until (trucks h t) = eta_final (routes h r))"

definition world_ok :: "rref set \<Rightarrow> pref set \<Rightarrow> tref set \<Rightarrow> heap \<Rightarrow> bool" where
  "world_ok R P T h \<longleftrightarrow>
     (\<forall>r \<in> R. route_links_ok P T h r) \<and> (\<forall>p \<in> P. package_links_ok R h p) \<and>
     (\<forall>t \<in> T. truck_links_ok R h t) \<and>
     inj_on (\<lambda>r. route_id (routes h r)) R \<and> inj_on (\<lambda>p. package_id (packages h p)) P \<and>
     (\<forall>n. n \<in> R \<or> n \<in> P \<longrightarrow> n < next_ref h)"

lemma world_okD:
  assumes "world_ok R P T h"
  shows "r \<in> R \<Longrightarrow> route_links_ok P T h r" "p \<in> P \<Longrightarrow> package_links_ok R h p"
    "t \<in> T \<Longrightarrow> truck_links_ok R h t"
    "inj_on (\<lambda>r. route_id (routes h r)) R" "inj_on (\<lambda>p. package_id (packages h p)) P"
    "r \<in> R \<Longrightarrow> r < next_ref h" "p \<in> P \<Longrightarrow> p < next_ref h"
  using assms by (auto simp: world_ok_def)

lemma route_linksD:
  assumes "route_links_ok P T h r"
  shows "route_ok (routes h r)" "distinct (route_packages (routes h r))"
    "p \<in> set (route_packages (routes h r)) \<Longrightarrow> p \<in> P"
    "p \<in> set (route_packages (routes h r)) \<Longrightarrow> pkg_route (packages h p) = Some r"
    "route_truck (routes h r) = Some t \<Longrightarrow> t \<in> T \<and> truck_route (trucks h t) = Some r"
  using assms by (auto simp: route_links_ok_def)

lemma world_route_packages_inj:
  assumes "world_ok R P T h" and "r \<in> R"
  shows "inj_on (\<lambda>q. package_id (packages h q)) (set (route_packages (routes h r)))"
  using inj_on_subset [OF world_okD(5) [OF assms(1)]]
    route_linksD(3) [OF world_okD(1) [OF assms]] by blast

text \<open>An unassigned package is not on the list of any route, by object or by identifier.\<close>

lemma has_package_iff:
  assumes "world_ok R P T h" and "r \<in> R" and "p \<in> P"
  shows "has_package h r p \<longleftrightarrow> pkg_route (packages h p) = Some r"
proof -
  note w = world_okD [OF assms(1)]
  have "q = p" if "q \<in> set (route_packages (routes h r))"
    "package_id (packages h q) = package_id (packages h p)" for q
    using inj_onD [OF w(5) that(2)] route_linksD(3) [OF w(1) [OF assms(2)] that(1)] assms(3) by blast
  then have "has_package h r p \<longleftrightarrow> p \<in> set (route_packages (routes h r))"
    by (auto simp: has_package_def list_ex_iff)
  then show ?thesis
    using route_linksD(4) [OF w(1) [OF assms(2)]] w(2) [OF assms(3)]
    by (auto simp: package_links_ok_def)
qed

section \<open>Frame rules\<close>

text \<open>The load of a route depends only on its own packages.\<close>

lemma load_cong:
  assumes "path (routes h' r) = path (routes h r)"
    and "route_packages (routes h' r) = route_packages (routes h r)"
    and "\<And>p. p \<in> set (route_packages (routes h r)) \<Longrightarrow>
      package_load_of (packages h' p) = package_load_of (packages h p)"
  shows "route_maximum_segment_load h' r x = route_maximum_segment_load h r x"
  using assms by (simp add: route_maximum_segment_load_def cong: map_cong)

lemma truck_fits_cong:
  assumes "route_truck (routes h' r) = route_truck (routes h r)"
    and "schedule (routes h' r) = schedule (routes h r)" and "path (routes h' r) = path (routes h r)"
    and "\<And>t. truck_frame (trucks h t) (trucks h' t)"
  shows "truck_fits h' r x = truck_fits h r x"
  using assms by (auto simp: truck_fits_def truck_frame_def total_distance_km_def split: option.split)

lemma load_weights_ok:
  assumes "world_ok R P T h" and "r \<in> R"
  shows "list_all load_ok (map (\<lambda>p. package_load_of (packages h p)) (route_packages (routes h r)))"
  using route_linksD(3) [OF world_okD(1) [OF assms]] world_okD(2) [OF assms(1)]
  by (auto simp: list_all_iff load_ok_def package_load_of_def package_links_ok_def package_ok_def)

lemma route_ok_cong:
  "route_id y = route_id x \<Longrightarrow> path y = path x \<Longrightarrow> schedule y = schedule x \<Longrightarrow> route_ok y = route_ok x"
  by (cases "schedule x") (simp_all add: route_ok_def)

text \<open>
  An operation that leaves a route alone except for its events, and leaves alone what its
  invariant says of its packages and its truck, keeps its invariant.
\<close>

definition same_route :: "route \<Rightarrow> route \<Rightarrow> bool" where
  "same_route x y \<longleftrightarrow>
     route_id y = route_id x \<and> path y = path x \<and> route_truck y = route_truck x \<and>
     route_packages y = route_packages x \<and> route_status y = route_status x \<and> schedule y = schedule x"

lemma same_routeD:
  assumes "same_route x y"
  shows "route_id y = route_id x" "path y = path x" "route_truck y = route_truck x"
    "route_packages y = route_packages x" "route_status y = route_status x" "schedule y = schedule x"
    "departure_time y = departure_time x" "eta_final y = eta_final x" "route_ok y = route_ok x"
proof -
  show a: "route_id y = route_id x" "path y = path x" "route_truck y = route_truck x"
    "route_packages y = route_packages x" "route_status y = route_status x" "schedule y = schedule x"
    using assms unfolding same_route_def by blast+
  show "departure_time y = departure_time x" "eta_final y = eta_final x"
    unfolding departure_time_def eta_final_def a by (rule refl)+
  show "route_ok y = route_ok x" by (rule route_ok_cong [OF a(1,2,6)])
qed

lemma same_route_simps [simp]:
  "same_route x x" "same_route x (x\<lparr>route_events := es\<rparr>)"
  by (simp_all add: same_route_def)

definition same_cargo :: "package \<Rightarrow> package \<Rightarrow> bool" where
  "same_cargo x y \<longleftrightarrow>
     pkg_start y = pkg_start x \<and> pkg_end y = pkg_end x \<and> pkg_weight y = pkg_weight x \<and>
     pkg_route y = pkg_route x"

lemma same_cargo_refl [simp]: "same_cargo x x"
  by (simp add: same_cargo_def)

lemma route_links_frame:
  assumes q: "route_links_ok P T h q" and same: "same_route (routes h q) (routes h' q)"
    and cargo: "\<And>p. p \<in> set (route_packages (routes h q)) \<Longrightarrow> same_cargo (packages h p) (packages h' p)"
    and frame: "\<And>t. truck_frame (trucks h t) (trucks h' t)"
    and link: "\<And>t. route_truck (routes h q) = Some t \<Longrightarrow> truck_route (trucks h' t) = truck_route (trucks h t)"
    and sub: "set (route_packages (routes h q)) \<subseteq> P \<Longrightarrow> set (route_packages (routes h q)) \<subseteq> P'" "T \<subseteq> T'"
  shows "route_links_ok P' T' h' q"
proof -
  note s = same_routeD [OF same]
  have "route_maximum_segment_load h' q None = route_maximum_segment_load h q None"
    using cargo by (intro load_cong) (auto simp: s package_load_of_def same_cargo_def)
  moreover have "truck_fits h' q x = truck_fits h q x" for x
    by (rule truck_fits_cong) (simp_all add: s frame)
  ultimately show ?thesis
    using q link cargo sub unfolding route_links_ok_def s
    by (auto simp: same_cargo_def split: option.split)
qed

lemma package_links_frame:
  assumes "package_links_ok R h p" and "packages h' p = packages h p"
    and "\<And>r. pkg_route (packages h p) = Some r \<Longrightarrow> r \<in> R \<Longrightarrow> p \<in> set (route_packages (routes h r)) \<Longrightarrow>
      r \<in> R' \<and> p \<in> set (route_packages (routes h' r)) \<and> route_id (routes h' r) = route_id (routes h r)"
  shows "package_links_ok R' h' p"
  using assms by (auto simp: package_links_ok_def split: option.splits)

lemma truck_links_frame:
  assumes "truck_links_ok R h t" and "trucks h' t = trucks h t"
    and "\<And>r. truck_route (trucks h t) = Some r \<Longrightarrow> r \<in> R \<Longrightarrow> route_truck (routes h r) = Some t \<Longrightarrow>
      r \<in> R' \<and> route_truck (routes h' r) = Some t \<and> departure_time (routes h' r) = departure_time (routes h r) \<and>
      eta_final (routes h' r) = eta_final (routes h r)"
  shows "truck_links_ok R' h' t"
  using assms by (auto simp: truck_links_ok_def split: option.splits)

section \<open>Assigning a package\<close>

lemma assigned_store:
  "routes (assigned r p eta e h) q =
     (if q = r then (routes h r)\<lparr>route_packages := route_packages (routes h r) @ [p],
                                route_events := route_events (routes h r) @ [e]\<rparr> else routes h q)"
  "packages (assigned r p eta e h) x =
     (if x = p then (packages h p)\<lparr>pkg_route := Some r, pkg_route_id := Some (route_id (routes h r)),
                                  pkg_expected_arrival := eta\<rparr> else packages h x)"
  "trucks (assigned r p eta e h) = trucks h" "customers (assigned r p eta e h) = customers h"
  "next_ref (assigned r p eta e h) = next_ref h"
  by (simp_all add: assigned_def)

lemma assigned_route_links:
  assumes w: "world_ok R P T h" and r: "r \<in> R" and p: "p \<in> P"
    and new: "p \<notin> set (route_packages (routes h r))"
    and fits: "package_fits h r (packages h p) now"
  shows "route_links_ok P T (assigned r p eta e h) r"
proof -
  let ?h = "assigned r p eta e h"
  note rl = world_okD(1) [OF w r]
  have pok: "path_ok (path (routes h r))" using route_okD(2) [OF route_linksD(1) [OF rl]] .
  from fits obtain i j where ij: "i < j" "j < length (path (routes h r))"
    "path (routes h r) ! i = pkg_start (packages h p)" "path (routes h r) ! j = pkg_end (packages h p)"
    unfolding package_fits_def by blast
  have idx: "index_dict (path (routes h r)) (pkg_start (packages h p)) = Some i"
    "index_dict (path (routes h r)) (pkg_end (packages h p)) = Some j"
    using ij path_okD(2) [OF pok] by (auto simp: index_dict_Some_iff)
  have on: "pkg_start (packages h p) \<in> set (path (routes h r))"
      "pkg_end (packages h p) \<in> set (path (routes h r))"
    using ij by (metis nth_mem order.strict_trans)+
  have ordered: "path_includes_in_order (path (routes h r)) (PyStr (pkg_start (packages h p)))
      (PyStr (pkg_end (packages h p))) = Inr True"
    using path_includes_in_order_iff [OF pok on] idx ij(1) by simp
  have loads: "map (\<lambda>q. package_load_of (packages ?h q)) (route_packages (routes h r) @ [p]) =
      map (\<lambda>q. package_load_of (packages h q)) (route_packages (routes h r)) @ [package_load_of (packages h p)]"
    by (auto simp: assigned_store package_load_of_def)
  have "route_maximum_segment_load ?h r None = maximum_segment_load (path (routes h r))
      (map (\<lambda>q. package_load_of (packages ?h q)) (route_packages (routes h r) @ [p])) None"
    by (simp add: route_maximum_segment_load_def assigned_store(1) del: map_append)
  also have "\<dots> = route_maximum_segment_load h r (Some (packages h p))"
    unfolding loads maximum_segment_load_None by (simp add: route_maximum_segment_load_def)
  finally have "route_maximum_segment_load ?h r None = route_maximum_segment_load h r (Some (packages h p))" .
  moreover have "truck_fits ?h r x = truck_fits h r x" for x
    by (rule truck_fits_cong) (simp_all add: assigned_store)
  moreover have "route_ok (routes ?h r) = route_ok (routes h r)"
    by (rule route_ok_cong) (simp_all add: assigned_store)
  ultimately show ?thesis
    using rl fits new p ordered unfolding route_links_ok_def package_fits_def
    by (auto simp: assigned_store split: option.splits)
qed

lemma assigned_world:
  assumes w: "world_ok R P T h" and r: "r \<in> R" and p: "p \<in> P"
    and free: "pkg_route (packages h p) = None" and fits: "package_fits h r (packages h p) now"
  shows "world_ok R P T (assigned r p eta e h)"
proof -
  let ?h = "assigned r p eta e h"
  note wD = world_okD [OF w]
  have out: "p \<notin> set (route_packages (routes h q))" if "q \<in> R" for q
    using route_linksD(4) [OF wD(1) [OF that]] free by auto
  have "route_links_ok P T ?h q" if q: "q \<in> R" for q
  proof (cases "q = r")
    case True
    then show ?thesis using assigned_route_links [OF w r p out [OF r] fits] by simp
  next
    case False
    show ?thesis
      by (rule route_links_frame [OF wD(1) [OF q]]) (use False out [OF q] in \<open>auto simp: assigned_store\<close>)
  qed
  moreover have "package_links_ok R ?h x" if x: "x \<in> P" for x
  proof (cases "x = p")
    case True
    then show ?thesis using wD(2) [OF p] r
      by (simp add: package_links_ok_def package_ok_def assigned_store)
  next
    case False
    show ?thesis
      by (rule package_links_frame [OF wD(2) [OF x]]) (use False in \<open>auto simp: assigned_store\<close>)
  qed
  moreover have "truck_links_ok R ?h t" if "t \<in> T" for t
    by (rule truck_links_frame [OF wD(3) [OF that]])
      (auto simp: assigned_store departure_time_def eta_final_def)
  moreover have "inj_on (\<lambda>q. route_id (routes ?h q)) R = inj_on (\<lambda>q. route_id (routes h q)) R"
    by (rule inj_on_cong) (simp add: assigned_store)
  moreover have "inj_on (\<lambda>x. package_id (packages ?h x)) P = inj_on (\<lambda>x. package_id (packages h x)) P"
    by (rule inj_on_cong) (simp add: assigned_store)
  ultimately show ?thesis
    using wD unfolding world_ok_def by (auto simp: assigned_store(5))
qed

theorem assign_package_world:
  assumes w: "world_ok R P T h" and r: "r \<in> R" and p: "p \<in> P"
    and free: "pkg_route (packages h p) = None"
    and run: "assign_package r p now t h = (res, h')"
  shows "world_ok R P T h' \<and>
    (case res of
       Inl e \<Rightarrow> h' = h \<and> (\<exists>m. e = DomainConflictError m)
     | Inr _ \<Rightarrow> pkg_route (packages h' p) = Some r \<and> package_fits h r (packages h p) now)"
proof -
  have rok: "route_ok (routes h r)" using world_okD(1) [OF w r] by (rule route_linksD)
  have nh: "\<not> has_package h r p" using has_package_iff [OF w r p] free by simp
  show ?thesis
  proof (cases "package_fits h r (packages h p) now")
    case False
    then show ?thesis using assign_package_cases(1) [OF rok nh False, of t] run w by auto
  next
    case True
    then show ?thesis
      using assign_package_cases(2) [OF rok nh True, of t] run assigned_world [OF w r p free True]
      by (auto simp: assigned_store)
  qed
qed

section \<open>Detaching a package\<close>

lemma detached_store:
  "routes (detached r p e h) q =
     (if q = r then (routes h r)\<lparr>route_packages := remove1 p (route_packages (routes h r)),
                                route_events := route_events (routes h r) @ [e]\<rparr> else routes h q)"
  "packages (detached r p e h) x =
     (if x = p then (packages h p)\<lparr>pkg_route := None, pkg_route_id := None, pkg_expected_arrival := None,
          pkg_status := TODO, pkg_location_field := Some (pkg_start (packages h p))\<rparr> else packages h x)"
  "trucks (detached r p e h) = trucks h" "customers (detached r p e h) = customers h"
  "next_ref (detached r p e h) = next_ref h"
  by (simp_all add: detached_def)

text \<open>Taking a load off a route does not raise the load of any segment.\<close>

lemma foldl_add_remove:
  assumes "list_all f64_ok (xs @ w # ys)"
  shows "foldl f64_add 0 (xs @ ys) \<le> foldl f64_add 0 (xs @ w # ys)"
proof -
  have mono: "foldl f64_add a zs \<le> foldl f64_add b zs" if "a \<le> b" for a b zs
    using that by (induction zs arbitrary: a b) (auto intro: f64_add_mono)
  have "f64_ok (foldl f64_add 0 xs)" using assms by (intro foldl_f64_add_ok) auto
  then show ?thesis
    using assms by (auto intro!: mono f64_add_increasing dest: f64_okD)
qed

lemma segment_load_remove1:
  assumes "list_all load_ok (map f ps)"
  shows "segment_load locs (map f (remove1 p ps)) k \<le> segment_load locs (map f ps) k"
proof (cases "p \<in> set ps")
  case True
  then obtain xs ys where ps: "ps = xs @ p # ys" "p \<notin> set xs" by (meson split_list_first)
  let ?w = "\<lambda>zs. map load_weight (filter (\<lambda>q. on_board locs q k) (map f zs))"
  have ok: "list_all f64_ok (?w zs)" if "set zs \<subseteq> set ps" for zs
    using that assms by (auto simp: list_all_iff load_ok_def)
  show ?thesis
  proof (cases "on_board locs (f p) k")
    case True
    have "list_all f64_ok (?w xs @ load_weight (f p) # ?w ys)"
      using ok [of xs] ok [of ys] assms ps by (auto simp: load_ok_def)
    from foldl_add_remove [OF this] show ?thesis
      using True ps by (simp add: segment_load_def remove1_append)
  next
    case False
    then show ?thesis using ps by (simp add: segment_load_def remove1_append)
  qed
qed (simp add: remove1_idem)

lemma maximum_load_remove1:
  assumes "list_all load_ok (map f ps)"
  shows "maximum_segment_load locs (map f (remove1 p ps)) None \<le> maximum_segment_load locs (map f ps) None"
  unfolding maximum_segment_load_eq option.case append_Nil2
  by (rule py_max_mono) (simp add: list_all2_conv_all_nth segment_load_remove1 assms)

lemma maximum_load_le_inf:
  assumes "list_all load_ok ps"
  shows "maximum_segment_load locs ps None \<le> f64_inf"
proof -
  have "0 \<le> f64_inf" by (simp add: f64_inf_def)
  then show ?thesis
    unfolding maximum_segment_load_le_iff [OF \<open>0 \<le> f64_inf\<close>]
    using segment_load_ok [OF assms] by (auto dest: f64_okD(2))
qed

lemma truck_fits_le: "truck_fits h r y \<Longrightarrow> x \<le> y \<Longrightarrow> y \<le> f64_inf \<Longrightarrow> truck_fits h r x"
  by (auto simp: truck_fits_def f64_gt_int_def split: option.splits)

lemma detached_world:
  assumes w: "world_ok R P T h" and r: "r \<in> R" and p: "p \<in> P" and on: "pkg_route (packages h p) = Some r"
  shows "world_ok R P T (detached r p e h)"
proof -
  let ?h = "detached r p e h"
  note wD = world_okD [OF w]
  have out: "p \<notin> set (route_packages (routes h q))" if "q \<in> R" "q \<noteq> r" for q
    using route_linksD(4) [OF wD(1) [OF that(1)]] on that(2) by auto
  have "route_links_ok P T ?h q" if q: "q \<in> R" for q
  proof (cases "q = r")
    case True
    note rl = wD(1) [OF r]
    let ?ps = "route_packages (routes h r)"
    have d: "distinct ?ps" using rl by (rule route_linksD)
    have loads: "map (\<lambda>x. package_load_of (packages ?h x)) (remove1 p ?ps) =
        map (\<lambda>x. package_load_of (packages h x)) (remove1 p ?ps)"
      using d by (auto simp: detached_store)
    have "route_maximum_segment_load ?h r None = maximum_segment_load (path (routes h r))
        (map (\<lambda>x. package_load_of (packages ?h x)) (remove1 p ?ps)) None"
      by (simp add: route_maximum_segment_load_def detached_store(1))
    then have "route_maximum_segment_load ?h r None \<le> route_maximum_segment_load h r None"
      using maximum_load_remove1 [OF load_weights_ok [OF w r]]
      unfolding loads by (simp add: route_maximum_segment_load_def)
    moreover have "route_maximum_segment_load h r None \<le> f64_inf"
      using maximum_load_le_inf [OF load_weights_ok [OF w r]] by (simp add: route_maximum_segment_load_def)
    moreover have "truck_fits ?h r x = truck_fits h r x" for x
      by (rule truck_fits_cong) (simp_all add: detached_store)
    moreover have "route_ok (routes ?h r) = route_ok (routes h r)"
      by (rule route_ok_cong) (simp_all add: detached_store)
    ultimately show ?thesis
      using rl True truck_fits_le [of h r "route_maximum_segment_load h r None"]
      unfolding route_links_ok_def
      by (auto simp: detached_store split: option.splits)
  next
    case False
    show ?thesis
      by (rule route_links_frame [OF wD(1) [OF q]]) (use False out [OF q] in \<open>auto simp: detached_store\<close>)
  qed
  moreover have "package_links_ok R ?h x" if x: "x \<in> P" for x
  proof (cases "x = p")
    case True
    then show ?thesis using wD(2) [OF p]
      by (simp add: package_links_ok_def package_ok_def detached_store current_location_def)
  next
    case False
    show ?thesis
      by (rule package_links_frame [OF wD(2) [OF x]]) (use False in \<open>auto simp: detached_store\<close>)
  qed
  moreover have "truck_links_ok R ?h t" if "t \<in> T" for t
    by (rule truck_links_frame [OF wD(3) [OF that]])
      (auto simp: detached_store departure_time_def eta_final_def)
  moreover have "inj_on (\<lambda>q. route_id (routes ?h q)) R = inj_on (\<lambda>q. route_id (routes h q)) R"
    by (rule inj_on_cong) (simp add: detached_store)
  moreover have "inj_on (\<lambda>x. package_id (packages ?h x)) P = inj_on (\<lambda>x. package_id (packages h x)) P"
    by (rule inj_on_cong) (simp add: detached_store)
  ultimately show ?thesis
    using wD unfolding world_ok_def by (auto simp: detached_store(5))
qed

text \<open>Detaching never fails on an assigned package, and keeps the world consistent.\<close>

theorem detach_package_world:
  assumes w: "world_ok R P T h" and r: "r \<in> R" and p: "p \<in> P" and on: "pkg_route (packages h p) = Some r"
  shows "\<exists>e. detach_package r p reason t h = (Inr (), detached r p e h) \<and> world_ok R P T (detached r p e h)"
proof -
  have "p \<in> set (route_packages (routes h r))"
    using world_okD(2) [OF w p] on by (simp add: package_links_ok_def)
  from detach_package_linked [OF this on world_route_packages_inj [OF w r]]
  show ?thesis using detached_world [OF w r p on] by metis
qed

section \<open>Scheduling\<close>

text \<open>The distance of a route is the same before and after it is scheduled.\<close>

lemma build_legs_distance:
  "build_legs ps v d = Inr (segs, stops) \<Longrightarrow>
     sum_distances ps = Inr (sum_list (map seg_distance_km segs))"
  by (induction ps v d arbitrary: segs stops rule: build_legs.induct)
    (auto simp: Let_def res_bind_Inr_iff)

lemma build_schedule_distance:
  "build_schedule ls d v = Inr s \<Longrightarrow> sum_distances (py_pairwise ls) = Inr (sched_total_distance_km s)"
  by (auto simp: build_schedule_def res_bind_Inr_iff route_schedule_create_def Let_def
      sched_total_distance_km_def dest!: build_legs_distance split: if_splits)

definition scheduled :: "rref \<Rightarrow> route_schedule \<Rightarrow> domain_event \<Rightarrow> heap \<Rightarrow> heap" where
  "scheduled r s e h =
     record_route_event r e (upd_route r (\<lambda>x. x\<lparr>schedule := Some s, route_status := SCHEDULED\<rparr>) h)"

lemma schedule_route_iff:
  "schedule_route r d t h = (Inr (), h') \<longleftrightarrow>
     schedule (routes h r) = None \<and>
     (\<exists>s. build_schedule (path (routes h r)) d (PyInt SPEED_KMPH) = Inr s \<and>
        h' = scheduled r s (RouteScheduled (route_id (routes h r)) (route_status (routes h r)) SCHEDULED
               None (dt_us d) None (sched_eta_final s) t) h)"
  by (auto simp: schedule_route_def Let_def scheduled_def departure_time_def eta_final_def
      split: sum.splits)

lemma scheduled_store:
  "routes (scheduled r s e h) q =
     (if q = r then (routes h r)\<lparr>schedule := Some s, route_status := SCHEDULED,
                                route_events := route_events (routes h r) @ [e]\<rparr> else routes h q)"
  "packages (scheduled r s e h) = packages h" "trucks (scheduled r s e h) = trucks h"
  "customers (scheduled r s e h) = customers h" "next_ref (scheduled r s e h) = next_ref h"
  by (simp_all add: scheduled_def)

lemma world_okI:
  assumes w: "world_ok R P T h"
    and "\<And>r. r \<in> R \<Longrightarrow> route_links_ok P T h' r" and "\<And>p. p \<in> P \<Longrightarrow> package_links_ok R h' p"
    and "\<And>t. t \<in> T \<Longrightarrow> truck_links_ok R h' t"
    and id: "\<And>r. route_id (routes h' r) = route_id (routes h r)"
      "\<And>p. package_id (packages h' p) = package_id (packages h p)"
    and "next_ref h' = next_ref h"
  shows "world_ok R P T h'"
  using assms by (simp add: world_ok_def)

lemma world_no_truck:
  assumes "world_ok R P T h" and "t \<in> T" and "route_truck (routes h r) = None"
  shows "truck_route (trucks h t) \<noteq> Some r"
  using world_okD(3) [OF assms(1,2)] assms(3) by (auto simp: truck_links_ok_def)

theorem schedule_route_world:
  assumes w: "world_ok R P T h" and r: "r \<in> R" and run: "schedule_route r d t h = (Inr (), h')"
  shows "world_ok R P T h'" "truck_route (trucks h' x) = truck_route (trucks h x)"
    "departure_time (routes h' r) = Some (dt_us d)"
    "total_distance_km (routes h' r) = total_distance_km (routes h r)"
proof -
  note wD = world_okD [OF w]
  from run obtain s e where none: "schedule (routes h r) = None"
    and s: "build_schedule (path (routes h r)) d (PyInt SPEED_KMPH) = Inr s"
    and h': "h' = scheduled r s e h"
    unfolding schedule_route_iff by blast
  note b = build_schedule_Inr [OF s]
  have no_truck: "route_truck (routes h r) = None"
    using wD(1) [OF r] none by (auto simp: route_links_ok_def split: option.splits)
  have load: "route_maximum_segment_load h' q None = route_maximum_segment_load h q None" for q
    by (rule load_cong) (simp_all add: h' scheduled_store)
  show "world_ok R P T h'"
  proof (rule world_okI [OF w])
    fix q assume q: "q \<in> R"
    show "route_links_ok P T h' q"
    proof (cases "q = r")
      case True
      have "route_ok (routes h' r)"
        using route_linksD(1) [OF wD(1) [OF r]] b
        by (simp add: route_ok_def h' scheduled_store SPEED_KMPH_def)
      then show ?thesis
        using wD(1) [OF r] no_truck True
        by (simp add: route_links_ok_def truck_fits_def h' scheduled_store)
    next
      case False
      then show ?thesis
        by (intro route_links_frame [OF wD(1) [OF q]]) (auto simp: h' scheduled_store)
    qed
  next
    fix p assume "p \<in> P"
    then show "package_links_ok R h' p"
      by (intro package_links_frame [OF wD(2)]) (auto simp: h' scheduled_store)
  next
    fix u assume u: "u \<in> T"
    show "truck_links_ok R h' u"
      using world_no_truck [OF w u no_truck]
      by (intro truck_links_frame [OF wD(3) [OF u]]) (auto simp: h' scheduled_store)
  qed (simp_all add: h' scheduled_store)
  show "truck_route (trucks h' x) = truck_route (trucks h x)" by (simp add: h' scheduled_store)
  show "departure_time (routes h' r) = Some (dt_us d)"
    by (simp add: h' scheduled_store departure_time_def b(3))
  show "total_distance_km (routes h' r) = total_distance_km (routes h r)"
    using build_schedule_distance [OF s] none by (simp add: total_distance_km_def h' scheduled_store)
qed

section \<open>Assigning and releasing a truck\<close>

lemma truck_linked_store:
  "routes (truck_linked r t e h) q =
     (if q = r then (routes h r)\<lparr>route_truck := Some t,
                                route_events := route_events (routes h r) @ [e]\<rparr> else routes h q)"
  "packages (truck_linked r t e h) = packages h"
  "trucks (truck_linked r t e h) u =
     (if u = t then (trucks h t)\<lparr>truck_route := Some r, truck_status := ON_THE_WAY,
        busy_from := departure_time (routes h r), busy_until := eta_final (routes h r),
        in_transit_to := None\<rparr> else trucks h u)"
  "customers (truck_linked r t e h) = customers h" "next_ref (truck_linked r t e h) = next_ref h"
  by (simp_all add: truck_linked_def)

lemma world_truck_other:
  assumes "world_ok R P T h" and "q \<in> R" and "route_truck (routes h q) = Some u"
  shows "u \<in> T" "truck_route (trucks h u) = Some q"
  using route_linksD(5) [OF world_okD(1) [OF assms(1,2)] assms(3)] by auto

theorem truck_linked_world:
  assumes w: "world_ok R P T h" and r: "r \<in> R" and t: "t \<in> T"
    and free: "truck_route (trucks h t) = None" and none: "route_truck (routes h r) = None"
    and sch: "schedule (routes h r) \<noteq> None"
    and cap: "\<not> f64_gt_int (route_maximum_segment_load h r None) (capacity (trucks h t))"
    and range: "\<exists>d. total_distance_km (routes h r) = Inr d \<and> d \<le> max_range (trucks h t)"
  shows "world_ok R P T (truck_linked r t e h)" (is "world_ok R P T ?h")
proof (rule world_okI [OF w])
  note wD = world_okD [OF w]
  have load: "route_maximum_segment_load ?h q None = route_maximum_segment_load h q None" for q
    by (rule load_cong) (simp_all add: truck_linked_store)
  fix q assume q: "q \<in> R"
  show "route_links_ok P T ?h q"
  proof (cases "q = r")
    case True
    have "route_ok (routes ?h r) = route_ok (routes h r)"
      by (rule route_ok_cong) (simp_all add: truck_linked_store)
    moreover have "total_distance_km (routes ?h r) = total_distance_km (routes h r)"
      by (cases "schedule (routes h r)") (simp_all add: total_distance_km_def truck_linked_store)
    ultimately show ?thesis
      using wD(1) [OF r] t sch cap range True
      unfolding route_links_ok_def truck_fits_def load
      by (simp add: truck_linked_store)
  next
    case False
    show ?thesis
      by (rule route_links_frame [OF wD(1) [OF q]])
        (use False world_truck_other(2) [OF w q] free in \<open>auto simp: truck_linked_store truck_frame_def\<close>)
  qed
next
  fix p assume "p \<in> P"
  then show "package_links_ok R ?h p"
    by (intro package_links_frame [OF world_okD(2) [OF w]]) (auto simp: truck_linked_store)
next
  fix u assume u: "u \<in> T"
  show "truck_links_ok R ?h u"
  proof (cases "u = t")
    case True
    then show ?thesis
      using world_okD(3) [OF w t] r
      by (simp add: truck_links_ok_def truck_linked_store departure_time_def eta_final_def)
  next
    case False
    show ?thesis
      by (rule truck_links_frame [OF world_okD(3) [OF w u]])
        (use False none in \<open>auto simp: truck_linked_store departure_time_def eta_final_def\<close>)
  qed
qed (simp_all add: truck_linked_store)

lemma truck_unlinked_store:
  "routes (truck_unlinked r t e h) q =
     (if q = r then (routes h r)\<lparr>route_truck := None,
                                route_events := route_events (routes h r) @ [e]\<rparr> else routes h q)"
  "packages (truck_unlinked r t e h) = packages h"
  "trucks (truck_unlinked r t e h) u =
     (if u = t then (trucks h t)\<lparr>truck_location := Some (path_end (path (routes h r))),
        truck_route := None, truck_status := FREE, in_transit_to := None, busy_from := None,
        busy_until := None\<rparr> else trucks h u)"
  "customers (truck_unlinked r t e h) = customers h" "next_ref (truck_unlinked r t e h) = next_ref h"
  by (simp_all add: truck_unlinked_def)

theorem truck_unlinked_world:
  assumes w: "world_ok R P T h" and r: "r \<in> R" and t: "route_truck (routes h r) = Some t"
  shows "world_ok R P T (truck_unlinked r t e h)" (is "world_ok R P T ?h")
proof (rule world_okI [OF w])
  note wD = world_okD [OF w]
  note tr = world_truck_other [OF w r t]
  have load: "route_maximum_segment_load ?h q None = route_maximum_segment_load h q None" for q
    by (rule load_cong) (simp_all add: truck_unlinked_store)
  fix q assume q: "q \<in> R"
  show "route_links_ok P T ?h q"
  proof (cases "q = r")
    case True
    have "route_ok (routes ?h r) = route_ok (routes h r)"
      by (rule route_ok_cong) (simp_all add: truck_unlinked_store)
    then show ?thesis
      using wD(1) [OF r] True unfolding route_links_ok_def truck_fits_def
      by (simp add: truck_unlinked_store)
  next
    case False
    show ?thesis
      by (rule route_links_frame [OF wD(1) [OF q]])
        (use False world_truck_other(2) [OF w q] tr in \<open>auto simp: truck_unlinked_store truck_frame_def\<close>)
  qed
next
  fix p assume "p \<in> P"
  then show "package_links_ok R ?h p"
    by (intro package_links_frame [OF world_okD(2) [OF w]]) (auto simp: truck_unlinked_store)
next
  fix u assume u: "u \<in> T"
  show "truck_links_ok R ?h u"
  proof (cases "u = t")
    case True
    then show ?thesis by (simp add: truck_links_ok_def truck_unlinked_store)
  next
    case False
    show ?thesis
      by (rule truck_links_frame [OF world_okD(3) [OF w u]])
        (use False t in \<open>auto simp: truck_unlinked_store departure_time_def eta_final_def\<close>)
  qed
qed (simp_all add: truck_unlinked_store)

text \<open>
  Releasing a truck from a live route never raises: it is a no-op, or it releases, exactly when
  forced or due.
\<close>

theorem release_truck_world:
  assumes w: "world_ok R P T h" and r: "r \<in> R"
    and run: "release_truck r now force reason occurred_at h = (res, h')"
  shows "world_ok R P T h' \<and>
    (if route_truck (routes h r) \<noteq> None \<and> release_due (routes h r) now force
     then res = Inr True \<and> route_truck (routes h' r) = None
     else res = Inr False \<and> h' = h)"
proof (cases "route_truck (routes h r)")
  case None
  then show ?thesis using run w by (simp add: release_truck_none)
next
  case (Some t)
  note tr = world_truck_other [OF w r Some]
  obtain loc where loc: "truck_location (trucks h t) = Some loc"
    using world_okD(3) [OF w tr(1)] by (auto simp: truck_links_ok_def)
  show ?thesis
    using run w Some truck_unlinked_world [OF w r Some]
    by (auto simp: release_truck_linked [OF Some tr(2) loc] truck_unlinked_store split: if_splits)
qed

section \<open>New and removed objects\<close>

lemma world_new_route:
  assumes w: "world_ok R P T h" and x: "route_ok x" "route_truck x = None" "route_packages x = []"
    "schedule x = None \<longleftrightarrow> route_status x = PLANNED"
    and fresh: "\<And>q. q \<in> R \<Longrightarrow> route_id (routes h q) \<noteq> route_id x"
    and h': "routes h' = (routes h)(next_ref h := x)" "packages h' = packages h" "trucks h' = trucks h"
      "next_ref h' = Suc (next_ref h)"
  shows "world_ok (insert (next_ref h) R) P T h'"
proof -
  note wD = world_okD [OF w]
  have old: "q \<noteq> next_ref h" if "q \<in> R" for q using wD(6) [OF that] by auto
  have "route_links_ok P T h' q" if "q \<in> insert (next_ref h) R" for q
  proof (cases "q = next_ref h")
    case True
    then show ?thesis using x by (simp add: route_links_ok_def h' truck_fits_def)
  next
    case False
    with that have "q \<in> R" by simp
    then show ?thesis by (intro route_links_frame [OF wD(1)]) (use False in \<open>auto simp: h'\<close>)
  qed
  moreover have "package_links_ok (insert (next_ref h) R) h' p" if "p \<in> P" for p
    by (rule package_links_frame [OF wD(2) [OF that]]) (use old in \<open>auto simp: h'\<close>)
  moreover have "truck_links_ok (insert (next_ref h) R) h' t" if "t \<in> T" for t
    by (rule truck_links_frame [OF wD(3) [OF that]]) (use old in \<open>auto simp: h'\<close>)
  moreover have "inj_on (\<lambda>r. route_id (routes h' r)) (insert (next_ref h) R)"
    using wD(4) fresh old unfolding inj_on_def by (metis fun_upd_apply h'(1) insert_iff)
  ultimately show ?thesis
    using wD(5-7) unfolding world_ok_def by (auto simp: h' less_Suc_eq)
qed

lemma world_new_package:
  assumes w: "world_ok R P T h" and x: "package_ok x" "pkg_route x = None" "pkg_route_id x = None"
    "pkg_status x = TODO" "current_location x = pkg_start x" "pkg_expected_arrival x = None"
    and fresh: "\<And>q. q \<in> P \<Longrightarrow> package_id (packages h q) \<noteq> package_id x"
    and h': "packages h' = (packages h)(next_ref h := x)" "routes h' = routes h" "trucks h' = trucks h"
      "next_ref h' = Suc (next_ref h)"
  shows "world_ok R (insert (next_ref h) P) T h'"
proof -
  note wD = world_okD [OF w]
  have old: "q \<noteq> next_ref h" if "q \<in> P" for q using wD(7) [OF that] by auto
  have "route_links_ok (insert (next_ref h) P) T h' q" if "q \<in> R" for q
    by (rule route_links_frame [OF wD(1) [OF that]])
      (use old route_linksD(3) [OF wD(1) [OF that]] in \<open>auto simp: h'\<close>)
  moreover have "package_links_ok R h' p" if "p \<in> insert (next_ref h) P" for p
  proof (cases "p = next_ref h")
    case True
    then show ?thesis using x by (simp add: package_links_ok_def h')
  next
    case False
    with that have "p \<in> P" by simp
    then show ?thesis by (intro package_links_frame [OF wD(2)]) (use False in \<open>auto simp: h'\<close>)
  qed
  moreover have "truck_links_ok R h' t" if "t \<in> T" for t
    by (rule truck_links_frame [OF wD(3) [OF that]]) (auto simp: h')
  moreover have "inj_on (\<lambda>p. package_id (packages h' p)) (insert (next_ref h) P)"
    using wD(5) fresh old unfolding inj_on_def by (metis fun_upd_apply h'(1) insert_iff)
  ultimately show ?thesis
    using wD(4,6,7) unfolding world_ok_def by (auto simp: h' less_Suc_eq)
qed

lemma world_remove_route:
  assumes w: "world_ok R P T h" and none: "route_packages (routes h r) = []"
    "route_truck (routes h r) = None"
  shows "world_ok (R - {r}) P T h"
proof -
  note wD = world_okD [OF w]
  have "package_links_ok (R - {r}) h p" if "p \<in> P" for p
    by (rule package_links_frame [OF wD(2) [OF that]]) (use none in auto)
  moreover have "truck_links_ok (R - {r}) h t" if "t \<in> T" for t
    by (rule truck_links_frame [OF wD(3) [OF that]]) (use none in auto)
  moreover have "inj_on (\<lambda>r. route_id (routes h r)) (R - {r})"
    using wD(4) by (rule inj_on_subset) auto
  ultimately show ?thesis using wD unfolding world_ok_def by auto
qed

lemma world_remove_package:
  assumes w: "world_ok R P T h" and p: "p \<in> P" and none: "pkg_route (packages h p) = None"
  shows "world_ok R (P - {p}) T h"
proof -
  note wD = world_okD [OF w]
  have "route_links_ok (P - {p}) T h q" if "q \<in> R" for q
    by (rule route_links_frame [OF wD(1) [OF that]])
      (use none route_linksD(3,4) [OF wD(1) [OF that]] in auto)
  moreover have "inj_on (\<lambda>p. package_id (packages h p)) (P - {p})"
    using wD(5) by (rule inj_on_subset) auto
  ultimately show ?thesis using wD unfolding world_ok_def by auto
qed

end
