(* ===== verification/Reconciliation.thy ===== *)
theory Reconciliation
  imports World
begin

text \<open>
  Runtime reconciliation: \<open>src/application/services/world_state_reconciliation_service.py\<close> derives
  route status, package progress and truck positions from the schedules; the events of
  \<open>src/application/events/reconciliation_events.py\<close> describe its direct repairs, and
  \<open>src/application/results/heartbeat_summary_result.py\<close> its result.
\<close>

section \<open>Events and results\<close>

datatype route_reconciliation_reason =
    MISSING_DEPARTURE_TIME
  | MISSING_EXPECTED_COMPLETION_TIME
  | BEFORE_SCHEDULED_DEPARTURE

datatype package_reconciliation_reason =
    ROUTE_UNSCHEDULED
  | ROUTE_PATH_INVALID
  | BEFORE_SCHEDULED_PICKUP
  | MISSING_PICKUP_TIME
  | LIFECYCLE_STATE_INCONSISTENT
  | ROUTE_PROGRESS_ADVANCED
  | EXPECTED_ARRIVAL_RECALCULATED

datatype reconciliation_event =
    RouteStateReconciled int route_status route_status "time option" "time option"
      route_reconciliation_reason time
  | PackageStateReconciled int "int option" item_status item_status location location
      "time option" "time option" "time option" "time option"
      (event_reasons: "package_reconciliation_reason list") time
  | TruckPositionReconciled int "int option" "location option" "location option"
      "location option" "location option" position_kind time
  | TruckRouteReferenceReconciled int "int option" int time

text \<open>\<open>PackageStateReconciled.__post_init__\<close>\<close>

definition check_reasons :: "package_reconciliation_reason list \<Rightarrow> unit result" where
  "check_reasons reasons =
     (if reasons = [] then Inl PyValueError
      else if length (remdups reasons) \<noteq> length reasons then Inl PyValueError
      else Inr ())"

record truck_summary =
  ts_moved :: "tref list"
  ts_released :: "tref list"
  ts_reconciled :: "tref list"
  ts_events :: "reconciliation_event list"

definition empty_truck_summary :: truck_summary where
  "empty_truck_summary = \<lparr>ts_moved = [], ts_released = [], ts_reconciled = [], ts_events = []\<rparr>"

record heartbeat_summary =
  mutated_routes :: "rref list"
  mutated_packages :: "pref list"
  mutated_trucks_moved :: "tref list"
  mutated_trucks_released :: "tref list"
  mutated_trucks_reconciled :: "tref list"
  reconciliation_events :: "reconciliation_event list"

definition empty_summary :: heartbeat_summary where
  "empty_summary = \<lparr>mutated_routes = [], mutated_packages = [], mutated_trucks_moved = [],
     mutated_trucks_released = [], mutated_trucks_reconciled = [], reconciliation_events = []\<rparr>"

definition state_changed :: "heartbeat_summary \<Rightarrow> bool" where
  "state_changed s \<longleftrightarrow>
     mutated_routes s \<noteq> [] \<or> mutated_packages s \<noteq> [] \<or> mutated_trucks_moved s \<noteq> [] \<or>
     mutated_trucks_released s \<noteq> [] \<or> mutated_trucks_reconciled s \<noteq> []"

text \<open>\<open>event_recorders\<close>: each changed route and package once, routes first.\<close>

datatype recorder = RouteRec rref | PackageRec pref | CustomerRec cref

fun first_occurrences :: "'a list \<Rightarrow> 'a list \<Rightarrow> 'a list" where
  "first_occurrences seen [] = []"
| "first_occurrences seen (x # xs) =
     (if x \<in> set seen then first_occurrences seen xs else x # first_occurrences (x # seen) xs)"

definition event_recorders :: "heartbeat_summary \<Rightarrow> recorder list" where
  "event_recorders s =
     first_occurrences [] (map RouteRec (mutated_routes s) @ map PackageRec (mutated_packages s))"

section \<open>Route status\<close>

definition compute_route_status ::
    "route \<Rightarrow> time \<Rightarrow> route_status \<times> route_reconciliation_reason option" where
  "compute_route_status x now =
     (case departure_time x of
        None \<Rightarrow> (PLANNED, Some MISSING_DEPARTURE_TIME)
      | Some dep \<Rightarrow>
          (case eta_final x of
             None \<Rightarrow> (SCHEDULED, Some MISSING_EXPECTED_COMPLETION_TIME)
           | Some eta \<Rightarrow>
               if now < dep then (SCHEDULED, Some BEFORE_SCHEDULED_DEPARTURE)
               else if eta \<le> now then (COMPLETED, None)
               else (IN_PROGRESS, None)))"

definition apply_route_status ::
    "rref \<Rightarrow> route_status \<Rightarrow> route_reconciliation_reason option \<Rightarrow> time \<Rightarrow>
       reconciliation_event option action" where
  "apply_route_status r new_status reason occurred_at h =
     (let x = routes h r in
      if new_status = IN_PROGRESS then
        (case departure_time x of
           None \<Rightarrow> (Inl PyRuntimeError, h)
         | Some dep \<Rightarrow> act_bind (mark_started r dep) (\<lambda>_. act_return None) h)
      else if new_status = COMPLETED then
        (case eta_final x of
           None \<Rightarrow> (Inl PyRuntimeError, h)
         | Some eta \<Rightarrow> act_bind (mark_completed r eta) (\<lambda>_. act_return None) h)
      else
        (case reason of
           None \<Rightarrow> (Inl PyRuntimeError, h)
         | Some why \<Rightarrow>
             (Inr (Some (RouteStateReconciled (route_id x) (route_status x) new_status
                (departure_time x) (eta_final x) why occurred_at)),
              upd_route r (\<lambda>x. x\<lparr>route_status := new_status\<rparr>) h)))"

section \<open>The truck of a route\<close>

definition set_truck_unscheduled :: "tref \<Rightarrow> heap \<Rightarrow> bool \<times> heap" where
  "set_truck_unscheduled t h =
     (if in_transit_to (trucks h t) = None then (False, h)
      else (True, upd_truck t (\<lambda>x. x\<lparr>in_transit_to := None\<rparr>) h))"

definition set_truck_before_start :: "tref \<Rightarrow> rref \<Rightarrow> heap \<Rightarrow> bool \<times> heap" where
  "set_truck_before_start t r h =
     (let start = path_start (path (routes h r))
      in (truck_location (trucks h t) \<noteq> Some start \<or> in_transit_to (trucks h t) \<noteq> None,
          upd_truck t (\<lambda>x. x\<lparr>truck_location := Some start, in_transit_to := None,
            truck_route := Some r\<rparr>) h))"

definition set_truck_at_stop :: "tref \<Rightarrow> rref \<Rightarrow> route_position \<Rightarrow> time \<Rightarrow> (bool \<times> bool) action" where
  "set_truck_at_stop t r position now h =
     (let moved = (truck_location (trucks h t) \<noteq> pos_stop_city position \<or> in_transit_to (trucks h t) \<noteq> None);
          h1 = upd_truck t (\<lambda>x. x\<lparr>truck_location := pos_stop_city position, in_transit_to := None,
                 truck_route := Some r\<rparr>) h
      in case eta_final (routes h1 r) of
           None \<Rightarrow> (Inr (moved, False), h1)
         | Some eta \<Rightarrow>
             if pos_stop_city position = Some (path_end (path (routes h1 r))) \<and> eta \<le> now
             then act_bind (release_truck r now False RELEASE_ROUTE_COMPLETED eta)
                    (\<lambda>released. act_return (moved, released)) h1
             else (Inr (moved, False), h1))"

definition set_truck_in_transit :: "tref \<Rightarrow> rref \<Rightarrow> route_position \<Rightarrow> heap \<Rightarrow> bool \<times> heap" where
  "set_truck_in_transit t r position h =
     (let x = trucks h t;
          moved_city = (pos_from_city position \<noteq> None \<and> pos_from_city position \<noteq> Some [] \<and>
                        truck_location x \<noteq> pos_from_city position);
          x1 = (if moved_city then x\<lparr>truck_location := pos_from_city position\<rparr> else x);
          moved = (moved_city \<or> in_transit_to x1 \<noteq> pos_to_city position)
      in (moved, upd_truck t (\<lambda>_. x1\<lparr>in_transit_to := pos_to_city position, truck_route := Some r\<rparr>) h))"

definition validate_route_eta_final :: "route \<Rightarrow> time result" where
  "validate_route_eta_final x = (case eta_final x of None \<Rightarrow> Inl PyRuntimeError | Some t \<Rightarrow> Inr t)"

text \<open>The repair of a missing back-reference, or the check of an existing one.\<close>

definition reconcile_truck_reference ::
    "rref \<Rightarrow> tref \<Rightarrow> time \<Rightarrow> (tref list \<times> reconciliation_event list) action" where
  "reconcile_truck_reference r t now h =
     (case truck_route (trucks h t) of
        None \<Rightarrow>
          (Inr ([t], [TruckRouteReferenceReconciled (vehicle_id (trucks h t)) None (route_id (routes h r)) now]),
           upd_truck t (\<lambda>x. x\<lparr>truck_route := Some r\<rparr>) h)
      | Some q \<Rightarrow> if q \<noteq> r then (Inl PyRuntimeError, h) else (Inr ([], []), h))"

text \<open>The branch on the position: whether the truck moved and whether it was released.\<close>

definition place_truck :: "rref \<Rightarrow> tref \<Rightarrow> route_position \<Rightarrow> time \<Rightarrow> (bool \<times> bool) action" where
  "place_truck r t position now h =
     (case pos_kind position of
        UNSCHEDULED \<Rightarrow> (case set_truck_unscheduled t h of (moved, h1) \<Rightarrow> (Inr (moved, False), h1))
      | BEFORE_START \<Rightarrow> (case set_truck_before_start t r h of (moved, h1) \<Rightarrow> (Inr (moved, False), h1))
      | AT_STOP \<Rightarrow> set_truck_at_stop t r position now h
      | IN_TRANSIT \<Rightarrow> (case set_truck_in_transit t r position h of (moved, h1) \<Rightarrow> (Inr (moved, False), h1))
      | AFTER_END \<Rightarrow>
          act_bind (act_lift (validate_route_eta_final (routes h r))) (\<lambda>completion_time.
          act_bind (release_truck r now False RELEASE_ROUTE_COMPLETED completion_time) (\<lambda>released.
            act_return (False, released))) h)"

definition reconcile_truck_for_route :: "rref \<Rightarrow> time \<Rightarrow> truck_summary action" where
  "reconcile_truck_for_route r now h =
     (case route_truck (routes h r) of
        None \<Rightarrow> (Inr empty_truck_summary, h)
      | Some t \<Rightarrow>
          act_bind (reconcile_truck_reference r t now) (\<lambda>(reconciled, events) h.
          act_bind (act_lift (route_current_position (routes h r) now)) (\<lambda>position h.
            (let before_location = truck_location (trucks h t);
                 before_in_transit_to = in_transit_to (trucks h t)
             in act_bind (place_truck r t position now) (\<lambda>(moved, released) h.
                  (let after_location = truck_location (trucks h t);
                       after_in_transit_to = in_transit_to (trucks h t);
                       position_changed = (after_location \<noteq> before_location \<or>
                                           after_in_transit_to \<noteq> before_in_transit_to)
                   in (Inr \<lparr>ts_moved = (if moved \<or> position_changed then [t] else []),
                           ts_released = (if released then [t] else []),
                           ts_reconciled = reconciled,
                           ts_events = events @
                             (if position_changed
                              then [TruckPositionReconciled (vehicle_id (trucks h t))
                                      (Some (route_id (routes h r))) before_location after_location
                                      before_in_transit_to after_in_transit_to (pos_kind position) now]
                              else [])\<rparr>, h))) h)) h) h)"

section \<open>The packages of a route\<close>

text \<open>\<open>_restore_package_before_pickup\<close> and \<open>_set_package_state\<close>, on the package object\<close>

definition restore_package_before_pickup :: "package \<Rightarrow> bool \<times> package" where
  "restore_package_before_pickup x =
     (let (changed, x1) = (if pkg_status x \<noteq> TODO then (True, x\<lparr>pkg_status := TODO\<rparr>) else (False, x))
      in if current_location x1 \<noteq> pkg_start x1
         then (True, set_current_location (Some (pkg_start x1)) x1) else (changed, x1))"

definition set_package_state :: "item_status \<Rightarrow> location \<Rightarrow> package \<Rightarrow> bool \<times> package" where
  "set_package_state status loc x =
     (let (changed, x1) = (if pkg_status x \<noteq> status then (True, x\<lparr>pkg_status := status\<rparr>) else (False, x))
      in if current_location x1 \<noteq> loc
         then (True, set_current_location (Some loc) x1) else (changed, x1))"

definition complete_package_lifecycle ::
    "pref \<Rightarrow> time option \<Rightarrow> time \<Rightarrow> (bool \<times> package_reconciliation_reason option) action" where
  "complete_package_lifecycle p pickup_time delivery_time h =
     (case (pkg_status (packages h p), pickup_time) of
        (TODO, None) \<Rightarrow>
          (case set_package_state DONE (pkg_end (packages h p)) (packages h p) of
             (changed, x) \<Rightarrow> (Inr (changed, Some MISSING_PICKUP_TIME), upd_package p (\<lambda>_. x) h))
      | _ \<Rightarrow>
          act_bind (\<lambda>h. case pickup_time of
              Some t \<Rightarrow> if pkg_status (packages h p) = TODO
                then act_bind (mark_picked_up p t) (\<lambda>_. act_return True) h else (Inr False, h)
            | None \<Rightarrow> (Inr False, h)) (\<lambda>changed1.
          act_bind (\<lambda>h. if pkg_status (packages h p) = PKG_IN_PROGRESS
              then act_bind (mark_delivered p delivery_time) (\<lambda>_. act_return True) h
              else (Inr changed1, h)) (\<lambda>changed2 h.
            if current_location (packages h p) \<noteq> pkg_end (packages h p)
            then (Inr (True, Some LIFECYCLE_STATE_INCONSISTENT),
                  upd_package p (\<lambda>x. set_current_location (Some (pkg_end x)) x) h)
            else (Inr (changed2, None), h))) h)"

definition advance_package_in_progress ::
    "pref \<Rightarrow> time option \<Rightarrow> location \<Rightarrow> (bool \<times> package_reconciliation_reason list) action" where
  "advance_package_in_progress p pickup_time loc h =
     act_bind (\<lambda>h. case (pkg_status (packages h p), pickup_time) of
         (TODO, Some t) \<Rightarrow> act_bind (mark_picked_up p t) (\<lambda>_. act_return (True, [])) h
       | (status, _) \<Rightarrow>
           if status \<noteq> PKG_IN_PROGRESS
           then (Inr (True, [LIFECYCLE_STATE_INCONSISTENT]),
                 upd_package p (\<lambda>x. x\<lparr>pkg_status := PKG_IN_PROGRESS\<rparr>) h)
           else (Inr (False, []), h)) (\<lambda>(changed, reasons) h.
       if current_location (packages h p) \<noteq> loc
       then (Inr (True, reasons @ [ROUTE_PROGRESS_ADVANCED]),
             upd_package p (set_current_location (Some loc)) h)
       else (Inr (changed, reasons), h)) h"

text \<open>\<open>_last_reached_city\<close>: the loop over the stops from pickup to delivery, with its break\<close>

fun last_reached_loop ::
    "location list \<Rightarrow> (location \<rightharpoonup> time) \<Rightarrow> time \<Rightarrow> nat list \<Rightarrow> location \<Rightarrow> location" where
  "last_reached_loop locs stop_times now [] last_city = last_city"
| "last_reached_loop locs stop_times now (i # is) last_city =
     (case stop_times (locs ! i) of
        None \<Rightarrow> last_city
      | Some t \<Rightarrow> if now < t then last_city
                  else last_reached_loop locs stop_times now is (locs ! i))"

definition last_reached_city ::
    "location list \<Rightarrow> location \<Rightarrow> location \<Rightarrow> (location \<rightharpoonup> time) \<Rightarrow> (location \<rightharpoonup> nat) \<Rightarrow> time \<Rightarrow> location result" where
  "last_reached_city locs start end stop_times position_by_city now =
     res_bind (dict_get position_by_city start) (\<lambda>i.
     res_bind (dict_get position_by_city end) (\<lambda>j.
       Inr (last_reached_loop locs stop_times now [i..<Suc j] start)))"

text \<open>\<open>with contextlib.suppress(ValueError)\<close>\<close>

definition suppress_value_error :: "'a result \<Rightarrow> 'a option result" where
  "suppress_value_error res =
     (case res of Inl e \<Rightarrow> if e = PyValueError then Inr None else Inl e | Inr x \<Rightarrow> Inr (Some x))"

fun collect_stop_times :: "route \<Rightarrow> location list \<Rightarrow> (location \<rightharpoonup> time) \<Rightarrow> (location \<rightharpoonup> time) result" where
  "collect_stop_times x [] m = Inr m"
| "collect_stop_times x (c # cs) m =
     res_bind (suppress_value_error (arrival_time_at x (PyStr c))) (\<lambda>t.
       collect_stop_times x cs (case t of None \<Rightarrow> m | Some t \<Rightarrow> m(c \<mapsto> t)))"

text \<open>A package whose route has no usable times goes back to its start.\<close>

definition repair_unplaceable_package ::
    "package_reconciliation_reason \<Rightarrow> package \<Rightarrow> (bool \<times> package_reconciliation_reason list) \<times> package" where
  "repair_unplaceable_package why x =
     (let (changed, x1) = restore_package_before_pickup x;
          (changed, reasons, x2) =
            (if pkg_expected_arrival x1 \<noteq> None
             then (True, [EXPECTED_ARRIVAL_RECALCULATED], x1\<lparr>pkg_expected_arrival := None\<rparr>)
             else (changed, [], x1))
      in ((changed, if changed then reasons @ [why] else reasons), x2))"

text \<open>A package of a scheduled route: before pickup, after delivery, or under way.\<close>

definition reconcile_package_progress ::
    "rref \<Rightarrow> (location \<rightharpoonup> time) \<Rightarrow> (location \<rightharpoonup> nat) \<Rightarrow> time \<Rightarrow> pref \<Rightarrow>
       (bool \<times> package_reconciliation_reason list) action" where
  "reconcile_package_progress r stop_times pos_index now p h =
     (let start = pkg_start (packages h p); end = pkg_end (packages h p);
          start_time = stop_times start; end_time = stop_times end in
      if (case start_time of None \<Rightarrow> False | Some t \<Rightarrow> now < t) then
        (case restore_package_before_pickup (packages h p) of
           (changed, x) \<Rightarrow>
             (Inr (changed, if changed then [BEFORE_SCHEDULED_PICKUP] else []), upd_package p (\<lambda>_. x) h))
      else
        (case end_time of
           Some te \<Rightarrow>
             if te \<le> now then
               act_bind (complete_package_lifecycle p start_time te) (\<lambda>(changed, reason).
                 act_return (changed, case reason of None \<Rightarrow> [] | Some why \<Rightarrow> [why])) h
             else
               act_bind (act_lift (last_reached_city (path (routes h r)) start end stop_times pos_index now))
                 (\<lambda>city. advance_package_in_progress p start_time city) h
         | None \<Rightarrow>
             act_bind (act_lift (last_reached_city (path (routes h r)) start end stop_times pos_index now))
               (\<lambda>city. advance_package_in_progress p start_time city) h))"

text \<open>The recalculation of the expected arrival at the end of the branch.\<close>

definition refresh_expected_arrival ::
    "rref \<Rightarrow> pref \<Rightarrow> bool \<Rightarrow> package_reconciliation_reason list \<Rightarrow>
       (bool \<times> package_reconciliation_reason list) action" where
  "refresh_expected_arrival r p changed reasons h =
     (case suppress_value_error (arrival_time_at (routes h r) (PyStr (pkg_end (packages h p)))) of
        Inl e \<Rightarrow> (Inl e, h)
      | Inr None \<Rightarrow> (Inr (changed, reasons), h)
      | Inr (Some t) \<Rightarrow>
          if pkg_expected_arrival (packages h p) \<noteq> Some t
          then (Inr (True, reasons @ [EXPECTED_ARRIVAL_RECALCULATED]),
                upd_package p (\<lambda>x. x\<lparr>pkg_expected_arrival := Some t\<rparr>) h)
          else (Inr (changed, reasons), h))"

text \<open>The body of the loop over the packages: the change flag and the event, if any.\<close>

definition update_package_for_route ::
    "rref \<Rightarrow> (location \<rightharpoonup> time) \<Rightarrow> (location \<rightharpoonup> nat) \<Rightarrow> time \<Rightarrow> pref \<Rightarrow>
       (bool \<times> reconciliation_event list) action" where
  "update_package_for_route r stop_times pos_index now p h =
     (let x = packages h p;
          repair = (\<lambda>why h. case repair_unplaceable_package why (packages h p) of
            (res, y) \<Rightarrow> (Inr (res, None, None), upd_package p (\<lambda>_. y) h));
          body =
            (if departure_time (routes h r) = None then repair ROUTE_UNSCHEDULED
             else
               (case (pos_index (pkg_start x), pos_index (pkg_end x)) of
                  (Some i, Some j) \<Rightarrow>
                    if j < i then repair ROUTE_PATH_INVALID
                    else
                      act_bind (reconcile_package_progress r stop_times pos_index now p) (\<lambda>(changed, reasons).
                      act_bind (refresh_expected_arrival r p changed reasons) (\<lambda>res.
                        act_return (res, stop_times (pkg_start x), stop_times (pkg_end x))))
                | _ \<Rightarrow> repair ROUTE_PATH_INVALID))
      in act_bind body (\<lambda>((changed, reasons), start_time, end_time) h.
           if reasons = [] then (Inr (changed, []), h)
           else
             (case check_reasons reasons of
                Inl e \<Rightarrow> (Inl e, h)
              | Inr _ \<Rightarrow>
                  (let y = packages h p in
                   (Inr (changed, [PackageStateReconciled (package_id y) (Some (route_id (routes h r)))
                      (pkg_status x) (pkg_status y) (current_location x) (current_location y)
                      (pkg_expected_arrival x) (pkg_expected_arrival y) start_time end_time reasons now]), h)))) h)"

fun update_packages_loop ::
    "rref \<Rightarrow> (location \<rightharpoonup> time) \<Rightarrow> (location \<rightharpoonup> nat) \<Rightarrow> time \<Rightarrow> pref list \<Rightarrow>
       (pref list \<times> reconciliation_event list) action" where
  "update_packages_loop r stop_times pos_index now [] h = (Inr ([], []), h)"
| "update_packages_loop r stop_times pos_index now (p # ps) h =
     act_bind (update_package_for_route r stop_times pos_index now p) (\<lambda>(changed, events).
     act_bind (update_packages_loop r stop_times pos_index now ps) (\<lambda>(changed_packages, more).
       act_return ((if changed then [p] else []) @ changed_packages, events @ more))) h"

definition update_packages_for_route ::
    "rref \<Rightarrow> time \<Rightarrow> (pref list \<times> reconciliation_event list) action" where
  "update_packages_for_route r now h =
     (let x = routes h r in
      case (if departure_time x = None then Inr Map.empty
            else collect_stop_times x (path x) Map.empty) of
        Inl e \<Rightarrow> (Inl e, h)
      | Inr stop_times \<Rightarrow>
          update_packages_loop r stop_times (index_dict (path x)) now (route_packages x) h)"

section \<open>The reconciliation of all routes\<close>

record route_outcome =
  ro_changed :: bool
  ro_events :: "reconciliation_event list"
  ro_trucks :: truck_summary
  ro_packages :: "pref list"
  ro_package_events :: "reconciliation_event list"

text \<open>The status part of the body: nothing to do when the derived status is the current one.\<close>

definition update_route_status ::
    "rref \<Rightarrow> route_status \<Rightarrow> route_reconciliation_reason option \<Rightarrow> time \<Rightarrow>
       (bool \<times> reconciliation_event list) action" where
  "update_route_status r new_status reason now h =
     (if route_status (routes h r) \<noteq> new_status
      then act_bind (apply_route_status r new_status reason now) (\<lambda>event.
             act_return (True, case event of None \<Rightarrow> [] | Some e \<Rightarrow> [e])) h
      else (Inr (False, []), h))"

text \<open>The body of the \<open>try\<close>.\<close>

definition reconcile_route_body :: "rref \<Rightarrow> time \<Rightarrow> bool \<Rightarrow> route_outcome action" where
  "reconcile_route_body r now update_trucks h =
     (case compute_route_status (routes h r) now of
        (new_status, reason) \<Rightarrow>
          act_bind (update_route_status r new_status reason now) (\<lambda>(changed, events).
          act_bind (if update_trucks then reconcile_truck_for_route r now
                    else act_return empty_truck_summary) (\<lambda>truck_sum.
          act_bind (update_packages_for_route r now) (\<lambda>(package_changes, package_events).
            act_return \<lparr>ro_changed = changed, ro_events = events, ro_trucks = truck_sum,
                        ro_packages = package_changes, ro_package_events = package_events\<rparr>))) h)"

text \<open>The snapshots taken before the \<open>try\<close>, and the \<open>except\<close> branch that restores them.\<close>

definition restore_packages :: "(pref \<times> package_snapshot \<times> int) list \<Rightarrow> unit action" where
  "restore_packages snaps =
     act_for (\<lambda>(p, s, k).
       act_bind (act_modify (upd_package p (package_restore_state s))) (\<lambda>_. restore_package_events p k)) snaps"

definition package_snapshots :: "heap \<Rightarrow> pref list \<Rightarrow> (pref \<times> package_snapshot \<times> int) list" where
  "package_snapshots h ps =
     map (\<lambda>p. (p, package_snapshot_state (packages h p), event_checkpoint (pkg_events (packages h p)))) ps"

definition reconcile_route :: "rref \<Rightarrow> time \<Rightarrow> bool \<Rightarrow> route_outcome option action" where
  "reconcile_route r now update_trucks h =
     (let route_snap = route_snapshot_state (routes h r);
          route_checkpoint = event_checkpoint (route_events (routes h r));
          package_snaps = package_snapshots h (route_packages (routes h r));
          truck_snap = map_option (\<lambda>t. (t, truck_snapshot_state (trucks h t))) (route_truck (routes h r))
      in case reconcile_route_body r now update_trucks h of
           (Inr outcome, h1) \<Rightarrow> (Inr (Some outcome), h1)
         | (Inl _, h1) \<Rightarrow>
             act_bind (route_restore_state r route_snap) (\<lambda>_.
             act_bind (restore_route_events r route_checkpoint) (\<lambda>_.
             act_bind (restore_packages package_snaps) (\<lambda>_.
             act_bind (act_modify (case truck_snap of
                 None \<Rightarrow> id | Some (t, s) \<Rightarrow> upd_truck t (truck_restore_state s))) (\<lambda>_.
               act_return None)))) h1)"

definition add_outcome :: "rref \<Rightarrow> route_outcome \<Rightarrow> heartbeat_summary \<Rightarrow> heartbeat_summary" where
  "add_outcome r out s =
     \<lparr>mutated_routes = mutated_routes s @ (if ro_changed out then [r] else []),
      mutated_packages = mutated_packages s @ ro_packages out,
      mutated_trucks_moved = mutated_trucks_moved s @ ts_moved (ro_trucks out),
      mutated_trucks_released = mutated_trucks_released s @ ts_released (ro_trucks out),
      mutated_trucks_reconciled = mutated_trucks_reconciled s @ ts_reconciled (ro_trucks out),
      reconciliation_events = reconciliation_events s @ ro_events out @ ts_events (ro_trucks out) @
        ro_package_events out\<rparr>"

fun reconcile_loop :: "rref list \<Rightarrow> time \<Rightarrow> bool \<Rightarrow> heartbeat_summary \<Rightarrow> heartbeat_summary action" where
  "reconcile_loop [] now update_trucks s h = (Inr s, h)"
| "reconcile_loop (r # rs) now update_trucks s h =
     act_bind (reconcile_route r now update_trucks) (\<lambda>out.
       reconcile_loop rs now update_trucks (case out of None \<Rightarrow> s | Some o' \<Rightarrow> add_outcome r o' s)) h"

definition reconcile_routes :: "rref list \<Rightarrow> time \<Rightarrow> bool \<Rightarrow> heartbeat_summary action" where
  "reconcile_routes rs now update_trucks = reconcile_loop rs now update_trucks empty_summary"

section \<open>What the reconciliation of a route may touch\<close>

definition reconciled_route_frame :: "route \<Rightarrow> route \<Rightarrow> bool" where
  "reconciled_route_frame x y \<longleftrightarrow>
     route_id y = route_id x \<and> path y = path x \<and> schedule y = schedule x \<and>
     route_packages y = route_packages x \<and> (\<exists>es. route_events y = route_events x @ es)"

definition frame :: "rref \<Rightarrow> pref set \<Rightarrow> tref set \<Rightarrow> heap \<Rightarrow> heap \<Rightarrow> bool" where
  "frame r ps ts h h' \<longleftrightarrow>
     (\<forall>q. q \<noteq> r \<longrightarrow> routes h' q = routes h q) \<and> reconciled_route_frame (routes h r) (routes h' r) \<and>
     (\<forall>p. package_frame (packages h p) (packages h' p)) \<and> (\<forall>p. p \<notin> ps \<longrightarrow> packages h' p = packages h p) \<and>
     (\<forall>t. truck_frame (trucks h t) (trucks h' t)) \<and> (\<forall>t. t \<notin> ts \<longrightarrow> trucks h' t = trucks h t) \<and>
     customers h' = customers h \<and> next_ref h' = next_ref h"

lemma reconciled_route_frame_refl [simp]: "reconciled_route_frame x x"
  by (simp add: reconciled_route_frame_def)

lemma frame_same [simp]: "frame r ps ts h h"
  by (simp add: frame_def)

lemma frame_trans:
  assumes "frame r ps ts h h1" and "frame r ps ts h1 h2"
  shows "frame r ps ts h h2"
proof -
  have "reconciled_route_frame (routes h r) (routes h2 r)"
    using assms by (auto simp: frame_def reconciled_route_frame_def)
  moreover have "package_frame (packages h p) (packages h2 p)" for p
    using assms unfolding frame_def by (blast intro: package_frame_trans)
  moreover have "truck_frame (trucks h t) (trucks h2 t)" for t
    using assms unfolding frame_def by (blast intro: truck_frame_trans)
  ultimately show ?thesis using assms unfolding frame_def by simp
qed

lemma frame_mono: "frame r ps ts h h' \<Longrightarrow> ps \<subseteq> ps' \<Longrightarrow> ts \<subseteq> ts' \<Longrightarrow> frame r ps' ts' h h'"
  by (auto simp: frame_def)

lemma frame_act_bind:
  assumes "frame r ps ts h (snd (m h1))"
    and "\<And>x h'. m h1 = (Inr x, h') \<Longrightarrow> frame r ps ts h h' \<Longrightarrow> frame r ps ts h (snd (f x h'))"
  shows "frame r ps ts h (snd (act_bind m f h1))"
  using assms by (rule act_bind_invariant [where Q = "frame r ps ts h"])

lemma frame_route: "reconciled_route_frame (routes h r) (f (routes h r)) \<Longrightarrow> frame r ps ts h (upd_route r f h)"
  by (simp add: frame_def)

lemma frame_package:
  "p \<in> ps \<Longrightarrow> package_frame (packages h p) (f (packages h p)) \<Longrightarrow> frame r ps ts h (upd_package p f h)"
  by (simp add: frame_def)

lemma frame_truck:
  "t \<in> ts \<Longrightarrow> truck_frame (trucks h t) (f (trucks h t)) \<Longrightarrow> frame r ps ts h (upd_truck t f h)"
  by (simp add: frame_def)

lemma frame_route_event: "frame r ps ts h h' \<Longrightarrow> frame r ps ts h (record_route_event r e h')"
  by (auto simp: frame_def reconciled_route_frame_def)

lemma status_frame: "frame r ps ts h (snd (apply_route_status r s why t h))"
  unfolding apply_route_status_def Let_def
  by (auto simp: act_bind_def mark_started_def mark_completed_def Let_def reconciled_route_frame_def
      intro!: frame_route frame_route_event split: option.split)

lemma truck_release_frame: "t \<in> ts \<Longrightarrow> frame r ps ts h (snd (truck_release t now force h))"
  by (auto simp: truck_release_def Let_def truck_frame_def intro!: frame_truck split: option.split)

lemma release_frame:
  assumes "route_truck (routes h r) = Some t" and "t \<in> ts"
  shows "frame r ps ts h (snd (release_truck r now force why o' h))"
proof -
  have f: "frame r ps ts h h1" if "truck_release t now force h = (b, h1)" for b h1
    using truck_release_frame [OF assms(2), of r ps h now force] that by simp
  have g: "frame r ps ts h1 (upd_truck t (truck_restore_state s) h1)" for h1 s
    using assms(2) by (intro frame_truck) (simp_all add: truck_frame_def truck_restore_state_def)
  have k: "frame r ps ts h1 (upd_route r (\<lambda>x. x\<lparr>route_truck := None\<rparr>) h1)" for h1
    by (intro frame_route) (simp add: reconciled_route_frame_def)
  show ?thesis
    unfolding release_truck_def assms(1) Let_def
    by (auto split: option.split prod.split bool.split intro!: frame_route_event
        intro: f frame_trans [OF f g] frame_trans [OF f k])
qed

lemma reference_frame:
  assumes "t \<in> ts"
  shows "frame r ps ts h (snd (reconcile_truck_reference r t now h))"
  using assms by (auto simp: reconcile_truck_reference_def truck_frame_def intro!: frame_truck split: option.split)

lemma place_frame:
  assumes rt: "route_truck (routes h r) = Some t" and t: "t \<in> ts"
  shows "frame r ps ts h (snd (place_truck r t position now h))"
proof -
  let ?m = "\<lambda>c. upd_truck t (\<lambda>x. x\<lparr>truck_location := c, in_transit_to := None,
      truck_route := Some r\<rparr>) h"
  have m: "frame r ps ts h (?m c)" for c
    using t by (intro frame_truck) (simp_all add: truck_frame_def)
  have "frame r ps ts (?m c) (snd (release_truck r now force why o' (?m c)))" for c force why o'
    using rt t by (intro release_frame) simp_all
  then have 1: "frame r ps ts h (snd (release_truck r now force why o' (?m c)))" for c force why o'
    using frame_trans [OF m] by blast
  have 2: "frame r ps ts h (snd (release_truck r now force why o' h))" for force why o'
    using rt t by (rule release_frame)
  have "frame r ps ts h (snd (set_truck_at_stop t r position now h))"
    unfolding set_truck_at_stop_def Let_def
    by (auto simp: m split: option.split intro!: frame_act_bind 1)
  moreover have "frame r ps ts h (snd (set_truck_unscheduled t h))"
    using t by (auto simp: set_truck_unscheduled_def truck_frame_def intro!: frame_truck)
  moreover have "frame r ps ts h (snd (set_truck_before_start t r h))"
    using t by (auto simp: set_truck_before_start_def truck_frame_def Let_def intro!: frame_truck)
  moreover have "frame r ps ts h (snd (set_truck_in_transit t r position h))"
    using t by (auto simp: set_truck_in_transit_def truck_frame_def Let_def intro!: frame_truck)
  ultimately show ?thesis
    unfolding place_truck_def
    by (auto split: position_kind.split prod.split intro!: frame_act_bind 2)
qed

lemma truck_of_frame:
  assumes "t \<in> ts" and "route_truck (routes h r) = Some t"
  shows "route_truck (routes (snd (reconcile_truck_reference r t now h)) r) = Some t"
  using assms by (auto simp: reconcile_truck_reference_def split: option.split)

lemma truck_frame_for_route:
  assumes "set_option (route_truck (routes h r)) \<subseteq> ts"
  shows "frame r ps ts h (snd (reconcile_truck_for_route r now h))"
proof (cases "route_truck (routes h r)")
  case None
  then show ?thesis by (simp add: reconcile_truck_for_route_def)
next
  case (Some t)
  then have t: "t \<in> ts" using assms by simp
  have pl: "frame r ps ts h (snd (place_truck r t pos now h1))"
    if "reconcile_truck_reference r t now h = (x, h1)" for x h1 pos
  proof -
    have "frame r ps ts h h1" "route_truck (routes h1 r) = Some t"
      using reference_frame [OF t, of r ps h now] truck_of_frame [OF t Some, of now] that by auto
    then show ?thesis using place_frame [of h1 r t ts ps pos now] t frame_trans by blast
  qed
  show ?thesis
    unfolding reconcile_truck_for_route_def Some option.case
    by (auto simp: Let_def split: prod.split intro!: frame_act_bind reference_frame t pl)
qed

lemma package_event_frame: "p \<in> ps \<Longrightarrow> frame r ps ts h h' \<Longrightarrow> frame r ps ts h (record_package_event p e h')"
  unfolding record_package_event_def
  by (erule frame_trans, rule frame_package) (simp_all add: package_frame_def record_event_def)

lemma mark_frame:
  assumes "p \<in> ps"
  shows "frame r ps ts h (snd (mark_picked_up p t h))" "frame r ps ts h (snd (mark_delivered p t h))"
  using assms
  by (auto simp: mark_picked_up_def mark_delivered_def Let_def set_current_location_def package_frame_def
      intro!: package_event_frame frame_package split: sum.split)

lemma complete_frame:
  assumes p: "p \<in> ps"
  shows "frame r ps ts h (snd (complete_package_lifecycle p pick del h))"
proof -
  have loc: "frame r ps ts h1 (upd_package p (\<lambda>x. set_current_location (c x) x) h1)" for c h1
    using p by (intro frame_package) (simp_all add: set_current_location_def package_frame_def)
  have st: "frame r ps ts h (upd_package p (\<lambda>_. x) h)"
    if "set_package_state s l (packages h p) = (b, x)" for s l b x
    using p that by (intro frame_package)
      (auto simp: set_package_state_def Let_def set_current_location_def package_frame_def split: if_splits prod.splits)
  have mk: "frame r ps ts h (snd (mark_delivered p t h1))" if "frame r ps ts h h1" for t h1
    using frame_trans [OF that mark_frame(2) [OF p]] .
  have lc: "frame r ps ts h (upd_package p (\<lambda>x. set_current_location (c x) x) h1)"
    if "frame r ps ts h h1" for c h1
    using frame_trans [OF that loc] .
  show ?thesis
    unfolding complete_package_lifecycle_def
    by (auto split: item_status.split option.split prod.split
        intro!: frame_act_bind mark_frame p mk lc st)
qed

lemma advance_frame:
  assumes p: "p \<in> ps"
  shows "frame r ps ts h (snd (advance_package_in_progress p pick loc h))"
proof -
  have lc: "frame r ps ts h (upd_package p (set_current_location c) h1)"
    if "frame r ps ts h h1" for c h1
    using p by (intro frame_trans [OF that frame_package])
      (simp_all add: set_current_location_def package_frame_def)
  have "frame r ps ts h (upd_package p (\<lambda>x. x\<lparr>pkg_status := s\<rparr>) h)" for s
    using p by (intro frame_package) (simp_all add: package_frame_def)
  then show ?thesis
    unfolding advance_package_in_progress_def
    by (auto split: item_status.split option.split prod.split intro!: frame_act_bind mark_frame p lc)
qed

lemma progress_frame:
  assumes p: "p \<in> ps"
  shows "frame r ps ts h (snd (reconcile_package_progress q st idx now p h))"
proof -
  have "frame r ps ts h (upd_package p (\<lambda>_. x) h)"
    if "restore_package_before_pickup (packages h p) = (b, x)" for b x
    using p that by (intro frame_package)
      (auto simp: restore_package_before_pickup_def Let_def set_current_location_def package_frame_def
        split: if_splits)
  then show ?thesis
    unfolding reconcile_package_progress_def Let_def
    by (auto split: option.split prod.split
        intro!: frame_act_bind complete_frame advance_frame p)
qed

lemma refresh_frame:
  assumes "p \<in> ps"
  shows "frame r ps ts h (snd (refresh_expected_arrival q p c rs h))"
  using assms by (auto simp: refresh_expected_arrival_def package_frame_def
      intro!: frame_package split: sum.split option.split)

lemma repair_frame:
  assumes "p \<in> ps" and "repair_unplaceable_package why (packages h p) = (res, y)"
  shows "frame r ps ts h (upd_package p (\<lambda>_. y) h)"
  using assms by (intro frame_package)
    (auto simp: repair_unplaceable_package_def restore_package_before_pickup_def Let_def
      set_current_location_def package_frame_def split: if_splits)

lemma update_package_frame:
  assumes p: "p \<in> ps"
  shows "frame r ps ts h (snd (update_package_for_route q st idx now p h))"
proof -
  have refresh: "frame r ps ts h (snd (refresh_expected_arrival q p c rs h1))" if "frame r ps ts h h1" for c rs h1
    using frame_trans [OF that refresh_frame [OF p]] .
  show ?thesis
    unfolding update_package_for_route_def Let_def
    by (rule frame_act_bind)
      (auto split: option.split prod.split sum.split
        intro!: frame_act_bind progress_frame refresh p repair_frame)
qed

lemma update_packages_loop_frame:
  assumes "set xs \<subseteq> ps" and "frame r ps ts h h1"
  shows "frame r ps ts h (snd (update_packages_loop q st idx now xs h1))"
  using assms
proof (induction xs arbitrary: h1)
  case (Cons p xs)
  have "frame r ps ts h (snd (update_package_for_route q st idx now p h1))"
    using Cons.prems frame_trans [OF Cons.prems(2) update_package_frame [of p ps]] by simp
  then show ?case
    using Cons.prems by (auto split: prod.split intro!: frame_act_bind Cons.IH)
qed simp

lemma update_packages_frame:
  assumes "set (route_packages (routes h1 r)) \<subseteq> ps" and "frame r ps ts h h1"
  shows "frame r ps ts h (snd (update_packages_for_route r now h1))"
  unfolding update_packages_for_route_def Let_def
  using assms by (auto split: sum.split intro!: update_packages_loop_frame)

text \<open>
  The body touches its route, the packages on it and its truck, and of those only the mutable
  attributes, whether it succeeds or raises.
\<close>

definition route_region :: "rref \<Rightarrow> heap \<Rightarrow> heap \<Rightarrow> bool" where
  "route_region r h h' \<longleftrightarrow>
     frame r (set (route_packages (routes h r))) (set_option (route_truck (routes h r))) h h'"

lemma apply_status_truck:
  assumes "apply_route_status r s why t h = (res, h')"
  shows "route_truck (routes h' q) = route_truck (routes h q)"
  using assms unfolding apply_route_status_def mark_started_def mark_completed_def act_bind_def Let_def
  by (auto split: if_splits option.splits)

theorem reconcile_route_body_region: "route_region r h (snd (reconcile_route_body r now upd h))"
proof -
  let ?ps = "set (route_packages (routes h r))" and ?ts = "set_option (route_truck (routes h r))"
  let ?fr = "frame r ?ps ?ts h"
  have pk: "route_packages (routes h' r) = route_packages (routes h r)" if "?fr h'" for h'
    using that by (simp add: frame_def reconciled_route_frame_def)
  have st: "?fr (snd (apply_route_status r s why now h))" for s why by (rule status_frame)
  have tr: "?fr (snd (reconcile_truck_for_route r now h'))"
    if "?fr h'" "route_truck (routes h' r) = route_truck (routes h r)" for h'
    using that by (intro frame_trans [OF that(1) truck_frame_for_route]) simp
  have up: "?fr (snd (update_packages_for_route r now h'))" if "?fr h'" for h'
    using that pk [OF that] by (intro update_packages_frame) simp_all
  have m1: "?fr (snd (update_route_status r s why now h))" for s why
    unfolding update_route_status_def using st by (auto intro!: frame_act_bind)
  have m2: "route_truck (routes h' r) = route_truck (routes h r)"
    if "update_route_status r s why now h = (Inr x, h')" for s why x h'
    using that unfolding update_route_status_def
    by (auto simp: act_bind_Inr_iff dest: apply_status_truck split: if_splits)
  obtain s why where c: "compute_route_status (routes h r) now = (s, why)" by fastforce
  show ?thesis
    unfolding route_region_def reconcile_route_body_def c prod.case
  proof (rule frame_act_bind, rule m1)
    fix x h'
    assume u: "update_route_status r s why now h = (Inr x, h')" and f: "?fr h'"
    have t: "route_truck (routes h' r) = route_truck (routes h r)" by (rule m2 [OF u])
    show "?fr (snd ((case x of (changed, events) \<Rightarrow>
        act_bind (if upd then reconcile_truck_for_route r now else act_return empty_truck_summary)
          (\<lambda>truck_sum. act_bind (update_packages_for_route r now) (\<lambda>(package_changes, package_events).
            act_return \<lparr>ro_changed = changed, ro_events = events, ro_trucks = truck_sum,
              ro_packages = package_changes, ro_package_events = package_events\<rparr>))) h'))"
      using f t by (auto split: prod.split intro!: frame_act_bind tr up)
  qed
qed

section \<open>A route that cannot be reconciled\<close>

lemma act_bind_modify: "act_bind (act_modify g) k h = k () (g h)"
  by (simp add: act_bind_def)

lemma restore_packages_snapshots:
  assumes "\<And>p. p \<in> set ps \<Longrightarrow> package_frame (packages h p) (packages h1 p)"
  shows "restore_packages (package_snapshots h ps) h1 =
    (Inr (), h1\<lparr>packages := \<lambda>p. if p \<in> set ps then packages h p else packages h1 p\<rparr>)"
  using assms
proof (induction ps arbitrary: h1)
  case Nil
  then show ?case by (simp add: restore_packages_def package_snapshots_def)
next
  case (Cons p ps)
  have f: "package_frame (packages h p) (packages h1 p)" using Cons.prems by simp
  let ?h = "upd_package p (\<lambda>_. packages h p) h1"
  obtain es where es: "pkg_events (packages h1 p) = pkg_events (packages h p) @ es"
    using f by (auto simp: package_frame_def)
  have "act_bind (act_modify (upd_package p (package_restore_state (package_snapshot_state (packages h p)))))
      (\<lambda>_. restore_package_events p (event_checkpoint (pkg_events (packages h p)))) h1 = (Inr (), ?h)"
    using package_rollback [OF f] es
    by (auto simp: act_bind_def restore_package_events_def put_package_events_def package_restore_state_def
        intro!: heap_eqI)
  then have "restore_packages (package_snapshots h (p # ps)) h1 = restore_packages (package_snapshots h ps) ?h"
    by (simp add: restore_packages_def package_snapshots_def act_bind_def)
  also have "\<dots> = (Inr (), ?h\<lparr>packages := \<lambda>q. if q \<in> set ps then packages h q else packages ?h q\<rparr>)"
    using Cons.prems by (intro Cons.IH) simp
  also have "?h\<lparr>packages := \<lambda>q. if q \<in> set ps then packages h q else packages ?h q\<rparr> =
      h1\<lparr>packages := \<lambda>q. if q \<in> set (p # ps) then packages h q else packages h1 q\<rparr>"
    by (intro heap_eqI) (auto simp: upd_package_def)
  finally show ?case .
qed

text \<open>
  When the body raises, the store is exactly the one before the attempt: routes, packages,
  trucks and all pending events.
\<close>

theorem reconcile_route_failure:
  assumes ok: "route_ok (routes h r)" and fail: "reconcile_route_body r now upd h = (Inl e, h1)"
  shows "reconcile_route r now upd h = (Inr None, h)"
proof -
  have f: "frame r (set (route_packages (routes h r))) (set_option (route_truck (routes h r))) h h1"
    using reconcile_route_body_region [of r h now upd] fail by (simp add: route_region_def)
  have rf: "route_frame (routes h r) (routes h1 r)"
    using f by (simp add: frame_def reconciled_route_frame_def route_frame_def)
  let ?h2 = "upd_route r (\<lambda>_. routes h r) h1"
  let ?h3 = "?h2\<lparr>packages := \<lambda>p. if p \<in> set (route_packages (routes h r)) then packages h p
      else packages ?h2 p\<rparr>"
  have pk: "restore_packages (package_snapshots h (route_packages (routes h r))) ?h2 = (Inr (), ?h3)"
    by (rule restore_packages_snapshots) (use f in \<open>simp add: frame_def\<close>)
  then have pk: "act_bind (restore_packages (package_snapshots h (route_packages (routes h r)))) k ?h2 = k () ?h3"
    for k :: "unit \<Rightarrow> 'b action" by (simp add: act_bind_def)
  have rt: "act_bind (route_restore_state r (route_snapshot_state (routes h r)))
      (\<lambda>_. act_bind (restore_route_events r (event_checkpoint (route_events (routes h r)))) k) h1 = k () ?h2" for k :: "unit \<Rightarrow> 'b action"
    using route_rollback [OF ok rf] by (auto simp: act_bind_def split: prod.splits sum.splits)
  have tr: "truck_restore_state (truck_snapshot_state (trucks h t)) (trucks h1 t) = trucks h t" for t
    using f by (intro truck_restore_snapshot) (simp_all add: frame_def truck_frame_def)
  have eqs: "routes ?h2 = routes h" "customers h1 = customers h" "next_ref h1 = next_ref h"
    "packages ?h3 = packages h" "\<And>t. Some t \<noteq> route_truck (routes h r) \<Longrightarrow> trucks h1 t = trucks h t"
    using f by (auto simp: frame_def fun_eq_iff)
  show ?thesis
  proof (cases "route_truck (routes h r)")
    case None
    have "?h3 = h" using eqs None by (intro heap_eqI) auto
    then show ?thesis
      by (simp add: reconcile_route_def fail Let_def rt pk None act_bind_modify)
  next
    case (Some t)
    have "upd_truck t (truck_restore_state (truck_snapshot_state (trucks h t))) ?h3 = h"
      using eqs Some tr by (intro heap_eqI) (auto simp: fun_eq_iff)
    then show ?thesis
      by (simp add: reconcile_route_def fail Let_def rt pk Some act_bind_modify)
  qed
qed

text \<open>Hence reconciling well-formed routes never raises.\<close>

lemma reconcile_route_total:
  assumes "route_ok (routes h r)"
  shows "\<exists>out h'. reconcile_route r now upd h = (Inr out, h') \<and>
    (out = None \<longrightarrow> h' = h) \<and> (\<forall>o'. out = Some o' \<longrightarrow> reconcile_route_body r now upd h = (Inr o', h'))"
proof (cases "reconcile_route_body r now upd h")
  case (Pair res h1)
  then show ?thesis
    using reconcile_route_failure [OF assms, of now upd]
    by (cases res) (auto simp: reconcile_route_def Let_def)
qed

lemma reconcile_route_keeps_route_ok:
  assumes "route_ok (routes h r)" and "reconcile_route r now upd h = (Inr out, h')"
  shows "reconciled_route_frame (routes h q) (routes h' q)" "route_ok (routes h' q) = route_ok (routes h q)"
proof -
  show a: "reconciled_route_frame (routes h q) (routes h' q)"
  proof (cases out)
    case None
    then show ?thesis using reconcile_route_total [OF assms(1), of now upd] assms(2) by auto
  next
    case (Some o')
    then have "reconcile_route_body r now upd h = (Inr o', h')"
      using reconcile_route_total [OF assms(1), of now upd] assms(2) by auto
    then show ?thesis
      using reconcile_route_body_region [of r h now upd] by (cases "q = r") (simp_all add: route_region_def frame_def)
  qed
  then show "route_ok (routes h' q) = route_ok (routes h q)"
    by (intro route_ok_cong) (simp_all add: reconciled_route_frame_def)
qed

theorem reconcile_routes_total:
  assumes "\<forall>r \<in> set rs. route_ok (routes h r)"
  shows "\<exists>s h'. reconcile_routes rs now upd h = (Inr s, h')"
proof -
  have "\<exists>s' h'. reconcile_loop rs now upd s h = (Inr s', h')" for s
    using assms
  proof (induction rs arbitrary: s h)
    case (Cons r rs)
    then obtain out h1 where 1: "reconcile_route r now upd h = (Inr out, h1)"
      using reconcile_route_total [of h r now upd] by auto
    have "\<forall>q \<in> set rs. route_ok (routes h1 q)"
      using Cons.prems reconcile_route_keeps_route_ok(2) [OF _ 1] by simp
    from Cons.IH [OF this] show ?case by (simp add: act_bind_def 1)
  qed simp
  then show ?thesis by (simp add: reconcile_routes_def)
qed

end
