(* ===== verification/Settling.thy ===== *)
theory Settling
  imports Reconciliation
begin

text \<open>
  What reconciliation achieves: on a consistent world it drives a route, its truck and its
  packages to the state its schedule prescribes for the given time, keeps the world consistent,
  and has nothing left to do when it runs again.
\<close>

section \<open>The prescribed state of a package\<close>

text \<open>
  Before its pickup time a package waits at its start; from its delivery time on it is done at its
  end; in between it is at the stop reached last.
\<close>

definition package_placed :: "route_schedule \<Rightarrow> nat \<Rightarrow> nat \<Rightarrow> time \<Rightarrow> package \<Rightarrow> bool" where
  "package_placed s i j now x \<longleftrightarrow>
     (let arr = (\<lambda>k. stop_arrival_at (sched_stops s ! k)) in
      if now < arr i then pkg_status x = TODO \<and> current_location x = pkg_start x
      else if arr j \<le> now then pkg_status x = DONE \<and> current_location x = pkg_end x
      else pkg_status x = PKG_IN_PROGRESS \<and>
        (\<exists>k. i \<le> k \<and> k < j \<and> arr k \<le> now \<and> now < arr (Suc k) \<and>
             current_location x = stop_location (sched_stops s ! k)))"

definition package_settled :: "route \<Rightarrow> time \<Rightarrow> package \<Rightarrow> bool" where
  "package_settled rt now x \<longleftrightarrow>
     (case schedule rt of
        None \<Rightarrow> pkg_status x = TODO \<and> current_location x = pkg_start x \<and> pkg_expected_arrival x = None
      | Some s \<Rightarrow>
          (\<exists>i j. i < j \<and> j < length (path rt) \<and> path rt ! i = pkg_start x \<and> path rt ! j = pkg_end x \<and>
             pkg_expected_arrival x = Some (stop_arrival_at (sched_stops s ! j)) \<and>
             package_placed s i j now x))"

text \<open>The changes reconciliation makes to a package keep its cargo and its assignment.\<close>

definition package_soft :: "package \<Rightarrow> package \<Rightarrow> bool" where
  "package_soft x y \<longleftrightarrow>
     package_frame x y \<and> pkg_route y = pkg_route x \<and> pkg_route_id y = pkg_route_id x"

lemma package_soft_refl [simp]: "package_soft x x"
  by (simp add: package_soft_def)

lemma package_soft_trans: "package_soft x y \<Longrightarrow> package_soft y z \<Longrightarrow> package_soft x z"
  by (auto simp: package_soft_def intro: package_frame_trans)

text \<open>Only package \<open>p\<close> differs, and softly.\<close>

definition only_package :: "pref \<Rightarrow> heap \<Rightarrow> heap \<Rightarrow> bool" where
  "only_package p h h' \<longleftrightarrow>
     (\<forall>q. q \<noteq> p \<longrightarrow> packages h' q = packages h q) \<and> package_soft (packages h p) (packages h' p) \<and>
     routes h' = routes h \<and> trucks h' = trucks h \<and> customers h' = customers h \<and> next_ref h' = next_ref h"

lemma only_package_refl [simp]: "only_package p h h"
  by (simp add: only_package_def)

lemma only_package_trans: "only_package p h h1 \<Longrightarrow> only_package p h1 h2 \<Longrightarrow> only_package p h h2"
  by (auto simp: only_package_def intro: package_soft_trans)

lemma only_package_upd:
  "package_soft (packages h p) (f (packages h p)) \<Longrightarrow> only_package p h (upd_package p f h)"
  by (simp add: only_package_def)

lemma only_package_eq: "only_package p h h' \<Longrightarrow> packages h' p = packages h p \<Longrightarrow> h' = h"
  unfolding only_package_def by (intro heap_eqI) (auto simp: fun_eq_iff)

section \<open>The steps on one package\<close>

text \<open>A successful outcome with a postcondition on the result and the store it leaves.\<close>

definition yields :: "('a result \<times> heap) \<Rightarrow> ('a \<Rightarrow> heap \<Rightarrow> bool) \<Rightarrow> bool" where
  "yields out Q \<longleftrightarrow> (case out of (Inr x, h') \<Rightarrow> Q x h' | (Inl _, _) \<Rightarrow> False)"

lemma yields_simps [simp]: "yields (Inr x, h') Q \<longleftrightarrow> Q x h'" "\<not> yields (Inl e, h') Q"
  by (simp_all add: yields_def)

lemma yields_bind:
  assumes "yields (m h) Q" and "\<And>x h'. m h = (Inr x, h') \<Longrightarrow> Q x h' \<Longrightarrow> yields (f x h') S"
  shows "yields (act_bind m f h) S"
  using assms by (auto simp: yields_def act_bind_def split: prod.splits sum.splits)

lemma yields_mono: "yields out Q \<Longrightarrow> (\<And>x h'. Q x h' \<Longrightarrow> S x h') \<Longrightarrow> yields out S"
  by (auto simp: yields_def split: prod.splits sum.splits)

lemma yieldsD: "yields out Q \<Longrightarrow> \<exists>x h'. out = (Inr x, h') \<and> Q x h'"
  by (auto simp: yields_def split: prod.splits sum.splits)

lemma picked_up:
  assumes "pkg_route_id (packages h p) = Some rid" and "pkg_status (packages h p) = TODO"
  shows "yields (mark_picked_up p t h) (\<lambda>_ h'. only_package p h h' \<and>
    pkg_status (packages h' p) = PKG_IN_PROGRESS \<and>
    current_location (packages h' p) = pkg_start (packages h p))"
  using assms
  by (auto simp: mark_picked_up_def require_route_id_def Let_def set_current_location_def
      current_location_def only_package_def package_soft_def package_frame_def)

lemma delivered:
  assumes "pkg_route_id (packages h p) = Some rid" and "pkg_status (packages h p) = PKG_IN_PROGRESS"
  shows "yields (mark_delivered p t h) (\<lambda>_ h'. only_package p h h' \<and>
    pkg_status (packages h' p) = DONE \<and> current_location (packages h' p) = pkg_end (packages h p))"
  using assms
  by (auto simp: mark_delivered_def require_route_id_def Let_def set_current_location_def
      current_location_def only_package_def package_soft_def package_frame_def)

lemma only_packageD:
  assumes "only_package p h h'"
  shows "pkg_start (packages h' p) = pkg_start (packages h p)" "pkg_end (packages h' p) = pkg_end (packages h p)"
    "pkg_route_id (packages h' p) = pkg_route_id (packages h p)" "routes h' = routes h"
  using assms by (auto simp: only_package_def package_soft_def package_frame_def)

lemma completed:
  assumes rid: "pkg_route_id (packages h p) = Some rid"
  shows "yields (complete_package_lifecycle p (Some pick) del h) (\<lambda>(changed, why) h'.
    only_package p h h' \<and> pkg_status (packages h' p) = DONE \<and>
    current_location (packages h' p) = pkg_end (packages h p) \<and>
    why \<in> {None, Some LIFECYCLE_STATE_INCONSISTENT} \<and>
    (pkg_status (packages h p) = DONE \<and> current_location (packages h p) = pkg_end (packages h p) \<longrightarrow>
       \<not> changed \<and> why = None \<and> h' = h))"
proof (cases "pkg_status (packages h p)")
  case TODO
  obtain h1 where 1: "mark_picked_up p pick h = (Inr (), h1)" "only_package p h h1"
    "pkg_status (packages h1 p) = PKG_IN_PROGRESS"
    using yieldsD [OF picked_up [OF rid TODO, of pick]] by auto
  have rid1: "pkg_route_id (packages h1 p) = Some rid" using 1(2) rid by (simp add: only_packageD)
  obtain h2 where 2: "mark_delivered p del h1 = (Inr (), h2)" "only_package p h1 h2"
    "pkg_status (packages h2 p) = DONE" "current_location (packages h2 p) = pkg_end (packages h1 p)"
    using yieldsD [OF delivered [OF rid1 1(3), of del]] by auto
  show ?thesis
    using TODO 1 2 only_package_trans [OF 1(2) 2(2)]
    by (simp add: complete_package_lifecycle_def act_bind_def only_packageD(2) [OF 1(2)] only_packageD(2) [OF 2(2)])
next
  case PKG_IN_PROGRESS
  obtain h2 where 2: "mark_delivered p del h = (Inr (), h2)" "only_package p h h2"
    "pkg_status (packages h2 p) = DONE" "current_location (packages h2 p) = pkg_end (packages h p)"
    using yieldsD [OF delivered [OF rid PKG_IN_PROGRESS, of del]] by auto
  then show ?thesis
    using PKG_IN_PROGRESS by (simp add: complete_package_lifecycle_def act_bind_def only_packageD(2) [OF 2(2)])
next
  case DONE
  then show ?thesis
    by (simp add: complete_package_lifecycle_def act_bind_def only_package_upd package_soft_def
        package_frame_def set_current_location_def current_location_def)
qed

lemma advanced:
  assumes rid: "pkg_route_id (packages h p) = Some rid"
  shows "yields (advance_package_in_progress p (Some pick) loc h) (\<lambda>(changed, reasons) h'.
    only_package p h h' \<and> pkg_status (packages h' p) = PKG_IN_PROGRESS \<and>
    current_location (packages h' p) = loc \<and> distinct reasons \<and>
    set reasons \<subseteq> {LIFECYCLE_STATE_INCONSISTENT, ROUTE_PROGRESS_ADVANCED} \<and>
    (pkg_status (packages h p) = PKG_IN_PROGRESS \<and> current_location (packages h p) = loc \<longrightarrow>
       \<not> changed \<and> reasons = [] \<and> h' = h))"
proof -
  have move: "only_package p h (upd_package p (set_current_location (Some loc)) h1)"
    "pkg_status (packages (upd_package p (set_current_location (Some loc)) h1) p) = pkg_status (packages h1 p)"
    "current_location (packages (upd_package p (set_current_location (Some loc)) h1) p) = loc"
    if "only_package p h h1" for h1
    using only_package_trans [OF that only_package_upd [of h1 p "set_current_location (Some loc)"]]
    by (simp_all add: set_current_location_def current_location_def package_soft_def package_frame_def)
  show ?thesis
  proof (cases "pkg_status (packages h p)")
    case TODO
    obtain h1 where "mark_picked_up p pick h = (Inr (), h1)" "only_package p h h1"
      "pkg_status (packages h1 p) = PKG_IN_PROGRESS"
      using yieldsD [OF picked_up [OF rid TODO, of pick]] by auto
    then show ?thesis using TODO move [of h1]
      by (simp add: advance_package_in_progress_def act_bind_def)
  next
    case PKG_IN_PROGRESS
    then show ?thesis using move [of h] by (simp add: advance_package_in_progress_def act_bind_def)
  next
    case DONE
    let ?h = "upd_package p (\<lambda>x. x\<lparr>pkg_status := PKG_IN_PROGRESS\<rparr>) h"
    have "only_package p h ?h" by (intro only_package_upd) (simp add: package_soft_def package_frame_def)
    then show ?thesis using DONE move [of ?h]
      by (simp add: advance_package_in_progress_def act_bind_def)
  qed
qed

lemma restored:
  assumes "restore_package_before_pickup x = (changed, y)"
  shows "package_soft x y" "pkg_status y = TODO" "current_location y = pkg_start x"
    "pkg_expected_arrival y = pkg_expected_arrival x"
    "\<not> changed \<longleftrightarrow> pkg_status x = TODO \<and> current_location x = pkg_start x" "\<not> changed \<Longrightarrow> y = x"
  using assms
  by (auto simp: restore_package_before_pickup_def Let_def package_soft_def package_frame_def
      set_current_location_def current_location_def split: if_splits)

section \<open>The stop times of a scheduled route\<close>

lemma collect_stop_times_scheduled:
  assumes x: "route_ok x" "schedule x = Some s" and cs: "set cs \<subseteq> set (path x)"
  shows "collect_stop_times x cs m = Inr (\<lambda>c. if c \<in> set cs then arrival_times s c else m c)"
  using cs
proof (induction cs arbitrary: m)
  case (Cons c cs)
  then obtain t where t: "arrival_times s c = Some t" "sched_arrival_time_at s c = Inr t"
    using sched_arrival_on_path [OF x, of c] by auto
  have "location_code (PyStr c) = Inr c"
    using Cons.prems route_okD(2) [OF x(1)] path_ok_code by simp
  then have "arrival_time_at x (PyStr c) = Inr t"
    using x(2) t by (simp add: arrival_time_at_def)
  then show ?case
    using Cons t(1) by (auto simp: suppress_value_error_def fun_eq_iff)
qed simp

text \<open>The loop of \<open>_last_reached_city\<close> stops at the last stop that has been reached.\<close>

lemma last_reached_loop_spec:
  assumes times: "\<And>k. k < length locs \<Longrightarrow> st (locs ! k) = Some (arr k)"
    and reached: "arr i \<le> now" and ahead: "now < arr j" and j: "i < j" "j < length locs"
  shows "\<exists>k. i \<le> k \<and> k < j \<and> arr k \<le> now \<and> now < arr (Suc k) \<and>
    last_reached_loop locs st now [i..<Suc j] c = locs ! k"
proof -
  have step: "\<exists>k. n \<le> k \<and> k < j \<and> arr k \<le> now \<and> now < arr (Suc k) \<and>
      last_reached_loop locs st now [Suc n..<Suc j] (locs ! n) = locs ! k"
    if "arr n \<le> now" "n < j" "j - n = d" for n d
    using that
  proof (induction d arbitrary: n)
    case (Suc d)
    have n: "Suc n < length locs" using Suc.prems j by simp
    have u: "[Suc n..<Suc j] = Suc n # [Suc (Suc n)..<Suc j]" using Suc.prems by (simp add: upt_conv_Cons del: upt_Suc)
    show ?case
    proof (cases "now < arr (Suc n)")
      case True
      then show ?thesis using Suc.prems times [OF n] by (intro exI [of _ n]) (simp add: u del: upt_Suc)
    next
      case False
      then have "Suc n < j" using Suc.prems ahead by (metis Suc_lessI linorder_not_less)
      then have "\<exists>k. Suc n \<le> k \<and> k < j \<and> arr k \<le> now \<and> now < arr (Suc k) \<and>
          last_reached_loop locs st now [Suc (Suc n)..<Suc j] (locs ! Suc n) = locs ! k"
        using Suc.IH [of "Suc n"] Suc.prems False by auto
      then obtain k where "Suc n \<le> k" "k < j" "arr k \<le> now" "now < arr (Suc k)"
        "last_reached_loop locs st now [Suc (Suc n)..<Suc j] (locs ! Suc n) = locs ! k" by blast
      then show ?thesis using False times [OF n] by (intro exI [of _ k]) (simp add: u del: upt_Suc)
    qed
  qed simp
  have "[i..<Suc j] = i # [Suc i..<Suc j]" using j by (simp add: upt_conv_Cons del: upt_Suc)
  then have "last_reached_loop locs st now [i..<Suc j] c = last_reached_loop locs st now [Suc i..<Suc j] (locs ! i)"
    using times [of i] j reached by (simp del: upt_Suc)
  then show ?thesis using step [OF reached j(1) refl] by simp
qed

section \<open>One package of a scheduled route\<close>

text \<open>What the loop over the packages knows of a package on a scheduled route.\<close>

definition on_schedule :: "heap \<Rightarrow> rref \<Rightarrow> route_schedule \<Rightarrow> pref \<Rightarrow> nat \<Rightarrow> nat \<Rightarrow> bool" where
  "on_schedule h r s p i j \<longleftrightarrow>
     route_ok (routes h r) \<and> schedule (routes h r) = Some s \<and>
     i < j \<and> j < length (path (routes h r)) \<and>
     path (routes h r) ! i = pkg_start (packages h p) \<and> path (routes h r) ! j = pkg_end (packages h p) \<and>
     (\<exists>rid. pkg_route_id (packages h p) = Some rid)"

lemma on_scheduleD:
  assumes "on_schedule h r s p i j"
  shows "schedule_ok s" "length (sched_stops s) = length (path (routes h r))"
    "k < length (path (routes h r)) \<Longrightarrow> stop_location (sched_stops s ! k) = path (routes h r) ! k"
    "k < length (path (routes h r)) \<Longrightarrow>
       arrival_times s (path (routes h r) ! k) = Some (stop_arrival_at (sched_stops s ! k))"
    "index_dict (path (routes h r)) (pkg_start (packages h p)) = Some i"
    "index_dict (path (routes h r)) (pkg_end (packages h p)) = Some j"
    "stop_arrival_at (sched_stops s ! i) < stop_arrival_at (sched_stops s ! j)"
proof -
  have x: "route_ok (routes h r)" "schedule (routes h r) = Some s" and ij: "i < j" "j < length (path (routes h r))"
    and pe: "path (routes h r) ! i = pkg_start (packages h p)" "path (routes h r) ! j = pkg_end (packages h p)"
    using assms by (auto simp: on_schedule_def)
  note rd = route_okD [OF x(1)]
  show s: "schedule_ok s" and l: "length (sched_stops s) = length (path (routes h r))"
    using rd(3,5) x(2) by auto
  show st: "k < length (path (routes h r)) \<Longrightarrow> stop_location (sched_stops s ! k) = path (routes h r) ! k" for k
    using rd(6) x(2) by auto
  show "k < length (path (routes h r)) \<Longrightarrow>
      arrival_times s (path (routes h r) ! k) = Some (stop_arrival_at (sched_stops s ! k))"
    using arrival_times_nth [OF s, of k] st l by simp
  have "distinct (path (routes h r))" using rd(2) by (simp add: path_ok_def)
  then show "index_dict (path (routes h r)) (pkg_start (packages h p)) = Some i"
    "index_dict (path (routes h r)) (pkg_end (packages h p)) = Some j"
    using ij pe by (auto simp: index_dict_Some_iff)
  show "stop_arrival_at (sched_stops s ! i) < stop_arrival_at (sched_stops s ! j)"
    using arrivals_increase [OF s ij(1)] ij l by simp
qed

abbreviation route_stop_times :: "heap \<Rightarrow> rref \<Rightarrow> route_schedule \<Rightarrow> (location \<rightharpoonup> time)" where
  "route_stop_times h r s \<equiv> (\<lambda>c. if c \<in> set (path (routes h r)) then arrival_times s c else None)"

text \<open>The stop at which a package under way is: unique, since the arrival times increase.\<close>

lemma reached_unique:
  assumes s: "schedule_ok s" and "k < length (sched_stops s) - 1" "l < length (sched_stops s) - 1"
    and "stop_arrival_at (sched_stops s ! k) \<le> now" "now < stop_arrival_at (sched_stops s ! Suc k)"
    and "stop_arrival_at (sched_stops s ! l) \<le> now" "now < stop_arrival_at (sched_stops s ! Suc l)"
  shows "k = l"
proof -
  have "k < length (sched_stops s)" "l < length (sched_stops s)" using assms by auto
  then show ?thesis
    using arrivals_mono [OF s, of "Suc k" l] arrivals_mono [OF s, of "Suc l" k] assms
    by (cases k l rule: linorder_cases) auto
qed

lemma progressed:
  assumes on: "on_schedule h r s p i j"
  shows "yields (reconcile_package_progress r (route_stop_times h r s) (index_dict (path (routes h r))) now p h)
    (\<lambda>(changed, reasons) h'. only_package p h h' \<and> package_placed s i j now (packages h' p) \<and>
       distinct reasons \<and> EXPECTED_ARRIVAL_RECALCULATED \<notin> set reasons \<and>
       (package_placed s i j now (packages h p) \<longrightarrow> \<not> changed \<and> reasons = [] \<and> h' = h))"
proof -
  let ?x = "packages h p" and ?path = "path (routes h r)"
  let ?arr = "\<lambda>k. stop_arrival_at (sched_stops s ! k)"
  note D = on_scheduleD [OF on]
  have ij: "i < j" "j < length ?path" and pe: "?path ! i = pkg_start ?x" "?path ! j = pkg_end ?x"
    using on by (auto simp: on_schedule_def)
  obtain rid where rid: "pkg_route_id ?x = Some rid" using on by (auto simp: on_schedule_def)
  have times: "route_stop_times h r s (?path ! k) = Some (?arr k)" if "k < length ?path" for k
    using that D(4) by simp
  have st: "route_stop_times h r s (pkg_start ?x) = Some (?arr i)"
    and en: "route_stop_times h r s (pkg_end ?x) = Some (?arr j)"
    using times [of i, unfolded pe] times [of j, unfolded pe] ij by (blast intro: order.strict_trans)+
  consider (waiting) "now < ?arr i" | (finished) "\<not> now < ?arr i" "?arr j \<le> now"
    | (under_way) "\<not> now < ?arr i" "\<not> ?arr j \<le> now" by blast
  then show ?thesis
  proof cases
    case waiting
    obtain c y where y: "restore_package_before_pickup ?x = (c, y)" by fastforce
    note R = restored [OF y]
    have *: "reconcile_package_progress r (route_stop_times h r s) (index_dict ?path) now p h =
        (Inr (c, if c then [BEFORE_SCHEDULED_PICKUP] else []), upd_package p (\<lambda>_. y) h)"
      unfolding reconcile_package_progress_def Let_def st en using waiting y by simp
    have "only_package p h (upd_package p (\<lambda>_. y) h)" using R(1) by (intro only_package_upd)
    moreover have "upd_package p (\<lambda>_. y) h = h" if "\<not> c"
      using R(6) [OF that] by (intro heap_eqI) (simp_all add: fun_eq_iff)
    moreover have "package_placed s i j now y"
      using R(1-3) waiting by (simp add: package_placed_def package_soft_def package_frame_def)
    moreover have "package_placed s i j now ?x \<longrightarrow> \<not> c"
      using R(5) waiting by (simp add: package_placed_def)
    ultimately show ?thesis unfolding * by simp
  next
    case finished
    have *: "reconcile_package_progress r (route_stop_times h r s) (index_dict ?path) now p h =
        act_bind (complete_package_lifecycle p (Some (?arr i)) (?arr j)) (\<lambda>(changed, reason).
          act_return (changed, case reason of None \<Rightarrow> [] | Some why \<Rightarrow> [why])) h"
      unfolding reconcile_package_progress_def Let_def st en using finished by simp
    obtain c why h' where C: "complete_package_lifecycle p (Some (?arr i)) (?arr j) h = (Inr (c, why), h')"
      "only_package p h h'" "pkg_status (packages h' p) = DONE"
      "current_location (packages h' p) = pkg_end ?x" "why \<in> {None, Some LIFECYCLE_STATE_INCONSISTENT}"
      "pkg_status ?x = DONE \<and> current_location ?x = pkg_end ?x \<Longrightarrow> \<not> c \<and> why = None \<and> h' = h"
      using yieldsD [OF completed [OF rid, of "?arr i" "?arr j"]] by auto
    have "package_placed s i j now (packages h' p)"
      using finished C(3,4) only_packageD(2) [OF C(2)] by (simp add: package_placed_def)
    moreover have "\<not> c \<and> why = None \<and> h' = h" if "package_placed s i j now ?x"
      using that finished C(6) by (simp add: package_placed_def)
    ultimately show ?thesis
      unfolding * using C(1,2,5) by (auto simp: act_bind_def)
  next
    case under_way
    then have r: "?arr i \<le> now" "now < ?arr j" by simp_all
    obtain k where k: "i \<le> k" "k < j" "?arr k \<le> now" "now < ?arr (Suc k)"
      "last_reached_loop ?path (route_stop_times h r s) now [i..<Suc j] (pkg_start ?x) = ?path ! k"
      using last_reached_loop_spec [of ?path "route_stop_times h r s" ?arr i now j "pkg_start ?x",
          OF times r ij] by blast
    have kl: "stop_location (sched_stops s ! k) = ?path ! k" using D(3) k ij by simp
    have *: "reconcile_package_progress r (route_stop_times h r s) (index_dict ?path) now p h =
        advance_package_in_progress p (Some (?arr i)) (?path ! k) h"
      unfolding reconcile_package_progress_def Let_def st en
      using under_way k(5) D(5,6)
      by (simp add: last_reached_city_def act_bind_def del: upt_Suc)
    have same: "stop_location (sched_stops s ! l) = ?path ! k"
      if "l < j" "?arr l \<le> now" "now < ?arr (Suc l)" for l
    proof -
      have "k < length (sched_stops s) - 1" "l < length (sched_stops s) - 1"
        using that(1) k(2) ij(2) D(2) by linarith+
      from reached_unique [OF D(1) this k(3,4) that(2,3)] kl show ?thesis by simp
    qed
    show ?thesis
      unfolding *
      by (rule yields_mono [OF advanced [OF rid, where pick = "?arr i" and loc = "?path ! k"]])
        (use under_way k same kl in \<open>auto simp: package_placed_def Let_def\<close>)
  qed
qed

text \<open>The expected arrival is always the scheduled arrival at the destination.\<close>

lemma refreshed:
  assumes x: "route_ok (routes h r)" "schedule (routes h r) = Some s"
    and e: "pkg_end (packages h p) \<in> set (path (routes h r))"
    and a: "arrival_times s (pkg_end (packages h p)) = Some t"
  shows "refresh_expected_arrival r p changed reasons h =
    (if pkg_expected_arrival (packages h p) = Some t then (Inr (changed, reasons), h)
     else (Inr (True, reasons @ [EXPECTED_ARRIVAL_RECALCULATED]),
           upd_package p (\<lambda>y. y\<lparr>pkg_expected_arrival := Some t\<rparr>) h))"
proof -
  have "location_code (PyStr (pkg_end (packages h p))) = Inr (pkg_end (packages h p))"
    using e route_okD(2) [OF x(1)] path_ok_code by simp
  then have "arrival_time_at (routes h r) (PyStr (pkg_end (packages h p))) = Inr t"
    using x(2) a by (simp add: arrival_time_at_def sched_arrival_time_at_def)
  then show ?thesis by (simp add: refresh_expected_arrival_def suppress_value_error_def)
qed

definition settle_post :: "rref \<Rightarrow> time \<Rightarrow> pref \<Rightarrow> heap \<Rightarrow> bool \<times> 'e list \<Rightarrow> heap \<Rightarrow> bool" where
  "settle_post r now p h res h' \<longleftrightarrow>
     only_package p h h' \<and> package_settled (routes h r) now (packages h' p) \<and>
     (package_settled (routes h r) now (packages h p) \<longrightarrow> res = (False, []) \<and> h' = h)"

lemma package_settled_on_schedule:
  assumes on: "on_schedule h r s p i j"
    and y: "pkg_start y = pkg_start (packages h p)" "pkg_end y = pkg_end (packages h p)"
  shows "package_settled (routes h r) now y \<longleftrightarrow>
    pkg_expected_arrival y = Some (stop_arrival_at (sched_stops s ! j)) \<and> package_placed s i j now y"
proof -
  have ij: "i < j" "j < length (path (routes h r))" "path (routes h r) ! i = pkg_start y"
    "path (routes h r) ! j = pkg_end y" "schedule (routes h r) = Some s" "path_ok (path (routes h r))"
    using on y route_okD(2) by (auto simp: on_schedule_def)
  have "i' = i \<and> j' = j" if "i' < j'" "j' < length (path (routes h r))" "path (routes h r) ! i' = pkg_start y"
    "path (routes h r) ! j' = pkg_end y" for i' j'
    using that ij path_okD(2) [OF ij(6)]
    by (metis (no_types) nth_eq_iff_index_eq order.strict_trans)
  then show ?thesis unfolding package_settled_def ij(5) option.case using ij(1-4) by blast
qed

lemma expected_arrival_update [simp]:
  "current_location (x\<lparr>pkg_expected_arrival := v\<rparr>) = current_location x"
  "package_placed s i j now (x\<lparr>pkg_expected_arrival := v\<rparr>) = package_placed s i j now x"
proof -
  show a: "current_location (x\<lparr>pkg_expected_arrival := v\<rparr>) = current_location x"
    by (cases "pkg_location_field x") (simp_all add: current_location_def)
  show "package_placed s i j now (x\<lparr>pkg_expected_arrival := v\<rparr>) = package_placed s i j now x"
    by (simp add: package_placed_def a)
qed

lemma updated_on_schedule:
  assumes on: "on_schedule h r s p i j"
  shows "yields (update_package_for_route r (route_stop_times h r s) (index_dict (path (routes h r))) now p h)
    (settle_post r now p h)"
proof -
  let ?x = "packages h p" and ?path = "path (routes h r)"
  let ?t = "stop_arrival_at (sched_stops s ! j)"
  note D = on_scheduleD [OF on]
  have base: "route_ok (routes h r)" "schedule (routes h r) = Some s" "i < j" "j < length ?path"
    "?path ! j = pkg_end ?x" using on by (auto simp: on_schedule_def)
  have e: "pkg_end ?x \<in> set ?path" "arrival_times s (pkg_end ?x) = Some ?t"
    using base D(4) [of j] by (metis nth_mem, simp)
  obtain c rs h1 where P: "reconcile_package_progress r (route_stop_times h r s) (index_dict ?path) now p h
      = (Inr (c, rs), h1)" "only_package p h h1" "package_placed s i j now (packages h1 p)"
    "distinct rs" "EXPECTED_ARRIVAL_RECALCULATED \<notin> set rs"
    "package_placed s i j now ?x \<Longrightarrow> \<not> c \<and> rs = [] \<and> h1 = h"
    using yieldsD [OF progressed [OF on, of now]] by auto
  note O = only_packageD [OF P(2)]
  define h2 where "h2 = (if pkg_expected_arrival (packages h1 p) = Some ?t then h1
    else upd_package p (\<lambda>y. y\<lparr>pkg_expected_arrival := Some ?t\<rparr>) h1)"
  define res where "res = (if pkg_expected_arrival (packages h1 p) = Some ?t then (c, rs)
    else (True, rs @ [EXPECTED_ARRIVAL_RECALCULATED]))"
  have ref: "refresh_expected_arrival r p c rs h1 = (Inr res, h2)"
    using refreshed [of h1 r s p ?t c rs] base e O by (simp add: h2_def res_def)
  have o12: "only_package p h1 h2"
    unfolding h2_def by (auto intro!: only_package_upd simp: package_soft_def package_frame_def)
  have o2: "only_package p h h2" by (rule only_package_trans [OF P(2) o12])
  have eta2: "pkg_expected_arrival (packages h2 p) = Some ?t" by (simp add: h2_def)
  have pl2: "package_placed s i j now (packages h2 p)"
    using P(3) by (simp add: h2_def)
  have set2: "package_settled (routes h r) now (packages h2 p)"
    unfolding package_settled_on_schedule [OF on only_packageD(1,2) [OF o2]] using eta2 pl2 by simp
  have idle: "res = (False, []) \<and> h2 = h" if "package_settled (routes h r) now ?x"
  proof -
    from that have "pkg_expected_arrival ?x = Some ?t" "package_placed s i j now ?x"
      unfolding package_settled_on_schedule [OF on refl refl] by simp_all
    then show ?thesis using P(6) by (simp add: res_def h2_def)
  qed
  have d: "distinct (snd res)" using P(4,5) by (simp add: res_def)
  have "update_package_for_route r (route_stop_times h r s) (index_dict ?path) now p h =
      (if snd res = [] then (Inr (fst res, []), h2)
       else (Inr (fst res, [PackageStateReconciled (package_id (packages h2 p)) (Some (route_id (routes h2 r)))
          (pkg_status ?x) (pkg_status (packages h2 p)) (current_location ?x) (current_location (packages h2 p))
          (pkg_expected_arrival ?x) (pkg_expected_arrival (packages h2 p))
          (route_stop_times h r s (pkg_start ?x)) (route_stop_times h r s (pkg_end ?x)) (snd res) now]), h2))"
    using base D(5,6) P(1) ref d
    by (cases res) (simp add: update_package_for_route_def Let_def act_bind_def departure_time_def
        check_reasons_def distinct_remdups_id)
  note run = this
  show ?thesis
  proof (cases "package_settled (routes h r) now ?x")
    case True
    from idle [OF this] have "res = (False, [])" "h2 = h" by simp_all
    then show ?thesis using run o2 set2 by (simp add: settle_post_def)
  next
    case False
    then show ?thesis using run o2 set2 by (simp add: settle_post_def)
  qed
qed

lemma updated_unscheduled:
  assumes "schedule (routes h r) = None"
  shows "yields (update_package_for_route r st idx now p h) (settle_post r now p h)"
proof -
  let ?x = "packages h p"
  obtain c y where y: "restore_package_before_pickup ?x = (c, y)" by fastforce
  note R = restored [OF y]
  have soft: "package_soft ?x (y\<lparr>pkg_expected_arrival := None\<rparr>)" "package_soft ?x y"
    using R(1) by (auto simp: package_soft_def package_frame_def)
  show ?thesis
  proof (cases "pkg_expected_arrival y = None")
    case True
    have same: "upd_package p (\<lambda>_. y) h = h" if "\<not> c"
      using R(6) [OF that] by (intro heap_eqI) (simp_all add: fun_eq_iff)
    have "only_package p h (upd_package p (\<lambda>_. y) h)" using soft(2) by (intro only_package_upd)
    then show ?thesis
      using assms y True R same
      by (cases c) (simp_all add: update_package_for_route_def Let_def departure_time_def act_bind_def
          repair_unplaceable_package_def check_reasons_def settle_post_def package_settled_def
          package_soft_def package_frame_def)
  next
    case False
    have "only_package p h (upd_package p (\<lambda>_. y\<lparr>pkg_expected_arrival := None\<rparr>) h)"
      using soft(1) by (intro only_package_upd)
    then show ?thesis
      using assms y False R
      by (simp add: update_package_for_route_def Let_def departure_time_def act_bind_def
          repair_unplaceable_package_def check_reasons_def settle_post_def package_settled_def
          package_soft_def package_frame_def)
  qed
qed

section \<open>All packages of a route\<close>

text \<open>Only the packages of the list differ, and softly.\<close>

definition only_packages :: "pref set \<Rightarrow> heap \<Rightarrow> heap \<Rightarrow> bool" where
  "only_packages ps h h' \<longleftrightarrow>
     (\<forall>q. q \<notin> ps \<longrightarrow> packages h' q = packages h q) \<and> (\<forall>q. package_soft (packages h q) (packages h' q)) \<and>
     routes h' = routes h \<and> trucks h' = trucks h \<and> customers h' = customers h \<and> next_ref h' = next_ref h"

lemma only_packages_of: "only_package p h h' \<Longrightarrow> only_packages {p} h h'"
  unfolding only_package_def only_packages_def by (metis package_soft_refl singletonI)

lemma only_packages_refl [simp]: "only_packages {} h h"
  by (simp add: only_packages_def)

lemma only_packages_trans:
  "only_packages ps h h1 \<Longrightarrow> only_packages qs h1 h2 \<Longrightarrow> only_packages (ps \<union> qs) h h2"
  by (auto simp: only_packages_def intro: package_soft_trans)

text \<open>A package on the list of a consistent route is on its schedule.\<close>

definition packages_linked :: "heap \<Rightarrow> rref \<Rightarrow> bool" where
  "packages_linked h r \<longleftrightarrow>
     route_ok (routes h r) \<and>
     (\<forall>p \<in> set (route_packages (routes h r)).
        (\<exists>rid. pkg_route_id (packages h p) = Some rid) \<and>
        path_includes_in_order (path (routes h r)) (PyStr (pkg_start (packages h p)))
          (PyStr (pkg_end (packages h p))) = Inr True \<and> package_ok (packages h p))"

lemma linked_on_schedule:
  assumes "packages_linked h r" and "schedule (routes h r) = Some s"
    and "p \<in> set (route_packages (routes h r))"
  shows "\<exists>i j. on_schedule h r s p i j"
proof -
  have ok: "route_ok (routes h r)" and pk: "package_ok (packages h p)"
    and inc: "path_includes_in_order (path (routes h r)) (PyStr (pkg_start (packages h p)))
          (PyStr (pkg_end (packages h p))) = Inr True"
    and rid: "\<exists>rid. pkg_route_id (packages h p) = Some rid"
    using assms(1,3) by (auto simp: packages_linked_def)
  have "location_code (PyStr (pkg_start (packages h p))) = Inr (pkg_start (packages h p))"
    "location_code (PyStr (pkg_end (packages h p))) = Inr (pkg_end (packages h p))"
    using pk by (auto simp: package_ok_def intro: locations_are_codes)
  then obtain i j where "index_dict (path (routes h r)) (pkg_start (packages h p)) = Some i"
    "index_dict (path (routes h r)) (pkg_end (packages h p)) = Some j" "i < j"
    using inc by (auto simp: path_includes_in_order_def split: option.splits simp del: index_dict_None_iff)
  then show ?thesis
    using ok rid assms(2)
      index_dict_Some_nth [of "path (routes h r)" "pkg_start (packages h p)" i]
      index_dict_Some_nth [of "path (routes h r)" "pkg_end (packages h p)" j]
    unfolding on_schedule_def by blast
qed

lemma only_package_soft: "only_package p h h' \<Longrightarrow> package_soft (packages h q) (packages h' q)"
  unfolding only_package_def by (metis package_soft_refl)

lemma packages_linked_soft:
  assumes l: "packages_linked h r" and f: "only_package p h h'"
  shows "packages_linked h' r"
proof -
  have soft: "package_soft (packages h q) (packages h' q)" for q by (rule only_package_soft [OF f])
  have "pkg_route_id (packages h' q) = pkg_route_id (packages h q)"
    "pkg_start (packages h' q) = pkg_start (packages h q)" "pkg_end (packages h' q) = pkg_end (packages h q)"
    "package_ok (packages h' q) = package_ok (packages h q)" for q
    using soft [of q] by (auto simp: package_soft_def package_frame_def package_ok_def)
  then show ?thesis using l f by (simp add: packages_linked_def only_package_def)
qed

definition loop_post :: "heap \<Rightarrow> rref \<Rightarrow> time \<Rightarrow> pref list \<Rightarrow> 'a list \<times> 'b list \<Rightarrow> heap \<Rightarrow> bool" where
  "loop_post h r now ps res h' \<longleftrightarrow>
     only_packages (set ps) h h' \<and> (\<forall>p \<in> set ps. package_settled (routes h r) now (packages h' p)) \<and>
     ((\<forall>p \<in> set ps. package_settled (routes h r) now (packages h p)) \<longrightarrow> res = ([], []) \<and> h' = h)"

lemma packages_loop:
  assumes "distinct ps" and "set ps \<subseteq> set (route_packages (routes h r))" and "packages_linked h r"
    and "\<And>p h'. p \<in> set ps \<Longrightarrow> packages_linked h' r \<Longrightarrow> routes h' = routes h \<Longrightarrow>
      yields (update_package_for_route r st idx now p h') (settle_post r now p h')"
  shows "yields (update_packages_loop r st idx now ps h) (loop_post h r now ps)"
  using assms
proof (induction ps arbitrary: h)
  case Nil
  then show ?case by (simp add: loop_post_def)
next
  case (Cons p ps)
  obtain c es h1 where 1: "update_package_for_route r st idx now p h = (Inr (c, es), h1)"
    "only_package p h h1" "package_settled (routes h r) now (packages h1 p)"
    and idle1: "package_settled (routes h r) now (packages h p) \<longrightarrow> (c, es) = (False, []) \<and> h1 = h"
    using yieldsD [OF Cons.prems(4) [of p h]] Cons.prems(3) by (auto simp: settle_post_def)
  have rt: "routes h1 = routes h" using 1(2) by (simp add: only_package_def)
  have "yields (update_packages_loop r st idx now ps h1) (loop_post h1 r now ps)"
    using Cons.prems 1(2) rt packages_linked_soft by (intro Cons.IH) auto
  from yieldsD [OF this] obtain cs fs h2 where
    2: "update_packages_loop r st idx now ps h1 = (Inr (cs, fs), h2)"
    and post: "loop_post h1 r now ps (cs, fs) h2"
    by (metis surj_pair)
  have 3: "only_packages (set ps) h1 h2" "\<forall>q \<in> set ps. package_settled (routes h r) now (packages h2 q)"
    and idle2: "(\<forall>q \<in> set ps. package_settled (routes h r) now (packages h1 q)) \<longrightarrow> (cs, fs) = ([], []) \<and> h2 = h1"
    using post unfolding loop_post_def rt by blast+
  have p2: "packages h2 p = packages h1 p" using 3(1) Cons.prems(1) by (simp add: only_packages_def)
  have other: "packages h1 q = packages h q" if "q \<in> set ps" for q
    using 1(2) Cons.prems(1) that by (auto simp: only_package_def)
  have "only_packages (insert p (set ps)) h h2"
    using only_packages_trans [OF only_packages_of [OF 1(2)] 3(1)] by simp
  moreover have "(c, es) = (False, []) \<and> (cs, fs) = ([], []) \<and> h2 = h"
    if "\<forall>q \<in> set (p # ps). package_settled (routes h r) now (packages h q)"
  proof -
    have "(c, es) = (False, []) \<and> h1 = h" using idle1 that by simp
    moreover have "(cs, fs) = ([], []) \<and> h2 = h1" using idle2 other that by simp
    ultimately show ?thesis by simp
  qed
  ultimately show ?case
    using 1(1,3) 2 3(2) p2 by (auto simp: loop_post_def act_bind_def)
qed

theorem packages_settle:
  assumes l: "packages_linked h r" and d: "distinct (route_packages (routes h r))"
  shows "yields (update_packages_for_route r now h) (loop_post h r now (route_packages (routes h r)))"
proof (cases "schedule (routes h r)")
  case None
  have "yields (update_packages_loop r Map.empty (index_dict (path (routes h r))) now (route_packages (routes h r)) h)
      (loop_post h r now (route_packages (routes h r)))"
    by (rule packages_loop [OF d _ l]) (use None in \<open>auto intro: updated_unscheduled\<close>)
  then show ?thesis using None by (simp add: update_packages_for_route_def departure_time_def Let_def)
next
  case (Some s)
  have ok: "route_ok (routes h r)" using l by (simp add: packages_linked_def)
  have "yields (update_packages_loop r (route_stop_times h r s) (index_dict (path (routes h r))) now
      (route_packages (routes h r)) h) (loop_post h r now (route_packages (routes h r)))"
  proof (rule packages_loop [OF d _ l])
    fix p h' assume p: "p \<in> set (route_packages (routes h r))" and l': "packages_linked h' r" and r: "routes h' = routes h"
    obtain i j where "on_schedule h' r s p i j"
      using linked_on_schedule [OF l', of s p] p Some r by auto
    from updated_on_schedule [OF this, of now]
    show "yields (update_package_for_route r (route_stop_times h r s) (index_dict (path (routes h r))) now p h')
        (settle_post r now p h')"
      by (simp add: r)
  qed simp
  then show ?thesis
    using collect_stop_times_scheduled [OF ok Some, of "path (routes h r)" Map.empty] Some
    by (simp add: update_packages_for_route_def departure_time_def Let_def)
qed

section \<open>The world stays consistent\<close>

lemma world_packages_linked:
  assumes w: "world_ok R P T h" and r: "r \<in> R"
  shows "packages_linked h r"
proof -
  note rl = world_okD(1) [OF w r]
  have "pkg_route (packages h p) = Some r \<and> p \<in> P" if "p \<in> set (route_packages (routes h r))" for p
    using route_linksD(3,4) [OF rl] that by blast
  then show ?thesis
    using rl world_okD(2) [OF w] unfolding packages_linked_def route_links_ok_def
    by (fastforce simp: package_links_ok_def)
qed

lemma world_only_packages:
  assumes w: "world_ok R P T h" and r: "r \<in> R"
    and f: "only_packages (set (route_packages (routes h r))) h h'"
  shows "world_ok R P T h'"
proof (rule world_okI [OF w])
  have soft: "package_soft (packages h p) (packages h' p)" for p using f by (simp add: only_packages_def)
  have heap: "routes h' = routes h" "trucks h' = trucks h" "next_ref h' = next_ref h"
    using f by (simp_all add: only_packages_def)
  show "route_links_ok P T h' q" if "q \<in> R" for q
    by (rule route_links_frame [OF world_okD(1) [OF w that]])
      (use soft in \<open>auto simp: heap same_cargo_def package_soft_def package_frame_def\<close>)
  show "truck_links_ok R h' t" if "t \<in> T" for t
    by (rule truck_links_frame [OF world_okD(3) [OF w that]]) (auto simp: heap)
  show "package_links_ok R h' p" if p: "p \<in> P" for p
  proof (cases "p \<in> set (route_packages (routes h r))")
    case True
    have "pkg_route (packages h p) = Some r" using route_linksD(4) [OF world_okD(1) [OF w r] True] .
    then show ?thesis
      using world_okD(2) [OF w p] soft [of p]
      by (simp add: package_links_ok_def package_soft_def package_frame_def package_ok_def heap)
  next
    case False
    then have "packages h' p = packages h p" using f by (simp add: only_packages_def)
    then show ?thesis by (rule package_links_frame [OF world_okD(2) [OF w p]]) (simp add: heap)
  qed
  show "route_id (routes h' q) = route_id (routes h q)" "next_ref h' = next_ref h" for q by (simp_all add: heap)
  show "package_id (packages h' p) = package_id (packages h p)" for p
    using soft [of p] by (simp add: package_soft_def package_frame_def)
qed

definition status_set :: "rref \<Rightarrow> route_status \<Rightarrow> domain_event list \<Rightarrow> heap \<Rightarrow> heap" where
  "status_set r s es h = upd_route r (\<lambda>x. x\<lparr>route_status := s, route_events := es\<rparr>) h"

lemma world_status_set:
  assumes w: "world_ok R P T h" and s: "schedule (routes h r) = None \<longleftrightarrow> s = PLANNED"
  shows "world_ok R P T (status_set r s es h)" (is "world_ok R P T ?h")
proof (rule world_okI [OF w])
  show "route_links_ok P T ?h q" if q: "q \<in> R" for q
  proof (cases "q = r")
    case True
    have "route_ok (routes ?h r) = route_ok (routes h r)"
      by (rule route_ok_cong) (simp_all add: status_set_def)
    moreover have "route_maximum_segment_load ?h r None = route_maximum_segment_load h r None"
      by (rule load_cong) (simp_all add: status_set_def)
    moreover have "truck_fits ?h r x = truck_fits h r x" for x
      by (rule truck_fits_cong) (simp_all add: status_set_def)
    ultimately show ?thesis
      using world_okD(1) [OF w q] True s
      by (cases "route_truck (routes h r)") (auto simp: route_links_ok_def status_set_def)
  next
    case False
    show ?thesis
      by (rule route_links_frame [OF world_okD(1) [OF w q]]) (use False in \<open>auto simp: status_set_def\<close>)
  qed
  show "package_links_ok R ?h p" if "p \<in> P" for p
    by (rule package_links_frame [OF world_okD(2) [OF w that]]) (auto simp: status_set_def)
  show "truck_links_ok R ?h t" if "t \<in> T" for t
    by (rule truck_links_frame [OF world_okD(3) [OF w that]])
      (auto simp: status_set_def departure_time_def eta_final_def)
qed (simp_all add: status_set_def)

definition truck_moved :: "tref \<Rightarrow> rref \<Rightarrow> location \<Rightarrow> location option \<Rightarrow> heap \<Rightarrow> heap" where
  "truck_moved t r c v h =
     upd_truck t (\<lambda>x. x\<lparr>truck_location := Some c, in_transit_to := v, truck_route := Some r\<rparr>) h"

lemma world_truck_moved:
  assumes w: "world_ok R P T h" and t: "truck_route (trucks h t) = Some r"
  shows "world_ok R P T (truck_moved t r c v h)" (is "world_ok R P T ?h")
proof (rule world_okI [OF w])
  show "route_links_ok P T ?h q" if q: "q \<in> R" for q
    by (rule route_links_frame [OF world_okD(1) [OF w q]])
      (use t in \<open>auto simp: truck_moved_def truck_frame_def\<close>)
  show "package_links_ok R ?h p" if "p \<in> P" for p
    by (rule package_links_frame [OF world_okD(2) [OF w that]]) (auto simp: truck_moved_def)
  show "truck_links_ok R ?h u" if u: "u \<in> T" for u
    using world_okD(3) [OF w u] t
    by (cases "truck_route (trucks h u)") (auto simp: truck_links_ok_def truck_moved_def)
qed (simp_all add: truck_moved_def)

section \<open>The status of a route\<close>

definition status_settled :: "rref \<Rightarrow> time \<Rightarrow> heap \<Rightarrow> bool" where
  "status_settled r now h \<longleftrightarrow> route_status (routes h r) = fst (compute_route_status (routes h r) now)"

text \<open>
  The one status the service cannot derive: a completed route cannot go back into progress.
\<close>

definition regressed :: "rref \<Rightarrow> time \<Rightarrow> heap \<Rightarrow> bool" where
  "regressed r now h \<longleftrightarrow>
     route_status (routes h r) = COMPLETED \<and> fst (compute_route_status (routes h r) now) = IN_PROGRESS"

lemma compute_status_scheduled:
  "schedule x = Some s \<Longrightarrow> compute_route_status x now =
     (if now < sched_departure_time s then (SCHEDULED, Some BEFORE_SCHEDULED_DEPARTURE)
      else if sched_eta_final s \<le> now then (COMPLETED, None) else (IN_PROGRESS, None))"
  by (simp add: compute_route_status_def departure_time_def eta_final_def)

lemma compute_status_unscheduled:
  "schedule x = None \<Longrightarrow> compute_route_status x now = (PLANNED, Some MISSING_DEPARTURE_TIME)"
  by (simp add: compute_route_status_def departure_time_def)

lemma status_settles:
  assumes sch: "schedule (routes h r) = None \<longleftrightarrow> route_status (routes h r) = PLANNED"
    and reg: "\<not> regressed r now h" and c: "compute_route_status (routes h r) now = (s, why)"
  shows "yields (update_route_status r s why now h) (\<lambda>res h'. (\<exists>es. h' = status_set r s es h) \<and>
    (schedule (routes h r) = None \<longleftrightarrow> s = PLANNED) \<and>
    (status_settled r now h \<longrightarrow> res = (False, []) \<and> h' = h))"
proof -
  have mk: "\<exists>es. record_route_event r e (upd_route r (\<lambda>x. x\<lparr>route_status := st\<rparr>) h) = status_set r st es h" for e st
    by (rule exI [of _ "route_events (routes h r) @ [e]"])
      (auto simp: status_set_def intro!: heap_eqI)
  have direct: "\<exists>es. upd_route r (\<lambda>x. x\<lparr>route_status := st\<rparr>) h = status_set r st es h" for st
    by (rule exI [of _ "route_events (routes h r)"]) (auto simp: status_set_def intro!: heap_eqI)
  have idle: "h = status_set r (route_status (routes h r)) (route_events (routes h r)) h"
    by (auto simp: status_set_def intro!: heap_eqI)
  show ?thesis
  proof (cases "route_status (routes h r) = s")
    case True
    then show ?thesis
      using idle sch by (auto simp: update_route_status_def)
  next
    case False
    then have ns: "\<not> status_settled r now h" by (simp add: status_settled_def c)
    show ?thesis
    proof (cases "schedule (routes h r)")
      case None
      then show ?thesis
        using c False ns direct sch
        by (simp add: compute_status_unscheduled update_route_status_def apply_route_status_def Let_def
            act_bind_def)
    next
      case (Some sc)
      have "s = SCHEDULED \<and> why = Some BEFORE_SCHEDULED_DEPARTURE \<or>
          s = COMPLETED \<and> why = None \<or> s = IN_PROGRESS \<and> why = None"
        using c by (auto simp: compute_status_scheduled [OF Some] split: if_splits)
      moreover have "route_status (routes h r) = SCHEDULED" if "s = IN_PROGRESS"
        using that False reg sch Some c by (cases "route_status (routes h r)") (auto simp: regressed_def)
      moreover have "route_status (routes h r) \<noteq> PLANNED" using sch Some by simp
      ultimately show ?thesis
        using False ns direct mk Some
        by (cases "route_status (routes h r)")
          (auto simp: update_route_status_def apply_route_status_def Let_def act_bind_def mark_started_def
            mark_completed_def departure_time_def eta_final_def)
    qed
  qed
qed

section \<open>The truck of a route\<close>

text \<open>
  Where the truck of a route under way must be, and where it is going.  Once the route has ended
  the truck has been released.
\<close>

definition truck_place :: "route_schedule \<Rightarrow> time \<Rightarrow> location \<times> location option" where
  "truck_place s now =
     (case pos_kind (position_spec s now) of
        IN_TRANSIT \<Rightarrow> (the (pos_from_city (position_spec s now)), pos_to_city (position_spec s now))
      | _ \<Rightarrow> (the (pos_stop_city (position_spec s now)), None))"

definition truck_settled :: "rref \<Rightarrow> time \<Rightarrow> heap \<Rightarrow> bool" where
  "truck_settled r now h \<longleftrightarrow>
     (case route_truck (routes h r) of
        None \<Rightarrow> True
      | Some t \<Rightarrow>
          (case schedule (routes h r) of
             None \<Rightarrow> False
           | Some s \<Rightarrow> now < sched_eta_final s \<and>
               truck_location (trucks h t) = Some (fst (truck_place s now)) \<and>
               in_transit_to (trucks h t) = snd (truck_place s now)))"

text \<open>What the truck part may change, besides the truck: the link and the events of the route.\<close>

definition truck_part :: "rref \<Rightarrow> heap \<Rightarrow> heap \<Rightarrow> bool" where
  "truck_part r h h' \<longleftrightarrow>
     packages h' = packages h \<and>
     route_id (routes h' r) = route_id (routes h r) \<and> path (routes h' r) = path (routes h r) \<and>
     route_packages (routes h' r) = route_packages (routes h r) \<and>
     route_status (routes h' r) = route_status (routes h r) \<and>
     schedule (routes h' r) = schedule (routes h r)"

lemma truck_part_refl [simp]: "truck_part r h h"
  by (simp add: truck_part_def)

lemma truck_part_moved [simp]: "truck_part r h (truck_moved t q c v h)"
  by (simp add: truck_part_def truck_moved_def)

lemma truck_part_released [simp]:
  "truck_part r h (truck_unlinked r t e h)" "truck_part r h (truck_unlinked r t e (truck_moved t q c v h))"
  by (auto simp: truck_part_def truck_unlinked_store truck_moved_def)

definition place_post ::
    "rref set \<Rightarrow> pref set \<Rightarrow> tref set \<Rightarrow> rref \<Rightarrow> time \<Rightarrow> heap \<Rightarrow> bool \<times> bool \<Rightarrow> heap \<Rightarrow> bool" where
  "place_post R P T r now h res h' \<longleftrightarrow>
     world_ok R P T h' \<and> truck_part r h h' \<and> truck_settled r now h' \<and>
     (truck_settled r now h \<longrightarrow> res = (False, False) \<and> h' = h)"

lemma truck_moved_same:
  "truck_location (trucks h t) = Some c \<Longrightarrow> in_transit_to (trucks h t) = v \<Longrightarrow>
     truck_route (trucks h t) = Some r \<Longrightarrow> truck_moved t r c v h = h"
  by (auto simp: truck_moved_def intro!: heap_eqI)

lemma place_settles:
  assumes w: "world_ok R P T h" and r: "r \<in> R" and t: "route_truck (routes h r) = Some t"
    and s: "schedule (routes h r) = Some s"
  shows "yields (place_truck r t (position_spec s now) now h) (place_post R P T r now h)"
proof -
  note tr = world_truck_other [OF w r t]
  have ok: "schedule_ok s" and len: "length (sched_stops s) = length (path (routes h r))"
    and stop: "\<And>k. k < length (path (routes h r)) \<Longrightarrow> stop_location (sched_stops s ! k) = path (routes h r) ! k"
    using route_okD(3,5,6) [OF route_linksD(1) [OF world_okD(1) [OF w r]]] s by auto
  have pok: "path_ok (path (routes h r))"
    using route_okD(2) [OF route_linksD(1) [OF world_okD(1) [OF w r]]] .
  note sD = schedule_okD [OF ok] and pD = path_okD [OF pok]
  have ne: "path (routes h r) ! k \<noteq> []" if "k < length (path (routes h r))" for k
    using that pD(3) location_nonempty nth_mem by blast
  have start: "stop_location (hd (sched_stops s)) = path_start (path (routes h r))"
    using stop [of 0] sD(2) pD(1,4) by (simp add: path_start_def hd_conv_nth)
  have moved_world: "world_ok R P T (truck_moved t r c v h)" for c v
    using world_truck_moved [OF w tr(2)] .
  have settled_moved: "truck_settled r now (truck_moved t r (fst (truck_place s now)) (snd (truck_place s now)) h)"
    if "now < sched_eta_final s"
    using that t s by (simp add: truck_settled_def truck_moved_def)
  have settled_iff: "truck_settled r now h \<longleftrightarrow> now < sched_eta_final s \<and>
      truck_location (trucks h t) = Some (fst (truck_place s now)) \<and> in_transit_to (trucks h t) = snd (truck_place s now)"
    using t s by (simp add: truck_settled_def)
  have move: "yields (Inr (m, False), truck_moved t r (fst (truck_place s now)) (snd (truck_place s now)) h)
      (place_post R P T r now h)"
    if "now < sched_eta_final s"
      "m \<longleftrightarrow> truck_location (trucks h t) \<noteq> Some (fst (truck_place s now)) \<or> in_transit_to (trucks h t) \<noteq> snd (truck_place s now)"
    for m
    using that moved_world settled_moved truck_moved_same [OF _ _ tr(2)]
    by (auto simp: place_post_def settled_iff)
  have release: "\<exists>h'. release_truck r now False RELEASE_ROUTE_COMPLETED (sched_eta_final s) h1 = (Inr True, h') \<and>
      world_ok R P T h' \<and> truck_part r h h' \<and> truck_settled r now h'"
    if "sched_eta_final s \<le> now" "h1 = h \<or> (\<exists>c v. h1 = truck_moved t r c v h)" for h1
  proof -
    have w1: "world_ok R P T h1" and t1: "route_truck (routes h1 r) = Some t" and s1: "schedule (routes h1 r) = Some s"
      and tr1: "truck_route (trucks h1 t) = Some r"
      using that(2) w moved_world t s tr(2) by (auto simp: truck_moved_def)
    obtain loc where loc: "truck_location (trucks h1 t) = Some loc"
      using world_okD(3) [OF w1 tr(1)] by (auto simp: truck_links_ok_def)
    have due: "release_due (routes h1 r) now False"
      using that(1) s1 by (simp add: release_due_def eta_final_def)
    show ?thesis
      using release_truck_linked [OF t1 tr1 loc] due truck_unlinked_world [OF w1 r t1] that(2)
      by (auto simp: truck_settled_def truck_unlinked_store)
  qed
  from ok show ?thesis
  proof (cases rule: position_spec_cases [where t = now])
    case before
    have tp: "truck_place s now = (path_start (path (routes h r)), None)"
      using before start by (simp add: truck_place_def position_spec_def)
    have "place_truck r t (position_spec s now) now h =
        (Inr (truck_location (trucks h t) \<noteq> Some (path_start (path (routes h r))) \<or> in_transit_to (trucks h t) \<noteq> None, False),
         truck_moved t r (path_start (path (routes h r))) None h)"
      using before by (simp add: place_truck_def set_truck_before_start_def Let_def truck_moved_def)
    then show ?thesis
      using move [of "truck_location (trucks h t) \<noteq> Some (path_start (path (routes h r))) \<or> in_transit_to (trucks h t) \<noteq> None"]
        before departure_before_eta [OF ok] by (simp add: tp)
  next
    case after
    obtain h' where h': "release_truck r now False RELEASE_ROUTE_COMPLETED (sched_eta_final s) h = (Inr True, h')"
      "world_ok R P T h'" "truck_part r h h'" "truck_settled r now h'"
      using release [of h] after by auto
    have "place_truck r t (position_spec s now) now h = (Inr (False, True), h')"
      using after s h'(1) by (simp add: place_truck_def validate_route_eta_final_def eta_final_def act_bind_def)
    then show ?thesis using h' after by (simp add: place_post_def settled_iff)
  next
    case (at k)
    have k: "k < length (path (routes h r))" using at len by simp
    have tp: "truck_place s now = (path (routes h r) ! k, None)"
      using at stop [OF k] by (simp add: truck_place_def at_stop_def)
    have last: "path (routes h r) ! k = path_end (path (routes h r)) \<longleftrightarrow> k = length (path (routes h r)) - 1"
      using k pD(2,4) by (simp add: path_end_def last_conv_nth nth_eq_iff_index_eq)
    have "k < length (path (routes h r)) - 1" "length (path (routes h r)) - 1 < length (path (routes h r))"
      if "k \<noteq> length (path (routes h r)) - 1" using that k by linarith+
    then have due: "sched_eta_final s \<le> now \<longleftrightarrow> k = length (path (routes h r)) - 1"
      using at arrivals_increase [OF ok, of k "length (sched_stops s) - 1"] len k
      by (cases "k = length (path (routes h r)) - 1") (auto simp: eta_final_nth [OF ok])
    let ?h1 = "truck_moved t r (path (routes h r) ! k) None h"
    let ?m = "truck_location (trucks h t) \<noteq> Some (path (routes h r) ! k) \<or> in_transit_to (trucks h t) \<noteq> None"
    have pl: "place_truck r t (position_spec s now) now h =
        (if k = length (path (routes h r)) - 1
         then act_bind (release_truck r now False RELEASE_ROUTE_COMPLETED (sched_eta_final s))
           (\<lambda>released. act_return (?m, released)) ?h1
         else (Inr (?m, False), ?h1))"
      using at stop [OF k] s last due
      by (simp add: place_truck_def set_truck_at_stop_def Let_def at_stop_def truck_moved_def eta_final_def)
    show ?thesis
    proof (cases "k = length (path (routes h r)) - 1")
      case True
      obtain h' where "release_truck r now False RELEASE_ROUTE_COMPLETED (sched_eta_final s) ?h1 = (Inr True, h')"
        "world_ok R P T h'" "truck_part r h h'" "truck_settled r now h'"
        using release [of ?h1] due True by auto
      then show ?thesis using True due pl by (simp add: act_bind_def place_post_def settled_iff)
    next
      case False
      then show ?thesis using pl due move [of ?m] by (simp add: tp)
    qed
  next
    case (transit k)
    have k: "Suc k < length (path (routes h r))" using transit len by simp
    have tp: "truck_place s now = (path (routes h r) ! k, Some (path (routes h r) ! Suc k))"
      using transit stop [of k] stop [of "Suc k"] k by (simp add: truck_place_def in_transit_from_def)
    have eta: "now < sched_eta_final s"
      using transit(3) arrival_le_eta [OF ok transit(1)] by simp
    let ?m = "truck_location (trucks h t) \<noteq> Some (path (routes h r) ! k) \<or>
        in_transit_to (trucks h t) \<noteq> Some (path (routes h r) ! Suc k)"
    have "place_truck r t (position_spec s now) now h =
        (Inr (?m, False), truck_moved t r (path (routes h r) ! k) (Some (path (routes h r) ! Suc k)) h)"
      using transit stop [of k] stop [of "Suc k"] k ne [of k]
      by (auto simp: place_truck_def set_truck_in_transit_def Let_def in_transit_from_def truck_moved_def
          intro!: heap_eqI)
    then show ?thesis using move [of ?m] eta by (simp add: tp)
  qed
qed

definition truck_post ::
    "rref set \<Rightarrow> pref set \<Rightarrow> tref set \<Rightarrow> rref \<Rightarrow> time \<Rightarrow> heap \<Rightarrow> truck_summary \<Rightarrow> heap \<Rightarrow> bool" where
  "truck_post R P T r now h res h' \<longleftrightarrow>
     world_ok R P T h' \<and> truck_part r h h' \<and> truck_settled r now h' \<and>
     (truck_settled r now h \<longrightarrow> res = empty_truck_summary \<and> h' = h)"

theorem truck_settles:
  assumes w: "world_ok R P T h" and r: "r \<in> R"
  shows "yields (reconcile_truck_for_route r now h) (truck_post R P T r now h)"
proof (cases "route_truck (routes h r)")
  case None
  then show ?thesis using w by (simp add: reconcile_truck_for_route_def truck_post_def truck_settled_def)
next
  case (Some t)
  have tr: "truck_route (trucks h t) = Some r" by (rule world_truck_other [OF w r Some])
  obtain s where s: "schedule (routes h r) = Some s"
    using world_okD(1) [OF w r] Some by (auto simp: route_links_ok_def)
  have ok: "schedule_ok s" using route_okD(3) [OF route_linksD(1) [OF world_okD(1) [OF w r]] s] .
  obtain m rel h' where p: "place_truck r t (position_spec s now) now h = (Inr (m, rel), h')"
    and post: "place_post R P T r now h (m, rel) h'"
    using yieldsD [OF place_settles [OF w r Some s, of now]] by (metis surj_pair)
  have same: "(m, rel) = (False, False) \<and> h' = h" if "truck_settled r now h"
    using post that by (simp add: place_post_def)
  show ?thesis
    using p post same Some tr s
    by (cases "truck_settled r now h")
      (simp_all add: reconcile_truck_for_route_def reconcile_truck_reference_def act_bind_def Let_def
        route_current_position_def position_at_spec [OF ok] truck_post_def place_post_def empty_truck_summary_def)
qed

section \<open>A route, its truck and its packages\<close>

text \<open>The state reconciliation drives to.\<close>

definition settled :: "rref \<Rightarrow> time \<Rightarrow> bool \<Rightarrow> heap \<Rightarrow> bool" where
  "settled r now update_trucks h \<longleftrightarrow>
     status_settled r now h \<and> (update_trucks \<longrightarrow> truck_settled r now h) \<and>
     (\<forall>p \<in> set (route_packages (routes h r)). package_settled (routes h r) now (packages h p))"

definition idle_outcome :: route_outcome where
  "idle_outcome = \<lparr>ro_changed = False, ro_events = [], ro_trucks = empty_truck_summary,
     ro_packages = [], ro_package_events = []\<rparr>"

lemma compute_status_cong:
  "schedule y = schedule x \<Longrightarrow> compute_route_status y now = compute_route_status x now"
  by (cases "schedule x") (simp_all add: compute_route_status_def departure_time_def eta_final_def)

lemma package_settled_cong:
  "schedule y = schedule x \<Longrightarrow> path y = path x \<Longrightarrow> package_settled y now p = package_settled x now p"
  by (cases "schedule x") (simp_all add: package_settled_def)

lemma truck_settled_cong:
  assumes "route_truck (routes h' r) = route_truck (routes h r)" "schedule (routes h' r) = schedule (routes h r)"
    and "trucks h' = trucks h"
  shows "truck_settled r now h' = truck_settled r now h"
  using assms
  by (cases "route_truck (routes h r)"; cases "schedule (routes h r)") (simp_all add: truck_settled_def)

theorem reconcile_body_settles:
  assumes w: "world_ok R P T h" and r: "r \<in> R" and reg: "\<not> regressed r now h"
  shows "yields (reconcile_route_body r now upd h) (\<lambda>out h'.
    world_ok R P T h' \<and> settled r now upd h' \<and> (settled r now upd h \<longrightarrow> out = idle_outcome \<and> h' = h))"
proof -
  have sch: "schedule (routes h r) = None \<longleftrightarrow> route_status (routes h r) = PLANNED"
    using world_okD(1) [OF w r] by (simp add: route_links_ok_def)
  obtain s why where c: "compute_route_status (routes h r) now = (s, why)" by fastforce
  \<comment> \<open>the status\<close>
  obtain b es h1 where 1: "update_route_status r s why now h = (Inr (b, es), h1)"
    and h1: "\<exists>evs. h1 = status_set r s evs h" and planned: "schedule (routes h r) = None \<longleftrightarrow> s = PLANNED"
    and idle1: "status_settled r now h \<longrightarrow> (b, es) = (False, []) \<and> h1 = h"
    using yieldsD [OF status_settles [OF sch reg c]] by (metis (no_types, lifting) surj_pair)
  have w1: "world_ok R P T h1" using h1 world_status_set [OF w planned] by blast
  have r1: "path (routes h1 r) = path (routes h r)" "schedule (routes h1 r) = schedule (routes h r)"
    "route_status (routes h1 r) = s" "route_packages (routes h1 r) = route_packages (routes h r)"
    "route_truck (routes h1 r) = route_truck (routes h r)" "packages h1 = packages h" "trucks h1 = trucks h"
    using h1 by (auto simp: status_set_def)
  \<comment> \<open>the truck\<close>
  obtain sm h2 where 2: "(if upd then reconcile_truck_for_route r now else act_return empty_truck_summary) h1 = (Inr sm, h2)"
    and w2: "world_ok R P T h2" and part: "truck_part r h1 h2" and t2: "upd \<longrightarrow> truck_settled r now h2"
    and idle2: "(upd \<longrightarrow> truck_settled r now h1) \<longrightarrow> sm = empty_truck_summary \<and> h2 = h1"
  proof (cases upd)
    case True
    from yieldsD [OF truck_settles [OF w1 r, of now]] that True show ?thesis by (auto simp: truck_post_def)
  next
    case False
    then show ?thesis using that [of empty_truck_summary h1] w1 by simp
  qed
  have r2: "path (routes h2 r) = path (routes h r)" "schedule (routes h2 r) = schedule (routes h r)"
    "route_status (routes h2 r) = s" "route_packages (routes h2 r) = route_packages (routes h r)"
    "packages h2 = packages h"
    using part r1 by (auto simp: truck_part_def)
  \<comment> \<open>the packages\<close>
  have d2: "distinct (route_packages (routes h2 r))" by (rule route_linksD(2) [OF world_okD(1) [OF w2 r]])
  obtain ps fs h3 where 3: "update_packages_for_route r now h2 = (Inr (ps, fs), h3)"
    and post: "loop_post h2 r now (route_packages (routes h2 r)) (ps, fs) h3"
    using yieldsD [OF packages_settle [OF world_packages_linked [OF w2 r] d2, of now]] by (metis surj_pair)
  have only: "only_packages (set (route_packages (routes h2 r))) h2 h3"
    and p3: "\<forall>p \<in> set (route_packages (routes h2 r)). package_settled (routes h2 r) now (packages h3 p)"
    and idle3: "(\<forall>p \<in> set (route_packages (routes h2 r)). package_settled (routes h2 r) now (packages h2 p)) \<longrightarrow>
      (ps, fs) = ([], []) \<and> h3 = h2"
    using post unfolding loop_post_def by blast+
  have r3: "routes h3 = routes h2" "trucks h3 = trucks h2" using only by (simp_all add: only_packages_def)
  have w3: "world_ok R P T h3" using world_only_packages [OF w2 r only] .
  have run: "reconcile_route_body r now upd h = (Inr \<lparr>ro_changed = b, ro_events = es, ro_trucks = sm,
      ro_packages = ps, ro_package_events = fs\<rparr>, h3)"
    using 1 2 3 by (simp add: reconcile_route_body_def c act_bind_def)
  have "status_settled r now h3"
    using r2 c compute_status_cong [of "routes h2 r" "routes h r" now]
    by (simp add: status_settled_def r3)
  moreover have "upd \<longrightarrow> truck_settled r now h3"
    using t2 truck_settled_cong [of h3 r h2 now] r3 by simp
  ultimately have "settled r now upd h3" using p3 by (simp add: settled_def r3)
  moreover have "\<lparr>ro_changed = b, ro_events = es, ro_trucks = sm, ro_packages = ps, ro_package_events = fs\<rparr>
      = idle_outcome \<and> h3 = h" if st: "settled r now upd h"
  proof -
    have a: "(b, es) = (False, []) \<and> h1 = h" using idle1 st by (simp add: settled_def)
    moreover have b: "sm = empty_truck_summary \<and> h2 = h1" using idle2 a st by (simp add: settled_def)
    moreover have "(ps, fs) = ([], []) \<and> h3 = h2" using idle3 a b st by (simp add: settled_def)
    ultimately show ?thesis by (simp add: idle_outcome_def)
  qed
  ultimately show ?thesis unfolding run yields_simps using w3 by blast
qed

text \<open>A route whose clock went back into its window cannot be reconciled, and is left alone.\<close>

theorem regressed_route_unchanged:
  assumes w: "world_ok R P T h" and r: "r \<in> R" and reg: "regressed r now h"
  shows "reconcile_route r now upd h = (Inr None, h)"
proof -
  have "schedule (routes h r) \<noteq> None"
    using world_okD(1) [OF w r] reg by (auto simp: route_links_ok_def regressed_def)
  then obtain s where s: "schedule (routes h r) = Some s" by blast
  have "compute_route_status (routes h r) now = (IN_PROGRESS, None)" "route_status (routes h r) = COMPLETED"
    using reg by (auto simp: regressed_def compute_status_scheduled [OF s] split: if_splits)
  then have "\<exists>e. reconcile_route_body r now upd h = (Inl e, h)"
    using s by (simp add: reconcile_route_body_def update_route_status_def apply_route_status_def Let_def
        act_bind_def mark_started_def departure_time_def)
  then show ?thesis
    using reconcile_route_failure [OF route_linksD(1) [OF world_okD(1) [OF w r]]] by blast
qed

text \<open>Hence one pass keeps the world consistent, and settles every route that can be settled.\<close>

theorem reconcile_route_world:
  assumes w: "world_ok R P T h" and r: "r \<in> R"
  shows "yields (reconcile_route r now upd h) (\<lambda>out h'. world_ok R P T h' \<and>
    (if regressed r now h then out = None \<and> h' = h
     else out \<noteq> None \<and> settled r now upd h' \<and> (settled r now upd h \<longrightarrow> out = Some idle_outcome \<and> h' = h)))"
proof (cases "regressed r now h")
  case True
  then show ?thesis using regressed_route_unchanged [OF w r] w by simp
next
  case False
  from yieldsD [OF reconcile_body_settles [OF w r False, of upd]] show ?thesis
    using False by (auto simp: reconcile_route_def Let_def)
qed

lemma reconcile_loop_world:
  assumes "world_ok R P T h" and "set rs \<subseteq> R"
  shows "yields (reconcile_loop rs now upd s h) (\<lambda>_ h'. world_ok R P T h')"
  using assms
proof (induction rs arbitrary: s h)
  case (Cons r rs)
  obtain out h1 where 1: "reconcile_route r now upd h = (Inr out, h1)" "world_ok R P T h1"
    using yieldsD [OF reconcile_route_world [OF Cons.prems(1), of r now upd]] Cons.prems(2) by auto
  then show ?case using Cons.IH [OF 1(2)] Cons.prems(2) by (simp add: act_bind_def)
qed simp

theorem reconcile_routes_world:
  assumes "world_ok R P T h" and "set rs \<subseteq> R"
  shows "yields (reconcile_routes rs now upd h) (\<lambda>_ h'. world_ok R P T h')"
  unfolding reconcile_routes_def by (rule reconcile_loop_world [OF assms])

section \<open>A second pass has nothing to do\<close>

text \<open>Every route is either settled or regressed: this is what one pass leaves behind.\<close>

definition at_rest :: "rref \<Rightarrow> time \<Rightarrow> bool \<Rightarrow> heap \<Rightarrow> bool" where
  "at_rest r now upd h \<longleftrightarrow> regressed r now h \<or> settled r now upd h"

lemma reconcile_route_region:
  assumes "route_ok (routes h r)" and "reconcile_route r now upd h = (Inr out, h')"
  shows "route_region r h h'"
proof (cases out)
  case None
  then show ?thesis using reconcile_route_total [OF assms(1), of now upd] assms(2)
    by (auto simp: route_region_def)
next
  case (Some o')
  then have "reconcile_route_body r now upd h = (Inr o', h')"
    using reconcile_route_total [OF assms(1), of now upd] assms(2) by auto
  then show ?thesis using reconcile_route_body_region [of r h now upd] by simp
qed

lemma at_rest_region:
  assumes w: "world_ok R P T h" and q: "q \<in> R" and r: "r \<in> R" and "q \<noteq> r"
    and reg: "route_region q h h'"
  shows "at_rest r now upd h' = at_rest r now upd h"
proof -
  note f = reg [unfolded route_region_def frame_def]
  have route: "routes h' r = routes h r" using f assms(4) by simp
  have pk: "packages h' p = packages h p" if "p \<in> set (route_packages (routes h r))" for p
  proof -
    have "p \<notin> set (route_packages (routes h q))"
      using route_linksD(4) [OF world_okD(1) [OF w r] that] route_linksD(4) [OF world_okD(1) [OF w q], of p] assms(4)
      by auto
    then show ?thesis using f by simp
  qed
  have tr: "trucks h' t = trucks h t" if t: "route_truck (routes h r) = Some t" for t
  proof -
    have "truck_route (trucks h t) = Some r" using world_truck_other [OF w r t] by simp
    moreover have "truck_route (trucks h t) = Some q" if "route_truck (routes h q) = Some t"
      using world_truck_other [OF w q that] by simp
    ultimately have "t \<notin> set_option (route_truck (routes h q))" using assms(4) by auto
    then show ?thesis using f by simp
  qed
  have "truck_settled r now h' = truck_settled r now h"
    using tr by (cases "route_truck (routes h r)"; cases "schedule (routes h r)") (simp_all add: truck_settled_def route)
  then show ?thesis
    using pk by (simp add: at_rest_def regressed_def settled_def status_settled_def route)
qed

lemma reconcile_route_rests:
  assumes w: "world_ok R P T h" and r: "r \<in> R" and run: "reconcile_route r now upd h = (Inr out, h')"
  shows "at_rest r now upd h'"
  using reconcile_route_world [OF w r, of now upd] run
  by (auto simp: at_rest_def split: if_splits)

lemma reconcile_route_idle:
  assumes w: "world_ok R P T h" and r: "r \<in> R" and rest: "at_rest r now upd h"
  shows "\<exists>out. reconcile_route r now upd h = (Inr out, h) \<and> (out = None \<or> out = Some idle_outcome)"
  using yieldsD [OF reconcile_route_world [OF w r, of now upd]] rest
  by (auto simp: at_rest_def split: if_splits)

lemma add_idle_outcome: "add_outcome r idle_outcome s = s"
  by (simp add: add_outcome_def idle_outcome_def empty_truck_summary_def)

lemma reconcile_loop_idle:
  assumes "world_ok R P T h" and "set rs \<subseteq> R" and "\<forall>r \<in> set rs. at_rest r now upd h"
  shows "reconcile_loop rs now upd s h = (Inr s, h)"
  using assms(2,3)
proof (induction rs)
  case (Cons r rs)
  obtain out where "reconcile_route r now upd h = (Inr out, h)" "out = None \<or> out = Some idle_outcome"
    using reconcile_route_idle [OF assms(1), of r now upd] Cons.prems by auto
  then show ?case using Cons by (auto simp: act_bind_def add_idle_outcome)
qed simp

lemma reconcile_loop_rests:
  assumes "world_ok R P T h" and "set rs \<subseteq> R" and "distinct rs"
    and "reconcile_loop rs now upd s h = (Inr s', h')"
  shows "\<forall>r \<in> R. r \<in> set rs \<or> at_rest r now upd h \<longrightarrow> at_rest r now upd h'"
  using assms
proof (induction rs arbitrary: s h)
  case (Cons r rs)
  have r: "r \<in> R" using Cons.prems by simp
  obtain out h1 where 1: "reconcile_route r now upd h = (Inr out, h1)" and w1: "world_ok R P T h1"
    using yieldsD [OF reconcile_route_world [OF Cons.prems(1) r, of now upd]] by auto
  have "at_rest r now upd h1" by (rule reconcile_route_rests [OF Cons.prems(1) r 1])
  moreover have "at_rest q now upd h1 = at_rest q now upd h" if "q \<in> R" "q \<noteq> r" for q
    using at_rest_region [OF Cons.prems(1) r that(1) that(2) [symmetric]]
      reconcile_route_region [OF route_linksD(1) [OF world_okD(1) [OF Cons.prems(1) r]] 1] by blast
  moreover have "\<forall>q \<in> R. q \<in> set rs \<or> at_rest q now upd h1 \<longrightarrow> at_rest q now upd h'"
    using Cons.prems 1 by (intro Cons.IH [OF w1]) (auto simp: act_bind_def)
  ultimately show ?case by (metis set_ConsD)
qed simp

theorem reconcile_routes_idempotent:
  assumes w: "world_ok R P T h" and rs: "set rs \<subseteq> R" "distinct rs"
    and run: "reconcile_routes rs now upd h = (Inr s, h')"
  shows "reconcile_routes rs now upd h' = (Inr empty_summary, h')"
proof -
  have w': "world_ok R P T h'" using reconcile_routes_world [OF w rs(1), of now upd] run by simp
  have "\<forall>r \<in> set rs. at_rest r now upd h'"
    using reconcile_loop_rests [OF w rs, of now upd empty_summary s h'] run rs(1)
    by (auto simp: reconcile_routes_def)
  then show ?thesis using reconcile_loop_idle [OF w' rs(1)] by (simp add: reconcile_routes_def)
qed

end
