(* ===== verification/Sample.thy ===== *)
theory Sample
  imports Settling Contacts
begin

text \<open>
  A concrete world the properties are applied to: one route from Sydney over Melbourne to
  Adelaide departing 1000 microseconds into the calendar, one package from Sydney to Melbourne,
  one truck standing in Sydney and one customer. Each entity is shown to be what the constructor
  of its class returns.
\<close>

definition sample_contact :: contact_info where
  "sample_contact = \<lparr>ci_name = ''Ada'', ci_email = ''ada@x.io'', ci_phone = ''0400000000''\<rparr>"

definition sample_customer :: customer where
  "sample_customer = \<lparr>customer_id = 1, contact = sample_contact, delivery_packages = [], cust_events = []\<rparr>"

definition sample_package :: package where
  "sample_package = \<lparr>package_id = 1, pkg_start = ''SYD'', pkg_end = ''MEL'', pkg_weight = f64_unit,
     pkg_customer = 0, pkg_location_field = Some ''SYD'', pkg_route = None, pkg_route_id = None,
     pkg_expected_arrival = None, pkg_status = TODO, pkg_events = []\<rparr>"

definition sample_truck :: truck where
  "sample_truck = \<lparr>vehicle_id = 1001, truck_name = SCANIA, capacity = 42000, max_range = 8000,
     truck_status = FREE, truck_location = Some ''SYD'', truck_route = None, busy_from = None,
     busy_until = None, in_transit_to = None\<rparr>"

definition sample_path :: route_path where
  "sample_path = [''SYD'', ''MEL'', ''ADL'']"

definition sample_schedule :: route_schedule where
  "sample_schedule =
     \<lparr>sched_departure_time = 1000,
      sched_segments =
        [\<lparr>seg_start = ''SYD'', seg_end = ''MEL'', seg_distance_km = 877, seg_duration = 36289655172\<rparr>,
         \<lparr>seg_start = ''MEL'', seg_end = ''ADL'', seg_distance_km = 725, seg_duration = 30000000000\<rparr>],
      sched_stops =
        [\<lparr>stop_location = ''SYD'', stop_arrival_at = 1000\<rparr>,
         \<lparr>stop_location = ''MEL'', stop_arrival_at = 36289656172\<rparr>,
         \<lparr>stop_location = ''ADL'', stop_arrival_at = 66289656172\<rparr>]\<rparr>"

definition sample_route :: route where
  "sample_route = \<lparr>route_id = 1, path = sample_path, route_truck = None, route_packages = [],
     route_status = SCHEDULED, schedule = Some sample_schedule, route_events = []\<rparr>"

definition sample_heap :: heap where
  "sample_heap = \<lparr>routes = \<lambda>_. sample_route, packages = \<lambda>_. sample_package,
     trucks = \<lambda>_. sample_truck, customers = \<lambda>_. sample_customer, next_ref = 3\<rparr>"

lemma sample_contact_create:
  "contact_info_create (PyStr '' Ada '') (PyStr ''Ada@X.io'') (PyStr ''0400000000'') = Inr sample_contact"
  by code_simp

lemma sample_heap_simps [simp]:
  "routes sample_heap = (\<lambda>_. sample_route)" "packages sample_heap = (\<lambda>_. sample_package)"
  "trucks sample_heap = (\<lambda>_. sample_truck)" "customers sample_heap = (\<lambda>_. sample_customer)"
  "next_ref sample_heap = 3"
  by (simp_all add: sample_heap_def)

lemma sample_legs:
  "leg_duration 877 87 = 36289655172" "leg_duration 725 87 = 30000000000"
  by (simp_all add: leg_duration_exact rne_def us_per_hour_def)

lemma sample_distances:
  "get_distance (PyStr ''SYD'') (PyStr ''MEL'') = Inr 877"
  "get_distance (PyStr ''MEL'') (PyStr ''ADL'') = Inr 725"
  by code_simp+

lemma sample_build: "build_schedule sample_path (naive 1000) (PyInt 87) = Inr sample_schedule"
proof -
  have 1: "domain_require_positive_int (PyInt 87) = Inr 87" by code_simp
  have 2: "build_legs (py_pairwise sample_path) 87 (naive 1000) =
      Inr (sched_segments sample_schedule, [(''MEL'', naive 36289656172), (''ADL'', naive 66289656172)])"
    by (simp add: sample_path_def sample_distances sample_legs dt_add_naive time_max_def
        sample_schedule_def)
  have 3: "route_schedule_create (naive 1000) (sched_segments sample_schedule)
      ((''SYD'', naive 1000) # [(''MEL'', naive 36289656172), (''ADL'', naive 66289656172)])
      = Inr sample_schedule"
    by (simp add: route_schedule_create_def sample_schedule_def dt_add_naive time_max_def)
  show ?thesis using 3 by (simp add: build_schedule_def 1 2, simp add: sample_path_def)
qed

lemma sample_path_create: "route_path_create [PyStr ''SYD'', PyStr ''MEL'', PyStr ''ADL''] = Inr sample_path"
  by code_simp

lemma sample_route_init:
  "route_init [PyStr ''SYD'', PyStr ''MEL'', PyStr ''ADL''] (Some (naive 1000)) (PyInt 1) = Inr sample_route"
proof -
  have "domain_require_positive_int (PyInt 1) = Inr 1" by code_simp
  then show ?thesis
    by (simp add: route_init_def sample_path_create SPEED_KMPH_def DEFAULT_SPEED_KMPH_def sample_build sample_route_def)
qed

lemma sample_package_init:
  "package_init (PyStr ''SYD'') (PyStr ''MEL'') (PyFloat (FFin f64_unit)) 0 (PyInt 1) PyNone = Inr sample_package"
  by code_simp

lemma sample_truck_init:
  "truck_init (PyInt 1001) (Inr SCANIA) (PyInt 42000) (PyInt 8000) =
     Inr (sample_truck\<lparr>truck_location := None\<rparr>)"
  by code_simp

lemma sample_route_ok [simp]: "route_ok sample_route"
  using route_init_ok(1) [OF sample_route_init] .

lemma f64_ok_unit: "f64_ok f64_unit" "f64_unit < f64_inf"
  using f64_ok_scaled [of 1 1074] f64_pow_less_inf [of 1074] by (simp_all add: f64_unit_def)

lemma sample_weight_ok: "pyval_ok (PyFloat (FFin f64_unit))"
proof -
  have "0 < f64_unit" by (simp add: f64_unit_def)
  then show ?thesis by (simp add: pyval_ok_def f64_ok_unit)
qed

lemma sample_package_ok [simp]: "package_ok sample_package"
  by (rule package_init_ok(1) [OF sample_package_init sample_weight_ok])

lemma sample_schedule_ok [simp]: "schedule_ok sample_schedule"
  by (simp add: schedule_ok_def sample_schedule_def less_Suc_eq)

lemma sample_path_ok [simp]: "path_ok sample_path"
  by code_simp

lemma sample_world: "world_ok {0} {1} {2} sample_heap"
  by (simp add: world_ok_def route_links_ok_def package_links_ok_def truck_links_ok_def truck_fits_def,
      simp add: sample_route_def sample_package_def sample_truck_def current_location_def)

text \<open>The same world after the route has been completed.\<close>

lemma sample_world_completed:
  "world_ok {0} {1} {2} (upd_route 0 (\<lambda>x. x\<lparr>route_status := COMPLETED\<rparr>) sample_heap)"
proof -
  have "route_ok (sample_route\<lparr>route_status := COMPLETED\<rparr>)"
    using sample_route_ok by (simp add: route_ok_def sample_route_def del: sample_route_ok)
  then show ?thesis
    by (simp add: world_ok_def route_links_ok_def package_links_ok_def truck_links_ok_def truck_fits_def,
        simp add: sample_route_def sample_package_def sample_truck_def current_location_def)
qed

lemma sample_eta:
  "fst (compute_route_status (sample_route\<lparr>route_status := COMPLETED\<rparr>) 2000) = IN_PROGRESS"
  by (simp add: compute_route_status_def departure_time_def eta_final_def sample_route_def
      sample_schedule_def sched_eta_final_def)

lemma sample_travel_time: "travel_time sample_path = 66289655172"
  by (simp add: sample_path_def leg_km_def sample_distances DEFAULT_SPEED_KMPH_def sample_legs)

lemma sample_schedule_create:
  "route_schedule_create (naive 1000) (sched_segments sample_schedule)
     [(''SYD'', naive 1000), (''MEL'', naive 36289656172), (''ADL'', naive 66289656172)] = Inr sample_schedule"
  by (simp add: route_schedule_create_def sample_schedule_def dt_add_naive time_max_def)

lemma sample_fits: "package_fits sample_heap 0 sample_package 999"
proof -
  have "\<exists>i j. i < j \<and> j < length sample_path \<and> sample_path ! i = pkg_start sample_package \<and>
      sample_path ! j = pkg_end sample_package \<and> pickup_ahead sample_route i 999"
    by (rule exI [of _ 0], rule exI [of _ 1])
      (simp add: sample_path_def sample_package_def pickup_ahead_def sample_route_def sample_schedule_def)
  then show ?thesis
    by (simp add: package_fits_def truck_fits_def, simp add: sample_route_def)
qed

lemma sample_assigned:
  obtains h' where "assign_package 0 1 999 999 sample_heap = (Inr (), h')"
    "world_ok {0} {1} {2} h'" "pkg_route (packages h' 1) = Some 0"
proof -
  have "\<not> has_package sample_heap 0 1"
    by (simp add: has_package_def sample_route_def)
  then obtain h' where "assign_package 0 1 999 999 sample_heap = (Inr (), h')"
    using assign_package_cases(2) [of sample_heap 0 1 999 999] sample_fits by auto
  then show ?thesis
    using that assign_package_world [OF sample_world, of 0 1 999 999 "Inr ()" h']
    by (simp add: sample_package_def)
qed

lemma sample_truck_suits: "truck_suits sample_heap 2 0"
proof -
  have "0 < f64_unit" by (simp add: f64_unit_def)
  moreover have "total_distance_km sample_route = Inr 1602" by code_simp
  moreover have "route_maximum_segment_load sample_heap 0 None = 0" by code_simp
  ultimately show ?thesis
    using f64_ok_unit(2)
    by (simp add: truck_suits_def sample_truck_def f64_gt_int_def path_start_def sample_path_def,
        simp add: sample_route_def sample_path_def)
qed

end
