(* ===== verification/Repositories.thy ===== *)
theory Repositories
  imports Parcels
begin

text \<open>
  The in-memory repositories of \<open>src/adapters/driven/persistence/memory/\<close>: dictionaries from an
  entity identifier to the entity, held here as an association list from identifiers to object
  references in insertion order, together with the counter of the next identifier.  The interface
  that the use cases rely on is a locale, interpreted for the plain stores of routes and packages
  and for the customer store with its email and phone indexes.
\<close>

section \<open>Python slices\<close>

definition py_slice :: "int \<Rightarrow> int \<Rightarrow> 'a list \<Rightarrow> 'a list" where
  "py_slice a b xs =
     (let n = int (length xs);
          clamp = (\<lambda>i. if i < 0 then max 0 (i + n) else min i n)
      in take (nat (clamp b - clamp a)) (drop (nat (clamp a)) xs))"

lemma py_slice_page:
  assumes "0 \<le> offset" and "0 \<le> limit"
  shows "py_slice offset (offset + limit) xs = take (nat limit) (drop (nat offset) xs)"
proof (cases "offset \<le> int (length xs)")
  case True
  have "nat (min (offset + limit) (int (length xs)) - offset) = min (nat limit) (length xs - nat offset)"
    using assms True by (simp add: min_def nat_diff_distrib' nat_le_eq_zle) linarith
  then show ?thesis
    using assms True by (simp add: py_slice_def Let_def min_def)
next
  case False
  then show ?thesis using assms by (simp add: py_slice_def Let_def)
qed

section \<open>Stores keyed by identifier\<close>

record id_repo =
  entries :: "(int \<times> nat) list"
  repo_next_id :: int

definition empty_repo :: id_repo where
  "empty_repo = \<lparr>entries = [], repo_next_id = 1\<rparr>"

definition peek_next_id :: "id_repo \<Rightarrow> int" where
  "peek_next_id s = repo_next_id s"

definition repo_add :: "int \<Rightarrow> nat \<Rightarrow> id_repo \<Rightarrow> id_repo result" where
  "repo_add i ref s =
     (if map_of (entries s) i \<noteq> None then Inl PyValueError
      else Inr \<lparr>entries = entries s @ [(i, ref)], repo_next_id = max (repo_next_id s) (i + 1)\<rparr>)"

definition repo_remove :: "int \<Rightarrow> id_repo \<Rightarrow> id_repo" where
  "repo_remove i s = s\<lparr>entries := filter (\<lambda>e. fst e \<noteq> i) (entries s)\<rparr>"

definition repo_get :: "int \<Rightarrow> id_repo \<Rightarrow> nat option" where
  "repo_get i s = map_of (entries s) i"

definition repo_list_all :: "id_repo \<Rightarrow> nat list" where
  "repo_list_all s = map (\<lambda>i. the (map_of (entries s) i)) (sort (map fst (entries s)))"

definition repo_list_page :: "int \<Rightarrow> int \<Rightarrow> id_repo \<Rightarrow> nat list" where
  "repo_list_page limit offset s = py_slice offset (offset + limit) (repo_list_all s)"

definition repo_list_page_with_total :: "int \<Rightarrow> int \<Rightarrow> id_repo \<Rightarrow> nat list \<times> int" where
  "repo_list_page_with_total limit offset s =
     (let all = repo_list_all s in (py_slice offset (offset + limit) all, int (length all)))"

definition repo_count_all :: "id_repo \<Rightarrow> int" where
  "repo_count_all s = int (length (entries s))"

definition repo_replace :: "(int \<times> nat) list \<Rightarrow> int \<Rightarrow> id_repo \<Rightarrow> id_repo" where
  "repo_replace by_id next_id s = \<lparr>entries = by_id, repo_next_id = next_id\<rparr>"

text \<open>The queries of the package repository that look at the packages.\<close>

definition list_unassigned :: "heap \<Rightarrow> id_repo \<Rightarrow> pref list" where
  "list_unassigned h s = filter (\<lambda>p. pkg_route_id (packages h p) = None) (repo_list_all s)"

definition list_unassigned_page :: "heap \<Rightarrow> int \<Rightarrow> int \<Rightarrow> id_repo \<Rightarrow> pref list" where
  "list_unassigned_page h limit offset s = py_slice offset (offset + limit) (list_unassigned h s)"

definition list_unassigned_page_with_total :: "heap \<Rightarrow> int \<Rightarrow> int \<Rightarrow> id_repo \<Rightarrow> pref list \<times> int" where
  "list_unassigned_page_with_total h limit offset s =
     (let ps = list_unassigned h s in (py_slice offset (offset + limit) ps, int (length ps)))"

definition count_unassigned :: "heap \<Rightarrow> id_repo \<Rightarrow> int" where
  "count_unassigned h s =
     int (length (filter (\<lambda>e. pkg_route_id (packages h (snd e)) = None) (entries s)))"

definition list_by_route :: "heap \<Rightarrow> int \<Rightarrow> id_repo \<Rightarrow> pref list" where
  "list_by_route h rid s =
     filter (\<lambda>p. pkg_route_id (packages h p) = Some rid) (repo_list_all s)"

section \<open>The interface\<close>

text \<open>
  What a use case may rely on, whatever is stored: an identifier at or above the counter is free,
  an entity that was added is found, nothing else changes, and the counter never goes back, so that
  an identifier is never handed out twice.
\<close>

locale id_repository =
  fixes id_of :: "nat \<Rightarrow> int"
    and get :: "int \<Rightarrow> 's \<Rightarrow> nat option"
    and add :: "nat \<Rightarrow> 's \<Rightarrow> 's result"
    and remove :: "int \<Rightarrow> 's \<Rightarrow> 's"
    and list_all :: "'s \<Rightarrow> nat list"
    and next_id :: "'s \<Rightarrow> int"
    and ok :: "'s \<Rightarrow> bool"
  assumes free: "ok s \<Longrightarrow> next_id s \<le> i \<Longrightarrow> get i s = None"
    and positive: "ok s \<Longrightarrow> 0 < next_id s"
    and add_duplicate: "get (id_of r) s \<noteq> None \<Longrightarrow> add r s = Inl PyValueError"
    and add_get: "ok s \<Longrightarrow> add r s = Inr s' \<Longrightarrow>
      ok s' \<and> (\<forall>j. get j s' = (if j = id_of r then Some r else get j s)) \<and>
      next_id s' = max (next_id s) (id_of r + 1)"
    and remove_get: "ok s \<Longrightarrow>
      ok (remove i s) \<and> (\<forall>j. get j (remove i s) = (if j = i then None else get j s)) \<and>
      next_id (remove i s) = next_id s"
    and list_get: "ok s \<Longrightarrow> \<exists>is. sorted is \<and> distinct is \<and> (\<forall>i. i \<in> set is \<longleftrightarrow> get i s \<noteq> None) \<and>
      list_all s = map (\<lambda>i. the (get i s)) is"
begin

lemma allocated:
  assumes "ok s" and "id_of r = next_id s" and "add r s = Inr s'"
  shows "ok s'" "get (next_id s) s = None" "get (next_id s) s' = Some r" "next_id s' = next_id s + 1"
    "j \<noteq> next_id s \<Longrightarrow> get j s' = get j s"
  using free [of s "next_id s"] add_get [OF assms(1,3)] assms by auto

lemma below_next: "ok s \<Longrightarrow> get i s = Some r \<Longrightarrow> i < next_id s"
  using free [of s i] by force

text \<open>An identifier that was once in use stays below the counter, also after its removal.\<close>

lemma never_reused:
  assumes "ok s" and "get i s = Some r" and "id_of r' = next_id (remove i s)"
    and "add r' (remove i s) = Inr s'"
  shows "get i s' = None"
proof -
  have 1: "ok (remove i s)" "get i (remove i s) = None" "next_id (remove i s) = next_id s"
    using remove_get [OF assms(1), of i] by auto
  have "i \<noteq> next_id (remove i s)" using below_next [OF assms(1,2)] 1(3) by simp
  then show ?thesis using allocated(5) [OF 1(1) assms(3,4)] 1(2) by simp
qed

lemma set_list_all: "ok s \<Longrightarrow> set (list_all s) = {r. \<exists>i. get i s = Some r}"
  using list_get [of s] by force

end

text \<open>A store whose only reason to refuse an entity is its identifier.\<close>

locale plain_repository = id_repository +
  assumes add_total: "get (id_of r) s = None \<Longrightarrow> \<exists>s'. add r s = Inr s'"
begin

lemma allocate:
  assumes "ok s" and "id_of r = next_id s"
  obtains s' where "add r s = Inr s'" "ok s'" "get (next_id s) s' = Some r"
    "next_id s' = next_id s + 1" "\<And>j. j \<noteq> next_id s \<Longrightarrow> get j s' = get j s"
  using add_total [of r s] free [OF assms(1) order.refl] allocated [OF assms] assms(2) by metis

end

section \<open>The plain stores\<close>

definition repo_ok :: "id_repo \<Rightarrow> bool" where
  "repo_ok s \<longleftrightarrow> distinct (map fst (entries s)) \<and> 0 < repo_next_id s \<and>
     (\<forall>e \<in> set (entries s). fst e < repo_next_id s)"

lemma map_of_filter_neq: "map_of (filter (\<lambda>e. fst e \<noteq> i) xs) j = (if j = i then None else map_of xs j)"
  by (induction xs) auto

lemma map_of_snoc: "map_of xs i = None \<Longrightarrow> map_of (xs @ [(i, r)]) j = (if j = i then Some r else map_of xs j)"
  by (simp add: map_add_def split: option.split)

lemma distinct_filter_keys: "distinct (map fst xs) \<Longrightarrow> distinct (map fst (filter P xs))"
  by (simp add: distinct_map_filter)

lemma repo_add_ok:
  assumes "repo_ok s" and "repo_add i r s = Inr s'"
  shows "repo_ok s' \<and> (\<forall>j. repo_get j s' = (if j = i then Some r else repo_get j s)) \<and>
    repo_next_id s' = max (repo_next_id s) (i + 1)"
proof -
  have new: "map_of (entries s) i = None"
    and s': "s' = \<lparr>entries = entries s @ [(i, r)], repo_next_id = max (repo_next_id s) (i + 1)\<rparr>"
    using assms(2) by (simp_all add: repo_add_def split: if_splits)
  have "repo_ok s'"
    using assms(1) new by (auto simp: repo_ok_def s' map_of_eq_None_iff max_def)
  then show ?thesis using map_of_snoc [OF new] by (simp add: repo_get_def s' del: map_of_append)
qed

lemma repo_remove_ok:
  assumes "repo_ok s"
  shows "repo_ok (repo_remove i s) \<and> (\<forall>j. repo_get j (repo_remove i s) = (if j = i then None else repo_get j s)) \<and>
      repo_next_id (repo_remove i s) = repo_next_id s"
  using assms
  by (auto simp: repo_remove_def repo_ok_def repo_get_def map_of_filter_neq distinct_filter_keys)

lemma repo_list_ok:
  assumes "repo_ok s"
  shows "\<exists>is. sorted is \<and> distinct is \<and> (\<forall>i. i \<in> set is \<longleftrightarrow> repo_get i s \<noteq> None) \<and>
      repo_list_all s = map (\<lambda>i. the (repo_get i s)) is"
  using assms by (intro exI [of _ "sort (map fst (entries s))"])
    (auto simp: repo_list_all_def repo_get_def repo_ok_def map_of_eq_None_iff domIff [symmetric] dom_map_of_conv_image_fst)

lemma repo_free: "repo_ok s \<Longrightarrow> repo_next_id s \<le> i \<Longrightarrow> repo_get i s = None"
  by (force simp: repo_get_def repo_ok_def map_of_eq_None_iff)

definition package_repo_add :: "heap \<Rightarrow> pref \<Rightarrow> id_repo \<Rightarrow> id_repo result" where
  "package_repo_add h p s = repo_add (package_id (packages h p)) p s"

definition route_repo_add :: "heap \<Rightarrow> rref \<Rightarrow> id_repo \<Rightarrow> id_repo result" where
  "route_repo_add h r s = repo_add (route_id (routes h r)) r s"

text \<open>One proof of the laws serves every store of this form, whatever entity it holds.\<close>

lemma plain_store:
  "plain_repository id_of repo_get (\<lambda>r. repo_add (id_of r) r) repo_remove repo_list_all repo_next_id repo_ok"
proof (unfold_locales, goal_cases)
  case 1 then show ?case by (rule repo_free)
next
  case 2 then show ?case by (simp add: repo_ok_def)
next
  case 3 then show ?case by (simp add: repo_add_def repo_get_def)
next
  case 4 then show ?case by (rule repo_add_ok)
next
  case 5 then show ?case by (rule repo_remove_ok)
next
  case 6 then show ?case by (rule repo_list_ok)
next
  case 7 then show ?case by (simp add: repo_add_def repo_get_def)
qed

interpretation package_store: plain_repository "\<lambda>p. package_id (packages h p)" repo_get "package_repo_add h"
    repo_remove repo_list_all repo_next_id repo_ok for h
  unfolding package_repo_add_def [abs_def] by (rule plain_store)

interpretation route_store: plain_repository "\<lambda>r. route_id (routes h r)" repo_get "route_repo_add h"
    repo_remove repo_list_all repo_next_id repo_ok for h
  unfolding route_repo_add_def [abs_def] by (rule plain_store)

lemma empty_repo_ok [simp]: "repo_ok empty_repo" "repo_get i empty_repo = None" "repo_next_id empty_repo = 1"
  by (simp_all add: repo_ok_def empty_repo_def repo_get_def)

lemma set_repo_list_all: "repo_ok s \<Longrightarrow> set (repo_list_all s) = snd ` set (entries s)"
  by (auto simp: package_store.set_list_all repo_get_def repo_ok_def) (force simp: image_iff)+

lemma length_repo_list_all: "length (repo_list_all s) = length (entries s)"
  by (simp add: repo_list_all_def)

end
