(* ===== verification/Customers.thy ===== *)
theory Customers
  imports Repositories
begin

text \<open>
  The in-memory customer store, \<open>src/adapters/driven/persistence/memory/customer_repository.py\<close>: the
  customers by identifier with two indexes, one from the email address and one from the phone number
  to the identifier.  An empty address is not indexed.
\<close>

record customer_repo =
  customers_by_id :: id_repo
  id_by_email :: "string \<rightharpoonup> int"
  id_by_phone :: "string \<rightharpoonup> int"

definition empty_customer_repo :: customer_repo where
  "empty_customer_repo =
     \<lparr>customers_by_id = empty_repo, id_by_email = Map.empty, id_by_phone = Map.empty\<rparr>"

definition customer_email :: "heap \<Rightarrow> cref \<Rightarrow> string" where
  "customer_email h c = ci_email (contact (customers h c))"

definition customer_phone :: "heap \<Rightarrow> cref \<Rightarrow> string" where
  "customer_phone h c = ci_phone (contact (customers h c))"

definition customer_name :: "heap \<Rightarrow> cref \<Rightarrow> string" where
  "customer_name h c = ci_name (contact (customers h c))"

text \<open>Another customer owns the address.\<close>

definition index_conflict :: "(string \<rightharpoonup> int) \<Rightarrow> string \<Rightarrow> int \<Rightarrow> bool" where
  "index_conflict m k i \<longleftrightarrow> k \<noteq> [] \<and> (case m k of None \<Rightarrow> False | Some j \<Rightarrow> j \<noteq> i)"

definition index_put :: "(string \<rightharpoonup> int) \<Rightarrow> string \<Rightarrow> int \<Rightarrow> (string \<rightharpoonup> int)" where
  "index_put m k i = (if k \<noteq> [] then m(k \<mapsto> i) else m)"

definition index_pop :: "(string \<rightharpoonup> int) \<Rightarrow> string \<Rightarrow> (string \<rightharpoonup> int)" where
  "index_pop m k = (if k \<noteq> [] then m(k := None) else m)"

definition customer_repo_add :: "heap \<Rightarrow> cref \<Rightarrow> customer_repo \<Rightarrow> customer_repo result" where
  "customer_repo_add h c s =
     (let i = customer_id (customers h c); email = customer_email h c; phone = customer_phone h c
      in if repo_get i (customers_by_id s) \<noteq> None then Inl PyValueError
         else if index_conflict (id_by_email s) email i then Inl PyValueError
         else if index_conflict (id_by_phone s) phone i then Inl PyValueError
         else res_bind (repo_add i c (customers_by_id s)) (\<lambda>ids.
           Inr \<lparr>customers_by_id = ids, id_by_email = index_put (id_by_email s) email i,
                id_by_phone = index_put (id_by_phone s) phone i\<rparr>))"

definition customer_repo_remove :: "heap \<Rightarrow> int \<Rightarrow> customer_repo \<Rightarrow> customer_repo" where
  "customer_repo_remove h i s =
     (case repo_get i (customers_by_id s) of
        None \<Rightarrow> s
      | Some c \<Rightarrow>
          \<lparr>customers_by_id = repo_remove i (customers_by_id s),
           id_by_email = index_pop (id_by_email s) (customer_email h c),
           id_by_phone = index_pop (id_by_phone s) (customer_phone h c)\<rparr>)"

definition customer_get :: "int \<Rightarrow> customer_repo \<Rightarrow> cref option" where
  "customer_get i s = repo_get i (customers_by_id s)"

text \<open>\<open>self._customers_by_id[customer_id]\<close>: a stale index raises KeyError.\<close>

definition customer_at :: "int option \<Rightarrow> customer_repo \<Rightarrow> cref option result" where
  "customer_at i s =
     (case i of
        None \<Rightarrow> Inr None
      | Some j \<Rightarrow> (case repo_get j (customers_by_id s) of None \<Rightarrow> Inl PyKeyError | Some c \<Rightarrow> Inr (Some c)))"

definition get_by_email :: "string \<Rightarrow> customer_repo \<Rightarrow> cref option result" where
  "get_by_email email s = customer_at (id_by_email s email) s"

definition get_by_phone :: "string \<Rightarrow> customer_repo \<Rightarrow> cref option result" where
  "get_by_phone phone s = customer_at (id_by_phone s phone) s"

definition customer_list_all :: "customer_repo \<Rightarrow> cref list" where
  "customer_list_all s = repo_list_all (customers_by_id s)"

definition list_by_name :: "heap \<Rightarrow> string \<Rightarrow> customer_repo \<Rightarrow> cref list" where
  "list_by_name h name s =
     filter (\<lambda>c. casefold (strip (customer_name h c)) = casefold (strip name)) (customer_list_all s)"

definition replace_customers :: "heap \<Rightarrow> (int \<times> cref) list \<Rightarrow> int \<Rightarrow> customer_repo" where
  "replace_customers h by_id next_id =
     \<lparr>customers_by_id = \<lparr>entries = by_id, repo_next_id = next_id\<rparr>,
      id_by_email = py_dict (map (\<lambda>(_, c). (customer_email h c, customer_id (customers h c)))
        (filter (\<lambda>(_, c). customer_email h c \<noteq> []) by_id)),
      id_by_phone = py_dict (map (\<lambda>(_, c). (customer_phone h c, customer_id (customers h c)))
        (filter (\<lambda>(_, c). customer_phone h c \<noteq> []) by_id))\<rparr>"

section \<open>The indexes are exact\<close>

definition index_ok :: "(cref \<Rightarrow> string) \<Rightarrow> id_repo \<Rightarrow> (string \<rightharpoonup> int) \<Rightarrow> bool" where
  "index_ok key ids m \<longleftrightarrow>
     (\<forall>k i. m k = Some i \<longleftrightarrow> k \<noteq> [] \<and> (\<exists>c. repo_get i ids = Some c \<and> key c = k))"

definition customers_ok :: "heap \<Rightarrow> customer_repo \<Rightarrow> bool" where
  "customers_ok h s \<longleftrightarrow>
     repo_ok (customers_by_id s) \<and>
     (\<forall>i c. repo_get i (customers_by_id s) = Some c \<longrightarrow> customer_id (customers h c) = i) \<and>
     index_ok (customer_email h) (customers_by_id s) (id_by_email s) \<and>
     index_ok (customer_phone h) (customers_by_id s) (id_by_phone s)"

lemma index_iff:
  "index_ok key ids m \<Longrightarrow> m k = Some i \<longleftrightarrow> k \<noteq> [] \<and> (\<exists>c. repo_get i ids = Some c \<and> key c = k)"
  by (simp add: index_ok_def)

lemma index_None:
  assumes "index_ok key ids m" and "m k = None" and "repo_get i ids = Some c" and "key c = k"
  shows "k = []"
  using index_iff [OF assms(1), of k i] assms(2-4) by auto

lemma index_put_ok:
  assumes ok: "index_ok key ids m" and new: "repo_get i ids = None" and con: "\<not> index_conflict m (key c) i"
    and ids': "\<And>j. repo_get j ids' = (if j = i then Some c else repo_get j ids)"
  shows "index_ok key ids' (index_put m (key c) i)"
proof (cases "key c = []")
  case True
  then show ?thesis using index_iff [OF ok] new
    by (auto simp: index_ok_def index_put_def ids')
next
  case False
  have none: "m (key c) = None"
  proof (rule ccontr)
    assume "m (key c) \<noteq> None"
    then obtain j where j: "m (key c) = Some j" by auto
    then have "j = i" using con False by (simp add: index_conflict_def)
    then show False using index_iff [OF ok, of "key c" i] new j by simp
  qed
  have "index_put m (key c) i k = Some j \<longleftrightarrow> k \<noteq> [] \<and> (\<exists>d. repo_get j ids' = Some d \<and> key d = k)" for k j
  proof (cases "k = key c")
    case True
    then show ?thesis using False index_None [OF ok none]
      by (auto simp: index_put_def ids')
  next
    case neq: False
    then show ?thesis using False index_iff [OF ok, of k j] new by (auto simp: index_put_def ids')
  qed
  then show ?thesis by (simp add: index_ok_def)
qed

lemma index_unique:
  assumes "index_ok key ids m" and "repo_get i ids = Some c" and "repo_get j ids = Some d"
    and "key c = key d" and "key c \<noteq> []"
  shows "i = j"
proof -
  have "m (key c) = Some i" "m (key c) = Some j"
    using index_iff [OF assms(1)] assms(2-5) by auto
  then show ?thesis by simp
qed

lemma index_pop_ok:
  assumes ok: "index_ok key ids m" and at: "repo_get i ids = Some c"
    and ids': "\<And>j. repo_get j ids' = (if j = i then None else repo_get j ids)"
  shows "index_ok key ids' (index_pop m (key c))"
proof -
  have "index_pop m (key c) k = Some j \<longleftrightarrow> k \<noteq> [] \<and> (\<exists>d. repo_get j ids' = Some d \<and> key d = k)" for k j
  proof (cases "k = key c \<and> k \<noteq> []")
    case True
    then show ?thesis using index_unique [OF ok at] by (auto simp: index_pop_def ids')
  next
    case False
    then show ?thesis using index_iff [OF ok, of k j] at by (auto simp: index_pop_def ids')
  qed
  then show ?thesis by (simp add: index_ok_def)
qed

lemma customer_repo_add_ok:
  assumes ok: "customers_ok h s" and add: "customer_repo_add h c s = Inr s'"
  shows "customers_ok h s'"
    "repo_get j (customers_by_id s') =
       (if j = customer_id (customers h c) then Some c else repo_get j (customers_by_id s))"
    "repo_next_id (customers_by_id s') = max (repo_next_id (customers_by_id s)) (customer_id (customers h c) + 1)"
proof -
  let ?i = "customer_id (customers h c)"
  from add obtain ids where new: "repo_get ?i (customers_by_id s) = None"
    and ids: "repo_add ?i c (customers_by_id s) = Inr ids"
    and free: "\<not> index_conflict (id_by_email s) (customer_email h c) ?i"
      "\<not> index_conflict (id_by_phone s) (customer_phone h c) ?i"
    and s': "s' = \<lparr>customers_by_id = ids, id_by_email = index_put (id_by_email s) (customer_email h c) ?i,
               id_by_phone = index_put (id_by_phone s) (customer_phone h c) ?i\<rparr>"
    by (auto simp: customer_repo_add_def Let_def res_bind_Inr_iff split: if_splits)
  have r: "repo_ok ids" "repo_next_id ids = max (repo_next_id (customers_by_id s)) (?i + 1)"
    and get: "repo_get k ids = (if k = ?i then Some c else repo_get k (customers_by_id s))" for k
    using repo_add_ok [OF _ ids] ok by (simp_all add: customers_ok_def)
  show "repo_get j (customers_by_id s') = (if j = ?i then Some c else repo_get j (customers_by_id s))"
    "repo_next_id (customers_by_id s') = max (repo_next_id (customers_by_id s)) (?i + 1)"
    using r(2) get by (simp_all add: s')
  have "index_ok (customer_email h) ids (index_put (id_by_email s) (customer_email h c) ?i)"
    by (rule index_put_ok [where ids = "customers_by_id s"]) (use ok new free get in \<open>simp_all add: customers_ok_def\<close>)
  moreover have "index_ok (customer_phone h) ids (index_put (id_by_phone s) (customer_phone h c) ?i)"
    by (rule index_put_ok [where ids = "customers_by_id s"]) (use ok new free get in \<open>simp_all add: customers_ok_def\<close>)
  ultimately show "customers_ok h s'"
    using ok r(1) by (simp add: customers_ok_def s' get)
qed

lemma customer_repo_remove_ok:
  assumes ok: "customers_ok h s"
  shows "customers_ok h (customer_repo_remove h i s)"
    "repo_get j (customers_by_id (customer_repo_remove h i s)) =
       (if j = i then None else repo_get j (customers_by_id s))"
    "repo_next_id (customers_by_id (customer_repo_remove h i s)) = repo_next_id (customers_by_id s)"
proof -
  have rem: "repo_ok (repo_remove i (customers_by_id s))"
    "repo_get k (repo_remove i (customers_by_id s)) = (if k = i then None else repo_get k (customers_by_id s))"
    "repo_next_id (repo_remove i (customers_by_id s)) = repo_next_id (customers_by_id s)" for k
    using repo_remove_ok ok by (simp_all add: customers_ok_def)
  show "repo_get j (customers_by_id (customer_repo_remove h i s)) =
       (if j = i then None else repo_get j (customers_by_id s))"
    "repo_next_id (customers_by_id (customer_repo_remove h i s)) = repo_next_id (customers_by_id s)"
    using rem by (auto simp: customer_repo_remove_def split: option.split)
  show "customers_ok h (customer_repo_remove h i s)"
  proof (cases "repo_get i (customers_by_id s)")
    case None
    then show ?thesis using ok by (simp add: customer_repo_remove_def)
  next
    case (Some c)
    have "index_ok (customer_email h) (repo_remove i (customers_by_id s)) (index_pop (id_by_email s) (customer_email h c))"
      by (rule index_pop_ok [where ids = "customers_by_id s"]) (use ok Some rem(2) in \<open>simp_all add: customers_ok_def\<close>)
    moreover have "index_ok (customer_phone h) (repo_remove i (customers_by_id s)) (index_pop (id_by_phone s) (customer_phone h c))"
      by (rule index_pop_ok [where ids = "customers_by_id s"]) (use ok Some rem(2) in \<open>simp_all add: customers_ok_def\<close>)
    ultimately show ?thesis
      using ok rem Some by (simp add: customer_repo_remove_def customers_ok_def)
  qed
qed

interpretation customer_store: id_repository "\<lambda>c. customer_id (customers h c)" customer_get
    "customer_repo_add h" "customer_repo_remove h" customer_list_all
    "\<lambda>s. repo_next_id (customers_by_id s)" "customers_ok h" for h
proof (unfold_locales, goal_cases)
  case (1 s i)
  then show ?case by (simp add: customer_get_def customers_ok_def repo_free)
next
  case (2 s)
  then show ?case by (simp add: customers_ok_def repo_ok_def)
next
  case (3 c s)
  then show ?case by (simp add: customer_get_def customer_repo_add_def Let_def)
next
  case (4 s c s')
  then show ?case using customer_repo_add_ok [OF 4] by (simp add: customer_get_def)
next
  case (5 s i)
  then show ?case using customer_repo_remove_ok [OF 5] by (simp add: customer_get_def)
next
  case (6 s)
  then show ?case using repo_list_ok [of "customers_by_id s"]
    by (simp add: customer_get_def customer_list_all_def customers_ok_def)
qed

text \<open>The lookups never meet a stale index and find exactly the registered customer.\<close>

lemma index_lookup:
  assumes ok: "index_ok key (customers_by_id s) m" and k: "k \<noteq> []"
  shows "\<exists>c. customer_at (m k) s = Inr c \<and>
    (\<forall>d. c = Some d \<longleftrightarrow> (\<exists>i. customer_get i s = Some d) \<and> key d = k)"
proof (cases "m k")
  case None
  have "\<not> ((\<exists>i. customer_get i s = Some d) \<and> key d = k)" for d
    using index_None [OF ok None] k by (auto simp: customer_get_def)
  then show ?thesis using None by (auto simp: customer_at_def)
next
  case (Some i)
  then obtain c where c: "repo_get i (customers_by_id s) = Some c" "key c = k"
    using index_iff [OF ok, of k i] by auto
  have unique: "d = c" if "customer_get j s = Some d" "key d = k" for j d
  proof -
    have "repo_get j (customers_by_id s) = Some d" "key c = key d" "key c \<noteq> []"
      using that c k by (simp_all add: customer_get_def)
    then have "i = j" by (rule index_unique [OF ok c(1)])
    then show ?thesis using c(1) that(1) by (simp add: customer_get_def)
  qed
  have at: "customer_at (m k) s = Inr (Some c)" "customer_get i s = Some c"
    using Some c by (simp_all add: customer_at_def customer_get_def)
  have "Some c = Some d \<longleftrightarrow> (\<exists>i. customer_get i s = Some d) \<and> key d = k" for d
    using unique at(2) c(2) by blast
  with at(1) show ?thesis by blast
qed

lemma get_by_email_exact:
  assumes "customers_ok h s" and "email \<noteq> []"
  shows "\<exists>c. get_by_email email s = Inr c \<and>
    (\<forall>d. c = Some d \<longleftrightarrow> (\<exists>i. customer_get i s = Some d) \<and> customer_email h d = email)"
  unfolding get_by_email_def
  by (rule index_lookup) (use assms in \<open>simp_all add: customers_ok_def\<close>)

lemma get_by_phone_exact:
  assumes "customers_ok h s" and "phone \<noteq> []"
  shows "\<exists>c. get_by_phone phone s = Inr c \<and>
    (\<forall>d. c = Some d \<longleftrightarrow> (\<exists>i. customer_get i s = Some d) \<and> customer_phone h d = phone)"
  unfolding get_by_phone_def
  by (rule index_lookup) (use assms in \<open>simp_all add: customers_ok_def\<close>)

lemma empty_customers_ok [simp]: "customers_ok h empty_customer_repo"
  by (simp add: customers_ok_def empty_customer_repo_def index_ok_def)

end
