(* ===== verification/Authorization.thy ===== *)
theory Authorization
  imports Fleet
begin

text \<open>
  Roles and permissions of \<open>src/domain/enums/auth.py\<close> and the permission checks of
  \<open>src/application/services/authorization_service.py\<close>.  The identity that a check sees is the one bound
  to the current execution when there is one, also when that binding is anonymous, and the session
  principal otherwise.
\<close>

section \<open>Roles and permissions\<close>

datatype role = EMPLOYEE | MANAGER

datatype permission =
    PACKAGE_CREATE | PACKAGE_VIEW | PACKAGE_VIEW_ALL | PACKAGE_FIND_ROUTE_FOR
  | PACKAGE_VIEW_UNASSIGNED | PACKAGE_REMOVE
  | ROUTE_CREATE | ROUTE_VIEW_IN_PROGRESS | ROUTE_VIEW | ROUTE_VIEW_ALL | ROUTE_FIND_TRUCK_FOR
  | ROUTE_ASSIGN_TRUCK | ROUTE_ASSIGN_PACKAGE | ROUTE_REMOVE
  | TRUCK_VIEW | CUSTOMER_VIEW
  | ADMIN_USER | APP_SAVE_STATE | APP_LOAD_STATE
  | AUDIT_VIEW | FLEET_OVERVIEW_VIEW | AUTHENTICATED

definition employee_permissions :: "permission list" where
  "employee_permissions =
     [PACKAGE_CREATE, PACKAGE_VIEW, PACKAGE_VIEW_ALL, PACKAGE_VIEW_UNASSIGNED, PACKAGE_FIND_ROUTE_FOR,
      PACKAGE_REMOVE, ROUTE_CREATE, ROUTE_VIEW, ROUTE_VIEW_ALL, ROUTE_VIEW_IN_PROGRESS,
      ROUTE_FIND_TRUCK_FOR, ROUTE_ASSIGN_TRUCK, ROUTE_ASSIGN_PACKAGE, ROUTE_REMOVE, TRUCK_VIEW,
      CUSTOMER_VIEW, FLEET_OVERVIEW_VIEW]"

definition manager_permissions :: "permission list" where
  "manager_permissions =
     employee_permissions @ [ADMIN_USER, APP_SAVE_STATE, APP_LOAD_STATE, AUDIT_VIEW]"

definition role_permissions :: "role \<Rightarrow> permission list" where
  "role_permissions r = (case r of EMPLOYEE \<Rightarrow> employee_permissions | MANAGER \<Rightarrow> manager_permissions)"

section \<open>Principals\<close>

record principal =
  user_id :: int
  username :: string
  principal_name :: string
  principal_email :: string
  principal_phone :: string
  principal_role :: role

text \<open>
  \<open>bound_user\<close> is the context variable: \<open>None\<close> when no context is bound, \<open>Some None\<close> for an execution
  that is bound and anonymous.
\<close>

record identity =
  session_user :: "principal option"
  bound_user :: "principal option option"

definition current_user :: "identity \<Rightarrow> principal option" where
  "current_user a = (case bound_user a of Some u \<Rightarrow> u | None \<Rightarrow> session_user a)"

definition set_current_user :: "principal option \<Rightarrow> identity \<Rightarrow> identity" where
  "set_current_user u a = a\<lparr>session_user := u\<rparr>"

definition has_permission :: "identity \<Rightarrow> permission \<Rightarrow> bool" where
  "has_permission a perm =
     (case current_user a of
        None \<Rightarrow> False
      | Some u \<Rightarrow> perm \<in> set (role_permissions (principal_role u)))"

text \<open>\<open>bind_authorization_context\<close>: the body sees the bound principal, the earlier binding returns.\<close>

definition with_authorization_context ::
    "principal option \<Rightarrow> (identity \<Rightarrow> 'a \<times> identity) \<Rightarrow> identity \<Rightarrow> 'a \<times> identity" where
  "with_authorization_context u body a =
     (let token = bound_user a
      in case body (a\<lparr>bound_user := Some u\<rparr>) of (x, a') \<Rightarrow> (x, a'\<lparr>bound_user := token\<rparr>))"

section \<open>Denials\<close>

datatype auth_operation =
    OP_PACKAGE_CREATE | OP_PACKAGE_VIEW | OP_PACKAGE_LIST | OP_PACKAGE_LIST_UNASSIGNED
  | OP_PACKAGE_FIND_SUITABLE_ROUTES | OP_PACKAGE_REMOVE
  | OP_ROUTE_CREATE | OP_ROUTE_VIEW | OP_ROUTE_LIST | OP_ROUTE_LIST_IN_PROGRESS
  | OP_ROUTE_FIND_SUITABLE_TRUCKS | OP_ROUTE_ASSIGN_TRUCK | OP_ROUTE_ASSIGN_PACKAGES | OP_ROUTE_REMOVE
  | OP_TRUCK_LIST | OP_CUSTOMER_LIST
  | OP_USER_REGISTER | OP_USER_CHANGE_PASSWORD | OP_USER_RESET_PASSWORD | OP_SESSION_END
  | OP_WORLD_STATE_EXPORT | OP_WORLD_STATE_IMPORT | OP_AUDIT_LOG_VIEW
  | OP_FLEET_OVERVIEW_VIEW

datatype resource_type =
    RES_AUDIT_LOG | RES_CUSTOMER | RES_PACKAGE | RES_ROUTE | RES_TRUCK | RES_USER
  | RES_AUTHORIZATION | RES_WORLD_STATE | RES_FLEET

text \<open>The payload of \<open>AuthorizationDenied\<close>.\<close>

record denial =
  attempted_operation :: auth_operation
  target_resource_type :: resource_type
  target_resource_id :: "string option"
  required_permissions :: "permission list"
  denied_at :: time

text \<open>
  \<open>requires_all\<close> decides from the identity alone: the permissions to report and refuse with, or none
  when the wrapped method runs.  \<open>requires\<close> is the case of one permission.
\<close>

definition missing_permissions :: "identity \<Rightarrow> permission list \<Rightarrow> permission list option" where
  "missing_permissions a ps =
     (case current_user a of
        None \<Rightarrow> Some ps
      | Some _ \<Rightarrow>
          (let missing = filter (\<lambda>p. \<not> has_permission a p) ps
           in if missing \<noteq> [] then Some missing else None))"

section \<open>What the checks guarantee\<close>

lemma missing_None_iff:
  assumes "ps \<noteq> []"
  shows "missing_permissions a ps = None \<longleftrightarrow> (\<forall>p \<in> set ps. has_permission a p)"
  using assms by (cases "current_user a"; cases ps)
    (auto simp: missing_permissions_def has_permission_def Let_def filter_empty_conv)

lemma missing_Some:
  assumes "missing_permissions a ps = Some ms"
  shows "set ms \<subseteq> set ps" "\<forall>p \<in> set ms. \<not> has_permission a p"
  using assms
  by (auto simp: missing_permissions_def has_permission_def Let_def split: option.splits if_splits)

text \<open>Managers can do whatever employees can, and the four administrative permissions are theirs.\<close>

lemma manager_extends_employee:
  "set employee_permissions \<subseteq> set manager_permissions"
  "p \<in> set manager_permissions - set employee_permissions \<longleftrightarrow>
     p \<in> {ADMIN_USER, APP_SAVE_STATE, APP_LOAD_STATE, AUDIT_VIEW}"
  by (auto simp: manager_permissions_def employee_permissions_def)

lemma bound_identity_wins:
  "current_user (a\<lparr>bound_user := Some u\<rparr>) = u"
  by (simp add: current_user_def)

lemma context_restored:
  "bound_user (snd (with_authorization_context u body a)) = bound_user a"
  by (simp add: with_authorization_context_def Let_def split: prod.split)

end
