(* ===== verification/Application.thy ===== *)
theory Application
  imports Reconciliation Customers Authorization
begin

text \<open>
  The state shared by the use cases and the services they call: the object store, the in-memory
  repositories, the identity of the caller, and the event-recorder scope of the running message.
  Models the repositories' creating operations, \<open>src/application/eventing/recorder_scope.py\<close>,
  \<open>src/application/use_cases/base/\<close>, \<open>src/application/services/customer_service.py\<close>,
  \<open>src/application/services/vehicle_manager.py\<close> and \<open>src/composition/seed_fleet.py\<close>.
\<close>

section \<open>Recorder scopes\<close>

text \<open>Events produced by the workflows themselves.\<close>

datatype application_event =
    AuthorizationDenied denial
  | Reconciled reconciliation_event
  | WorldStateAdvanced (advanced_at: time) (routes_updated: nat) (packages_updated: nat)
      (trucks_moved: nat) (trucks_released: nat) (trucks_reconciled: nat)

record event_scope =
  scope_pending :: "application_event list"
  scope_recorders :: "recorder list"

definition new_scope :: event_scope where
  "new_scope = \<lparr>scope_pending = [], scope_recorders = []\<rparr>"

definition scope_record :: "application_event \<Rightarrow> event_scope \<Rightarrow> event_scope" where
  "scope_record e s = s\<lparr>scope_pending := scope_pending s @ [e]\<rparr>"

text \<open>\<open>setdefault(id(recorder), recorder)\<close>: the first registration decides the position.\<close>

definition scope_track :: "recorder \<Rightarrow> event_scope \<Rightarrow> event_scope" where
  "scope_track r s =
     (if r \<in> set (scope_recorders s) then s else s\<lparr>scope_recorders := scope_recorders s @ [r]\<rparr>)"

section \<open>The application state\<close>

record app =
  store :: heap
  route_repo :: id_repo
  package_repo :: id_repo
  customer_dir :: customer_repo
  fleet :: "tref list"
  identity :: identity
  scope :: "event_scope option"
  unscoped_events :: "application_event list"

type_synonym 'a usecase = "(app, 'a) act"

text \<open>A method of an entity, run on the object store.\<close>

definition on_store :: "'a action \<Rightarrow> 'a usecase" where
  "on_store m a = (case m (store a) of (r, h) \<Rightarrow> (r, a\<lparr>store := h\<rparr>))"

lemma on_store_eq: "m (store a) = (r, h) \<Longrightarrow> on_store m a = (r, a\<lparr>store := h\<rparr>)"
  by (simp add: on_store_def)

definition record_application_event :: "application_event \<Rightarrow> app \<Rightarrow> app" where
  "record_application_event e a =
     (case scope a of
        None \<Rightarrow> a\<lparr>unscoped_events := unscoped_events a @ [e]\<rparr>
      | Some s \<Rightarrow> a\<lparr>scope := Some (scope_record e s)\<rparr>)"

definition track_domain_recorder :: "recorder \<Rightarrow> app \<Rightarrow> app" where
  "track_domain_recorder r a =
     (case scope a of None \<Rightarrow> a | Some s \<Rightarrow> a\<lparr>scope := Some (scope_track r s)\<rparr>)"

section \<open>Permission checks around a use case\<close>

text \<open>\<open>str(n)\<close>\<close>

fun nat_digits :: "nat \<Rightarrow> string" where
  "nat_digits n = (if n < 10 then [char_of (48 + n)] else nat_digits (n div 10) @ [char_of (48 + n mod 10)])"

declare nat_digits.simps [simp del]

definition str_int :: "int \<Rightarrow> string" where
  "str_int i = (if i < 0 then CHR ''-'' # nat_digits (nat (- i)) else nat_digits (nat i))"

definition record_authorization_denied ::
    "auth_operation \<Rightarrow> resource_type \<Rightarrow> int option \<Rightarrow> permission list \<Rightarrow> time \<Rightarrow> app \<Rightarrow> app" where
  "record_authorization_denied op res rid ps clock =
     record_application_event (AuthorizationDenied
       \<lparr>attempted_operation = op, target_resource_type = res,
        target_resource_id = map_option str_int rid, required_permissions = ps, denied_at = clock\<rparr>)"

text \<open>\<open>@requires_all\<close> around \<open>execute\<close>; \<open>clock\<close> is what the use case's event clock returns.\<close>

definition requires_all ::
    "permission list \<Rightarrow> auth_operation \<Rightarrow> resource_type \<Rightarrow> int option \<Rightarrow> time \<Rightarrow> 'a usecase \<Rightarrow> 'a usecase" where
  "requires_all ps op res rid clock body a =
     (case missing_permissions (identity a) ps of
        Some missing \<Rightarrow> (Inl PermissionError, record_authorization_denied op res rid missing clock a)
      | None \<Rightarrow> body a)"

definition requires ::
    "permission \<Rightarrow> auth_operation \<Rightarrow> resource_type \<Rightarrow> int option \<Rightarrow> time \<Rightarrow> 'a usecase \<Rightarrow> 'a usecase" where
  "requires p op res rid clock body a =
     (if current_user (identity a) = None
      then (Inl PermissionError, record_authorization_denied op res rid [p] clock a)
      else if \<not> has_permission (identity a) p
      then (Inl PermissionError, record_authorization_denied op res rid [p] clock a)
      else body a)"

lemma requires_eq: "requires p = requires_all [p]"
  by (rule ext)+ (auto simp: requires_def requires_all_def missing_permissions_def
      has_permission_def split: option.splits)

section \<open>Creating entities\<close>

definition route_repo_create :: "string list \<Rightarrow> time option \<Rightarrow> time \<Rightarrow> rref usecase" where
  "route_repo_create locs departure wall a =
     act_bind (on_store (route_create (map PyStr locs) (map_option naive departure)
       (PyInt (repo_next_id (route_repo a))) wall)) (\<lambda>r a.
     case route_repo_add (store a) r (route_repo a) of
       Inl e \<Rightarrow> (Inl e, a)
     | Inr s \<Rightarrow> (Inr r, a\<lparr>route_repo := s\<rparr>)) a"

definition package_repo_create :: "location \<Rightarrow> location \<Rightarrow> pyval \<Rightarrow> cref \<Rightarrow> time \<Rightarrow> pref usecase" where
  "package_repo_create start end_location weight cust wall a =
     act_bind (on_store (package_create (PyStr start) (PyStr end_location) weight cust
       (PyInt (repo_next_id (package_repo a))) wall)) (\<lambda>p a.
     case package_repo_add (store a) p (package_repo a) of
       Inl e \<Rightarrow> (Inl e, a)
     | Inr s \<Rightarrow> (Inr p, a\<lparr>package_repo := s\<rparr>)) a"

definition customer_repo_create :: "contact_info \<Rightarrow> time \<Rightarrow> cref usecase" where
  "customer_repo_create info wall a =
     act_bind (on_store (customer_create info (PyInt (repo_next_id (customers_by_id (customer_dir a)))) wall))
       (\<lambda>c a. case customer_repo_add (store a) c (customer_dir a) of
          Inl e \<Rightarrow> (Inl e, a)
        | Inr s \<Rightarrow> (Inr c, a\<lparr>customer_dir := s\<rparr>)) a"

section \<open>Resolving customers\<close>

definition same_name :: "string \<Rightarrow> string \<Rightarrow> bool" where
  "same_name input name \<longleftrightarrow> casefold (strip input) = casefold (strip name)"

definition owned_by :: "heap \<Rightarrow> cref \<Rightarrow> message" where
  "owned_by h c =
     [MStr '' already in use by customer ID '', MInt (customer_id (customers h c)), MStr '' ('' ,
      MStr [CHR 0x27], MStr (customer_name h c), MStr [CHR 0x27], MStr '').'']"

definition name_mismatch :: "heap \<Rightarrow> message \<Rightarrow> cref \<Rightarrow> message" where
  "name_mismatch h quoted c =
     [MStr ''Provided name ''] @ quoted @ [MStr '' does not match existing customer ID '',
      MInt (customer_id (customers h c)), MStr '' ('', MStr [CHR 0x27], MStr (customer_name h c),
      MStr [CHR 0x27], MStr '').'']"

definition resolve_email_and_phone ::
    "heap \<Rightarrow> string \<Rightarrow> cref option \<Rightarrow> cref option \<Rightarrow> cref option result" where
  "resolve_email_and_phone h name by_email by_phone =
     (case (by_email, by_phone) of
        (Some c, Some d) \<Rightarrow>
          if customer_id (customers h c) \<noteq> customer_id (customers h d) then
            Inl (ConflictError [MStr ''Email belongs to customer ID: '', MInt (customer_id (customers h c)),
              MStr '', and phone belongs to customer ID: '', MInt (customer_id (customers h d)), MStr ''.''])
          else if name \<noteq> [] \<and> \<not> same_name name (customer_name h c) then
            Inl (ConflictError (name_mismatch h [MStr [CHR 0x27], MStr name, MStr [CHR 0x27]] c))
          else Inr (Some c)
      | (Some c, None) \<Rightarrow>
          if name \<noteq> [] \<and> \<not> same_name name (customer_name h c)
          then Inl (ConflictError (MStr ''Email'' # owned_by h c)) else Inr (Some c)
      | (None, Some d) \<Rightarrow>
          if name \<noteq> [] \<and> \<not> same_name name (customer_name h d)
          then Inl (ConflictError (MStr ''Phone'' # owned_by h d)) else Inr (Some d)
      | (None, None) \<Rightarrow> Inr None)"

definition resolve_name_only ::
    "heap \<Rightarrow> customer_repo \<Rightarrow> string \<Rightarrow> string \<Rightarrow> string \<Rightarrow> cref option" where
  "resolve_name_only h s name email phone =
     (if email \<noteq> [] \<or> phone \<noteq> [] \<or> name = [] then None
      else
        (let candidates = list_by_name h name s;
             name_only = filter (\<lambda>c. customer_email h c = [] \<and> customer_phone h c = []) candidates
         in if length candidates = 1 \<and> length name_only = 1 then Some (hd name_only) else None))"

definition ensure_name_matches :: "heap \<Rightarrow> string \<Rightarrow> cref \<Rightarrow> unit result" where
  "ensure_name_matches h name c =
     (if name \<noteq> [] \<and> \<not> same_name name (customer_name h c)
      then Inl (ConflictError (name_mismatch h [MStr name] c)) else Inr ())"

definition find_existing_customer ::
    "heap \<Rightarrow> customer_repo \<Rightarrow> string \<Rightarrow> string \<Rightarrow> string \<Rightarrow> cref option result" where
  "find_existing_customer h s raw_name raw_email raw_phone =
     (let name = strip raw_name;
          email = lower (strip raw_email);
          phone = filter is_digit raw_phone
      in res_bind (if email \<noteq> [] then get_by_email email s else Inr None) (\<lambda>by_email.
         res_bind (if phone \<noteq> [] then get_by_phone phone s else Inr None) (\<lambda>by_phone.
           if email \<noteq> [] \<and> phone \<noteq> [] then resolve_email_and_phone h name by_email by_phone
           else if email \<noteq> [] \<and> by_email \<noteq> None then
             res_bind (ensure_name_matches h name (the by_email)) (\<lambda>_. Inr by_email)
           else if phone \<noteq> [] \<and> by_phone \<noteq> None then
             res_bind (ensure_name_matches h name (the by_phone)) (\<lambda>_. Inr by_phone)
           else Inr (resolve_name_only h s name email phone))))"

definition customer_service_create :: "string \<Rightarrow> string \<Rightarrow> string \<Rightarrow> time \<Rightarrow> cref usecase" where
  "customer_service_create name email phone wall a =
     act_bind (act_lift (contact_info_create (PyStr name) (PyStr email) (PyStr phone)))
       (\<lambda>info. customer_repo_create info wall) a"

section \<open>The fleet\<close>

fun find_truck :: "heap \<Rightarrow> int \<Rightarrow> tref list \<Rightarrow> tref option" where
  "find_truck h vid [] = None"
| "find_truck h vid (t # ts) = (if vehicle_id (trucks h t) = vid then Some t else find_truck h vid ts)"

definition is_suitable_for_route :: "heap \<Rightarrow> tref \<Rightarrow> suitability_view \<Rightarrow> (bool \<times> message) result" where
  "is_suitable_for_route h t v =
     res_bind (evaluate_truck_view h t v) (\<lambda>d.
       Inr (accepted d, case decision_message d of None \<Rightarrow> [] | Some m \<Rightarrow> m))"

fun suitable_trucks :: "heap \<Rightarrow> rref \<Rightarrow> tref list \<Rightarrow> tref list result" where
  "suitable_trucks h r [] = Inr []"
| "suitable_trucks h r (t # ts) =
     res_bind (evaluate_truck h t r) (\<lambda>d. res_bind (suitable_trucks h r ts) (\<lambda>us.
       Inr (if accepted d then t # us else us)))"

definition find_available_for_route :: "heap \<Rightarrow> tref list \<Rightarrow> rref \<Rightarrow> tref list result" where
  "find_available_for_route h fl r =
     res_bind (suitable_trucks h r fl) (\<lambda>ts. Inr (sort_key (\<lambda>t. vehicle_id (trucks h t)) ts))"

lemma find_truck_Some: "find_truck h vid ts = Some t \<Longrightarrow> t \<in> set ts \<and> vehicle_id (trucks h t) = vid"
  by (induction ts) (auto split: if_splits)

lemma find_truck_None: "find_truck h vid ts = None \<longleftrightarrow> (\<forall>t \<in> set ts. vehicle_id (trucks h t) \<noteq> vid)"
  by (induction ts) auto

end
