(* ===== verification/UseCases.thy ===== *)
theory UseCases
  imports Application
begin

text \<open>
  The use cases that change the world, \<open>src/application/use_cases/\<close> and
  \<open>src/application/services/heartbeat_service.py\<close>.  Each is the whole \<open>execute\<close> method with its
  permission check.  \<open>clock\<close> is the time the injected clock returns; \<open>persist\<close> is the outcome of the
  persistence calls inside the transaction, \<open>None\<close> when they succeed, as the in-memory repositories
  always do, or the exception they raise: a database adapter is a parameter of the model.
\<close>

section \<open>Exceptions\<close>

definition act_catch :: "('s, 'a) act \<Rightarrow> (error \<Rightarrow> ('s, 'a) act) \<Rightarrow> ('s, 'a) act" where
  "act_catch m handler s =
     (case m s of (Inr x, s') \<Rightarrow> (Inr x, s') | (Inl e, s') \<Rightarrow> handler e s')"

definition persisted :: "error option \<Rightarrow> ('s, unit) act" where
  "persisted outcome s = (case outcome of None \<Rightarrow> (Inr (), s) | Some e \<Rightarrow> (Inl e, s))"

text \<open>Looking an entity up in a repository, or raising NotFoundError.\<close>

definition get_or_not_found :: "nat option \<Rightarrow> nat usecase" where
  "get_or_not_found x a = (case x of None \<Rightarrow> (Inl NotFoundError, a) | Some r \<Rightarrow> (Inr r, a))"

section \<open>Creating routes and packages\<close>

definition create_route :: "string list \<Rightarrow> time option \<Rightarrow> time \<Rightarrow> rref usecase" where
  "create_route locs departure clock =
     requires ROUTE_CREATE OP_ROUTE_CREATE RES_ROUTE None clock
       (act_bind (route_repo_create locs departure clock) (\<lambda>r.
        act_bind (act_modify (track_domain_recorder (RouteRec r))) (\<lambda>_. act_return r)))"

definition resolve_customer :: "string \<Rightarrow> string \<Rightarrow> string \<Rightarrow> time \<Rightarrow> cref usecase" where
  "resolve_customer name email phone clock a =
     (case find_existing_customer (store a) (customer_dir a) name email phone of
        Inl e \<Rightarrow> (Inl e, a)
      | Inr (Some c) \<Rightarrow> (Inr c, a)
      | Inr None \<Rightarrow> customer_service_create name email phone clock a)"

definition create_package ::
    "string \<Rightarrow> string \<Rightarrow> pyval \<Rightarrow> string \<Rightarrow> string \<Rightarrow> string \<Rightarrow> time \<Rightarrow> pref usecase" where
  "create_package start end_location weight name email phone clock =
     requires PACKAGE_CREATE OP_PACKAGE_CREATE RES_PACKAGE None clock
       (act_bind (act_lift (location_code (PyStr start))) (\<lambda>start_code.
        act_bind (act_lift (location_code (PyStr end_location))) (\<lambda>end_code.
        act_bind (resolve_customer name email phone clock) (\<lambda>c.
        act_bind (package_repo_create start_code end_code weight c clock) (\<lambda>p.
        act_bind (on_store (customer_add_package c p)) (\<lambda>_.
        act_bind (act_modify (track_domain_recorder (PackageRec p))) (\<lambda>_.
        act_bind (act_modify (track_domain_recorder (CustomerRec c))) (\<lambda>_. act_return p))))))))"

section \<open>Assigning packages to a route\<close>

text \<open>The arrival shown to the caller; its text rendering is left out.\<close>

datatype eta_text = EtaUnscheduled | EtaAt time | EtaUnknown

record assignment_success =
  success_package_id :: int
  success_route_id :: int
  success_eta :: eta_text
  success_route :: rref

record assignment_error =
  error_package_id :: int
  error_message :: message

record assignment_result =
  successes :: "assignment_success list"
  errors :: "assignment_error list"

fun unique_ids :: "int set \<Rightarrow> int list \<Rightarrow> int list" where
  "unique_ids seen [] = []"
| "unique_ids seen (i # is) =
     (if i \<in> seen then unique_ids seen is else i # unique_ids (insert i seen) is)"

definition missing_package_error :: "int \<Rightarrow> assignment_error" where
  "missing_package_error i =
     \<lparr>error_package_id = i, error_message = [MStr ''Package '', MInt i, MStr '' not found.'']\<rparr>"

definition assigned_package_error :: "heap \<Rightarrow> pref \<Rightarrow> assignment_error option" where
  "assigned_package_error h p =
     (case pkg_route_id (packages h p) of
        None \<Rightarrow> None
      | Some rid \<Rightarrow>
          Some \<lparr>error_package_id = package_id (packages h p),
                error_message =
                  (if pkg_route (packages h p) = None
                   then [MStr ''Package '', MInt (package_id (packages h p)), MStr '' has route_id '',
                         MInt rid, MStr '' but route is not hydrated.'']
                   else [MStr ''Package '', MInt (package_id (packages h p)), MStr '' is already on route '',
                         MInt rid, MStr ''.''])\<rparr>)"

definition format_eta :: "heap \<Rightarrow> rref \<Rightarrow> pref \<Rightarrow> eta_text result" where
  "format_eta h r p =
     (if departure_time (routes h r) = None then Inr EtaUnscheduled
      else (case arrival_time_at (routes h r) (PyStr (pkg_end (packages h p))) of
              Inr t \<Rightarrow> Inr (EtaAt t)
            | Inl (DomainConflictError _) \<Rightarrow> Inr EtaUnknown
            | Inl DomainValidationError \<Rightarrow> Inr EtaUnknown
            | Inl e \<Rightarrow> Inl e))"

text \<open>\<open>_assign_package\<close>: only a DatabaseError is rolled back here.\<close>

definition restore_assignment ::
    "rref \<Rightarrow> route_snapshot \<Rightarrow> int \<Rightarrow> pref \<Rightarrow> package_snapshot \<Rightarrow> unit action" where
  "restore_assignment r route_snap route_checkpoint p package_snap =
     act_bind (route_restore_state r route_snap) (\<lambda>_.
     act_bind (restore_route_events r route_checkpoint) (\<lambda>_.
       act_modify (upd_package p (package_restore_state package_snap))))"

definition assign_and_update :: "rref \<Rightarrow> pref \<Rightarrow> time \<Rightarrow> error option \<Rightarrow> assignment_success usecase" where
  "assign_and_update r p now persist a =
     (let route_snap = route_snapshot_state (routes (store a) r);
          package_snap = package_snapshot_state (packages (store a) p);
          route_checkpoint = event_checkpoint (route_events (routes (store a) r))
      in act_bind
           (act_catch
             (act_bind (on_store (assign_package r p now now)) (\<lambda>_. persisted persist))
             (\<lambda>e. if e = DatabaseError
                then act_bind (on_store (restore_assignment r route_snap route_checkpoint p package_snap))
                  (\<lambda>_. act_raise e)
                else act_raise e))
           (\<lambda>_ a. case format_eta (store a) r p of
              Inl e \<Rightarrow> (Inl e, a)
            | Inr eta \<Rightarrow>
                (Inr \<lparr>success_package_id = package_id (packages (store a) p),
                      success_route_id = route_id (routes (store a) r), success_eta = eta,
                      success_route = r\<rparr>, a)) a)"

definition add_success :: "assignment_success \<Rightarrow> assignment_result \<Rightarrow> assignment_result" where
  "add_success s res = res\<lparr>successes := successes res @ [s]\<rparr>"

definition add_error :: "assignment_error \<Rightarrow> assignment_result \<Rightarrow> assignment_result" where
  "add_error e res = res\<lparr>errors := errors res @ [e]\<rparr>"

text \<open>The body of the loop: what one identifier adds to the result.\<close>

definition assign_one :: "rref \<Rightarrow> int \<Rightarrow> time \<Rightarrow> error option \<Rightarrow> assignment_result \<Rightarrow> assignment_result usecase" where
  "assign_one r i now persist res a =
     (case repo_get i (package_repo a) of
        None \<Rightarrow> (Inr (add_error (missing_package_error i) res), a)
      | Some p \<Rightarrow>
          (case assigned_package_error (store a) p of
             Some e \<Rightarrow> (Inr (add_error e res), a)
           | None \<Rightarrow>
               (case assign_and_update r p now persist a of
                  (Inr s, a1) \<Rightarrow> (Inr (add_success s res), a1)
                | (Inl (DomainConflictError m), a1) \<Rightarrow>
                    (Inr (add_error \<lparr>error_package_id = i, error_message = m\<rparr> res), a1)
                | (Inl e, a1) \<Rightarrow> (Inl e, a1))))"

fun assign_loop :: "rref \<Rightarrow> time \<Rightarrow> (int \<Rightarrow> error option) \<Rightarrow> int list \<Rightarrow> assignment_result \<Rightarrow> assignment_result usecase" where
  "assign_loop r now persist [] res a = (Inr res, a)"
| "assign_loop r now persist (i # is) res a =
     act_bind (assign_one r i now (persist i) res) (assign_loop r now persist is) a"

definition assign_packages :: "int \<Rightarrow> int list \<Rightarrow> time \<Rightarrow> (int \<Rightarrow> error option) \<Rightarrow> assignment_result usecase" where
  "assign_packages rid package_ids clock persist =
     requires ROUTE_ASSIGN_PACKAGE OP_ROUTE_ASSIGN_PACKAGES RES_ROUTE (Some rid) clock
       (\<lambda>a. act_bind (get_or_not_found (repo_get rid (route_repo a))) (\<lambda>r.
        act_bind (assign_loop r clock persist (unique_ids {} package_ids) \<lparr>successes = [], errors = []\<rparr>) (\<lambda>res.
        act_bind (act_modify (if successes res \<noteq> [] then track_domain_recorder (RouteRec r) else id)) (\<lambda>_.
          act_return res))) a)"

section \<open>Assigning a truck to a route\<close>

definition ensure_route_has_no_truck :: "heap \<Rightarrow> rref \<Rightarrow> unit result" where
  "ensure_route_has_no_truck h r =
     (case route_truck (routes h r) of
        None \<Rightarrow> Inr ()
      | Some t \<Rightarrow> Inl (ConflictError [MStr ''Route '', MInt (route_id (routes h r)), MStr '' already has truck '',
          MInt (vehicle_id (trucks h t)), MStr '' assigned'']))"

text \<open>An unscheduled route is judged as if it left now; the probe computes its distance at once.\<close>

definition route_for_suitability :: "heap \<Rightarrow> rref \<Rightarrow> time \<Rightarrow> suitability_view result" where
  "route_for_suitability h r now =
     (if departure_time (routes h r) = None
      then res_bind (total_distance_km (routes h r)) (\<lambda>d.
        Inr \<lparr>view_distance_km = Inr d, view_start_location = path_start (path (routes h r)),
             view_departure_time = Some now,
             view_maximum_segment_load = route_maximum_segment_load h r None\<rparr>)
      else Inr (route_view h r))"

definition ensure_truck_is_suitable :: "heap \<Rightarrow> tref \<Rightarrow> rref \<Rightarrow> time \<Rightarrow> unit result" where
  "ensure_truck_is_suitable h t r now =
     res_bind (route_for_suitability h r now) (\<lambda>v.
     res_bind (is_suitable_for_route h t v) (\<lambda>(suitable, reason).
       if suitable then Inr ()
       else Inl (ConflictError ([MStr ''Truck '', MInt (vehicle_id (trucks h t)),
         MStr '' is not suitable for route '', MInt (route_id (routes h r)), MStr '': ''] @ reason @
         [MStr ''. Query suitable trucks for this route to see available options.'']))))"

definition assign_truck_in_memory :: "rref \<Rightarrow> tref \<Rightarrow> time \<Rightarrow> unit action" where
  "assign_truck_in_memory r t now h =
     act_bind (if departure_time (routes h r) = None then schedule_route r (naive now) now else act_return ())
       (\<lambda>_. assign_truck r t now) h"

definition restore_truck_assignment ::
    "rref \<Rightarrow> route_snapshot \<Rightarrow> int \<Rightarrow> tref \<Rightarrow> truck_snapshot \<Rightarrow> unit action" where
  "restore_truck_assignment r route_snap route_checkpoint t truck_snap =
     act_bind (route_restore_state r route_snap) (\<lambda>_.
     act_bind (restore_route_events r route_checkpoint) (\<lambda>_.
       act_modify (upd_truck t (truck_restore_state truck_snap))))"

definition assign_truck_and_persist :: "rref \<Rightarrow> tref \<Rightarrow> time \<Rightarrow> error option \<Rightarrow> unit action" where
  "assign_truck_and_persist r t now persist h =
     (let route_snap = route_snapshot_state (routes h r);
          truck_snap = truck_snapshot_state (trucks h t);
          route_checkpoint = event_checkpoint (route_events (routes h r))
      in act_catch (act_bind (assign_truck_in_memory r t now) (\<lambda>_. persisted persist))
           (\<lambda>e. act_bind (restore_truck_assignment r route_snap route_checkpoint t truck_snap)
                (\<lambda>_. act_raise e)) h)"

definition assign_truck_to_route :: "int \<Rightarrow> int \<Rightarrow> time \<Rightarrow> time \<Rightarrow> error option \<Rightarrow> (rref \<times> tref) usecase" where
  "assign_truck_to_route vid rid now clock persist =
     requires ROUTE_ASSIGN_TRUCK OP_ROUTE_ASSIGN_TRUCK RES_ROUTE (Some rid) clock
       (\<lambda>a. act_bind (get_or_not_found (repo_get rid (route_repo a))) (\<lambda>r.
        act_bind (get_or_not_found (find_truck (store a) vid (fleet a))) (\<lambda>t.
        act_bind (act_lift (ensure_route_has_no_truck (store a) r)) (\<lambda>_.
        act_bind (act_lift (ensure_truck_is_suitable (store a) t r now)) (\<lambda>_.
        act_bind (on_store (assign_truck_and_persist r t now persist)) (\<lambda>_.
        act_bind (act_modify (track_domain_recorder (RouteRec r))) (\<lambda>_. act_return (r, t))))))) a)"

section \<open>Removing a package\<close>

definition detach_from_route :: "pref \<Rightarrow> time \<Rightarrow> unit action" where
  "detach_from_route p occurred_at h =
     (case pkg_route_id (packages h p) of
        None \<Rightarrow> (Inr (), h)
      | Some rid \<Rightarrow>
          (case pkg_route (packages h p) of
             None \<Rightarrow>
               (Inl (DomainConflictError [MStr ''Package '', MInt (package_id (packages h p)),
                  MStr '' is assigned to route '', MInt rid, MStr '', but route is not hydrated.'']), h)
           | Some r \<Rightarrow>
               act_catch (detach_package r p DETACH_PACKAGE_REMOVED occurred_at)
                 (\<lambda>e h'. (Inl (if e = EntityNotFoundError
                    then DomainConflictError [MStr ''Package with id '', MInt (package_id (packages h p)),
                           MStr '' is not assigned to route '', MInt (route_id (routes h r)), MStr ''.'']
                    else e), h')) h))"

definition remove_from_customer :: "pref \<Rightarrow> unit action" where
  "remove_from_customer p h =
     act_catch (customer_remove_package (pkg_customer (packages h p)) p)
       (\<lambda>e h'. (Inl (if e = EntityNotFoundError
          then DomainConflictError [MStr ''Package with id '', MInt (package_id (packages h p)),
                 MStr '' does not exist.'']
          else e), h')) h"

text \<open>The \<open>try\<close> block on the object store, and the restoration in its \<open>except\<close> clause.\<close>

definition remove_package_links :: "pref \<Rightarrow> time \<Rightarrow> unit action" where
  "remove_package_links p occurred_at h =
     (let snap = package_snapshot_state (packages h p); previous_location = current_location (packages h p)
      in act_bind (detach_from_route p occurred_at) (\<lambda>_.
         act_bind (remove_from_customer p) (\<lambda>_.
           act_modify (record_package_removal p (psnap_route_id snap) (psnap_status snap)
             previous_location (psnap_expected_arrival snap) occurred_at))) h)"

definition restore_removed_package ::
    "pref \<Rightarrow> rref option \<Rightarrow> cref \<Rightarrow> package_snapshot \<Rightarrow> int \<Rightarrow> int \<Rightarrow> unit action" where
  "restore_removed_package p r c snap package_checkpoint route_checkpoint =
     act_bind (act_modify (upd_package p (package_restore_state snap))) (\<lambda>_.
     act_bind (restore_package_events p package_checkpoint) (\<lambda>_.
     act_bind (case r of
         None \<Rightarrow> act_return ()
       | Some q \<Rightarrow> act_bind (restore_package_link q p True) (\<lambda>_. restore_route_events q route_checkpoint)) (\<lambda>_.
       act_modify (customer_restore_package_link c p))))"

definition remove_package ::
    "int \<Rightarrow> time \<Rightarrow> error option \<Rightarrow> (pref \<times> cref \<times> rref option) usecase" where
  "remove_package pid clock persist =
     requires_all [PACKAGE_REMOVE, PACKAGE_VIEW] OP_PACKAGE_REMOVE RES_PACKAGE (Some pid) clock
       (\<lambda>a. act_bind (get_or_not_found (repo_get pid (package_repo a))) (\<lambda>p.
          (let x = packages (store a) p;
               r = pkg_route x;
               c = pkg_customer x;
               snap = package_snapshot_state x;
               package_checkpoint = event_checkpoint (pkg_events x);
               route_checkpoint = (case r of None \<Rightarrow> 0 | Some q \<Rightarrow> event_checkpoint (route_events (routes (store a) q)))
           in act_bind
                (act_catch
                  (act_bind (on_store (remove_package_links p clock)) (\<lambda>_.
                   act_bind (persisted persist) (\<lambda>_.
                     act_modify (\<lambda>a. a\<lparr>package_repo := repo_remove pid (package_repo a)\<rparr>))))
                  (\<lambda>e. act_bind (on_store (restore_removed_package p r c snap package_checkpoint route_checkpoint))
                     (\<lambda>_. act_raise e)))
                (\<lambda>_. act_bind (act_modify (track_domain_recorder (PackageRec p))) (\<lambda>_.
                      act_bind (act_modify (track_domain_recorder (CustomerRec c))) (\<lambda>_.
                      act_bind (act_modify (case r of None \<Rightarrow> id | Some q \<Rightarrow> track_domain_recorder (RouteRec q))) (\<lambda>_.
                        act_return (p, c, r))))))) a)"

section \<open>Removing a route\<close>

fun detach_all :: "rref \<Rightarrow> time \<Rightarrow> pref list \<Rightarrow> unit action" where
  "detach_all r occurred_at [] h = (Inr (), h)"
| "detach_all r occurred_at (p # ps) h =
     act_bind (detach_package r p DETACH_ROUTE_REMOVED occurred_at) (\<lambda>_. detach_all r occurred_at ps) h"

text \<open>The clock argument of the forced release is not read.\<close>

definition detach_route_state :: "rref \<Rightarrow> time \<Rightarrow> unit action" where
  "detach_route_state r occurred_at h =
     act_bind (detach_all r occurred_at (route_packages (routes h r))) (\<lambda>_.
     act_bind (release_truck r occurred_at True RELEASE_ROUTE_REMOVED occurred_at) (\<lambda>_. act_return ())) h"

definition restore_removal_state ::
    "rref \<Rightarrow> route_snapshot \<Rightarrow> int \<Rightarrow> (pref \<times> package_snapshot) list \<Rightarrow> (tref \<times> truck_snapshot) option \<Rightarrow> unit action" where
  "restore_removal_state r snap checkpoint package_snaps truck_snap =
     act_bind (route_restore_state r snap) (\<lambda>_.
     act_bind (restore_route_events r checkpoint) (\<lambda>_.
     act_bind (act_for (\<lambda>(p, s). act_modify (upd_package p (package_restore_state s))) package_snaps) (\<lambda>_.
       act_modify (case truck_snap of None \<Rightarrow> id | Some (t, s) \<Rightarrow> upd_truck t (truck_restore_state s)))))"

definition remove_route_links :: "rref \<Rightarrow> time \<Rightarrow> error option \<Rightarrow> unit action" where
  "remove_route_links r occurred_at persist h =
     (let x = routes h r;
          package_snaps = map (\<lambda>p. (p, package_snapshot_state (packages h p))) (route_packages x);
          truck_snap = map_option (\<lambda>t. (t, truck_snapshot_state (trucks h t))) (route_truck x);
          package_ids = map (\<lambda>p. package_id (packages h p)) (route_packages x);
          truck_id = map_option (\<lambda>t. vehicle_id (trucks h t)) (route_truck x)
      in act_catch
           (act_bind (detach_route_state r occurred_at) (\<lambda>_.
            act_bind (act_modify (record_route_removal r package_ids truck_id occurred_at)) (\<lambda>_.
              persisted persist)))
           (\<lambda>e. act_bind (restore_removal_state r (route_snapshot_state x) (event_checkpoint (route_events x))
                    package_snaps truck_snap) (\<lambda>_. act_raise e)) h)"

definition remove_route :: "int \<Rightarrow> time \<Rightarrow> error option \<Rightarrow> rref usecase" where
  "remove_route rid clock persist =
     requires_all [ROUTE_REMOVE, ROUTE_VIEW] OP_ROUTE_REMOVE RES_ROUTE (Some rid) clock
       (\<lambda>a. act_bind (get_or_not_found (repo_get rid (route_repo a))) (\<lambda>r.
        act_bind (on_store (remove_route_links r clock persist)) (\<lambda>_.
        act_bind (act_modify (\<lambda>a. a\<lparr>route_repo := repo_remove rid (route_repo a)\<rparr>)) (\<lambda>_.
        act_bind (act_modify (track_domain_recorder (RouteRec r))) (\<lambda>_. act_return r)))) a)"

section \<open>The heartbeat\<close>

definition route_snapshots :: "heap \<Rightarrow> rref list \<Rightarrow> (rref \<times> route_snapshot \<times> int) list" where
  "route_snapshots h rs =
     map (\<lambda>r. (r, route_snapshot_state (routes h r), event_checkpoint (route_events (routes h r)))) rs"

definition truck_snapshots :: "heap \<Rightarrow> rref list \<Rightarrow> (tref \<times> truck_snapshot) list" where
  "truck_snapshots h rs =
     map (\<lambda>t. (t, truck_snapshot_state (trucks h t))) (List.map_filter (\<lambda>r. route_truck (routes h r)) rs)"

definition restore_heartbeat ::
    "(rref \<times> route_snapshot \<times> int) list \<Rightarrow> (pref \<times> package_snapshot \<times> int) list \<Rightarrow>
       (tref \<times> truck_snapshot) list \<Rightarrow> unit action" where
  "restore_heartbeat rs ps ts =
     act_bind (act_for (\<lambda>(r, s, k). act_bind (route_restore_state r s) (\<lambda>_. restore_route_events r k)) rs) (\<lambda>_.
     act_bind (restore_packages ps) (\<lambda>_.
       act_for (\<lambda>(t, s). act_modify (upd_truck t (truck_restore_state s))) ts))"

definition heartbeat_advance :: "rref list \<Rightarrow> time \<Rightarrow> error option \<Rightarrow> heartbeat_summary action" where
  "heartbeat_advance rs now persist h =
     (let route_snaps = route_snapshots h rs;
          package_snaps = package_snapshots h (concat (map (\<lambda>r. route_packages (routes h r)) rs));
          truck_snaps = truck_snapshots h rs
      in act_catch
           (act_bind (reconcile_routes rs now True) (\<lambda>summary.
              if \<not> state_changed summary then act_return summary
              else act_bind (persisted persist) (\<lambda>_. act_return summary)))
           (\<lambda>e. act_bind (restore_heartbeat route_snaps package_snaps truck_snaps) (\<lambda>_. act_raise e)) h)"

definition world_state_advanced :: "time \<Rightarrow> heartbeat_summary \<Rightarrow> application_event" where
  "world_state_advanced now s =
     WorldStateAdvanced now (length (mutated_routes s)) (length (mutated_packages s))
       (length (mutated_trucks_moved s)) (length (mutated_trucks_released s))
       (length (mutated_trucks_reconciled s))"

definition advance_world_state :: "time \<Rightarrow> error option \<Rightarrow> heartbeat_summary usecase" where
  "advance_world_state clock persist a =
     act_bind (on_store (heartbeat_advance (repo_list_all (route_repo a)) clock persist)) (\<lambda>s.
     act_bind (act_modify (fold (\<lambda>e. record_application_event (Reconciled e)) (reconciliation_events s))) (\<lambda>_.
     act_bind (act_modify (if state_changed s
         then record_application_event (world_state_advanced clock s) else id)) (\<lambda>_.
       act_return s))) a"

end
