(* ===== verification/AppInvariant.thy ===== *)
theory AppInvariant
  imports UseCases
begin

text \<open>
  The invariant of the whole application state: the repositories are sound and index the entities by
  their own identifiers, the registered entities form a consistent world, every stored package is in
  the collection of exactly one registered customer, and contact details are in normal form.  The
  lemmas here say which changes of the state respect it; the use cases follow in Lifecycle.
\<close>

section \<open>The invariant\<close>

definition refs :: "id_repo \<Rightarrow> nat set" where
  "refs s = {r. \<exists>i. repo_get i s = Some r}"

abbreviation live_routes :: "app \<Rightarrow> rref set" where
  "live_routes a \<equiv> refs (route_repo a)"

abbreviation live_packages :: "app \<Rightarrow> pref set" where
  "live_packages a \<equiv> refs (package_repo a)"

abbreviation live_customers :: "app \<Rightarrow> cref set" where
  "live_customers a \<equiv> refs (customers_by_id (customer_dir a))"

definition keyed :: "(nat \<Rightarrow> int) \<Rightarrow> id_repo \<Rightarrow> bool" where
  "keyed id_of s \<longleftrightarrow> repo_ok s \<and> (\<forall>i r. repo_get i s = Some r \<longrightarrow> id_of r = i)"

definition owners_ok :: "cref set \<Rightarrow> pref set \<Rightarrow> heap \<Rightarrow> bool" where
  "owners_ok C P h \<longleftrightarrow>
     (\<forall>c \<in> C. distinct (delivery_packages (customers h c)) \<and>
        set (delivery_packages (customers h c)) = {p \<in> P. pkg_customer (packages h p) = c} \<and>
        contact_ok (contact (customers h c)) \<and> c < next_ref h) \<and>
     (\<forall>p \<in> P. pkg_customer (packages h p) \<in> C)"

definition fleet_ok :: "heap \<Rightarrow> tref list \<Rightarrow> bool" where
  "fleet_ok h ts \<longleftrightarrow> distinct (map (\<lambda>t. vehicle_id (trucks h t)) ts)"

definition app_ok :: "app \<Rightarrow> bool" where
  "app_ok a \<longleftrightarrow>
     keyed (\<lambda>r. route_id (routes (store a) r)) (route_repo a) \<and>
     keyed (\<lambda>p. package_id (packages (store a) p)) (package_repo a) \<and>
     customers_ok (store a) (customer_dir a) \<and>
     world_ok (live_routes a) (live_packages a) (set (fleet a)) (store a) \<and>
     owners_ok (live_customers a) (live_packages a) (store a) \<and>
     fleet_ok (store a) (fleet a)"

lemma app_okD:
  assumes "app_ok a"
  shows "keyed (\<lambda>r. route_id (routes (store a) r)) (route_repo a)"
    "keyed (\<lambda>p. package_id (packages (store a) p)) (package_repo a)"
    "customers_ok (store a) (customer_dir a)"
    "world_ok (live_routes a) (live_packages a) (set (fleet a)) (store a)"
    "owners_ok (live_customers a) (live_packages a) (store a)"
    "fleet_ok (store a) (fleet a)"
  using assms by (simp_all add: app_ok_def)

lemma refsI: "repo_get i s = Some r \<Longrightarrow> r \<in> refs s"
  by (auto simp: refs_def)

lemma keyed_get: "keyed id_of s \<Longrightarrow> r \<in> refs s \<Longrightarrow> repo_get (id_of r) s = Some r"
  by (auto simp: keyed_def refs_def)

lemma live_list_all:
  assumes "app_ok a"
  shows "set (repo_list_all (route_repo a)) = live_routes a"
    "set (repo_list_all (package_repo a)) = live_packages a"
  using app_okD(1,2) [OF assms] by (simp_all add: keyed_def refs_def package_store.set_list_all)

text \<open>The invariant does not look at the identity, the scope or the events outside a scope.\<close>

lemma app_ok_outside [simp]:
  "app_ok (a\<lparr>identity := x\<rparr>) = app_ok a" "app_ok (a\<lparr>scope := y\<rparr>) = app_ok a"
  "app_ok (a\<lparr>unscoped_events := z\<rparr>) = app_ok a"
  by (simp_all add: app_ok_def)

lemma app_ok_record [simp]:
  "app_ok (record_application_event e a) = app_ok a" "app_ok (track_domain_recorder r a) = app_ok a"
  by (simp_all add: record_application_event_def track_domain_recorder_def split: option.split)

lemma record_fields [simp]:
  "store (record_application_event e a) = store a" "store (track_domain_recorder r a) = store a"
  "route_repo (record_application_event e a) = route_repo a"
  "package_repo (record_application_event e a) = package_repo a"
  "customer_dir (record_application_event e a) = customer_dir a"
  "fleet (record_application_event e a) = fleet a"
  "identity (record_application_event e a) = identity a"
  "route_repo (track_domain_recorder r a) = route_repo a"
  "package_repo (track_domain_recorder r a) = package_repo a"
  "customer_dir (track_domain_recorder r a) = customer_dir a"
  "fleet (track_domain_recorder r a) = fleet a"
  "identity (track_domain_recorder r a) = identity a"
  by (simp_all add: record_application_event_def track_domain_recorder_def split: option.split)

section \<open>Changes on the object store\<close>

text \<open>What every operation of an entity leaves alone.\<close>

definition same_identity :: "heap \<Rightarrow> heap \<Rightarrow> bool" where
  "same_identity h h' \<longleftrightarrow>
     (\<forall>r. route_id (routes h' r) = route_id (routes h r)) \<and>
     (\<forall>p. package_id (packages h' p) = package_id (packages h p) \<and>
        pkg_customer (packages h' p) = pkg_customer (packages h p)) \<and>
     (\<forall>t. vehicle_id (trucks h' t) = vehicle_id (trucks h t)) \<and>
     customers h' = customers h \<and> next_ref h' = next_ref h"

lemma same_identity_refl [simp]: "same_identity h h"
  by (simp add: same_identity_def)

lemma same_identity_trans: "same_identity h h1 \<Longrightarrow> same_identity h1 h2 \<Longrightarrow> same_identity h h2"
  by (simp add: same_identity_def)

lemma index_ok_cong:
  assumes "\<And>c. c \<in> refs ids \<Longrightarrow> f c = g c"
  shows "index_ok f ids m = index_ok g ids m"
proof -
  have "repo_get i ids = Some c \<Longrightarrow> f c = g c" for i c using assms refsI by blast
  then show ?thesis unfolding index_ok_def by metis
qed

lemma customers_ok_cong:
  assumes "\<And>c. c \<in> refs (customers_by_id s) \<Longrightarrow> customer_id (customers h' c) = customer_id (customers h c)"
    and "\<And>c. c \<in> refs (customers_by_id s) \<Longrightarrow> contact (customers h' c) = contact (customers h c)"
  shows "customers_ok h' s = customers_ok h s"
proof -
  have "index_ok (customer_email h') (customers_by_id s) m = index_ok (customer_email h) (customers_by_id s) m"
    "index_ok (customer_phone h') (customers_by_id s) m = index_ok (customer_phone h) (customers_by_id s) m" for m
    using assms(2) by (auto simp: customer_email_def customer_phone_def intro!: index_ok_cong)
  moreover have "(\<forall>i c. repo_get i (customers_by_id s) = Some c \<longrightarrow> customer_id (customers h' c) = i) \<longleftrightarrow>
      (\<forall>i c. repo_get i (customers_by_id s) = Some c \<longrightarrow> customer_id (customers h c) = i)"
    using assms(1) refsI by metis
  ultimately show ?thesis by (simp add: customers_ok_def)
qed

lemma world_ok_cong:
  assumes w: "world_ok R P T h" and same: "routes h' = routes h" "packages h' = packages h" "trucks h' = trucks h"
    and "next_ref h \<le> next_ref h'"
  shows "world_ok R P T h'"
proof -
  note wD = world_okD [OF w]
  have "route_links_ok P T h' r" if "r \<in> R" for r
    by (rule route_links_frame [OF wD(1) [OF that]]) (simp_all add: same)
  moreover have "package_links_ok R h' p" if "p \<in> P" for p
    by (rule package_links_frame [OF wD(2) [OF that]]) (simp_all add: same)
  moreover have "truck_links_ok R h' t" if "t \<in> T" for t
    by (rule truck_links_frame [OF wD(3) [OF that]]) (simp_all add: same)
  ultimately show ?thesis
    using wD(4-7) assms(5) unfolding world_ok_def same by (meson order.strict_trans2)
qed

lemma app_ok_store:
  assumes ok: "app_ok a" and same: "same_identity (store a) h'"
    and w: "world_ok (live_routes a) (live_packages a) (set (fleet a)) h'"
  shows "app_ok (a\<lparr>store := h'\<rparr>)"
proof -
  note s = same [unfolded same_identity_def]
  have "customers_ok h' (customer_dir a)"
    using app_okD(3) [OF ok] s customers_ok_cong [of "customer_dir a" h' "store a"] by simp
  moreover have "owners_ok (live_customers a) (live_packages a) h'"
    using app_okD(5) [OF ok] s by (simp add: owners_ok_def)
  ultimately show ?thesis
    using app_okD(1,2,6) [OF ok] s w by (simp add: app_ok_def fleet_ok_def)
qed

text \<open>An action on the store, run by a use case.\<close>

lemma app_ok_on_store:
  assumes "app_ok a" and "same_identity (store a) (snd (m (store a)))"
    and "world_ok (live_routes a) (live_packages a) (set (fleet a)) (snd (m (store a)))"
  shows "app_ok (snd (on_store m a))"
  using app_ok_store [OF assms] by (cases "m (store a)") (simp add: on_store_def)

section \<open>New routes, packages and customers\<close>

lemma keyed_add:
  assumes "keyed id_of s" and "repo_add (id_of r) r s = Inr s'"
  shows "keyed id_of s'" "refs s' = insert r (refs s)" "q \<in> refs s \<Longrightarrow> id_of q \<noteq> id_of r"
proof -
  have ok: "repo_ok s" using assms(1) by (simp add: keyed_def)
  note add = repo_add_ok [OF ok assms(2)]
  have new: "repo_get (id_of r) s = None"
    using assms(2) by (simp add: repo_add_def repo_get_def split: if_splits)
  show "keyed id_of s'" using assms(1) add by (auto simp: keyed_def)
  show "refs s' = insert r (refs s)"
    using add new unfolding refs_def set_eq_iff mem_Collect_eq insert_iff
    by (metis option.distinct(1) option.inject)
  show "q \<in> refs s \<Longrightarrow> id_of q \<noteq> id_of r"
    using keyed_get [OF assms(1), of q] new by auto
qed

lemma keyed_remove:
  assumes "keyed id_of s"
  shows "keyed id_of (repo_remove i s)" "refs (repo_remove i s) = {r \<in> refs s. id_of r \<noteq> i}"
proof -
  have ok: "repo_ok s" using assms(1) by (simp add: keyed_def)
  note rem = repo_remove_ok [OF ok, of i]
  show "keyed id_of (repo_remove i s)" using assms rem by (simp add: keyed_def)
  show "refs (repo_remove i s) = {r \<in> refs s. id_of r \<noteq> i}"
    using rem keyed_get [OF assms] assms by (auto simp: refs_def keyed_def)
qed

lemma repo_add_free: "repo_get i s = None \<Longrightarrow> \<exists>s'. repo_add i r s = Inr s' \<and> repo_get i s' = Some r"
  by (simp add: repo_add_def repo_get_def map_of_snoc del: map_of_append)

lemma keyed_cong:
  assumes "\<And>r. r \<in> refs s \<Longrightarrow> f r = g r"
  shows "keyed f s = keyed g s"
proof -
  have "repo_get i s = Some r \<Longrightarrow> f r = g r" for i r using assms refsI by blast
  then show ?thesis unfolding keyed_def by metis
qed

lemma app_ok_add_route:
  assumes ok: "app_ok a" and run: "on_store (route_create locs dep (PyInt i) wall) a = (Inr r, b)"
    and add: "route_repo_add (store b) r (route_repo b) = Inr s"
  shows "app_ok (b\<lparr>route_repo := s\<rparr>)"
proof -
  let ?h = "store a"
  from run obtain x e where x: "route_init locs dep (PyInt i) = Inr x"
    and r: "r = next_ref ?h" and b: "b = a\<lparr>store := record_route_event r e
        (?h\<lparr>routes := (routes ?h)(r := x), next_ref := Suc r\<rparr>)\<rparr>"
    by (auto simp: on_store_def route_create_def Let_def split: sum.splits)
  let ?x = "x\<lparr>route_events := route_events x @ [e]\<rparr>"
  have h: "routes (store b) = (routes ?h)(next_ref ?h := ?x)" "packages (store b) = packages ?h"
    "trucks (store b) = trucks ?h" "customers (store b) = customers ?h" "next_ref (store b) = Suc (next_ref ?h)"
    using b r by auto
  note w = app_okD(4) [OF ok]
  have old: "q \<noteq> r" if "q \<in> live_routes a" for q using world_okD(6) [OF w that] r by auto
  have k: "keyed (\<lambda>q. route_id (routes (store b) q)) (route_repo a)"
    by (rule keyed_cong [THEN iffD2, OF _ app_okD(1) [OF ok]]) (use old in \<open>simp add: h r\<close>)
  have "repo_add (route_id (routes (store b) r)) r (route_repo a) = Inr s"
    using add b by (simp add: route_repo_add_def)
  note new = keyed_add [where id_of = "\<lambda>q. route_id (routes (store b) q)", OF k this]
  have "world_ok (insert (next_ref ?h) (live_routes a)) (live_packages a) (set (fleet a)) (store b)"
  proof (rule world_new_route [OF w])
    note i = route_init_ok [OF x]
    have "route_ok ?x = route_ok x" by (rule route_ok_cong) simp_all
    then show "route_ok ?x" using i(1) by simp
    show "schedule ?x = None \<longleftrightarrow> route_status ?x = PLANNED"
      using i(2,5) by (auto simp: departure_time_def split: option.splits)
    show "route_id (routes ?h q) \<noteq> route_id ?x" if "q \<in> live_routes a" for q
      using new(3) [OF that] old [OF that] by (simp add: h r)
  qed (use route_init_ok [OF x] in \<open>simp_all add: h\<close>)
  moreover have "package_repo b = package_repo a" "customer_dir b = customer_dir a" "fleet b = fleet a"
    using b by simp_all
  moreover have "owners_ok (live_customers a) (live_packages a) (store b)"
    using app_okD(5) [OF ok] by (auto simp: owners_ok_def h)
  ultimately show ?thesis
    using app_okD [OF ok] new(1,2) customers_ok_cong [of "customer_dir a" "store b" ?h] r
    by (simp add: app_ok_def h fleet_ok_def)
qed

text \<open>A created package and its entry in the collection of its customer are one change.\<close>

lemma app_ok_add_package:
  assumes ok: "app_ok a" and c: "c \<in> live_customers a" and weight: "pyval_ok weight"
    and run: "on_store (package_create start end_loc weight c (PyInt i) wall) a = (Inr p, b)"
    and add: "package_repo_add (store b) p (package_repo b) = Inr s"
  shows "\<exists>h. customer_add_package c p (store b) = (Inr (), h) \<and>
    app_ok (b\<lparr>package_repo := s, store := h\<rparr>)"
proof -
  let ?h = "store a"
  from run obtain x e where x: "package_init start end_loc weight c (PyInt i) PyNone = Inr x"
    and p: "p = next_ref ?h" and b: "b = a\<lparr>store := record_package_event p e
        (?h\<lparr>packages := (packages ?h)(p := x), next_ref := Suc p\<rparr>)\<rparr>"
    by (auto simp: on_store_def package_create_def Let_def split: sum.splits)
  let ?x = "x\<lparr>pkg_events := pkg_events x @ [e]\<rparr>"
  have h: "packages (store b) = (packages ?h)(next_ref ?h := ?x)" "routes (store b) = routes ?h"
    "trucks (store b) = trucks ?h" "customers (store b) = customers ?h" "next_ref (store b) = Suc (next_ref ?h)"
    using b p by auto
  note w = app_okD(4) [OF ok] and own = app_okD(5) [OF ok, unfolded owners_ok_def]
  have old: "q \<noteq> p" if "q \<in> live_packages a" for q using world_okD(7) [OF w that] p by auto
  have k: "keyed (\<lambda>q. package_id (packages (store b) q)) (package_repo a)"
    by (rule keyed_cong [THEN iffD2, OF _ app_okD(2) [OF ok]]) (use old in \<open>simp add: h p\<close>)
  have "repo_add (package_id (packages (store b) p)) p (package_repo a) = Inr s"
    using add b by (simp add: package_repo_add_def)
  note new = keyed_add [where id_of = "\<lambda>q. package_id (packages (store b) q)", OF k this]
  note ix = package_init_ok [OF x weight]
  have w': "world_ok (live_routes a) (insert (next_ref ?h) (live_packages a)) (set (fleet a)) (store b)"
  proof (rule world_new_package [OF w])
    show "package_ok ?x" using ix(1) by (simp add: package_ok_def)
    show "package_id (packages ?h q) \<noteq> package_id ?x" if "q \<in> live_packages a" for q
      using new(3) [OF that] old [OF that] by (simp add: h p)
    show "pkg_route_id ?x = None" "pkg_expected_arrival ?x = None"
      using x by (auto simp: package_init_def res_bind_Inr_iff domain_require_optional_positive_int_def
          as_domain_error_def require_optional_positive_int_def)
    show "current_location ?x = pkg_start ?x"
      using ix(2) by (cases "pkg_location_field x") (simp_all add: current_location_def)
  qed (use ix in \<open>simp_all add: h\<close>)
  have mine: "pkg_customer (packages (store b) p) = c" using ix(6) by (simp add: h p)
  have fresh: "p \<notin> set (delivery_packages (customers ?h c))" using own c old by auto
  let ?h' = "customer_link c p (store b)"
  have run': "customer_add_package c p (store b) = (Inr (), ?h')"
    using mine fresh by (simp add: customer_add_package_def h)
  have h': "routes ?h' = routes ?h" "trucks ?h' = trucks ?h" "next_ref ?h' = Suc (next_ref ?h)"
    "packages ?h' = packages (store b)"
    "customers ?h' = (customers ?h)(c := (customers ?h c)\<lparr>delivery_packages := delivery_packages (customers ?h c) @ [p]\<rparr>)"
    using mine by (auto simp: customer_link_def h fun_eq_iff)
  have "world_ok (live_routes a) (insert (next_ref ?h) (live_packages a)) (set (fleet a)) ?h'"
    by (rule world_ok_cong [OF w']) (simp_all add: h' h)
  moreover have "owners_ok (live_customers a) (insert p (live_packages a)) ?h'"
  proof -
    have pk: "packages (store b) q = packages ?h q" if "q \<in> live_packages a" for q
      using old [OF that] by (simp add: h p)
    have "p \<notin> live_packages a" using old by blast
    then show ?thesis
      using own c mine fresh h'(3) p [symmetric] by (auto simp: owners_ok_def h'(4,5) pk)
  qed
  moreover have "customers_ok ?h' (customer_dir a)"
    using app_okD(3) [OF ok] customers_ok_cong [of "customer_dir a" ?h' ?h] by (simp add: h')
  moreover have "keyed (\<lambda>q. package_id (packages ?h' q)) s" using new(1) by (simp add: h')
  moreover have "b\<lparr>package_repo := s, store := ?h'\<rparr> = a\<lparr>package_repo := s, store := ?h'\<rparr>" using b by simp
  ultimately have "app_ok (b\<lparr>package_repo := s, store := ?h'\<rparr>)"
    using app_okD [OF ok] new(2) by (simp add: app_ok_def h'(1,2) fleet_ok_def p [symmetric])
  with run' show ?thesis by blast
qed

lemma app_ok_add_customer:
  assumes ok: "app_ok a" and info: "contact_ok info"
    and run: "on_store (customer_create info (PyInt i) wall) a = (Inr c, b)"
    and add: "customer_repo_add (store b) c (customer_dir b) = Inr s"
  shows "app_ok (b\<lparr>customer_dir := s\<rparr>) \<and> c \<in> refs (customers_by_id s)"
proof -
  let ?h = "store a"
  from run obtain e where c: "c = next_ref ?h"
    and b: "b = a\<lparr>store := record_customer_event c e (?h\<lparr>customers := (customers ?h)(c :=
        \<lparr>customer_id = i, contact = info, delivery_packages = [], cust_events = []\<rparr>), next_ref := Suc c\<rparr>)\<rparr>"
    by (auto simp: on_store_def customer_create_def customer_init_def Let_def res_bind_Inr_iff
        domain_require_positive_int_iff split: sum.splits)
  let ?x = "\<lparr>customer_id = i, contact = info, delivery_packages = [], cust_events = [e]\<rparr>"
  have h: "customers (store b) = (customers ?h)(next_ref ?h := ?x)" "packages (store b) = packages ?h"
    "routes (store b) = routes ?h" "trucks (store b) = trucks ?h" "next_ref (store b) = Suc (next_ref ?h)"
    using b c by auto
  note own = app_okD(5) [OF ok, unfolded owners_ok_def]
  have old: "d \<noteq> next_ref ?h" if "d \<in> live_customers a" for d using own that by blast
  have "customers_ok (store b) (customer_dir a)"
    using app_okD(3) [OF ok] old customers_ok_cong [of "customer_dir a" "store b" ?h] by (simp add: h)
  then have cb: "customers_ok (store b) (customer_dir b)" using b by simp
  note new = customer_repo_add_ok [OF cb add]
  have free: "repo_get (customer_id (customers (store b) c)) (customers_by_id (customer_dir b)) = None"
    using add by (auto simp: customer_repo_add_def Let_def split: if_splits)
  have refs: "refs (customers_by_id s) = insert c (live_customers a)"
    using new(2) free b unfolding refs_def set_eq_iff mem_Collect_eq insert_iff
    by (metis (no_types, lifting) app.ext_inject app.surjective app.update_convs(1) option.distinct(1) option.inject)
  have "owners_ok (insert c (live_customers a)) (live_packages a) (store b)"
    using own old info c by (auto simp: owners_ok_def h)
  moreover have "world_ok (live_routes a) (live_packages a) (set (fleet a)) (store b)"
    by (rule world_ok_cong [OF app_okD(4) [OF ok]]) (simp_all add: h)
  moreover have "route_repo b = route_repo a" "package_repo b = package_repo a" "fleet b = fleet a"
    using b by simp_all
  ultimately show ?thesis
    using app_okD [OF ok] new(1) refs by (simp add: app_ok_def h fleet_ok_def)
qed

end
