(* ===== verification/Resolution.thy ===== *)
theory Resolution
  imports AppInvariant
begin

text \<open>
  How a package request finds or creates its customer (\<open>customer_service.py\<close> and the first half of
  \<open>create_package.py\<close>): the addresses as the lookup normalises them and as a contact keeps them are
  the same text, so that a customer is never registered twice under one address and the same request
  finds the same customer again.
\<close>

section \<open>One normal form for addresses\<close>

lemma filter_dropWhile: "(\<And>x. Q x \<Longrightarrow> \<not> P x) \<Longrightarrow> filter P (dropWhile Q xs) = filter P xs"
  by (induction xs) auto

lemma filter_digit_strip: "filter is_digit (strip s) = filter is_digit s"
proof -
  have "\<not> is_digit c" if "is_space c" for c using that by (auto simp: is_space_def is_digit_def)
  then have "filter is_digit (lstrip t) = filter is_digit t" for t
    unfolding lstrip_def by (rule filter_dropWhile)
  then show ?thesis by (simp add: strip_def rev_filter [symmetric])
qed

lemma clean_phone_digits: "clean_phone (PyStr s) = Inr p \<Longrightarrow> p = filter is_digit s"
proof -
  assume *: "clean_phone (PyStr s) = Inr p"
  show ?thesis
  proof (cases "s = []")
    case True
    then show ?thesis using * by (simp add: clean_phone_def truthy_def)
  next
    case False
    then have "p = strip s" "isdigit (strip s)"
      using * by (auto simp: clean_phone_def truthy_def Let_def split: if_splits)
    then have "filter is_digit (strip s) = p" by (auto simp: isdigit_def list_all_iff)
    then show ?thesis by (simp add: filter_digit_strip)
  qed
qed

lemma clean_email_lower: "clean_email (PyStr s) = Inr e \<Longrightarrow> e = lower (strip s)"
  by (auto simp: clean_email_def Let_def lower_def split: if_splits)

lemma clean_name_strip: "clean_name (PyStr s) = Inr n \<Longrightarrow> n = strip s"
  by (auto simp: clean_name_def Let_def split: if_splits)

lemma contact_of_request:
  assumes "contact_info_create (PyStr name) (PyStr email) (PyStr phone) = Inr info"
  shows "info = \<lparr>ci_name = strip name, ci_email = lower (strip email), ci_phone = filter is_digit phone\<rparr>"
  using assms clean_name_strip [of name] clean_email_lower [of email] clean_phone_digits [of phone]
  unfolding contact_info_create_iff by (cases info) simp

section \<open>Looking a customer up\<close>

abbreviation wanted_email :: "string \<Rightarrow> string" where
  "wanted_email raw \<equiv> lower (strip raw)"

abbreviation wanted_phone :: "string \<Rightarrow> string" where
  "wanted_phone raw \<equiv> filter is_digit raw"

definition looked_up :: "(cref \<Rightarrow> string) \<Rightarrow> customer_repo \<Rightarrow> (string \<rightharpoonup> int) \<Rightarrow> string \<Rightarrow> cref option \<Rightarrow> bool" where
  "looked_up key s m k found \<longleftrightarrow>
     (found = None \<longrightarrow> m k = None) \<and>
     (\<forall>c. found = Some c \<longrightarrow> c \<in> refs (customers_by_id s) \<and> key c = k)"

lemma lookup_cases:
  assumes "index_ok key (customers_by_id s) m" and "k \<noteq> []"
  shows "\<exists>found. customer_at (m k) s = Inr found \<and> looked_up key s m k found"
proof (cases "m k")
  case None
  then show ?thesis by (simp add: customer_at_def looked_up_def)
next
  case (Some i)
  then obtain c where "repo_get i (customers_by_id s) = Some c" "key c = k"
    using index_iff [OF assms(1), of k i] by auto
  then show ?thesis using Some by (auto simp: customer_at_def looked_up_def intro: refsI)
qed

lemma lookup_email:
  assumes "customers_ok h s" and "email \<noteq> []"
  shows "\<exists>x. get_by_email email s = Inr x \<and> looked_up (customer_email h) s (id_by_email s) email x"
  using lookup_cases [of "customer_email h" s "id_by_email s"] assms
  by (simp add: get_by_email_def customers_ok_def)

lemma lookup_phone:
  assumes "customers_ok h s" and "phone \<noteq> []"
  shows "\<exists>x. get_by_phone phone s = Inr x \<and> looked_up (customer_phone h) s (id_by_phone s) phone x"
  using lookup_cases [of "customer_phone h" s "id_by_phone s"] assms
  by (simp add: get_by_phone_def customers_ok_def)

lemma name_only_live:
  assumes "customers_ok h s" and "resolve_name_only h s name email phone = Some c"
  shows "c \<in> refs (customers_by_id s)"
proof -
  have "set (list_by_name h name s) \<subseteq> refs (customers_by_id s)"
    using assms(1) by (auto simp: list_by_name_def customer_list_all_def customers_ok_def refs_def
        package_store.set_list_all)
  moreover have "c \<in> set (list_by_name h name s)"
    using assms(2) by (auto simp: resolve_name_only_def Let_def length_Suc_conv split: if_splits
        dest!: filter_eq_ConsD)
  ultimately show ?thesis by blast
qed

lemma both_live:
  assumes "resolve_email_and_phone h name by_email by_phone = Inr (Some c)"
  shows "by_email = Some c \<or> by_phone = Some c"
  using assms by (auto simp: resolve_email_and_phone_def split: option.splits if_splits)

lemma both_cases:
  "(\<exists>m. resolve_email_and_phone h name by_email by_phone = Inl (ConflictError m)) \<or>
   (\<exists>c. resolve_email_and_phone h name by_email by_phone = Inr (Some c)) \<or>
   resolve_email_and_phone h name by_email by_phone = Inr None \<and> by_email = None \<and> by_phone = None"
  by (auto simp: resolve_email_and_phone_def split: option.splits)

lemma ensure_cases: "ensure_name_matches h name c = Inr () \<or> (\<exists>m. ensure_name_matches h name c = Inl (ConflictError m))"
  by (simp add: ensure_name_matches_def)

lemma find_existing_cases:
  assumes ok: "customers_ok h s"
  shows "case find_existing_customer h s name email phone of
      Inl err \<Rightarrow> \<exists>m. err = ConflictError m
    | Inr (Some c) \<Rightarrow> c \<in> refs (customers_by_id s)
    | Inr None \<Rightarrow>
        (wanted_email email \<noteq> [] \<longrightarrow> id_by_email s (wanted_email email) = None) \<and>
        (wanted_phone phone \<noteq> [] \<longrightarrow> id_by_phone s (wanted_phone phone) = None)"
proof -
  note find = find_existing_customer_def [of h s name email phone, unfolded Let_def]
  let ?e = "wanted_email email" and ?p = "wanted_phone phone" and ?n = "strip name"
  consider (neither) "?e = []" "?p = []" | (email) "?e \<noteq> []" "?p = []" | (phone) "?e = []" "?p \<noteq> []"
    | (both) "?e \<noteq> []" "?p \<noteq> []" by blast
  then show ?thesis
  proof cases
    case neither
    then show ?thesis
      unfolding find by (cases "resolve_name_only h s ?n ?e ?p") (simp_all add: name_only_live [OF ok])
  next
    case email
    obtain x where x: "get_by_email ?e s = Inr x" "looked_up (customer_email h) s (id_by_email s) ?e x"
      using lookup_email [OF ok email(1)] by blast
    show ?thesis
    proof (cases x)
      case None
      then show ?thesis using x email unfolding find by (simp add: resolve_name_only_def looked_up_def)
    next
      case (Some c)
      then show ?thesis using x email ensure_cases [of h ?n c] unfolding find by (auto simp: looked_up_def)
    qed
  next
    case phone
    obtain x where x: "get_by_phone ?p s = Inr x" "looked_up (customer_phone h) s (id_by_phone s) ?p x"
      using lookup_phone [OF ok phone(2)] by blast
    show ?thesis
    proof (cases x)
      case None
      then show ?thesis using x phone unfolding find by (simp add: resolve_name_only_def looked_up_def)
    next
      case (Some c)
      then show ?thesis using x phone ensure_cases [of h ?n c] unfolding find by (auto simp: looked_up_def)
    qed
  next
    case both
    obtain x y where x: "get_by_email ?e s = Inr x" "looked_up (customer_email h) s (id_by_email s) ?e x"
      and y: "get_by_phone ?p s = Inr y" "looked_up (customer_phone h) s (id_by_phone s) ?p y"
      using lookup_email [OF ok both(1)] lookup_phone [OF ok both(2)] by blast
    have "find_existing_customer h s name email phone = resolve_email_and_phone h ?n x y"
      using both x(1) y(1) by (simp add: find)
    then show ?thesis
      using both_cases [of h ?n x y] both_live [of h ?n x y] x(2) y(2) by (auto simp: looked_up_def)
  qed
qed

section \<open>Creating a customer\<close>

lemma customer_service_create_cases:
  assumes ok: "app_ok a"
    and free: "wanted_email email \<noteq> [] \<longrightarrow> id_by_email (customer_dir a) (wanted_email email) = None"
      "wanted_phone phone \<noteq> [] \<longrightarrow> id_by_phone (customer_dir a) (wanted_phone phone) = None"
    and run: "customer_service_create name email phone clock a = (res, b)"
  shows "case res of
      Inl err \<Rightarrow> err = DomainValidationError \<and> b = a \<and>
        (\<exists>x. contact_info_create (PyStr name) (PyStr email) (PyStr phone) = Inl x)
    | Inr c \<Rightarrow> app_ok b \<and> c \<in> live_customers b \<and> c \<notin> live_customers a \<and>
        delivery_packages (customers (store b) c) = [] \<and>
        contact (customers (store b) c) = \<lparr>ci_name = strip name, ci_email = wanted_email email,
          ci_phone = wanted_phone phone\<rparr>"
proof (cases "contact_info_create (PyStr name) (PyStr email) (PyStr phone)")
  case (Inl err)
  then have "err = DomainValidationError"
    by (auto simp: contact_info_create_def contact_setattr_def contact_post_init_def res_bind_Inl_iff
        dest: clean_Inl)
  then show ?thesis using run Inl by (auto simp: customer_service_create_def act_bind_def)
next
  case (Inr info)
  have info: "info = \<lparr>ci_name = strip name, ci_email = wanted_email email, ci_phone = wanted_phone phone\<rparr>"
    by (rule contact_of_request [OF Inr])
  let ?i = "repo_next_id (customers_by_id (customer_dir a))"
  have "1 \<le> ?i" using app_okD(3) [OF ok] by (auto simp: customers_ok_def repo_ok_def)
  then have pos: "domain_require_positive_int (PyInt ?i) = Inr ?i"
    by (simp add: domain_require_positive_int_iff)
  obtain c b1 where create: "on_store (customer_create info (PyInt ?i) clock) a = (Inr c, b1)"
    and c: "customers (store b1) c = \<lparr>customer_id = ?i, contact = info, delivery_packages = [],
       cust_events = [CustomerCreated ?i clock]\<rparr>" and dir: "customer_dir b1 = customer_dir a"
    and new: "c = next_ref (store a)"
    by (simp add: on_store_def customer_create_def customer_init_def pos Let_def)
  have none: "repo_get ?i (customers_by_id (customer_dir a)) = None"
    using app_okD(3) [OF ok] by (intro repo_free) (auto simp: customers_ok_def)
  obtain s where add: "customer_repo_add (store b1) c (customer_dir b1) = Inr s"
    using none free info c dir repo_add_free [OF none, of c]
    by (auto simp: customer_repo_add_def Let_def customer_email_def customer_phone_def index_conflict_def)
  have "res = Inr c" "b = b1\<lparr>customer_dir := s\<rparr>"
    using run Inr create add by (auto simp: customer_service_create_def customer_repo_create_def act_bind_def)
  moreover have "c \<notin> live_customers a" using app_okD(5) [OF ok] new by (auto simp: owners_ok_def)
  ultimately show ?thesis
    using app_ok_add_customer [OF ok contact_info_create_ok [OF Inr] create add] c info by simp
qed

lemma resolve_customer_cases:
  assumes ok: "app_ok a" and run: "resolve_customer name email phone clock a = (res, b)"
  shows "case res of
      Inl err \<Rightarrow> (err = DomainValidationError \<or> (\<exists>m. err = ConflictError m)) \<and> b = a
    | Inr c \<Rightarrow> app_ok b \<and> c \<in> live_customers b"
proof -
  note find = find_existing_cases [OF app_okD(3) [OF ok], where name = name and email = email and phone = phone]
  show ?thesis
  proof (cases "find_existing_customer (store a) (customer_dir a) name email phone")
    case (Inl err)
    then show ?thesis using run find by (auto simp: resolve_customer_def)
  next
    case (Inr found)
    show ?thesis
    proof (cases found)
      case None
      then have "customer_service_create name email phone clock a = (res, b)"
        using run Inr by (simp add: resolve_customer_def)
      from customer_service_create_cases [OF ok _ _ this] show ?thesis
        using find Inr None by (auto split: sum.splits)
    next
      case (Some c)
      then show ?thesis using run find Inr ok by (auto simp: resolve_customer_def)
    qed
  qed
qed

text \<open>The same request finds the same customer again, and changes nothing.\<close>

lemma live_lookup:
  assumes "customers_ok h s" and "c \<in> refs (customers_by_id s)"
  shows "customer_email h c \<noteq> [] \<Longrightarrow> get_by_email (customer_email h c) s = Inr (Some c)"
    "customer_phone h c \<noteq> [] \<Longrightarrow> get_by_phone (customer_phone h c) s = Inr (Some c)"
  using get_by_email_exact [OF assms(1), of "customer_email h c"]
    get_by_phone_exact [OF assms(1), of "customer_phone h c"] assms(2)
  by (auto simp: refs_def customer_get_def)

lemma find_created:
  assumes ok: "customers_ok h s" and c: "c \<in> refs (customers_by_id s)"
    and contact: "contact (customers h c) = \<lparr>ci_name = strip name, ci_email = wanted_email email,
          ci_phone = wanted_phone phone\<rparr>"
    and some: "wanted_email email \<noteq> [] \<or> wanted_phone phone \<noteq> []"
  shows "find_existing_customer h s name email phone = Inr (Some c)"
proof -
  have key: "customer_email h c = wanted_email email" "customer_phone h c = wanted_phone phone"
    and name: "customer_name h c = strip name"
    using contact by (simp_all add: customer_email_def customer_phone_def customer_name_def)
  have same: "same_name (strip name) (customer_name h c)" by (simp add: same_name_def name)
  have "wanted_email email \<noteq> [] \<Longrightarrow> get_by_email (wanted_email email) s = Inr (Some c)"
    "wanted_phone phone \<noteq> [] \<Longrightarrow> get_by_phone (wanted_phone phone) s = Inr (Some c)"
    using live_lookup [OF ok c] key by simp_all
  then show ?thesis
    using some same unfolding find_existing_customer_def Let_def
    by (cases "wanted_email email = []"; cases "wanted_phone phone = []")
      (simp_all add: resolve_email_and_phone_def ensure_name_matches_def)
qed

lemma resolve_customer_stable:
  assumes ok: "app_ok a" and run: "resolve_customer name email phone clock a = (Inr c, b)"
    and some: "wanted_email email \<noteq> [] \<or> wanted_phone phone \<noteq> []"
  shows "resolve_customer name email phone clock' b = (Inr c, b)"
proof -
  note find = find_existing_cases [OF app_okD(3) [OF ok], where name = name and email = email and phone = phone]
  show ?thesis
  proof (cases "find_existing_customer (store a) (customer_dir a) name email phone")
    case (Inl err)
    then show ?thesis using run by (simp add: resolve_customer_def)
  next
    case (Inr found)
    show ?thesis
    proof (cases found)
      case (Some d)
      then have "b = a" "c = d" using run Inr by (simp_all add: resolve_customer_def)
      then show ?thesis using Inr Some by (simp add: resolve_customer_def)
    next
      case None
      then have "customer_service_create name email phone clock a = (Inr c, b)"
        using run Inr by (simp add: resolve_customer_def)
      from customer_service_create_cases [OF ok _ _ this] find Inr None
      have "app_ok b" "c \<in> live_customers b"
        "contact (customers (store b) c) = \<lparr>ci_name = strip name, ci_email = wanted_email email,
          ci_phone = wanted_phone phone\<rparr>"
        by auto
      from find_created [OF app_okD(3) [OF this(1)] this(2,3) some] show ?thesis
        by (simp add: resolve_customer_def)
    qed
  qed
qed

end
