(* ===== verification/Lifecycle.thy ===== *)
theory Lifecycle
  imports Resolution Settling
begin

text \<open>
  Every use case that changes the world keeps the invariant of the application state, whatever it
  returns; the states reachable by any sequence of calls therefore all satisfy it.
\<close>

section \<open>Preservation\<close>

definition preserves :: "'a usecase \<Rightarrow> bool" where
  "preserves m \<longleftrightarrow> (\<forall>a. app_ok a \<longrightarrow> app_ok (snd (m a)))"

lemma preservesI: "(\<And>a. app_ok a \<Longrightarrow> app_ok (snd (m a))) \<Longrightarrow> preserves m"
  by (simp add: preserves_def)

lemma preservesD: "preserves m \<Longrightarrow> app_ok a \<Longrightarrow> app_ok (snd (m a))"
  by (simp add: preserves_def)

lemma preserves_requires_all: "preserves body \<Longrightarrow> preserves (requires_all ps op res rid clock body)"
  by (auto simp: preserves_def requires_all_def record_authorization_denied_def split: option.split)

lemma preserves_requires: "preserves body \<Longrightarrow> preserves (requires p op res rid clock body)"
  unfolding requires_eq by (rule preserves_requires_all)

lemma preserves_bind:
  assumes "preserves m" and "\<And>x. preserves (f x)"
  shows "preserves (act_bind m f)"
  by (rule preservesI, rule act_bind_invariant [where Q = app_ok])
    (auto intro: preservesD [OF assms(1)] preservesD [OF assms(2)])

lemma preserves_act [simp]:
  "preserves (act_return x)" "preserves (act_raise e)" "preserves (act_lift r)"
  "preserves (act_modify (track_domain_recorder q))" "preserves (act_modify id)"
  "preserves (act_modify (record_application_event v))"
  by (simp_all add: preserves_def)

section \<open>Creating routes and packages\<close>

lemma route_repo_create_cases:
  assumes ok: "app_ok a" and run: "route_repo_create locs dep wall a = (res, b)"
  shows "app_ok b \<and> (case res of Inl e \<Rightarrow> b = a | Inr r \<Rightarrow> r \<in> live_routes b)"
proof (cases "on_store (route_create (map PyStr locs) (map_option naive dep)
    (PyInt (repo_next_id (route_repo a))) wall) a")
  case (Pair out b1)
  show ?thesis
  proof (cases out)
    case (Inl e)
    then have "b1 = a" using Pair
      by (auto simp: on_store_def route_create_def Let_def split: sum.splits)
    then show ?thesis using run Pair Inl ok by (auto simp: route_repo_create_def act_bind_def)
  next
    case (Inr r)
    note create = Pair [unfolded Inr]
    have "route_id (routes (store b1) r) = repo_next_id (route_repo b1)"
      using create route_init_ok(7)
      by (fastforce simp: on_store_def route_create_def Let_def split: sum.splits)
    moreover have "repo_get (repo_next_id (route_repo b1)) (route_repo b1) = None"
      using app_okD(1) [OF ok] create repo_free [of "route_repo a"]
      by (auto simp: keyed_def on_store_def split: prod.splits)
    ultimately obtain s where s: "route_repo_add (store b1) r (route_repo b1) = Inr s"
      "repo_get (repo_next_id (route_repo b1)) s = Some r"
      using repo_add_free [of "repo_next_id (route_repo b1)" "route_repo b1" r]
      by (auto simp: route_repo_add_def)
    then have "b = b1\<lparr>route_repo := s\<rparr>" "res = Inr r"
      using run create by (auto simp: route_repo_create_def act_bind_def)
    with app_ok_add_route [OF ok create s(1)] s(2) show ?thesis by (auto intro: refsI)
  qed
qed

lemma preserves_create_route: "preserves (create_route locs dep clock)"
proof -
  have "preserves (route_repo_create locs dep clock)"
    by (rule preservesI) (metis route_repo_create_cases prod.collapse)
  then show ?thesis
    unfolding create_route_def by (intro preserves_requires preserves_bind) simp_all
qed

lemma package_repo_create_cases:
  assumes ok: "app_ok a" and c: "c \<in> live_customers a" and weight: "pyval_ok weight"
    and run: "package_repo_create start end_loc weight c wall a = (res, b)"
  shows "case res of
      Inl err \<Rightarrow> err = DomainValidationError \<and> b = a
    | Inr p \<Rightarrow> \<exists>h. customer_add_package c p (store b) = (Inr (), h) \<and> app_ok (b\<lparr>store := h\<rparr>) \<and>
        p \<in> live_packages b"
proof (cases "on_store (package_create (PyStr start) (PyStr end_loc) weight c
    (PyInt (repo_next_id (package_repo a))) wall) a")
  case (Pair out b1)
  show ?thesis
  proof (cases out)
    case (Inl e)
    then have "b1 = a" "e = DomainValidationError" using Pair
      by (auto simp: on_store_def package_create_def Let_def dest: package_init_Inl split: sum.splits)
    then show ?thesis using run Pair Inl by (auto simp: package_repo_create_def act_bind_def)
  next
    case (Inr p)
    note create = Pair [unfolded Inr]
    have "package_id (packages (store b1) p) = repo_next_id (package_repo b1)"
      using create
      by (auto simp: on_store_def package_create_def package_init_def domain_require_positive_int_iff
          res_bind_Inr_iff Let_def split: sum.splits)
    moreover have "repo_get (repo_next_id (package_repo b1)) (package_repo b1) = None"
      using app_okD(2) [OF ok] create repo_free [of "package_repo a"]
      by (auto simp: keyed_def on_store_def split: prod.splits)
    ultimately obtain s where s: "package_repo_add (store b1) p (package_repo b1) = Inr s"
      "repo_get (repo_next_id (package_repo b1)) s = Some p"
      using repo_add_free [of "repo_next_id (package_repo b1)" "package_repo b1" p]
      by (auto simp: package_repo_add_def)
    then have "b = b1\<lparr>package_repo := s\<rparr>" "res = Inr p"
      using run create by (auto simp: package_repo_create_def act_bind_def)
    with app_ok_add_package [OF ok c weight create s(1)] s(2) show ?thesis by (auto intro: refsI)
  qed
qed

lemma location_code_Inl: "location_code v = Inl e \<Longrightarrow> e = DomainValidationError"
  by (auto simp: location_code_def Let_def split: pyval.splits if_splits)

lemma preserves_create_package:
  assumes weight: "pyval_ok weight"
  shows "preserves (create_package start end_loc weight name email phone clock)"
proof -
  have body: "preserves (\<lambda>a. act_bind (resolve_customer name email phone clock) (\<lambda>c.
        act_bind (package_repo_create s e weight c clock) (\<lambda>p.
        act_bind (on_store (customer_add_package c p)) (\<lambda>_.
        act_bind (act_modify (track_domain_recorder (PackageRec p))) (\<lambda>_.
        act_bind (act_modify (track_domain_recorder (CustomerRec c))) (\<lambda>_. act_return p))))) a)" (is "preserves (?m s e)") for s e
  proof (rule preservesI)
    fix a assume ok: "app_ok a"
    obtain res b where r: "resolve_customer name email phone clock a = (res, b)" by fastforce
    note rc = resolve_customer_cases [OF ok r]
    show "app_ok (snd (?m s e a))"
    proof (cases res)
      case (Inl err)
      then show ?thesis using r rc ok by (simp add: act_bind_def)
    next
      case (Inr c)
      obtain out b2 where p: "package_repo_create s e weight c clock b = (out, b2)" by fastforce
      have okb: "app_ok b" and live: "c \<in> live_customers b" using rc Inr by simp_all
      from package_repo_create_cases [OF okb live weight p] r p Inr okb show ?thesis
        by (cases out) (auto simp: act_bind_def on_store_def)
    qed
  qed
  show ?thesis
    unfolding create_package_def
    by (rule preserves_requires, rule preserves_bind, rule preserves_act,
        rule preserves_bind, rule preserves_act, rule body [simplified])
qed

section \<open>Assigning packages\<close>

lemma same_identity_effects [simp]:
  "same_identity h (assigned r p eta e h)" "same_identity h (detached r p e h)"
  "same_identity h (scheduled r s e h)" "same_identity h (truck_linked r t e h)"
  "same_identity h (truck_unlinked r t e h)"
  by (auto simp: same_identity_def assigned_store detached_store scheduled_store truck_linked_store
      truck_unlinked_store)

lemma route_frame_assigned: "route_frame (routes h q) (routes (assigned r p eta e h) q)"
  by (simp add: assigned_store route_frame_def)

text \<open>A change of the store alone, by a use case.\<close>

definition store_step :: "app \<Rightarrow> app \<Rightarrow> bool" where
  "store_step a b \<longleftrightarrow> app_ok b \<and> b = a\<lparr>store := store b\<rparr>"

lemma store_step_refl: "app_ok a \<Longrightarrow> store_step a a"
  by (simp add: store_step_def)

lemma store_step_trans: "store_step a b \<Longrightarrow> store_step b c \<Longrightarrow> store_step a c"
  unfolding store_step_def by (metis app.update_convs(1) app.surjective app.select_convs(1))

lemma store_stepD:
  assumes "store_step a b"
  shows "app_ok b" "route_repo b = route_repo a" "package_repo b = package_repo a"
    "customer_dir b = customer_dir a" "fleet b = fleet a"
  using assms unfolding store_step_def by (metis app.select_convs app.surjective app.update_convs(1))+

lemma assign_package_effect:
  assumes w: "world_ok R P T h" and r: "r \<in> R" and p: "p \<in> P" and free: "pkg_route (packages h p) = None"
  shows "(\<exists>m. assign_package r p now t h = (Inl (DomainConflictError m), h)) \<or>
    (\<exists>eta e. assign_package r p now t h = (Inr (), assigned r p eta e h) \<and>
       world_ok R P T (assigned r p eta e h))"
proof -
  have rok: "route_ok (routes h r)" using world_okD(1) [OF w r] by (rule route_linksD)
  have nh: "\<not> has_package h r p" using has_package_iff [OF w r p] free by simp
  show ?thesis
  proof (cases "package_fits h r (packages h p) now")
    case False
    then show ?thesis using assign_package_cases(1) [OF rok nh False] by blast
  next
    case True
    then show ?thesis
      using assign_package_cases(2) [OF rok nh True, of t] assign_package_world [OF w r p free, of now t]
      by (metis surj_pair prod.inject)
  qed
qed

lemma assign_rollback:
  assumes w: "world_ok R P T h" and r: "r \<in> R"
  shows "restore_assignment r (route_snapshot_state (routes h r)) (event_checkpoint (route_events (routes h r)))
       p (package_snapshot_state (packages h p)) (assigned r p eta e h) = (Inr (), h)"
proof -
  let ?h = "assigned r p eta e h"
  have rok: "route_ok (routes h r)" using world_okD(1) [OF w r] by (rule route_linksD)
  from route_rollback [OF rok, of ?h] have
    "act_bind (route_restore_state r (route_snapshot_state (routes h r))) (\<lambda>_.
       restore_route_events r (event_checkpoint (route_events (routes h r)))) ?h =
     (Inr (), upd_route r (\<lambda>_. routes h r) ?h)"
    by (simp add: route_frame_assigned)
  moreover have "upd_package p (package_restore_state (package_snapshot_state (packages h p)))
      (upd_route r (\<lambda>_. routes h r) ?h) = h"
    by (rule heap_eqI) (auto simp: assigned_store fun_eq_iff package_restore_state_def package_snapshot_state_def)
  ultimately show ?thesis
    by (auto simp: restore_assignment_def act_bind_def split: prod.splits sum.splits)
qed

lemma assign_and_update_step:
  assumes ok: "app_ok a" and r: "r \<in> live_routes a" and p: "p \<in> live_packages a"
    and free: "pkg_route (packages (store a) p) = None"
    and run: "assign_and_update r p now persist a = (res, b)"
  shows "store_step a b \<and> (persist = Some DatabaseError \<longrightarrow> b = a)"
proof -
  note w = app_okD(4) [OF ok]
  have quiet: "snd (case format_eta (store c) r p of Inl e \<Rightarrow> (Inl e, c) | Inr eta \<Rightarrow> (Inr (f c eta), c)) = c"
    for c :: app and f :: "app \<Rightarrow> eta_text \<Rightarrow> assignment_success"
    by (simp split: sum.split)
  from assign_package_effect [OF w r p free, of now now] show ?thesis
  proof (elim disjE exE conjE)
    fix m assume "assign_package r p now now (store a) = (Inl (DomainConflictError m), store a)"
    then have "b = a" using run
      by (auto simp: assign_and_update_def Let_def act_bind_def act_catch_def on_store_def)
    then show ?thesis using ok by (simp add: store_step_refl)
  next
    fix eta e
    let ?h = "assigned r p eta e (store a)"
    assume *: "assign_package r p now now (store a) = (Inr (), ?h)"
      and w': "world_ok (live_routes a) (live_packages a) (set (fleet a)) ?h"
    have step: "store_step a (a\<lparr>store := ?h\<rparr>)"
      using app_ok_store [OF ok _ w'] by (simp add: store_step_def)
    show ?thesis
    proof (cases persist)
      case None
      then have "b = a\<lparr>store := ?h\<rparr>"
        using run * quiet
        by (auto simp: assign_and_update_def Let_def act_bind_def act_catch_def on_store_def persisted_def
            split: sum.splits)
      then show ?thesis using step None by simp
    next
      case (Some x)
      have "on_store (assign_package r p now now) a = (Inr (), a\<lparr>store := ?h\<rparr>)"
        using * by (simp add: on_store_def)
      moreover have "on_store (restore_assignment r (route_snapshot_state (routes (store a) r))
          (event_checkpoint (route_events (routes (store a) r))) p
          (package_snapshot_state (packages (store a) p))) (a\<lparr>store := ?h\<rparr>) = (Inr (), a)"
        using assign_rollback [OF w r, of p eta e] by (simp add: on_store_def)
      ultimately have "b = (if x = DatabaseError then a else a\<lparr>store := ?h\<rparr>)"
        using run Some
        by (auto simp: assign_and_update_def Let_def act_catch_def act_bind_def persisted_def split: if_splits)
      then show ?thesis using step Some store_step_refl [OF ok] by auto
    qed
  qed
qed

lemma unassigned_route:
  assumes "world_ok R P T h" and "p \<in> P" and "pkg_route_id (packages h p) = None"
  shows "pkg_route (packages h p) = None"
  using world_okD(2) [OF assms(1,2)] assms(3) by (auto simp: package_links_ok_def split: option.splits)

lemma assign_one_step:
  assumes ok: "app_ok a" and r: "r \<in> live_routes a" and run: "assign_one r i now persist res a = (out, b)"
  shows "store_step a b"
proof (cases "repo_get i (package_repo a)")
  case None
  then show ?thesis using run store_step_refl [OF ok] by (auto simp: assign_one_def)
next
  case (Some p)
  have p: "p \<in> live_packages a" using Some by (rule refsI)
  show ?thesis
  proof (cases "assigned_package_error (store a) p")
    case None
    then have "pkg_route (packages (store a) p) = None"
      by (intro unassigned_route [OF app_okD(4) [OF ok] p])
        (simp add: assigned_package_error_def split: option.splits)
    note step = assign_and_update_step [OF ok r p this]
    obtain out' b' where run': "assign_and_update r p now persist a = (out', b')" by fastforce
    have "b = b'" using run Some None run'
      by (auto simp: assign_one_def split: sum.splits error.splits)
    then show ?thesis using step [OF run'] by simp
  next
    case (Some e)
    then show ?thesis using run store_step_refl [OF ok] \<open>repo_get i (package_repo a) = _\<close>
      by (auto simp: assign_one_def)
  qed
qed

lemma assign_loop_step:
  assumes "app_ok a" and "r \<in> live_routes a" and "assign_loop r now persist is res a = (out, b)"
  shows "store_step a b"
  using assms
proof (induction "is" arbitrary: res a)
  case Nil
  then show ?case by (simp add: store_step_refl)
next
  case (Cons i "is")
  obtain out1 b1 where one: "assign_one r i now (persist i) res a = (out1, b1)" by fastforce
  have step: "store_step a b1" by (rule assign_one_step [OF Cons.prems(1,2) one])
  note b1 = store_stepD [OF step]
  show ?case
  proof (cases out1)
    case (Inl e)
    then show ?thesis using Cons.prems(3) one step by (simp add: act_bind_def)
  next
    case (Inr res1)
    then have "assign_loop r now persist is res1 b1 = (out, b)"
      using Cons.prems(3) one by (simp add: act_bind_def)
    from Cons.IH [OF b1(1) _ this] have "store_step b1 b" using Cons.prems(2) b1(2) by simp
    then show ?thesis by (rule store_step_trans [OF step])
  qed
qed

lemma preserves_get_or_not_found:
  assumes "\<And>r. x = Some r \<Longrightarrow> app_ok (snd (f r a))" and "app_ok a"
  shows "app_ok (snd (act_bind (get_or_not_found x) f a))"
  using assms by (cases x) (simp_all add: act_bind_def get_or_not_found_def)

lemma preserves_assign_packages: "preserves (assign_packages rid ids clock persist)"
  unfolding assign_packages_def
proof (rule preserves_requires, rule preservesI, rule preserves_get_or_not_found)
  fix a r assume ok: "app_ok a" and r: "repo_get rid (route_repo a) = Some r"
  have "r \<in> live_routes a" using r by (rule refsI)
  then have "app_ok (snd (assign_loop r clock persist is res a))" for "is" res
    by (metis assign_loop_step [OF ok] prod.collapse store_stepD(1))
  then show "app_ok (snd (act_bind (assign_loop r clock persist (unique_ids {} ids) \<lparr>successes = [], errors = []\<rparr>)
      (\<lambda>res. act_bind (act_modify (if successes res \<noteq> [] then track_domain_recorder (RouteRec r) else id))
        (\<lambda>_. act_return res)) a))"
    by (intro act_bind_invariant [where Q = app_ok]) simp_all
qed

section \<open>Assigning a truck\<close>

lemma route_for_suitability_fields:
  assumes "route_for_suitability h r now = Inr v"
  shows "view_start_location v = path_start (path (routes h r))"
    "view_maximum_segment_load v = route_maximum_segment_load h r None"
    "view_distance_km v = total_distance_km (routes h r)"
  using assms by (auto simp: route_for_suitability_def route_view_def res_bind_Inr_iff split: if_splits)

lemma ensure_truck_is_suitable_ok:
  assumes "ensure_truck_is_suitable h t r now = Inr ()"
  shows "\<exists>d. total_distance_km (routes h r) = Inr d \<and> d \<le> max_range (trucks h t)"
    "\<not> f64_gt_int (route_maximum_segment_load h r None) (capacity (trucks h t))"
proof -
  from assms obtain v d where v: "route_for_suitability h r now = Inr v"
    and d: "evaluate_truck_view h t v = Inr d" "accepted d"
    by (auto simp: ensure_truck_is_suitable_def is_suitable_for_route_def res_bind_Inr_iff split: if_splits)
  obtain km where km: "view_distance_km v = Inr km"
    using d(1) by (auto simp: evaluate_truck_view_def res_bind_Inr_iff Let_def)
  have "view_suits h t v"
    using evaluate_truck_view_decides [OF km, of h t] d by (simp add: decides_def)
  then show "\<exists>d. total_distance_km (routes h r) = Inr d \<and> d \<le> max_range (trucks h t)"
    "\<not> f64_gt_int (route_maximum_segment_load h r None) (capacity (trucks h t))"
    using route_for_suitability_fields [OF v] by (simp_all add: view_suits_def)
qed

text \<open>Only the route and the truck change, within their frames.\<close>

definition pair_region :: "rref \<Rightarrow> tref \<Rightarrow> heap \<Rightarrow> heap \<Rightarrow> bool" where
  "pair_region r t h h' \<longleftrightarrow>
     route_frame (routes h r) (routes h' r) \<and> truck_frame (trucks h t) (trucks h' t) \<and>
     (\<forall>q. q \<noteq> r \<longrightarrow> routes h' q = routes h q) \<and> (\<forall>u. u \<noteq> t \<longrightarrow> trucks h' u = trucks h u) \<and>
     packages h' = packages h \<and> customers h' = customers h \<and> next_ref h' = next_ref h"

lemma pair_region_refl [simp]: "pair_region r t h h"
  by (simp add: pair_region_def)

lemma pair_region_trans: "pair_region r t h h1 \<Longrightarrow> pair_region r t h1 h2 \<Longrightarrow> pair_region r t h h2"
  using route_frame_trans truck_frame_trans unfolding pair_region_def by metis

lemma pair_region_effects [simp]:
  "pair_region r t h (scheduled r s e h)" "pair_region r t h (truck_linked r t e h)"
  by (auto simp: pair_region_def scheduled_store truck_linked_store route_frame_def truck_frame_def)

lemma pair_rollback:
  assumes rok: "route_ok (routes h r)" and reg: "pair_region r t h h'"
  shows "restore_truck_assignment r (route_snapshot_state (routes h r))
       (event_checkpoint (route_events (routes h r))) t (truck_snapshot_state (trucks h t)) h' = (Inr (), h)"
proof -
  have "truck_restore_state (truck_snapshot_state (trucks h t)) (trucks h' t) = trucks h t"
    by (rule truck_restore_snapshot) (use reg in \<open>auto simp: pair_region_def truck_frame_def\<close>)
  then have "upd_truck t (truck_restore_state (truck_snapshot_state (trucks h t))) (upd_route r (\<lambda>_. routes h r) h') = h"
    using reg by (intro heap_eqI) (auto simp: pair_region_def fun_eq_iff)
  moreover have "route_frame (routes h r) (routes h' r)" using reg by (simp add: pair_region_def)
  note route_rollback [OF rok this]
  ultimately show ?thesis
    by (auto simp: restore_truck_assignment_def act_bind_def split: prod.splits sum.splits)
qed

lemma departure_None: "departure_time x = None \<longleftrightarrow> schedule x = None"
  by (simp add: departure_time_def split: option.split)

lemma assign_truck_step:
  assumes w: "world_ok R P T h" and r: "r \<in> R" and t: "t \<in> T"
    and none: "route_truck (routes h r) = None" and sch: "schedule (routes h r) \<noteq> None"
    and range: "\<exists>d. total_distance_km (routes h r) = Inr d \<and> d \<le> max_range (trucks h t)"
    and cap: "\<not> f64_gt_int (route_maximum_segment_load h r None) (capacity (trucks h t))"
    and run: "assign_truck r t oc h = (res, h')"
  shows "case res of Inl e \<Rightarrow> h' = h
    | Inr _ \<Rightarrow> world_ok R P T h' \<and> same_identity h h' \<and> pair_region r t h h' \<and> route_truck (routes h' r) = Some t"
proof (cases res)
  case (Inl e)
  then show ?thesis using assign_truck_fails [of r t oc h e h'] run by simp
next
  case (Inr u)
  then have "truck_route (trucks h t) = None" "\<exists>e. h' = truck_linked r t e h"
    using run assign_truck_iff [of r t oc h h'] by auto
  then show ?thesis
    using truck_linked_world [OF w r t _ none sch cap range] Inr by (auto simp: truck_linked_store)
qed

lemma assign_truck_in_memory_step:
  assumes w: "world_ok R P T h" and r: "r \<in> R" and t: "t \<in> T"
    and none: "route_truck (routes h r) = None"
    and range: "\<exists>d. total_distance_km (routes h r) = Inr d \<and> d \<le> max_range (trucks h t)"
    and cap: "\<not> f64_gt_int (route_maximum_segment_load h r None) (capacity (trucks h t))"
    and run: "assign_truck_in_memory r t now h = (res, h')"
  shows "pair_region r t h h' \<and> (res = Inr () \<longrightarrow>
    world_ok R P T h' \<and> same_identity h h' \<and> route_truck (routes h' r) = Some t)"
proof (cases "departure_time (routes h r) = None")
  case False
  then have "assign_truck r t now h = (res, h')" "schedule (routes h r) \<noteq> None"
    using run by (auto simp: assign_truck_in_memory_def act_bind_def departure_None split: if_splits)
  from assign_truck_step [OF w r t none this(2) range cap this(1)] show ?thesis by (cases res) auto
next
  case True
  obtain out h1 where s: "schedule_route r (naive now) now h = (out, h1)" by fastforce
  show ?thesis
  proof (cases out)
    case (Inl e)
    then have "h' = h" "res = Inl e"
      using run s True status_change_fails(3) [of r "naive now" now h e h1]
      by (auto simp: assign_truck_in_memory_def act_bind_def)
    then show ?thesis by simp
  next
    case (Inr u)
    then have s': "schedule_route r (naive now) now h = (Inr (), h1)" using s by simp
    obtain sch e where h1: "h1 = scheduled r sch e h"
      using s' by (auto simp: schedule_route_iff)
    have a: "assign_truck r t now h1 = (res, h')"
      using run s' True by (simp add: assign_truck_in_memory_def act_bind_def)
    have "route_maximum_segment_load h1 r None = route_maximum_segment_load h r None"
      by (rule load_cong) (simp_all add: h1 scheduled_store)
    then have *: "case res of Inl e \<Rightarrow> h' = h1
      | Inr _ \<Rightarrow> world_ok R P T h' \<and> same_identity h1 h' \<and> pair_region r t h1 h' \<and> route_truck (routes h' r) = Some t"
      using range cap none schedule_route_world(4) [OF w r s']
      by (intro assign_truck_step [OF schedule_route_world(1) [OF w r s'] r t _ _ _ _ a])
        (simp_all add: h1 scheduled_store)
    have "pair_region r t h h1" "same_identity h h1" by (simp_all add: h1)
    with * show ?thesis
      using pair_region_trans [of r t h h1 h'] same_identity_trans [of h h1 h'] by (cases res) auto
  qed
qed

lemma assign_truck_and_persist_step:
  assumes w: "world_ok R P T h" and r: "r \<in> R" and t: "t \<in> T"
    and none: "route_truck (routes h r) = None"
    and suits: "ensure_truck_is_suitable h t r now' = Inr ()"
    and run: "assign_truck_and_persist r t now persist h = (res, h')"
  shows "case res of Inl e \<Rightarrow> h' = h
    | Inr _ \<Rightarrow> world_ok R P T h' \<and> same_identity h h' \<and> route_truck (routes h' r) = Some t"
proof -
  have rok: "route_ok (routes h r)" using world_okD(1) [OF w r] by (rule route_linksD)
  obtain out h1 where m: "assign_truck_in_memory r t now h = (out, h1)" by fastforce
  note step = assign_truck_in_memory_step [OF w r t none ensure_truck_is_suitable_ok [OF suits] m]
  note roll = pair_rollback [OF rok, of t h1]
  show ?thesis
  proof (cases out)
    case (Inl e)
    then have "res = Inl e" "h' = h" using run m roll step
      by (simp_all add: assign_truck_and_persist_def Let_def act_catch_def act_bind_def)
    then show ?thesis by simp
  next
    case (Inr u)
    show ?thesis
    proof (cases persist)
      case None
      then have "res = Inr ()" "h' = h1" using run m Inr
        by (simp_all add: assign_truck_and_persist_def Let_def act_catch_def act_bind_def persisted_def)
      then show ?thesis using step Inr by simp
    next
      case (Some e)
      then have "res = Inl e" "h' = h" using run m Inr roll step
        by (simp_all add: assign_truck_and_persist_def Let_def act_catch_def act_bind_def persisted_def)
      then show ?thesis by simp
    qed
  qed
qed

lemma preserves_assign_truck_to_route: "preserves (assign_truck_to_route vid rid now clock persist)"
  unfolding assign_truck_to_route_def
proof (rule preserves_requires, rule preservesI, rule preserves_get_or_not_found, rule preserves_get_or_not_found)
  fix a r t
  assume ok: "app_ok a" and "repo_get rid (route_repo a) = Some r" and "find_truck (store a) vid (fleet a) = Some t"
  then have r: "r \<in> live_routes a" and t: "t \<in> set (fleet a)"
    by (auto intro: refsI dest: find_truck_Some)
  obtain res h' where run: "assign_truck_and_persist r t now persist (store a) = (res, h')" by fastforce
  have "app_ok (a\<lparr>store := h'\<rparr>)"
    if "route_truck (routes (store a) r) = None" "ensure_truck_is_suitable (store a) t r now = Inr ()"
    using assign_truck_and_persist_step [OF app_okD(4) [OF ok] r t that run] app_ok_store [OF ok, of h'] ok
    by (cases res) auto
  then show "app_ok (snd (act_bind (act_lift (ensure_route_has_no_truck (store a) r)) (\<lambda>_.
      act_bind (act_lift (ensure_truck_is_suitable (store a) t r now)) (\<lambda>_.
      act_bind (on_store (assign_truck_and_persist r t now persist)) (\<lambda>_.
      act_bind (act_modify (track_domain_recorder (RouteRec r))) (\<lambda>_. act_return (r, t))))) a))"
    using ok run
    by (auto simp: act_bind_def on_store_def ensure_route_has_no_truck_def split: sum.splits option.splits)
qed simp

section \<open>Removing a package\<close>

lemma world_package_event:
  assumes w: "world_ok R P T h"
  shows "world_ok R P T (record_package_event p e h)" (is "world_ok R P T ?h")
proof (rule world_okI [OF w])
  note wD = world_okD [OF w]
  show "route_links_ok P T ?h r" if "r \<in> R" for r
    by (rule route_links_frame [OF wD(1) [OF that]]) (simp_all add: same_cargo_def)
  show "package_links_ok R ?h q" if "q \<in> P" for q
    using wD(2) [OF that] by (auto simp: package_links_ok_def package_ok_def current_location_def split: option.splits)
  show "truck_links_ok R ?h t" if "t \<in> T" for t
    by (rule truck_links_frame [OF wD(3) [OF that]]) simp_all
qed simp_all

lemma detach_from_route_step:
  assumes w: "world_ok R P T h" and p: "p \<in> P"
  obtains h' where "detach_from_route p t h = (Inr (), h')" "world_ok R P T h'" "same_identity h h'"
    "pkg_route (packages h' p) = None"
proof (cases "pkg_route (packages h p)")
  case None
  then have "detach_from_route p t h = (Inr (), h)"
    using world_okD(2) [OF w p] by (simp add: detach_from_route_def package_links_ok_def)
  then show ?thesis using that [of h] w None by simp
next
  case (Some r)
  then have r: "r \<in> R" and rid: "pkg_route_id (packages h p) = Some (route_id (routes h r))"
    using world_okD(2) [OF w p] by (auto simp: package_links_ok_def)
  obtain e where e: "detach_package r p DETACH_PACKAGE_REMOVED t h = (Inr (), detached r p e h)"
    and w': "world_ok R P T (detached r p e h)"
    using detach_package_world [OF w r p Some] by blast
  have "detach_from_route p t h = (Inr (), detached r p e h)"
    using e Some rid by (simp add: detach_from_route_def act_catch_def)
  then show ?thesis using that [of "detached r p e h"] w' by (simp add: detached_store)
qed

lemma live_minus:
  assumes "keyed id_of s" and "repo_get i s = Some r"
  shows "refs (repo_remove i s) = refs s - {r}"
proof -
  have "q = r" if "q \<in> refs s" "id_of q = i" for q
    using keyed_get [OF assms(1) that(1)] that(2) assms(2) by simp
  moreover have "id_of r = i" using assms by (simp add: keyed_def)
  ultimately show ?thesis using keyed_remove(2) [OF assms(1)] by auto
qed

text \<open>In memory, a registered package is always removed, from its route and its customer as well.\<close>

lemma remove_package_links_step:
  assumes ok: "app_ok a" and at: "repo_get i (package_repo a) = Some p"
  obtains h where "remove_package_links p t (store a) = (Inr (), h)"
    "app_ok (a\<lparr>store := h, package_repo := repo_remove i (package_repo a)\<rparr>)"
proof -
  let ?h = "store a" and ?c = "pkg_customer (packages (store a) p)"
  have p: "p \<in> live_packages a" using at by (rule refsI)
  note w = app_okD(4) [OF ok] and own = app_okD(5) [OF ok, unfolded owners_ok_def]
  obtain h1 where d: "detach_from_route p t ?h = (Inr (), h1)" and w1: "world_ok (live_routes a) (live_packages a) (set (fleet a)) h1"
    and same: "same_identity ?h h1" and none: "pkg_route (packages h1 p) = None"
    by (rule detach_from_route_step [OF w p])
  note s = same [unfolded same_identity_def]
  define h2 where "h2 = upd_customer ?c (\<lambda>x. x\<lparr>delivery_packages := remove1 p (delivery_packages x)\<rparr>) h1"
  have mine: "p \<in> set (delivery_packages (customers ?h ?c))" using own p by auto
  then have r: "remove_from_customer p h1 = (Inr (), h2)"
    using s by (simp add: remove_from_customer_def act_catch_def customer_remove_package_def h2_def)
  obtain e where e: "record_package_removal p (psnap_route_id (package_snapshot_state (packages ?h p)))
      (psnap_status (package_snapshot_state (packages ?h p))) (current_location (packages ?h p))
      (psnap_expected_arrival (package_snapshot_state (packages ?h p))) t h2 = record_package_event p e h2"
    by (simp add: record_package_removal_def Let_def)
  define h3 where "h3 = record_package_event p e h2"
  have run: "remove_package_links p t ?h = (Inr (), h3)"
    using d r e by (simp add: h3_def remove_package_links_def act_bind_def Let_def)
  have P: "refs (repo_remove i (package_repo a)) = live_packages a - {p}"
    by (rule live_minus [OF app_okD(2) [OF ok] at])
  have "world_ok (live_routes a) (live_packages a) (set (fleet a)) h2"
    by (rule world_ok_cong [OF w1]) (simp_all add: h2_def)
  then have "world_ok (live_routes a) (live_packages a - {p}) (set (fleet a)) h2"
    by (rule world_remove_package [OF _ p]) (simp add: h2_def none)
  then have w3: "world_ok (live_routes a) (live_packages a - {p}) (set (fleet a)) h3"
    unfolding h3_def by (rule world_package_event)
  have id: "route_id (routes h3 q) = route_id (routes ?h q)" "package_id (packages h3 q) = package_id (packages ?h q)"
    "pkg_customer (packages h3 q) = pkg_customer (packages ?h q)"
    "vehicle_id (trucks h3 q) = vehicle_id (trucks ?h q)"
    "customer_id (customers h3 q) = customer_id (customers ?h q)"
    "contact (customers h3 q) = contact (customers ?h q)" "next_ref h3 = next_ref ?h" for q
    using s by (auto simp: h2_def h3_def)
  have cust: "delivery_packages (customers h3 c) =
      (if c = ?c then remove1 p (delivery_packages (customers ?h c)) else delivery_packages (customers ?h c))" for c
    using s by (simp add: h2_def h3_def)
  have "owners_ok (live_customers a) (live_packages a - {p}) h3"
    using own p by (auto simp: owners_ok_def id cust)
  moreover have "customers_ok h3 (customer_dir a)"
    using app_okD(3) [OF ok] customers_ok_cong [of "customer_dir a" h3 ?h] id by simp
  moreover have "keyed (\<lambda>q. package_id (packages h3 q)) (repo_remove i (package_repo a))"
    using keyed_remove(1) [OF app_okD(2) [OF ok]] id by simp
  ultimately have "app_ok (a\<lparr>store := h3, package_repo := repo_remove i (package_repo a)\<rparr>)"
    using app_okD(1,6) [OF ok] w3 id by (simp add: app_ok_def P fleet_ok_def)
  with run show ?thesis by (rule that)
qed

lemma preserves_remove_package: "preserves (remove_package pid clock None)"
  unfolding remove_package_def Let_def
proof (rule preserves_requires_all, rule preservesI, rule preserves_get_or_not_found, goal_cases)
  case (1 a p)
  from 1 obtain h where links: "remove_package_links p clock (store a) = (Inr (), h)"
    and ok: "app_ok (a\<lparr>store := h, package_repo := repo_remove pid (package_repo a)\<rparr>)"
    by (rule remove_package_links_step)
  have "on_store (remove_package_links p clock) a = (Inr (), a\<lparr>store := h\<rparr>)"
    using links by (simp add: on_store_def)
  with ok show ?case
    by (cases "pkg_route (packages (store a) p)") (simp_all add: act_bind_def act_catch_def persisted_def)
qed

section \<open>Removing a route\<close>

lemma detach_all_step:
  assumes "world_ok R P T h" and "r \<in> R" and "route_packages (routes h r) = ps"
  obtains h' where "detach_all r t ps h = (Inr (), h')" "world_ok R P T h'" "same_identity h h'"
    "route_packages (routes h' r) = []" "route_truck (routes h' r) = route_truck (routes h r)"
    "route_frame (routes h r) (routes h' r)" "\<And>q. q \<noteq> r \<Longrightarrow> routes h' q = routes h q" "trucks h' = trucks h"
    "\<And>q. q \<notin> set ps \<Longrightarrow> packages h' q = packages h q"
    "\<And>q. package_frame (packages h q) (packages h' q) \<and> pkg_events (packages h' q) = pkg_events (packages h q)"
  using assms
proof (induction ps arbitrary: h thesis)
  case Nil
  then show ?case by (metis detach_all.simps(1) frame_refl(1) package_frame_refl same_identity_refl)
next
  case (Cons p ps)
  note w = Cons.prems(2) and r = Cons.prems(3) and ps = Cons.prems(4)
  note links = route_linksD [OF world_okD(1) [OF w r]]
  have p: "p \<in> P" "pkg_route (packages h p) = Some r" using links(3,4) [of p] ps by simp_all
  obtain e where e: "detach_package r p DETACH_ROUTE_REMOVED t h = (Inr (), detached r p e h)"
    and w1: "world_ok R P T (detached r p e h)"
    using detach_package_world [OF w r p] by blast
  let ?h = "detached r p e h"
  have ps1: "route_packages (routes ?h r) = ps" using ps by (simp add: detached_store)
  obtain h' where h': "detach_all r t ps ?h = (Inr (), h')" "world_ok R P T h'" "same_identity ?h h'"
    "route_packages (routes h' r) = []" "route_truck (routes h' r) = route_truck (routes ?h r)"
    "route_frame (routes ?h r) (routes h' r)" "\<And>q. q \<noteq> r \<Longrightarrow> routes h' q = routes ?h q" "trucks h' = trucks ?h"
    "\<And>q. q \<notin> set ps \<Longrightarrow> packages h' q = packages ?h q"
    "\<And>q. package_frame (packages ?h q) (packages h' q) \<and> pkg_events (packages h' q) = pkg_events (packages ?h q)"
    using Cons.IH [OF _ w1 r ps1] by metis
  have run: "detach_all r t (p # ps) h = (Inr (), h')" using e h'(1) by (simp add: act_bind_def)
  have f: "route_frame (routes h r) (routes ?h r)" "package_frame (packages h q) (packages ?h q)"
    "pkg_events (packages ?h q) = pkg_events (packages h q)" for q
    by (auto simp: detached_store route_frame_def package_frame_def)
  have fr: "package_frame (packages h q) (packages h' q) \<and> pkg_events (packages h' q) = pkg_events (packages h q)" for q
    using f(2,3) [of q] h'(10) [of q] package_frame_trans by metis
  show ?case
    by (rule Cons.prems(1) [OF run h'(2) same_identity_trans [OF same_identity_effects(2) h'(3)] h'(4) _
          route_frame_trans [OF f(1) h'(6)]])
      (use h'(5,7,8,9) fr in \<open>simp_all add: detached_store\<close>)
qed

text \<open>What the removal of a route may change, and its undoing.\<close>

definition removal_region :: "rref \<Rightarrow> heap \<Rightarrow> heap \<Rightarrow> bool" where
  "removal_region r h h' \<longleftrightarrow>
     route_frame (routes h r) (routes h' r) \<and> (\<forall>q. q \<noteq> r \<longrightarrow> routes h' q = routes h q) \<and>
     (\<forall>p. package_frame (packages h p) (packages h' p) \<and> pkg_events (packages h' p) = pkg_events (packages h p)) \<and>
     (\<forall>p. p \<notin> set (route_packages (routes h r)) \<longrightarrow> packages h' p = packages h p) \<and>
     (\<forall>t. truck_frame (trucks h t) (trucks h' t)) \<and>
     (\<forall>t. route_truck (routes h r) \<noteq> Some t \<longrightarrow> trucks h' t = trucks h t) \<and>
     customers h' = customers h \<and> next_ref h' = next_ref h"

lemma act_for_modify: "act_for (\<lambda>x. act_modify (f x)) xs h = (Inr (), fold f xs h)"
  by (induction xs arbitrary: h) (simp_all add: act_bind_def)

lemma fold_restore_packages:
  "fold (\<lambda>(p, s). upd_package p (package_restore_state s)) (map (\<lambda>p. (p, package_snapshot_state (packages h p))) ps) h1
   = h1\<lparr>packages := \<lambda>p. if p \<in> set ps
        then package_restore_state (package_snapshot_state (packages h p)) (packages h1 p) else packages h1 p\<rparr>"
proof (induction ps arbitrary: h1)
  case Nil
  then show ?case by (simp add: fun_eq_iff)
next
  case (Cons q ps)
  have twice: "package_restore_state s (package_restore_state s x) = package_restore_state s x" for s x
    by (simp add: package_restore_state_def)
  show ?case unfolding list.map fold_Cons o_def Cons.IH
    by (rule heap_eqI) (auto simp: twice fun_eq_iff)
qed

lemma package_restored:
  assumes "package_frame x y" and "pkg_events y = pkg_events x"
  shows "package_restore_state (package_snapshot_state x) y = x"
  using assms by (simp add: package_frame_def package_restore_state_def package_snapshot_state_def)

lemma removal_rollback:
  assumes rok: "route_ok (routes h r)" and reg: "removal_region r h h'"
  shows "restore_removal_state r (route_snapshot_state (routes h r)) (event_checkpoint (route_events (routes h r)))
      (map (\<lambda>p. (p, package_snapshot_state (packages h p))) (route_packages (routes h r)))
      (map_option (\<lambda>t. (t, truck_snapshot_state (trucks h t))) (route_truck (routes h r))) h' = (Inr (), h)"
proof -
  note g = reg [unfolded removal_region_def]
  let ?h1 = "upd_route r (\<lambda>_. routes h r) h'"
  let ?h2 = "?h1\<lparr>packages := packages h\<rparr>"
  have 1: "act_bind (route_restore_state r (route_snapshot_state (routes h r)))
      (\<lambda>_. restore_route_events r (event_checkpoint (route_events (routes h r)))) h' = (Inr (), ?h1)"
    using g by (intro route_rollback [OF rok]) simp
  have "?h1\<lparr>packages := \<lambda>p. if p \<in> set (route_packages (routes h r))
        then package_restore_state (package_snapshot_state (packages h p)) (packages ?h1 p) else packages ?h1 p\<rparr> = ?h2"
    using g by (intro heap_eqI) (auto simp: package_restored fun_eq_iff)
  then have 2: "act_for (\<lambda>(p, s). act_modify (upd_package p (package_restore_state s)))
      (map (\<lambda>p. (p, package_snapshot_state (packages h p))) (route_packages (routes h r))) ?h1 = (Inr (), ?h2)"
    using act_for_modify [of "\<lambda>(p, s). upd_package p (package_restore_state s)"]
    by (simp add: fold_restore_packages [unfolded split_def] split_def)
  have 3: "(case map_option (\<lambda>t. (t, truck_snapshot_state (trucks h t))) (route_truck (routes h r)) of
      None \<Rightarrow> id | Some (t, s) \<Rightarrow> upd_truck t (truck_restore_state s)) ?h2 = h"
  proof (cases "route_truck (routes h r)")
    case None
    then show ?thesis using g by (auto simp: fun_eq_iff intro!: heap_eqI)
  next
    case (Some t)
    have "truck_restore_state (truck_snapshot_state (trucks h t)) (trucks h' t) = trucks h t"
      by (rule truck_restore_snapshot) (use g in \<open>auto simp: truck_frame_def\<close>)
    then show ?thesis using g Some by (auto simp: fun_eq_iff intro!: heap_eqI)
  qed
  show ?thesis
    using 1 2 3 by (auto simp: restore_removal_state_def act_bind_def split: prod.splits sum.splits)
qed

lemma world_route_event:
  assumes w: "world_ok R P T h"
  shows "world_ok R P T (record_route_event r e h)" (is "world_ok R P T ?h")
proof (rule world_okI [OF w])
  note wD = world_okD [OF w]
  show "route_links_ok P T ?h q" if "q \<in> R" for q
    by (rule route_links_frame [OF wD(1) [OF that]]) (simp_all add: same_route_def)
  show "package_links_ok R ?h q" if "q \<in> P" for q
    by (rule package_links_frame [OF wD(2) [OF that]]) auto
  show "truck_links_ok R ?h t" if "t \<in> T" for t
    by (rule truck_links_frame [OF wD(3) [OF that]]) (auto simp: departure_time_def eta_final_def)
qed simp_all

lemma release_forced_step:
  assumes w: "world_ok R P T h" and r: "r \<in> R"
  obtains b h' where "release_truck r t True reason oc h = (Inr b, h')" "world_ok R P T h'" "same_identity h h'"
    "route_truck (routes h' r) = None" "route_packages (routes h' r) = route_packages (routes h r)"
    "route_frame (routes h r) (routes h' r)" "\<And>q. q \<noteq> r \<Longrightarrow> routes h' q = routes h q"
    "packages h' = packages h" "\<And>u. truck_frame (trucks h u) (trucks h' u)"
    "\<And>u. route_truck (routes h r) \<noteq> Some u \<Longrightarrow> trucks h' u = trucks h u"
proof (cases "route_truck (routes h r)")
  case None
  then show ?thesis using that [of False h] w by (simp add: release_truck_none)
next
  case (Some u)
  note tr = world_truck_other [OF w r Some]
  obtain loc where loc: "truck_location (trucks h u) = Some loc"
    using world_okD(3) [OF w tr(1)] by (auto simp: truck_links_ok_def)
  obtain e where e: "release_truck r t True reason oc h = (Inr True, truck_unlinked r u e h)"
    by (simp add: release_truck_linked [OF Some tr(2) loc] release_due_def)
  show ?thesis
    by (rule that [OF e truck_unlinked_world [OF w r Some]])
      (auto simp: truck_unlinked_store route_frame_def truck_frame_def Some)
qed

lemma remove_route_links_step:
  assumes w: "world_ok R P T h" and r: "r \<in> R"
    and run: "remove_route_links r t persist h = (res, h')"
  shows "case res of
      Inl e \<Rightarrow> persist = Some e \<and> h' = h
    | Inr _ \<Rightarrow> persist = None \<and> world_ok R P T h' \<and> same_identity h h' \<and>
        route_packages (routes h' r) = [] \<and> route_truck (routes h' r) = None \<and> removal_region r h h'"
proof -
  obtain h1 where d: "detach_all r t (route_packages (routes h r)) h = (Inr (), h1)" "world_ok R P T h1"
      "same_identity h h1" "route_packages (routes h1 r) = []" "route_truck (routes h1 r) = route_truck (routes h r)"
    and d': "route_frame (routes h r) (routes h1 r)" "\<And>q. q \<noteq> r \<Longrightarrow> routes h1 q = routes h q" "trucks h1 = trucks h"
      "\<And>q. q \<notin> set (route_packages (routes h r)) \<Longrightarrow> packages h1 q = packages h q"
      "\<And>q. package_frame (packages h q) (packages h1 q) \<and> pkg_events (packages h1 q) = pkg_events (packages h q)"
    by (rule detach_all_step [OF w r refl]) blast
  obtain b h2 where f: "release_truck r t True RELEASE_ROUTE_REMOVED t h1 = (Inr b, h2)" "world_ok R P T h2"
      "same_identity h1 h2" "route_truck (routes h2 r) = None" "route_packages (routes h2 r) = route_packages (routes h1 r)"
    and f': "route_frame (routes h1 r) (routes h2 r)" "\<And>q. q \<noteq> r \<Longrightarrow> routes h2 q = routes h1 q"
      "packages h2 = packages h1" "\<And>u. truck_frame (trucks h1 u) (trucks h2 u)"
      "\<And>u. route_truck (routes h1 r) \<noteq> Some u \<Longrightarrow> trucks h2 u = trucks h1 u"
    by (rule release_forced_step [OF d(2) r]) blast
  obtain e where e: "record_route_removal r (map (\<lambda>p. package_id (packages h p)) (route_packages (routes h r)))
      (map_option (\<lambda>t. vehicle_id (trucks h t)) (route_truck (routes h r))) t h2 = record_route_event r e h2"
    by (simp add: record_route_removal_def Let_def)
  let ?h3 = "record_route_event r e h2"
  have same: "same_identity h ?h3"
    using same_identity_trans [OF d(3) f(3)] by (simp add: same_identity_def)
  have state: "detach_route_state r t h = (Inr (), h2)"
    using d(1) f(1) by (simp add: detach_route_state_def act_bind_def)
  have reg: "removal_region r h ?h3"
    using d' f' same route_frame_trans [OF d'(1) f'(1)]
    by (auto simp: removal_region_def route_frame_def same_identity_def d(5))
  show ?thesis
  proof (cases persist)
    case None
    then have "res = Inr ()" "h' = ?h3"
      using run state e by (simp_all add: remove_route_links_def Let_def act_catch_def act_bind_def persisted_def)
    then show ?thesis using None same reg world_route_event [OF f(2), of r e] f(4,5) d(4) by simp
  next
    case (Some x)
    have rok: "route_ok (routes h r)" using world_okD(1) [OF w r] by (rule route_linksD)
    have "res = Inl x" "h' = h"
      using run state e Some removal_rollback [OF rok reg]
      by (simp_all add: remove_route_links_def Let_def act_catch_def act_bind_def persisted_def)
    then show ?thesis using Some by simp
  qed
qed

lemma app_ok_remove_route:
  assumes ok: "app_ok a" and at: "repo_get i (route_repo a) = Some r"
    and w: "world_ok (live_routes a) (live_packages a) (set (fleet a)) h" and same: "same_identity (store a) h"
    and none: "route_packages (routes h r) = []" "route_truck (routes h r) = None"
  shows "app_ok (a\<lparr>store := h, route_repo := repo_remove i (route_repo a)\<rparr>)"
proof -
  note ok' = app_okD [OF app_ok_store [OF ok same w], simplified]
  have R: "refs (repo_remove i (route_repo a)) = live_routes a - {r}"
    by (rule live_minus [OF app_okD(1) [OF ok] at])
  show ?thesis
    using ok' world_remove_route [OF w none] keyed_remove(1) [OF ok'(1), of i] by (simp add: app_ok_def R)
qed

lemma preserves_remove_route: "preserves (remove_route rid clock persist)"
  unfolding remove_route_def
proof (rule preserves_requires_all, rule preservesI, rule preserves_get_or_not_found)
  fix a r assume ok: "app_ok a" and at: "repo_get rid (route_repo a) = Some r"
  obtain res h where run: "remove_route_links r clock persist (store a) = (res, h)" by fastforce
  note step = remove_route_links_step [OF app_okD(4) [OF ok] refsI [OF at] run]
  have s: "on_store (remove_route_links r clock persist) a = (res, a\<lparr>store := h\<rparr>)"
    using run by (simp add: on_store_def)
  show "app_ok (snd (act_bind (on_store (remove_route_links r clock persist)) (\<lambda>_.
      act_bind (act_modify (\<lambda>a. a\<lparr>route_repo := repo_remove rid (route_repo a)\<rparr>)) (\<lambda>_.
      act_bind (act_modify (track_domain_recorder (RouteRec r))) (\<lambda>_. act_return r))) a))"
    using s step ok app_ok_remove_route [OF ok at, of h] by (cases res) (simp_all add: act_bind_def)
qed simp

section \<open>The heartbeat\<close>

definition trucks_of :: "heap \<Rightarrow> rref list \<Rightarrow> tref set" where
  "trucks_of h rs = (\<Union>r \<in> set rs. set_option (route_truck (routes h r)))"

definition packages_of :: "heap \<Rightarrow> rref list \<Rightarrow> pref set" where
  "packages_of h rs = (\<Union>r \<in> set rs. set (route_packages (routes h r)))"

definition heartbeat_region :: "rref list \<Rightarrow> heap \<Rightarrow> heap \<Rightarrow> bool" where
  "heartbeat_region rs h h' \<longleftrightarrow>
     (\<forall>r. reconciled_route_frame (routes h r) (routes h' r)) \<and>
     (\<forall>r. r \<notin> set rs \<longrightarrow> routes h' r = routes h r) \<and>
     (\<forall>p. package_frame (packages h p) (packages h' p)) \<and>
     (\<forall>p. p \<notin> packages_of h rs \<longrightarrow> packages h' p = packages h p) \<and>
     (\<forall>t. truck_frame (trucks h t) (trucks h' t)) \<and>
     (\<forall>t. t \<notin> trucks_of h rs \<longrightarrow> trucks h' t = trucks h t) \<and>
     customers h' = customers h \<and> next_ref h' = next_ref h"

lemma heartbeat_region_same_identity: "heartbeat_region rs h h' \<Longrightarrow> same_identity h h'"
  by (simp add: heartbeat_region_def same_identity_def reconciled_route_frame_def package_frame_def truck_frame_def)

lemma reconcile_route_heartbeat_region:
  assumes "route_ok (routes h r)" and "reconcile_route r now upd h = (Inr out, h')"
  shows "heartbeat_region [r] h h'"
proof -
  have "route_region r h h'"
  proof (cases out)
    case None
    then show ?thesis using reconcile_route_total [OF assms(1), of now upd] assms(2)
      by (auto simp: route_region_def)
  next
    case (Some o')
    then have "reconcile_route_body r now upd h = (Inr o', h')"
      using reconcile_route_total [OF assms(1), of now upd] assms(2) by auto
    then show ?thesis using reconcile_route_body_region [of r h now upd] by simp
  qed
  then have "frame r (packages_of h [r]) (trucks_of h [r]) h h'"
    by (simp add: route_region_def packages_of_def trucks_of_def)
  then show ?thesis
    unfolding heartbeat_region_def frame_def by (metis list.set_intros(1) reconciled_route_frame_refl empty_iff empty_set set_ConsD)
qed

lemma heartbeat_region_Cons:
  assumes 1: "heartbeat_region [r] h h1" and 2: "heartbeat_region rs h1 h2" and new: "r \<notin> set rs"
  shows "heartbeat_region (r # rs) h h2"
proof -
  note a = 1 [unfolded heartbeat_region_def] and b = 2 [unfolded heartbeat_region_def]
  have "q \<in> set rs \<Longrightarrow> routes h1 q = routes h q" for q using a new by auto
  then have "packages_of h1 rs = packages_of h rs" "trucks_of h1 rs = trucks_of h rs"
    by (simp_all add: packages_of_def trucks_of_def)
  moreover have "packages_of h (r # rs) = packages_of h [r] \<union> packages_of h rs"
    "trucks_of h (r # rs) = trucks_of h [r] \<union> trucks_of h rs"
    by (simp_all add: packages_of_def trucks_of_def)
  moreover have "reconciled_route_frame (routes h q) (routes h2 q)" for q
    using a b by (auto simp: reconciled_route_frame_def) (metis append.assoc)
  moreover have "package_frame (packages h p) (packages h2 p)" "truck_frame (trucks h t) (trucks h2 t)" for p t
    using a b package_frame_trans truck_frame_trans by blast+
  ultimately show ?thesis using a b by (simp add: heartbeat_region_def)
qed

lemma reconcile_loop_region:
  assumes "\<forall>r \<in> set rs. route_ok (routes h r)" and "distinct rs" and "reconcile_loop rs now upd s h = (Inr s', h')"
  shows "heartbeat_region rs h h'"
  using assms
proof (induction rs arbitrary: s h)
  case Nil
  then show ?case by (simp add: heartbeat_region_def)
next
  case (Cons r rs)
  then obtain out h1 where 1: "reconcile_route r now upd h = (Inr out, h1)"
    using reconcile_route_total [of h r now upd] by auto
  have ok: "route_ok (routes h r)" using Cons.prems(1) by simp
  have "\<forall>q \<in> set rs. route_ok (routes h1 q)"
    using Cons.prems(1) reconcile_route_keeps_route_ok(2) [OF ok 1] by simp
  from Cons.IH [OF this] Cons.prems(2,3) have "heartbeat_region rs h1 h'" by (auto simp: act_bind_def 1)
  then show ?case
    using heartbeat_region_Cons [OF reconcile_route_heartbeat_region [OF ok 1]] Cons.prems(2) by simp
qed

text \<open>Restoring the three lists of snapshots undoes a pass completely.\<close>

lemma restore_routes_snapshots:
  assumes "\<forall>r \<in> set rs. route_ok (routes h r) \<and> route_frame (routes h r) (routes h1 r)"
  shows "act_for (\<lambda>(r, s, k). act_bind (route_restore_state r s) (\<lambda>_. restore_route_events r k)) (route_snapshots h rs) h1
    = (Inr (), h1\<lparr>routes := \<lambda>r. if r \<in> set rs then routes h r else routes h1 r\<rparr>)"
  using assms
proof (induction rs arbitrary: h1)
  case Nil
  then show ?case by (simp add: route_snapshots_def)
next
  case (Cons r rs)
  have 1: "act_bind (route_restore_state r (route_snapshot_state (routes h r)))
      (\<lambda>_. restore_route_events r (event_checkpoint (route_events (routes h r)))) h1
      = (Inr (), upd_route r (\<lambda>_. routes h r) h1)"
    using Cons.prems by (intro route_rollback) simp_all
  have 2: "act_for (\<lambda>(r, s, k). act_bind (route_restore_state r s) (\<lambda>_. restore_route_events r k))
      (route_snapshots h rs) (upd_route r (\<lambda>_. routes h r) h1) =
      (Inr (), (upd_route r (\<lambda>_. routes h r) h1)\<lparr>routes := \<lambda>q. if q \<in> set rs then routes h q
         else routes (upd_route r (\<lambda>_. routes h r) h1) q\<rparr>)"
    using Cons.prems by (intro Cons.IH) simp
  have 3: "route_snapshots h (r # rs) = (r, route_snapshot_state (routes h r),
      event_checkpoint (route_events (routes h r))) # route_snapshots h rs"
    by (simp add: route_snapshots_def)
  have "act_for (\<lambda>(r, s, k). act_bind (route_restore_state r s) (\<lambda>_. restore_route_events r k))
      (route_snapshots h (r # rs)) h1 = (Inr (), (upd_route r (\<lambda>_. routes h r) h1)\<lparr>routes := \<lambda>q. if q \<in> set rs
         then routes h q else routes (upd_route r (\<lambda>_. routes h r) h1) q\<rparr>)"
    using 1 2 by (auto simp: 3 act_bind_def split: prod.splits sum.splits)
  then show ?case by (auto simp: fun_eq_iff intro!: heap_eqI)
qed

lemma restore_trucks_snapshots:
  "act_for (\<lambda>(t, s). act_modify (upd_truck t (truck_restore_state s))) (truck_snapshots h rs) h1 =
     (Inr (), h1\<lparr>trucks := \<lambda>t. if t \<in> trucks_of h rs
        then truck_restore_state (truck_snapshot_state (trucks h t)) (trucks h1 t) else trucks h1 t\<rparr>)"
proof -
  have twice: "truck_restore_state s (truck_restore_state s x) = truck_restore_state s x" for s x
    by (simp add: truck_restore_state_def)
  have "act_for (\<lambda>(t, s). act_modify (upd_truck t (truck_restore_state s)))
      (map (\<lambda>t. (t, truck_snapshot_state (trucks h t))) ts) h1 =
     (Inr (), h1\<lparr>trucks := \<lambda>t. if t \<in> set ts
        then truck_restore_state (truck_snapshot_state (trucks h t)) (trucks h1 t) else trucks h1 t\<rparr>)" for ts
    by (induction ts arbitrary: h1) (auto simp: act_bind_def twice fun_eq_iff intro!: heap_eqI)
  moreover have "set (List.map_filter (\<lambda>r. route_truck (routes h r)) rs) = trucks_of h rs"
    by (force simp: trucks_of_def List.map_filter_def)
  ultimately show ?thesis by (simp add: truck_snapshots_def)
qed

lemma heartbeat_rollback:
  assumes "\<forall>r \<in> set rs. route_ok (routes h r)" and reg: "heartbeat_region rs h h'"
  shows "restore_heartbeat (route_snapshots h rs)
      (package_snapshots h (concat (map (\<lambda>r. route_packages (routes h r)) rs))) (truck_snapshots h rs) h' = (Inr (), h)"
proof -
  note g = reg [unfolded heartbeat_region_def]
  let ?h1 = "h'\<lparr>routes := routes h\<rparr>" and ?ps = "concat (map (\<lambda>r. route_packages (routes h r)) rs)"
  have frame: "route_frame (routes h r) (routes h' r)" for r
    using g by (simp add: reconciled_route_frame_def route_frame_def)
  have 1: "act_for (\<lambda>(r, s, k). act_bind (route_restore_state r s) (\<lambda>_. restore_route_events r k))
      (route_snapshots h rs) h' = (Inr (), ?h1)"
    using restore_routes_snapshots [of rs h h'] assms(1) frame g by (auto simp: fun_eq_iff intro!: heap_eqI)
  have 2: "restore_packages (package_snapshots h ?ps) ?h1 = (Inr (), ?h1\<lparr>packages := packages h\<rparr>)"
    using restore_packages_snapshots [of ?ps h ?h1] g
    by (auto simp: fun_eq_iff packages_of_def intro!: heap_eqI)
  have "truck_restore_state (truck_snapshot_state (trucks h t)) (trucks h' t) = trucks h t" for t
    by (rule truck_restore_snapshot) (use g in \<open>auto simp: truck_frame_def\<close>)
  then have 3: "act_for (\<lambda>(t, s). act_modify (upd_truck t (truck_restore_state s))) (truck_snapshots h rs)
      (?h1\<lparr>packages := packages h\<rparr>) = (Inr (), h)"
    using g by (auto simp: restore_trucks_snapshots fun_eq_iff intro!: heap_eqI)
  show ?thesis
    unfolding restore_heartbeat_def by (simp add: act_bind_def 1 2 3)
qed

text \<open>
  The heartbeat returns a summary unless persisting the changes fails, and then nothing has changed.
\<close>

lemma heartbeat_advance_step:
  assumes w: "world_ok R P T h" and rs: "set rs \<subseteq> R" "distinct rs"
    and run: "heartbeat_advance rs now persist h = (res, h')"
  shows "world_ok R P T h' \<and> same_identity h h' \<and>
    (case res of Inl e \<Rightarrow> persist = Some e \<and> h' = h
     | Inr s \<Rightarrow> reconcile_routes rs now True h = (Inr s, h') \<and> (persist = None \<or> \<not> state_changed s))"
proof -
  have rok: "\<forall>r \<in> set rs. route_ok (routes h r)"
    using rs(1) world_okD(1) [OF w] route_linksD(1) by blast
  obtain s h1 where s: "reconcile_routes rs now True h = (Inr s, h1)"
    using reconcile_routes_total [OF rok] by blast
  have w1: "world_ok R P T h1" using yieldsD [OF reconcile_routes_world [OF w rs(1), of now True]] s by auto
  have reg: "heartbeat_region rs h h1"
    using reconcile_loop_region [OF rok rs(2)] s by (simp add: reconcile_routes_def)
  note roll = heartbeat_rollback [OF rok reg]
  have same: "same_identity h h1" using reg by (rule heartbeat_region_same_identity)
  show ?thesis
  proof (cases "state_changed s \<and> persist \<noteq> None")
    case True
    then obtain e where "persist = Some e" by blast
    with True have "res = Inl e" "h' = h"
      using run s roll by (auto simp: heartbeat_advance_def Let_def act_catch_def act_bind_def persisted_def)
    then show ?thesis using w \<open>persist = Some e\<close> by simp
  next
    case False
    then have "res = Inr s" "h' = h1"
      using run s by (auto simp: heartbeat_advance_def Let_def act_catch_def act_bind_def persisted_def
          split: if_splits)
    then show ?thesis using False s w1 same by auto
  qed
qed

lemma distinct_repo_list_all:
  assumes "keyed id_of s"
  shows "distinct (repo_list_all s)"
proof -
  have ok: "repo_ok s" using assms by (simp add: keyed_def)
  obtain "is" where "is": "distinct is" "\<And>i. i \<in> set is \<Longrightarrow> repo_get i s \<noteq> None"
    "repo_list_all s = map (\<lambda>i. the (repo_get i s)) is"
    using repo_list_ok [OF ok] by blast
  have "inj_on (\<lambda>i. the (repo_get i s)) (set is)"
  proof (rule inj_onI)
    fix i j assume ij: "i \<in> set is" "j \<in> set is" "the (repo_get i s) = the (repo_get j s)"
    then obtain r where "repo_get i s = Some r" "repo_get j s = Some r" using "is"(2) by (metis option.collapse)
    then show "i = j" using assms by (auto simp: keyed_def)
  qed
  then show ?thesis using "is" by (simp add: distinct_map)
qed

lemma preserves_fold_record: "app_ok (fold (\<lambda>e. record_application_event (f e)) es a) = app_ok a"
  by (induction es arbitrary: a) simp_all

lemma preserves_advance_world_state: "preserves (advance_world_state clock persist)"
proof (rule preservesI)
  fix a assume ok: "app_ok a"
  obtain res h where run: "heartbeat_advance (repo_list_all (route_repo a)) clock persist (store a) = (res, h)"
    by fastforce
  have "world_ok (live_routes a) (live_packages a) (set (fleet a)) h \<and> same_identity (store a) h"
    using heartbeat_advance_step [OF app_okD(4) [OF ok] _ distinct_repo_list_all [OF app_okD(1) [OF ok]] run]
      live_list_all(1) [OF ok] by simp
  then have h: "app_ok (a\<lparr>store := h\<rparr>)" using app_ok_store [OF ok] by blast
  show "app_ok (snd (advance_world_state clock persist a))"
    using run h by (cases res)
      (simp_all add: advance_world_state_def act_bind_def on_store_def preserves_fold_record)
qed

lemmas use_cases_preserve =
  preserves_create_route preserves_create_package preserves_assign_packages
  preserves_assign_truck_to_route preserves_remove_package preserves_remove_route
  preserves_advance_world_state

end
