(* ===== verification/Seeding.thy ===== *)
theory Seeding
  imports AppInvariant
begin

text \<open>
  The initial state: empty repositories and the default fleet of \<open>src/composition/seed_fleet.py\<close>, which
  \<open>InMemoryTruckRepository\<close> builds in its constructor.  Trucks are objects of the store, so that the
  locations are assigned by mutation, as the source does.
\<close>

section \<open>Building the fleet\<close>

definition new_truck :: "int \<Rightarrow> truck_model \<Rightarrow> int \<Rightarrow> int \<Rightarrow> tref action" where
  "new_truck vid model cap rng h =
     (case truck_init (PyInt vid) (Inr model) (PyInt cap) (PyInt rng) of
        Inl e \<Rightarrow> (Inl e, h)
      | Inr t \<Rightarrow> (Inr (next_ref h), h\<lparr>trucks := (trucks h)(next_ref h := t), next_ref := Suc (next_ref h)\<rparr>))"

fun new_trucks :: "(int \<times> truck_model \<times> int \<times> int) list \<Rightarrow> tref list action" where
  "new_trucks [] h = (Inr [], h)"
| "new_trucks ((vid, model, cap, rng) # specs) h =
     act_bind (new_truck vid model cap rng) (\<lambda>t.
     act_bind (new_trucks specs) (\<lambda>ts. act_return (t # ts))) h"

text \<open>The dictionary of groups lists the models in the order of their first truck.\<close>

fun group_keys :: "truck_model list \<Rightarrow> truck_model list \<Rightarrow> truck_model list" where
  "group_keys seen [] = []"
| "group_keys seen (m # ms) = (if m \<in> set seen then group_keys seen ms else m # group_keys (m # seen) ms)"

definition type_groups :: "heap \<Rightarrow> tref list \<Rightarrow> tref list list" where
  "type_groups h ts =
     map (\<lambda>m. filter (\<lambda>t. truck_name (trucks h t) = m) ts) (group_keys [] (map (\<lambda>t. truck_name (trucks h t)) ts))"

text \<open>One pass over the groups takes the first truck of each that is not empty.\<close>

fun deal_round :: "location list \<Rightarrow> tref list list \<Rightarrow> nat \<Rightarrow> heap \<Rightarrow> tref list list \<times> nat \<times> heap" where
  "deal_round locs [] i h = ([], i, h)"
| "deal_round locs ([] # gs) i h = (case deal_round locs gs i h of (gs', i', h') \<Rightarrow> ([] # gs', i', h'))"
| "deal_round locs ((t # ts) # gs) i h =
     (case deal_round locs gs (Suc i)
        (upd_truck t (\<lambda>x. x\<lparr>truck_location := Some (locs ! (i mod length locs))\<rparr>) h) of
        (gs', i', h') \<Rightarrow> (ts # gs', i', h'))"

lemma deal_round_size:
  "deal_round locs gs i h = (gs', i', h') \<Longrightarrow>
     i' = i + length (filter (\<lambda>g. g \<noteq> []) gs) \<and>
     sum_list (map length gs') + length (filter (\<lambda>g. g \<noteq> []) gs) = sum_list (map length gs)"
  by (induction locs gs i h arbitrary: gs' i' h' rule: deal_round.induct) (auto split: prod.splits)

function deal :: "location list \<Rightarrow> tref list list \<Rightarrow> nat \<Rightarrow> heap \<Rightarrow> heap" where
  "deal locs gs i h =
     (if list_all (\<lambda>g. g = []) gs then h
      else (case deal_round locs gs i h of (gs', i', h') \<Rightarrow> deal locs gs' i' h'))"
  by pat_completeness auto

termination
proof (relation "measure (\<lambda>(locs, gs, i, h). sum_list (map length gs))", goal_cases)
  case (2 locs gs i h gs' y i' h')
  then have "filter (\<lambda>g. g \<noteq> []) gs \<noteq> []" by (auto simp: list_all_iff filter_empty_conv)
  then obtain k where "length (filter (\<lambda>g. g \<noteq> []) gs) = Suc k" by (metis length_greater_0_conv Suc_pred)
  moreover have r: "deal_round locs gs i h = (gs', i', h')" using 2 by simp
  ultimately show ?case using deal_round_size [OF r] 2 by simp
qed simp

definition disperse_trucks :: "tref list \<Rightarrow> heap \<Rightarrow> heap" where
  "disperse_trucks ts h = deal get_locations (type_groups h ts) 0 h"

definition default_fleet_spec :: "(int \<times> truck_model \<times> int \<times> int) list" where
  "default_fleet_spec =
     map (\<lambda>i. (i, SCANIA, 42000, 8000)) [1001..1010] @
     map (\<lambda>i. (i, MAN, 37000, 10000)) [1011..1025] @
     map (\<lambda>i. (i, ACTROS, 26000, 13000)) [1026..1040]"

definition build_default_fleet :: "tref list action" where
  "build_default_fleet =
     act_bind (new_trucks default_fleet_spec) (\<lambda>ts.
     act_bind (act_modify (disperse_trucks ts)) (\<lambda>_. act_return ts))"

definition seed_fleet_if_empty :: "unit usecase" where
  "seed_fleet_if_empty a =
     (if fleet a \<noteq> [] then (Inr (), a)
      else act_bind (on_store build_default_fleet) (\<lambda>ts. act_modify (\<lambda>a. a\<lparr>fleet := fleet a @ ts\<rparr>)) a)"

declare deal.simps [simp del]

section \<open>Every truck gets a location\<close>

text \<open>Dealing writes locations of the map and nothing else.\<close>

definition only_locations :: "location list \<Rightarrow> heap \<Rightarrow> heap \<Rightarrow> bool" where
  "only_locations locs h h' \<longleftrightarrow>
     (\<forall>t. trucks h' t = (trucks h t)\<lparr>truck_location := truck_location (trucks h' t)\<rparr> \<and>
        (truck_location (trucks h' t) = truck_location (trucks h t) \<or> truck_location (trucks h' t) \<in> Some ` set locs)) \<and>
     routes h' = routes h \<and> packages h' = packages h \<and> customers h' = customers h \<and> next_ref h' = next_ref h"

lemma only_locations_refl [simp]: "only_locations locs h h"
  by (simp add: only_locations_def)

lemma only_locations_trans:
  assumes "only_locations locs h h1" and "only_locations locs h1 h2"
  shows "only_locations locs h h2"
proof -
  have "trucks h2 t = (trucks h t)\<lparr>truck_location := truck_location (trucks h2 t)\<rparr>" for t
  proof -
    have "trucks h2 t = (trucks h1 t)\<lparr>truck_location := truck_location (trucks h2 t)\<rparr>"
      "trucks h1 t = (trucks h t)\<lparr>truck_location := truck_location (trucks h1 t)\<rparr>"
      using assms by (simp_all add: only_locations_def)
    then show ?thesis by (metis truck.update_convs(6) truck.surjective)
  qed
  then show ?thesis using assms unfolding only_locations_def by metis
qed

lemma only_locations_upd:
  "l \<in> set locs \<Longrightarrow> only_locations locs h (upd_truck t (\<lambda>x. x\<lparr>truck_location := Some l\<rparr>) h)"
  by (simp add: only_locations_def)

lemma only_locations_located:
  "only_locations locs h h' \<Longrightarrow> truck_location (trucks h t) \<in> Some ` set locs \<Longrightarrow>
     truck_location (trucks h' t) \<in> Some ` set locs"
  unfolding only_locations_def by metis

lemma deal_round_located:
  assumes "locs \<noteq> []" and "deal_round locs gs i h = (gs', i', h')"
  shows "only_locations locs h h' \<and>
    (\<forall>t \<in> \<Union> (set ` set gs). t \<in> \<Union> (set ` set gs') \<or> truck_location (trucks h' t) \<in> Some ` set locs)"
  using assms
proof (induction locs gs i h arbitrary: gs' i' h' rule: deal_round.induct)
  case (2 locs gs i h)
  then show ?case by (auto split: prod.splits) blast+
next
  case (3 locs t ts gs i h)
  let ?h = "upd_truck t (\<lambda>x. x\<lparr>truck_location := Some (locs ! (i mod length locs))\<rparr>) h"
  obtain gs1 i1 where r: "deal_round locs gs (Suc i) ?h = (gs1, i1, h')" "gs' = ts # gs1"
    using 3(3) by (auto split: prod.splits)
  have l: "locs ! (i mod length locs) \<in> set locs" using 3(2) by simp
  note IH = 3(1) [OF 3(2) r(1)]
  have only: "only_locations locs h h'"
    using only_locations_trans [OF only_locations_upd [OF l]] IH by blast
  have "truck_location (trucks h' t) \<in> Some ` set locs"
    by (rule only_locations_located [of locs ?h]) (use IH l in auto)
  with only IH show ?case by (auto simp: r(2))
qed simp

lemma deal_located:
  assumes "locs \<noteq> []"
  shows "only_locations locs h (deal locs gs i h) \<and>
    (\<forall>t \<in> \<Union> (set ` set gs). truck_location (trucks (deal locs gs i h) t) \<in> Some ` set locs)"
  using assms
proof (induction locs gs i h rule: deal.induct)
  case (1 locs gs i h)
  show ?case
  proof (cases "list_all (\<lambda>g. g = []) gs")
    case True
    then show ?thesis by (auto simp: deal.simps [of locs gs] list_all_iff)
  next
    case False
    obtain gs' i' h' where r: "deal_round locs gs i h = (gs', i', h')" by (cases "deal_round locs gs i h")
    have d: "deal locs gs i h = deal locs gs' i' h'" using False r by (simp add: deal.simps [of locs gs])
    note IH = 1(1) [OF False r [symmetric] refl 1(2)]
    note one = deal_round_located [OF 1(2) r]
    have "only_locations locs h (deal locs gs' i' h')"
      by (rule only_locations_trans [OF conjunct1 [OF one] conjunct1 [OF IH]])
    moreover have "truck_location (trucks (deal locs gs' i' h') t) \<in> Some ` set locs"
      if t: "t \<in> \<Union> (set ` set gs)" for t
    proof (cases "t \<in> \<Union> (set ` set gs')")
      case True
      then show ?thesis by (rule bspec [OF conjunct2 [OF IH]])
    next
      case False
      then have "truck_location (trucks h' t) \<in> Some ` set locs" using bspec [OF conjunct2 [OF one] t] by simp
      then show ?thesis by (rule only_locations_located [OF conjunct1 [OF IH]])
    qed
    ultimately show ?thesis unfolding d by blast
  qed
qed

lemma group_keys_set: "set (group_keys seen ms) = set ms - set seen"
  by (induction seen ms rule: group_keys.induct) auto

lemma type_groups_cover: "\<Union> (set ` set (type_groups h ts)) = set ts"
  by (auto simp: type_groups_def group_keys_set)

lemma disperse_located:
  "only_locations locations h (disperse_trucks ts h)"
  "t \<in> set ts \<Longrightarrow> truck_location (trucks (disperse_trucks ts h) t) \<in> Some ` set locations"
proof -
  have "locations \<noteq> []" by (simp add: locations_def)
  from deal_located [OF this, of h "type_groups h ts" 0]
  show "only_locations locations h (disperse_trucks ts h)"
    "t \<in> set ts \<Longrightarrow> truck_location (trucks (disperse_trucks ts h) t) \<in> Some ` set locations"
    unfolding disperse_trucks_def get_locations_def type_groups_cover by blast+
qed

section \<open>The initial state\<close>

text \<open>The objects that exist before the container is built do not matter.\<close>

definition empty_app :: "heap \<Rightarrow> app" where
  "empty_app h =
     \<lparr>store = h, route_repo = empty_repo, package_repo = empty_repo, customer_dir = empty_customer_repo,
      fleet = [], identity = \<lparr>session_user = None, bound_user = None\<rparr>, scope = None, unscoped_events = []\<rparr>"

definition start_app :: "heap \<Rightarrow> app" where
  "start_app h = snd (seed_fleet_if_empty (empty_app h))"

definition spec_ok :: "int \<times> truck_model \<times> int \<times> int \<Rightarrow> bool" where
  "spec_ok = (\<lambda>(vid, _, cap, rng). 1 \<le> vid \<and> 1 \<le> cap \<and> 1 \<le> rng)"

definition parked :: "truck \<Rightarrow> bool" where
  "parked x \<longleftrightarrow> truck_status x = FREE \<and> truck_route x = None \<and> busy_from x = None \<and>
     busy_until x = None \<and> in_transit_to x = None"

lemma new_truck_ok:
  assumes "spec_ok (vid, model, cap, rng)"
  shows "\<exists>x. new_truck vid model cap rng h =
      (Inr (next_ref h), h\<lparr>trucks := (trucks h)(next_ref h := x), next_ref := Suc (next_ref h)\<rparr>) \<and>
    parked x \<and> vehicle_id x = vid \<and> truck_name x = model \<and> capacity x = cap \<and> max_range x = rng"
proof -
  have "domain_require_positive_int (PyInt i) = Inr i" if "1 \<le> i" for i
    using that by (simp add: domain_require_positive_int_iff)
  then show ?thesis
    using assms
    by (intro exI [of _ "\<lparr>vehicle_id = vid, truck_name = model, capacity = cap, max_range = rng, truck_status = FREE,
        truck_location = None, truck_route = None, busy_from = None, busy_until = None, in_transit_to = None\<rparr>"])
      (simp add: new_truck_def truck_init_def spec_ok_def truck_model_from_value_def parked_def)
qed

lemma new_trucks_ok:
  assumes "list_all spec_ok specs"
  shows "\<exists>h'. new_trucks specs h = (Inr [next_ref h..<next_ref h + length specs], h') \<and>
    next_ref h' = next_ref h + length specs \<and>
    map (\<lambda>t. vehicle_id (trucks h' t)) [next_ref h..<next_ref h + length specs] = map fst specs \<and>
    (\<forall>t. next_ref h \<le> t \<and> t < next_ref h' \<longrightarrow> parked (trucks h' t)) \<and>
    (\<forall>t. t < next_ref h \<longrightarrow> trucks h' t = trucks h t)"
  using assms
proof (induction specs arbitrary: h)
  case Nil
  then show ?case by auto
next
  case (Cons spec specs)
  obtain vid model cap rng where spec: "spec = (vid, model, cap, rng)" by (cases spec)
  obtain x where x: "new_truck vid model cap rng h =
      (Inr (next_ref h), h\<lparr>trucks := (trucks h)(next_ref h := x), next_ref := Suc (next_ref h)\<rparr>)"
    "parked x" "vehicle_id x = vid"
    using new_truck_ok [of vid model cap rng h] Cons.prems spec by auto
  let ?h = "h\<lparr>trucks := (trucks h)(next_ref h := x), next_ref := Suc (next_ref h)\<rparr>"
  obtain h' where h': "new_trucks specs ?h = (Inr [next_ref ?h..<next_ref ?h + length specs], h')"
    "next_ref h' = next_ref ?h + length specs"
    "map (\<lambda>t. vehicle_id (trucks h' t)) [next_ref ?h..<next_ref ?h + length specs] = map fst specs"
    "\<forall>t. next_ref ?h \<le> t \<and> t < next_ref h' \<longrightarrow> parked (trucks h' t)"
    "\<forall>t. t < next_ref ?h \<longrightarrow> trucks h' t = trucks ?h t"
    using Cons.IH [of ?h] Cons.prems by auto
  have up: "[next_ref h..<next_ref h + length (spec # specs)] = next_ref h # [next_ref ?h..<next_ref ?h + length specs]"
    by (simp add: upt_rec [of "next_ref h"] del: upt_Suc)
  have new: "trucks h' (next_ref h) = x" using h'(5) by simp
  have "new_trucks (spec # specs) h = (Inr [next_ref h..<next_ref h + length (spec # specs)], h')"
    using x(1) h'(1) unfolding up by (simp add: spec act_bind_def)
  moreover have "map (\<lambda>t. vehicle_id (trucks h' t)) [next_ref h..<next_ref h + length (spec # specs)] = map fst (spec # specs)"
    unfolding up using h'(3) x(3) new by (simp add: spec)
  moreover have "parked (trucks h' t)" if "next_ref h \<le> t" "t < next_ref h'" for t
    using that h'(4) new x(2) by (cases "t = next_ref h") auto
  ultimately show ?case using h'(2,5) by auto
qed

lemma default_spec_ok: "list_all spec_ok default_fleet_spec" "distinct (map fst default_fleet_spec)"
  "length default_fleet_spec = 40"
  by code_simp+

lemma build_default_fleet_ok:
  "\<exists>ts h'. build_default_fleet h = (Inr ts, h') \<and> length ts = 40 \<and>
    map (\<lambda>t. vehicle_id (trucks h' t)) ts = [1001..1040] \<and>
    (\<forall>t \<in> set ts. parked (trucks h' t) \<and> truck_location (trucks h' t) \<in> Some ` set locations)"
proof -
  let ?ts = "[next_ref h..<next_ref h + length default_fleet_spec]"
  obtain h1 where n: "new_trucks default_fleet_spec h = (Inr ?ts, h1)"
    "next_ref h1 = next_ref h + length default_fleet_spec"
    "map (\<lambda>t. vehicle_id (trucks h1 t)) ?ts = map fst default_fleet_spec"
    "\<forall>t. next_ref h \<le> t \<and> t < next_ref h1 \<longrightarrow> parked (trucks h1 t)"
    using new_trucks_ok [OF default_spec_ok(1), of h] by blast
  let ?h = "disperse_trucks ?ts h1"
  have t: "trucks ?h t = (trucks h1 t)\<lparr>truck_location := truck_location (trucks ?h t)\<rparr>" for t
    using disperse_located(1) by (simp add: only_locations_def)
  have "vehicle_id (trucks ?h t) = vehicle_id (trucks h1 t)" "parked (trucks ?h t) = parked (trucks h1 t)" for t
    by (subst t, simp add: parked_def)+
  moreover have "map fst default_fleet_spec = [1001..1040]" by code_simp
  ultimately show ?thesis
    using n disperse_located(2) [of _ ?ts h1] default_spec_ok(3)
    by (intro exI [of _ ?ts] exI [of _ ?h]) (simp add: build_default_fleet_def act_bind_def)
qed

lemma start_app_ok: "app_ok (start_app h)"
proof -
  obtain ts h' where f: "build_default_fleet h = (Inr ts, h')"
    "map (\<lambda>t. vehicle_id (trucks h' t)) ts = [1001..1040]"
    "\<And>t. t \<in> set ts \<Longrightarrow> parked (trucks h' t) \<and> truck_location (trucks h' t) \<in> Some ` set locations"
    using build_default_fleet_ok [of h] by blast
  have "start_app h = (empty_app h)\<lparr>store := h', fleet := ts\<rparr>"
    using f(1) by (simp add: start_app_def seed_fleet_if_empty_def empty_app_def on_store_def act_bind_def)
  moreover have "truck_links_ok {} h' t" if "t \<in> set ts" for t
    using f(3) [OF that] by (auto simp: truck_links_ok_def parked_def)
  moreover have "distinct [1001..1040 :: int]" by simp
  ultimately show ?thesis
    by (simp add: app_ok_def empty_app_def keyed_def refs_def world_ok_def owners_ok_def fleet_ok_def f(2)
        empty_customer_repo_def [THEN arg_cong [where f = customers_by_id], simplified])
qed

end
