(* ===== verification/Reachability.thy ===== *)
theory Reachability
  imports Lifecycle Seeding
begin

text \<open>
  The application as a state machine: each transition is one call of a use case, a change of the
  caller's identity, or the opening and closing of a message scope.  Rule induction lifts the
  preservation lemmas to every reachable state, and shows that identifiers are never handed out twice.
\<close>

section \<open>Transitions\<close>

inductive app_step :: "app \<Rightarrow> app \<Rightarrow> bool" where
  step_create_route: "app_step a (snd (create_route locs dep clock a))"
| step_create_package: "pyval_ok weight \<Longrightarrow>
    app_step a (snd (create_package start end_location weight name email phone clock a))"
| step_assign_packages: "app_step a (snd (assign_packages rid pids clock persist a))"
| step_assign_truck: "app_step a (snd (assign_truck_to_route vid rid now clock outcome a))"
| step_remove_package: "app_step a (snd (remove_package pid clock None a))"
| step_remove_route: "app_step a (snd (remove_route rid clock outcome a))"
| step_heartbeat: "app_step a (snd (advance_world_state clock outcome a))"
| step_identity: "app_step a (a\<lparr>identity := i\<rparr>)"
| step_scope: "app_step a (a\<lparr>scope := s\<rparr>)"

inductive reachable :: "app \<Rightarrow> bool" where
  reachable_start: "reachable (start_app h)"
| reachable_step: "reachable a \<Longrightarrow> app_step a b \<Longrightarrow> reachable b"

inductive_cases app_stepE: "app_step a b"

lemma step_preserves: "app_step a b \<Longrightarrow> app_ok a \<Longrightarrow> app_ok b"
  by (induction rule: app_step.induct) (simp_all add: preservesD use_cases_preserve)

lemma reachable_ok: "reachable a \<Longrightarrow> app_ok a"
  by (induction rule: reachable.induct) (simp_all add: start_app_ok step_preserves)

section \<open>Identifiers are never handed out twice\<close>

text \<open>
  A store only moves forward: the counter grows, and below it an entry stays or disappears.
\<close>

definition repo_evolves :: "id_repo \<Rightarrow> id_repo \<Rightarrow> bool" where
  "repo_evolves s s' \<longleftrightarrow> repo_next_id s \<le> repo_next_id s' \<and>
     (\<forall>i < repo_next_id s. repo_get i s' = repo_get i s \<or> repo_get i s' = None)"

lemma repo_evolves_refl [simp]: "repo_evolves s s"
  by (simp add: repo_evolves_def)

lemma repo_evolves_trans: "repo_evolves s s1 \<Longrightarrow> repo_evolves s1 s2 \<Longrightarrow> repo_evolves s s2"
  unfolding repo_evolves_def by (metis order.strict_trans2 order_trans)

lemma repo_evolves_add: "repo_add i r s = Inr s' \<Longrightarrow> i = repo_next_id s \<Longrightarrow> repo_evolves s s'"
  by (auto simp: repo_evolves_def repo_add_def repo_get_def map_of_snoc simp del: map_of_append split: if_splits)

lemma repo_evolves_remove: "repo_evolves s (repo_remove i s)"
  by (auto simp: repo_evolves_def repo_remove_def repo_get_def map_of_filter_neq)

definition evolves :: "app \<Rightarrow> app \<Rightarrow> bool" where
  "evolves a b \<longleftrightarrow> repo_evolves (route_repo a) (route_repo b) \<and> repo_evolves (package_repo a) (package_repo b) \<and>
     repo_evolves (customers_by_id (customer_dir a)) (customers_by_id (customer_dir b)) \<and> fleet b = fleet a"

lemma evolves_refl [simp]: "evolves a a"
  by (simp add: evolves_def)

lemma evolves_trans: "evolves a b \<Longrightarrow> evolves b c \<Longrightarrow> evolves a c"
  using repo_evolves_trans unfolding evolves_def by metis

text \<open>
  The recorder scope of an execution only grows while the execution runs: events and recorders are
  appended, and a recorder is never tracked twice.
\<close>

definition scope_evolves :: "event_scope option \<Rightarrow> event_scope option \<Rightarrow> bool" where
  "scope_evolves s t \<longleftrightarrow>
     (case s of
        None \<Rightarrow> t = None
      | Some x \<Rightarrow> (\<exists>y es rs. t = Some y \<and> scope_pending y = scope_pending x @ es \<and>
          scope_recorders y = scope_recorders x @ rs \<and>
          (distinct (scope_recorders x) \<longrightarrow> distinct (scope_recorders y))))"

lemma scope_evolves_refl [simp]: "scope_evolves s s"
  by (cases s) (auto simp: scope_evolves_def)

lemma scope_evolves_trans: "scope_evolves s t \<Longrightarrow> scope_evolves t u \<Longrightarrow> scope_evolves s u"
  by (cases s) (auto simp: scope_evolves_def)

lemma scope_evolves_ops [simp]:
  "scope_evolves (scope a) (scope (record_application_event e a))"
  "scope_evolves (scope a) (scope (track_domain_recorder r a))"
  by (cases "scope a"; auto simp: scope_evolves_def record_application_event_def track_domain_recorder_def
      scope_record_def scope_track_def)+

definition moves :: "app \<Rightarrow> app \<Rightarrow> bool" where
  "moves a b \<longleftrightarrow> evolves a b \<and> scope_evolves (scope a) (scope b)"

lemma moves_refl [simp]: "moves a a"
  by (simp add: moves_def)

lemma moves_trans: "moves a b \<Longrightarrow> moves b c \<Longrightarrow> moves a c"
  unfolding moves_def using evolves_trans scope_evolves_trans by metis

definition forward :: "'a usecase \<Rightarrow> bool" where
  "forward m \<longleftrightarrow> (\<forall>a. moves a (snd (m a)))"

named_theorems forward_intros \<open>composition rules for use cases that only move forward\<close>

lemma forward_bind [forward_intros]:
  assumes "forward m" and "\<And>x. forward (f x)"
  shows "forward (act_bind m f)"
  unfolding forward_def
proof (intro allI, rule act_bind_invariant)
  fix a show "moves a (snd (m a))" using assms(1) by (simp add: forward_def)
next
  fix a x b assume "moves a b"
  then show "moves a (snd (f x b))"
    using assms(2) [of x] moves_trans unfolding forward_def by blast
qed

lemma forward_catch [forward_intros]:
  assumes "forward m" and "\<And>e. forward (k e)"
  shows "forward (act_catch m k)"
proof -
  have "moves a (snd (act_catch m k a))" for a
  proof (cases "m a")
    case (Pair res b)
    have "moves a b" using assms(1) Pair unfolding forward_def by (metis snd_conv)
    then show ?thesis using assms(2) Pair moves_trans
      by (cases res) (auto simp: act_catch_def forward_def)
  qed
  then show ?thesis by (simp add: forward_def)
qed

lemma forward_basic [forward_intros]:
  "forward (act_return x)" "forward (act_raise e)" "forward (act_lift r)" "forward (on_store g)"
  "forward (act_modify (track_domain_recorder q))" "forward (act_modify id)" "forward (persisted out)"
  "forward (act_modify (record_application_event v))" "forward (get_or_not_found y)"
  by (auto simp: forward_def moves_def evolves_def on_store_def persisted_def get_or_not_found_def
      split: prod.split option.split)

lemma forward_requires_all [forward_intros]: "forward body \<Longrightarrow> forward (requires_all ps op res rid clock body)"
  by (auto simp: forward_def requires_all_def record_authorization_denied_def moves_def evolves_def split: option.split)

lemma forward_requires [forward_intros]: "forward body \<Longrightarrow> forward (requires p op res rid clock body)"
  unfolding requires_eq by (rule forward_requires_all)

lemma forward_read: "(\<And>a. forward (m a)) \<Longrightarrow> forward (\<lambda>a. m a a)"
  by (simp add: forward_def)

lemma forward_if [forward_intros]: "forward m \<Longrightarrow> forward m' \<Longrightarrow> forward (if b then m else m')"
  by simp

lemma forward_modify_if [forward_intros]:
  "forward (act_modify f) \<Longrightarrow> forward (act_modify g) \<Longrightarrow> forward (act_modify (if b then f else g))"
  by simp

lemma forward_modify_option [forward_intros]:
  "forward (act_modify f) \<Longrightarrow> (\<And>q. forward (act_modify (g q))) \<Longrightarrow>
     forward (act_modify (case x of None \<Rightarrow> f | Some q \<Rightarrow> g q))"
  by (cases x) simp_all

lemma forward_remove [forward_intros]:
  "forward (act_modify (\<lambda>a. a\<lparr>route_repo := repo_remove i (route_repo a)\<rparr>))"
  "forward (act_modify (\<lambda>a. a\<lparr>package_repo := repo_remove i (package_repo a)\<rparr>))"
  by (simp_all add: forward_def moves_def evolves_def repo_evolves_remove)

lemma route_init_id: "route_init locs dep (PyInt i) = Inr x \<Longrightarrow> route_id x = i"
  by (auto dest: route_init_ok(7))

lemma forward_route_repo_create [forward_intros]: "forward (route_repo_create locs dep wall)"
proof -
  have "moves a (snd (route_repo_create locs dep wall a))" for a
    by (auto simp: route_repo_create_def act_bind_def on_store_def route_create_def Let_def moves_def evolves_def
        route_repo_add_def dest!: route_init_id elim!: repo_evolves_add split: sum.splits prod.splits)
  then show ?thesis by (simp add: forward_def)
qed

lemma forward_package_repo_create [forward_intros]: "forward (package_repo_create start end_loc weight c wall)"
proof -
  have "moves a (snd (package_repo_create start end_loc weight c wall a))" for a
    by (auto simp: package_repo_create_def act_bind_def on_store_def package_create_def Let_def moves_def evolves_def
        package_repo_add_def package_init_def res_bind_Inr_iff domain_require_positive_int_iff
        elim!: repo_evolves_add split: sum.splits prod.splits)
  then show ?thesis by (simp add: forward_def)
qed

lemma forward_customer_service_create [forward_intros]: "forward (customer_service_create name email phone wall)"
proof -
  have "moves a (snd (customer_repo_create info wall a))" for info a
    by (auto simp: customer_repo_create_def act_bind_def on_store_def customer_create_def Let_def moves_def evolves_def
        customer_repo_add_def customer_init_def res_bind_Inr_iff domain_require_positive_int_iff
        elim!: repo_evolves_add split: sum.splits prod.splits if_splits)
  then have "forward (customer_repo_create info wall)" for info by (simp add: forward_def)
  then have "forward (act_bind (act_lift (contact_info_create (PyStr name) (PyStr email) (PyStr phone)))
      (\<lambda>info. customer_repo_create info wall))"
    by (intro forward_intros)
  then show ?thesis by (simp add: forward_def customer_service_create_def)
qed

lemma forward_resolve_customer [forward_intros]: "forward (resolve_customer name email phone clock)"
  using forward_customer_service_create
  by (auto simp: forward_def resolve_customer_def moves_def evolves_def split: sum.split option.split)

lemma forward_assign_and_update [forward_intros]: "forward (assign_and_update r p now persist)"
proof -
  have eta: "forward (\<lambda>a. case format_eta (store a) r p of Inl e \<Rightarrow> (Inl e, a) | Inr eta \<Rightarrow> (Inr (f a eta), a))"
    for f :: "app \<Rightarrow> eta_text \<Rightarrow> assignment_success"
    by (auto simp: forward_def split: sum.split)
  have "forward (\<lambda>a. assign_and_update r p now persist a)"
    unfolding assign_and_update_def Let_def by (rule forward_read, intro forward_intros eta)
  then show ?thesis .
qed

lemma forward_assign_one [forward_intros]: "forward (assign_one r i now persist res)"
proof -
  have "moves a (snd (assign_one r i now persist res a))" for a
  proof -
    have "moves a (snd (assign_and_update r p now persist a))" for p
      using forward_assign_and_update by (simp add: forward_def)
    then have "assign_and_update r p now persist a = (out, b) \<Longrightarrow> moves a b" for p out b
      by (metis snd_conv)
    moreover have "moves a a" by (simp add: moves_def evolves_def)
    ultimately show ?thesis
      by (auto simp: assign_one_def split: option.split prod.split sum.split error.split)
  qed
  then show ?thesis by (simp add: forward_def)
qed

lemma forward_assign_loop [forward_intros]: "forward (assign_loop r now persist is res)"
proof (induction "is" arbitrary: res)
  case Nil
  then show ?case by (simp add: forward_def moves_def evolves_def)
next
  case (Cons i "is")
  have "forward (act_bind (assign_one r i now (persist i) res) (assign_loop r now persist is))"
    by (intro forward_intros Cons.IH)
  then show ?case by (simp add: forward_def)
qed

lemma forward_fold_record [forward_intros]:
  "forward (act_modify (fold (\<lambda>e. record_application_event (f e)) es))"
proof -
  have "moves a (fold (\<lambda>e. record_application_event (f e)) es a)" for a
  proof (induction es arbitrary: a)
    case (Cons e es)
    have "moves a (record_application_event (f e) a)" by (simp add: moves_def evolves_def)
    then show ?case using Cons.IH by (auto intro: moves_trans)
  qed simp
  then show ?thesis by (simp add: forward_def)
qed

lemma forward_use_cases:
  "forward (create_route locs dep clock)"
  "forward (create_package start end_loc weight name email phone clock)"
  "forward (assign_packages rid pids clock persist)"
  "forward (assign_truck_to_route vid rid now clock out)"
  "forward (remove_package pid clock out)"
  "forward (remove_route rid clock out)"
  "forward (advance_world_state clock out)"
proof -
  show "forward (create_route locs dep clock)"
    unfolding create_route_def by (intro forward_intros)
  show "forward (create_package start end_loc weight name email phone clock)"
    unfolding create_package_def by (intro forward_intros)
  show "forward (assign_packages rid pids clock persist)"
    unfolding assign_packages_def by (rule forward_requires, rule forward_read, intro forward_intros)
  show "forward (assign_truck_to_route vid rid now clock out)"
    unfolding assign_truck_to_route_def by (rule forward_requires, rule forward_read, intro forward_intros)
  show "forward (remove_package pid clock out)"
    unfolding remove_package_def Let_def by (rule forward_requires_all, rule forward_read, intro forward_intros)
  show "forward (remove_route rid clock out)"
    unfolding remove_route_def by (rule forward_requires_all, rule forward_read, intro forward_intros)
  have "forward (\<lambda>a. advance_world_state clock out a)"
    unfolding advance_world_state_def by (rule forward_read, intro forward_intros)
  then show "forward (advance_world_state clock out)" .
qed

lemma step_evolves: "app_step a b \<Longrightarrow> evolves a b"
  by (induction rule: app_step.induct)
    (simp_all add: forward_use_cases [unfolded forward_def moves_def], simp_all add: evolves_def)

lemma steps_evolve: "app_step\<^sup>*\<^sup>* a b \<Longrightarrow> evolves a b"
  by (induction rule: rtranclp_induct) (auto intro: evolves_trans dest: step_evolves)

text \<open>An identifier that has named an object names that object or nothing, for ever.\<close>

lemma not_reused:
  assumes "repo_ok s" and "repo_get i s = Some r" and "repo_evolves s s1" and "repo_evolves s1 s2"
  shows "repo_get i s1 \<in> {Some r, None}" "repo_get i s1 = None \<Longrightarrow> repo_get i s2 = None"
proof -
  have i: "i < repo_next_id s" using repo_free [OF assms(1), of i] assms(2) by force
  then show "repo_get i s1 \<in> {Some r, None}" using assms(2,3) by (auto simp: repo_evolves_def)
  show "repo_get i s1 = None \<Longrightarrow> repo_get i s2 = None"
    using i assms(3,4) unfolding repo_evolves_def by (metis order.strict_trans2)
qed

lemma identifiers_not_reused:
  assumes ok: "app_ok a" and "app_step\<^sup>*\<^sup>* a b" "app_step\<^sup>*\<^sup>* b c"
  shows "repo_get i (route_repo a) = Some r \<Longrightarrow> repo_get i (route_repo b) = None \<Longrightarrow> repo_get i (route_repo c) = None"
    "repo_get i (package_repo a) = Some r \<Longrightarrow> repo_get i (package_repo b) = None \<Longrightarrow> repo_get i (package_repo c) = None"
    "repo_get i (route_repo a) = Some r \<Longrightarrow> repo_get i (route_repo b) \<in> {Some r, None}"
    "repo_get i (package_repo a) = Some r \<Longrightarrow> repo_get i (package_repo b) \<in> {Some r, None}"
proof -
  note e = steps_evolve [OF assms(2), unfolded evolves_def] steps_evolve [OF assms(3), unfolded evolves_def]
  have k: "repo_ok (route_repo a)" "repo_ok (package_repo a)"
    using app_okD(1,2) [OF ok] by (simp_all add: keyed_def)
  show "repo_get i (route_repo a) = Some r \<Longrightarrow> repo_get i (route_repo b) = None \<Longrightarrow> repo_get i (route_repo c) = None"
    "repo_get i (route_repo a) = Some r \<Longrightarrow> repo_get i (route_repo b) \<in> {Some r, None}"
    using not_reused [OF k(1)] e by blast+
  show "repo_get i (package_repo a) = Some r \<Longrightarrow> repo_get i (package_repo b) = None \<Longrightarrow> repo_get i (package_repo c) = None"
    "repo_get i (package_repo a) = Some r \<Longrightarrow> repo_get i (package_repo b) \<in> {Some r, None}"
    using not_reused [OF k(2)] e by blast+
qed

section \<open>Refused calls\<close>

text \<open>Without the permission nothing happens but the recording of one denial.\<close>

definition refused :: "permission list \<Rightarrow> auth_operation \<Rightarrow> resource_type \<Rightarrow> int option \<Rightarrow> time \<Rightarrow> 'a usecase \<Rightarrow> app \<Rightarrow> bool" where
  "refused ps op res rid clock m a \<longleftrightarrow>
     (\<exists>missing. missing \<noteq> [] \<and> set missing \<subseteq> set ps \<and> (\<forall>p \<in> set missing. \<not> has_permission (identity a) p) \<and>
        m a = (Inl PermissionError, record_authorization_denied op res rid missing clock a))"

lemma requires_all_refused:
  assumes "p \<in> set ps" and "\<not> has_permission (identity a) p"
  shows "refused ps op res rid clock (requires_all ps op res rid clock body) a"
proof -
  obtain ms where ms: "missing_permissions (identity a) ps = Some ms"
  proof (cases "missing_permissions (identity a) ps")
    case None
    then show ?thesis using missing_None_iff [of ps "identity a"] assms by force
  qed simp
  have "ms \<noteq> []" using ms assms(1)
    by (auto simp: missing_permissions_def Let_def split: option.splits if_splits)
  then show ?thesis
    using missing_Some [OF ms] ms by (auto simp: refused_def requires_all_def)
qed

lemma requires_refused:
  "\<not> has_permission (identity a) p \<Longrightarrow> refused [p] op res rid clock (requires p op res rid clock body) a"
  unfolding requires_eq by (rule requires_all_refused) simp

lemma requires_two_refused:
  "\<not> (has_permission (identity a) p \<and> has_permission (identity a) q) \<Longrightarrow>
     refused [p, q] op res rid clock (requires_all [p, q] op res rid clock body) a"
  using requires_all_refused [of p "[p, q]" a] requires_all_refused [of q "[p, q]" a] by auto

end
