(* ===== verification/SampleApp.thy ===== *)
theory SampleApp
  imports Sample Reachability
begin

text \<open>
  A concrete application state for the witnesses: the sample world, registered under the identifiers
  of its entities, with a manager signed in.
\<close>

definition sample_manager :: principal where
  "sample_manager = \<lparr>user_id = 1, username = ''boss'', principal_name = ''Boss'', principal_email = ''b@x.io'',
     principal_phone = ''0400000001'', principal_role = MANAGER\<rparr>"

definition sample_app :: app where
  "sample_app =
     \<lparr>store = upd_customer 0 (\<lambda>x. x\<lparr>delivery_packages := [1]\<rparr>) sample_heap,
      route_repo = \<lparr>entries = [(1, 0)], repo_next_id = 2\<rparr>,
      package_repo = \<lparr>entries = [(1, 1)], repo_next_id = 2\<rparr>,
      customer_dir = \<lparr>customers_by_id = \<lparr>entries = [(1, 0)], repo_next_id = 2\<rparr>,
        id_by_email = [''ada@x.io'' \<mapsto> 1], id_by_phone = [''0400000000'' \<mapsto> 1]\<rparr>,
      fleet = [2], identity = \<lparr>session_user = Some sample_manager, bound_user = None\<rparr>,
      scope = None, unscoped_events = []\<rparr>"

lemma sample_app_simps [simp]:
  "store sample_app = upd_customer 0 (\<lambda>x. x\<lparr>delivery_packages := [1]\<rparr>) sample_heap"
  "repo_get i (route_repo sample_app) = (if i = 1 then Some 0 else None)"
  "repo_get i (package_repo sample_app) = (if i = 1 then Some 1 else None)"
  "fleet sample_app = [2]" "refs (route_repo sample_app) = {0}" "refs (package_repo sample_app) = {1}"
  "refs (customers_by_id (customer_dir sample_app)) = {0}"
  "identity sample_app = \<lparr>session_user = Some sample_manager, bound_user = None\<rparr>"
  by (auto simp: sample_app_def repo_get_def refs_def)

lemma sample_contact_ok: "contact_ok sample_contact"
  by code_simp

lemma sample_app_ok: "app_ok sample_app"
proof -
  have "world_ok {0} {1} {2} (upd_customer 0 (\<lambda>x. x\<lparr>delivery_packages := [1]\<rparr>) sample_heap)"
    by (rule world_ok_cong [OF sample_world]) simp_all
  moreover have "index_ok (customer_email (store sample_app)) (customers_by_id (customer_dir sample_app))
      (id_by_email (customer_dir sample_app))"
    by (auto simp: index_ok_def customer_email_def sample_app_def sample_customer_def sample_contact_def repo_get_def
        split: if_splits)
  moreover have "index_ok (customer_phone (store sample_app)) (customers_by_id (customer_dir sample_app))
      (id_by_phone (customer_dir sample_app))"
    by (auto simp: index_ok_def customer_phone_def sample_app_def sample_customer_def sample_contact_def repo_get_def
        split: if_splits)
  moreover have "keyed f (route_repo sample_app) \<longleftrightarrow> f 0 = 1" "keyed f (package_repo sample_app) \<longleftrightarrow> f 1 = 1" for f
    by (auto simp: keyed_def) (auto simp: sample_app_def repo_ok_def)
  moreover have "repo_ok (customers_by_id (customer_dir sample_app))"
    "repo_get i (customers_by_id (customer_dir sample_app)) = (if i = 1 then Some 0 else None)" for i
    by (simp_all add: sample_app_def repo_ok_def repo_get_def)
  ultimately show ?thesis
    using sample_contact_ok
    by (auto simp: app_ok_def customers_ok_def owners_ok_def fleet_ok_def)
      (simp_all add: sample_route_def sample_package_def sample_customer_def)
qed

end
