(* ===== verification/Outcomes.thy ===== *)
theory Outcomes
  imports SampleApp
begin

text \<open>
  What the use cases achieve when they are permitted: removals are complete, creations are linked on
  both sides, the assignment report accounts for every requested package, and the heartbeat brings
  every route that has arrived to its end.
\<close>

section \<open>Permitted calls\<close>

lemma requires_all_permitted:
  assumes "ps \<noteq> []" and "\<forall>p \<in> set ps. has_permission (identity a) p"
  shows "requires_all ps op res rid clock body a = body a"
  using missing_None_iff [OF assms(1), of "identity a"] assms(2) by (simp add: requires_all_def)

lemma requires_permitted:
  "has_permission (identity a) p \<Longrightarrow> requires p op res rid clock body a = body a"
  unfolding requires_eq by (rule requires_all_permitted) simp_all

lemma requires_all_Inr:
  "requires_all ps op res rid clock body a = (Inr x, b) \<Longrightarrow> body a = (Inr x, b)"
  by (simp add: requires_all_def split: option.splits)

section \<open>Removal\<close>

lemma remove_package_done:
  assumes ok: "app_ok a" and perm: "has_permission (identity a) PACKAGE_REMOVE" "has_permission (identity a) PACKAGE_VIEW"
    and live: "repo_get pid (package_repo a) = Some p"
  shows "\<exists>b. remove_package pid clock None a = (Inr (p, pkg_customer (packages (store a) p), pkg_route (packages (store a) p)), b) \<and>
    app_ok b \<and> live_packages b = live_packages a - {p} \<and> live_routes b = live_routes a \<and>
    live_customers b = live_customers a"
proof -
  obtain h where links: "remove_package_links p clock (store a) = (Inr (), h)"
    and ok': "app_ok (a\<lparr>store := h, package_repo := repo_remove pid (package_repo a)\<rparr>)"
    by (rule remove_package_links_step [OF ok live])
  have "on_store (remove_package_links p clock) a = (Inr (), a\<lparr>store := h\<rparr>)"
    using links by (simp add: on_store_def)
  then show ?thesis
    using ok' live perm live_minus [OF app_okD(2) [OF ok] live]
    unfolding remove_package_def
    by (subst requires_all_permitted, simp, simp)
      (cases "pkg_route (packages (store a) p)",
       simp_all add: act_bind_def act_catch_def persisted_def get_or_not_found_def Let_def)
qed

lemma removed_package_unlinked:
  assumes "app_ok b" and "p \<notin> live_packages b"
  shows "\<forall>r \<in> live_routes b. p \<notin> set (route_packages (routes (store b) r))"
    "\<forall>c \<in> live_customers b. p \<notin> set (delivery_packages (customers (store b) c))"
  using assms(2) route_linksD(3) [OF world_okD(1) [OF app_okD(4) [OF assms(1)]]]
    app_okD(5) [OF assms(1)] by (auto simp: owners_ok_def)

lemma remove_route_done:
  assumes ok: "app_ok a" and perm: "has_permission (identity a) ROUTE_REMOVE" "has_permission (identity a) ROUTE_VIEW"
    and live: "repo_get rid (route_repo a) = Some r"
  shows "\<exists>b. remove_route rid clock None a = (Inr r, b) \<and> app_ok b \<and> live_routes b = live_routes a - {r} \<and>
    live_packages b = live_packages a \<and> fleet b = fleet a \<and> removal_region r (store a) (store b)"
proof -
  obtain res h where run: "remove_route_links r clock None (store a) = (res, h)" by fastforce
  note step = remove_route_links_step [OF app_okD(4) [OF ok] refsI [OF live] run]
  then obtain u where u: "res = Inr u" by (cases res) auto
  have ok': "app_ok (a\<lparr>store := h, route_repo := repo_remove rid (route_repo a)\<rparr>)"
    using app_ok_remove_route [OF ok live] step u by simp
  have "on_store (remove_route_links r clock None) a = (Inr u, a\<lparr>store := h\<rparr>)"
    using run u by (simp add: on_store_def)
  then show ?thesis
    using ok' live perm live_minus [OF app_okD(1) [OF ok] live] step u
    unfolding remove_route_def
    by (subst requires_all_permitted, simp, simp) (simp add: act_bind_def get_or_not_found_def)
qed

text \<open>Whatever was on the removed route is free again.\<close>

lemma removed_route_freed:
  assumes ok: "app_ok a" "app_ok b" and r: "r \<in> live_routes a"
    and live: "live_routes b = live_routes a - {r}" "live_packages b = live_packages a" "fleet b = fleet a"
    and reg: "removal_region r (store a) (store b)"
  shows "p \<in> set (route_packages (routes (store a) r)) \<Longrightarrow>
      pkg_route (packages (store b) p) = None \<and> pkg_status (packages (store b) p) = TODO \<and>
      current_location (packages (store b) p) = pkg_start (packages (store b) p)"
    and "route_truck (routes (store a) r) = Some t \<Longrightarrow>
      truck_route (trucks (store b) t) = None \<and> truck_status (trucks (store b) t) = FREE"
proof -
  note wa = app_okD(4) [OF ok(1)] and wb = app_okD(4) [OF ok(2)]
  have other: "routes (store b) q = routes (store a) q" if "q \<noteq> r" for q
    using reg that by (simp add: removal_region_def)
  note la = route_linksD [OF world_okD(1) [OF wa r]]
  show "pkg_route (packages (store b) p) = None \<and> pkg_status (packages (store b) p) = TODO \<and>
      current_location (packages (store b) p) = pkg_start (packages (store b) p)"
    if p: "p \<in> set (route_packages (routes (store a) r))"
  proof -
    have "package_links_ok (live_routes b) (store b) p"
      using world_okD(2) [OF wb] la(3) [OF p] live(2) by simp
    moreover have "pkg_route (packages (store b) p) \<noteq> Some q" for q
    proof
      assume q: "pkg_route (packages (store b) p) = Some q"
      then have "q \<in> live_routes b" "p \<in> set (route_packages (routes (store b) q))"
        using calculation by (auto simp: package_links_ok_def)
      then have "q \<noteq> r" "q \<in> live_routes a" "p \<in> set (route_packages (routes (store a) q))"
        using live(1) other by auto
      then show False
        using route_linksD(4) [OF world_okD(1) [OF wa]] la(4) [OF p] by fastforce
    qed
    ultimately show ?thesis by (auto simp: package_links_ok_def split: option.splits)
  qed
  show "truck_route (trucks (store b) t) = None \<and> truck_status (trucks (store b) t) = FREE"
    if t: "route_truck (routes (store a) r) = Some t"
  proof -
    have "truck_links_ok (live_routes b) (store b) t"
      using world_okD(3) [OF wb] la(5) [OF t] live(3) by simp
    moreover have "truck_route (trucks (store b) t) \<noteq> Some q" for q
    proof
      assume q: "truck_route (trucks (store b) t) = Some q"
      then have "q \<in> live_routes b" "route_truck (routes (store b) q) = Some t"
        using calculation by (auto simp: truck_links_ok_def)
      then have "q \<noteq> r" "q \<in> live_routes a" "route_truck (routes (store a) q) = Some t"
        using live(1) other by auto
      then show False
        using route_linksD(5) [OF world_okD(1) [OF wa]] la(5) [OF t] by fastforce
    qed
    ultimately show ?thesis by (auto simp: truck_links_ok_def split: option.splits)
  qed
qed

section \<open>Arrival\<close>

lemma package_arrived:
  assumes ok: "schedule_ok s" and sch: "schedule x = Some s" and len: "length (path x) = length (sched_stops s)"
    and now: "sched_eta_final s \<le> now" and settled: "package_settled x now y"
  shows "pkg_status y = DONE \<and> current_location y = pkg_end y"
proof -
  obtain i j where ij: "i < j" "j < length (sched_stops s)" "package_placed s i j now y"
    using settled sch len by (auto simp: package_settled_def)
  have "stop_arrival_at (sched_stops s ! k) \<le> now" if "k < length (sched_stops s)" for k
    using arrival_le_eta [OF ok that] now by simp
  then show ?thesis using ij by (simp add: package_placed_def Let_def not_less [symmetric] split: if_splits)
qed

lemma heartbeat_completes:
  assumes ok: "app_ok a" and r: "r \<in> live_routes a" and sch: "schedule (routes (store a) r) = Some s"
    and now: "sched_eta_final s \<le> clock"
  shows "\<exists>sm b. advance_world_state clock None a = (Inr sm, b) \<and> app_ok b \<and>
    route_status (routes (store b) r) = COMPLETED \<and> route_truck (routes (store b) r) = None \<and>
    route_packages (routes (store b) r) = route_packages (routes (store a) r) \<and>
    (\<forall>p \<in> set (route_packages (routes (store a) r)). pkg_status (packages (store b) p) = DONE \<and>
       current_location (packages (store b) p) = pkg_end (packages (store b) p))"
proof -
  let ?rs = "repo_list_all (route_repo a)"
  note w = app_okD(4) [OF ok]
  have rs: "set ?rs = live_routes a" "distinct ?rs"
    using live_list_all(1) [OF ok] distinct_repo_list_all [OF app_okD(1) [OF ok]] by simp_all
  obtain res h where run: "heartbeat_advance ?rs clock None (store a) = (res, h)" by fastforce
  note step = heartbeat_advance_step [OF w _ rs(2) run]
  then obtain sm where sm: "res = Inr sm" "reconcile_routes ?rs clock True (store a) = (Inr sm, h)"
    using rs(1) by (cases res) auto
  have rok: "\<forall>q \<in> set ?rs. route_ok (routes (store a) q)"
    using rs(1) world_okD(1) [OF w] route_linksD(1) by blast
  have "heartbeat_region ?rs (store a) h"
    using reconcile_loop_region [OF rok rs(2)] sm(2) by (simp add: reconcile_routes_def)
  then have same: "schedule (routes h r) = Some s" "path (routes h r) = path (routes (store a) r)"
    "route_packages (routes h r) = route_packages (routes (store a) r)"
    using sch by (simp_all add: heartbeat_region_def reconciled_route_frame_def)
  have sok: "schedule_ok s" "length (path (routes h r)) = length (sched_stops s)"
    using route_okD(3,5) [of "routes (store a) r" s] rok rs(1) r sch same(2)
    by (metis length_map route_okD(3) route_okD(5))+
  have comp: "fst (compute_route_status (routes h r) clock) = COMPLETED"
    using departure_before_eta [OF sok(1)] now by (simp add: compute_status_scheduled [OF same(1)])
  have "at_rest r clock True h"
    using reconcile_loop_rests [OF w _ rs(2), of clock True empty_summary sm h] sm(2) r rs(1)
    by (simp add: reconcile_routes_def)
  then have set: "settled r clock True h" using comp by (simp add: at_rest_def regressed_def)
  have status: "route_status (routes h r) = COMPLETED" using set comp by (simp add: settled_def status_settled_def)
  have truck: "route_truck (routes h r) = None"
    using set now same(1) by (auto simp: settled_def truck_settled_def split: option.splits)
  have pkgs: "\<forall>p \<in> set (route_packages (routes h r)). pkg_status (packages h p) = DONE \<and>
       current_location (packages h p) = pkg_end (packages h p)"
    using set package_arrived [OF sok(1) same(1) sok(2) now] by (simp add: settled_def)
  obtain b where b: "advance_world_state clock None a = (Inr sm, b)" "store b = h"
  proof (rule that)
    let ?c = "fold (\<lambda>e. record_application_event (Reconciled e)) (reconciliation_events sm) (a\<lparr>store := h\<rparr>)"
    show "advance_world_state clock None a = (Inr sm, (if state_changed sm
        then record_application_event (world_state_advanced clock sm) else id) ?c)"
      using run sm(1) by (simp add: advance_world_state_def act_bind_def on_store_def)
    have "store (fold (\<lambda>e. record_application_event (Reconciled e)) es c) = store c" for es c
      by (induction es arbitrary: c) simp_all
    then show "store ((if state_changed sm then record_application_event (world_state_advanced clock sm) else id) ?c) = h"
      by simp
  qed
  have "app_ok b" using preservesD [OF preserves_advance_world_state ok, of clock None] b(1) by simp
  then show ?thesis using b status truck pkgs same(3) by simp
qed

section \<open>The assignment report\<close>

lemma unique_ids_ok: "set (unique_ids seen is) = set is - seen \<and> distinct (unique_ids seen is)"
  by (induction seen "is" rule: unique_ids.induct) auto

definition report_ids :: "assignment_result \<Rightarrow> int list" where
  "report_ids res = map success_package_id (successes res) @ map error_package_id (errors res)"

lemma format_eta_total:
  assumes "world_ok R P T h" and "r \<in> R" and "p \<in> P" and "pkg_route (packages h p) = Some r"
  shows "\<exists>eta. format_eta h r p = Inr eta"
proof (cases "schedule (routes h r)")
  case None
  then show ?thesis by (simp add: format_eta_def departure_None)
next
  case (Some s)
  have on: "p \<in> set (route_packages (routes h r))"
    using world_okD(2) [OF assms(1,3)] assms(4) by (simp add: package_links_ok_def)
  note l = world_okD(1) [OF assms(1,2)]
  have "path_includes_in_order (path (routes h r)) (PyStr (pkg_start (packages h p)))
      (PyStr (pkg_end (packages h p))) = Inr True"
    using l on by (simp add: route_links_ok_def)
  moreover have "location_code (PyStr (pkg_end (packages h p))) = Inr (pkg_end (packages h p))"
    "location_code (PyStr (pkg_start (packages h p))) = Inr (pkg_start (packages h p))"
    using world_okD(2) [OF assms(1,3)] by (auto simp: package_links_ok_def package_ok_def intro: locations_are_codes)
  ultimately have e: "index_dict (path (routes h r)) (pkg_end (packages h p)) = None \<Longrightarrow> False"
    by (simp add: path_includes_in_order_def del: index_dict_None_iff split: option.splits)
  have "pkg_end (packages h p) \<in> set (path (routes h r))"
    by (rule ccontr) (rule e, simp)
  moreover from this have "location_code (PyStr (pkg_end (packages h p))) = Inr (pkg_end (packages h p))"
    by (rule path_ok_code [OF route_okD(2) [OF route_linksD(1) [OF l]]])
  ultimately have "\<exists>t. arrival_time_at (routes h r) (PyStr (pkg_end (packages h p))) = Inr t"
    using sched_arrival_on_path [OF route_linksD(1) [OF l] Some] Some by (auto simp: arrival_time_at_def)
  then show ?thesis by (auto simp: format_eta_def)
qed

lemma assign_and_update_result:
  assumes ok: "app_ok a" and r: "r \<in> live_routes a" and p: "p \<in> live_packages a"
    and free: "pkg_route (packages (store a) p) = None"
  shows "(\<exists>m. assign_and_update r p now None a = (Inl (DomainConflictError m), a)) \<or>
    (\<exists>s eta e. assign_and_update r p now None a = (Inr s, a\<lparr>store := assigned r p eta e (store a)\<rparr>) \<and>
       success_package_id s = package_id (packages (store a) p))"
proof -
  note w = app_okD(4) [OF ok]
  from assign_package_effect [OF w r p free, of now now] show ?thesis
  proof (elim disjE exE conjE)
    fix m assume "assign_package r p now now (store a) = (Inl (DomainConflictError m), store a)"
    then show ?thesis by (simp add: assign_and_update_def Let_def act_bind_def act_catch_def on_store_def)
  next
    fix eta e
    let ?h = "assigned r p eta e (store a)"
    assume *: "assign_package r p now now (store a) = (Inr (), ?h)"
      and w': "world_ok (live_routes a) (live_packages a) (set (fleet a)) ?h"
    obtain v where "format_eta ?h r p = Inr v"
      using format_eta_total [OF w' r p] by (auto simp: assigned_store)
    then have "assign_and_update r p now None a =
        (Inr \<lparr>success_package_id = package_id (packages ?h p), success_route_id = route_id (routes ?h r),
            success_eta = v, success_route = r\<rparr>, a\<lparr>store := ?h\<rparr>)"
      using * by (simp add: assign_and_update_def Let_def act_bind_def act_catch_def on_store_def persisted_def)
    then show ?thesis by (auto simp: assigned_store)
  qed
qed

text \<open>One identifier of the request adds exactly one entry under its own identifier.\<close>

definition on_route :: "rref \<Rightarrow> app \<Rightarrow> int \<Rightarrow> bool" where
  "on_route r a i \<longleftrightarrow> (\<exists>p. repo_get i (package_repo a) = Some p \<and> pkg_route (packages (store a) p) = Some r)"

lemma assign_one_report:
  assumes ok: "app_ok a" and r: "r \<in> live_routes a"
  shows "\<exists>res' b. assign_one r i now None res a = (Inr res', b) \<and> store_step a b \<and>
    (\<forall>j. on_route r a j \<longrightarrow> on_route r b j) \<and>
    ((\<exists>s. res' = add_success s res \<and> success_package_id s = i \<and> on_route r b i) \<or>
     (\<exists>e. res' = add_error e res \<and> error_package_id e = i \<and> b = a))"
proof (cases "repo_get i (package_repo a)")
  case None
  then show ?thesis
    using store_step_refl [OF ok] by (auto simp: assign_one_def missing_package_error_def)
next
  case (Some p)
  have p: "p \<in> live_packages a" using Some by (rule refsI)
  have pid: "package_id (packages (store a) p) = i" using app_okD(2) [OF ok] Some by (simp add: keyed_def)
  show ?thesis
  proof (cases "assigned_package_error (store a) p")
    case (Some e)
    then have "error_package_id e = i" using pid by (auto simp: assigned_package_error_def split: option.splits)
    then show ?thesis using Some \<open>repo_get i (package_repo a) = Some p\<close> store_step_refl [OF ok]
      by (auto simp: assign_one_def)
  next
    case None
    then have free: "pkg_route (packages (store a) p) = None"
      by (intro unassigned_route [OF app_okD(4) [OF ok] p])
        (simp add: assigned_package_error_def split: option.splits)
    from assign_and_update_result [OF ok r p free, of now] show ?thesis
    proof (elim disjE exE conjE)
      fix m assume "assign_and_update r p now None a = (Inl (DomainConflictError m), a)"
      then show ?thesis using None \<open>repo_get i (package_repo a) = Some p\<close> store_step_refl [OF ok]
        by (auto simp: assign_one_def)
    next
      fix s eta e
      assume run: "assign_and_update r p now None a = (Inr s, a\<lparr>store := assigned r p eta e (store a)\<rparr>)"
        and s: "success_package_id s = package_id (packages (store a) p)"
      let ?b = "a\<lparr>store := assigned r p eta e (store a)\<rparr>"
      have "store_step a ?b" using assign_and_update_step [OF ok r p free run] by simp
      moreover have "on_route r ?b i" "on_route r a j \<Longrightarrow> on_route r ?b j" for j
        using \<open>repo_get i (package_repo a) = Some p\<close> by (auto simp: on_route_def assigned_store)
      ultimately show ?thesis using run s pid None \<open>repo_get i (package_repo a) = Some p\<close>
        by (auto simp: assign_one_def)
    qed
  qed
qed

lemma distinct_between: "distinct (xs @ ys) \<Longrightarrow> i \<notin> set (xs @ ys) \<Longrightarrow> distinct (xs @ i # ys)"
  by auto

lemma report_add_success:
  "set (report_ids (add_success s res)) = insert (success_package_id s) (set (report_ids res))"
  "distinct (report_ids res) \<Longrightarrow> success_package_id s \<notin> set (report_ids res) \<Longrightarrow>
     distinct (report_ids (add_success s res))"
  using distinct_between [of "map success_package_id (successes res)" "map error_package_id (errors res)"]
  by (simp_all add: report_ids_def add_success_def)

lemma report_add_error:
  "set (report_ids (add_error e res)) = insert (error_package_id e) (set (report_ids res))"
  "distinct (report_ids res) \<Longrightarrow> error_package_id e \<notin> set (report_ids res) \<Longrightarrow>
     distinct (report_ids (add_error e res))"
  by (auto simp: report_ids_def add_error_def)

lemma assign_loop_report:
  assumes "app_ok a" and "r \<in> live_routes a" and "distinct is" and "set is \<inter> set (report_ids res) = {}"
    and "distinct (report_ids res)" and "\<forall>s \<in> set (successes res). on_route r a (success_package_id s)"
  shows "\<exists>res' b. assign_loop r now (\<lambda>_. None) is res a = (Inr res', b) \<and> store_step a b \<and>
    set (report_ids res') = set (report_ids res) \<union> set is \<and> distinct (report_ids res') \<and>
    (\<forall>s \<in> set (successes res'). on_route r b (success_package_id s))"
  using assms
proof (induction "is" arbitrary: res a)
  case Nil
  then show ?case by (auto simp: store_step_refl)
next
  case (Cons i "is")
  obtain res1 b1 where one: "assign_one r i now None res a = (Inr res1, b1)" "store_step a b1"
    and keep: "\<forall>j. on_route r a j \<longrightarrow> on_route r b1 j"
    and res1: "(\<exists>s. res1 = add_success s res \<and> success_package_id s = i \<and> on_route r b1 i) \<or>
     (\<exists>e. res1 = add_error e res \<and> error_package_id e = i \<and> b1 = a)"
    using assign_one_report [OF Cons.prems(1,2), of i now res] by blast
  have ids: "set (report_ids res1) = insert i (set (report_ids res))" "distinct (report_ids res1)"
    using res1 Cons.prems(4,5) report_add_success report_add_error by auto
  have on: "\<forall>s \<in> set (successes res1). on_route r b1 (success_package_id s)"
    using res1 keep Cons.prems(6) by (auto simp: add_success_def add_error_def)
  note b1 = store_stepD [OF one(2)]
  obtain res' b where rest: "assign_loop r now (\<lambda>_. None) is res1 b1 = (Inr res', b)" "store_step b1 b"
    "set (report_ids res') = set (report_ids res1) \<union> set is" "distinct (report_ids res')"
    "\<forall>s \<in> set (successes res'). on_route r b (success_package_id s)"
    using Cons.IH [of b1 res1] b1 ids on Cons.prems(2-4) by auto
  then show ?case
    using one ids(1) store_step_trans [OF one(2) rest(2)] by (auto simp: act_bind_def)
qed

lemma assign_packages_report:
  assumes ok: "app_ok a" and perm: "has_permission (identity a) ROUTE_ASSIGN_PACKAGE"
    and live: "repo_get rid (route_repo a) = Some r"
  shows "\<exists>res b. assign_packages rid pids clock (\<lambda>_. None) a = (Inr res, b) \<and> app_ok b \<and>
    set (report_ids res) = set pids \<and> distinct (report_ids res) \<and>
    (\<forall>s \<in> set (successes res). on_route r b (success_package_id s))"
proof -
  have "\<exists>res b. assign_loop r clock (\<lambda>_. None) (unique_ids {} pids) \<lparr>successes = [], errors = []\<rparr> a = (Inr res, b) \<and>
    store_step a b \<and> set (report_ids res) = set pids \<and> distinct (report_ids res) \<and>
    (\<forall>s \<in> set (successes res). on_route r b (success_package_id s))"
    using assign_loop_report [OF ok refsI [OF live], of "unique_ids {} pids" "\<lparr>successes = [], errors = []\<rparr>" clock]
      unique_ids_ok [of "{}" pids] by (simp add: report_ids_def)
  then obtain res b where *: "assign_loop r clock (\<lambda>_. None) (unique_ids {} pids) \<lparr>successes = [], errors = []\<rparr> a = (Inr res, b)"
    "store_step a b" "set (report_ids res) = set pids" "distinct (report_ids res)"
    "\<forall>s \<in> set (successes res). on_route r b (success_package_id s)" by blast
  let ?b = "(if successes res \<noteq> [] then track_domain_recorder (RouteRec r) else id) b"
  have "assign_packages rid pids clock (\<lambda>_. None) a = (Inr res, ?b)"
    unfolding assign_packages_def
    by (subst requires_permitted [OF perm]) (use * live in \<open>simp add: act_bind_def get_or_not_found_def\<close>)
  moreover have "on_route r ?b i = on_route r b i" for i by (simp add: on_route_def)
  ultimately show ?thesis using * store_stepD(1) [OF *(2)] by auto
qed

section \<open>The package request\<close>

lemma package_repo_create_effect:
  assumes ok: "app_ok a" and weight: "pyval_ok weight"
    and run: "package_repo_create start end_loc weight c wall a = (Inr p, b)"
  shows "p \<notin> live_packages a" "live_packages b = insert p (live_packages a)"
    "pkg_customer (packages (store b) p) = c" "pkg_route (packages (store b) p) = None"
    "pkg_status (packages (store b) p) = TODO"
    "location_code (PyStr start) = Inr (pkg_start (packages (store b) p))"
    "location_code (PyStr end_loc) = Inr (pkg_end (packages (store b) p))"
proof -
  let ?i = "repo_next_id (package_repo a)"
  from run obtain x e s where x: "package_init (PyStr start) (PyStr end_loc) weight c (PyInt ?i) PyNone = Inr x"
    and p: "p = next_ref (store a)" and at: "packages (store b) p = x\<lparr>pkg_events := pkg_events x @ [e]\<rparr>"
    and s: "repo_add (package_id x) p (package_repo a) = Inr s" "package_repo b = s"
    by (auto simp: package_repo_create_def act_bind_def on_store_def package_create_def Let_def package_repo_add_def
        split: sum.splits prod.splits)
  show "p \<notin> live_packages a" using world_okD(7) [OF app_okD(4) [OF ok]] p by auto
  show "live_packages b = insert p (live_packages a)"
    using s keyed_add(2) [where id_of = "\<lambda>q. package_id (((packages (store a))(p := x)) q)" and s = "package_repo a" and r = p and s' = s]
      keyed_cong [where s = "package_repo a" and f = "\<lambda>q. package_id (((packages (store a))(p := x)) q)"
        and g = "\<lambda>q. package_id (packages (store a) q)"] app_okD(2) [OF ok] \<open>p \<notin> live_packages a\<close>
    by fastforce
  show "pkg_customer (packages (store b) p) = c" "pkg_route (packages (store b) p) = None"
    "pkg_status (packages (store b) p) = TODO"
    "location_code (PyStr start) = Inr (pkg_start (packages (store b) p))"
    "location_code (PyStr end_loc) = Inr (pkg_end (packages (store b) p))"
    using x by (auto simp: at package_init_def res_bind_Inr_iff)
qed

lemma customer_service_create_packages:
  "package_repo (snd (customer_service_create name email phone clock a)) = package_repo a"
  "route_repo (snd (customer_service_create name email phone clock a)) = route_repo a"
  by (auto simp: customer_service_create_def customer_repo_create_def act_bind_def on_store_def
      split: prod.splits sum.splits)

lemma resolve_customer_packages:
  "resolve_customer name email phone clock a = (res, b) \<Longrightarrow> package_repo b = package_repo a"
  using customer_service_create_packages(1) [of name email phone clock a]
  by (auto simp: resolve_customer_def split: sum.splits option.splits)

lemma create_package_done:
  assumes ok: "app_ok a" and weight: "pyval_ok weight" and perm: "has_permission (identity a) PACKAGE_CREATE"
    and run: "create_package start end_loc weight name email phone clock a = (res, b)"
  shows "app_ok b \<and> (case res of
      Inl e \<Rightarrow> (e = DomainValidationError \<or> (\<exists>m. e = ConflictError m)) \<and> live_packages b = live_packages a
    | Inr p \<Rightarrow> p \<notin> live_packages a \<and> live_packages b = insert p (live_packages a) \<and>
        pkg_customer (packages (store b) p) \<in> live_customers b \<and> pkg_route (packages (store b) p) = None \<and>
        pkg_status (packages (store b) p) = TODO \<and>
        location_code (PyStr start) = Inr (pkg_start (packages (store b) p)) \<and>
        location_code (PyStr end_loc) = Inr (pkg_end (packages (store b) p)))"
proof -
  have okb: "app_ok b" using preservesD [OF preserves_create_package [OF weight] ok] run by (metis snd_conv)
  let ?body = "\<lambda>s e. act_bind (resolve_customer name email phone clock) (\<lambda>c.
        act_bind (package_repo_create s e weight c clock) (\<lambda>p.
        act_bind (on_store (customer_add_package c p)) (\<lambda>_.
        act_bind (act_modify (track_domain_recorder (PackageRec p))) (\<lambda>_.
        act_bind (act_modify (track_domain_recorder (CustomerRec c))) (\<lambda>_. act_return p)))))"
  have run': "act_bind (act_lift (location_code (PyStr start))) (\<lambda>s.
      act_bind (act_lift (location_code (PyStr end_loc))) (\<lambda>e. ?body s e)) a = (res, b)"
    using run by (simp add: create_package_def requires_permitted [OF perm])
  show ?thesis
  proof (cases "location_code (PyStr start)")
    case (Inl e)
    then show ?thesis using run' okb location_code_Inl by (auto simp: act_bind_def)
  next
    case s: (Inr s)
    show ?thesis
    proof (cases "location_code (PyStr end_loc)")
      case (Inl e)
      then show ?thesis using run' okb s location_code_Inl by (auto simp: act_bind_def)
    next
      case e: (Inr e)
      obtain rc b1 where r: "resolve_customer name email phone clock a = (rc, b1)" by fastforce
      note rcase = resolve_customer_cases [OF ok r] and same = resolve_customer_packages [OF r]
      show ?thesis
      proof (cases rc)
        case (Inl err)
        then show ?thesis using run' s e r rcase okb by (auto simp: act_bind_def)
      next
        case (Inr c)
        then have ok1: "app_ok b1" and c: "c \<in> live_customers b1" using rcase by simp_all
        obtain out b2 where q: "package_repo_create s e weight c clock b1 = (out, b2)" by fastforce
        note pcase = package_repo_create_cases [OF ok1 c weight q]
        show ?thesis
        proof (cases out)
          case (Inl err)
          then show ?thesis using run' s e r \<open>rc = Inr c\<close> q pcase okb same by (auto simp: act_bind_def)
        next
          case (Inr p)
          note eff = package_repo_create_effect [OF ok1 weight q [unfolded Inr]]
          obtain h where h: "customer_add_package c p (store b2) = (Inr (), h)" "app_ok (b2\<lparr>store := h\<rparr>)"
            using pcase Inr by auto
          have b: "res = Inr p" "b = track_domain_recorder (CustomerRec c) (track_domain_recorder (PackageRec p) (b2\<lparr>store := h\<rparr>))"
            using run' s e r \<open>rc = Inr c\<close> q Inr h(1) by (auto simp: act_bind_def on_store_def)
          have h': "h = customer_link c p (store b2)"
            using h(1) eff(3) by (auto simp: customer_add_package_def Let_def split: if_splits)
          have "pkg_customer (packages h p) \<in> live_customers b"
            using app_okD(5) [OF okb] eff(2) b by (auto simp: owners_ok_def)
          moreover have "location_code (PyStr start) = Inr (pkg_start (packages h p))"
            "location_code (PyStr end_loc) = Inr (pkg_end (packages h p))"
            using s e eff(6,7) location_code_idem [OF s] location_code_idem [OF e] by (simp_all add: h' customer_link_def)
          ultimately show ?thesis
            using b eff okb same by (simp add: h' customer_link_def)
        qed
      qed
    qed
  qed
qed

text \<open>A request whose package is refused leaves a new customer without packages behind.\<close>

lemma orphan_customer:
  assumes ok: "app_ok a" and perm: "has_permission (identity a) PACKAGE_CREATE"
    and locs: "location_code (PyStr start) = Inr s" "location_code (PyStr end_loc) = Inr e"
    and none: "find_existing_customer (store a) (customer_dir a) name email phone = Inr None"
    and info: "contact_info_create (PyStr name) (PyStr email) (PyStr phone) = Inr info"
    and bad: "domain_require_positive_finite_float weight = Inl err"
  shows "\<exists>b c. create_package start end_loc weight name email phone clock a = (Inl DomainValidationError, b) \<and>
    c \<notin> live_customers a \<and> c \<in> live_customers b \<and> delivery_packages (customers (store b) c) = []"
proof -
  note find = find_existing_cases [OF app_okD(3) [OF ok], where name = name and email = email and phone = phone]
  obtain rc b where r: "customer_service_create name email phone clock a = (rc, b)" by fastforce
  have free: "wanted_email email \<noteq> [] \<longrightarrow> id_by_email (customer_dir a) (wanted_email email) = None"
    "wanted_phone phone \<noteq> [] \<longrightarrow> id_by_phone (customer_dir a) (wanted_phone phone) = None"
    using find none by simp_all
  note created = customer_service_create_cases [OF ok free r]
  from created info obtain c where c: "rc = Inr c" by (cases rc) auto
  have okb: "app_ok b" and live: "c \<in> live_customers b" "c \<notin> live_customers a"
    "delivery_packages (customers (store b) c) = []"
    using created c by simp_all
  have "resolve_customer name email phone clock a = (Inr c, b)" using r c none by (simp add: resolve_customer_def)
  moreover have "package_repo_create s e weight c clock b = (Inl DomainValidationError, b)"
  proof -
    obtain x where x: "package_init (PyStr s) (PyStr e) weight c (PyInt (repo_next_id (package_repo b))) PyNone = Inl x"
      using bad by (cases "package_init (PyStr s) (PyStr e) weight c (PyInt (repo_next_id (package_repo b))) PyNone")
        (auto simp: package_init_def res_bind_Inr_iff)
    then have "x = DomainValidationError" by (rule package_init_Inl)
    with x show ?thesis
      by (simp add: package_repo_create_def act_bind_def on_store_def package_create_def)
  qed
  ultimately have "create_package start end_loc weight name email phone clock a = (Inl DomainValidationError, b)"
    using locs by (simp add: create_package_def requires_permitted [OF perm] act_bind_def)
  then show ?thesis using live by blast
qed

section \<open>Failed persistence\<close>

lemma assign_truck_no_trace:
  assumes ok: "app_ok a" and run: "assign_truck_to_route vid rid now clock (Some x) a = (res, b)"
  shows "(\<exists>e. res = Inl e) \<and> store b = store a"
proof (cases "missing_permissions (identity a) [ROUTE_ASSIGN_TRUCK]")
  case (Some ms)
  then show ?thesis using run
    by (auto simp: assign_truck_to_route_def requires_eq requires_all_def record_authorization_denied_def)
next
  case None
  show ?thesis
  proof (cases "repo_get rid (route_repo a)")
    case None
    then show ?thesis using run \<open>missing_permissions _ _ = None\<close>
      by (auto simp: assign_truck_to_route_def requires_eq requires_all_def act_bind_def get_or_not_found_def)
  next
    case r: (Some r)
    show ?thesis
    proof (cases "find_truck (store a) vid (fleet a)")
      case None
      then show ?thesis using run r \<open>missing_permissions _ _ = None\<close>
        by (auto simp: assign_truck_to_route_def requires_eq requires_all_def act_bind_def get_or_not_found_def)
    next
      case t: (Some t)
      obtain out h where m: "assign_truck_and_persist r t now (Some x) (store a) = (out, h)" by fastforce
      have "\<exists>e. out = Inl e" using m
        by (auto simp: assign_truck_and_persist_def Let_def act_catch_def act_bind_def persisted_def
            split: prod.splits sum.splits)
      then have "h = store a \<and> (\<exists>e. out = Inl e)"
        if "route_truck (routes (store a) r) = None" "ensure_truck_is_suitable (store a) t r now = Inr ()"
        using assign_truck_and_persist_step [OF app_okD(4) [OF ok] refsI [OF r] _ that m] find_truck_Some [OF t]
        by auto
      then show ?thesis using run r t m \<open>missing_permissions _ _ = None\<close>
        by (auto simp: assign_truck_to_route_def requires_eq requires_all_def act_bind_def get_or_not_found_def
            on_store_def ensure_route_has_no_truck_def split: sum.splits option.splits)
    qed
  qed
qed

lemma remove_route_no_trace:
  assumes ok: "app_ok a" and run: "remove_route rid clock (Some x) a = (res, b)"
  shows "(\<exists>e. res = Inl e) \<and> store b = store a \<and> route_repo b = route_repo a"
proof (cases "missing_permissions (identity a) [ROUTE_REMOVE, ROUTE_VIEW]")
  case (Some ms)
  then show ?thesis using run by (auto simp: remove_route_def requires_all_def record_authorization_denied_def)
next
  case None
  show ?thesis
  proof (cases "repo_get rid (route_repo a)")
    case None
    then show ?thesis using run \<open>missing_permissions _ _ = None\<close>
      by (auto simp: remove_route_def requires_all_def act_bind_def get_or_not_found_def)
  next
    case r: (Some r)
    obtain out h where m: "remove_route_links r clock (Some x) (store a) = (out, h)" by fastforce
    have "out = Inl x \<and> h = store a"
      using remove_route_links_step [OF app_okD(4) [OF ok] refsI [OF r] m] by (cases out) auto
    then show ?thesis using run r m \<open>missing_permissions _ _ = None\<close>
      by (auto simp: remove_route_def requires_all_def act_bind_def get_or_not_found_def on_store_def)
  qed
qed

lemma heartbeat_no_trace:
  assumes ok: "app_ok a" and run: "advance_world_state clock (Some x) a = (res, b)"
  shows "case res of Inl e \<Rightarrow> e = x \<and> b = a | Inr sm \<Rightarrow> \<not> state_changed sm"
proof -
  obtain out h where m: "heartbeat_advance (repo_list_all (route_repo a)) clock (Some x) (store a) = (out, h)" by fastforce
  have "case out of Inl e \<Rightarrow> Some x = Some e \<and> h = store a | Inr s \<Rightarrow> \<not> state_changed s"
    using heartbeat_advance_step [OF app_okD(4) [OF ok] _ distinct_repo_list_all [OF app_okD(1) [OF ok]] m]
      live_list_all(1) [OF ok] by (auto split: sum.splits)
  then show ?thesis using run m
    by (cases out) (auto simp: advance_world_state_def act_bind_def on_store_def)
qed

end
