(* ===== verification/Calendar.thy ===== *)
theory Calendar
  imports Schedule
begin

text \<open>
  Dates and their ISO 8601 texts: the operations of Python's \<open>datetime\<close> that
  \<open>src/shared/json_serialization.py\<close> and \<open>src/shared/json_deserialization.py\<close> call.  A date is
  counted as \<open>datetime\<close> counts it, day 1 being 0001-01-01.  \<open>fromisoformat\<close> is given on the
  extended calendar forms (\<open>YYYY-MM-DD\<close>, any separator character, \<open>HH[:MM[:SS[.f]]]\<close>, an offset or
  \<open>Z\<close>); the basic and week-date forms that the library reads too are rejected here.
\<close>

section \<open>The proleptic Gregorian calendar\<close>

definition is_leap :: "int \<Rightarrow> bool" where
  "is_leap y \<longleftrightarrow> y mod 4 = 0 \<and> (y mod 100 \<noteq> 0 \<or> y mod 400 = 0)"

definition days_before_year :: "int \<Rightarrow> int" where
  "days_before_year year = (let y = year - 1 in y * 365 + y div 4 - y div 100 + y div 400)"

definition month_table :: "int list" where
  "month_table = [0, 31, 59, 90, 120, 151, 181, 212, 243, 273, 304, 334]"

definition days_before_month :: "bool \<Rightarrow> int \<Rightarrow> int" where
  "days_before_month leap m = month_table ! nat (m - 1) + (if 2 < m \<and> leap then 1 else 0)"

definition days_in_month :: "bool \<Rightarrow> int \<Rightarrow> int" where
  "days_in_month leap m =
     (if m = 2 then (if leap then 29 else 28) else if m \<in> {4, 6, 9, 11} then 30 else 31)"

definition ymd2ord :: "int \<Rightarrow> int \<Rightarrow> int \<Rightarrow> int" where
  "ymd2ord y m d = days_before_year y + days_before_month (is_leap y) m + d"

text \<open>The month and day of the \<open>n\<close>-th day (from 0) of a year.\<close>

definition month_day :: "bool \<Rightarrow> int \<Rightarrow> int \<times> int" where
  "month_day leap n =
     (let month = (n + 50) div 32;
          preceding = days_before_month leap month
      in if n < preceding then
           (let m = month - 1 in (m, n - (preceding - days_in_month leap m) + 1))
         else (month, n - preceding + 1))"

definition ord2ymd :: "int \<Rightarrow> int \<times> int \<times> int" where
  "ord2ymd n =
     (let n0 = n - 1;
          n400 = n0 div 146097; r400 = n0 mod 146097;
          n100 = r400 div 36524; r100 = r400 mod 36524;
          n4 = r100 div 1461; r4 = r100 mod 1461;
          n1 = r4 div 365; r1 = r4 mod 365;
          year = n400 * 400 + 1 + n100 * 100 + n4 * 4 + n1
      in if n1 = 4 \<or> n100 = 4 then (year - 1, 12, 31)
         else (year, month_day (n1 = 3 \<and> (n4 \<noteq> 24 \<or> n100 = 3)) r1))"

definition valid_date :: "int \<Rightarrow> int \<Rightarrow> int \<Rightarrow> bool" where
  "valid_date y m d \<longleftrightarrow>
     1 \<le> y \<and> y \<le> 9999 \<and> 1 \<le> m \<and> m \<le> 12 \<and> 1 \<le> d \<and> d \<le> days_in_month (is_leap y) m"

definition month_day_ok :: "bool \<Rightarrow> int \<Rightarrow> bool" where
  "month_day_ok leap n =
     (case month_day leap n of (m, d) \<Rightarrow>
        1 \<le> m \<and> m \<le> 12 \<and> 1 \<le> d \<and> d \<le> days_in_month leap m \<and> days_before_month leap m + d = n + 1)"

lemma month_day_all: "list_all (month_day_ok leap) [0..364 + of_bool leap]"
  by (cases leap) (simp_all only:, code_simp+)

lemma month_day_bounds:
  assumes "0 \<le> n" and "n < 365 + of_bool leap"
  shows "month_day_ok leap n"
  using month_day_all [of leap] assms by (auto simp: list_all_iff)

lemma mod_top: "1 \<le> g \<Longrightarrow> g \<le> k \<Longrightarrow> g mod k = 0 \<longleftrightarrow> g = k" for g k :: int
  by (cases "g = k") auto

text \<open>The parts of a day number: whole cycles of 400, 100, 4 and 1 years, and the day of the year.\<close>

lemma year_parts:
  fixes q c f y :: int
  assumes "0 \<le> c" "c \<le> 3" "0 \<le> f" "f \<le> 24" "0 \<le> y" "y \<le> 3"
  defines "Y \<equiv> q * 400 + c * 100 + f * 4 + y"
  shows "days_before_year (Y + 1) = q * 146097 + c * 36524 + f * 1461 + y * 365"
    and "is_leap (Y + 1) \<longleftrightarrow> y = 3 \<and> (f \<noteq> 24 \<or> c = 3)"
proof -
  have d4: "Y div 4 = q * 100 + c * 25 + f" and d100: "Y div 100 = q * 4 + c" and d400: "Y div 400 = q"
    using assms by (simp_all add: Y_def)
  show "days_before_year (Y + 1) = q * 146097 + c * 36524 + f * 1461 + y * 365"
    by (simp add: days_before_year_def d4 d100 d400) (simp add: Y_def)
  have "Y + 1 = (y + 1) + (q * 100 + c * 25 + f) * 4" by (simp add: Y_def)
  then have "(Y + 1) mod 4 = (y + 1) mod 4" by (simp only: mod_mult_self1)
  then have m4: "(Y + 1) mod 4 = 0 \<longleftrightarrow> y = 3"
    using mod_top [of "y + 1" 4] assms(5,6) by simp
  have "Y + 1 = (f * 4 + y + 1) + (q * 4 + c) * 100" by (simp add: Y_def)
  then have "(Y + 1) mod 100 = (f * 4 + y + 1) mod 100" by (simp only: mod_mult_self1)
  then have m100: "(Y + 1) mod 100 = 0 \<longleftrightarrow> f * 4 + y + 1 = 100"
    using mod_top [of "f * 4 + y + 1" 100] assms(3-6) by simp
  have "Y + 1 = (c * 100 + (f * 4 + y + 1)) + q * 400" by (simp add: Y_def)
  then have "(Y + 1) mod 400 = (c * 100 + (f * 4 + y + 1)) mod 400" by (simp only: mod_mult_self1)
  then have m400: "(Y + 1) mod 400 = 0 \<longleftrightarrow> c * 100 + (f * 4 + y + 1) = 400"
    using mod_top [of "c * 100 + (f * 4 + y + 1)" 400] assms(1-6) by simp
  show "is_leap (Y + 1) \<longleftrightarrow> y = 3 \<and> (f \<noteq> 24 \<or> c = 3)"
    unfolding is_leap_def m4 m100 m400 using assms(1-6) by auto
qed

lemma ord2ymd_regular:
  fixes n :: int
  defines "r400 \<equiv> (n - 1) mod 146097"
  defines "r100 \<equiv> r400 mod 36524"
  defines "r4 \<equiv> r100 mod 1461"
  assumes "r400 div 36524 \<noteq> 4" and "r4 div 365 \<noteq> 4" and "1 \<le> n"
  shows "\<exists>year m d. ord2ymd n = (year, m, d) \<and> 1 \<le> m \<and> m \<le> 12 \<and> 1 \<le> d
    \<and> d \<le> days_in_month (is_leap year) m \<and> ymd2ord year m d = n"
proof -
  define q c f y r where "q = (n - 1) div 146097" and "c = r400 div 36524" and "f = r100 div 1461"
    and "y = r4 div 365" and "r = r4 mod 365"
  have b: "0 \<le> r400" "r400 < 146097" "0 \<le> r100" "r100 < 36524" "0 \<le> r4" "r4 < 1461" "0 \<le> r" "r < 365"
    by (simp_all add: r400_def r100_def r4_def r_def)
  have c: "0 \<le> c" "c \<le> 3" and f: "0 \<le> f" "f \<le> 24" and y: "0 \<le> y" "y \<le> 3"
    using b assms(4,5) by (auto simp: c_def f_def y_def)
  have n: "n - 1 = q * 146097 + c * 36524 + f * 1461 + y * 365 + r"
  proof -
    have "n - 1 = q * 146097 + r400" unfolding q_def r400_def by (simp only: div_mult_mod_eq)
    moreover have "r400 = c * 36524 + r100" unfolding c_def r100_def by (simp only: div_mult_mod_eq)
    moreover have "r100 = f * 1461 + r4" unfolding f_def r4_def by (simp only: div_mult_mod_eq)
    moreover have "r4 = y * 365 + r" unfolding y_def r_def by (simp only: div_mult_mod_eq)
    ultimately show ?thesis by linarith
  qed
  define leap where "leap \<longleftrightarrow> y = 3 \<and> (f \<noteq> 24 \<or> c = 3)"
  define year where "year = q * 400 + 1 + c * 100 + f * 4 + y"
  obtain m d where md: "month_day leap r = (m, d)" by fastforce
  have "ord2ymd n = (if y = 4 \<or> c = 4 then (year - 1, 12, 31) else (year, month_day leap r))"
    unfolding ord2ymd_def Let_def year_def leap_def q_def c_def f_def y_def r_def r400_def r100_def r4_def
    by (rule refl)
  then have ord: "ord2ymd n = (year, m, d)" using c y md by simp
  have ok: "month_day_ok leap r"
    by (rule month_day_bounds) (use b in \<open>auto\<close>)
  have year: "year = (q * 400 + c * 100 + f * 4 + y) + 1" by (simp add: year_def)
  have "is_leap year = leap"
    unfolding year leap_def by (rule year_parts) (use c f y in auto)
  moreover have "days_before_year year = q * 146097 + c * 36524 + f * 1461 + y * 365"
    unfolding year by (rule year_parts) (use c f y in auto)
  ultimately show ?thesis
    using ok md ord n by (auto simp: month_day_ok_def ymd2ord_def)
qed

lemma ord2ymd_last_day:
  fixes n :: int
  defines "r400 \<equiv> (n - 1) mod 146097"
  defines "r100 \<equiv> r400 mod 36524"
  defines "r4 \<equiv> r100 mod 1461"
  assumes "r400 div 36524 = 4 \<or> r4 div 365 = 4" and "1 \<le> n"
  shows "\<exists>year. ord2ymd n = (year, 12, 31) \<and> is_leap year \<and> ymd2ord year 12 31 = n"
proof -
  define q c f where "q = (n - 1) div 146097" and "c = r400 div 36524" and "f = r100 div 1461"
  have n: "n - 1 = q * 146097 + r400" unfolding q_def r400_def by (simp only: div_mult_mod_eq)
  have b: "0 \<le> r400" "r400 < 146097" "0 \<le> r100" "r100 < 36524" "0 \<le> r4" "r4 < 1461"
    by (simp_all add: r400_def r100_def r4_def)
  have ord: "ord2ymd n = (q * 400 + c * 100 + f * 4 + r4 div 365, 12, 31)"
    using assms(4) by (auto simp: ord2ymd_def Let_def q_def c_def f_def r400_def r100_def r4_def)
  have dec31: "days_before_month True 12 = 335"
    by (simp add: days_before_month_def month_table_def)
  show ?thesis
  proof (cases "c = 4")
    case True
    then have "r400 = 146096" using b by (simp add: c_def)
    then have rest: "r100 = 0" "f = 0" "r4 = 0" by (simp_all add: r100_def f_def r4_def)
    have Y: "q * 400 + c * 100 + f * 4 + r4 div 365 = (q * 400 + 3 * 100 + 24 * 4 + 3) + 1"
      using True rest by simp
    have "is_leap ((q * 400 + 3 * 100 + 24 * 4 + 3) + 1)"
      using year_parts(2) [of 3 24 3 q] by simp
    moreover have "ymd2ord ((q * 400 + 3 * 100 + 24 * 4 + 3) + 1) 12 31 = n"
      using year_parts(1) [of 3 24 3 q] calculation n \<open>r400 = 146096\<close> by (simp add: ymd2ord_def dec31)
    ultimately show ?thesis using ord Y by metis
  next
    case False
    then have y: "r4 div 365 = 4" using assms(4) by (simp add: c_def)
    then have r4: "r4 = 1460" using b by simp
    have c: "0 \<le> c" "c \<le> 3" using b False by (auto simp: c_def)
    have r100: "r100 = f * 1461 + 1460"
      using r4 unfolding f_def r4_def by (metis div_mult_mod_eq)
    then have f: "0 \<le> f" "f \<le> 23" using b by (simp_all add: f_def)
    have r400: "r400 = c * 36524 + r100" unfolding c_def r100_def by (simp only: div_mult_mod_eq)
    have Y: "q * 400 + c * 100 + f * 4 + r4 div 365 = (q * 400 + c * 100 + f * 4 + 3) + 1"
      using y by simp
    have "is_leap ((q * 400 + c * 100 + f * 4 + 3) + 1)"
      using year_parts(2) [of c f 3 q] c f by simp
    moreover have "ymd2ord ((q * 400 + c * 100 + f * 4 + 3) + 1) 12 31 = n"
      using year_parts(1) [of c f 3 q] calculation n r400 r100 c f by (simp add: ymd2ord_def dec31)
    ultimately show ?thesis using ord Y by metis
  qed
qed

lemma days_before_year_large:
  assumes "10000 \<le> y"
  shows "3652059 \<le> days_before_year y"
proof -
  define Y where "Y = y - 1"
  have e: "days_before_year y = Y * 365 + Y div 4 - Y div 100 + Y div 400"
    by (simp add: days_before_year_def Y_def Let_def)
  have "Y = 9999 \<or> 10000 \<le> Y" using assms by (auto simp: Y_def)
  then show ?thesis
  proof
    assume "Y = 9999"
    then show ?thesis unfolding e by simp
  next
    assume "10000 \<le> Y"
    moreover have "Y div 100 \<le> Y div 4" by (rule zdiv_mono2) (use calculation in auto)
    moreover have "25 \<le> Y div 400" using zdiv_mono1 [OF calculation(1), of 400] by simp
    ultimately show ?thesis unfolding e by simp
  qed
qed

lemma days_before_month_nonneg: "1 \<le> m \<Longrightarrow> m \<le> 12 \<Longrightarrow> 0 \<le> days_before_month leap m"
proof -
  assume "1 \<le> m" "m \<le> 12"
  then have "nat (m - 1) < 12" by simp
  then have "0 \<le> month_table ! nat (m - 1)"
    by (cases "nat (m - 1)" rule: nat.exhaust) (auto simp: month_table_def nth_Cons less_Suc_eq numeral_eq_Suc)
  then show ?thesis by (simp add: days_before_month_def)
qed

text \<open>Every day of the calendar has one date, and the date leads back to it.\<close>

theorem ord2ymd_correct:
  assumes "1 \<le> n" and "n \<le> 3652059"
  shows "\<exists>y m d. ord2ymd n = (y, m, d) \<and> valid_date y m d \<and> ymd2ord y m d = n"
proof -
  have "\<exists>y m d. ord2ymd n = (y, m, d) \<and> 1 \<le> m \<and> m \<le> 12 \<and> 1 \<le> d
      \<and> d \<le> days_in_month (is_leap y) m \<and> ymd2ord y m d = n"
  proof (cases "(n - 1) mod 146097 div 36524 = 4 \<or> (n - 1) mod 146097 mod 36524 mod 1461 div 365 = 4")
    case True
    from ord2ymd_last_day [OF this assms(1)] obtain year where
      y: "ord2ymd n = (year, 12, 31)" "ymd2ord year 12 31 = n" by blast
    show ?thesis by (rule exI [of _ year], rule exI [of _ 12], rule exI [of _ 31])
      (simp add: y days_in_month_def)
  next
    case False
    then show ?thesis using ord2ymd_regular [of n] assms(1) by blast
  qed
  then obtain y m d where o: "ord2ymd n = (y, m, d)" and m: "1 \<le> m" "m \<le> 12" and d: "1 \<le> d"
      "d \<le> days_in_month (is_leap y) m" and n: "ymd2ord y m d = n" by blast
  have "0 \<le> days_before_month (is_leap y) m" by (rule days_before_month_nonneg) (use m in auto)
  then have "y \<le> 9999"
    using n d(1) assms(2) days_before_year_large [of y] by (force simp: ymd2ord_def not_le)
  moreover have "1 \<le> y"
  proof -
    define q c f k where "q = (n - 1) div 146097" and "c = (n - 1) mod 146097 div 36524"
      and "f = (n - 1) mod 146097 mod 36524 div 1461" and "k = (n - 1) mod 146097 mod 36524 mod 1461 div 365"
    have "0 \<le> q" "0 \<le> c" "0 \<le> f" "0 \<le> k"
      using assms(1) by (simp_all add: q_def c_def f_def k_def pos_imp_zdiv_nonneg_iff)
    moreover have "\<exists>md. ord2ymd n = (if k = 4 \<or> c = 4 then (q * 400 + 1 + c * 100 + f * 4 + k - 1, 12, 31)
        else (q * 400 + 1 + c * 100 + f * 4 + k, md))"
      unfolding ord2ymd_def Let_def q_def c_def f_def k_def by (rule exI, rule refl)
    ultimately show ?thesis using o by (auto split: if_splits)
  qed
  ultimately show ?thesis using o m d n by (auto simp: valid_date_def)
qed

section \<open>ISO 8601 text\<close>

text \<open>\<open>'%0kd' % n\<close> for \<open>n\<close> below \<open>10 ^ k\<close>, and \<open>int(text)\<close> on digits.\<close>

fun digits :: "nat \<Rightarrow> int \<Rightarrow> string" where
  "digits 0 n = []"
| "digits (Suc k) n = digits k (n div 10) @ [char_of (48 + nat (n mod 10))]"

definition parse_digits :: "string \<Rightarrow> int option" where
  "parse_digits s =
     (if isdigit s then Some (foldl (\<lambda>a c. 10 * a + (int (code c) - 48)) 0 s) else None)"

definition us_per_day :: int where
  "us_per_day = 86400000000"

definition two :: "int \<Rightarrow> string" where
  "two n = digits 2 n"

text \<open>\<open>HH:MM:SS\<close>, with six fraction digits when there are microseconds.\<close>

definition clock_text :: "int \<Rightarrow> string" where
  "clock_text us =
     (let s = us div 1000000; f = us mod 1000000
      in two (s div 3600) @ '':'' @ two (s div 60 mod 60) @ '':'' @ two (s mod 60)
         @ (if f = 0 then [] else ''.'' @ digits 6 f))"

text \<open>\<open>_format_offset\<close>\<close>

definition offset_text :: "int \<Rightarrow> string" where
  "offset_text off =
     (let a = \<bar>off\<bar>; s = a div 1000000; f = a mod 1000000
      in (if off < 0 then ''-'' else ''+'') @ two (s div 3600) @ '':'' @ two (s div 60 mod 60)
         @ (if s mod 60 = 0 \<and> f = 0 then []
            else '':'' @ two (s mod 60) @ (if f = 0 then [] else ''.'' @ digits 6 f)))"

definition isoformat :: "pydatetime \<Rightarrow> string" where
  "isoformat d =
     (case ord2ymd (dt_us d div us_per_day + 1) of (y, m, day) \<Rightarrow>
        digits 4 y @ ''-'' @ two m @ ''-'' @ two day @ ''T'' @ clock_text (dt_us d mod us_per_day)
        @ (case utcoffset d of None \<Rightarrow> [] | Some off \<Rightarrow> offset_text off))"

definition parse_date :: "string \<Rightarrow> (int \<times> int \<times> int) option" where
  "parse_date s =
     (if length s = 10 \<and> s ! 4 = CHR ''-'' \<and> s ! 7 = CHR ''-'' then
        (case (parse_digits (take 4 s), parse_digits (take 2 (drop 5 s)), parse_digits (drop 8 s)) of
           (Some y, Some m, Some d) \<Rightarrow> Some (y, m, d)
         | _ \<Rightarrow> None)
      else None)"

text \<open>Up to six digits of a fraction count, the others are dropped.\<close>

definition parse_fraction :: "string \<Rightarrow> int option" where
  "parse_fraction s = (if isdigit s then parse_digits (take 6 (s @ ''000000'')) else None)"

definition clock_us :: "int option \<Rightarrow> int option \<Rightarrow> int option \<Rightarrow> int option \<Rightarrow> int option" where
  "clock_us h m s f =
     (case (h, m, s, f) of
        (Some h, Some m, Some s, Some f) \<Rightarrow>
          if h < 24 \<and> m < 60 \<and> s < 60 then Some (((h * 60 + m) * 60 + s) * 1000000 + f) else None
      | _ \<Rightarrow> None)"

definition parse_clock :: "string \<Rightarrow> int option" where
  "parse_clock s =
     (let h = parse_digits (take 2 s); m = parse_digits (take 2 (drop 3 s)); sec = parse_digits (take 2 (drop 6 s))
      in if length s = 2 then clock_us h (Some 0) (Some 0) (Some 0)
         else if length s = 5 \<and> s ! 2 = CHR '':'' then clock_us h m (Some 0) (Some 0)
         else if length s = 8 \<and> s ! 2 = CHR '':'' \<and> s ! 5 = CHR '':'' then clock_us h m sec (Some 0)
         else if 9 < length s \<and> s ! 2 = CHR '':'' \<and> s ! 5 = CHR '':'' \<and> s ! 8 \<in> {CHR ''.'', CHR '',''}
         then clock_us h m sec (parse_fraction (drop 9 s))
         else None)"

definition is_zone_mark :: "char \<Rightarrow> bool" where
  "is_zone_mark c \<longleftrightarrow> c = CHR ''-'' \<or> c = CHR ''+'' \<or> c = CHR ''Z''"

text \<open>The zone after the clock: nothing, \<open>Z\<close>, or a signed offset below a day.\<close>

definition parse_zone :: "string \<Rightarrow> int option option option" where
  "parse_zone s =
     (case s of
        [] \<Rightarrow> Some None
      | c # rest \<Rightarrow>
          if c = CHR ''Z'' then (if rest = [] then Some (Some (Some 0)) else None)
          else (case parse_clock rest of
                  None \<Rightarrow> None
                | Some us \<Rightarrow> Some (Some (Some (if c = CHR ''-'' then - us else us)))))"

definition fromisoformat :: "string \<Rightarrow> pydatetime result" where
  "fromisoformat s =
     (case parse_date (take 10 s) of
        None \<Rightarrow> Inl PyValueError
      | Some (y, m, d) \<Rightarrow>
          if \<not> valid_date y m d then Inl PyValueError
          else
            (let midnight = (ymd2ord y m d - 1) * us_per_day; rest = drop 11 s
             in if length s = 10 then Inr (PyDt midnight None)
                else (case (parse_clock (takeWhile (\<lambda>c. \<not> is_zone_mark c) rest),
                            parse_zone (dropWhile (\<lambda>c. \<not> is_zone_mark c) rest)) of
                        (Some us, Some zone) \<Rightarrow> Inr (PyDt (midnight + us) zone)
                      | _ \<Rightarrow> Inl PyValueError)))"

text \<open>The range of \<open>datetime\<close>, from 0001-01-01 to the end of 9999-12-31.\<close>

definition dt_in_range :: "time \<Rightarrow> bool" where
  "dt_in_range t \<longleftrightarrow> 0 \<le> t \<and> t < 3652059 * us_per_day"

section \<open>Reading back what was written\<close>

lemma length_digits [simp]: "length (digits k n) = k"
  by (induction k arbitrary: n) auto

lemma digits_eq_Nil [simp]: "digits k n = [] \<longleftrightarrow> k = 0"
  using length_digits [of k n] by (metis length_0_conv)

lemma digit_char: "0 \<le> n \<Longrightarrow> n < 10 \<Longrightarrow> code (char_of (48 + nat n)) = 48 + nat n" for n :: int
  by (rule code_char_of) simp

lemma is_digit_digits: "0 \<le> n \<Longrightarrow> list_all is_digit (digits k n)"
proof (induction k arbitrary: n)
  case (Suc k)
  then show ?case by (simp add: is_digit_def digit_char pos_imp_zdiv_nonneg_iff)
qed simp

lemma isdigit_digits: "0 \<le> n \<Longrightarrow> 0 < k \<Longrightarrow> isdigit (digits k n)"
  by (cases k) (auto simp: isdigit_def is_digit_digits simp del: digits.simps(2))

lemma foldl_digits:
  "0 \<le> n \<Longrightarrow> n < 10 ^ k \<Longrightarrow> foldl (\<lambda>a c. 10 * a + (int (code c) - 48)) 0 (digits k n) = n"
proof (induction k arbitrary: n)
  case (Suc k)
  then have "foldl (\<lambda>a c. 10 * a + (int (code c) - 48)) 0 (digits k (n div 10)) = n div 10"
    by (intro Suc.IH) (auto simp: pos_imp_zdiv_nonneg_iff)
  then show ?case by (simp add: digit_char)
qed simp

lemma parse_digits_digits:
  "0 \<le> n \<Longrightarrow> n < 10 ^ k \<Longrightarrow> 0 < k \<Longrightarrow> parse_digits (digits k n) = Some n"
  by (simp add: parse_digits_def isdigit_digits foldl_digits)

lemma two_simps [simp]:
  "length (two n) = 2"
  "0 \<le> n \<Longrightarrow> n < 60 \<Longrightarrow> parse_digits (two n) = Some n"
  by (simp_all add: two_def parse_digits_digits)

text \<open>What the fixed positions of \<open>HH:MM:SS\<close> and \<open>HH:MM:SS.f\<close> hold.\<close>

lemma parse_clock_fields:
  assumes "length a = 2" "length b = 2" "length c = 2"
  shows "parse_clock (a @ CHR '':'' # b @ CHR '':'' # c) =
      clock_us (parse_digits a) (parse_digits b) (parse_digits c) (Some 0)"
    and "length f = 6 \<Longrightarrow> isdigit f \<Longrightarrow> parse_clock (a @ CHR '':'' # b @ CHR '':'' # c @ CHR ''.'' # f) =
      clock_us (parse_digits a) (parse_digits b) (parse_digits c) (parse_digits f)"
  using assms
  by (simp_all add: parse_clock_def Let_def nth_append parse_fraction_def)

lemma parse_clock_text:
  assumes "0 \<le> us" and "us < us_per_day"
  shows "parse_clock (clock_text us) = Some us"
proof -
  define s f where "s = us div 1000000" and "f = us mod 1000000"
  have s: "0 \<le> s" "s < 86400" and f: "0 \<le> f" "f < 1000000"
    using assms by (auto simp: s_def f_def us_per_day_def pos_imp_zdiv_nonneg_iff)
  have h: "0 \<le> s div 3600" "s div 3600 < 24" using s by (auto simp: pos_imp_zdiv_nonneg_iff)
  have us: "us = s * 1000000 + f" by (simp add: s_def f_def)
  have "(s div 3600 * 60 + s div 60 mod 60) * 60 + s mod 60 = s"
  proof -
    have "s div 3600 = s div 60 div 60" by (simp add: zdiv_zmult2_eq [symmetric])
    then show ?thesis by simp
  qed
  then have "clock_us (Some (s div 3600)) (Some (s div 60 mod 60)) (Some (s mod 60)) (Some f) = Some us"
    using h us by (simp add: clock_us_def)
  then show ?thesis
    unfolding clock_text_def Let_def s_def [symmetric] f_def [symmetric]
    using h f by (auto simp: parse_clock_fields isdigit_digits parse_digits_digits)
qed

lemma clock_text_no_zone: "0 \<le> us \<Longrightarrow> list_all (\<lambda>c. \<not> is_zone_mark c) (clock_text us)"
proof -
  assume us: "0 \<le> us"
  have "\<not> is_zone_mark c" if "is_digit c" for c
    using that by (auto simp: is_zone_mark_def is_digit_def code_def)
  then have d: "list_all (\<lambda>c. \<not> is_zone_mark c) (digits k n)" if "0 \<le> n" for k n
    using is_digit_digits [OF that, of k] by (auto simp: list_all_iff)
  have "\<not> is_zone_mark CHR '':''" "\<not> is_zone_mark CHR ''.''" by (simp_all add: is_zone_mark_def)
  then show ?thesis
    using us by (simp add: clock_text_def Let_def two_def d pos_imp_zdiv_nonneg_iff)
qed

lemma parse_date_text:
  assumes "valid_date y m d"
  shows "parse_date (digits 4 y @ CHR ''-'' # two m @ CHR ''-'' # two d) = Some (y, m, d)"
proof -
  have "d \<le> 31" using assms by (auto simp: valid_date_def days_in_month_def split: if_splits)
  then show ?thesis
    using assms by (simp add: parse_date_def nth_append valid_date_def parse_digits_digits)
qed

theorem fromisoformat_isoformat:
  assumes "dt_in_range t"
  shows "fromisoformat (isoformat (PyDt t None)) = Inr (PyDt t None)"
proof -
  define n us where "n = t div us_per_day + 1" and "us = t mod us_per_day"
  have n: "1 \<le> n" "n \<le> 3652059"
    using assms by (auto simp: n_def dt_in_range_def us_per_day_def pos_imp_zdiv_nonneg_iff)
  have us: "0 \<le> us" "us < us_per_day" by (simp_all add: us_def us_per_day_def)
  have t: "t = (n - 1) * us_per_day + us" by (simp add: n_def us_def)
  obtain y m d where o: "ord2ymd n = (y, m, d)" "valid_date y m d" "ymd2ord y m d = n"
    using ord2ymd_correct [OF n] by blast
  define dt where "dt = digits 4 y @ CHR ''-'' # two m @ CHR ''-'' # two d"
  have len: "length dt = 10" by (simp add: dt_def)
  have iso: "isoformat (PyDt t None) = dt @ ''T'' @ clock_text us"
    using o(1) by (simp add: isoformat_def n_def [symmetric] us_def [symmetric] dt_def utcoffset_def)
  have no_zone: "takeWhile (\<lambda>c. \<not> is_zone_mark c) (clock_text us) = clock_text us"
      "dropWhile (\<lambda>c. \<not> is_zone_mark c) (clock_text us) = []"
    using clock_text_no_zone [OF us(1)] by (auto simp: list_all_iff takeWhile_eq_all_conv)
  show ?thesis
    unfolding iso fromisoformat_def
    using len no_zone o(2,3) parse_date_text [OF o(2), folded dt_def] parse_clock_text [OF us] t
    by (simp add: Let_def parse_zone_def del: takeWhile_eq_all_conv dropWhile_eq_Nil_conv)
qed

end
