(* ===== verification/Json.thy ===== *)
theory Json
  imports Calendar
begin

text \<open>
  JSON values and the helpers that read and write them: \<open>src/shared/json_types.py\<close>,
  \<open>json_validation.py\<close>, \<open>json_serialization.py\<close> and \<open>json_deserialization.py\<close>.  Field names that only
  fill exception texts are left out.
\<close>

section \<open>Values\<close>

text \<open>
  A Python dict with string keys is the list of its items in insertion order.  A float is any double,
  so that the check for finite numbers has something to reject.
\<close>

datatype json =
    JNull
  | JBool bool
  | JInt int
  | JFloat pyfloat
  | JStr string
  | JList "json list"
  | JObj "(string \<times> json) list"

type_synonym json_object = "(string \<times> json) list"

text \<open>The runtime value as the \<open>require_\<close> helpers see it.\<close>

fun py_of_json :: "json \<Rightarrow> pyval" where
  "py_of_json JNull = PyNone"
| "py_of_json (JBool b) = PyBool b"
| "py_of_json (JInt i) = PyInt i"
| "py_of_json (JFloat f) = PyFloat f"
| "py_of_json (JStr s) = PyStr s"
| "py_of_json (JList xs) = PyList (map py_of_json xs)"
| "py_of_json (JObj kvs) = PyOther"

section \<open>Validation\<close>

fun validate_json_value :: "json \<Rightarrow> unit result" where
  "validate_json_value (JFloat f) = (case f of FFin _ \<Rightarrow> Inr () | _ \<Rightarrow> Inl PyTypeError)"
| "validate_json_value (JList xs) =
     (if list_all (\<lambda>x. is_ok (validate_json_value x)) xs then Inr () else Inl PyTypeError)"
| "validate_json_value (JObj kvs) =
     (if list_all (\<lambda>kv. is_ok (validate_json_value (snd kv))) kvs then Inr () else Inl PyTypeError)"
| "validate_json_value _ = Inr ()"

definition require_json_object :: "json \<Rightarrow> json_object result" where
  "require_json_object v =
     (case v of
        JObj kvs \<Rightarrow> res_bind (validate_json_value (JObj kvs)) (\<lambda>_. Inr kvs)
      | _ \<Rightarrow> Inl PyTypeError)"

text \<open>Unexpected keys are reported before missing ones; both are \<open>ValueError\<close>.\<close>

definition require_json_object_keys :: "json_object \<Rightarrow> string list \<Rightarrow> unit result" where
  "require_json_object_keys p expected =
     (if \<exists>k \<in> set (map fst p). k \<notin> set expected then Inl PyValueError
      else if \<exists>k \<in> set expected. k \<notin> set (map fst p) then Inl PyValueError
      else Inr ())"

text \<open>\<open>require(payload[key])\<close>\<close>

definition read :: "json_object \<Rightarrow> string \<Rightarrow> (pyval \<Rightarrow> 'a result) \<Rightarrow> 'a result" where
  "read p k require = res_bind (dict_get (map_of p) k) (\<lambda>v. require (py_of_json v))"

section \<open>Serialization\<close>

definition optional_str :: "string option \<Rightarrow> json" where
  "optional_str v = (case v of None \<Rightarrow> JNull | Some s \<Rightarrow> JStr s)"

definition optional_int :: "int option \<Rightarrow> json" where
  "optional_int v = (case v of None \<Rightarrow> JNull | Some i \<Rightarrow> JInt i)"

text \<open>A naive business time is its microsecond count; \<open>naive\<close> is the datetime object.\<close>

definition iso :: "time \<Rightarrow> json" where
  "iso t = JStr (isoformat (naive t))"

definition optional_isoformat :: "time option \<Rightarrow> json" where
  "optional_isoformat v = (case v of None \<Rightarrow> JNull | Some t \<Rightarrow> iso t)"

section \<open>Deserialization\<close>

text \<open>An enum class is its members in declaration order and their values (or names).\<close>

definition enum_lookup :: "('e \<Rightarrow> string) \<Rightarrow> 'e list \<Rightarrow> string \<Rightarrow> 'e option" where
  "enum_lookup value members text = find (\<lambda>m. value m = text) members"

definition parse_enum_value :: "('e \<Rightarrow> string) \<Rightarrow> 'e list \<Rightarrow> pyval \<Rightarrow> 'e result" where
  "parse_enum_value value members v =
     res_bind (require_str v) (\<lambda>text.
       case enum_lookup value members text of None \<Rightarrow> Inl PyValueError | Some m \<Rightarrow> Inr m)"

definition parse_enum_name :: "('e \<Rightarrow> string) \<Rightarrow> 'e list \<Rightarrow> pyval \<Rightarrow> 'e result" where
  "parse_enum_name name members v =
     res_bind (require_str v) (\<lambda>text.
       case enum_lookup name members text of None \<Rightarrow> Inl PyValueError | Some m \<Rightarrow> Inr m)"

definition parse_naive_datetime :: "pyval \<Rightarrow> time result" where
  "parse_naive_datetime v =
     res_bind (require_str v) (\<lambda>text.
     res_bind (fromisoformat text) (\<lambda>parsed.
     res_bind (require_naive_datetime (PyDatetime parsed)) (\<lambda>d. Inr (dt_us d))))"

definition parse_optional_naive_datetime :: "pyval \<Rightarrow> time option result" where
  "parse_optional_naive_datetime v =
     (if v = PyNone then Inr None
      else res_bind (parse_naive_datetime v) (\<lambda>d. Inr (Some d)))"

text \<open>The list field of a payload, one item after the other.\<close>

definition read_list :: "(pyval \<Rightarrow> 'a result) \<Rightarrow> pyval \<Rightarrow> 'a list result" where
  "read_list item v = res_bind (require_list v) (res_map item)"

section \<open>Reading back\<close>

lemma read_simps [simp]:
  "read ((k, v) # p) k f = f (py_of_json v)"
  "k \<noteq> k' \<Longrightarrow> read ((k', v) # p) k f = read p k f"
  by (simp_all add: read_def dict_get_def)

lemma require_int_simps [simp]:
  "require_int (PyInt n) = Inr n"
  "1 \<le> n \<Longrightarrow> require_positive_int (PyInt n) = Inr n"
  "0 \<le> n \<Longrightarrow> require_non_negative_int (PyInt n) = Inr n"
  "require_str (PyStr s) = Inr s"
  "require_list (PyList xs) = Inr xs"
  by (simp_all add: require_int_def require_positive_int_def require_non_negative_int_def
      require_str_def require_list_def)

lemma optional_positive_int_back [simp]:
  "pred_option (\<lambda>i. 1 \<le> i) v \<Longrightarrow>
     require_optional_positive_int (py_of_json (optional_int v)) = Inr v"
  by (cases v) (simp_all add: optional_int_def require_optional_positive_int_def)

lemma optional_str_back [simp]: "require_optional_str (py_of_json (optional_str v)) = Inr v"
  by (cases v) (simp_all add: optional_str_def require_optional_str_def)

lemma positive_float_back [simp]:
  "0 < x \<Longrightarrow> require_positive_finite_float (PyFloat (FFin x)) = Inr x"
  by (simp add: require_positive_finite_float_def require_finite_float_def)

lemma naive_datetime_back [simp]:
  "dt_in_range t \<Longrightarrow> parse_naive_datetime (py_of_json (iso t)) = Inr t"
  by (simp add: parse_naive_datetime_def iso_def naive_def fromisoformat_isoformat
      require_naive_datetime_def require_datetime_def)

lemma iso_not_none [simp]: "py_of_json (iso t) \<noteq> PyNone"
  by (simp add: iso_def)

lemma optional_datetime_back [simp]:
  "pred_option dt_in_range v \<Longrightarrow>
     parse_optional_naive_datetime (py_of_json (optional_isoformat v)) = Inr v"
  by (cases v) (simp_all add: optional_isoformat_def parse_optional_naive_datetime_def)

lemma read_list_back:
  "(\<And>x. x \<in> set xs \<Longrightarrow> item (py_of_json (put x)) = Inr x) \<Longrightarrow>
     read_list item (py_of_json (JList (map put xs))) = Inr xs"
  by (induction xs) (auto simp: read_list_def)

lemma validate_scalars [simp]:
  "validate_json_value (optional_str v) = Inr ()"
  "validate_json_value (optional_int i) = Inr ()"
  "validate_json_value (iso t) = Inr ()"
  "validate_json_value (optional_isoformat u) = Inr ()"
  by (cases v; cases i; cases u; simp add: optional_str_def optional_int_def optional_isoformat_def iso_def)+

text \<open>
  An enumeration on the wire: members with distinct values, all of them listed.  Every member is read
  back from its value, and nothing else is accepted.
\<close>

locale wire_enum =
  fixes val :: "'e \<Rightarrow> string" and members :: "'e list"
  assumes distinct_values: "distinct (map val members)"
    and all_members: "m \<in> set members"
begin

lemma lookup_value: "enum_lookup val members (val m) = Some m"
proof -
  obtain i where i: "i < length members" "members ! i = m"
    using all_members by (metis in_set_conv_nth)
  have "val (members ! j) \<noteq> val m" if "j < i" for j
  proof -
    have "map val members ! j \<noteq> map val members ! i"
      using distinct_values i(1) that by (simp add: distinct_conv_nth del: nth_map)
    then show ?thesis using i that by simp
  qed
  then show ?thesis
    unfolding enum_lookup_def find_Some_iff using i by (intro exI [of _ i]) auto
qed

lemma parse_value: "parse_enum_value val members (PyStr (val m)) = Inr m"
  by (simp add: parse_enum_value_def lookup_value)

lemma parse_name: "parse_enum_name val members (PyStr (val m)) = Inr m"
  by (simp add: parse_enum_name_def lookup_value)

lemma parse_accepts: "parse_enum_value val members v = Inr m \<longleftrightarrow> v = PyStr (val m)"
proof
  assume "parse_enum_value val members v = Inr m"
  then show "v = PyStr (val m)"
    by (auto simp: parse_enum_value_def res_bind_Inr_iff require_str_def enum_lookup_def find_Some_iff
        split: pyval.splits option.splits)
qed (simp add: parse_value)

end

end
