(* ===== verification/Events.thy ===== *)
theory Events
  imports Json Application
begin

text \<open>
  Every event the program publishes, as its class defines it: the payload of
  \<open>src/domain/events/\<close> and \<open>src/application/events/\<close>, the universal metadata of
  \<open>src/shared/event.py\<close>, and the values that the enumerations in the payloads have on the wire.
  \<open>EvX\<close> holds the fields of class \<open>X\<close> in the order of the class.
\<close>

section \<open>Enumerations and their values\<close>

definition item_status_members :: "item_status list" where
  "item_status_members =
     [TODO, PKG_IN_PROGRESS, DONE]"

definition route_status_members :: "route_status list" where
  "route_status_members =
     [PLANNED, SCHEDULED, IN_PROGRESS, COMPLETED]"

definition truck_status_members :: "truck_status list" where
  "truck_status_members =
     [FREE, ON_THE_WAY]"

definition truck_status_value :: "truck_status \<Rightarrow> string" where
  "truck_status_value m =
     (case m of
        FREE \<Rightarrow> ''Free'' | ON_THE_WAY \<Rightarrow> ''On the way'')"

definition package_detachment_reason_members :: "package_detachment_reason list" where
  "package_detachment_reason_members =
     [DETACH_PACKAGE_REMOVED, DETACH_ROUTE_REMOVED]"

definition package_detachment_reason_value :: "package_detachment_reason \<Rightarrow> string" where
  "package_detachment_reason_value m =
     (case m of
        DETACH_PACKAGE_REMOVED \<Rightarrow> ''PACKAGE_REMOVED''
      | DETACH_ROUTE_REMOVED \<Rightarrow> ''ROUTE_REMOVED'')"

definition truck_release_reason_members :: "truck_release_reason list" where
  "truck_release_reason_members =
     [RELEASE_ROUTE_COMPLETED, RELEASE_ROUTE_REMOVED]"

definition truck_release_reason_value :: "truck_release_reason \<Rightarrow> string" where
  "truck_release_reason_value m =
     (case m of
        RELEASE_ROUTE_COMPLETED \<Rightarrow> ''ROUTE_COMPLETED''
      | RELEASE_ROUTE_REMOVED \<Rightarrow> ''ROUTE_REMOVED'')"

definition role_members :: "role list" where
  "role_members =
     [EMPLOYEE, MANAGER]"

definition role_value :: "role \<Rightarrow> string" where
  "role_value m =
     (case m of
        EMPLOYEE \<Rightarrow> ''EMPLOYEE'' | MANAGER \<Rightarrow> ''MANAGER'')"

definition auth_operation_members :: "auth_operation list" where
  "auth_operation_members =
     [OP_PACKAGE_CREATE, OP_PACKAGE_VIEW, OP_PACKAGE_LIST, OP_PACKAGE_LIST_UNASSIGNED,
      OP_PACKAGE_FIND_SUITABLE_ROUTES, OP_PACKAGE_REMOVE, OP_ROUTE_CREATE, OP_ROUTE_VIEW,
      OP_ROUTE_LIST, OP_ROUTE_LIST_IN_PROGRESS, OP_ROUTE_FIND_SUITABLE_TRUCKS,
      OP_ROUTE_ASSIGN_TRUCK, OP_ROUTE_ASSIGN_PACKAGES, OP_ROUTE_REMOVE, OP_TRUCK_LIST,
      OP_CUSTOMER_LIST, OP_USER_REGISTER, OP_USER_CHANGE_PASSWORD, OP_USER_RESET_PASSWORD,
      OP_SESSION_END, OP_WORLD_STATE_EXPORT, OP_WORLD_STATE_IMPORT, OP_AUDIT_LOG_VIEW,
      OP_FLEET_OVERVIEW_VIEW]"

definition auth_operation_value :: "auth_operation \<Rightarrow> string" where
  "auth_operation_value m =
     (case m of
        OP_PACKAGE_CREATE \<Rightarrow> ''package.create''
      | OP_PACKAGE_VIEW \<Rightarrow> ''package.view''
      | OP_PACKAGE_LIST \<Rightarrow> ''package.list''
      | OP_PACKAGE_LIST_UNASSIGNED \<Rightarrow> ''package.list_unassigned''
      | OP_PACKAGE_FIND_SUITABLE_ROUTES \<Rightarrow> ''package.find_suitable_routes''
      | OP_PACKAGE_REMOVE \<Rightarrow> ''package.remove''
      | OP_ROUTE_CREATE \<Rightarrow> ''route.create''
      | OP_ROUTE_VIEW \<Rightarrow> ''route.view'' | OP_ROUTE_LIST \<Rightarrow> ''route.list''
      | OP_ROUTE_LIST_IN_PROGRESS \<Rightarrow> ''route.list_in_progress''
      | OP_ROUTE_FIND_SUITABLE_TRUCKS \<Rightarrow> ''route.find_suitable_trucks''
      | OP_ROUTE_ASSIGN_TRUCK \<Rightarrow> ''route.assign_truck''
      | OP_ROUTE_ASSIGN_PACKAGES \<Rightarrow> ''route.assign_packages''
      | OP_ROUTE_REMOVE \<Rightarrow> ''route.remove''
      | OP_TRUCK_LIST \<Rightarrow> ''truck.list''
      | OP_CUSTOMER_LIST \<Rightarrow> ''customer.list''
      | OP_USER_REGISTER \<Rightarrow> ''user.register''
      | OP_USER_CHANGE_PASSWORD \<Rightarrow> ''user.change_password''
      | OP_USER_RESET_PASSWORD \<Rightarrow> ''user.reset_password''
      | OP_SESSION_END \<Rightarrow> ''session.end''
      | OP_WORLD_STATE_EXPORT \<Rightarrow> ''world_state.export''
      | OP_WORLD_STATE_IMPORT \<Rightarrow> ''world_state.import''
      | OP_AUDIT_LOG_VIEW \<Rightarrow> ''audit_log.view''
      | OP_FLEET_OVERVIEW_VIEW \<Rightarrow> ''fleet_overview.view'')"

definition resource_type_members :: "resource_type list" where
  "resource_type_members =
     [RES_AUDIT_LOG, RES_CUSTOMER, RES_PACKAGE, RES_ROUTE, RES_TRUCK, RES_USER, RES_AUTHORIZATION,
      RES_WORLD_STATE, RES_FLEET]"

definition resource_type_value :: "resource_type \<Rightarrow> string" where
  "resource_type_value m =
     (case m of
        RES_AUDIT_LOG \<Rightarrow> ''audit_log'' | RES_CUSTOMER \<Rightarrow> ''customer''
      | RES_PACKAGE \<Rightarrow> ''package'' | RES_ROUTE \<Rightarrow> ''route''
      | RES_TRUCK \<Rightarrow> ''truck'' | RES_USER \<Rightarrow> ''user''
      | RES_AUTHORIZATION \<Rightarrow> ''authorization''
      | RES_WORLD_STATE \<Rightarrow> ''world_state'' | RES_FLEET \<Rightarrow> ''fleet'')"

definition route_reconciliation_reason_members :: "route_reconciliation_reason list" where
  "route_reconciliation_reason_members =
     [MISSING_DEPARTURE_TIME, MISSING_EXPECTED_COMPLETION_TIME, BEFORE_SCHEDULED_DEPARTURE]"

definition route_reconciliation_reason_value :: "route_reconciliation_reason \<Rightarrow> string" where
  "route_reconciliation_reason_value m =
     (case m of
        MISSING_DEPARTURE_TIME \<Rightarrow> ''missing_departure_time''
      | MISSING_EXPECTED_COMPLETION_TIME \<Rightarrow> ''missing_expected_completion_time''
      | BEFORE_SCHEDULED_DEPARTURE \<Rightarrow> ''before_scheduled_departure'')"

definition package_reconciliation_reason_members :: "package_reconciliation_reason list" where
  "package_reconciliation_reason_members =
     [ROUTE_UNSCHEDULED, ROUTE_PATH_INVALID, BEFORE_SCHEDULED_PICKUP, MISSING_PICKUP_TIME,
      LIFECYCLE_STATE_INCONSISTENT, ROUTE_PROGRESS_ADVANCED, EXPECTED_ARRIVAL_RECALCULATED]"

definition package_reconciliation_reason_value :: "package_reconciliation_reason \<Rightarrow> string" where
  "package_reconciliation_reason_value m =
     (case m of
        ROUTE_UNSCHEDULED \<Rightarrow> ''route_unscheduled''
      | ROUTE_PATH_INVALID \<Rightarrow> ''route_path_invalid''
      | BEFORE_SCHEDULED_PICKUP \<Rightarrow> ''before_scheduled_pickup''
      | MISSING_PICKUP_TIME \<Rightarrow> ''missing_pickup_time''
      | LIFECYCLE_STATE_INCONSISTENT \<Rightarrow> ''lifecycle_state_inconsistent''
      | ROUTE_PROGRESS_ADVANCED \<Rightarrow> ''route_progress_advanced''
      | EXPECTED_ARRIVAL_RECALCULATED \<Rightarrow> ''expected_arrival_recalculated'')"

datatype registration_rejection =
    REG_INVALID_USERNAME | REG_PASSWORD_CRITERIA_NOT_MET | REG_USERNAME_ALREADY_EXISTS

definition registration_rejection_members :: "registration_rejection list" where
  "registration_rejection_members =
     [REG_INVALID_USERNAME, REG_PASSWORD_CRITERIA_NOT_MET, REG_USERNAME_ALREADY_EXISTS]"

definition registration_rejection_value :: "registration_rejection \<Rightarrow> string" where
  "registration_rejection_value m =
     (case m of
        REG_INVALID_USERNAME \<Rightarrow> ''INVALID_USERNAME''
      | REG_PASSWORD_CRITERIA_NOT_MET \<Rightarrow> ''PASSWORD_CRITERIA_NOT_MET''
      | REG_USERNAME_ALREADY_EXISTS \<Rightarrow> ''USERNAME_ALREADY_EXISTS'')"

datatype password_change_rejection =
    CHG_INVALID_USERNAME | CHG_USER_NOT_FOUND | CHG_INVALID_PASSWORD_HASH
  | CHG_CURRENT_PASSWORD_INCORRECT | CHG_PASSWORD_CRITERIA_NOT_MET | CHG_SAME_AS_CURRENT_PASSWORD

definition password_change_rejection_members :: "password_change_rejection list" where
  "password_change_rejection_members =
     [CHG_INVALID_USERNAME, CHG_USER_NOT_FOUND, CHG_INVALID_PASSWORD_HASH,
      CHG_CURRENT_PASSWORD_INCORRECT, CHG_PASSWORD_CRITERIA_NOT_MET, CHG_SAME_AS_CURRENT_PASSWORD]"

definition password_change_rejection_value :: "password_change_rejection \<Rightarrow> string" where
  "password_change_rejection_value m =
     (case m of
        CHG_INVALID_USERNAME \<Rightarrow> ''INVALID_USERNAME''
      | CHG_USER_NOT_FOUND \<Rightarrow> ''USER_NOT_FOUND''
      | CHG_INVALID_PASSWORD_HASH \<Rightarrow> ''INVALID_PASSWORD_HASH''
      | CHG_CURRENT_PASSWORD_INCORRECT \<Rightarrow> ''CURRENT_PASSWORD_INCORRECT''
      | CHG_PASSWORD_CRITERIA_NOT_MET \<Rightarrow> ''PASSWORD_CRITERIA_NOT_MET''
      | CHG_SAME_AS_CURRENT_PASSWORD \<Rightarrow> ''SAME_AS_CURRENT_PASSWORD'')"

datatype password_reset_rejection =
    RST_INVALID_USERNAME | RST_USER_NOT_FOUND | RST_PASSWORD_CRITERIA_NOT_MET
  | RST_CANNOT_RESET_OWN_PASSWORD

definition password_reset_rejection_members :: "password_reset_rejection list" where
  "password_reset_rejection_members =
     [RST_INVALID_USERNAME, RST_USER_NOT_FOUND, RST_PASSWORD_CRITERIA_NOT_MET,
      RST_CANNOT_RESET_OWN_PASSWORD]"

definition password_reset_rejection_value :: "password_reset_rejection \<Rightarrow> string" where
  "password_reset_rejection_value m =
     (case m of
        RST_INVALID_USERNAME \<Rightarrow> ''INVALID_USERNAME''
      | RST_USER_NOT_FOUND \<Rightarrow> ''USER_NOT_FOUND''
      | RST_PASSWORD_CRITERIA_NOT_MET \<Rightarrow> ''PASSWORD_CRITERIA_NOT_MET''
      | RST_CANNOT_RESET_OWN_PASSWORD \<Rightarrow> ''CANNOT_RESET_OWN_PASSWORD'')"

datatype login_rejection =
    LOGIN_USER_NOT_FOUND | LOGIN_INVALID_PASSWORD | LOGIN_INVALID_PASSWORD_HASH
  | LOGIN_INVALID_RUNTIME_USER

definition login_rejection_members :: "login_rejection list" where
  "login_rejection_members =
     [LOGIN_USER_NOT_FOUND, LOGIN_INVALID_PASSWORD, LOGIN_INVALID_PASSWORD_HASH,
      LOGIN_INVALID_RUNTIME_USER]"

definition login_rejection_value :: "login_rejection \<Rightarrow> string" where
  "login_rejection_value m =
     (case m of
        LOGIN_USER_NOT_FOUND \<Rightarrow> ''USER_NOT_FOUND''
      | LOGIN_INVALID_PASSWORD \<Rightarrow> ''INVALID_PASSWORD''
      | LOGIN_INVALID_PASSWORD_HASH \<Rightarrow> ''INVALID_PASSWORD_HASH''
      | LOGIN_INVALID_RUNTIME_USER \<Rightarrow> ''INVALID_RUNTIME_USER'')"

datatype token_revocation =
    REVOKED_USER_LOGOUT | REVOKED_PASSWORD_CHANGE | REVOKED_PASSWORD_RESET

definition token_revocation_members :: "token_revocation list" where
  "token_revocation_members =
     [REVOKED_USER_LOGOUT, REVOKED_PASSWORD_CHANGE, REVOKED_PASSWORD_RESET]"

definition token_revocation_value :: "token_revocation \<Rightarrow> string" where
  "token_revocation_value m =
     (case m of
        REVOKED_USER_LOGOUT \<Rightarrow> ''USER_LOGOUT''
      | REVOKED_PASSWORD_CHANGE \<Rightarrow> ''PASSWORD_CHANGE''
      | REVOKED_PASSWORD_RESET \<Rightarrow> ''PASSWORD_RESET'')"

datatype failure_reason =
    FAIL_FILE_NOT_FOUND | FAIL_INVALID_PATH | FAIL_CORRUPT_SNAPSHOT | FAIL_UNSUPPORTED_SCHEMA
  | FAIL_PERSISTENCE_FAILURE | FAIL_RUNTIME_SWAP_FAILURE

definition failure_reason_members :: "failure_reason list" where
  "failure_reason_members =
     [FAIL_FILE_NOT_FOUND, FAIL_INVALID_PATH, FAIL_CORRUPT_SNAPSHOT, FAIL_UNSUPPORTED_SCHEMA,
      FAIL_PERSISTENCE_FAILURE, FAIL_RUNTIME_SWAP_FAILURE]"

definition failure_reason_value :: "failure_reason \<Rightarrow> string" where
  "failure_reason_value m =
     (case m of
        FAIL_FILE_NOT_FOUND \<Rightarrow> ''FILE_NOT_FOUND''
      | FAIL_INVALID_PATH \<Rightarrow> ''INVALID_PATH''
      | FAIL_CORRUPT_SNAPSHOT \<Rightarrow> ''CORRUPT_SNAPSHOT''
      | FAIL_UNSUPPORTED_SCHEMA \<Rightarrow> ''UNSUPPORTED_SCHEMA''
      | FAIL_PERSISTENCE_FAILURE \<Rightarrow> ''PERSISTENCE_FAILURE''
      | FAIL_RUNTIME_SWAP_FAILURE \<Rightarrow> ''RUNTIME_SWAP_FAILURE'')"

datatype corruption_reason =
    CORRUPT_MALFORMED_JSON | CORRUPT_INVALID_STRUCTURE | CORRUPT_UNSUPPORTED_SCHEMA
  | CORRUPT_INVALID_REFERENCES | CORRUPT_INVARIANT_VIOLATION

definition corruption_reason_members :: "corruption_reason list" where
  "corruption_reason_members =
     [CORRUPT_MALFORMED_JSON, CORRUPT_INVALID_STRUCTURE, CORRUPT_UNSUPPORTED_SCHEMA,
      CORRUPT_INVALID_REFERENCES, CORRUPT_INVARIANT_VIOLATION]"

definition corruption_reason_value :: "corruption_reason \<Rightarrow> string" where
  "corruption_reason_value m =
     (case m of
        CORRUPT_MALFORMED_JSON \<Rightarrow> ''MALFORMED_JSON''
      | CORRUPT_INVALID_STRUCTURE \<Rightarrow> ''INVALID_STRUCTURE''
      | CORRUPT_UNSUPPORTED_SCHEMA \<Rightarrow> ''UNSUPPORTED_SCHEMA''
      | CORRUPT_INVALID_REFERENCES \<Rightarrow> ''INVALID_REFERENCES''
      | CORRUPT_INVARIANT_VIOLATION \<Rightarrow> ''INVARIANT_VIOLATION'')"

datatype startup_skip_reason =
    SKIP_NO_SNAPSHOT_FOUND | SKIP_SNAPSHOT_DISABLED

definition startup_skip_reason_members :: "startup_skip_reason list" where
  "startup_skip_reason_members =
     [SKIP_NO_SNAPSHOT_FOUND, SKIP_SNAPSHOT_DISABLED]"

definition startup_skip_reason_value :: "startup_skip_reason \<Rightarrow> string" where
  "startup_skip_reason_value m =
     (case m of
        SKIP_NO_SNAPSHOT_FOUND \<Rightarrow> ''NO_SNAPSHOT_FOUND''
      | SKIP_SNAPSHOT_DISABLED \<Rightarrow> ''SNAPSHOT_DISABLED'')"

definition position_kind_members :: "position_kind list" where
  "position_kind_members = [UNSCHEDULED, BEFORE_START, AT_STOP, IN_TRANSIT, AFTER_END]"

definition position_kind_value :: "position_kind \<Rightarrow> string" where
  "position_kind_value m =
     (case m of
        UNSCHEDULED \<Rightarrow> ''UNSCHEDULED'' | BEFORE_START \<Rightarrow> ''BEFORE_START'' | AT_STOP \<Rightarrow> ''AT_STOP''
      | IN_TRANSIT \<Rightarrow> ''IN_TRANSIT'' | AFTER_END \<Rightarrow> ''AFTER_END'')"

definition permission_members :: "permission list" where
  "permission_members =
     [PACKAGE_CREATE, PACKAGE_VIEW, PACKAGE_VIEW_ALL, PACKAGE_FIND_ROUTE_FOR,
      PACKAGE_VIEW_UNASSIGNED, PACKAGE_REMOVE, ROUTE_CREATE, ROUTE_VIEW_IN_PROGRESS, ROUTE_VIEW,
      ROUTE_VIEW_ALL, ROUTE_FIND_TRUCK_FOR, ROUTE_ASSIGN_TRUCK, ROUTE_ASSIGN_PACKAGE,
      ROUTE_REMOVE, TRUCK_VIEW, CUSTOMER_VIEW, ADMIN_USER, APP_SAVE_STATE, APP_LOAD_STATE,
      AUDIT_VIEW, FLEET_OVERVIEW_VIEW, AUTHENTICATED]"

definition permission_name :: "permission \<Rightarrow> string" where
  "permission_name m =
     (case m of
        PACKAGE_CREATE \<Rightarrow> ''PACKAGE_CREATE''
      | PACKAGE_VIEW \<Rightarrow> ''PACKAGE_VIEW''
      | PACKAGE_VIEW_ALL \<Rightarrow> ''PACKAGE_VIEW_ALL''
      | PACKAGE_FIND_ROUTE_FOR \<Rightarrow> ''PACKAGE_FIND_ROUTE_FOR''
      | PACKAGE_VIEW_UNASSIGNED \<Rightarrow> ''PACKAGE_VIEW_UNASSIGNED''
      | PACKAGE_REMOVE \<Rightarrow> ''PACKAGE_REMOVE''
      | ROUTE_CREATE \<Rightarrow> ''ROUTE_CREATE''
      | ROUTE_VIEW_IN_PROGRESS \<Rightarrow> ''ROUTE_VIEW_IN_PROGRESS''
      | ROUTE_VIEW \<Rightarrow> ''ROUTE_VIEW'' | ROUTE_VIEW_ALL \<Rightarrow> ''ROUTE_VIEW_ALL''
      | ROUTE_FIND_TRUCK_FOR \<Rightarrow> ''ROUTE_FIND_TRUCK_FOR''
      | ROUTE_ASSIGN_TRUCK \<Rightarrow> ''ROUTE_ASSIGN_TRUCK''
      | ROUTE_ASSIGN_PACKAGE \<Rightarrow> ''ROUTE_ASSIGN_PACKAGE''
      | ROUTE_REMOVE \<Rightarrow> ''ROUTE_REMOVE'' | TRUCK_VIEW \<Rightarrow> ''TRUCK_VIEW''
      | CUSTOMER_VIEW \<Rightarrow> ''CUSTOMER_VIEW'' | ADMIN_USER \<Rightarrow> ''ADMIN_USER''
      | APP_SAVE_STATE \<Rightarrow> ''APP_SAVE_STATE''
      | APP_LOAD_STATE \<Rightarrow> ''APP_LOAD_STATE'' | AUDIT_VIEW \<Rightarrow> ''AUDIT_VIEW''
      | FLEET_OVERVIEW_VIEW \<Rightarrow> ''FLEET_OVERVIEW_VIEW''
      | AUTHENTICATED \<Rightarrow> ''AUTHENTICATED'')"

section \<open>Payloads\<close>

record entity_counts =
  count_customers :: int
  count_packages :: int
  count_routes :: int
  count_trucks :: int

text \<open>\<open>WorldStateEntityCounts.__post_init__\<close>, on integers\<close>

definition new_entity_counts :: "int \<Rightarrow> int \<Rightarrow> int \<Rightarrow> int \<Rightarrow> entity_counts result" where
  "new_entity_counts c p r t =
     (if c < 0 \<or> p < 0 \<or> r < 0 \<or> t < 0 then Inl PyValueError
      else Inr \<lparr>count_customers = c, count_packages = p, count_routes = r, count_trucks = t\<rparr>)"

datatype customer_fields =
    EvCustomerCreated int

datatype package_fields =
    EvPackageCreated int int location location f64 item_status location "time option"
  | EvPackageRemoved int int "int option" item_status location location location f64 "time option"
  | EvPackagePickedUp int int item_status item_status location location "time option"
  | EvPackageDelivered int int item_status item_status location location "time option"

datatype route_fields =
    EvRouteCreated int "location list" "time option" route_status "time option"
  | EvRouteScheduled int route_status route_status "time option" time "time option" time
  | EvPackageAssignedToRoute int "int option" int "time option" "time option"
  | EvPackageDetachedFromRoute int int "int option" item_status item_status location location
      "time option" "time option" package_detachment_reason
  | EvTruckAssignedToRoute int "int option" int truck_status truck_status location location
      "time option" "time option" "time option" "time option"
  | EvTruckReleasedFromRoute int int "int option" truck_status truck_status location location
      "time option" "time option" "time option" "time option" truck_release_reason
  | EvRouteStarted int route_status route_status
  | EvRouteCompleted int route_status route_status time time
  | EvRouteRemoved int route_status "location list" "time option" "time option" "int list"
      "int option"

datatype auth_fields =
    EvUserRegistered int string role
  | EvUserRegistrationRejected "string option" registration_rejection
  | EvUserPasswordChanged int string
  | EvUserPasswordChangeRejected "int option" "string option" password_change_rejection
  | EvUserPasswordReset int string
  | EvUserPasswordResetRejected "int option" "string option" password_reset_rejection
  | EvUserAuthenticated int string role
  | EvUserLoginRejected "int option" "string option" login_rejection
  | EvUserSessionEnded int string
  | EvUserTokensRevoked int string token_revocation
  | EvAuthorizationDenied auth_operation resource_type "string option" "permission list"

datatype startup_fields =
    EvFleetSeeded "int list" string

datatype world_fields =
    EvWorldStateExported string int entity_counts
  | EvWorldStateExportFailed string "int option" failure_reason
  | EvWorldStateImported string int entity_counts entity_counts
  | EvWorldStateImportFailed string "int option" failure_reason
  | EvWorldStateCorruptionDetected string corruption_reason
  | EvWorldStateSnapshotQuarantined string string corruption_reason
  | EvWorldStateRuntimeSwapped string int entity_counts entity_counts
  | EvWorldStateStartupRestored string int entity_counts entity_counts
  | EvWorldStateStartupRestoreSkipped startup_skip_reason
  | EvWorldStateStartupRestoreFailed string "int option" failure_reason
  | EvWorldStateAdvanced int int int int int

datatype repair_fields =
    EvRouteStateReconciled int route_status route_status "time option" "time option"
      route_reconciliation_reason
  | EvPackageStateReconciled int "int option" item_status item_status location location
      "time option" "time option" "time option" "time option" "package_reconciliation_reason list"
  | EvTruckPositionReconciled int "int option" "location option" "location option"
      "location option" "location option" position_kind
  | EvTruckRouteReferenceReconciled int "int option" int

datatype event_fields =
    CustomerE customer_fields
  | PackageE package_fields
  | RouteE route_fields
  | AuthE auth_fields
  | StartupE startup_fields
  | WorldE world_fields
  | RepairE repair_fields

text \<open>\<open>type(event).__name__\<close>\<close>

fun customer_class :: "customer_fields \<Rightarrow> string" where
  "customer_class (EvCustomerCreated _) = ''CustomerCreated''"

fun package_class :: "package_fields \<Rightarrow> string" where
  "package_class (EvPackageCreated _ _ _ _ _ _ _ _) = ''PackageCreated''"
| "package_class (EvPackageRemoved _ _ _ _ _ _ _ _ _) = ''PackageRemoved''"
| "package_class (EvPackagePickedUp _ _ _ _ _ _ _) = ''PackagePickedUp''"
| "package_class (EvPackageDelivered _ _ _ _ _ _ _) = ''PackageDelivered''"

fun route_class :: "route_fields \<Rightarrow> string" where
  "route_class (EvRouteCreated _ _ _ _ _) = ''RouteCreated''"
| "route_class (EvRouteScheduled _ _ _ _ _ _ _) = ''RouteScheduled''"
| "route_class (EvPackageAssignedToRoute _ _ _ _ _) = ''PackageAssignedToRoute''"
| "route_class (EvPackageDetachedFromRoute _ _ _ _ _ _ _ _ _ _) = ''PackageDetachedFromRoute''"
| "route_class (EvTruckAssignedToRoute _ _ _ _ _ _ _ _ _ _ _) = ''TruckAssignedToRoute''"
| "route_class (EvTruckReleasedFromRoute _ _ _ _ _ _ _ _ _ _ _ _) = ''TruckReleasedFromRoute''"
| "route_class (EvRouteStarted _ _ _) = ''RouteStarted''"
| "route_class (EvRouteCompleted _ _ _ _ _) = ''RouteCompleted''"
| "route_class (EvRouteRemoved _ _ _ _ _ _ _) = ''RouteRemoved''"

fun auth_class :: "auth_fields \<Rightarrow> string" where
  "auth_class (EvUserRegistered _ _ _) = ''UserRegistered''"
| "auth_class (EvUserRegistrationRejected _ _) = ''UserRegistrationRejected''"
| "auth_class (EvUserPasswordChanged _ _) = ''UserPasswordChanged''"
| "auth_class (EvUserPasswordChangeRejected _ _ _) = ''UserPasswordChangeRejected''"
| "auth_class (EvUserPasswordReset _ _) = ''UserPasswordReset''"
| "auth_class (EvUserPasswordResetRejected _ _ _) = ''UserPasswordResetRejected''"
| "auth_class (EvUserAuthenticated _ _ _) = ''UserAuthenticated''"
| "auth_class (EvUserLoginRejected _ _ _) = ''UserLoginRejected''"
| "auth_class (EvUserSessionEnded _ _) = ''UserSessionEnded''"
| "auth_class (EvUserTokensRevoked _ _ _) = ''UserTokensRevoked''"
| "auth_class (EvAuthorizationDenied _ _ _ _) = ''AuthorizationDenied''"

fun startup_class :: "startup_fields \<Rightarrow> string" where
  "startup_class (EvFleetSeeded _ _) = ''FleetSeeded''"

fun world_class :: "world_fields \<Rightarrow> string" where
  "world_class (EvWorldStateExported _ _ _) = ''WorldStateExported''"
| "world_class (EvWorldStateExportFailed _ _ _) = ''WorldStateExportFailed''"
| "world_class (EvWorldStateImported _ _ _ _) = ''WorldStateImported''"
| "world_class (EvWorldStateImportFailed _ _ _) = ''WorldStateImportFailed''"
| "world_class (EvWorldStateCorruptionDetected _ _) = ''WorldStateCorruptionDetected''"
| "world_class (EvWorldStateSnapshotQuarantined _ _ _) = ''WorldStateSnapshotQuarantined''"
| "world_class (EvWorldStateRuntimeSwapped _ _ _ _) = ''WorldStateRuntimeSwapped''"
| "world_class (EvWorldStateStartupRestored _ _ _ _) = ''WorldStateStartupRestored''"
| "world_class (EvWorldStateStartupRestoreSkipped _) = ''WorldStateStartupRestoreSkipped''"
| "world_class (EvWorldStateStartupRestoreFailed _ _ _) = ''WorldStateStartupRestoreFailed''"
| "world_class (EvWorldStateAdvanced _ _ _ _ _) = ''WorldStateAdvanced''"

fun repair_class :: "repair_fields \<Rightarrow> string" where
  "repair_class (EvRouteStateReconciled _ _ _ _ _ _) = ''RouteStateReconciled''"
| "repair_class (EvPackageStateReconciled _ _ _ _ _ _ _ _ _ _ _) = ''PackageStateReconciled''"
| "repair_class (EvTruckPositionReconciled _ _ _ _ _ _ _) = ''TruckPositionReconciled''"
| "repair_class (EvTruckRouteReferenceReconciled _ _ _) = ''TruckRouteReferenceReconciled''"

fun event_class :: "event_fields \<Rightarrow> string" where
  "event_class (CustomerE f) = customer_class f"
| "event_class (PackageE f) = package_class f"
| "event_class (RouteE f) = route_class f"
| "event_class (AuthE f) = auth_class f"
| "event_class (StartupE f) = startup_class f"
| "event_class (WorldE f) = world_class f"
| "event_class (RepairE f) = repair_class f"

text \<open>\<open>event_version\<close>, a class attribute: 1 unless the class overrides it.\<close>

definition version_two_classes :: "string list" where
  "version_two_classes =
     [''PackageCreated'', ''PackageRemoved'', ''PackagePickedUp'', ''PackageDelivered'',
      ''RouteCreated'', ''RouteScheduled'', ''PackageAssignedToRoute'',
      ''PackageDetachedFromRoute'', ''TruckAssignedToRoute'', ''TruckReleasedFromRoute'',
      ''RouteStarted'', ''RouteCompleted'', ''RouteRemoved'', ''AuthorizationDenied'',
      ''FleetSeeded'', ''WorldStateImported'', ''WorldStateRuntimeSwapped'',
      ''WorldStateStartupRestored'', ''WorldStateAdvanced'']"

definition event_version :: "string \<Rightarrow> int" where
  "event_version c = (if c \<in> set version_two_classes then 2 else 1)"

text \<open>\<open>src/composition/event_catalog.py\<close>\<close>

definition published_event_types :: "string list" where
  "published_event_types =
     [''CustomerCreated'', ''PackageCreated'', ''PackageRemoved'', ''PackagePickedUp'',
      ''PackageDelivered'', ''RouteCreated'', ''RouteScheduled'', ''PackageAssignedToRoute'',
      ''PackageDetachedFromRoute'', ''TruckAssignedToRoute'', ''TruckReleasedFromRoute'',
      ''RouteStarted'', ''RouteCompleted'', ''RouteRemoved'', ''UserRegistered'',
      ''UserRegistrationRejected'', ''UserPasswordChanged'', ''UserPasswordChangeRejected'',
      ''UserPasswordReset'', ''UserPasswordResetRejected'', ''UserAuthenticated'',
      ''UserLoginRejected'', ''UserSessionEnded'', ''UserTokensRevoked'', ''AuthorizationDenied'',
      ''FleetSeeded'', ''WorldStateExported'', ''WorldStateExportFailed'', ''WorldStateImported'',
      ''WorldStateImportFailed'', ''WorldStateCorruptionDetected'',
      ''WorldStateSnapshotQuarantined'', ''WorldStateRuntimeSwapped'',
      ''WorldStateStartupRestored'', ''WorldStateStartupRestoreSkipped'',
      ''WorldStateStartupRestoreFailed'', ''WorldStateAdvanced'', ''RouteStateReconciled'',
      ''PackageStateReconciled'', ''TruckPositionReconciled'', ''TruckRouteReferenceReconciled'']"

section \<open>Events with their metadata\<close>

record sys_event =
  event_id :: int
  occurred_at :: pydatetime
  recorded_at :: pydatetime
  event_fields :: event_fields

text \<open>The checks of a subclass after those of \<open>Event\<close>.\<close>

definition check_fields :: "event_fields \<Rightarrow> unit result" where
  "check_fields f =
     (case f of
        RepairE (EvPackageStateReconciled _ _ _ _ _ _ _ _ _ _ reasons) \<Rightarrow> check_reasons reasons
      | _ \<Rightarrow> Inr ())"

definition new_event :: "pyval \<Rightarrow> pyval \<Rightarrow> pyval \<Rightarrow> event_fields \<Rightarrow> sys_event result" where
  "new_event eid occ rec f =
     res_bind (require_uuid eid) (\<lambda>i.
     res_bind (require_naive_datetime occ) (\<lambda>at_time.
     res_bind (require_utc_datetime rec) (\<lambda>r.
     res_bind (check_fields f) (\<lambda>_.
       Inr \<lparr>event_id = i, occurred_at = at_time, recorded_at = r, event_fields = f\<rparr>))))"

text \<open>An event object: its constructor accepted the metadata and the fields.\<close>

definition event_ok :: "sys_event \<Rightarrow> bool" where
  "event_ok e \<longleftrightarrow>
     new_event (PyUuid (event_id e)) (PyDatetime (occurred_at e)) (PyDatetime (recorded_at e))
       (event_fields e) = Inr e"

section \<open>The enumerations on the wire\<close>

interpretation item_status_wire: wire_enum item_status_value item_status_members
proof
  show "distinct (map item_status_value item_status_members)"
    by (simp add: item_status_value_def item_status_members_def)
  show "m \<in> set item_status_members" for m
    by (cases m) (simp_all add: item_status_members_def)
qed

interpretation route_status_wire: wire_enum route_status_value route_status_members
proof
  show "distinct (map route_status_value route_status_members)"
    by (simp add: route_status_value_def route_status_members_def)
  show "m \<in> set route_status_members" for m
    by (cases m) (simp_all add: route_status_members_def)
qed

interpretation truck_status_wire: wire_enum truck_status_value truck_status_members
proof
  show "distinct (map truck_status_value truck_status_members)"
    by (simp add: truck_status_value_def truck_status_members_def)
  show "m \<in> set truck_status_members" for m
    by (cases m) (simp_all add: truck_status_members_def)
qed

interpretation package_detachment_reason_wire: wire_enum package_detachment_reason_value package_detachment_reason_members
proof
  show "distinct (map package_detachment_reason_value package_detachment_reason_members)"
    by (simp add: package_detachment_reason_value_def package_detachment_reason_members_def)
  show "m \<in> set package_detachment_reason_members" for m
    by (cases m) (simp_all add: package_detachment_reason_members_def)
qed

interpretation truck_release_reason_wire: wire_enum truck_release_reason_value truck_release_reason_members
proof
  show "distinct (map truck_release_reason_value truck_release_reason_members)"
    by (simp add: truck_release_reason_value_def truck_release_reason_members_def)
  show "m \<in> set truck_release_reason_members" for m
    by (cases m) (simp_all add: truck_release_reason_members_def)
qed

interpretation role_wire: wire_enum role_value role_members
proof
  show "distinct (map role_value role_members)"
    by (simp add: role_value_def role_members_def)
  show "m \<in> set role_members" for m
    by (cases m) (simp_all add: role_members_def)
qed

interpretation auth_operation_wire: wire_enum auth_operation_value auth_operation_members
proof
  show "distinct (map auth_operation_value auth_operation_members)"
    by (simp add: auth_operation_value_def auth_operation_members_def)
  show "m \<in> set auth_operation_members" for m
    by (cases m) (simp_all add: auth_operation_members_def)
qed

interpretation resource_type_wire: wire_enum resource_type_value resource_type_members
proof
  show "distinct (map resource_type_value resource_type_members)"
    by (simp add: resource_type_value_def resource_type_members_def)
  show "m \<in> set resource_type_members" for m
    by (cases m) (simp_all add: resource_type_members_def)
qed

interpretation route_reconciliation_reason_wire: wire_enum route_reconciliation_reason_value route_reconciliation_reason_members
proof
  show "distinct (map route_reconciliation_reason_value route_reconciliation_reason_members)"
    by (simp add: route_reconciliation_reason_value_def route_reconciliation_reason_members_def)
  show "m \<in> set route_reconciliation_reason_members" for m
    by (cases m) (simp_all add: route_reconciliation_reason_members_def)
qed

interpretation package_reconciliation_reason_wire: wire_enum package_reconciliation_reason_value package_reconciliation_reason_members
proof
  show "distinct (map package_reconciliation_reason_value package_reconciliation_reason_members)"
    by (simp add: package_reconciliation_reason_value_def package_reconciliation_reason_members_def)
  show "m \<in> set package_reconciliation_reason_members" for m
    by (cases m) (simp_all add: package_reconciliation_reason_members_def)
qed

interpretation registration_rejection_wire: wire_enum registration_rejection_value registration_rejection_members
proof
  show "distinct (map registration_rejection_value registration_rejection_members)"
    by (simp add: registration_rejection_value_def registration_rejection_members_def)
  show "m \<in> set registration_rejection_members" for m
    by (cases m) (simp_all add: registration_rejection_members_def)
qed

interpretation password_change_rejection_wire: wire_enum password_change_rejection_value password_change_rejection_members
proof
  show "distinct (map password_change_rejection_value password_change_rejection_members)"
    by (simp add: password_change_rejection_value_def password_change_rejection_members_def)
  show "m \<in> set password_change_rejection_members" for m
    by (cases m) (simp_all add: password_change_rejection_members_def)
qed

interpretation password_reset_rejection_wire: wire_enum password_reset_rejection_value password_reset_rejection_members
proof
  show "distinct (map password_reset_rejection_value password_reset_rejection_members)"
    by (simp add: password_reset_rejection_value_def password_reset_rejection_members_def)
  show "m \<in> set password_reset_rejection_members" for m
    by (cases m) (simp_all add: password_reset_rejection_members_def)
qed

interpretation login_rejection_wire: wire_enum login_rejection_value login_rejection_members
proof
  show "distinct (map login_rejection_value login_rejection_members)"
    by (simp add: login_rejection_value_def login_rejection_members_def)
  show "m \<in> set login_rejection_members" for m
    by (cases m) (simp_all add: login_rejection_members_def)
qed

interpretation token_revocation_wire: wire_enum token_revocation_value token_revocation_members
proof
  show "distinct (map token_revocation_value token_revocation_members)"
    by (simp add: token_revocation_value_def token_revocation_members_def)
  show "m \<in> set token_revocation_members" for m
    by (cases m) (simp_all add: token_revocation_members_def)
qed

interpretation failure_reason_wire: wire_enum failure_reason_value failure_reason_members
proof
  show "distinct (map failure_reason_value failure_reason_members)"
    by (simp add: failure_reason_value_def failure_reason_members_def)
  show "m \<in> set failure_reason_members" for m
    by (cases m) (simp_all add: failure_reason_members_def)
qed

interpretation corruption_reason_wire: wire_enum corruption_reason_value corruption_reason_members
proof
  show "distinct (map corruption_reason_value corruption_reason_members)"
    by (simp add: corruption_reason_value_def corruption_reason_members_def)
  show "m \<in> set corruption_reason_members" for m
    by (cases m) (simp_all add: corruption_reason_members_def)
qed

interpretation startup_skip_reason_wire: wire_enum startup_skip_reason_value startup_skip_reason_members
proof
  show "distinct (map startup_skip_reason_value startup_skip_reason_members)"
    by (simp add: startup_skip_reason_value_def startup_skip_reason_members_def)
  show "m \<in> set startup_skip_reason_members" for m
    by (cases m) (simp_all add: startup_skip_reason_members_def)
qed

interpretation position_kind_wire: wire_enum position_kind_value position_kind_members
proof
  show "distinct (map position_kind_value position_kind_members)"
    by (simp add: position_kind_value_def position_kind_members_def)
  show "m \<in> set position_kind_members" for m
    by (cases m) (simp_all add: position_kind_members_def)
qed

interpretation permission_wire: wire_enum permission_name permission_members
proof
  show "distinct (map permission_name permission_members)"
    by (simp add: permission_name_def permission_members_def)
  show "m \<in> set permission_members" for m
    by (cases m) (simp_all add: permission_members_def)
qed

lemmas enum_back [simp] =
  item_status_wire.parse_value
  route_status_wire.parse_value
  truck_status_wire.parse_value
  package_detachment_reason_wire.parse_value
  truck_release_reason_wire.parse_value
  role_wire.parse_value
  auth_operation_wire.parse_value
  resource_type_wire.parse_value
  route_reconciliation_reason_wire.parse_value
  package_reconciliation_reason_wire.parse_value
  registration_rejection_wire.parse_value
  password_change_rejection_wire.parse_value
  password_reset_rejection_wire.parse_value
  login_rejection_wire.parse_value
  token_revocation_wire.parse_value
  failure_reason_wire.parse_value
  corruption_reason_wire.parse_value
  startup_skip_reason_wire.parse_value
  position_kind_wire.parse_value
  permission_wire.parse_name

end
