(* ===== verification/Payload.thy ===== *)
theory Payload
  imports Events
begin

text \<open>
  What the payload codecs share: the location fields, the four flat count fields of
  \<open>src/application/eventing/outbox/codecs/entity_counts.py\<close>, and the equations that compute what a
  decoder reads from an encoded field.
\<close>

named_theorems payload_simps \<open>what a decoder reads from an encoded field\<close>
named_theorems json_safe_simps \<open>encoded fields are JSON values\<close>

section \<open>Shared fields\<close>

text \<open>\<open>LocationCode(require_str(value))\<close>, also when null is allowed\<close>

definition read_location :: "pyval \<Rightarrow> location result" where
  "read_location v = res_bind (require_str v) (\<lambda>s. location_code (PyStr s))"

definition read_optional_location :: "pyval \<Rightarrow> location option result" where
  "read_optional_location v =
     (if v = PyNone then Inr None else res_bind (read_location v) (\<lambda>c. Inr (Some c)))"

definition encode_entity_counts :: "string \<Rightarrow> entity_counts \<Rightarrow> json_object" where
  "encode_entity_counts prefix c =
     [(prefix @ ''customer_count'', JInt (count_customers c)),
      (prefix @ ''package_count'', JInt (count_packages c)),
      (prefix @ ''route_count'', JInt (count_routes c)),
      (prefix @ ''truck_count'', JInt (count_trucks c))]"

definition decode_entity_counts :: "string \<Rightarrow> json_object \<Rightarrow> entity_counts result" where
  "decode_entity_counts prefix p =
     res_bind (read p (prefix @ ''customer_count'') require_non_negative_int) (\<lambda>c.
     res_bind (read p (prefix @ ''package_count'') require_non_negative_int) (\<lambda>k.
     res_bind (read p (prefix @ ''route_count'') require_non_negative_int) (\<lambda>r.
     res_bind (read p (prefix @ ''truck_count'') require_non_negative_int) (\<lambda>t.
       new_entity_counts c k r t))))"

definition counts_ok :: "entity_counts \<Rightarrow> bool" where
  "counts_ok c \<longleftrightarrow>
     0 \<le> count_customers c \<and> 0 \<le> count_packages c \<and> 0 \<le> count_routes c \<and> 0 \<le> count_trucks c"

section \<open>Equations\<close>

lemma res_bind_if [payload_simps]:
  "res_bind (if c then Inr x else Inl e) f = (if c then f x else Inl e)"
  by simp

lemma if_eq_Inr [payload_simps]: "(if c then r else Inl e) = Inr x \<longleftrightarrow> c \<and> r = Inr x"
  by simp

lemma positive_int_eq [payload_simps]:
  "require_positive_int (PyInt n) = (if 1 \<le> n then Inr n else Inl PyValueError)"
  by (simp add: require_positive_int_def)

lemma non_negative_int_eq [payload_simps]:
  "require_non_negative_int (PyInt n) = (if 0 \<le> n then Inr n else Inl PyValueError)"
  by (simp add: require_non_negative_int_def)

lemma optional_positive_int_eq [payload_simps]:
  "require_optional_positive_int (py_of_json (optional_int v)) =
     (if pred_option (\<lambda>i. 1 \<le> i) v then Inr v else Inl PyValueError)"
  by (cases v) (simp_all add: optional_int_def require_optional_positive_int_def
      require_positive_int_def)

lemma positive_float_eq [payload_simps]:
  "require_positive_finite_float (PyFloat (FFin x)) = (if 0 < x then Inr x else Inl PyValueError)"
  by (simp add: require_positive_finite_float_def require_finite_float_def)

lemma location_eq [payload_simps]:
  "read_location (PyStr s) =
     (if strip s \<noteq> [] then Inr (upper (strip s)) else Inl DomainValidationError)"
  by (simp add: read_location_def location_code_def Let_def)

lemma optional_location_eq [payload_simps]:
  "read_optional_location (py_of_json (optional_str v)) =
     (if pred_option (\<lambda>s. strip s \<noteq> []) v then Inr (map_option (\<lambda>s. upper (strip s)) v)
      else Inl DomainValidationError)"
  by (cases v) (simp_all add: optional_str_def read_optional_location_def location_eq)

lemma is_location_code_eq [payload_simps]:
  "is_location_code s \<longleftrightarrow> strip s \<noteq> [] \<and> upper (strip s) = s"
  by (auto simp: is_location_code_def location_code_def Let_def)

lemma map_option_id_iff [payload_simps]:
  "map_option f v = v \<longleftrightarrow> pred_option (\<lambda>x. f x = x) v"
  by (cases v) auto

lemma pred_option_conj [payload_simps]:
  "pred_option (\<lambda>x. P x \<and> Q x) v \<longleftrightarrow> pred_option P v \<and> pred_option Q v"
  by (cases v) auto

lemma positive_list_eq [payload_simps]:
  "read_list require_positive_int (PyList (map (\<lambda>x. PyInt (f x)) xs)) =
     (if list_all (\<lambda>x. 1 \<le> f x) xs then Inr (map f xs) else Inl PyValueError)"
  by (induction xs) (simp_all add: read_list_def positive_int_eq)

lemma location_list_eq [payload_simps]:
  "read_list read_location (PyList (map PyStr xs)) =
     (if list_all (\<lambda>s. strip s \<noteq> []) xs then Inr (map (\<lambda>s. upper (strip s)) xs)
      else Inl DomainValidationError)"
  by (induction xs) (simp_all add: read_list_def location_eq)

lemma list_all_conj [payload_simps]:
  "list_all (\<lambda>x. P x \<and> Q x) xs \<longleftrightarrow> list_all P xs \<and> list_all Q xs"
  by (auto simp: list_all_iff)

lemma map_id_iff [payload_simps]: "map f xs = xs \<longleftrightarrow> list_all (\<lambda>x. f x = x) xs"
  by (induction xs) auto

lemma py_map_simps [payload_simps]:
  "map (py_of_json \<circ> JInt) xs = map PyInt xs"
  "map (py_of_json \<circ> JStr) ss = map PyStr ss"
  "map (py_of_json \<circ> (\<lambda>m. JStr (f m))) ys = map (\<lambda>m. PyStr (f m)) ys"
  by (induction xs; induction ss; induction ys; simp)+

lemma enum_list_eq [payload_simps]:
  "read_list (parse_enum_value package_reconciliation_reason_value package_reconciliation_reason_members)
     (PyList (map (\<lambda>m. PyStr (package_reconciliation_reason_value m)) ms)) = Inr ms"
  "read_list (parse_enum_name permission_name permission_members)
     (PyList (map (\<lambda>m. PyStr (permission_name m)) ps)) = Inr ps"
  by (induction ms; induction ps; simp add: read_list_def)+

lemma location_preds [payload_simps]:
  "list_all is_location_code ss \<longleftrightarrow>
     list_all (\<lambda>s. strip s \<noteq> []) ss \<and> list_all (\<lambda>s. upper (strip s) = s) ss"
  "pred_option is_location_code v \<longleftrightarrow>
     pred_option (\<lambda>s. strip s \<noteq> []) v \<and> pred_option (\<lambda>s. upper (strip s) = s) v"
  by (induction ss) (cases v; auto simp: is_location_code_eq)+

lemma counts_keys [payload_simps]:
  "fst ` set (encode_entity_counts pre v) =
     {pre @ ''customer_count'', pre @ ''package_count'', pre @ ''route_count'', pre @ ''truck_count''}"
  by (simp add: encode_entity_counts_def)

lemma new_entity_counts_back:
  "new_entity_counts (count_customers v) (count_packages v) (count_routes v) (count_trucks v) =
     (if counts_ok v then Inr v else Inl PyValueError)"
  by (auto simp: new_entity_counts_def counts_ok_def)

lemma counts_back [payload_simps]:
  "decode_entity_counts [] ((''snapshot_path'', x) # (''schema_version'', y) # encode_entity_counts [] v) =
     (if counts_ok v then Inr v else Inl PyValueError)"
  "decode_entity_counts ''previous_''
     ((''snapshot_path'', x) # (''schema_version'', y) # encode_entity_counts ''previous_'' v @ q) =
     (if counts_ok v then Inr v else Inl PyValueError)"
  "decode_entity_counts ''new_''
     ((''snapshot_path'', x) # (''schema_version'', y) # encode_entity_counts ''previous_'' u
        @ encode_entity_counts ''new_'' v) =
     (if counts_ok v then Inr v else Inl PyValueError)"
  by (simp_all add: decode_entity_counts_def encode_entity_counts_def payload_simps
      new_entity_counts_back) (auto simp: counts_ok_def)

lemma read_keys [payload_simps]:
  "require_json_object_keys p ks =
     (if set (map fst p) = set ks then Inr () else Inl PyValueError)"
  by (auto simp: require_json_object_keys_def)

lemma is_ok_unit: "is_ok (r :: unit result) \<longleftrightarrow> r = Inr ()"
  by (cases r) simp_all

lemma safe_fields [json_safe_simps]:
  "validate_json_value (JObj kvs) = Inr () \<longleftrightarrow>
     list_all (\<lambda>kv. validate_json_value (snd kv) = Inr ()) kvs"
  by (simp add: is_ok_unit)

lemma safe_maps [json_safe_simps]:
  "list_all (\<lambda>x. is_ok (validate_json_value x)) (map JInt is)"
  "list_all (\<lambda>x. is_ok (validate_json_value x)) (map JStr ss)"
  "list_all (\<lambda>x. is_ok (validate_json_value x)) (map (\<lambda>m. JStr (f m)) ms)"
  by (auto simp: list_all_iff)

lemma safe_counts [json_safe_simps]:
  "list_all (\<lambda>kv. is_ok (validate_json_value (snd kv))) (encode_entity_counts c v)"
  by (simp add: encode_entity_counts_def)

end
