(* ===== verification/CodecsFleet.thy ===== *)
theory CodecsFleet
  imports Payload
begin

text \<open>
  Outbox payload codecs of the fleet's own events: \<open>codecs/customers.py\<close>, \<open>packages.py\<close>,
  \<open>route_lifecycle.py\<close>, \<open>route_packages.py\<close> and \<open>route_trucks.py\<close> under
  \<open>src/application/eventing/outbox/\<close>.
  An encoder takes the fields of its event in the order of the class and a decoder reads the payload's
  fields in the order of the code.  Decoding what was encoded gives the event back exactly when its
  fields pass the decoder's checks (\<open>..._replayable\<close>); \<open>..._times\<close> says that the times lie in the
  calendar of \<open>datetime\<close>, which holds for every time the program can hold.
\<close>

section \<open>\<open>customers.py\<close>\<close>

text \<open>\<open>CustomerCreatedEventPayloadCodec\<close>\<close>

definition encode_customer_created ::
    "int \<Rightarrow> json_object" where
  "encode_customer_created customer_id' =
     [(''customer_id'', JInt customer_id')]"

definition decode_customer_created :: "json_object \<Rightarrow> event_fields result" where
  "decode_customer_created p =
     res_bind (require_json_object_keys p
       [''customer_id'']) (\<lambda>_.
     res_bind (read p ''customer_id'' require_positive_int) (\<lambda>customer_id'.
       Inr (CustomerE (EvCustomerCreated customer_id'))))"

section \<open>\<open>packages.py\<close>\<close>

text \<open>\<open>PackageCreatedEventPayloadCodec\<close>\<close>

definition encode_package_created ::
    "int \<Rightarrow> int \<Rightarrow> location \<Rightarrow> location \<Rightarrow>
      f64 \<Rightarrow> item_status \<Rightarrow> location \<Rightarrow> time option \<Rightarrow> json_object" where
  "encode_package_created package_id' customer_id' start_location' end_location' weight'
     initial_status' initial_location' expected_arrival' =
     [(''package_id'', JInt package_id'), (''customer_id'', JInt customer_id'),
      (''start_location'', JStr start_location'), (''end_location'', JStr end_location'),
      (''weight'', JFloat (FFin weight')),
      (''initial_status'', JStr (item_status_value initial_status')),
      (''initial_location'', JStr initial_location'),
      (''expected_arrival'', optional_isoformat expected_arrival')]"

definition decode_package_created :: "json_object \<Rightarrow> event_fields result" where
  "decode_package_created p =
     res_bind (require_json_object_keys p
       [''package_id'', ''customer_id'', ''start_location'', ''end_location'', ''weight'',
        ''initial_status'', ''initial_location'', ''expected_arrival'']) (\<lambda>_.
     res_bind (read p ''package_id'' require_positive_int) (\<lambda>package_id'.
     res_bind (read p ''customer_id'' require_positive_int) (\<lambda>customer_id'.
     res_bind (read p ''start_location'' read_location) (\<lambda>start_location'.
     res_bind (read p ''end_location'' read_location) (\<lambda>end_location'.
     res_bind (read p ''weight'' require_positive_finite_float) (\<lambda>weight'.
     res_bind (read p ''initial_status''
       (parse_enum_value item_status_value item_status_members)) (\<lambda>initial_status'.
     res_bind (read p ''initial_location'' read_location) (\<lambda>initial_location'.
     res_bind (read p ''expected_arrival''
       parse_optional_naive_datetime) (\<lambda>expected_arrival'.
       Inr (PackageE (EvPackageCreated package_id' customer_id' start_location' end_location'
         weight' initial_status' initial_location' expected_arrival')))))))))))"

text \<open>\<open>PackageRemovedEventPayloadCodec\<close>\<close>

definition encode_package_removed ::
    "int \<Rightarrow> int \<Rightarrow> int option \<Rightarrow> item_status \<Rightarrow>
      location \<Rightarrow> location \<Rightarrow> location \<Rightarrow> f64 \<Rightarrow>
      time option \<Rightarrow> json_object" where
  "encode_package_removed package_id' customer_id' previous_route_id' previous_status'
     previous_location' start_location' end_location' weight' previous_expected_arrival' =
     [(''package_id'', JInt package_id'), (''customer_id'', JInt customer_id'),
      (''previous_route_id'', optional_int previous_route_id'),
      (''previous_status'', JStr (item_status_value previous_status')),
      (''previous_location'', JStr previous_location'),
      (''start_location'', JStr start_location'), (''end_location'', JStr end_location'),
      (''weight'', JFloat (FFin weight')),
      (''previous_expected_arrival'', optional_isoformat previous_expected_arrival')]"

definition decode_package_removed :: "json_object \<Rightarrow> event_fields result" where
  "decode_package_removed p =
     res_bind (require_json_object_keys p
       [''package_id'', ''customer_id'', ''previous_route_id'', ''previous_status'',
        ''previous_location'', ''start_location'', ''end_location'', ''weight'',
        ''previous_expected_arrival'']) (\<lambda>_.
     res_bind (read p ''package_id'' require_positive_int) (\<lambda>package_id'.
     res_bind (read p ''customer_id'' require_positive_int) (\<lambda>customer_id'.
     res_bind (read p ''previous_route_id''
       require_optional_positive_int) (\<lambda>previous_route_id'.
     res_bind (read p ''previous_status''
       (parse_enum_value item_status_value item_status_members)) (\<lambda>previous_status'.
     res_bind (read p ''previous_location'' read_location) (\<lambda>previous_location'.
     res_bind (read p ''start_location'' read_location) (\<lambda>start_location'.
     res_bind (read p ''end_location'' read_location) (\<lambda>end_location'.
     res_bind (read p ''weight'' require_positive_finite_float) (\<lambda>weight'.
     res_bind (read p ''previous_expected_arrival''
       parse_optional_naive_datetime) (\<lambda>previous_expected_arrival'.
       Inr (PackageE (EvPackageRemoved package_id' customer_id' previous_route_id'
         previous_status' previous_location' start_location' end_location' weight'
         previous_expected_arrival'))))))))))))"

text \<open>\<open>PackagePickedUpEventPayloadCodec\<close>\<close>

definition encode_package_picked_up ::
    "int \<Rightarrow> int \<Rightarrow> item_status \<Rightarrow> item_status \<Rightarrow>
      location \<Rightarrow> location \<Rightarrow> time option \<Rightarrow> json_object" where
  "encode_package_picked_up package_id' route_id' previous_status' new_status' previous_location'
     new_location' scheduled_arrival' =
     [(''package_id'', JInt package_id'), (''route_id'', JInt route_id'),
      (''previous_status'', JStr (item_status_value previous_status')),
      (''new_status'', JStr (item_status_value new_status')),
      (''previous_location'', JStr previous_location'), (''new_location'', JStr new_location'),
      (''scheduled_arrival'', optional_isoformat scheduled_arrival')]"

definition decode_package_picked_up :: "json_object \<Rightarrow> event_fields result" where
  "decode_package_picked_up p =
     res_bind (require_json_object_keys p
       [''package_id'', ''route_id'', ''previous_status'', ''new_status'', ''previous_location'',
        ''new_location'', ''scheduled_arrival'']) (\<lambda>_.
     res_bind (read p ''package_id'' require_positive_int) (\<lambda>package_id'.
     res_bind (read p ''route_id'' require_positive_int) (\<lambda>route_id'.
     res_bind (read p ''previous_status''
       (parse_enum_value item_status_value item_status_members)) (\<lambda>previous_status'.
     res_bind (read p ''new_status''
       (parse_enum_value item_status_value item_status_members)) (\<lambda>new_status'.
     res_bind (read p ''previous_location'' read_location) (\<lambda>previous_location'.
     res_bind (read p ''new_location'' read_location) (\<lambda>new_location'.
     res_bind (read p ''scheduled_arrival''
       parse_optional_naive_datetime) (\<lambda>scheduled_arrival'.
       Inr (PackageE (EvPackagePickedUp package_id' route_id' previous_status' new_status'
         previous_location' new_location' scheduled_arrival'))))))))))"

text \<open>\<open>PackageDeliveredEventPayloadCodec\<close>\<close>

definition encode_package_delivered ::
    "int \<Rightarrow> int \<Rightarrow> item_status \<Rightarrow> item_status \<Rightarrow>
      location \<Rightarrow> location \<Rightarrow> time option \<Rightarrow> json_object" where
  "encode_package_delivered package_id' route_id' previous_status' new_status' previous_location'
     new_location' scheduled_arrival' =
     [(''package_id'', JInt package_id'), (''route_id'', JInt route_id'),
      (''previous_status'', JStr (item_status_value previous_status')),
      (''new_status'', JStr (item_status_value new_status')),
      (''previous_location'', JStr previous_location'), (''new_location'', JStr new_location'),
      (''scheduled_arrival'', optional_isoformat scheduled_arrival')]"

definition decode_package_delivered :: "json_object \<Rightarrow> event_fields result" where
  "decode_package_delivered p =
     res_bind (require_json_object_keys p
       [''package_id'', ''route_id'', ''previous_status'', ''new_status'', ''previous_location'',
        ''new_location'', ''scheduled_arrival'']) (\<lambda>_.
     res_bind (read p ''package_id'' require_positive_int) (\<lambda>package_id'.
     res_bind (read p ''route_id'' require_positive_int) (\<lambda>route_id'.
     res_bind (read p ''previous_status''
       (parse_enum_value item_status_value item_status_members)) (\<lambda>previous_status'.
     res_bind (read p ''new_status''
       (parse_enum_value item_status_value item_status_members)) (\<lambda>new_status'.
     res_bind (read p ''previous_location'' read_location) (\<lambda>previous_location'.
     res_bind (read p ''new_location'' read_location) (\<lambda>new_location'.
     res_bind (read p ''scheduled_arrival''
       parse_optional_naive_datetime) (\<lambda>scheduled_arrival'.
       Inr (PackageE (EvPackageDelivered package_id' route_id' previous_status' new_status'
         previous_location' new_location' scheduled_arrival'))))))))))"

section \<open>\<open>route_lifecycle.py\<close>\<close>

text \<open>\<open>RouteCreatedEventPayloadCodec\<close>\<close>

definition encode_route_created ::
    "int \<Rightarrow> location list \<Rightarrow> time option \<Rightarrow>
      route_status \<Rightarrow> time option \<Rightarrow> json_object" where
  "encode_route_created route_id' locations' departure_time' initial_status'
     expected_completion_time' =
     [(''route_id'', JInt route_id'), (''locations'', JList (map JStr locations')),
      (''departure_time'', optional_isoformat departure_time'),
      (''initial_status'', JStr (route_status_value initial_status')),
      (''expected_completion_time'', optional_isoformat expected_completion_time')]"

definition decode_route_created :: "json_object \<Rightarrow> event_fields result" where
  "decode_route_created p =
     res_bind (require_json_object_keys p
       [''route_id'', ''locations'', ''departure_time'', ''initial_status'',
        ''expected_completion_time'']) (\<lambda>_.
     res_bind (read p ''route_id'' require_positive_int) (\<lambda>route_id'.
     res_bind (read p ''locations'' (read_list read_location)) (\<lambda>locations'.
     res_bind (read p ''departure_time'' parse_optional_naive_datetime) (\<lambda>departure_time'.
     res_bind (read p ''initial_status''
       (parse_enum_value route_status_value route_status_members)) (\<lambda>initial_status'.
     res_bind (read p ''expected_completion_time''
       parse_optional_naive_datetime) (\<lambda>expected_completion_time'.
       Inr (RouteE (EvRouteCreated route_id' locations' departure_time' initial_status'
         expected_completion_time'))))))))"

text \<open>\<open>RouteScheduledEventPayloadCodec\<close>\<close>

definition encode_route_scheduled ::
    "int \<Rightarrow> route_status \<Rightarrow> route_status \<Rightarrow>
      time option \<Rightarrow> time \<Rightarrow> time option \<Rightarrow> time \<Rightarrow> json_object" where
  "encode_route_scheduled route_id' previous_status' new_status' previous_departure_time'
     new_departure_time' previous_expected_completion_time' new_expected_completion_time' =
     [(''route_id'', JInt route_id'),
      (''previous_status'', JStr (route_status_value previous_status')),
      (''new_status'', JStr (route_status_value new_status')),
      (''previous_departure_time'', optional_isoformat previous_departure_time'),
      (''new_departure_time'', iso new_departure_time'),
      (''previous_expected_completion_time'', optional_isoformat previous_expected_completion_time'),
      (''new_expected_completion_time'', iso new_expected_completion_time')]"

definition decode_route_scheduled :: "json_object \<Rightarrow> event_fields result" where
  "decode_route_scheduled p =
     res_bind (require_json_object_keys p
       [''route_id'', ''previous_status'', ''new_status'', ''previous_departure_time'',
        ''new_departure_time'', ''previous_expected_completion_time'',
        ''new_expected_completion_time'']) (\<lambda>_.
     res_bind (read p ''route_id'' require_positive_int) (\<lambda>route_id'.
     res_bind (read p ''previous_status''
       (parse_enum_value route_status_value route_status_members)) (\<lambda>previous_status'.
     res_bind (read p ''new_status''
       (parse_enum_value route_status_value route_status_members)) (\<lambda>new_status'.
     res_bind (read p ''previous_departure_time''
       parse_optional_naive_datetime) (\<lambda>previous_departure_time'.
     res_bind (read p ''new_departure_time'' parse_naive_datetime) (\<lambda>new_departure_time'.
     res_bind (read p ''previous_expected_completion_time''
       parse_optional_naive_datetime) (\<lambda>previous_expected_completion_time'.
     res_bind (read p ''new_expected_completion_time''
       parse_naive_datetime) (\<lambda>new_expected_completion_time'.
       Inr (RouteE (EvRouteScheduled route_id' previous_status' new_status'
         previous_departure_time' new_departure_time' previous_expected_completion_time'
         new_expected_completion_time'))))))))))"

text \<open>\<open>RouteStartedEventPayloadCodec\<close>\<close>

definition encode_route_started ::
    "int \<Rightarrow> route_status \<Rightarrow> route_status \<Rightarrow> json_object" where
  "encode_route_started route_id' previous_status' new_status' =
     [(''route_id'', JInt route_id'),
      (''previous_status'', JStr (route_status_value previous_status')),
      (''new_status'', JStr (route_status_value new_status'))]"

definition decode_route_started :: "json_object \<Rightarrow> event_fields result" where
  "decode_route_started p =
     res_bind (require_json_object_keys p
       [''route_id'', ''previous_status'', ''new_status'']) (\<lambda>_.
     res_bind (read p ''route_id'' require_positive_int) (\<lambda>route_id'.
     res_bind (read p ''previous_status''
       (parse_enum_value route_status_value route_status_members)) (\<lambda>previous_status'.
     res_bind (read p ''new_status''
       (parse_enum_value route_status_value route_status_members)) (\<lambda>new_status'.
       Inr (RouteE (EvRouteStarted route_id' previous_status' new_status'))))))"

text \<open>\<open>RouteCompletedEventPayloadCodec\<close>\<close>

definition encode_route_completed ::
    "int \<Rightarrow> route_status \<Rightarrow> route_status \<Rightarrow> time \<Rightarrow>
      time \<Rightarrow> json_object" where
  "encode_route_completed route_id' previous_status' new_status' departure_time'
     expected_completion_time' =
     [(''route_id'', JInt route_id'),
      (''previous_status'', JStr (route_status_value previous_status')),
      (''new_status'', JStr (route_status_value new_status')),
      (''departure_time'', iso departure_time'),
      (''expected_completion_time'', iso expected_completion_time')]"

definition decode_route_completed :: "json_object \<Rightarrow> event_fields result" where
  "decode_route_completed p =
     res_bind (require_json_object_keys p
       [''route_id'', ''previous_status'', ''new_status'', ''departure_time'',
        ''expected_completion_time'']) (\<lambda>_.
     res_bind (read p ''route_id'' require_positive_int) (\<lambda>route_id'.
     res_bind (read p ''previous_status''
       (parse_enum_value route_status_value route_status_members)) (\<lambda>previous_status'.
     res_bind (read p ''new_status''
       (parse_enum_value route_status_value route_status_members)) (\<lambda>new_status'.
     res_bind (read p ''departure_time'' parse_naive_datetime) (\<lambda>departure_time'.
     res_bind (read p ''expected_completion_time''
       parse_naive_datetime) (\<lambda>expected_completion_time'.
       Inr (RouteE (EvRouteCompleted route_id' previous_status' new_status' departure_time'
         expected_completion_time'))))))))"

text \<open>\<open>RouteRemovedEventPayloadCodec\<close>\<close>

definition encode_route_removed ::
    "int \<Rightarrow> route_status \<Rightarrow> location list \<Rightarrow>
      time option \<Rightarrow> time option \<Rightarrow> int list \<Rightarrow>
      int option \<Rightarrow> json_object" where
  "encode_route_removed route_id' previous_status' previous_locations' previous_departure_time'
     previous_expected_completion_time' detached_package_ids' released_truck_id' =
     [(''route_id'', JInt route_id'),
      (''previous_status'', JStr (route_status_value previous_status')),
      (''previous_locations'', JList (map JStr previous_locations')),
      (''previous_departure_time'', optional_isoformat previous_departure_time'),
      (''previous_expected_completion_time'', optional_isoformat previous_expected_completion_time'),
      (''detached_package_ids'', JList (map JInt detached_package_ids')),
      (''released_truck_id'', optional_int released_truck_id')]"

definition decode_route_removed :: "json_object \<Rightarrow> event_fields result" where
  "decode_route_removed p =
     res_bind (require_json_object_keys p
       [''route_id'', ''previous_status'', ''previous_locations'', ''previous_departure_time'',
        ''previous_expected_completion_time'', ''detached_package_ids'', ''released_truck_id'']) (\<lambda>_.
     res_bind (read p ''route_id'' require_positive_int) (\<lambda>route_id'.
     res_bind (read p ''previous_status''
       (parse_enum_value route_status_value route_status_members)) (\<lambda>previous_status'.
     res_bind (read p ''previous_locations''
       (read_list read_location)) (\<lambda>previous_locations'.
     res_bind (read p ''previous_departure_time''
       parse_optional_naive_datetime) (\<lambda>previous_departure_time'.
     res_bind (read p ''previous_expected_completion_time''
       parse_optional_naive_datetime) (\<lambda>previous_expected_completion_time'.
     res_bind (read p ''detached_package_ids''
       (read_list require_positive_int)) (\<lambda>detached_package_ids'.
     res_bind (read p ''released_truck_id''
       require_optional_positive_int) (\<lambda>released_truck_id'.
       Inr (RouteE (EvRouteRemoved route_id' previous_status' previous_locations'
         previous_departure_time' previous_expected_completion_time' detached_package_ids'
         released_truck_id'))))))))))"

section \<open>\<open>route_packages.py\<close>\<close>

text \<open>\<open>PackageAssignedToRouteEventPayloadCodec\<close>\<close>

definition encode_package_assigned_to_route ::
    "int \<Rightarrow> int option \<Rightarrow> int \<Rightarrow> time option \<Rightarrow>
      time option \<Rightarrow> json_object" where
  "encode_package_assigned_to_route package_id' previous_route_id' new_route_id'
     previous_expected_arrival' new_expected_arrival' =
     [(''package_id'', JInt package_id'), (''previous_route_id'', optional_int previous_route_id'),
      (''new_route_id'', JInt new_route_id'),
      (''previous_expected_arrival'', optional_isoformat previous_expected_arrival'),
      (''new_expected_arrival'', optional_isoformat new_expected_arrival')]"

definition decode_package_assigned_to_route :: "json_object \<Rightarrow> event_fields result" where
  "decode_package_assigned_to_route p =
     res_bind (require_json_object_keys p
       [''package_id'', ''previous_route_id'', ''new_route_id'', ''previous_expected_arrival'',
        ''new_expected_arrival'']) (\<lambda>_.
     res_bind (read p ''package_id'' require_positive_int) (\<lambda>package_id'.
     res_bind (read p ''previous_route_id''
       require_optional_positive_int) (\<lambda>previous_route_id'.
     res_bind (read p ''new_route_id'' require_positive_int) (\<lambda>new_route_id'.
     res_bind (read p ''previous_expected_arrival''
       parse_optional_naive_datetime) (\<lambda>previous_expected_arrival'.
     res_bind (read p ''new_expected_arrival''
       parse_optional_naive_datetime) (\<lambda>new_expected_arrival'.
       Inr (RouteE (EvPackageAssignedToRoute package_id' previous_route_id' new_route_id'
         previous_expected_arrival' new_expected_arrival'))))))))"

text \<open>\<open>PackageDetachedFromRouteEventPayloadCodec\<close>\<close>

definition encode_package_detached_from_route ::
    "int \<Rightarrow> int \<Rightarrow> int option \<Rightarrow> item_status \<Rightarrow>
      item_status \<Rightarrow> location \<Rightarrow> location \<Rightarrow>
      time option \<Rightarrow> time option \<Rightarrow> package_detachment_reason \<Rightarrow> json_object" where
  "encode_package_detached_from_route package_id' previous_route_id' new_route_id'
     previous_status' new_status' previous_location' new_location' previous_expected_arrival'
     new_expected_arrival' reason' =
     [(''package_id'', JInt package_id'), (''previous_route_id'', JInt previous_route_id'),
      (''new_route_id'', optional_int new_route_id'),
      (''previous_status'', JStr (item_status_value previous_status')),
      (''new_status'', JStr (item_status_value new_status')),
      (''previous_location'', JStr previous_location'), (''new_location'', JStr new_location'),
      (''previous_expected_arrival'', optional_isoformat previous_expected_arrival'),
      (''new_expected_arrival'', optional_isoformat new_expected_arrival'),
      (''reason'', JStr (package_detachment_reason_value reason'))]"

definition decode_package_detached_from_route :: "json_object \<Rightarrow> event_fields result" where
  "decode_package_detached_from_route p =
     res_bind (require_json_object_keys p
       [''package_id'', ''previous_route_id'', ''new_route_id'', ''previous_status'',
        ''new_status'', ''previous_location'', ''new_location'', ''previous_expected_arrival'',
        ''new_expected_arrival'', ''reason'']) (\<lambda>_.
     res_bind (read p ''package_id'' require_positive_int) (\<lambda>package_id'.
     res_bind (read p ''previous_route_id'' require_positive_int) (\<lambda>previous_route_id'.
     res_bind (read p ''new_route_id'' require_optional_positive_int) (\<lambda>new_route_id'.
     res_bind (read p ''previous_status''
       (parse_enum_value item_status_value item_status_members)) (\<lambda>previous_status'.
     res_bind (read p ''new_status''
       (parse_enum_value item_status_value item_status_members)) (\<lambda>new_status'.
     res_bind (read p ''previous_location'' read_location) (\<lambda>previous_location'.
     res_bind (read p ''new_location'' read_location) (\<lambda>new_location'.
     res_bind (read p ''previous_expected_arrival''
       parse_optional_naive_datetime) (\<lambda>previous_expected_arrival'.
     res_bind (read p ''new_expected_arrival''
       parse_optional_naive_datetime) (\<lambda>new_expected_arrival'.
     res_bind (read p ''reason''
       (parse_enum_value package_detachment_reason_value package_detachment_reason_members)) (\<lambda>reason'.
       Inr (RouteE (EvPackageDetachedFromRoute package_id' previous_route_id' new_route_id'
         previous_status' new_status' previous_location' new_location' previous_expected_arrival'
         new_expected_arrival' reason')))))))))))))"

section \<open>\<open>route_trucks.py\<close>\<close>

text \<open>\<open>TruckAssignedToRouteEventPayloadCodec\<close>\<close>

definition encode_truck_assigned_to_route ::
    "int \<Rightarrow> int option \<Rightarrow> int \<Rightarrow> truck_status \<Rightarrow>
      truck_status \<Rightarrow> location \<Rightarrow> location \<Rightarrow>
      time option \<Rightarrow> time option \<Rightarrow> time option \<Rightarrow>
      time option \<Rightarrow> json_object" where
  "encode_truck_assigned_to_route truck_id' previous_route_id' new_route_id' previous_status'
     new_status' previous_location' new_location' previous_busy_from' new_busy_from'
     previous_busy_until' new_busy_until' =
     [(''truck_id'', JInt truck_id'), (''previous_route_id'', optional_int previous_route_id'),
      (''new_route_id'', JInt new_route_id'),
      (''previous_status'', JStr (truck_status_value previous_status')),
      (''new_status'', JStr (truck_status_value new_status')),
      (''previous_location'', JStr previous_location'), (''new_location'', JStr new_location'),
      (''previous_busy_from'', optional_isoformat previous_busy_from'),
      (''new_busy_from'', optional_isoformat new_busy_from'),
      (''previous_busy_until'', optional_isoformat previous_busy_until'),
      (''new_busy_until'', optional_isoformat new_busy_until')]"

definition decode_truck_assigned_to_route :: "json_object \<Rightarrow> event_fields result" where
  "decode_truck_assigned_to_route p =
     res_bind (require_json_object_keys p
       [''truck_id'', ''previous_route_id'', ''new_route_id'', ''previous_status'',
        ''new_status'', ''previous_location'', ''new_location'', ''previous_busy_from'',
        ''new_busy_from'', ''previous_busy_until'', ''new_busy_until'']) (\<lambda>_.
     res_bind (read p ''truck_id'' require_positive_int) (\<lambda>truck_id'.
     res_bind (read p ''previous_route_id''
       require_optional_positive_int) (\<lambda>previous_route_id'.
     res_bind (read p ''new_route_id'' require_positive_int) (\<lambda>new_route_id'.
     res_bind (read p ''previous_status''
       (parse_enum_value truck_status_value truck_status_members)) (\<lambda>previous_status'.
     res_bind (read p ''new_status''
       (parse_enum_value truck_status_value truck_status_members)) (\<lambda>new_status'.
     res_bind (read p ''previous_location'' read_location) (\<lambda>previous_location'.
     res_bind (read p ''new_location'' read_location) (\<lambda>new_location'.
     res_bind (read p ''previous_busy_from''
       parse_optional_naive_datetime) (\<lambda>previous_busy_from'.
     res_bind (read p ''new_busy_from'' parse_optional_naive_datetime) (\<lambda>new_busy_from'.
     res_bind (read p ''previous_busy_until''
       parse_optional_naive_datetime) (\<lambda>previous_busy_until'.
     res_bind (read p ''new_busy_until'' parse_optional_naive_datetime) (\<lambda>new_busy_until'.
       Inr (RouteE (EvTruckAssignedToRoute truck_id' previous_route_id' new_route_id'
         previous_status' new_status' previous_location' new_location' previous_busy_from'
         new_busy_from' previous_busy_until' new_busy_until'))))))))))))))"

text \<open>\<open>TruckReleasedFromRouteEventPayloadCodec\<close>\<close>

definition encode_truck_released_from_route ::
    "int \<Rightarrow> int \<Rightarrow> int option \<Rightarrow> truck_status \<Rightarrow>
      truck_status \<Rightarrow> location \<Rightarrow> location \<Rightarrow>
      time option \<Rightarrow> time option \<Rightarrow> time option \<Rightarrow>
      time option \<Rightarrow> truck_release_reason \<Rightarrow> json_object" where
  "encode_truck_released_from_route truck_id' previous_route_id' new_route_id' previous_status'
     new_status' previous_location' new_location' previous_busy_from' new_busy_from'
     previous_busy_until' new_busy_until' reason' =
     [(''truck_id'', JInt truck_id'), (''previous_route_id'', JInt previous_route_id'),
      (''new_route_id'', optional_int new_route_id'),
      (''previous_status'', JStr (truck_status_value previous_status')),
      (''new_status'', JStr (truck_status_value new_status')),
      (''previous_location'', JStr previous_location'), (''new_location'', JStr new_location'),
      (''previous_busy_from'', optional_isoformat previous_busy_from'),
      (''new_busy_from'', optional_isoformat new_busy_from'),
      (''previous_busy_until'', optional_isoformat previous_busy_until'),
      (''new_busy_until'', optional_isoformat new_busy_until'),
      (''reason'', JStr (truck_release_reason_value reason'))]"

definition decode_truck_released_from_route :: "json_object \<Rightarrow> event_fields result" where
  "decode_truck_released_from_route p =
     res_bind (require_json_object_keys p
       [''truck_id'', ''previous_route_id'', ''new_route_id'', ''previous_status'',
        ''new_status'', ''previous_location'', ''new_location'', ''previous_busy_from'',
        ''new_busy_from'', ''previous_busy_until'', ''new_busy_until'', ''reason'']) (\<lambda>_.
     res_bind (read p ''truck_id'' require_positive_int) (\<lambda>truck_id'.
     res_bind (read p ''previous_route_id'' require_positive_int) (\<lambda>previous_route_id'.
     res_bind (read p ''new_route_id'' require_optional_positive_int) (\<lambda>new_route_id'.
     res_bind (read p ''previous_status''
       (parse_enum_value truck_status_value truck_status_members)) (\<lambda>previous_status'.
     res_bind (read p ''new_status''
       (parse_enum_value truck_status_value truck_status_members)) (\<lambda>new_status'.
     res_bind (read p ''previous_location'' read_location) (\<lambda>previous_location'.
     res_bind (read p ''new_location'' read_location) (\<lambda>new_location'.
     res_bind (read p ''previous_busy_from''
       parse_optional_naive_datetime) (\<lambda>previous_busy_from'.
     res_bind (read p ''new_busy_from'' parse_optional_naive_datetime) (\<lambda>new_busy_from'.
     res_bind (read p ''previous_busy_until''
       parse_optional_naive_datetime) (\<lambda>previous_busy_until'.
     res_bind (read p ''new_busy_until'' parse_optional_naive_datetime) (\<lambda>new_busy_until'.
     res_bind (read p ''reason''
       (parse_enum_value truck_release_reason_value truck_release_reason_members)) (\<lambda>reason'.
       Inr (RouteE (EvTruckReleasedFromRoute truck_id' previous_route_id' new_route_id'
         previous_status' new_status' previous_location' new_location' previous_busy_from'
         new_busy_from' previous_busy_until' new_busy_until' reason')))))))))))))))"

section \<open>Decoding what was encoded\<close>

fun customer_replayable :: "customer_fields \<Rightarrow> bool" where
  "customer_replayable (EvCustomerCreated customer_id') \<longleftrightarrow>
     1 \<le> customer_id'"

fun customer_times :: "customer_fields \<Rightarrow> bool" where
  "customer_times (EvCustomerCreated _) \<longleftrightarrow>
     True"

fun package_replayable :: "package_fields \<Rightarrow> bool" where
  "package_replayable (EvPackageCreated package_id' customer_id' start_location' end_location'
     weight' _ initial_location' _) \<longleftrightarrow>
     1 \<le> package_id' \<and> 1 \<le> customer_id' \<and>
     is_location_code start_location' \<and> is_location_code end_location' \<and>
     0 < weight' \<and> is_location_code initial_location'"
| "package_replayable (EvPackageRemoved package_id' customer_id' previous_route_id' _
     previous_location' start_location' end_location' weight' _) \<longleftrightarrow>
     1 \<le> package_id' \<and> 1 \<le> customer_id' \<and>
     pred_option (\<lambda>i. 1 \<le> i) previous_route_id' \<and>
     is_location_code previous_location' \<and> is_location_code start_location' \<and>
     is_location_code end_location' \<and> 0 < weight'"
| "package_replayable (EvPackagePickedUp package_id' route_id' _ _ previous_location'
     new_location' _) \<longleftrightarrow>
     1 \<le> package_id' \<and> 1 \<le> route_id' \<and>
     is_location_code previous_location' \<and> is_location_code new_location'"
| "package_replayable (EvPackageDelivered package_id' route_id' _ _ previous_location'
     new_location' _) \<longleftrightarrow>
     1 \<le> package_id' \<and> 1 \<le> route_id' \<and>
     is_location_code previous_location' \<and> is_location_code new_location'"

fun package_times :: "package_fields \<Rightarrow> bool" where
  "package_times (EvPackageCreated _ _ _ _ _ _ _ expected_arrival') \<longleftrightarrow>
     pred_option dt_in_range expected_arrival'"
| "package_times (EvPackageRemoved _ _ _ _ _ _ _ _ previous_expected_arrival') \<longleftrightarrow>
     pred_option dt_in_range previous_expected_arrival'"
| "package_times (EvPackagePickedUp _ _ _ _ _ _ scheduled_arrival') \<longleftrightarrow>
     pred_option dt_in_range scheduled_arrival'"
| "package_times (EvPackageDelivered _ _ _ _ _ _ scheduled_arrival') \<longleftrightarrow>
     pred_option dt_in_range scheduled_arrival'"

fun route_replayable :: "route_fields \<Rightarrow> bool" where
  "route_replayable (EvRouteCreated route_id' locations' _ _ _) \<longleftrightarrow>
     1 \<le> route_id' \<and> list_all is_location_code locations'"
| "route_replayable (EvRouteScheduled route_id' _ _ _ _ _ _) \<longleftrightarrow>
     1 \<le> route_id'"
| "route_replayable (EvPackageAssignedToRoute package_id' previous_route_id' new_route_id' _ _) \<longleftrightarrow>
     1 \<le> package_id' \<and> pred_option (\<lambda>i. 1 \<le> i) previous_route_id' \<and>
     1 \<le> new_route_id'"
| "route_replayable (EvPackageDetachedFromRoute package_id' previous_route_id' new_route_id' _ _
     previous_location' new_location' _ _ _) \<longleftrightarrow>
     1 \<le> package_id' \<and> 1 \<le> previous_route_id' \<and>
     pred_option (\<lambda>i. 1 \<le> i) new_route_id' \<and>
     is_location_code previous_location' \<and> is_location_code new_location'"
| "route_replayable (EvTruckAssignedToRoute truck_id' previous_route_id' new_route_id' _ _
     previous_location' new_location' _ _ _ _) \<longleftrightarrow>
     1 \<le> truck_id' \<and> pred_option (\<lambda>i. 1 \<le> i) previous_route_id' \<and>
     1 \<le> new_route_id' \<and> is_location_code previous_location' \<and>
     is_location_code new_location'"
| "route_replayable (EvTruckReleasedFromRoute truck_id' previous_route_id' new_route_id' _ _
     previous_location' new_location' _ _ _ _ _) \<longleftrightarrow>
     1 \<le> truck_id' \<and> 1 \<le> previous_route_id' \<and>
     pred_option (\<lambda>i. 1 \<le> i) new_route_id' \<and>
     is_location_code previous_location' \<and> is_location_code new_location'"
| "route_replayable (EvRouteStarted route_id' _ _) \<longleftrightarrow>
     1 \<le> route_id'"
| "route_replayable (EvRouteCompleted route_id' _ _ _ _) \<longleftrightarrow>
     1 \<le> route_id'"
| "route_replayable (EvRouteRemoved route_id' _ previous_locations' _ _ detached_package_ids'
     released_truck_id') \<longleftrightarrow>
     1 \<le> route_id' \<and> list_all is_location_code previous_locations' \<and>
     list_all (\<lambda>i. 1 \<le> i) detached_package_ids' \<and>
     pred_option (\<lambda>i. 1 \<le> i) released_truck_id'"

fun route_times :: "route_fields \<Rightarrow> bool" where
  "route_times (EvRouteCreated _ _ departure_time' _ expected_completion_time') \<longleftrightarrow>
     pred_option dt_in_range departure_time' \<and>
     pred_option dt_in_range expected_completion_time'"
| "route_times (EvRouteScheduled _ _ _ previous_departure_time' new_departure_time'
     previous_expected_completion_time' new_expected_completion_time') \<longleftrightarrow>
     pred_option dt_in_range previous_departure_time' \<and>
     dt_in_range new_departure_time' \<and>
     pred_option dt_in_range previous_expected_completion_time' \<and>
     dt_in_range new_expected_completion_time'"
| "route_times (EvPackageAssignedToRoute _ _ _ previous_expected_arrival' new_expected_arrival') \<longleftrightarrow>
     pred_option dt_in_range previous_expected_arrival' \<and>
     pred_option dt_in_range new_expected_arrival'"
| "route_times (EvPackageDetachedFromRoute _ _ _ _ _ _ _ previous_expected_arrival'
     new_expected_arrival' _) \<longleftrightarrow>
     pred_option dt_in_range previous_expected_arrival' \<and>
     pred_option dt_in_range new_expected_arrival'"
| "route_times (EvTruckAssignedToRoute _ _ _ _ _ _ _ previous_busy_from' new_busy_from'
     previous_busy_until' new_busy_until') \<longleftrightarrow>
     pred_option dt_in_range previous_busy_from' \<and>
     pred_option dt_in_range new_busy_from' \<and>
     pred_option dt_in_range previous_busy_until' \<and> pred_option dt_in_range new_busy_until'"
| "route_times (EvTruckReleasedFromRoute _ _ _ _ _ _ _ previous_busy_from' new_busy_from'
     previous_busy_until' new_busy_until' _) \<longleftrightarrow>
     pred_option dt_in_range previous_busy_from' \<and>
     pred_option dt_in_range new_busy_from' \<and>
     pred_option dt_in_range previous_busy_until' \<and> pred_option dt_in_range new_busy_until'"
| "route_times (EvRouteStarted _ _ _) \<longleftrightarrow>
     True"
| "route_times (EvRouteCompleted _ _ _ departure_time' expected_completion_time') \<longleftrightarrow>
     dt_in_range departure_time' \<and> dt_in_range expected_completion_time'"
| "route_times (EvRouteRemoved _ _ _ previous_departure_time' previous_expected_completion_time' _
     _) \<longleftrightarrow>
     pred_option dt_in_range previous_departure_time' \<and>
     pred_option dt_in_range previous_expected_completion_time'"

lemma replay_customer_created:
  "customer_times (EvCustomerCreated customer_id') \<Longrightarrow>
     decode_customer_created (encode_customer_created customer_id') =
       Inr (CustomerE (EvCustomerCreated customer_id')) \<longleftrightarrow>
     customer_replayable (EvCustomerCreated customer_id')"
  by (auto simp: encode_customer_created_def decode_customer_created_def payload_simps)

lemma safe_customer_created:
  "validate_json_value (JObj (encode_customer_created customer_id')) = Inr ()"
  by (simp add: encode_customer_created_def json_safe_simps)

lemma replay_package_created:
  "package_times (EvPackageCreated package_id' customer_id' start_location' end_location' weight'
     initial_status' initial_location' expected_arrival') \<Longrightarrow>
     decode_package_created (encode_package_created package_id' customer_id' start_location'
       end_location' weight' initial_status' initial_location' expected_arrival') =
       Inr (PackageE (EvPackageCreated package_id' customer_id' start_location' end_location'
         weight' initial_status' initial_location' expected_arrival')) \<longleftrightarrow>
     package_replayable (EvPackageCreated package_id' customer_id' start_location' end_location'
       weight' initial_status' initial_location' expected_arrival')"
  by (auto simp: encode_package_created_def decode_package_created_def payload_simps)

lemma safe_package_created:
  "validate_json_value (JObj (encode_package_created package_id' customer_id' start_location'
     end_location' weight' initial_status' initial_location' expected_arrival')) = Inr ()"
  by (simp add: encode_package_created_def json_safe_simps)

lemma replay_package_removed:
  "package_times (EvPackageRemoved package_id' customer_id' previous_route_id' previous_status'
     previous_location' start_location' end_location' weight' previous_expected_arrival') \<Longrightarrow>
     decode_package_removed (encode_package_removed package_id' customer_id' previous_route_id'
       previous_status' previous_location' start_location' end_location' weight'
       previous_expected_arrival') =
       Inr (PackageE (EvPackageRemoved package_id' customer_id' previous_route_id'
         previous_status' previous_location' start_location' end_location' weight'
         previous_expected_arrival')) \<longleftrightarrow>
     package_replayable (EvPackageRemoved package_id' customer_id' previous_route_id'
       previous_status' previous_location' start_location' end_location' weight'
       previous_expected_arrival')"
  by (auto simp: encode_package_removed_def decode_package_removed_def payload_simps)

lemma safe_package_removed:
  "validate_json_value (JObj (encode_package_removed package_id' customer_id' previous_route_id'
     previous_status' previous_location' start_location' end_location' weight'
     previous_expected_arrival')) = Inr ()"
  by (simp add: encode_package_removed_def json_safe_simps)

lemma replay_package_picked_up:
  "package_times (EvPackagePickedUp package_id' route_id' previous_status' new_status'
     previous_location' new_location' scheduled_arrival') \<Longrightarrow>
     decode_package_picked_up (encode_package_picked_up package_id' route_id' previous_status'
       new_status' previous_location' new_location' scheduled_arrival') =
       Inr (PackageE (EvPackagePickedUp package_id' route_id' previous_status' new_status'
         previous_location' new_location' scheduled_arrival')) \<longleftrightarrow>
     package_replayable (EvPackagePickedUp package_id' route_id' previous_status' new_status'
       previous_location' new_location' scheduled_arrival')"
  by (auto simp: encode_package_picked_up_def decode_package_picked_up_def payload_simps)

lemma safe_package_picked_up:
  "validate_json_value (JObj (encode_package_picked_up package_id' route_id' previous_status'
     new_status' previous_location' new_location' scheduled_arrival')) = Inr ()"
  by (simp add: encode_package_picked_up_def json_safe_simps)

lemma replay_package_delivered:
  "package_times (EvPackageDelivered package_id' route_id' previous_status' new_status'
     previous_location' new_location' scheduled_arrival') \<Longrightarrow>
     decode_package_delivered (encode_package_delivered package_id' route_id' previous_status'
       new_status' previous_location' new_location' scheduled_arrival') =
       Inr (PackageE (EvPackageDelivered package_id' route_id' previous_status' new_status'
         previous_location' new_location' scheduled_arrival')) \<longleftrightarrow>
     package_replayable (EvPackageDelivered package_id' route_id' previous_status' new_status'
       previous_location' new_location' scheduled_arrival')"
  by (auto simp: encode_package_delivered_def decode_package_delivered_def payload_simps)

lemma safe_package_delivered:
  "validate_json_value (JObj (encode_package_delivered package_id' route_id' previous_status'
     new_status' previous_location' new_location' scheduled_arrival')) = Inr ()"
  by (simp add: encode_package_delivered_def json_safe_simps)

lemma replay_route_created:
  "route_times (EvRouteCreated route_id' locations' departure_time' initial_status'
     expected_completion_time') \<Longrightarrow>
     decode_route_created (encode_route_created route_id' locations' departure_time'
       initial_status' expected_completion_time') =
       Inr (RouteE (EvRouteCreated route_id' locations' departure_time' initial_status'
         expected_completion_time')) \<longleftrightarrow>
     route_replayable (EvRouteCreated route_id' locations' departure_time' initial_status'
       expected_completion_time')"
  by (auto simp: encode_route_created_def decode_route_created_def payload_simps)

lemma safe_route_created:
  "validate_json_value (JObj (encode_route_created route_id' locations' departure_time'
     initial_status' expected_completion_time')) = Inr ()"
  by (simp add: encode_route_created_def json_safe_simps)

lemma replay_route_scheduled:
  "route_times (EvRouteScheduled route_id' previous_status' new_status' previous_departure_time'
     new_departure_time' previous_expected_completion_time' new_expected_completion_time') \<Longrightarrow>
     decode_route_scheduled (encode_route_scheduled route_id' previous_status' new_status'
       previous_departure_time' new_departure_time' previous_expected_completion_time'
       new_expected_completion_time') =
       Inr (RouteE (EvRouteScheduled route_id' previous_status' new_status'
         previous_departure_time' new_departure_time' previous_expected_completion_time'
         new_expected_completion_time')) \<longleftrightarrow>
     route_replayable (EvRouteScheduled route_id' previous_status' new_status'
       previous_departure_time' new_departure_time' previous_expected_completion_time'
       new_expected_completion_time')"
  by (auto simp: encode_route_scheduled_def decode_route_scheduled_def payload_simps)

lemma safe_route_scheduled:
  "validate_json_value (JObj (encode_route_scheduled route_id' previous_status' new_status'
     previous_departure_time' new_departure_time' previous_expected_completion_time'
     new_expected_completion_time')) = Inr ()"
  by (simp add: encode_route_scheduled_def json_safe_simps)

lemma replay_route_started:
  "route_times (EvRouteStarted route_id' previous_status' new_status') \<Longrightarrow>
     decode_route_started (encode_route_started route_id' previous_status' new_status') =
       Inr (RouteE (EvRouteStarted route_id' previous_status' new_status')) \<longleftrightarrow>
     route_replayable (EvRouteStarted route_id' previous_status' new_status')"
  by (auto simp: encode_route_started_def decode_route_started_def payload_simps)

lemma safe_route_started:
  "validate_json_value (JObj (encode_route_started route_id' previous_status' new_status')) = Inr ()"
  by (simp add: encode_route_started_def json_safe_simps)

lemma replay_route_completed:
  "route_times (EvRouteCompleted route_id' previous_status' new_status' departure_time'
     expected_completion_time') \<Longrightarrow>
     decode_route_completed (encode_route_completed route_id' previous_status' new_status'
       departure_time' expected_completion_time') =
       Inr (RouteE (EvRouteCompleted route_id' previous_status' new_status' departure_time'
         expected_completion_time')) \<longleftrightarrow>
     route_replayable (EvRouteCompleted route_id' previous_status' new_status' departure_time'
       expected_completion_time')"
  by (auto simp: encode_route_completed_def decode_route_completed_def payload_simps)

lemma safe_route_completed:
  "validate_json_value (JObj (encode_route_completed route_id' previous_status' new_status'
     departure_time' expected_completion_time')) = Inr ()"
  by (simp add: encode_route_completed_def json_safe_simps)

lemma replay_route_removed:
  "route_times (EvRouteRemoved route_id' previous_status' previous_locations'
     previous_departure_time' previous_expected_completion_time' detached_package_ids'
     released_truck_id') \<Longrightarrow>
     decode_route_removed (encode_route_removed route_id' previous_status' previous_locations'
       previous_departure_time' previous_expected_completion_time' detached_package_ids'
       released_truck_id') =
       Inr (RouteE (EvRouteRemoved route_id' previous_status' previous_locations'
         previous_departure_time' previous_expected_completion_time' detached_package_ids'
         released_truck_id')) \<longleftrightarrow>
     route_replayable (EvRouteRemoved route_id' previous_status' previous_locations'
       previous_departure_time' previous_expected_completion_time' detached_package_ids'
       released_truck_id')"
  by (auto simp: encode_route_removed_def decode_route_removed_def payload_simps)

lemma safe_route_removed:
  "validate_json_value (JObj (encode_route_removed route_id' previous_status' previous_locations'
     previous_departure_time' previous_expected_completion_time' detached_package_ids'
     released_truck_id')) = Inr ()"
  by (simp add: encode_route_removed_def json_safe_simps)

lemma replay_package_assigned_to_route:
  "route_times (EvPackageAssignedToRoute package_id' previous_route_id' new_route_id'
     previous_expected_arrival' new_expected_arrival') \<Longrightarrow>
     decode_package_assigned_to_route (encode_package_assigned_to_route package_id'
       previous_route_id' new_route_id' previous_expected_arrival' new_expected_arrival') =
       Inr (RouteE (EvPackageAssignedToRoute package_id' previous_route_id' new_route_id'
         previous_expected_arrival' new_expected_arrival')) \<longleftrightarrow>
     route_replayable (EvPackageAssignedToRoute package_id' previous_route_id' new_route_id'
       previous_expected_arrival' new_expected_arrival')"
  by (auto simp: encode_package_assigned_to_route_def decode_package_assigned_to_route_def payload_simps)

lemma safe_package_assigned_to_route:
  "validate_json_value (JObj (encode_package_assigned_to_route package_id' previous_route_id'
     new_route_id' previous_expected_arrival' new_expected_arrival')) = Inr ()"
  by (simp add: encode_package_assigned_to_route_def json_safe_simps)

lemma replay_package_detached_from_route:
  "route_times (EvPackageDetachedFromRoute package_id' previous_route_id' new_route_id'
     previous_status' new_status' previous_location' new_location' previous_expected_arrival'
     new_expected_arrival' reason') \<Longrightarrow>
     decode_package_detached_from_route (encode_package_detached_from_route package_id'
       previous_route_id' new_route_id' previous_status' new_status' previous_location'
       new_location' previous_expected_arrival' new_expected_arrival' reason') =
       Inr (RouteE (EvPackageDetachedFromRoute package_id' previous_route_id' new_route_id'
         previous_status' new_status' previous_location' new_location' previous_expected_arrival'
         new_expected_arrival' reason')) \<longleftrightarrow>
     route_replayable (EvPackageDetachedFromRoute package_id' previous_route_id' new_route_id'
       previous_status' new_status' previous_location' new_location' previous_expected_arrival'
       new_expected_arrival' reason')"
  by (auto simp: encode_package_detached_from_route_def decode_package_detached_from_route_def payload_simps)

lemma safe_package_detached_from_route:
  "validate_json_value (JObj (encode_package_detached_from_route package_id' previous_route_id'
     new_route_id' previous_status' new_status' previous_location' new_location'
     previous_expected_arrival' new_expected_arrival' reason')) = Inr ()"
  by (simp add: encode_package_detached_from_route_def json_safe_simps)

lemma replay_truck_assigned_to_route:
  "route_times (EvTruckAssignedToRoute truck_id' previous_route_id' new_route_id' previous_status'
     new_status' previous_location' new_location' previous_busy_from' new_busy_from'
     previous_busy_until' new_busy_until') \<Longrightarrow>
     decode_truck_assigned_to_route (encode_truck_assigned_to_route truck_id' previous_route_id'
       new_route_id' previous_status' new_status' previous_location' new_location'
       previous_busy_from' new_busy_from' previous_busy_until' new_busy_until') =
       Inr (RouteE (EvTruckAssignedToRoute truck_id' previous_route_id' new_route_id'
         previous_status' new_status' previous_location' new_location' previous_busy_from'
         new_busy_from' previous_busy_until' new_busy_until')) \<longleftrightarrow>
     route_replayable (EvTruckAssignedToRoute truck_id' previous_route_id' new_route_id'
       previous_status' new_status' previous_location' new_location' previous_busy_from'
       new_busy_from' previous_busy_until' new_busy_until')"
  by (auto simp: encode_truck_assigned_to_route_def decode_truck_assigned_to_route_def payload_simps)

lemma safe_truck_assigned_to_route:
  "validate_json_value (JObj (encode_truck_assigned_to_route truck_id' previous_route_id'
     new_route_id' previous_status' new_status' previous_location' new_location'
     previous_busy_from' new_busy_from' previous_busy_until' new_busy_until')) = Inr ()"
  by (simp add: encode_truck_assigned_to_route_def json_safe_simps)

lemma replay_truck_released_from_route:
  "route_times (EvTruckReleasedFromRoute truck_id' previous_route_id' new_route_id'
     previous_status' new_status' previous_location' new_location' previous_busy_from'
     new_busy_from' previous_busy_until' new_busy_until' reason') \<Longrightarrow>
     decode_truck_released_from_route (encode_truck_released_from_route truck_id'
       previous_route_id' new_route_id' previous_status' new_status' previous_location'
       new_location' previous_busy_from' new_busy_from' previous_busy_until' new_busy_until'
       reason') =
       Inr (RouteE (EvTruckReleasedFromRoute truck_id' previous_route_id' new_route_id'
         previous_status' new_status' previous_location' new_location' previous_busy_from'
         new_busy_from' previous_busy_until' new_busy_until' reason')) \<longleftrightarrow>
     route_replayable (EvTruckReleasedFromRoute truck_id' previous_route_id' new_route_id'
       previous_status' new_status' previous_location' new_location' previous_busy_from'
       new_busy_from' previous_busy_until' new_busy_until' reason')"
  by (auto simp: encode_truck_released_from_route_def decode_truck_released_from_route_def payload_simps)

lemma safe_truck_released_from_route:
  "validate_json_value (JObj (encode_truck_released_from_route truck_id' previous_route_id'
     new_route_id' previous_status' new_status' previous_location' new_location'
     previous_busy_from' new_busy_from' previous_busy_until' new_busy_until' reason')) = Inr ()"
  by (simp add: encode_truck_released_from_route_def json_safe_simps)

end
