(* ===== verification/CodecsAccess.thy ===== *)
theory CodecsAccess
  imports Payload
begin

text \<open>
  Outbox payload codecs of the access events: \<open>codecs/auth_registration.py\<close>, \<open>auth_passwords.py\<close>,
  \<open>auth_sessions.py\<close> and \<open>authorization.py\<close> under \<open>src/application/eventing/outbox/\<close>.
  An encoder takes the fields of its event in the order of the class and a decoder reads the payload's
  fields in the order of the code.  Decoding what was encoded gives the event back exactly when its
  fields pass the decoder's checks (\<open>..._replayable\<close>); \<open>..._times\<close> says that the times lie in the
  calendar of \<open>datetime\<close>, which holds for every time the program can hold.
\<close>

section \<open>\<open>auth_registration.py\<close>\<close>

text \<open>\<open>UserRegisteredEventPayloadCodec\<close>\<close>

definition encode_user_registered ::
    "int \<Rightarrow> string \<Rightarrow> role \<Rightarrow> json_object" where
  "encode_user_registered user_id' username' role' =
     [(''user_id'', JInt user_id'), (''username'', JStr username'), (''role'', JStr (role_value role'))]"

definition decode_user_registered :: "json_object \<Rightarrow> event_fields result" where
  "decode_user_registered p =
     res_bind (require_json_object_keys p
       [''user_id'', ''username'', ''role'']) (\<lambda>_.
     res_bind (read p ''user_id'' require_positive_int) (\<lambda>user_id'.
     res_bind (read p ''username'' require_str) (\<lambda>username'.
     res_bind (read p ''role'' (parse_enum_value role_value role_members)) (\<lambda>role'.
       Inr (AuthE (EvUserRegistered user_id' username' role'))))))"

text \<open>\<open>UserRegistrationRejectedEventPayloadCodec\<close>\<close>

definition encode_user_registration_rejected ::
    "string option \<Rightarrow> registration_rejection \<Rightarrow> json_object" where
  "encode_user_registration_rejected username' reason' =
     [(''username'', optional_str username'), (''reason'', JStr (registration_rejection_value reason'))]"

definition decode_user_registration_rejected :: "json_object \<Rightarrow> event_fields result" where
  "decode_user_registration_rejected p =
     res_bind (require_json_object_keys p
       [''username'', ''reason'']) (\<lambda>_.
     res_bind (read p ''username'' require_optional_str) (\<lambda>username'.
     res_bind (read p ''reason''
       (parse_enum_value registration_rejection_value registration_rejection_members)) (\<lambda>reason'.
       Inr (AuthE (EvUserRegistrationRejected username' reason')))))"

section \<open>\<open>auth_passwords.py\<close>\<close>

text \<open>\<open>UserPasswordChangedEventPayloadCodec\<close>\<close>

definition encode_user_password_changed ::
    "int \<Rightarrow> string \<Rightarrow> json_object" where
  "encode_user_password_changed user_id' username' =
     [(''user_id'', JInt user_id'), (''username'', JStr username')]"

definition decode_user_password_changed :: "json_object \<Rightarrow> event_fields result" where
  "decode_user_password_changed p =
     res_bind (require_json_object_keys p
       [''user_id'', ''username'']) (\<lambda>_.
     res_bind (read p ''user_id'' require_positive_int) (\<lambda>user_id'.
     res_bind (read p ''username'' require_str) (\<lambda>username'.
       Inr (AuthE (EvUserPasswordChanged user_id' username')))))"

text \<open>\<open>UserPasswordChangeRejectedEventPayloadCodec\<close>\<close>

definition encode_user_password_change_rejected ::
    "int option \<Rightarrow> string option \<Rightarrow> password_change_rejection \<Rightarrow> json_object" where
  "encode_user_password_change_rejected user_id' username' reason' =
     [(''user_id'', optional_int user_id'), (''username'', optional_str username'),
      (''reason'', JStr (password_change_rejection_value reason'))]"

definition decode_user_password_change_rejected :: "json_object \<Rightarrow> event_fields result" where
  "decode_user_password_change_rejected p =
     res_bind (require_json_object_keys p
       [''user_id'', ''username'', ''reason'']) (\<lambda>_.
     res_bind (read p ''user_id'' require_optional_positive_int) (\<lambda>user_id'.
     res_bind (read p ''username'' require_optional_str) (\<lambda>username'.
     res_bind (read p ''reason''
       (parse_enum_value password_change_rejection_value password_change_rejection_members)) (\<lambda>reason'.
       Inr (AuthE (EvUserPasswordChangeRejected user_id' username' reason'))))))"

text \<open>\<open>UserPasswordResetEventPayloadCodec\<close>\<close>

definition encode_user_password_reset ::
    "int \<Rightarrow> string \<Rightarrow> json_object" where
  "encode_user_password_reset user_id' username' =
     [(''user_id'', JInt user_id'), (''username'', JStr username')]"

definition decode_user_password_reset :: "json_object \<Rightarrow> event_fields result" where
  "decode_user_password_reset p =
     res_bind (require_json_object_keys p
       [''user_id'', ''username'']) (\<lambda>_.
     res_bind (read p ''user_id'' require_positive_int) (\<lambda>user_id'.
     res_bind (read p ''username'' require_str) (\<lambda>username'.
       Inr (AuthE (EvUserPasswordReset user_id' username')))))"

text \<open>\<open>UserPasswordResetRejectedEventPayloadCodec\<close>\<close>

definition encode_user_password_reset_rejected ::
    "int option \<Rightarrow> string option \<Rightarrow> password_reset_rejection \<Rightarrow> json_object" where
  "encode_user_password_reset_rejected user_id' username' reason' =
     [(''user_id'', optional_int user_id'), (''username'', optional_str username'),
      (''reason'', JStr (password_reset_rejection_value reason'))]"

definition decode_user_password_reset_rejected :: "json_object \<Rightarrow> event_fields result" where
  "decode_user_password_reset_rejected p =
     res_bind (require_json_object_keys p
       [''user_id'', ''username'', ''reason'']) (\<lambda>_.
     res_bind (read p ''user_id'' require_optional_positive_int) (\<lambda>user_id'.
     res_bind (read p ''username'' require_optional_str) (\<lambda>username'.
     res_bind (read p ''reason''
       (parse_enum_value password_reset_rejection_value password_reset_rejection_members)) (\<lambda>reason'.
       Inr (AuthE (EvUserPasswordResetRejected user_id' username' reason'))))))"

section \<open>\<open>auth_sessions.py\<close>\<close>

text \<open>\<open>UserAuthenticatedEventPayloadCodec\<close>\<close>

definition encode_user_authenticated ::
    "int \<Rightarrow> string \<Rightarrow> role \<Rightarrow> json_object" where
  "encode_user_authenticated user_id' username' role' =
     [(''user_id'', JInt user_id'), (''username'', JStr username'), (''role'', JStr (role_value role'))]"

definition decode_user_authenticated :: "json_object \<Rightarrow> event_fields result" where
  "decode_user_authenticated p =
     res_bind (require_json_object_keys p
       [''user_id'', ''username'', ''role'']) (\<lambda>_.
     res_bind (read p ''user_id'' require_positive_int) (\<lambda>user_id'.
     res_bind (read p ''username'' require_str) (\<lambda>username'.
     res_bind (read p ''role'' (parse_enum_value role_value role_members)) (\<lambda>role'.
       Inr (AuthE (EvUserAuthenticated user_id' username' role'))))))"

text \<open>\<open>UserLoginRejectedEventPayloadCodec\<close>\<close>

definition encode_user_login_rejected ::
    "int option \<Rightarrow> string option \<Rightarrow> login_rejection \<Rightarrow> json_object" where
  "encode_user_login_rejected user_id' username' reason' =
     [(''user_id'', optional_int user_id'), (''username'', optional_str username'),
      (''reason'', JStr (login_rejection_value reason'))]"

definition decode_user_login_rejected :: "json_object \<Rightarrow> event_fields result" where
  "decode_user_login_rejected p =
     res_bind (require_json_object_keys p
       [''user_id'', ''username'', ''reason'']) (\<lambda>_.
     res_bind (read p ''user_id'' require_optional_positive_int) (\<lambda>user_id'.
     res_bind (read p ''username'' require_optional_str) (\<lambda>username'.
     res_bind (read p ''reason''
       (parse_enum_value login_rejection_value login_rejection_members)) (\<lambda>reason'.
       Inr (AuthE (EvUserLoginRejected user_id' username' reason'))))))"

text \<open>\<open>UserSessionEndedEventPayloadCodec\<close>\<close>

definition encode_user_session_ended ::
    "int \<Rightarrow> string \<Rightarrow> json_object" where
  "encode_user_session_ended user_id' username' =
     [(''user_id'', JInt user_id'), (''username'', JStr username')]"

definition decode_user_session_ended :: "json_object \<Rightarrow> event_fields result" where
  "decode_user_session_ended p =
     res_bind (require_json_object_keys p
       [''user_id'', ''username'']) (\<lambda>_.
     res_bind (read p ''user_id'' require_positive_int) (\<lambda>user_id'.
     res_bind (read p ''username'' require_str) (\<lambda>username'.
       Inr (AuthE (EvUserSessionEnded user_id' username')))))"

text \<open>\<open>UserTokensRevokedEventPayloadCodec\<close>\<close>

definition encode_user_tokens_revoked ::
    "int \<Rightarrow> string \<Rightarrow> token_revocation \<Rightarrow> json_object" where
  "encode_user_tokens_revoked user_id' username' reason' =
     [(''user_id'', JInt user_id'), (''username'', JStr username'),
      (''reason'', JStr (token_revocation_value reason'))]"

definition decode_user_tokens_revoked :: "json_object \<Rightarrow> event_fields result" where
  "decode_user_tokens_revoked p =
     res_bind (require_json_object_keys p
       [''user_id'', ''username'', ''reason'']) (\<lambda>_.
     res_bind (read p ''user_id'' require_positive_int) (\<lambda>user_id'.
     res_bind (read p ''username'' require_str) (\<lambda>username'.
     res_bind (read p ''reason''
       (parse_enum_value token_revocation_value token_revocation_members)) (\<lambda>reason'.
       Inr (AuthE (EvUserTokensRevoked user_id' username' reason'))))))"

section \<open>\<open>authorization.py\<close>\<close>

text \<open>\<open>AuthorizationDeniedEventPayloadCodec\<close>\<close>

definition encode_authorization_denied ::
    "auth_operation \<Rightarrow> resource_type \<Rightarrow> string option \<Rightarrow>
      permission list \<Rightarrow> json_object" where
  "encode_authorization_denied attempted_operation' target_resource_type' target_resource_id'
     required_permissions' =
     [(''attempted_operation'', JStr (auth_operation_value attempted_operation')),
      (''target_resource_type'', JStr (resource_type_value target_resource_type')),
      (''target_resource_id'', optional_str target_resource_id'),
      (''required_permissions'', JList (map (\<lambda>m. JStr (permission_name m)) required_permissions'))]"

definition decode_authorization_denied :: "json_object \<Rightarrow> event_fields result" where
  "decode_authorization_denied p =
     res_bind (require_json_object_keys p
       [''attempted_operation'', ''target_resource_type'', ''target_resource_id'',
        ''required_permissions'']) (\<lambda>_.
     res_bind (read p ''attempted_operation''
       (parse_enum_value auth_operation_value auth_operation_members)) (\<lambda>attempted_operation'.
     res_bind (read p ''target_resource_type''
       (parse_enum_value resource_type_value resource_type_members)) (\<lambda>target_resource_type'.
     res_bind (read p ''target_resource_id'' require_optional_str) (\<lambda>target_resource_id'.
     res_bind (read p ''required_permissions''
       (read_list (parse_enum_name permission_name permission_members))) (\<lambda>permissions'.
       Inr (AuthE (EvAuthorizationDenied attempted_operation' target_resource_type'
         target_resource_id' permissions')))))))"

section \<open>Decoding what was encoded\<close>

fun auth_replayable :: "auth_fields \<Rightarrow> bool" where
  "auth_replayable (EvUserRegistered user_id' _ _) \<longleftrightarrow>
     1 \<le> user_id'"
| "auth_replayable (EvUserRegistrationRejected _ _) \<longleftrightarrow>
     True"
| "auth_replayable (EvUserPasswordChanged user_id' _) \<longleftrightarrow>
     1 \<le> user_id'"
| "auth_replayable (EvUserPasswordChangeRejected user_id' _ _) \<longleftrightarrow>
     pred_option (\<lambda>i. 1 \<le> i) user_id'"
| "auth_replayable (EvUserPasswordReset user_id' _) \<longleftrightarrow>
     1 \<le> user_id'"
| "auth_replayable (EvUserPasswordResetRejected user_id' _ _) \<longleftrightarrow>
     pred_option (\<lambda>i. 1 \<le> i) user_id'"
| "auth_replayable (EvUserAuthenticated user_id' _ _) \<longleftrightarrow>
     1 \<le> user_id'"
| "auth_replayable (EvUserLoginRejected user_id' _ _) \<longleftrightarrow>
     pred_option (\<lambda>i. 1 \<le> i) user_id'"
| "auth_replayable (EvUserSessionEnded user_id' _) \<longleftrightarrow>
     1 \<le> user_id'"
| "auth_replayable (EvUserTokensRevoked user_id' _ _) \<longleftrightarrow>
     1 \<le> user_id'"
| "auth_replayable (EvAuthorizationDenied _ _ _ _) \<longleftrightarrow>
     True"

fun auth_times :: "auth_fields \<Rightarrow> bool" where
  "auth_times (EvUserRegistered _ _ _) \<longleftrightarrow>
     True"
| "auth_times (EvUserRegistrationRejected _ _) \<longleftrightarrow>
     True"
| "auth_times (EvUserPasswordChanged _ _) \<longleftrightarrow>
     True"
| "auth_times (EvUserPasswordChangeRejected _ _ _) \<longleftrightarrow>
     True"
| "auth_times (EvUserPasswordReset _ _) \<longleftrightarrow>
     True"
| "auth_times (EvUserPasswordResetRejected _ _ _) \<longleftrightarrow>
     True"
| "auth_times (EvUserAuthenticated _ _ _) \<longleftrightarrow>
     True"
| "auth_times (EvUserLoginRejected _ _ _) \<longleftrightarrow>
     True"
| "auth_times (EvUserSessionEnded _ _) \<longleftrightarrow>
     True"
| "auth_times (EvUserTokensRevoked _ _ _) \<longleftrightarrow>
     True"
| "auth_times (EvAuthorizationDenied _ _ _ _) \<longleftrightarrow>
     True"

lemma replay_user_registered:
  "auth_times (EvUserRegistered user_id' username' role') \<Longrightarrow>
     decode_user_registered (encode_user_registered user_id' username' role') =
       Inr (AuthE (EvUserRegistered user_id' username' role')) \<longleftrightarrow>
     auth_replayable (EvUserRegistered user_id' username' role')"
  by (auto simp: encode_user_registered_def decode_user_registered_def payload_simps)

lemma safe_user_registered:
  "validate_json_value (JObj (encode_user_registered user_id' username' role')) = Inr ()"
  by (simp add: encode_user_registered_def json_safe_simps)

lemma replay_user_registration_rejected:
  "auth_times (EvUserRegistrationRejected username' reason') \<Longrightarrow>
     decode_user_registration_rejected (encode_user_registration_rejected username' reason') =
       Inr (AuthE (EvUserRegistrationRejected username' reason')) \<longleftrightarrow>
     auth_replayable (EvUserRegistrationRejected username' reason')"
  by (auto simp: encode_user_registration_rejected_def decode_user_registration_rejected_def payload_simps)

lemma safe_user_registration_rejected:
  "validate_json_value (JObj (encode_user_registration_rejected username' reason')) = Inr ()"
  by (simp add: encode_user_registration_rejected_def json_safe_simps)

lemma replay_user_password_changed:
  "auth_times (EvUserPasswordChanged user_id' username') \<Longrightarrow>
     decode_user_password_changed (encode_user_password_changed user_id' username') =
       Inr (AuthE (EvUserPasswordChanged user_id' username')) \<longleftrightarrow>
     auth_replayable (EvUserPasswordChanged user_id' username')"
  by (auto simp: encode_user_password_changed_def decode_user_password_changed_def payload_simps)

lemma safe_user_password_changed:
  "validate_json_value (JObj (encode_user_password_changed user_id' username')) = Inr ()"
  by (simp add: encode_user_password_changed_def json_safe_simps)

lemma replay_user_password_change_rejected:
  "auth_times (EvUserPasswordChangeRejected user_id' username' reason') \<Longrightarrow>
     decode_user_password_change_rejected (encode_user_password_change_rejected user_id' username'
       reason') =
       Inr (AuthE (EvUserPasswordChangeRejected user_id' username' reason')) \<longleftrightarrow>
     auth_replayable (EvUserPasswordChangeRejected user_id' username' reason')"
  by (auto simp: encode_user_password_change_rejected_def decode_user_password_change_rejected_def payload_simps)

lemma safe_user_password_change_rejected:
  "validate_json_value (JObj (encode_user_password_change_rejected user_id' username' reason')) = Inr ()"
  by (simp add: encode_user_password_change_rejected_def json_safe_simps)

lemma replay_user_password_reset:
  "auth_times (EvUserPasswordReset user_id' username') \<Longrightarrow>
     decode_user_password_reset (encode_user_password_reset user_id' username') =
       Inr (AuthE (EvUserPasswordReset user_id' username')) \<longleftrightarrow>
     auth_replayable (EvUserPasswordReset user_id' username')"
  by (auto simp: encode_user_password_reset_def decode_user_password_reset_def payload_simps)

lemma safe_user_password_reset:
  "validate_json_value (JObj (encode_user_password_reset user_id' username')) = Inr ()"
  by (simp add: encode_user_password_reset_def json_safe_simps)

lemma replay_user_password_reset_rejected:
  "auth_times (EvUserPasswordResetRejected user_id' username' reason') \<Longrightarrow>
     decode_user_password_reset_rejected (encode_user_password_reset_rejected user_id' username'
       reason') =
       Inr (AuthE (EvUserPasswordResetRejected user_id' username' reason')) \<longleftrightarrow>
     auth_replayable (EvUserPasswordResetRejected user_id' username' reason')"
  by (auto simp: encode_user_password_reset_rejected_def decode_user_password_reset_rejected_def payload_simps)

lemma safe_user_password_reset_rejected:
  "validate_json_value (JObj (encode_user_password_reset_rejected user_id' username' reason')) = Inr ()"
  by (simp add: encode_user_password_reset_rejected_def json_safe_simps)

lemma replay_user_authenticated:
  "auth_times (EvUserAuthenticated user_id' username' role') \<Longrightarrow>
     decode_user_authenticated (encode_user_authenticated user_id' username' role') =
       Inr (AuthE (EvUserAuthenticated user_id' username' role')) \<longleftrightarrow>
     auth_replayable (EvUserAuthenticated user_id' username' role')"
  by (auto simp: encode_user_authenticated_def decode_user_authenticated_def payload_simps)

lemma safe_user_authenticated:
  "validate_json_value (JObj (encode_user_authenticated user_id' username' role')) = Inr ()"
  by (simp add: encode_user_authenticated_def json_safe_simps)

lemma replay_user_login_rejected:
  "auth_times (EvUserLoginRejected user_id' username' reason') \<Longrightarrow>
     decode_user_login_rejected (encode_user_login_rejected user_id' username' reason') =
       Inr (AuthE (EvUserLoginRejected user_id' username' reason')) \<longleftrightarrow>
     auth_replayable (EvUserLoginRejected user_id' username' reason')"
  by (auto simp: encode_user_login_rejected_def decode_user_login_rejected_def payload_simps)

lemma safe_user_login_rejected:
  "validate_json_value (JObj (encode_user_login_rejected user_id' username' reason')) = Inr ()"
  by (simp add: encode_user_login_rejected_def json_safe_simps)

lemma replay_user_session_ended:
  "auth_times (EvUserSessionEnded user_id' username') \<Longrightarrow>
     decode_user_session_ended (encode_user_session_ended user_id' username') =
       Inr (AuthE (EvUserSessionEnded user_id' username')) \<longleftrightarrow>
     auth_replayable (EvUserSessionEnded user_id' username')"
  by (auto simp: encode_user_session_ended_def decode_user_session_ended_def payload_simps)

lemma safe_user_session_ended:
  "validate_json_value (JObj (encode_user_session_ended user_id' username')) = Inr ()"
  by (simp add: encode_user_session_ended_def json_safe_simps)

lemma replay_user_tokens_revoked:
  "auth_times (EvUserTokensRevoked user_id' username' reason') \<Longrightarrow>
     decode_user_tokens_revoked (encode_user_tokens_revoked user_id' username' reason') =
       Inr (AuthE (EvUserTokensRevoked user_id' username' reason')) \<longleftrightarrow>
     auth_replayable (EvUserTokensRevoked user_id' username' reason')"
  by (auto simp: encode_user_tokens_revoked_def decode_user_tokens_revoked_def payload_simps)

lemma safe_user_tokens_revoked:
  "validate_json_value (JObj (encode_user_tokens_revoked user_id' username' reason')) = Inr ()"
  by (simp add: encode_user_tokens_revoked_def json_safe_simps)

lemma replay_authorization_denied:
  "auth_times (EvAuthorizationDenied attempted_operation' target_resource_type'
     target_resource_id' required_permissions') \<Longrightarrow>
     decode_authorization_denied (encode_authorization_denied attempted_operation'
       target_resource_type' target_resource_id' required_permissions') =
       Inr (AuthE (EvAuthorizationDenied attempted_operation' target_resource_type'
         target_resource_id' required_permissions')) \<longleftrightarrow>
     auth_replayable (EvAuthorizationDenied attempted_operation' target_resource_type'
       target_resource_id' required_permissions')"
  by (auto simp: encode_authorization_denied_def decode_authorization_denied_def payload_simps)

lemma safe_authorization_denied:
  "validate_json_value (JObj (encode_authorization_denied attempted_operation'
     target_resource_type' target_resource_id' required_permissions')) = Inr ()"
  by (simp add: encode_authorization_denied_def json_safe_simps)

end
