(* ===== verification/CodecsWorld.thy ===== *)
theory CodecsWorld
  imports Payload
begin

text \<open>
  Outbox payload codecs of the workflows on the whole world: \<open>codecs/startup.py\<close>,
  \<open>world_state_transfer.py\<close>, \<open>world_state_integrity.py\<close>, \<open>world_state_runtime.py\<close>,
  \<open>world_state_startup.py\<close> and \<open>reconciliation.py\<close> under \<open>src/application/eventing/outbox/\<close>.
  An encoder takes the fields of its event in the order of the class and a decoder reads the payload's
  fields in the order of the code.  Decoding what was encoded gives the event back exactly when its
  fields pass the decoder's checks (\<open>..._replayable\<close>); \<open>..._times\<close> says that the times lie in the
  calendar of \<open>datetime\<close>, which holds for every time the program can hold.
\<close>

section \<open>\<open>startup.py\<close>\<close>

text \<open>\<open>FleetSeededEventPayloadCodec\<close>\<close>

definition encode_fleet_seeded ::
    "int list \<Rightarrow> string \<Rightarrow> json_object" where
  "encode_fleet_seeded seeded_truck_ids' backend' =
     [(''seeded_truck_ids'', JList (map JInt seeded_truck_ids')), (''backend'', JStr backend')]"

definition decode_fleet_seeded :: "json_object \<Rightarrow> event_fields result" where
  "decode_fleet_seeded p =
     res_bind (require_json_object_keys p
       [''seeded_truck_ids'', ''backend'']) (\<lambda>_.
     res_bind (read p ''seeded_truck_ids''
       (read_list require_positive_int)) (\<lambda>seeded_truck_ids'.
     res_bind (read p ''backend'' require_str) (\<lambda>backend'.
       Inr (StartupE (EvFleetSeeded seeded_truck_ids' backend')))))"

section \<open>\<open>world_state_transfer.py\<close>\<close>

text \<open>\<open>WorldStateExportedEventPayloadCodec\<close>\<close>

definition encode_world_state_exported ::
    "string \<Rightarrow> int \<Rightarrow> entity_counts \<Rightarrow> json_object" where
  "encode_world_state_exported snapshot_path' schema_version' entity_counts' =
     [(''snapshot_path'', JStr snapshot_path'), (''schema_version'', JInt schema_version')]
     @ encode_entity_counts '''' entity_counts'"

definition decode_world_state_exported :: "json_object \<Rightarrow> event_fields result" where
  "decode_world_state_exported p =
     res_bind (require_json_object_keys p
       [''snapshot_path'', ''schema_version'', ''customer_count'', ''package_count'',
        ''route_count'', ''truck_count'']) (\<lambda>_.
     res_bind (read p ''snapshot_path'' require_str) (\<lambda>snapshot_path'.
     res_bind (read p ''schema_version'' require_positive_int) (\<lambda>schema_version'.
     res_bind (decode_entity_counts '''' p) (\<lambda>entity_counts'.
       Inr (WorldE (EvWorldStateExported snapshot_path' schema_version' entity_counts'))))))"

text \<open>\<open>WorldStateExportFailedEventPayloadCodec\<close>\<close>

definition encode_world_state_export_failed ::
    "string \<Rightarrow> int option \<Rightarrow> failure_reason \<Rightarrow> json_object" where
  "encode_world_state_export_failed snapshot_path' schema_version' reason' =
     [(''snapshot_path'', JStr snapshot_path'), (''schema_version'', optional_int schema_version'),
      (''reason'', JStr (failure_reason_value reason'))]"

definition decode_world_state_export_failed :: "json_object \<Rightarrow> event_fields result" where
  "decode_world_state_export_failed p =
     res_bind (require_json_object_keys p
       [''snapshot_path'', ''schema_version'', ''reason'']) (\<lambda>_.
     res_bind (read p ''snapshot_path'' require_str) (\<lambda>snapshot_path'.
     res_bind (read p ''schema_version'' require_optional_positive_int) (\<lambda>schema_version'.
     res_bind (read p ''reason''
       (parse_enum_value failure_reason_value failure_reason_members)) (\<lambda>reason'.
       Inr (WorldE (EvWorldStateExportFailed snapshot_path' schema_version' reason'))))))"

text \<open>\<open>WorldStateImportedEventPayloadCodec\<close>\<close>

definition encode_world_state_imported ::
    "string \<Rightarrow> int \<Rightarrow> entity_counts \<Rightarrow>
      entity_counts \<Rightarrow> json_object" where
  "encode_world_state_imported snapshot_path' schema_version' previous_entity_counts'
     new_entity_counts' =
     [(''snapshot_path'', JStr snapshot_path'), (''schema_version'', JInt schema_version')]
     @ encode_entity_counts ''previous_'' previous_entity_counts'
     @ encode_entity_counts ''new_'' new_entity_counts'"

definition decode_world_state_imported :: "json_object \<Rightarrow> event_fields result" where
  "decode_world_state_imported p =
     res_bind (require_json_object_keys p
       [''snapshot_path'', ''schema_version'', ''previous_customer_count'',
        ''previous_package_count'', ''previous_route_count'', ''previous_truck_count'',
        ''new_customer_count'', ''new_package_count'', ''new_route_count'', ''new_truck_count'']) (\<lambda>_.
     res_bind (read p ''snapshot_path'' require_str) (\<lambda>snapshot_path'.
     res_bind (read p ''schema_version'' require_positive_int) (\<lambda>schema_version'.
     res_bind (decode_entity_counts ''previous_'' p) (\<lambda>previous_entity_counts'.
     res_bind (decode_entity_counts ''new_'' p) (\<lambda>new_entity_counts'.
       Inr (WorldE (EvWorldStateImported snapshot_path' schema_version' previous_entity_counts'
         new_entity_counts')))))))"

text \<open>\<open>WorldStateImportFailedEventPayloadCodec\<close>\<close>

definition encode_world_state_import_failed ::
    "string \<Rightarrow> int option \<Rightarrow> failure_reason \<Rightarrow> json_object" where
  "encode_world_state_import_failed snapshot_path' schema_version' reason' =
     [(''snapshot_path'', JStr snapshot_path'), (''schema_version'', optional_int schema_version'),
      (''reason'', JStr (failure_reason_value reason'))]"

definition decode_world_state_import_failed :: "json_object \<Rightarrow> event_fields result" where
  "decode_world_state_import_failed p =
     res_bind (require_json_object_keys p
       [''snapshot_path'', ''schema_version'', ''reason'']) (\<lambda>_.
     res_bind (read p ''snapshot_path'' require_str) (\<lambda>snapshot_path'.
     res_bind (read p ''schema_version'' require_optional_positive_int) (\<lambda>schema_version'.
     res_bind (read p ''reason''
       (parse_enum_value failure_reason_value failure_reason_members)) (\<lambda>reason'.
       Inr (WorldE (EvWorldStateImportFailed snapshot_path' schema_version' reason'))))))"

section \<open>\<open>world_state_integrity.py\<close>\<close>

text \<open>\<open>WorldStateCorruptionDetectedEventPayloadCodec\<close>\<close>

definition encode_world_state_corruption_detected ::
    "string \<Rightarrow> corruption_reason \<Rightarrow> json_object" where
  "encode_world_state_corruption_detected snapshot_path' reason' =
     [(''snapshot_path'', JStr snapshot_path'), (''reason'', JStr (corruption_reason_value reason'))]"

definition decode_world_state_corruption_detected :: "json_object \<Rightarrow> event_fields result" where
  "decode_world_state_corruption_detected p =
     res_bind (require_json_object_keys p
       [''snapshot_path'', ''reason'']) (\<lambda>_.
     res_bind (read p ''snapshot_path'' require_str) (\<lambda>snapshot_path'.
     res_bind (read p ''reason''
       (parse_enum_value corruption_reason_value corruption_reason_members)) (\<lambda>reason'.
       Inr (WorldE (EvWorldStateCorruptionDetected snapshot_path' reason')))))"

text \<open>\<open>WorldStateSnapshotQuarantinedEventPayloadCodec\<close>\<close>

definition encode_world_state_snapshot_quarantined ::
    "string \<Rightarrow> string \<Rightarrow> corruption_reason \<Rightarrow> json_object" where
  "encode_world_state_snapshot_quarantined original_path' quarantined_path' reason' =
     [(''original_path'', JStr original_path'), (''quarantined_path'', JStr quarantined_path'),
      (''reason'', JStr (corruption_reason_value reason'))]"

definition decode_world_state_snapshot_quarantined :: "json_object \<Rightarrow> event_fields result" where
  "decode_world_state_snapshot_quarantined p =
     res_bind (require_json_object_keys p
       [''original_path'', ''quarantined_path'', ''reason'']) (\<lambda>_.
     res_bind (read p ''original_path'' require_str) (\<lambda>original_path'.
     res_bind (read p ''quarantined_path'' require_str) (\<lambda>quarantined_path'.
     res_bind (read p ''reason''
       (parse_enum_value corruption_reason_value corruption_reason_members)) (\<lambda>reason'.
       Inr (WorldE (EvWorldStateSnapshotQuarantined original_path' quarantined_path' reason'))))))"

section \<open>\<open>world_state_runtime.py\<close>\<close>

text \<open>\<open>WorldStateRuntimeSwappedEventPayloadCodec\<close>\<close>

definition encode_world_state_runtime_swapped ::
    "string \<Rightarrow> int \<Rightarrow> entity_counts \<Rightarrow>
      entity_counts \<Rightarrow> json_object" where
  "encode_world_state_runtime_swapped snapshot_path' schema_version' previous_entity_counts'
     new_entity_counts' =
     [(''snapshot_path'', JStr snapshot_path'), (''schema_version'', JInt schema_version')]
     @ encode_entity_counts ''previous_'' previous_entity_counts'
     @ encode_entity_counts ''new_'' new_entity_counts'"

definition decode_world_state_runtime_swapped :: "json_object \<Rightarrow> event_fields result" where
  "decode_world_state_runtime_swapped p =
     res_bind (require_json_object_keys p
       [''snapshot_path'', ''schema_version'', ''previous_customer_count'',
        ''previous_package_count'', ''previous_route_count'', ''previous_truck_count'',
        ''new_customer_count'', ''new_package_count'', ''new_route_count'', ''new_truck_count'']) (\<lambda>_.
     res_bind (read p ''snapshot_path'' require_str) (\<lambda>snapshot_path'.
     res_bind (read p ''schema_version'' require_positive_int) (\<lambda>schema_version'.
     res_bind (decode_entity_counts ''previous_'' p) (\<lambda>previous_entity_counts'.
     res_bind (decode_entity_counts ''new_'' p) (\<lambda>new_entity_counts'.
       Inr (WorldE (EvWorldStateRuntimeSwapped snapshot_path' schema_version'
         previous_entity_counts' new_entity_counts')))))))"

text \<open>\<open>WorldStateAdvancedEventPayloadCodec\<close>\<close>

definition encode_world_state_advanced ::
    "int \<Rightarrow> int \<Rightarrow> int \<Rightarrow> int \<Rightarrow> int \<Rightarrow> json_object" where
  "encode_world_state_advanced routes_updated' packages_updated' trucks_moved' trucks_released'
     trucks_reconciled' =
     [(''routes_updated'', JInt routes_updated'), (''packages_updated'', JInt packages_updated'),
      (''trucks_moved'', JInt trucks_moved'), (''trucks_released'', JInt trucks_released'),
      (''trucks_reconciled'', JInt trucks_reconciled')]"

definition decode_world_state_advanced :: "json_object \<Rightarrow> event_fields result" where
  "decode_world_state_advanced p =
     res_bind (require_json_object_keys p
       [''routes_updated'', ''packages_updated'', ''trucks_moved'', ''trucks_released'',
        ''trucks_reconciled'']) (\<lambda>_.
     res_bind (read p ''routes_updated'' require_non_negative_int) (\<lambda>routes_updated'.
     res_bind (read p ''packages_updated'' require_non_negative_int) (\<lambda>packages_updated'.
     res_bind (read p ''trucks_moved'' require_non_negative_int) (\<lambda>trucks_moved'.
     res_bind (read p ''trucks_released'' require_non_negative_int) (\<lambda>trucks_released'.
     res_bind (read p ''trucks_reconciled'' require_non_negative_int) (\<lambda>trucks_reconciled'.
       Inr (WorldE (EvWorldStateAdvanced routes_updated' packages_updated' trucks_moved'
         trucks_released' trucks_reconciled'))))))))"

section \<open>\<open>world_state_startup.py\<close>\<close>

text \<open>\<open>WorldStateStartupRestoredEventPayloadCodec\<close>\<close>

definition encode_world_state_startup_restored ::
    "string \<Rightarrow> int \<Rightarrow> entity_counts \<Rightarrow>
      entity_counts \<Rightarrow> json_object" where
  "encode_world_state_startup_restored snapshot_path' schema_version' previous_entity_counts'
     new_entity_counts' =
     [(''snapshot_path'', JStr snapshot_path'), (''schema_version'', JInt schema_version')]
     @ encode_entity_counts ''previous_'' previous_entity_counts'
     @ encode_entity_counts ''new_'' new_entity_counts'"

definition decode_world_state_startup_restored :: "json_object \<Rightarrow> event_fields result" where
  "decode_world_state_startup_restored p =
     res_bind (require_json_object_keys p
       [''snapshot_path'', ''schema_version'', ''previous_customer_count'',
        ''previous_package_count'', ''previous_route_count'', ''previous_truck_count'',
        ''new_customer_count'', ''new_package_count'', ''new_route_count'', ''new_truck_count'']) (\<lambda>_.
     res_bind (read p ''snapshot_path'' require_str) (\<lambda>snapshot_path'.
     res_bind (read p ''schema_version'' require_positive_int) (\<lambda>schema_version'.
     res_bind (decode_entity_counts ''previous_'' p) (\<lambda>previous_entity_counts'.
     res_bind (decode_entity_counts ''new_'' p) (\<lambda>new_entity_counts'.
       Inr (WorldE (EvWorldStateStartupRestored snapshot_path' schema_version'
         previous_entity_counts' new_entity_counts')))))))"

text \<open>\<open>WorldStateStartupRestoreSkippedEventPayloadCodec\<close>\<close>

definition encode_world_state_startup_restore_skipped ::
    "startup_skip_reason \<Rightarrow> json_object" where
  "encode_world_state_startup_restore_skipped reason' =
     [(''reason'', JStr (startup_skip_reason_value reason'))]"

definition decode_world_state_startup_restore_skipped :: "json_object \<Rightarrow> event_fields result" where
  "decode_world_state_startup_restore_skipped p =
     res_bind (require_json_object_keys p
       [''reason'']) (\<lambda>_.
     res_bind (read p ''reason''
       (parse_enum_value startup_skip_reason_value startup_skip_reason_members)) (\<lambda>reason'.
       Inr (WorldE (EvWorldStateStartupRestoreSkipped reason'))))"

text \<open>\<open>WorldStateStartupRestoreFailedEventPayloadCodec\<close>\<close>

definition encode_world_state_startup_restore_failed ::
    "string \<Rightarrow> int option \<Rightarrow> failure_reason \<Rightarrow> json_object" where
  "encode_world_state_startup_restore_failed snapshot_path' schema_version' reason' =
     [(''snapshot_path'', JStr snapshot_path'), (''schema_version'', optional_int schema_version'),
      (''reason'', JStr (failure_reason_value reason'))]"

definition decode_world_state_startup_restore_failed :: "json_object \<Rightarrow> event_fields result" where
  "decode_world_state_startup_restore_failed p =
     res_bind (require_json_object_keys p
       [''snapshot_path'', ''schema_version'', ''reason'']) (\<lambda>_.
     res_bind (read p ''snapshot_path'' require_str) (\<lambda>snapshot_path'.
     res_bind (read p ''schema_version'' require_optional_positive_int) (\<lambda>schema_version'.
     res_bind (read p ''reason''
       (parse_enum_value failure_reason_value failure_reason_members)) (\<lambda>reason'.
       Inr (WorldE (EvWorldStateStartupRestoreFailed snapshot_path' schema_version' reason'))))))"

section \<open>\<open>reconciliation.py\<close>\<close>

text \<open>\<open>RouteStateReconciledEventPayloadCodec\<close>\<close>

definition encode_route_state_reconciled ::
    "int \<Rightarrow> route_status \<Rightarrow> route_status \<Rightarrow>
      time option \<Rightarrow> time option \<Rightarrow>
      route_reconciliation_reason \<Rightarrow> json_object" where
  "encode_route_state_reconciled route_id' previous_status' new_status' departure_time'
     expected_completion_time' reason' =
     [(''route_id'', JInt route_id'),
      (''previous_status'', JStr (route_status_value previous_status')),
      (''new_status'', JStr (route_status_value new_status')),
      (''departure_time'', optional_isoformat departure_time'),
      (''expected_completion_time'', optional_isoformat expected_completion_time'),
      (''reason'', JStr (route_reconciliation_reason_value reason'))]"

definition decode_route_state_reconciled :: "json_object \<Rightarrow> event_fields result" where
  "decode_route_state_reconciled p =
     res_bind (require_json_object_keys p
       [''route_id'', ''previous_status'', ''new_status'', ''departure_time'',
        ''expected_completion_time'', ''reason'']) (\<lambda>_.
     res_bind (read p ''route_id'' require_positive_int) (\<lambda>route_id'.
     res_bind (read p ''previous_status''
       (parse_enum_value route_status_value route_status_members)) (\<lambda>previous_status'.
     res_bind (read p ''new_status''
       (parse_enum_value route_status_value route_status_members)) (\<lambda>new_status'.
     res_bind (read p ''departure_time'' parse_optional_naive_datetime) (\<lambda>departure_time'.
     res_bind (read p ''expected_completion_time''
       parse_optional_naive_datetime) (\<lambda>expected_completion_time'.
     res_bind (read p ''reason''
       (parse_enum_value route_reconciliation_reason_value route_reconciliation_reason_members)) (\<lambda>reason'.
       Inr (RepairE (EvRouteStateReconciled route_id' previous_status' new_status' departure_time'
         expected_completion_time' reason')))))))))"

text \<open>\<open>PackageStateReconciledEventPayloadCodec\<close>\<close>

definition encode_package_state_reconciled ::
    "int \<Rightarrow> int option \<Rightarrow> item_status \<Rightarrow>
      item_status \<Rightarrow> location \<Rightarrow> location \<Rightarrow>
      time option \<Rightarrow> time option \<Rightarrow> time option \<Rightarrow>
      time option \<Rightarrow> package_reconciliation_reason list \<Rightarrow> json_object" where
  "encode_package_state_reconciled package_id' route_id' previous_status' new_status'
     previous_location' new_location' previous_expected_arrival' new_expected_arrival'
     scheduled_pickup_time' scheduled_delivery_time' reasons' =
     [(''package_id'', JInt package_id'), (''route_id'', optional_int route_id'),
      (''previous_status'', JStr (item_status_value previous_status')),
      (''new_status'', JStr (item_status_value new_status')),
      (''previous_location'', JStr previous_location'), (''new_location'', JStr new_location'),
      (''previous_expected_arrival'', optional_isoformat previous_expected_arrival'),
      (''new_expected_arrival'', optional_isoformat new_expected_arrival'),
      (''scheduled_pickup_time'', optional_isoformat scheduled_pickup_time'),
      (''scheduled_delivery_time'', optional_isoformat scheduled_delivery_time'),
      (''reasons'', JList (map (\<lambda>m. JStr (package_reconciliation_reason_value m)) reasons'))]"

definition decode_package_state_reconciled :: "json_object \<Rightarrow> event_fields result" where
  "decode_package_state_reconciled p =
     res_bind (require_json_object_keys p
       [''package_id'', ''route_id'', ''previous_status'', ''new_status'', ''previous_location'',
        ''new_location'', ''previous_expected_arrival'', ''new_expected_arrival'',
        ''scheduled_pickup_time'', ''scheduled_delivery_time'', ''reasons'']) (\<lambda>_.
     res_bind (read p ''package_id'' require_positive_int) (\<lambda>package_id'.
     res_bind (read p ''route_id'' require_optional_positive_int) (\<lambda>route_id'.
     res_bind (read p ''previous_status''
       (parse_enum_value item_status_value item_status_members)) (\<lambda>previous_status'.
     res_bind (read p ''new_status''
       (parse_enum_value item_status_value item_status_members)) (\<lambda>new_status'.
     res_bind (read p ''previous_location'' read_location) (\<lambda>previous_location'.
     res_bind (read p ''new_location'' read_location) (\<lambda>new_location'.
     res_bind (read p ''previous_expected_arrival''
       parse_optional_naive_datetime) (\<lambda>previous_expected_arrival'.
     res_bind (read p ''new_expected_arrival''
       parse_optional_naive_datetime) (\<lambda>new_expected_arrival'.
     res_bind (read p ''scheduled_pickup_time''
       parse_optional_naive_datetime) (\<lambda>scheduled_pickup_time'.
     res_bind (read p ''scheduled_delivery_time''
       parse_optional_naive_datetime) (\<lambda>scheduled_delivery_time'.
     res_bind (read p ''reasons''
       (read_list (parse_enum_value package_reconciliation_reason_value package_reconciliation_reason_members))) (\<lambda>reasons'.
       Inr (RepairE (EvPackageStateReconciled package_id' route_id' previous_status' new_status'
         previous_location' new_location' previous_expected_arrival' new_expected_arrival'
         scheduled_pickup_time' scheduled_delivery_time' reasons'))))))))))))))"

text \<open>\<open>TruckPositionReconciledEventPayloadCodec\<close>\<close>

definition encode_truck_position_reconciled ::
    "int \<Rightarrow> int option \<Rightarrow> location option \<Rightarrow>
      location option \<Rightarrow> location option \<Rightarrow> location option \<Rightarrow>
      position_kind \<Rightarrow> json_object" where
  "encode_truck_position_reconciled truck_id' route_id' previous_location' new_location'
     previous_in_transit_to' new_in_transit_to' position_kind' =
     [(''truck_id'', JInt truck_id'), (''route_id'', optional_int route_id'),
      (''previous_location'', optional_str previous_location'),
      (''new_location'', optional_str new_location'),
      (''previous_in_transit_to'', optional_str previous_in_transit_to'),
      (''new_in_transit_to'', optional_str new_in_transit_to'),
      (''position_kind'', JStr (position_kind_value position_kind'))]"

definition decode_truck_position_reconciled :: "json_object \<Rightarrow> event_fields result" where
  "decode_truck_position_reconciled p =
     res_bind (require_json_object_keys p
       [''truck_id'', ''route_id'', ''previous_location'', ''new_location'',
        ''previous_in_transit_to'', ''new_in_transit_to'', ''position_kind'']) (\<lambda>_.
     res_bind (read p ''truck_id'' require_positive_int) (\<lambda>truck_id'.
     res_bind (read p ''route_id'' require_optional_positive_int) (\<lambda>route_id'.
     res_bind (read p ''previous_location'' read_optional_location) (\<lambda>previous_location'.
     res_bind (read p ''new_location'' read_optional_location) (\<lambda>new_location'.
     res_bind (read p ''previous_in_transit_to''
       read_optional_location) (\<lambda>previous_in_transit_to'.
     res_bind (read p ''new_in_transit_to'' read_optional_location) (\<lambda>new_in_transit_to'.
     res_bind (read p ''position_kind''
       (parse_enum_value position_kind_value position_kind_members)) (\<lambda>position_kind'.
       Inr (RepairE (EvTruckPositionReconciled truck_id' route_id' previous_location'
         new_location' previous_in_transit_to' new_in_transit_to' position_kind'))))))))))"

text \<open>\<open>TruckRouteReferenceReconciledEventPayloadCodec\<close>\<close>

definition encode_truck_route_reference_reconciled ::
    "int \<Rightarrow> int option \<Rightarrow> int \<Rightarrow> json_object" where
  "encode_truck_route_reference_reconciled truck_id' previous_route_id' new_route_id' =
     [(''truck_id'', JInt truck_id'), (''previous_route_id'', optional_int previous_route_id'),
      (''new_route_id'', JInt new_route_id')]"

definition decode_truck_route_reference_reconciled :: "json_object \<Rightarrow> event_fields result" where
  "decode_truck_route_reference_reconciled p =
     res_bind (require_json_object_keys p
       [''truck_id'', ''previous_route_id'', ''new_route_id'']) (\<lambda>_.
     res_bind (read p ''truck_id'' require_positive_int) (\<lambda>truck_id'.
     res_bind (read p ''previous_route_id''
       require_optional_positive_int) (\<lambda>previous_route_id'.
     res_bind (read p ''new_route_id'' require_positive_int) (\<lambda>new_route_id'.
       Inr (RepairE (EvTruckRouteReferenceReconciled truck_id' previous_route_id' new_route_id'))))))"

section \<open>Decoding what was encoded\<close>

fun startup_replayable :: "startup_fields \<Rightarrow> bool" where
  "startup_replayable (EvFleetSeeded seeded_truck_ids' _) \<longleftrightarrow>
     list_all (\<lambda>i. 1 \<le> i) seeded_truck_ids'"

fun startup_times :: "startup_fields \<Rightarrow> bool" where
  "startup_times (EvFleetSeeded _ _) \<longleftrightarrow>
     True"

fun world_replayable :: "world_fields \<Rightarrow> bool" where
  "world_replayable (EvWorldStateExported _ schema_version' entity_counts') \<longleftrightarrow>
     1 \<le> schema_version' \<and> counts_ok entity_counts'"
| "world_replayable (EvWorldStateExportFailed _ schema_version' _) \<longleftrightarrow>
     pred_option (\<lambda>i. 1 \<le> i) schema_version'"
| "world_replayable (EvWorldStateImported _ schema_version' previous_entity_counts'
     new_entity_counts') \<longleftrightarrow>
     1 \<le> schema_version' \<and> counts_ok previous_entity_counts' \<and>
     counts_ok new_entity_counts'"
| "world_replayable (EvWorldStateImportFailed _ schema_version' _) \<longleftrightarrow>
     pred_option (\<lambda>i. 1 \<le> i) schema_version'"
| "world_replayable (EvWorldStateCorruptionDetected _ _) \<longleftrightarrow>
     True"
| "world_replayable (EvWorldStateSnapshotQuarantined _ _ _) \<longleftrightarrow>
     True"
| "world_replayable (EvWorldStateRuntimeSwapped _ schema_version' previous_entity_counts'
     new_entity_counts') \<longleftrightarrow>
     1 \<le> schema_version' \<and> counts_ok previous_entity_counts' \<and>
     counts_ok new_entity_counts'"
| "world_replayable (EvWorldStateStartupRestored _ schema_version' previous_entity_counts'
     new_entity_counts') \<longleftrightarrow>
     1 \<le> schema_version' \<and> counts_ok previous_entity_counts' \<and>
     counts_ok new_entity_counts'"
| "world_replayable (EvWorldStateStartupRestoreSkipped _) \<longleftrightarrow>
     True"
| "world_replayable (EvWorldStateStartupRestoreFailed _ schema_version' _) \<longleftrightarrow>
     pred_option (\<lambda>i. 1 \<le> i) schema_version'"
| "world_replayable (EvWorldStateAdvanced routes_updated' packages_updated' trucks_moved'
     trucks_released' trucks_reconciled') \<longleftrightarrow>
     0 \<le> routes_updated' \<and> 0 \<le> packages_updated' \<and> 0 \<le> trucks_moved' \<and>
     0 \<le> trucks_released' \<and> 0 \<le> trucks_reconciled'"

fun world_times :: "world_fields \<Rightarrow> bool" where
  "world_times (EvWorldStateExported _ _ _) \<longleftrightarrow>
     True"
| "world_times (EvWorldStateExportFailed _ _ _) \<longleftrightarrow>
     True"
| "world_times (EvWorldStateImported _ _ _ _) \<longleftrightarrow>
     True"
| "world_times (EvWorldStateImportFailed _ _ _) \<longleftrightarrow>
     True"
| "world_times (EvWorldStateCorruptionDetected _ _) \<longleftrightarrow>
     True"
| "world_times (EvWorldStateSnapshotQuarantined _ _ _) \<longleftrightarrow>
     True"
| "world_times (EvWorldStateRuntimeSwapped _ _ _ _) \<longleftrightarrow>
     True"
| "world_times (EvWorldStateStartupRestored _ _ _ _) \<longleftrightarrow>
     True"
| "world_times (EvWorldStateStartupRestoreSkipped _) \<longleftrightarrow>
     True"
| "world_times (EvWorldStateStartupRestoreFailed _ _ _) \<longleftrightarrow>
     True"
| "world_times (EvWorldStateAdvanced _ _ _ _ _) \<longleftrightarrow>
     True"

fun repair_replayable :: "repair_fields \<Rightarrow> bool" where
  "repair_replayable (EvRouteStateReconciled route_id' _ _ _ _ _) \<longleftrightarrow>
     1 \<le> route_id'"
| "repair_replayable (EvPackageStateReconciled package_id' route_id' _ _ previous_location'
     new_location' _ _ _ _ _) \<longleftrightarrow>
     1 \<le> package_id' \<and> pred_option (\<lambda>i. 1 \<le> i) route_id' \<and>
     is_location_code previous_location' \<and> is_location_code new_location'"
| "repair_replayable (EvTruckPositionReconciled truck_id' route_id' previous_location'
     new_location' previous_in_transit_to' new_in_transit_to' _) \<longleftrightarrow>
     1 \<le> truck_id' \<and> pred_option (\<lambda>i. 1 \<le> i) route_id' \<and>
     pred_option is_location_code previous_location' \<and>
     pred_option is_location_code new_location' \<and>
     pred_option is_location_code previous_in_transit_to' \<and>
     pred_option is_location_code new_in_transit_to'"
| "repair_replayable (EvTruckRouteReferenceReconciled truck_id' previous_route_id' new_route_id') \<longleftrightarrow>
     1 \<le> truck_id' \<and> pred_option (\<lambda>i. 1 \<le> i) previous_route_id' \<and>
     1 \<le> new_route_id'"

fun repair_times :: "repair_fields \<Rightarrow> bool" where
  "repair_times (EvRouteStateReconciled _ _ _ departure_time' expected_completion_time' _) \<longleftrightarrow>
     pred_option dt_in_range departure_time' \<and>
     pred_option dt_in_range expected_completion_time'"
| "repair_times (EvPackageStateReconciled _ _ _ _ _ _ previous_expected_arrival'
     new_expected_arrival' scheduled_pickup_time' scheduled_delivery_time' _) \<longleftrightarrow>
     pred_option dt_in_range previous_expected_arrival' \<and>
     pred_option dt_in_range new_expected_arrival' \<and>
     pred_option dt_in_range scheduled_pickup_time' \<and>
     pred_option dt_in_range scheduled_delivery_time'"
| "repair_times (EvTruckPositionReconciled _ _ _ _ _ _ _) \<longleftrightarrow>
     True"
| "repair_times (EvTruckRouteReferenceReconciled _ _ _) \<longleftrightarrow>
     True"

lemma replay_fleet_seeded:
  "startup_times (EvFleetSeeded seeded_truck_ids' backend') \<Longrightarrow>
     decode_fleet_seeded (encode_fleet_seeded seeded_truck_ids' backend') =
       Inr (StartupE (EvFleetSeeded seeded_truck_ids' backend')) \<longleftrightarrow>
     startup_replayable (EvFleetSeeded seeded_truck_ids' backend')"
  by (auto simp: encode_fleet_seeded_def decode_fleet_seeded_def payload_simps)

lemma safe_fleet_seeded:
  "validate_json_value (JObj (encode_fleet_seeded seeded_truck_ids' backend')) = Inr ()"
  by (simp add: encode_fleet_seeded_def json_safe_simps)

lemma replay_world_state_exported:
  "world_times (EvWorldStateExported snapshot_path' schema_version' entity_counts') \<Longrightarrow>
     decode_world_state_exported (encode_world_state_exported snapshot_path' schema_version'
       entity_counts') =
       Inr (WorldE (EvWorldStateExported snapshot_path' schema_version' entity_counts')) \<longleftrightarrow>
     world_replayable (EvWorldStateExported snapshot_path' schema_version' entity_counts')"
  by (auto simp: encode_world_state_exported_def decode_world_state_exported_def payload_simps)

lemma safe_world_state_exported:
  "validate_json_value (JObj (encode_world_state_exported snapshot_path' schema_version'
     entity_counts')) = Inr ()"
  by (simp add: encode_world_state_exported_def json_safe_simps)

lemma replay_world_state_export_failed:
  "world_times (EvWorldStateExportFailed snapshot_path' schema_version' reason') \<Longrightarrow>
     decode_world_state_export_failed (encode_world_state_export_failed snapshot_path'
       schema_version' reason') =
       Inr (WorldE (EvWorldStateExportFailed snapshot_path' schema_version' reason')) \<longleftrightarrow>
     world_replayable (EvWorldStateExportFailed snapshot_path' schema_version' reason')"
  by (auto simp: encode_world_state_export_failed_def decode_world_state_export_failed_def payload_simps)

lemma safe_world_state_export_failed:
  "validate_json_value (JObj (encode_world_state_export_failed snapshot_path' schema_version'
     reason')) = Inr ()"
  by (simp add: encode_world_state_export_failed_def json_safe_simps)

lemma replay_world_state_imported:
  "world_times (EvWorldStateImported snapshot_path' schema_version' previous_entity_counts'
     new_entity_counts') \<Longrightarrow>
     decode_world_state_imported (encode_world_state_imported snapshot_path' schema_version'
       previous_entity_counts' new_entity_counts') =
       Inr (WorldE (EvWorldStateImported snapshot_path' schema_version' previous_entity_counts'
         new_entity_counts')) \<longleftrightarrow>
     world_replayable (EvWorldStateImported snapshot_path' schema_version' previous_entity_counts'
       new_entity_counts')"
  by (auto simp: encode_world_state_imported_def decode_world_state_imported_def payload_simps)

lemma safe_world_state_imported:
  "validate_json_value (JObj (encode_world_state_imported snapshot_path' schema_version'
     previous_entity_counts' new_entity_counts')) = Inr ()"
  by (simp add: encode_world_state_imported_def json_safe_simps)

lemma replay_world_state_import_failed:
  "world_times (EvWorldStateImportFailed snapshot_path' schema_version' reason') \<Longrightarrow>
     decode_world_state_import_failed (encode_world_state_import_failed snapshot_path'
       schema_version' reason') =
       Inr (WorldE (EvWorldStateImportFailed snapshot_path' schema_version' reason')) \<longleftrightarrow>
     world_replayable (EvWorldStateImportFailed snapshot_path' schema_version' reason')"
  by (auto simp: encode_world_state_import_failed_def decode_world_state_import_failed_def payload_simps)

lemma safe_world_state_import_failed:
  "validate_json_value (JObj (encode_world_state_import_failed snapshot_path' schema_version'
     reason')) = Inr ()"
  by (simp add: encode_world_state_import_failed_def json_safe_simps)

lemma replay_world_state_corruption_detected:
  "world_times (EvWorldStateCorruptionDetected snapshot_path' reason') \<Longrightarrow>
     decode_world_state_corruption_detected (encode_world_state_corruption_detected snapshot_path'
       reason') =
       Inr (WorldE (EvWorldStateCorruptionDetected snapshot_path' reason')) \<longleftrightarrow>
     world_replayable (EvWorldStateCorruptionDetected snapshot_path' reason')"
  by (auto simp: encode_world_state_corruption_detected_def decode_world_state_corruption_detected_def payload_simps)

lemma safe_world_state_corruption_detected:
  "validate_json_value (JObj (encode_world_state_corruption_detected snapshot_path' reason')) = Inr ()"
  by (simp add: encode_world_state_corruption_detected_def json_safe_simps)

lemma replay_world_state_snapshot_quarantined:
  "world_times (EvWorldStateSnapshotQuarantined original_path' quarantined_path' reason') \<Longrightarrow>
     decode_world_state_snapshot_quarantined (encode_world_state_snapshot_quarantined
       original_path' quarantined_path' reason') =
       Inr (WorldE (EvWorldStateSnapshotQuarantined original_path' quarantined_path' reason')) \<longleftrightarrow>
     world_replayable (EvWorldStateSnapshotQuarantined original_path' quarantined_path' reason')"
  by (auto simp: encode_world_state_snapshot_quarantined_def decode_world_state_snapshot_quarantined_def payload_simps)

lemma safe_world_state_snapshot_quarantined:
  "validate_json_value (JObj (encode_world_state_snapshot_quarantined original_path'
     quarantined_path' reason')) = Inr ()"
  by (simp add: encode_world_state_snapshot_quarantined_def json_safe_simps)

lemma replay_world_state_runtime_swapped:
  "world_times (EvWorldStateRuntimeSwapped snapshot_path' schema_version' previous_entity_counts'
     new_entity_counts') \<Longrightarrow>
     decode_world_state_runtime_swapped (encode_world_state_runtime_swapped snapshot_path'
       schema_version' previous_entity_counts' new_entity_counts') =
       Inr (WorldE (EvWorldStateRuntimeSwapped snapshot_path' schema_version'
         previous_entity_counts' new_entity_counts')) \<longleftrightarrow>
     world_replayable (EvWorldStateRuntimeSwapped snapshot_path' schema_version'
       previous_entity_counts' new_entity_counts')"
  by (auto simp: encode_world_state_runtime_swapped_def decode_world_state_runtime_swapped_def payload_simps)

lemma safe_world_state_runtime_swapped:
  "validate_json_value (JObj (encode_world_state_runtime_swapped snapshot_path' schema_version'
     previous_entity_counts' new_entity_counts')) = Inr ()"
  by (simp add: encode_world_state_runtime_swapped_def json_safe_simps)

lemma replay_world_state_advanced:
  "world_times (EvWorldStateAdvanced routes_updated' packages_updated' trucks_moved'
     trucks_released' trucks_reconciled') \<Longrightarrow>
     decode_world_state_advanced (encode_world_state_advanced routes_updated' packages_updated'
       trucks_moved' trucks_released' trucks_reconciled') =
       Inr (WorldE (EvWorldStateAdvanced routes_updated' packages_updated' trucks_moved'
         trucks_released' trucks_reconciled')) \<longleftrightarrow>
     world_replayable (EvWorldStateAdvanced routes_updated' packages_updated' trucks_moved'
       trucks_released' trucks_reconciled')"
  by (auto simp: encode_world_state_advanced_def decode_world_state_advanced_def payload_simps)

lemma safe_world_state_advanced:
  "validate_json_value (JObj (encode_world_state_advanced routes_updated' packages_updated'
     trucks_moved' trucks_released' trucks_reconciled')) = Inr ()"
  by (simp add: encode_world_state_advanced_def json_safe_simps)

lemma replay_world_state_startup_restored:
  "world_times (EvWorldStateStartupRestored snapshot_path' schema_version' previous_entity_counts'
     new_entity_counts') \<Longrightarrow>
     decode_world_state_startup_restored (encode_world_state_startup_restored snapshot_path'
       schema_version' previous_entity_counts' new_entity_counts') =
       Inr (WorldE (EvWorldStateStartupRestored snapshot_path' schema_version'
         previous_entity_counts' new_entity_counts')) \<longleftrightarrow>
     world_replayable (EvWorldStateStartupRestored snapshot_path' schema_version'
       previous_entity_counts' new_entity_counts')"
  by (auto simp: encode_world_state_startup_restored_def decode_world_state_startup_restored_def payload_simps)

lemma safe_world_state_startup_restored:
  "validate_json_value (JObj (encode_world_state_startup_restored snapshot_path' schema_version'
     previous_entity_counts' new_entity_counts')) = Inr ()"
  by (simp add: encode_world_state_startup_restored_def json_safe_simps)

lemma replay_world_state_startup_restore_skipped:
  "world_times (EvWorldStateStartupRestoreSkipped reason') \<Longrightarrow>
     decode_world_state_startup_restore_skipped (encode_world_state_startup_restore_skipped
       reason') =
       Inr (WorldE (EvWorldStateStartupRestoreSkipped reason')) \<longleftrightarrow>
     world_replayable (EvWorldStateStartupRestoreSkipped reason')"
  by (auto simp: encode_world_state_startup_restore_skipped_def decode_world_state_startup_restore_skipped_def payload_simps)

lemma safe_world_state_startup_restore_skipped:
  "validate_json_value (JObj (encode_world_state_startup_restore_skipped reason')) = Inr ()"
  by (simp add: encode_world_state_startup_restore_skipped_def json_safe_simps)

lemma replay_world_state_startup_restore_failed:
  "world_times (EvWorldStateStartupRestoreFailed snapshot_path' schema_version' reason') \<Longrightarrow>
     decode_world_state_startup_restore_failed (encode_world_state_startup_restore_failed
       snapshot_path' schema_version' reason') =
       Inr (WorldE (EvWorldStateStartupRestoreFailed snapshot_path' schema_version' reason')) \<longleftrightarrow>
     world_replayable (EvWorldStateStartupRestoreFailed snapshot_path' schema_version' reason')"
  by (auto simp: encode_world_state_startup_restore_failed_def decode_world_state_startup_restore_failed_def payload_simps)

lemma safe_world_state_startup_restore_failed:
  "validate_json_value (JObj (encode_world_state_startup_restore_failed snapshot_path'
     schema_version' reason')) = Inr ()"
  by (simp add: encode_world_state_startup_restore_failed_def json_safe_simps)

lemma replay_route_state_reconciled:
  "repair_times (EvRouteStateReconciled route_id' previous_status' new_status' departure_time'
     expected_completion_time' reason') \<Longrightarrow>
     decode_route_state_reconciled (encode_route_state_reconciled route_id' previous_status'
       new_status' departure_time' expected_completion_time' reason') =
       Inr (RepairE (EvRouteStateReconciled route_id' previous_status' new_status' departure_time'
         expected_completion_time' reason')) \<longleftrightarrow>
     repair_replayable (EvRouteStateReconciled route_id' previous_status' new_status'
       departure_time' expected_completion_time' reason')"
  by (auto simp: encode_route_state_reconciled_def decode_route_state_reconciled_def payload_simps)

lemma safe_route_state_reconciled:
  "validate_json_value (JObj (encode_route_state_reconciled route_id' previous_status' new_status'
     departure_time' expected_completion_time' reason')) = Inr ()"
  by (simp add: encode_route_state_reconciled_def json_safe_simps)

lemma replay_package_state_reconciled:
  "repair_times (EvPackageStateReconciled package_id' route_id' previous_status' new_status'
     previous_location' new_location' previous_expected_arrival' new_expected_arrival'
     scheduled_pickup_time' scheduled_delivery_time' reasons') \<Longrightarrow>
     decode_package_state_reconciled (encode_package_state_reconciled package_id' route_id'
       previous_status' new_status' previous_location' new_location' previous_expected_arrival'
       new_expected_arrival' scheduled_pickup_time' scheduled_delivery_time' reasons') =
       Inr (RepairE (EvPackageStateReconciled package_id' route_id' previous_status' new_status'
         previous_location' new_location' previous_expected_arrival' new_expected_arrival'
         scheduled_pickup_time' scheduled_delivery_time' reasons')) \<longleftrightarrow>
     repair_replayable (EvPackageStateReconciled package_id' route_id' previous_status'
       new_status' previous_location' new_location' previous_expected_arrival'
       new_expected_arrival' scheduled_pickup_time' scheduled_delivery_time' reasons')"
  by (auto simp: encode_package_state_reconciled_def decode_package_state_reconciled_def payload_simps)

lemma safe_package_state_reconciled:
  "validate_json_value (JObj (encode_package_state_reconciled package_id' route_id'
     previous_status' new_status' previous_location' new_location' previous_expected_arrival'
     new_expected_arrival' scheduled_pickup_time' scheduled_delivery_time' reasons')) = Inr ()"
  by (simp add: encode_package_state_reconciled_def json_safe_simps)

lemma replay_truck_position_reconciled:
  "repair_times (EvTruckPositionReconciled truck_id' route_id' previous_location' new_location'
     previous_in_transit_to' new_in_transit_to' position_kind') \<Longrightarrow>
     decode_truck_position_reconciled (encode_truck_position_reconciled truck_id' route_id'
       previous_location' new_location' previous_in_transit_to' new_in_transit_to' position_kind') =
       Inr (RepairE (EvTruckPositionReconciled truck_id' route_id' previous_location'
         new_location' previous_in_transit_to' new_in_transit_to' position_kind')) \<longleftrightarrow>
     repair_replayable (EvTruckPositionReconciled truck_id' route_id' previous_location'
       new_location' previous_in_transit_to' new_in_transit_to' position_kind')"
  by (auto simp: encode_truck_position_reconciled_def decode_truck_position_reconciled_def payload_simps)

lemma safe_truck_position_reconciled:
  "validate_json_value (JObj (encode_truck_position_reconciled truck_id' route_id'
     previous_location' new_location' previous_in_transit_to' new_in_transit_to' position_kind')) = Inr ()"
  by (simp add: encode_truck_position_reconciled_def json_safe_simps)

lemma replay_truck_route_reference_reconciled:
  "repair_times (EvTruckRouteReferenceReconciled truck_id' previous_route_id' new_route_id') \<Longrightarrow>
     decode_truck_route_reference_reconciled (encode_truck_route_reference_reconciled truck_id'
       previous_route_id' new_route_id') =
       Inr (RepairE (EvTruckRouteReferenceReconciled truck_id' previous_route_id' new_route_id')) \<longleftrightarrow>
     repair_replayable (EvTruckRouteReferenceReconciled truck_id' previous_route_id' new_route_id')"
  by (auto simp: encode_truck_route_reference_reconciled_def decode_truck_route_reference_reconciled_def payload_simps)

lemma safe_truck_route_reference_reconciled:
  "validate_json_value (JObj (encode_truck_route_reference_reconciled truck_id' previous_route_id'
     new_route_id')) = Inr ()"
  by (simp add: encode_truck_route_reference_reconciled_def json_safe_simps)

end
