(* ===== verification/Codecs.thy ===== *)
theory Codecs
  imports CodecsFleet CodecsAccess CodecsWorld
begin

text \<open>
  The 41 codecs as values: the class, the wire name and the version each advertises with its decoder,
  the encoder of whatever event is at hand, and the list that \<open>src/composition/outbox_codecs.py\<close>
  registers.  An encoder is only ever applied to an event of its codec's class, so the encoders are
  one function of the event.
\<close>

record payload_codec =
  codec_class :: string
  codec_type :: string
  codec_version :: int
  codec_decode :: "json_object \<Rightarrow> event_fields result"

section \<open>Encoding an event\<close>

fun customer_encode :: "customer_fields \<Rightarrow> json_object" where
  "customer_encode (EvCustomerCreated x) =
     encode_customer_created x"

fun package_encode :: "package_fields \<Rightarrow> json_object" where
  "package_encode (EvPackageCreated x0 x1 x2 x3 x4 x5 x6 x7) =
     encode_package_created x0 x1 x2 x3 x4 x5 x6 x7"
| "package_encode (EvPackageRemoved x0 x1 x2 x3 x4 x5 x6 x7 x8) =
     encode_package_removed x0 x1 x2 x3 x4 x5 x6 x7 x8"
| "package_encode (EvPackagePickedUp x0 x1 x2 x3 x4 x5 x6) =
     encode_package_picked_up x0 x1 x2 x3 x4 x5 x6"
| "package_encode (EvPackageDelivered x0 x1 x2 x3 x4 x5 x6) =
     encode_package_delivered x0 x1 x2 x3 x4 x5 x6"

fun route_encode :: "route_fields \<Rightarrow> json_object" where
  "route_encode (EvRouteCreated x0 x1 x2 x3 x4) =
     encode_route_created x0 x1 x2 x3 x4"
| "route_encode (EvRouteScheduled x0 x1 x2 x3 x4 x5 x6) =
     encode_route_scheduled x0 x1 x2 x3 x4 x5 x6"
| "route_encode (EvPackageAssignedToRoute x0 x1 x2 x3 x4) =
     encode_package_assigned_to_route x0 x1 x2 x3 x4"
| "route_encode (EvPackageDetachedFromRoute x0 x1 x2 x3 x4 x5 x6 x7 x8 x9) =
     encode_package_detached_from_route x0 x1 x2 x3 x4 x5 x6 x7 x8 x9"
| "route_encode (EvTruckAssignedToRoute x0 x1 x2 x3 x4 x5 x6 x7 x8 x9 x10) =
     encode_truck_assigned_to_route x0 x1 x2 x3 x4 x5 x6 x7 x8 x9 x10"
| "route_encode (EvTruckReleasedFromRoute x0 x1 x2 x3 x4 x5 x6 x7 x8 x9 x10 x11) =
     encode_truck_released_from_route x0 x1 x2 x3 x4 x5 x6 x7 x8 x9 x10 x11"
| "route_encode (EvRouteStarted x0 x1 x2) =
     encode_route_started x0 x1 x2"
| "route_encode (EvRouteCompleted x0 x1 x2 x3 x4) =
     encode_route_completed x0 x1 x2 x3 x4"
| "route_encode (EvRouteRemoved x0 x1 x2 x3 x4 x5 x6) =
     encode_route_removed x0 x1 x2 x3 x4 x5 x6"

fun auth_encode :: "auth_fields \<Rightarrow> json_object" where
  "auth_encode (EvUserRegistered x0 x1 x2) =
     encode_user_registered x0 x1 x2"
| "auth_encode (EvUserRegistrationRejected x0 x1) =
     encode_user_registration_rejected x0 x1"
| "auth_encode (EvUserPasswordChanged x0 x1) =
     encode_user_password_changed x0 x1"
| "auth_encode (EvUserPasswordChangeRejected x0 x1 x2) =
     encode_user_password_change_rejected x0 x1 x2"
| "auth_encode (EvUserPasswordReset x0 x1) =
     encode_user_password_reset x0 x1"
| "auth_encode (EvUserPasswordResetRejected x0 x1 x2) =
     encode_user_password_reset_rejected x0 x1 x2"
| "auth_encode (EvUserAuthenticated x0 x1 x2) =
     encode_user_authenticated x0 x1 x2"
| "auth_encode (EvUserLoginRejected x0 x1 x2) =
     encode_user_login_rejected x0 x1 x2"
| "auth_encode (EvUserSessionEnded x0 x1) =
     encode_user_session_ended x0 x1"
| "auth_encode (EvUserTokensRevoked x0 x1 x2) =
     encode_user_tokens_revoked x0 x1 x2"
| "auth_encode (EvAuthorizationDenied x0 x1 x2 x3) =
     encode_authorization_denied x0 x1 x2 x3"

fun startup_encode :: "startup_fields \<Rightarrow> json_object" where
  "startup_encode (EvFleetSeeded x0 x1) =
     encode_fleet_seeded x0 x1"

fun world_encode :: "world_fields \<Rightarrow> json_object" where
  "world_encode (EvWorldStateExported x0 x1 x2) =
     encode_world_state_exported x0 x1 x2"
| "world_encode (EvWorldStateExportFailed x0 x1 x2) =
     encode_world_state_export_failed x0 x1 x2"
| "world_encode (EvWorldStateImported x0 x1 x2 x3) =
     encode_world_state_imported x0 x1 x2 x3"
| "world_encode (EvWorldStateImportFailed x0 x1 x2) =
     encode_world_state_import_failed x0 x1 x2"
| "world_encode (EvWorldStateCorruptionDetected x0 x1) =
     encode_world_state_corruption_detected x0 x1"
| "world_encode (EvWorldStateSnapshotQuarantined x0 x1 x2) =
     encode_world_state_snapshot_quarantined x0 x1 x2"
| "world_encode (EvWorldStateRuntimeSwapped x0 x1 x2 x3) =
     encode_world_state_runtime_swapped x0 x1 x2 x3"
| "world_encode (EvWorldStateStartupRestored x0 x1 x2 x3) =
     encode_world_state_startup_restored x0 x1 x2 x3"
| "world_encode (EvWorldStateStartupRestoreSkipped x) =
     encode_world_state_startup_restore_skipped x"
| "world_encode (EvWorldStateStartupRestoreFailed x0 x1 x2) =
     encode_world_state_startup_restore_failed x0 x1 x2"
| "world_encode (EvWorldStateAdvanced x0 x1 x2 x3 x4) =
     encode_world_state_advanced x0 x1 x2 x3 x4"

fun repair_encode :: "repair_fields \<Rightarrow> json_object" where
  "repair_encode (EvRouteStateReconciled x0 x1 x2 x3 x4 x5) =
     encode_route_state_reconciled x0 x1 x2 x3 x4 x5"
| "repair_encode (EvPackageStateReconciled x0 x1 x2 x3 x4 x5 x6 x7 x8 x9 x10) =
     encode_package_state_reconciled x0 x1 x2 x3 x4 x5 x6 x7 x8 x9 x10"
| "repair_encode (EvTruckPositionReconciled x0 x1 x2 x3 x4 x5 x6) =
     encode_truck_position_reconciled x0 x1 x2 x3 x4 x5 x6"
| "repair_encode (EvTruckRouteReferenceReconciled x0 x1 x2) =
     encode_truck_route_reference_reconciled x0 x1 x2"

fun encode_fields :: "event_fields \<Rightarrow> json_object" where
  "encode_fields (CustomerE f) = customer_encode f"
| "encode_fields (PackageE f) = package_encode f"
| "encode_fields (RouteE f) = route_encode f"
| "encode_fields (AuthE f) = auth_encode f"
| "encode_fields (StartupE f) = startup_encode f"
| "encode_fields (WorldE f) = world_encode f"
| "encode_fields (RepairE f) = repair_encode f"

text \<open>What a decoder requires of the fields, and the range of their times.\<close>

fun replayable :: "event_fields \<Rightarrow> bool" where
  "replayable (CustomerE f) = customer_replayable f"
| "replayable (PackageE f) = package_replayable f"
| "replayable (RouteE f) = route_replayable f"
| "replayable (AuthE f) = auth_replayable f"
| "replayable (StartupE f) = startup_replayable f"
| "replayable (WorldE f) = world_replayable f"
| "replayable (RepairE f) = repair_replayable f"

fun times_in_range :: "event_fields \<Rightarrow> bool" where
  "times_in_range (CustomerE f) = customer_times f"
| "times_in_range (PackageE f) = package_times f"
| "times_in_range (RouteE f) = route_times f"
| "times_in_range (AuthE f) = auth_times f"
| "times_in_range (StartupE f) = startup_times f"
| "times_in_range (WorldE f) = world_times f"
| "times_in_range (RepairE f) = repair_times f"

section \<open>The codecs\<close>

definition customer_created_codec :: payload_codec where
  "customer_created_codec =
     \<lparr>codec_class = ''CustomerCreated'', codec_type = ''customer_created'',
      codec_version = 1, codec_decode = decode_customer_created\<rparr>"

definition package_created_codec :: payload_codec where
  "package_created_codec =
     \<lparr>codec_class = ''PackageCreated'', codec_type = ''package_created'',
      codec_version = 2, codec_decode = decode_package_created\<rparr>"

definition package_removed_codec :: payload_codec where
  "package_removed_codec =
     \<lparr>codec_class = ''PackageRemoved'', codec_type = ''package_removed'',
      codec_version = 2, codec_decode = decode_package_removed\<rparr>"

definition package_picked_up_codec :: payload_codec where
  "package_picked_up_codec =
     \<lparr>codec_class = ''PackagePickedUp'', codec_type = ''package_picked_up'',
      codec_version = 2, codec_decode = decode_package_picked_up\<rparr>"

definition package_delivered_codec :: payload_codec where
  "package_delivered_codec =
     \<lparr>codec_class = ''PackageDelivered'', codec_type = ''package_delivered'',
      codec_version = 2, codec_decode = decode_package_delivered\<rparr>"

definition route_created_codec :: payload_codec where
  "route_created_codec =
     \<lparr>codec_class = ''RouteCreated'', codec_type = ''route_created'',
      codec_version = 2, codec_decode = decode_route_created\<rparr>"

definition route_scheduled_codec :: payload_codec where
  "route_scheduled_codec =
     \<lparr>codec_class = ''RouteScheduled'', codec_type = ''route_scheduled'',
      codec_version = 2, codec_decode = decode_route_scheduled\<rparr>"

definition package_assigned_to_route_codec :: payload_codec where
  "package_assigned_to_route_codec =
     \<lparr>codec_class = ''PackageAssignedToRoute'', codec_type = ''package_assigned_to_route'',
      codec_version = 2, codec_decode = decode_package_assigned_to_route\<rparr>"

definition package_detached_from_route_codec :: payload_codec where
  "package_detached_from_route_codec =
     \<lparr>codec_class = ''PackageDetachedFromRoute'', codec_type = ''package_detached_from_route'',
      codec_version = 2, codec_decode = decode_package_detached_from_route\<rparr>"

definition truck_assigned_to_route_codec :: payload_codec where
  "truck_assigned_to_route_codec =
     \<lparr>codec_class = ''TruckAssignedToRoute'', codec_type = ''truck_assigned_to_route'',
      codec_version = 2, codec_decode = decode_truck_assigned_to_route\<rparr>"

definition truck_released_from_route_codec :: payload_codec where
  "truck_released_from_route_codec =
     \<lparr>codec_class = ''TruckReleasedFromRoute'', codec_type = ''truck_released_from_route'',
      codec_version = 2, codec_decode = decode_truck_released_from_route\<rparr>"

definition route_started_codec :: payload_codec where
  "route_started_codec =
     \<lparr>codec_class = ''RouteStarted'', codec_type = ''route_started'',
      codec_version = 2, codec_decode = decode_route_started\<rparr>"

definition route_completed_codec :: payload_codec where
  "route_completed_codec =
     \<lparr>codec_class = ''RouteCompleted'', codec_type = ''route_completed'',
      codec_version = 2, codec_decode = decode_route_completed\<rparr>"

definition route_removed_codec :: payload_codec where
  "route_removed_codec =
     \<lparr>codec_class = ''RouteRemoved'', codec_type = ''route_removed'',
      codec_version = 2, codec_decode = decode_route_removed\<rparr>"

definition user_registered_codec :: payload_codec where
  "user_registered_codec =
     \<lparr>codec_class = ''UserRegistered'', codec_type = ''user_registered'',
      codec_version = 1, codec_decode = decode_user_registered\<rparr>"

definition user_registration_rejected_codec :: payload_codec where
  "user_registration_rejected_codec =
     \<lparr>codec_class = ''UserRegistrationRejected'', codec_type = ''user_registration_rejected'',
      codec_version = 1, codec_decode = decode_user_registration_rejected\<rparr>"

definition user_password_changed_codec :: payload_codec where
  "user_password_changed_codec =
     \<lparr>codec_class = ''UserPasswordChanged'', codec_type = ''user_password_changed'',
      codec_version = 1, codec_decode = decode_user_password_changed\<rparr>"

definition user_password_change_rejected_codec :: payload_codec where
  "user_password_change_rejected_codec =
     \<lparr>codec_class = ''UserPasswordChangeRejected'', codec_type = ''user_password_change_rejected'',
      codec_version = 1, codec_decode = decode_user_password_change_rejected\<rparr>"

definition user_password_reset_codec :: payload_codec where
  "user_password_reset_codec =
     \<lparr>codec_class = ''UserPasswordReset'', codec_type = ''user_password_reset'',
      codec_version = 1, codec_decode = decode_user_password_reset\<rparr>"

definition user_password_reset_rejected_codec :: payload_codec where
  "user_password_reset_rejected_codec =
     \<lparr>codec_class = ''UserPasswordResetRejected'', codec_type = ''user_password_reset_rejected'',
      codec_version = 1, codec_decode = decode_user_password_reset_rejected\<rparr>"

definition user_authenticated_codec :: payload_codec where
  "user_authenticated_codec =
     \<lparr>codec_class = ''UserAuthenticated'', codec_type = ''user_authenticated'',
      codec_version = 1, codec_decode = decode_user_authenticated\<rparr>"

definition user_login_rejected_codec :: payload_codec where
  "user_login_rejected_codec =
     \<lparr>codec_class = ''UserLoginRejected'', codec_type = ''user_login_rejected'',
      codec_version = 1, codec_decode = decode_user_login_rejected\<rparr>"

definition user_session_ended_codec :: payload_codec where
  "user_session_ended_codec =
     \<lparr>codec_class = ''UserSessionEnded'', codec_type = ''user_session_ended'',
      codec_version = 1, codec_decode = decode_user_session_ended\<rparr>"

definition user_tokens_revoked_codec :: payload_codec where
  "user_tokens_revoked_codec =
     \<lparr>codec_class = ''UserTokensRevoked'', codec_type = ''user_tokens_revoked'',
      codec_version = 1, codec_decode = decode_user_tokens_revoked\<rparr>"

definition authorization_denied_codec :: payload_codec where
  "authorization_denied_codec =
     \<lparr>codec_class = ''AuthorizationDenied'', codec_type = ''authorization_denied'',
      codec_version = 2, codec_decode = decode_authorization_denied\<rparr>"

definition fleet_seeded_codec :: payload_codec where
  "fleet_seeded_codec =
     \<lparr>codec_class = ''FleetSeeded'', codec_type = ''fleet_seeded'',
      codec_version = 2, codec_decode = decode_fleet_seeded\<rparr>"

definition world_state_exported_codec :: payload_codec where
  "world_state_exported_codec =
     \<lparr>codec_class = ''WorldStateExported'', codec_type = ''world_state_exported'',
      codec_version = 1, codec_decode = decode_world_state_exported\<rparr>"

definition world_state_export_failed_codec :: payload_codec where
  "world_state_export_failed_codec =
     \<lparr>codec_class = ''WorldStateExportFailed'', codec_type = ''world_state_export_failed'',
      codec_version = 1, codec_decode = decode_world_state_export_failed\<rparr>"

definition world_state_imported_codec :: payload_codec where
  "world_state_imported_codec =
     \<lparr>codec_class = ''WorldStateImported'', codec_type = ''world_state_imported'',
      codec_version = 2, codec_decode = decode_world_state_imported\<rparr>"

definition world_state_import_failed_codec :: payload_codec where
  "world_state_import_failed_codec =
     \<lparr>codec_class = ''WorldStateImportFailed'', codec_type = ''world_state_import_failed'',
      codec_version = 1, codec_decode = decode_world_state_import_failed\<rparr>"

definition world_state_corruption_detected_codec :: payload_codec where
  "world_state_corruption_detected_codec =
     \<lparr>codec_class = ''WorldStateCorruptionDetected'', codec_type = ''world_state_corruption_detected'',
      codec_version = 1, codec_decode = decode_world_state_corruption_detected\<rparr>"

definition world_state_snapshot_quarantined_codec :: payload_codec where
  "world_state_snapshot_quarantined_codec =
     \<lparr>codec_class = ''WorldStateSnapshotQuarantined'', codec_type = ''world_state_snapshot_quarantined'',
      codec_version = 1, codec_decode = decode_world_state_snapshot_quarantined\<rparr>"

definition world_state_runtime_swapped_codec :: payload_codec where
  "world_state_runtime_swapped_codec =
     \<lparr>codec_class = ''WorldStateRuntimeSwapped'', codec_type = ''world_state_runtime_swapped'',
      codec_version = 2, codec_decode = decode_world_state_runtime_swapped\<rparr>"

definition world_state_startup_restored_codec :: payload_codec where
  "world_state_startup_restored_codec =
     \<lparr>codec_class = ''WorldStateStartupRestored'', codec_type = ''world_state_startup_restored'',
      codec_version = 2, codec_decode = decode_world_state_startup_restored\<rparr>"

definition world_state_startup_restore_skipped_codec :: payload_codec where
  "world_state_startup_restore_skipped_codec =
     \<lparr>codec_class = ''WorldStateStartupRestoreSkipped'', codec_type = ''world_state_startup_restore_skipped'',
      codec_version = 1, codec_decode = decode_world_state_startup_restore_skipped\<rparr>"

definition world_state_startup_restore_failed_codec :: payload_codec where
  "world_state_startup_restore_failed_codec =
     \<lparr>codec_class = ''WorldStateStartupRestoreFailed'', codec_type = ''world_state_startup_restore_failed'',
      codec_version = 1, codec_decode = decode_world_state_startup_restore_failed\<rparr>"

definition world_state_advanced_codec :: payload_codec where
  "world_state_advanced_codec =
     \<lparr>codec_class = ''WorldStateAdvanced'', codec_type = ''world_state_advanced'',
      codec_version = 2, codec_decode = decode_world_state_advanced\<rparr>"

definition route_state_reconciled_codec :: payload_codec where
  "route_state_reconciled_codec =
     \<lparr>codec_class = ''RouteStateReconciled'', codec_type = ''route_state_reconciled'',
      codec_version = 1, codec_decode = decode_route_state_reconciled\<rparr>"

definition package_state_reconciled_codec :: payload_codec where
  "package_state_reconciled_codec =
     \<lparr>codec_class = ''PackageStateReconciled'', codec_type = ''package_state_reconciled'',
      codec_version = 1, codec_decode = decode_package_state_reconciled\<rparr>"

definition truck_position_reconciled_codec :: payload_codec where
  "truck_position_reconciled_codec =
     \<lparr>codec_class = ''TruckPositionReconciled'', codec_type = ''truck_position_reconciled'',
      codec_version = 1, codec_decode = decode_truck_position_reconciled\<rparr>"

definition truck_route_reference_reconciled_codec :: payload_codec where
  "truck_route_reference_reconciled_codec =
     \<lparr>codec_class = ''TruckRouteReferenceReconciled'', codec_type = ''truck_route_reference_reconciled'',
      codec_version = 1, codec_decode = decode_truck_route_reference_reconciled\<rparr>"

lemmas codec_defs =
  customer_created_codec_def package_created_codec_def package_removed_codec_def
  package_picked_up_codec_def package_delivered_codec_def route_created_codec_def
  route_scheduled_codec_def package_assigned_to_route_codec_def
  package_detached_from_route_codec_def truck_assigned_to_route_codec_def
  truck_released_from_route_codec_def route_started_codec_def route_completed_codec_def
  route_removed_codec_def user_registered_codec_def user_registration_rejected_codec_def
  user_password_changed_codec_def user_password_change_rejected_codec_def
  user_password_reset_codec_def user_password_reset_rejected_codec_def
  user_authenticated_codec_def user_login_rejected_codec_def user_session_ended_codec_def
  user_tokens_revoked_codec_def authorization_denied_codec_def fleet_seeded_codec_def
  world_state_exported_codec_def world_state_export_failed_codec_def
  world_state_imported_codec_def world_state_import_failed_codec_def
  world_state_corruption_detected_codec_def world_state_snapshot_quarantined_codec_def
  world_state_runtime_swapped_codec_def world_state_startup_restored_codec_def
  world_state_startup_restore_skipped_codec_def world_state_startup_restore_failed_codec_def
  world_state_advanced_codec_def route_state_reconciled_codec_def
  package_state_reconciled_codec_def truck_position_reconciled_codec_def
  truck_route_reference_reconciled_codec_def

definition outbox_codecs :: "(string \<times> payload_codec) list" where
  "outbox_codecs =
     [(''CustomerCreated'', customer_created_codec),
      (''PackageCreated'', package_created_codec),
      (''PackageRemoved'', package_removed_codec),
      (''PackagePickedUp'', package_picked_up_codec),
      (''PackageDelivered'', package_delivered_codec),
      (''RouteCreated'', route_created_codec),
      (''RouteScheduled'', route_scheduled_codec),
      (''PackageAssignedToRoute'', package_assigned_to_route_codec),
      (''PackageDetachedFromRoute'', package_detached_from_route_codec),
      (''TruckAssignedToRoute'', truck_assigned_to_route_codec),
      (''TruckReleasedFromRoute'', truck_released_from_route_codec),
      (''RouteStarted'', route_started_codec),
      (''RouteCompleted'', route_completed_codec),
      (''RouteRemoved'', route_removed_codec),
      (''UserRegistered'', user_registered_codec),
      (''UserRegistrationRejected'', user_registration_rejected_codec),
      (''UserPasswordChanged'', user_password_changed_codec),
      (''UserPasswordChangeRejected'', user_password_change_rejected_codec),
      (''UserPasswordReset'', user_password_reset_codec),
      (''UserPasswordResetRejected'', user_password_reset_rejected_codec),
      (''UserAuthenticated'', user_authenticated_codec),
      (''UserLoginRejected'', user_login_rejected_codec),
      (''UserSessionEnded'', user_session_ended_codec),
      (''UserTokensRevoked'', user_tokens_revoked_codec),
      (''AuthorizationDenied'', authorization_denied_codec),
      (''FleetSeeded'', fleet_seeded_codec),
      (''WorldStateExported'', world_state_exported_codec),
      (''WorldStateExportFailed'', world_state_export_failed_codec),
      (''WorldStateImported'', world_state_imported_codec),
      (''WorldStateImportFailed'', world_state_import_failed_codec),
      (''WorldStateCorruptionDetected'', world_state_corruption_detected_codec),
      (''WorldStateSnapshotQuarantined'', world_state_snapshot_quarantined_codec),
      (''WorldStateRuntimeSwapped'', world_state_runtime_swapped_codec),
      (''WorldStateStartupRestored'', world_state_startup_restored_codec),
      (''WorldStateStartupRestoreSkipped'', world_state_startup_restore_skipped_codec),
      (''WorldStateStartupRestoreFailed'', world_state_startup_restore_failed_codec),
      (''WorldStateAdvanced'', world_state_advanced_codec),
      (''RouteStateReconciled'', route_state_reconciled_codec),
      (''PackageStateReconciled'', package_state_reconciled_codec),
      (''TruckPositionReconciled'', truck_position_reconciled_codec),
      (''TruckRouteReferenceReconciled'', truck_route_reference_reconciled_codec)]"

section \<open>Every class has its codec\<close>

lemma codec_classes: "map fst outbox_codecs = published_event_types"
  by (simp add: outbox_codecs_def published_event_types_def)

text \<open>Each codec advertises the class it is registered for, and the version of that class.\<close>

lemma codec_identities:
  "list_all (\<lambda>kc. codec_class (snd kc) = fst kc \<and> codec_version (snd kc) = event_version (fst kc))
     outbox_codecs"
  by (simp add: outbox_codecs_def codec_defs event_version_def version_two_classes_def)

lemma distinct_classes: "distinct (map fst outbox_codecs)"
  by (simp add: outbox_codecs_def)

lemma distinct_types: "distinct (map (\<lambda>kc. codec_type (snd kc)) outbox_codecs)"
  by (simp add: outbox_codecs_def codec_defs)

lemma canonical_types:
  "list_all (\<lambda>kc. strip (codec_type (snd kc)) = codec_type (snd kc) \<and> codec_type (snd kc) \<noteq> []) outbox_codecs"
  by (simp add: outbox_codecs_def codec_defs) code_simp

lemma customer_codec_of:
  assumes "customer_times f"
  shows "\<exists>c. (customer_class f, c) \<in> set outbox_codecs \<and>
    (codec_decode c (customer_encode f) = Inr (CustomerE f) \<longleftrightarrow> customer_replayable f)"
proof (cases f)
  case (EvCustomerCreated v0)
  then show ?thesis using assms
    by (intro exI [of _ customer_created_codec]) (simp add: outbox_codecs_def customer_created_codec_def replay_customer_created)
qed

lemma customer_safe: "validate_json_value (JObj (customer_encode f)) = Inr ()"
  by (cases f) (simp_all only: customer_encode.simps
     safe_customer_created)

lemma package_codec_of:
  assumes "package_times f"
  shows "\<exists>c. (package_class f, c) \<in> set outbox_codecs \<and>
    (codec_decode c (package_encode f) = Inr (PackageE f) \<longleftrightarrow> package_replayable f)"
proof (cases f)
  case (EvPackageCreated v0 v1 v2 v3 v4 v5 v6 v7)
  then show ?thesis using assms
    by (intro exI [of _ package_created_codec]) (simp add: outbox_codecs_def package_created_codec_def replay_package_created)
next
  case (EvPackageRemoved v0 v1 v2 v3 v4 v5 v6 v7 v8)
  then show ?thesis using assms
    by (intro exI [of _ package_removed_codec]) (simp add: outbox_codecs_def package_removed_codec_def replay_package_removed)
next
  case (EvPackagePickedUp v0 v1 v2 v3 v4 v5 v6)
  then show ?thesis using assms
    by (intro exI [of _ package_picked_up_codec]) (simp add: outbox_codecs_def package_picked_up_codec_def replay_package_picked_up)
next
  case (EvPackageDelivered v0 v1 v2 v3 v4 v5 v6)
  then show ?thesis using assms
    by (intro exI [of _ package_delivered_codec]) (simp add: outbox_codecs_def package_delivered_codec_def replay_package_delivered)
qed

lemma package_safe: "validate_json_value (JObj (package_encode f)) = Inr ()"
  by (cases f) (simp_all only: package_encode.simps
     safe_package_created safe_package_removed safe_package_picked_up safe_package_delivered)

lemma route_codec_of:
  assumes "route_times f"
  shows "\<exists>c. (route_class f, c) \<in> set outbox_codecs \<and>
    (codec_decode c (route_encode f) = Inr (RouteE f) \<longleftrightarrow> route_replayable f)"
proof (cases f)
  case (EvRouteCreated v0 v1 v2 v3 v4)
  then show ?thesis using assms
    by (intro exI [of _ route_created_codec]) (simp add: outbox_codecs_def route_created_codec_def replay_route_created)
next
  case (EvRouteScheduled v0 v1 v2 v3 v4 v5 v6)
  then show ?thesis using assms
    by (intro exI [of _ route_scheduled_codec]) (simp add: outbox_codecs_def route_scheduled_codec_def replay_route_scheduled)
next
  case (EvPackageAssignedToRoute v0 v1 v2 v3 v4)
  then show ?thesis using assms
    by (intro exI [of _ package_assigned_to_route_codec]) (simp add: outbox_codecs_def package_assigned_to_route_codec_def replay_package_assigned_to_route)
next
  case (EvPackageDetachedFromRoute v0 v1 v2 v3 v4 v5 v6 v7 v8 v9)
  then show ?thesis using assms
    by (intro exI [of _ package_detached_from_route_codec]) (simp add: outbox_codecs_def package_detached_from_route_codec_def replay_package_detached_from_route)
next
  case (EvTruckAssignedToRoute v0 v1 v2 v3 v4 v5 v6 v7 v8 v9 v10)
  then show ?thesis using assms
    by (intro exI [of _ truck_assigned_to_route_codec]) (simp add: outbox_codecs_def truck_assigned_to_route_codec_def replay_truck_assigned_to_route)
next
  case (EvTruckReleasedFromRoute v0 v1 v2 v3 v4 v5 v6 v7 v8 v9 v10 v11)
  then show ?thesis using assms
    by (intro exI [of _ truck_released_from_route_codec]) (simp add: outbox_codecs_def truck_released_from_route_codec_def replay_truck_released_from_route)
next
  case (EvRouteStarted v0 v1 v2)
  then show ?thesis using assms
    by (intro exI [of _ route_started_codec]) (simp add: outbox_codecs_def route_started_codec_def replay_route_started)
next
  case (EvRouteCompleted v0 v1 v2 v3 v4)
  then show ?thesis using assms
    by (intro exI [of _ route_completed_codec]) (simp add: outbox_codecs_def route_completed_codec_def replay_route_completed)
next
  case (EvRouteRemoved v0 v1 v2 v3 v4 v5 v6)
  then show ?thesis using assms
    by (intro exI [of _ route_removed_codec]) (simp add: outbox_codecs_def route_removed_codec_def replay_route_removed)
qed

lemma route_safe: "validate_json_value (JObj (route_encode f)) = Inr ()"
  by (cases f) (simp_all only: route_encode.simps
     safe_route_created safe_route_scheduled safe_package_assigned_to_route
     safe_package_detached_from_route safe_truck_assigned_to_route safe_truck_released_from_route
     safe_route_started safe_route_completed safe_route_removed)

lemma auth_codec_of:
  assumes "auth_times f"
  shows "\<exists>c. (auth_class f, c) \<in> set outbox_codecs \<and>
    (codec_decode c (auth_encode f) = Inr (AuthE f) \<longleftrightarrow> auth_replayable f)"
proof (cases f)
  case (EvUserRegistered v0 v1 v2)
  then show ?thesis using assms
    by (intro exI [of _ user_registered_codec]) (simp add: outbox_codecs_def user_registered_codec_def replay_user_registered)
next
  case (EvUserRegistrationRejected v0 v1)
  then show ?thesis using assms
    by (intro exI [of _ user_registration_rejected_codec]) (simp add: outbox_codecs_def user_registration_rejected_codec_def replay_user_registration_rejected)
next
  case (EvUserPasswordChanged v0 v1)
  then show ?thesis using assms
    by (intro exI [of _ user_password_changed_codec]) (simp add: outbox_codecs_def user_password_changed_codec_def replay_user_password_changed)
next
  case (EvUserPasswordChangeRejected v0 v1 v2)
  then show ?thesis using assms
    by (intro exI [of _ user_password_change_rejected_codec]) (simp add: outbox_codecs_def user_password_change_rejected_codec_def replay_user_password_change_rejected)
next
  case (EvUserPasswordReset v0 v1)
  then show ?thesis using assms
    by (intro exI [of _ user_password_reset_codec]) (simp add: outbox_codecs_def user_password_reset_codec_def replay_user_password_reset)
next
  case (EvUserPasswordResetRejected v0 v1 v2)
  then show ?thesis using assms
    by (intro exI [of _ user_password_reset_rejected_codec]) (simp add: outbox_codecs_def user_password_reset_rejected_codec_def replay_user_password_reset_rejected)
next
  case (EvUserAuthenticated v0 v1 v2)
  then show ?thesis using assms
    by (intro exI [of _ user_authenticated_codec]) (simp add: outbox_codecs_def user_authenticated_codec_def replay_user_authenticated)
next
  case (EvUserLoginRejected v0 v1 v2)
  then show ?thesis using assms
    by (intro exI [of _ user_login_rejected_codec]) (simp add: outbox_codecs_def user_login_rejected_codec_def replay_user_login_rejected)
next
  case (EvUserSessionEnded v0 v1)
  then show ?thesis using assms
    by (intro exI [of _ user_session_ended_codec]) (simp add: outbox_codecs_def user_session_ended_codec_def replay_user_session_ended)
next
  case (EvUserTokensRevoked v0 v1 v2)
  then show ?thesis using assms
    by (intro exI [of _ user_tokens_revoked_codec]) (simp add: outbox_codecs_def user_tokens_revoked_codec_def replay_user_tokens_revoked)
next
  case (EvAuthorizationDenied v0 v1 v2 v3)
  then show ?thesis using assms
    by (intro exI [of _ authorization_denied_codec]) (simp add: outbox_codecs_def authorization_denied_codec_def replay_authorization_denied)
qed

lemma auth_safe: "validate_json_value (JObj (auth_encode f)) = Inr ()"
  by (cases f) (simp_all only: auth_encode.simps
     safe_user_registered safe_user_registration_rejected safe_user_password_changed
     safe_user_password_change_rejected safe_user_password_reset safe_user_password_reset_rejected
     safe_user_authenticated safe_user_login_rejected safe_user_session_ended
     safe_user_tokens_revoked safe_authorization_denied)

lemma startup_codec_of:
  assumes "startup_times f"
  shows "\<exists>c. (startup_class f, c) \<in> set outbox_codecs \<and>
    (codec_decode c (startup_encode f) = Inr (StartupE f) \<longleftrightarrow> startup_replayable f)"
proof (cases f)
  case (EvFleetSeeded v0 v1)
  then show ?thesis using assms
    by (intro exI [of _ fleet_seeded_codec]) (simp add: outbox_codecs_def fleet_seeded_codec_def replay_fleet_seeded)
qed

lemma startup_safe: "validate_json_value (JObj (startup_encode f)) = Inr ()"
  by (cases f) (simp_all only: startup_encode.simps
     safe_fleet_seeded)

lemma world_codec_of:
  assumes "world_times f"
  shows "\<exists>c. (world_class f, c) \<in> set outbox_codecs \<and>
    (codec_decode c (world_encode f) = Inr (WorldE f) \<longleftrightarrow> world_replayable f)"
proof (cases f)
  case (EvWorldStateExported v0 v1 v2)
  then show ?thesis using assms
    by (intro exI [of _ world_state_exported_codec]) (simp add: outbox_codecs_def world_state_exported_codec_def replay_world_state_exported)
next
  case (EvWorldStateExportFailed v0 v1 v2)
  then show ?thesis using assms
    by (intro exI [of _ world_state_export_failed_codec]) (simp add: outbox_codecs_def world_state_export_failed_codec_def replay_world_state_export_failed)
next
  case (EvWorldStateImported v0 v1 v2 v3)
  then show ?thesis using assms
    by (intro exI [of _ world_state_imported_codec]) (simp add: outbox_codecs_def world_state_imported_codec_def replay_world_state_imported)
next
  case (EvWorldStateImportFailed v0 v1 v2)
  then show ?thesis using assms
    by (intro exI [of _ world_state_import_failed_codec]) (simp add: outbox_codecs_def world_state_import_failed_codec_def replay_world_state_import_failed)
next
  case (EvWorldStateCorruptionDetected v0 v1)
  then show ?thesis using assms
    by (intro exI [of _ world_state_corruption_detected_codec]) (simp add: outbox_codecs_def world_state_corruption_detected_codec_def replay_world_state_corruption_detected)
next
  case (EvWorldStateSnapshotQuarantined v0 v1 v2)
  then show ?thesis using assms
    by (intro exI [of _ world_state_snapshot_quarantined_codec]) (simp add: outbox_codecs_def world_state_snapshot_quarantined_codec_def replay_world_state_snapshot_quarantined)
next
  case (EvWorldStateRuntimeSwapped v0 v1 v2 v3)
  then show ?thesis using assms
    by (intro exI [of _ world_state_runtime_swapped_codec]) (simp add: outbox_codecs_def world_state_runtime_swapped_codec_def replay_world_state_runtime_swapped)
next
  case (EvWorldStateStartupRestored v0 v1 v2 v3)
  then show ?thesis using assms
    by (intro exI [of _ world_state_startup_restored_codec]) (simp add: outbox_codecs_def world_state_startup_restored_codec_def replay_world_state_startup_restored)
next
  case (EvWorldStateStartupRestoreSkipped v0)
  then show ?thesis using assms
    by (intro exI [of _ world_state_startup_restore_skipped_codec]) (simp add: outbox_codecs_def world_state_startup_restore_skipped_codec_def replay_world_state_startup_restore_skipped)
next
  case (EvWorldStateStartupRestoreFailed v0 v1 v2)
  then show ?thesis using assms
    by (intro exI [of _ world_state_startup_restore_failed_codec]) (simp add: outbox_codecs_def world_state_startup_restore_failed_codec_def replay_world_state_startup_restore_failed)
next
  case (EvWorldStateAdvanced v0 v1 v2 v3 v4)
  then show ?thesis using assms
    by (intro exI [of _ world_state_advanced_codec]) (simp add: outbox_codecs_def world_state_advanced_codec_def replay_world_state_advanced)
qed

lemma world_safe: "validate_json_value (JObj (world_encode f)) = Inr ()"
  by (cases f) (simp_all only: world_encode.simps
     safe_world_state_exported safe_world_state_export_failed safe_world_state_imported
     safe_world_state_import_failed safe_world_state_corruption_detected
     safe_world_state_snapshot_quarantined safe_world_state_runtime_swapped
     safe_world_state_startup_restored safe_world_state_startup_restore_skipped
     safe_world_state_startup_restore_failed safe_world_state_advanced)

lemma repair_codec_of:
  assumes "repair_times f"
  shows "\<exists>c. (repair_class f, c) \<in> set outbox_codecs \<and>
    (codec_decode c (repair_encode f) = Inr (RepairE f) \<longleftrightarrow> repair_replayable f)"
proof (cases f)
  case (EvRouteStateReconciled v0 v1 v2 v3 v4 v5)
  then show ?thesis using assms
    by (intro exI [of _ route_state_reconciled_codec]) (simp add: outbox_codecs_def route_state_reconciled_codec_def replay_route_state_reconciled)
next
  case (EvPackageStateReconciled v0 v1 v2 v3 v4 v5 v6 v7 v8 v9 v10)
  then show ?thesis using assms
    by (intro exI [of _ package_state_reconciled_codec]) (simp add: outbox_codecs_def package_state_reconciled_codec_def replay_package_state_reconciled)
next
  case (EvTruckPositionReconciled v0 v1 v2 v3 v4 v5 v6)
  then show ?thesis using assms
    by (intro exI [of _ truck_position_reconciled_codec]) (simp add: outbox_codecs_def truck_position_reconciled_codec_def replay_truck_position_reconciled)
next
  case (EvTruckRouteReferenceReconciled v0 v1 v2)
  then show ?thesis using assms
    by (intro exI [of _ truck_route_reference_reconciled_codec]) (simp add: outbox_codecs_def truck_route_reference_reconciled_codec_def replay_truck_route_reference_reconciled)
qed

lemma repair_safe: "validate_json_value (JObj (repair_encode f)) = Inr ()"
  by (cases f) (simp_all only: repair_encode.simps
     safe_route_state_reconciled safe_package_state_reconciled safe_truck_position_reconciled
     safe_truck_route_reference_reconciled)

lemma codec_of:
  "times_in_range f \<Longrightarrow> \<exists>c. (event_class f, c) \<in> set outbox_codecs \<and>
     (codec_decode c (encode_fields f) = Inr f \<longleftrightarrow> replayable f)"
  by (cases f) (simp_all add: customer_codec_of package_codec_of route_codec_of auth_codec_of
      startup_codec_of world_codec_of repair_codec_of)

lemma encoded_safe: "validate_json_value (JObj (encode_fields f)) = Inr ()"
  by (cases f) (simp_all only: encode_fields.simps customer_safe package_safe route_safe auth_safe
      startup_safe world_safe repair_safe)

end
