(* ===== verification/Outbox.thy ===== *)
theory Outbox
  imports Codecs
begin

text \<open>
  The codec registry of \<open>src/application/eventing/outbox/registry.py\<close> and its composition in
  \<open>src/composition/outbox_codecs.py\<close>: current writers by event class, readers by the persisted
  identity (wire name and version), and the checks around every encode and decode.
\<close>

section \<open>Adapters\<close>

definition require_event_type :: "pyval \<Rightarrow> string result" where
  "require_event_type v =
     res_bind (require_non_empty_str v) (\<lambda>normalized.
       if PyStr normalized \<noteq> v then Inl PyValueError else Inr normalized)"

text \<open>An adapter is the codec whose identity passed the checks of \<open>DecoderAdapter.__init__\<close>.\<close>

definition decoder_adapter :: "string \<Rightarrow> payload_codec \<Rightarrow> payload_codec result" where
  "decoder_adapter cls c =
     (if codec_class c \<noteq> cls then Inl EventCodecTypeMismatchError
      else res_bind (require_event_type (PyStr (codec_type c))) (\<lambda>_.
           res_bind (require_positive_int (PyInt (codec_version c))) (\<lambda>_.
           res_bind (require_positive_int (PyInt (event_version cls))) (\<lambda>_. Inr c))))"

definition codec_adapter :: "string \<Rightarrow> payload_codec \<Rightarrow> payload_codec result" where
  "codec_adapter cls c =
     res_bind (decoder_adapter cls c) (\<lambda>c.
       if codec_version c \<noteq> event_version cls then Inl EventCodecVersionMismatchError else Inr c)"

text \<open>\<open>DecoderAdapter.decode\<close>: the metadata is checked before and after the decoder runs.\<close>

definition adapter_decode ::
    "payload_codec \<Rightarrow> json \<Rightarrow> pyval \<Rightarrow> pyval \<Rightarrow> pyval \<Rightarrow> sys_event result" where
  "adapter_decode c payload eid occ rec =
     res_bind (require_json_object payload) (\<lambda>validated.
     res_bind (require_uuid eid) (\<lambda>i.
     res_bind (require_naive_datetime occ) (\<lambda>t.
     res_bind (require_utc_datetime rec) (\<lambda>r.
     res_bind (res_bind (codec_decode c validated) (new_event eid occ rec)) (\<lambda>e.
       if event_class (event_fields e) \<noteq> codec_class c then Inl EventCodecTypeMismatchError
       else if (event_id e, occurred_at e, recorded_at e) \<noteq> (i, t, r) then Inl EventCodecContractError
       else Inr e)))))"

text \<open>\<open>CodecAdapter.encode\<close>: what is returned has been decoded again and compared.\<close>

definition adapter_encode :: "payload_codec \<Rightarrow> sys_event \<Rightarrow> json_object result" where
  "adapter_encode c e =
     (let cls = event_class (event_fields e)
      in if cls \<noteq> codec_class c then Inl EventCodecTypeMismatchError
         else if event_version cls \<noteq> codec_version c then Inl EventCodecVersionMismatchError
         else res_bind (require_json_object (JObj (encode_fields (event_fields e)))) (\<lambda>payload.
              res_bind (adapter_decode c (JObj payload) (PyUuid (event_id e))
                  (PyDatetime (occurred_at e)) (PyDatetime (recorded_at e))) (\<lambda>decoded.
                if decoded \<noteq> e then Inl EventCodecContractError else Inr payload)))"

section \<open>The registry\<close>

record codec_registry =
  codecs_by_class :: "string \<rightharpoonup> payload_codec"
  codecs_by_identity :: "string \<times> int \<rightharpoonup> payload_codec"

definition empty_registry :: codec_registry where
  "empty_registry = \<lparr>codecs_by_class = Map.empty, codecs_by_identity = Map.empty\<rparr>"

definition codec_identity :: "payload_codec \<Rightarrow> string \<times> int" where
  "codec_identity c = (codec_type c, codec_version c)"

definition register_codec :: "string \<Rightarrow> payload_codec \<Rightarrow> codec_registry \<Rightarrow> codec_registry result" where
  "register_codec cls codec R =
     res_bind (codec_adapter cls codec) (\<lambda>c.
       if codecs_by_class R cls \<noteq> None then Inl DuplicateEventCodecError
       else if codecs_by_identity R (codec_identity c) \<noteq> None then Inl DuplicateEventCodecError
       else Inr \<lparr>codecs_by_class = (codecs_by_class R)(cls \<mapsto> c),
                 codecs_by_identity = (codecs_by_identity R)(codec_identity c \<mapsto> c)\<rparr>)"

definition register_decoder :: "string \<Rightarrow> payload_codec \<Rightarrow> codec_registry \<Rightarrow> codec_registry result" where
  "register_decoder cls decoder R =
     res_bind (decoder_adapter cls decoder) (\<lambda>c.
       if event_version cls \<le> codec_version c then Inl EventCodecVersionMismatchError
       else if codecs_by_identity R (codec_identity c) \<noteq> None then Inl DuplicateEventCodecError
       else Inr (R\<lparr>codecs_by_identity := (codecs_by_identity R)(codec_identity c \<mapsto> c)\<rparr>))"

definition for_event :: "codec_registry \<Rightarrow> sys_event \<Rightarrow> payload_codec result" where
  "for_event R e =
     (case codecs_by_class R (event_class (event_fields e)) of
        None \<Rightarrow> Inl EventCodecNotFoundError | Some c \<Rightarrow> Inr c)"

definition for_identity :: "codec_registry \<Rightarrow> pyval \<Rightarrow> pyval \<Rightarrow> payload_codec result" where
  "for_identity R t v =
     res_bind (require_event_type t) (\<lambda>name.
     res_bind (require_positive_int v) (\<lambda>version.
       case codecs_by_identity R (name, version) of
         None \<Rightarrow> Inl EventCodecNotFoundError | Some c \<Rightarrow> Inr c))"

section \<open>Composition\<close>

fun register_codecs :: "(string \<times> payload_codec) list \<Rightarrow> codec_registry \<Rightarrow> codec_registry result" where
  "register_codecs [] R = Inr R"
| "register_codecs (kc # rest) R = res_bind (register_codec (fst kc) (snd kc) R) (register_codecs rest)"

definition register_event_payload_codecs :: "codec_registry \<Rightarrow> codec_registry result" where
  "register_event_payload_codecs = register_codecs outbox_codecs"

definition build_codec_registry :: "codec_registry result" where
  "build_codec_registry = register_event_payload_codecs empty_registry"

section \<open>What registration keeps\<close>

text \<open>
  Every writer is also the reader of its own identity, and no reader of another class or another
  version ever takes its place.
\<close>

definition codec_sound :: "string \<Rightarrow> payload_codec \<Rightarrow> bool" where
  "codec_sound cls c \<longleftrightarrow>
     codec_class c = cls \<and> codec_version c = event_version cls \<and>
     strip (codec_type c) = codec_type c \<and> codec_type c \<noteq> [] \<and> 1 \<le> codec_version c"

definition registry_ok :: "codec_registry \<Rightarrow> bool" where
  "registry_ok R \<longleftrightarrow>
     (\<forall>cls c. codecs_by_class R cls = Some c \<longrightarrow>
        codec_sound cls c \<and> codecs_by_identity R (codec_identity c) = Some c)"

lemma require_event_type_Inr:
  "require_event_type (PyStr s) = Inr n \<longleftrightarrow> n = s \<and> strip s = s \<and> s \<noteq> []"
  by (auto simp: require_event_type_def require_non_empty_str_def Let_def split: if_splits)

lemma decoder_adapter_Inr:
  "decoder_adapter cls c = Inr d \<longleftrightarrow>
     d = c \<and> codec_class c = cls \<and> strip (codec_type c) = codec_type c \<and> codec_type c \<noteq> [] \<and>
     1 \<le> codec_version c \<and> 1 \<le> event_version cls"
  by (auto simp: decoder_adapter_def res_bind_Inr_iff require_event_type_Inr positive_int_eq)

lemma codec_adapter_Inr: "codec_adapter cls c = Inr d \<longleftrightarrow> d = c \<and> codec_sound cls c"
  by (auto simp: codec_adapter_def res_bind_Inr_iff decoder_adapter_Inr codec_sound_def)

lemma registry_ok_empty: "registry_ok empty_registry"
  by (simp add: registry_ok_def empty_registry_def)

lemma registry_ok_identity:
  assumes "registry_ok R" and "codecs_by_identity R k = None"
  shows "registry_ok (R\<lparr>codecs_by_identity := (codecs_by_identity R)(k \<mapsto> c)\<rparr>)"
  unfolding registry_ok_def
proof (intro allI impI)
  fix cls d
  assume "codecs_by_class (R\<lparr>codecs_by_identity := (codecs_by_identity R)(k \<mapsto> c)\<rparr>) cls = Some d"
  then have "codec_sound cls d \<and> codecs_by_identity R (codec_identity d) = Some d"
    using assms(1) by (simp add: registry_ok_def)
  then show "codec_sound cls d \<and>
      codecs_by_identity (R\<lparr>codecs_by_identity := (codecs_by_identity R)(k \<mapsto> c)\<rparr>) (codec_identity d) = Some d"
    using assms(2) by auto
qed

lemma register_codec_ok:
  assumes "registry_ok R" and "register_codec cls c R = Inr R'"
  shows "registry_ok R'"
proof -
  have new: "codecs_by_identity R (codec_identity c) = None" "codec_sound cls c"
    and R': "R' = \<lparr>codecs_by_class = (codecs_by_class R)(cls \<mapsto> c),
                 codecs_by_identity = (codecs_by_identity R)(codec_identity c \<mapsto> c)\<rparr>"
    using assms(2) by (auto simp: register_codec_def res_bind_Inr_iff codec_adapter_Inr split: if_splits)
  show ?thesis
    using registry_ok_identity [OF assms(1) new(1), of c] new(2)
    by (simp add: R' registry_ok_def)
qed

lemma register_decoder_ok:
  assumes "registry_ok R" and "register_decoder cls c R = Inr R'"
  shows "registry_ok R'"
proof -
  have "codecs_by_identity R (codec_identity c) = None"
    and "R' = R\<lparr>codecs_by_identity := (codecs_by_identity R)(codec_identity c \<mapsto> c)\<rparr>"
    using assms(2) by (auto simp: register_decoder_def res_bind_Inr_iff decoder_adapter_Inr split: if_splits)
  then show ?thesis using registry_ok_identity [OF assms(1)] by simp
qed

text \<open>A registry as a program can build it.\<close>

inductive built :: "codec_registry \<Rightarrow> bool" where
  empty: "built empty_registry"
| codec: "built R \<Longrightarrow> register_codec cls c R = Inr R' \<Longrightarrow> built R'"
| decoder: "built R \<Longrightarrow> register_decoder cls c R = Inr R' \<Longrightarrow> built R'"

lemma built_ok: "built R \<Longrightarrow> registry_ok R"
  by (induction rule: built.induct)
    (auto intro: registry_ok_empty register_codec_ok register_decoder_ok)

lemma for_event_identity:
  assumes "registry_ok R" and "for_event R e = Inr c"
  shows "for_identity R (PyStr (codec_type c)) (PyInt (codec_version c)) = Inr c"
proof -
  have "codecs_by_class R (event_class (event_fields e)) = Some c"
    using assms(2) by (auto simp: for_event_def split: option.splits)
  then have "codec_sound (event_class (event_fields e)) c \<and>
      codecs_by_identity R (codec_identity c) = Some c"
    using assms(1) unfolding registry_ok_def by blast
  then show ?thesis
    by (auto simp: for_identity_def res_bind_Inr_iff require_event_type_Inr codec_identity_def
        codec_sound_def positive_int_eq)
qed

section \<open>The composed registry\<close>

lemma register_codecs_ok:
  assumes "list_all (\<lambda>kc. codec_class (snd kc) = fst kc \<and> codec_version (snd kc) = event_version (fst kc)) cs"
    and "list_all (\<lambda>kc. strip (codec_type (snd kc)) = codec_type (snd kc) \<and> codec_type (snd kc) \<noteq> []) cs"
    and "distinct (map fst cs)" and "distinct (map (\<lambda>kc. codec_type (snd kc)) cs)"
    and "\<forall>kc \<in> set cs. codecs_by_class R (fst kc) = None"
    and "\<forall>kc \<in> set cs. \<forall>v. codecs_by_identity R (codec_type (snd kc), v) = None"
  shows "\<exists>R'. register_codecs cs R = Inr R' \<and>
    (\<forall>k. codecs_by_class R' k = (case map_of cs k of None \<Rightarrow> codecs_by_class R k | Some c \<Rightarrow> Some c))"
  using assms
proof (induction cs arbitrary: R)
  case (Cons kc cs)
  obtain k c where kc: "kc = (k, c)" by fastforce
  define R1 where "R1 = \<lparr>codecs_by_class = (codecs_by_class R)(k \<mapsto> c),
    codecs_by_identity = (codecs_by_identity R)(codec_identity c \<mapsto> c)\<rparr>"
  have "1 \<le> event_version k" by (simp add: event_version_def)
  then have a: "codec_adapter k c = Inr c"
    using Cons.prems by (auto simp: codec_adapter_Inr kc codec_sound_def)
  then have r: "register_codec k c R = Inr R1"
    using Cons.prems(5,6) by (simp add: register_codec_def kc R1_def codec_identity_def)
  have cl: "\<forall>kc \<in> set cs. codecs_by_class R1 (fst kc) = None"
    using Cons.prems(3,5) by (auto simp: R1_def kc)
  have id: "\<forall>kc \<in> set cs. \<forall>v. codecs_by_identity R1 (codec_type (snd kc), v) = None"
  proof (intro ballI allI)
    fix x v
    assume x: "x \<in> set cs"
    then have "codec_type (snd x) \<noteq> codec_type c" using Cons.prems(4) by (auto simp: kc image_iff)
    then show "codecs_by_identity R1 (codec_type (snd x), v) = None"
      using Cons.prems(6) x by (simp add: R1_def codec_identity_def)
  qed
  obtain R' where R': "register_codecs cs R1 = Inr R'"
      "\<forall>k. codecs_by_class R' k = (case map_of cs k of None \<Rightarrow> codecs_by_class R1 k | Some c \<Rightarrow> Some c)"
    using Cons.IH [OF _ _ _ _ cl id] Cons.prems(1-4) by auto
  have "map_of cs k = None" using Cons.prems(3) by (auto simp: kc map_of_eq_None_iff)
  then show ?case
    using r R' by (auto simp: kc R1_def split: option.splits)
qed simp

lemma register_codecs_built: "built R \<Longrightarrow> register_codecs cs R = Inr R' \<Longrightarrow> built R'"
  by (induction cs arbitrary: R) (auto simp: res_bind_Inr_iff intro: built.codec)

lemma composed_registry:
  obtains R where "build_codec_registry = Inr R" and "built R"
    and "codecs_by_class R = map_of outbox_codecs"
proof -
  obtain R where R: "register_codecs outbox_codecs empty_registry = Inr R"
      "\<forall>k. codecs_by_class R k =
         (case map_of outbox_codecs k of None \<Rightarrow> codecs_by_class empty_registry k | Some c \<Rightarrow> Some c)"
    using register_codecs_ok [OF codec_identities canonical_types distinct_classes distinct_types,
        of empty_registry]
    by (auto simp: empty_registry_def)
  have "built R" by (rule register_codecs_built [OF built.empty R(1)])
  moreover have "codecs_by_class R = map_of outbox_codecs"
    by (rule ext) (simp add: R(2) empty_registry_def split: option.split)
  ultimately show ?thesis
    using R(1) that by (simp add: build_codec_registry_def register_event_payload_codecs_def)
qed

section \<open>Writing and reading events\<close>

lemma adapter_encode_decodes:
  assumes "adapter_encode c e = Inr p"
  shows "adapter_decode c (JObj p) (PyUuid (event_id e)) (PyDatetime (occurred_at e))
    (PyDatetime (recorded_at e)) = Inr e"
  using assms by (auto simp: adapter_encode_def Let_def res_bind_Inr_iff split: if_splits)

lemma require_encoded: "require_json_object (JObj (encode_fields f)) = Inr (encode_fields f)"
  by (simp add: require_json_object_def encoded_safe del: validate_json_value.simps)

lemma adapter_encode_iff:
  assumes "event_ok e" and "codec_class c = event_class (event_fields e)"
    and "codec_version c = event_version (event_class (event_fields e))"
  shows "adapter_encode c e = Inr p \<longleftrightarrow>
    p = encode_fields (event_fields e) \<and>
    codec_decode c (encode_fields (event_fields e)) = Inr (event_fields e)"
proof -
  have meta: "require_uuid (PyUuid (event_id e)) = Inr (event_id e)"
      "require_naive_datetime (PyDatetime (occurred_at e)) = Inr (occurred_at e)"
      "require_utc_datetime (PyDatetime (recorded_at e)) = Inr (recorded_at e)"
    using assms(1) by (cases e; auto simp: event_ok_def new_event_def res_bind_Inr_iff)+
  have new: "new_event (PyUuid (event_id e)) (PyDatetime (occurred_at e)) (PyDatetime (recorded_at e)) f = Inr e
      \<longleftrightarrow> f = event_fields e" for f
    using assms(1) by (auto simp: event_ok_def new_event_def res_bind_Inr_iff)
  show ?thesis
    using assms(2,3) new
    by (auto simp: adapter_encode_def adapter_decode_def Let_def require_encoded res_bind_Inr_iff meta
        split: if_splits)
qed

lemma writer_of:
  assumes "times_in_range (event_fields e)"
  obtains R c where "build_codec_registry = Inr R" and "built R" and "for_event R e = Inr c"
    and "codec_sound (event_class (event_fields e)) c"
    and "codec_decode c (encode_fields (event_fields e)) = Inr (event_fields e) \<longleftrightarrow>
      replayable (event_fields e)"
proof -
  obtain R where R: "build_codec_registry = Inr R" "built R" "codecs_by_class R = map_of outbox_codecs"
    by (rule composed_registry)
  obtain c where c: "(event_class (event_fields e), c) \<in> set outbox_codecs"
      "codec_decode c (encode_fields (event_fields e)) = Inr (event_fields e) \<longleftrightarrow>
        replayable (event_fields e)"
    using codec_of [OF assms] by blast
  have m: "map_of outbox_codecs (event_class (event_fields e)) = Some c"
    by (rule map_of_is_SomeI [OF distinct_classes c(1)])
  then have "codec_sound (event_class (event_fields e)) c"
    using built_ok [OF R(2)] by (simp add: registry_ok_def R(3))
  then show ?thesis
    using that R(1,2) m c(2) by (simp add: for_event_def R(3))
qed

lemma write_then_read:
  assumes "event_ok e" and "times_in_range (event_fields e)"
  shows "\<exists>R c. build_codec_registry = Inr R \<and> for_event R e = Inr c \<and>
    for_identity R (PyStr (codec_type c)) (PyInt (codec_version c)) = Inr c \<and>
    (if replayable (event_fields e)
     then \<exists>p. adapter_encode c e = Inr p \<and>
       adapter_decode c (JObj p) (PyUuid (event_id e)) (PyDatetime (occurred_at e))
         (PyDatetime (recorded_at e)) = Inr e
     else \<not> is_ok (adapter_encode c e))"
proof -
  obtain R c where R: "build_codec_registry = Inr R" "built R" "for_event R e = Inr c"
      "codec_sound (event_class (event_fields e)) c"
      "codec_decode c (encode_fields (event_fields e)) = Inr (event_fields e) \<longleftrightarrow>
        replayable (event_fields e)"
    by (rule writer_of [OF assms(2)])
  have enc: "adapter_encode c e = Inr p \<longleftrightarrow>
      p = encode_fields (event_fields e) \<and> replayable (event_fields e)" for p
    using adapter_encode_iff [OF assms(1), of c p] R(4,5) by (simp add: codec_sound_def)
  have "\<not> is_ok (adapter_encode c e)" if "\<not> replayable (event_fields e)"
    using enc that by (cases "adapter_encode c e") auto
  then show ?thesis
    using R(1,3) for_event_identity [OF built_ok [OF R(2)] R(3)] enc adapter_encode_decodes
    by (intro exI [of _ R] exI [of _ c]) auto
qed

end
