(* ===== verification/Delivery.thy ===== *)
theory Delivery
  imports Events UseCases
begin

text \<open>
  From recorded events to published envelopes: \<open>src/application/eventing/\<close> (envelope, context,
  collector), the executors of \<open>src/application/messaging/executors/\<close>, the dispatcher of
  \<open>src/adapters/driven/events/in_process_dispatcher.py\<close> and the subscriptions of
  \<open>src/composition/event_subscriptions.py\<close>.  A publisher is an action on its own state (the logs, the audit
  table); random identifiers come from a supply \<open>uuid\<close> and the number already issued.
\<close>

section \<open>Envelopes and contexts\<close>

datatype event_source = SRC_HTTP | SRC_CLI | SRC_STARTUP | SRC_HEARTBEAT | SRC_SYSTEM

record event_actor =
  actor_user_id :: int
  actor_username :: string

text \<open>\<open>EventActor.__post_init__\<close>\<close>

definition new_event_actor :: "pyval \<Rightarrow> pyval \<Rightarrow> event_actor result" where
  "new_event_actor uid name =
     (case require_positive_int uid of
        Inl _ \<Rightarrow> Inl PyValueError
      | Inr i \<Rightarrow> res_bind (require_non_empty_str name) (\<lambda>s.
          Inr \<lparr>actor_user_id = i, actor_username = lower s\<rparr>))"

record 'e envelope =
  env_event :: 'e
  env_source :: event_source
  env_correlation :: int
  env_actor :: "event_actor option"
  env_causation :: "int option"
  env_id :: int

record event_context =
  ctx_correlation :: int
  ctx_source :: event_source
  ctx_actor :: "event_actor option"
  ctx_causation :: "int option"

definition wrap :: "event_context \<Rightarrow> int \<Rightarrow> 'e \<Rightarrow> 'e envelope" where
  "wrap c fresh e =
     \<lparr>env_event = e, env_source = ctx_source c, env_correlation = ctx_correlation c,
      env_actor = ctx_actor c, env_causation = ctx_causation c, env_id = fresh\<rparr>"

section \<open>Events waiting in the program\<close>

datatype pending_event = DomainFact domain_event | WorkflowFact application_event

text \<open>The state an execution works in: the application, the publisher's state, the bound context.\<close>

record 's delivery =
  world :: app
  sink :: 's
  event_ctx :: "event_context option"
  issued :: nat

datatype event_recorder = ScopeRecorder | EntityRecorder recorder

definition bound_scope :: "app \<Rightarrow> event_scope" where
  "bound_scope a = (case scope a of None \<Rightarrow> new_scope | Some s \<Rightarrow> s)"

fun entity_events :: "heap \<Rightarrow> recorder \<Rightarrow> domain_event list" where
  "entity_events h (RouteRec r) = route_events (routes h r)"
| "entity_events h (PackageRec p) = pkg_events (packages h p)"
| "entity_events h (CustomerRec c) = cust_events (customers h c)"

fun clear_entity_events :: "recorder \<Rightarrow> heap \<Rightarrow> heap" where
  "clear_entity_events (RouteRec r) = upd_route r (\<lambda>x. x\<lparr>route_events := clear_events (route_events x)\<rparr>)"
| "clear_entity_events (PackageRec p) = upd_package p (\<lambda>x. x\<lparr>pkg_events := clear_events (pkg_events x)\<rparr>)"
| "clear_entity_events (CustomerRec c) = upd_customer c (\<lambda>x. x\<lparr>cust_events := clear_events (cust_events x)\<rparr>)"

fun pending_events :: "app \<Rightarrow> event_recorder \<Rightarrow> pending_event list" where
  "pending_events a ScopeRecorder = map WorkflowFact (scope_pending (bound_scope a))"
| "pending_events a (EntityRecorder r) = map DomainFact (entity_events (store a) r)"

fun clear_recorder :: "event_recorder \<Rightarrow> app \<Rightarrow> app" where
  "clear_recorder ScopeRecorder a =
     a\<lparr>scope := map_option (\<lambda>s. s\<lparr>scope_pending := clear_events (scope_pending s)\<rparr>) (scope a)\<rparr>"
| "clear_recorder (EntityRecorder r) a = a\<lparr>store := clear_entity_events r (store a)\<rparr>"

definition scope_event_recorders :: "event_scope \<Rightarrow> event_recorder list" where
  "scope_event_recorders s = ScopeRecorder # map EntityRecorder (scope_recorders s)"

section \<open>The collector\<close>

type_synonym ('e, 's) publisher = "'e envelope list \<Rightarrow> ('s, unit) act"

text \<open>The recorders that have pending events, with a copy of them; a recorder given twice is refused.\<close>

fun capture_snapshots ::
    "app \<Rightarrow> event_recorder list \<Rightarrow> event_recorder list \<Rightarrow> (event_recorder \<times> pending_event list) list result" where
  "capture_snapshots a seen [] = Inr []"
| "capture_snapshots a seen (r # rs) =
     (if r \<in> set seen then Inl PyValueError
      else res_bind (capture_snapshots a (r # seen) rs) (\<lambda>snaps.
        Inr (if pending_events a r \<noteq> [] then (r, pending_events a r) # snaps else snaps)))"

definition wrap_all :: "(nat \<Rightarrow> int) \<Rightarrow> nat \<Rightarrow> event_context \<Rightarrow> 'e list \<Rightarrow> 'e envelope list" where
  "wrap_all uuid n c es = map (\<lambda>(i, e). wrap c (uuid i) e) (zip [n..<n + length es] es)"

definition drain ::
    "(nat \<Rightarrow> int) \<Rightarrow> (pending_event, 's) publisher \<Rightarrow> event_recorder list \<Rightarrow> ('s delivery, unit) act" where
  "drain uuid publish recorders d =
     (case capture_snapshots (world d) [] recorders of
        Inl e \<Rightarrow> (Inl e, d)
      | Inr snaps \<Rightarrow>
          (let events = concat (map snd snaps)
           in if events = [] then (Inr (), d)
              else (case event_ctx d of
                      None \<Rightarrow> (Inl PyRuntimeError, d)
                    | Some c \<Rightarrow>
                        (case publish (wrap_all uuid (issued d) c events) (sink d) of
                           (Inl e, s) \<Rightarrow> (Inl e, d\<lparr>sink := s, issued := issued d + length events\<rparr>)
                         | (Inr _, s) \<Rightarrow>
                             (Inr (), d\<lparr>sink := s, issued := issued d + length events,
                                world := fold (clear_recorder \<circ> fst) snaps (world d)\<rparr>)))))"

section \<open>Executors\<close>

definition on_world :: "'a usecase \<Rightarrow> ('s delivery, 'a) act" where
  "on_world m d = (case m (world d) of (r, a) \<Rightarrow> (r, d\<lparr>world := a\<rparr>))"

definition set_scope :: "event_scope option \<Rightarrow> 's delivery \<Rightarrow> 's delivery" where
  "set_scope s d = d\<lparr>world := (world d)\<lparr>scope := s\<rparr>\<rparr>"

text \<open>\<open>with bind_event_recorder_scope()\<close>: a fresh scope inside, the earlier binding back on every path.\<close>

definition with_recorder_scope :: "('s delivery, 'a) act \<Rightarrow> ('s delivery, 'a) act" where
  "with_recorder_scope body d =
     (let token = scope (world d)
      in case body (set_scope (Some new_scope) d) of (r, d') \<Rightarrow> (r, set_scope token d'))"

definition with_event_context :: "event_context \<Rightarrow> ('s delivery, 'a) act \<Rightarrow> ('s delivery, 'a) act" where
  "with_event_context c body d =
     (let token = event_ctx d
      in case body (d\<lparr>event_ctx := Some c\<rparr>) of (r, d') \<Rightarrow> (r, d'\<lparr>event_ctx := token\<rparr>))"

text \<open>\<open>EventDrainingExecutor\<close>: after a failure the attempt to publish cannot replace the exception.\<close>

definition event_draining_execute ::
    "(nat \<Rightarrow> int) \<Rightarrow> (pending_event, 's) publisher \<Rightarrow> 'a usecase \<Rightarrow> ('s delivery, 'a) act" where
  "event_draining_execute uuid publish delegate =
     with_recorder_scope (\<lambda>d.
       case on_world delegate d of
         (Inl e, d1) \<Rightarrow>
           (Inl e, snd (drain uuid publish (scope_event_recorders (bound_scope (world d1))) d1))
       | (Inr x, d1) \<Rightarrow>
           act_bind (drain uuid publish (scope_event_recorders (bound_scope (world d1))))
             (\<lambda>_. act_return x) d1)"

text \<open>\<open>WorldStateAdvancementExecutor\<close>: the changed routes and packages before the scope.\<close>

definition advancement_execute ::
    "(nat \<Rightarrow> int) \<Rightarrow> (pending_event, 's) publisher \<Rightarrow> heartbeat_summary usecase \<Rightarrow>
       ('s delivery, heartbeat_summary) act" where
  "advancement_execute uuid publish delegate =
     with_recorder_scope (\<lambda>d.
       case on_world delegate d of
         (Inl e, d1) \<Rightarrow> (Inl e, snd (drain uuid publish [ScopeRecorder] d1))
       | (Inr s, d1) \<Rightarrow>
           act_bind (drain uuid publish (map EntityRecorder (event_recorders s) @ [ScopeRecorder]))
             (\<lambda>_. act_return s) d1)"

section \<open>The in-process dispatcher\<close>

type_synonym ('e, 's) event_handler = "'e envelope \<Rightarrow> ('s, unit) act"
type_synonym ('e, 's) dispatcher = "string \<Rightarrow> ('e, 's) event_handler list"

definition new_dispatcher :: "('e, 's) dispatcher" where
  "new_dispatcher = (\<lambda>_. [])"

definition subscribe :: "string \<Rightarrow> ('e, 's) event_handler \<Rightarrow> ('e, 's) dispatcher \<Rightarrow> ('e, 's) dispatcher" where
  "subscribe cls h d = d(cls := d cls @ [h])"

definition dispatcher_publish :: "('e \<Rightarrow> string) \<Rightarrow> ('e, 's) dispatcher \<Rightarrow> 'e envelope \<Rightarrow> ('s, unit) act" where
  "dispatcher_publish class_of d env = act_for (\<lambda>h. h env) (d (class_of (env_event env)))"

definition dispatcher_publish_all :: "('e \<Rightarrow> string) \<Rightarrow> ('e, 's) dispatcher \<Rightarrow> ('e, 's) publisher" where
  "dispatcher_publish_all class_of d = act_for (dispatcher_publish class_of d)"

text \<open>Logging sees every published class first, the audit handler every mapped class after it.\<close>

definition register_event_subscriptions ::
    "('e, 's) event_handler \<Rightarrow> ('e, 's) event_handler \<Rightarrow> string list \<Rightarrow> ('e, 's) dispatcher \<Rightarrow> ('e, 's) dispatcher" where
  "register_event_subscriptions logging audit mapped d =
     fold (\<lambda>c. subscribe c audit) mapped (fold (\<lambda>c. subscribe c logging) published_event_types d)"

section \<open>Recorders and their events\<close>

lemma entity_frame:
  "entity_events (clear_entity_events r h) r' = (if r' = r then [] else entity_events h r')"
  by (cases r; cases r') (auto simp: clear_events_def)

lemma recorder_frame:
  "pending_events (clear_recorder r a) r' = (if r' = r then [] else pending_events a r')"
  by (cases r; cases r'; cases "scope a")
    (auto simp: entity_frame bound_scope_def clear_events_def new_scope_def)

lemma clear_all_frame:
  "pending_events (fold (clear_recorder \<circ> fst) snaps a) r =
     (if r \<in> fst ` set snaps then [] else pending_events a r)"
proof (induction snaps arbitrary: a)
  case (Cons s snaps)
  then show ?case by (simp add: recorder_frame)
qed simp

lemma capture_snapshots_Inr:
  assumes "distinct recs" and "set recs \<inter> set seen = {}"
  shows "capture_snapshots a seen recs =
    Inr (map (\<lambda>r. (r, pending_events a r)) (filter (\<lambda>r. pending_events a r \<noteq> []) recs))"
  using assms
proof (induction recs arbitrary: seen)
  case (Cons r recs)
  then have "capture_snapshots a (r # seen) recs =
      Inr (map (\<lambda>r. (r, pending_events a r)) (filter (\<lambda>r. pending_events a r \<noteq> []) recs))"
    by (intro Cons.IH) auto
  then show ?case using Cons.prems by simp
qed simp

lemma capture_snapshots_distinct:
  "capture_snapshots a seen recs = Inr snaps \<Longrightarrow> distinct recs \<and> set recs \<inter> set seen = {}"
  by (induction recs arbitrary: seen snaps) (fastforce simp: res_bind_Inr_iff split: if_splits)+

lemma capture_snapshots_dup:
  "capture_snapshots a seen recs = Inl e \<Longrightarrow> e = PyValueError"
  by (induction recs arbitrary: seen) (auto simp: res_bind_Inl_iff split: if_splits)

lemma concat_nonempty: "concat (map f (filter (\<lambda>r. f r \<noteq> []) rs)) = concat (map f rs)"
  by (induction rs) auto

lemma length_wrap_all [simp]: "length (wrap_all uuid n c es) = length es"
  by (simp add: wrap_all_def)

lemma wrap_all_events [simp]: "map env_event (wrap_all uuid n c es) = es"
  by (simp add: wrap_all_def wrap_def case_prod_beta o_def)

lemma wrap_all_ids: "map env_id (wrap_all uuid n c es) = map uuid [n..<n + length es]"
proof -
  have "map env_id (wrap_all uuid n c es) = map uuid (map fst (zip [n..<n + length es] es))"
    by (simp add: wrap_all_def wrap_def case_prod_beta del: map_fst_zip)
  then show ?thesis by (simp only: map_fst_zip length_upt add_diff_cancel_left')
qed

section \<open>Draining\<close>

definition pending_of_all :: "app \<Rightarrow> event_recorder list \<Rightarrow> pending_event list" where
  "pending_of_all a recs = concat (map (pending_events a) recs)"

text \<open>The only batch a drain hands to the publisher, and what it does with the answer.\<close>

lemma drain_cases:
  assumes "distinct recs"
  shows "drain uuid publish recs d =
    (if pending_of_all (world d) recs = [] then (Inr (), d)
     else case event_ctx d of
       None \<Rightarrow> (Inl PyRuntimeError, d)
     | Some c \<Rightarrow>
         (case publish (wrap_all uuid (issued d) c (pending_of_all (world d) recs)) (sink d) of
            (Inl e, s) \<Rightarrow>
              (Inl e, d\<lparr>sink := s, issued := issued d + length (pending_of_all (world d) recs)\<rparr>)
          | (Inr _, s) \<Rightarrow>
              (Inr (), d\<lparr>sink := s, issued := issued d + length (pending_of_all (world d) recs),
                 world := fold clear_recorder
                   (filter (\<lambda>r. pending_events (world d) r \<noteq> []) recs) (world d)\<rparr>)))"
  using assms
  by (simp add: drain_def capture_snapshots_Inr pending_of_all_def concat_nonempty Let_def o_def
      fold_map split: option.split prod.split sum.split)

lemma drain_duplicate: "\<not> distinct recs \<Longrightarrow> drain uuid publish recs d = (Inl PyValueError, d)"
  using capture_snapshots_distinct [of "world d" "[]" recs] capture_snapshots_dup [of "world d" "[]" recs]
  by (auto simp: drain_def split: sum.split)

text \<open>A failed drain leaves every recorder as it was, a successful one empties exactly the given ones.\<close>

lemma drain_all_or_nothing:
  assumes "drain uuid publish recs d = (r, d')"
  shows "case r of
      Inl _ \<Rightarrow> world d' = world d
    | Inr _ \<Rightarrow> \<forall>x. pending_events (world d') x = (if x \<in> set recs then [] else pending_events (world d) x)"
proof (cases "distinct recs")
  case True
  have clear: "pending_events (fold clear_recorder (filter (\<lambda>r. pending_events (world d) r \<noteq> []) recs) (world d)) x
      = (if x \<in> set recs then [] else pending_events (world d) x)" for x
    using clear_all_frame [of "map (\<lambda>r. (r, pending_events (world d) r))
        (filter (\<lambda>r. pending_events (world d) r \<noteq> []) recs)" "world d" x]
    by (auto simp: fold_map o_def image_iff)
  show ?thesis
  proof (cases "pending_of_all (world d) recs = []")
    case empty: True
    then have "\<forall>x \<in> set recs. pending_events (world d) x = []" by (simp add: pending_of_all_def)
    then show ?thesis using assms empty by (auto simp: drain_cases [OF True])
  next
    case False
    show ?thesis
    proof (cases "event_ctx d")
      case None
      then show ?thesis using assms False by (auto simp: drain_cases [OF True])
    next
      case (Some c)
      obtain res s where p:
          "publish (wrap_all uuid (issued d) c (pending_of_all (world d) recs)) (sink d) = (res, s)"
        by fastforce
      show ?thesis
        using assms False Some p clear by (cases res) (auto simp: drain_cases [OF True])
    qed
  qed
next
  case False
  then show ?thesis using assms by (auto simp: drain_duplicate)
qed

text \<open>A publisher that keeps what it is given, to observe a drain.\<close>

definition log_publisher :: "('e, 'e envelope list) publisher" where
  "log_publisher envs s = (Inr (), s @ envs)"

lemma drain_logs:
  assumes "distinct recs" and "event_ctx d = Some c"
  shows "fst (drain uuid log_publisher recs d) = Inr ()"
    and "sink (snd (drain uuid log_publisher recs d)) =
      sink d @ wrap_all uuid (issued d) c (pending_of_all (world d) recs)"
    and "issued (snd (drain uuid log_publisher recs d)) =
      issued d + length (pending_of_all (world d) recs)"
  using assms by (auto simp: drain_cases log_publisher_def wrap_all_def)

lemma drain_keeps:
  "drain uuid publish recs d = (r, d') \<Longrightarrow> event_ctx d' = event_ctx d"
  by (cases "distinct recs")
    (auto simp: drain_cases drain_duplicate split: if_splits option.splits prod.splits sum.splits)

section \<open>Executing\<close>

text \<open>Whatever happens inside, the binding of the caller comes back.\<close>

lemma scope_restored: "scope (world (snd (with_recorder_scope body d))) = scope (world d)"
  by (simp add: with_recorder_scope_def Let_def set_scope_def split: prod.split)

lemma delegate_error_wins:
  assumes "delegate ((world d)\<lparr>scope := Some new_scope\<rparr>) = (Inl e, a)"
  shows "fst (event_draining_execute uuid publish delegate d) = Inl e"
  using assms
  by (simp add: event_draining_execute_def with_recorder_scope_def set_scope_def on_world_def Let_def
      split: prod.split)

lemma advancement_error_wins:
  assumes "delegate ((world d)\<lparr>scope := Some new_scope\<rparr>) = (Inl e, a)"
  shows "fst (advancement_execute uuid publish delegate d) = Inl e"
  using assms
  by (simp add: advancement_execute_def with_recorder_scope_def set_scope_def on_world_def Let_def
      split: prod.split)

end
