(* ===== verification/Publication.thy ===== *)
theory Publication
  imports Delivery Reachability
begin

text \<open>
  Executions of the use cases through the executors: which envelopes reach the publisher, in which
  order, and what is left pending.
\<close>

lemma fresh_scope_after:
  assumes "forward m" and "m (a\<lparr>scope := Some new_scope\<rparr>) = (r, b)"
  obtains s where "scope b = Some s" and "distinct (scope_recorders s)"
proof -
  have "scope_evolves (Some new_scope) (scope b)"
    using assms unfolding forward_def moves_def
    by (metis app.select_convs(7) app.surjective app.update_convs(7) snd_conv)
  then show ?thesis using that by (auto simp: scope_evolves_def new_scope_def)
qed

lemma scope_recorders_distinct: "distinct (scope_recorders s) \<Longrightarrow> distinct (scope_event_recorders s)"
  by (auto simp: scope_event_recorders_def distinct_map inj_on_def)

lemma first_occurrences_set: "set (first_occurrences seen xs) = set xs - set seen"
  by (induction xs arbitrary: seen) auto

lemma first_occurrences_distinct: "distinct (first_occurrences seen xs)"
  by (induction xs arbitrary: seen) (auto simp: first_occurrences_set)

lemma heartbeat_recorders_distinct:
  "distinct (map EntityRecorder (event_recorders s) @ [ScopeRecorder])"
  by (auto simp: event_recorders_def first_occurrences_distinct distinct_map inj_on_def)

text \<open>What an execution publishes: the events of the workflow, then those of the entities it tracked.\<close>

definition recorded_events :: "app \<Rightarrow> pending_event list" where
  "recorded_events a = pending_of_all a (scope_event_recorders (bound_scope a))"

lemma recorded_events_split:
  "recorded_events a = map WorkflowFact (scope_pending (bound_scope a)) @
     concat (map (\<lambda>q. map DomainFact (entity_events (store a) q)) (scope_recorders (bound_scope a)))"
  by (simp add: recorded_events_def pending_of_all_def scope_event_recorders_def o_def)

lemma domain_facts_inj [simp]: "map DomainFact xs = map DomainFact ys \<longleftrightarrow> xs = ys"
  by (rule inj_map_eq_map) (simp add: inj_on_def)

lemma draining_run:
  assumes fwd: "forward m" and run: "m ((world d)\<lparr>scope := Some new_scope\<rparr>) = (r, a)"
    and ctx: "event_ctx d = Some c"
  shows "\<exists>d'. event_draining_execute uuid log_publisher m d = (r, d') \<and>
    sink d' = sink d @ wrap_all uuid (issued d) c (recorded_events a) \<and>
    issued d' = issued d + length (recorded_events a) \<and>
    scope (world d') = scope (world d) \<and>
    (\<forall>q \<in> set (scope_recorders (bound_scope a)). entity_events (store (world d')) q = []) \<and>
    (\<forall>q. q \<notin> set (scope_recorders (bound_scope a)) \<longrightarrow>
       entity_events (store (world d')) q = entity_events (store a) q)"
proof -
  define d1 where "d1 = (set_scope (Some new_scope) d)\<lparr>world := a\<rparr>"
  obtain s where s: "scope a = Some s" "distinct (scope_recorders s)"
    by (rule fresh_scope_after [OF fwd run])
  define recs where "recs = scope_event_recorders (bound_scope a)"
  have dist: "distinct recs" using s by (simp add: recs_def bound_scope_def scope_recorders_distinct)
  have d1: "world d1 = a" "sink d1 = sink d" "issued d1 = issued d" "event_ctx d1 = Some c"
    using ctx by (simp_all add: d1_def set_scope_def)
  obtain d2 where d2: "drain uuid log_publisher recs d1 = (Inr (), d2)"
    using drain_logs(1) [OF dist d1(4), of uuid] by (metis prod.collapse)
  have sent: "sink d2 = sink d @ wrap_all uuid (issued d) c (recorded_events a)"
      "issued d2 = issued d + length (recorded_events a)"
    using drain_logs(2,3) [OF dist d1(4), of uuid] d2 d1 by (simp_all add: recorded_events_def recs_def)
  have left: "\<forall>x. pending_events (world d2) x = (if x \<in> set recs then [] else pending_events a x)"
    using drain_all_or_nothing [OF d2] d1(1) by simp
  have "entity_events (store (world d2)) q =
      (if q \<in> set (scope_recorders (bound_scope a)) then [] else entity_events (store a) q)" for q
    using left [rule_format, of "EntityRecorder q"]
    by (auto simp: recs_def scope_event_recorders_def split: if_splits)
  moreover have "event_draining_execute uuid log_publisher m d = (r, set_scope (scope (world d)) d2)"
    using run d2 d1(1) unfolding event_draining_execute_def with_recorder_scope_def on_world_def
    by (cases r) (auto simp: set_scope_def d1_def recs_def act_bind_def)
  ultimately show ?thesis using sent by (auto simp: set_scope_def)
qed

text \<open>A refused batch is reported, and the entities keep their events.\<close>

lemma draining_refused:
  assumes fwd: "forward m" and run: "m ((world d)\<lparr>scope := Some new_scope\<rparr>) = (Inr x, a)"
    and ctx: "event_ctx d = Some c" and some: "recorded_events a \<noteq> []"
    and fail: "publish (wrap_all uuid (issued d) c (recorded_events a)) (sink d) = (Inl e, s)"
  shows "\<exists>d'. event_draining_execute uuid publish m d = (Inl e, d') \<and> sink d' = s \<and>
    store (world d') = store a \<and> scope (world d') = scope (world d)"
proof -
  define d1 where "d1 = (set_scope (Some new_scope) d)\<lparr>world := a\<rparr>"
  obtain sc where sc: "scope a = Some sc" "distinct (scope_recorders sc)"
    by (rule fresh_scope_after [OF fwd run])
  define recs where "recs = scope_event_recorders (bound_scope a)"
  have dist: "distinct recs" using sc by (simp add: recs_def bound_scope_def scope_recorders_distinct)
  have d1: "world d1 = a" "sink d1 = sink d" "issued d1 = issued d" "event_ctx d1 = Some c"
    using ctx by (simp_all add: d1_def set_scope_def)
  have rec: "recorded_events a = pending_of_all a recs" by (simp add: recorded_events_def recs_def)
  have "drain uuid publish recs d1 = (Inl e, d1\<lparr>sink := s, issued := issued d + length (recorded_events a)\<rparr>)"
    using some fail by (simp add: drain_cases [OF dist] d1 rec)
  moreover have "event_draining_execute uuid publish m d =
      (case drain uuid publish recs d1 of (r, d2) \<Rightarrow>
         (res_bind r (\<lambda>_. Inr x), set_scope (scope (world d)) d2))"
    using run unfolding event_draining_execute_def with_recorder_scope_def on_world_def
    by (auto simp: set_scope_def d1_def recs_def act_bind_def res_bind_def act_return_def
        split: prod.split sum.split)
  ultimately show ?thesis by (simp add: set_scope_def d1_def)
qed

text \<open>
  The heartbeat publishes the events of the changed routes, then those of the changed packages, and
  the summary of the run last.
\<close>

lemma advancement_run:
  assumes run: "m ((world d)\<lparr>scope := Some new_scope\<rparr>) = (Inr s, a)" and ctx: "event_ctx d = Some c"
  shows "\<exists>d'. advancement_execute uuid log_publisher m d = (Inr s, d') \<and>
    map env_event (sink d') = map env_event (sink d) @
      concat (map (\<lambda>q. map DomainFact (entity_events (store a) q)) (event_recorders s)) @
      map WorkflowFact (scope_pending (bound_scope a)) \<and>
    scope (world d') = scope (world d)"
proof -
  define d1 where "d1 = (set_scope (Some new_scope) d)\<lparr>world := a\<rparr>"
  define recs where "recs = map EntityRecorder (event_recorders s) @ [ScopeRecorder]"
  have dist: "distinct recs" unfolding recs_def by (rule heartbeat_recorders_distinct)
  have d1: "world d1 = a" "sink d1 = sink d" "issued d1 = issued d" "event_ctx d1 = Some c"
    using ctx by (simp_all add: d1_def set_scope_def)
  obtain d2 where d2: "drain uuid log_publisher recs d1 = (Inr (), d2)"
    using drain_logs(1) [OF dist d1(4), of uuid] by (metis prod.collapse)
  have "sink d2 = sink d @ wrap_all uuid (issued d) c (pending_of_all a recs)"
    using drain_logs(2) [OF dist d1(4), of uuid] d2 d1 by simp
  moreover have "advancement_execute uuid log_publisher m d = (Inr s, set_scope (scope (world d)) d2)"
    using run d2 unfolding advancement_execute_def with_recorder_scope_def on_world_def
    by (auto simp: set_scope_def d1_def recs_def act_bind_def)
  ultimately show ?thesis
    by (auto simp: set_scope_def pending_of_all_def recs_def o_def)
qed

section \<open>Dispatching\<close>

lemma fold_subscribe:
  "fold (\<lambda>c. subscribe c h) cs d k = d k @ replicate (count_list cs k) h"
  by (induction cs arbitrary: d) (auto simp: subscribe_def replicate_app_Cons_same)

lemma count_list_distinct: "distinct xs \<Longrightarrow> count_list xs x = (if x \<in> set xs then 1 else 0)"
  by (induction xs) auto

lemma published_types_distinct: "distinct published_event_types"
  by (simp add: published_event_types_def)

text \<open>Logging first, the audit handler second, each at most once for a class.\<close>

lemma subscriptions:
  assumes "distinct mapped"
  shows "register_event_subscriptions logging audit mapped new_dispatcher k =
    (if k \<in> set published_event_types then [logging] else []) @ (if k \<in> set mapped then [audit] else [])"
  using published_types_distinct assms
  by (simp add: register_event_subscriptions_def fold_subscribe count_list_distinct new_dispatcher_def)

end
