(* ===== verification/AuditMapping.thy ===== *)
theory AuditMapping
  imports Payload
begin

text \<open>
  Audit descriptors: \<open>src/application/models/audit_descriptor.py\<close> and the explicit mappings of
  \<open>src/application/services/audit_mapping/\<close>, one function for each of the 41 event classes, with the
  exact-type mapper that holds them.  Every mapping produces a JSON-safe payload, and the only event
  that no descriptor accepts is a denial whose resource identifier is blank.
\<close>

section \<open>Descriptors\<close>

datatype audit_action =
    ACT_CREATED | ACT_REMOVED | ACT_SCHEDULED | ACT_STARTED | ACT_COMPLETED
    | ACT_ASSIGNED_TO_ROUTE | ACT_DETACHED_FROM_ROUTE | ACT_ASSIGNED_TO_TRUCK | ACT_RELEASED_TRUCK
    | ACT_PICKED_UP | ACT_DELIVERED | ACT_RECONCILED | ACT_REGISTERED | ACT_REGISTRATION_REJECTED
    | ACT_AUTHENTICATED | ACT_LOGIN_REJECTED | ACT_PASSWORD_CHANGED | ACT_PASSWORD_CHANGE_REJECTED
    | ACT_PASSWORD_RESET | ACT_PASSWORD_RESET_REJECTED | ACT_SESSION_ENDED | ACT_TOKENS_REVOKED
    | ACT_AUTHORIZATION_DENIED | ACT_EXPORTED | ACT_EXPORT_FAILED | ACT_IMPORTED
    | ACT_IMPORT_FAILED | ACT_CORRUPTION_DETECTED | ACT_SNAPSHOT_QUARANTINED | ACT_RUNTIME_SWAPPED
    | ACT_STARTUP_RESTORED | ACT_STARTUP_RESTORE_SKIPPED | ACT_STARTUP_RESTORE_FAILED
    | ACT_ADVANCED | ACT_SEEDED

definition audit_action_value :: "audit_action \<Rightarrow> string" where
  "audit_action_value a = (case a of
    ACT_CREATED \<Rightarrow> ''created'' | ACT_REMOVED \<Rightarrow> ''removed''
    | ACT_SCHEDULED \<Rightarrow> ''scheduled'' | ACT_STARTED \<Rightarrow> ''started''
    | ACT_COMPLETED \<Rightarrow> ''completed''
    | ACT_ASSIGNED_TO_ROUTE \<Rightarrow> ''assigned_to_route''
    | ACT_DETACHED_FROM_ROUTE \<Rightarrow> ''detached_from_route''
    | ACT_ASSIGNED_TO_TRUCK \<Rightarrow> ''assigned_to_truck''
    | ACT_RELEASED_TRUCK \<Rightarrow> ''released_truck''
    | ACT_PICKED_UP \<Rightarrow> ''picked_up'' | ACT_DELIVERED \<Rightarrow> ''delivered''
    | ACT_RECONCILED \<Rightarrow> ''reconciled'' | ACT_REGISTERED \<Rightarrow> ''registered''
    | ACT_REGISTRATION_REJECTED \<Rightarrow> ''registration_rejected''
    | ACT_AUTHENTICATED \<Rightarrow> ''authenticated''
    | ACT_LOGIN_REJECTED \<Rightarrow> ''login_rejected''
    | ACT_PASSWORD_CHANGED \<Rightarrow> ''password_changed''
    | ACT_PASSWORD_CHANGE_REJECTED \<Rightarrow> ''password_change_rejected''
    | ACT_PASSWORD_RESET \<Rightarrow> ''password_reset''
    | ACT_PASSWORD_RESET_REJECTED \<Rightarrow> ''password_reset_rejected''
    | ACT_SESSION_ENDED \<Rightarrow> ''session_ended''
    | ACT_TOKENS_REVOKED \<Rightarrow> ''tokens_revoked''
    | ACT_AUTHORIZATION_DENIED \<Rightarrow> ''authorization_denied''
    | ACT_EXPORTED \<Rightarrow> ''exported'' | ACT_EXPORT_FAILED \<Rightarrow> ''export_failed''
    | ACT_IMPORTED \<Rightarrow> ''imported'' | ACT_IMPORT_FAILED \<Rightarrow> ''import_failed''
    | ACT_CORRUPTION_DETECTED \<Rightarrow> ''corruption_detected''
    | ACT_SNAPSHOT_QUARANTINED \<Rightarrow> ''snapshot_quarantined''
    | ACT_RUNTIME_SWAPPED \<Rightarrow> ''runtime_swapped''
    | ACT_STARTUP_RESTORED \<Rightarrow> ''startup_restored''
    | ACT_STARTUP_RESTORE_SKIPPED \<Rightarrow> ''startup_restore_skipped''
    | ACT_STARTUP_RESTORE_FAILED \<Rightarrow> ''startup_restore_failed''
    | ACT_ADVANCED \<Rightarrow> ''advanced'' | ACT_SEEDED \<Rightarrow> ''seeded'')"

record audit_descriptor =
  desc_resource :: resource_type
  desc_resource_id :: "string option"
  desc_action :: audit_action
  desc_payload :: json_object

text \<open>\<open>if value is not None: require_non_empty_str(value)\<close>\<close>

definition optional_text :: "string option \<Rightarrow> string option result" where
  "optional_text v =
     (case v of None \<Rightarrow> Inr None
      | Some s \<Rightarrow> res_bind (require_non_empty_str (PyStr s)) (\<lambda>t. Inr (Some t)))"

definition new_audit_descriptor ::
    "resource_type \<Rightarrow> string option \<Rightarrow> audit_action \<Rightarrow> json_object \<Rightarrow> audit_descriptor result" where
  "new_audit_descriptor res rid act payload =
     res_bind (optional_text rid) (\<lambda>rid.
     res_bind (require_json_object (JObj payload)) (\<lambda>payload.
       Inr \<lparr>desc_resource = res, desc_resource_id = rid, desc_action = act, desc_payload = payload\<rparr>))"

definition world_state_descriptor :: "audit_action \<Rightarrow> json_object \<Rightarrow> audit_descriptor result" where
  "world_state_descriptor act payload = new_audit_descriptor RES_WORLD_STATE None act payload"

definition entity_counts_payload :: "entity_counts \<Rightarrow> json_object" where
  "entity_counts_payload c =
     [(''customers'', JInt (count_customers c)), (''packages'', JInt (count_packages c)),
      (''routes'', JInt (count_routes c)), (''trucks'', JInt (count_trucks c))]"

section \<open>The mappings\<close>

definition map_customer_created ::
    "int \<Rightarrow> audit_descriptor result" where
  "map_customer_created customer_id' =
     new_audit_descriptor RES_CUSTOMER (Some (str_int customer_id')) ACT_CREATED
       [(''customer_id'', JStr (str_int customer_id'))]"

definition map_package_created ::
    " int \<Rightarrow> int \<Rightarrow> location \<Rightarrow> location \<Rightarrow>
      f64 \<Rightarrow> item_status \<Rightarrow> location \<Rightarrow> time option \<Rightarrow>
      audit_descriptor result" where
  "map_package_created package_id' customer_id' start_location' end_location' weight'
      initial_status' initial_location' expected_arrival' =
     new_audit_descriptor RES_PACKAGE (Some (str_int package_id')) ACT_CREATED
       [(''package_id'', JStr (str_int package_id')),
        (''customer_id'', JStr (str_int customer_id')),
        (''start_location'', JStr start_location'), (''end_location'', JStr end_location'),
        (''weight'', JFloat (FFin weight')),
        (''initial_status'', JStr (item_status_value initial_status')),
        (''initial_location'', JStr initial_location'),
        (''expected_arrival'', optional_isoformat expected_arrival')]"

definition map_package_removed ::
    " int \<Rightarrow> int \<Rightarrow> int option \<Rightarrow> item_status \<Rightarrow>
      location \<Rightarrow> location \<Rightarrow> location \<Rightarrow> f64 \<Rightarrow>
      time option \<Rightarrow> audit_descriptor result" where
  "map_package_removed package_id' customer_id' previous_route_id' previous_status'
      previous_location' start_location' end_location' weight' previous_expected_arrival' =
     new_audit_descriptor RES_PACKAGE (Some (str_int package_id')) ACT_REMOVED
       [(''package_id'', JStr (str_int package_id')),
        (''customer_id'', JStr (str_int customer_id')),
        (''previous_route_id'', optional_str (map_option str_int previous_route_id')),
        (''previous_status'', JStr (item_status_value previous_status')),
        (''previous_location'', JStr previous_location'),
        (''start_location'', JStr start_location'), (''end_location'', JStr end_location'),
        (''weight'', JFloat (FFin weight')),
        (''previous_expected_arrival'', optional_isoformat previous_expected_arrival')]"

definition map_package_picked_up ::
    " int \<Rightarrow> int \<Rightarrow> item_status \<Rightarrow> item_status \<Rightarrow>
      location \<Rightarrow> location \<Rightarrow> time option \<Rightarrow>
      audit_descriptor result" where
  "map_package_picked_up package_id' route_id' previous_status' new_status' previous_location'
      new_location' scheduled_arrival' =
     new_audit_descriptor RES_PACKAGE (Some (str_int package_id')) ACT_PICKED_UP
       [(''package_id'', JStr (str_int package_id')), (''route_id'', JStr (str_int route_id')),
        (''previous_status'', JStr (item_status_value previous_status')),
        (''new_status'', JStr (item_status_value new_status')),
        (''previous_location'', JStr previous_location'), (''new_location'', JStr new_location'),
        (''scheduled_arrival'', optional_isoformat scheduled_arrival')]"

definition map_package_delivered ::
    " int \<Rightarrow> int \<Rightarrow> item_status \<Rightarrow> item_status \<Rightarrow>
      location \<Rightarrow> location \<Rightarrow> time option \<Rightarrow>
      audit_descriptor result" where
  "map_package_delivered package_id' route_id' previous_status' new_status' previous_location'
      new_location' scheduled_arrival' =
     new_audit_descriptor RES_PACKAGE (Some (str_int package_id')) ACT_DELIVERED
       [(''package_id'', JStr (str_int package_id')), (''route_id'', JStr (str_int route_id')),
        (''previous_status'', JStr (item_status_value previous_status')),
        (''new_status'', JStr (item_status_value new_status')),
        (''previous_location'', JStr previous_location'), (''new_location'', JStr new_location'),
        (''scheduled_arrival'', optional_isoformat scheduled_arrival')]"

definition map_route_created ::
    " int \<Rightarrow> location list \<Rightarrow> time option \<Rightarrow>
      route_status \<Rightarrow> time option \<Rightarrow> audit_descriptor result" where
  "map_route_created route_id' locations' departure_time' initial_status'
      expected_completion_time' =
     new_audit_descriptor RES_ROUTE (Some (str_int route_id')) ACT_CREATED
       [(''route_id'', JStr (str_int route_id')), (''locations'', JList (map JStr locations')),
        (''departure_time'', optional_isoformat departure_time'),
        (''initial_status'', JStr (route_status_value initial_status')),
        (''expected_completion_time'', optional_isoformat expected_completion_time')]"

definition map_route_scheduled ::
    " int \<Rightarrow> route_status \<Rightarrow> route_status \<Rightarrow>
      time option \<Rightarrow> time \<Rightarrow> time option \<Rightarrow> time \<Rightarrow>
      audit_descriptor result" where
  "map_route_scheduled route_id' previous_status' new_status' previous_departure_time'
      new_departure_time' previous_expected_completion_time' new_expected_completion_time' =
     new_audit_descriptor RES_ROUTE (Some (str_int route_id')) ACT_SCHEDULED
       [(''route_id'', JStr (str_int route_id')),
        (''previous_status'', JStr (route_status_value previous_status')),
        (''new_status'', JStr (route_status_value new_status')),
        (''previous_departure_time'', optional_isoformat previous_departure_time'),
        (''new_departure_time'', iso new_departure_time'),
        (''previous_expected_completion_time'', optional_isoformat previous_expected_completion_time'),
        (''new_expected_completion_time'', iso new_expected_completion_time')]"

definition map_package_assigned_to_route ::
    " int \<Rightarrow> int option \<Rightarrow> int \<Rightarrow> time option \<Rightarrow>
      time option \<Rightarrow> audit_descriptor result" where
  "map_package_assigned_to_route package_id' previous_route_id' new_route_id'
      previous_expected_arrival' new_expected_arrival' =
     new_audit_descriptor RES_ROUTE (Some (str_int new_route_id')) ACT_ASSIGNED_TO_ROUTE
       [(''package_id'', JStr (str_int package_id')),
        (''previous_route_id'', optional_str (map_option str_int previous_route_id')),
        (''new_route_id'', JStr (str_int new_route_id')),
        (''previous_expected_arrival'', optional_isoformat previous_expected_arrival'),
        (''new_expected_arrival'', optional_isoformat new_expected_arrival')]"

definition map_package_detached_from_route ::
    " int \<Rightarrow> int \<Rightarrow> int option \<Rightarrow> item_status \<Rightarrow>
      item_status \<Rightarrow> location \<Rightarrow> location \<Rightarrow>
      time option \<Rightarrow> time option \<Rightarrow> package_detachment_reason \<Rightarrow>
      audit_descriptor result" where
  "map_package_detached_from_route package_id' previous_route_id' new_route_id' previous_status'
      new_status' previous_location' new_location' previous_expected_arrival'
      new_expected_arrival' reason' =
     new_audit_descriptor RES_ROUTE (Some (str_int previous_route_id')) ACT_DETACHED_FROM_ROUTE
       [(''package_id'', JStr (str_int package_id')),
        (''previous_route_id'', JStr (str_int previous_route_id')),
        (''new_route_id'', optional_str (map_option str_int new_route_id')),
        (''previous_status'', JStr (item_status_value previous_status')),
        (''new_status'', JStr (item_status_value new_status')),
        (''previous_location'', JStr previous_location'), (''new_location'', JStr new_location'),
        (''previous_expected_arrival'', optional_isoformat previous_expected_arrival'),
        (''new_expected_arrival'', optional_isoformat new_expected_arrival'),
        (''reason'', JStr (package_detachment_reason_value reason'))]"

definition map_truck_assigned_to_route ::
    " int \<Rightarrow> int option \<Rightarrow> int \<Rightarrow> truck_status \<Rightarrow>
      truck_status \<Rightarrow> location \<Rightarrow> location \<Rightarrow>
      time option \<Rightarrow> time option \<Rightarrow> time option \<Rightarrow>
      time option \<Rightarrow> audit_descriptor result" where
  "map_truck_assigned_to_route truck_id' previous_route_id' new_route_id' previous_status'
      new_status' previous_location' new_location' previous_busy_from' new_busy_from'
      previous_busy_until' new_busy_until' =
     new_audit_descriptor RES_ROUTE (Some (str_int new_route_id')) ACT_ASSIGNED_TO_TRUCK
       [(''truck_id'', JStr (str_int truck_id')),
        (''previous_route_id'', optional_str (map_option str_int previous_route_id')),
        (''new_route_id'', JStr (str_int new_route_id')),
        (''previous_status'', JStr (truck_status_value previous_status')),
        (''new_status'', JStr (truck_status_value new_status')),
        (''previous_location'', JStr previous_location'), (''new_location'', JStr new_location'),
        (''previous_busy_from'', optional_isoformat previous_busy_from'),
        (''new_busy_from'', optional_isoformat new_busy_from'),
        (''previous_busy_until'', optional_isoformat previous_busy_until'),
        (''new_busy_until'', optional_isoformat new_busy_until')]"

definition map_truck_released_from_route ::
    " int \<Rightarrow> int \<Rightarrow> int option \<Rightarrow> truck_status \<Rightarrow>
      truck_status \<Rightarrow> location \<Rightarrow> location \<Rightarrow>
      time option \<Rightarrow> time option \<Rightarrow> time option \<Rightarrow>
      time option \<Rightarrow> truck_release_reason \<Rightarrow> audit_descriptor result" where
  "map_truck_released_from_route truck_id' previous_route_id' new_route_id' previous_status'
      new_status' previous_location' new_location' previous_busy_from' new_busy_from'
      previous_busy_until' new_busy_until' reason' =
     new_audit_descriptor RES_ROUTE (Some (str_int previous_route_id')) ACT_RELEASED_TRUCK
       [(''truck_id'', JStr (str_int truck_id')),
        (''previous_route_id'', JStr (str_int previous_route_id')),
        (''new_route_id'', optional_str (map_option str_int new_route_id')),
        (''previous_status'', JStr (truck_status_value previous_status')),
        (''new_status'', JStr (truck_status_value new_status')),
        (''previous_location'', JStr previous_location'), (''new_location'', JStr new_location'),
        (''previous_busy_from'', optional_isoformat previous_busy_from'),
        (''new_busy_from'', optional_isoformat new_busy_from'),
        (''previous_busy_until'', optional_isoformat previous_busy_until'),
        (''new_busy_until'', optional_isoformat new_busy_until'),
        (''reason'', JStr (truck_release_reason_value reason'))]"

definition map_route_started ::
    "pydatetime \<Rightarrow> int \<Rightarrow> route_status \<Rightarrow> route_status \<Rightarrow> audit_descriptor result" where
  "map_route_started occurred_at' route_id' previous_status' new_status' =
     new_audit_descriptor RES_ROUTE (Some (str_int route_id')) ACT_STARTED
       [(''route_id'', JStr (str_int route_id')), (''start_time'', JStr (isoformat occurred_at')),
        (''previous_status'', JStr (route_status_value previous_status')),
        (''new_status'', JStr (route_status_value new_status'))]"

definition map_route_completed ::
    " pydatetime \<Rightarrow> int \<Rightarrow> route_status \<Rightarrow>
      route_status \<Rightarrow> time \<Rightarrow> time \<Rightarrow>
      audit_descriptor result" where
  "map_route_completed occurred_at' route_id' previous_status' new_status' departure_time'
      expected_completion_time' =
     new_audit_descriptor RES_ROUTE (Some (str_int route_id')) ACT_COMPLETED
       [(''route_id'', JStr (str_int route_id')),
        (''previous_status'', JStr (route_status_value previous_status')),
        (''new_status'', JStr (route_status_value new_status')),
        (''departure_time'', iso departure_time'),
        (''expected_completion_time'', iso expected_completion_time'),
        (''completion_time'', JStr (isoformat occurred_at'))]"

definition map_route_removed ::
    " int \<Rightarrow> route_status \<Rightarrow> location list \<Rightarrow>
      time option \<Rightarrow> time option \<Rightarrow> int list \<Rightarrow>
      int option \<Rightarrow> audit_descriptor result" where
  "map_route_removed route_id' previous_status' previous_locations' previous_departure_time'
      previous_expected_completion_time' detached_package_ids' released_truck_id' =
     new_audit_descriptor RES_ROUTE (Some (str_int route_id')) ACT_REMOVED
       [(''route_id'', JStr (str_int route_id')),
        (''previous_status'', JStr (route_status_value previous_status')),
        (''previous_locations'', JList (map JStr previous_locations')),
        (''previous_expected_completion_time'', optional_isoformat previous_expected_completion_time'),
        (''detached_package_ids'', JList (map (\<lambda>i. JStr (str_int i)) detached_package_ids')),
        (''released_truck_id'', optional_str (map_option str_int released_truck_id'))]"

definition map_user_registered ::
    "int \<Rightarrow> string \<Rightarrow> role \<Rightarrow> audit_descriptor result" where
  "map_user_registered user_id' username' role' =
     new_audit_descriptor RES_USER (Some (str_int user_id')) ACT_REGISTERED
       [(''user_id'', JStr (str_int user_id')), (''username'', JStr username'),
        (''role'', JStr (role_value role'))]"

definition map_user_registration_rejected ::
    "string option \<Rightarrow> registration_rejection \<Rightarrow> audit_descriptor result" where
  "map_user_registration_rejected username' reason' =
     new_audit_descriptor RES_USER None ACT_REGISTRATION_REJECTED
       [(''username'', optional_str username'),
        (''reason'', JStr (registration_rejection_value reason'))]"

definition map_user_password_changed ::
    "int \<Rightarrow> string \<Rightarrow> audit_descriptor result" where
  "map_user_password_changed user_id' username' =
     new_audit_descriptor RES_USER (Some (str_int user_id')) ACT_PASSWORD_CHANGED
       [(''user_id'', JStr (str_int user_id')), (''username'', JStr username')]"

definition map_user_password_change_rejected ::
    "int option \<Rightarrow> string option \<Rightarrow> password_change_rejection \<Rightarrow> audit_descriptor result" where
  "map_user_password_change_rejected user_id' username' reason' =
     new_audit_descriptor RES_USER (map_option str_int user_id') ACT_PASSWORD_CHANGE_REJECTED
       [(''user_id'', optional_str (map_option str_int user_id')),
        (''username'', optional_str username'),
        (''reason'', JStr (password_change_rejection_value reason'))]"

definition map_user_password_reset ::
    "int \<Rightarrow> string \<Rightarrow> audit_descriptor result" where
  "map_user_password_reset user_id' username' =
     new_audit_descriptor RES_USER (Some (str_int user_id')) ACT_PASSWORD_RESET
       [(''user_id'', JStr (str_int user_id')), (''username'', JStr username')]"

definition map_user_password_reset_rejected ::
    "int option \<Rightarrow> string option \<Rightarrow> password_reset_rejection \<Rightarrow> audit_descriptor result" where
  "map_user_password_reset_rejected user_id' username' reason' =
     new_audit_descriptor RES_USER (map_option str_int user_id') ACT_PASSWORD_RESET_REJECTED
       [(''user_id'', optional_str (map_option str_int user_id')),
        (''username'', optional_str username'),
        (''reason'', JStr (password_reset_rejection_value reason'))]"

definition map_user_authenticated ::
    "int \<Rightarrow> string \<Rightarrow> role \<Rightarrow> audit_descriptor result" where
  "map_user_authenticated user_id' username' role' =
     new_audit_descriptor RES_USER (Some (str_int user_id')) ACT_AUTHENTICATED
       [(''user_id'', JStr (str_int user_id')), (''username'', JStr username'),
        (''role'', JStr (role_value role'))]"

definition map_user_login_rejected ::
    "int option \<Rightarrow> string option \<Rightarrow> login_rejection \<Rightarrow> audit_descriptor result" where
  "map_user_login_rejected user_id' username' reason' =
     new_audit_descriptor RES_USER (map_option str_int user_id') ACT_LOGIN_REJECTED
       [(''user_id'', optional_str (map_option str_int user_id')),
        (''username'', optional_str username'),
        (''reason'', JStr (login_rejection_value reason'))]"

definition map_user_session_ended ::
    "int \<Rightarrow> string \<Rightarrow> audit_descriptor result" where
  "map_user_session_ended user_id' username' =
     new_audit_descriptor RES_USER (Some (str_int user_id')) ACT_SESSION_ENDED
       [(''user_id'', JStr (str_int user_id')), (''username'', JStr username')]"

definition map_user_tokens_revoked ::
    "int \<Rightarrow> string \<Rightarrow> token_revocation \<Rightarrow> audit_descriptor result" where
  "map_user_tokens_revoked user_id' username' reason' =
     new_audit_descriptor RES_USER (Some (str_int user_id')) ACT_TOKENS_REVOKED
       [(''user_id'', JStr (str_int user_id')), (''username'', JStr username'),
        (''reason'', JStr (token_revocation_value reason'))]"

definition map_authorization_denied ::
    " auth_operation \<Rightarrow> resource_type \<Rightarrow> string option \<Rightarrow>
      permission list \<Rightarrow> audit_descriptor result" where
  "map_authorization_denied attempted_operation' target_resource_type' target_resource_id'
      required_permissions' =
     new_audit_descriptor target_resource_type' target_resource_id' ACT_AUTHORIZATION_DENIED
       [(''attempted_operation'', JStr (auth_operation_value attempted_operation')),
        (''required_permissions'', JList (map (\<lambda>m. JStr (permission_name m)) required_permissions'))]"

definition map_fleet_seeded ::
    "int list \<Rightarrow> string \<Rightarrow> audit_descriptor result" where
  "map_fleet_seeded seeded_truck_ids' backend' =
     new_audit_descriptor RES_FLEET None ACT_SEEDED
       [(''seeded_truck_ids'', JList (map JInt seeded_truck_ids')),
        (''truck_count'', JInt (int (length seeded_truck_ids'))), (''backend'', JStr backend')]"

definition map_world_state_exported ::
    "string \<Rightarrow> int \<Rightarrow> entity_counts \<Rightarrow> audit_descriptor result" where
  "map_world_state_exported snapshot_path' schema_version' entity_counts' =
     world_state_descriptor ACT_EXPORTED
       [(''snapshot_path'', JStr snapshot_path'), (''schema_version'', JInt schema_version'),
        (''entity_counts'', JObj (entity_counts_payload entity_counts'))]"

definition map_world_state_export_failed ::
    "string \<Rightarrow> int option \<Rightarrow> failure_reason \<Rightarrow> audit_descriptor result" where
  "map_world_state_export_failed snapshot_path' schema_version' reason' =
     world_state_descriptor ACT_EXPORT_FAILED
       [(''snapshot_path'', JStr snapshot_path'),
        (''schema_version'', optional_int schema_version'),
        (''reason'', JStr (failure_reason_value reason'))]"

definition map_world_state_imported ::
    "string \<Rightarrow> int \<Rightarrow> entity_counts \<Rightarrow> entity_counts \<Rightarrow> audit_descriptor result" where
  "map_world_state_imported snapshot_path' schema_version' previous_entity_counts'
      new_entity_counts' =
     world_state_descriptor ACT_IMPORTED
       [(''snapshot_path'', JStr snapshot_path'), (''schema_version'', JInt schema_version'),
        (''previous_entity_counts'', JObj (entity_counts_payload previous_entity_counts')),
        (''new_entity_counts'', JObj (entity_counts_payload new_entity_counts'))]"

definition map_world_state_import_failed ::
    "string \<Rightarrow> int option \<Rightarrow> failure_reason \<Rightarrow> audit_descriptor result" where
  "map_world_state_import_failed snapshot_path' schema_version' reason' =
     world_state_descriptor ACT_IMPORT_FAILED
       [(''snapshot_path'', JStr snapshot_path'),
        (''schema_version'', optional_int schema_version'),
        (''reason'', JStr (failure_reason_value reason'))]"

definition map_world_state_corruption_detected ::
    "string \<Rightarrow> corruption_reason \<Rightarrow> audit_descriptor result" where
  "map_world_state_corruption_detected snapshot_path' reason' =
     world_state_descriptor ACT_CORRUPTION_DETECTED
       [(''snapshot_path'', JStr snapshot_path'),
        (''reason'', JStr (corruption_reason_value reason'))]"

definition map_world_state_snapshot_quarantined ::
    "string \<Rightarrow> string \<Rightarrow> corruption_reason \<Rightarrow> audit_descriptor result" where
  "map_world_state_snapshot_quarantined original_path' quarantined_path' reason' =
     world_state_descriptor ACT_SNAPSHOT_QUARANTINED
       [(''original_path'', JStr original_path'), (''quarantined_path'', JStr quarantined_path'),
        (''reason'', JStr (corruption_reason_value reason'))]"

definition map_world_state_runtime_swapped ::
    "string \<Rightarrow> int \<Rightarrow> entity_counts \<Rightarrow> entity_counts \<Rightarrow> audit_descriptor result" where
  "map_world_state_runtime_swapped snapshot_path' schema_version' previous_entity_counts'
      new_entity_counts' =
     world_state_descriptor ACT_RUNTIME_SWAPPED
       [(''snapshot_path'', JStr snapshot_path'), (''schema_version'', JInt schema_version'),
        (''previous_entity_counts'', JObj (entity_counts_payload previous_entity_counts')),
        (''new_entity_counts'', JObj (entity_counts_payload new_entity_counts'))]"

definition map_world_state_startup_restored ::
    "string \<Rightarrow> int \<Rightarrow> entity_counts \<Rightarrow> entity_counts \<Rightarrow> audit_descriptor result" where
  "map_world_state_startup_restored snapshot_path' schema_version' previous_entity_counts'
      new_entity_counts' =
     world_state_descriptor ACT_STARTUP_RESTORED
       [(''snapshot_path'', JStr snapshot_path'), (''schema_version'', JInt schema_version'),
        (''previous_entity_counts'', JObj (entity_counts_payload previous_entity_counts')),
        (''new_entity_counts'', JObj (entity_counts_payload new_entity_counts'))]"

definition map_world_state_startup_restore_skipped ::
    "startup_skip_reason \<Rightarrow> audit_descriptor result" where
  "map_world_state_startup_restore_skipped reason' =
     world_state_descriptor ACT_STARTUP_RESTORE_SKIPPED
       [(''reason'', JStr (startup_skip_reason_value reason'))]"

definition map_world_state_startup_restore_failed ::
    "string \<Rightarrow> int option \<Rightarrow> failure_reason \<Rightarrow> audit_descriptor result" where
  "map_world_state_startup_restore_failed snapshot_path' schema_version' reason' =
     world_state_descriptor ACT_STARTUP_RESTORE_FAILED
       [(''snapshot_path'', JStr snapshot_path'),
        (''schema_version'', optional_int schema_version'),
        (''reason'', JStr (failure_reason_value reason'))]"

definition map_world_state_advanced ::
    "int \<Rightarrow> int \<Rightarrow> int \<Rightarrow> int \<Rightarrow> int \<Rightarrow> audit_descriptor result" where
  "map_world_state_advanced routes_updated' packages_updated' trucks_moved' trucks_released'
      trucks_reconciled' =
     world_state_descriptor ACT_ADVANCED
       [(''routes_updated'', JInt routes_updated'),
        (''packages_updated'', JInt packages_updated'), (''trucks_moved'', JInt trucks_moved'),
        (''trucks_released'', JInt trucks_released'),
        (''trucks_reconciled'', JInt trucks_reconciled')]"

definition map_route_state_reconciled ::
    " int \<Rightarrow> route_status \<Rightarrow> route_status \<Rightarrow>
      time option \<Rightarrow> time option \<Rightarrow>
      route_reconciliation_reason \<Rightarrow> audit_descriptor result" where
  "map_route_state_reconciled route_id' previous_status' new_status' departure_time'
      expected_completion_time' reason' =
     new_audit_descriptor RES_ROUTE (Some (str_int route_id')) ACT_RECONCILED
       [(''route_id'', JStr (str_int route_id')),
        (''previous_status'', JStr (route_status_value previous_status')),
        (''new_status'', JStr (route_status_value new_status')),
        (''departure_time'', optional_isoformat departure_time'),
        (''expected_completion_time'', optional_isoformat expected_completion_time'),
        (''reason'', JStr (route_reconciliation_reason_value reason'))]"

definition map_package_state_reconciled ::
    " int \<Rightarrow> int option \<Rightarrow> item_status \<Rightarrow>
      item_status \<Rightarrow> location \<Rightarrow> location \<Rightarrow>
      time option \<Rightarrow> time option \<Rightarrow> time option \<Rightarrow>
      time option \<Rightarrow> package_reconciliation_reason list \<Rightarrow>
      audit_descriptor result" where
  "map_package_state_reconciled package_id' route_id' previous_status' new_status'
      previous_location' new_location' previous_expected_arrival' new_expected_arrival'
      scheduled_pickup_time' scheduled_delivery_time' reasons' =
     new_audit_descriptor RES_PACKAGE (Some (str_int package_id')) ACT_RECONCILED
       [(''package_id'', JStr (str_int package_id')),
        (''route_id'', optional_str (map_option str_int route_id')),
        (''previous_status'', JStr (item_status_value previous_status')),
        (''new_status'', JStr (item_status_value new_status')),
        (''previous_location'', JStr previous_location'), (''new_location'', JStr new_location'),
        (''previous_expected_arrival'', optional_isoformat previous_expected_arrival'),
        (''new_expected_arrival'', optional_isoformat new_expected_arrival'),
        (''scheduled_pickup_time'', optional_isoformat scheduled_pickup_time'),
        (''scheduled_delivery_time'', optional_isoformat scheduled_delivery_time'),
        (''reasons'', JList (map (\<lambda>m. JStr (package_reconciliation_reason_value m)) reasons'))]"

definition map_truck_position_reconciled ::
    " int \<Rightarrow> int option \<Rightarrow> location option \<Rightarrow>
      location option \<Rightarrow> location option \<Rightarrow> location option \<Rightarrow>
      position_kind \<Rightarrow> audit_descriptor result" where
  "map_truck_position_reconciled truck_id' route_id' previous_location' new_location'
      previous_in_transit_to' new_in_transit_to' position_kind' =
     new_audit_descriptor RES_TRUCK (Some (str_int truck_id')) ACT_RECONCILED
       [(''truck_id'', JStr (str_int truck_id')),
        (''route_id'', optional_str (map_option str_int route_id')),
        (''previous_location'', optional_str previous_location'),
        (''new_location'', optional_str new_location'),
        (''previous_in_transit_to'', optional_str previous_in_transit_to'),
        (''new_in_transit_to'', optional_str new_in_transit_to'),
        (''position_kind'', JStr (position_kind_value position_kind'))]"

definition map_truck_route_reference_reconciled ::
    "int \<Rightarrow> int option \<Rightarrow> int \<Rightarrow> audit_descriptor result" where
  "map_truck_route_reference_reconciled truck_id' previous_route_id' new_route_id' =
     new_audit_descriptor RES_TRUCK (Some (str_int truck_id')) ACT_RECONCILED
       [(''truck_id'', JStr (str_int truck_id')),
        (''previous_route_id'', optional_str (map_option str_int previous_route_id')),
        (''new_route_id'', JStr (str_int new_route_id'))]"

section \<open>The mapper\<close>

text \<open>The factory of the registration of an event's class, applied to the event.\<close>

fun customer_descriptor :: "customer_fields \<Rightarrow> audit_descriptor result" where
  "customer_descriptor (EvCustomerCreated x) =
     map_customer_created x"

fun package_descriptor :: "package_fields \<Rightarrow> audit_descriptor result" where
  "package_descriptor (EvPackageCreated x0 x1 x2 x3 x4 x5 x6 x7) =
     map_package_created x0 x1 x2 x3 x4 x5 x6 x7"
| "package_descriptor (EvPackageRemoved x0 x1 x2 x3 x4 x5 x6 x7 x8) =
     map_package_removed x0 x1 x2 x3 x4 x5 x6 x7 x8"
| "package_descriptor (EvPackagePickedUp x0 x1 x2 x3 x4 x5 x6) =
     map_package_picked_up x0 x1 x2 x3 x4 x5 x6"
| "package_descriptor (EvPackageDelivered x0 x1 x2 x3 x4 x5 x6) =
     map_package_delivered x0 x1 x2 x3 x4 x5 x6"

fun route_descriptor :: "pydatetime \<Rightarrow> route_fields \<Rightarrow> audit_descriptor result" where
  "route_descriptor t (EvRouteCreated x0 x1 x2 x3 x4) =
     map_route_created x0 x1 x2 x3 x4"
| "route_descriptor t (EvRouteScheduled x0 x1 x2 x3 x4 x5 x6) =
     map_route_scheduled x0 x1 x2 x3 x4 x5 x6"
| "route_descriptor t (EvPackageAssignedToRoute x0 x1 x2 x3 x4) =
     map_package_assigned_to_route x0 x1 x2 x3 x4"
| "route_descriptor t (EvPackageDetachedFromRoute x0 x1 x2 x3 x4 x5 x6 x7 x8 x9) =
     map_package_detached_from_route x0 x1 x2 x3 x4 x5 x6 x7 x8 x9"
| "route_descriptor t (EvTruckAssignedToRoute x0 x1 x2 x3 x4 x5 x6 x7 x8 x9 x10) =
     map_truck_assigned_to_route x0 x1 x2 x3 x4 x5 x6 x7 x8 x9 x10"
| "route_descriptor t (EvTruckReleasedFromRoute x0 x1 x2 x3 x4 x5 x6 x7 x8 x9 x10 x11) =
     map_truck_released_from_route x0 x1 x2 x3 x4 x5 x6 x7 x8 x9 x10 x11"
| "route_descriptor t (EvRouteStarted x0 x1 x2) =
     map_route_started t x0 x1 x2"
| "route_descriptor t (EvRouteCompleted x0 x1 x2 x3 x4) =
     map_route_completed t x0 x1 x2 x3 x4"
| "route_descriptor t (EvRouteRemoved x0 x1 x2 x3 x4 x5 x6) =
     map_route_removed x0 x1 x2 x3 x4 x5 x6"

fun auth_descriptor :: "auth_fields \<Rightarrow> audit_descriptor result" where
  "auth_descriptor (EvUserRegistered x0 x1 x2) =
     map_user_registered x0 x1 x2"
| "auth_descriptor (EvUserRegistrationRejected x0 x1) =
     map_user_registration_rejected x0 x1"
| "auth_descriptor (EvUserPasswordChanged x0 x1) =
     map_user_password_changed x0 x1"
| "auth_descriptor (EvUserPasswordChangeRejected x0 x1 x2) =
     map_user_password_change_rejected x0 x1 x2"
| "auth_descriptor (EvUserPasswordReset x0 x1) =
     map_user_password_reset x0 x1"
| "auth_descriptor (EvUserPasswordResetRejected x0 x1 x2) =
     map_user_password_reset_rejected x0 x1 x2"
| "auth_descriptor (EvUserAuthenticated x0 x1 x2) =
     map_user_authenticated x0 x1 x2"
| "auth_descriptor (EvUserLoginRejected x0 x1 x2) =
     map_user_login_rejected x0 x1 x2"
| "auth_descriptor (EvUserSessionEnded x0 x1) =
     map_user_session_ended x0 x1"
| "auth_descriptor (EvUserTokensRevoked x0 x1 x2) =
     map_user_tokens_revoked x0 x1 x2"
| "auth_descriptor (EvAuthorizationDenied x0 x1 x2 x3) =
     map_authorization_denied x0 x1 x2 x3"

fun startup_descriptor :: "startup_fields \<Rightarrow> audit_descriptor result" where
  "startup_descriptor (EvFleetSeeded x0 x1) =
     map_fleet_seeded x0 x1"

fun world_descriptor :: "world_fields \<Rightarrow> audit_descriptor result" where
  "world_descriptor (EvWorldStateExported x0 x1 x2) =
     map_world_state_exported x0 x1 x2"
| "world_descriptor (EvWorldStateExportFailed x0 x1 x2) =
     map_world_state_export_failed x0 x1 x2"
| "world_descriptor (EvWorldStateImported x0 x1 x2 x3) =
     map_world_state_imported x0 x1 x2 x3"
| "world_descriptor (EvWorldStateImportFailed x0 x1 x2) =
     map_world_state_import_failed x0 x1 x2"
| "world_descriptor (EvWorldStateCorruptionDetected x0 x1) =
     map_world_state_corruption_detected x0 x1"
| "world_descriptor (EvWorldStateSnapshotQuarantined x0 x1 x2) =
     map_world_state_snapshot_quarantined x0 x1 x2"
| "world_descriptor (EvWorldStateRuntimeSwapped x0 x1 x2 x3) =
     map_world_state_runtime_swapped x0 x1 x2 x3"
| "world_descriptor (EvWorldStateStartupRestored x0 x1 x2 x3) =
     map_world_state_startup_restored x0 x1 x2 x3"
| "world_descriptor (EvWorldStateStartupRestoreSkipped x) =
     map_world_state_startup_restore_skipped x"
| "world_descriptor (EvWorldStateStartupRestoreFailed x0 x1 x2) =
     map_world_state_startup_restore_failed x0 x1 x2"
| "world_descriptor (EvWorldStateAdvanced x0 x1 x2 x3 x4) =
     map_world_state_advanced x0 x1 x2 x3 x4"

fun repair_descriptor :: "repair_fields \<Rightarrow> audit_descriptor result" where
  "repair_descriptor (EvRouteStateReconciled x0 x1 x2 x3 x4 x5) =
     map_route_state_reconciled x0 x1 x2 x3 x4 x5"
| "repair_descriptor (EvPackageStateReconciled x0 x1 x2 x3 x4 x5 x6 x7 x8 x9 x10) =
     map_package_state_reconciled x0 x1 x2 x3 x4 x5 x6 x7 x8 x9 x10"
| "repair_descriptor (EvTruckPositionReconciled x0 x1 x2 x3 x4 x5 x6) =
     map_truck_position_reconciled x0 x1 x2 x3 x4 x5 x6"
| "repair_descriptor (EvTruckRouteReferenceReconciled x0 x1 x2) =
     map_truck_route_reference_reconciled x0 x1 x2"

definition audit_descriptor_of :: "sys_event \<Rightarrow> audit_descriptor result" where
  "audit_descriptor_of e =
     (case event_fields e of
        CustomerE f \<Rightarrow> customer_descriptor f
      | PackageE f \<Rightarrow> package_descriptor f
      | RouteE f \<Rightarrow> route_descriptor (occurred_at e) f
      | AuthE f \<Rightarrow> auth_descriptor f
      | StartupE f \<Rightarrow> startup_descriptor f
      | WorldE f \<Rightarrow> world_descriptor f
      | RepairE f \<Rightarrow> repair_descriptor f)"

type_synonym audit_factory = "sys_event \<Rightarrow> audit_descriptor result"

text \<open>Registration in order; a class given twice is refused.\<close>

fun register_mappings ::
    "(string \<times> audit_factory) list \<Rightarrow> (string \<times> audit_factory) list \<Rightarrow>
       (string \<times> audit_factory) list result" where
  "register_mappings registry [] = Inr registry"
| "register_mappings registry (entry # rest) =
     (if fst entry \<in> set (map fst registry) then Inl PyValueError
      else register_mappings (registry @ [entry]) rest)"

definition new_descriptor_mapper ::
    "(string \<times> audit_factory) list \<Rightarrow> (string \<times> audit_factory) list result" where
  "new_descriptor_mapper = register_mappings []"

definition mapper_event_types :: "(string \<times> audit_factory) list \<Rightarrow> string list" where
  "mapper_event_types registry = map fst registry"

definition mapper_map :: "(string \<times> audit_factory) list \<Rightarrow> sys_event \<Rightarrow> audit_descriptor result" where
  "mapper_map registry e =
     (case map_of registry (event_class (event_fields e)) of
        None \<Rightarrow> Inl PyValueError | Some factory \<Rightarrow> factory e)"

definition audit_mappings :: "(string \<times> audit_factory) list" where
  "audit_mappings = map (\<lambda>c. (c, audit_descriptor_of))
     [''CustomerCreated'', ''PackageCreated'', ''PackageRemoved'', ''PackagePickedUp'',
      ''PackageDelivered'', ''RouteCreated'', ''RouteScheduled'', ''PackageAssignedToRoute'',
      ''PackageDetachedFromRoute'', ''TruckAssignedToRoute'', ''TruckReleasedFromRoute'',
      ''RouteStarted'', ''RouteCompleted'', ''RouteRemoved'', ''UserRegistered'',
      ''UserRegistrationRejected'', ''UserPasswordChanged'', ''UserPasswordChangeRejected'',
      ''UserPasswordReset'', ''UserPasswordResetRejected'', ''UserAuthenticated'',
      ''UserLoginRejected'', ''UserSessionEnded'', ''UserTokensRevoked'', ''AuthorizationDenied'',
      ''FleetSeeded'', ''WorldStateExported'', ''WorldStateExportFailed'', ''WorldStateImported'',
      ''WorldStateImportFailed'', ''WorldStateCorruptionDetected'',
      ''WorldStateSnapshotQuarantined'', ''WorldStateRuntimeSwapped'',
      ''WorldStateStartupRestored'', ''WorldStateStartupRestoreSkipped'',
      ''WorldStateStartupRestoreFailed'', ''WorldStateAdvanced'', ''RouteStateReconciled'',
      ''PackageStateReconciled'', ''TruckPositionReconciled'', ''TruckRouteReferenceReconciled'']"

definition build_audit_descriptor_mapper :: "(string \<times> audit_factory) list result" where
  "build_audit_descriptor_mapper = new_descriptor_mapper audit_mappings"

lemmas audit_map_defs =
 map_customer_created_def map_package_created_def map_package_removed_def
  map_package_picked_up_def map_package_delivered_def map_route_created_def
  map_route_scheduled_def map_package_assigned_to_route_def map_package_detached_from_route_def
  map_truck_assigned_to_route_def map_truck_released_from_route_def map_route_started_def
  map_route_completed_def map_route_removed_def map_user_registered_def
  map_user_registration_rejected_def map_user_password_changed_def
  map_user_password_change_rejected_def map_user_password_reset_def
  map_user_password_reset_rejected_def map_user_authenticated_def map_user_login_rejected_def
  map_user_session_ended_def map_user_tokens_revoked_def map_authorization_denied_def
  map_fleet_seeded_def map_world_state_exported_def map_world_state_export_failed_def
  map_world_state_imported_def map_world_state_import_failed_def
  map_world_state_corruption_detected_def map_world_state_snapshot_quarantined_def
  map_world_state_runtime_swapped_def map_world_state_startup_restored_def
  map_world_state_startup_restore_skipped_def map_world_state_startup_restore_failed_def
  map_world_state_advanced_def map_route_state_reconciled_def map_package_state_reconciled_def
  map_truck_position_reconciled_def map_truck_route_reference_reconciled_def
  world_state_descriptor_def

section \<open>Every event has a descriptor\<close>

lemma strip_solid:
  assumes "\<forall>c \<in> set s. \<not> is_space c"
  shows "strip s = s"
proof -
  have solid: "dropWhile is_space t = t" if "\<forall>c \<in> set t. \<not> is_space c" for t
    using that by (cases t) auto
  show ?thesis using assms solid [of s] solid [of "rev s"] by (simp add: strip_def lstrip_def)
qed

lemma nat_digits_solid: "nat_digits n \<noteq> [] \<and> (\<forall>c \<in> set (nat_digits n). \<not> is_space c)"
proof (induction n rule: nat_digits.induct)
  case (1 n)
  have "\<not> is_space (char_of (48 + m))" if "m < 10" for m :: nat
  proof -
    have "m \<in> {0, 1, 2, 3, 4, 5, 6, 7, 8, 9}" using that by auto
    then show ?thesis by (auto simp: is_space_def code_def)
  qed
  then show ?case
    using 1 by (cases "n < 10") (auto simp: nat_digits.simps [of n])
qed

lemma str_int_solid: "strip (str_int i) = str_int i" "str_int i \<noteq> []"
proof -
  have "\<forall>c \<in> set (str_int i). \<not> is_space c"
    using nat_digits_solid by (auto simp: str_int_def is_space_def code_def)
  then show "strip (str_int i) = str_int i" by (rule strip_solid)
  show "str_int i \<noteq> []" using nat_digits_solid by (simp add: str_int_def)
qed

named_theorems audit_simps \<open>evaluation of audit descriptors\<close>

lemma optional_text_int [audit_simps]:
  "optional_text (Some (str_int i)) = Inr (Some (str_int i))"
  "optional_text (map_option str_int v) = Inr (map_option str_int v)"
  "optional_text None = Inr None"
  by (cases v; simp add: optional_text_def require_non_empty_str_def str_int_solid)+

lemma safe_counts_payload [audit_simps]:
  "list_all (\<lambda>kv. is_ok (validate_json_value (snd kv))) (entity_counts_payload c)"
  by (simp add: entity_counts_payload_def)

lemma safe_optional_id [audit_simps]:
  "validate_json_value (optional_str (map_option f v)) = Inr ()"
  by (cases v) (simp_all add: optional_str_def)

lemma require_payload [audit_simps]:
  "require_json_object (JObj p) = (if validate_json_value (JObj p) = Inr () then Inr p else Inl PyTypeError)"
  by (simp add: require_json_object_def)

text \<open>The one descriptor that is refused: a denial whose target is named by a blank text.\<close>

fun blank_target :: "event_fields \<Rightarrow> bool" where
  "blank_target (AuthE (EvAuthorizationDenied _ _ (Some s) _)) \<longleftrightarrow> strip s = []"
| "blank_target _ \<longleftrightarrow> False"

lemma denial_descriptor:
  "is_ok (map_authorization_denied op res rid ps) \<longleftrightarrow> \<not> (\<exists>s. rid = Some s \<and> strip s = [])"
  by (cases rid) (auto simp: map_authorization_denied_def new_audit_descriptor_def optional_text_def
      require_non_empty_str_def audit_simps json_safe_simps optional_str_def res_bind_def Let_def)

lemma customer_audited: "is_ok (customer_descriptor f)"
  by (cases f) (simp_all add: audit_map_defs new_audit_descriptor_def audit_simps json_safe_simps)

lemma package_audited: "is_ok (package_descriptor f)"
  by (cases f) (simp_all add: audit_map_defs new_audit_descriptor_def audit_simps json_safe_simps)

lemma route_audited: "is_ok (route_descriptor t f)"
  by (cases f) (simp_all add: audit_map_defs new_audit_descriptor_def audit_simps json_safe_simps)

lemma startup_audited: "is_ok (startup_descriptor f)"
  by (cases f) (simp_all add: audit_map_defs new_audit_descriptor_def audit_simps json_safe_simps)

lemma world_audited: "is_ok (world_descriptor f)"
  by (cases f) (simp_all add: audit_map_defs new_audit_descriptor_def audit_simps json_safe_simps)

lemma repair_audited: "is_ok (repair_descriptor f)"
  by (cases f) (simp_all add: audit_map_defs new_audit_descriptor_def audit_simps json_safe_simps)

lemmas group_descriptors =
  customer_audited package_audited route_audited startup_audited world_audited repair_audited

lemma auth_descriptors: "is_ok (auth_descriptor f) \<longleftrightarrow> \<not> blank_target (AuthE f)"
proof (cases f)
  case (EvAuthorizationDenied op res rid ps)
  then show ?thesis by (cases rid) (simp_all add: denial_descriptor)
qed (simp_all add: audit_map_defs new_audit_descriptor_def audit_simps json_safe_simps)

lemma descriptor_total: "is_ok (audit_descriptor_of e) \<longleftrightarrow> \<not> blank_target (event_fields e)"
  by (cases "event_fields e") (simp_all add: audit_descriptor_of_def group_descriptors auth_descriptors)

lemma new_audit_descriptor_Inr:
  assumes "new_audit_descriptor res rid act payload = Inr d"
  shows "validate_json_value (JObj (desc_payload d)) = Inr ()"
    and "\<forall>s. desc_resource_id d = Some s \<longrightarrow> s \<noteq> [] \<and> strip s = s"
  using assms
  by (auto simp: new_audit_descriptor_def res_bind_Inr_iff optional_text_def require_non_empty_str_def
      require_payload Let_def split: option.splits if_splits)

lemma descriptor_built:
  obtains res rid act p where "audit_descriptor_of e = new_audit_descriptor res rid act p"
proof -
  have "\<exists>res rid act p. customer_descriptor f1 = new_audit_descriptor res rid act p" for f1
    by (cases f1) (simp only: customer_descriptor.simps audit_map_defs, blast)
  moreover have "\<exists>res rid act p. package_descriptor f2 = new_audit_descriptor res rid act p" for f2
    by (cases f2; simp only: package_descriptor.simps audit_map_defs; blast)
  moreover have "\<exists>res rid act p. route_descriptor t f3 = new_audit_descriptor res rid act p" for t f3
    by (cases f3; simp only: route_descriptor.simps audit_map_defs; blast)
  moreover have "\<exists>res rid act p. auth_descriptor f4 = new_audit_descriptor res rid act p" for f4
    by (cases f4; simp only: auth_descriptor.simps audit_map_defs; blast)
  moreover have "\<exists>res rid act p. startup_descriptor f5 = new_audit_descriptor res rid act p" for f5
    by (cases f5) (simp only: startup_descriptor.simps audit_map_defs, blast)
  moreover have "\<exists>res rid act p. world_descriptor f6 = new_audit_descriptor res rid act p" for f6
    by (cases f6; simp only: world_descriptor.simps audit_map_defs; blast)
  moreover have "\<exists>res rid act p. repair_descriptor f7 = new_audit_descriptor res rid act p" for f7
    by (cases f7; simp only: repair_descriptor.simps audit_map_defs; blast)
  ultimately have "\<exists>res rid act p. audit_descriptor_of e = new_audit_descriptor res rid act p"
    by (cases "event_fields e") (simp_all add: audit_descriptor_of_def)
  then show ?thesis using that by blast
qed

lemma descriptor_sound:
  assumes "audit_descriptor_of e = Inr d"
  shows "validate_json_value (JObj (desc_payload d)) = Inr ()"
    and "\<forall>s. desc_resource_id d = Some s \<longrightarrow> s \<noteq> [] \<and> strip s = s"
proof -
  obtain res rid act p where "new_audit_descriptor res rid act p = Inr d"
    using descriptor_built [of e] assms by metis
  then show "validate_json_value (JObj (desc_payload d)) = Inr ()"
      and "\<forall>s. desc_resource_id d = Some s \<longrightarrow> s \<noteq> [] \<and> strip s = s"
    by (rule new_audit_descriptor_Inr)+
qed

section \<open>The composed mapper\<close>

lemma register_mappings_ok:
  "distinct (map fst (registry @ es)) \<Longrightarrow> register_mappings registry es = Inr (registry @ es)"
  by (induction es arbitrary: registry) auto

lemma register_mappings_distinct:
  "register_mappings registry es = Inr r \<Longrightarrow> distinct (map fst registry) \<Longrightarrow>
     r = registry @ es \<and> distinct (map fst r)"
  by (induction es arbitrary: registry) (fastforce split: if_splits)+

lemma audit_types_distinct: "distinct (map fst audit_mappings)"
  by (simp add: audit_mappings_def)

text \<open>The audit trail covers exactly the published events.\<close>

lemma audited_types: "set (mapper_event_types audit_mappings) = set published_event_types"
  by (simp add: mapper_event_types_def audit_mappings_def published_event_types_def)

lemma composed_mapper: "build_audit_descriptor_mapper = Inr audit_mappings"
  unfolding build_audit_descriptor_mapper_def new_descriptor_mapper_def
  using register_mappings_ok [of "[]" audit_mappings] audit_types_distinct by simp

lemma map_of_same_value: "map_of (map (\<lambda>k. (k, v)) ks) x = (if x \<in> set ks then Some v else None)"
  by (induction ks) auto

lemma published_class: "event_class f \<in> set published_event_types"
  by (cases f; rename_tac g; case_tac g; simp add: published_event_types_def)

lemma mapped: "mapper_map audit_mappings e = audit_descriptor_of e"
proof -
  have "event_class (event_fields e) \<in> set (mapper_event_types audit_mappings)"
    using published_class audited_types by simp
  then show ?thesis
    by (simp add: mapper_map_def audit_mappings_def map_of_same_value mapper_event_types_def
        del: list.map list.set)
qed

end
