(* ===== verification/Pagination.thy ===== *)
theory Pagination
  imports Application
begin

text \<open>
  Page requests and results shared by the listing use cases: \<open>src/application/use_cases/pagination.py\<close>.
  The listing callables of \<open>execute_page_query\<close> are given as the list they read and the two functions
  that cut a page out of it.
\<close>

record page_query =
  page_limit :: "int option"
  page_offset :: int
  include_total :: bool

record 'a page_result =
  page_items :: "'a list"
  page_total :: "int option"
  result_limit :: "int option"
  result_offset :: int

definition page_count :: "'a page_result \<Rightarrow> int" where
  "page_count r = int (length (page_items r))"

definition validate_unpaginated_offset :: "int \<Rightarrow> unit result" where
  "validate_unpaginated_offset offset = (if offset \<noteq> 0 then Inl ValidationError else Inr ())"

definition validate_page :: "int \<Rightarrow> int \<Rightarrow> unit result" where
  "validate_page limit offset =
     (if limit < 1 then Inl ValidationError
      else if offset < 0 then Inl ValidationError
      else Inr ())"

definition execute_page_query ::
    "page_query \<Rightarrow> 'a list \<Rightarrow> (int \<Rightarrow> int \<Rightarrow> 'a list) \<Rightarrow> (int \<Rightarrow> int \<Rightarrow> 'a list \<times> int) \<Rightarrow>
       'a page_result result" where
  "execute_page_query query all list_page list_page_with_total =
     (case page_limit query of
        None \<Rightarrow>
          res_bind (validate_unpaginated_offset (page_offset query)) (\<lambda>_.
            Inr \<lparr>page_items = all, page_total = None, result_limit = None,
                 result_offset = page_offset query\<rparr>)
      | Some limit \<Rightarrow>
          res_bind (validate_page limit (page_offset query)) (\<lambda>_.
            let (items, total) =
              (if include_total query
               then (case list_page_with_total limit (page_offset query) of (xs, n) \<Rightarrow> (xs, Some n))
               else (list_page limit (page_offset query), None))
            in Inr \<lparr>page_items = items, page_total = total, result_limit = Some limit,
                    result_offset = page_offset query\<rparr>))"

section \<open>What a lister promises\<close>

text \<open>
  The two page functions of a repository cut slices out of one listing; then every page is a stretch of
  that listing, and the pages of a fixed size laid end to end are the listing.
\<close>

locale lister =
  fixes listing :: "'a list"
    and page :: "int \<Rightarrow> int \<Rightarrow> 'a list"
    and page_with_total :: "int \<Rightarrow> int \<Rightarrow> 'a list \<times> int"
  assumes page_slice: "page limit offset = py_slice offset (offset + limit) listing"
    and total_slice:
      "page_with_total limit offset = (py_slice offset (offset + limit) listing, int (length listing))"
begin

lemma page_query_exact:
  "execute_page_query q listing page page_with_total =
    (case page_limit q of
       None \<Rightarrow> if page_offset q \<noteq> 0 then Inl ValidationError
         else Inr \<lparr>page_items = listing, page_total = None, result_limit = None, result_offset = 0\<rparr>
     | Some l \<Rightarrow> if l < 1 \<or> page_offset q < 0 then Inl ValidationError
         else Inr \<lparr>page_items = take (nat l) (drop (nat (page_offset q)) listing),
                   page_total = (if include_total q then Some (int (length listing)) else None),
                   result_limit = Some l, result_offset = page_offset q\<rparr>)"
proof -
  have cut: "py_slice k (k + l) listing = take (nat l) (drop (nat k) listing)" if "\<not> (l < 1 \<or> k < 0)" for k l
    using that by (simp add: py_slice_page)
  show ?thesis
    using cut [of _ "page_offset q"]
    by (cases "page_limit q")
      (simp_all add: execute_page_query_def validate_unpaginated_offset_def validate_page_def page_slice
        total_slice)
qed

lemma page_items_subset:
  "execute_page_query q listing page page_with_total = Inr r \<Longrightarrow> set (page_items r) \<subseteq> set listing"
  by (auto simp: page_query_exact split: option.splits if_splits) (meson in_set_takeD in_set_dropD)+

lemma pages_cover:
  assumes "0 < l" and "length listing \<le> n * l"
  shows "concat (map (\<lambda>i. page (int l) (int (i * l))) [0..<n]) = listing"
proof -
  have slices: "page (int l) (int (i * l)) = take l (drop (i * l) listing)" for i
    by (simp add: page_slice py_slice_page del: of_nat_mult)
  have "concat (map (\<lambda>i. take l (drop (i * l) xs)) [0..<n]) = take (n * l) xs" for xs :: "'a list" and n
  proof (induction n)
    case (Suc n)
    then show ?case by (simp add: take_add [symmetric] add.commute)
  qed simp
  then show ?thesis using assms(2) by (simp add: slices del: of_nat_mult)
qed

end

lemma sliced_lister:
  "lister xs (\<lambda>limit offset. py_slice offset (offset + limit) xs)
     (\<lambda>limit offset. (py_slice offset (offset + limit) xs, int (length xs)))"
  by unfold_locales simp_all

text \<open>The repositories of routes, packages and trucks, whatever they hold.\<close>

interpretation repo_lister: lister "repo_list_all s" "\<lambda>limit offset. repo_list_page limit offset s"
    "\<lambda>limit offset. repo_list_page_with_total limit offset s" for s
  by unfold_locales (simp_all add: repo_list_page_def repo_list_page_with_total_def Let_def)

interpretation unassigned_lister: lister "list_unassigned h s"
    "\<lambda>limit offset. list_unassigned_page h limit offset s"
    "\<lambda>limit offset. list_unassigned_page_with_total h limit offset s" for h s
  by unfold_locales
    (simp_all add: list_unassigned_page_def list_unassigned_page_with_total_def Let_def)

end
