(* ===== verification/AuditLog.thy ===== *)
theory AuditLog
  imports AuditMapping Pagination Delivery "HOL-Library.Product_Lexorder"
begin

text \<open>
  The audit trail: drafts and records of \<open>src/application/models/audit_record.py\<close>, the handler
  \<open>src/application/event_handlers/audit_event_handler.py\<close>, the in-memory store
  \<open>src/adapters/driven/persistence/memory/audit_repository.py\<close>, the filters of
  \<open>src/application/models/audit_log_query.py\<close> and the reader
  \<open>src/application/use_cases/audit/view_audits.py\<close>.
\<close>

section \<open>Records\<close>

record audit_draft =
  draft_event_id :: int
  draft_event_version :: int
  draft_event_type :: string
  draft_occurred_at :: pydatetime
  draft_recorded_at :: pydatetime
  draft_envelope_id :: int
  draft_correlation_id :: int
  draft_causation_id :: "int option"
  draft_source :: event_source
  draft_actor_user_id :: "int option"
  draft_actor_username :: "string option"
  draft_resource_type :: resource_type
  draft_resource_id :: "string option"
  draft_action :: audit_action
  draft_payload :: json_object

record audit_record = audit_draft +
  audit_id :: int
  audit_created_at :: pydatetime

definition optional_positive :: "int option \<Rightarrow> int option result" where
  "optional_positive v =
     (case v of None \<Rightarrow> Inr None | Some i \<Rightarrow> res_bind (require_positive_int (PyInt i)) (\<lambda>i. Inr (Some i)))"

text \<open>\<open>AuditRecordDraft.__post_init__\<close>: the checks in order, the texts normalised.\<close>

definition check_audit_draft :: "('a audit_draft_scheme) \<Rightarrow> ('a audit_draft_scheme) result" where
  "check_audit_draft d =
     res_bind (require_uuid (PyUuid (draft_event_id d))) (\<lambda>_.
     res_bind (require_positive_int (PyInt (draft_event_version d))) (\<lambda>_.
     res_bind (require_non_empty_str (PyStr (draft_event_type d))) (\<lambda>name.
     res_bind (require_naive_datetime (PyDatetime (draft_occurred_at d))) (\<lambda>_.
     res_bind (require_utc_datetime (PyDatetime (draft_recorded_at d))) (\<lambda>_.
     res_bind (require_uuid (PyUuid (draft_envelope_id d))) (\<lambda>_.
     res_bind (require_uuid (PyUuid (draft_correlation_id d))) (\<lambda>_.
     res_bind (optional_positive (draft_actor_user_id d)) (\<lambda>_.
     res_bind (optional_text (draft_actor_username d)) (\<lambda>user.
     res_bind (optional_text (draft_resource_id d)) (\<lambda>rid.
     res_bind (require_json_object (JObj (draft_payload d))) (\<lambda>payload.
       Inr (d\<lparr>draft_event_type := name, draft_actor_username := user, draft_resource_id := rid,
              draft_payload := payload\<rparr>))))))))))))"

definition check_audit_record :: "audit_record \<Rightarrow> audit_record result" where
  "check_audit_record r =
     res_bind (check_audit_draft r) (\<lambda>r.
     res_bind (require_positive_int (PyInt (audit_id r))) (\<lambda>_.
     res_bind (require_utc_datetime (PyDatetime (audit_created_at r))) (\<lambda>_. Inr r)))"

section \<open>Storing\<close>

text \<open>The dict from event identifier to record, in insertion order; \<open>clock\<close> is read at each insertion.\<close>

record audit_repo =
  audit_records :: "(int \<times> audit_record) list"
  audit_next_id :: int

definition empty_audit_repo :: audit_repo where
  "empty_audit_repo = \<lparr>audit_records = [], audit_next_id = 1\<rparr>"

definition build_audit_record :: "pydatetime \<Rightarrow> audit_draft \<Rightarrow> audit_repo \<Rightarrow> audit_record result" where
  "build_audit_record now d s =
     check_audit_record (audit_draft.extend d
       (audit_record.fields (audit_next_id s) now))"

definition audit_add :: "pydatetime \<Rightarrow> audit_draft \<Rightarrow> (audit_repo, unit) act" where
  "audit_add now d s =
     (if draft_event_id d \<in> set (map fst (audit_records s)) then (Inr (), s)
      else (case build_audit_record now d s of
              Inl e \<Rightarrow> (Inl e, s)
            | Inr r \<Rightarrow>
                (Inr (), s\<lparr>audit_records := audit_records s @ [(draft_event_id d, r)],
                           audit_next_id := audit_next_id s + 1\<rparr>)))"

text \<open>\<open>AuditEventHandler.handle\<close>\<close>

definition draft_of :: "sys_event envelope \<Rightarrow> audit_descriptor \<Rightarrow> audit_draft" where
  "draft_of env desc =
     (let e = env_event env
      in \<lparr>draft_event_id = event_id e,
          draft_event_version = event_version (event_class (event_fields e)),
          draft_event_type = event_class (event_fields e),
          draft_occurred_at = occurred_at e, draft_recorded_at = recorded_at e,
          draft_envelope_id = env_id env, draft_correlation_id = env_correlation env,
          draft_causation_id = env_causation env, draft_source = env_source env,
          draft_actor_user_id = map_option actor_user_id (env_actor env),
          draft_actor_username = map_option actor_username (env_actor env),
          draft_resource_type = desc_resource desc, draft_resource_id = desc_resource_id desc,
          draft_action = desc_action desc, draft_payload = desc_payload desc\<rparr>)"

definition audit_handle ::
    "(string \<times> audit_factory) list \<Rightarrow> (int \<Rightarrow> pydatetime) \<Rightarrow> (sys_event, audit_repo) event_handler" where
  "audit_handle mapper clock env s =
     (case res_bind (mapper_map mapper (env_event env)) (\<lambda>desc. check_audit_draft (draft_of env desc)) of
        Inl e \<Rightarrow> (Inl e, s)
      | Inr d \<Rightarrow> audit_add (clock (audit_next_id s)) d s)"

section \<open>Filters\<close>

record audit_filter =
  by_event_type :: "string option"
  by_resource_type :: "resource_type option"
  by_resource_id :: "string option"
  by_action :: "audit_action option"
  by_actor_user_id :: "int option"
  by_actor_username :: "string option"
  by_source :: "event_source option"
  occurred_from :: "pydatetime option"
  occurred_to :: "pydatetime option"
  created_from :: "pydatetime option"
  created_to :: "pydatetime option"

definition no_filter :: audit_filter where
  "no_filter = \<lparr>by_event_type = None, by_resource_type = None, by_resource_id = None, by_action = None,
     by_actor_user_id = None, by_actor_username = None, by_source = None, occurred_from = None,
     occurred_to = None, created_from = None, created_to = None\<rparr>"

text \<open>Both bounds are naive, or both UTC, so that the instants compare as their counts.\<close>

definition before_or_equal :: "pydatetime \<Rightarrow> pydatetime \<Rightarrow> bool" where
  "before_or_equal s t \<longleftrightarrow> dt_us s \<le> dt_us t"

definition require_ordered_range :: "pydatetime option \<Rightarrow> pydatetime option \<Rightarrow> unit result" where
  "require_ordered_range start stop =
     (case (start, stop) of
        (Some s, Some t) \<Rightarrow> if before_or_equal s t then Inr () else Inl PyValueError
      | _ \<Rightarrow> Inr ())"

definition optional_datetime :: "pydatetime option \<Rightarrow> pyval" where
  "optional_datetime v = (case v of None \<Rightarrow> PyNone | Some d \<Rightarrow> PyDatetime d)"

definition check_audit_filter :: "audit_filter \<Rightarrow> audit_filter result" where
  "check_audit_filter f =
     res_bind (optional_text (by_event_type f)) (\<lambda>etype.
     res_bind (optional_text (by_resource_id f)) (\<lambda>rid.
     res_bind (optional_positive (by_actor_user_id f)) (\<lambda>_.
     res_bind (optional_text (by_actor_username f)) (\<lambda>user.
     res_bind (require_optional_naive_datetime (optional_datetime (occurred_from f))) (\<lambda>_.
     res_bind (require_optional_naive_datetime (optional_datetime (occurred_to f))) (\<lambda>_.
     res_bind (require_optional_utc_datetime (optional_datetime (created_from f))) (\<lambda>_.
     res_bind (require_optional_utc_datetime (optional_datetime (created_to f))) (\<lambda>_.
     res_bind (require_ordered_range (occurred_from f) (occurred_to f)) (\<lambda>_.
     res_bind (require_ordered_range (created_from f) (created_to f)) (\<lambda>_.
       Inr (f\<lparr>by_event_type := etype, by_resource_id := rid, by_actor_username := user\<rparr>)))))))))))"

definition matches :: "audit_record \<Rightarrow> audit_filter \<Rightarrow> bool" where
  "matches r f \<longleftrightarrow>
     (by_event_type f = None \<or> by_event_type f = Some (draft_event_type r)) \<and>
     (by_resource_type f = None \<or> by_resource_type f = Some (draft_resource_type r)) \<and>
     (by_resource_id f = None \<or> draft_resource_id r = by_resource_id f) \<and>
     (by_action f = None \<or> by_action f = Some (draft_action r)) \<and>
     (by_actor_user_id f = None \<or> draft_actor_user_id r = by_actor_user_id f) \<and>
     (by_actor_username f = None \<or> draft_actor_username r = by_actor_username f) \<and>
     (by_source f = None \<or> by_source f = Some (draft_source r)) \<and>
     pred_option (\<lambda>t. before_or_equal t (draft_occurred_at r)) (occurred_from f) \<and>
     pred_option (\<lambda>t. before_or_equal (draft_occurred_at r) t) (occurred_to f) \<and>
     pred_option (\<lambda>t. before_or_equal t (audit_created_at r)) (created_from f) \<and>
     pred_option (\<lambda>t. before_or_equal (audit_created_at r) t) (created_to f)"

section \<open>Listing\<close>

definition audit_key :: "audit_record \<Rightarrow> int \<times> int" where
  "audit_key r = (dt_us (draft_occurred_at r), audit_id r)"

text \<open>\<open>list.sort(key=..., reverse=True)\<close> keeps the order of equal keys.\<close>

definition sort_descending :: "('a \<Rightarrow> 'k::linorder) \<Rightarrow> 'a list \<Rightarrow> 'a list" where
  "sort_descending k xs = rev (sort_key k (rev xs))"

definition audit_list_all :: "audit_filter \<Rightarrow> audit_repo \<Rightarrow> audit_record list" where
  "audit_list_all f s =
     sort_descending audit_key (filter (\<lambda>r. matches r f) (map snd (audit_records s)))"

definition audit_list_page :: "audit_filter \<Rightarrow> int \<Rightarrow> int \<Rightarrow> audit_repo \<Rightarrow> audit_record list" where
  "audit_list_page f limit offset s = py_slice offset (offset + limit) (audit_list_all f s)"

definition audit_list_page_with_total ::
    "audit_filter \<Rightarrow> int \<Rightarrow> int \<Rightarrow> audit_repo \<Rightarrow> audit_record list \<times> int" where
  "audit_list_page_with_total f limit offset s =
     (let records = audit_list_all f s
      in (py_slice offset (offset + limit) records, int (length records)))"

section \<open>Reading\<close>

definition execute_audit_query ::
    "page_query \<Rightarrow> audit_filter \<Rightarrow> audit_repo \<Rightarrow> audit_record page_result result" where
  "execute_audit_query q f s =
     execute_page_query q (audit_list_all f s) (\<lambda>limit offset. audit_list_page f limit offset s)
       (\<lambda>limit offset. audit_list_page_with_total f limit offset s)"

definition deny_audit_view :: "resource_type \<Rightarrow> string option \<Rightarrow> time \<Rightarrow> 'a usecase" where
  "deny_audit_view res rid clock a =
     (Inl PermissionError,
      record_application_event (AuthorizationDenied
        \<lparr>attempted_operation = OP_AUDIT_LOG_VIEW, target_resource_type = res,
         target_resource_id = rid, required_permissions = [AUDIT_VIEW], denied_at = clock\<rparr>) a)"

definition view_audit_logs ::
    "page_query \<Rightarrow> audit_filter \<Rightarrow> time \<Rightarrow> audit_repo \<Rightarrow> audit_record page_result usecase" where
  "view_audit_logs q f clock s a =
     (case current_user (identity a) of
        None \<Rightarrow> deny_audit_view RES_AUDIT_LOG None clock a
      | Some user \<Rightarrow>
          if has_permission (identity a) AUDIT_VIEW then (execute_audit_query q f s, a)
          else if by_actor_user_id f \<noteq> None \<and> by_actor_user_id f \<noteq> Some (user_id user)
          then deny_audit_view RES_USER (map_option str_int (by_actor_user_id f)) clock a
          else if by_actor_username f \<noteq> None \<and> by_actor_username f \<noteq> Some (username user)
          then deny_audit_view RES_USER (by_actor_username f) clock a
          else
            (case check_audit_filter (f\<lparr>by_actor_user_id := Some (user_id user)\<rparr>) of
               Inl e \<Rightarrow> (Inl e, a)
             | Inr f' \<Rightarrow> (execute_audit_query q f' s, a)))"

section \<open>What is stored\<close>

text \<open>An envelope as the program makes them: a constructed event and a constructed actor.\<close>

definition actor_ok :: "event_actor \<Rightarrow> bool" where
  "actor_ok u \<longleftrightarrow> 1 \<le> actor_user_id u \<and> actor_username u \<noteq> [] \<and> strip (actor_username u) = actor_username u"

definition envelope_ok :: "sys_event envelope \<Rightarrow> bool" where
  "envelope_ok env \<longleftrightarrow>
     event_ok (env_event env) \<and> \<not> blank_target (event_fields (env_event env)) \<and> pred_option actor_ok (env_actor env)"

definition utc_clock :: "(int \<Rightarrow> pydatetime) \<Rightarrow> bool" where
  "utc_clock clock \<longleftrightarrow> (\<forall>i. require_utc_datetime (PyDatetime (clock i)) = Inr (clock i))"

definition event_key :: "sys_event envelope \<Rightarrow> int" where
  "event_key env = event_id (env_event env)"

text \<open>The first of the envelopes that carry the same event.\<close>

fun first_by :: "('a \<Rightarrow> 'k) \<Rightarrow> 'k list \<Rightarrow> 'a list \<Rightarrow> 'a list" where
  "first_by f seen [] = []"
| "first_by f seen (x # xs) =
     (if f x \<in> set seen then first_by f seen xs else x # first_by f (f x # seen) xs)"

definition record_for :: "(int \<Rightarrow> pydatetime) \<Rightarrow> int \<Rightarrow> sys_event envelope \<Rightarrow> audit_record result" where
  "record_for clock i env =
     res_bind (audit_descriptor_of (env_event env)) (\<lambda>desc.
       Inr (audit_draft.extend (draft_of env desc) (audit_record.fields i (clock i))))"

lemma lower_Nil [simp]: "lower s = [] \<longleftrightarrow> s = []"
  by (simp add: lower_def)

lemma actor_of_program: "new_event_actor uid name = Inr u \<Longrightarrow> actor_ok u"
  by (auto simp: new_event_actor_def actor_ok_def require_non_empty_str_def require_positive_int_def
      res_bind_Inr_iff Let_def strip_lower split: sum.splits if_splits pyval.splits)

lemma optional_text_solid: "\<forall>s. v = Some s \<longrightarrow> s \<noteq> [] \<and> strip s = s \<Longrightarrow> optional_text v = Inr v"
  by (cases v) (simp_all add: optional_text_def require_non_empty_str_def Let_def)

lemma published_solid: "list_all (\<lambda>c. c \<noteq> [] \<and> strip c = c) published_event_types"
  by code_simp

lemma event_class_solid: "event_class f \<noteq> [] \<and> strip (event_class f) = event_class f"
  using published_solid published_class [of f] by (simp add: list_all_iff)

lemma event_version_positive: "1 \<le> event_version c"
  by (simp add: event_version_def)

lemma checked_draft:
  assumes "envelope_ok env" and "audit_descriptor_of (env_event env) = Inr desc"
  shows "check_audit_draft (draft_of env desc) = Inr (draft_of env desc)"
proof -
  define e where "e = env_event env"
  have meta: "require_naive_datetime (PyDatetime (occurred_at e)) = Inr (occurred_at e)"
      "require_utc_datetime (PyDatetime (recorded_at e)) = Inr (recorded_at e)"
    using assms(1) by (cases e; auto simp: e_def envelope_ok_def event_ok_def new_event_def res_bind_Inr_iff)+
  have actor: "optional_positive (map_option actor_user_id (env_actor env)) = Inr (map_option actor_user_id (env_actor env))"
      "optional_text (map_option actor_username (env_actor env)) = Inr (map_option actor_username (env_actor env))"
    using assms(1)
    by (cases "env_actor env"; auto simp: envelope_ok_def actor_ok_def optional_positive_def positive_int_eq
        optional_text_def require_non_empty_str_def Let_def)+
  have "require_non_empty_str (PyStr (event_class (event_fields e))) = Inr (event_class (event_fields e))"
    using event_class_solid by (simp add: require_non_empty_str_def Let_def)
  moreover have "require_json_object (JObj (desc_payload desc)) = Inr (desc_payload desc)"
    using descriptor_sound(1) [OF assms(2)] by (simp add: require_payload)
  ultimately show ?thesis
    using meta actor optional_text_solid [OF descriptor_sound(2) [OF assms(2)]] event_version_positive
    by (simp add: check_audit_draft_def draft_of_def Let_def e_def [symmetric] positive_int_eq require_uuid_def)
qed

text \<open>
  The store a sequence of publications leaves: one record for each event, in the order of the first
  envelopes, numbered from 1.
\<close>

definition trail_of :: "(int \<Rightarrow> pydatetime) \<Rightarrow> sys_event envelope list \<Rightarrow> audit_repo \<Rightarrow> bool" where
  "trail_of clock firsts s \<longleftrightarrow>
     audit_next_id s = int (length firsts) + 1 \<and>
     map fst (audit_records s) = map event_key firsts \<and>
     map (Inr \<circ> snd) (audit_records s) =
       map (\<lambda>(i, env). record_for clock (int i + 1) env) (enumerate 0 firsts)"

lemma check_extended:
  assumes "check_audit_draft d = Inr d"
  shows "check_audit_draft (audit_draft.extend d (audit_record.fields i t)) =
    Inr (audit_draft.extend d (audit_record.fields i t))"
  using assms by (cases d) (auto simp: check_audit_draft_def audit_draft.defs audit_record.defs res_bind_Inr_iff)

lemma trail_empty: "trail_of clock [] empty_audit_repo"
  by (simp add: trail_of_def empty_audit_repo_def)

lemma handle_one:
  assumes "trail_of clock firsts s" and "envelope_ok env" and "utc_clock clock"
  shows "\<exists>s'. audit_handle audit_mappings clock env s = (Inr (), s') \<and>
    trail_of clock (if event_key env \<in> event_key ` set firsts then firsts
      else firsts @ [env]) s'"
proof -
  obtain desc where d: "audit_descriptor_of (env_event env) = Inr desc"
    using descriptor_total [of "env_event env"] assms(2)
    by (cases "audit_descriptor_of (env_event env)") (auto simp: envelope_ok_def)
  define draft where "draft = draft_of env desc"
  have ok: "check_audit_draft draft = Inr draft"
    using checked_draft [OF assms(2) d] by (simp add: draft_def)
  have key: "draft_event_id draft = event_key env"
    by (simp add: draft_def draft_of_def Let_def event_key_def)
  have handle: "audit_handle audit_mappings clock env s = audit_add (clock (audit_next_id s)) draft s"
    using ok by (simp add: audit_handle_def mapped d draft_def)
  have keys: "set (map fst (audit_records s)) = event_key ` set firsts"
    using assms(1) by (metis list.set_map trail_of_def)
  show ?thesis
  proof (cases "event_key env \<in> event_key ` set firsts")
    case True
    then show ?thesis using assms(1) handle keys key by (simp add: audit_add_def)
  next
    case False
    define r where "r = audit_draft.extend draft (audit_record.fields (audit_next_id s) (clock (audit_next_id s)))"
    have c: "check_audit_draft r = Inr r" unfolding r_def by (rule check_extended [OF ok])
    have sel: "audit_id r = audit_next_id s" "audit_created_at r = clock (audit_next_id s)"
      by (simp_all add: r_def audit_record.defs audit_draft.defs)
    have b: "build_audit_record (clock (audit_next_id s)) draft s = Inr r"
      unfolding build_audit_record_def r_def [symmetric] check_audit_record_def
      using assms(1,3) c sel by (simp add: trail_of_def utc_clock_def positive_int_eq)
    have "audit_handle audit_mappings clock env s =
        (Inr (), s\<lparr>audit_records := audit_records s @ [(event_key env, r)],
                    audit_next_id := audit_next_id s + 1\<rparr>)"
      using handle keys key False b by (simp add: audit_add_def)
    moreover have "record_for clock (audit_next_id s) env = Inr r"
      by (simp add: record_for_def d r_def draft_def)
    ultimately show ?thesis
      using assms(1) False by (auto simp: trail_of_def enumerate_append_eq)
  qed
qed

lemma first_by_set: "f ` set (first_by f seen xs) = f ` set xs - set seen"
  by (induction xs arbitrary: seen) auto

lemma first_by_subset: "set (first_by f seen xs) \<subseteq> set xs"
  by (induction xs arbitrary: seen) auto

lemma first_by_distinct: "distinct (map f (first_by f seen xs))"
proof (induction xs arbitrary: seen)
  case (Cons x xs)
  have "f x \<notin> set (map f (first_by f (f x # seen) xs))" by (simp add: first_by_set)
  then show ?case using Cons by simp
qed simp

lemma first_by_cong: "set seen = set seen' \<Longrightarrow> first_by f seen xs = first_by f seen' xs"
proof (induction xs arbitrary: seen seen')
  case (Cons x xs)
  show ?case
    using Cons.prems Cons.IH [of seen seen'] Cons.IH [of "f x # seen" "f x # seen'"] by simp
qed simp

lemma handle_all:
  assumes "trail_of clock firsts s" and "\<forall>env \<in> set envs. envelope_ok env" and "utc_clock clock"
  shows "\<exists>s'. act_for (audit_handle audit_mappings clock) envs s = (Inr (), s') \<and>
    trail_of clock (firsts @ first_by event_key (map event_key firsts) envs) s'"
  using assms
proof (induction envs arbitrary: firsts s)
  case (Cons env envs)
  define firsts' where "firsts' = (if event_key env \<in> event_key ` set firsts then firsts else firsts @ [env])"
  obtain s1 where s1: "audit_handle audit_mappings clock env s = (Inr (), s1)" "trail_of clock firsts' s1"
    using handle_one [OF Cons.prems(1) _ Cons.prems(3), of env] Cons.prems(2) by (auto simp: firsts'_def)
  obtain s2 where s2: "act_for (audit_handle audit_mappings clock) envs s1 = (Inr (), s2)"
      "trail_of clock (firsts' @ first_by event_key (map event_key firsts') envs) s2"
    using Cons.IH [OF s1(2)] Cons.prems(2,3) by auto
  have "firsts' @ first_by event_key (map event_key firsts') envs =
      firsts @ first_by event_key (map event_key firsts) (env # envs)"
    using first_by_cong [of "map event_key (firsts @ [env])" "event_key env # map event_key firsts" event_key envs]
    by (auto simp: firsts'_def)
  then show ?case using s1(1) s2 by (simp add: act_bind_def)
qed simp

text \<open>Publishing to the audit trail never fails, and stores every event exactly once.\<close>

lemma trail_exact:
  assumes "\<forall>env \<in> set envs. envelope_ok env" and "utc_clock clock"
  shows "\<exists>s. act_for (audit_handle audit_mappings clock) envs empty_audit_repo = (Inr (), s) \<and>
    trail_of clock (first_by event_key [] envs) s"
  using handle_all [OF trail_empty assms] by simp

section \<open>What is listed\<close>

lemma sort_descending_set [simp]: "set (sort_descending k xs) = set xs"
  by (simp add: sort_descending_def)

lemma sort_descending_sorted: "sorted_wrt (\<lambda>x y. k y \<le> k x) (sort_descending k xs)"
proof -
  have "sorted (map k (sort_key k (rev xs)))" by simp
  then show ?thesis
    by (simp add: sort_descending_def sorted_wrt_rev sorted_map del: sorted_sort_key)
qed

interpretation audit_lister: lister "audit_list_all f s" "\<lambda>limit offset. audit_list_page f limit offset s"
    "\<lambda>limit offset. audit_list_page_with_total f limit offset s" for f s
  by unfold_locales (simp_all add: audit_list_page_def audit_list_page_with_total_def Let_def)

lemma listed_records:
  "set (audit_list_all f s) = {r \<in> snd ` set (audit_records s). matches r f}"
  by (auto simp: audit_list_all_def)

lemma check_filter_keeps:
  "check_audit_filter f = Inr f' \<Longrightarrow> by_actor_user_id f' = by_actor_user_id f"
  by (auto simp: check_audit_filter_def res_bind_Inr_iff)

text \<open>Without the permission to view the audit log, a page holds records of the caller only.\<close>

lemma visible_records:
  assumes "view_audit_logs q f clock s a = (Inr page, b)"
  shows "b = a \<and> set (page_items page) \<subseteq> snd ` set (audit_records s) \<and>
    (\<exists>user. current_user (identity a) = Some user \<and>
      (\<not> has_permission (identity a) AUDIT_VIEW \<longrightarrow>
         (\<forall>r \<in> set (page_items page). draft_actor_user_id r = Some (user_id user))))"
proof -
  obtain user where u: "current_user (identity a) = Some user"
    using assms by (cases "current_user (identity a)") (auto simp: view_audit_logs_def deny_audit_view_def)
  show ?thesis
  proof (cases "has_permission (identity a) AUDIT_VIEW")
    case True
    then show ?thesis
      using assms u audit_lister.page_items_subset [of q f s page] listed_records [of f s]
      by (auto simp: view_audit_logs_def execute_audit_query_def)
  next
    case False
    then obtain f' where f': "check_audit_filter (f\<lparr>by_actor_user_id := Some (user_id user)\<rparr>) = Inr f'"
        "execute_audit_query q f' s = Inr page" "b = a"
      using assms u by (auto simp: view_audit_logs_def deny_audit_view_def split: if_splits sum.splits)
    have "set (page_items page) \<subseteq> {r \<in> snd ` set (audit_records s). matches r f'}"
      using audit_lister.page_items_subset [of q f' s page] f'(2) listed_records [of f' s]
      by (simp add: execute_audit_query_def)
    then show ?thesis using check_filter_keeps [OF f'(1)] f'(3) u False by (auto simp: matches_def)
  qed
qed

end
