(* ===== verification/SampleEvents.thy ===== *)
theory SampleEvents
  imports SampleApp Outbox Publication AuditLog
begin

text \<open>A concrete event, execution context and delivery state for the witnesses.\<close>

definition sample_event :: sys_event where
  "sample_event =
     \<lparr>event_id = 7, occurred_at = naive 66289600000000000,
      recorded_at = PyDt 66289600000000000 (Some (Some 0)),
      event_fields = RouteE (EvRouteStarted 1 SCHEDULED IN_PROGRESS)\<rparr>"

lemma sample_event_ok: "event_ok sample_event" "times_in_range (event_fields sample_event)"
  by (simp_all add: sample_event_def event_ok_def new_event_def check_fields_def res_bind_def
      require_uuid_def require_naive_datetime_def require_datetime_def require_utc_datetime_def
      require_aware_datetime_def utcoffset_def naive_def)

lemma sample_event_replayable [simp]: "replayable (event_fields sample_event)"
  by (simp add: sample_event_def)

lemma sample_event_written:
  obtains R c p where "built R" and "for_event R sample_event = Inr c" and "adapter_encode c sample_event = Inr p"
proof -
  obtain R where R: "build_codec_registry = Inr R" "built R"
    by (rule writer_of [OF sample_event_ok(2)])
  obtain R' c p where w: "build_codec_registry = Inr R'" "for_event R' sample_event = Inr c"
      "adapter_encode c sample_event = Inr p"
    using write_then_read [OF sample_event_ok] by auto
  have "R = R'" using R(1) w(1) by (metis sum.inject(2))
  then have "built R'" using R(2) by simp
  then show ?thesis using w(2,3) that by blast
qed

definition sample_context :: event_context where
  "sample_context = \<lparr>ctx_correlation = 1, ctx_source = SRC_HTTP, ctx_actor = None, ctx_causation = None\<rparr>"

definition sample_delivery :: "'e envelope list delivery" where
  "sample_delivery = \<lparr>world = sample_app, sink = [], event_ctx = Some sample_context, issued = 0\<rparr>"

lemma created_route_init:
  "route_init [PyStr ''SYD'', PyStr ''MEL''] None (PyInt 2) =
     Inr \<lparr>route_id = 2, path = [''SYD'', ''MEL''], route_truck = None, route_packages = [],
       route_status = PLANNED, schedule = None, route_events = []\<rparr>"
  by code_simp

lemma sample_route_recorded:
  obtains x a where "create_route [''SYD'', ''MEL''] None 5 (sample_app\<lparr>scope := Some new_scope\<rparr>) = (Inr x, a)"
    and "recorded_events a \<noteq> []"
proof -
  have p: "has_permission \<lparr>session_user = Some sample_manager, bound_user = None\<rparr> ROUTE_CREATE"
    by (simp add: has_permission_def current_user_def role_permissions_def sample_manager_def
        manager_permissions_def employee_permissions_def)
  have n: "repo_next_id (route_repo sample_app) = 2" "entries (route_repo sample_app) = [(1, 0)]" by (simp_all add: sample_app_def)
  have "\<exists>x a. create_route [''SYD'', ''MEL''] None 5 (sample_app\<lparr>scope := Some new_scope\<rparr>) = (Inr x, a) \<and>
      recorded_events a \<noteq> []"
    
    by (simp add: create_route_def requires_def p current_user_def act_bind_def route_repo_create_def
        on_store_def created_route_init route_create_def n)
      (simp add: route_repo_add_def repo_add_def record_route_event_def track_domain_recorder_def
        scope_track_def act_bind_def recorded_events_split bound_scope_def new_scope_def
        record_event_def n)
  then show ?thesis using that by blast
qed

text \<open>An envelope of the event, and a clock for the audit trail.\<close>

definition sample_envelope :: "int \<Rightarrow> sys_event envelope" where
  "sample_envelope i = wrap sample_context i sample_event"

definition sample_utc :: "int \<Rightarrow> pydatetime" where
  "sample_utc i = PyDt (66289600000000000 + i) (Some (Some 0))"

lemma sample_envelope_ok: "envelope_ok (sample_envelope i)" "utc_clock sample_utc"
  using sample_event_ok(1)
  by (simp_all add: envelope_ok_def sample_envelope_def wrap_def sample_context_def)
    (simp_all add: sample_event_def utc_clock_def sample_utc_def require_utc_datetime_def
      require_aware_datetime_def require_datetime_def utcoffset_def)

end
