(* ===== verification/Messaging.thy ===== *)
theory Messaging
  imports Fleet
begin

text \<open>
  Typed command and query routing: \<open>src/application/messaging/\<close> and the composed routing tables of
  \<open>src/composition/message_buses.py\<close>, \<open>command_catalog.py\<close> and \<open>query_catalog.py\<close>.  A message class is
  its name and \<open>type_of\<close> is the exact class of a message; a handler is an action on the state it runs in.
\<close>

section \<open>Keys and registrations\<close>

record message_key =
  key_name :: string
  key_type :: string

record ('m, 's, 'r) registration =
  reg_type :: string
  reg_invoke :: "'m \<Rightarrow> ('s, 'r) act"

type_synonym ('m, 's, 'r) bus = "string \<rightharpoonup> ('m, 's, 'r) registration"

definition empty_bus :: "('m, 's, 'r) bus" where
  "empty_bus = Map.empty"

section \<open>The command bus\<close>

definition command_register ::
    "('m \<Rightarrow> string) \<Rightarrow> message_key \<Rightarrow> ('m \<Rightarrow> ('s, 'r) act) \<Rightarrow> ('m, 's, 'r) bus \<Rightarrow> ('m, 's, 'r) bus result" where
  "command_register type_of key handler bus =
     (if bus (key_name key) \<noteq> None then Inl DuplicateMessageHandlerError
      else
        (let invoke = (\<lambda>m. if type_of m \<noteq> key_type key then act_raise MessageTypeMismatchError
                           else handler m)
         in Inr (bus(key_name key \<mapsto> \<lparr>reg_type = key_type key, reg_invoke = invoke\<rparr>))))"

definition command_dispatch ::
    "('m \<Rightarrow> string) \<Rightarrow> ('m, 's, 'r) bus \<Rightarrow> message_key \<Rightarrow> 'm \<Rightarrow> ('s, 'r) act" where
  "command_dispatch type_of bus key m =
     (if type_of m \<noteq> key_type key then act_raise MessageTypeMismatchError
      else (case bus (key_name key) of
              None \<Rightarrow> act_raise MessageHandlerNotFoundError
            | Some r \<Rightarrow>
                if reg_type r \<noteq> key_type key then act_raise MessageTypeMismatchError
                else reg_invoke r m))"

section \<open>The query bus\<close>

definition query_register ::
    "('m \<Rightarrow> string) \<Rightarrow> message_key \<Rightarrow> ('m \<Rightarrow> ('s, 'r) act) \<Rightarrow> ('m, 's, 'r) bus \<Rightarrow> ('m, 's, 'r) bus result" where
  "query_register type_of key handler bus =
     (if bus (key_name key) \<noteq> None then Inl DuplicateMessageHandlerError
      else
        (let invoke = (\<lambda>m. if type_of m \<noteq> key_type key then act_raise MessageTypeMismatchError
                           else handler m)
         in Inr (bus(key_name key \<mapsto> \<lparr>reg_type = key_type key, reg_invoke = invoke\<rparr>))))"

definition query_dispatch ::
    "('m \<Rightarrow> string) \<Rightarrow> ('m, 's, 'r) bus \<Rightarrow> message_key \<Rightarrow> 'm \<Rightarrow> ('s, 'r) act" where
  "query_dispatch type_of bus key m =
     (if type_of m \<noteq> key_type key then act_raise MessageTypeMismatchError
      else (case bus (key_name key) of
              None \<Rightarrow> act_raise MessageHandlerNotFoundError
            | Some r \<Rightarrow>
                if reg_type r \<noteq> key_type key then act_raise MessageTypeMismatchError
                else reg_invoke r m))"

text \<open>Registrations one after the other; the first failure stops them.\<close>

fun register_all ::
    "(message_key \<Rightarrow> 'h \<Rightarrow> 'b \<Rightarrow> 'b result) \<Rightarrow> (message_key \<times> 'h) list \<Rightarrow> 'b \<Rightarrow> 'b result" where
  "register_all register [] bus = Inr bus"
| "register_all register (kh # rest) bus =
     res_bind (register (fst kh) (snd kh) bus) (register_all register rest)"

section \<open>What a bus promises\<close>

text \<open>
  A registered handler gets exactly the messages dispatched under its key, a registration never
  disturbs another name, an occupied name is refused, and nothing is routed without a registration.
\<close>

locale message_bus =
  fixes type_of :: "'m \<Rightarrow> string"
    and register :: "message_key \<Rightarrow> ('m \<Rightarrow> ('s, 'r) act) \<Rightarrow> ('m, 's, 'r) bus \<Rightarrow> ('m, 's, 'r) bus result"
    and dispatch :: "('m, 's, 'r) bus \<Rightarrow> message_key \<Rightarrow> 'm \<Rightarrow> ('s, 'r) act"
  assumes register_free: "bus (key_name k) = None \<Longrightarrow> \<exists>bus'. register k h bus = Inr bus'"
    and register_names: "register k h bus = Inr bus' \<Longrightarrow> dom bus' = insert (key_name k) (dom bus)"
    and register_occupied: "bus (key_name k) \<noteq> None \<Longrightarrow> register k h bus = Inl DuplicateMessageHandlerError"
    and dispatch_registered:
      "register k h bus = Inr bus' \<Longrightarrow> type_of m = key_type k \<Longrightarrow> dispatch bus' k m = h m"
    and dispatch_other:
      "register k h bus = Inr bus' \<Longrightarrow> key_name k' \<noteq> key_name k \<Longrightarrow> dispatch bus' k' m = dispatch bus k' m"
    and dispatch_unknown:
      "bus (key_name k) = None \<Longrightarrow> type_of m = key_type k \<Longrightarrow>
         dispatch bus k m = act_raise MessageHandlerNotFoundError"
    and dispatch_wrong_type:
      "type_of m \<noteq> key_type k \<Longrightarrow> dispatch bus k m = act_raise MessageTypeMismatchError"
begin

lemma register_all_names:
  "register_all register khs bus = Inr bus' \<Longrightarrow> dom bus' = (key_name \<circ> fst) ` set khs \<union> dom bus"
proof (induction khs arbitrary: bus)
  case (Cons kh khs)
  then obtain bus1 where "register (fst kh) (snd kh) bus = Inr bus1" "register_all register khs bus1 = Inr bus'"
    by (auto simp: res_bind_Inr_iff)
  then show ?case using Cons.IH [of bus1] register_names [of "fst kh" "snd kh" bus bus1] by auto
qed simp

lemma register_all_other:
  "register_all register khs bus = Inr bus' \<Longrightarrow> \<forall>kh \<in> set khs. key_name (fst kh) \<noteq> key_name k \<Longrightarrow>
     dispatch bus' k m = dispatch bus k m"
  by (induction khs arbitrary: bus) (auto simp: res_bind_Inr_iff dispatch_other)

lemma register_all_ok:
  "distinct (map (key_name \<circ> fst) khs) \<Longrightarrow> (key_name \<circ> fst) ` set khs \<inter> dom bus = {} \<Longrightarrow>
     \<exists>bus'. register_all register khs bus = Inr bus'"
proof (induction khs arbitrary: bus)
  case (Cons kh khs)
  have "bus (key_name (fst kh)) = None" using Cons.prems(2) by auto
  then obtain bus1 where b: "register (fst kh) (snd kh) bus = Inr bus1"
    using register_free by blast
  have "(key_name \<circ> fst) ` set khs \<inter> dom bus1 = {}"
    using Cons.prems unfolding register_names [OF b] by auto
  then show ?case using Cons b by (auto simp: res_bind_def)
qed simp

lemma route_exact:
  assumes "register_all register khs bus = Inr bus'" and "distinct (map (key_name \<circ> fst) khs)"
    and "(k, h) \<in> set khs"
  shows "dispatch bus' k m = (if type_of m = key_type k then h m else act_raise MessageTypeMismatchError)"
  using assms
proof (induction khs arbitrary: bus)
  case (Cons kh khs)
  obtain bus1 where b: "register (fst kh) (snd kh) bus = Inr bus1" "register_all register khs bus1 = Inr bus'"
    using Cons.prems(1) by (auto simp: res_bind_Inr_iff)
  show ?case
  proof (cases "(k, h) = kh")
    case True
    then have "\<forall>x \<in> set khs. key_name (fst x) \<noteq> key_name k"
      using Cons.prems(2) by (auto simp: image_iff)
    then have "dispatch bus' k m = dispatch bus1 k m" by (rule register_all_other [OF b(2)])
    then show ?thesis
      using b(1) True dispatch_registered [of k h bus bus1 m] dispatch_wrong_type [of m k bus1]
      by (auto split: if_splits)
  next
    case False
    then show ?thesis using Cons b(2) by auto
  qed
qed simp

lemma nothing_else:
  assumes "register_all register khs empty_bus = Inr bus'" and "key_name k \<notin> (key_name \<circ> fst) ` set khs"
  shows "\<exists>e \<in> {MessageHandlerNotFoundError, MessageTypeMismatchError}. dispatch bus' k m = act_raise e"
proof -
  have "dom bus' = (key_name \<circ> fst) ` set khs"
    using register_all_names [OF assms(1)] by (simp add: empty_bus_def)
  then have "bus' (key_name k) = None" using assms(2) by (auto simp: domIff)
  then show ?thesis using dispatch_unknown dispatch_wrong_type by blast
qed

end

interpretation command_bus: message_bus type_of "command_register type_of" "command_dispatch type_of"
  for type_of :: "'m \<Rightarrow> string"
  by unfold_locales
    (auto simp: command_register_def command_dispatch_def Let_def split: if_splits)

interpretation query_bus: message_bus type_of "query_register type_of" "query_dispatch type_of"
  for type_of :: "'m \<Rightarrow> string"
  by unfold_locales
    (auto simp: query_register_def query_dispatch_def Let_def split: if_splits)

section \<open>The composed routing tables\<close>

definition key :: "string \<Rightarrow> string \<Rightarrow> message_key" where
  "key n c = \<lparr>key_name = n, key_type = c\<rparr>"

text \<open>The keys of \<open>src/application/commands/\<close> in registration order.\<close>

definition command_keys :: "message_key list" where
  "command_keys =
     [key ''login'' ''LoginCommand'', key ''logout'' ''LogoutCommand'',
      key ''register_user'' ''RegisterUserCommand'',
      key ''change_own_password'' ''ChangeOwnPasswordCommand'',
      key ''reset_user_password'' ''ResetUserPasswordCommand'',
      key ''create_package'' ''CreatePackageCommand'', key ''remove_package'' ''RemovePackageCommand'',
      key ''create_route'' ''CreateRouteCommand'', key ''remove_route'' ''RemoveRouteCommand'',
      key ''assign_packages_to_route'' ''AssignPackagesToRouteCommand'',
      key ''assign_truck_to_route'' ''AssignTruckToRouteCommand'',
      key ''advance_world_state'' ''AdvanceWorldStateCommand'',
      key ''load_world'' ''LoadWorldCommand'', key ''save_world'' ''SaveWorldCommand'']"

text \<open>The keys of \<open>src/application/queries/\<close> in registration order.\<close>

definition query_keys :: "message_key list" where
  "query_keys =
     [key ''view_audits'' ''AuditLogQuery'', key ''who_am_i'' ''WhoAmIQuery'',
      key ''view_all_customers'' ''ViewAllCustomersQuery'',
      key ''get_fleet_overview'' ''GetFleetOverviewQuery'',
      key ''view_all_packages'' ''ViewAllPackagesQuery'', key ''view_package'' ''ViewPackageQuery'',
      key ''view_unassigned_packages'' ''ViewUnassignedPackagesQuery'',
      key ''view_all_routes'' ''ViewAllRoutesQuery'', key ''view_route'' ''ViewRouteQuery'',
      key ''view_routes_in_progress'' ''ViewRoutesInProgressQuery'',
      key ''find_suitable_trucks_for_route'' ''FindSuitableTrucksForRouteQuery'',
      key ''find_suitable_routes_for_package'' ''FindSuitableRoutesForPackageQuery'',
      key ''view_all_trucks'' ''ViewAllTrucksQuery'']"

definition published_command_types :: "string list" where
  "published_command_types =
     [''LoginCommand'', ''LogoutCommand'', ''RegisterUserCommand'', ''ChangeOwnPasswordCommand'',
      ''ResetUserPasswordCommand'', ''CreatePackageCommand'', ''RemovePackageCommand'',
      ''CreateRouteCommand'', ''RemoveRouteCommand'', ''AssignPackagesToRouteCommand'',
      ''AssignTruckToRouteCommand'', ''AdvanceWorldStateCommand'', ''LoadWorldCommand'',
      ''SaveWorldCommand'']"

definition published_query_types :: "string list" where
  "published_query_types =
     [''AuditLogQuery'', ''WhoAmIQuery'', ''ViewAllCustomersQuery'', ''GetFleetOverviewQuery'',
      ''ViewAllPackagesQuery'', ''ViewPackageQuery'', ''ViewUnassignedPackagesQuery'',
      ''ViewAllRoutesQuery'', ''ViewRouteQuery'', ''ViewRoutesInProgressQuery'',
      ''FindSuitableTrucksForRouteQuery'', ''FindSuitableRoutesForPackageQuery'',
      ''ViewAllTrucksQuery'']"

text \<open>The executors of the container, one for each key.\<close>

definition build_command_bus ::
    "('m \<Rightarrow> string) \<Rightarrow> (string \<Rightarrow> 'm \<Rightarrow> ('s, 'r) act) \<Rightarrow> ('m, 's, 'r) bus result" where
  "build_command_bus type_of executor =
     register_all (command_register type_of) (map (\<lambda>k. (k, executor (key_name k))) command_keys)
       empty_bus"

definition build_query_bus ::
    "('m \<Rightarrow> string) \<Rightarrow> (string \<Rightarrow> 'm \<Rightarrow> ('s, 'r) act) \<Rightarrow> ('m, 's, 'r) bus result" where
  "build_query_bus type_of executor =
     register_all (query_register type_of) (map (\<lambda>k. (k, executor (key_name k))) query_keys)
       empty_bus"

lemma distinct_key_names:
  "distinct (map key_name command_keys)" "distinct (map key_name query_keys)"
  by (simp_all add: command_keys_def query_keys_def key_def)

text \<open>The catalogs list the classes of the keys, in their order.\<close>

lemma catalogs_match:
  "map key_type command_keys = published_command_types" "map key_type query_keys = published_query_types"
  by (simp_all add: command_keys_def query_keys_def key_def published_command_types_def
      published_query_types_def)

text \<open>The bus of the container: every key of the catalog has its executor and no other message gets there.\<close>

lemma command_bus_built:
  obtains bus where "build_command_bus type_of executor = Inr bus"
    and "\<forall>k \<in> set command_keys. \<forall>m. command_dispatch type_of bus k m =
      (if type_of m = key_type k then executor (key_name k) m else act_raise MessageTypeMismatchError)"
proof -
  define khs where "khs = map (\<lambda>k. (k, executor (key_name k))) command_keys"
  have d: "distinct (map (key_name \<circ> fst) khs)"
    using distinct_key_names(1) by (simp add: khs_def comp_def)
  obtain bus where b: "register_all (command_register type_of) khs empty_bus = Inr bus"
    using command_bus.register_all_ok [OF d, of empty_bus type_of] by (auto simp: empty_bus_def)
  have "(k, executor (key_name k)) \<in> set khs" if "k \<in> set command_keys" for k
    using that by (simp add: khs_def)
  then show ?thesis
    using that [of bus] b command_bus.route_exact [OF b d] unfolding build_command_bus_def khs_def by blast
qed

end
