(* ===== verification/Passwords.thy ===== *)
theory Passwords
  imports AuditMapping "HOL-Library.Word"
begin

text \<open>
  Password hashes: \<open>src/adapters/driven/security/password_hasher.py\<close> with the parts of the standard
  library it calls, base 64 and \<open>int(text)\<close>.  The key derivation (PBKDF2 of \<open>hashlib\<close>) is a parameter
  \<open>kdf\<close> from the algorithm, the password, the salt and the iterations to the derived key, and the salt of
  a new hash is an argument.  Base 64 is decoded as RFC 4648 has it: groups of four characters, padding
  only in the last one.
\<close>

section \<open>Base 64\<close>

type_synonym byte_string = "8 word list"

definition b64_alphabet :: string where
  "b64_alphabet = ''ABCDEFGHIJKLMNOPQRSTUVWXYZabcdefghijklmnopqrstuvwxyz0123456789+/''"

definition b64_char :: "nat \<Rightarrow> char" where
  "b64_char n = b64_alphabet ! n"

definition b64_index :: "char \<Rightarrow> nat option" where
  "b64_index c = map_of (zip b64_alphabet [0..<64]) c"

text \<open>The four sextets of three bytes, and back.\<close>

definition first_sextet :: "8 word \<Rightarrow> nat" where
  "first_sextet a = unat a div 4"

definition second_sextet :: "8 word \<Rightarrow> 8 word \<Rightarrow> nat" where
  "second_sextet a b = unat a mod 4 * 16 + unat b div 16"

definition third_sextet :: "8 word \<Rightarrow> 8 word \<Rightarrow> nat" where
  "third_sextet b c = unat b mod 16 * 4 + unat c div 64"

definition fourth_sextet :: "8 word \<Rightarrow> nat" where
  "fourth_sextet c = unat c mod 64"

definition first_byte :: "nat \<Rightarrow> nat \<Rightarrow> 8 word" where
  "first_byte i j = of_nat (i * 4 + j div 16)"

definition second_byte :: "nat \<Rightarrow> nat \<Rightarrow> 8 word" where
  "second_byte j k = of_nat (j mod 16 * 16 + k div 4)"

definition third_byte :: "nat \<Rightarrow> nat \<Rightarrow> 8 word" where
  "third_byte k l = of_nat (k mod 4 * 64 + l)"

fun b64encode :: "byte_string \<Rightarrow> string" where
  "b64encode [] = []"
| "b64encode [a] = [b64_char (first_sextet a), b64_char (second_sextet a 0), CHR ''='', CHR ''='']"
| "b64encode [a, b] =
     [b64_char (first_sextet a), b64_char (second_sextet a b), b64_char (third_sextet b 0), CHR ''='']"
| "b64encode (a # b # c # rest) =
     b64_char (first_sextet a) # b64_char (second_sextet a b) # b64_char (third_sextet b c) #
     b64_char (fourth_sextet c) # b64encode rest"

fun b64decode :: "string \<Rightarrow> byte_string option" where
  "b64decode [] = Some []"
| "b64decode (w # x # y # z # rest) =
     (case (b64_index w, b64_index x) of
        (Some i, Some j) \<Rightarrow>
          if rest = [] \<and> z = CHR ''='' then
            (if y = CHR ''='' then Some [first_byte i j]
             else (case b64_index y of
                     None \<Rightarrow> None
                   | Some k \<Rightarrow> Some [first_byte i j, second_byte j k]))
          else
            (case (b64_index y, b64_index z, b64decode rest) of
               (Some k, Some l, Some bs) \<Rightarrow>
                 Some (first_byte i j # second_byte j k # third_byte k l # bs)
             | _ \<Rightarrow> None)
      | _ \<Rightarrow> None)"
| "b64decode _ = None"

section \<open>Integers in texts\<close>

text \<open>Digits with single underscores between them, after a first digit.\<close>

fun int_digits :: "int \<Rightarrow> string \<Rightarrow> int option" where
  "int_digits acc [] = Some acc"
| "int_digits acc (c # cs) =
     (if is_digit c then int_digits (acc * 10 + int (code c - 48)) cs
      else if c = CHR ''_'' then
        (case cs of
           d # ds \<Rightarrow> if is_digit d then int_digits (acc * 10 + int (code d - 48)) ds else None
         | [] \<Rightarrow> None)
      else None)"

definition int_unsigned :: "string \<Rightarrow> int option" where
  "int_unsigned s =
     (case s of
        [] \<Rightarrow> None
      | c # cs \<Rightarrow>
          if is_digit c \<and> length (filter is_digit s) \<le> 4300 then int_digits (int (code c - 48)) cs
          else None)"

definition int_of_text :: "string \<Rightarrow> int result" where
  "int_of_text text =
     (let s = strip text;
          v = (case s of
                 [] \<Rightarrow> None
               | c # cs \<Rightarrow>
                   if c = CHR ''-'' then map_option uminus (int_unsigned cs)
                   else if c = CHR ''+'' then int_unsigned cs
                   else int_unsigned s)
      in case v of None \<Rightarrow> Inl PyValueError | Some i \<Rightarrow> Inr i)"

section \<open>Password hashes\<close>

definition PBKDF2_ALGO :: string where "PBKDF2_ALGO = ''sha256''"
definition PBKDF2_ITERATIONS :: int where "PBKDF2_ITERATIONS = 200000"
definition SALT_BYTES :: nat where "SALT_BYTES = 16"
definition MIN_PASSWORD_LENGTH :: nat where "MIN_PASSWORD_LENGTH = 8"

record password_hash =
  ph_algo :: string
  ph_iterations :: int
  ph_salt :: string
  ph_hash :: string

definition serialize :: "password_hash \<Rightarrow> string" where
  "serialize h =
     ''pbkdf2_'' @ ph_algo h @ ''$'' @ str_int (ph_iterations h) @ ''$'' @ ph_salt h @ ''$'' @ ph_hash h"

definition parse_password_hash :: "pyval \<Rightarrow> password_hash result" where
  "parse_password_hash v =
     (case v of
        PyStr s \<Rightarrow>
          (case split_on (CHR ''$'') s of
             [scheme, iterations_text, salt_b64, hash_b64] \<Rightarrow>
               if scheme \<noteq> ''pbkdf2_'' @ PBKDF2_ALGO then Inl PyValueError
               else
                 res_bind (int_of_text iterations_text) (\<lambda>iterations.
                   if iterations < PBKDF2_ITERATIONS then Inl PyValueError
                   else
                     (case (b64decode salt_b64, b64decode hash_b64) of
                        (Some salt, Some hash) \<Rightarrow>
                          if length salt \<noteq> SALT_BYTES \<or> hash = [] then Inl PyValueError
                          else Inr \<lparr>ph_algo = PBKDF2_ALGO, ph_iterations = iterations,
                                    ph_salt = salt_b64, ph_hash = hash_b64\<rparr>
                      | _ \<Rightarrow> Inl PyValueError))
           | _ \<Rightarrow> Inl PyValueError)
      | _ \<Rightarrow> Inl PyTypeError)"

type_synonym kdf = "string \<Rightarrow> string \<Rightarrow> byte_string \<Rightarrow> int \<Rightarrow> byte_string"

definition validate_password_strength :: "string \<Rightarrow> string result" where
  "validate_password_strength password =
     (if length password < MIN_PASSWORD_LENGTH
       \<or> \<not> (\<exists>c \<in> set password. is_upper c)
       \<or> \<not> (\<exists>c \<in> set password. is_lower c)
       \<or> \<not> (\<exists>c \<in> set password. is_digit c)
       \<or> \<not> (\<exists>c \<in> set password. c \<in> set ''!@#$%^&*(),.?\":{}|<>'')
      then Inl PyValueError else Inr password)"

definition hash_password :: "kdf \<Rightarrow> byte_string \<Rightarrow> string \<Rightarrow> password_hash result" where
  "hash_password kdf salt plain =
     res_bind (validate_password_strength plain) (\<lambda>password.
       Inr \<lparr>ph_algo = PBKDF2_ALGO, ph_iterations = PBKDF2_ITERATIONS, ph_salt = b64encode salt,
            ph_hash = b64encode (kdf PBKDF2_ALGO password salt PBKDF2_ITERATIONS)\<rparr>)"

text \<open>On a hash that was parsed or made by \<open>hash_password\<close>, whose salt is decodable.\<close>

definition verify_password :: "kdf \<Rightarrow> string \<Rightarrow> password_hash \<Rightarrow> bool result" where
  "verify_password kdf plain stored =
     (case b64decode (ph_salt stored) of
        None \<Rightarrow> Inl PyValueError
      | Some salt \<Rightarrow>
          Inr (b64encode (kdf (ph_algo stored) plain salt (ph_iterations stored)) = ph_hash stored))"

section \<open>Base 64 is read back\<close>

lemma b64_table: "list_all (\<lambda>n. b64_index (b64_char n) = Some n) [0..<64]"
  by code_simp

lemma b64_no_marks: "list_all (\<lambda>n. b64_char n \<noteq> CHR ''='' \<and> b64_char n \<noteq> CHR ''$'') [0..<64]"
  by code_simp

lemma b64_char_simps:
  assumes "n < 64"
  shows "b64_index (b64_char n) = Some n" "b64_char n \<noteq> CHR ''=''" "b64_char n \<noteq> CHR ''$''"
  using assms b64_table b64_no_marks by (auto simp: list_all_iff)

lemma byte_bound: "unat b < 256" for b :: "8 word"
  using unsigned_less [of b] by simp

lemma sextet_bounds [simp]:
  "first_sextet a < 64" "second_sextet a b < 64" "third_sextet b c < 64" "fourth_sextet c < 64"
proof -
  have "unat b div 16 < 16" "unat c div 64 < 4" "unat a div 4 < 64"
    using byte_bound [of b] byte_bound [of a] byte_bound [of c] by (auto simp: less_mult_imp_div_less)
  moreover have "unat a mod 4 < 4" "unat b mod 16 < 16" "unat c mod 64 < 64" by auto
  ultimately show "first_sextet a < 64" "second_sextet a b < 64" "third_sextet b c < 64" "fourth_sextet c < 64"
    unfolding first_sextet_def second_sextet_def third_sextet_def fourth_sextet_def by linarith+
qed

lemma bytes_back [simp]:
  "first_byte (first_sextet a) (second_sextet a b) = a"
  "second_byte (second_sextet a b) (third_sextet b c) = b"
  "third_byte (third_sextet b c) (fourth_sextet c) = c"
proof -
  have d: "unat b div 16 < 16" "unat c div 64 < 4"
    using byte_bound [of b] byte_bound [of c] by (auto simp: less_mult_imp_div_less)
  have "unat a div 4 * 4 + (unat a mod 4 * 16 + unat b div 16) div 16 = unat a"
      "(unat a mod 4 * 16 + unat b div 16) mod 16 * 16 + (unat b mod 16 * 4 + unat c div 64) div 4 = unat b"
      "(unat b mod 16 * 4 + unat c div 64) mod 4 * 64 + unat c mod 64 = unat c"
    using d by auto
  then show "first_byte (first_sextet a) (second_sextet a b) = a"
      "second_byte (second_sextet a b) (third_sextet b c) = b"
      "third_byte (third_sextet b c) (fourth_sextet c) = c"
    unfolding first_byte_def second_byte_def third_byte_def first_sextet_def second_sextet_def
      third_sextet_def fourth_sextet_def by simp_all
qed

lemma b64decode_encode: "b64decode (b64encode bs) = Some bs"
  by (induction bs rule: b64encode.induct) (simp_all add: b64_char_simps)

lemma b64encode_inj [simp]: "b64encode bs = b64encode cs \<longleftrightarrow> bs = cs"
  by (metis b64decode_encode option.inject)

lemma b64encode_plain: "CHR ''$'' \<notin> set (b64encode bs)"
  by (induction bs rule: b64encode.induct) (simp_all add: b64_char_simps(3) [THEN not_sym])

section \<open>Numbers are read back\<close>

lemma split_on_append:
  "c \<notin> set s \<Longrightarrow> split_on c (s @ c # t) = s # split_on c t"
  by (induction s) auto

lemma split_on_plain: "c \<notin> set s \<Longrightarrow> split_on c s = [s]"
  by (induction s) auto

lemma nat_digits_digits: "list_all is_digit (nat_digits n) \<and> nat_digits n \<noteq> []"
proof (induction n rule: nat_digits.induct)
  case (1 n)
  have "is_digit (char_of (48 + m))" if "m < 10" for m :: nat
    using that by (simp add: is_digit_def code_def)
  then show ?case using 1 by (cases "n < 10") (simp_all add: nat_digits.simps [of n])
qed

lemma int_digits_append:
  "list_all is_digit s \<Longrightarrow> int_digits acc (s @ t) = int_digits (foldl (\<lambda>a c. a * 10 + int (code c - 48)) acc s) t"
  by (induction s arbitrary: acc) auto

lemma nat_digits_value:
  "foldl (\<lambda>a c. a * 10 + int (code c - 48)) acc (nat_digits n) = acc * 10 ^ length (nat_digits n) + int n"
proof (induction n arbitrary: acc rule: nat_digits.induct)
  case (1 n)
  have code: "code (char_of (48 + m)) - 48 = m" if "m < 10" for m :: nat
    using that by (simp add: code_def)
  show ?case
  proof (cases "n < 10")
    case True
    then show ?thesis by (simp add: nat_digits.simps [of n] code)
  next
    case False
    have "int n = int (n div 10) * 10 + int (n mod 10)"
      by (metis div_mult_mod_eq of_nat_add of_nat_mult of_nat_numeral)
    then show ?thesis
      using False 1 [OF False, of acc] by (simp add: nat_digits.simps [of n] code algebra_simps)
  qed
qed

lemma int_unsigned_digits:
  assumes "length (nat_digits n) \<le> 4300"
  shows "int_unsigned (nat_digits n) = Some (int n)"
proof -
  obtain c cs where s: "nat_digits n = c # cs" using nat_digits_digits [of n] by (cases "nat_digits n") auto
  have all: "list_all is_digit (c # cs)" using nat_digits_digits [of n] by (simp add: s)
  have "length (filter is_digit (c # cs)) \<le> 4300"
    using assms s le_trans [OF length_filter_le] by metis
  then have "int_unsigned (nat_digits n) = int_digits (int (code c - 48)) cs"
    using all by (simp add: int_unsigned_def s)
  also have "\<dots> = Some (foldl (\<lambda>a c. a * 10 + int (code c - 48)) (int (code c - 48)) cs)"
    using int_digits_append [of cs "int (code c - 48)" "[]"] all by simp
  also have "\<dots> = Some (int n)"
    using nat_digits_value [of 0 n] by (simp add: s)
  finally show ?thesis .
qed

lemma int_of_str_int:
  assumes "length (str_int i) \<le> 4300"
  shows "int_of_text (str_int i) = Inr i"
proof (cases "i < 0")
  case True
  have "strip (str_int i) = str_int i" by (rule str_int_solid)
  then show ?thesis
    using True assms int_unsigned_digits [of "nat (- i)"]
    by (simp add: int_of_text_def Let_def str_int_def)
next
  case False
  obtain c cs where s: "nat_digits (nat i) = c # cs"
    using nat_digits_digits [of "nat i"] by (cases "nat_digits (nat i)") auto
  have "is_digit c" using nat_digits_digits [of "nat i"] by (simp add: s)
  then have "c \<noteq> CHR ''-''" "c \<noteq> CHR ''+''" by (auto simp: is_digit_def code_def)
  moreover have "strip (c # cs) = c # cs" using str_int_solid(1) [of i] False by (simp add: str_int_def s)
  ultimately show ?thesis
    using False assms int_unsigned_digits [of "nat i"]
    by (simp add: int_of_text_def Let_def str_int_def s)
qed

lemma nat_digits_length: "n < 10 ^ Suc k \<Longrightarrow> length (nat_digits n) \<le> Suc k"
proof (induction k arbitrary: n)
  case (Suc k)
  then have "n div 10 < 10 ^ Suc k" by (simp add: less_mult_imp_div_less mult.commute)
  then show ?case using Suc.IH [of "n div 10"] by (cases "n < 10") (simp_all add: nat_digits.simps [of n])
qed (simp add: nat_digits.simps)

section \<open>A hash accepts its password\<close>

lemma str_int_plain: "CHR ''$'' \<notin> set (str_int i)"
proof -
  have "CHR ''$'' \<notin> set (nat_digits n)" for n
    using nat_digits_digits [of n] by (auto simp: list_all_iff is_digit_def code_def)
  then show ?thesis by (auto simp: str_int_def)
qed

lemma parse_serialized:
  assumes "b64decode (ph_salt h) = Some salt" and "length salt = SALT_BYTES"
    and "b64decode (ph_hash h) = Some dk" and "dk \<noteq> []"
    and "ph_algo h = PBKDF2_ALGO" and "PBKDF2_ITERATIONS \<le> ph_iterations h"
    and "length (str_int (ph_iterations h)) \<le> 4300"
    and "CHR ''$'' \<notin> set (ph_salt h)" and "CHR ''$'' \<notin> set (ph_hash h)"
  shows "parse_password_hash (PyStr (serialize h)) = Inr h"
proof -
  have "CHR ''$'' \<notin> set (''pbkdf2_'' @ PBKDF2_ALGO)" by (simp add: PBKDF2_ALGO_def)
  then have "split_on (CHR ''$'') ((''pbkdf2_'' @ PBKDF2_ALGO) @ CHR ''$'' # str_int (ph_iterations h) @
      CHR ''$'' # ph_salt h @ CHR ''$'' # ph_hash h) =
      [''pbkdf2_'' @ PBKDF2_ALGO, str_int (ph_iterations h), ph_salt h, ph_hash h]"
    using assms(8,9) by (simp only: split_on_append str_int_plain split_on_plain simp_thms)
  then have "split_on (CHR ''$'') (serialize h) =
      [''pbkdf2_'' @ PBKDF2_ALGO, str_int (ph_iterations h), ph_salt h, ph_hash h]"
    by (simp add: serialize_def assms(5))
  then show ?thesis
    using assms by (simp add: parse_password_hash_def int_of_str_int)
qed

lemma hashed_password:
  assumes "hash_password kdf salt plain = Inr h" and "length salt = SALT_BYTES"
    and "kdf PBKDF2_ALGO plain salt PBKDF2_ITERATIONS \<noteq> []"
  shows "parse_password_hash (PyStr (serialize h)) = Inr h"
    and "verify_password kdf p h =
      Inr (kdf PBKDF2_ALGO p salt PBKDF2_ITERATIONS = kdf PBKDF2_ALGO plain salt PBKDF2_ITERATIONS)"
proof -
  have h: "h = \<lparr>ph_algo = PBKDF2_ALGO, ph_iterations = PBKDF2_ITERATIONS, ph_salt = b64encode salt,
      ph_hash = b64encode (kdf PBKDF2_ALGO plain salt PBKDF2_ITERATIONS)\<rparr>"
    using assms(1) by (auto simp: hash_password_def res_bind_Inr_iff validate_password_strength_def split: if_splits)
  have "length (str_int PBKDF2_ITERATIONS) \<le> 4300"
    using nat_digits_length [of 200000 5] by (simp add: str_int_def PBKDF2_ITERATIONS_def)
  then show "parse_password_hash (PyStr (serialize h)) = Inr h"
    using assms(2,3) by (intro parse_serialized) (simp_all add: h b64decode_encode b64encode_plain)
  show "verify_password kdf p h =
      Inr (kdf PBKDF2_ALGO p salt PBKDF2_ITERATIONS = kdf PBKDF2_ALGO plain salt PBKDF2_ITERATIONS)"
    by (simp add: verify_password_def h b64decode_encode)
qed

end
