(* ===== verification/Users.thy ===== *)
theory Users
  imports Passwords "HOL-Library.AList"
begin

text \<open>
  Users and their store: \<open>src/application/models/user_record.py\<close>,
  \<open>src/application/services/auth_normalization.py\<close> and the in-memory repository
  \<open>src/adapters/driven/persistence/memory/user_repository.py\<close>, two dicts over the same records, one by
  normalised username and one by identifier.
\<close>

section \<open>Records and normal forms\<close>

record user_record =
  rec_user_id :: int
  rec_username :: string
  rec_role :: string
  rec_name :: string
  rec_email :: string
  rec_phone :: string
  rec_password :: string
  rec_token_version :: int

definition normalize_username :: "string option \<Rightarrow> string" where
  "normalize_username u = lower (strip (case u of None \<Rightarrow> [] | Some s \<Rightarrow> s))"

text \<open>The value of a role on the wire is its name; \<open>Role(text)\<close> finds the member.\<close>

definition role_of_value :: "string \<Rightarrow> role result" where
  "role_of_value s =
     (case enum_lookup role_value role_members s of None \<Rightarrow> Inl PyValueError | Some r \<Rightarrow> Inr r)"

definition normalize_role :: "role + pyval \<Rightarrow> string result" where
  "normalize_role v =
     (case v of
        Inl r \<Rightarrow> Inr (role_value r)
      | Inr (PyStr s) \<Rightarrow> res_bind (role_of_value (upper (strip s))) (\<lambda>r. Inr (role_value r))
      | Inr _ \<Rightarrow> Inl PyTypeError)"

section \<open>The repository\<close>

text \<open>A key that is unique: the repository raises its own exception for it.\<close>

datatype store_error = DuplicateKeyError | StoreError error

record user_repo =
  by_username :: "(string \<times> user_record) list"
  by_id :: "(int \<times> user_record) list"
  user_next_id :: int

definition empty_users :: user_repo where
  "empty_users = \<lparr>by_username = [], by_id = [], user_next_id = 1\<rparr>"

definition get_by_username :: "string \<Rightarrow> user_repo \<Rightarrow> user_record option" where
  "get_by_username name s =
     (let key = normalize_username (Some name)
      in if key = [] then None else map_of (by_username s) key)"

definition get_user_by_id :: "int \<Rightarrow> user_repo \<Rightarrow> user_record option" where
  "get_user_by_id i s = map_of (by_id s) i"

definition put_user :: "string \<Rightarrow> user_record \<Rightarrow> user_repo \<Rightarrow> user_repo" where
  "put_user key r s =
     s\<lparr>by_username := AList.update key r (by_username s),
       by_id := AList.update (rec_user_id r) r (by_id s)\<rparr>"

definition create_user ::
    "string \<Rightarrow> role + pyval \<Rightarrow> pyval \<Rightarrow> pyval \<Rightarrow> pyval \<Rightarrow> password_hash \<Rightarrow> user_repo \<Rightarrow>
       (store_error + user_record) \<times> user_repo" where
  "create_user name role display email phone hash s =
     (let norm = normalize_username (Some name)
      in if norm = [] then (Inl (StoreError PyValueError), s)
         else if map_of (by_username s) norm \<noteq> None then (Inl DuplicateKeyError, s)
         else
           (case res_bind (normalize_role role) (\<lambda>r.
                 res_bind (contact_info_create display email phone) (\<lambda>ci. Inr (r, ci))) of
              Inl e \<Rightarrow> (Inl (StoreError e), s)
            | Inr (r, ci) \<Rightarrow>
                (let rec = \<lparr>rec_user_id = user_next_id s, rec_username = strip name, rec_role = r,
                            rec_name = ci_name ci, rec_email = ci_email ci, rec_phone = ci_phone ci,
                            rec_password = serialize hash, rec_token_version = 1\<rparr>
                 in (Inr rec, (put_user norm rec s)\<lparr>user_next_id := user_next_id s + 1\<rparr>))))"

definition update_password :: "string \<Rightarrow> password_hash \<Rightarrow> user_repo \<Rightarrow> unit result \<times> user_repo" where
  "update_password name hash s =
     (let norm = normalize_username (Some name)
      in case map_of (by_username s) norm of
           None \<Rightarrow> (Inl PyValueError, s)
         | Some r \<Rightarrow>
             (Inr (), put_user norm (r\<lparr>rec_password := serialize hash,
                                      rec_token_version := rec_token_version r + 1\<rparr>) s))"

definition list_users :: "user_repo \<Rightarrow> user_record list" where
  "list_users s = map snd (by_id s)"

definition increment_token_version :: "user_record \<Rightarrow> user_repo \<Rightarrow> user_record \<times> user_repo" where
  "increment_token_version r s =
     (let updated = r\<lparr>rec_token_version := rec_token_version r + 1\<rparr>
      in (updated, put_user (normalize_username (Some (rec_username r))) updated s))"

definition increment_token_version_by_id :: "int \<Rightarrow> user_repo \<Rightarrow> user_record option \<times> user_repo" where
  "increment_token_version_by_id i s =
     (case get_user_by_id i s of
        None \<Rightarrow> (None, s)
      | Some r \<Rightarrow> (case increment_token_version r s of (u, s') \<Rightarrow> (Some u, s')))"

definition increment_token_version_by_username :: "string \<Rightarrow> user_repo \<Rightarrow> user_record option \<times> user_repo" where
  "increment_token_version_by_username name s =
     (case get_by_username name s of
        None \<Rightarrow> (None, s)
      | Some r \<Rightarrow> (case increment_token_version r s of (u, s') \<Rightarrow> (Some u, s')))"

section \<open>The two dicts agree\<close>

definition user_ok :: "user_record \<Rightarrow> bool" where
  "user_ok r \<longleftrightarrow>
     1 \<le> rec_user_id r \<and> 1 \<le> rec_token_version r \<and> rec_username r \<noteq> [] \<and>
     strip (rec_username r) = rec_username r \<and> (\<exists>role. rec_role r = role_value role) \<and>
     contact_ok \<lparr>ci_name = rec_name r, ci_email = rec_email r, ci_phone = rec_phone r\<rparr>"

definition user_key :: "user_record \<Rightarrow> string" where
  "user_key r = normalize_username (Some (rec_username r))"

definition users_ok :: "user_repo \<Rightarrow> bool" where
  "users_ok s \<longleftrightarrow>
     1 \<le> user_next_id s \<and>
     (\<forall>i r. map_of (by_id s) i = Some r \<longrightarrow>
        rec_user_id r = i \<and> i < user_next_id s \<and> user_ok r \<and>
        map_of (by_username s) (user_key r) = Some r) \<and>
     (\<forall>k r. map_of (by_username s) k = Some r \<longrightarrow>
        k = user_key r \<and> map_of (by_id s) (rec_user_id r) = Some r)"

lemma users_ok_empty: "users_ok empty_users"
  by (simp add: users_ok_def empty_users_def)

lemma normalize_idem [simp]: "normalize_username (Some (normalize_username u)) = normalize_username u"
  by (simp add: normalize_username_def)

lemma normalize_strip [simp]: "normalize_username (Some (strip s)) = normalize_username (Some s)"
  by (simp add: normalize_username_def)

lemma normalized_nonempty: "strip s = s \<Longrightarrow> s \<noteq> [] \<Longrightarrow> normalize_username (Some s) \<noteq> []"
  by (simp add: normalize_username_def)

lemma users_ok_by_id:
  assumes "users_ok s" and "map_of (by_id s) i = Some r"
  shows "rec_user_id r = i" "i < user_next_id s" "user_ok r" "map_of (by_username s) (user_key r) = Some r"
  using assms unfolding users_ok_def by blast+

lemma users_ok_by_name:
  assumes "users_ok s" and "map_of (by_username s) k = Some r"
  shows "k = user_key r" "map_of (by_id s) (rec_user_id r) = Some r"
  using assms unfolding users_ok_def by blast+

lemma users_okI:
  assumes "1 \<le> user_next_id s"
    and "\<And>i r. map_of (by_id s) i = Some r \<Longrightarrow>
      rec_user_id r = i \<and> i < user_next_id s \<and> user_ok r \<and> map_of (by_username s) (user_key r) = Some r"
    and "\<And>k r. map_of (by_username s) k = Some r \<Longrightarrow> k = user_key r \<and> map_of (by_id s) (rec_user_id r) = Some r"
  shows "users_ok s"
  using assms unfolding users_ok_def by blast

lemma user_key_nonempty: "user_ok r \<Longrightarrow> user_key r \<noteq> []"
  by (simp add: user_ok_def user_key_def normalized_nonempty)

lemma get_by_username_ok:
  assumes "users_ok s"
  shows "get_by_username name s = Some r \<longleftrightarrow>
    get_user_by_id (rec_user_id r) s = Some r \<and> user_key r = normalize_username (Some name)"
proof
  assume "get_by_username name s = Some r"
  then have "map_of (by_username s) (normalize_username (Some name)) = Some r"
    by (auto simp: get_by_username_def Let_def split: if_splits)
  then show "get_user_by_id (rec_user_id r) s = Some r \<and> user_key r = normalize_username (Some name)"
    using users_ok_by_name [OF assms] by (simp add: get_user_by_id_def)
next
  assume r: "get_user_by_id (rec_user_id r) s = Some r \<and> user_key r = normalize_username (Some name)"
  then have m: "map_of (by_id s) (rec_user_id r) = Some r" by (simp add: get_user_by_id_def)
  show "get_by_username name s = Some r"
    using r users_ok_by_id [OF assms m] user_key_nonempty [of r]
    by (simp add: get_by_username_def Let_def)
qed

lemma get_put_user:
  "get_user_by_id i (put_user k r s) = (if i = rec_user_id r then Some r else get_user_by_id i s)"
  by (simp add: get_user_by_id_def put_user_def update_conv)

lemma next_id_put [simp]: "user_next_id (put_user k r s) = user_next_id s"
  by (simp add: put_user_def)

lemma by_id_put: "map_of (by_id (put_user k r s)) i = (if i = rec_user_id r then Some r else map_of (by_id s) i)"
  by (simp add: put_user_def update_conv)

lemma by_username_put: "map_of (by_username (put_user k r s)) j = (if j = k then Some r else map_of (by_username s) j)"
  by (simp add: put_user_def update_conv)

text \<open>A record replaced in place, under the same name and identifier.\<close>

lemma users_ok_replace:
  assumes ok: "users_ok s" and r: "get_user_by_id (rec_user_id r) s = Some r"
    and same: "rec_user_id r' = rec_user_id r" "user_key r' = user_key r" and "user_ok r'"
  shows "users_ok (put_user (user_key r) r' s)"
proof (rule users_okI)
  have m: "map_of (by_id s) (rec_user_id r) = Some r" using r by (simp add: get_user_by_id_def)
  show "1 \<le> user_next_id (put_user (user_key r) r' s)" using ok by (simp add: put_user_def users_ok_def)
  fix i q assume "map_of (by_id (put_user (user_key r) r' s)) i = Some q"
  then consider "i = rec_user_id r" "q = r'" | "i \<noteq> rec_user_id r" "map_of (by_id s) i = Some q"
    by (cases "i = rec_user_id r") (simp_all add: by_id_put same(1))
  then show "rec_user_id q = i \<and> i < user_next_id (put_user (user_key r) r' s) \<and> user_ok q \<and>
      map_of (by_username (put_user (user_key r) r' s)) (user_key q) = Some q"
  proof cases
    case 1
    then show ?thesis
      using users_ok_by_id [OF ok m] same assms(5) by (simp add: by_id_put by_username_put)
  next
    case 2
    have "user_key q \<noteq> user_key r"
      using users_ok_by_id(1,4) [OF ok 2(2)] users_ok_by_id(4) [OF ok m] 2(1) by (metis option.inject)
    then show ?thesis
      using users_ok_by_id [OF ok 2(2)] by (simp add: by_id_put by_username_put)
  qed
next
  fix k q assume "map_of (by_username (put_user (user_key r) r' s)) k = Some q"
  then consider "k = user_key r" "q = r'" | "k \<noteq> user_key r" "map_of (by_username s) k = Some q"
    by (cases "k = user_key r") (simp_all add: by_username_put)
  then show "k = user_key q \<and> map_of (by_id (put_user (user_key r) r' s)) (rec_user_id q) = Some q"
  proof cases
    case 1
    then show ?thesis using same by (simp add: by_id_put by_username_put)
  next
    case 2
    have m: "map_of (by_id s) (rec_user_id r) = Some r" using r by (simp add: get_user_by_id_def)
    have "rec_user_id q \<noteq> rec_user_id r"
      using users_ok_by_name [OF ok 2(2)] m 2(1) by (metis option.inject)
    then show ?thesis
      using users_ok_by_name [OF ok 2(2)] same by (simp add: by_id_put by_username_put)
  qed
qed

lemma users_ok_insert:
  assumes ok: "users_ok s" and new: "map_of (by_username s) (user_key r) = None"
    and r: "user_ok r" "rec_user_id r = user_next_id s"
  shows "users_ok ((put_user (user_key r) r s)\<lparr>user_next_id := user_next_id s + 1\<rparr>)"
proof (rule users_okI)
  let ?s = "(put_user (user_key r) r s)\<lparr>user_next_id := user_next_id s + 1\<rparr>"
  show "1 \<le> user_next_id ?s" using ok by (simp add: users_ok_def)
  fix i q assume "map_of (by_id ?s) i = Some q"
  then consider "i = user_next_id s" "q = r" | "i \<noteq> user_next_id s" "map_of (by_id s) i = Some q"
    by (cases "i = user_next_id s") (simp_all add: by_id_put r(2))
  then show "rec_user_id q = i \<and> i < user_next_id ?s \<and> user_ok q \<and> map_of (by_username ?s) (user_key q) = Some q"
  proof cases
    case 1
    then show ?thesis using r by (simp add: by_id_put by_username_put)
  next
    case 2
    then show ?thesis using users_ok_by_id [OF ok 2(2)] new by (auto simp: by_id_put by_username_put)
  qed
next
  let ?s = "(put_user (user_key r) r s)\<lparr>user_next_id := user_next_id s + 1\<rparr>"
  fix k q assume "map_of (by_username ?s) k = Some q"
  then consider "k = user_key r" "q = r" | "k \<noteq> user_key r" "map_of (by_username s) k = Some q"
    by (cases "k = user_key r") (simp_all add: by_username_put)
  then show "k = user_key q \<and> map_of (by_id ?s) (rec_user_id q) = Some q"
  proof cases
    case 1
    then show ?thesis by (simp add: by_id_put by_username_put)
  next
    case 2
    have "rec_user_id q \<noteq> user_next_id s"
      using users_ok_by_id(2) [OF ok users_ok_by_name(2) [OF ok 2(2)]] by simp
    then show ?thesis using users_ok_by_name [OF ok 2(2)] r(2) by (simp add: by_id_put by_username_put)
  qed
qed

section \<open>Every operation keeps them in step\<close>

lemma contact_strings_ok:
  "contact_info_create n e p = Inr ci \<Longrightarrow>
     contact_ok \<lparr>ci_name = ci_name ci, ci_email = ci_email ci, ci_phone = ci_phone ci\<rparr>"
  by (auto simp: contact_info_create_iff contact_ok_def dest: clean_name_idem clean_email_idem clean_phone_idem)

lemma normalize_role_value: "normalize_role v = Inr t \<Longrightarrow> \<exists>role. t = role_value role"
  by (auto simp: normalize_role_def res_bind_Inr_iff split: sum.splits pyval.splits)

lemma create_user_ok:
  assumes "users_ok s" and "create_user name role display email phone hash s = (res, s')"
  shows "users_ok s'"
proof (cases res)
  case (Inl e)
  then show ?thesis using assms by (auto simp: create_user_def Let_def split: if_splits sum.splits prod.splits)
next
  case (Inr rec)
  then obtain t ci where t: "normalize_role role = Inr t" "contact_info_create display email phone = Inr ci"
    and norm: "normalize_username (Some name) \<noteq> []" "map_of (by_username s) (normalize_username (Some name)) = None"
    and rec: "rec = \<lparr>rec_user_id = user_next_id s, rec_username = strip name, rec_role = t,
        rec_name = ci_name ci, rec_email = ci_email ci, rec_phone = ci_phone ci,
        rec_password = serialize hash, rec_token_version = 1\<rparr>"
    and s': "s' = (put_user (normalize_username (Some name)) rec s)\<lparr>user_next_id := user_next_id s + 1\<rparr>"
    using assms(2)
    by (auto simp: create_user_def Let_def res_bind_Inr_iff split: if_splits sum.splits prod.splits)
  have key: "user_key rec = normalize_username (Some name)" by (simp add: user_key_def rec)
  have "user_ok rec"
    using assms(1) normalize_role_value [OF t(1)] contact_strings_ok [OF t(2)] norm(1)
    by (auto simp: user_ok_def rec users_ok_def normalize_username_def)
  then show ?thesis
    using users_ok_insert [OF assms(1), of rec] norm(2) unfolding key s' by (simp add: rec)
qed

lemma create_user_exact:
  assumes "create_user name role display email phone hash s = (Inr r, s')"
  shows "rec_user_id r = user_next_id s" "rec_token_version r = 1" "rec_password r = serialize hash"
    "rec_username r = strip name" "get_by_username name s = None"
  using assms
  by (auto simp: create_user_def Let_def get_by_username_def split: if_splits sum.splits prod.splits)

lemma user_ok_bump: "user_ok r \<Longrightarrow> user_ok (r\<lparr>rec_token_version := rec_token_version r + 1\<rparr>)"
  "user_ok r \<Longrightarrow> user_ok (r\<lparr>rec_password := h, rec_token_version := rec_token_version r + 1\<rparr>)"
  by (simp_all add: user_ok_def)

lemma update_password_exact:
  assumes "users_ok s"
  shows "update_password name hash s =
    (case get_by_username name s of
       None \<Rightarrow> (Inl PyValueError, s)
     | Some r \<Rightarrow> (Inr (), put_user (user_key r)
         (r\<lparr>rec_password := serialize hash, rec_token_version := rec_token_version r + 1\<rparr>) s))"
proof (cases "map_of (by_username s) (normalize_username (Some name))")
  case None
  then show ?thesis by (simp add: update_password_def get_by_username_def Let_def)
next
  case (Some r)
  have k: "normalize_username (Some name) = user_key r" by (rule users_ok_by_name(1) [OF assms Some])
  have "user_ok r" using users_ok_by_id(3) [OF assms users_ok_by_name(2) [OF assms Some]] .
  then show ?thesis
    using Some user_key_nonempty [of r] by (simp add: update_password_def get_by_username_def Let_def k)
qed

lemma replaced_ok:
  assumes "users_ok s" and "get_user_by_id (rec_user_id r) s = Some r"
  shows "users_ok (put_user (user_key r) (r\<lparr>rec_token_version := rec_token_version r + 1\<rparr>) s)"
    and "users_ok (put_user (user_key r)
      (r\<lparr>rec_password := h, rec_token_version := rec_token_version r + 1\<rparr>) s)"
proof -
  have ok: "user_ok r" using users_ok_by_id(3) [OF assms(1)] assms(2) by (simp add: get_user_by_id_def)
  show "users_ok (put_user (user_key r) (r\<lparr>rec_token_version := rec_token_version r + 1\<rparr>) s)"
    by (rule users_ok_replace [OF assms]) (simp_all add: user_key_def user_ok_bump ok)
  show "users_ok (put_user (user_key r)
      (r\<lparr>rec_password := h, rec_token_version := rec_token_version r + 1\<rparr>) s)"
    by (rule users_ok_replace [OF assms]) (simp_all add: user_key_def user_ok_bump ok)
qed

lemma update_password_ok:
  assumes "users_ok s" and "update_password name hash s = (res, s')"
  shows "users_ok s'"
  using assms get_by_username_ok [OF assms(1), of name] replaced_ok(2) [OF assms(1)]
  by (auto simp: update_password_exact split: option.splits)

lemma increment_ok:
  assumes "users_ok s" and "increment_token_version_by_id i s = (res, s')"
  shows "users_ok s'"
proof (cases "get_user_by_id i s")
  case None
  then show ?thesis using assms by (simp add: increment_token_version_by_id_def)
next
  case (Some r)
  then have "rec_user_id r = i" using users_ok_by_id(1) [OF assms(1)] by (simp add: get_user_by_id_def)
  then show ?thesis
    using assms Some replaced_ok(1) [OF assms(1), of r]
    by (auto simp: increment_token_version_by_id_def increment_token_version_def Let_def user_key_def)
qed

end
