(* ===== verification/Authentication.thy ===== *)
theory Authentication
  imports Users
begin

text \<open>
  Login, registration and passwords: \<open>src/application/services/auth_service.py\<close>,
  \<open>src/application/services/runtime_user_factory.py\<close> and the use cases of
  \<open>src/application/use_cases/auth/\<close>.  The exceptions of \<open>application/exceptions/password_errors.py\<close> are
  their reason with the metadata they carry; any other exception is kept as it is.
\<close>

section \<open>State and exceptions\<close>

datatype auth_error =
    LoginRejected login_rejection "int option" string
  | RegistrationRejected registration_rejection "string option"
  | ChangeRejected password_change_rejection "int option" string
  | ResetRejected password_reset_rejection "int option" string
  | AuthError error

type_synonym 'a auth_result = "auth_error + 'a"

text \<open>The accounts, the session of the service, the caller as authorization sees it, the recorded events.\<close>

record auth_state =
  accounts :: user_repo
  auth_session :: "principal option"
  caller :: identity
  auth_events :: "(auth_fields \<times> time) list"

type_synonym 'a auth_usecase = "auth_state \<Rightarrow> 'a auth_result \<times> auth_state"

definition record_auth_event :: "auth_fields \<Rightarrow> time \<Rightarrow> auth_state \<Rightarrow> auth_state" where
  "record_auth_event e t s = s\<lparr>auth_events := auth_events s @ [(e, t)]\<rparr>"

definition deny :: "auth_operation \<Rightarrow> string option \<Rightarrow> permission list \<Rightarrow> time \<Rightarrow> 'a auth_usecase" where
  "deny op rid ps t s =
     (Inl (AuthError PermissionError), record_auth_event (EvAuthorizationDenied op RES_USER rid ps) t s)"

section \<open>The principal of a record\<close>

definition runtime_user :: "user_record \<Rightarrow> principal result" where
  "runtime_user r =
     (case contact_info_create (PyStr (rec_name r)) (PyStr (rec_email r)) (PyStr (rec_phone r)) of
        Inl e \<Rightarrow> Inl (if e = DomainValidationError then ValidationError else e)
      | Inr ci \<Rightarrow>
          (case role_of_value (rec_role r) of
             Inl _ \<Rightarrow> Inl ValidationError
           | Inr role \<Rightarrow>
               Inr \<lparr>user_id = rec_user_id r, username = rec_username r, principal_name = ci_name ci,
                    principal_email = ci_email ci, principal_phone = ci_phone ci,
                    principal_role = role\<rparr>))"

section \<open>The service\<close>

definition authenticate :: "kdf \<Rightarrow> string \<Rightarrow> string \<Rightarrow> user_repo \<Rightarrow> (principal \<times> user_record) auth_result" where
  "authenticate kdf name password s =
     (case get_by_username name s of
        None \<Rightarrow> Inl (LoginRejected LOGIN_USER_NOT_FOUND None name)
      | Some rec \<Rightarrow>
          (case res_bind (parse_password_hash (PyStr (rec_password rec))) (verify_password kdf password) of
             Inl e \<Rightarrow> Inl (LoginRejected LOGIN_INVALID_PASSWORD_HASH (Some (rec_user_id rec)) (rec_username rec))
           | Inr ok \<Rightarrow>
               if \<not> ok then Inl (LoginRejected LOGIN_INVALID_PASSWORD (Some (rec_user_id rec)) (rec_username rec))
               else
                 (case runtime_user rec of
                    Inl e \<Rightarrow>
                      Inl (if e = ValidationError
                           then LoginRejected LOGIN_INVALID_RUNTIME_USER (Some (rec_user_id rec)) (rec_username rec)
                           else AuthError e)
                  | Inr p \<Rightarrow> Inr (p, rec))))"

definition service_login :: "kdf \<Rightarrow> string \<Rightarrow> string \<Rightarrow> (principal \<times> user_record) auth_usecase" where
  "service_login kdf name password s =
     (case authenticate kdf name password (accounts s) of
        Inl e \<Rightarrow> (Inl e, s)
      | Inr (p, rec) \<Rightarrow> (Inr (p, rec), s\<lparr>auth_session := Some p\<rparr>))"

definition service_register ::
    "kdf \<Rightarrow> byte_string \<Rightarrow> string \<Rightarrow> role \<Rightarrow> string \<Rightarrow> string \<Rightarrow> string \<Rightarrow> string \<Rightarrow> user_record auth_usecase" where
  "service_register kdf salt name role display email phone password s =
     (let clean = normalize_username (Some name)
      in if clean = [] then (Inl (RegistrationRejected REG_INVALID_USERNAME None), s)
         else if get_by_username clean (accounts s) \<noteq> None
         then (Inl (RegistrationRejected REG_USERNAME_ALREADY_EXISTS (Some clean)), s)
         else
           (case contact_info_create (PyStr display) (PyStr email) (PyStr phone) of
              Inl e \<Rightarrow> (Inl (AuthError e), s)
            | Inr ci \<Rightarrow>
                (case hash_password kdf salt password of
                   Inl _ \<Rightarrow> (Inl (RegistrationRejected REG_PASSWORD_CRITERIA_NOT_MET (Some clean)), s)
                 | Inr hash \<Rightarrow>
                     (case create_user clean (Inr (PyStr (role_value role))) (PyStr (ci_name ci))
                          (PyStr (ci_email ci)) (PyStr (ci_phone ci)) hash (accounts s) of
                        (Inl DuplicateKeyError, a) \<Rightarrow>
                          (Inl (RegistrationRejected REG_USERNAME_ALREADY_EXISTS (Some clean)), s\<lparr>accounts := a\<rparr>)
                      | (Inl (StoreError e), a) \<Rightarrow>
                          (Inl (if e = PyValueError then RegistrationRejected REG_INVALID_USERNAME (Some clean)
                                else AuthError e), s\<lparr>accounts := a\<rparr>)
                      | (Inr rec, a) \<Rightarrow> (Inr rec, s\<lparr>accounts := a\<rparr>)))))"

definition service_set_password ::
    "kdf \<Rightarrow> byte_string \<Rightarrow> string \<Rightarrow> string \<Rightarrow> user_repo \<Rightarrow> unit result \<times> user_repo" where
  "service_set_password kdf salt name new_password s =
     (if length new_password < 8 then (Inl ValidationError, s)
      else
        (case hash_password kdf salt new_password of
           Inl _ \<Rightarrow> (Inl ValidationError, s)
         | Inr hash \<Rightarrow>
             (case update_password name hash s of
                (Inl _, s') \<Rightarrow> (Inl NotFoundError, s')
              | (Inr _, s') \<Rightarrow> (Inr (), s'))))"

definition service_change_password ::
    "kdf \<Rightarrow> byte_string \<Rightarrow> string \<Rightarrow> string \<Rightarrow> string \<Rightarrow> user_record auth_usecase" where
  "service_change_password kdf salt name old_password new_password s =
     (case get_by_username name (accounts s) of
        None \<Rightarrow> (Inl (ChangeRejected CHG_USER_NOT_FOUND None name), s)
      | Some rec \<Rightarrow>
          (let reject = (\<lambda>why. ChangeRejected why (Some (rec_user_id rec)) (rec_username rec))
           in case parse_password_hash (PyStr (rec_password rec)) of
                Inl _ \<Rightarrow> (Inl (reject CHG_INVALID_PASSWORD_HASH), s)
              | Inr hash \<Rightarrow>
                  (case (verify_password kdf old_password hash, verify_password kdf new_password hash) of
                     (Inr old_ok, Inr new_ok) \<Rightarrow>
                       if \<not> old_ok then (Inl (reject CHG_CURRENT_PASSWORD_INCORRECT), s)
                       else if new_ok then (Inl (reject CHG_SAME_AS_CURRENT_PASSWORD), s)
                       else
                         (case service_set_password kdf salt name new_password (accounts s) of
                            (Inl e, a) \<Rightarrow>
                              (Inl (if e = ValidationError then reject CHG_PASSWORD_CRITERIA_NOT_MET
                                    else reject CHG_USER_NOT_FOUND), s\<lparr>accounts := a\<rparr>)
                          | (Inr _, a) \<Rightarrow> (Inr rec, s\<lparr>accounts := a\<rparr>))
                   | _ \<Rightarrow> (Inl (AuthError PyValueError), s))))"

definition service_reset_password ::
    "kdf \<Rightarrow> byte_string \<Rightarrow> string \<Rightarrow> string \<Rightarrow> user_record auth_usecase" where
  "service_reset_password kdf salt name new_password s =
     (case get_by_username name (accounts s) of
        None \<Rightarrow> (Inl (ResetRejected RST_USER_NOT_FOUND None name), s)
      | Some rec \<Rightarrow>
          (case service_set_password kdf salt name new_password (accounts s) of
             (Inl e, a) \<Rightarrow>
               (Inl (ResetRejected (if e = ValidationError then RST_PASSWORD_CRITERIA_NOT_MET else RST_USER_NOT_FOUND)
                  (Some (rec_user_id rec)) (rec_username rec)), s\<lparr>accounts := a\<rparr>)
           | (Inr _, a) \<Rightarrow> (Inr rec, s\<lparr>accounts := a\<rparr>)))"

section \<open>The use cases\<close>

definition login :: "kdf \<Rightarrow> string \<Rightarrow> string \<Rightarrow> time \<Rightarrow> (user_record \<times> principal) auth_usecase" where
  "login kdf name password clock s =
     (case service_login kdf name password s of
        (Inl (LoginRejected why i u), s') \<Rightarrow>
          (Inl (LoginRejected why i u), record_auth_event (EvUserLoginRejected i (Some u) why) clock s')
      | (Inl e, s') \<Rightarrow> (Inl e, s')
      | (Inr (p, rec), s') \<Rightarrow>
          (Inr (rec, p),
           record_auth_event (EvUserAuthenticated (user_id p) (username p) (principal_role p)) clock s'))"

definition logout :: "time \<Rightarrow> unit auth_usecase" where
  "logout clock s =
     (case current_user (caller s) of
        None \<Rightarrow> deny OP_SESSION_END None [AUTHENTICATED] clock s
      | Some u \<Rightarrow>
          if strip (username u) = [] then deny OP_SESSION_END (Some (str_int (user_id u))) [AUTHENTICATED] clock s
          else
            (let a = snd (increment_token_version_by_id (user_id u) (accounts s));
                 s1 = s\<lparr>accounts := a, auth_session := None\<rparr>
             in (Inr (), record_auth_event (EvUserSessionEnded (user_id u) (username u)) clock
                  (record_auth_event (EvUserTokensRevoked (user_id u) (username u) REVOKED_USER_LOGOUT) clock s1))))"

definition register_user ::
    "kdf \<Rightarrow> byte_string \<Rightarrow> string \<Rightarrow> role \<Rightarrow> string \<Rightarrow> string \<Rightarrow> string \<Rightarrow> string \<Rightarrow> time \<Rightarrow>
       user_record auth_usecase" where
  "register_user kdf salt name role display email phone password clock s =
     (if current_user (caller s) = None \<or> \<not> has_permission (caller s) ADMIN_USER
      then deny OP_USER_REGISTER
             (let u = normalize_username (Some name) in if u = [] then None else Some u) [ADMIN_USER] clock s
      else
        (case service_register kdf salt name role display email phone password s of
           (Inl (RegistrationRejected why u), s') \<Rightarrow>
             (Inl (RegistrationRejected why u), record_auth_event (EvUserRegistrationRejected u why) clock s')
         | (Inl e, s') \<Rightarrow> (Inl e, s')
         | (Inr rec, s') \<Rightarrow>
             (case role_of_value (rec_role rec) of
                Inl e \<Rightarrow> (Inl (AuthError e), s')
              | Inr r \<Rightarrow>
                  (Inr rec, record_auth_event (EvUserRegistered (rec_user_id rec) (rec_username rec) r) clock s'))))"

definition change_password :: "kdf \<Rightarrow> byte_string \<Rightarrow> string \<Rightarrow> string \<Rightarrow> time \<Rightarrow> unit auth_usecase" where
  "change_password kdf salt old_password new_password clock s =
     (case current_user (caller s) of
        None \<Rightarrow> deny OP_USER_CHANGE_PASSWORD None [AUTHENTICATED] clock s
      | Some u \<Rightarrow>
          (let name = normalize_username (Some (username u))
           in if name = [] then
                (Inl (AuthError ValidationError),
                 record_auth_event (EvUserPasswordChangeRejected (Some (user_id u)) (Some (username u))
                   CHG_INVALID_USERNAME) clock s)
              else
                (case service_change_password kdf salt name old_password new_password s of
                   (Inl (ChangeRejected why i n), s') \<Rightarrow>
                     (Inl (ChangeRejected why i n),
                      record_auth_event (EvUserPasswordChangeRejected i (Some n) why) clock s')
                 | (Inl e, s') \<Rightarrow> (Inl e, s')
                 | (Inr rec, s') \<Rightarrow>
                     (Inr (), record_auth_event (EvUserPasswordChanged (rec_user_id rec) (rec_username rec))
                        clock s'))))"

text \<open>\<open>_target_user_id\<close>: the target is only named when it is the caller.\<close>

definition target_user_id :: "string \<Rightarrow> identity \<Rightarrow> int option" where
  "target_user_id name a =
     (case current_user a of
        None \<Rightarrow> None
      | Some u \<Rightarrow> if normalize_username (Some (username u)) = name then Some (user_id u) else None)"

definition reset_password :: "kdf \<Rightarrow> byte_string \<Rightarrow> string \<Rightarrow> string \<Rightarrow> time \<Rightarrow> unit auth_usecase" where
  "reset_password kdf salt target new_password clock s =
     (let name = normalize_username (Some target)
      in if current_user (caller s) = None \<or> \<not> has_permission (caller s) ADMIN_USER
         then deny OP_USER_RESET_PASSWORD (map_option str_int (target_user_id name (caller s))) [ADMIN_USER] clock s
         else if name = [] then
           (Inl (AuthError ValidationError),
            record_auth_event (EvUserPasswordResetRejected None (Some target) RST_INVALID_USERNAME) clock s)
         else
           (case service_reset_password kdf salt name new_password s of
              (Inl (ResetRejected why i n), s') \<Rightarrow>
                (Inl (ResetRejected why i n),
                 record_auth_event (EvUserPasswordResetRejected i (Some n) why) clock s')
            | (Inl e, s') \<Rightarrow> (Inl e, s')
            | (Inr rec, s') \<Rightarrow>
                (Inr (), record_auth_event (EvUserPasswordReset (rec_user_id rec) (rec_username rec)) clock s')))"

definition who_am_i :: "auth_state \<Rightarrow> principal option" where
  "who_am_i s = auth_session s"

section \<open>The accounts stay sound\<close>

lemma service_set_password_cases:
  assumes "users_ok s"
  shows "service_set_password kdf salt name new s =
    (case (hash_password kdf salt new, get_by_username name s) of
       (Inl _, _) \<Rightarrow> (Inl ValidationError, s)
     | (Inr _, None) \<Rightarrow> (Inl NotFoundError, s)
     | (Inr hash, Some r) \<Rightarrow> (Inr (), put_user (user_key r)
         (r\<lparr>rec_password := serialize hash, rec_token_version := rec_token_version r + 1\<rparr>) s))"
proof -
  have "hash_password kdf salt new = Inl PyValueError" if "length new < 8"
    using that by (simp add: hash_password_def validate_password_strength_def MIN_PASSWORD_LENGTH_def)
  then show ?thesis
    by (auto simp: service_set_password_def update_password_exact [OF assms] split: sum.split option.split)
qed

lemma set_password_ok:
  assumes "users_ok s" and "service_set_password kdf salt name new s = (res, s')"
  shows "users_ok s'"
  using assms get_by_username_ok [OF assms(1), of name] replaced_ok(2) [OF assms(1)]
  by (auto simp: service_set_password_cases split: sum.splits option.splits)

lemma accounts_record [simp]: "accounts (record_auth_event e t s) = accounts s"
  by (simp add: record_auth_event_def)

lemma accounts_deny: "deny op rid ps t s = (res, s') \<Longrightarrow> accounts s' = accounts s \<and> res = Inl (AuthError PermissionError)"
  by (auto simp: deny_def)

lemma login_accounts: "login kdf name password clock s = (res, s') \<Longrightarrow> accounts s' = accounts s"
  by (auto simp: login_def service_login_def split: sum.splits auth_error.splits prod.splits)

lemma service_register_ok:
  "users_ok (accounts s) \<Longrightarrow> service_register kdf salt name role display email phone password s = (res, s') \<Longrightarrow>
     users_ok (accounts s')"
  by (auto simp: service_register_def Let_def dest: create_user_ok
      split: if_splits sum.splits prod.splits store_error.splits)

lemma auth_steps_ok:
  assumes "users_ok (accounts s)"
  shows "login kdf name password clock s = (r1, s1) \<Longrightarrow> users_ok (accounts s1)"
    and "logout clock s = (r2, s2) \<Longrightarrow> users_ok (accounts s2)"
    and "register_user kdf salt name role display email phone password clock s = (r3, s3) \<Longrightarrow> users_ok (accounts s3)"
    and "change_password kdf salt old new clock s = (r4, s4) \<Longrightarrow> users_ok (accounts s4)"
    and "reset_password kdf salt name new clock s = (r5, s5) \<Longrightarrow> users_ok (accounts s5)"
proof -
  show "login kdf name password clock s = (r1, s1) \<Longrightarrow> users_ok (accounts s1)"
    using assms login_accounts by metis
  have "users_ok (snd (increment_token_version_by_id i (accounts s)))" for i
    using increment_ok [OF assms] by (metis prod.collapse)
  then show "logout clock s = (r2, s2) \<Longrightarrow> users_ok (accounts s2)"
    using assms by (auto simp: logout_def Let_def deny_def split: option.splits if_splits)
  show "register_user kdf salt name role display email phone password clock s = (r3, s3) \<Longrightarrow> users_ok (accounts s3)"
    using assms service_register_ok [OF assms]
    by (auto simp: register_user_def deny_def split: if_splits prod.splits sum.splits auth_error.splits)
  have change: "service_change_password kdf salt n old new s = (r, s') \<Longrightarrow> users_ok (accounts s')" for n r s'
    using assms set_password_ok [OF assms]
    by (auto simp: service_change_password_def Let_def split: option.splits sum.splits if_splits prod.splits)
  show "change_password kdf salt old new clock s = (r4, s4) \<Longrightarrow> users_ok (accounts s4)"
    using assms change
    by (auto simp: change_password_def Let_def deny_def
        split: option.splits if_splits prod.splits sum.splits auth_error.splits)
  have reset: "service_reset_password kdf salt n new s = (r, s') \<Longrightarrow> users_ok (accounts s')" for n r s'
    using assms set_password_ok [OF assms]
    by (auto simp: service_reset_password_def split: option.splits sum.splits prod.splits)
  show "reset_password kdf salt name new clock s = (r5, s5) \<Longrightarrow> users_ok (accounts s5)"
    using assms reset
    by (auto simp: reset_password_def Let_def deny_def
        split: if_splits prod.splits sum.splits auth_error.splits)
qed


section \<open>A stored account has a principal\<close>

lemma role_of_role_value [simp]: "role_of_value (role_value r) = Inr r"
  by (cases r) (simp_all add: role_of_value_def enum_lookup_def role_members_def role_value_def)

lemma runtime_user_ok:
  assumes "user_ok r"
  shows "\<exists>p. runtime_user r = Inr p \<and> user_id p = rec_user_id r \<and> username p = rec_username r \<and>
    role_value (principal_role p) = rec_role r"
proof -
  obtain role where role: "rec_role r = role_value role" using assms by (auto simp: user_ok_def)
  have "contact_info_create (PyStr (rec_name r)) (PyStr (rec_email r)) (PyStr (rec_phone r)) =
      Inr \<lparr>ci_name = rec_name r, ci_email = rec_email r, ci_phone = rec_phone r\<rparr>"
    using assms by (simp add: contact_info_create_iff user_ok_def contact_ok_def)
  then show ?thesis by (simp add: runtime_user_def role)
qed

lemma found_ok: "users_ok s \<Longrightarrow> get_by_username name s = Some r \<Longrightarrow> user_ok r"
  using get_by_username_ok [of s name r] users_ok_by_id(3) [of s] by (auto simp: get_user_by_id_def)

text \<open>A password is accepted when the stored hash is readable and verifies it.\<close>

definition accepts :: "kdf \<Rightarrow> string \<Rightarrow> string \<Rightarrow> user_repo \<Rightarrow> bool" where
  "accepts kdf name password s = (case authenticate kdf name password s of Inl _ \<Rightarrow> False | Inr _ \<Rightarrow> True)"

lemma authenticate_iff:
  assumes "users_ok s"
  shows "accepts kdf name password s \<longleftrightarrow>
    (\<exists>r. get_by_username name s = Some r \<and>
       res_bind (parse_password_hash (PyStr (rec_password r))) (verify_password kdf password) = Inr True)"
proof (cases "get_by_username name s")
  case None
  then show ?thesis by (simp add: accepts_def authenticate_def)
next
  case (Some r)
  obtain p where "runtime_user r = Inr p" using runtime_user_ok [OF found_ok [OF assms Some]] by blast
  then show ?thesis using Some by (auto simp: accepts_def authenticate_def split: sum.split)
qed

section \<open>Setting a password\<close>

definition good_kdf :: "kdf \<Rightarrow> byte_string \<Rightarrow> bool" where
  "good_kdf kdf salt \<longleftrightarrow> length salt = SALT_BYTES \<and> (\<forall>p. kdf PBKDF2_ALGO p salt PBKDF2_ITERATIONS \<noteq> [])"

lemma get_by_username_put:
  assumes ok: "users_ok s" and r: "get_by_username name s = Some r"
    and same: "rec_user_id r' = rec_user_id r" "user_key r' = user_key r" "user_ok r'"
  shows "get_by_username n (put_user (user_key r) r' s) =
    (if normalize_username (Some n) = normalize_username (Some name) then Some r' else get_by_username n s)"
proof -
  have "get_user_by_id (rec_user_id r) s = Some r" "user_key r = normalize_username (Some name)"
    using r by (simp_all add: get_by_username_ok [OF ok])
  moreover have "user_key r' \<noteq> []" by (rule user_key_nonempty [OF same(3)])
  ultimately show ?thesis
    using same(2) by (simp add: get_by_username_def Let_def by_username_put)
qed

lemma password_set:
  assumes ok: "users_ok s" and good: "good_kdf kdf salt"
    and set: "service_set_password kdf salt name new s = (Inr (), s')"
  obtains r r' where "get_by_username name s = Some r" "rec_user_id r' = rec_user_id r"
    "rec_username r' = rec_username r" "rec_token_version r' = rec_token_version r + 1"
    "s' = put_user (user_key r) r' s"
    "\<And>n. get_by_username n s' =
       (if normalize_username (Some n) = normalize_username (Some name) then Some r' else get_by_username n s)"
    "\<And>p. accepts kdf name p s' \<longleftrightarrow>
       kdf PBKDF2_ALGO p salt PBKDF2_ITERATIONS = kdf PBKDF2_ALGO new salt PBKDF2_ITERATIONS"
proof -
  obtain h r where h: "hash_password kdf salt new = Inr h" and r: "get_by_username name s = Some r"
    and s': "s' = put_user (user_key r)
       (r\<lparr>rec_password := serialize h, rec_token_version := rec_token_version r + 1\<rparr>) s"
    using set by (auto simp: service_set_password_cases [OF ok] split: sum.splits option.splits)
  let ?r = "r\<lparr>rec_password := serialize h, rec_token_version := rec_token_version r + 1\<rparr>"
  have ok': "users_ok s'" by (rule set_password_ok [OF ok set])
  have user: "user_ok ?r" using user_ok_bump(2) [OF found_ok [OF ok r]] by simp
  have get: "get_by_username n s' =
      (if normalize_username (Some n) = normalize_username (Some name) then Some ?r else get_by_username n s)" for n
    unfolding s' by (rule get_by_username_put [OF ok r]) (simp_all add: user_key_def user)
  have lens: "length salt = SALT_BYTES" "kdf PBKDF2_ALGO new salt PBKDF2_ITERATIONS \<noteq> []"
    using good by (simp_all add: good_kdf_def)
  have "accepts kdf name p s' \<longleftrightarrow>
      kdf PBKDF2_ALGO p salt PBKDF2_ITERATIONS = kdf PBKDF2_ALGO new salt PBKDF2_ITERATIONS" for p
    using hashed_password(1) [OF h lens] hashed_password(2) [where p = p, OF h lens] by (simp add: authenticate_iff [OF ok'] get)
  then show ?thesis using that [of r ?r] r s' get by simp
qed

lemma change_succeeds:
  assumes ok: "users_ok (accounts s)" and good: "good_kdf kdf salt"
    and change: "change_password kdf salt old new clock s = (Inr (), s')"
  shows "\<exists>u r r'. current_user (caller s) = Some u \<and>
    get_by_username (username u) (accounts s) = Some r \<and>
    accepts kdf (username u) old (accounts s) \<and>
    \<not> accepts kdf (username u) new (accounts s) \<and>
    rec_user_id r' = rec_user_id r \<and> rec_token_version r' = rec_token_version r + 1 \<and>
    (\<forall>n. get_by_username n (accounts s') =
       (if normalize_username (Some n) = normalize_username (Some (username u)) then Some r'
        else get_by_username n (accounts s))) \<and>
    (\<forall>p. accepts kdf (username u) p (accounts s') \<longleftrightarrow>
       kdf PBKDF2_ALGO p salt PBKDF2_ITERATIONS = kdf PBKDF2_ALGO new salt PBKDF2_ITERATIONS) \<and>
    auth_events s' = auth_events s @ [(EvUserPasswordChanged (rec_user_id r) (rec_username r), clock)]"
proof -
  obtain u where u: "current_user (caller s) = Some u"
    using change by (auto simp: change_password_def deny_def split: option.splits)
  let ?n = "normalize_username (Some (username u))"
  have norm: "?n \<noteq> []"
    using change u by (auto simp: change_password_def Let_def)
  have name: "get_by_username ?n = get_by_username (username u)"
    by (rule ext) (simp add: get_by_username_def)
  obtain rec s1 where serv: "service_change_password kdf salt ?n old new s = (Inr rec, s1)"
    and s': "s' = record_auth_event (EvUserPasswordChanged (rec_user_id rec) (rec_username rec)) clock s1"
    using change u norm
    by (auto simp: change_password_def Let_def split: prod.splits sum.splits auth_error.splits)
  then obtain r hash a where r: "get_by_username (username u) (accounts s) = Some r" "rec = r"
    and hash: "parse_password_hash (PyStr (rec_password r)) = Inr hash"
      "verify_password kdf old hash = Inr True" "verify_password kdf new hash = Inr False"
    and set: "service_set_password kdf salt ?n new (accounts s) = (Inr (), a)" and s1: "s1 = s\<lparr>accounts := a\<rparr>"
    by (auto simp: service_change_password_def name Let_def split: option.splits sum.splits if_splits prod.splits)
  have ok_old: "accepts kdf (username u) old (accounts s)"
      "\<not> accepts kdf (username u) new (accounts s)"
    using r hash by (simp_all add: authenticate_iff [OF ok])
  show ?thesis
  proof (rule password_set [OF ok good set])
    fix q r'
    assume q: "get_by_username ?n (accounts s) = Some q" "rec_user_id r' = rec_user_id q"
      "rec_username r' = rec_username q" "rec_token_version r' = rec_token_version q + 1"
      and a: "\<And>n. get_by_username n a =
       (if normalize_username (Some n) = normalize_username (Some ?n) then Some r'
        else get_by_username n (accounts s))"
      and p: "\<And>p. accepts kdf ?n p a \<longleftrightarrow>
       kdf PBKDF2_ALGO p salt PBKDF2_ITERATIONS = kdf PBKDF2_ALGO new salt PBKDF2_ITERATIONS"
    have q': "q = r" using q(1) r by (simp add: name)
    have ok_a: "users_ok a" by (rule set_password_ok [OF ok set])
    have p': "accepts kdf (username u) p a \<longleftrightarrow>
       kdf PBKDF2_ALGO p salt PBKDF2_ITERATIONS = kdf PBKDF2_ALGO new salt PBKDF2_ITERATIONS" for p
      using p [of p] by (simp add: authenticate_iff [OF ok_a] name)
    have acc: "accounts s' = a" "auth_events s' = auth_events s @
        [(EvUserPasswordChanged (rec_user_id r) (rec_username r), clock)]"
      by (simp_all add: s' s1 record_auth_event_def r)
    show ?thesis
      using u r(1) ok_old q(2,4) a p' acc by (auto simp: q')
  qed
qed


section \<open>Refused operations\<close>

lemma service_register_refused:
  "service_register kdf salt name role display email phone password s = (Inl e, s') \<Longrightarrow> s' = s"
  by (auto simp: service_register_def create_user_def Let_def
      split: if_splits sum.splits prod.splits store_error.splits)

lemma set_password_refused: "service_set_password kdf salt name new s = (Inl e, s') \<Longrightarrow> s' = s"
  by (auto simp: service_set_password_def update_password_def Let_def
      split: if_splits sum.splits option.splits prod.splits)

lemma service_change_refused:
  "service_change_password kdf salt name old new s = (Inl e, s') \<Longrightarrow> s' = s"
  by (auto simp: service_change_password_def Let_def
      split: option.splits sum.splits if_splits prod.splits dest!: set_password_refused)

lemma service_reset_refused:
  "service_reset_password kdf salt name new s = (Inl e, s') \<Longrightarrow> s' = s"
  by (auto simp: service_reset_password_def
      split: option.splits sum.splits prod.splits dest!: set_password_refused)

text \<open>A failed use case has no effect but its event.\<close>

definition only_records :: "auth_state \<Rightarrow> auth_state \<Rightarrow> bool" where
  "only_records s s' \<longleftrightarrow> s' = s \<or> (\<exists>e t. s' = record_auth_event e t s)"

lemma only_records_simps [simp]: "only_records s s" "only_records s (record_auth_event e t s)"
  by (auto simp: only_records_def)

lemma refusals:
  "login kdf name password t s = (Inl e, s1) \<Longrightarrow> only_records s s1"
  "logout t s = (Inl e, s2) \<Longrightarrow> only_records s s2"
  "register_user kdf salt name role display email phone password t s = (Inl e, s3) \<Longrightarrow> only_records s s3"
  "change_password kdf salt old new t s = (Inl e, s4) \<Longrightarrow> only_records s s4"
  "reset_password kdf salt name new t s = (Inl e, s5) \<Longrightarrow> only_records s s5"
proof -
  show "login kdf name password t s = (Inl e, s1) \<Longrightarrow> only_records s s1"
    by (auto simp: login_def service_login_def split: sum.splits auth_error.splits prod.splits)
  show "logout t s = (Inl e, s2) \<Longrightarrow> only_records s s2"
    by (auto simp: logout_def deny_def Let_def split: option.splits if_splits)
  show "change_password kdf salt old new t s = (Inl e, s4) \<Longrightarrow> only_records s s4"
    by (auto simp: change_password_def deny_def Let_def split: option.splits if_splits prod.splits sum.splits
        auth_error.splits dest!: service_change_refused)
  show "reset_password kdf salt name new t s = (Inl e, s5) \<Longrightarrow> only_records s s5"
    by (auto simp: reset_password_def deny_def Let_def split: if_splits prod.splits sum.splits
        auth_error.splits dest!: service_reset_refused)
  have reg: "only_records s s'"
    if "service_register kdf salt name role display email phone password s = (Inr rec, s')"
      "role_of_value (rec_role rec) = Inl err" for rec s' err
  proof -
    have "\<exists>role. rec_role rec = role_value role"
      using that(1) by (auto simp: service_register_def create_user_def Let_def res_bind_Inr_iff
          split: if_splits sum.splits prod.splits store_error.splits dest: normalize_role_value)
    then show ?thesis using that(2) by auto
  qed
  show "register_user kdf salt name role display email phone password t s = (Inl e, s3) \<Longrightarrow> only_records s s3"
    by (auto simp: register_user_def deny_def split: if_splits prod.splits sum.splits auth_error.splits
        dest: reg dest!: service_register_refused)
qed

section \<open>Sessions over time\<close>

text \<open>One use case after the other, on requests of any caller.\<close>

inductive auth_step :: "kdf \<Rightarrow> auth_state \<Rightarrow> auth_state \<Rightarrow> bool" for kdf where
  Bind: "auth_step kdf s (s\<lparr>caller := c\<rparr>)"
| Login: "auth_step kdf s (snd (login kdf name password t s))"
| Logout: "auth_step kdf s (snd (logout t s))"
| Register: "auth_step kdf s (snd (register_user kdf salt name role display email phone password t s))"
| Change: "auth_step kdf s (snd (change_password kdf salt old new t s))"
| Reset: "auth_step kdf s (snd (reset_password kdf salt name new t s))"

inductive_cases auth_stepE: "auth_step kdf s s'"

lemma auth_step_ok: "auth_step kdf s s' \<Longrightarrow> users_ok (accounts s) \<Longrightarrow> users_ok (accounts s')"
  by (erule auth_stepE) (auto intro: auth_steps_ok [OF _ prod.collapse [symmetric]])

text \<open>An account never disappears, keeps its name, and its version never falls.\<close>

definition grown :: "user_repo \<Rightarrow> user_repo \<Rightarrow> bool" where
  "grown a b \<longleftrightarrow>
     (\<forall>i r. get_user_by_id i a = Some r \<longrightarrow>
        (\<exists>r'. get_user_by_id i b = Some r' \<and> rec_username r' = rec_username r \<and>
           rec_token_version r \<le> rec_token_version r'))"

lemma grown_refl [simp]: "grown a a"
  by (simp add: grown_def)

lemma grownD:
  assumes "grown a b" and "get_user_by_id i a = Some r"
  obtains r' where "get_user_by_id i b = Some r'" "rec_username r' = rec_username r"
    "rec_token_version r \<le> rec_token_version r'"
  using assms unfolding grown_def by blast

lemma grown_trans:
  assumes "grown a b" and "grown b c"
  shows "grown a c"
  unfolding grown_def
proof (intro allI impI)
  fix i r assume "get_user_by_id i a = Some r"
  with assms(1) obtain q where "get_user_by_id i b = Some q" "rec_username q = rec_username r"
    "rec_token_version r \<le> rec_token_version q" by (rule grownD)
  moreover obtain p where "get_user_by_id i c = Some p" "rec_username p = rec_username q"
    "rec_token_version q \<le> rec_token_version p"
    using assms(2) \<open>get_user_by_id i b = Some q\<close> by (rule grownD)
  ultimately show "\<exists>p. get_user_by_id i c = Some p \<and> rec_username p = rec_username r \<and>
      rec_token_version r \<le> rec_token_version p" by auto
qed

lemma grown_put:
  assumes "get_user_by_id (rec_user_id r') a = Some r" "rec_username r' = rec_username r"
    "rec_token_version r \<le> rec_token_version r'"
  shows "grown a (put_user k r' a)"
  using assms by (simp add: grown_def get_put_user)

lemma grown_set_password:
  assumes "users_ok a" "service_set_password kdf salt name new a = (res, b)"
  shows "grown a b"
proof (cases "b = a")
  case False
  then obtain h r where r: "get_by_username name a = Some r"
    and b: "b = put_user (user_key r) (r\<lparr>rec_password := serialize h,
        rec_token_version := rec_token_version r + 1\<rparr>) a"
    using assms(2) by (auto simp: service_set_password_cases [OF assms(1)] split: sum.splits option.splits)
  then show ?thesis by (auto intro!: grown_put simp: get_by_username_ok [OF assms(1)])
qed simp

lemma grown_increment: "users_ok a \<Longrightarrow> grown a (snd (increment_token_version_by_id i a))"
  using users_ok_by_id(1) [of a i]
  by (auto simp: increment_token_version_by_id_def increment_token_version_def Let_def
      get_user_by_id_def [symmetric] intro: grown_put split: option.split)

lemma grown_create:
  assumes ok: "users_ok a" and create: "create_user name role display email phone h a = (res, b)"
  shows "grown a b"
proof -
  have fresh: "get_user_by_id (user_next_id a) a = None"
    using users_ok_by_id(2) [OF ok, of "user_next_id a"] by (cases "get_user_by_id (user_next_id a) a")
      (auto simp: get_user_by_id_def)
  have "b = a \<or> (\<exists>r. rec_user_id r = user_next_id a \<and>
      b = (put_user (normalize_username (Some name)) r a)\<lparr>user_next_id := user_next_id a + 1\<rparr>)"
  proof (cases res)
    case (Inl e)
    then show ?thesis using create by (auto simp: create_user_def Let_def split: if_splits sum.splits prod.splits)
  next
    case (Inr r)
    then have "b = (put_user (normalize_username (Some name)) r a)\<lparr>user_next_id := user_next_id a + 1\<rparr>"
      using create by (auto simp: create_user_def Let_def split: if_splits sum.splits prod.splits)
    then show ?thesis using create_user_exact(1) [of name role display email phone h a r b] create Inr by blast
  qed
  then show ?thesis
  proof
    assume "\<exists>r. rec_user_id r = user_next_id a \<and>
      b = (put_user (normalize_username (Some name)) r a)\<lparr>user_next_id := user_next_id a + 1\<rparr>"
    then obtain r where r: "rec_user_id r = user_next_id a"
      "b = (put_user (normalize_username (Some name)) r a)\<lparr>user_next_id := user_next_id a + 1\<rparr>" by blast
    have "get_user_by_id i b = (if i = user_next_id a then Some r else get_user_by_id i a)" for i
      using r by (simp add: get_user_by_id_def by_id_put)
    then show ?thesis using fresh by (simp add: grown_def)
  qed simp
qed

lemma auth_step_grown:
  assumes "auth_step kdf s s'" and ok: "users_ok (accounts s)"
  shows "grown (accounts s) (accounts s')"
  using assms(1)
proof cases
  case (Login name password t)
  then show ?thesis using login_accounts [OF prod.collapse [symmetric]] by (metis grown_refl)
next
  case (Logout t)
  then show ?thesis
    using grown_increment [OF ok] by (auto simp: logout_def deny_def Let_def split: option.splits if_splits)
next
  case (Register salt name role display email phone password t)
  have "grown (accounts s) (accounts (snd (service_register kdf salt name role display email phone password s)))"
    by (auto simp: service_register_def Let_def dest: grown_create [OF ok]
        split: sum.split prod.split store_error.split)
  then show ?thesis
    unfolding Register by (auto simp: register_user_def deny_def split: prod.splits sum.splits auth_error.splits)
next
  case (Change salt old new t)
  have "grown (accounts s) (accounts (snd (service_change_password kdf salt n old new s)))" for n
    by (auto simp: service_change_password_def Let_def dest: grown_set_password [OF ok]
        split: option.split sum.split prod.split)
  then show ?thesis
    unfolding Change
    by (auto simp: change_password_def deny_def Let_def split: option.splits prod.splits sum.splits auth_error.splits)
       (metis snd_conv)+
next
  case (Reset salt name new t)
  have "grown (accounts s) (accounts (snd (service_reset_password kdf salt n new s)))" for n
    by (auto simp: service_reset_password_def dest: grown_set_password [OF ok]
        split: option.split sum.split prod.split)
  then show ?thesis
    unfolding Reset
    by (auto simp: reset_password_def deny_def Let_def split: prod.splits sum.splits auth_error.splits)
       (metis snd_conv)+
qed simp

lemma auth_steps_grown:
  "(auth_step kdf)\<^sup>*\<^sup>* s s' \<Longrightarrow> users_ok (accounts s) \<Longrightarrow> users_ok (accounts s') \<and> grown (accounts s) (accounts s')"
  by (induction rule: rtranclp_induct) (auto intro: auth_step_ok auth_step_grown grown_trans)

end
