(* ===== verification/Tokens.thy ===== *)
theory Tokens
  imports Authentication Delivery
begin

text \<open>
  Tokens and the identity of a request: \<open>src/adapters/driven/security/config.py\<close> and
  \<open>auth_token_service.py\<close>, \<open>src/adapters/driving/http/dependencies/auth.py\<close>, and the token endpoints of
  \<open>routers/api/auth_router.py\<close>.  The signing library (\<open>jose\<close>) is a pair of parameters, \<open>enc\<close> from claims,
  secret and algorithm to a token and \<open>dec\<close> from the time, a token, a secret and an algorithm to the
  claims, None where it raises \<open>JWTError\<close>.  \<open>jose_laws\<close> is its documented behaviour.  The clock and the
  generated \<open>jti\<close> are arguments, and so is the configuration, which the code loads once.
\<close>

section \<open>Configuration\<close>

record jwt_config =
  access_secret :: string
  refresh_secret :: string
  jwt_algorithm :: string
  access_token_expire_minutes :: int
  refresh_token_expire_days :: int

type_synonym environment = "string \<rightharpoonup> string"

definition get_env_var :: "environment \<Rightarrow> string \<Rightarrow> string option \<Rightarrow> string option" where
  "get_env_var env key fallback = (case env key of Some v \<Rightarrow> Some v | None \<Rightarrow> fallback)"

definition load_secret :: "environment \<Rightarrow> string \<Rightarrow> string result" where
  "load_secret env name =
     (case get_env_var env name (Some []) of
        None \<Rightarrow> Inl PyRuntimeError
      | Some secret \<Rightarrow> if length secret < 32 then Inl PyRuntimeError else Inr secret)"

definition env_int :: "environment \<Rightarrow> string \<Rightarrow> int \<Rightarrow> int result" where
  "env_int env key fallback =
     (case env key of None \<Rightarrow> Inr fallback | Some text \<Rightarrow> int_of_text text)"

definition load_jwt_config :: "environment \<Rightarrow> jwt_config result" where
  "load_jwt_config env =
     res_bind (load_secret env ''JWT_ACCESS_SECRET'') (\<lambda>access.
     res_bind (load_secret env ''JWT_REFRESH_SECRET'') (\<lambda>refresh.
       if access = refresh then Inl PyRuntimeError
       else
         res_bind (env_int env ''JWT_ACCESS_TOKEN_EXPIRE_MINUTES'' 15) (\<lambda>minutes.
         res_bind (env_int env ''JWT_REFRESH_TOKEN_EXPIRE_DAYS'' 7) (\<lambda>days.
           Inr \<lparr>access_secret = access, refresh_secret = refresh,
                jwt_algorithm = (case env ''JWT_ALGORITHM'' of None \<Rightarrow> ''HS256'' | Some a \<Rightarrow> a),
                access_token_expire_minutes = minutes, refresh_token_expire_days = days\<rparr>))))"

section \<open>Payloads\<close>

datatype token_type = ACCESS | REFRESH

definition token_type_value :: "token_type \<Rightarrow> string" where
  "token_type_value t = (case t of ACCESS \<Rightarrow> ''access'' | REFRESH \<Rightarrow> ''refresh'')"

record token_input =
  in_user_id :: int
  in_username :: string
  in_role :: string
  in_version :: int

record token_payload =
  tok_sub :: string
  tok_iat :: int
  tok_exp :: int
  tok_jti :: string
  tok_type :: token_type
  tok_username :: string
  tok_role :: string
  tok_version :: int

text \<open>\<open>asdict\<close>\<close>

definition claims_of :: "token_payload \<Rightarrow> json_object" where
  "claims_of p =
     [(''sub'', JStr (tok_sub p)), (''iat'', JInt (tok_iat p)), (''exp'', JInt (tok_exp p)),
      (''jti'', JStr (tok_jti p)), (''type'', JStr (token_type_value (tok_type p))),
      (''username'', JStr (tok_username p)), (''role'', JStr (tok_role p)),
      (''token_version'', JInt (tok_version p))]"

definition str_claim :: "json_object \<Rightarrow> string \<Rightarrow> string option" where
  "str_claim claims k = (case map_of claims k of Some (JStr s) \<Rightarrow> Some s | _ \<Rightarrow> None)"

definition int_claim :: "json_object \<Rightarrow> string \<Rightarrow> int option" where
  "int_claim claims k = (case map_of claims k of Some (JInt i) \<Rightarrow> Some i | _ \<Rightarrow> None)"

definition payload_of :: "json_object \<Rightarrow> token_payload option" where
  "payload_of claims =
     (case (str_claim claims ''sub'', int_claim claims ''iat'', int_claim claims ''exp'', str_claim claims ''jti'',
            Option.bind (str_claim claims ''type'') (enum_lookup token_type_value [ACCESS, REFRESH]),
            str_claim claims ''username'', str_claim claims ''role'', int_claim claims ''token_version'') of
        (Some sub, Some iat, Some expires, Some jti, Some t, Some name, Some role, Some version) \<Rightarrow>
          if strip sub = [] \<or> strip name = [] \<or> strip role = [] then None
          else if iat < 0 \<or> expires < 0 \<or> version < 1 then None
          else Some \<lparr>tok_sub = sub, tok_iat = iat, tok_exp = expires, tok_jti = jti, tok_type = t,
                     tok_username = name, tok_role = role, tok_version = version\<rparr>
      | _ \<Rightarrow> None)"

text \<open>\<open>int(now.timestamp())\<close>: the microseconds since 1970 divided in floating point, cut to an integer.\<close>

definition unix_epoch :: time where
  "unix_epoch = 62135596800000000"

definition timestamp_seconds :: "time \<Rightarrow> int" where
  "timestamp_seconds t =
     (let n = f64_div_int \<bar>t - unix_epoch\<bar> 1000000 div f64_unit
      in if t < unix_epoch then - n else n)"

definition expiration_time :: "jwt_config \<Rightarrow> token_type \<Rightarrow> time \<Rightarrow> time result" where
  "expiration_time cfg t now =
     res_bind (dt_add (PyDt now (Some (Some 0)))
       (case t of
          ACCESS \<Rightarrow> access_token_expire_minutes cfg * 60000000
        | REFRESH \<Rightarrow> refresh_token_expire_days cfg * us_per_day)) (\<lambda>d. Inr (dt_us d))"

definition build_payload :: "jwt_config \<Rightarrow> time \<Rightarrow> string \<Rightarrow> token_input \<Rightarrow> token_type \<Rightarrow> token_payload result" where
  "build_payload cfg now jti data t =
     res_bind (expiration_time cfg t now) (\<lambda>expire.
       Inr \<lparr>tok_sub = str_int (in_user_id data), tok_iat = timestamp_seconds now,
            tok_exp = timestamp_seconds expire, tok_jti = jti, tok_type = t,
            tok_username = in_username data, tok_role = in_role data, tok_version = in_version data\<rparr>)"

section \<open>Encoding and decoding\<close>

type_synonym 'tok jose_encode = "json_object \<Rightarrow> string \<Rightarrow> string \<Rightarrow> 'tok"
type_synonym 'tok jose_decode = "int \<Rightarrow> 'tok \<Rightarrow> string \<Rightarrow> string \<Rightarrow> json_object option"

definition secret_for :: "jwt_config \<Rightarrow> token_type \<Rightarrow> string" where
  "secret_for cfg t = (case t of ACCESS \<Rightarrow> access_secret cfg | REFRESH \<Rightarrow> refresh_secret cfg)"

definition create_token ::
    "jwt_config \<Rightarrow> 'tok jose_encode \<Rightarrow> time \<Rightarrow> string \<Rightarrow> token_input \<Rightarrow> token_type \<Rightarrow> 'tok result" where
  "create_token cfg enc now jti data t =
     res_bind (build_payload cfg now jti data t) (\<lambda>p.
       Inr (enc (claims_of p) (secret_for cfg t) (jwt_algorithm cfg)))"

definition decode_token ::
    "jwt_config \<Rightarrow> 'tok jose_decode \<Rightarrow> int \<Rightarrow> 'tok \<Rightarrow> token_type \<Rightarrow> token_payload option" where
  "decode_token cfg dec now token expected =
     (case dec now token (secret_for cfg expected) (jwt_algorithm cfg) of
        None \<Rightarrow> None
      | Some raw \<Rightarrow>
          (case payload_of raw of
             None \<Rightarrow> None
           | Some p \<Rightarrow> if tok_type p \<noteq> expected then None else Some p))"

text \<open>
  What the signing library promises of the claims this program signs: until they expire, decoding
  with their secret gives them back; whatever decodes from an encoded token is its claims; claims that
  decode have not expired; and what a token carries does not depend on the time.
\<close>

definition jose_laws :: "'tok jose_encode \<Rightarrow> 'tok jose_decode \<Rightarrow> bool" where
  "jose_laws enc dec \<longleftrightarrow>
     (\<forall>p now secret alg. 0 \<le> tok_iat p \<longrightarrow> now \<le> tok_exp p \<longrightarrow>
        dec now (enc (claims_of p) secret alg) secret alg = Some (claims_of p)) \<and>
     (\<forall>p now secret secret' alg alg' c.
        dec now (enc (claims_of p) secret alg) secret' alg' = Some c \<longrightarrow> c = claims_of p) \<and>
     (\<forall>now token secret alg c e.
        dec now token secret alg = Some c \<longrightarrow> map_of c ''exp'' = Some (JInt e) \<longrightarrow> now \<le> e) \<and>
     (\<forall>now now' token secret alg c c'.
        dec now token secret alg = Some c \<longrightarrow> dec now' token secret alg = Some c' \<longrightarrow> c = c')"

section \<open>The principal of a request\<close>

datatype http_error = HTTPException int string | HttpRaised auth_error

record http_principal =
  hp_record :: user_record
  hp_user :: principal
  hp_authz :: identity
  hp_token :: token_payload

definition unauthorized :: "string \<Rightarrow> http_error" where
  "unauthorized detail = HTTPException 401 detail"

definition principal_from_token ::
    "jwt_config \<Rightarrow> 'tok jose_decode \<Rightarrow> int \<Rightarrow> user_repo \<Rightarrow> 'tok \<Rightarrow> token_type \<Rightarrow> http_error + http_principal" where
  "principal_from_token cfg dec now repo token expected =
     (case decode_token cfg dec now token expected of
        None \<Rightarrow>
          Inl (unauthorized (if expected = REFRESH then ''Invalid or expired refresh token.''
                             else ''Invalid or expired token.''))
      | Some p \<Rightarrow>
          (case int_of_text (tok_sub p) of
             Inl _ \<Rightarrow> Inl (unauthorized ''Invalid token subject.'')
           | Inr i \<Rightarrow>
               (case get_user_by_id i repo of
                  None \<Rightarrow> Inl (unauthorized ''User not found.'')
                | Some r \<Rightarrow>
                    if rec_username r \<noteq> tok_username p then Inl (unauthorized ''Token user mismatch.'')
                    else if rec_token_version r \<noteq> tok_version p then Inl (unauthorized ''Token revoked.'')
                    else
                      (case runtime_user r of
                         Inl e \<Rightarrow>
                           Inl (if e = ValidationError then unauthorized ''Invalid user role''
                                else HttpRaised (AuthError e))
                       | Inr u \<Rightarrow>
                           Inr \<lparr>hp_record = r, hp_user = u,
                                hp_authz = \<lparr>session_user = Some u, bound_user = None\<rparr>, hp_token = p\<rparr>))))"

text \<open>\<open>get_optional_user\<close>: the token is None when it is missing or empty.\<close>

definition get_optional_user ::
    "jwt_config \<Rightarrow> 'tok jose_decode \<Rightarrow> int \<Rightarrow> user_repo \<Rightarrow> 'tok option \<Rightarrow> http_error + http_principal option" where
  "get_optional_user cfg dec now repo token =
     (case token of
        None \<Rightarrow> Inr None
      | Some t \<Rightarrow>
          (case principal_from_token cfg dec now repo t ACCESS of Inl e \<Rightarrow> Inl e | Inr p \<Rightarrow> Inr (Some p)))"

text \<open>\<open>get_current_user\<close>: the principal, with the context its request publishes events in.\<close>

definition get_current_user ::
    "jwt_config \<Rightarrow> 'tok jose_decode \<Rightarrow> int \<Rightarrow> user_repo \<Rightarrow> 'tok \<Rightarrow> event_context option \<Rightarrow>
       http_error + (http_principal \<times> event_context)" where
  "get_current_user cfg dec now repo token ctx =
     (case principal_from_token cfg dec now repo token ACCESS of
        Inl e \<Rightarrow> Inl e
      | Inr p \<Rightarrow>
          (case ctx of
             None \<Rightarrow> Inl (HttpRaised (AuthError PyRuntimeError))
           | Some c \<Rightarrow>
               (case new_event_actor (PyInt (user_id (hp_user p))) (PyStr (username (hp_user p))) of
                  Inl e \<Rightarrow> Inl (HttpRaised (AuthError e))
                | Inr actor \<Rightarrow> Inr (p, c\<lparr>ctx_actor := Some actor\<rparr>))))"

section \<open>The token endpoints\<close>

record 'tok token_response =
  resp_access :: 'tok
  resp_refresh :: 'tok
  resp_type :: string

definition token_input_of :: "user_record \<Rightarrow> token_input" where
  "token_input_of r =
     \<lparr>in_user_id = rec_user_id r, in_username = rec_username r, in_role = rec_role r,
      in_version = rec_token_version r\<rparr>"

text \<open>The two clock readings and the two identifiers of the tokens.\<close>

definition token_response ::
    "jwt_config \<Rightarrow> 'tok jose_encode \<Rightarrow> time \<times> string \<Rightarrow> time \<times> string \<Rightarrow> user_record \<Rightarrow>
       'tok token_response result" where
  "token_response cfg enc first second r =
     (case role_of_value (rec_role r) of
        Inl _ \<Rightarrow> Inl ValidationError
      | Inr role \<Rightarrow>
          (let data = (token_input_of r)\<lparr>in_role := role_value role\<rparr>
           in res_bind (create_token cfg enc (fst first) (snd first) data ACCESS) (\<lambda>a.
              res_bind (create_token cfg enc (fst second) (snd second) data REFRESH) (\<lambda>b.
                Inr \<lparr>resp_access = a, resp_refresh = b, resp_type = ''bearer''\<rparr>))))"

definition refresh_token ::
    "jwt_config \<Rightarrow> 'tok jose_encode \<Rightarrow> 'tok jose_decode \<Rightarrow> int \<Rightarrow> time \<times> string \<Rightarrow> time \<times> string \<Rightarrow>
       user_repo \<Rightarrow> 'tok \<Rightarrow> http_error + 'tok token_response" where
  "refresh_token cfg enc dec now first second repo token =
     (case principal_from_token cfg dec now repo token REFRESH of
        Inl e \<Rightarrow> Inl e
      | Inr p \<Rightarrow>
          (case token_response cfg enc first second (hp_record p) of
             Inl e \<Rightarrow>
               Inl (if e = ValidationError then unauthorized ''Invalid or expired refresh token.''
                    else HttpRaised (AuthError e))
           | Inr resp \<Rightarrow> Inr resp))"

text \<open>The login endpoint; the two rejections that are \<open>AuthenticationError\<close> are answered alike.\<close>

definition http_login ::
    "kdf \<Rightarrow> jwt_config \<Rightarrow> 'tok jose_encode \<Rightarrow> time \<times> string \<Rightarrow> time \<times> string \<Rightarrow> string \<Rightarrow> string \<Rightarrow> time \<Rightarrow>
       auth_state \<Rightarrow> (http_error + 'tok token_response) \<times> auth_state" where
  "http_login kdf cfg enc first second name password clock s =
     (case login kdf name password clock s of
        (Inl (LoginRejected why i u), s') \<Rightarrow>
          (Inl (if why = LOGIN_USER_NOT_FOUND \<or> why = LOGIN_INVALID_PASSWORD
                then unauthorized ''Invalid username or password.''
                else HttpRaised (LoginRejected why i u)), s')
      | (Inl e, s') \<Rightarrow> (Inl (HttpRaised e), s')
      | (Inr (r, p), s') \<Rightarrow>
          (case token_response cfg enc first second r of
             Inl e \<Rightarrow> (Inl (HttpRaised (AuthError e)), s')
           | Inr resp \<Rightarrow> (Inr resp, s')))"

section \<open>What tokens guarantee\<close>

lemma token_type_lookup [simp]: "enum_lookup token_type_value [ACCESS, REFRESH] (token_type_value t) = Some t"
  by (cases t) (simp_all add: enum_lookup_def token_type_value_def)

lemma claims_read [simp]:
  "str_claim (claims_of p) ''sub'' = Some (tok_sub p)" "int_claim (claims_of p) ''iat'' = Some (tok_iat p)"
  "int_claim (claims_of p) ''exp'' = Some (tok_exp p)" "str_claim (claims_of p) ''jti'' = Some (tok_jti p)"
  "str_claim (claims_of p) ''type'' = Some (token_type_value (tok_type p))"
  "str_claim (claims_of p) ''username'' = Some (tok_username p)"
  "str_claim (claims_of p) ''role'' = Some (tok_role p)"
  "int_claim (claims_of p) ''token_version'' = Some (tok_version p)"
  by (simp_all add: claims_of_def str_claim_def int_claim_def)

lemma payload_of_claims:
  assumes "strip (tok_sub p) \<noteq> []" "strip (tok_username p) \<noteq> []" "strip (tok_role p) \<noteq> []"
    "0 \<le> tok_iat p" "0 \<le> tok_exp p" "1 \<le> tok_version p"
  shows "payload_of (claims_of p) = Some p"
  using assms by (simp add: payload_of_def)

lemma payload_of_claims_inv: "payload_of (claims_of p) = Some q \<Longrightarrow> q = p"
  by (auto simp: payload_of_def split: if_splits)

lemma payload_ofD:
  assumes "payload_of c = Some p"
  shows "map_of c ''exp'' = Some (JInt (tok_exp p))" "1 \<le> tok_version p"
proof -
  have "int_claim c ''exp'' = Some (tok_exp p) \<and> 1 \<le> tok_version p"
    using assms unfolding payload_of_def by (auto split: option.splits if_splits)
  then show "map_of c ''exp'' = Some (JInt (tok_exp p))" "1 \<le> tok_version p"
    by (auto simp: int_claim_def split: option.splits json.splits)
qed

lemma jose_decodes:
  "jose_laws enc dec \<Longrightarrow> 0 \<le> tok_iat p \<Longrightarrow> now \<le> tok_exp p \<Longrightarrow>
     dec now (enc (claims_of p) secret alg) secret alg = Some (claims_of p)"
  by (simp add: jose_laws_def)

lemma jose_only_claims:
  "jose_laws enc dec \<Longrightarrow> dec now (enc (claims_of p) secret alg) secret' alg' = Some c \<Longrightarrow> c = claims_of p"
  by (simp add: jose_laws_def)

lemma jose_unexpired:
  "jose_laws enc dec \<Longrightarrow> dec now token secret alg = Some c \<Longrightarrow> map_of c ''exp'' = Some (JInt e) \<Longrightarrow> now \<le> e"
  unfolding jose_laws_def by metis

lemma jose_stable:
  "jose_laws enc dec \<Longrightarrow> dec now token secret alg = Some c \<Longrightarrow> dec now' token secret alg = Some c' \<Longrightarrow> c = c'"
  unfolding jose_laws_def by metis

lemma built_payload:
  assumes "build_payload cfg now jti data t = Inr p"
  shows "tok_sub p = str_int (in_user_id data)" "tok_iat p = timestamp_seconds now" "tok_type p = t"
    "tok_username p = in_username data" "tok_role p = in_role data" "tok_version p = in_version data"
  using assms by (auto simp: build_payload_def res_bind_Inr_iff)

lemma timestamp_nonneg: "unix_epoch \<le> t \<Longrightarrow> 0 \<le> timestamp_seconds t"
  by (auto simp: timestamp_seconds_def Let_def f64_div_int_def f64_unit_def
      intro!: pos_imp_zdiv_nonneg_iff [THEN iffD2] f64_round_nonneg)

text \<open>Everything that is checked of an accepted token.\<close>

lemma accepted_iff:
  assumes ok: "users_ok repo"
  shows "(\<exists>h. principal_from_token cfg dec now repo token t = Inr h \<and> hp_record h = r \<and> hp_token h = p) \<longleftrightarrow>
    decode_token cfg dec now token t = Some p \<and> int_of_text (tok_sub p) = Inr (rec_user_id r) \<and>
    get_user_by_id (rec_user_id r) repo = Some r \<and> tok_username p = rec_username r \<and>
    tok_version p = rec_token_version r" (is "?L \<longleftrightarrow> ?R")
proof
  assume ?L
  then obtain h where h: "principal_from_token cfg dec now repo token t = Inr h" "hp_record h = r" "hp_token h = p"
    by blast
  from h(1) obtain q i u where dec: "decode_token cfg dec now token t = Some q" "int_of_text (tok_sub q) = Inr i"
    and get: "get_user_by_id i repo = Some (hp_record h)" and same: "hp_token h = q"
      "rec_username (hp_record h) = tok_username q" "rec_token_version (hp_record h) = tok_version q"
    unfolding principal_from_token_def by (auto split: option.splits sum.splits if_splits)
  have "rec_user_id (hp_record h) = i"
    using users_ok_by_id(1) [OF ok] get by (simp add: get_user_by_id_def)
  then show ?R using dec get same h by simp
next
  assume R: ?R
  then have "user_ok r" using users_ok_by_id(3) [OF ok] by (auto simp: get_user_by_id_def)
  then obtain u where "runtime_user r = Inr u" using runtime_user_ok by blast
  then show ?L using R by (simp add: principal_from_token_def)
qed

lemma accepted_facts:
  assumes "users_ok repo" and "principal_from_token cfg dec now repo token t = Inr h"
  shows "decode_token cfg dec now token t = Some (hp_token h)"
    and "int_of_text (tok_sub (hp_token h)) = Inr (rec_user_id (hp_record h))"
    and "get_user_by_id (rec_user_id (hp_record h)) repo = Some (hp_record h)"
    and "tok_username (hp_token h) = rec_username (hp_record h)"
    and "tok_version (hp_token h) = rec_token_version (hp_record h)"
  using accepted_iff [OF assms(1), of cfg dec now token t "hp_record h" "hp_token h"] assms(2) by auto

text \<open>The token of an account carries that account.\<close>

lemma issued_payload:
  assumes laws: "jose_laws enc dec" and ok: "user_ok r" and size: "length (str_int (rec_user_id r)) \<le> 4300"
    and time: "unix_epoch \<le> start" "now \<le> tok_exp p" "0 \<le> now"
    and build: "build_payload cfg start jti (token_input_of r) t = Inr p"
  shows "decode_token cfg dec now (enc (claims_of p) (secret_for cfg t) (jwt_algorithm cfg)) t = Some p"
    and "int_of_text (tok_sub p) = Inr (rec_user_id r)"
    and "tok_username p = rec_username r" and "tok_version p = rec_token_version r"
proof -
  note b = built_payload [OF build]
  have iat: "0 \<le> tok_iat p" using b(2) timestamp_nonneg [OF time(1)] by simp
  have "dec now (enc (claims_of p) (secret_for cfg t) (jwt_algorithm cfg)) (secret_for cfg t) (jwt_algorithm cfg) =
      Some (claims_of p)"
    by (rule jose_decodes [OF laws iat time(2)])
  moreover have "payload_of (claims_of p) = Some p"
  proof (rule payload_of_claims)
    show "strip (tok_sub p) \<noteq> []" using str_int_solid by (simp add: b(1) token_input_of_def)
    show "strip (tok_username p) \<noteq> []" using ok by (simp add: b(4) token_input_of_def user_ok_def)
    obtain role where "rec_role r = role_value role" using ok by (auto simp: user_ok_def)
    then show "strip (tok_role p) \<noteq> []"
      by (cases role) (simp_all add: b(5) token_input_of_def role_value_def strip_def lstrip_def is_space_def code_def)
    show "1 \<le> tok_version p" using ok by (simp add: b(6) token_input_of_def user_ok_def)
  qed (use iat time in simp_all)
  ultimately show "decode_token cfg dec now (enc (claims_of p) (secret_for cfg t) (jwt_algorithm cfg)) t = Some p"
    using b(3) by (simp add: decode_token_def)
  show "int_of_text (tok_sub p) = Inr (rec_user_id r)"
    using size by (simp add: b(1) token_input_of_def int_of_str_int)
  show "tok_username p = rec_username r" "tok_version p = rec_token_version r"
    by (simp_all add: b token_input_of_def)
qed

lemma issued_accepted:
  assumes laws: "jose_laws enc dec" and ok: "users_ok repo" and r: "get_user_by_id i repo = Some r"
    and size: "length (str_int i) \<le> 4300"
    and time: "unix_epoch \<le> start" "now \<le> tok_exp p" "0 \<le> now"
    and build: "build_payload cfg start jti (token_input_of r) t = Inr p"
    and create: "create_token cfg enc start jti (token_input_of r) t = Inr token"
  shows "\<exists>h. principal_from_token cfg dec now repo token t = Inr h \<and> hp_record h = r \<and> hp_token h = p"
proof -
  have id: "rec_user_id r = i" "user_ok r"
    using users_ok_by_id [OF ok] r by (simp_all add: get_user_by_id_def)
  have token: "token = enc (claims_of p) (secret_for cfg t) (jwt_algorithm cfg)"
    using create build by (simp add: create_token_def)
  show ?thesis
    using issued_payload [OF laws id(2) _ time build] id(1) r size
    by (simp add: accepted_iff [OF ok] token)
qed

text \<open>A token of one kind is not accepted as the other.\<close>

lemma kinds_apart:
  assumes laws: "jose_laws enc dec" and create: "create_token cfg enc start jti data t = Inr token" and "t' \<noteq> t"
  shows "decode_token cfg dec now token t' = None"
proof -
  obtain p where p: "build_payload cfg start jti data t = Inr p"
    and token: "token = enc (claims_of p) (secret_for cfg t) (jwt_algorithm cfg)"
    using create by (auto simp: create_token_def res_bind_Inr_iff)
  have "c = claims_of p" if "dec now token (secret_for cfg t') (jwt_algorithm cfg) = Some c" for c
    using jose_only_claims [OF laws] that unfolding token by blast
  then show ?thesis
    using built_payload(3) [OF p] \<open>t' \<noteq> t\<close>
    by (auto simp: decode_token_def dest: payload_of_claims_inv split: option.split)
qed

text \<open>What a token carries stays the same, so one that is behind its account stays behind.\<close>

lemma decoded_stable:
  assumes "jose_laws enc dec" and "decode_token cfg dec now token t = Some p"
    and "decode_token cfg dec later token t = Some q"
  shows "q = p"
proof -
  obtain c d where "dec now token (secret_for cfg t) (jwt_algorithm cfg) = Some c" "payload_of c = Some p"
    and "dec later token (secret_for cfg t) (jwt_algorithm cfg) = Some d" "payload_of d = Some q"
    using assms(2,3) by (auto simp: decode_token_def split: option.splits if_splits)
  moreover have "c = d" by (rule jose_stable [OF assms(1) calculation(1,3)])
  ultimately show ?thesis by simp
qed

lemma not_expired:
  assumes "jose_laws enc dec" and "decode_token cfg dec now token t = Some p"
  shows "now \<le> tok_exp p"
proof -
  obtain c where "dec now token (secret_for cfg t) (jwt_algorithm cfg) = Some c" "payload_of c = Some p"
    using assms(2) by (auto simp: decode_token_def split: option.splits if_splits)
  moreover have "map_of c ''exp'' = Some (JInt (tok_exp p))" by (rule payload_ofD(1) [OF calculation(2)])
  ultimately show ?thesis using jose_unexpired [OF assms(1)] by blast
qed

lemma stays_revoked:
  assumes laws: "jose_laws enc dec" and ok: "users_ok (accounts s)"
    and steps: "(auth_step kdf)\<^sup>*\<^sup>* s s'"
    and p: "decode_token cfg dec now token t = Some p" "int_of_text (tok_sub p) = Inr i"
    and r: "get_user_by_id i (accounts s) = Some r" and old: "tok_version p < rec_token_version r"
  shows "\<exists>detail. principal_from_token cfg dec later (accounts s') token t = Inl (unauthorized detail)"
proof (cases "decode_token cfg dec later token t")
  case None
  then show ?thesis by (auto simp: principal_from_token_def)
next
  case (Some q)
  then have q: "q = p" using decoded_stable [OF laws p(1)] by blast
  have "grown (accounts s) (accounts s')" using auth_steps_grown [OF steps ok] by blast
  then obtain r' where "get_user_by_id i (accounts s') = Some r'" "rec_token_version r \<le> rec_token_version r'"
    using r by (rule grownD)
  then show ?thesis using Some q p(2) old by (auto simp: principal_from_token_def)
qed

text \<open>Logging out and a new password each put the account ahead of its tokens.\<close>

lemma logout_bumps:
  assumes ok: "users_ok (accounts s)" and out: "logout clock s = (Inr (), s')"
    and u: "current_user (caller s) = Some u" and r: "get_user_by_id (user_id u) (accounts s) = Some r"
  shows "\<exists>r'. get_user_by_id (user_id u) (accounts s') = Some r' \<and>
    rec_token_version r' = rec_token_version r + 1"
proof -
  have id: "rec_user_id r = user_id u" using users_ok_by_id(1) [OF ok] r by (simp add: get_user_by_id_def)
  have "accounts s' = snd (increment_token_version_by_id (user_id u) (accounts s))"
    using out u by (auto simp: logout_def Let_def deny_def split: if_splits)
  then show ?thesis
    using r id by (simp add: increment_token_version_by_id_def increment_token_version_def Let_def get_put_user)
qed


lemma put_version:
  assumes ok: "users_ok a" and r: "get_by_username name a = Some r" and set: "good_kdf kdf salt"
    "service_set_password kdf salt name new a = (Inr (), b)"
  shows "\<exists>r'. get_user_by_id (rec_user_id r) b = Some r' \<and> rec_token_version r' = rec_token_version r + 1"
proof (rule password_set [OF ok set])
  fix q r'
  assume q: "get_by_username name a = Some q" "rec_user_id r' = rec_user_id q"
    "rec_token_version r' = rec_token_version q + 1" "b = put_user (user_key q) r' a"
  then show ?thesis using r by (simp add: get_put_user)
qed

text \<open>The operations that revoke the tokens of an account.\<close>

inductive revokes :: "kdf \<Rightarrow> int \<Rightarrow> auth_state \<Rightarrow> auth_state \<Rightarrow> bool" for kdf i where
  LogoutRevokes: "current_user (caller s) = Some u \<Longrightarrow> user_id u = i \<Longrightarrow>
     logout clock s = (Inr (), s') \<Longrightarrow> revokes kdf i s s'"
| ChangeRevokes: "current_user (caller s) = Some u \<Longrightarrow> get_by_username (username u) (accounts s) = Some r \<Longrightarrow>
     rec_user_id r = i \<Longrightarrow> good_kdf kdf salt \<Longrightarrow>
     change_password kdf salt old new clock s = (Inr (), s') \<Longrightarrow> revokes kdf i s s'"
| ResetRevokes: "get_by_username name (accounts s) = Some r \<Longrightarrow> rec_user_id r = i \<Longrightarrow> good_kdf kdf salt \<Longrightarrow>
     reset_password kdf salt name new clock s = (Inr (), s') \<Longrightarrow> revokes kdf i s s'"

lemma reset_succeeds:
  assumes "reset_password kdf salt name new clock s = (Inr (), s')"
  shows "\<exists>a. service_set_password kdf salt (normalize_username (Some name)) new (accounts s) = (Inr (), a) \<and>
    accounts s' = a \<and> (\<exists>u. current_user (caller s) = Some u) \<and> has_permission (caller s) ADMIN_USER"
  using assms
  by (auto simp: reset_password_def service_reset_password_def deny_def Let_def
      split: if_splits prod.splits sum.splits auth_error.splits option.splits)

lemma revokes_bumps:
  assumes "revokes kdf i s s'" and ok: "users_ok (accounts s)" and r: "get_user_by_id i (accounts s) = Some r"
  shows "\<exists>r'. get_user_by_id i (accounts s') = Some r' \<and> rec_token_version r' = rec_token_version r + 1"
  using assms(1)
proof cases
  case (LogoutRevokes u clock)
  then show ?thesis using logout_bumps [OF ok LogoutRevokes(3,1)] r by simp
next
  case (ChangeRevokes u q salt old new clock)
  have q: "q = r" using ChangeRevokes(2,3) r by (simp add: get_by_username_ok [OF ok])
  obtain r' where r': "rec_user_id r' = rec_user_id r" "rec_token_version r' = rec_token_version r + 1"
    "get_by_username (username u) (accounts s') = Some r'"
    using change_succeeds [OF ok ChangeRevokes(4,5)] ChangeRevokes(1,2) by (auto simp: q)
  have "users_ok (accounts s')" by (rule auth_steps_ok(4) [OF ok ChangeRevokes(5)])
  then have "get_user_by_id i (accounts s') = Some r'"
    using r'(3) r'(1) ChangeRevokes(3) by (simp add: get_by_username_ok q)
  then show ?thesis using r'(2) by simp
next
  case (ResetRevokes name q salt new clock)
  have q: "q = r" using ResetRevokes(1,2) r by (simp add: get_by_username_ok [OF ok])
  have "get_by_username (normalize_username (Some name)) (accounts s) = Some r"
    using ResetRevokes(1) by (simp add: get_by_username_ok [OF ok] q)
  then show ?thesis
    using reset_succeeds [OF ResetRevokes(4)] put_version [OF ok _ ResetRevokes(3)] ResetRevokes(2)
    by (auto simp: q)
qed

lemma revoked_forever:
  assumes laws: "jose_laws enc dec" and ok: "users_ok (accounts s)"
    and accepted: "principal_from_token cfg dec now (accounts s) token t = Inr h"
    and revoked: "revokes kdf (rec_user_id (hp_record h)) s s1" and steps: "(auth_step kdf)\<^sup>*\<^sup>* s1 s2"
  shows "\<exists>detail. principal_from_token cfg dec later (accounts s2) token t = Inl (unauthorized detail)"
proof -
  have p: "decode_token cfg dec now token t = Some (hp_token h)"
      "int_of_text (tok_sub (hp_token h)) = Inr (rec_user_id (hp_record h))"
    and r: "get_user_by_id (rec_user_id (hp_record h)) (accounts s) = Some (hp_record h)"
    and version: "tok_version (hp_token h) = rec_token_version (hp_record h)"
    by (rule accepted_facts [OF ok accepted])+
  obtain r' where r': "get_user_by_id (rec_user_id (hp_record h)) (accounts s1) = Some r'"
      "rec_token_version r' = rec_token_version (hp_record h) + 1"
    using revokes_bumps [OF revoked ok r] by blast
  have "users_ok (accounts s1)"
    using revoked auth_steps_ok [OF ok] by cases blast+
  then show ?thesis
    using stays_revoked [OF laws _ steps p r'(1), where later = later] r'(2) version by simp
qed


lemma issued_exact:
  assumes laws: "jose_laws enc dec" and ok: "users_ok repo" and r: "get_user_by_id i repo = Some r"
    and size: "length (str_int i) \<le> 4300" and time: "unix_epoch \<le> start" "0 \<le> now"
    and create: "create_token cfg enc start jti (token_input_of r) t = Inr token"
    and ends: "expiration_time cfg t start = Inr e"
  shows "(\<exists>h. principal_from_token cfg dec now repo token t' = Inr h \<and> hp_record h = r) \<longleftrightarrow>
    t' = t \<and> now \<le> timestamp_seconds e"
proof -
  obtain p where build: "build_payload cfg start jti (token_input_of r) t = Inr p" "tok_exp p = timestamp_seconds e"
    using ends by (auto simp: build_payload_def)
  show ?thesis
  proof (cases "t' = t")
    case False
    then show ?thesis using kinds_apart [OF laws create False] by (simp add: principal_from_token_def)
  next
    case True
    have "\<exists>h. principal_from_token cfg dec now repo token t = Inr h \<and> hp_record h = r"
      if "now \<le> timestamp_seconds e"
      using issued_accepted [OF laws ok r size time(1) _ time(2) build(1) create] build(2) that by auto
    moreover have "now \<le> timestamp_seconds e" if "principal_from_token cfg dec now repo token t = Inr h" for h
    proof -
      have dec: "decode_token cfg dec now token t = Some (hp_token h)"
        by (rule accepted_facts [OF ok that])
      have token: "token = enc (claims_of p) (secret_for cfg t) (jwt_algorithm cfg)"
        using create build(1) by (simp add: create_token_def)
      obtain c where c: "dec now token (secret_for cfg t) (jwt_algorithm cfg) = Some c" "payload_of c = Some (hp_token h)"
        using dec by (auto simp: decode_token_def split: option.splits if_splits)
      have "c = claims_of p" by (rule jose_only_claims [OF laws c(1) [unfolded token]])
      then have "hp_token h = p" using c(2) payload_of_claims_inv by blast
      then show ?thesis using not_expired [OF laws dec] build(2) by simp
    qed
    ultimately show ?thesis using True by auto
  qed
qed


lemma accepted_current:
  assumes laws: "jose_laws enc dec" and ok: "users_ok repo"
    and h: "principal_from_token cfg dec now repo token t = Inr h"
  shows "now \<le> tok_exp (hp_token h) \<and> tok_type (hp_token h) = t \<and>
    get_user_by_id (rec_user_id (hp_record h)) repo = Some (hp_record h) \<and>
    user_id (hp_user h) = rec_user_id (hp_record h) \<and> username (hp_user h) = tok_username (hp_token h) \<and>
    tok_version (hp_token h) = rec_token_version (hp_record h) \<and>
    current_user (hp_authz h) = Some (hp_user h)"
proof -
  have p: "decode_token cfg dec now token t = Some (hp_token h)"
      "get_user_by_id (rec_user_id (hp_record h)) repo = Some (hp_record h)"
      "tok_username (hp_token h) = rec_username (hp_record h)"
      "tok_version (hp_token h) = rec_token_version (hp_record h)"
    by (rule accepted_facts [OF ok h])+
  have "runtime_user (hp_record h) = Inr (hp_user h)" "current_user (hp_authz h) = Some (hp_user h)"
    using h by (auto simp: principal_from_token_def current_user_def split: option.splits sum.splits if_splits)
  moreover have "user_ok (hp_record h)" using users_ok_by_id(3) [OF ok] p(2) by (simp add: get_user_by_id_def)
  ultimately have "user_id (hp_user h) = rec_user_id (hp_record h)" "username (hp_user h) = rec_username (hp_record h)"
    using runtime_user_ok by force+
  moreover have "tok_type (hp_token h) = t"
    using p(1) by (auto simp: decode_token_def split: option.splits if_splits)
  ultimately show ?thesis
    using p not_expired [OF laws p(1)] \<open>current_user (hp_authz h) = Some (hp_user h)\<close> by simp
qed

end
