(* ===== verification/SampleAccounts.thy ===== *)
theory SampleAccounts
  imports Tokens SampleApp
begin

text \<open>
  Concrete accounts for the witnesses: one manager with a hashed password, a key derivation that keeps
  the password, and a signing library whose tokens are the signed claims themselves.
\<close>

definition sample_kdf :: kdf where
  "sample_kdf algo password salt iterations = 1 # map (\<lambda>c. of_nat (code c)) password"

definition sample_salt :: byte_string where
  "sample_salt = replicate 16 7"

definition sample_hash :: password_hash where
  "sample_hash =
     \<lparr>ph_algo = PBKDF2_ALGO, ph_iterations = PBKDF2_ITERATIONS, ph_salt = b64encode sample_salt,
      ph_hash = b64encode (sample_kdf PBKDF2_ALGO ''Secret1!'' sample_salt PBKDF2_ITERATIONS)\<rparr>"

definition sample_account :: user_record where
  "sample_account =
     \<lparr>rec_user_id = 1, rec_username = ''boss'', rec_role = ''MANAGER'', rec_name = ''Boss'',
      rec_email = ''b@x.io'', rec_phone = ''0400000001'', rec_password = serialize sample_hash,
      rec_token_version = 1\<rparr>"

definition sample_accounts :: user_repo where
  "sample_accounts = (put_user ''boss'' sample_account empty_users)\<lparr>user_next_id := 2\<rparr>"

definition sample_auth :: auth_state where
  "sample_auth =
     \<lparr>accounts = sample_accounts, auth_session = None,
      caller = \<lparr>session_user = Some sample_manager, bound_user = None\<rparr>, auth_events = []\<rparr>"

definition sample_jwt :: jwt_config where
  "sample_jwt =
     \<lparr>access_secret = replicate 32 CHR ''a'', refresh_secret = replicate 32 CHR ''r'', jwt_algorithm = ''HS256'',
      access_token_expire_minutes = 15, refresh_token_expire_days = 7\<rparr>"

definition sample_enc :: "(json_object \<times> string \<times> string) jose_encode" where
  "sample_enc claims secret alg = (claims, secret, alg)"

definition sample_dec :: "(json_object \<times> string \<times> string) jose_decode" where
  "sample_dec now token secret alg =
     (case token of (claims, s, a) \<Rightarrow>
        if s = secret \<and> a = alg \<and> (case int_claim claims ''exp'' of None \<Rightarrow> False | Some e \<Rightarrow> now \<le> e)
        then Some claims else None)"

lemma sample_jose: "jose_laws sample_enc sample_dec"
  by (auto simp: jose_laws_def sample_enc_def sample_dec_def int_claim_def claims_of_def
      split: if_splits option.splits json.splits)

lemma sample_kdf_good: "good_kdf sample_kdf sample_salt"
  by (simp add: good_kdf_def sample_kdf_def sample_salt_def SALT_BYTES_def)

lemma sample_hashed: "hash_password sample_kdf sample_salt ''Secret1!'' = Inr sample_hash"
proof -
  have "validate_password_strength ''Secret1!'' = Inr ''Secret1!''" by code_simp
  then show ?thesis by (simp add: hash_password_def sample_hash_def)
qed

lemma sample_parsed: "parse_password_hash (PyStr (serialize sample_hash)) = Inr sample_hash"
  "verify_password sample_kdf p sample_hash =
     Inr (sample_kdf PBKDF2_ALGO p sample_salt PBKDF2_ITERATIONS =
          sample_kdf PBKDF2_ALGO ''Secret1!'' sample_salt PBKDF2_ITERATIONS)"
  using hashed_password [OF sample_hashed] by (simp_all add: sample_salt_def SALT_BYTES_def sample_kdf_def)

lemma sample_account_ok: "user_ok sample_account"
proof -
  have "contact_ok \<lparr>ci_name = ''Boss'', ci_email = ''b@x.io'', ci_phone = ''0400000001''\<rparr>" by code_simp
  moreover have "strip ''boss'' = ''boss''" by code_simp
  moreover have "''MANAGER'' = role_value MANAGER" by (simp add: role_value_def)
  ultimately show ?thesis by (auto simp: user_ok_def sample_account_def)
qed

lemma sample_key: "normalize_username (Some ''boss'') = ''boss''"
  by code_simp

lemma sample_user_key: "user_key sample_account = ''boss''"
  by (simp add: user_key_def sample_account_def sample_key)

lemma sample_accounts_ok: "users_ok sample_accounts"
  using users_ok_insert [OF users_ok_empty, of sample_account] sample_account_ok
  by (simp add: sample_accounts_def sample_user_key empty_users_def) (simp add: sample_account_def)

lemma sample_lookup:
  "get_user_by_id 1 sample_accounts = Some sample_account"
  "get_by_username ''boss'' sample_accounts = Some sample_account"
  by (simp_all add: sample_accounts_def get_user_by_id_def get_by_username_def sample_key put_user_def
      empty_users_def sample_account_def)

lemma sample_auth_simps [simp]:
  "accounts sample_auth = sample_accounts" "auth_events sample_auth = []"
  "current_user (caller sample_auth) = Some sample_manager"
  by (simp_all add: sample_auth_def current_user_def)

lemma sample_manager_name [simp]: "username sample_manager = ''boss''" "user_id sample_manager = 1"
  by (simp_all add: sample_manager_def)

lemma sample_change: "\<exists>s. change_password sample_kdf sample_salt ''Secret1!'' ''Secret2!'' 5 sample_auth = (Inr (), s)"
proof -
  have "validate_password_strength ''Secret2!'' = Inr ''Secret2!''" by code_simp
  then obtain h where h: "hash_password sample_kdf sample_salt ''Secret2!'' = Inr h" by (simp add: hash_password_def)
  have "\<exists>a. service_set_password sample_kdf sample_salt ''boss'' ''Secret2!'' sample_accounts = (Inr (), a)"
    by (simp add: service_set_password_cases [OF sample_accounts_ok] h sample_lookup)
  moreover have "rec_password sample_account = serialize sample_hash" by (simp add: sample_account_def)
  moreover have "sample_kdf PBKDF2_ALGO ''Secret2!'' sample_salt PBKDF2_ITERATIONS \<noteq>
      sample_kdf PBKDF2_ALGO ''Secret1!'' sample_salt PBKDF2_ITERATIONS"
    by (simp add: sample_kdf_def) (simp add: code_def)
  ultimately show ?thesis
    by (auto simp: change_password_def service_change_password_def sample_key sample_lookup sample_parsed Let_def)
qed

lemma sample_out: "\<exists>s. logout 5 sample_auth = (Inr (), s)"
proof -
  have "strip ''boss'' \<noteq> []" by code_simp
  then show ?thesis by (simp add: logout_def Let_def)
qed


lemma sample_small: "length (str_int 1) \<le> 4300"
  by code_simp

lemma sample_token:
  "\<exists>token e. create_token sample_jwt sample_enc unix_epoch ''j'' (token_input_of sample_account) ACCESS = Inr token \<and>
     expiration_time sample_jwt ACCESS unix_epoch = Inr e \<and> unix_epoch \<le> e"
  by (simp add: create_token_def build_payload_def expiration_time_def dt_add_def sample_jwt_def unix_epoch_def
      time_max_def sample_enc_def)

lemma sample_token_accepted:
  "\<exists>token h. principal_from_token sample_jwt sample_dec 0 sample_accounts token ACCESS = Inr h \<and>
     hp_record h = sample_account"
  using sample_token issued_exact [OF sample_jose sample_accounts_ok sample_lookup(1) sample_small order_refl order_refl]
    timestamp_nonneg by blast

lemma sample_nobody: "get_by_username ''nobody'' sample_accounts = None"
proof -
  have "normalize_username (Some ''nobody'') = ''nobody''" by code_simp
  then show ?thesis
    by (simp add: get_by_username_def sample_accounts_def put_user_def empty_users_def)
qed

end
