(* ===== verification/UserStore.thy ===== *)
theory UserStore
  imports SampleAccounts
begin

text \<open>
  The JSON user store: \<open>src/adapters/driven/persistence/json/user_store.py\<close>.  Its dicts are those of the
  repository of \<open>Users\<close>; the file is the value that was last written, None before the first write.  A write
  goes to a temporary file that replaces the old one, so it either succeeds or leaves the file as it was;
  whether it succeeds is an argument.  The text of the file is left to \<open>json.dump\<close> and \<open>json.load\<close>.
\<close>

section \<open>Saving\<close>

record user_store =
  store_users :: user_repo
  store_file :: "json option"

datatype save_error = OSError | StoreRefused store_error

definition user_json :: "user_record \<Rightarrow> json" where
  "user_json r =
     JObj [(''user_id'', JInt (rec_user_id r)), (''username'', JStr (rec_username r)), (''role'', JStr (rec_role r)),
           (''name'', JStr (rec_name r)), (''email'', JStr (rec_email r)), (''phone_number'', JStr (rec_phone r)),
           (''password'', JStr (rec_password r)), (''token_version'', JInt (rec_token_version r))]"

definition sorted_users :: "user_repo \<Rightarrow> user_record list" where
  "sorted_users s = sort_key rec_user_id (map snd (by_username s))"

definition users_payload :: "user_repo \<Rightarrow> json" where
  "users_payload s =
     JObj [(''_next_id'', JInt (user_next_id s)), (''users'', JList (map user_json (sorted_users s)))]"

definition save_users :: "bool \<Rightarrow> user_store \<Rightarrow> (save_error + unit) \<times> user_store" where
  "save_users writable st =
     (if writable then (Inr (), st\<lparr>store_file := Some (users_payload (store_users st))\<rparr>) else (Inl OSError, st))"

text \<open>A write of the repository, saved; the dicts have already changed when the save fails.\<close>

definition saved :: "bool \<Rightarrow> 'a \<Rightarrow> user_repo \<Rightarrow> user_store \<Rightarrow> (save_error + 'a) \<times> user_store" where
  "saved writable x users st =
     (case save_users writable (st\<lparr>store_users := users\<rparr>) of
        (Inl e, st') \<Rightarrow> (Inl e, st')
      | (Inr _, st') \<Rightarrow> (Inr x, st'))"

definition store_create ::
    "bool \<Rightarrow> string \<Rightarrow> role + pyval \<Rightarrow> pyval \<Rightarrow> pyval \<Rightarrow> pyval \<Rightarrow> password_hash \<Rightarrow> user_store \<Rightarrow>
       (save_error + user_record) \<times> user_store" where
  "store_create writable name role display email phone hash st =
     (case create_user name role display email phone hash (store_users st) of
        (Inl e, _) \<Rightarrow> (Inl (StoreRefused e), st)
      | (Inr r, users) \<Rightarrow> saved writable r users st)"

definition store_update_password ::
    "bool \<Rightarrow> string \<Rightarrow> password_hash \<Rightarrow> user_store \<Rightarrow> (save_error + unit) \<times> user_store" where
  "store_update_password writable name hash st =
     (case update_password name hash (store_users st) of
        (Inl e, _) \<Rightarrow> (Inl (StoreRefused (StoreError e)), st)
      | (Inr _, users) \<Rightarrow> saved writable () users st)"

definition store_increment ::
    "bool \<Rightarrow> user_record option \<times> user_repo \<Rightarrow> user_store \<Rightarrow> (save_error + user_record option) \<times> user_store" where
  "store_increment writable outcome st =
     (case outcome of
        (None, _) \<Rightarrow> (Inr None, st)
      | (Some r, users) \<Rightarrow> saved writable (Some r) users st)"

definition store_increment_by_id ::
    "bool \<Rightarrow> int \<Rightarrow> user_store \<Rightarrow> (save_error + user_record option) \<times> user_store" where
  "store_increment_by_id writable i st =
     store_increment writable (increment_token_version_by_id i (store_users st)) st"

definition store_increment_by_username ::
    "bool \<Rightarrow> string \<Rightarrow> user_store \<Rightarrow> (save_error + user_record option) \<times> user_store" where
  "store_increment_by_username writable name st =
     store_increment writable (increment_token_version_by_username name (store_users st)) st"

section \<open>Loading\<close>

definition parse_string_field :: "json_object \<Rightarrow> string \<Rightarrow> string result" where
  "parse_string_field raw k = read raw k require_str"

text \<open>\<open>payload.get(key, 1)\<close>\<close>

definition positive_or_one :: "json_object \<Rightarrow> string \<Rightarrow> int result" where
  "positive_or_one raw k =
     require_positive_int (case map_of raw k of None \<Rightarrow> PyInt 1 | Some v \<Rightarrow> py_of_json v)"

definition parse_raw_user :: "json \<Rightarrow> user_record result" where
  "parse_raw_user v =
     (case v of
        JObj raw \<Rightarrow>
          res_bind (read raw ''user_id'' require_positive_int) (\<lambda>i.
          res_bind (parse_string_field raw ''username'') (\<lambda>username.
            if normalize_username (Some (strip username)) = [] then Inl PyValueError
            else
          res_bind (parse_string_field raw ''role'') (\<lambda>role.
          res_bind (normalize_role (Inr (PyStr role))) (\<lambda>canonical.
          res_bind (parse_string_field raw ''name'') (\<lambda>name.
          res_bind (parse_string_field raw ''email'') (\<lambda>email.
          res_bind (parse_string_field raw ''phone_number'') (\<lambda>phone.
          res_bind (contact_info_create (PyStr name) (PyStr email) (PyStr phone)) (\<lambda>ci.
          res_bind (parse_string_field raw ''password'') (\<lambda>password.
          res_bind (parse_password_hash (PyStr password)) (\<lambda>hash.
          res_bind (positive_or_one raw ''token_version'') (\<lambda>version.
            Inr \<lparr>rec_user_id = i, rec_username = strip username, rec_role = canonical, rec_name = ci_name ci,
                 rec_email = ci_email ci, rec_phone = ci_phone ci, rec_password = serialize hash,
                 rec_token_version = version\<rparr>)))))))))))
      | _ \<Rightarrow> Inl PyTypeError)"

text \<open>The loop over the users: the dict by name, the identifiers seen, the largest one.\<close>

fun parse_users ::
    "json list \<Rightarrow> (string \<times> user_record) list \<Rightarrow> int list \<Rightarrow> int \<Rightarrow>
       ((string \<times> user_record) list \<times> int) result" where
  "parse_users [] users seen highest = Inr (users, highest)"
| "parse_users (v # vs) users seen highest =
     res_bind (parse_raw_user v) (\<lambda>r.
       if map_of users (user_key r) \<noteq> None then Inl PyValueError
       else if rec_user_id r \<in> set seen then Inl PyValueError
       else parse_users vs (AList.update (user_key r) r users) (rec_user_id r # seen) (max highest (rec_user_id r)))"

definition parse_loaded_payload :: "json \<Rightarrow> (int \<times> (string \<times> user_record) list) result" where
  "parse_loaded_payload data =
     (case data of
        JObj payload \<Rightarrow>
          res_bind (positive_or_one payload ''_next_id'') (\<lambda>next_id.
            (case map_of payload ''users'' of
               Some (JList vs) \<Rightarrow>
                 res_bind (parse_users vs [] [] 0) (\<lambda>(users, highest). Inr (max next_id (highest + 1), users))
             | _ \<Rightarrow> Inl PyTypeError))
      | _ \<Rightarrow> Inl PyTypeError)"

definition load_users :: "json option \<Rightarrow> user_repo result" where
  "load_users file =
     (case file of
        None \<Rightarrow> Inr empty_users
      | Some data \<Rightarrow>
          (case parse_loaded_payload data of
             Inl _ \<Rightarrow> Inl PyValueError
           | Inr (next_id, users) \<Rightarrow>
               Inr \<lparr>by_username = users,
                    by_id = foldl (\<lambda>m r. AList.update (rec_user_id r) r m) [] (map snd users),
                    user_next_id = next_id\<rparr>))"

section \<open>A saved store is loaded back\<close>

definition password_ok :: "user_record \<Rightarrow> bool" where
  "password_ok r \<longleftrightarrow> (\<exists>h. parse_password_hash (PyStr (rec_password r)) = Inr h \<and> serialize h = rec_password r)"

definition stored_ok :: "user_repo \<Rightarrow> bool" where
  "stored_ok s \<longleftrightarrow>
     users_ok s \<and> distinct (map fst (by_username s)) \<and>
     (\<forall>r \<in> set (map snd (by_username s)). password_ok r)"

lemma read_user_json [simp]:
  "parse_raw_user (user_json r) =
     res_bind (require_positive_int (PyInt (rec_user_id r))) (\<lambda>i.
       if normalize_username (Some (strip (rec_username r))) = [] then Inl PyValueError
       else
     res_bind (normalize_role (Inr (PyStr (rec_role r)))) (\<lambda>canonical.
     res_bind (contact_info_create (PyStr (rec_name r)) (PyStr (rec_email r)) (PyStr (rec_phone r))) (\<lambda>ci.
     res_bind (parse_password_hash (PyStr (rec_password r))) (\<lambda>hash.
     res_bind (require_positive_int (PyInt (rec_token_version r))) (\<lambda>version.
       Inr \<lparr>rec_user_id = i, rec_username = strip (rec_username r), rec_role = canonical, rec_name = ci_name ci,
            rec_email = ci_email ci, rec_phone = ci_phone ci, rec_password = serialize hash,
            rec_token_version = version\<rparr>)))))"
  by (simp add: parse_raw_user_def user_json_def parse_string_field_def positive_or_one_def require_str_def
      cong: if_cong)

lemma role_text [simp]: "normalize_role (Inr (PyStr (role_value r))) = Inr (role_value r)"
proof -
  have "upper (strip (role_value r)) = role_value r" by (cases r) (simp_all only:, code_simp+)
  then show ?thesis by (simp add: normalize_role_def)
qed

lemma user_read_back:
  assumes "user_ok r" and "password_ok r"
  shows "parse_raw_user (user_json r) = Inr r"
proof -
  obtain h where h: "parse_password_hash (PyStr (rec_password r)) = Inr h" "serialize h = rec_password r"
    using assms(2) by (auto simp: password_ok_def)
  have role_back: "normalize_role (Inr (PyStr (rec_role r))) = Inr (rec_role r)"
    using assms(1) by (auto simp: user_ok_def)
  have "contact_info_create (PyStr (rec_name r)) (PyStr (rec_email r)) (PyStr (rec_phone r)) =
      Inr \<lparr>ci_name = rec_name r, ci_email = rec_email r, ci_phone = rec_phone r\<rparr>"
    using assms(1) by (simp add: contact_info_create_iff user_ok_def contact_ok_def)
  then show ?thesis
    using assms(1) normalized_nonempty [of "rec_username r"]
    by (simp add: h role_back user_ok_def require_positive_int_def require_int_def)
qed

lemma update_fresh: "k \<notin> fst ` set xs \<Longrightarrow> AList.update k v xs = xs @ [(k, v)]"
  by (induction xs) auto

definition indexed :: "('a \<Rightarrow> 'k) \<Rightarrow> 'a list \<Rightarrow> ('k \<times> 'a) list" where
  "indexed f xs = map (\<lambda>x. (f x, x)) xs"

lemma indexed_simps [simp]: "indexed f [] = []" "indexed f (xs @ ys) = indexed f xs @ indexed f ys"
  "map snd (indexed f xs) = xs" "map fst (indexed f xs) = map f xs" "fst ` set (indexed f xs) = f ` set xs"
  by (auto simp: indexed_def comp_def image_image)

lemma indexed_lookup: "distinct (map f xs) \<Longrightarrow> map_of (indexed f xs) k = Some x \<longleftrightarrow> x \<in> set xs \<and> f x = k"
  by (subst map_of_eq_Some_iff) (auto simp: indexed_def comp_def)

lemma indexed_updates:
  "distinct (map f (ys @ xs)) \<Longrightarrow> foldl (\<lambda>m x. AList.update (f x) x m) (indexed f ys) xs = indexed f (ys @ xs)"
proof (induction xs arbitrary: ys)
  case (Cons x xs)
  then have "AList.update (f x) x (indexed f ys) = indexed f (ys @ [x])"
    by (subst update_fresh) (auto simp: indexed_def)
  then show ?case using Cons.IH [of "ys @ [x]"] Cons.prems by simp
qed simp

lemma users_read_back:
  assumes "\<forall>r \<in> set rs. user_ok r \<and> password_ok r" and "distinct (map user_key (front @ rs))"
    and "distinct (map rec_user_id rs)" and "set seen \<inter> rec_user_id ` set rs = {}"
  shows "parse_users (map user_json rs) (indexed user_key front) seen highest =
    Inr (indexed user_key (front @ rs), foldl max highest (map rec_user_id rs))"
  using assms
proof (induction rs arbitrary: front seen highest)
  case (Cons r rs)
  have fresh: "user_key r \<notin> fst ` set (indexed user_key front)" using Cons.prems(2) by auto
  then have none: "map_of (indexed user_key front) (user_key r) = None" by (simp only: map_of_eq_None_iff not_False_eq_True)
  have "AList.update (user_key r) r (indexed user_key front) = indexed user_key (front @ [r])"
    using fresh by (subst update_fresh) (auto simp: indexed_def)
  moreover have "parse_raw_user (user_json r) = Inr r" using Cons.prems(1) user_read_back by simp
  ultimately show ?case
    using Cons.IH [of "front @ [r]" "rec_user_id r # seen" "max highest (rec_user_id r)"] Cons.prems
    by (simp only: list.map parse_users.simps res_bind_simps none) (simp del: read_user_json)
qed simp

lemma by_username_indexed:
  assumes "stored_ok s"
  shows "by_username s = indexed user_key (map snd (by_username s))"
proof -
  have "k = user_key r" if "(k, r) \<in> set (by_username s)" for k r
    using that assms users_ok_by_name(1) [of s k r] by (auto simp: stored_ok_def)
  then show ?thesis by (auto simp: indexed_def comp_def intro!: map_idI [symmetric])
qed

lemma distinct_sorted: "distinct (map f xs) \<Longrightarrow> distinct (map f (sort_key g xs))"
  by (simp add: distinct_map)

theorem saved_store_loaded:
  assumes ok: "stored_ok s"
  shows "\<exists>s'. load_users (Some (users_payload s)) = Inr s' \<and> user_next_id s' = user_next_id s \<and>
    (\<forall>i. get_user_by_id i s' = get_user_by_id i s) \<and> (\<forall>n. get_by_username n s' = get_by_username n s)"
proof -
  let ?rs = "sorted_users s"
  have us: "users_ok s" and dk: "distinct (map fst (by_username s))" using ok by (simp_all add: stored_ok_def)
  have set_rs: "set ?rs = snd ` set (by_username s)" by (simp add: sorted_users_def)
  have name: "map_of (by_username s) k = Some r \<longleftrightarrow> r \<in> set ?rs \<and> user_key r = k" for k r
    by (subst by_username_indexed [OF ok], subst indexed_lookup)
      (use dk by_username_indexed [OF ok] in \<open>metis indexed_simps(4)\<close>, simp add: set_rs)
  have id: "map_of (by_id s) i = Some r \<longleftrightarrow> r \<in> set ?rs \<and> rec_user_id r = i" for i r
  proof
    assume m: "map_of (by_id s) i = Some r"
    show "r \<in> set ?rs \<and> rec_user_id r = i"
      using users_ok_by_id(1,4) [OF us m] name [of "user_key r" r] by simp
  next
    assume r: "r \<in> set ?rs \<and> rec_user_id r = i"
    then have "map_of (by_username s) (user_key r) = Some r" by (simp add: name)
    then show "map_of (by_id s) i = Some r" using users_ok_by_name(2) [OF us] r by blast
  qed
  have user: "user_ok r \<and> password_ok r" if "r \<in> set ?rs" for r
    using that ok users_ok_by_id(3) [OF us] id by (force simp: stored_ok_def set_rs)
  have keys: "distinct (map user_key ?rs)"
  proof -
    have "distinct (map user_key (map snd (by_username s)))"
      using dk by_username_indexed [OF ok] by (metis indexed_simps(4))
    then show ?thesis unfolding sorted_users_def by (rule distinct_sorted)
  qed
  then have ids: "distinct (map rec_user_id ?rs)"
    using id by (auto simp: distinct_map inj_on_def) (metis option.inject)
  have parsed: "parse_users (map user_json ?rs) [] [] 0 = Inr (indexed user_key ?rs, foldl max 0 (map rec_user_id ?rs))"
    using users_read_back [of ?rs "[]" "[]" 0] user keys ids by simp
  have "foldl max (0::int) xs < n" if "\<forall>x \<in> set xs. x < n" "0 < n" for xs n
    using that by (induction xs rule: rev_induct) auto
  moreover have "\<forall>x \<in> set (map rec_user_id ?rs). x < user_next_id s"
    using users_ok_by_id(2) [OF us] id by auto
  moreover have pos: "1 \<le> user_next_id s" using us by (simp add: users_ok_def)
  ultimately have "foldl max 0 (map rec_user_id ?rs) < user_next_id s" by simp
  then have "parse_loaded_payload (users_payload s) = Inr (user_next_id s, indexed user_key ?rs)"
    using pos parsed by (simp add: parse_loaded_payload_def users_payload_def positive_or_one_def
        require_positive_int_def require_int_def)
  then have loaded: "load_users (Some (users_payload s)) =
      Inr \<lparr>by_username = indexed user_key ?rs, by_id = indexed rec_user_id ?rs, user_next_id = user_next_id s\<rparr>"
    using indexed_updates [of rec_user_id "[]" ?rs] ids by (simp add: load_users_def)
  have "map_of (indexed rec_user_id ?rs) i = map_of (by_id s) i" for i
    using id indexed_lookup [OF ids] by (metis not_Some_eq)
  moreover have "map_of (indexed user_key ?rs) k = map_of (by_username s) k" for k
    using name indexed_lookup [OF keys] by (metis not_Some_eq)
  ultimately show ?thesis
    by (simp add: loaded get_user_by_id_def get_by_username_def Let_def cong: if_cong)
qed


section \<open>Every write keeps the store loadable\<close>

text \<open>What is stored is what \<open>hash_password\<close> made.\<close>

definition made_hash :: "password_hash \<Rightarrow> bool" where
  "made_hash h \<longleftrightarrow> parse_password_hash (PyStr (serialize h)) = Inr h"

lemma made_by_hash_password: "hash_password kdf salt plain = Inr h \<Longrightarrow> good_kdf kdf salt \<Longrightarrow> made_hash h"
  using hashed_password(1) [of kdf salt plain h] by (simp add: made_hash_def good_kdf_def)

lemma stored_put:
  assumes "stored_ok s" and "users_ok s'" and "by_username s' = by_username (put_user k r s)" and "password_ok r"
  shows "stored_ok s'"
proof -
  have entry: "(j, q) \<in> set (by_username s) \<or> q = r" if "(j, q) \<in> set (by_username s')" for j q
  proof -
    have d: "distinct (map fst (by_username s'))" "distinct (map fst (by_username s))"
      using assms(1,3) by (simp_all add: stored_ok_def put_user_def distinct_update)
    have "map_of (by_username s') j = Some q" using that d(1) by simp
    then show ?thesis
      using d(2) by (cases "j = k") (auto simp: assms(3) put_user_def update_conv dest: map_of_SomeD)
  qed
  have "password_ok q" if "q \<in> set (map snd (by_username s'))" for q
    using that entry assms(1,4) by (force simp: stored_ok_def)
  then show ?thesis
    using assms(1-3) by (simp add: stored_ok_def put_user_def distinct_update)
qed

lemma stored_password: "stored_ok s \<Longrightarrow> get_by_username n s = Some r \<Longrightarrow> password_ok r"
  by (auto simp: stored_ok_def get_by_username_def Let_def dest!: map_of_SomeD split: if_splits)

lemma stored_by_id: "stored_ok s \<Longrightarrow> get_user_by_id i s = Some r \<Longrightarrow> password_ok r"
  using users_ok_by_id(4) [of s i r]
  by (auto simp: stored_ok_def get_user_by_id_def dest!: map_of_SomeD)

lemma stored_create:
  assumes "stored_ok s" and "made_hash h" and "create_user name role display email phone h s = (Inr r, s')"
  shows "stored_ok s'"
proof (rule stored_put)
  show "users_ok s'" using create_user_ok [OF _ assms(3)] assms(1) by (simp add: stored_ok_def)
  show "by_username s' = by_username (put_user (normalize_username (Some name)) r s)"
    using assms(3) by (auto simp: create_user_def Let_def split: if_splits sum.splits prod.splits)
  show "password_ok r" using assms(2) create_user_exact(3) [OF assms(3)] by (simp add: password_ok_def made_hash_def)
qed (rule assms(1))

lemma stored_update:
  assumes ok: "stored_ok s" and "made_hash h" and up: "update_password name h s = (Inr (), s')"
  shows "stored_ok s'"
proof -
  have us: "users_ok s" using ok by (simp add: stored_ok_def)
  obtain r where r: "get_by_username name s = Some r"
    "s' = put_user (user_key r) (r\<lparr>rec_password := serialize h, rec_token_version := rec_token_version r + 1\<rparr>) s"
    using up by (auto simp: update_password_exact [OF us] split: option.splits)
  show ?thesis
    using assms(2) by (intro stored_put [OF ok update_password_ok [OF us up], where k = "user_key r"])
      (auto simp: r(2) password_ok_def made_hash_def)
qed

lemma stored_increment:
  assumes ok: "stored_ok s" and up: "increment_token_version_by_id i s = (Some r, s')"
  shows "stored_ok s'"
proof -
  have us: "users_ok s" using ok by (simp add: stored_ok_def)
  obtain q where q: "get_user_by_id i s = Some q" "r = q\<lparr>rec_token_version := rec_token_version q + 1\<rparr>"
    "s' = put_user (normalize_username (Some (rec_username q))) r s"
    using up by (auto simp: increment_token_version_by_id_def increment_token_version_def Let_def split: option.splits)
  show ?thesis
    using stored_by_id [OF ok q(1)]
    by (intro stored_put [OF ok increment_ok [OF us up] arg_cong [where f = by_username, OF q(3)]])
      (simp add: q(2) password_ok_def)
qed

lemma increment_same: "users_ok s \<Longrightarrow> get_by_username name s = Some r \<Longrightarrow>
    increment_token_version_by_username name s = increment_token_version_by_id (rec_user_id r) s"
  using get_by_username_ok [of s name r]
  by (simp add: increment_token_version_by_username_def increment_token_version_by_id_def)

text \<open>The file, when there is one, holds the users of the store.\<close>

definition store_ok :: "user_store \<Rightarrow> bool" where
  "store_ok st \<longleftrightarrow> stored_ok (store_users st) \<and>
     (case store_file st of None \<Rightarrow> store_users st = empty_users | Some f \<Rightarrow> f = users_payload (store_users st))"

inductive user_store_step :: "user_store \<Rightarrow> user_store \<Rightarrow> bool" where
  Create: "made_hash h \<Longrightarrow> store_create True name role display email phone h st = (res, st') \<Longrightarrow> user_store_step st st'"
| Update: "made_hash h \<Longrightarrow> store_update_password True name h st = (res, st') \<Longrightarrow> user_store_step st st'"
| IncrementId: "store_increment_by_id True i st = (res, st') \<Longrightarrow> user_store_step st st'"
| IncrementName: "store_increment_by_username True name st = (res, st') \<Longrightarrow> user_store_step st st'"

lemma saved_ok: "stored_ok users \<Longrightarrow> saved True x users st = (res, st') \<Longrightarrow> store_ok st'"
  by (auto simp: saved_def save_users_def store_ok_def)

lemma store_step_ok:
  assumes "user_store_step st st'" and ok: "store_ok st"
  shows "store_ok st'"
proof -
  have s: "stored_ok (store_users st)" "users_ok (store_users st)"
    using ok by (simp_all add: store_ok_def stored_ok_def)
  have inc: "store_ok st'"
    if "store_increment True (increment_token_version_by_id i (store_users st)) st = (res, st')" for i res
    using that ok by (auto simp: store_increment_def intro: saved_ok stored_increment [OF s(1)]
        split: prod.splits option.splits)
  from assms(1) show ?thesis
  proof cases
    case (Create h name role display email phone res)
    then show ?thesis using ok
      by (auto simp: store_create_def intro: saved_ok stored_create [OF s(1)] split: prod.splits sum.splits)
  next
    case (Update h name res)
    then show ?thesis using ok
      by (auto simp: store_update_password_def intro: saved_ok stored_update [OF s(1)] split: prod.splits sum.splits)
  next
    case (IncrementId i res)
    then show ?thesis using inc by (simp add: store_increment_by_id_def)
  next
    case (IncrementName name res)
    show ?thesis
    proof (cases "get_by_username name (store_users st)")
      case None
      then show ?thesis using IncrementName ok
        by (simp add: store_increment_by_username_def increment_token_version_by_username_def store_increment_def)
    next
      case (Some r)
      then show ?thesis
        using IncrementName inc by (simp add: store_increment_by_username_def increment_same [OF s(2)])
    qed
  qed
qed

lemma stored_empty: "stored_ok empty_users"
  by (simp add: stored_ok_def users_ok_empty) (simp add: empty_users_def)

definition new_user_store :: user_store where
  "new_user_store = \<lparr>store_users = empty_users, store_file = None\<rparr>"

lemma store_restarts:
  assumes "user_store_step\<^sup>*\<^sup>* new_user_store st"
  shows "\<exists>s. load_users (store_file st) = Inr s \<and> user_next_id s = user_next_id (store_users st) \<and>
    (\<forall>i. get_user_by_id i s = get_user_by_id i (store_users st)) \<and>
    (\<forall>n. get_by_username n s = get_by_username n (store_users st))"
proof -
  have "store_ok new_user_store" by (simp add: store_ok_def new_user_store_def stored_empty)
  with assms have ok: "store_ok st"
    by (induction rule: rtranclp_induct) (auto intro: store_step_ok)
  show ?thesis
  proof (cases "store_file st")
    case None
    then show ?thesis using ok by (simp add: store_ok_def load_users_def)
  next
    case (Some f)
    then show ?thesis using ok saved_store_loaded [of "store_users st"] by (simp add: store_ok_def)
  qed
qed


lemma sample_create:
  "\<exists>r st. store_create True ''boss'' (Inl MANAGER) (PyStr ''Boss'') (PyStr ''b@x.io'') (PyStr ''0400000001'')
     sample_hash new_user_store = (Inr r, st) \<and> get_user_by_id (rec_user_id r) (store_users st) = Some r"
proof -
  have "contact_info_create (PyStr ''Boss'') (PyStr ''b@x.io'') (PyStr ''0400000001'') =
      Inr \<lparr>ci_name = ''Boss'', ci_email = ''b@x.io'', ci_phone = ''0400000001''\<rparr>" by code_simp
  then show ?thesis
    by (simp add: store_create_def create_user_def new_user_store_def empty_users_def sample_key normalize_role_def
        saved_def save_users_def Let_def put_user_def get_user_by_id_def)
qed

end
