(* ===== verification/Overview.thy ===== *)
theory Overview
  imports Lifecycle "HOL-Library.Product_Lexorder"
begin

text \<open>
  The fleet overview: the checked projections of \<open>src/application/results/fleet_overview.py\<close>, the
  in-memory query \<open>src/adapters/driven/persistence/memory/fleet_overview_query.py\<close> that fills them, and
  the use case \<open>src/application/use_cases/fleet/get_overview.py\<close>.
\<close>

section \<open>Projections\<close>

record package_status_counts =
  packages_todo :: int
  packages_in_progress :: int
  packages_done :: int

definition package_status_counts_init :: "int \<Rightarrow> int \<Rightarrow> int \<Rightarrow> package_status_counts result" where
  "package_status_counts_init todo in_progress finished =
     res_bind (require_non_negative_int (PyInt todo)) (\<lambda>_.
     res_bind (require_non_negative_int (PyInt in_progress)) (\<lambda>_.
     res_bind (require_non_negative_int (PyInt finished)) (\<lambda>_.
       Inr \<lparr>packages_todo = todo, packages_in_progress = in_progress, packages_done = finished\<rparr>)))"

definition packages_total :: "package_status_counts \<Rightarrow> int" where
  "packages_total c = packages_todo c + packages_in_progress c + packages_done c"

record package_overview =
  package_counts :: package_status_counts
  packages_unassigned :: int
  packages_past_due :: int

definition package_overview_init :: "package_status_counts \<Rightarrow> int \<Rightarrow> int \<Rightarrow> package_overview result" where
  "package_overview_init by_status unassigned past_due =
     res_bind (require_non_negative_int (PyInt unassigned)) (\<lambda>_.
     res_bind (require_non_negative_int (PyInt past_due)) (\<lambda>_.
       if packages_total by_status < unassigned then Inl PyValueError
       else if packages_todo by_status + packages_in_progress by_status < past_due then Inl PyValueError
       else Inr \<lparr>package_counts = by_status, packages_unassigned = unassigned, packages_past_due = past_due\<rparr>))"

record route_status_counts =
  routes_planned :: int
  routes_scheduled :: int
  routes_in_progress :: int
  routes_completed :: int

definition route_status_counts_init :: "int \<Rightarrow> int \<Rightarrow> int \<Rightarrow> int \<Rightarrow> route_status_counts result" where
  "route_status_counts_init planned waiting in_progress completed =
     res_bind (require_non_negative_int (PyInt planned)) (\<lambda>_.
     res_bind (require_non_negative_int (PyInt waiting)) (\<lambda>_.
     res_bind (require_non_negative_int (PyInt in_progress)) (\<lambda>_.
     res_bind (require_non_negative_int (PyInt completed)) (\<lambda>_.
       Inr \<lparr>routes_planned = planned, routes_scheduled = waiting, routes_in_progress = in_progress,
            routes_completed = completed\<rparr>))))"

definition routes_total :: "route_status_counts \<Rightarrow> int" where
  "routes_total c = routes_planned c + routes_scheduled c + routes_in_progress c + routes_completed c"

record route_overview =
  route_counts :: route_status_counts
  routes_past_due :: int

definition route_overview_init :: "route_status_counts \<Rightarrow> int \<Rightarrow> route_overview result" where
  "route_overview_init by_status past_due =
     res_bind (require_non_negative_int (PyInt past_due)) (\<lambda>_.
       if routes_planned by_status + routes_scheduled by_status + routes_in_progress by_status < past_due
       then Inl PyValueError
       else Inr \<lparr>route_counts = by_status, routes_past_due = past_due\<rparr>)"

record truck_status_counts =
  trucks_free :: int
  trucks_on_the_way :: int

definition truck_status_counts_init :: "int \<Rightarrow> int \<Rightarrow> truck_status_counts result" where
  "truck_status_counts_init free on_the_way =
     res_bind (require_non_negative_int (PyInt free)) (\<lambda>_.
     res_bind (require_non_negative_int (PyInt on_the_way)) (\<lambda>_.
       Inr \<lparr>trucks_free = free, trucks_on_the_way = on_the_way\<rparr>))"

definition trucks_total :: "truck_status_counts \<Rightarrow> int" where
  "trucks_total c = trucks_free c + trucks_on_the_way c"

record truck_overview =
  truck_counts :: truck_status_counts
  trucks_unknown_location :: int

definition truck_overview_init :: "truck_status_counts \<Rightarrow> int \<Rightarrow> truck_overview result" where
  "truck_overview_init by_status unknown_location =
     res_bind (require_non_negative_int (PyInt unknown_location)) (\<lambda>_.
       if trucks_total by_status < unknown_location then Inl PyValueError
       else Inr \<lparr>truck_counts = by_status, trucks_unknown_location = unknown_location\<rparr>)"

record assigned_truck_overview =
  assigned_truck_id :: int
  assigned_capacity :: int

definition assigned_truck_init :: "int \<Rightarrow> int \<Rightarrow> assigned_truck_overview result" where
  "assigned_truck_init truck_id cap =
     res_bind (require_positive_int (PyInt cap)) (\<lambda>_. Inr \<lparr>assigned_truck_id = truck_id, assigned_capacity = cap\<rparr>)"

datatype active_position =
    InTransitPosition location location time
  | AtStopPosition location "time option"

definition position_next_eta :: "active_position \<Rightarrow> time option" where
  "position_next_eta p = (case p of InTransitPosition _ _ eta \<Rightarrow> Some eta | AtStopPosition _ eta \<Rightarrow> eta)"

record active_route =
  active_id :: int
  active_status :: route_status
  active_start :: location
  active_end :: location
  active_place :: active_position
  active_packages :: int
  active_truck :: "assigned_truck_overview option"
  active_load :: f64

text \<open>A double as the value that \<open>require_non_negative_finite_float\<close> looks at.\<close>

definition float_value :: "f64 \<Rightarrow> pyval" where
  "float_value x = PyFloat (if f64_inf \<le> x then FPosInf else FFin x)"

definition active_route_init :: "active_route \<Rightarrow> active_route result" where
  "active_route_init r =
     res_bind (require_non_negative_int (PyInt (active_packages r))) (\<lambda>_.
     res_bind (require_non_negative_finite_float (float_value (active_load r))) (\<lambda>load.
       Inr (r\<lparr>active_load := load\<rparr>)))"

text \<open>The integer is converted to a double before the division; \<open>OverflowError\<close> when it has none.\<close>

definition capacity_utilization_percent :: "active_route \<Rightarrow> f64 option result" where
  "capacity_utilization_percent r =
     (case active_truck r of
        None \<Rightarrow> Inr None
      | Some t \<Rightarrow>
          let d = f64_of_int (assigned_capacity t)
          in if f64_inf \<le> d then Inl PyOverflowError
             else Inr (Some (f64_mul (f64_round (active_load r * f64_unit) d) (f64_of_int 100))))"

record fleet_overview =
  generated_at :: time
  overview_packages :: package_overview
  overview_routes :: route_overview
  overview_trucks :: truck_overview
  overview_active :: "active_route list"

section \<open>Counting\<close>

text \<open>One traversal of each listing; the counters are the loop variables of the code.\<close>

record package_tally =
  tally_todo :: int
  tally_in_progress :: int
  tally_done :: int
  tally_unassigned :: int
  tally_past_due :: int

definition count_package :: "time \<Rightarrow> package \<Rightarrow> package_tally \<Rightarrow> package_tally" where
  "count_package now p c =
     (let c1 = (case pkg_status p of
                  TODO \<Rightarrow> c\<lparr>tally_todo := tally_todo c + 1\<rparr>
                | PKG_IN_PROGRESS \<Rightarrow> c\<lparr>tally_in_progress := tally_in_progress c + 1\<rparr>
                | DONE \<Rightarrow> c\<lparr>tally_done := tally_done c + 1\<rparr>);
          c2 = (if pkg_route_id p = None then c1\<lparr>tally_unassigned := tally_unassigned c1 + 1\<rparr> else c1)
      in if pkg_status p \<noteq> DONE \<and> (case pkg_expected_arrival p of None \<Rightarrow> False | Some eta \<Rightarrow> eta < now)
         then c2\<lparr>tally_past_due := tally_past_due c2 + 1\<rparr> else c2)"

definition summarize_packages :: "package list \<Rightarrow> time \<Rightarrow> package_overview result" where
  "summarize_packages ps now =
     (let c = fold (count_package now) ps
                \<lparr>tally_todo = 0, tally_in_progress = 0, tally_done = 0, tally_unassigned = 0, tally_past_due = 0\<rparr>
      in res_bind (package_status_counts_init (tally_todo c) (tally_in_progress c) (tally_done c)) (\<lambda>by_status.
           package_overview_init by_status (tally_unassigned c) (tally_past_due c)))"

definition count_truck :: "truck \<Rightarrow> int \<times> int \<times> int \<Rightarrow> int \<times> int \<times> int" where
  "count_truck x c =
     (case c of (free, on_the_way, unknown) \<Rightarrow>
        (case truck_status x of
           FREE \<Rightarrow> (free + 1, on_the_way, unknown + (if truck_location x = None then 1 else 0))
         | ON_THE_WAY \<Rightarrow> (free, on_the_way + 1, unknown + (if truck_location x = None then 1 else 0))))"

definition summarize_trucks :: "truck list \<Rightarrow> truck_overview result" where
  "summarize_trucks xs =
     (case fold count_truck xs (0, 0, 0) of (free, on_the_way, unknown) \<Rightarrow>
        res_bind (truck_status_counts_init free on_the_way) (\<lambda>by_status. truck_overview_init by_status unknown))"

definition map_active_position :: "route_position \<Rightarrow> active_position result" where
  "map_active_position p =
     (case pos_kind p of
        IN_TRANSIT \<Rightarrow>
          (case (pos_from_city p, pos_to_city p, pos_next_eta p) of
             (Some a, Some b, Some eta) \<Rightarrow> Inr (InTransitPosition a b eta)
           | _ \<Rightarrow> Inl PyRuntimeError)
      | AT_STOP \<Rightarrow>
          (case pos_stop_city p of
             None \<Rightarrow> Inl PyRuntimeError
           | Some l \<Rightarrow> Inr (AtStopPosition l (pos_next_eta p)))
      | _ \<Rightarrow> Inl PyValueError)"

definition map_active_route :: "heap \<Rightarrow> rref \<Rightarrow> route_position \<Rightarrow> active_route result" where
  "map_active_route h r p =
     (let x = routes h r
      in res_bind (map_active_position p) (\<lambda>place.
         res_bind (case route_truck x of
                     None \<Rightarrow> Inr None
                   | Some t \<Rightarrow> res_bind (assigned_truck_init (vehicle_id (trucks h t)) (capacity (trucks h t)))
                                 (\<lambda>y. Inr (Some y))) (\<lambda>truck.
           active_route_init
             \<lparr>active_id = route_id x, active_status = route_status x, active_start = path_start (path x),
              active_end = path_end (path x), active_place = place,
              active_packages = int (length (route_packages x)), active_truck = truck,
              active_load = route_maximum_segment_load h r None\<rparr>)))"

record route_tally =
  tally_planned :: int
  tally_scheduled :: int
  tally_moving :: int
  tally_completed :: int
  tally_late :: int
  tally_active :: "active_route list"

definition count_status :: "route_status \<Rightarrow> route_tally \<Rightarrow> route_tally" where
  "count_status s c =
     (case s of
        PLANNED \<Rightarrow> c\<lparr>tally_planned := tally_planned c + 1\<rparr>
      | SCHEDULED \<Rightarrow> c\<lparr>tally_scheduled := tally_scheduled c + 1\<rparr>
      | IN_PROGRESS \<Rightarrow> c\<lparr>tally_moving := tally_moving c + 1\<rparr>
      | COMPLETED \<Rightarrow> c\<lparr>tally_completed := tally_completed c + 1\<rparr>)"

definition count_route :: "heap \<Rightarrow> time \<Rightarrow> rref \<Rightarrow> route_tally \<Rightarrow> route_tally result" where
  "count_route h now r c =
     (let x = routes h r; c1 = count_status (route_status x) c
      in if route_status x = COMPLETED then Inr c1
         else let c2 = (if (case eta_final x of None \<Rightarrow> False | Some eta \<Rightarrow> eta < now)
                        then c1\<lparr>tally_late := tally_late c1 + 1\<rparr> else c1)
              in res_bind (route_current_position x now) (\<lambda>p.
                   if pos_kind p \<noteq> AT_STOP \<and> pos_kind p \<noteq> IN_TRANSIT then Inr c2
                   else res_bind (map_active_route h r p) (\<lambda>y.
                          Inr (c2\<lparr>tally_active := tally_active c2 @ [y]\<rparr>))))"

fun count_routes :: "heap \<Rightarrow> time \<Rightarrow> rref list \<Rightarrow> route_tally \<Rightarrow> route_tally result" where
  "count_routes h now [] c = Inr c"
| "count_routes h now (r # rs) c = res_bind (count_route h now r c) (count_routes h now rs)"

definition summarize_routes :: "heap \<Rightarrow> rref list \<Rightarrow> time \<Rightarrow> (route_overview \<times> active_route list) result" where
  "summarize_routes h rs now =
     res_bind (count_routes h now rs
       \<lparr>tally_planned = 0, tally_scheduled = 0, tally_moving = 0, tally_completed = 0, tally_late = 0,
        tally_active = []\<rparr>) (\<lambda>c.
     res_bind (route_status_counts_init (tally_planned c) (tally_scheduled c) (tally_moving c) (tally_completed c))
       (\<lambda>by_status.
     res_bind (route_overview_init by_status (tally_late c)) (\<lambda>ov. Inr (ov, tally_active c))))"

section \<open>The query\<close>

text \<open>\<open>heapq.nsmallest(n, xs, key)\<close> is \<open>sorted(xs, key=key)[:n]\<close>.\<close>

definition active_key :: "time \<Rightarrow> active_route \<Rightarrow> bool \<times> time \<times> int" where
  "active_key now r =
     (position_next_eta (active_place r) = None,
      (case position_next_eta (active_place r) of None \<Rightarrow> now | Some eta \<Rightarrow> eta), active_id r)"

definition nsmallest :: "int \<Rightarrow> ('a \<Rightarrow> 'k::linorder) \<Rightarrow> 'a list \<Rightarrow> 'a list" where
  "nsmallest n key xs = take (nat n) (sort_key key xs)"

definition get_overview :: "time \<Rightarrow> int \<Rightarrow> app \<Rightarrow> fleet_overview result" where
  "get_overview now limit a =
     res_bind (require_naive_datetime (PyDatetime (naive now))) (\<lambda>_.
     res_bind (require_positive_int (PyInt limit)) (\<lambda>_.
     if 100 < limit then Inl PyValueError
     else
       res_bind (summarize_packages (map (packages (store a)) (repo_list_all (package_repo a))) now) (\<lambda>ps.
       res_bind (summarize_routes (store a) (repo_list_all (route_repo a)) now) (\<lambda>(rs, active).
       res_bind (summarize_trucks (map (trucks (store a)) (fleet a))) (\<lambda>ts.
         Inr \<lparr>generated_at = now, overview_packages = ps, overview_routes = rs, overview_trucks = ts,
              overview_active = nsmallest limit (active_key now) active\<rparr>)))))"

text \<open>\<open>GetFleetOverviewUseCase.execute\<close>\<close>

definition get_fleet_overview :: "int \<Rightarrow> time \<Rightarrow> fleet_overview usecase" where
  "get_fleet_overview limit clock =
     requires FLEET_OVERVIEW_VIEW OP_FLEET_OVERVIEW_VIEW RES_FLEET None clock (\<lambda>a.
       (case get_overview clock limit a of
          Inl e \<Rightarrow> (Inl (if e = PyTypeError \<or> e = PyValueError then ValidationError else e), a)
        | Inr v \<Rightarrow> (Inr v, a)))"

section \<open>What the counts are\<close>

abbreviation tally :: "('a \<Rightarrow> bool) \<Rightarrow> 'a list \<Rightarrow> int" where
  "tally P xs \<equiv> int (length (filter P xs))"

definition late_package :: "time \<Rightarrow> package \<Rightarrow> bool" where
  "late_package now p \<longleftrightarrow> pkg_status p \<noteq> DONE \<and> (\<exists>eta. pkg_expected_arrival p = Some eta \<and> eta < now)"

definition package_overview_of :: "package list \<Rightarrow> time \<Rightarrow> package_overview" where
  "package_overview_of ps now =
     \<lparr>package_counts =
        \<lparr>packages_todo = tally (\<lambda>p. pkg_status p = TODO) ps,
         packages_in_progress = tally (\<lambda>p. pkg_status p = PKG_IN_PROGRESS) ps,
         packages_done = tally (\<lambda>p. pkg_status p = DONE) ps\<rparr>,
      packages_unassigned = tally (\<lambda>p. pkg_route_id p = None) ps,
      packages_past_due = tally (late_package now) ps\<rparr>"

lemma tally_le: "(\<And>x. P x \<Longrightarrow> Q x) \<Longrightarrow> tally P xs \<le> tally Q xs"
  by (induction xs) auto

lemma tally_parts: "(\<And>x. \<not> (P x \<and> Q x)) \<Longrightarrow> tally P xs + tally Q xs = tally (\<lambda>x. P x \<or> Q x) xs"
  by (induction xs) auto

lemma package_total: "packages_total (package_counts (package_overview_of ps now)) = int (length ps)"
proof -
  have "tally (\<lambda>p. pkg_status p = TODO) ps + tally (\<lambda>p. pkg_status p = PKG_IN_PROGRESS) ps +
      tally (\<lambda>p. pkg_status p = DONE) ps = int (length ps)"
    by (induction ps) (auto intro: item_status.exhaust)
  then show ?thesis by (simp add: packages_total_def package_overview_of_def)
qed

lemma package_tally:
  "fold (count_package now) ps c =
     \<lparr>tally_todo = tally_todo c + tally (\<lambda>p. pkg_status p = TODO) ps,
      tally_in_progress = tally_in_progress c + tally (\<lambda>p. pkg_status p = PKG_IN_PROGRESS) ps,
      tally_done = tally_done c + tally (\<lambda>p. pkg_status p = DONE) ps,
      tally_unassigned = tally_unassigned c + tally (\<lambda>p. pkg_route_id p = None) ps,
      tally_past_due = tally_past_due c + tally (late_package now) ps\<rparr>"
proof (induction ps arbitrary: c)
  case (Cons p ps)
  then show ?case
    by (cases "pkg_status p"; cases "pkg_route_id p"; cases "pkg_expected_arrival p")
      (simp_all add: count_package_def late_package_def Let_def)
qed simp

theorem summarize_packages_exact: "summarize_packages ps now = Inr (package_overview_of ps now)"
proof -
  have "tally (\<lambda>p. pkg_route_id p = None) ps \<le> int (length ps)" by simp
  then have "tally (\<lambda>p. pkg_route_id p = None) ps \<le> packages_total (package_counts (package_overview_of ps now))"
    by (simp only: package_total)
  moreover have "tally (late_package now) ps \<le> tally (\<lambda>p. pkg_status p = TODO \<or> pkg_status p = PKG_IN_PROGRESS) ps"
    by (rule tally_le) (auto simp: late_package_def intro: item_status.exhaust)
  ultimately show ?thesis
    by (simp add: summarize_packages_def package_tally package_status_counts_init_def package_overview_init_def
        require_non_negative_int_def validation_defs package_overview_of_def tally_parts packages_total_def Let_def)
qed

definition truck_overview_of :: "truck list \<Rightarrow> truck_overview" where
  "truck_overview_of xs =
     \<lparr>truck_counts = \<lparr>trucks_free = tally (\<lambda>x. truck_status x = FREE) xs,
                      trucks_on_the_way = tally (\<lambda>x. truck_status x = ON_THE_WAY) xs\<rparr>,
      trucks_unknown_location = tally (\<lambda>x. truck_location x = None) xs\<rparr>"

lemma truck_total: "trucks_total (truck_counts (truck_overview_of xs)) = int (length xs)"
proof -
  have "tally (\<lambda>x. truck_status x = FREE) xs + tally (\<lambda>x. truck_status x = ON_THE_WAY) xs = int (length xs)"
    by (induction xs) (auto intro: truck_status.exhaust)
  then show ?thesis by (simp add: trucks_total_def truck_overview_of_def)
qed

lemma truck_tally:
  "fold count_truck xs (f, w, u) =
     (f + tally (\<lambda>x. truck_status x = FREE) xs, w + tally (\<lambda>x. truck_status x = ON_THE_WAY) xs,
      u + tally (\<lambda>x. truck_location x = None) xs)"
proof (induction xs arbitrary: f w u)
  case (Cons x xs)
  then show ?case by (cases "truck_status x"; cases "truck_location x") (simp_all add: count_truck_def)
qed simp

theorem summarize_trucks_exact: "summarize_trucks xs = Inr (truck_overview_of xs)"
proof -
  have "tally (\<lambda>x. truck_location x = None) xs \<le> int (length xs)" by simp
  then have "tally (\<lambda>x. truck_location x = None) xs \<le> trucks_total (truck_counts (truck_overview_of xs))"
    by (simp only: truck_total)
  then show ?thesis
    by (simp add: summarize_trucks_def truck_tally truck_status_counts_init_def truck_overview_init_def
        require_non_negative_int_def validation_defs truck_overview_of_def)
qed

section \<open>What the active routes are\<close>

text \<open>A route is active while it is not completed and the instant is inside its travel window.\<close>

definition is_active :: "heap \<Rightarrow> time \<Rightarrow> rref \<Rightarrow> bool" where
  "is_active h now r \<longleftrightarrow>
     route_status (routes h r) \<noteq> COMPLETED \<and>
     (\<exists>s. schedule (routes h r) = Some s \<and> sched_departure_time s \<le> now \<and> now \<le> sched_eta_final s)"

definition place_at :: "route_schedule \<Rightarrow> time \<Rightarrow> active_position" where
  "place_at s now =
     (let i = last_reached_stop s now
      in if i \<noteq> 0 \<and> stop_arrival_at (sched_stops s ! i) = now
         then AtStopPosition (stop_location (sched_stops s ! i))
           (if Suc i < length (sched_stops s) then Some (stop_arrival_at (sched_stops s ! Suc i)) else None)
         else InTransitPosition (stop_location (sched_stops s ! i)) (stop_location (sched_stops s ! Suc i))
           (stop_arrival_at (sched_stops s ! Suc i)))"

definition active_of :: "heap \<Rightarrow> time \<Rightarrow> rref \<Rightarrow> active_route" where
  "active_of h now r =
     (let x = routes h r
      in \<lparr>active_id = route_id x, active_status = route_status x, active_start = path_start (path x),
          active_end = path_end (path x), active_place = place_at (the (schedule x)) now,
          active_packages = int (length (route_packages x)),
          active_truck = map_option (\<lambda>t. \<lparr>assigned_truck_id = vehicle_id (trucks h t),
            assigned_capacity = capacity (trucks h t)\<rparr>) (route_truck x),
          active_load = route_maximum_segment_load h r None\<rparr>)"

definition late_route :: "time \<Rightarrow> route \<Rightarrow> bool" where
  "late_route now x \<longleftrightarrow> route_status x \<noteq> COMPLETED \<and> (\<exists>eta. eta_final x = Some eta \<and> eta < now)"

definition route_overview_of :: "route list \<Rightarrow> time \<Rightarrow> route_overview" where
  "route_overview_of xs now =
     \<lparr>route_counts =
        \<lparr>routes_planned = tally (\<lambda>x. route_status x = PLANNED) xs,
         routes_scheduled = tally (\<lambda>x. route_status x = SCHEDULED) xs,
         routes_in_progress = tally (\<lambda>x. route_status x = IN_PROGRESS) xs,
         routes_completed = tally (\<lambda>x. route_status x = COMPLETED) xs\<rparr>,
      routes_past_due = tally (late_route now) xs\<rparr>"

lemma route_total: "routes_total (route_counts (route_overview_of xs now)) = int (length xs)"
proof -
  have "tally (\<lambda>x. route_status x = PLANNED) xs + tally (\<lambda>x. route_status x = SCHEDULED) xs +
      tally (\<lambda>x. route_status x = IN_PROGRESS) xs + tally (\<lambda>x. route_status x = COMPLETED) xs = int (length xs)"
    by (induction xs) (auto intro: route_status.exhaust)
  then show ?thesis by (simp add: routes_total_def route_overview_of_def)
qed

text \<open>What the projection of one route needs: a load that is a finite double and a truck with a capacity.\<close>

definition projectable :: "heap \<Rightarrow> rref \<Rightarrow> bool" where
  "projectable h r \<longleftrightarrow>
     route_ok (routes h r) \<and> 0 \<le> route_maximum_segment_load h r None \<and>
     route_maximum_segment_load h r None < f64_inf \<and>
     (\<forall>t. route_truck (routes h r) = Some t \<longrightarrow> 0 < capacity (trucks h t))"

lemma active_position:
  assumes ok: "schedule_ok s" and p: "position_at s (naive now) = Inr p"
  shows "pos_kind p = AT_STOP \<or> pos_kind p = IN_TRANSIT \<longleftrightarrow> sched_departure_time s \<le> now \<and> now \<le> sched_eta_final s"
    "sched_departure_time s \<le> now \<Longrightarrow> now \<le> sched_eta_final s \<Longrightarrow> map_active_position p = Inr (place_at s now)"
proof -
  have p: "p = position_spec s now" using position_at_spec [OF ok, of now] p by simp
  show "pos_kind p = AT_STOP \<or> pos_kind p = IN_TRANSIT \<longleftrightarrow> sched_departure_time s \<le> now \<and> now \<le> sched_eta_final s"
    by (auto simp: p position_spec_def at_stop_def in_transit_from_def Let_def)
  show "map_active_position p = Inr (place_at s now)" if "sched_departure_time s \<le> now" "now \<le> sched_eta_final s"
    using that by (simp add: p position_spec_def at_stop_def in_transit_from_def place_at_def map_active_position_def Let_def)
qed

lemma counted_route:
  assumes ok: "projectable h r"
  shows "count_route h now r c =
    (let c1 = count_status (route_status (routes h r)) c
     in Inr (c1\<lparr>tally_late := tally_late c1 + (if late_route now (routes h r) then 1 else 0),
             tally_active := tally_active c1 @ (if is_active h now r then [active_of h now r] else [])\<rparr>))"
proof (cases "route_status (routes h r) = COMPLETED")
  case True
  then show ?thesis by (simp add: count_route_def late_route_def is_active_def Let_def)
next
  case False
  let ?x = "routes h r"
  have rok: "route_ok ?x" using ok by (simp add: projectable_def)
  show ?thesis
  proof (cases "schedule ?x")
    case None
    then show ?thesis
      using False by (simp add: count_route_def late_route_def is_active_def Let_def route_current_position_def eta_final_def)
  next
    case (Some s)
    then have sok: "schedule_ok s" using rok by (simp add: route_ok_def)
    then obtain p where p: "position_at s (naive now) = Inr p" using position_at_spec by blast
    note kind = active_position [OF sok p]
    have late: "(case eta_final ?x of None \<Rightarrow> False | Some eta \<Rightarrow> eta < now) \<longleftrightarrow> late_route now ?x"
      using False Some by (simp add: late_route_def eta_final_def)
    have active: "is_active h now r \<longleftrightarrow> sched_departure_time s \<le> now \<and> now \<le> sched_eta_final s"
      using False Some by (simp add: is_active_def)
    have "map_active_route h r p = Inr (active_of h now r)" if "is_active h now r"
      using that kind(2) ok Some unfolding active
      by (cases "route_truck ?x")
        (simp_all add: map_active_route_def active_of_def Let_def active_route_init_def assigned_truck_init_def projectable_def
          float_value_def require_non_negative_int_def require_non_negative_finite_float_def validation_defs)
    then show ?thesis
      using False Some kind(1) p late active
      by (auto simp: count_route_def route_current_position_def Let_def)
  qed
qed

lemma counted_routes:
  assumes "\<forall>r \<in> set rs. projectable h r"
  shows "count_routes h now rs c =
    Inr \<lparr>tally_planned = tally_planned c + tally (\<lambda>x. route_status x = PLANNED) (map (routes h) rs),
         tally_scheduled = tally_scheduled c + tally (\<lambda>x. route_status x = SCHEDULED) (map (routes h) rs),
         tally_moving = tally_moving c + tally (\<lambda>x. route_status x = IN_PROGRESS) (map (routes h) rs),
         tally_completed = tally_completed c + tally (\<lambda>x. route_status x = COMPLETED) (map (routes h) rs),
         tally_late = tally_late c + tally (late_route now) (map (routes h) rs),
         tally_active = tally_active c @ map (active_of h now) (filter (is_active h now) rs)\<rparr>"
  using assms
proof (induction rs arbitrary: c)
  case (Cons r rs)
  then show ?case
    by (cases "route_status (routes h r)") (simp_all add: counted_route count_status_def Let_def)
qed simp

theorem summarize_routes_exact:
  assumes "\<forall>r \<in> set rs. projectable h r"
  shows "summarize_routes h rs now =
    Inr (route_overview_of (map (routes h) rs) now, map (active_of h now) (filter (is_active h now) rs))"
proof -
  let ?xs = "map (routes h) rs"
  have "tally (late_route now) ?xs \<le>
      tally (\<lambda>x. (route_status x = PLANNED \<or> route_status x = SCHEDULED) \<or> route_status x = IN_PROGRESS) ?xs"
    by (rule tally_le) (auto simp: late_route_def intro: route_status.exhaust)
  also have "\<dots> = tally (\<lambda>x. route_status x = PLANNED) ?xs + tally (\<lambda>x. route_status x = SCHEDULED) ?xs +
      tally (\<lambda>x. route_status x = IN_PROGRESS) ?xs"
    by (induction rs) auto
  finally show ?thesis
    by (simp add: summarize_routes_def counted_routes [OF assms] route_status_counts_init_def route_overview_init_def
        require_non_negative_int_def validation_defs route_overview_of_def)
qed

section \<open>The overview of a consistent application\<close>

text \<open>No load beyond the doubles, and trucks with a capacity as their constructor demands it.\<close>

definition carriable :: "app \<Rightarrow> bool" where
  "carriable a \<longleftrightarrow>
     (\<forall>r \<in> live_routes a. route_maximum_segment_load (store a) r None < f64_inf) \<and>
     (\<forall>t \<in> set (fleet a). 0 < capacity (trucks (store a) t))"

definition overview_of :: "app \<Rightarrow> time \<Rightarrow> int \<Rightarrow> fleet_overview" where
  "overview_of a now limit =
     (let h = store a; rs = repo_list_all (route_repo a)
      in \<lparr>generated_at = now,
          overview_packages = package_overview_of (map (packages h) (repo_list_all (package_repo a))) now,
          overview_routes = route_overview_of (map (routes h) rs) now,
          overview_trucks = truck_overview_of (map (trucks h) (fleet a)),
          overview_active =
            take (nat limit) (sort_key (active_key now) (map (active_of h now) (filter (is_active h now) rs)))\<rparr>)"

lemma py_max_nonneg: "\<forall>x \<in> set xs. 0 \<le> x \<Longrightarrow> 0 \<le> py_max xs"
  by (cases "xs = []") (simp add: py_max_def, simp add: py_max_Max)

lemma load_nonneg:
  assumes "\<forall>p \<in> set (route_packages (routes h r)). package_ok (packages h p)"
  shows "0 \<le> route_maximum_segment_load h r None"
proof -
  let ?ps = "map (\<lambda>p. package_load_of (packages h p)) (route_packages (routes h r))"
  have "list_all load_ok ?ps"
    using assms by (auto simp: list_all_iff load_ok_def package_load_of_def package_ok_def)
  then have "0 \<le> segment_load locs ?ps k" for locs k using segment_load_ok by (simp add: f64_ok_def)
  then show ?thesis
    unfolding route_maximum_segment_load_def maximum_segment_load_eq by (intro py_max_nonneg) auto
qed

lemma app_projectable:
  assumes ok: "app_ok a" and c: "carriable a" and r: "r \<in> live_routes a"
  shows "projectable (store a) r"
proof -
  note w = app_okD(4) [OF ok]
  note links = world_okD(1) [OF w r]
  have "0 \<le> route_maximum_segment_load (store a) r None"
    using route_linksD(3) [OF links] world_okD(2) [OF w] by (intro load_nonneg) (auto simp: package_links_ok_def)
  then show ?thesis
    using c r route_linksD(1,5) [OF links] by (auto simp: projectable_def carriable_def)
qed

theorem get_overview_spec:
  assumes "app_ok a" and "carriable a" and "1 \<le> limit" and "limit \<le> 100"
  shows "get_overview now limit a = Inr (overview_of a now limit)"
proof -
  have "\<forall>r \<in> set (repo_list_all (route_repo a)). projectable (store a) r"
    using app_projectable [OF assms(1,2)] live_list_all(1) [OF assms(1)] by simp
  note routes = summarize_routes_exact [OF this]
  show ?thesis
    using assms(3,4)
    by (simp add: get_overview_def routes summarize_packages_exact summarize_trucks_exact overview_of_def nsmallest_def
        require_naive_datetime_def require_datetime_def naive_def validation_defs Let_def)
qed

section \<open>The overview right after a heartbeat\<close>

lemma advanced_store:
  assumes "advance_world_state now persist a = (Inr s, a')"
  shows "reconcile_routes (repo_list_all (route_repo a)) now True (store a) = (Inr s, store a')"
    "route_repo a' = route_repo a" "package_repo a' = package_repo a" "fleet a' = fleet a"
proof -
  let ?rs = "repo_list_all (route_repo a)"
  have world: "store (record_application_event e b) = store b \<and> route_repo (record_application_event e b) = route_repo b \<and>
      package_repo (record_application_event e b) = package_repo b \<and> fleet (record_application_event e b) = fleet b" for e b
    by (simp add: record_application_event_def split: option.split)
  have fold: "store (fold (\<lambda>e. record_application_event (Reconciled e)) es b) = store b \<and>
      route_repo (fold (\<lambda>e. record_application_event (Reconciled e)) es b) = route_repo b \<and>
      package_repo (fold (\<lambda>e. record_application_event (Reconciled e)) es b) = package_repo b \<and>
      fleet (fold (\<lambda>e. record_application_event (Reconciled e)) es b) = fleet b" for es b
    by (induction es arbitrary: b) (simp_all add: world)
  obtain res h where run: "heartbeat_advance ?rs now persist (store a) = (res, h)" by force
  then have res: "res = Inr s" "store a' = h" "route_repo a' = route_repo a" "package_repo a' = package_repo a" "fleet a' = fleet a"
    using assms by (cases res; auto simp: advance_world_state_def act_bind_def on_store_def world fold)+
  have "reconcile_routes ?rs now True (store a) = (Inr s, h)"
    using run unfolding res(1)
    by (auto simp: heartbeat_advance_def act_catch_def act_bind_def persisted_def Let_def split: prod.splits sum.splits if_splits option.splits)
  then show "reconcile_routes ?rs now True (store a) = (Inr s, store a')"
    "route_repo a' = route_repo a" "package_repo a' = package_repo a" "fleet a' = fleet a" by (simp_all add: res)
qed

lemma carriable_advanced:
  assumes ok: "app_ok a" and c: "carriable a" and run: "advance_world_state now persist a = (Inr s, a')"
  shows "carriable a'"
proof -
  note adv = advanced_store [OF run]
  have "\<forall>r \<in> set (repo_list_all (route_repo a)). route_ok (routes (store a) r)"
    using world_okD(1) [OF app_okD(4) [OF ok]] route_linksD(1) live_list_all(1) [OF ok] by metis
  then have "heartbeat_region (repo_list_all (route_repo a)) (store a) (store a')"
    using reconcile_loop_region distinct_repo_list_all [OF app_okD(1) [OF ok]] adv(1)
    unfolding reconcile_routes_def by blast
  note g = this [unfolded heartbeat_region_def]
  have "route_maximum_segment_load (store a') r None = route_maximum_segment_load (store a) r None" for r
    using g by (intro load_cong) (simp_all add: reconciled_route_frame_def package_frame_def package_load_of_def)
  then show ?thesis using c g adv by (simp add: carriable_def truck_frame_def)
qed

theorem overview_settled:
  assumes ok: "app_ok a" and c: "carriable a" and run: "advance_world_state now persist a = (Inr s, a')"
    and limit: "1 \<le> limit" "limit \<le> 100"
  shows "get_overview now limit a' = Inr (overview_of a' now limit)"
    "routes_past_due (overview_routes (overview_of a' now limit)) = 0"
    "length (overview_active (overview_of a' now limit)) =
      min (nat limit) (nat (routes_in_progress (route_counts (overview_routes (overview_of a' now limit)))))"
    "\<forall>x \<in> set (overview_active (overview_of a' now limit)). active_status x = IN_PROGRESS"
proof -
  let ?rs = "repo_list_all (route_repo a)" and ?h = "store a'"
  note adv = advanced_store [OF run]
  have live: "set ?rs = live_routes a" by (rule live_list_all(1) [OF ok])
  have d: "distinct ?rs" by (rule distinct_repo_list_all [OF app_okD(1) [OF ok]])
  have ok': "app_ok a'" using preserves_advance_world_state [of now persist] ok run
    by (metis preserves_def snd_conv)
  have "\<forall>r \<in> set ?rs. at_rest r now True ?h"
    using reconcile_loop_rests [OF app_okD(4) [OF ok] _ d, of now True empty_summary s ?h] adv(1) live
    by (simp add: reconcile_routes_def)
  then have status: "route_status (routes ?h r) \<noteq> COMPLETED \<Longrightarrow>
      route_status (routes ?h r) = fst (compute_route_status (routes ?h r) now)" if "r \<in> set ?rs" for r
    using that by (auto simp: at_rest_def settled_def status_settled_def regressed_def)
  have state: "\<not> late_route now (routes ?h r) \<and> (is_active ?h now r \<longleftrightarrow> route_status (routes ?h r) = IN_PROGRESS)"
    if r: "r \<in> set ?rs" for r
  proof (cases "schedule (routes ?h r)")
    case None
    have "route_status (routes ?h r) = PLANNED"
      using world_okD(1) [OF app_okD(4) [OF ok']] r live None by (simp add: route_links_ok_def adv(2))
    then show ?thesis using None by (simp add: late_route_def is_active_def eta_final_def)
  next
    case (Some sch)
    show ?thesis
    proof (cases "route_status (routes ?h r) = COMPLETED")
      case True
      then show ?thesis by (simp add: late_route_def is_active_def)
    next
      case False
      have "route_ok (routes ?h r)"
        using world_okD(1) [OF app_okD(4) [OF ok']] route_linksD(1) r live adv(2) by metis
      then have "schedule_ok sch" by (simp add: route_ok_def Some)
      from departure_before_eta [OF this] status [OF r] False show ?thesis
        by (auto simp: compute_status_scheduled [OF Some] late_route_def is_active_def eta_final_def Some split: if_splits)
    qed
  qed
  have late: "filter (late_route now) (map (routes ?h) ?rs) = []"
    using state by (auto simp: filter_empty_conv)
  have active: "filter (is_active ?h now) ?rs = filter (\<lambda>r. route_status (routes ?h r) = IN_PROGRESS) ?rs"
    by (rule filter_cong) (simp_all add: state)
  show "get_overview now limit a' = Inr (overview_of a' now limit)"
    by (rule get_overview_spec [OF ok' carriable_advanced [OF ok c run] limit])
  show "routes_past_due (overview_routes (overview_of a' now limit)) = 0"
    by (simp add: overview_of_def Let_def adv(2) route_overview_of_def late [unfolded filter_map, simplified])
  show "length (overview_active (overview_of a' now limit)) =
      min (nat limit) (nat (routes_in_progress (route_counts (overview_routes (overview_of a' now limit)))))"
    by (simp add: overview_of_def Let_def adv(2) route_overview_of_def active filter_map comp_def min.commute)
  show "\<forall>x \<in> set (overview_active (overview_of a' now limit)). active_status x = IN_PROGRESS"
    by (auto simp: overview_of_def Let_def adv(2) active active_of_def dest!: in_set_takeD)
qed

end
