(* ===== verification/Queries.thy ===== *)
theory Queries
  imports Overview UseCases Pagination
begin

text \<open>
  The read-only use cases: listings and single views of customers, packages, routes and trucks
  (\<open>src/application/use_cases/*/view_*.py\<close>) and the two searches
  \<open>src/application/use_cases/routes/find_suitable_*.py\<close>.
\<close>

section \<open>Sums of doubles\<close>

text \<open>
  \<open>sum\<close> over doubles is compensated: beside the running sum it keeps the rounding errors made so far,
  and adds them at the end unless the sum has overflowed.  An error may be negative, so the doubles here
  have a sign: a value is an integral multiple of the least positive double.
\<close>

definition f64_signed :: "int \<Rightarrow> f64" where
  "f64_signed x = (if x < 0 then - f64_round (- x) 1 else f64_round x 1)"

definition compensated_add :: "f64 \<Rightarrow> f64 \<times> f64 \<Rightarrow> f64 \<times> f64" where
  "compensated_add x acc =
     (case acc of (s, c) \<Rightarrow>
        let t = f64_add s x
        in (t, f64_signed (c + (if x \<le> s then f64_signed (f64_signed (s - t) + x) else f64_signed (f64_signed (x - t) + s)))))"

definition sum_doubles :: "f64 list \<Rightarrow> f64" where
  "sum_doubles xs =
     (case xs of
        [] \<Rightarrow> 0
      | x # ys \<Rightarrow>
          (case fold compensated_add ys (x, 0) of (s, c) \<Rightarrow> if f64_inf \<le> s then f64_inf else f64_signed (s + c)))"

definition total_assigned_weight :: "heap \<Rightarrow> rref \<Rightarrow> f64" where
  "total_assigned_weight h r = sum_doubles (map (\<lambda>p. pkg_weight (packages h p)) (route_packages (routes h r)))"

text \<open>
  \<open>truck.capacity - route.total_assigned_weight()\<close>: the sum of no packages is the integer 0, otherwise
  the capacity becomes a double first.
\<close>

definition capacity_left :: "heap \<Rightarrow> rref \<Rightarrow> f64 option result" where
  "capacity_left h r =
     (case route_truck (routes h r) of
        None \<Rightarrow> Inr None
      | Some t \<Rightarrow>
          let cap = capacity (trucks h t); w = total_assigned_weight h r
          in if route_packages (routes h r) = [] then Inr (Some (cap * f64_unit))
             else if f64_inf \<le> f64_of_int cap then Inl PyOverflowError
             else Inr (Some (if f64_inf \<le> w then - f64_inf else f64_signed (f64_of_int cap - w))))"

section \<open>Listings\<close>

definition execute_on :: "(app \<Rightarrow> 'a result) \<Rightarrow> 'a usecase" where
  "execute_on f a = (f a, a)"

definition view_all_customers :: "page_query \<Rightarrow> time \<Rightarrow> cref page_result usecase" where
  "view_all_customers q clock =
     requires CUSTOMER_VIEW OP_CUSTOMER_LIST RES_CUSTOMER None clock (execute_on (\<lambda>a.
       execute_page_query q (customer_list_all (customer_dir a))
         (\<lambda>limit offset. repo_list_page limit offset (customers_by_id (customer_dir a)))
         (\<lambda>limit offset. repo_list_page_with_total limit offset (customers_by_id (customer_dir a)))))"

definition view_all_packages :: "page_query \<Rightarrow> time \<Rightarrow> pref page_result usecase" where
  "view_all_packages q clock =
     requires PACKAGE_VIEW_ALL OP_PACKAGE_LIST RES_PACKAGE None clock (execute_on (\<lambda>a.
       execute_page_query q (repo_list_all (package_repo a))
         (\<lambda>limit offset. repo_list_page limit offset (package_repo a))
         (\<lambda>limit offset. repo_list_page_with_total limit offset (package_repo a))))"

definition view_unassigned_packages :: "page_query \<Rightarrow> time \<Rightarrow> pref page_result usecase" where
  "view_unassigned_packages q clock =
     requires PACKAGE_VIEW_UNASSIGNED OP_PACKAGE_LIST_UNASSIGNED RES_PACKAGE None clock (execute_on (\<lambda>a.
       execute_page_query q (list_unassigned (store a) (package_repo a))
         (\<lambda>limit offset. list_unassigned_page (store a) limit offset (package_repo a))
         (\<lambda>limit offset. list_unassigned_page_with_total (store a) limit offset (package_repo a))))"

definition view_all_routes :: "page_query \<Rightarrow> time \<Rightarrow> rref page_result usecase" where
  "view_all_routes q clock =
     requires ROUTE_VIEW_ALL OP_ROUTE_LIST RES_ROUTE None clock (execute_on (\<lambda>a.
       execute_page_query q (repo_list_all (route_repo a))
         (\<lambda>limit offset. repo_list_page limit offset (route_repo a))
         (\<lambda>limit offset. repo_list_page_with_total limit offset (route_repo a))))"

definition view_all_trucks :: "time \<Rightarrow> tref list usecase" where
  "view_all_trucks clock = requires TRUCK_VIEW OP_TRUCK_LIST RES_TRUCK None clock (execute_on (\<lambda>a. Inr (fleet a)))"

section \<open>Single views\<close>

definition view_package :: "int \<Rightarrow> time \<Rightarrow> pref usecase" where
  "view_package pid clock =
     requires PACKAGE_VIEW OP_PACKAGE_VIEW RES_PACKAGE (Some pid) clock
       (\<lambda>a. get_or_not_found (repo_get pid (package_repo a)) a)"

definition view_route :: "int \<Rightarrow> time \<Rightarrow> rref usecase" where
  "view_route rid clock =
     requires ROUTE_VIEW OP_ROUTE_VIEW RES_ROUTE (Some rid) clock
       (\<lambda>a. get_or_not_found (repo_get rid (route_repo a)) a)"

fun routes_under_way :: "heap \<Rightarrow> time \<Rightarrow> rref list \<Rightarrow> (rref \<times> route_position) list result" where
  "routes_under_way h now [] = Inr []"
| "routes_under_way h now (r # rs) =
     res_bind (route_current_position (routes h r) now) (\<lambda>p.
     res_bind (routes_under_way h now rs) (\<lambda>active.
       Inr (if pos_kind p = AT_STOP \<or> pos_kind p = IN_TRANSIT then (r, p) # active else active)))"

definition view_routes_in_progress :: "time \<Rightarrow> time \<Rightarrow> (rref \<times> route_position) list usecase" where
  "view_routes_in_progress now clock =
     requires ROUTE_VIEW_IN_PROGRESS OP_ROUTE_LIST_IN_PROGRESS RES_ROUTE None clock (execute_on (\<lambda>a.
       routes_under_way (store a) now (repo_list_all (route_repo a))))"

section \<open>Searches\<close>

record suitable_route =
  suitable_id :: int
  suitable_start :: location
  suitable_end :: location
  suitable_eta :: "time option"
  suitable_capacity_left :: "f64 option"
  suitable_end_city :: location

definition suitable_eta_of :: "route \<Rightarrow> location \<Rightarrow> time option result" where
  "suitable_eta_of x city =
     (case arrival_time_at x (PyStr city) of
        Inr eta \<Rightarrow> Inr (Some eta)
      | Inl (DomainConflictError _) \<Rightarrow> Inr None
      | Inl DomainValidationError \<Rightarrow> Inr None
      | Inl e \<Rightarrow> Inl e)"

fun suitable_routes :: "heap \<Rightarrow> pref \<Rightarrow> time \<Rightarrow> rref list \<Rightarrow> suitable_route list result" where
  "suitable_routes h p now [] = Inr []"
| "suitable_routes h p now (r # rs) =
     res_bind (can_accept_package h r p now) (\<lambda>refusal.
       if refusal \<noteq> None then suitable_routes h p now rs
       else
         let x = routes h r; city = pkg_end (packages h p)
         in res_bind (capacity_left h r) (\<lambda>left.
            res_bind (suitable_eta_of x city) (\<lambda>eta.
            res_bind (suitable_routes h p now rs) (\<lambda>found.
              Inr (\<lparr>suitable_id = route_id x, suitable_start = path_start (path x), suitable_end = path_end (path x),
                   suitable_eta = eta, suitable_capacity_left = left, suitable_end_city = city\<rparr> # found)))))"

text \<open>\<open>datetime.max\<close> stands in for a missing arrival.\<close>

definition suitable_key :: "suitable_route \<Rightarrow> bool \<times> time" where
  "suitable_key x = (suitable_eta x = None, (case suitable_eta x of None \<Rightarrow> time_max | Some eta \<Rightarrow> eta))"

definition find_suitable_routes_for_package :: "int \<Rightarrow> time \<Rightarrow> suitable_route list usecase" where
  "find_suitable_routes_for_package pid clock =
     requires_all [PACKAGE_FIND_ROUTE_FOR, PACKAGE_VIEW, ROUTE_VIEW] OP_PACKAGE_FIND_SUITABLE_ROUTES RES_PACKAGE
       (Some pid) clock
       (\<lambda>a. act_bind (get_or_not_found (repo_get pid (package_repo a))) (\<lambda>p.
         execute_on (\<lambda>a. res_bind (suitable_routes (store a) p clock (repo_list_all (route_repo a)))
           (\<lambda>found. Inr (sort_key suitable_key found)))) a)"

definition find_suitable_trucks_for_route :: "int \<Rightarrow> time \<Rightarrow> tref list usecase" where
  "find_suitable_trucks_for_route rid clock =
     requires ROUTE_FIND_TRUCK_FOR OP_ROUTE_FIND_SUITABLE_TRUCKS RES_ROUTE (Some rid) clock
       (\<lambda>a. act_bind (get_or_not_found (repo_get rid (route_repo a))) (\<lambda>r.
         execute_on (\<lambda>a. find_available_for_route (store a) (fleet a) r)) a)"

section \<open>Queries only read\<close>

text \<open>A query leaves the state, apart from the event of a denial.\<close>

definition reads_only :: "'a usecase \<Rightarrow> bool" where
  "reads_only m \<longleftrightarrow> (\<forall>a. snd (m a) = a \<or> (fst (m a) = Inl PermissionError \<and>
     (\<exists>d. snd (m a) = record_application_event (AuthorizationDenied d) a)))"

named_theorems reads_only_intros \<open>use cases that only read\<close>

lemma reads_execute [reads_only_intros]: "reads_only (execute_on f)"
  by (simp add: reads_only_def execute_on_def)

lemma reads_requires_all [reads_only_intros]: "reads_only m \<Longrightarrow> reads_only (requires_all ps op res rid clock m)"
  by (auto simp: reads_only_def requires_all_def record_authorization_denied_def split: option.splits)

lemma reads_requires [reads_only_intros]: "reads_only m \<Longrightarrow> reads_only (requires p op res rid clock m)"
  by (simp add: requires_eq reads_requires_all)

lemma reads_found [reads_only_intros]: "reads_only (\<lambda>a. get_or_not_found (f a) a)"
  by (auto simp: reads_only_def get_or_not_found_def split: option.split)

lemma reads_found_bind [reads_only_intros]:
  "(\<And>x. reads_only (g x)) \<Longrightarrow> reads_only (\<lambda>a. act_bind (get_or_not_found (f a)) g a)"
  by (auto simp: reads_only_def get_or_not_found_def act_bind_def split: option.split)

lemma queries_read:
  "reads_only (view_all_customers q clock)" "reads_only (view_all_packages q clock)"
  "reads_only (view_unassigned_packages q clock)" "reads_only (view_all_routes q clock)"
  "reads_only (view_all_trucks clock)" "reads_only (view_package i clock)" "reads_only (view_route i clock)"
  "reads_only (view_routes_in_progress now clock)" "reads_only (find_suitable_routes_for_package i clock)"
  "reads_only (find_suitable_trucks_for_route i clock)"
  unfolding view_all_customers_def view_all_packages_def view_unassigned_packages_def view_all_routes_def
    view_all_trucks_def view_package_def view_route_def view_routes_in_progress_def
    find_suitable_routes_for_package_def find_suitable_trucks_for_route_def
  by (intro reads_only_intros)+

lemma overview_reads: "reads_only (get_fleet_overview limit clock)"
  unfolding get_fleet_overview_def
  by (intro reads_only_intros) (simp add: reads_only_def split: sum.split)

section \<open>What the searches find\<close>

lemma suitable_trucks_filter:
  assumes "route_ok (routes h r)"
  shows "suitable_trucks h r ts = Inr (filter (\<lambda>t. truck_suits h t r) ts)"
proof (induction ts)
  case (Cons t ts)
  then show ?case using evaluate_truck_decides [OF assms, of t] by (auto simp: decides_def)
qed simp

theorem trucks_found:
  assumes ok: "app_ok a" and allowed: "missing_permissions (identity a) [ROUTE_FIND_TRUCK_FOR] = None"
    and r: "repo_get rid (route_repo a) = Some r"
  shows "find_suitable_trucks_for_route rid clock a =
    (Inr (sort_key (\<lambda>t. vehicle_id (trucks (store a) t)) (filter (\<lambda>t. truck_suits (store a) t r) (fleet a))), a)"
proof -
  have "route_ok (routes (store a) r)"
    using route_linksD(1) [OF world_okD(1) [OF app_okD(4) [OF ok] refsI [OF r]]] .
  then show ?thesis
    using allowed r
    by (simp add: find_suitable_trucks_for_route_def requires_eq requires_all_def act_bind_def get_or_not_found_def
        execute_on_def find_available_for_route_def suitable_trucks_filter)
qed

definition planned_arrival :: "route \<Rightarrow> location \<Rightarrow> time option" where
  "planned_arrival x city = Option.bind (schedule x) (\<lambda>s. arrival_times s city)"

definition option_for :: "heap \<Rightarrow> pref \<Rightarrow> rref \<Rightarrow> suitable_route" where
  "option_for h p r =
     (let x = routes h r; city = pkg_end (packages h p)
      in \<lparr>suitable_id = route_id x, suitable_start = path_start (path x), suitable_end = path_end (path x),
          suitable_eta = planned_arrival x city,
          suitable_capacity_left = (case capacity_left h r of Inr left \<Rightarrow> left | Inl _ \<Rightarrow> None),
          suitable_end_city = city\<rparr>)"

lemma eta_of_planned:
  assumes "location_code (PyStr city) = Inr city"
  shows "suitable_eta_of x city = Inr (planned_arrival x city)"
  using assms
  by (auto simp: suitable_eta_of_def arrival_time_at_def planned_arrival_def sched_arrival_time_at_def split: option.split)

lemma suitable_routes_filter:
  assumes "\<forall>r \<in> set rs. route_ok (routes h r) \<and> (\<exists>left. capacity_left h r = Inr left)"
    and "location_code (PyStr (pkg_end (packages h p))) = Inr (pkg_end (packages h p))"
  shows "suitable_routes h p now rs =
    Inr (map (option_for h p) (filter (\<lambda>r. package_fits h r (packages h p) now) rs))"
  using assms(1)
proof (induction rs)
  case (Cons r rs)
  obtain d where d: "evaluate_package h r (packages h p) now = Inr d" "decision_ok d"
    "accepted d \<longleftrightarrow> package_fits h r (packages h p) now"
    using evaluate_package_decides [of h r "packages h p" now] Cons.prems by (auto simp: decides_def)
  then have "decision_message d = None \<longleftrightarrow> package_fits h r (packages h p) now"
    using accepted_iff_message by blast
  then show ?case
    using Cons d(1) by (auto simp: can_accept_package_def eta_of_planned [OF assms(2)] option_for_def Let_def)
qed simp

text \<open>Capacities that are doubles, so that the difference to a weight exists.\<close>

definition measurable :: "app \<Rightarrow> bool" where
  "measurable a \<longleftrightarrow> (\<forall>t \<in> set (fleet a). f64_of_int (capacity (trucks (store a) t)) < f64_inf)"

theorem routes_found:
  assumes ok: "app_ok a" and m: "measurable a"
    and allowed: "missing_permissions (identity a) [PACKAGE_FIND_ROUTE_FOR, PACKAGE_VIEW, ROUTE_VIEW] = None"
    and p: "repo_get pid (package_repo a) = Some p"
  shows "find_suitable_routes_for_package pid clock a =
    (Inr (sort_key suitable_key (map (option_for (store a) p)
       (filter (\<lambda>r. package_fits (store a) r (packages (store a) p) clock) (repo_list_all (route_repo a))))), a)"
proof -
  let ?h = "store a"
  note w = app_okD(4) [OF ok]
  have "package_ok (packages ?h p)" using world_okD(2) [OF w refsI [OF p]] by (simp add: package_links_ok_def)
  then have code: "location_code (PyStr (pkg_end (packages ?h p))) = Inr (pkg_end (packages ?h p))"
    by (intro locations_are_codes) (simp add: package_ok_def)
  have "route_ok (routes ?h r) \<and> (\<exists>left. capacity_left ?h r = Inr left)" if "r \<in> live_routes a" for r
  proof -
    note links = world_okD(1) [OF w that]
    have "f64_of_int (capacity (trucks ?h t)) < f64_inf" if "route_truck (routes ?h r) = Some t" for t
      using route_linksD(5) [OF links that] m by (simp add: measurable_def)
    then show ?thesis
      using route_linksD(1) [OF links] by (auto simp: capacity_left_def Let_def not_le split: option.split)
  qed
  then have "\<forall>r \<in> set (repo_list_all (route_repo a)). route_ok (routes ?h r) \<and> (\<exists>left. capacity_left ?h r = Inr left)"
    using live_list_all(1) [OF ok] by simp
  note found = suitable_routes_filter [OF this code]
  show ?thesis
    using allowed p
    by (simp add: find_suitable_routes_for_package_def requires_all_def act_bind_def get_or_not_found_def
        execute_on_def found)
qed

section \<open>Paging\<close>

text \<open>The pages of a fixed size laid end to end show every package once, in the order of the identifiers.\<close>

theorem package_pages:
  assumes ok: "app_ok a" and allowed: "missing_permissions (identity a) [PACKAGE_VIEW_ALL] = None" and l: "0 < l"
    and n: "length (repo_list_all (package_repo a)) \<le> n * l"
  shows "\<exists>pages. length pages = n \<and>
    (\<forall>i < n. view_all_packages \<lparr>page_limit = Some (int l), page_offset = int (i * l), include_total = t\<rparr> clock a =
       (Inr (pages ! i), a)) \<and>
    concat (map page_items pages) = repo_list_all (package_repo a) \<and>
    distinct (concat (map page_items pages)) \<and> set (concat (map page_items pages)) = live_packages a"
proof -
  let ?s = "package_repo a"
  let ?q = "\<lambda>i. \<lparr>page_limit = Some (int l), page_offset = int (i * l), include_total = t\<rparr>"
  let ?page = "\<lambda>i. \<lparr>page_items = repo_list_page (int l) (int (i * l)) ?s,
      page_total = (if t then Some (int (length (repo_list_all ?s))) else None), result_limit = Some (int l),
      result_offset = int (i * l)\<rparr>"
  let ?pages = "map ?page [0..<n]"
  have "view_all_packages (?q i) clock a = (Inr (?page i), a)" for i
    using l allowed
    by (simp add: view_all_packages_def requires_eq requires_all_def execute_on_def execute_page_query_def
        validate_page_def repo_list_page_with_total_def repo_list_page_def Let_def not_less)
  moreover have items: "concat (map page_items ?pages) = repo_list_all ?s"
    using repo_lister.pages_cover [OF l n] by (simp add: comp_def)
  ultimately show ?thesis
    using distinct_repo_list_all [OF app_okD(2) [OF ok]] live_list_all(2) [OF ok]
    by (intro exI [of _ ?pages]) (simp add: items)
qed

end
