(* ===== verification/Snapshot.thy ===== *)
theory Snapshot
  imports AppInvariant Events
begin

text \<open>
  World snapshots and what is checked of them: \<open>src/application/dto/world_state_snapshot_dto.py\<close>,
  \<open>src/application/services/world_state_snapshot_builder.py\<close>, \<open>world_snapshot_validator.py\<close> and the
  validators of \<open>src/application/services/validators/\<close>.  Times are written with whole seconds
  (\<open>adapters/driven/persistence/json/serialization.py\<close>).
\<close>

section \<open>Errors\<close>

text \<open>A corruption with its reason, a failed swap, or an exception that nothing translates.\<close>

datatype snapshot_error = Corruption corruption_reason | RuntimeSwapError | Escaped error

definition sum_bind :: "'e + 'a \<Rightarrow> ('a \<Rightarrow> 'e + 'b) \<Rightarrow> 'e + 'b" where
  "sum_bind r f = (case r of Inl e \<Rightarrow> Inl e | Inr x \<Rightarrow> f x)"

lemma sum_bind_simps [simp]: "sum_bind (Inl e) f = Inl e" "sum_bind (Inr x) f = f x"
  by (simp_all add: sum_bind_def)

lemma sum_bind_Inr_iff: "sum_bind r f = Inr y \<longleftrightarrow> (\<exists>x. r = Inr x \<and> f x = Inr y)"
  by (cases r) simp_all

type_synonym check = "snapshot_error + unit"

definition refuse :: "corruption_reason \<Rightarrow> check" where
  "refuse reason = Inl (Corruption reason)"

definition unless :: "bool \<Rightarrow> corruption_reason \<Rightarrow> check" where
  "unless bad reason = (if bad then refuse reason else Inr ())"

definition also_check :: "check \<Rightarrow> check \<Rightarrow> check" where
  "also_check c d = sum_bind c (\<lambda>_. d)"

fun check_all :: "('a \<Rightarrow> check) \<Rightarrow> 'a list \<Rightarrow> check" where
  "check_all f [] = Inr ()"
| "check_all f (x # xs) = also_check (f x) (check_all f xs)"

lemma unless_ok [simp]: "unless bad reason = Inr u \<longleftrightarrow> \<not> bad"
  by (simp add: unless_def refuse_def)

lemma also_check_ok [simp]: "also_check c d = Inr u \<longleftrightarrow> c = Inr () \<and> d = Inr ()"
  by (simp add: also_check_def sum_bind_Inr_iff)

lemma check_all_ok [simp]: "check_all f xs = Inr u \<longleftrightarrow> (\<forall>x \<in> set xs. f x = Inr ())"
  by (induction xs) auto

section \<open>Times with whole seconds\<close>

definition seconds_text :: "time \<Rightarrow> string" where
  "seconds_text t =
     (case ord2ymd (t div us_per_day + 1) of (y, m, day) \<Rightarrow>
        (let s = t mod us_per_day div 1000000
         in digits 4 y @ ''-'' @ two m @ ''-'' @ two day @ ''T'' @
            two (s div 3600) @ '':'' @ two (s div 60 mod 60) @ '':'' @ two (s mod 60)))"

definition dt_to_str :: "time option \<Rightarrow> string option" where
  "dt_to_str d = map_option seconds_text d"

text \<open>A field of \<open>strptime\<close>: one or two digits within bounds; a day may have a space for its first digit.\<close>

definition strptime_field :: "int \<Rightarrow> int \<Rightarrow> string \<Rightarrow> int option" where
  "strptime_field lo hi s =
     (if length s \<le> 2 then
        (case parse_digits s of
           None \<Rightarrow> None
         | Some n \<Rightarrow> if lo \<le> n \<and> n \<le> hi then Some n else None)
      else None)"

definition strptime_day :: "string \<Rightarrow> int option" where
  "strptime_day s =
     (case s of
        [c, d] \<Rightarrow> if c = CHR '' '' then strptime_field 1 9 [d] else strptime_field 1 31 s
      | _ \<Rightarrow> strptime_field 1 31 s)"

definition strptime_seconds :: "string \<Rightarrow> time result" where
  "strptime_seconds s =
     (case split_on (CHR ''T'') (upper s) of
        [date, clock] \<Rightarrow>
          (case (split_on (CHR ''-'') date, split_on (CHR '':'') clock) of
             ([y, m, d], [hour, minute, sec]) \<Rightarrow>
               (case (if length y = 4 then parse_digits y else None, strptime_field 1 12 m, strptime_day d,
                      strptime_field 0 23 hour, strptime_field 0 59 minute, strptime_field 0 59 sec) of
                  (Some yy, Some mm, Some dd, Some hh, Some mi, Some ss) \<Rightarrow>
                    if valid_date yy mm dd
                    then Inr ((ymd2ord yy mm dd - 1) * us_per_day + ((hh * 60 + mi) * 60 + ss) * 1000000)
                    else Inl PyValueError
                | _ \<Rightarrow> Inl PyValueError)
           | _ \<Rightarrow> Inl PyValueError)
      | _ \<Rightarrow> Inl PyValueError)"

definition dt_from_str :: "string option \<Rightarrow> time option result" where
  "dt_from_str v =
     (case v of
        None \<Rightarrow> Inr None
      | Some s \<Rightarrow> if s = [] then Inr None else res_bind (strptime_seconds s) (\<lambda>t. Inr (Some t)))"

section \<open>Snapshots\<close>

record counters_snapshot =
  next_customer_id :: int
  next_package_id :: int
  next_route_id :: int

record saved_customer =
  sc_id :: int
  sc_name :: string
  sc_email :: string
  sc_phone :: string

record saved_package =
  sp_id :: int
  sp_start :: location
  sp_end :: location
  sp_weight :: f64
  sp_customer_id :: int
  sp_route_id :: "int option"

record saved_route =
  sr_id :: int
  sr_locations :: "location list"
  sr_departure :: "string option"
  sr_truck :: "int option"
  sr_packages :: "int list"

record saved_truck =
  st_id :: int
  st_status :: truck_status
  st_location :: "location option"
  st_route_id :: "int option"
  st_busy_from :: "string option"
  st_busy_until :: "string option"
  st_transit :: "location option"

record saved_world =
  sw_counters :: counters_snapshot
  sw_customers :: "saved_customer list"
  sw_packages :: "saved_package list"
  sw_routes :: "saved_route list"
  sw_trucks :: "saved_truck list"

record world_snapshot =
  ws_version :: int
  ws_world :: saved_world

definition SCHEMA_VERSION :: int where "SCHEMA_VERSION = 2"
definition SUPPORTED_SCHEMA_VERSIONS :: "int list" where "SUPPORTED_SCHEMA_VERSIONS = [1, 2]"

section \<open>Building\<close>

definition save_customer :: "heap \<Rightarrow> cref \<Rightarrow> saved_customer" where
  "save_customer h c =
     \<lparr>sc_id = customer_id (customers h c), sc_name = customer_name h c, sc_email = customer_email h c,
      sc_phone = customer_phone h c\<rparr>"

definition save_package :: "heap \<Rightarrow> pref \<Rightarrow> saved_package" where
  "save_package h p =
     (let x = packages h p
      in \<lparr>sp_id = package_id x, sp_start = pkg_start x, sp_end = pkg_end x, sp_weight = pkg_weight x,
          sp_customer_id = customer_id (customers h (pkg_customer x)), sp_route_id = pkg_route_id x\<rparr>)"

definition save_route :: "heap \<Rightarrow> rref \<Rightarrow> saved_route" where
  "save_route h r =
     (let x = routes h r
      in \<lparr>sr_id = route_id x, sr_locations = path x, sr_departure = dt_to_str (departure_time x),
          sr_truck = map_option (\<lambda>t. vehicle_id (trucks h t)) (route_truck x),
          sr_packages = sort (map (\<lambda>p. package_id (packages h p)) (route_packages x))\<rparr>)"

definition save_truck :: "heap \<Rightarrow> tref \<Rightarrow> saved_truck" where
  "save_truck h t =
     (let x = trucks h t
      in \<lparr>st_id = vehicle_id x, st_status = truck_status x, st_location = truck_location x,
          st_route_id = map_option (\<lambda>r. route_id (routes h r)) (truck_route x),
          st_busy_from = dt_to_str (busy_from x), st_busy_until = dt_to_str (busy_until x),
          st_transit = in_transit_to x\<rparr>)"

definition build_world_state_snapshot ::
    "heap \<Rightarrow> cref list \<Rightarrow> pref list \<Rightarrow> rref list \<Rightarrow> tref list \<Rightarrow> counters_snapshot \<Rightarrow> int \<Rightarrow> world_snapshot" where
  "build_world_state_snapshot h cs ps rs ts counters version =
     \<lparr>ws_version = version,
      ws_world =
        \<lparr>sw_counters = counters,
         sw_customers = map (save_customer h) (sort_key (\<lambda>c. customer_id (customers h c)) cs),
         sw_packages = map (save_package h) (sort_key (\<lambda>p. package_id (packages h p)) ps),
         sw_routes = map (save_route h) (sort_key (\<lambda>r. route_id (routes h r)) rs),
         sw_trucks = map (save_truck h) (sort_key (\<lambda>t. vehicle_id (trucks h t)) ts)\<rparr>\<rparr>"

definition build_snapshot :: "app \<Rightarrow> world_snapshot" where
  "build_snapshot a =
     build_world_state_snapshot (store a) (customer_list_all (customer_dir a)) (repo_list_all (package_repo a))
       (repo_list_all (route_repo a)) (fleet a)
       \<lparr>next_customer_id = peek_next_id (customers_by_id (customer_dir a)),
        next_package_id = peek_next_id (package_repo a), next_route_id = peek_next_id (route_repo a)\<rparr>
       SCHEMA_VERSION"

section \<open>Validation\<close>

text \<open>\<open>SchemaSnapshotValidator\<close>\<close>

definition validate_schema :: "world_snapshot \<Rightarrow> int list \<Rightarrow> check" where
  "validate_schema s supported =
     also_check (unless (ws_version s \<notin> set supported) CORRUPT_UNSUPPORTED_SCHEMA)
       (unless (ws_version s = 1 \<and> sw_trucks (ws_world s) \<noteq> []) CORRUPT_INVALID_STRUCTURE)"

text \<open>\<open>IdentitySnapshotValidator\<close>\<close>

definition validate_counters :: "counters_snapshot \<Rightarrow> check" where
  "validate_counters c =
     also_check (unless (next_customer_id c < 1) CORRUPT_INVARIANT_VIOLATION)
       (also_check (unless (next_package_id c < 1) CORRUPT_INVARIANT_VIOLATION)
         (unless (next_route_id c < 1) CORRUPT_INVARIANT_VIOLATION))"

definition ensure_unique_ids :: "int list \<Rightarrow> check" where
  "ensure_unique_ids ids =
     also_check (check_all (\<lambda>i. unless (i < 1) CORRUPT_INVARIANT_VIOLATION) ids)
       (unless (\<not> distinct ids) CORRUPT_INVARIANT_VIOLATION)"

definition validate_ids :: "saved_world \<Rightarrow> check" where
  "validate_ids w =
     also_check (ensure_unique_ids (map sc_id (sw_customers w)))
       (also_check (ensure_unique_ids (map sp_id (sw_packages w)))
         (also_check (ensure_unique_ids (map sr_id (sw_routes w)))
           (check_all (\<lambda>r. also_check (unless (length (sr_locations r) < 2) CORRUPT_INVARIANT_VIOLATION)
              (ensure_unique_ids (sr_packages r))) (sw_routes w))))"

definition validate_next_id :: "int \<Rightarrow> int list \<Rightarrow> check" where
  "validate_next_id next_id existing =
     unless (existing \<noteq> [] \<and> next_id \<le> Max (set existing)) CORRUPT_INVARIANT_VIOLATION"

definition validate_counter_bounds :: "saved_world \<Rightarrow> check" where
  "validate_counter_bounds w =
     also_check (validate_next_id (next_customer_id (sw_counters w)) (map sc_id (sw_customers w)))
       (also_check (validate_next_id (next_package_id (sw_counters w)) (map sp_id (sw_packages w)))
         (validate_next_id (next_route_id (sw_counters w)) (map sr_id (sw_routes w))))"

text \<open>\<open>ReferenceSnapshotValidator\<close>; the fleet is its identifiers with their trucks.\<close>

fun check_route_references :: "int set \<Rightarrow> int set \<Rightarrow> saved_route list \<Rightarrow> int set \<Rightarrow> check" where
  "check_route_references packages_ids fleet_ids [] taken = Inr ()"
| "check_route_references packages_ids fleet_ids (r # rs) taken =
     also_check (check_all (\<lambda>i. unless (i \<notin> packages_ids) CORRUPT_INVALID_REFERENCES) (sr_packages r))
       (case sr_truck r of
          None \<Rightarrow> check_route_references packages_ids fleet_ids rs taken
        | Some t \<Rightarrow>
            also_check (unless (t \<notin> fleet_ids) CORRUPT_INVALID_REFERENCES)
              (also_check (unless (t \<in> taken) CORRUPT_INVALID_REFERENCES)
                (check_route_references packages_ids fleet_ids rs (insert t taken))))"

definition validate_references :: "saved_world \<Rightarrow> int set \<Rightarrow> check" where
  "validate_references w fleet_ids =
     also_check
       (check_all (\<lambda>p. also_check
            (unless (sp_customer_id p \<notin> sc_id ` set (sw_customers w)) CORRUPT_INVALID_REFERENCES)
            (unless (case sp_route_id p of None \<Rightarrow> False | Some i \<Rightarrow> i \<notin> sr_id ` set (sw_routes w))
               CORRUPT_INVALID_REFERENCES)) (sw_packages w))
       (check_route_references (sp_id ` set (sw_packages w)) fleet_ids (sw_routes w) {})"

definition validate_route_package_consistency :: "saved_world \<Rightarrow> check" where
  "validate_route_package_consistency w =
     (let route_packages = py_dict (map (\<lambda>r. (sr_id r, set (sr_packages r))) (sw_routes w));
          package_route_ids = py_dict (map (\<lambda>p. (sp_id p, sp_route_id p)) (sw_packages w))
      in also_check
           (check_all (\<lambda>p.
              case sp_route_id p of
                None \<Rightarrow> Inr ()
              | Some i \<Rightarrow>
                  unless (sp_id p \<notin> (case route_packages i of None \<Rightarrow> {} | Some s \<Rightarrow> s)) CORRUPT_INVALID_REFERENCES)
              (sw_packages w))
           (check_all (\<lambda>r.
              check_all (\<lambda>i.
                unless ((case package_route_ids i of None \<Rightarrow> None | Some q \<Rightarrow> q) \<noteq> Some (sr_id r))
                  CORRUPT_INVALID_REFERENCES) (sr_packages r)) (sw_routes w)))"


text \<open>\<open>TruckSnapshotValidator\<close>; the status of a snapshot is a member of the enumeration by its type.\<close>

definition validate_truck_locations :: "saved_truck \<Rightarrow> check" where
  "validate_truck_locations t =
     also_check
       (unless (case st_location t of None \<Rightarrow> False | Some l \<Rightarrow> \<not> is_valid_location (PyStr l))
          CORRUPT_INVARIANT_VIOLATION)
       (unless (case st_transit t of None \<Rightarrow> False | Some l \<Rightarrow> \<not> is_valid_location (PyStr l))
          CORRUPT_INVARIANT_VIOLATION)"

definition validate_truck_runtime_state :: "saved_truck \<Rightarrow> check" where
  "validate_truck_runtime_state t =
     also_check
       (if st_status t = FREE then
          also_check (unless (st_route_id t \<noteq> None) CORRUPT_INVARIANT_VIOLATION)
            (also_check (unless (st_busy_from t \<noteq> None \<or> st_busy_until t \<noteq> None) CORRUPT_INVARIANT_VIOLATION)
              (unless (st_transit t \<noteq> None) CORRUPT_INVARIANT_VIOLATION))
        else Inr ())
       (unless (st_status t = ON_THE_WAY \<and> st_route_id t = None) CORRUPT_INVARIANT_VIOLATION)"

definition route_trucks :: "saved_world \<Rightarrow> int \<rightharpoonup> int" where
  "route_trucks w =
     py_dict (List.map_filter (\<lambda>r. map_option (\<lambda>t. (t, sr_id r)) (sr_truck r)) (sw_routes w))"

fun check_trucks :: "(int \<rightharpoonup> int) \<Rightarrow> int set \<Rightarrow> saved_truck list \<Rightarrow> int set \<Rightarrow> check" where
  "check_trucks by_truck fleet_ids [] seen = Inr ()"
| "check_trucks by_truck fleet_ids (t # ts) seen =
     also_check (unless (st_id t < 1) CORRUPT_INVARIANT_VIOLATION)
       (also_check (unless (st_id t \<in> seen) CORRUPT_INVARIANT_VIOLATION)
         (also_check (unless (st_id t \<notin> fleet_ids) CORRUPT_INVALID_REFERENCES)
           (also_check (validate_truck_locations t)
             (also_check (validate_truck_runtime_state t)
               (also_check
                  (unless (st_route_id t \<noteq> None \<and> by_truck (st_id t) \<noteq> st_route_id t) CORRUPT_INVALID_REFERENCES)
                  (check_trucks by_truck fleet_ids ts (insert (st_id t) seen)))))))"

definition validate_truck_snapshots :: "saved_world \<Rightarrow> int \<Rightarrow> int set \<Rightarrow> check" where
  "validate_truck_snapshots w version fleet_ids =
     (let by_truck = route_trucks w;
          by_id = py_dict (map (\<lambda>t. (st_id t, t)) (sw_trucks w))
      in also_check (check_trucks by_truck fleet_ids (sw_trucks w) {})
           (also_check
              (unless (version = 2 \<and> \<not> fleet_ids \<subseteq> st_id ` set (sw_trucks w)) CORRUPT_INVALID_STRUCTURE)
              (check_all (\<lambda>r.
                 case sr_truck r of
                   None \<Rightarrow> Inr ()
                 | Some t \<Rightarrow>
                     (case by_id t of
                        None \<Rightarrow> Inr ()
                      | Some x \<Rightarrow> unless (st_route_id x \<noteq> by_truck t) CORRUPT_INVALID_REFERENCES))
                 (sw_routes w))))"

text \<open>\<open>CompatibilitySnapshotValidator\<close>\<close>

definition first_index :: "'a \<Rightarrow> 'a list \<Rightarrow> nat" where
  "first_index x xs = length (takeWhile (\<lambda>y. y \<noteq> x) xs)"

definition validate_route_package_compatibility :: "saved_world \<Rightarrow> check" where
  "validate_route_package_compatibility w =
     (let by_id = py_dict (map (\<lambda>r. (sr_id r, r)) (sw_routes w))
      in check_all (\<lambda>p.
           case sp_route_id p of
             None \<Rightarrow> Inr ()
           | Some i \<Rightarrow>
               (case by_id i of
                  None \<Rightarrow> Inl (Escaped PyKeyError)
                | Some r \<Rightarrow>
                    also_check (unless (sp_start p \<notin> set (sr_locations r)) CORRUPT_INVARIANT_VIOLATION)
                      (also_check (unless (sp_end p \<notin> set (sr_locations r)) CORRUPT_INVARIANT_VIOLATION)
                        (unless (first_index (sp_end p) (sr_locations r) \<le> first_index (sp_start p) (sr_locations r))
                           CORRUPT_INVARIANT_VIOLATION)))) (sw_packages w))"

definition saved_load :: "saved_package \<Rightarrow> package_load" where
  "saved_load p = \<lparr>load_start = sp_start p, load_end = sp_end p, load_weight = sp_weight p\<rparr>"

definition route_max_segment_load :: "saved_route \<Rightarrow> (int \<rightharpoonup> saved_package) \<Rightarrow> f64 result" where
  "route_max_segment_load r by_id =
     res_bind (res_map (dict_get by_id) (sr_packages r)) (\<lambda>ps.
       Inr (py_max (fold (add_package_load (map_of (zip (sr_locations r) [0..<length (sr_locations r)])))
         (map saved_load ps) (replicate (length (sr_locations r) - 1) 0))))"

definition route_distance_km :: "location list \<Rightarrow> int result" where
  "route_distance_km locs = sum_distances (py_pairwise locs)"

definition escape :: "'a result \<Rightarrow> snapshot_error + 'a" where
  "escape r = (case r of Inl e \<Rightarrow> Inl (Escaped e) | Inr x \<Rightarrow> Inr x)"

definition validate_route_truck :: "(int \<rightharpoonup> saved_package) \<Rightarrow> (int \<rightharpoonup> truck) \<Rightarrow> saved_route \<Rightarrow> check" where
  "validate_route_truck by_id fleet_by_id r =
     (case sr_truck r of
        None \<Rightarrow> Inr ()
      | Some t \<Rightarrow>
          also_check (unless (sr_departure r = None) CORRUPT_INVARIANT_VIOLATION)
            (sum_bind (escape (dict_get fleet_by_id t)) (\<lambda>truck.
             sum_bind (escape (route_max_segment_load r by_id)) (\<lambda>load.
             also_check (unless (f64_gt_int load (capacity truck)) CORRUPT_INVARIANT_VIOLATION)
               (sum_bind (escape (route_distance_km (sr_locations r))) (\<lambda>distance.
                  unless (max_range truck < distance) CORRUPT_INVARIANT_VIOLATION))))))"

definition validate_truck_route_compatibility :: "saved_world \<Rightarrow> (int \<rightharpoonup> truck) \<Rightarrow> check" where
  "validate_truck_route_compatibility w fleet_by_id =
     check_all (validate_route_truck (py_dict (map (\<lambda>p. (sp_id p, p)) (sw_packages w))) fleet_by_id)
       (sw_routes w)"

text \<open>\<open>CustomerSnapshotValidator\<close>\<close>

fun check_contacts :: "saved_customer list \<Rightarrow> string set \<Rightarrow> string set \<Rightarrow> check" where
  "check_contacts [] emails phones = Inr ()"
| "check_contacts (c # cs) emails phones =
     (let email = lower (strip (sc_email c)); phone = strip (sc_phone c)
      in also_check (unless (email \<noteq> [] \<and> email \<in> emails) CORRUPT_INVARIANT_VIOLATION)
           (also_check (unless (phone \<noteq> [] \<and> phone \<in> phones) CORRUPT_INVARIANT_VIOLATION)
             (check_contacts cs (if email = [] then emails else insert email emails)
                (if phone = [] then phones else insert phone phones))))"

definition validate_customer_uniqueness :: "saved_customer list \<Rightarrow> check" where
  "validate_customer_uniqueness cs = check_contacts cs {} {}"

definition fleet_by_id :: "heap \<Rightarrow> tref list \<Rightarrow> int \<rightharpoonup> tref" where
  "fleet_by_id h ts = py_dict (map (\<lambda>t. (vehicle_id (trucks h t), t)) ts)"

definition validate_snapshot :: "heap \<Rightarrow> tref list \<Rightarrow> world_snapshot \<Rightarrow> int list \<Rightarrow> check" where
  "validate_snapshot h ts s supported =
     (let w = ws_world s; fleet_ids = (\<lambda>t. vehicle_id (trucks h t)) ` set ts;
          by_id = map_option (trucks h) \<circ> fleet_by_id h ts
      in also_check (validate_schema s supported)
           (also_check (validate_counters (sw_counters w))
             (also_check (validate_ids w)
               (also_check (validate_references w fleet_ids)
                 (also_check (validate_truck_snapshots w (ws_version s) fleet_ids)
                   (also_check (validate_route_package_consistency w)
                     (also_check (validate_route_package_compatibility w)
                       (also_check (validate_truck_route_compatibility w by_id)
                         (also_check (validate_customer_uniqueness (sw_customers w))
                           (validate_counter_bounds w))))))))))"

section \<open>What validation accepts\<close>

text \<open>The reference definition: every clause of the checks, without their order.\<close>

definition distinct_on :: "('a \<Rightarrow> 'b) \<Rightarrow> 'a list \<Rightarrow> bool" where
  "distinct_on f xs \<longleftrightarrow> distinct (map f xs)"

definition contacts_distinct :: "(saved_customer \<Rightarrow> string) \<Rightarrow> saved_customer list \<Rightarrow> bool" where
  "contacts_distinct key cs \<longleftrightarrow> distinct (filter (\<lambda>k. k \<noteq> []) (map key cs))"

lemma contacts_distinct_Cons:
  "contacts_distinct key (c # cs) \<longleftrightarrow>
     (key c \<noteq> [] \<longrightarrow> key c \<notin> key ` set cs) \<and> contacts_distinct key cs"
  by (auto simp: contacts_distinct_def)

definition email_key :: "saved_customer \<Rightarrow> string" where "email_key c = lower (strip (sc_email c))"
definition phone_key :: "saved_customer \<Rightarrow> string" where "phone_key c = strip (sc_phone c)"

lemma check_contacts_ok:
  "check_contacts cs emails phones = Inr () \<longleftrightarrow>
     contacts_distinct email_key cs \<and> contacts_distinct phone_key cs \<and>
     (\<forall>c \<in> set cs. (email_key c \<noteq> [] \<longrightarrow> email_key c \<notin> emails) \<and> (phone_key c \<noteq> [] \<longrightarrow> phone_key c \<notin> phones))"
proof (induction cs arbitrary: emails phones)
  case Nil
  then show ?case by (simp add: contacts_distinct_def)
next
  case (Cons c cs)
  show ?case
    unfolding check_contacts.simps Let_def also_check_ok unless_ok Cons.IH email_key_def [symmetric]
      phone_key_def [symmetric] contacts_distinct_Cons
    by (cases "email_key c = []"; cases "phone_key c = []") (auto simp: image_iff)
qed

lemma py_dict_keyed:
  assumes "distinct (map f xs)"
  shows "py_dict (map (\<lambda>x. (f x, g x)) xs) k = Some v \<longleftrightarrow> (\<exists>x \<in> set xs. f x = k \<and> g x = v)"
  using assms by (subst py_dict_distinct) (auto simp: comp_def)

lemma py_dict_keyed_None: "py_dict (map (\<lambda>x. (f x, g x)) xs) k = None \<longleftrightarrow> k \<notin> f ` set xs"
  by (auto simp: py_dict_eq_None_iff image_image)

text \<open>Identifiers are positive, unique within their kind and below the counters.\<close>

definition ids_wf :: "int list \<Rightarrow> bool" where
  "ids_wf ids \<longleftrightarrow> distinct ids \<and> (\<forall>i \<in> set ids. 1 \<le> i)"

lemma ensure_unique_ids_ok [simp]: "ensure_unique_ids ids = Inr () \<longleftrightarrow> ids_wf ids"
  by (auto simp: ensure_unique_ids_def ids_wf_def)

definition identities_wf :: "saved_world \<Rightarrow> bool" where
  "identities_wf w \<longleftrightarrow>
     ids_wf (map sc_id (sw_customers w)) \<and> ids_wf (map sp_id (sw_packages w)) \<and>
     ids_wf (map sr_id (sw_routes w)) \<and>
     (\<forall>r \<in> set (sw_routes w). 2 \<le> length (sr_locations r) \<and> ids_wf (sr_packages r))"

lemma validate_ids_ok: "validate_ids w = Inr () \<longleftrightarrow> identities_wf w"
  by (auto simp: validate_ids_def identities_wf_def)

definition counters_wf :: "saved_world \<Rightarrow> bool" where
  "counters_wf w \<longleftrightarrow>
     1 \<le> next_customer_id (sw_counters w) \<and> 1 \<le> next_package_id (sw_counters w) \<and>
     1 \<le> next_route_id (sw_counters w) \<and>
     (\<forall>c \<in> set (sw_customers w). sc_id c < next_customer_id (sw_counters w)) \<and>
     (\<forall>p \<in> set (sw_packages w). sp_id p < next_package_id (sw_counters w)) \<and>
     (\<forall>r \<in> set (sw_routes w). sr_id r < next_route_id (sw_counters w))"

lemma validate_next_id_ok [simp]:
  "validate_next_id n (map f xs) = Inr () \<longleftrightarrow> (\<forall>x \<in> set xs. f x < n)"
  by (cases "xs = []") (auto simp: validate_next_id_def not_le)

lemma validate_counters_ok:
  "validate_counters (sw_counters w) = Inr () \<and> validate_counter_bounds w = Inr () \<longleftrightarrow> counters_wf w"
  by (auto simp: validate_counters_def validate_counter_bounds_def counters_wf_def)

text \<open>Every reference resolves, and no truck is on two routes.\<close>

definition references_wf :: "saved_world \<Rightarrow> int set \<Rightarrow> bool" where
  "references_wf w fleet_ids \<longleftrightarrow>
     (\<forall>p \<in> set (sw_packages w). sp_customer_id p \<in> sc_id ` set (sw_customers w) \<and>
        (\<forall>i. sp_route_id p = Some i \<longrightarrow> i \<in> sr_id ` set (sw_routes w))) \<and>
     (\<forall>r \<in> set (sw_routes w). set (sr_packages r) \<subseteq> sp_id ` set (sw_packages w)) \<and>
     distinct (List.map_filter sr_truck (sw_routes w)) \<and>
     set (List.map_filter sr_truck (sw_routes w)) \<subseteq> fleet_ids"

lemma check_route_references_ok:
  "check_route_references ps fs rs taken = Inr () \<longleftrightarrow>
     (\<forall>r \<in> set rs. set (sr_packages r) \<subseteq> ps) \<and> distinct (List.map_filter sr_truck rs) \<and>
     set (List.map_filter sr_truck rs) \<subseteq> fs - taken"
  by (induction rs arbitrary: taken) (auto simp: map_filter_simps split: option.splits)

lemma validate_references_ok: "validate_references w fs = Inr () \<longleftrightarrow> references_wf w fs"
  by (auto simp: validate_references_def references_wf_def check_route_references_ok split: option.splits)

lemma referenced_route:
  assumes "references_wf w fs" and "p \<in> set (sw_packages w)" and "sp_route_id p = Some i"
  obtains r where "r \<in> set (sw_routes w)" "i = sr_id r"
  using assms unfolding references_wf_def by blast

lemma referenced_package:
  assumes "references_wf w fs" and "r \<in> set (sw_routes w)" and "i \<in> set (sr_packages r)"
  obtains p where "p \<in> set (sw_packages w)" "i = sp_id p"
  using assms unfolding references_wf_def by blast

text \<open>Package and route name each other.\<close>

definition links_wf :: "saved_world \<Rightarrow> bool" where
  "links_wf w \<longleftrightarrow>
     (\<forall>p \<in> set (sw_packages w). \<forall>r \<in> set (sw_routes w).
        sp_route_id p = Some (sr_id r) \<longleftrightarrow> sp_id p \<in> set (sr_packages r))"

lemma validate_consistency_ok:
  assumes "identities_wf w" and "references_wf w fs"
  shows "validate_route_package_consistency w = Inr () \<longleftrightarrow> links_wf w"
proof -
  have d: "distinct (map sr_id (sw_routes w))" "distinct (map sp_id (sw_packages w))"
    using assms(1) by (simp_all add: identities_wf_def ids_wf_def)
  have r: "py_dict (map (\<lambda>r. (sr_id r, set (sr_packages r))) (sw_routes w)) (sr_id r) = Some (set (sr_packages r))"
    if "r \<in> set (sw_routes w)" for r
    using that by (subst py_dict_keyed [OF d(1)]) blast
  have p: "py_dict (map (\<lambda>p. (sp_id p, sp_route_id p)) (sw_packages w)) (sp_id p) = Some (sp_route_id p)"
    if "p \<in> set (sw_packages w)" for p
    using that by (subst py_dict_keyed [OF d(2)]) blast
  show ?thesis
  proof
    assume v: "validate_route_package_consistency w = Inr ()"
    show "links_wf w"
      unfolding links_wf_def
    proof (intro ballI iffI)
      fix x y assume x: "x \<in> set (sw_packages w)" and y: "y \<in> set (sw_routes w)"
      show "sp_id x \<in> set (sr_packages y)" if "sp_route_id x = Some (sr_id y)"
        using v x that r [OF y] by (auto simp: validate_route_package_consistency_def Let_def)
      show "sp_route_id x = Some (sr_id y)" if "sp_id x \<in> set (sr_packages y)"
        using v y that p [OF x] by (fastforce simp: validate_route_package_consistency_def Let_def)
    qed
  next
    assume l: "links_wf w"
    have "sp_id x \<in> (case py_dict (map (\<lambda>r. (sr_id r, set (sr_packages r))) (sw_routes w)) i of None \<Rightarrow> {} | Some s \<Rightarrow> s)"
      if x: "x \<in> set (sw_packages w)" "sp_route_id x = Some i" for x i
    proof -
      obtain y where "y \<in> set (sw_routes w)" "i = sr_id y" using assms(2) x by (auto simp: references_wf_def)
      then show ?thesis using l x r by (auto simp: links_wf_def)
    qed
    moreover have "(case py_dict (map (\<lambda>p. (sp_id p, sp_route_id p)) (sw_packages w)) i of None \<Rightarrow> None | Some q \<Rightarrow> q) =
        Some (sr_id y)" if y: "y \<in> set (sw_routes w)" "i \<in> set (sr_packages y)" for y i
    proof -
      obtain x where "x \<in> set (sw_packages w)" "i = sp_id x" by (rule referenced_package [OF assms(2) y])
      then show ?thesis using l y p by (auto simp: links_wf_def)
    qed
    ultimately show "validate_route_package_consistency w = Inr ()"
      by (auto simp: validate_route_package_consistency_def Let_def split: option.split)
  qed
qed

text \<open>A package travels along its route.\<close>

definition travels_wf :: "saved_world \<Rightarrow> bool" where
  "travels_wf w \<longleftrightarrow>
     (\<forall>p \<in> set (sw_packages w). \<forall>r \<in> set (sw_routes w). sp_route_id p = Some (sr_id r) \<longrightarrow>
        sp_start p \<in> set (sr_locations r) \<and> sp_end p \<in> set (sr_locations r) \<and>
        first_index (sp_start p) (sr_locations r) < first_index (sp_end p) (sr_locations r))"

lemma validate_compatibility_ok:
  assumes "identities_wf w" and "references_wf w fs"
  shows "validate_route_package_compatibility w = Inr () \<longleftrightarrow> travels_wf w"
proof -
  have d: "distinct (map sr_id (sw_routes w))" using assms(1) by (simp add: identities_wf_def ids_wf_def)
  have r: "py_dict (map (\<lambda>r. (sr_id r, r)) (sw_routes w)) (sr_id r) = Some r" if "r \<in> set (sw_routes w)" for r
    using that by (subst py_dict_keyed [OF d]) blast
  have *: "(case sp_route_id p of
           None \<Rightarrow> Inr ()
         | Some i \<Rightarrow>
             (case py_dict (map (\<lambda>r. (sr_id r, r)) (sw_routes w)) i of
                None \<Rightarrow> Inl (Escaped PyKeyError)
              | Some r \<Rightarrow>
                  also_check (unless (sp_start p \<notin> set (sr_locations r)) CORRUPT_INVARIANT_VIOLATION)
                    (also_check (unless (sp_end p \<notin> set (sr_locations r)) CORRUPT_INVARIANT_VIOLATION)
                      (unless (first_index (sp_end p) (sr_locations r) \<le> first_index (sp_start p) (sr_locations r))
                         CORRUPT_INVARIANT_VIOLATION)))) = Inr () \<longleftrightarrow>
     (\<forall>r \<in> set (sw_routes w). sp_route_id p = Some (sr_id r) \<longrightarrow>
        sp_start p \<in> set (sr_locations r) \<and> sp_end p \<in> set (sr_locations r) \<and>
        first_index (sp_start p) (sr_locations r) < first_index (sp_end p) (sr_locations r))"
    if p: "p \<in> set (sw_packages w)" for p
  proof (cases "sp_route_id p")
    case (Some i)
    obtain y where y: "y \<in> set (sw_routes w)" "i = sr_id y" by (rule referenced_route [OF assms(2) p Some])
    have "z = y" if "z \<in> set (sw_routes w)" "sr_id z = sr_id y" for z
      using that y(1) d by (auto simp: distinct_map inj_on_def)
    then have "(\<forall>z \<in> set (sw_routes w). sp_route_id p = Some (sr_id z) \<longrightarrow> Q z) \<longleftrightarrow> Q y" for Q
      using y Some by fastforce
    then show ?thesis using Some y r [OF y(1)] by (simp add: not_le)
  qed simp
  then show ?thesis by (auto simp: validate_route_package_compatibility_def travels_wf_def)
qed


text \<open>A truck is idle or on the route that names it.\<close>

definition truck_state_wf :: "saved_truck \<Rightarrow> bool" where
  "truck_state_wf t \<longleftrightarrow>
     (case st_status t of
        FREE \<Rightarrow> st_route_id t = None \<and> st_busy_from t = None \<and> st_busy_until t = None \<and> st_transit t = None
      | ON_THE_WAY \<Rightarrow> st_route_id t \<noteq> None)"

definition truck_wf :: "int set \<Rightarrow> saved_truck \<Rightarrow> bool" where
  "truck_wf fleet_ids t \<longleftrightarrow>
     1 \<le> st_id t \<and> st_id t \<in> fleet_ids \<and> truck_state_wf t \<and>
     (\<forall>l. st_location t = Some l \<longrightarrow> is_valid_location (PyStr l)) \<and>
     (\<forall>l. st_transit t = Some l \<longrightarrow> is_valid_location (PyStr l))"

definition trucks_wf :: "saved_world \<Rightarrow> int \<Rightarrow> int set \<Rightarrow> bool" where
  "trucks_wf w version fleet_ids \<longleftrightarrow>
     distinct (map st_id (sw_trucks w)) \<and> (\<forall>t \<in> set (sw_trucks w). truck_wf fleet_ids t) \<and>
     (\<forall>t \<in> set (sw_trucks w). \<forall>i. st_route_id t = Some i \<longleftrightarrow>
        (\<exists>r \<in> set (sw_routes w). sr_id r = i \<and> sr_truck r = Some (st_id t))) \<and>
     (version = 2 \<longrightarrow> fleet_ids \<subseteq> st_id ` set (sw_trucks w))"

lemma truck_checks_ok:
  "validate_truck_locations t = Inr () \<and> validate_truck_runtime_state t = Inr () \<and> 1 \<le> st_id t \<and> st_id t \<in> fs \<longleftrightarrow>
     truck_wf fs t"
  by (auto simp: validate_truck_locations_def validate_truck_runtime_state_def truck_wf_def truck_state_wf_def
      split: option.splits truck_status.splits)

lemma check_trucks_ok:
  "check_trucks m fs ts seen = Inr () \<longleftrightarrow>
     distinct (map st_id ts) \<and> st_id ` set ts \<inter> seen = {} \<and>
     (\<forall>t \<in> set ts. truck_wf fs t \<and> (st_route_id t \<noteq> None \<longrightarrow> m (st_id t) = st_route_id t))"
proof (induction ts arbitrary: seen)
  case (Cons t ts)
  show ?case
    unfolding check_trucks.simps also_check_ok unless_ok Cons.IH
    using truck_checks_ok [of t fs] by auto
qed simp

lemma map_filter_keys:
  "map fst (List.map_filter (\<lambda>x. map_option (\<lambda>t. (t, g x)) (f x)) xs) = List.map_filter f xs"
  by (induction xs) (auto simp: map_filter_simps split: option.split)

lemma map_filter_members:
  "(t, i) \<in> set (List.map_filter (\<lambda>x. map_option (\<lambda>t. (t, g x)) (f x)) xs) \<longleftrightarrow> (\<exists>x \<in> set xs. f x = Some t \<and> g x = i)"
  by (induction xs) (auto simp: map_filter_simps split: option.splits)

lemma route_trucks_iff:
  assumes "references_wf w fs"
  shows "route_trucks w t = Some i \<longleftrightarrow> (\<exists>r \<in> set (sw_routes w). sr_truck r = Some t \<and> sr_id r = i)"
  using assms unfolding route_trucks_def references_wf_def
  by (subst py_dict_distinct) (simp_all add: map_filter_keys map_filter_members)

lemma route_of_truck:
  assumes "references_wf w fs" and "r \<in> set (sw_routes w)" and "sr_truck r = Some t"
  shows "route_trucks w t = Some (sr_id r)"
  using assms by (auto simp: route_trucks_iff)

lemma validate_trucks_ok:
  assumes ids: "identities_wf w" and refs: "references_wf w fs"
  shows "validate_truck_snapshots w version fs = Inr () \<longleftrightarrow> trucks_wf w version fs"
proof -
  let ?m = "route_trucks w"
  have agree: "(\<forall>i. st_route_id t = Some i \<longleftrightarrow>
      (\<exists>r \<in> set (sw_routes w). sr_id r = i \<and> sr_truck r = Some (st_id t))) \<longleftrightarrow> ?m (st_id t) = st_route_id t" for t
    using route_trucks_iff [OF refs, of "st_id t"] by (cases "st_route_id t"; cases "?m (st_id t)") (auto, metis+)
  have mutual: "(\<forall>r \<in> set (sw_routes w). (case sr_truck r of None \<Rightarrow> Inr ()
       | Some t \<Rightarrow> (case py_dict (map (\<lambda>t. (st_id t, t)) (sw_trucks w)) t of
            None \<Rightarrow> Inr () | Some x \<Rightarrow> unless (st_route_id x \<noteq> ?m t) CORRUPT_INVALID_REFERENCES)) = Inr ()) \<longleftrightarrow>
     (\<forall>t \<in> set (sw_trucks w). ?m (st_id t) \<noteq> None \<longrightarrow> st_route_id t = ?m (st_id t))"
    if d: "distinct (map st_id (sw_trucks w))"
  proof -
    have dict: "py_dict (map (\<lambda>t. (st_id t, t)) (sw_trucks w)) k = Some t \<longleftrightarrow> t \<in> set (sw_trucks w) \<and> st_id t = k" for k t
      by (subst py_dict_keyed [OF d]) auto
    show ?thesis
    proof (intro iffI ballI impI)
      fix t assume v: "\<forall>r \<in> set (sw_routes w). (case sr_truck r of None \<Rightarrow> Inr ()
         | Some t \<Rightarrow> (case py_dict (map (\<lambda>t. (st_id t, t)) (sw_trucks w)) t of
              None \<Rightarrow> Inr () | Some x \<Rightarrow> unless (st_route_id x \<noteq> ?m t) CORRUPT_INVALID_REFERENCES)) = Inr ()"
        and t: "t \<in> set (sw_trucks w)" and m: "?m (st_id t) \<noteq> None"
      then obtain r where r: "r \<in> set (sw_routes w)" "sr_truck r = Some (st_id t)"
        using route_trucks_iff [OF refs] by (cases "?m (st_id t)") auto
      have "py_dict (map (\<lambda>t. (st_id t, t)) (sw_trucks w)) (st_id t) = Some t" using t by (simp add: dict)
      then show "st_route_id t = ?m (st_id t)" using v r by fastforce
    next
      fix r assume v: "\<forall>t \<in> set (sw_trucks w). ?m (st_id t) \<noteq> None \<longrightarrow> st_route_id t = ?m (st_id t)"
        and r: "r \<in> set (sw_routes w)"
      show "(case sr_truck r of None \<Rightarrow> Inr ()
         | Some t \<Rightarrow> (case py_dict (map (\<lambda>t. (st_id t, t)) (sw_trucks w)) t of
              None \<Rightarrow> Inr () | Some x \<Rightarrow> unless (st_route_id x \<noteq> ?m t) CORRUPT_INVALID_REFERENCES)) = Inr ()"
        using v r route_of_truck [OF refs r] by (auto simp: dict split: option.split)
    qed
  qed
  have each: "?m (st_id t) = st_route_id t \<longleftrightarrow>
      (st_route_id t \<noteq> None \<longrightarrow> ?m (st_id t) = st_route_id t) \<and> (?m (st_id t) \<noteq> None \<longrightarrow> st_route_id t = ?m (st_id t))" for t
    by (cases "?m (st_id t)"; cases "st_route_id t") auto
  show ?thesis
  proof (cases "distinct (map st_id (sw_trucks w))")
    case True
    show ?thesis
      unfolding validate_truck_snapshots_def Let_def also_check_ok check_all_ok unless_ok check_trucks_ok mutual [OF True]
        trucks_wf_def agree
      by (subst each) auto
  qed (simp add: validate_truck_snapshots_def Let_def check_trucks_ok trucks_wf_def)
qed

text \<open>A route fits its truck.\<close>

definition saved_package_by_id :: "saved_world \<Rightarrow> int \<rightharpoonup> saved_package" where
  "saved_package_by_id w = py_dict (map (\<lambda>p. (sp_id p, p)) (sw_packages w))"

definition fits_wf :: "saved_world \<Rightarrow> (int \<rightharpoonup> truck) \<Rightarrow> bool" where
  "fits_wf w trucks_by_id \<longleftrightarrow>
     (\<forall>r \<in> set (sw_routes w). \<forall>t. sr_truck r = Some t \<longrightarrow>
        sr_departure r \<noteq> None \<and>
        (\<exists>truck load distance. trucks_by_id t = Some truck \<and>
           route_max_segment_load r (saved_package_by_id w) = Inr load \<and> \<not> f64_gt_int load (capacity truck) \<and>
           route_distance_km (sr_locations r) = Inr distance \<and> distance \<le> max_range truck))"

lemma escape_ok [simp]: "escape r = Inr x \<longleftrightarrow> r = Inr x"
  by (cases r) (simp_all add: escape_def)

lemma dict_get_ok [simp]: "dict_get m k = Inr v \<longleftrightarrow> m k = Some v"
  by (cases "m k") (simp_all add: dict_get_def)

lemma validate_fits_ok: "validate_truck_route_compatibility w trucks_by_id = Inr () \<longleftrightarrow> fits_wf w trucks_by_id"
  unfolding validate_truck_route_compatibility_def fits_wf_def check_all_ok saved_package_by_id_def [symmetric]
  by (rule ball_cong [OF refl])
    (auto simp: validate_route_truck_def sum_bind_Inr_iff not_less split: option.split)

definition contacts_wf :: "saved_world \<Rightarrow> bool" where
  "contacts_wf w \<longleftrightarrow> contacts_distinct email_key (sw_customers w) \<and> contacts_distinct phone_key (sw_customers w)"

definition snapshot_wf :: "heap \<Rightarrow> tref list \<Rightarrow> int list \<Rightarrow> world_snapshot \<Rightarrow> bool" where
  "snapshot_wf h ts supported s \<longleftrightarrow>
     (let w = ws_world s; fleet_ids = (\<lambda>t. vehicle_id (trucks h t)) ` set ts
      in ws_version s \<in> set supported \<and> (ws_version s = 1 \<longrightarrow> sw_trucks w = []) \<and>
         identities_wf w \<and> counters_wf w \<and> references_wf w fleet_ids \<and> links_wf w \<and> travels_wf w \<and>
         trucks_wf w (ws_version s) fleet_ids \<and> fits_wf w (map_option (trucks h) \<circ> fleet_by_id h ts) \<and>
         contacts_wf w)"

theorem validate_snapshot_exact: "validate_snapshot h ts s supported = Inr () \<longleftrightarrow> snapshot_wf h ts supported s"
proof -
  let ?w = "ws_world s" and ?fs = "(\<lambda>t. vehicle_id (trucks h t)) ` set ts"
  have "validate_schema s supported = Inr () \<longleftrightarrow>
      ws_version s \<in> set supported \<and> (ws_version s = 1 \<longrightarrow> sw_trucks ?w = [])"
    by (auto simp: validate_schema_def)
  moreover have "validate_customer_uniqueness (sw_customers ?w) = Inr () \<longleftrightarrow> contacts_wf ?w"
    by (simp add: validate_customer_uniqueness_def check_contacts_ok contacts_wf_def)
  ultimately show ?thesis
    unfolding validate_snapshot_def snapshot_wf_def Let_def also_check_ok validate_ids_ok validate_references_ok
      validate_fits_ok
    using validate_consistency_ok [of ?w ?fs] validate_compatibility_ok [of ?w ?fs]
      validate_trucks_ok [of ?w ?fs "ws_version s"] validate_counters_ok [of ?w] by blast
qed

end
