(* ===== verification/Restore.thy ===== *)
theory Restore
  imports Snapshot Settling "HOL-Library.AList"
begin

text \<open>
  A snapshot becomes the running world: the rebuilder, the linker, the preparer and the service of
  \<open>src/application/services/world_state_*.py\<close>, \<open>VehicleManager.replace_truck_bindings\<close> and the swap of
  \<open>src/adapters/driven/persistence/memory/world_state_gateway.py\<close>.  A dict keyed by identifiers is the list
  of its items.
\<close>

section \<open>Rebuilding\<close>

type_synonym 'a by_key = "(int \<times> 'a) list"

definition alloc_customer :: "customer \<Rightarrow> cref action" where
  "alloc_customer c h =
     (Inr (next_ref h), h\<lparr>customers := (customers h)(next_ref h := c), next_ref := Suc (next_ref h)\<rparr>)"

definition alloc_package :: "package \<Rightarrow> pref action" where
  "alloc_package p h =
     (Inr (next_ref h), h\<lparr>packages := (packages h)(next_ref h := p), next_ref := Suc (next_ref h)\<rparr>)"

definition alloc_route :: "route \<Rightarrow> rref action" where
  "alloc_route r h =
     (Inr (next_ref h), h\<lparr>routes := (routes h)(next_ref h := r), next_ref := Suc (next_ref h)\<rparr>)"

definition alloc_truck :: "truck \<Rightarrow> tref action" where
  "alloc_truck t h =
     (Inr (next_ref h), h\<lparr>trucks := (trucks h)(next_ref h := t), next_ref := Suc (next_ref h)\<rparr>)"

definition rebuild_customer :: "saved_customer \<Rightarrow> cref action" where
  "rebuild_customer s =
     act_bind (act_lift (contact_info_create (PyStr (sc_name s)) (PyStr (sc_email s)) (PyStr (sc_phone s)))) (\<lambda>ci.
     act_bind (act_lift (customer_init ci (PyInt (sc_id s)))) alloc_customer)"

text \<open>\<open>_keyed_by\<close>: the transformed items, keyed by their identifiers.\<close>

fun keyed_by :: "('a \<Rightarrow> int) \<Rightarrow> ('a \<Rightarrow> (heap, 'b) act) \<Rightarrow> 'a list \<Rightarrow> 'b by_key \<Rightarrow> (heap, 'b by_key) act" where
  "keyed_by key transform [] acc = act_return acc"
| "keyed_by key transform (s # ss) acc =
     act_bind (transform s) (\<lambda>x. keyed_by key transform ss (AList.update (key s) x acc))"

definition rebuild_customers :: "saved_customer list \<Rightarrow> (heap, cref by_key) act" where
  "rebuild_customers ss = keyed_by sc_id rebuild_customer ss []"

definition rebuild_package :: "cref by_key \<Rightarrow> saved_package \<Rightarrow> pref action" where
  "rebuild_package cs s =
     act_bind (act_lift (dict_get (map_of cs) (sp_customer_id s))) (\<lambda>c.
     act_bind (act_lift (package_init (PyStr (sp_start s)) (PyStr (sp_end s)) (PyFloat (FFin (sp_weight s))) c
       (PyInt (sp_id s)) PyNone)) (\<lambda>x.
     act_bind (alloc_package x) (\<lambda>p.
     act_bind (customer_add_package c p) (\<lambda>_. act_return p))))"

definition rebuild_packages :: "cref by_key \<Rightarrow> saved_package list \<Rightarrow> (heap, pref by_key) act" where
  "rebuild_packages cs ss = keyed_by sp_id (rebuild_package cs) ss []"

definition rebuild_route :: "saved_route \<Rightarrow> rref action" where
  "rebuild_route s =
     act_bind (act_lift (dt_from_str (sr_departure s))) (\<lambda>dep.
     act_bind (act_lift (route_init (map PyStr (sr_locations s)) (map_option naive dep) (PyInt (sr_id s)))) alloc_route)"

definition rebuild_routes :: "saved_route list \<Rightarrow> (heap, rref by_key) act" where
  "rebuild_routes ss = keyed_by sr_id rebuild_route ss []"

record rebuilt_world =
  rb_customers :: "cref by_key"
  rb_packages :: "pref by_key"
  rb_routes :: "rref by_key"
  rb_counters :: counters_snapshot

type_synonym 'a restoring = "heap \<Rightarrow> (snapshot_error + 'a) \<times> heap"

text \<open>An exception of a stage, as the \<open>except\<close> clauses around it translate it.\<close>

definition translating :: "(error \<Rightarrow> snapshot_error) \<Rightarrow> 'a action \<Rightarrow> 'a restoring" where
  "translating f m h = (case m h of (Inl e, h') \<Rightarrow> (Inl (f e), h') | (Inr x, h') \<Rightarrow> (Inr x, h'))"

definition restore_bind :: "'a restoring \<Rightarrow> ('a \<Rightarrow> 'b restoring) \<Rightarrow> 'b restoring" where
  "restore_bind m f h = (case m h of (Inl e, h') \<Rightarrow> (Inl e, h') | (Inr x, h') \<Rightarrow> f x h')"

definition rebuild_error :: "error \<Rightarrow> snapshot_error" where
  "rebuild_error e =
     (if e = PyKeyError then Corruption CORRUPT_INVALID_REFERENCES
      else if e = PyTypeError \<or> e = PyValueError \<or> e = DomainValidationError then Corruption CORRUPT_INVARIANT_VIOLATION
      else Escaped e)"

definition rebuild :: "world_snapshot \<Rightarrow> rebuilt_world restoring" where
  "rebuild s =
     (let w = ws_world s
      in translating rebuild_error
           (act_bind (rebuild_customers (sw_customers w)) (\<lambda>cs.
            act_bind (rebuild_packages cs (sw_packages w)) (\<lambda>ps.
            act_bind (rebuild_routes (sw_routes w)) (\<lambda>rs.
              act_return \<lparr>rb_customers = cs, rb_packages = ps, rb_routes = rs, rb_counters = sw_counters w\<rparr>)))))"

section \<open>Linking\<close>

record candidate_link =
  real_truck :: tref
  candidate_truck :: tref

record linked_trucks =
  trucks_by_route_id :: "candidate_link by_key"
  candidate_trucks_by_id :: "candidate_link by_key"

definition link_package :: "(int \<rightharpoonup> pref) \<Rightarrow> rref \<Rightarrow> int \<Rightarrow> unit action" where
  "link_package ps r i = act_bind (act_lift (dict_get ps i)) (\<lambda>p. restore_package_link r p True)"

definition link_packages :: "rebuilt_world \<Rightarrow> saved_route \<Rightarrow> unit action" where
  "link_packages w s =
     act_bind (act_lift (dict_get (map_of (rb_routes w)) (sr_id s))) (\<lambda>r.
       act_for (link_package (map_of (rb_packages w)) r) (sr_packages s))"

definition link_packages_to_routes :: "saved_route list \<Rightarrow> rebuilt_world \<Rightarrow> unit action" where
  "link_packages_to_routes ss w = act_for (link_packages w) ss"

definition clone_truck :: "tref \<Rightarrow> tref action" where
  "clone_truck t h =
     (let x = trucks h t
      in act_bind (act_lift (truck_init (PyInt (vehicle_id x)) (Inr (truck_name x)) (PyInt (capacity x)) (PyInt (max_range x))))
           (\<lambda>y. alloc_truck (y\<lparr>truck_status := truck_status x, truck_location := truck_location x,
              busy_from := busy_from x, busy_until := busy_until x, in_transit_to := in_transit_to x\<rparr>)) h)"

definition build_candidate :: "(int \<rightharpoonup> tref) \<Rightarrow> saved_truck \<Rightarrow> (heap, candidate_link) act" where
  "build_candidate by_vid s =
     act_bind (act_lift (dict_get by_vid (st_id s))) (\<lambda>t.
     act_bind (clone_truck t) (\<lambda>c.
     act_bind (act_modify (upd_truck c (\<lambda>x. x\<lparr>truck_status := st_status s, truck_location := st_location s\<rparr>))) (\<lambda>_.
     act_bind (act_lift (dt_from_str (st_busy_from s))) (\<lambda>since.
     act_bind (act_modify (upd_truck c (\<lambda>x. x\<lparr>busy_from := since\<rparr>))) (\<lambda>_.
     act_bind (act_lift (dt_from_str (st_busy_until s))) (\<lambda>ending.
     act_bind (act_modify (upd_truck c (\<lambda>x. x\<lparr>busy_until := ending, in_transit_to := st_transit s,
                                               truck_route := None\<rparr>))) (\<lambda>_.
       act_return \<lparr>real_truck = t, candidate_truck = c\<rparr>)))))))"

definition build_candidate_trucks :: "(int \<rightharpoonup> tref) \<Rightarrow> saved_truck list \<Rightarrow> (heap, candidate_link by_key) act" where
  "build_candidate_trucks by_vid ss = keyed_by st_id (build_candidate by_vid) ss []"

definition idle_candidate :: "(int \<rightharpoonup> tref) \<Rightarrow> int \<Rightarrow> rref \<Rightarrow> (heap, candidate_link) act" where
  "idle_candidate by_vid i r =
     act_bind (act_lift (dict_get by_vid i)) (\<lambda>t.
     act_bind (clone_truck t) (\<lambda>c.
     act_bind (act_modify (\<lambda>h. upd_truck c (\<lambda>x. x\<lparr>truck_status := FREE,
         truck_location := Some (path_start (path (routes h r))), busy_from := None, busy_until := None,
         in_transit_to := None, truck_route := None\<rparr>) h)) (\<lambda>_.
       act_return \<lparr>real_truck = t, candidate_truck = c\<rparr>)))"

fun link_candidate_trucks ::
    "(int \<rightharpoonup> tref) \<Rightarrow> rref by_key \<Rightarrow> saved_route list \<Rightarrow> linked_trucks \<Rightarrow> (heap, linked_trucks) act" where
  "link_candidate_trucks by_vid rs [] links = act_return links"
| "link_candidate_trucks by_vid rs (s # ss) links =
     (case sr_truck s of
        None \<Rightarrow> link_candidate_trucks by_vid rs ss links
      | Some i \<Rightarrow>
          act_bind (act_lift (dict_get (map_of rs) (sr_id s))) (\<lambda>r.
          act_bind (case map_of (candidate_trucks_by_id links) i of
                      Some l \<Rightarrow> act_return l
                    | None \<Rightarrow> idle_candidate by_vid i r) (\<lambda>l.
          act_bind (act_modify (\<lambda>h. upd_route r (\<lambda>x. x\<lparr>route_truck := Some (candidate_truck l)\<rparr>)
                                  (truck_assign (candidate_truck l) r h))) (\<lambda>_.
            link_candidate_trucks by_vid rs ss
              \<lparr>trucks_by_route_id = AList.update (sr_id s) l (trucks_by_route_id links),
               candidate_trucks_by_id = AList.update i l (candidate_trucks_by_id links)\<rparr>))))"

definition package_link_error :: "error \<Rightarrow> snapshot_error" where
  "package_link_error e = (if e = PyKeyError then Corruption CORRUPT_INVALID_REFERENCES else Escaped e)"

definition truck_link_error :: "error \<Rightarrow> snapshot_error" where
  "truck_link_error e =
     (if e = PyKeyError then Corruption CORRUPT_INVALID_REFERENCES
      else if e = PyTypeError \<or> e = PyValueError then Corruption CORRUPT_INVARIANT_VIOLATION
      else Escaped e)"

definition link :: "tref list \<Rightarrow> world_snapshot \<Rightarrow> rebuilt_world \<Rightarrow> linked_trucks restoring" where
  "link ts s w =
     restore_bind (translating package_link_error (link_packages_to_routes (sw_routes (ws_world s)) w)) (\<lambda>_.
       translating truck_link_error (\<lambda>h.
         (let by_vid = fleet_by_id h ts
          in act_bind (build_candidate_trucks by_vid (sw_trucks (ws_world s))) (\<lambda>cs.
               link_candidate_trucks by_vid (rb_routes w) (sw_routes (ws_world s))
                 \<lparr>trucks_by_route_id = [], candidate_trucks_by_id = cs\<rparr>) h)))"

section \<open>Bindings\<close>

record truck_binding =
  bind_truck :: tref
  bind_route :: "rref option"
  bind_status :: truck_status
  bind_location :: "location option"
  bind_from :: "time option"
  bind_until :: "time option"
  bind_transit :: "location option"

definition binding_of :: "heap \<Rightarrow> candidate_link \<Rightarrow> rref option \<Rightarrow> truck_binding" where
  "binding_of h l r =
     (let c = trucks h (candidate_truck l)
      in \<lparr>bind_truck = real_truck l, bind_route = r, bind_status = truck_status c, bind_location = truck_location c,
          bind_from = busy_from c, bind_until = busy_until c, bind_transit = in_transit_to c\<rparr>)"

fun bind_routes ::
    "heap \<Rightarrow> saved_route list \<Rightarrow> rref by_key \<Rightarrow> candidate_link by_key \<Rightarrow> truck_binding by_key \<Rightarrow>
       truck_binding by_key result" where
  "bind_routes h [] rs links acc = Inr acc"
| "bind_routes h (s # ss) rs links acc =
     (case sr_truck s of
        None \<Rightarrow> bind_routes h ss rs links acc
      | Some i \<Rightarrow>
          res_bind (dict_get (map_of links) (sr_id s)) (\<lambda>l.
          res_bind (dict_get (map_of rs) (sr_id s)) (\<lambda>r.
            (let bound = (if route_truck (routes h r) = Some (candidate_truck l) then Some r else None)
             in if bound = None \<and> map_of acc i \<noteq> None then bind_routes h ss rs links acc
                else bind_routes h ss rs links (AList.update i (binding_of h l bound) acc)))))"

definition build_truck_bindings ::
    "heap \<Rightarrow> saved_route list \<Rightarrow> rref by_key \<Rightarrow> linked_trucks \<Rightarrow> truck_binding list result" where
  "build_truck_bindings h ss rs links =
     res_bind (bind_routes h ss rs (trucks_by_route_id links)
         (map (\<lambda>(i, l). (i, binding_of h l (truck_route (trucks h (candidate_truck l))))) (candidate_trucks_by_id links)))
       (\<lambda>bindings. Inr (map snd (sort_key fst bindings)))"

section \<open>Preparing\<close>

record reconciled_world =
  rw_customers :: "cref by_key"
  rw_packages :: "pref by_key"
  rw_routes :: "rref by_key"
  rw_counters :: counters_snapshot
  rw_bindings :: "truck_binding list"

definition checked :: "check \<Rightarrow> unit restoring" where
  "checked c h = (c, h)"

definition reconcile_error :: "error \<Rightarrow> snapshot_error" where
  "reconcile_error e = (if e = PyRuntimeError then Corruption CORRUPT_INVARIANT_VIOLATION else Escaped e)"

definition prepare :: "time \<Rightarrow> tref list \<Rightarrow> world_snapshot \<Rightarrow> int list \<Rightarrow> reconciled_world restoring" where
  "prepare now ts s supported h =
     restore_bind (checked (validate_snapshot h ts s supported)) (\<lambda>_.
     restore_bind (rebuild s) (\<lambda>w.
     restore_bind (link ts s w) (\<lambda>links.
     restore_bind (translating reconcile_error (reconcile_routes (map snd (rb_routes w)) now True)) (\<lambda>_.
     restore_bind (\<lambda>h. (case build_truck_bindings h (sw_routes (ws_world s)) (rb_routes w) links of
                         Inl e \<Rightarrow> (Inl (package_link_error e), h)
                       | Inr bs \<Rightarrow> (Inr bs, h))) (\<lambda>bs.
       (\<lambda>h. (Inr \<lparr>rw_customers = rb_customers w, rw_packages = rb_packages w, rw_routes = rb_routes w,
                  rw_counters = sw_counters (ws_world s), rw_bindings = bs\<rparr>, h))))))) h"

section \<open>Swapping\<close>

definition clear_truck :: "tref \<Rightarrow> unit action" where
  "clear_truck t h =
     act_bind (case truck_route (trucks h t) of
                 None \<Rightarrow> act_return ()
               | Some r \<Rightarrow>
                   if route_truck (routes h r) \<noteq> Some t then act_raise PyAssertionError
                   else act_modify (upd_route r (\<lambda>x. x\<lparr>route_truck := None\<rparr>))) (\<lambda>_.
       act_modify (upd_truck t (\<lambda>x. x\<lparr>truck_route := None, truck_status := FREE, busy_from := None,
         busy_until := None, in_transit_to := None\<rparr>))) h"

definition apply_binding :: "truck_binding \<Rightarrow> heap \<Rightarrow> heap" where
  "apply_binding b h =
     (let h1 = upd_truck (bind_truck b) (\<lambda>x. x\<lparr>truck_status := bind_status b, truck_location := bind_location b,
                 busy_from := bind_from b, busy_until := bind_until b, in_transit_to := bind_transit b,
                 truck_route := bind_route b\<rparr>) h
      in case bind_route b of
           None \<Rightarrow> h1
         | Some r \<Rightarrow> upd_route r (\<lambda>x. x\<lparr>route_truck := Some (bind_truck b)\<rparr>) h1)"

definition replace_truck_bindings :: "tref list \<Rightarrow> truck_binding list \<Rightarrow> unit action" where
  "replace_truck_bindings ts bs =
     act_bind (act_for clear_truck ts) (\<lambda>_. act_for (\<lambda>b. act_modify (apply_binding b)) bs)"

definition snapshot_trucks :: "heap \<Rightarrow> tref list \<Rightarrow> (tref \<times> truck_snapshot) list" where
  "snapshot_trucks h ts = map (\<lambda>t. (t, truck_snapshot_state (trucks h t))) ts"

definition restore_trucks :: "(tref \<times> truck_snapshot) list \<Rightarrow> heap \<Rightarrow> heap" where
  "restore_trucks snaps h = fold (\<lambda>(t, s). upd_truck t (truck_restore_state s)) snaps h"

definition swap_error :: snapshot_error where "swap_error = RuntimeSwapError"

definition replace_world_state :: "reconciled_world \<Rightarrow> app \<Rightarrow> check \<times> app" where
  "replace_world_state w a =
     (let h = store a;
          previous_customers = map (\<lambda>c. (customer_id (customers h c), c)) (customer_list_all (customer_dir a));
          previous_packages = map (\<lambda>p. (package_id (packages h p), p)) (repo_list_all (package_repo a));
          previous_routes = map (\<lambda>r. (route_id (routes h r), r)) (repo_list_all (route_repo a));
          previous_trucks = snapshot_trucks h (fleet a);
          new = a\<lparr>customer_dir := replace_customers h (rw_customers w) (next_customer_id (rw_counters w)),
                  package_repo := repo_replace (rw_packages w) (next_package_id (rw_counters w)) (package_repo a),
                  route_repo := repo_replace (rw_routes w) (next_route_id (rw_counters w)) (route_repo a)\<rparr>
      in case replace_truck_bindings (fleet a) (rw_bindings w) h of
           (Inr _, h') \<Rightarrow> (Inr (), new\<lparr>store := h'\<rparr>)
         | (Inl _, h') \<Rightarrow>
             (Inl swap_error,
              a\<lparr>customer_dir := replace_customers h' previous_customers (peek_next_id (customers_by_id (customer_dir a))),
                package_repo := repo_replace previous_packages (peek_next_id (package_repo a)) (package_repo a),
                route_repo := repo_replace previous_routes (peek_next_id (route_repo a)) (route_repo a),
                store := restore_trucks previous_trucks h'\<rparr>))"

definition apply_snapshot :: "time \<Rightarrow> world_snapshot \<Rightarrow> app \<Rightarrow> check \<times> app" where
  "apply_snapshot now s a =
     (case prepare now (fleet a) s SUPPORTED_SCHEMA_VERSIONS (store a) of
        (Inl e, h) \<Rightarrow> (Inl e, a\<lparr>store := h\<rparr>)
      | (Inr w, h) \<Rightarrow> replace_world_state w (a\<lparr>store := h\<rparr>))"

end
