(* ===== verification/Loading.thy ===== *)
theory Loading
  imports Restore
begin

text \<open>
  What a load leaves behind.  Every stage of it works on new objects only, so that a refused snapshot
  changes nothing, and the stages together build a consistent world.
\<close>

section \<open>Old objects stay as they were\<close>

definition untouched :: "nat \<Rightarrow> heap \<Rightarrow> heap \<Rightarrow> bool" where
  "untouched n h h' \<longleftrightarrow>
     next_ref h \<le> next_ref h' \<and>
     (\<forall>x < n. routes h' x = routes h x \<and> packages h' x = packages h x \<and> trucks h' x = trucks h x \<and>
        customers h' x = customers h x)"

lemma untouched_refl [simp]: "untouched n h h"
  by (simp add: untouched_def)

lemma untouched_trans: "untouched n h h1 \<Longrightarrow> untouched n h1 h2 \<Longrightarrow> untouched n h h2"
  by (simp add: untouched_def)

lemma untouched_upd [simp]:
  "n \<le> x \<Longrightarrow> untouched n h (upd_route x f h')  \<longleftrightarrow> untouched n h h'"
  "n \<le> x \<Longrightarrow> untouched n h (upd_package x g h') \<longleftrightarrow> untouched n h h'"
  "n \<le> x \<Longrightarrow> untouched n h (upd_truck x t h') \<longleftrightarrow> untouched n h h'"
  "n \<le> x \<Longrightarrow> untouched n h (upd_customer x c h') \<longleftrightarrow> untouched n h h'"
  by (auto simp: untouched_def)

lemma act_bind_lift: "act_bind (act_lift r) f h = (case r of Inl e \<Rightarrow> (Inl e, h) | Inr x \<Rightarrow> f x h)"
  by (cases r) (simp_all add: act_bind_def)

section \<open>Loops over the items of a snapshot\<close>

lemma update_new: "i \<notin> fst ` set acc \<Longrightarrow> AList.update i x acc = acc @ [(i, x)]"
  by (induction acc) auto

text \<open>
  A loop that keys its results keeps an invariant of the items read so far, and whatever must hold
  when it stops early.
\<close>

lemma keyed_by_rule:
  assumes run: "keyed_by key transform ss acc h = (res, h')"
    and start: "I before acc h" and keys: "map fst acc = map key before" and d: "distinct (map key (before @ ss))"
    and early: "\<And>before acc h. I before acc h \<Longrightarrow> E h"
    and step: "\<And>before s acc h res h'. I before acc h \<Longrightarrow> s \<in> set ss \<Longrightarrow> map fst acc = map key before \<Longrightarrow>
      key s \<notin> key ` set before \<Longrightarrow> transform s h = (res, h') \<Longrightarrow>
      E h' \<and> (\<forall>x. res = Inr x \<longrightarrow> I (before @ [s]) (acc @ [(key s, x)]) h')"
  shows "E h' \<and> (\<forall>acc'. res = Inr acc' \<longrightarrow> I (before @ ss) acc' h' \<and> map fst acc' = map key (before @ ss))"
  using run start keys d step
proof (induction ss arbitrary: before acc h)
  case Nil
  then show ?case using early by auto
next
  case (Cons s ss)
  have old: "key s \<notin> key ` set before" using Cons.prems(4) by simp
  then have new: "key s \<notin> fst ` set acc" using Cons.prems(3) by (metis list.set_map)
  obtain r h1 where r: "transform s h = (r, h1)" by (cases "transform s h")
  have st: "E h1 \<and> (\<forall>x. r = Inr x \<longrightarrow> I (before @ [s]) (acc @ [(key s, x)]) h1)"
    by (rule Cons.prems(5) [OF Cons.prems(2) _ Cons.prems(3) old r]) simp
  show ?case
  proof (cases r)
    case (Inl e)
    then show ?thesis using st r Cons.prems(1) by (auto simp: act_bind_def)
  next
    case (Inr x)
    have "keyed_by key transform ss (acc @ [(key s, x)]) h1 = (res, h')"
      using Cons.prems(1) r Inr by (simp add: act_bind_def update_new [OF new])
    moreover have "I (before @ [s]) (acc @ [(key s, x)]) h1" using st Inr by blast
    moreover have "map fst (acc @ [(key s, x)]) = map key (before @ [s])" using Cons.prems(3) by simp
    moreover have "distinct (map key ((before @ [s]) @ ss))" using Cons.prems(4) by simp
    ultimately have "E h' \<and> (\<forall>acc'. res = Inr acc' \<longrightarrow>
        I ((before @ [s]) @ ss) acc' h' \<and> map fst acc' = map key ((before @ [s]) @ ss))"
      by (rule Cons.IH) (rule Cons.prems(5), simp_all)
    then show ?thesis by simp
  qed
qed

section \<open>The world under construction\<close>

text \<open>
  The new customers, packages, routes and placed trucks are consistent among themselves, and they are
  all newer than \<open>n\<close>, the first reference that was free when the load began.
\<close>

definition building :: "nat \<Rightarrow> heap \<Rightarrow> cref set \<Rightarrow> pref set \<Rightarrow> rref set \<Rightarrow> tref set \<Rightarrow> heap \<Rightarrow> bool" where
  "building n h0 C P R T h \<longleftrightarrow>
     untouched n h0 h \<and> n \<le> next_ref h0 \<and> world_ok R P T h \<and> owners_ok C P h \<and>
     (\<forall>x \<in> C \<union> P \<union> R \<union> T. n \<le> x) \<and> (\<forall>t \<in> T. t < next_ref h)"

lemma buildingD:
  assumes "building n h0 C P R T h"
  shows "untouched n h0 h" "world_ok R P T h" "owners_ok C P h" "n \<le> next_ref h"
    "\<And>c. c \<in> C \<Longrightarrow> n \<le> c \<and> c < next_ref h" "\<And>p. p \<in> P \<Longrightarrow> n \<le> p \<and> p < next_ref h"
    "\<And>r. r \<in> R \<Longrightarrow> n \<le> r \<and> r < next_ref h" "\<And>t. t \<in> T \<Longrightarrow> n \<le> t \<and> t < next_ref h"
  using assms by (auto simp: building_def untouched_def world_ok_def owners_ok_def)

lemma owners_okD:
  assumes "owners_ok C P h"
  shows "c \<in> C \<Longrightarrow> distinct (delivery_packages (customers h c))"
    "c \<in> C \<Longrightarrow> set (delivery_packages (customers h c)) = {p \<in> P. pkg_customer (packages h p) = c}"
    "c \<in> C \<Longrightarrow> contact_ok (contact (customers h c))" "c \<in> C \<Longrightarrow> c < next_ref h"
    "p \<in> P \<Longrightarrow> pkg_customer (packages h p) \<in> C"
  using assms by (simp_all add: owners_ok_def)

lemma building_start: "building (next_ref h) h {} {} {} {} h"
  by (simp add: building_def world_ok_def owners_ok_def)

lemma building_new_customer:
  assumes b: "building n h0 C P R T h" and ok: "contact_ok ci"
    and h': "customers h' = (customers h)(next_ref h := \<lparr>customer_id = i, contact = ci, delivery_packages = [], cust_events = []\<rparr>)"
      "routes h' = routes h" "packages h' = packages h" "trucks h' = trucks h" "next_ref h' = Suc (next_ref h)"
  shows "building n h0 (insert (next_ref h) C) P R T h'"
proof -
  note bD = buildingD [OF b]
  note own = owners_okD [OF bD(3)]
  have "world_ok R P T h'" by (rule world_ok_cong [OF bD(2)]) (simp_all add: h')
  moreover have "owners_ok (insert (next_ref h) C) P h'"
    unfolding owners_ok_def
  proof (intro conjI ballI)
    fix p assume "p \<in> P"
    then show "pkg_customer (packages h' p) \<in> insert (next_ref h) C" by (simp add: h' own(5))
  next
    fix c assume c: "c \<in> insert (next_ref h) C"
    show "distinct (delivery_packages (customers h' c))" "contact_ok (contact (customers h' c))"
      using c ok by (auto simp: h' own(1,3))
    show "c < next_ref h'" using c own(4) [of c] by (auto simp: h' less_Suc_eq)
    show "set (delivery_packages (customers h' c)) = {p \<in> P. pkg_customer (packages h' p) = c}"
    proof (cases "c = next_ref h")
      case True
      have "pkg_customer (packages h p) \<noteq> next_ref h" if "p \<in> P" for p
        using bD(5) [OF own(5) [OF that]] by simp
      then show ?thesis using True by (auto simp: h')
    next
      case False
      then show ?thesis using c own(2) [of c] by (simp add: h')
    qed
  qed
  ultimately show ?thesis
    using b bD(4) by (auto simp: building_def untouched_def h')
qed

lemma building_new_package:
  assumes b: "building n h0 C P R T h" and c: "c \<in> C"
    and x: "package_ok x" "pkg_route x = None" "pkg_route_id x = None" "pkg_status x = TODO"
      "current_location x = pkg_start x" "pkg_expected_arrival x = None" "pkg_customer x = c"
    and fresh: "\<And>q. q \<in> P \<Longrightarrow> package_id (packages h q) \<noteq> package_id x"
    and h1: "h1 = h\<lparr>packages := (packages h)(next_ref h := x), next_ref := Suc (next_ref h)\<rparr>"
  shows "customer_add_package c (next_ref h) h1 = (Inr (), customer_link c (next_ref h) h1)"
    "building n h0 C (insert (next_ref h) P) R T (customer_link c (next_ref h) h1)"
proof -
  let ?p = "next_ref h" and ?h' = "customer_link c (next_ref h) h1"
  note bD = buildingD [OF b]
  note own = bD(3) [unfolded owners_ok_def]
  have old: "?p \<notin> P" using bD(6) by blast
  have new: "?p \<notin> set (delivery_packages (customers h c))" using own c old by auto
  show run: "customer_add_package c ?p h1 = (Inr (), ?h')"
    using x(7) new by (simp add: customer_add_package_def h1)
  have h': "routes ?h' = routes h" "trucks ?h' = trucks h" "next_ref ?h' = Suc (next_ref h)"
    "packages ?h' = (packages h)(?p := x)"
    "customers ?h' = (customers h)(c := (customers h c)\<lparr>delivery_packages := delivery_packages (customers h c) @ [?p]\<rparr>)"
    using x(7) by (auto simp: customer_link_def h1 fun_eq_iff)
  have "world_ok R (insert ?p P) T ?h'"
    by (rule world_new_package [OF bD(2) x(1-6) fresh]) (simp_all add: h')
  moreover have "owners_ok C (insert ?p P) ?h'"
    using own c x(7) old new by (auto simp: owners_ok_def h' less_Suc_eq)
  moreover have "n \<le> c" using bD(5) [OF c] by simp
  ultimately show "building n h0 C (insert ?p P) R T ?h'"
    using b bD(4) by (auto simp: building_def untouched_def h')
qed

lemma building_new_route:
  assumes b: "building n h0 C P R T h"
    and x: "route_ok x" "route_truck x = None" "route_packages x = []" "schedule x = None \<longleftrightarrow> route_status x = PLANNED"
    and fresh: "\<And>q. q \<in> R \<Longrightarrow> route_id (routes h q) \<noteq> route_id x"
    and h': "routes h' = (routes h)(next_ref h := x)" "packages h' = packages h" "trucks h' = trucks h"
      "customers h' = customers h" "next_ref h' = Suc (next_ref h)"
  shows "building n h0 C P (insert (next_ref h) R) T h'"
proof -
  note bD = buildingD [OF b]
  have "world_ok (insert (next_ref h) R) P T h'"
    by (rule world_new_route [OF bD(2) x fresh]) (simp_all add: h')
  moreover have "owners_ok C P h'" using bD(3) by (auto simp: owners_ok_def h')
  ultimately show ?thesis
    using b bD(4) by (auto simp: building_def untouched_def h')
qed

section \<open>Rebuilding\<close>

definition traced :: "('s \<Rightarrow> int \<Rightarrow> 'x \<Rightarrow> bool) \<Rightarrow> 's list \<Rightarrow> 'x by_key \<Rightarrow> bool" where
  "traced Q ss acc \<longleftrightarrow> (\<forall>(i, x) \<in> set acc. \<exists>s \<in> set ss. Q s i x)"

lemma traced_Nil [simp]: "traced Q ss []"
  by (simp add: traced_def)

lemma traced_snoc:
  assumes "traced Q ss acc" and "\<And>s' j y. (j, y) \<in> set acc \<Longrightarrow> Q s' j y \<Longrightarrow> Q' s' j y" and "Q' s i x"
  shows "traced Q' (ss @ [s]) (acc @ [(i, x)])"
  using assms by (fastforce simp: traced_def)

lemma traced_mono:
  assumes "traced Q ss acc" and "\<And>s i x. (i, x) \<in> set acc \<Longrightarrow> Q s i x \<Longrightarrow> Q' s i x"
  shows "traced Q' ss acc"
  using assms by (fastforce simp: traced_def)

lemma tracedE:
  assumes "traced Q ss acc" and "(i, x) \<in> set acc"
  obtains s where "s \<in> set ss" "Q s i x"
  using assms by (auto simp: traced_def)

definition customer_from :: "heap \<Rightarrow> saved_customer \<Rightarrow> int \<Rightarrow> cref \<Rightarrow> bool" where
  "customer_from h s i c \<longleftrightarrow>
     sc_id s = i \<and> customer_id (customers h c) = i \<and>
     contact_info_create (PyStr (sc_name s)) (PyStr (sc_email s)) (PyStr (sc_phone s)) = Inr (contact (customers h c))"

definition package_from :: "cref by_key \<Rightarrow> heap \<Rightarrow> saved_package \<Rightarrow> int \<Rightarrow> pref \<Rightarrow> bool" where
  "package_from cs h s i p \<longleftrightarrow>
     sp_id s = i \<and> package_id (packages h p) = i \<and> pkg_start (packages h p) = sp_start s \<and>
     pkg_end (packages h p) = sp_end s \<and> pkg_weight (packages h p) = sp_weight s \<and>
     map_of cs (sp_customer_id s) = Some (pkg_customer (packages h p))"

definition route_from :: "heap \<Rightarrow> saved_route \<Rightarrow> int \<Rightarrow> rref \<Rightarrow> bool" where
  "route_from h s i r \<longleftrightarrow>
     sr_id s = i \<and> route_id (routes h r) = i \<and> path (routes h r) = sr_locations s \<and>
     dt_from_str (sr_departure s) = Inr (departure_time (routes h r))"

lemmas from_defs = customer_from_def package_from_def route_from_def

text \<open>A new item has an identifier that no object read before it has.\<close>

lemma traced_fresh:
  assumes "traced Q before acc" and "key s \<notin> key ` set before" and "x \<in> snd ` set acc"
    and "\<And>s i x. Q s i x \<Longrightarrow> key s = i \<and> f x = i"
  shows "f x \<noteq> key s"
proof -
  obtain i where "(i, x) \<in> set acc" using assms(3) by auto
  then obtain s' where "s' \<in> set before" "Q s' i x" by (rule tracedE [OF assms(1)])
  then show ?thesis using assms(2,4) by (metis imageI)
qed

lemma rebuild_customer_cases:
  assumes "rebuild_customer s h = (res, h')"
  obtains e where "res = Inl e" "h' = h"
  | ci where "res = Inr (next_ref h)"
      "contact_info_create (PyStr (sc_name s)) (PyStr (sc_email s)) (PyStr (sc_phone s)) = Inr ci" "0 < sc_id s"
      "h' = h\<lparr>customers := (customers h)(next_ref h := \<lparr>customer_id = sc_id s, contact = ci, delivery_packages = [], cust_events = []\<rparr>),
             next_ref := Suc (next_ref h)\<rparr>"
proof (cases "contact_info_create (PyStr (sc_name s)) (PyStr (sc_email s)) (PyStr (sc_phone s))")
  case (Inl e)
  then show ?thesis using assms that(1) [of e] by (simp add: rebuild_customer_def act_bind_lift)
next
  case (Inr ci)
  show ?thesis
  proof (cases "customer_init ci (PyInt (sc_id s))")
    case (Inl e)
    then show ?thesis using assms that(1) [of e] Inr by (simp add: rebuild_customer_def act_bind_lift)
  next
    case c: (Inr c)
    then have "0 < sc_id s" "c = \<lparr>customer_id = sc_id s, contact = ci, delivery_packages = [], cust_events = []\<rparr>"
      by (auto simp: customer_init_def res_bind_Inr_iff domain_require_positive_int_iff)
    then show ?thesis using assms that(2) [OF _ Inr] Inr c by (simp add: rebuild_customer_def alloc_customer_def act_bind_lift)
  qed
qed

lemma rebuild_package_cases:
  assumes "rebuild_package cs s h = (res, h')"
  obtains e where "res = Inl e" "h' = h"
  | c x where "map_of cs (sp_customer_id s) = Some c"
      "package_init (PyStr (sp_start s)) (PyStr (sp_end s)) (PyFloat (FFin (sp_weight s))) c (PyInt (sp_id s)) PyNone = Inr x"
      "act_bind (customer_add_package c (next_ref h)) (\<lambda>_. act_return (next_ref h))
         (h\<lparr>packages := (packages h)(next_ref h := x), next_ref := Suc (next_ref h)\<rparr>) = (res, h')"
proof (cases "map_of cs (sp_customer_id s)")
  case None
  then show ?thesis using assms that(1) [of PyKeyError] by (simp add: rebuild_package_def act_bind_lift dict_get_def)
next
  case (Some c)
  show ?thesis
  proof (cases "package_init (PyStr (sp_start s)) (PyStr (sp_end s)) (PyFloat (FFin (sp_weight s))) c (PyInt (sp_id s)) PyNone")
    case (Inl e)
    then show ?thesis using assms that(1) [of e] Some by (simp add: rebuild_package_def act_bind_lift dict_get_def)
  next
    case (Inr x)
    show ?thesis
      using assms by (intro that(2) [OF Some Inr])
        (simp add: rebuild_package_def act_bind_lift dict_get_def Some Inr alloc_package_def act_bind_def)
  qed
qed

lemma rebuild_route_cases:
  assumes "rebuild_route s h = (res, h')"
  obtains e where "res = Inl e" "h' = h"
  | dep x where "res = Inr (next_ref h)" "dt_from_str (sr_departure s) = Inr dep"
      "route_init (map PyStr (sr_locations s)) (map_option naive dep) (PyInt (sr_id s)) = Inr x"
      "h' = h\<lparr>routes := (routes h)(next_ref h := x), next_ref := Suc (next_ref h)\<rparr>"
proof (cases "dt_from_str (sr_departure s)")
  case (Inl e)
  then show ?thesis using assms that(1) [of e] by (simp add: rebuild_route_def act_bind_lift)
next
  case (Inr dep)
  show ?thesis
  proof (cases "route_init (map PyStr (sr_locations s)) (map_option naive dep) (PyInt (sr_id s))")
    case (Inl e)
    then show ?thesis using assms that(1) [of e] Inr by (simp add: rebuild_route_def act_bind_lift)
  next
    case x: (Inr x)
    then show ?thesis using assms that(2) [OF _ Inr] Inr by (simp add: rebuild_route_def act_bind_lift alloc_route_def)
  qed
qed

text \<open>What the type of a snapshot says: a location is a code, a weight is a number.\<close>

definition snapshot_typed :: "saved_world \<Rightarrow> bool" where
  "snapshot_typed w \<longleftrightarrow>
     (\<forall>p \<in> set (sw_packages w). is_location_code (sp_start p) \<and> is_location_code (sp_end p) \<and> pyval_ok (PyFloat (FFin (sp_weight p)))) \<and>
     (\<forall>r \<in> set (sw_routes w). list_all is_location_code (sr_locations r))"

lemma package_init_fields:
  assumes "package_init (PyStr s) (PyStr e) (PyFloat (FFin w)) c (PyInt i) PyNone = Inr x" and "is_location_code s" "is_location_code e"
  shows "package_id x = i" "pkg_start x = s" "pkg_end x = e" "pkg_weight x = w" "pkg_customer x = c"
    "pkg_route_id x = None" "pkg_expected_arrival x = None"
  using assms
  by (auto simp: package_init_def res_bind_Inr_iff is_location_code_def validation_defs split: if_splits)

lemma codes_path:
  assumes "route_path_create (map PyStr ls) = Inr p" and "list_all is_location_code ls"
  shows "p = ls"
proof -
  have "res_map location_code (map PyStr ls) = Inr ls"
    using assms(2) by (induction ls) (simp_all add: is_location_code_def)
  then show ?thesis using assms(1) by (simp add: route_path_create_def route_path_iff)
qed

lemma route_init_fields:
  assumes "route_init (map PyStr ls) dep (PyInt i) = Inr x" and "list_all is_location_code ls"
  shows "route_id x = i" "path x = ls" "departure_time x = map_option dt_us dep"
  using assms codes_path [OF _ assms(2)] route_init_ok(2,7) [OF assms(1)]
  by (auto simp: route_init_def res_bind_Inr_iff)

lemma rebuilt_customers:
  assumes run: "rebuild_customers ss h = (res, h')" and d: "distinct (map sc_id ss)"
  shows "untouched (next_ref h) h h' \<and>
    (\<forall>cs. res = Inr cs \<longrightarrow>
       (building (next_ref h) h (snd ` set cs) {} {} {} h' \<and> traced (customer_from h') ss cs) \<and> map fst cs = map sc_id ss)"
proof -
  let ?n = "next_ref h"
  let ?I = "\<lambda>before cs h'. building ?n h (snd ` set cs) {} {} {} h' \<and> traced (customer_from h') before cs"
  have "untouched ?n h h' \<and> (\<forall>cs. res = Inr cs \<longrightarrow> ?I ([] @ ss) cs h' \<and> map fst cs = map sc_id ([] @ ss))"
  proof (rule keyed_by_rule [where I = ?I, OF run [unfolded rebuild_customers_def]])
    show "building ?n h (snd ` set []) {} {} {} h \<and> traced (customer_from h) [] []"
      using building_start by simp
    fix before s acc h1 r h2
    assume I: "?I before acc h1" and run: "rebuild_customer s h1 = (r, h2)"
    note b = conjunct1 [OF I] and bD = buildingD [OF conjunct1 [OF I]]
    from run show "untouched ?n h h2 \<and> (\<forall>x. r = Inr x \<longrightarrow> ?I (before @ [s]) (acc @ [(sc_id s, x)]) h2)"
    proof (cases rule: rebuild_customer_cases)
      case (1 e)
      then show ?thesis using bD(1) by simp
    next
      case (2 ci)
      have "building ?n h (insert (next_ref h1) (snd ` set acc)) {} {} {} h2"
        by (rule building_new_customer [OF b contact_info_create_ok [OF 2(2)], of _ "sc_id s"]) (simp_all add: 2(4))
      moreover have "next_ref h1 \<notin> snd ` set acc" using bD(5) by blast
      then have old: "x \<noteq> next_ref h1" if "(j, x) \<in> set acc" for j x using that by force
      have "traced (customer_from h2) (before @ [s]) (acc @ [(sc_id s, next_ref h1)])"
        by (rule traced_snoc [OF conjunct2 [OF I]]) (use 2(2) old in \<open>auto simp: customer_from_def 2(4)\<close>)
      ultimately show ?thesis using 2(1) by (simp add: building_def)
    qed
  qed (use d in \<open>auto dest: buildingD\<close>)
  then show ?thesis by simp
qed

definition same_people :: "heap \<Rightarrow> heap \<Rightarrow> bool" where
  "same_people h h' \<longleftrightarrow>
     (\<forall>c. customer_id (customers h' c) = customer_id (customers h c) \<and> contact (customers h' c) = contact (customers h c))"

lemma same_people_customers: "traced (customer_from h) ss cs \<Longrightarrow> same_people h h' \<Longrightarrow> traced (customer_from h') ss cs"
  by (erule traced_mono) (simp add: customer_from_def same_people_def)

lemma rebuilt_packages:
  assumes run: "rebuild_packages cs ss h = (res, h')" and d: "distinct (map sp_id ss)"
    and b: "building n h0 (snd ` set cs) {} {} {} h"
    and typed: "\<forall>s \<in> set ss. is_location_code (sp_start s) \<and> is_location_code (sp_end s) \<and> pyval_ok (PyFloat (FFin (sp_weight s)))"
  shows "untouched n h0 h' \<and>
    (\<forall>ps. res = Inr ps \<longrightarrow>
       (building n h0 (snd ` set cs) (snd ` set ps) {} {} h' \<and> traced (package_from cs h') ss ps \<and> same_people h h') \<and>
       map fst ps = map sp_id ss)"
proof -
  let ?I = "\<lambda>before ps h'. building n h0 (snd ` set cs) (snd ` set ps) {} {} h' \<and> traced (package_from cs h') before ps \<and>
    same_people h h'"
  have "untouched n h0 h' \<and> (\<forall>ps. res = Inr ps \<longrightarrow> ?I ([] @ ss) ps h' \<and> map fst ps = map sp_id ([] @ ss))"
  proof (rule keyed_by_rule [where I = ?I, OF run [unfolded rebuild_packages_def]])
    show "building n h0 (snd ` set cs) (snd ` set []) {} {} h \<and> traced (package_from cs h) [] [] \<and> same_people h h"
      using b by (simp add: same_people_def)
    fix before s acc h1 r h2
    assume I: "?I before acc h1" and s: "s \<in> set ss" and keys: "map fst acc = map sp_id before"
      and new: "sp_id s \<notin> sp_id ` set before" and run: "rebuild_package cs s h1 = (r, h2)"
    note b = conjunct1 [OF I] and bD = buildingD [OF conjunct1 [OF I]]
    from run show "untouched n h0 h2 \<and> (\<forall>x. r = Inr x \<longrightarrow> ?I (before @ [s]) (acc @ [(sp_id s, x)]) h2)"
    proof (cases rule: rebuild_package_cases)
      case (1 e)
      then show ?thesis using bD(1) by simp
    next
      case (2 c x)
      let ?p = "next_ref h1" and ?h = "h1\<lparr>packages := (packages h1)(next_ref h1 := x), next_ref := Suc (next_ref h1)\<rparr>"
      have c: "c \<in> snd ` set cs" using 2(1) by (force dest: map_of_SomeD)
      have t: "is_location_code (sp_start s)" "is_location_code (sp_end s)" "pyval_ok (PyFloat (FFin (sp_weight s)))" using typed s by auto
      note f = package_init_fields [OF 2(2) t(1,2)] and ok = package_init_ok [OF 2(2) t(3)]
      have fresh: "package_id (packages h1 q) \<noteq> package_id x" if "q \<in> snd ` set acc" for q
        using traced_fresh [OF conjunct1 [OF conjunct2 [OF I]] new that, of "\<lambda>p. package_id (packages h1 p)"] f(1)
        by (simp add: package_from_def)
      have step: "customer_add_package c ?p ?h = (Inr (), customer_link c ?p ?h)"
        "building n h0 (snd ` set cs) (insert ?p (snd ` set acc)) {} {} (customer_link c ?p ?h)"
        by (rule building_new_package [OF b c ok(1,3) f(6) ok(4,2) f(7,5)]; use fresh in simp)+
      have h2: "h2 = customer_link c ?p ?h" and r: "r = Inr ?p"
        using 2(3) step(1) by (simp_all add: act_bind_def)
      have at: "packages h2 = (packages h1)(?p := x)" using f(5) by (auto simp: h2 customer_link_def)
      have "?p \<notin> snd ` set acc" using bD(6) by blast
      then have old: "y \<noteq> ?p" if "(j, y) \<in> set acc" for j y using that by force
      have "traced (package_from cs h2) (before @ [s]) (acc @ [(sp_id s, ?p)])"
        by (rule traced_snoc [OF conjunct1 [OF conjunct2 [OF I]]]) (use 2(1) f old in \<open>auto simp: package_from_def at\<close>)
      moreover have "same_people h h2"
        using I by (simp add: same_people_def h2 customer_link_def)
      ultimately show ?thesis using step(2) r by (simp add: building_def h2)
    qed
  qed (use d in \<open>auto dest: buildingD\<close>)
  then show ?thesis by simp
qed

lemma rebuilt_routes:
  assumes run: "rebuild_routes ss h = (res, h')" and d: "distinct (map sr_id ss)"
    and b: "building n h0 C P {} {} h" and typed: "\<forall>s \<in> set ss. list_all is_location_code (sr_locations s)"
  shows "untouched n h0 h' \<and>
    (\<forall>rs. res = Inr rs \<longrightarrow>
       (building n h0 C P (snd ` set rs) {} h' \<and> traced (route_from h') ss rs \<and> customers h' = customers h \<and>
        packages h' = packages h \<and> (\<forall>(i, r) \<in> set rs. route_packages (routes h' r) = [])) \<and>
       map fst rs = map sr_id ss)"
proof -
  let ?I = "\<lambda>before rs h'. building n h0 C P (snd ` set rs) {} h' \<and> traced (route_from h') before rs \<and>
    customers h' = customers h \<and> packages h' = packages h \<and> (\<forall>(i, r) \<in> set rs. route_packages (routes h' r) = [])"
  have "untouched n h0 h' \<and> (\<forall>rs. res = Inr rs \<longrightarrow> ?I ([] @ ss) rs h' \<and> map fst rs = map sr_id ([] @ ss))"
  proof (rule keyed_by_rule [where I = ?I, OF run [unfolded rebuild_routes_def]])
    show "building n h0 C P (snd ` set []) {} h \<and> traced (route_from h) [] [] \<and> customers h = customers h \<and>
        packages h = packages h \<and> (\<forall>(i, r) \<in> set []. route_packages (routes h r) = [])"
      using b by simp
    fix before s acc h1 res h2
    assume I: "?I before acc h1" and s: "s \<in> set ss" and keys: "map fst acc = map sr_id before"
      and new: "sr_id s \<notin> sr_id ` set before" and run: "rebuild_route s h1 = (res, h2)"
    note b = conjunct1 [OF I] and bD = buildingD [OF conjunct1 [OF I]]
    from run show "untouched n h0 h2 \<and> (\<forall>x. res = Inr x \<longrightarrow> ?I (before @ [s]) (acc @ [(sr_id s, x)]) h2)"
    proof (cases rule: rebuild_route_cases)
      case (1 e)
      then show ?thesis using bD(1) by simp
    next
      case (2 dep x)
      note f = route_init_fields [OF 2(3) bspec [OF typed s]] and ok = route_init_ok [OF 2(3)]
      have dep: "departure_time x = dep" using f(3) by (cases dep) (simp_all add: naive_def)
      have fresh: "route_id (routes h1 q) \<noteq> route_id x" if "q \<in> snd ` set acc" for q
        using traced_fresh [OF conjunct1 [OF conjunct2 [OF I]] new that, of "\<lambda>r. route_id (routes h1 r)"] f(1)
        by (simp add: route_from_def)
      have "schedule x = None \<longleftrightarrow> route_status x = PLANNED"
        using ok(2,5) by (cases dep) (auto simp: departure_time_def)
      from building_new_route [OF b ok(1,3,4) this fresh] 2(4)
      have "building n h0 C P (insert (next_ref h1) (snd ` set acc)) {} h2" by simp
      moreover have "next_ref h1 \<notin> snd ` set acc" using bD(7) by blast
      then have old: "y \<noteq> next_ref h1" if "(j, y) \<in> set acc" for j y using that by force
      have "traced (route_from h2) (before @ [s]) (acc @ [(sr_id s, next_ref h1)])"
        by (rule traced_snoc [OF conjunct1 [OF conjunct2 [OF I]]]) (use 2(2) f(1,2) dep old in \<open>auto simp: route_from_def 2(4)\<close>)
      moreover have "\<forall>(i, r) \<in> set (acc @ [(sr_id s, next_ref h1)]). route_packages (routes h2 r) = []"
        using I ok(4) old by (auto simp: 2(4))
      ultimately show ?thesis using I 2(1,4) by (simp add: building_def)
    qed
  qed (use d in \<open>auto dest: buildingD\<close>)
  then show ?thesis by simp
qed

text \<open>What the whole of \<open>rebuild\<close> leaves: new objects that come from the snapshot, with nothing linked yet.\<close>

definition rebuilt_from :: "nat \<Rightarrow> heap \<Rightarrow> saved_world \<Rightarrow> rebuilt_world \<Rightarrow> heap \<Rightarrow> bool" where
  "rebuilt_from n h0 w rb h \<longleftrightarrow>
     building n h0 (snd ` set (rb_customers rb)) (snd ` set (rb_packages rb)) (snd ` set (rb_routes rb)) {} h \<and>
     traced (customer_from h) (sw_customers w) (rb_customers rb) \<and> map fst (rb_customers rb) = map sc_id (sw_customers w) \<and>
     traced (package_from (rb_customers rb) h) (sw_packages w) (rb_packages rb) \<and>
     map fst (rb_packages rb) = map sp_id (sw_packages w) \<and>
     traced (route_from h) (sw_routes w) (rb_routes rb) \<and> map fst (rb_routes rb) = map sr_id (sw_routes w) \<and>
     (\<forall>(i, r) \<in> set (rb_routes rb). route_packages (routes h r) = [])"

lemma translating_Inr: "translating f m h = (Inr x, h') \<longleftrightarrow> m h = (Inr x, h')"
  by (auto simp: translating_def split: prod.splits sum.splits)

lemma translating_store: "snd (translating f m h) = snd (m h)"
  by (auto simp: translating_def split: prod.splits sum.splits)

lemma rebuild_spec:
  assumes run: "rebuild s h = (res, h')" and typed: "snapshot_typed (ws_world s)" and ids: "identities_wf (ws_world s)"
  shows "untouched (next_ref h) h h'" "res = Inr rb \<Longrightarrow> rebuilt_from (next_ref h) h (ws_world s) rb h'"
proof -
  let ?w = "ws_world s" and ?n = "next_ref h"
  have d: "distinct (map sc_id (sw_customers ?w))" "distinct (map sp_id (sw_packages ?w))" "distinct (map sr_id (sw_routes ?w))"
    using ids by (simp_all add: identities_wf_def ids_wf_def)
  have t: "\<forall>p \<in> set (sw_packages ?w). is_location_code (sp_start p) \<and> is_location_code (sp_end p) \<and> pyval_ok (PyFloat (FFin (sp_weight p)))"
    "\<forall>r \<in> set (sw_routes ?w). list_all is_location_code (sr_locations r)"
    using typed by (simp_all add: snapshot_typed_def)
  obtain rc h1 where 1: "rebuild_customers (sw_customers ?w) h = (rc, h1)" by force
  note c = rebuilt_customers [OF 1 d(1)]
  have "untouched ?n h h' \<and> (\<forall>rb. res = Inr rb \<longrightarrow> rebuilt_from ?n h ?w rb h')"
  proof (cases rc)
    case (Inl e)
    then show ?thesis using c run 1 by (auto simp: rebuild_def Let_def translating_def act_bind_def)
  next
    case (Inr cs)
    obtain rp h2 where 2: "rebuild_packages cs (sw_packages ?w) h1 = (rp, h2)" by force
    have c': "building ?n h (snd ` set cs) {} {} {} h1" "traced (customer_from h1) (sw_customers ?w) cs"
      "map fst cs = map sc_id (sw_customers ?w)"
      using c Inr by auto
    note p = rebuilt_packages [OF 2 d(2) c'(1) t(1)]
    show ?thesis
    proof (cases rp)
      case (Inl e)
      then show ?thesis using p run 1 2 Inr by (auto simp: rebuild_def Let_def translating_def act_bind_def)
    next
      case ps: (Inr ps)
      obtain rr h3 where 3: "rebuild_routes (sw_routes ?w) h2 = (rr, h3)" by force
      have p': "building ?n h (snd ` set cs) (snd ` set ps) {} {} h2" "traced (package_from cs h2) (sw_packages ?w) ps"
        "map fst ps = map sp_id (sw_packages ?w)" "same_people h1 h2"
        using p ps by auto
      note r = rebuilt_routes [OF 3 d(3) p'(1) t(2)]
      show ?thesis
      proof (cases rr)
        case (Inl e)
        then show ?thesis using r run 1 2 3 Inr ps by (auto simp: rebuild_def Let_def translating_def act_bind_def)
      next
        case rs: (Inr rs)
        have r': "building ?n h (snd ` set cs) (snd ` set ps) (snd ` set rs) {} h3" "traced (route_from h3) (sw_routes ?w) rs"
          "customers h3 = customers h2" "packages h3 = packages h2" "\<forall>(i, r) \<in> set rs. route_packages (routes h3 r) = []"
          "map fst rs = map sr_id (sw_routes ?w)"
          using r rs by auto
        have "res = Inr \<lparr>rb_customers = cs, rb_packages = ps, rb_routes = rs, rb_counters = sw_counters ?w\<rparr>" "h' = h3"
          using run 1 2 3 Inr ps rs by (auto simp: rebuild_def Let_def translating_def act_bind_def)
        moreover have "same_people h1 h3" using p'(4) r'(3) by (simp add: same_people_def)
        then have "traced (customer_from h3) (sw_customers ?w) cs" by (rule same_people_customers [OF c'(2)])
        moreover have "traced (package_from cs h3) (sw_packages ?w) ps"
          using p'(2) r'(4) by (simp add: package_from_def [abs_def])
        ultimately show ?thesis
          using buildingD(1) [OF r'(1)] c' p' r' by (simp add: rebuilt_from_def)
      qed
    qed
  qed
  then show "untouched ?n h h'" "res = Inr rb \<Longrightarrow> rebuilt_from ?n h ?w rb h'" by auto
qed

section \<open>Linking packages\<close>

lemma world_events:
  assumes w: "world_ok R P T (record_route_event r e h)"
  shows "world_ok R P T h"
proof (rule world_okI [OF w])
  note wD = world_okD [OF w]
  show "route_links_ok P T h q" if "q \<in> R" for q
    by (rule route_links_frame [OF wD(1) [OF that]]) (simp_all add: same_route_def)
  show "package_links_ok R h q" if "q \<in> P" for q
    by (rule package_links_frame [OF wD(2) [OF that]]) auto
  show "truck_links_ok R h t" if "t \<in> T" for t
    by (rule truck_links_frame [OF wD(3) [OF that]]) (auto simp: departure_time_def eta_final_def)
qed simp_all

definition package_linked :: "rref \<Rightarrow> pref \<Rightarrow> time option \<Rightarrow> heap \<Rightarrow> heap" where
  "package_linked r p eta h =
     upd_package p (\<lambda>x. x\<lparr>pkg_route := Some r, pkg_route_id := Some (route_id (routes h r)), pkg_expected_arrival := eta\<rparr>)
       (upd_route r (\<lambda>x. x\<lparr>route_packages := route_packages x @ [p]\<rparr>) h)"

text \<open>The package lies ahead on the path of the route.\<close>

definition on_the_way :: "heap \<Rightarrow> rref \<Rightarrow> package \<Rightarrow> bool" where
  "on_the_way h r p \<longleftrightarrow>
     (\<exists>i j. i < j \<and> j < length (path (routes h r)) \<and> path (routes h r) ! i = pkg_start p \<and> path (routes h r) ! j = pkg_end p)"

lemma package_link_world:
  assumes w: "world_ok R P T h" and r: "r \<in> R" and p: "p \<in> P" and free: "pkg_route (packages h p) = None"
    and way: "on_the_way h r (packages h p)" and none: "route_truck (routes h r) = None"
  shows "\<exists>eta. restore_package_link r p True h = (Inr (), package_linked r p eta h)"
    "world_ok R P T (package_linked r p eta h)"
proof -
  have rok: "route_ok (routes h r)" using world_okD(1) [OF w r] by (rule route_linksD)
  have new: "\<not> has_package h r p" using has_package_iff [OF w r p] free by simp
  obtain i j where ij: "i < j" "j < length (path (routes h r))" "path (routes h r) ! i = pkg_start (packages h p)"
    "path (routes h r) ! j = pkg_end (packages h p)"
    using way by (auto simp: on_the_way_def)
  have "pkg_end (packages h p) \<in> set (path (routes h r))" using ij by (metis nth_mem)
  note arrival = sched_arrival_on_path [OF rok _ this]
  show "\<exists>eta. restore_package_link r p True h = (Inr (), package_linked r p eta h)"
  proof (cases "schedule (routes h r)")
    case None
    have "restore_package_link r p True h = (Inr (), package_linked r p (pkg_expected_arrival (packages h p)) h)"
      using None new by (simp add: restore_package_link_def Let_def update_expected_arrival_def append_package_def
          set_package_route_def package_linked_def)
    then show ?thesis by blast
  next
    case (Some s)
    obtain u where "sched_arrival_time_at s (pkg_end (packages h p)) = Inr u" using arrival [OF Some] by blast
    then have "restore_package_link r p True h = (Inr (), package_linked r p (Some u) h)"
      using Some new by (simp add: restore_package_link_def Let_def update_expected_arrival_def append_package_def
          set_package_route_def package_linked_def)
    then show ?thesis by blast
  qed
  have "\<exists>now. pickup_ahead (routes h r) i now"
  proof (cases "schedule (routes h r)")
    case (Some s)
    have "pickup_ahead (routes h r) i (stop_arrival_at (sched_stops s ! i) - 1)" using Some by (simp add: pickup_ahead_def)
    then show ?thesis by blast
  qed (simp add: pickup_ahead_def)
  then obtain now where "package_fits h r (packages h p) now"
    using ij none unfolding package_fits_def truck_fits_def by auto
  then have "world_ok R P T (assigned r p eta undefined h)" by (rule assigned_world [OF w r p free])
  then show "world_ok R P T (package_linked r p eta h)"
    unfolding assigned_def package_linked_def by (rule world_events)
qed

text \<open>
  The later stages change links, places and statuses of the new objects only.
\<close>

definition confined :: "rref set \<Rightarrow> pref set \<Rightarrow> tref set \<Rightarrow> heap \<Rightarrow> heap \<Rightarrow> bool" where
  "confined R P T h h' \<longleftrightarrow>
     next_ref h' = next_ref h \<and> customers h' = customers h \<and>
     (\<forall>r. r \<notin> R \<longrightarrow> routes h' r = routes h r) \<and> (\<forall>p. p \<notin> P \<longrightarrow> packages h' p = packages h p) \<and>
     (\<forall>t. t \<notin> T \<longrightarrow> trucks h' t = trucks h t) \<and>
     (\<forall>r. route_id (routes h' r) = route_id (routes h r) \<and> path (routes h' r) = path (routes h r) \<and>
        schedule (routes h' r) = schedule (routes h r)) \<and>
     (\<forall>p. package_frame (packages h p) (packages h' p)) \<and> (\<forall>t. truck_frame (trucks h t) (trucks h' t))"

lemma confined_refl [simp]: "confined R P T h h"
  by (simp add: confined_def)

lemma confined_trans: "confined R P T h h1 \<Longrightarrow> confined R P T h1 h2 \<Longrightarrow> confined R P T h h2"
  unfolding confined_def using package_frame_trans truck_frame_trans by metis

lemma confined_mono: "confined R P T h h' \<Longrightarrow> R \<subseteq> R' \<Longrightarrow> P \<subseteq> P' \<Longrightarrow> T \<subseteq> T' \<Longrightarrow> confined R' P' T' h h'"
  unfolding confined_def by blast

lemma confinedD:
  assumes "confined R P T h h'"
  shows "next_ref h' = next_ref h" "customers h' = customers h" "package_id (packages h' p) = package_id (packages h p)"
    "pkg_start (packages h' p) = pkg_start (packages h p)" "pkg_end (packages h' p) = pkg_end (packages h p)"
    "pkg_weight (packages h' p) = pkg_weight (packages h p)" "pkg_customer (packages h' p) = pkg_customer (packages h p)"
    "route_id (routes h' r) = route_id (routes h r)" "path (routes h' r) = path (routes h r)"
    "schedule (routes h' r) = schedule (routes h r)" "departure_time (routes h' r) = departure_time (routes h r)"
    "truck_frame (trucks h t) (trucks h' t)"
  using assms by (simp_all add: confined_def package_frame_def departure_time_def)

lemma confined_from:
  assumes "confined R P T h h'"
  shows "customer_from h' = customer_from h" "package_from cs h' = package_from cs h" "route_from h' = route_from h"
  by (simp_all add: fun_eq_iff from_defs confinedD [OF assms])

lemma building_confined:
  assumes b: "building n h0 C P R T h" and "confined R P T' h h'" and "\<forall>t \<in> T'. n \<le> t" and w: "world_ok R P T h'"
  shows "building n h0 C P R T h'"
proof -
  note wi = confinedD [OF assms(2)] and d = assms(2) [unfolded confined_def]
  have "x \<notin> R \<and> x \<notin> P \<and> x \<notin> T'" if "x < n" for x
    using buildingD(6,7) [OF b] assms(3) that by (meson not_le)
  then have "untouched n h h'" using d by (simp add: untouched_def)
  moreover have "owners_ok C P h'" using buildingD(3) [OF b] by (simp add: owners_ok_def wi)
  ultimately show ?thesis
    using b w untouched_trans by (auto simp: building_def wi(1))
qed

lemma confined_package_linked:
  "r \<in> R \<Longrightarrow> p \<in> P \<Longrightarrow> confined R P T h (package_linked r p eta h)"
  by (auto simp: confined_def package_linked_def package_frame_def)

text \<open>The packages that a route lists are waiting packages on its way.\<close>

definition linkable :: "heap \<Rightarrow> pref set \<Rightarrow> (int \<rightharpoonup> pref) \<Rightarrow> rref \<Rightarrow> int list \<Rightarrow> bool" where
  "linkable h P ps r ids \<longleftrightarrow>
     route_truck (routes h r) = None \<and>
     (\<forall>i \<in> set ids. \<exists>p \<in> P. ps i = Some p \<and> package_id (packages h p) = i \<and> pkg_route (packages h p) = None \<and>
        on_the_way h r (packages h p))"

lemma linkable_cong:
  assumes "linkable h P ps r ids" and w: "confined R P {} h h'" and "route_truck (routes h' r) = route_truck (routes h r)"
    and "\<And>q. pkg_route (packages h q) = None \<Longrightarrow> package_id (packages h q) \<in> set ids \<Longrightarrow> pkg_route (packages h' q) = None"
  shows "linkable h' P ps r ids"
  using assms(1,3,4) unfolding linkable_def on_the_way_def by (fastforce simp: confinedD [OF w])

lemma packages_linked_world:
  assumes "world_ok R P T h" and r: "r \<in> R" and "linkable h P ps r ids" and "distinct ids"
  shows "\<exists>h'. act_for (link_package ps r) ids h = (Inr (), h') \<and> world_ok R P T h' \<and> confined R P {} h h' \<and>
    (\<forall>q. q \<noteq> r \<longrightarrow> routes h' q = routes h q) \<and> route_truck (routes h' r) = None \<and>
    route_packages (routes h' r) = route_packages (routes h r) @ map (\<lambda>i. the (ps i)) ids \<and>
    (\<forall>q. package_id (packages h q) \<notin> set ids \<longrightarrow> packages h' q = packages h q)"
  using assms
proof (induction ids arbitrary: h)
  case Nil
  then show ?case by (simp add: linkable_def)
next
  case (Cons i ids)
  note w = Cons.prems(1)
  obtain p where p: "p \<in> P" "ps i = Some p" "package_id (packages h p) = i" "pkg_route (packages h p) = None"
      "on_the_way h r (packages h p)" and none: "route_truck (routes h r) = None"
    using Cons.prems(3) by (auto simp: linkable_def)
  obtain eta where run: "restore_package_link r p True h = (Inr (), package_linked r p eta h)"
    using package_link_world(1) [OF w r p(1,4,5) none] by blast
  let ?h = "package_linked r p eta h"
  have w': "world_ok R P T ?h" by (rule package_link_world(2) [OF w r p(1,4,5) none])
  have wi: "confined R P {} h ?h" by (rule confined_package_linked [OF r p(1)])
  have at: "routes ?h q = (if q = r then (routes h r)\<lparr>route_packages := route_packages (routes h r) @ [p]\<rparr> else routes h q)"
    "q \<noteq> p \<Longrightarrow> packages ?h q = packages h q" for q
    by (simp_all add: package_linked_def)
  have "linkable h P ps r ids" using Cons.prems(3) by (simp add: linkable_def)
  then have "linkable ?h P ps r ids"
  proof (rule linkable_cong [OF _ wi])
    show "route_truck (routes ?h r) = route_truck (routes h r)" by (simp add: at(1))
    fix q assume "pkg_route (packages h q) = None" "package_id (packages h q) \<in> set ids"
    moreover from this have "q \<noteq> p" using p(3) Cons.prems(4) by auto
    ultimately show "pkg_route (packages ?h q) = None" by (simp add: at(2))
  qed
  from Cons.IH [OF w' r this] Cons.prems(4) obtain h' where h':
    "act_for (link_package ps r) ids ?h = (Inr (), h')" "world_ok R P T h'" "confined R P {} ?h h'"
    "\<forall>q. q \<noteq> r \<longrightarrow> routes h' q = routes ?h q" "route_truck (routes h' r) = None"
    "route_packages (routes h' r) = route_packages (routes ?h r) @ map (\<lambda>i. the (ps i)) ids"
    "\<forall>q. package_id (packages ?h q) \<notin> set ids \<longrightarrow> packages h' q = packages ?h q"
    by auto
  have "act_for (link_package ps r) (i # ids) h = (Inr (), h')"
    using h'(1) run p(2) by (simp add: link_package_def act_bind_lift act_bind_def)
  moreover have "packages h' q = packages h q" if "package_id (packages h q) \<notin> set (i # ids)" for q
  proof -
    have "q \<noteq> p" using that p(3) by auto
    then have "packages ?h q = packages h q" by (simp add: package_linked_def)
    then show ?thesis using h'(7) that by simp
  qed
  ultimately show ?case
    using h' p(2) confined_trans [OF wi h'(3)] by (intro exI [of _ h']) (simp add: at(1))
qed

lemma all_packages_linked:
  assumes "world_ok R P T h"
    and "\<forall>s \<in> set ss. \<exists>r \<in> R. map_of (rb_routes rb) (sr_id s) = Some r \<and> route_id (routes h r) = sr_id s \<and>
      linkable h P (map_of (rb_packages rb)) r (sr_packages s)"
    and "distinct (concat (map sr_packages ss))" and "distinct (map sr_id ss)"
  shows "\<exists>h'. link_packages_to_routes ss rb h = (Inr (), h') \<and> world_ok R P T h' \<and> confined R P {} h h' \<and>
    (\<forall>q. route_id (routes h q) \<notin> sr_id ` set ss \<longrightarrow> routes h' q = routes h q) \<and>
    (\<forall>s \<in> set ss. \<forall>r. map_of (rb_routes rb) (sr_id s) = Some r \<longrightarrow> route_truck (routes h' r) = None \<and>
       route_packages (routes h' r) =
         route_packages (routes h r) @ map (\<lambda>i. the (map_of (rb_packages rb) i)) (sr_packages s))"
  using assms
proof (induction ss arbitrary: h)
  case Nil
  then show ?case by (simp add: link_packages_to_routes_def)
next
  case (Cons s ss)
  let ?ps = "map_of (rb_packages rb)"
  obtain r where r: "r \<in> R" "map_of (rb_routes rb) (sr_id s) = Some r" "route_id (routes h r) = sr_id s"
      "linkable h P ?ps r (sr_packages s)"
    using Cons.prems(2) by auto
  have d: "distinct (sr_packages s)" "set (sr_packages s) \<inter> set (concat (map sr_packages ss)) = {}"
    "distinct (concat (map sr_packages ss))" "sr_id s \<notin> sr_id ` set ss" "distinct (map sr_id ss)"
    using Cons.prems(3,4) by auto
  obtain h1 where h1: "act_for (link_package ?ps r) (sr_packages s) h = (Inr (), h1)" "world_ok R P T h1"
      "confined R P {} h h1" "\<forall>q. q \<noteq> r \<longrightarrow> routes h1 q = routes h q" "route_truck (routes h1 r) = None"
      "route_packages (routes h1 r) = route_packages (routes h r) @ map (\<lambda>i. the (?ps i)) (sr_packages s)"
      "\<forall>q. package_id (packages h q) \<notin> set (sr_packages s) \<longrightarrow> packages h1 q = packages h q"
    using packages_linked_world [OF Cons.prems(1) r(1,4) d(1)] by auto
  have rest: "\<exists>q \<in> R. map_of (rb_routes rb) (sr_id s') = Some q \<and> route_id (routes h1 q) = sr_id s' \<and>
      linkable h1 P ?ps q (sr_packages s')" if s': "s' \<in> set ss" for s'
  proof -
    obtain q where q: "q \<in> R" "map_of (rb_routes rb) (sr_id s') = Some q" "route_id (routes h q) = sr_id s'"
        "linkable h P ?ps q (sr_packages s')"
      using Cons.prems(2) s' by auto
    have "q \<noteq> r" using q(3) r(3) d(4) s' by auto
    have "linkable h1 P ?ps q (sr_packages s')"
    proof (rule linkable_cong [OF q(4) h1(3)])
      show "route_truck (routes h1 q) = route_truck (routes h q)" using h1(4) \<open>q \<noteq> r\<close> by simp
      fix p assume p: "pkg_route (packages h p) = None" "package_id (packages h p) \<in> set (sr_packages s')"
      then have "package_id (packages h p) \<notin> set (sr_packages s)" using d(2) s' by auto
      then show "pkg_route (packages h1 p) = None" using h1(7) p(1) by simp
    qed
    then show ?thesis using q by (auto simp: confinedD(8) [OF h1(3)])
  qed
  from Cons.IH [OF h1(2) _ d(3,5)] rest obtain h' where h':
    "link_packages_to_routes ss rb h1 = (Inr (), h')" "world_ok R P T h'" "confined R P {} h1 h'"
    "\<forall>q. route_id (routes h1 q) \<notin> sr_id ` set ss \<longrightarrow> routes h' q = routes h1 q"
    "\<forall>s \<in> set ss. \<forall>r. map_of (rb_routes rb) (sr_id s) = Some r \<longrightarrow> route_truck (routes h' r) = None \<and>
       route_packages (routes h' r) = route_packages (routes h1 r) @ map (\<lambda>i. the (?ps i)) (sr_packages s)"
    by blast
  have "link_packages_to_routes (s # ss) rb h = (Inr (), h')"
    using h1(1) h'(1) r(2) by (simp add: link_packages_to_routes_def link_packages_def act_bind_lift act_bind_def)
  moreover have mine: "routes h' r = routes h1 r"
    using h'(4) d(4) r(3) by (simp add: confinedD(8) [OF h1(3)])
  moreover have "routes h' q = routes h q" if "route_id (routes h q) \<notin> sr_id ` set (s # ss)" for q
  proof -
    have "q \<noteq> r" using that r(3) by auto
    then show ?thesis using that h'(4) h1(4) by (simp add: confinedD(8) [OF h1(3)])
  qed
  moreover have "route_truck (routes h' q) = None \<and>
      route_packages (routes h' q) = route_packages (routes h q) @ map (\<lambda>i. the (?ps i)) (sr_packages s')"
    if s': "s' \<in> set (s # ss)" and q: "map_of (rb_routes rb) (sr_id s') = Some q" for s' q
  proof (cases "s' = s")
    case True
    then show ?thesis using q r(2) h1(5,6) mine by simp
  next
    case False
    then have s': "s' \<in> set ss" using s' by simp
    then obtain q' where "map_of (rb_routes rb) (sr_id s') = Some q'" "route_id (routes h1 q') = sr_id s'"
      using rest by blast
    then have "q \<noteq> r" using q r(3) d(4) s' by (auto simp: confinedD(8) [OF h1(3)])
    then show ?thesis using h'(5) s' q h1(4) by simp
  qed
  ultimately show ?case
    using h'(2) confined_trans [OF h1(3) h'(3)] by blast
qed

lemma traced_lookup:
  assumes t: "traced Q ss acc" and keys: "map fst acc = map key ss" and d: "distinct (map key ss)" and s: "s \<in> set ss"
    and key: "\<And>s i x. Q s i x \<Longrightarrow> key s = i"
  obtains x where "map_of acc (key s) = Some x" "(key s, x) \<in> set acc" "Q s (key s) x"
proof -
  have "key s \<in> set (map fst acc)" unfolding keys using s by simp
  then obtain x where x: "(key s, x) \<in> set acc" by auto
  then obtain s' where s': "s' \<in> set ss" "Q s' (key s) x" by (rule tracedE [OF t])
  then have "s' = s" using key [OF s'(2)] d s by (auto simp: distinct_map inj_on_def)
  moreover have "map_of acc (key s) = Some x" using x d keys by (simp add: map_of_is_SomeI)
  ultimately show ?thesis using that x s'(2) by blast
qed

lemma rebuilt_lookup:
  assumes rb: "rebuilt_from n h0 w rb h" and ids: "identities_wf w"
  shows "r \<in> set (sw_routes w) \<Longrightarrow> \<exists>x \<in> snd ` set (rb_routes rb). map_of (rb_routes rb) (sr_id r) = Some x \<and> route_from h r (sr_id r) x"
    "p \<in> set (sw_packages w) \<Longrightarrow>
      \<exists>x \<in> snd ` set (rb_packages rb). map_of (rb_packages rb) (sp_id p) = Some x \<and> package_from (rb_customers rb) h p (sp_id p) x"
proof -
  have d: "distinct (map sr_id (sw_routes w))" "distinct (map sp_id (sw_packages w))"
    using ids by (simp_all add: identities_wf_def ids_wf_def)
  note rbD = rb [unfolded rebuilt_from_def]
  show "\<exists>x \<in> snd ` set (rb_routes rb). map_of (rb_routes rb) (sr_id r) = Some x \<and> route_from h r (sr_id r) x"
    if r: "r \<in> set (sw_routes w)"
    by (rule traced_lookup [of "route_from h" "sw_routes w" "rb_routes rb" sr_id r])
      (use rbD d(1) r in \<open>auto simp: route_from_def image_iff intro!: bexI\<close>)
  show "\<exists>x \<in> snd ` set (rb_packages rb). map_of (rb_packages rb) (sp_id p) = Some x \<and>
      package_from (rb_customers rb) h p (sp_id p) x" if p: "p \<in> set (sw_packages w)"
    by (rule traced_lookup [of "package_from (rb_customers rb) h" "sw_packages w" "rb_packages rb" sp_id p])
      (use rbD d(2) p in \<open>auto simp: package_from_def image_iff intro!: bexI\<close>)
qed

text \<open>No package is listed twice.\<close>

lemma distinct_cargo:
  assumes ids: "identities_wf w" and refs: "references_wf w fs" and links: "links_wf w"
    and "set rs \<subseteq> set (sw_routes w)" and "distinct (map sr_id rs)"
  shows "distinct (concat (map sr_packages rs))"
  using assms(4,5)
proof (induction rs)
  case (Cons r rs)
  have "i \<notin> set (sr_packages s)" if i: "i \<in> set (sr_packages r)" and s: "s \<in> set rs" for i s
  proof
    assume i': "i \<in> set (sr_packages s)"
    have r: "r \<in> set (sw_routes w)" and s': "s \<in> set (sw_routes w)" using Cons.prems(1) s by auto
    obtain p where p: "p \<in> set (sw_packages w)" "i = sp_id p" by (rule referenced_package [OF refs r i])
    then have "sp_route_id p = Some (sr_id r)" "sp_route_id p = Some (sr_id s)"
      using links r s' i i' by (auto simp: links_wf_def)
    then have "sr_id r = sr_id s" by simp
    then show False using Cons.prems(2) imageI [OF s, of sr_id] by simp
  qed
  moreover have "distinct (sr_packages r)" using ids Cons.prems(1) by (simp add: identities_wf_def ids_wf_def)
  ultimately show ?case using Cons by auto
qed simp

lemma first_index_nth: "x \<in> set xs \<Longrightarrow> first_index x xs < length xs \<and> xs ! first_index x xs = x"
  unfolding first_index_def by (induction xs) auto

lemma rebuilt_waiting:
  assumes rb: "rebuilt_from n h0 w rb h"
  shows "r \<in> snd ` set (rb_routes rb) \<Longrightarrow> route_truck (routes h r) = None"
    "r \<in> snd ` set (rb_routes rb) \<Longrightarrow> route_packages (routes h r) = []"
    "p \<in> snd ` set (rb_packages rb) \<Longrightarrow> pkg_route (packages h p) = None"
proof -
  let ?R = "snd ` set (rb_routes rb)" and ?P = "snd ` set (rb_packages rb)"
  have w: "world_ok ?R ?P {} h" using rb buildingD(2) unfolding rebuilt_from_def by blast
  show "route_truck (routes h r) = None" if "r \<in> ?R"
    using route_linksD(5) [OF world_okD(1) [OF w that]] by (cases "route_truck (routes h r)") auto
  show empty: "route_packages (routes h r) = []" if "r \<in> ?R" for r
    using rb that unfolding rebuilt_from_def by auto
  show "pkg_route (packages h p) = None" if "p \<in> ?P"
  proof (cases "pkg_route (packages h p)")
    case (Some r)
    then have "r \<in> ?R" "p \<in> set (route_packages (routes h r))"
      using world_okD(2) [OF w that] by (simp_all add: package_links_ok_def)
    then show ?thesis using empty by simp
  qed
qed

lemma rebuilt_linkable:
  assumes rb: "rebuilt_from n h0 w rb h" and ids: "identities_wf w" and refs: "references_wf w fs"
    and links: "links_wf w" and travels: "travels_wf w" and s: "s \<in> set (sw_routes w)"
  shows "\<exists>r \<in> snd ` set (rb_routes rb). map_of (rb_routes rb) (sr_id s) = Some r \<and> route_id (routes h r) = sr_id s \<and>
    linkable h (snd ` set (rb_packages rb)) (map_of (rb_packages rb)) r (sr_packages s)"
proof -
  obtain r where r: "r \<in> snd ` set (rb_routes rb)" "map_of (rb_routes rb) (sr_id s) = Some r"
      "route_from h s (sr_id s) r"
    using rebuilt_lookup(1) [OF rb ids s] by blast
  have "\<exists>p \<in> snd ` set (rb_packages rb). map_of (rb_packages rb) i = Some p \<and> package_id (packages h p) = i \<and>
      pkg_route (packages h p) = None \<and> on_the_way h r (packages h p)" if i: "i \<in> set (sr_packages s)" for i
  proof -
    obtain x where x: "x \<in> set (sw_packages w)" "i = sp_id x" by (rule referenced_package [OF refs s i])
    obtain p where p: "p \<in> snd ` set (rb_packages rb)" "map_of (rb_packages rb) i = Some p"
        "package_from (rb_customers rb) h x i p"
      using rebuilt_lookup(2) [OF rb ids x(1)] x(2) by blast
    have "sp_route_id x = Some (sr_id s)" using links x s i by (auto simp: links_wf_def)
    then have t: "sp_start x \<in> set (sr_locations s)" "sp_end x \<in> set (sr_locations s)"
      "first_index (sp_start x) (sr_locations s) < first_index (sp_end x) (sr_locations s)"
      using travels x(1) s by (auto simp: travels_wf_def)
    have "on_the_way h r (packages h p)"
      using t(3) first_index_nth [OF t(1)] first_index_nth [OF t(2)] r(3) p(3)
      by (auto simp: on_the_way_def from_defs)
    then show ?thesis using p rebuilt_waiting(3) [OF rb p(1)] by (auto simp: package_from_def)
  qed
  then have "linkable h (snd ` set (rb_packages rb)) (map_of (rb_packages rb)) r (sr_packages s)"
    using rebuilt_waiting(1) [OF rb r(1)] by (simp add: linkable_def)
  then show ?thesis using r by (auto simp: route_from_def)
qed

end
