(* ===== verification/SnapshotFile.thy ===== *)
theory SnapshotFile
  imports Loading Json
begin

text \<open>
  The JSON form of a saved world: \<open>_raw_from_snapshot\<close> and \<open>_snapshot_from_raw\<close> of
  \<open>src/adapters/driven/persistence/json/world_state_persistence.py\<close>.  A file is the value that
  \<open>json.load\<close> reads from it; texts of exceptions are left out.
\<close>

section \<open>Writing\<close>

text \<open>\<open>asdict\<close> of the data classes, in the order of their fields; a tuple is written as a list.\<close>

definition counters_json :: "counters_snapshot \<Rightarrow> json" where
  "counters_json c =
     JObj [(''next_customer_id'', JInt (next_customer_id c)), (''next_package_id'', JInt (next_package_id c)),
           (''next_route_id'', JInt (next_route_id c))]"

definition customer_json :: "saved_customer \<Rightarrow> json" where
  "customer_json c =
     JObj [(''customer_id'', JInt (sc_id c)), (''name'', JStr (sc_name c)), (''email'', JStr (sc_email c)),
           (''phone'', JStr (sc_phone c))]"

definition package_json :: "saved_package \<Rightarrow> json" where
  "package_json p =
     JObj [(''package_id'', JInt (sp_id p)), (''start'', JStr (sp_start p)), (''end'', JStr (sp_end p)),
           (''weight'', JFloat (FFin (sp_weight p))), (''customer_id'', JInt (sp_customer_id p)),
           (''route_id'', optional_int (sp_route_id p))]"

definition route_json :: "saved_route \<Rightarrow> json" where
  "route_json r =
     JObj [(''route_id'', JInt (sr_id r)), (''locations'', JList (map JStr (sr_locations r))),
           (''departure_time'', optional_str (sr_departure r)), (''truck_vehicle_id'', optional_int (sr_truck r)),
           (''package_ids'', JList (map JInt (sr_packages r)))]"

definition truck_json :: "saved_truck \<Rightarrow> json" where
  "truck_json t =
     JObj [(''vehicle_id'', JInt (st_id t)), (''status'', JStr (truck_status_value (st_status t))),
           (''current_location'', optional_str (st_location t)), (''route_id'', optional_int (st_route_id t)),
           (''busy_from'', optional_str (st_busy_from t)), (''busy_until'', optional_str (st_busy_until t)),
           (''in_transit_to'', optional_str (st_transit t))]"

definition world_json :: "saved_world \<Rightarrow> json" where
  "world_json w =
     JObj [(''counters'', counters_json (sw_counters w)), (''customers'', JList (map customer_json (sw_customers w))),
           (''packages'', JList (map package_json (sw_packages w))), (''routes'', JList (map route_json (sw_routes w))),
           (''trucks'', JList (map truck_json (sw_trucks w)))]"

definition raw_from_snapshot :: "world_snapshot \<Rightarrow> json" where
  "raw_from_snapshot s =
     JObj [(''schema_version'', JInt (ws_version s)), (''world'', world_json (ws_world s)), (''users'', JNull)]"

section \<open>Reading\<close>

definition require_mapping :: "json \<Rightarrow> json_object result" where
  "require_mapping v = (case v of JObj kvs \<Rightarrow> Inr kvs | _ \<Rightarrow> Inl PyTypeError)"

text \<open>\<open>raw.get(field)\<close>\<close>

definition get_json :: "json_object \<Rightarrow> string \<Rightarrow> json" where
  "get_json raw k = (case map_of raw k of None \<Rightarrow> JNull | Some v \<Rightarrow> v)"

definition get_field :: "json_object \<Rightarrow> string \<Rightarrow> (pyval \<Rightarrow> 'a result) \<Rightarrow> 'a result" where
  "get_field raw k require = require (py_of_json (get_json raw k))"

definition require_items :: "json \<Rightarrow> json list result" where
  "require_items v = (case v of JList xs \<Rightarrow> Inr xs | _ \<Rightarrow> Inl PyTypeError)"

definition require_location :: "pyval \<Rightarrow> location result" where
  "require_location v = res_bind (require_str v) (\<lambda>s. location_code (PyStr s))"

definition require_location_or_none :: "pyval \<Rightarrow> location option result" where
  "require_location_or_none v =
     res_bind (require_optional_str v) (\<lambda>s.
       case s of None \<Rightarrow> Inr None | Some l \<Rightarrow> res_bind (location_code (PyStr l)) (\<lambda>c. Inr (Some c)))"

definition counters_from_raw :: "json_object \<Rightarrow> counters_snapshot result" where
  "counters_from_raw raw =
     res_bind (get_field raw ''next_customer_id'' require_int) (\<lambda>c.
     res_bind (get_field raw ''next_package_id'' require_int) (\<lambda>p.
     res_bind (get_field raw ''next_route_id'' require_int) (\<lambda>r.
       Inr \<lparr>next_customer_id = c, next_package_id = p, next_route_id = r\<rparr>)))"

definition customer_from_raw :: "json \<Rightarrow> saved_customer result" where
  "customer_from_raw v =
     res_bind (require_mapping v) (\<lambda>raw.
     res_bind (get_field raw ''customer_id'' require_int) (\<lambda>i.
     res_bind (get_field raw ''name'' require_str) (\<lambda>name.
     res_bind (get_field raw ''email'' require_str) (\<lambda>email.
     res_bind (get_field raw ''phone'' require_str) (\<lambda>phone.
       Inr \<lparr>sc_id = i, sc_name = name, sc_email = email, sc_phone = phone\<rparr>)))))"

definition package_from_raw :: "json \<Rightarrow> saved_package result" where
  "package_from_raw v =
     res_bind (require_mapping v) (\<lambda>raw.
     res_bind (get_field raw ''weight'' require_positive_finite_float) (\<lambda>weight.
     res_bind (get_field raw ''route_id'' require_optional_int) (\<lambda>route.
     res_bind (get_field raw ''package_id'' require_int) (\<lambda>i.
     res_bind (get_field raw ''start'' require_location) (\<lambda>start.
     res_bind (get_field raw ''end'' require_location) (\<lambda>stop.
     res_bind (get_field raw ''customer_id'' require_int) (\<lambda>c.
       Inr \<lparr>sp_id = i, sp_start = start, sp_end = stop, sp_weight = weight, sp_customer_id = c,
            sp_route_id = route\<rparr>)))))))"

definition route_from_raw :: "json \<Rightarrow> saved_route result" where
  "route_from_raw v =
     res_bind (require_mapping v) (\<lambda>raw.
     res_bind (require_items (get_json raw ''locations'')) (\<lambda>locations_raw.
     res_bind (require_items (get_json raw ''package_ids'')) (\<lambda>ids_raw.
     res_bind (res_map (\<lambda>x. require_location (py_of_json x)) locations_raw) (\<lambda>locs.
     res_bind (res_map (\<lambda>x. require_int (py_of_json x)) ids_raw) (\<lambda>ids.
     res_bind (get_field raw ''truck_vehicle_id'' require_optional_int) (\<lambda>truck.
     res_bind (get_field raw ''route_id'' require_int) (\<lambda>i.
     res_bind (get_field raw ''departure_time'' require_optional_str) (\<lambda>departure.
       Inr \<lparr>sr_id = i, sr_locations = locs, sr_departure = departure, sr_truck = truck, sr_packages = ids\<rparr>))))))))"

definition truck_from_raw :: "json \<Rightarrow> saved_truck result" where
  "truck_from_raw v =
     res_bind (require_mapping v) (\<lambda>raw.
     res_bind (get_field raw ''route_id'' require_optional_int) (\<lambda>route.
     res_bind (get_field raw ''vehicle_id'' require_int) (\<lambda>i.
     res_bind (get_field raw ''status'' (parse_enum_value truck_status_value truck_status_members)) (\<lambda>status.
     res_bind (get_field raw ''current_location'' require_location_or_none) (\<lambda>place.
     res_bind (get_field raw ''busy_from'' require_optional_str) (\<lambda>start.
     res_bind (get_field raw ''busy_until'' require_optional_str) (\<lambda>stop.
     res_bind (get_field raw ''in_transit_to'' require_location_or_none) (\<lambda>transit.
       Inr \<lparr>st_id = i, st_status = status, st_location = place, st_route_id = route, st_busy_from = start,
            st_busy_until = stop, st_transit = transit\<rparr>))))))))"

text \<open>Both clauses of the last \<open>try\<close>; a domain error is neither and escapes.\<close>

definition raw_error :: "error \<Rightarrow> snapshot_error" where
  "raw_error e =
     (if e = PyTypeError then Corruption CORRUPT_INVALID_STRUCTURE
      else if e = PyValueError then Corruption CORRUPT_INVARIANT_VIOLATION
      else Escaped e)"

definition structured :: "'a result \<Rightarrow> snapshot_error + 'a" where
  "structured r = (case r of Inl _ \<Rightarrow> Inl (Corruption CORRUPT_INVALID_STRUCTURE) | Inr x \<Rightarrow> Inr x)"

definition legacy_sections :: "string list" where
  "legacy_sections = [''counters'', ''customers'', ''packages'', ''routes'']"

text \<open>The mapping with the sections: the member \<open>world\<close>, or the flat payload of the first schema.\<close>

definition world_dict_of :: "json_object \<Rightarrow> int \<Rightarrow> snapshot_error + json_object" where
  "world_dict_of raw version =
     (if get_json raw ''world'' = JNull then
        (if version \<noteq> 1 then Inl (Corruption CORRUPT_UNSUPPORTED_SCHEMA)
         else if map_of raw ''trucks'' \<noteq> None then Inl (Corruption CORRUPT_INVALID_STRUCTURE)
         else if \<forall>k \<in> set legacy_sections. map_of raw k = None then Inl (Corruption CORRUPT_INVALID_STRUCTURE)
         else if \<exists>k \<in> set legacy_sections. map_of raw k = None then Inl (Corruption CORRUPT_INVALID_STRUCTURE)
         else Inr [(''counters'', get_json raw ''counters''), (''customers'', get_json raw ''customers''),
                   (''packages'', get_json raw ''packages''), (''routes'', get_json raw ''routes''),
                   (''trucks'', JList [])])
      else
        sum_bind (structured (require_mapping (get_json raw ''world''))) (\<lambda>w.
          if version = 1 \<and> map_of w ''trucks'' \<noteq> None then Inl (Corruption CORRUPT_INVALID_STRUCTURE)
          else if version = 2 \<and> map_of w ''trucks'' = None then Inl (Corruption CORRUPT_INVALID_STRUCTURE)
          else Inr w))"

definition sections_of ::
    "json_object \<Rightarrow> (json_object \<times> json list \<times> json list \<times> json list \<times> json list) result" where
  "sections_of w =
     res_bind (require_mapping (get_json w ''counters'')) (\<lambda>counters.
     res_bind (require_items (get_json w ''customers'')) (\<lambda>cs.
     res_bind (require_items (get_json w ''packages'')) (\<lambda>ps.
     res_bind (require_items (get_json w ''routes'')) (\<lambda>rs.
     res_bind (require_items (case map_of w ''trucks'' of None \<Rightarrow> JList [] | Some v \<Rightarrow> v)) (\<lambda>ts.
       Inr (counters, cs, ps, rs, ts))))))"

definition world_from_sections ::
    "json_object \<times> json list \<times> json list \<times> json list \<times> json list \<Rightarrow> saved_world result" where
  "world_from_sections x =
     (case x of (counters, cs, ps, rs, ts) \<Rightarrow>
        res_bind (counters_from_raw counters) (\<lambda>counters.
        res_bind (res_map customer_from_raw cs) (\<lambda>cs.
        res_bind (res_map package_from_raw ps) (\<lambda>ps.
        res_bind (res_map route_from_raw rs) (\<lambda>rs.
        res_bind (res_map truck_from_raw ts) (\<lambda>ts.
          Inr \<lparr>sw_counters = counters, sw_customers = cs, sw_packages = ps, sw_routes = rs, sw_trucks = ts\<rparr>))))))"

definition snapshot_from_raw :: "json \<Rightarrow> snapshot_error + world_snapshot" where
  "snapshot_from_raw v =
     sum_bind (structured (res_bind (require_mapping v) (\<lambda>raw.
       res_bind (get_field raw ''schema_version'' require_int) (\<lambda>version. Inr (raw, version))))) (\<lambda>(raw, version).
     if version \<notin> {1, 2} then Inl (Corruption CORRUPT_UNSUPPORTED_SCHEMA)
     else
       sum_bind (world_dict_of raw version) (\<lambda>w.
       sum_bind (structured (sections_of w)) (\<lambda>sections.
         case world_from_sections sections of
           Inl e \<Rightarrow> Inl (raw_error e)
         | Inr world \<Rightarrow> Inr \<lparr>ws_version = version, ws_world = world\<rparr>)))"

section \<open>What is written is read back\<close>

lemma get_json_simps [simp]:
  "get_json ((k, v) # raw) k = v" "k \<noteq> k' \<Longrightarrow> get_json ((k', v) # raw) k = get_json raw k"
  "get_json [] k = JNull"
  by (simp_all add: get_json_def)

lemma optional_back [simp]:
  "require_optional_int (py_of_json (optional_int i)) = Inr i"
  "pred_option is_location_code l \<Longrightarrow> require_location_or_none (py_of_json (optional_str l)) = Inr l"
  "is_location_code c \<Longrightarrow> require_location (PyStr c) = Inr c"
proof -
  show "require_optional_int (py_of_json (optional_int i)) = Inr i"
    by (cases i) (simp_all add: require_optional_int_def optional_int_def)
  show "require_location_or_none (py_of_json (optional_str l)) = Inr l" if "pred_option is_location_code l"
    using that by (cases l) (simp_all add: require_location_or_none_def is_location_code_def)
  show "require_location (PyStr c) = Inr c" if "is_location_code c"
    using that by (simp add: require_location_def is_location_code_def)
qed

lemma res_map_back: "(\<And>x. x \<in> set xs \<Longrightarrow> f (put x) = Inr x) \<Longrightarrow> res_map f (map put xs) = Inr xs"
  by (induction xs) auto

text \<open>The values a snapshot holds by its types: codes, and weights that are positive numbers.\<close>

definition snapshot_values_ok :: "saved_world \<Rightarrow> bool" where
  "snapshot_values_ok w \<longleftrightarrow>
     (\<forall>p \<in> set (sw_packages w). is_location_code (sp_start p) \<and> is_location_code (sp_end p) \<and> 0 < sp_weight p) \<and>
     (\<forall>r \<in> set (sw_routes w). list_all is_location_code (sr_locations r)) \<and>
     (\<forall>t \<in> set (sw_trucks w). pred_option is_location_code (st_location t) \<and> pred_option is_location_code (st_transit t))"

lemma records_back:
  "customer_from_raw (customer_json c) = Inr c"
  "is_location_code (sp_start p) \<Longrightarrow> is_location_code (sp_end p) \<Longrightarrow> 0 < sp_weight p \<Longrightarrow>
     package_from_raw (package_json p) = Inr p"
  "list_all is_location_code (sr_locations r) \<Longrightarrow> route_from_raw (route_json r) = Inr r"
  "pred_option is_location_code (st_location t) \<Longrightarrow> pred_option is_location_code (st_transit t) \<Longrightarrow>
     truck_from_raw (truck_json t) = Inr t"
  "require_mapping (counters_json k) = Inr kvs \<Longrightarrow> counters_from_raw kvs = Inr k"
proof -
  show "customer_from_raw (customer_json c) = Inr c"
    by (simp add: customer_from_raw_def customer_json_def require_mapping_def get_field_def)
  show "package_from_raw (package_json p) = Inr p"
    if "is_location_code (sp_start p)" "is_location_code (sp_end p)" "0 < sp_weight p"
    using that by (simp add: package_from_raw_def package_json_def require_mapping_def get_field_def)
  show "truck_from_raw (truck_json t) = Inr t"
    if "pred_option is_location_code (st_location t)" "pred_option is_location_code (st_transit t)"
    using that
    by (simp add: truck_from_raw_def truck_json_def require_mapping_def get_field_def truck_status_wire.parse_value)
  show "counters_from_raw kvs = Inr k" if "require_mapping (counters_json k) = Inr kvs"
    using that by (auto simp: counters_from_raw_def counters_json_def require_mapping_def get_field_def)
  show "route_from_raw (route_json r) = Inr r" if locs: "list_all is_location_code (sr_locations r)"
  proof -
    have "res_map (\<lambda>x. require_location (py_of_json x)) (map JStr (sr_locations r)) = Inr (sr_locations r)"
      by (rule res_map_back) (use locs in \<open>simp add: list_all_iff\<close>)
    moreover have "res_map (\<lambda>x. require_int (py_of_json x)) (map JInt (sr_packages r)) = Inr (sr_packages r)"
      by (rule res_map_back) simp
    ultimately show ?thesis
      by (simp add: route_from_raw_def route_json_def require_mapping_def get_field_def require_items_def)
  qed
qed

theorem snapshot_back:
  assumes "ws_version s = 2" and ok: "snapshot_values_ok (ws_world s)"
  shows "snapshot_from_raw (raw_from_snapshot s) = Inr s"
proof -
  let ?w = "ws_world s"
  obtain kvs where kvs: "counters_json (sw_counters ?w) = JObj kvs" by (simp add: counters_json_def)
  have "res_map customer_from_raw (map customer_json (sw_customers ?w)) = Inr (sw_customers ?w)"
    by (rule res_map_back) (rule records_back)
  moreover have "res_map package_from_raw (map package_json (sw_packages ?w)) = Inr (sw_packages ?w)"
    by (rule res_map_back, rule records_back) (use ok in \<open>simp_all add: snapshot_values_ok_def\<close>)
  moreover have "res_map route_from_raw (map route_json (sw_routes ?w)) = Inr (sw_routes ?w)"
    by (rule res_map_back, rule records_back) (use ok in \<open>simp add: snapshot_values_ok_def\<close>)
  moreover have "res_map truck_from_raw (map truck_json (sw_trucks ?w)) = Inr (sw_trucks ?w)"
    by (rule res_map_back, rule records_back) (use ok in \<open>simp_all add: snapshot_values_ok_def\<close>)
  moreover have "counters_from_raw kvs = Inr (sw_counters ?w)"
    by (rule records_back(5)) (simp add: kvs require_mapping_def)
  ultimately show ?thesis
    using assms(1)
    by (simp add: snapshot_from_raw_def raw_from_snapshot_def require_mapping_def get_field_def structured_def
        sum_bind_def world_dict_of_def world_json_def sections_of_def kvs require_items_def world_from_sections_def)
qed

section \<open>What is read has the types of a snapshot\<close>

text \<open>Every float of a file is a double.\<close>

fun json_ok :: "json \<Rightarrow> bool" where
  "json_ok (JFloat f) = pyval_ok (PyFloat f)"
| "json_ok (JList xs) = list_all json_ok xs"
| "json_ok (JObj kvs) = list_all (\<lambda>kv. json_ok (snd kv)) kvs"
| "json_ok _ = True"

lemma json_ok_get: "json_ok (JObj raw) \<Longrightarrow> json_ok (get_json raw k)"
  by (force simp: get_json_def list_all_iff split: option.split dest: map_of_SomeD)

lemma json_ok_items: "json_ok v \<Longrightarrow> require_items v = Inr xs \<Longrightarrow> list_all json_ok xs"
  by (cases v) (simp_all add: require_items_def)

lemma json_ok_mapping: "json_ok v \<Longrightarrow> require_mapping v = Inr raw \<Longrightarrow> json_ok (JObj raw)"
  by (cases v) (simp_all add: require_mapping_def)

lemma json_ok_scalar: "json_ok v \<Longrightarrow> pyval_ok (py_of_json v)"
  by (cases v) (simp_all add: pyval_ok_def)

lemma located: "require_location v = Inr c \<Longrightarrow> is_location_code c"
  by (auto simp: require_location_def res_bind_Inr_iff is_location_code_def intro: location_code_idem)

lemma weighed:
  assumes "pyval_ok v" and "require_positive_finite_float v = Inr w"
  shows "pyval_ok (PyFloat (FFin w))"
proof -
  have "domain_require_positive_finite_float v = Inr w"
    using assms(2) by (simp add: domain_require_positive_finite_float_def as_domain_error_def)
  from domain_require_positive_finite_float_ok [OF this assms(1)] show ?thesis by (simp add: pyval_ok_def)
qed

lemma package_read:
  assumes "package_from_raw v = Inr p" and "json_ok v"
  shows "is_location_code (sp_start p)" "is_location_code (sp_end p)" "pyval_ok (PyFloat (FFin (sp_weight p)))"
proof -
  obtain raw where raw: "require_mapping v = Inr raw" using assms(1) by (auto simp: package_from_raw_def res_bind_Inr_iff)
  have "pyval_ok (py_of_json (get_json raw ''weight''))"
    by (rule json_ok_scalar [OF json_ok_get [OF json_ok_mapping [OF assms(2) raw]]])
  moreover have "require_positive_finite_float (py_of_json (get_json raw ''weight'')) = Inr (sp_weight p)"
    using assms(1) by (auto simp: package_from_raw_def res_bind_Inr_iff raw get_field_def)
  ultimately show "pyval_ok (PyFloat (FFin (sp_weight p)))" by (rule weighed)
  show "is_location_code (sp_start p)" "is_location_code (sp_end p)"
    using assms(1) by (auto simp: package_from_raw_def res_bind_Inr_iff raw get_field_def dest: located)
qed

lemma route_read: "route_from_raw v = Inr r \<Longrightarrow> list_all is_location_code (sr_locations r)"
  by (auto simp: route_from_raw_def res_bind_Inr_iff res_map_Inr_iff list_all_iff list_all2_conv_all_nth in_set_conv_nth
      dest!: located)

lemma res_map_source: "res_map f xs = Inr ys \<Longrightarrow> y \<in> set ys \<Longrightarrow> \<exists>x \<in> set xs. f x = Inr y"
  by (induction xs arbitrary: ys) (auto simp: res_bind_Inr_iff)

lemma structured_Inr: "structured r = Inr x \<longleftrightarrow> r = Inr x"
  by (cases r) (simp_all add: structured_def)

lemma case_sum_Inr:
  "(case r of Inl e \<Rightarrow> Inl (f e) | Inr x \<Rightarrow> Inr (g x)) = Inr y \<longleftrightarrow> (\<exists>x. r = Inr x \<and> g x = y)"
  by (cases r) simp_all

theorem read_typed:
  assumes run: "snapshot_from_raw v = Inr s" and ok: "json_ok v"
  shows "snapshot_typed (ws_world s)"
proof -
  obtain raw version w counters cs ps rs ts where raw: "require_mapping v = Inr raw"
    and w: "world_dict_of raw version = Inr w" and sections: "sections_of w = Inr (counters, cs, ps, rs, ts)"
    and world: "world_from_sections (counters, cs, ps, rs, ts) = Inr (ws_world s)"
    using run unfolding snapshot_from_raw_def sum_bind_Inr_iff structured_Inr res_bind_Inr_iff
    by (auto simp: sum_bind_Inr_iff structured_Inr case_sum_Inr split: if_splits)
  have jraw: "json_ok (JObj raw)" by (rule json_ok_mapping [OF ok raw])
  have jw: "json_ok (JObj w)"
    using w json_ok_get [OF jraw] json_ok_mapping [OF json_ok_get [OF jraw]]
    by (auto simp: world_dict_of_def sum_bind_Inr_iff structured_Inr split: if_splits)
  have "require_items (get_json w ''packages'') = Inr ps"
    using sections by (auto simp: sections_of_def res_bind_Inr_iff)
  then have jps: "list_all json_ok ps" by (rule json_ok_items [OF json_ok_get [OF jw]])
  have "res_map package_from_raw ps = Inr (sw_packages (ws_world s))"
    "res_map route_from_raw rs = Inr (sw_routes (ws_world s))"
    using world by (cases "ws_world s"; auto simp: world_from_sections_def res_bind_Inr_iff)+
  note items = res_map_source [OF this(1)] res_map_source [OF this(2)]
  have "is_location_code (sp_start p) \<and> is_location_code (sp_end p) \<and> pyval_ok (PyFloat (FFin (sp_weight p)))"
    if p: "p \<in> set (sw_packages (ws_world s))" for p
  proof -
    obtain x where x: "x \<in> set ps" "package_from_raw x = Inr p" using items(1) [OF p] by blast
    moreover have "json_ok x" using jps x(1) by (simp add: list_all_iff)
    ultimately show ?thesis using package_read by blast
  qed
  moreover have "list_all is_location_code (sr_locations r)" if "r \<in> set (sw_routes (ws_world s))" for r
    using items(2) [OF that] route_read by blast
  ultimately show ?thesis by (simp add: snapshot_typed_def)
qed

section \<open>A built snapshot can be written and read\<close>

definition places_typed :: "app \<Rightarrow> bool" where
  "places_typed a \<longleftrightarrow>
     (\<forall>t \<in> set (fleet a). pred_option is_location_code (truck_location (trucks (store a) t)) \<and>
        pred_option is_location_code (in_transit_to (trucks (store a) t)))"

lemma built_values:
  assumes ok: "app_ok a" and places: "places_typed a"
  shows "snapshot_values_ok (ws_world (build_snapshot a))"
proof -
  note w = app_okD(4) [OF ok] and live = live_list_all [OF ok]
  have codes: "is_location_code l" if "l \<in> set locations" for l
    using locations_are_codes [OF that] by (simp add: is_location_code_def)
  have "package_ok (packages (store a) p)" if "p \<in> live_packages a" for p
    using world_okD(2) [OF w that] by (simp add: package_links_ok_def)
  moreover have "list_all is_location_code (path (routes (store a) r))" if "r \<in> live_routes a" for r
    using route_linksD(1) [OF world_okD(1) [OF w that]] path_ok_code
    by (auto simp: route_ok_def list_all_iff is_location_code_def)
  ultimately show ?thesis
    using places codes live
    by (auto simp: snapshot_values_ok_def build_snapshot_def build_world_state_snapshot_def save_package_def save_route_def
        save_truck_def Let_def package_ok_def places_typed_def)
qed

theorem built_back:
  assumes "app_ok a" and "places_typed a"
  shows "snapshot_from_raw (raw_from_snapshot (build_snapshot a)) = Inr (build_snapshot a)"
  by (rule snapshot_back [OF _ built_values [OF assms]])
    (simp add: build_snapshot_def build_world_state_snapshot_def SCHEMA_VERSION_def)

end
