(* ===== verification/TruckLinks.thy ===== *)
theory TruckLinks
  imports Loading
begin

text \<open>
  The candidate trucks of a load: their construction from the fleet and the snapshot, and their links to
  the rebuilt routes.
\<close>

section \<open>Putting a candidate on a route\<close>

definition idle :: "truck \<Rightarrow> bool" where
  "idle x \<longleftrightarrow> truck_status x = FREE \<and> busy_from x = None \<and> busy_until x = None \<and> in_transit_to x = None"

lemma idle_links: "idle (trucks h t) \<Longrightarrow> truck_route (trucks h t) = None \<Longrightarrow> truck_location (trucks h t) \<noteq> None \<Longrightarrow>
    truck_links_ok R h t"
  by (simp add: truck_links_ok_def idle_def)

lemma world_add_truck:
  assumes w: "world_ok R P T h" and t: "truck_links_ok R h t"
  shows "world_ok R P (insert t T) h"
proof -
  note wD = world_okD [OF w]
  have "route_links_ok P (insert t T) h r" if "r \<in> R" for r
    by (rule route_links_frame [OF wD(1) [OF that]]) auto
  then show ?thesis using wD t by (auto simp: world_ok_def)
qed

text \<open>A candidate without a route is put on a route that its fleet truck suits.\<close>

definition can_haul :: "heap \<Rightarrow> rref \<Rightarrow> truck \<Rightarrow> bool" where
  "can_haul h r x \<longleftrightarrow>
     schedule (routes h r) \<noteq> None \<and> \<not> f64_gt_int (route_maximum_segment_load h r None) (capacity x) \<and>
     (\<exists>d. total_distance_km (routes h r) = Inr d \<and> d \<le> max_range x)"

lemma can_haul_frame: "can_haul h r x \<Longrightarrow> truck_frame x y \<Longrightarrow> can_haul h r y"
  by (simp add: can_haul_def truck_frame_def)

definition candidate_assigned :: "tref \<Rightarrow> rref \<Rightarrow> heap \<Rightarrow> heap" where
  "candidate_assigned t r h = upd_route r (\<lambda>x. x\<lparr>route_truck := Some t\<rparr>) (truck_assign t r h)"

lemma candidate_assigned_store [simp]:
  "routes (candidate_assigned t r h) q = (if q = r then (routes h r)\<lparr>route_truck := Some t\<rparr> else routes h q)"
  "packages (candidate_assigned t r h) = packages h" "customers (candidate_assigned t r h) = customers h"
  "next_ref (candidate_assigned t r h) = next_ref h" "u \<noteq> t \<Longrightarrow> trucks (candidate_assigned t r h) u = trucks h u"
  "truck_location (trucks (candidate_assigned t r h) u) = truck_location (trucks h u)"
  "truck_frame x (trucks (candidate_assigned t r h) u) = truck_frame x (trucks h u)"
  by (simp_all add: candidate_assigned_def truck_assign_def truck_frame_def)

lemma can_haul_assigned [simp]: "can_haul (candidate_assigned t r h) q x = can_haul h q x"
proof -
  have "route_maximum_segment_load (candidate_assigned t r h) q None = route_maximum_segment_load h q None"
    by (rule load_cong) simp_all
  moreover have "schedule (routes (candidate_assigned t r h) q) = schedule (routes h q)" by simp
  moreover have "total_distance_km (routes (candidate_assigned t r h) q) = total_distance_km (routes h q)"
    by (cases "q = r"; cases "schedule (routes h q)") (simp_all add: total_distance_km_def)
  ultimately show ?thesis unfolding can_haul_def by (simp only:)
qed

lemma candidate_assigned_world:
  assumes w: "world_ok R P T h" and r: "r \<in> R" and free: "truck_route (trucks h t) = None"
    and loc: "truck_location (trucks h t) \<noteq> None" and none: "route_truck (routes h r) = None"
    and suits: "can_haul h r (trucks h t)"
  shows "world_ok R P (insert t T) (candidate_assigned t r h)"
proof -
  let ?h = "upd_truck t (\<lambda>x. x\<lparr>truck_status := FREE, busy_from := None, busy_until := None, in_transit_to := None\<rparr>) h"
  note wD = world_okD [OF w]
  have t: "truck_links_ok R ?h t" using free loc by (simp add: truck_links_ok_def)
  have "world_ok R P T ?h"
  proof (rule world_okI [OF w])
    fix q assume q: "q \<in> R"
    show "route_links_ok P T ?h q"
      by (rule route_links_frame [OF wD(1) [OF q]]) (auto simp: truck_frame_def)
  next
    fix p assume "p \<in> P"
    then show "package_links_ok R ?h p" by (intro package_links_frame [OF wD(2)]) auto
  next
    fix u assume u: "u \<in> T"
    show "truck_links_ok R ?h u"
    proof (cases "u = t")
      case True
      then show ?thesis using t by simp
    next
      case False
      then show ?thesis by (intro truck_links_frame [OF wD(3) [OF u]]) auto
    qed
  qed simp_all
  then have w': "world_ok R P (insert t T) ?h" by (rule world_add_truck [OF _ t])
  have "route_maximum_segment_load ?h r None = route_maximum_segment_load h r None"
    by (rule load_cong) simp_all
  then have "world_ok R P (insert t T) (truck_linked r t undefined ?h)"
    using suits free none by (intro truck_linked_world [OF w' r]) (simp_all add: can_haul_def)
  then have "world_ok R P (insert t T) (upd_truck t (\<lambda>x. x\<lparr>truck_route := Some r, truck_status := ON_THE_WAY,
            busy_from := departure_time (routes ?h r), busy_until := eta_final (routes ?h r),
            in_transit_to := None\<rparr>) (upd_route r (\<lambda>x. x\<lparr>route_truck := Some t\<rparr>) ?h))"
    unfolding truck_linked_def by (rule world_events)
  moreover have "upd_truck t (\<lambda>x. x\<lparr>truck_route := Some r, truck_status := ON_THE_WAY,
            busy_from := departure_time (routes ?h r), busy_until := eta_final (routes ?h r),
            in_transit_to := None\<rparr>) (upd_route r (\<lambda>x. x\<lparr>route_truck := Some t\<rparr>) ?h) = candidate_assigned t r h"
    by (rule heap_eqI) (auto simp: candidate_assigned_def truck_assign_def fun_eq_iff)
  ultimately show ?thesis by simp
qed

section \<open>Candidates\<close>

lemma ran_below: "ran m \<subseteq> {..<n :: nat} \<Longrightarrow> m i = Some t \<Longrightarrow> t < n"
  by (auto dest: ranI)

lemma building_new_truck:
  assumes b: "building n h0 C P R T h"
    and h': "trucks h' = (trucks h)(next_ref h := x)" "routes h' = routes h" "packages h' = packages h"
      "customers h' = customers h" "next_ref h' = Suc (next_ref h)"
  shows "building n h0 C P R T h'" "untouched n h0 h'"
proof -
  note bD = buildingD [OF b]
  have old: "t \<noteq> next_ref h" if "t \<in> T" for t using bD(8) [OF that] by simp
  have linked: "t \<noteq> next_ref h" if "r \<in> R" "route_truck (routes h r) = Some t" for r t
    using old world_truck_other(1) [OF bD(2) that] by blast
  have "world_ok R P T h'"
    unfolding world_ok_def
  proof (intro conjI ballI allI impI)
    fix r assume r: "r \<in> R"
    have "route_maximum_segment_load h' r None = route_maximum_segment_load h r None"
      by (rule load_cong) (simp_all add: h')
    then show "route_links_ok P T h' r"
      using world_okD(1) [OF bD(2) r] linked [OF r]
      unfolding route_links_ok_def truck_fits_def by (auto simp: h' split: option.splits)
  next
    fix p assume "p \<in> P"
    then show "package_links_ok R h' p" by (intro package_links_frame [OF world_okD(2) [OF bD(2)]]) (auto simp: h')
  next
    fix t assume t: "t \<in> T"
    then show "truck_links_ok R h' t"
      using old by (intro truck_links_frame [OF world_okD(3) [OF bD(2)]]) (auto simp: h')
  next
    show "inj_on (\<lambda>r. route_id (routes h' r)) R" "inj_on (\<lambda>p. package_id (packages h' p)) P"
      using world_okD(4,5) [OF bD(2)] by (simp_all add: h')
    fix m assume "m \<in> R \<or> m \<in> P"
    then show "m < next_ref h'" using bD(6,7) [of m] by (auto simp: h')
  qed
  moreover have "owners_ok C P h'" using bD(3) by (auto simp: owners_ok_def h')
  ultimately show "building n h0 C P R T h'"
    using b bD(4) by (auto simp: building_def untouched_def h')
  then show "untouched n h0 h'" by (rule buildingD)
qed

text \<open>A candidate stands for a truck of the fleet and copies what does not change about it.\<close>

definition candidate_ok :: "nat \<Rightarrow> heap \<Rightarrow> (int \<rightharpoonup> tref) \<Rightarrow> heap \<Rightarrow> int \<Rightarrow> candidate_link \<Rightarrow> bool" where
  "candidate_ok n h0 by_vid h i l \<longleftrightarrow>
     by_vid i = Some (real_truck l) \<and> n \<le> candidate_truck l \<and> candidate_truck l < next_ref h \<and>
     truck_frame (trucks h0 (real_truck l)) (trucks h (candidate_truck l))"

definition candidate_from ::
    "nat \<Rightarrow> heap \<Rightarrow> (int \<rightharpoonup> tref) \<Rightarrow> heap \<Rightarrow> saved_truck \<Rightarrow> int \<Rightarrow> candidate_link \<Rightarrow> bool" where
  "candidate_from n h0 by_vid h s i l \<longleftrightarrow>
     st_id s = i \<and> candidate_ok n h0 by_vid h i l \<and>
     (let x = trucks h (candidate_truck l)
      in truck_status x = st_status s \<and> truck_location x = st_location s \<and> truck_route x = None \<and>
         in_transit_to x = st_transit s \<and> dt_from_str (st_busy_from s) = Inr (busy_from x) \<and>
         dt_from_str (st_busy_until s) = Inr (busy_until x))"

lemma clone_truck_cases:
  assumes "clone_truck t h = (res, h')"
  obtains e where "res = Inl e" "h' = h"
  | x where "res = Inr (next_ref h)" "h' = h\<lparr>trucks := (trucks h)(next_ref h := x), next_ref := Suc (next_ref h)\<rparr>"
      "truck_frame (trucks h t) x"
proof (cases "truck_init (PyInt (vehicle_id (trucks h t))) (Inr (truck_name (trucks h t)))
    (PyInt (capacity (trucks h t))) (PyInt (max_range (trucks h t)))")
  case (Inl e)
  then show ?thesis using assms that(1) [of e] by (simp add: clone_truck_def Let_def act_bind_lift)
next
  case (Inr y)
  then have "truck_frame (trucks h t) y"
    by (auto simp: truck_init_def res_bind_Inr_iff truck_frame_def domain_require_positive_int_iff truck_model_from_value_def)
  then show ?thesis
    using assms that(2) [OF _ _ ] Inr
    by (auto simp: clone_truck_def Let_def act_bind_lift alloc_truck_def truck_frame_def)
qed

lemma build_candidate_run:
  assumes b: "building n h0 C P R T h" and run: "build_candidate by_vid s h = (res, h')"
    and fleet: "ran by_vid \<subseteq> {..<n}"
  shows "untouched n h0 h'"
    "res = Inr l \<Longrightarrow> candidate_truck l = next_ref h \<and> candidate_from n h0 by_vid h' s (st_id s) l \<and>
       (\<exists>x. h' = h\<lparr>trucks := (trucks h)(next_ref h := x), next_ref := Suc (next_ref h)\<rparr>)"
proof -
  note bD = buildingD [OF b]
  have "untouched n h0 h' \<and> (\<forall>l. res = Inr l \<longrightarrow> candidate_truck l = next_ref h \<and>
      candidate_from n h0 by_vid h' s (st_id s) l \<and>
      (\<exists>x. h' = h\<lparr>trucks := (trucks h)(next_ref h := x), next_ref := Suc (next_ref h)\<rparr>))"
  proof (cases "by_vid (st_id s)")
    case None
    then show ?thesis using run bD(1) by (auto simp: build_candidate_def act_bind_lift dict_get_def)
  next
    case (Some t)
    obtain r h1 where clone: "clone_truck t h = (r, h1)" by force
    have old: "trucks h t = trucks h0 t" using ran_below [OF fleet Some] bD(1) by (simp add: untouched_def)
    from clone show ?thesis
    proof (cases rule: clone_truck_cases)
      case (1 e)
      then show ?thesis using run bD(1) clone Some by (auto simp: build_candidate_def act_bind_lift dict_get_def act_bind_def)
    next
      case (2 x)
      let ?c = "next_ref h"
      have u: "untouched n h0 (upd_truck ?c f h1)" for f
        by (rule building_new_truck(2) [OF b, where x = "f x"]) (simp_all add: 2(2) upd_truck_def)
      show ?thesis
      proof (cases "dt_from_str (st_busy_from s)")
        case (Inl e)
        then show ?thesis
          using run clone Some 2(1) u by (auto simp: build_candidate_def act_bind_lift dict_get_def act_bind_def)
      next
        case since: (Inr since)
        show ?thesis
        proof (cases "dt_from_str (st_busy_until s)")
          case (Inl e)
          then show ?thesis
            using run clone Some 2(1) u bD(4) since
            by (auto simp: build_candidate_def act_bind_lift dict_get_def act_bind_def)
        next
          case (Inr ending)
          let ?y = "x\<lparr>truck_status := st_status s, truck_location := st_location s, busy_from := since,
              busy_until := ending, in_transit_to := st_transit s, truck_route := None\<rparr>"
          have res: "res = Inr \<lparr>real_truck = t, candidate_truck = ?c\<rparr>"
            and "h' = upd_truck ?c (\<lambda>x. x\<lparr>busy_until := ending, in_transit_to := st_transit s, truck_route := None\<rparr>)
              (upd_truck ?c (\<lambda>x. x\<lparr>busy_from := since\<rparr>)
                (upd_truck ?c (\<lambda>x. x\<lparr>truck_status := st_status s, truck_location := st_location s\<rparr>) h1))"
            using run clone Some 2(1) since Inr
            by (simp_all add: build_candidate_def act_bind_lift dict_get_def act_bind_def)
          then have h': "h' = h\<lparr>trucks := (trucks h)(?c := ?y), next_ref := Suc ?c\<rparr>"
            unfolding 2(2) by (simp add: upd_truck_def)
          have "untouched n h0 h'" by (rule building_new_truck(2) [OF b, where x = ?y]) (simp_all add: h')
          then show ?thesis
            using res h' Some 2(3) old bD(4) since Inr
            by (auto simp: candidate_from_def candidate_ok_def truck_frame_def Let_def)
        qed
      qed
    qed
  qed
  then show "untouched n h0 h'"
    "res = Inr l \<Longrightarrow> candidate_truck l = next_ref h \<and> candidate_from n h0 by_vid h' s (st_id s) l \<and>
       (\<exists>x. h' = h\<lparr>trucks := (trucks h)(next_ref h := x), next_ref := Suc (next_ref h)\<rparr>)" by auto
qed

lemma candidates_built:
  assumes run: "build_candidate_trucks by_vid ss h = (res, h')" and b: "building n h0 C P R {} h"
    and d: "distinct (map st_id ss)" and fleet: "ran by_vid \<subseteq> {..<n}"
  shows "untouched n h0 h' \<and>
    (\<forall>cs. res = Inr cs \<longrightarrow>
       (building n h0 C P R {} h' \<and> traced (candidate_from n h0 by_vid h') ss cs \<and>
        distinct (map (candidate_truck \<circ> snd) cs) \<and> routes h' = routes h \<and> packages h' = packages h \<and>
        customers h' = customers h) \<and> map fst cs = map st_id ss)"
proof -
  let ?I = "\<lambda>before cs h'. building n h0 C P R {} h' \<and> traced (candidate_from n h0 by_vid h') before cs \<and>
        distinct (map (candidate_truck \<circ> snd) cs) \<and> routes h' = routes h \<and> packages h' = packages h \<and>
        customers h' = customers h"
  have "untouched n h0 h' \<and> (\<forall>cs. res = Inr cs \<longrightarrow> ?I ([] @ ss) cs h' \<and> map fst cs = map st_id ([] @ ss))"
  proof (rule keyed_by_rule [where I = ?I, OF run [unfolded build_candidate_trucks_def]])
    show "building n h0 C P R {} h \<and> traced (candidate_from n h0 by_vid h) [] [] \<and>
        distinct (map (candidate_truck \<circ> snd) ([] :: candidate_link by_key)) \<and> routes h = routes h \<and>
        packages h = packages h \<and> customers h = customers h"
      using b by simp
    fix before s acc h1 r h2
    assume I: "?I before acc h1" and run: "build_candidate by_vid s h1 = (r, h2)"
    have step: "untouched n h0 h2"
      "r = Inr l \<Longrightarrow> candidate_truck l = next_ref h1 \<and> candidate_from n h0 by_vid h2 s (st_id s) l \<and>
         (\<exists>x. h2 = h1\<lparr>trucks := (trucks h1)(next_ref h1 := x), next_ref := Suc (next_ref h1)\<rparr>)" for l
      using build_candidate_run [OF conjunct1 [OF I] run fleet] by blast+
    show "untouched n h0 h2 \<and> (\<forall>x. r = Inr x \<longrightarrow> ?I (before @ [s]) (acc @ [(st_id s, x)]) h2)"
    proof (intro conjI allI impI)
      show "untouched n h0 h2" by (rule step(1))
      fix l assume r: "r = Inr l"
      have l: "candidate_truck l = next_ref h1" "candidate_from n h0 by_vid h2 s (st_id s) l"
        using step(2) [OF r] by auto
      obtain x where h2: "h2 = h1\<lparr>trucks := (trucks h1)(next_ref h1 := x), next_ref := Suc (next_ref h1)\<rparr>"
        using step(2) [OF r] by auto
      have old: "candidate_truck y < next_ref h1" if "(j, y) \<in> set acc" for j y
        using I that by (fastforce simp: traced_def candidate_from_def candidate_ok_def)
      show "building n h0 C P R {} h2"
        by (rule building_new_truck(1) [OF conjunct1 [OF I]]) (simp_all add: h2)
      show "traced (candidate_from n h0 by_vid h2) (before @ [s]) (acc @ [(st_id s, l)])"
      proof (rule traced_snoc)
        show "traced (candidate_from n h0 by_vid h1) before acc" using I by blast
        fix s' j y assume "(j, y) \<in> set acc" "candidate_from n h0 by_vid h1 s' j y"
        then show "candidate_from n h0 by_vid h2 s' j y"
          using old [of j y] by (auto simp: candidate_from_def candidate_ok_def h2)
      qed (rule l(2))
      have "next_ref h1 \<notin> set (map (candidate_truck \<circ> snd) acc)" using old by force
      then show "distinct (map (candidate_truck \<circ> snd) (acc @ [(st_id s, l)]))" using I l(1) by auto
      show "routes h2 = routes h" "packages h2 = packages h" "customers h2 = customers h" using I by (simp_all add: h2)
    qed
  qed (use d in \<open>auto dest: buildingD\<close>)
  then show ?thesis by simp
qed

section \<open>The links\<close>

text \<open>
  While the routes get their trucks: a candidate that is still to be put on a route has none, every other
  candidate is consistent.
\<close>

definition linking ::
    "nat \<Rightarrow> heap \<Rightarrow> cref set \<Rightarrow> pref set \<Rightarrow> rref set \<Rightarrow> tref set \<Rightarrow> (int \<rightharpoonup> tref) \<Rightarrow> int set \<Rightarrow>
       candidate_link by_key \<Rightarrow> heap \<Rightarrow> bool" where
  "linking n h0 C P R T by_vid todo cand h \<longleftrightarrow>
     building n h0 C P R T h \<and> distinct (map fst cand) \<and> distinct (map (candidate_truck \<circ> snd) cand) \<and>
     T \<subseteq> candidate_truck ` snd ` set cand \<and>
     (\<forall>(i, l) \<in> set cand. candidate_ok n h0 by_vid h i l \<and> truck_location (trucks h (candidate_truck l)) \<noteq> None \<and>
        (i \<in> todo \<longrightarrow> truck_route (trucks h (candidate_truck l)) = None) \<and> (i \<notin> todo \<longrightarrow> candidate_truck l \<in> T))"

lemma linkingD:
  assumes "linking n h0 C P R T by_vid todo cand h"
  shows "building n h0 C P R T h" "distinct (map fst cand)" "distinct (map (candidate_truck \<circ> snd) cand)"
    "T \<subseteq> candidate_truck ` snd ` set cand"
    "(i, l) \<in> set cand \<Longrightarrow> candidate_ok n h0 by_vid h i l"
    "(i, l) \<in> set cand \<Longrightarrow> truck_location (trucks h (candidate_truck l)) \<noteq> None"
    "(i, l) \<in> set cand \<Longrightarrow> i \<in> todo \<Longrightarrow> truck_route (trucks h (candidate_truck l)) = None"
    "(i, l) \<in> set cand \<Longrightarrow> i \<notin> todo \<Longrightarrow> candidate_truck l \<in> T"
  using assms unfolding linking_def by blast+

lemma linking_new:
  assumes k: "linking n h0 C P R T by_vid todo cand h" and i: "i \<in> todo" "i \<notin> fst ` set cand"
    and h': "h' = h\<lparr>trucks := (trucks h)(next_ref h := x), next_ref := Suc (next_ref h)\<rparr>"
    and x: "truck_route x = None" "truck_location x \<noteq> None" "by_vid i = Some t" "truck_frame (trucks h0 t) x"
  shows "linking n h0 C P R T by_vid todo (cand @ [(i, \<lparr>real_truck = t, candidate_truck = next_ref h\<rparr>)]) h'"
proof -
  note kD = linkingD [OF k]
  have old: "candidate_truck l \<noteq> next_ref h" if "(j, l) \<in> set cand" for j l
    using kD(5) [OF that] by (simp add: candidate_ok_def)
  have "building n h0 C P R T h'" by (rule building_new_truck(1) [OF kD(1)]) (simp_all add: h')
  moreover have "next_ref h \<notin> set (map (candidate_truck \<circ> snd) cand)" using old by force
  moreover have "candidate_ok n h0 by_vid h' j l \<and> truck_location (trucks h' (candidate_truck l)) \<noteq> None \<and>
      (j \<in> todo \<longrightarrow> truck_route (trucks h' (candidate_truck l)) = None) \<and> (j \<notin> todo \<longrightarrow> candidate_truck l \<in> T)"
    if "(j, l) \<in> set cand" for j l
    using old [OF that] kD(5-8) [OF that] by (auto simp: h' candidate_ok_def)
  moreover have "candidate_ok n h0 by_vid h' i \<lparr>real_truck = t, candidate_truck = next_ref h\<rparr>"
    using x buildingD(4) [OF kD(1)] by (simp add: candidate_ok_def h')
  moreover have "truck_location (trucks h' (next_ref h)) \<noteq> None" "truck_route (trucks h' (next_ref h)) = None"
    using x(1,2) by (simp_all add: h')
  moreover have "T \<subseteq> candidate_truck ` snd ` set (cand @ [(i, \<lparr>real_truck = t, candidate_truck = next_ref h\<rparr>)])"
    using kD(4) by auto
  moreover have "distinct (map fst (cand @ [(i, \<lparr>real_truck = t, candidate_truck = next_ref h\<rparr>)]))"
    using kD(2) i(2) by simp
  ultimately show ?thesis
    using kD(3) i(1) unfolding linking_def by (auto simp del: not_None_eq)
qed

lemma linking_step:
  assumes k: "linking n h0 C P R T by_vid todo cand h" and l: "(i, l) \<in> set cand" and i: "i \<in> todo" and r: "r \<in> R"
    and none: "route_truck (routes h r) = None" and suits: "can_haul h r (trucks h0 (real_truck l))"
  shows "linking n h0 C P R (insert (candidate_truck l) T) by_vid (todo - {i}) cand (candidate_assigned (candidate_truck l) r h)"
proof -
  let ?t = "candidate_truck l" and ?h = "candidate_assigned (candidate_truck l) r h"
  note kD = linkingD [OF k] and bD = buildingD [OF linkingD(1) [OF k]]
  have t: "n \<le> ?t" "?t < next_ref h" "truck_frame (trucks h0 (real_truck l)) (trucks h ?t)"
    using kD(5) [OF l] by (simp_all add: candidate_ok_def)
  have "world_ok R P (insert ?t T) ?h"
    by (rule candidate_assigned_world [OF bD(2) r kD(7) [OF l i] kD(6) [OF l] none can_haul_frame [OF suits t(3)]])
  moreover have "untouched n h0 ?h"
    using bD(1) t(1) bD(7) [OF r] by (simp add: candidate_assigned_def truck_assign_def)
  moreover have "owners_ok C P ?h" using bD(3) by (simp add: owners_ok_def)
  ultimately have b: "building n h0 C P R (insert ?t T) ?h"
    using kD(1) t by (auto simp: building_def)
  have same: "candidate_truck y = ?t \<longleftrightarrow> y = l \<and> j = i" if y: "(j, y) \<in> set cand" for j y
  proof
    assume "candidate_truck y = ?t"
    moreover have "inj_on (candidate_truck \<circ> snd) (set cand)" using kD(3) by (simp add: distinct_map)
    ultimately show "y = l \<and> j = i"
      using inj_onD [of "candidate_truck \<circ> snd" "set cand" "(j, y)" "(i, l)"] y l by simp
  qed simp
  have each: "candidate_ok n h0 by_vid ?h j y \<and> truck_location (trucks ?h (candidate_truck y)) \<noteq> None \<and>
      (j \<in> todo - {i} \<longrightarrow> truck_route (trucks ?h (candidate_truck y)) = None) \<and>
      (j \<notin> todo - {i} \<longrightarrow> candidate_truck y \<in> insert ?t T)" if y: "(j, y) \<in> set cand" for j y
  proof (intro conjI impI)
    show "candidate_ok n h0 by_vid ?h j y" using kD(5) [OF y] by (simp add: candidate_ok_def)
    show "truck_location (trucks ?h (candidate_truck y)) \<noteq> None" using kD(6) [OF y] by simp
    show "truck_route (trucks ?h (candidate_truck y)) = None" if "j \<in> todo - {i}"
      using that kD(7) [OF y] same [OF y] by simp
    show "candidate_truck y \<in> insert ?t T" if "j \<notin> todo - {i}"
      using that kD(8) [OF y] same [OF y] y l kD(2) by (auto dest: eq_key_imp_eq_value)
  qed
  have "insert ?t T \<subseteq> candidate_truck ` snd ` set cand" using kD(4) l by force
  then show ?thesis using b kD(2,3) each unfolding linking_def by blast
qed

definition route_ready :: "heap \<Rightarrow> rref set \<Rightarrow> rref by_key \<Rightarrow> (int \<rightharpoonup> tref) \<Rightarrow> heap \<Rightarrow> saved_route \<Rightarrow> rref \<Rightarrow> bool" where
  "route_ready h0 R rs by_vid h s r \<longleftrightarrow>
     r \<in> R \<and> map_of rs (sr_id s) = Some r \<and> route_id (routes h r) = sr_id s \<and> route_truck (routes h r) = None \<and>
     (\<forall>i. sr_truck s = Some i \<longrightarrow> (\<exists>t. by_vid i = Some t \<and> can_haul h r (trucks h0 t)))"

lemma idle_candidate_cases:
  assumes "idle_candidate by_vid i r h = (res, h')"
  obtains e where "res = Inl e" "h' = h"
  | t x where "by_vid i = Some t" "res = Inr \<lparr>real_truck = t, candidate_truck = next_ref h\<rparr>"
      "h' = h\<lparr>trucks := (trucks h)(next_ref h := x), next_ref := Suc (next_ref h)\<rparr>" "truck_frame (trucks h t) x"
      "truck_route x = None" "truck_location x \<noteq> None"
proof (cases "by_vid i")
  case None
  then show ?thesis using assms that(1) [of PyKeyError] by (simp add: idle_candidate_def act_bind_lift dict_get_def)
next
  case (Some t)
  obtain c h1 where clone: "clone_truck t h = (c, h1)" by force
  from clone show ?thesis
  proof (cases rule: clone_truck_cases)
    case (1 e)
    then show ?thesis using assms that(1) [of e] Some clone by (simp add: idle_candidate_def act_bind_lift dict_get_def act_bind_def)
  next
    case (2 x)
    let ?y = "x\<lparr>truck_status := FREE, truck_location := Some (path_start (path (routes h1 r))), busy_from := None,
        busy_until := None, in_transit_to := None, truck_route := None\<rparr>"
    have "res = Inr \<lparr>real_truck = t, candidate_truck = next_ref h\<rparr>" "h' = upd_truck (next_ref h) (\<lambda>_. ?y) h1"
      using assms Some clone 2(1,2) by (auto simp: idle_candidate_def act_bind_lift dict_get_def act_bind_def upd_truck_def)
    then show ?thesis
      using 2(3) by (intro that(2) [OF Some, of ?y]) (simp_all add: 2(2) upd_truck_def truck_frame_def)
  qed
qed

text \<open>Only the link of a route to its truck changes.\<close>

definition relinked :: "heap \<Rightarrow> heap \<Rightarrow> bool" where
  "relinked h h' \<longleftrightarrow>
     packages h' = packages h \<and> customers h' = customers h \<and>
     (\<forall>q. routes h' q = (routes h q)\<lparr>route_truck := route_truck (routes h' q)\<rparr>)"

lemma relinked_refl [simp]: "relinked h h"
  by (simp add: relinked_def)

lemma relinked_trans:
  assumes "relinked h h1" and "relinked h1 h2"
  shows "relinked h h2"
proof -
  have "routes h2 q = (routes h q)\<lparr>route_truck := route_truck (routes h2 q)\<rparr>" for q
  proof -
    have "routes h2 q = (routes h1 q)\<lparr>route_truck := route_truck (routes h2 q)\<rparr>" using assms(2) by (simp add: relinked_def)
    also have "\<dots> = ((routes h q)\<lparr>route_truck := route_truck (routes h1 q)\<rparr>)\<lparr>route_truck := route_truck (routes h2 q)\<rparr>"
      using assms(1) by (simp add: relinked_def)
    finally show ?thesis by simp
  qed
  then show ?thesis using assms by (simp add: relinked_def)
qed

lemma relinked_assigned: "relinked h (candidate_assigned t r h)"
  by (simp add: relinked_def)

lemma relinked_truck: "relinked h (h\<lparr>trucks := f, next_ref := m\<rparr>)"
  by (simp add: relinked_def)

lemma can_haul_relinked:
  assumes "relinked h h'"
  shows "can_haul h' r x = can_haul h r x"
proof -
  have r: "routes h' r = (routes h r)\<lparr>route_truck := route_truck (routes h' r)\<rparr>" and p: "packages h' = packages h"
    using assms by (simp_all add: relinked_def)
  have s: "schedule (routes h' r) = schedule (routes h r)" "path (routes h' r) = path (routes h r)"
    "route_packages (routes h' r) = route_packages (routes h r)"
    by (subst r, simp)+
  have "route_maximum_segment_load h' r None = route_maximum_segment_load h r None"
    by (rule load_cong) (simp_all add: s p)
  moreover have "total_distance_km (routes h' r) = total_distance_km (routes h r)"
    by (cases "schedule (routes h r)") (simp_all add: total_distance_km_def s)
  ultimately show ?thesis by (simp add: can_haul_def s(1))
qed

lemma route_ready_relinked:
  assumes "route_ready h0 R rs by_vid h s r" and re: "relinked h h'" and "route_truck (routes h' r) = None"
  shows "route_ready h0 R rs by_vid h' s r"
proof -
  have "routes h' r = (routes h r)\<lparr>route_truck := route_truck (routes h' r)\<rparr>" using re by (simp add: relinked_def)
  then have "route_id (routes h' r) = route_id (routes h r)" by (metis route.ext_inject route.surjective route.update_convs(3))
  then show ?thesis using assms by (simp add: route_ready_def can_haul_relinked [OF re])
qed

text \<open>What the loop over the routes leaves: every truck of a route is a candidate that the route is keyed to.\<close>

definition keyed_links :: "saved_route list \<Rightarrow> linked_trucks \<Rightarrow> bool" where
  "keyed_links ss links \<longleftrightarrow>
     (\<forall>s \<in> set ss. \<forall>i. sr_truck s = Some i \<longrightarrow>
        (\<exists>l. map_of (trucks_by_route_id links) (sr_id s) = Some l \<and> (i, l) \<in> set (candidate_trucks_by_id links)))"

lemma link_step:
  assumes k: "linking n h0 C P R T by_vid todo (candidate_trucks_by_id links) h" and i: "i \<in> todo"
    and ready: "route_ready h0 R rs by_vid h s r" "sr_truck s = Some i"
    and fleet: "ran by_vid \<subseteq> {..<n}"
    and got: "(case map_of (candidate_trucks_by_id links) i of Some l \<Rightarrow> act_return l | None \<Rightarrow> idle_candidate by_vid i r) h =
      (out, h1)"
  shows "untouched n h0 h1"
    "out = Inr l \<Longrightarrow>
       linking n h0 C P R (insert (candidate_truck l) T) by_vid (todo - {i}) (AList.update i l (candidate_trucks_by_id links))
         (candidate_assigned (candidate_truck l) r h1) \<and>
       set (candidate_trucks_by_id links) \<subseteq> set (AList.update i l (candidate_trucks_by_id links)) \<and>
       (i, l) \<in> set (AList.update i l (candidate_trucks_by_id links)) \<and> relinked h h1 \<and> routes h1 = routes h"
proof -
  let ?cand = "candidate_trucks_by_id links"
  note kD = linkingD [OF k]
  have r: "r \<in> R" "route_truck (routes h r) = None" using ready(1) by (simp_all add: route_ready_def)
  obtain t where t: "by_vid i = Some t" "can_haul h r (trucks h0 t)" using ready by (auto simp: route_ready_def)
  have "untouched n h0 h1 \<and> (\<forall>l. out = Inr l \<longrightarrow>
       linking n h0 C P R (insert (candidate_truck l) T) by_vid (todo - {i}) (AList.update i l ?cand)
         (candidate_assigned (candidate_truck l) r h1) \<and> set ?cand \<subseteq> set (AList.update i l ?cand) \<and>
       (i, l) \<in> set (AList.update i l ?cand) \<and> relinked h h1 \<and> routes h1 = routes h)"
  proof (cases "map_of ?cand i")
    case (Some l)
    have "(i, l) \<in> set ?cand" using Some by (rule map_of_SomeD)
    moreover from this have "real_truck l = t" using kD(5) t(1) by (auto simp: candidate_ok_def)
    ultimately show ?thesis
      using linking_step [OF k _ i r, of l] t(2) got Some buildingD(1) [OF kD(1)] by (auto simp: update_triv)
  next
    case None
    then have new: "i \<notin> fst ` set ?cand" by (simp add: map_of_eq_None_iff)
    from got None have "idle_candidate by_vid i r h = (out, h1)" by simp
    then show ?thesis
    proof (cases rule: idle_candidate_cases)
      case (1 e)
      then show ?thesis using buildingD(1) [OF kD(1)] by simp
    next
      case (2 t' x)
      let ?l = "\<lparr>real_truck = t', candidate_truck = next_ref h\<rparr>"
      have t': "t' = t" using 2(1) t(1) by simp
      have old: "trucks h t' = trucks h0 t'" using ran_below [OF fleet 2(1)] buildingD(1) [OF kD(1)] by (simp add: untouched_def)
      have re: "relinked h h1" by (simp add: 2(3) relinked_truck)
      have k1: "linking n h0 C P R T by_vid todo (?cand @ [(i, ?l)]) h1"
        by (rule linking_new [OF k i new 2(3) 2(5,6,1)]) (use 2(4) old in simp)
      have "linking n h0 C P R (insert (next_ref h) T) by_vid (todo - {i}) (?cand @ [(i, ?l)])
          (candidate_assigned (next_ref h) r h1)"
        using linking_step [OF k1 _ i r(1), of ?l] r(2) t(2) t' can_haul_relinked [OF re] by (simp add: 2(3))
      then show ?thesis
        using 2(2) buildingD(1) [OF linkingD(1) [OF k1]] re by (simp add: update_new [OF new] 2(3) subset_insertI)
    qed
  qed
  then show "untouched n h0 h1"
    "out = Inr l \<Longrightarrow>
       linking n h0 C P R (insert (candidate_truck l) T) by_vid (todo - {i}) (AList.update i l (candidate_trucks_by_id links))
         (candidate_assigned (candidate_truck l) r h1) \<and>
       set (candidate_trucks_by_id links) \<subseteq> set (AList.update i l (candidate_trucks_by_id links)) \<and>
       (i, l) \<in> set (AList.update i l (candidate_trucks_by_id links)) \<and> relinked h h1 \<and> routes h1 = routes h"
    by auto
qed

lemma trucks_linked:
  assumes "link_candidate_trucks by_vid rs ss links h = (res, h')"
    and "linking n h0 C P R T by_vid (set (List.map_filter sr_truck ss)) (candidate_trucks_by_id links) h"
    and "distinct (List.map_filter sr_truck ss)" and "distinct (map sr_id ss)"
    and "\<forall>s \<in> set ss. \<exists>r. route_ready h0 R rs by_vid h s r"
    and fleet: "ran by_vid \<subseteq> {..<n}"
  shows "untouched n h0 h' \<and>
    (\<forall>links'. res = Inr links' \<longrightarrow> (\<exists>T'. linking n h0 C P R T' by_vid {} (candidate_trucks_by_id links') h') \<and>
       set (candidate_trucks_by_id links) \<subseteq> set (candidate_trucks_by_id links') \<and> relinked h h' \<and>
       keyed_links ss links' \<and>
       (\<forall>k. k \<notin> sr_id ` set ss \<longrightarrow> map_of (trucks_by_route_id links') k = map_of (trucks_by_route_id links) k))"
  using assms(1-5)
proof (induction ss arbitrary: links h T)
  case Nil
  then show ?case using buildingD(1) [OF linkingD(1) [OF Nil.prems(2)]]
    by (auto simp: map_filter_simps keyed_links_def)
next
  case (Cons s ss)
  have d: "sr_id s \<notin> sr_id ` set ss" "distinct (map sr_id ss)" using Cons.prems(4) by auto
  show ?case
  proof (cases "sr_truck s")
    case None
    have "link_candidate_trucks by_vid rs ss links h = (res, h')" using Cons.prems(1) None by simp
    from Cons.IH [OF this _ _ d(2)] show ?thesis
      using Cons.prems(2,3,5) None by (simp add: map_filter_simps keyed_links_def)
  next
    case (Some i)
    obtain r where ready: "route_ready h0 R rs by_vid h s r" using Cons.prems(5) by auto
    have todo: "set (List.map_filter sr_truck (s # ss)) = insert i (set (List.map_filter sr_truck ss))"
      "i \<notin> set (List.map_filter sr_truck ss)" "distinct (List.map_filter sr_truck ss)"
      using Cons.prems(3) Some by (simp_all add: map_filter_simps)
    have k: "linking n h0 C P R T by_vid (insert i (set (List.map_filter sr_truck ss))) (candidate_trucks_by_id links) h"
      using Cons.prems(2) unfolding todo(1) .
    obtain out h1 where got:
      "(case map_of (candidate_trucks_by_id links) i of Some l \<Rightarrow> act_return l | None \<Rightarrow> idle_candidate by_vid i r) h = (out, h1)"
      by force
    note step = link_step [OF k insertI1 ready Some fleet got]
    have lookup: "map_of rs (sr_id s) = Some r" using ready by (simp add: route_ready_def)
    show ?thesis
    proof (cases out)
      case (Inl e)
      then have "res = Inl e" "h' = h1"
        using Cons.prems(1) got Some lookup by (auto simp: act_bind_lift act_bind_def split: option.splits)
      then show ?thesis using step(1) by simp
    next
      case (Inr l)
      let ?links = "\<lparr>trucks_by_route_id = AList.update (sr_id s) l (trucks_by_route_id links),
          candidate_trucks_by_id = AList.update i l (candidate_trucks_by_id links)\<rparr>"
      let ?h = "candidate_assigned (candidate_truck l) r h1"
      have "insert i (set (List.map_filter sr_truck ss)) - {i} = set (List.map_filter sr_truck ss)" using todo(2) by auto
      with step(2) [OF Inr] have st:
        "linking n h0 C P R (insert (candidate_truck l) T) by_vid (set (List.map_filter sr_truck ss)) (candidate_trucks_by_id ?links) ?h"
        "set (candidate_trucks_by_id links) \<subseteq> set (candidate_trucks_by_id ?links)" "(i, l) \<in> set (candidate_trucks_by_id ?links)"
        "relinked h h1" "routes h1 = routes h"
        by simp_all
      have re: "relinked h ?h" by (rule relinked_trans [OF st(4) relinked_assigned])
      have run: "link_candidate_trucks by_vid rs ss ?links ?h = (res, h')"
        using Cons.prems(1) got Some lookup Inr
        by (simp add: act_bind_lift act_bind_def candidate_assigned_def split: option.splits)
      have rest: "\<forall>s' \<in> set ss. \<exists>q. route_ready h0 R rs by_vid ?h s' q"
      proof
        fix s' assume s': "s' \<in> set ss"
        then obtain q where q: "route_ready h0 R rs by_vid h s' q" using Cons.prems(5) by auto
        have "q \<noteq> r" using q ready d(1) s' by (auto simp: route_ready_def)
        then have "route_truck (routes ?h q) = None" using q st(5) by (simp add: route_ready_def)
        then show "\<exists>q. route_ready h0 R rs by_vid ?h s' q" using route_ready_relinked [OF q re] by blast
      qed
      from Cons.IH [OF run st(1) todo(3) d(2) rest] show ?thesis
        using st(2,3) relinked_trans [OF re] d(1) Some by (auto simp: keyed_links_def update_conv' subset_iff)
    qed
  qed
qed

end
