(* ===== verification/LoadedWorld.thy ===== *)
theory LoadedWorld
  imports TruckLinks Lifecycle
begin

text \<open>
  The prepared world and its swap for the running one: what \<open>apply_snapshot\<close> leaves when it accepts a
  snapshot, and that it leaves everything as it was when it refuses one.
\<close>

section \<open>The checks of the validator carry over to the rebuilt objects\<close>

lemma index_dict_zip:
  assumes "distinct xs"
  shows "map_of (zip xs [0..<length xs]) = index_dict xs"
proof
  fix k
  have "map_of (zip xs [0..<length xs]) k = Some v \<longleftrightarrow> index_dict xs k = Some v" for v
    using assms by (simp add: index_dict_def py_dict_distinct)
  then show "map_of (zip xs [0..<length xs]) k = index_dict xs k"
    by (metis option.exhaust)
qed

text \<open>What a world needs beyond the checks of the validator: departures and places are filled in.\<close>

definition snapshot_complete :: "saved_world \<Rightarrow> bool" where
  "snapshot_complete w \<longleftrightarrow>
     (\<forall>r \<in> set (sw_routes w). sr_departure r \<noteq> Some []) \<and> (\<forall>t \<in> set (sw_trucks w). st_location t \<noteq> None)"

lemma scheduled_from:
  assumes "route_from h s i r" and "sr_departure s \<noteq> None" and "sr_departure s \<noteq> Some []"
  shows "schedule (routes h r) \<noteq> None"
proof -
  obtain d where d: "sr_departure s = Some d" "d \<noteq> []" using assms(2,3) by auto
  have "dt_from_str (sr_departure s) \<noteq> Inr None"
    using d by (auto simp: dt_from_str_def res_bind_Inr_iff)
  then show ?thesis using assms(1) by (auto simp: route_from_def departure_time_def)
qed

text \<open>The load that the validator adds up is the load of the rebuilt route.\<close>

lemma res_map_Inr: "res_map f xs = Inr ys \<Longrightarrow> list_all2 (\<lambda>x y. f x = Inr y) xs ys"
  by (induction xs arbitrary: ys) (auto simp: res_bind_Inr_iff)

lemma saved_load_exact:
  assumes rb: "rebuilt_from n h0 w rb h1" and ids: "identities_wf w" and rf: "route_from h s (sr_id s) r"
    and same: "package_from (rb_customers rb) h = package_from (rb_customers rb) h1"
    and pok: "path_ok (path (routes h r))"
    and cargo: "route_packages (routes h r) = map (\<lambda>i. the (map_of (rb_packages rb) i)) (sr_packages s)"
    and load: "route_max_segment_load s (saved_package_by_id w) = Inr load"
  shows "route_maximum_segment_load h r None = load"
proof -
  have p: "path (routes h r) = sr_locations s" using rf by (simp add: route_from_def)
  obtain sps where sps: "res_map (dict_get (saved_package_by_id w)) (sr_packages s) = Inr sps"
    and load: "load = py_max (fold (add_package_load (map_of (zip (sr_locations s) [0..<length (sr_locations s)])))
         (map saved_load sps) (replicate (length (sr_locations s) - 1) 0))"
    using load by (auto simp: route_max_segment_load_def res_bind_Inr_iff)
  have each: "package_load_of (packages h (the (map_of (rb_packages rb) i))) = saved_load x"
    if "dict_get (saved_package_by_id w) i = Inr x" for i x
  proof -
    have d: "distinct (map sp_id (sw_packages w))" using ids by (simp add: identities_wf_def ids_wf_def)
    have x: "x \<in> set (sw_packages w)" "sp_id x = i"
      using that py_dict_keyed [OF d, of "\<lambda>p. p" i x] by (auto simp: saved_package_by_id_def)
    obtain q where q: "map_of (rb_packages rb) i = Some q" "package_from (rb_customers rb) h1 x i q"
      using rebuilt_lookup(2) [OF rb ids x(1)] x(2) by blast
    have "package_from (rb_customers rb) h x i q" using q(2) same by simp
    then show ?thesis using q(1) by (simp add: package_from_def package_load_of_def saved_load_def)
  qed
  have "map (\<lambda>p. package_load_of (packages h p)) (route_packages (routes h r)) = map saved_load sps"
    using res_map_Inr [OF sps] unfolding cargo
    by (induction rule: list_all2_induct) (simp_all add: each)
  then show ?thesis
    using pok p by (simp add: load route_maximum_segment_load_def maximum_segment_load_def index_dict_zip path_ok_def)
qed

lemma distance_exact:
  assumes rok: "route_ok (routes h r)" and sch: "schedule (routes h r) \<noteq> None"
    and d: "route_distance_km (path (routes h r)) = Inr d"
  shows "total_distance_km (routes h r) = Inr d"
proof -
  obtain s where s: "schedule (routes h r) = Some s" using sch by auto
  from build_schedule_distance [OF route_okD(7) [OF rok s]] d show ?thesis
    by (simp add: route_distance_km_def total_distance_km_def s)
qed

section \<open>The linked world\<close>

lemma world_add_trucks:
  assumes w: "world_ok R P T h" and t: "\<forall>t \<in> T'. truck_links_ok R h t"
  shows "world_ok R P (T \<union> T') h"
proof -
  note wD = world_okD [OF w]
  have "route_links_ok P (T \<union> T') h r" if "r \<in> R" for r
    by (rule route_links_frame [OF wD(1) [OF that]]) auto
  then show ?thesis using wD t by (auto simp: world_ok_def)
qed

definition linked_ok :: "nat \<Rightarrow> heap \<Rightarrow> tref list \<Rightarrow> world_snapshot \<Rightarrow> rebuilt_world \<Rightarrow> linked_trucks \<Rightarrow> heap \<Rightarrow> bool" where
  "linked_ok n h0 ts s rb links h \<longleftrightarrow>
     (\<exists>T. linking n h0 (snd ` set (rb_customers rb)) (snd ` set (rb_packages rb)) (snd ` set (rb_routes rb)) T
        (fleet_by_id h0 ts) {} (candidate_trucks_by_id links) h) \<and>
     traced (customer_from h) (sw_customers (ws_world s)) (rb_customers rb) \<and>
     traced (package_from (rb_customers rb) h) (sw_packages (ws_world s)) (rb_packages rb) \<and>
     traced (route_from h) (sw_routes (ws_world s)) (rb_routes rb) \<and>
     keyed_links (sw_routes (ws_world s)) links \<and>
     (ws_version s = 2 \<longrightarrow> (\<lambda>t. vehicle_id (trucks h0 t)) ` set ts \<subseteq> fst ` set (candidate_trucks_by_id links))"

lemma fleet_untouched:
  assumes "untouched n h0 h" and "set ts \<subseteq> {..<n}"
  shows "fleet_by_id h ts = fleet_by_id h0 ts"
proof -
  have "trucks h t = trucks h0 t" if "t \<in> set ts" for t using assms that by (auto simp: untouched_def)
  then have "map (\<lambda>t. (vehicle_id (trucks h t), t)) ts = map (\<lambda>t. (vehicle_id (trucks h0 t), t)) ts" by simp
  then show ?thesis by (simp only: fleet_by_id_def)
qed

lemma ran_fleet: "ran (fleet_by_id h ts) \<subseteq> set ts"
  by (auto simp: fleet_by_id_def ran_def dest!: py_dict_Some_in)

lemma snapshot_wfD:
  assumes "snapshot_wf h ts supported s"
  shows "ws_version s \<in> set supported" "identities_wf (ws_world s)" "counters_wf (ws_world s)"
    "references_wf (ws_world s) ((\<lambda>t. vehicle_id (trucks h t)) ` set ts)" "links_wf (ws_world s)" "travels_wf (ws_world s)"
    "trucks_wf (ws_world s) (ws_version s) ((\<lambda>t. vehicle_id (trucks h t)) ` set ts)"
    "fits_wf (ws_world s) (map_option (trucks h) \<circ> fleet_by_id h ts)" "contacts_wf (ws_world s)"
    "ws_version s = 1 \<Longrightarrow> sw_trucks (ws_world s) = []"
  using assms by (simp_all add: snapshot_wf_def Let_def)

text \<open>The packages of the rebuilt world are linked to their routes.\<close>

definition cargo_linked :: "nat \<Rightarrow> heap \<Rightarrow> saved_world \<Rightarrow> rebuilt_world \<Rightarrow> heap \<Rightarrow> heap \<Rightarrow> bool" where
  "cargo_linked n h0 w rb h1 h \<longleftrightarrow>
     building n h0 (snd ` set (rb_customers rb)) (snd ` set (rb_packages rb)) (snd ` set (rb_routes rb)) {} h \<and>
     customer_from h = customer_from h1 \<and> package_from (rb_customers rb) h = package_from (rb_customers rb) h1 \<and>
     route_from h = route_from h1 \<and>
     (\<forall>s \<in> set (sw_routes w). \<forall>r. map_of (rb_routes rb) (sr_id s) = Some r \<longrightarrow> route_truck (routes h r) = None \<and>
        route_packages (routes h r) = map (\<lambda>i. the (map_of (rb_packages rb) i)) (sr_packages s))"

lemma packages_link_rebuilt:
  assumes rb: "rebuilt_from n h0 w rb h1" and ids: "identities_wf w" and refs: "references_wf w fs"
    and links: "links_wf w" and travels: "travels_wf w"
  shows "\<exists>h2. link_packages_to_routes (sw_routes w) rb h1 = (Inr (), h2) \<and> cargo_linked n h0 w rb h1 h2"
proof -
  let ?R = "snd ` set (rb_routes rb)" and ?P = "snd ` set (rb_packages rb)" and ?C = "snd ` set (rb_customers rb)"
  have b: "building n h0 ?C ?P ?R {} h1" using rb by (simp add: rebuilt_from_def)
  have d: "distinct (map sr_id (sw_routes w))" using ids by (simp add: identities_wf_def ids_wf_def)
  have "\<forall>s \<in> set (sw_routes w). \<exists>r \<in> ?R. map_of (rb_routes rb) (sr_id s) = Some r \<and> route_id (routes h1 r) = sr_id s \<and>
      linkable h1 ?P (map_of (rb_packages rb)) r (sr_packages s)"
    using rebuilt_linkable [OF rb ids refs links travels] by blast
  from all_packages_linked [OF buildingD(2) [OF b] this distinct_cargo [OF ids refs links subset_refl d] d]
  obtain h2 where h2: "link_packages_to_routes (sw_routes w) rb h1 = (Inr (), h2)" "world_ok ?R ?P {} h2"
    "confined ?R ?P {} h1 h2"
    "\<forall>s \<in> set (sw_routes w). \<forall>r. map_of (rb_routes rb) (sr_id s) = Some r \<longrightarrow> route_truck (routes h2 r) = None \<and>
       route_packages (routes h2 r) =
         route_packages (routes h1 r) @ map (\<lambda>i. the (map_of (rb_packages rb) i)) (sr_packages s)"
    by blast
  have "building n h0 ?C ?P ?R {} h2" by (rule building_confined [OF b h2(3) _ h2(2)]) simp
  moreover have "route_packages (routes h1 r) = []" if "map_of (rb_routes rb) i = Some r" for i r
    by (rule rebuilt_waiting(2) [OF rb]) (use that in \<open>force dest: map_of_SomeD\<close>)
  ultimately have "cargo_linked n h0 w rb h1 h2"
    using h2(4) by (simp add: cargo_linked_def confined_from [OF h2(3)])
  with h2(1) show ?thesis by blast
qed

lemma candidate_idle:
  assumes wf: "trucks_wf w v fs" and s: "s \<in> set (sw_trucks w)" and c: "candidate_from n h0 by_vid h s i l"
    and off: "i \<notin> set (List.map_filter sr_truck (sw_routes w))" and loc: "st_location s \<noteq> None"
  shows "truck_links_ok R h (candidate_truck l)"
proof -
  let ?x = "trucks h (candidate_truck l)"
  have i: "st_id s = i" using c by (simp add: candidate_from_def)
  have "st_route_id s \<noteq> Some j" for j
  proof
    assume "st_route_id s = Some j"
    then obtain r where "r \<in> set (sw_routes w)" "sr_truck r = Some i" using wf s i by (auto simp: trucks_wf_def)
    then show False using off by (force simp: map_filter_def)
  qed
  then have "truck_state_wf s \<and> st_route_id s = None" using wf s by (auto simp: trucks_wf_def truck_wf_def)
  then have st: "st_status s = FREE" "st_busy_from s = None" "st_busy_until s = None" "st_transit s = None"
    by (cases "st_status s"; simp add: truck_state_wf_def)+
  have "idle ?x" "truck_route ?x = None" "truck_location ?x \<noteq> None"
    using c st loc by (auto simp: candidate_from_def Let_def idle_def dt_from_str_def)
  then show ?thesis by (rule idle_links)
qed

lemma linking_start:
  assumes cs: "building n h0 C P R {} h" "traced (candidate_from n h0 by_vid h) (sw_trucks w) cs"
      "distinct (map (candidate_truck \<circ> snd) cs)" "map fst cs = map st_id (sw_trucks w)"
    and wf: "trucks_wf w v fs" and complete: "snapshot_complete w"
  shows "\<exists>T. linking n h0 C P R T by_vid (set (List.map_filter sr_truck (sw_routes w))) cs h"
proof -
  let ?todo = "set (List.map_filter sr_truck (sw_routes w))"
  let ?T = "{candidate_truck l |i l. (i, l) \<in> set cs \<and> i \<notin> ?todo}"
  have src: "\<exists>s \<in> set (sw_trucks w). candidate_from n h0 by_vid h s i l \<and> st_location s \<noteq> None" if "(i, l) \<in> set cs" for i l
    using tracedE [OF cs(2) that] complete unfolding snapshot_complete_def by metis
  have idle: "truck_links_ok R h t" if t: "t \<in> ?T" for t
  proof -
    obtain i l where l: "(i, l) \<in> set cs" "i \<notin> ?todo" "t = candidate_truck l" using t by blast
    obtain s where "s \<in> set (sw_trucks w)" "candidate_from n h0 by_vid h s i l" "st_location s \<noteq> None" using src [OF l(1)] by blast
    from candidate_idle [OF wf this(1,2) l(2) this(3)] show ?thesis by (simp add: l(3))
  qed
  have c: "candidate_ok n h0 by_vid h i l \<and> truck_location (trucks h (candidate_truck l)) \<noteq> None \<and>
      truck_route (trucks h (candidate_truck l)) = None" if "(i, l) \<in> set cs" for i l
    using src [OF that] by (auto simp: candidate_from_def Let_def)
  have "\<forall>t \<in> ?T. n \<le> t \<and> t < next_ref h"
  proof
    fix t assume "t \<in> ?T"
    then obtain i l where "(i, l) \<in> set cs" "t = candidate_truck l" by blast
    then show "n \<le> t \<and> t < next_ref h" using c by (simp add: candidate_ok_def)
  qed
  moreover have "world_ok R P ({} \<union> ?T) h"
    by (rule world_add_trucks [OF buildingD(2) [OF cs(1)]]) (use idle in blast)
  ultimately have "building n h0 C P R ?T h" using cs(1) by (auto simp: building_def)
  moreover have "distinct (map fst cs)" using wf by (simp add: cs(4) trucks_wf_def)
  moreover have "?T \<subseteq> candidate_truck ` snd ` set cs" by force
  moreover have "\<forall>(i, l) \<in> set cs. i \<notin> ?todo \<longrightarrow> candidate_truck l \<in> ?T" by blast
  ultimately have "linking n h0 C P R ?T by_vid ?todo cs h"
    using cs(3) c unfolding linking_def by blast
  then show ?thesis by blast
qed

lemma routes_ready:
  assumes rb: "rebuilt_from n h0 w rb h1" and ids: "identities_wf w" and cargo: "cargo_linked n h0 w rb h1 h2"
    and same: "routes h3 = routes h2" "packages h3 = packages h2"
    and fits: "fits_wf w (map_option (trucks h0) \<circ> by_vid)" and complete: "snapshot_complete w" and s: "s \<in> set (sw_routes w)"
  shows "\<exists>r. route_ready h0 (snd ` set (rb_routes rb)) (rb_routes rb) by_vid h3 s r"
proof -
  let ?R = "snd ` set (rb_routes rb)"
  note cD = cargo [unfolded cargo_linked_def]
  obtain r where r: "r \<in> ?R" "map_of (rb_routes rb) (sr_id s) = Some r" "route_from h1 s (sr_id s) r"
    using rebuilt_lookup(1) [OF rb ids s] by blast
  then have rf: "route_from h2 s (sr_id s) r" using cD by simp
  have linked: "route_truck (routes h2 r) = None"
    "route_packages (routes h2 r) = map (\<lambda>i. the (map_of (rb_packages rb) i)) (sr_packages s)"
    using cD s r(2) by auto
  have "world_ok ?R (snd ` set (rb_packages rb)) {} h2" using cD buildingD(2) by blast
  from route_linksD(1) [OF world_okD(1) [OF this r(1)]] have rok: "route_ok (routes h2 r)" .
  have "\<exists>t. by_vid i = Some t \<and> can_haul h2 r (trucks h0 t)" if i: "sr_truck s = Some i" for i
  proof -
    obtain t load d where f: "by_vid i = Some t" "route_max_segment_load s (saved_package_by_id w) = Inr load"
        "\<not> f64_gt_int load (capacity (trucks h0 t))" "route_distance_km (sr_locations s) = Inr d"
        "d \<le> max_range (trucks h0 t)" "sr_departure s \<noteq> None"
      using fits s i unfolding fits_wf_def by (auto 0 3)
    have "sr_departure s \<noteq> Some []" using complete s by (simp add: snapshot_complete_def)
    then have sch: "schedule (routes h2 r) \<noteq> None" using scheduled_from [OF rf f(6)] by blast
    have "package_from (rb_customers rb) h2 = package_from (rb_customers rb) h1" using cD by blast
    then have "route_maximum_segment_load h2 r None = load"
      by (rule saved_load_exact [OF rb ids rf _ route_okD(2) [OF rok] linked(2) f(2)])
    moreover have "total_distance_km (routes h2 r) = Inr d"
      using distance_exact [OF rok sch] f(4) rf by (simp add: route_from_def)
    ultimately show ?thesis using f(1,3,5) sch by (auto simp: can_haul_def)
  qed
  moreover have "can_haul h3 r x = can_haul h2 r x" for x
  proof -
    have "route_maximum_segment_load h3 r None = route_maximum_segment_load h2 r None"
      by (rule load_cong) (simp_all add: same)
    then show ?thesis by (simp add: can_haul_def same(1))
  qed
  ultimately show ?thesis using r(1,2) rf linked(1) by (auto simp: route_ready_def route_from_def same)
qed

text \<open>What the link stage leaves, or that it has touched nothing old.\<close>

theorem link_spec:
  assumes run: "link ts s rb h1 = (res, h')" and rb: "rebuilt_from n h0 (ws_world s) rb h1"
    and wf: "snapshot_wf h0 ts supported s" and complete: "snapshot_complete (ws_world s)" and ts: "set ts \<subseteq> {..<n}"
  shows "untouched n h0 h'" "res = Inr links \<Longrightarrow> linked_ok n h0 ts s rb links h'"
proof -
  let ?w = "ws_world s" and ?vid = "fleet_by_id h0 ts"
  let ?R = "snd ` set (rb_routes rb)" and ?P = "snd ` set (rb_packages rb)" and ?C = "snd ` set (rb_customers rb)"
  note wfD = snapshot_wfD [OF wf]
  have d: "distinct (map sr_id (sw_routes ?w))" "distinct (List.map_filter sr_truck (sw_routes ?w))"
      "distinct (map st_id (sw_trucks ?w))"
    using wfD(2,4,7) by (simp_all add: identities_wf_def ids_wf_def references_wf_def trucks_wf_def)
  obtain h2 where 2: "link_packages_to_routes (sw_routes ?w) rb h1 = (Inr (), h2)" and cargo: "cargo_linked n h0 ?w rb h1 h2"
    using packages_link_rebuilt [OF rb wfD(2,4,5,6)] by blast
  have b: "building n h0 ?C ?P ?R {} h2" using cargo by (simp add: cargo_linked_def)
  have vid: "fleet_by_id h2 ts = ?vid" by (rule fleet_untouched [OF buildingD(1) [OF b] ts])
  have below: "ran ?vid \<subseteq> {..<n}" using ran_fleet ts by (rule subset_trans)
  obtain rc h3 where 3: "build_candidate_trucks ?vid (sw_trucks ?w) h2 = (rc, h3)" by force
  note built = candidates_built [OF 3 b d(3) below]
  have "untouched n h0 h' \<and> (\<forall>links. res = Inr links \<longrightarrow> linked_ok n h0 ts s rb links h')"
  proof (cases rc)
    case (Inl e)
    then have "res = Inl (truck_link_error e)" "h' = h3"
      using run 2 3 vid by (auto simp: link_def restore_bind_def translating_def act_bind_def)
    then show ?thesis using built by simp
  next
    case (Inr cs)
    with built have cs: "building n h0 ?C ?P ?R {} h3" "traced (candidate_from n h0 ?vid h3) (sw_trucks ?w) cs"
      "distinct (map (candidate_truck \<circ> snd) cs)" "map fst cs = map st_id (sw_trucks ?w)"
      and same: "routes h3 = routes h2" "packages h3 = packages h2" "customers h3 = customers h2" by auto
    obtain T where k: "linking n h0 ?C ?P ?R T ?vid (set (List.map_filter sr_truck (sw_routes ?w))) cs h3"
      using linking_start [OF cs wfD(7) complete] by blast
    let ?start = "\<lparr>trucks_by_route_id = [], candidate_trucks_by_id = cs\<rparr>"
    obtain rl h4 where 4: "link_candidate_trucks ?vid (rb_routes rb) (sw_routes ?w) ?start h3 = (rl, h4)" by force
    have "\<forall>x \<in> set (sw_routes ?w). \<exists>r. route_ready h0 ?R (rb_routes rb) ?vid h3 x r"
      using routes_ready [OF rb wfD(2) cargo same(1,2) wfD(8) complete] by blast
    note linked = trucks_linked [OF 4 _ d(2,1) this below, of ?C ?P T, simplified linked_trucks.simps, OF k]
    have out: "h' = h4" "res = (case rl of Inl e \<Rightarrow> Inl (truck_link_error e) | Inr l \<Rightarrow> Inr l)"
      using run 2 3 4 vid Inr by (auto simp: link_def restore_bind_def translating_def act_bind_def split: sum.splits)
    show ?thesis
    proof (cases rl)
      case (Inl e)
      then show ?thesis using linked out by simp
    next
      case l: (Inr links)
      have k': "\<exists>T'. linking n h0 ?C ?P ?R T' ?vid {} (candidate_trucks_by_id links) h4"
        and more: "set cs \<subseteq> set (candidate_trucks_by_id links)" and re: "relinked h3 h4" and keyed: "keyed_links (sw_routes ?w) links"
        using linked l by auto
      have "customer_from h4 = customer_from h1" "package_from (rb_customers rb) h4 = package_from (rb_customers rb) h1"
        using re cargo same by (simp_all add: cargo_linked_def relinked_def customer_from_def [abs_def] package_from_def [abs_def])
      moreover have "route_from h4 = route_from h1"
      proof -
        have "route_from h4 = route_from h3"
        proof (intro ext)
          fix x i r
          have "routes h4 r = (routes h3 r)\<lparr>route_truck := route_truck (routes h4 r)\<rparr>" using re by (simp add: relinked_def)
          then have "route_id (routes h4 r) = route_id (routes h3 r) \<and> path (routes h4 r) = path (routes h3 r) \<and>
              schedule (routes h4 r) = schedule (routes h3 r)"
            by (metis route.ext_inject route.surjective route.update_convs(3))
          then show "route_from h4 x i r = route_from h3 x i r" by (simp add: route_from_def departure_time_def)
        qed
        also have "\<dots> = route_from h1" using cargo same(1) by (simp add: cargo_linked_def route_from_def [abs_def])
        finally show ?thesis .
      qed
      moreover have "(\<lambda>t. vehicle_id (trucks h0 t)) ` set ts \<subseteq> fst ` set (candidate_trucks_by_id links)" if "ws_version s = 2"
      proof -
        have "(\<lambda>t. vehicle_id (trucks h0 t)) ` set ts \<subseteq> st_id ` set (sw_trucks ?w)"
          using wfD(7) that by (simp add: trucks_wf_def)
        also have "\<dots> = fst ` set cs" using cs(4) by (metis list.set_map)
        finally show ?thesis using more by blast
      qed
      ultimately have "linked_ok n h0 ts s rb links h4"
        using k' keyed rb by (simp add: linked_ok_def rebuilt_from_def)
      then show ?thesis using linked out l by simp
    qed
  qed
  then show "untouched n h0 h'" "res = Inr links \<Longrightarrow> linked_ok n h0 ts s rb links h'" by auto
qed

section \<open>The prepared world\<close>

text \<open>After reconciliation every candidate is a consistent truck of the new world.\<close>

definition prepared_ok :: "nat \<Rightarrow> heap \<Rightarrow> tref list \<Rightarrow> world_snapshot \<Rightarrow> rebuilt_world \<Rightarrow> linked_trucks \<Rightarrow> heap \<Rightarrow> bool" where
  "prepared_ok n h0 ts s rb links h \<longleftrightarrow>
     (let cand = candidate_trucks_by_id links
      in building n h0 (snd ` set (rb_customers rb)) (snd ` set (rb_packages rb)) (snd ` set (rb_routes rb))
           (candidate_truck ` snd ` set cand) h \<and>
         distinct (map fst cand) \<and> distinct (map (candidate_truck \<circ> snd) cand) \<and>
         (\<forall>(i, l) \<in> set cand. candidate_ok n h0 (fleet_by_id h0 ts) h i l) \<and>
         traced (customer_from h) (sw_customers (ws_world s)) (rb_customers rb) \<and>
         traced (package_from (rb_customers rb) h) (sw_packages (ws_world s)) (rb_packages rb) \<and>
         traced (route_from h) (sw_routes (ws_world s)) (rb_routes rb) \<and>
         keyed_links (sw_routes (ws_world s)) links \<and>
         (ws_version s = 2 \<longrightarrow> (\<lambda>t. vehicle_id (trucks h0 t)) ` set ts \<subseteq> fst ` set cand))"

lemma heartbeat_confined:
  assumes "heartbeat_region rs h h'" and "set rs \<subseteq> R" and w: "world_ok R P T h"
  shows "confined R P T h h'"
proof -
  have "packages_of h rs \<subseteq> P" "trucks_of h rs \<subseteq> T"
    using route_linksD(3,5) [OF world_okD(1) [OF w]] assms(2)
    unfolding packages_of_def trucks_of_def by blast+
  then show ?thesis
    using assms(1,2) unfolding confined_def heartbeat_region_def reconciled_route_frame_def by blast
qed

lemma traced_distinct:
  assumes "traced Q ss acc" and "distinct (map fst acc)" and "\<And>s i x. Q s i x \<Longrightarrow> f x = i"
  shows "distinct (map snd acc)"
proof -
  have key: "f (snd e) = fst e" if e: "e \<in> set acc" for e
  proof -
    have "(fst e, snd e) \<in> set acc" using e by simp
    then obtain s where "Q s (fst e) (snd e)" by (rule tracedE [OF assms(1)])
    then show ?thesis by (rule assms(3))
  qed
  have "map fst acc = map f (map snd acc)" using key by simp
  then have "distinct (map f (map snd acc))" using assms(2) by (simp only:)
  then show ?thesis by (simp only: distinct_map)
qed

lemma reconciled_spec:
  assumes k: "linked_ok n h0 ts s rb links h" and keys: "map fst (rb_routes rb) = map sr_id (sw_routes (ws_world s))"
    and ids: "identities_wf (ws_world s)"
  shows "\<exists>out h'. reconcile_routes (map snd (rb_routes rb)) now True h = (Inr out, h') \<and> prepared_ok n h0 ts s rb links h'"
proof -
  let ?R = "snd ` set (rb_routes rb)" and ?P = "snd ` set (rb_packages rb)" and ?C = "snd ` set (rb_customers rb)"
  let ?cand = "candidate_trucks_by_id links"
  obtain T where l: "linking n h0 ?C ?P ?R T (fleet_by_id h0 ts) {} ?cand h" using k by (auto simp: linked_ok_def)
  note lD = linkingD [OF l]
  have T: "T = candidate_truck ` snd ` set ?cand" using lD(4,8) by auto
  note w = buildingD(2) [OF lD(1)]
  have tr: "traced (route_from h) (sw_routes (ws_world s)) (rb_routes rb)" using k by (simp add: linked_ok_def)
  have "distinct (map fst (rb_routes rb))" using ids by (simp add: keys identities_wf_def ids_wf_def)
  then have d: "distinct (map snd (rb_routes rb))"
    by (rule traced_distinct [OF tr, where f = "\<lambda>r. route_id (routes h r)"]) (simp add: route_from_def)
  have sub: "set (map snd (rb_routes rb)) \<subseteq> ?R" by auto
  obtain out h' where run: "reconcile_routes (map snd (rb_routes rb)) now True h = (Inr out, h')" and w': "world_ok ?R ?P T h'"
    using yieldsD [OF reconcile_routes_world [OF w sub, of now True]] by auto
  have "\<forall>r \<in> set (map snd (rb_routes rb)). route_ok (routes h r)"
    using route_linksD(1) [OF world_okD(1) [OF w]] sub by blast
  from reconcile_loop_region [OF this d run [unfolded reconcile_routes_def]]
  have conf: "confined ?R ?P T h h'" by (rule heartbeat_confined [OF _ sub w])
  note cD = confinedD [OF conf]
  have "\<forall>t \<in> T. n \<le> t" using buildingD(8) [OF lD(1)] by blast
  then have "building n h0 ?C ?P ?R T h'" by (rule building_confined [OF lD(1) conf _ w'])
  moreover have "candidate_ok n h0 (fleet_by_id h0 ts) h' i y" if "(i, y) \<in> set ?cand" for i y
    using lD(5) [OF that] cD(12) truck_frame_trans unfolding candidate_ok_def cD(1) by blast
  ultimately have "prepared_ok n h0 ts s rb links h'"
    using k lD(2,3) unfolding prepared_ok_def linked_ok_def Let_def confined_from [OF conf] T by blast
  with run show ?thesis by blast
qed

section \<open>Bindings\<close>

definition candidate_binding :: "heap \<Rightarrow> candidate_link \<Rightarrow> truck_binding" where
  "candidate_binding h l = binding_of h l (truck_route (trucks h (candidate_truck l)))"

lemma bind_routes_same:
  assumes w: "world_ok R P T h" and rs: "\<forall>s \<in> set ss. \<exists>r. map_of rs (sr_id s) = Some r \<and> r \<in> R"
    and d: "distinct (map fst cand)"
    and keyed: "\<forall>s \<in> set ss. \<forall>i. sr_truck s = Some i \<longrightarrow> (\<exists>l. map_of by_route (sr_id s) = Some l \<and> (i, l) \<in> set cand)"
  shows "bind_routes h ss rs by_route (map (\<lambda>(i, l). (i, candidate_binding h l)) cand) =
    Inr (map (\<lambda>(i, l). (i, candidate_binding h l)) cand)"
  using rs keyed
proof (induction ss)
  case (Cons s ss)
  let ?acc = "map (\<lambda>(i, l). (i, candidate_binding h l)) cand"
  show ?case
  proof (cases "sr_truck s")
    case None
    then show ?thesis using Cons by simp
  next
    case (Some i)
    obtain r where r: "map_of rs (sr_id s) = Some r" "r \<in> R" using Cons.prems(1) by auto
    obtain l where l: "map_of by_route (sr_id s) = Some l" "(i, l) \<in> set cand" using Cons.prems(2) Some by auto
    have "(i, candidate_binding h l) \<in> set ?acc" using l(2) by force
    moreover have "distinct (map fst ?acc)" using d by (simp add: case_prod_beta comp_def)
    ultimately have at: "map_of ?acc i = Some (candidate_binding h l)" by simp
    have same: "AList.update i (candidate_binding h l) ?acc = ?acc" by (rule update_triv [OF at])
    show ?thesis
    proof (cases "route_truck (routes h r) = Some (candidate_truck l)")
      case True
      then have "truck_route (trucks h (candidate_truck l)) = Some r" using world_truck_other(2) [OF w r(2)] by blast
      then have "binding_of h l (Some r) = candidate_binding h l" by (simp add: candidate_binding_def)
      then show ?thesis using Cons Some r(1) l(1) True same by (simp add: Let_def)
    next
      case False
      then show ?thesis using Cons Some r(1) l(1) at by (simp add: Let_def)
    qed
  qed
qed simp

lemma bindings_spec:
  assumes k: "prepared_ok n h0 ts s rb links h" and keys: "map fst (rb_routes rb) = map sr_id (sw_routes (ws_world s))"
    and ids: "identities_wf (ws_world s)"
  shows "\<exists>bs. build_truck_bindings h (sw_routes (ws_world s)) (rb_routes rb) links = Inr bs \<and>
    set bs = candidate_binding h ` snd ` set (candidate_trucks_by_id links) \<and>
    (distinct (map real_truck (map snd (candidate_trucks_by_id links))) \<longrightarrow> distinct (map bind_truck bs))"
proof -
  let ?cand = "candidate_trucks_by_id links" and ?acc = "map (\<lambda>(i, l). (i, candidate_binding h l)) (candidate_trucks_by_id links)"
  note kD = k [unfolded prepared_ok_def Let_def]
  have w: "world_ok (snd ` set (rb_routes rb)) (snd ` set (rb_packages rb)) (candidate_truck ` snd ` set ?cand) h"
    by (rule buildingD(2) [OF conjunct1 [OF kD]])
  have "\<forall>x \<in> set (sw_routes (ws_world s)). \<exists>r. map_of (rb_routes rb) (sr_id x) = Some r \<and> r \<in> snd ` set (rb_routes rb)"
  proof
    fix x assume "x \<in> set (sw_routes (ws_world s))"
    then have "sr_id x \<in> set (map fst (rb_routes rb))" by (simp add: keys)
    then obtain r where "map_of (rb_routes rb) (sr_id x) = Some r" by (metis map_of_eq_None_iff not_None_eq list.set_map)
    then show "\<exists>r. map_of (rb_routes rb) (sr_id x) = Some r \<and> r \<in> snd ` set (rb_routes rb)" by (force dest: map_of_SomeD)
  qed
  from bind_routes_same [OF w this] kD
  have "bind_routes h (sw_routes (ws_world s)) (rb_routes rb) (trucks_by_route_id links) ?acc = Inr ?acc"
    by (simp add: keyed_links_def)
  then have "build_truck_bindings h (sw_routes (ws_world s)) (rb_routes rb) links = Inr (map snd (sort_key fst ?acc))"
    by (simp add: build_truck_bindings_def candidate_binding_def)
  moreover have "set (map snd (sort_key fst ?acc)) = candidate_binding h ` snd ` set ?cand"
    by (simp only: set_map set_sort image_image case_prod_beta snd_conv)
  moreover have "distinct (map bind_truck (map snd (sort_key fst ?acc)))" if d: "distinct (map real_truck (map snd ?cand))"
  proof -
    have "map (bind_truck \<circ> snd) ?acc = map real_truck (map snd ?cand)"
      by (simp add: case_prod_beta candidate_binding_def binding_of_def Let_def)
    then have "distinct (map (bind_truck \<circ> snd) ?acc)" using d by (simp only:)
    then have "distinct (map (bind_truck \<circ> snd) (sort_key fst ?acc))"
      by (simp only: distinct_map distinct_sort set_sort)
    then show ?thesis by simp
  qed
  ultimately show ?thesis by blast
qed

end
