(* ===== verification/WorldSwap.thy ===== *)
theory WorldSwap
  imports LoadedWorld
begin

text \<open>
  The swap: the fleet is cleared, the prepared bindings are applied to it, and the repositories get the
  new objects.  An accepted snapshot leaves a consistent application, a refused one leaves everything.
\<close>

section \<open>Clearing the fleet\<close>

definition cleared :: "truck \<Rightarrow> truck" where
  "cleared x =
     x\<lparr>truck_route := None, truck_status := FREE, busy_from := None, busy_until := None, in_transit_to := None\<rparr>"

lemma cleared_idem [simp]: "cleared (cleared x) = cleared x"
  by (simp add: cleared_def)

lemma cleared_fleet:
  assumes "\<forall>t \<in> set ts. \<forall>r. truck_route (trucks h t) = Some r \<longrightarrow> route_truck (routes h r) = Some t \<and> r < n"
  shows "\<exists>h'. act_for clear_truck ts h = (Inr (), h') \<and> (\<forall>t \<in> set ts. trucks h' t = cleared (trucks h t)) \<and>
    (\<forall>t. t \<notin> set ts \<longrightarrow> trucks h' t = trucks h t) \<and> (\<forall>r. n \<le> r \<longrightarrow> routes h' r = routes h r) \<and>
    packages h' = packages h \<and> customers h' = customers h \<and> next_ref h' = next_ref h"
  using assms
proof (induction ts arbitrary: h)
  case Nil
  then show ?case by simp
next
  case (Cons t ts)
  obtain h1 where 1: "clear_truck t h = (Inr (), h1)" and trucks: "trucks h1 = (trucks h)(t := cleared (trucks h t))"
    and routes: "\<And>r. n \<le> r \<Longrightarrow> routes h1 r = routes h r"
      "\<And>r. truck_route (trucks h t) \<noteq> Some r \<Longrightarrow> routes h1 r = routes h r"
    and rest: "packages h1 = packages h" "customers h1 = customers h" "next_ref h1 = next_ref h"
  proof (cases "truck_route (trucks h t)")
    case None
    then show ?thesis
      by (intro that [of "upd_truck t cleared h"]) (auto simp: clear_truck_def act_bind_def cleared_def upd_truck_def)
  next
    case (Some r)
    then have r: "route_truck (routes h r) = Some t" "r < n" using Cons.prems by auto
    show ?thesis
      using Some r
      by (intro that [of "upd_truck t cleared (upd_route r (\<lambda>x. x\<lparr>route_truck := None\<rparr>) h)"])
        (auto simp: clear_truck_def act_bind_def cleared_def upd_truck_def)
  qed
  have "\<forall>u \<in> set ts. \<forall>r. truck_route (trucks h1 u) = Some r \<longrightarrow> route_truck (routes h1 r) = Some u \<and> r < n"
  proof (intro ballI allI impI)
    fix u r assume u: "u \<in> set ts" and r: "truck_route (trucks h1 u) = Some r"
    have "u \<noteq> t" using r by (auto simp: trucks cleared_def)
    then have link: "truck_route (trucks h u) = Some r" using r by (simp add: trucks)
    then have old: "route_truck (routes h r) = Some u" "r < n" using Cons.prems u by auto
    have "truck_route (trucks h t) \<noteq> Some r" using old(1) Cons.prems \<open>u \<noteq> t\<close> by auto
    then show "route_truck (routes h1 r) = Some u \<and> r < n" using old routes(2) by simp
  qed
  from Cons.IH [OF this] obtain h' where h': "act_for clear_truck ts h1 = (Inr (), h')"
    "\<forall>u \<in> set ts. trucks h' u = cleared (trucks h1 u)" "\<forall>u. u \<notin> set ts \<longrightarrow> trucks h' u = trucks h1 u"
    "\<forall>r. n \<le> r \<longrightarrow> routes h' r = routes h1 r" "packages h' = packages h1" "customers h' = customers h1"
    "next_ref h' = next_ref h1"
    by blast
  have "act_for clear_truck (t # ts) h = (Inr (), h')" using 1 h'(1) by (simp add: act_bind_def)
  moreover have "trucks h' u = cleared (trucks h u)" if "u \<in> set (t # ts)" for u
    using that h'(2,3) by (cases "u \<in> set ts"; cases "u = t") (simp_all add: trucks)
  moreover have "trucks h' u = trucks h u" if "u \<notin> set (t # ts)" for u
    using that h'(3) by (simp add: trucks)
  ultimately show ?case using h'(4-7) routes(1) rest by auto
qed

section \<open>Applying the bindings\<close>

definition bound_truck :: "truck_binding \<Rightarrow> truck \<Rightarrow> truck" where
  "bound_truck b x =
     x\<lparr>truck_status := bind_status b, truck_location := bind_location b, busy_from := bind_from b,
       busy_until := bind_until b, in_transit_to := bind_transit b, truck_route := bind_route b\<rparr>"

lemma apply_binding_store:
  "trucks (apply_binding b h) t = (if t = bind_truck b then bound_truck b (trucks h t) else trucks h t)"
  "routes (apply_binding b h) r =
     (if bind_route b = Some r then (routes h r)\<lparr>route_truck := Some (bind_truck b)\<rparr> else routes h r)"
  "packages (apply_binding b h) = packages h" "customers (apply_binding b h) = customers h"
  "next_ref (apply_binding b h) = next_ref h"
  by (auto simp: apply_binding_def bound_truck_def Let_def split: option.split)

lemma unbound:
  "t \<notin> bind_truck ` set bs \<Longrightarrow> trucks (fold apply_binding bs h) t = trucks h t"
  "(\<And>b. b \<in> set bs \<Longrightarrow> bind_route b \<noteq> Some r) \<Longrightarrow> routes (fold apply_binding bs h) r = routes h r"
  "packages (fold apply_binding bs h) = packages h" "customers (fold apply_binding bs h) = customers h"
  "next_ref (fold apply_binding bs h) = next_ref h"
  by (induction bs arbitrary: h; simp add: apply_binding_store)+

lemma bindings_applied:
  assumes "distinct (map bind_truck bs)"
    and "\<And>b b' r. b \<in> set bs \<Longrightarrow> b' \<in> set bs \<Longrightarrow> bind_route b = Some r \<Longrightarrow> bind_route b' = Some r \<Longrightarrow>
      bind_truck b = bind_truck b'"
  shows "b \<in> set bs \<Longrightarrow> trucks (fold apply_binding bs h) (bind_truck b) = bound_truck b (trucks h (bind_truck b))"
    "b \<in> set bs \<Longrightarrow> bind_route b = Some r \<Longrightarrow>
      routes (fold apply_binding bs h) r = (routes h r)\<lparr>route_truck := Some (bind_truck b)\<rparr>"
proof -
  show "trucks (fold apply_binding bs h) (bind_truck b) = bound_truck b (trucks h (bind_truck b))" if "b \<in> set bs"
    using assms(1) that
  proof (induction bs arbitrary: h)
    case (Cons c bs)
    show ?case
    proof (cases "b = c")
      case True
      then show ?thesis using Cons.prems(1) by (simp add: apply_binding_store unbound(1))
    next
      case False
      then have b: "b \<in> set bs" using Cons.prems(2) by simp
      have "bind_truck b \<noteq> bind_truck c"
      proof
        assume "bind_truck b = bind_truck c"
        then have "bind_truck c \<in> bind_truck ` set bs" using imageI [OF b, of bind_truck] by simp
        then show False using Cons.prems(1) by simp
      qed
      with b show ?thesis using Cons.IH Cons.prems(1) by (simp add: apply_binding_store)
    qed
  qed simp
  show "routes (fold apply_binding bs h) r = (routes h r)\<lparr>route_truck := Some (bind_truck b)\<rparr>"
    if "b \<in> set bs" "bind_route b = Some r"
    using assms(2) that
  proof (induction bs arbitrary: h b)
    case (Cons c bs)
    show ?case
    proof (cases "\<exists>d \<in> set bs. bind_route d = Some r")
      case True
      then obtain d where d: "d \<in> set bs" "bind_route d = Some r" by blast
      have "bind_truck d = bind_truck b" by (rule Cons.prems(1) [OF _ Cons.prems(2) d(2) Cons.prems(3)]) (simp add: d)
      moreover have "routes (fold apply_binding bs (apply_binding c h)) r =
          (routes (apply_binding c h) r)\<lparr>route_truck := Some (bind_truck d)\<rparr>"
        by (rule Cons.IH [OF _ d]) (rule Cons.prems(1), simp_all)
      ultimately show ?thesis by (simp add: apply_binding_store)
    next
      case False
      then have "b = c" using Cons.prems(2,3) by auto
      then show ?thesis using False Cons.prems(3) by (simp add: apply_binding_store unbound(2))
    qed
  qed simp
qed

section \<open>The fleet takes the places of the candidates\<close>

lemma prepared_okD:
  assumes "prepared_ok n h0 ts s rb links h"
  shows "building n h0 (snd ` set (rb_customers rb)) (snd ` set (rb_packages rb)) (snd ` set (rb_routes rb))
      (candidate_truck ` snd ` set (candidate_trucks_by_id links)) h"
    "distinct (map fst (candidate_trucks_by_id links))"
    "distinct (map (candidate_truck \<circ> snd) (candidate_trucks_by_id links))"
    "\<And>i l. (i, l) \<in> set (candidate_trucks_by_id links) \<Longrightarrow> candidate_ok n h0 (fleet_by_id h0 ts) h i l"
    "traced (customer_from h) (sw_customers (ws_world s)) (rb_customers rb)"
    "traced (package_from (rb_customers rb) h) (sw_packages (ws_world s)) (rb_packages rb)"
    "traced (route_from h) (sw_routes (ws_world s)) (rb_routes rb)"
  using assms unfolding prepared_ok_def Let_def by blast+

lemma fleet_member:
  assumes "fleet_by_id h ts i = Some t"
  shows "t \<in> set ts" "vehicle_id (trucks h t) = i"
  using assms by (auto simp: fleet_by_id_def dest!: py_dict_Some_in)

lemma real_trucks:
  assumes k: "prepared_ok n h0 ts s rb links h" and ts: "set ts \<subseteq> {..<n}" and l: "l \<in> snd ` set (candidate_trucks_by_id links)"
  shows "real_truck l \<in> set ts" "trucks h (real_truck l) = trucks h0 (real_truck l)"
    "truck_frame (trucks h (real_truck l)) (trucks h (candidate_truck l))"
proof -
  obtain i where i: "(i, l) \<in> set (candidate_trucks_by_id links)" using l by auto
  have c: "candidate_ok n h0 (fleet_by_id h0 ts) h i l" by (rule prepared_okD(4) [OF k i])
  then show t: "real_truck l \<in> set ts" using fleet_member(1) by (auto simp: candidate_ok_def)
  then show "trucks h (real_truck l) = trucks h0 (real_truck l)"
    using ts buildingD(1) [OF prepared_okD(1) [OF k]] by (auto simp: untouched_def)
  then show "truck_frame (trucks h (real_truck l)) (trucks h (candidate_truck l))" using c by (simp add: candidate_ok_def)
qed

lemma real_distinct:
  assumes k: "prepared_ok n h0 ts s rb links h"
  shows "distinct (map real_truck (map snd (candidate_trucks_by_id links)))"
proof -
  let ?cand = "candidate_trucks_by_id links"
  have "fst e = vehicle_id (trucks h0 (real_truck (snd e)))" if "e \<in> set ?cand" for e
  proof -
    have "candidate_ok n h0 (fleet_by_id h0 ts) h (fst e) (snd e)" using that by (intro prepared_okD(4) [OF k]) simp
    then have "fleet_by_id h0 ts (fst e) = Some (real_truck (snd e))" by (simp add: candidate_ok_def)
    then show ?thesis by (rule fleet_member(2) [symmetric])
  qed
  then have "map fst ?cand = map (\<lambda>t. vehicle_id (trucks h0 t)) (map real_truck (map snd ?cand))" by simp
  then have "distinct (map (\<lambda>t. vehicle_id (trucks h0 t)) (map real_truck (map snd ?cand)))"
    using prepared_okD(2) [OF k] by (simp only:)
  then show ?thesis by (simp only: distinct_map)
qed

lemma candidate_binding_fields:
  "bind_truck (candidate_binding h l) = real_truck l"
  "bind_route (candidate_binding h l) = truck_route (trucks h (candidate_truck l))"
  by (simp_all add: candidate_binding_def binding_of_def Let_def)

lemma bound_candidate:
  assumes "truck_frame x (trucks h (candidate_truck l))"
  shows "bound_truck (candidate_binding h l) (cleared x) = trucks h (candidate_truck l)"
  using assms by (simp add: bound_truck_def candidate_binding_def binding_of_def Let_def cleared_def truck_frame_def)

text \<open>A truck of the fleet is the candidate that stands for it, or it is idle where it was.\<close>

definition swapped :: "linked_trucks \<Rightarrow> tref list \<Rightarrow> heap \<Rightarrow> heap \<Rightarrow> bool" where
  "swapped links ts h h' \<longleftrightarrow>
     (\<forall>l \<in> snd ` set (candidate_trucks_by_id links). trucks h' (real_truck l) = trucks h (candidate_truck l)) \<and>
     (\<forall>t \<in> set ts. t \<notin> real_truck ` snd ` set (candidate_trucks_by_id links) \<longrightarrow> trucks h' t = cleared (trucks h t)) \<and>
     (\<forall>t. t \<notin> set ts \<longrightarrow> trucks h' t = trucks h t) \<and>
     (\<forall>l \<in> snd ` set (candidate_trucks_by_id links). \<forall>r. truck_route (trucks h (candidate_truck l)) = Some r \<longrightarrow>
        routes h' r = (routes h r)\<lparr>route_truck := Some (real_truck l)\<rparr>) \<and>
     packages h' = packages h \<and> customers h' = customers h \<and> next_ref h' = next_ref h"

lemma swappedD:
  assumes "swapped links ts h h'"
  shows "l \<in> snd ` set (candidate_trucks_by_id links) \<Longrightarrow> trucks h' (real_truck l) = trucks h (candidate_truck l)"
    "t \<in> set ts \<Longrightarrow> t \<notin> real_truck ` snd ` set (candidate_trucks_by_id links) \<Longrightarrow> trucks h' t = cleared (trucks h t)"
    "l \<in> snd ` set (candidate_trucks_by_id links) \<Longrightarrow> truck_route (trucks h (candidate_truck l)) = Some r \<Longrightarrow>
       routes h' r = (routes h r)\<lparr>route_truck := Some (real_truck l)\<rparr>"
    "packages h' = packages h" "customers h' = customers h" "next_ref h' = next_ref h"
  using assms unfolding swapped_def by blast+

lemma candidate_links:
  assumes k: "prepared_ok n h0 ts s rb links h" and l: "l \<in> snd ` set (candidate_trucks_by_id links)"
  shows "truck_route (trucks h (candidate_truck l)) = Some r \<Longrightarrow>
      r \<in> snd ` set (rb_routes rb) \<and> route_truck (routes h r) = Some (candidate_truck l) \<and> n \<le> r"
proof -
  note b = prepared_okD(1) [OF k]
  have "truck_links_ok (snd ` set (rb_routes rb)) h (candidate_truck l)"
    by (rule world_okD(3) [OF buildingD(2) [OF b]]) (use l in blast)
  then show "truck_route (trucks h (candidate_truck l)) = Some r \<Longrightarrow>
      r \<in> snd ` set (rb_routes rb) \<and> route_truck (routes h r) = Some (candidate_truck l) \<and> n \<le> r"
    using buildingD(7) [OF b] by (auto simp: truck_links_ok_def)
qed

lemma candidate_unique:
  assumes k: "prepared_ok n h0 ts s rb links h" and l: "l \<in> snd ` set (candidate_trucks_by_id links)"
    and m: "m \<in> snd ` set (candidate_trucks_by_id links)" and eq: "candidate_truck l = candidate_truck m"
  shows "l = m"
proof -
  obtain i j where "(i, l) \<in> set (candidate_trucks_by_id links)" "(j, m) \<in> set (candidate_trucks_by_id links)" using l m by auto
  moreover have "inj_on (candidate_truck \<circ> snd) (set (candidate_trucks_by_id links))"
    using prepared_okD(3) [OF k] by (simp add: distinct_map)
  ultimately have "(i, l) = (j, m)"
    using inj_onD [of "candidate_truck \<circ> snd" "set (candidate_trucks_by_id links)" "(i, l)" "(j, m)"] eq by simp
  then show ?thesis by simp
qed

lemma fleet_swapped:
  assumes k: "prepared_ok n h0 ts s rb links h" and ts: "set ts \<subseteq> {..<n}"
    and bs: "set bs = candidate_binding h ` snd ` set (candidate_trucks_by_id links)" and d: "distinct (map bind_truck bs)"
    and old: "world_ok R0 P0 (set ts) h0" and R0: "R0 \<subseteq> {..<n}"
  shows "\<exists>h'. replace_truck_bindings ts bs h = (Inr (), h') \<and> swapped links ts h h' \<and>
    (\<forall>r \<in> snd ` set (rb_routes rb). route_truck (routes h r) = None \<longrightarrow> routes h' r = routes h r)"
proof -
  let ?L = "snd ` set (candidate_trucks_by_id links)"
  note b = prepared_okD(1) [OF k]
  have same: "trucks h t = trucks h0 t" "routes h t = routes h0 t" if "t < n" for t
    using buildingD(1) [OF b] that by (simp_all add: untouched_def)
  have "\<forall>t \<in> set ts. \<forall>r. truck_route (trucks h t) = Some r \<longrightarrow> route_truck (routes h r) = Some t \<and> r < n"
  proof (intro ballI allI impI)
    fix t r assume t: "t \<in> set ts" and r: "truck_route (trucks h t) = Some r"
    then have "truck_route (trucks h0 t) = Some r" using same(1) ts by auto
    then have "r \<in> R0" "route_truck (routes h0 r) = Some t"
      using world_okD(3) [OF old t] by (simp_all add: truck_links_ok_def)
    then show "route_truck (routes h r) = Some t \<and> r < n" using same(2) R0 by auto
  qed
  from cleared_fleet [OF this] obtain h1 where h1: "act_for clear_truck ts h = (Inr (), h1)"
    "\<forall>t \<in> set ts. trucks h1 t = cleared (trucks h t)" "\<forall>t. t \<notin> set ts \<longrightarrow> trucks h1 t = trucks h t"
    "\<forall>r. n \<le> r \<longrightarrow> routes h1 r = routes h r" "packages h1 = packages h" "customers h1 = customers h" "next_ref h1 = next_ref h"
    by blast
  let ?h = "fold apply_binding bs h1"
  have run: "replace_truck_bindings ts bs h = (Inr (), ?h)"
    using h1(1) by (simp add: replace_truck_bindings_def act_bind_def act_for_modify)
  have unique: "bind_truck x = bind_truck y"
    if xy: "x \<in> set bs" "y \<in> set bs" "bind_route x = Some r" "bind_route y = Some r" for x y r
  proof -
    obtain l m where l: "l \<in> ?L" "x = candidate_binding h l" and m: "m \<in> ?L" "y = candidate_binding h m"
      using xy(1,2) unfolding bs by blast
    have "route_truck (routes h r) = Some (candidate_truck l)" "route_truck (routes h r) = Some (candidate_truck m)"
      using candidate_links [OF k l(1)] candidate_links [OF k m(1)] xy(3,4) l(2) m(2)
      by (simp_all add: candidate_binding_fields)
    then have "l = m" using candidate_unique [OF k l(1) m(1)] by simp
    then show ?thesis using l(2) m(2) by simp
  qed
  have truck: "trucks ?h (real_truck l) = trucks h (candidate_truck l)" if l: "l \<in> ?L" for l
  proof -
    note rt = real_trucks [OF k ts l]
    have "candidate_binding h l \<in> set bs" using l bs by blast
    from bindings_applied(1) [OF d unique this]
    have "trucks ?h (real_truck l) = bound_truck (candidate_binding h l) (trucks h1 (real_truck l))"
      by (simp add: candidate_binding_fields)
    also have "\<dots> = trucks h (candidate_truck l)" using h1(2) rt(1) bound_candidate [OF rt(3)] by simp
    finally show ?thesis .
  qed
  have route: "routes ?h r = (routes h r)\<lparr>route_truck := Some (real_truck l)\<rparr>"
    if l: "l \<in> ?L" and r: "truck_route (trucks h (candidate_truck l)) = Some r" for l r
  proof -
    have "candidate_binding h l \<in> set bs" using l bs by blast
    from bindings_applied(2) [where r = r and h = h1, OF d unique this] r
    have "routes ?h r = (routes h1 r)\<lparr>route_truck := Some (real_truck l)\<rparr>" by (simp add: candidate_binding_fields)
    then show ?thesis using h1(4) candidate_links [OF k l r] by simp
  qed
  have idle: "routes ?h r = routes h r" if r: "r \<in> snd ` set (rb_routes rb)" "route_truck (routes h r) = None" for r
  proof -
    have "bind_route x \<noteq> Some r" if x: "x \<in> set bs" for x
    proof
      assume "bind_route x = Some r"
      moreover obtain l where l: "l \<in> ?L" "x = candidate_binding h l" using x unfolding bs by blast
      ultimately have "route_truck (routes h r) = Some (candidate_truck l)"
        using candidate_links [OF k l(1)] by (simp add: candidate_binding_fields)
      then show False using r(2) by simp
    qed
    then have "routes ?h r = routes h1 r" by (rule unbound(2))
    then show ?thesis using h1(4) buildingD(7) [OF b r(1)] by simp
  qed
  have bound: "bind_truck ` set bs = real_truck ` ?L" by (simp add: bs image_image candidate_binding_fields)
  have "swapped links ts h ?h"
    unfolding swapped_def
  proof (intro conjI ballI allI impI)
    fix t assume "t \<in> set ts" "t \<notin> real_truck ` ?L"
    then show "trucks ?h t = cleared (trucks h t)" using h1(2) bound by (simp add: unbound(1))
  next
    fix t assume t: "t \<notin> set ts"
    have "t \<notin> real_truck ` ?L"
    proof
      assume "t \<in> real_truck ` ?L"
      then obtain l where "l \<in> ?L" "t = real_truck l" by blast
      then show False using real_trucks(1) [OF k ts] t by simp
    qed
    then show "trucks ?h t = trucks h t" using h1(3) t by (simp add: unbound(1) bound)
  next
    fix l assume "l \<in> ?L"
    then show "trucks ?h (real_truck l) = trucks h (candidate_truck l)" by (rule truck)
  next
    fix l r assume "l \<in> ?L" "truck_route (trucks h (candidate_truck l)) = Some r"
    then show "routes ?h r = (routes h r)\<lparr>route_truck := Some (real_truck l)\<rparr>" by (rule route)
  next
    show "packages ?h = packages h" "customers ?h = customers h" "next_ref ?h = next_ref h"
      by (simp_all only: unbound(3-5) h1(5-7))
  qed
  with run idle show ?thesis by blast
qed

lemma cleared_frame: "truck_frame x (cleared x)"
  by (simp add: truck_frame_def cleared_def)

theorem swapped_world:
  assumes k: "prepared_ok n h0 ts s rb links h" and ts: "set ts \<subseteq> {..<n}" and sw: "swapped links ts h h'"
    and idle: "\<forall>r \<in> snd ` set (rb_routes rb). route_truck (routes h r) = None \<longrightarrow> routes h' r = routes h r"
    and places: "\<forall>t \<in> set ts. truck_location (trucks h0 t) \<noteq> None"
  shows "world_ok (snd ` set (rb_routes rb)) (snd ` set (rb_packages rb)) (set ts) h'"
    "r \<in> snd ` set (rb_routes rb) \<Longrightarrow> route_id (routes h' r) = route_id (routes h r)"
    "t \<in> set ts \<Longrightarrow> vehicle_id (trucks h' t) = vehicle_id (trucks h0 t)"
proof -
  let ?L = "snd ` set (candidate_trucks_by_id links)" and ?R = "snd ` set (rb_routes rb)" and ?P = "snd ` set (rb_packages rb)"
  note b = prepared_okD(1) [OF k]
  note w = buildingD(2) [OF b]
  note wD = world_okD [OF w]
  have truck: "trucks h' (real_truck l) = trucks h (candidate_truck l)" if "l \<in> ?L" for l
    using that by (rule swappedD(1) [OF sw])
  have bare: "trucks h' t = cleared (trucks h t)" if "t \<in> set ts" "t \<notin> real_truck ` ?L" for t
    using that by (rule swappedD(2) [OF sw])
  have same: "packages h' = packages h" "next_ref h' = next_ref h" by (rule swappedD [OF sw])+
  have old: "trucks h t = trucks h0 t" if "t \<in> set ts" for t
    using that ts buildingD(1) [OF b] by (auto simp: untouched_def)
  have at: "route_truck (routes h r) = None \<and> routes h' r = routes h r \<or>
      (\<exists>l \<in> ?L. route_truck (routes h r) = Some (candidate_truck l) \<and> truck_route (trucks h (candidate_truck l)) = Some r \<and>
         routes h' r = (routes h r)\<lparr>route_truck := Some (real_truck l)\<rparr>)" if r: "r \<in> ?R" for r
  proof (cases "route_truck (routes h r)")
    case None
    then show ?thesis using idle r by blast
  next
    case (Some c)
    from world_truck_other [OF w r Some] obtain l where l: "l \<in> ?L" "c = candidate_truck l"
      and t: "truck_route (trucks h c) = Some r" by blast
    then show ?thesis using swappedD(3) [OF sw] Some by blast
  qed
  have fields: "route_id (routes h' r) = route_id (routes h r)" "path (routes h' r) = path (routes h r)"
    "route_packages (routes h' r) = route_packages (routes h r)" "schedule (routes h' r) = schedule (routes h r)"
    "route_status (routes h' r) = route_status (routes h r)" if "r \<in> ?R" for r
    using at [OF that] by auto
  have load: "route_maximum_segment_load h' r None = route_maximum_segment_load h r None" if "r \<in> ?R" for r
    by (rule load_cong) (simp_all add: fields [OF that] same)
  have distance: "total_distance_km (routes h' r) = total_distance_km (routes h r)" if "r \<in> ?R" for r
    by (cases "schedule (routes h r)") (simp_all add: total_distance_km_def fields [OF that])
  show "route_id (routes h' r) = route_id (routes h r)" if "r \<in> ?R" using fields(1) [OF that] .
  have static: "truck_frame (trucks h t) (trucks h' t)" if t: "t \<in> set ts" for t
  proof (cases "t \<in> real_truck ` ?L")
    case True
    then obtain l where "l \<in> ?L" "t = real_truck l" by blast
    then show ?thesis using truck real_trucks(3) [OF k ts] by simp
  qed (use bare t cleared_frame in simp)
  then show "vehicle_id (trucks h' t) = vehicle_id (trucks h0 t)" if "t \<in> set ts"
    using that old by (simp add: truck_frame_def)
  show "world_ok ?R ?P (set ts) h'"
    unfolding world_ok_def
  proof (intro conjI ballI allI impI)
    fix r assume r: "r \<in> ?R"
    note f = fields [OF r]
    have rok: "route_ok (routes h' r) = route_ok (routes h r)" by (rule route_ok_cong) (simp_all add: f)
    from at [OF r] show "route_links_ok ?P (set ts) h' r"
    proof
      assume "route_truck (routes h r) = None \<and> routes h' r = routes h r"
      then show ?thesis using wD(1) [OF r] unfolding route_links_ok_def truck_fits_def load [OF r] same by simp
    next
      assume "\<exists>l \<in> ?L. route_truck (routes h r) = Some (candidate_truck l) \<and> truck_route (trucks h (candidate_truck l)) = Some r \<and>
         routes h' r = (routes h r)\<lparr>route_truck := Some (real_truck l)\<rparr>"
      then obtain l where l: "l \<in> ?L" "route_truck (routes h r) = Some (candidate_truck l)"
        "truck_route (trucks h (candidate_truck l)) = Some r" and "routes h' r = (routes h r)\<lparr>route_truck := Some (real_truck l)\<rparr>"
        by blast
      then have t: "route_truck (routes h' r) = Some (real_truck l)" by simp
      show ?thesis
        using wD(1) [OF r] t l(2,3) real_trucks(1) [OF k ts l(1)] truck [OF l(1)]
        unfolding route_links_ok_def truck_fits_def load [OF r] distance [OF r] same rok f
        by auto
    qed
  next
    fix p assume p: "p \<in> ?P"
    show "package_links_ok ?R h' p"
      by (rule package_links_frame [OF wD(2) [OF p]]) (simp_all add: same fields)
  next
    fix t assume t: "t \<in> set ts"
    show "truck_links_ok ?R h' t"
    proof (cases "t \<in> real_truck ` ?L")
      case True
      then obtain l where l: "l \<in> ?L" "t = real_truck l" by blast
      have "truck_links_ok ?R h (candidate_truck l)" by (rule wD(3)) (use l(1) in blast)
      moreover have "routes h' r = (routes h r)\<lparr>route_truck := Some t\<rparr>" if "truck_route (trucks h (candidate_truck l)) = Some r" for r
        using swappedD(3) [OF sw l(1) that] l(2) by simp
      ultimately show ?thesis
        using truck [OF l(1)] l(2)
        by (auto simp: truck_links_ok_def departure_time_def eta_final_def split: option.splits)
    next
      case False
      then show ?thesis using bare [OF t] places t old [OF t] by (simp add: truck_links_ok_def cleared_def)
    qed
  next
    show "inj_on (\<lambda>r. route_id (routes h' r)) ?R"
      using wD(4) by (simp add: fields(1) cong: inj_on_cong)
    show "inj_on (\<lambda>p. package_id (packages h' p)) ?P" using wD(5) by (simp add: same)
    fix m assume "m \<in> ?R \<or> m \<in> ?P"
    then show "m < next_ref h'" using buildingD(6,7) [OF b] same(2) by auto
  qed
qed

section \<open>Refused snapshots\<close>

definition stored_below :: "nat \<Rightarrow> app \<Rightarrow> bool" where
  "stored_below n a \<longleftrightarrow>
     live_routes a \<subseteq> {..<n} \<and> live_packages a \<subseteq> {..<n} \<and> live_customers a \<subseteq> {..<n} \<and> set (fleet a) \<subseteq> {..<n}"

lemma stored_refs:
  assumes "app_ok a" and "set (fleet a) \<subseteq> {..<next_ref (store a)}"
  shows "stored_below (next_ref (store a)) a"
  using world_okD(6,7) [OF app_okD(4) [OF assms(1)]] owners_okD(4) [OF app_okD(5) [OF assms(1)]] assms(2)
  by (auto simp: stored_below_def)

lemma world_ok_untouched:
  assumes w: "world_ok R P T h" and u: "untouched n h h'" and R: "R \<subseteq> {..<n}" and P: "P \<subseteq> {..<n}" and T: "T \<subseteq> {..<n}"
  shows "world_ok R P T h'"
proof -
  note wD = world_okD [OF w]
  have r: "routes h' r = routes h r" if "r \<in> R" for r using u R that by (auto simp: untouched_def)
  have p: "packages h' p = packages h p" if "p \<in> P" for p using u P that by (auto simp: untouched_def)
  have t: "trucks h' t = trucks h t" if "t \<in> T" for t using u T that by (auto simp: untouched_def)
  have "route_links_ok P T h' q" if q: "q \<in> R" for q
  proof -
    have cargo: "packages h' x = packages h x" if "x \<in> set (route_packages (routes h q))" for x
      using p route_linksD(3) [OF wD(1) [OF q] that] by blast
    have "route_maximum_segment_load h' q None = route_maximum_segment_load h q None"
      by (rule load_cong) (simp_all add: r [OF q] cargo)
    then show ?thesis
      using wD(1) [OF q] cargo t unfolding route_links_ok_def truck_fits_def r [OF q] by (auto split: option.splits)
  qed
  moreover have "package_links_ok R h' x" if x: "x \<in> P" for x
    by (rule package_links_frame [OF wD(2) [OF x] p [OF x]]) (simp add: r)
  moreover have "truck_links_ok R h' x" if x: "x \<in> T" for x
    by (rule truck_links_frame [OF wD(3) [OF x] t [OF x]]) (simp add: r)
  moreover have "inj_on (\<lambda>q. route_id (routes h' q)) R = inj_on (\<lambda>q. route_id (routes h q)) R"
    "inj_on (\<lambda>x. package_id (packages h' x)) P = inj_on (\<lambda>x. package_id (packages h x)) P"
    by (rule inj_on_cong, simp add: r p)+
  moreover have "m < next_ref h'" if "m \<in> R \<or> m \<in> P" for m
    using wD(6,7) [of m] that u unfolding untouched_def by (meson order.strict_trans2)
  ultimately show ?thesis using wD(4,5) by (simp add: world_ok_def)
qed

lemma app_ok_untouched:
  assumes ok: "app_ok a" and b: "stored_below n a" and u: "untouched n (store a) h"
  shows "app_ok (a\<lparr>store := h\<rparr>)"
proof -
  note aD = app_okD [OF ok] and bD = b [unfolded stored_below_def]
  have r: "routes h r = routes (store a) r" if "r \<in> live_routes a" for r using u bD that by (auto simp: untouched_def)
  have p: "packages h x = packages (store a) x" if "x \<in> live_packages a" for x using u bD that by (auto simp: untouched_def)
  have c: "customers h x = customers (store a) x" if "x \<in> live_customers a" for x using u bD that by (auto simp: untouched_def)
  have t: "trucks h x = trucks (store a) x" if "x \<in> set (fleet a)" for x using u bD that by (auto simp: untouched_def)
  have "keyed (\<lambda>q. route_id (routes h q)) (route_repo a)"
    by (rule keyed_cong [THEN iffD2, OF _ aD(1)]) (simp add: r)
  moreover have "keyed (\<lambda>q. package_id (packages h q)) (package_repo a)"
    by (rule keyed_cong [THEN iffD2, OF _ aD(2)]) (simp add: p)
  moreover have "customers_ok h (customer_dir a)"
    using aD(3) customers_ok_cong [of "customer_dir a" h "store a"] c by simp
  moreover have "world_ok (live_routes a) (live_packages a) (set (fleet a)) h"
    by (rule world_ok_untouched [OF aD(4) u]) (use bD in blast)+
  moreover have "owners_ok (live_customers a) (live_packages a) h"
    unfolding owners_ok_def
  proof (intro conjI ballI)
    fix x assume x: "x \<in> live_customers a"
    have "{y \<in> live_packages a. pkg_customer (packages h y) = x} = {y \<in> live_packages a. pkg_customer (packages (store a) y) = x}"
      by (auto simp: p)
    then show "set (delivery_packages (customers h x)) = {y \<in> live_packages a. pkg_customer (packages h y) = x}"
      "distinct (delivery_packages (customers h x))" "contact_ok (contact (customers h x))"
      using owners_okD [OF aD(5)] x by (simp_all add: c)
    show "x < next_ref h" using owners_okD(4) [OF aD(5) x] u by (simp add: untouched_def)
  next
    fix y assume "y \<in> live_packages a"
    then show "pkg_customer (packages h y) \<in> live_customers a" using owners_okD(5) [OF aD(5)] by (simp add: p)
  qed
  moreover have "fleet_ok h (fleet a)"
    using aD(6) t by (simp add: fleet_ok_def cong: map_cong)
  ultimately show ?thesis by (simp add: app_ok_def)
qed

section \<open>Preparing\<close>

theorem prepare_spec:
  assumes run: "prepare now ts s supported h = (res, h')" and ts: "set ts \<subseteq> {..<next_ref h}"
    and typed: "snapshot_typed (ws_world s)" and complete: "snapshot_complete (ws_world s)"
  shows "untouched (next_ref h) h h'"
    "res = Inr w \<Longrightarrow> \<exists>rb links. snapshot_wf h ts supported s \<and> prepared_ok (next_ref h) h ts s rb links h' \<and>
       map fst (rb_customers rb) = map sc_id (sw_customers (ws_world s)) \<and>
       map fst (rb_packages rb) = map sp_id (sw_packages (ws_world s)) \<and>
       map fst (rb_routes rb) = map sr_id (sw_routes (ws_world s)) \<and>
       rw_customers w = rb_customers rb \<and> rw_packages w = rb_packages rb \<and> rw_routes w = rb_routes rb \<and>
       rw_counters w = sw_counters (ws_world s) \<and>
       set (rw_bindings w) = candidate_binding h' ` snd ` set (candidate_trucks_by_id links) \<and>
       distinct (map bind_truck (rw_bindings w))"
proof -
  let ?n = "next_ref h" and ?w = "ws_world s"
  let ?Q = "\<lambda>w. \<exists>rb links. snapshot_wf h ts supported s \<and> prepared_ok ?n h ts s rb links h' \<and>
       map fst (rb_customers rb) = map sc_id (sw_customers ?w) \<and>
       map fst (rb_packages rb) = map sp_id (sw_packages ?w) \<and>
       map fst (rb_routes rb) = map sr_id (sw_routes ?w) \<and>
       rw_customers w = rb_customers rb \<and> rw_packages w = rb_packages rb \<and> rw_routes w = rb_routes rb \<and>
       rw_counters w = sw_counters ?w \<and>
       set (rw_bindings w) = candidate_binding h' ` snd ` set (candidate_trucks_by_id links) \<and>
       distinct (map bind_truck (rw_bindings w))"
  have "untouched ?n h h' \<and> (\<forall>w. res = Inr w \<longrightarrow> ?Q w)"
  proof (cases "validate_snapshot h ts s supported")
    case (Inl e)
    then show ?thesis using run by (auto simp: prepare_def restore_bind_def checked_def)
  next
    case (Inr u)
    then have wf: "snapshot_wf h ts supported s" using validate_snapshot_exact by simp
    note ids = snapshot_wfD(2) [OF wf]
    obtain r1 h1 where 1: "rebuild s h = (r1, h1)" by force
    note built = rebuild_spec [OF 1 typed ids]
    show ?thesis
    proof (cases r1)
      case (Inl e)
      then show ?thesis using run 1 Inr built(1) by (auto simp: prepare_def restore_bind_def checked_def)
    next
      case rb: (Inr rb)
      note rebuilt = built(2) [OF rb]
      obtain r2 h2 where 2: "link ts s rb h1 = (r2, h2)" by force
      note linked = link_spec [OF 2 rebuilt wf complete ts]
      show ?thesis
      proof (cases r2)
        case (Inl e)
        then show ?thesis using run 1 2 Inr rb linked(1) by (auto simp: prepare_def restore_bind_def checked_def)
      next
        case l: (Inr links)
        have keys: "map fst (rb_customers rb) = map sc_id (sw_customers ?w)" "map fst (rb_packages rb) = map sp_id (sw_packages ?w)"
          "map fst (rb_routes rb) = map sr_id (sw_routes ?w)" using rebuilt by (simp_all add: rebuilt_from_def)
        obtain out h3 where 3: "reconcile_routes (map snd (rb_routes rb)) now True h2 = (Inr out, h3)"
          and k: "prepared_ok ?n h ts s rb links h3"
          using reconciled_spec [OF linked(2) [OF l] keys(3) ids] by blast
        obtain bs where bs: "build_truck_bindings h3 (sw_routes ?w) (rb_routes rb) links = Inr bs"
          "set bs = candidate_binding h3 ` snd ` set (candidate_trucks_by_id links)" "distinct (map bind_truck bs)"
          using bindings_spec [OF k keys(3) ids] real_distinct [OF k] by blast
        have "h' = h3" "res = Inr \<lparr>rw_customers = rb_customers rb, rw_packages = rb_packages rb, rw_routes = rb_routes rb,
                  rw_counters = sw_counters ?w, rw_bindings = bs\<rparr>"
          using run 1 2 3 bs(1) Inr rb l by (auto simp: prepare_def restore_bind_def checked_def translating_def)
        then show ?thesis
          using buildingD(1) [OF prepared_okD(1) [OF k]] wf k keys bs(2,3) by auto
      qed
    qed
  qed
  then show "untouched ?n h h'" "res = Inr w \<Longrightarrow> ?Q w" by blast+
qed

end
