(* ===== verification/Loads.thy ===== *)
theory Loads
  imports WorldSwap
begin

text \<open>
  \<open>apply_snapshot\<close> as a whole: what an accepted and what a refused snapshot leaves.
\<close>

section \<open>The repositories of the new world\<close>

lemma contacts_inj:
  assumes "contacts_distinct key ss" and "s \<in> set ss" and "s' \<in> set ss" and "key s = key s'" and "key s \<noteq> []"
  shows "s = s'"
  using assms
proof (induction ss)
  case (Cons x ss)
  then show ?case by (auto simp: contacts_distinct_Cons image_iff)
qed simp

lemma strip_empty [simp]: "strip [] = []"
  by (simp add: strip_def lstrip_def)

lemma cleaned:
  "clean_email (PyStr x) = Inr e \<Longrightarrow> lower (strip x) = e" "clean_phone (PyStr x) = Inr p \<Longrightarrow> strip x = p"
proof -
  show "lower (strip x) = e" if "clean_email (PyStr x) = Inr e"
    using that by (cases "lower (strip x) = []"; cases "email_ok (lower (strip x))") (simp_all add: clean_email_def Let_def)
  show "strip x = p" if "clean_phone (PyStr x) = Inr p"
    using that by (auto simp: clean_phone_def Let_def truthy_def split: if_splits)
qed

lemma contact_keys:
  assumes "customer_from h s i c"
  shows "customer_email h c = email_key s" "customer_phone h c = phone_key s"
  using assms cleaned
  by (simp_all add: customer_from_def contact_info_create_iff customer_email_def customer_phone_def email_key_def phone_key_def)

lemma index_of_entries:
  assumes d: "distinct (map fst cs)" and key: "\<And>i c. (i, c) \<in> set cs \<Longrightarrow> id_of c = i"
    and inj: "\<And>i c j c'. (i, c) \<in> set cs \<Longrightarrow> (j, c') \<in> set cs \<Longrightarrow> f c = f c' \<Longrightarrow> f c \<noteq> [] \<Longrightarrow> i = j"
  shows "index_ok f \<lparr>entries = cs, repo_next_id = m\<rparr>
    (py_dict (map (\<lambda>(_, c). (f c, id_of c)) (filter (\<lambda>(_, c). f c \<noteq> []) cs)))"
proof -
  let ?es = "map (\<lambda>(_, c). (f c, id_of c)) (filter (\<lambda>(_, c). f c \<noteq> []) cs)"
  have "distinct (map fst ?es)"
  proof -
    have "inj_on (\<lambda>(_, c). f c) (set (filter (\<lambda>(_, c). f c \<noteq> []) cs))"
    proof (rule inj_onI)
      fix x y assume xy: "x \<in> set (filter (\<lambda>(_, c). f c \<noteq> []) cs)" "y \<in> set (filter (\<lambda>(_, c). f c \<noteq> []) cs)"
        "(\<lambda>(_, c). f c) x = (\<lambda>(_, c). f c) y"
      obtain i c j c' where eq: "x = (i, c)" "y = (j, c')" by (cases x; cases y)
      then have "i = j" using inj [of i c j c'] xy by simp
      then show "x = y" using d eq xy by (auto dest: eq_key_imp_eq_value)
    qed
    moreover have "distinct cs" using d by (simp add: distinct_map)
    ultimately have "distinct (map (\<lambda>(_, c). f c) (filter (\<lambda>(_, c). f c \<noteq> []) cs))"
      by (simp add: distinct_map)
    then show ?thesis by (simp add: comp_def case_prod_unfold)
  qed
  then have "py_dict ?es k = Some i \<longleftrightarrow> (k, i) \<in> set ?es" for k i by (rule py_dict_distinct)
  moreover have "(k, i) \<in> set ?es \<longleftrightarrow> k \<noteq> [] \<and> (\<exists>c. map_of cs i = Some c \<and> f c = k)" for k i
    using key d by (auto simp: map_of_eq_Some_iff image_iff)
  ultimately show ?thesis by (simp add: index_ok_def repo_get_def)
qed

lemma replaced_customers:
  assumes tr: "traced (customer_from h) ss cs" and keys: "map fst cs = map sc_id ss" and d: "distinct (map sc_id ss)"
    and contacts: "contacts_distinct email_key ss" "contacts_distinct phone_key ss"
    and m: "1 \<le> m" "\<forall>s \<in> set ss. sc_id s < m"
  shows "customers_ok h (replace_customers h cs m)"
proof -
  have dk: "distinct (map fst cs)" using d by (simp add: keys)
  have src: "\<exists>s \<in> set ss. customer_from h s i c" if "(i, c) \<in> set cs" for i c
    using tracedE [OF tr that] by blast
  have id: "customer_id (customers h c) = i" if "(i, c) \<in> set cs" for i c
    using src [OF that] by (auto simp: customer_from_def)
  have inj: "i = j" if p: "(i, c) \<in> set cs" "(j, c') \<in> set cs" "f c = f c'" "f c \<noteq> []" "contacts_distinct key ss"
      "\<And>s i c. customer_from h s i c \<Longrightarrow> f c = key s" for i c j c' f key
  proof -
    obtain s s' where "s \<in> set ss" "customer_from h s i c" "s' \<in> set ss" "customer_from h s' j c'"
      using src [OF p(1)] src [OF p(2)] by blast
    moreover from this have "s = s'"
      using p(3,4) p(6) [of s i c] p(6) [of s' j c'] by (intro contacts_inj [OF p(5)]) simp_all
    ultimately show ?thesis by (simp add: customer_from_def)
  qed
  have "index_ok (customer_email h) \<lparr>entries = cs, repo_next_id = m\<rparr>
      (py_dict (map (\<lambda>(_, c). (customer_email h c, customer_id (customers h c))) (filter (\<lambda>(_, c). customer_email h c \<noteq> []) cs)))"
    by (rule index_of_entries [OF dk id]) (use inj [of _ _ _ _ "customer_email h" email_key] contacts(1) contact_keys(1) in blast)+
  moreover have "index_ok (customer_phone h) \<lparr>entries = cs, repo_next_id = m\<rparr>
      (py_dict (map (\<lambda>(_, c). (customer_phone h c, customer_id (customers h c))) (filter (\<lambda>(_, c). customer_phone h c \<noteq> []) cs)))"
    by (rule index_of_entries [OF dk id]) (use inj [of _ _ _ _ "customer_phone h" phone_key] contacts(2) contact_keys(2) in blast)+
  moreover have "fst e < m" if "e \<in> set cs" for e
  proof -
    have "fst e \<in> set (map fst cs)" using that by simp
    then show ?thesis unfolding keys using m(2) by auto
  qed
  ultimately show ?thesis
    using dk m(1) id by (auto simp: customers_ok_def replace_customers_def repo_ok_def repo_get_def dest: map_of_SomeD)
qed

lemma replaced_keyed:
  assumes tr: "traced Q ss acc" and keys: "map fst acc = map key ss" and d: "distinct (map key ss)"
    and id: "\<And>s i x. Q s i x \<Longrightarrow> id_of x = i" and m: "1 \<le> m" "\<forall>s \<in> set ss. key s < m"
  shows "keyed id_of (repo_replace acc m repo)" "refs (repo_replace acc m repo) = snd ` set acc"
proof -
  have dk: "distinct (map fst acc)" using d by (simp add: keys)
  have "fst e < m" if "e \<in> set acc" for e
  proof -
    have "fst e \<in> set (map fst acc)" using that by simp
    then show ?thesis unfolding keys using m(2) by auto
  qed
  moreover have "id_of x = i" if "(i, x) \<in> set acc" for i x using tracedE [OF tr that] id by blast
  ultimately show "keyed id_of (repo_replace acc m repo)"
    using dk m(1) by (auto simp: keyed_def repo_ok_def repo_replace_def repo_get_def dest: map_of_SomeD)
  show "refs (repo_replace acc m repo) = snd ` set acc"
    using dk by (force simp: refs_def repo_replace_def repo_get_def map_of_eq_Some_iff)
qed

section \<open>Applying a snapshot\<close>

text \<open>The registered identifiers and the counters are those of the snapshot.\<close>

definition holds_snapshot :: "saved_world \<Rightarrow> app \<Rightarrow> bool" where
  "holds_snapshot w a \<longleftrightarrow>
     map fst (entries (customers_by_id (customer_dir a))) = map sc_id (sw_customers w) \<and>
     map fst (entries (package_repo a)) = map sp_id (sw_packages w) \<and>
     map fst (entries (route_repo a)) = map sr_id (sw_routes w) \<and>
     peek_next_id (customers_by_id (customer_dir a)) = next_customer_id (sw_counters w) \<and>
     peek_next_id (package_repo a) = next_package_id (sw_counters w) \<and>
     peek_next_id (route_repo a) = next_route_id (sw_counters w)"

lemma apply_snapshot_spec:
  assumes ok: "app_ok a" and fleet: "set (fleet a) \<subseteq> {..<next_ref (store a)}"
    and typed: "snapshot_typed (ws_world s)" and complete: "snapshot_complete (ws_world s)"
    and run: "apply_snapshot now s a = (res, a')"
  shows "res = Inl e \<Longrightarrow> a' = a\<lparr>store := store a'\<rparr> \<and> untouched (next_ref (store a)) (store a) (store a') \<and> app_ok a'"
    "res = Inr () \<Longrightarrow> snapshot_wf (store a) (fleet a) SUPPORTED_SCHEMA_VERSIONS s \<and> app_ok a' \<and> holds_snapshot (ws_world s) a'"
proof -
  let ?h = "store a" and ?n = "next_ref (store a)" and ?ts = "fleet a" and ?w = "ws_world s"
  note aD = app_okD [OF ok] and below = stored_refs [OF ok fleet]
  obtain rp h1 where p: "prepare now ?ts s SUPPORTED_SCHEMA_VERSIONS ?h = (rp, h1)" by force
  note prep = prepare_spec [OF p fleet typed complete]
  have "(\<forall>e. res = Inl e \<longrightarrow> a' = a\<lparr>store := store a'\<rparr> \<and> untouched ?n ?h (store a') \<and> app_ok a') \<and>
    (res = Inr () \<longrightarrow> snapshot_wf ?h ?ts SUPPORTED_SCHEMA_VERSIONS s \<and> app_ok a' \<and> holds_snapshot ?w a')"
  proof (cases rp)
    case (Inl e)
    then have "res = Inl e" "a' = a\<lparr>store := h1\<rparr>" using run p by (simp_all add: apply_snapshot_def)
    then show ?thesis using prep(1) app_ok_untouched [OF ok below prep(1)] by simp
  next
    case (Inr w)
    obtain rb links where wf: "snapshot_wf ?h ?ts SUPPORTED_SCHEMA_VERSIONS s" and k: "prepared_ok ?n ?h ?ts s rb links h1"
      and keys: "map fst (rb_customers rb) = map sc_id (sw_customers ?w)" "map fst (rb_packages rb) = map sp_id (sw_packages ?w)"
        "map fst (rb_routes rb) = map sr_id (sw_routes ?w)"
      and rw: "rw_customers w = rb_customers rb" "rw_packages w = rb_packages rb" "rw_routes w = rb_routes rb"
        "rw_counters w = sw_counters ?w"
      and bs: "set (rw_bindings w) = candidate_binding h1 ` snd ` set (candidate_trucks_by_id links)"
        "distinct (map bind_truck (rw_bindings w))"
      using prep(2) [OF Inr] by blast
    note kD = prepared_okD [OF k] and wfD = snapshot_wfD [OF wf]
    have "live_routes a \<subseteq> {..<?n}" using below by (simp add: stored_below_def)
    from fleet_swapped [OF k fleet bs aD(4) this] obtain h2 where
      swap: "replace_truck_bindings ?ts (rw_bindings w) h1 = (Inr (), h2)" and sw: "swapped links ?ts h1 h2"
      and idle: "\<forall>r \<in> snd ` set (rb_routes rb). route_truck (routes h1 r) = None \<longrightarrow> routes h2 r = routes h1 r"
      by blast
    have places: "\<forall>t \<in> set ?ts. truck_location (trucks ?h t) \<noteq> None"
      using world_okD(3) [OF aD(4)] by (simp add: truck_links_ok_def)
    note new = swapped_world [OF k fleet sw idle places] and same = swappedD(4-6) [OF sw]
    let ?cs = "rb_customers rb" and ?ps = "rb_packages rb" and ?rs = "rb_routes rb" and ?ct = "sw_counters ?w"
    have a': "res = Inr ()" "a' = a\<lparr>customer_dir := replace_customers h1 ?cs (next_customer_id ?ct),
        package_repo := repo_replace ?ps (next_package_id ?ct) (package_repo a),
        route_repo := repo_replace ?rs (next_route_id ?ct) (route_repo a), store := h2\<rparr>"
      using run p Inr swap by (simp_all add: apply_snapshot_def replace_world_state_def Let_def rw)
    have d: "distinct (map sc_id (sw_customers ?w))" "distinct (map sp_id (sw_packages ?w))" "distinct (map sr_id (sw_routes ?w))"
      using wfD(2) by (simp_all add: identities_wf_def ids_wf_def)
    note ct = wfD(3) [unfolded counters_wf_def]
    have R: "keyed (\<lambda>r. route_id (routes h1 r)) (repo_replace ?rs (next_route_id ?ct) (route_repo a))"
      "refs (repo_replace ?rs (next_route_id ?ct) (route_repo a)) = snd ` set ?rs"
      by (rule replaced_keyed [OF kD(7) keys(3) d(3), where id_of = "\<lambda>r. route_id (routes h1 r)"];
          use ct in \<open>simp add: route_from_def\<close>)+
    have P: "keyed (\<lambda>p. package_id (packages h1 p)) (repo_replace ?ps (next_package_id ?ct) (package_repo a))"
      "refs (repo_replace ?ps (next_package_id ?ct) (package_repo a)) = snd ` set ?ps"
      by (rule replaced_keyed [OF kD(6) keys(2) d(2), where id_of = "\<lambda>p. package_id (packages h1 p)"];
          use ct in \<open>simp add: package_from_def\<close>)+
    have C: "customers_ok h1 (replace_customers h1 ?cs (next_customer_id ?ct))"
      by (rule replaced_customers [OF kD(5) keys(1) d(1)]) (use wfD(9) ct in \<open>simp_all add: contacts_wf_def\<close>)
    have Crefs: "refs (customers_by_id (replace_customers h1 ?cs (next_customer_id ?ct))) = snd ` set ?cs"
      using d(1) keys(1) by (force simp: replace_customers_def refs_def repo_get_def map_of_eq_Some_iff)
    have "keyed (\<lambda>r. route_id (routes h2 r)) (repo_replace ?rs (next_route_id ?ct) (route_repo a))"
      by (rule keyed_cong [THEN iffD2, OF _ R(1)]) (simp add: R(2) new(2))
    moreover have "customers_ok h2 (replace_customers h1 ?cs (next_customer_id ?ct))"
      using C customers_ok_cong [of "replace_customers h1 ?cs (next_customer_id ?ct)" h2 h1] by (simp add: same)
    moreover have "owners_ok (snd ` set ?cs) (snd ` set ?ps) h2"
      using buildingD(3) [OF kD(1)] by (simp add: owners_ok_def same)
    moreover have "fleet_ok h2 ?ts" using aD(6) new(3) by (simp add: fleet_ok_def cong: map_cong)
    ultimately have "app_ok a'"
      using P new(1) unfolding app_ok_def a'(2) by (simp add: R(2) Crefs same(1))
    moreover have "holds_snapshot ?w a'"
      by (simp add: a'(2) holds_snapshot_def replace_customers_def repo_replace_def peek_next_id_def keys)
    ultimately show ?thesis using a'(1) wf by simp
  qed
  then show "res = Inl e \<Longrightarrow> a' = a\<lparr>store := store a'\<rparr> \<and> untouched (next_ref (store a)) (store a) (store a') \<and> app_ok a'"
    "res = Inr () \<Longrightarrow> snapshot_wf (store a) (fleet a) SUPPORTED_SCHEMA_VERSIONS s \<and> app_ok a' \<and> holds_snapshot (ws_world s) a'" by blast+
qed

end
