(* ===== verification/WorldFiles.thy ===== *)
theory WorldFiles
  imports SnapshotFile Loads
begin

text \<open>
  Saving the world to a file and loading it: \<open>write\<close> and \<open>read\<close> of
  \<open>src/adapters/driven/persistence/json/world_state_persistence.py\<close> and the use cases
  \<open>src/application/use_cases/state/save_world.py\<close> and \<open>load_world.py\<close>.  The resolution of paths and the
  failures of the file system are arguments; a file is replaced as a whole or stays as it was.
\<close>

section \<open>Files\<close>

text \<open>The content of a file: bytes that are not UTF-8, a text that is not JSON, or a JSON value.\<close>

datatype stored_file = Undecodable | NotJson | Stored json

datatype world_error =
    WorldFileNotFound | WorldCorrupt corruption_reason | WorldPersistence | WorldSwapFailed | WorldError error

text \<open>What leaves the adapter; a decoding failure of the text is a \<open>ValueError\<close>.\<close>

datatype io_error = IoOSError | IoValueError | IoWorld world_error

definition of_snapshot_error :: "snapshot_error \<Rightarrow> world_error" where
  "of_snapshot_error e =
     (case e of Corruption r \<Rightarrow> WorldCorrupt r | RuntimeSwapError \<Rightarrow> WorldSwapFailed | Escaped e \<Rightarrow> WorldError e)"

text \<open>How the file system fails: when the path is resolved, or at the file itself.\<close>

datatype io_fault = DirectoryFault | FileFault

definition persistence_read ::
    "(string \<Rightarrow> string) \<Rightarrow> io_fault option \<Rightarrow> string \<Rightarrow> (string \<rightharpoonup> stored_file) \<Rightarrow> io_error + string \<times> world_snapshot" where
  "persistence_read resolve fault file_name files =
     (if fault = Some DirectoryFault then Inl IoOSError
      else
        let abs_path = resolve file_name
        in case files abs_path of
             None \<Rightarrow> Inl (IoWorld WorldFileNotFound)
           | Some file \<Rightarrow>
               if fault = Some FileFault then Inl (IoWorld WorldPersistence)
               else (case file of
                       Undecodable \<Rightarrow> Inl IoValueError
                     | NotJson \<Rightarrow> Inl (IoWorld (WorldCorrupt CORRUPT_MALFORMED_JSON))
                     | Stored v \<Rightarrow>
                         (case snapshot_from_raw v of
                            Inl e \<Rightarrow> Inl (IoWorld (of_snapshot_error e))
                          | Inr s \<Rightarrow> Inr (abs_path, s))))"

definition persistence_write ::
    "(string \<Rightarrow> string) \<Rightarrow> io_error option \<Rightarrow> string \<Rightarrow> world_snapshot \<Rightarrow> (string \<rightharpoonup> stored_file) \<Rightarrow>
       (io_error + string) \<times> (string \<rightharpoonup> stored_file)" where
  "persistence_write resolve fault file_name s files =
     (case fault of
        Some e \<Rightarrow> (Inl e, files)
      | None \<Rightarrow> let abs_path = resolve file_name in (Inr abs_path, files(abs_path \<mapsto> Stored (raw_from_snapshot s))))"

section \<open>The use cases\<close>

record world_io =
  io_app :: app
  io_files :: "string \<rightharpoonup> stored_file"
  io_events :: "(world_fields \<times> time) list"

type_synonym 'a io_usecase = "world_io \<Rightarrow> (world_error + 'a) \<times> world_io"

definition record_world_event :: "world_fields \<Rightarrow> time \<Rightarrow> world_io \<Rightarrow> world_io" where
  "record_world_event e t s = s\<lparr>io_events := io_events s @ [(e, t)]\<rparr>"

text \<open>\<open>@requires\<close> with the path as the identifier of the target, none when it is blank.\<close>

definition path_target :: "string \<Rightarrow> string option" where
  "path_target file_name = (if strip file_name = [] then None else Some (strip file_name))"

definition requires_path :: "permission \<Rightarrow> auth_operation \<Rightarrow> string \<Rightarrow> time \<Rightarrow> 'a io_usecase \<Rightarrow> 'a io_usecase" where
  "requires_path p op file_name clock body s =
     (if has_permission (identity (io_app s)) p then body s
      else (Inl (WorldError PermissionError),
            s\<lparr>io_app := record_application_event (AuthorizationDenied
                \<lparr>attempted_operation = op, target_resource_type = RES_WORLD_STATE, target_resource_id = path_target file_name,
                 required_permissions = [p], denied_at = clock\<rparr>) (io_app s)\<rparr>))"

definition validate_world_state_path :: "string \<Rightarrow> string result" where
  "validate_world_state_path file_name = (let stripped = strip file_name in if stripped = [] then Inl ValidationError else Inr stripped)"

definition counts_of :: "world_snapshot \<Rightarrow> entity_counts" where
  "counts_of s =
     (let w = ws_world s
      in \<lparr>count_customers = int (length (sw_customers w)), count_packages = int (length (sw_packages w)),
          count_routes = int (length (sw_routes w)), count_trucks = int (length (sw_trucks w))\<rparr>)"

definition save_world :: "(string \<Rightarrow> string) \<Rightarrow> io_error option \<Rightarrow> string \<Rightarrow> time \<Rightarrow> string io_usecase" where
  "save_world resolve fault file_name clock =
     requires_path APP_SAVE_STATE OP_WORLD_STATE_EXPORT file_name clock (\<lambda>s.
       (case validate_world_state_path file_name of
          Inl e \<Rightarrow> (Inl (WorldError e), record_world_event (EvWorldStateExportFailed file_name None FAIL_INVALID_PATH) clock s)
        | Inr stripped \<Rightarrow>
            let snapshot = build_snapshot (io_app s);
                failed = (\<lambda>reason. record_world_event
                  (EvWorldStateExportFailed stripped (Some (ws_version snapshot)) reason) clock s)
            in (case persistence_write resolve fault stripped snapshot (io_files s) of
                  (Inl IoValueError, _) \<Rightarrow> (Inl (WorldError ValidationError), failed FAIL_INVALID_PATH)
                | (Inl IoOSError, _) \<Rightarrow> (Inl WorldPersistence, failed FAIL_PERSISTENCE_FAILURE)
                | (Inl (IoWorld e), _) \<Rightarrow> (Inl e, s)
                | (Inr written, files) \<Rightarrow>
                    (Inr written, record_world_event
                       (EvWorldStateExported written (ws_version snapshot) (counts_of snapshot)) clock
                       (s\<lparr>io_files := files\<rparr>)))))"

definition record_import_failed ::
    "string \<Rightarrow> int option \<Rightarrow> failure_reason \<Rightarrow> time \<Rightarrow> world_io \<Rightarrow> world_io" where
  "record_import_failed file_name version reason = record_world_event (EvWorldStateImportFailed file_name version reason)"

definition record_corruption_event :: "string \<Rightarrow> corruption_reason \<Rightarrow> time \<Rightarrow> world_io \<Rightarrow> world_io" where
  "record_corruption_event file_name reason = record_world_event (EvWorldStateCorruptionDetected file_name reason)"

text \<open>The handlers around \<open>read\<close>, and those around \<open>apply_snapshot\<close>; what neither names escapes.\<close>

definition read_failed :: "io_error \<Rightarrow> string \<Rightarrow> time \<Rightarrow> world_io \<Rightarrow> world_error \<times> world_io" where
  "read_failed e file_name clock s =
     (case e of
        IoValueError \<Rightarrow> (WorldError ValidationError, record_import_failed file_name None FAIL_INVALID_PATH clock s)
      | IoOSError \<Rightarrow> (WorldPersistence, record_import_failed file_name None FAIL_PERSISTENCE_FAILURE clock s)
      | IoWorld WorldFileNotFound \<Rightarrow> (WorldFileNotFound, record_import_failed file_name None FAIL_FILE_NOT_FOUND clock s)
      | IoWorld (WorldCorrupt r) \<Rightarrow>
          (WorldCorrupt r, record_corruption_event file_name r clock
             (record_import_failed file_name None FAIL_CORRUPT_SNAPSHOT clock s))
      | IoWorld WorldPersistence \<Rightarrow> (WorldPersistence, record_import_failed file_name None FAIL_PERSISTENCE_FAILURE clock s)
      | IoWorld e \<Rightarrow> (e, s))"

definition apply_failed :: "snapshot_error \<Rightarrow> string \<Rightarrow> int \<Rightarrow> time \<Rightarrow> world_io \<Rightarrow> world_io" where
  "apply_failed e file_name version clock s =
     (case e of
        Corruption r \<Rightarrow> record_corruption_event file_name r clock
          (record_import_failed file_name (Some version) FAIL_CORRUPT_SNAPSHOT clock s)
      | RuntimeSwapError \<Rightarrow> record_import_failed file_name (Some version) FAIL_RUNTIME_SWAP_FAILURE clock s
      | Escaped _ \<Rightarrow> s)"

definition load_world ::
    "(string \<Rightarrow> string) \<Rightarrow> io_fault option \<Rightarrow> string \<Rightarrow> time \<Rightarrow> time \<Rightarrow> string io_usecase" where
  "load_world resolve fault file_name clock now =
     requires_path APP_LOAD_STATE OP_WORLD_STATE_IMPORT file_name clock (\<lambda>s.
       (case validate_world_state_path file_name of
          Inl e \<Rightarrow> (Inl (WorldError e), record_import_failed file_name None FAIL_INVALID_PATH clock s)
        | Inr stripped \<Rightarrow>
            (case persistence_read resolve fault stripped (io_files s) of
               Inl e \<Rightarrow> (case read_failed e stripped clock s of (e', s') \<Rightarrow> (Inl e', s'))
             | Inr (abs_path, snapshot) \<Rightarrow>
                 let previous = build_snapshot (io_app s)
                 in (case apply_snapshot now snapshot (io_app s) of
                       (Inl e, a) \<Rightarrow>
                         (Inl (of_snapshot_error e),
                          apply_failed e abs_path (ws_version snapshot) clock (s\<lparr>io_app := a\<rparr>))
                     | (Inr _, a) \<Rightarrow>
                         (Inr abs_path, record_world_event
                            (EvWorldStateImported abs_path (ws_version snapshot) (counts_of previous) (counts_of snapshot))
                            clock (s\<lparr>io_app := a\<rparr>))))))"

section \<open>Saved files\<close>

theorem saved_readable:
  assumes ok: "app_ok (io_app s)" and places: "places_typed (io_app s)"
    and run: "save_world resolve fault file_name clock s = (Inr written, s')" and same: "strip other = strip file_name"
  shows "persistence_read resolve None (strip other) (io_files s') = Inr (written, build_snapshot (io_app s))"
proof -
  have "written = resolve (strip file_name)"
    "io_files s' = (io_files s)(resolve (strip file_name) \<mapsto> Stored (raw_from_snapshot (build_snapshot (io_app s))))"
    using run
    by (auto simp: save_world_def requires_path_def validate_world_state_path_def persistence_write_def Let_def
        record_world_event_def split: if_splits option.splits io_error.splits)
  then show ?thesis by (simp add: persistence_read_def same built_back [OF ok places])
qed

section \<open>What a load leaves\<close>

text \<open>A file whose snapshot is complete, with floats that are doubles.\<close>

definition file_ok :: "stored_file \<Rightarrow> bool" where
  "file_ok file \<longleftrightarrow>
     (\<forall>v. file = Stored v \<longrightarrow> json_ok v \<and> (\<forall>s. snapshot_from_raw v = Inr s \<longrightarrow> snapshot_complete (ws_world s)))"

lemma read_file:
  assumes "persistence_read resolve fault file_name files = Inr (abs_path, s)" and "\<forall>file \<in> ran files. file_ok file"
  shows "snapshot_typed (ws_world s)" "snapshot_complete (ws_world s)"
proof -
  obtain v where v: "files (resolve file_name) = Some (Stored v)" "snapshot_from_raw v = Inr s"
    using assms(1)
    by (auto simp: persistence_read_def Let_def split: if_splits option.splits stored_file.splits sum.splits)
  have "file_ok (Stored v)" using assms(2) v(1) by (auto simp: ran_def)
  then show "snapshot_typed (ws_world s)" "snapshot_complete (ws_world s)"
    using v(2) read_typed by (auto simp: file_ok_def)
qed

text \<open>The world of an application: what use cases work on, without the events of denials.\<close>

definition same_world :: "app \<Rightarrow> app \<Rightarrow> bool" where
  "same_world a b \<longleftrightarrow>
     route_repo b = route_repo a \<and> package_repo b = package_repo a \<and> customer_dir b = customer_dir a \<and>
     fleet b = fleet a \<and> identity b = identity a \<and> untouched (next_ref (store a)) (store a) (store b)"

lemma same_world_refl [simp]: "same_world a a"
  by (simp add: same_world_def untouched_refl)

lemma same_world_store: "b = a\<lparr>store := h\<rparr> \<Longrightarrow> untouched (next_ref (store a)) (store a) (store b) \<Longrightarrow> same_world a b"
  by (simp add: same_world_def)

lemma same_world_event: "same_world a (record_application_event e a)"
  by (simp add: same_world_def record_application_event_def untouched_refl split: option.split)

lemma recorded_world [simp]:
  "io_app (record_world_event e t s) = io_app s" "io_files (record_world_event e t s) = io_files s"
  "io_app (record_import_failed n v r t s) = io_app s" "io_files (record_import_failed n v r t s) = io_files s"
  "io_app (record_corruption_event n c t s) = io_app s" "io_files (record_corruption_event n c t s) = io_files s"
  "io_app (apply_failed f n i t s) = io_app s" "io_app (snd (read_failed x n t s)) = io_app s"
  by (simp_all add: record_world_event_def record_import_failed_def record_corruption_event_def apply_failed_def read_failed_def
      split: snapshot_error.split io_error.split world_error.split)

theorem load_world_spec:
  assumes ok: "app_ok (io_app s)" and fleet: "set (fleet (io_app s)) \<subseteq> {..<next_ref (store (io_app s))}"
    and files: "\<forall>file \<in> ran (io_files s). file_ok file"
    and run: "load_world resolve fault file_name clock now s = (res, s')"
  shows "app_ok (io_app s') \<and> (\<not> isl res \<or> same_world (io_app s) (io_app s'))"
proof (cases "has_permission (identity (io_app s)) APP_LOAD_STATE")
  case False
  then have "res = Inl (WorldError PermissionError)" "\<exists>e. io_app s' = record_application_event e (io_app s)"
    using run by (auto simp: load_world_def requires_path_def)
  then show ?thesis using ok same_world_event by auto
next
  case True
  note start = run [unfolded load_world_def requires_path_def, simplified True, simplified]
  show ?thesis
  proof (cases "persistence_read resolve fault (strip file_name) (io_files s)")
    case (Inl e)
    obtain e' t where t: "read_failed e (strip file_name) clock s = (e', t)" by force
    then have "io_app t = io_app s" using recorded_world(8) [of e "strip file_name" clock s] by simp
    then have "io_app s' = io_app s"
      using start t Inl by (auto simp: validate_world_state_path_def Let_def split: if_splits)
    then show ?thesis using ok by simp
  next
    case (Inr x)
    obtain abs_path snapshot where x: "x = (abs_path, snapshot)" by (cases x)
    note content = read_file [OF Inr [unfolded x] files]
    obtain r a where app: "apply_snapshot now snapshot (io_app s) = (r, a)" by force
    note spec = apply_snapshot_spec [OF ok fleet content app]
    show ?thesis
    proof (cases "strip file_name = []")
      case True
      then have "io_app s' = io_app s" using start by (auto simp: validate_world_state_path_def)
      then show ?thesis using ok by simp
    next
      case False
      then have s': "io_app s' = a" "isl res \<longleftrightarrow> isl r"
        using start Inr app
        by (cases r; auto simp: validate_world_state_path_def Let_def x)+
      show ?thesis
      proof (cases r)
        case (Inl e)
        note kept = spec(1) [OF Inl]
        have "same_world (io_app s) a" by (rule same_world_store [where h = "store a"]) (use kept in blast)+
        then show ?thesis using kept by (simp add: s')
      next
        case (Inr u)
        then show ?thesis using spec(2) by (simp add: s')
      qed
    qed
  qed
qed

section \<open>Failures are reported\<close>

lemma raw_not_swapped: "snapshot_from_raw v = Inl e \<Longrightarrow> e \<noteq> RuntimeSwapError"
  by (auto simp: snapshot_from_raw_def sum_bind_def structured_def world_dict_of_def raw_error_def
      split: sum.splits if_splits)

lemma read_errors:
  assumes "persistence_read resolve fault file_name files = Inl (IoWorld e)"
  shows "e \<noteq> WorldSwapFailed"
  using assms raw_not_swapped
  by (auto simp: persistence_read_def Let_def of_snapshot_error_def
      split: if_splits option.splits stored_file.splits sum.splits snapshot_error.splits)

definition corruption_events :: "string \<Rightarrow> world_error \<Rightarrow> time \<Rightarrow> (world_fields \<times> time) list" where
  "corruption_events file_name e clock =
     (case e of WorldCorrupt r \<Rightarrow> [(EvWorldStateCorruptionDetected file_name r, clock)] | _ \<Rightarrow> [])"

theorem load_failure_events:
  assumes allowed: "has_permission (identity (io_app s)) APP_LOAD_STATE"
    and run: "load_world resolve fault file_name clock now s = (Inl e, s')" and named: "\<And>x. e \<noteq> WorldError x"
  shows "\<exists>name version why.
    io_events s' = io_events s @ (EvWorldStateImportFailed name version why, clock) # corruption_events name e clock"
proof -
  note defs = record_import_failed_def record_corruption_event_def record_world_event_def corruption_events_def
  note start = run [unfolded load_world_def requires_path_def, simplified allowed, simplified]
  have path: "strip file_name \<noteq> []" using start named [of ValidationError] by (auto simp: validate_world_state_path_def)
  show ?thesis
  proof (cases "persistence_read resolve fault (strip file_name) (io_files s)")
    case (Inl io)
    then have failed: "read_failed io (strip file_name) clock s = (e, s')"
      using start path by (cases "read_failed io (strip file_name) clock s") (simp add: validate_world_state_path_def Let_def)
    show ?thesis
    proof (cases io)
      case (IoWorld w)
      have "w \<noteq> WorldSwapFailed" using read_errors Inl IoWorld by simp
      then show ?thesis
        using failed named IoWorld by (cases w) (auto simp: read_failed_def defs)
    qed (use failed named in \<open>auto simp: read_failed_def defs\<close>)
  next
    case (Inr x)
    obtain abs_path snapshot where x: "x = (abs_path, snapshot)" by (cases x)
    obtain r a where app: "apply_snapshot now snapshot (io_app s) = (r, a)" by force
    obtain f where f: "r = Inl f" "e = of_snapshot_error f"
        "s' = apply_failed f abs_path (ws_version snapshot) clock (s\<lparr>io_app := a\<rparr>)"
      using start path Inr x app by (cases r) (auto simp: validate_world_state_path_def Let_def)
    then show ?thesis
      using named by (cases f) (auto simp: apply_failed_def of_snapshot_error_def defs)
  qed
qed

end
