(* ===== verification/SampleLoads.thy ===== *)
theory SampleLoads
  imports Loads SampleApp
begin

text \<open>
  A concrete snapshot for the witnesses: one unscheduled route and the one truck of the sample fleet, moved
  to Melbourne; the customer and the package of the sample application are gone.
\<close>

definition sample_snapshot :: world_snapshot where
  "sample_snapshot =
     \<lparr>ws_version = 2,
      ws_world =
        \<lparr>sw_counters = \<lparr>next_customer_id = 6, next_package_id = 8, next_route_id = 10\<rparr>,
         sw_customers = [],
         sw_packages = [],
         sw_routes =
           [\<lparr>sr_id = 9, sr_locations = sample_path, sr_departure = None, sr_truck = None, sr_packages = []\<rparr>],
         sw_trucks =
           [\<lparr>st_id = 1001, st_status = FREE, st_location = Some ''MEL'', st_route_id = None, st_busy_from = None,
             st_busy_until = None, st_transit = None\<rparr>]\<rparr>\<rparr>"

lemma sample_snapshot_routes: "map sr_id (sw_routes (ws_world sample_snapshot)) = [9]"
  by (simp add: sample_snapshot_def)

lemma sample_codes: "is_location_code ''SYD''" "is_location_code ''MEL''" "is_location_code ''ADL''"
  by code_simp+

lemma sample_snapshot_typed: "snapshot_typed (ws_world (sample_snapshot\<lparr>ws_version := v\<rparr>))"
  using sample_codes by (simp add: snapshot_typed_def sample_snapshot_def sample_path_def)

lemma sample_snapshot_complete: "snapshot_complete (ws_world (sample_snapshot\<lparr>ws_version := v\<rparr>))"
  by (simp add: snapshot_complete_def sample_snapshot_def)

lemma sample_snapshot_accepted: "fst (apply_snapshot 7 sample_snapshot sample_app) = Inr ()"
  by code_simp

lemma sample_snapshot_refused:
  "fst (apply_snapshot 7 (sample_snapshot\<lparr>ws_version := 3\<rparr>) sample_app) = Inl (Corruption CORRUPT_UNSUPPORTED_SCHEMA)"
  by code_simp

end
