(* ===== verification/SampleQueries.thy ===== *)
theory SampleQueries
  imports Queries WorldFiles SampleLoads
begin

text \<open>What the witnesses of queries, saving and loading need of the sample application and its file.\<close>

lemma sample_load: "route_maximum_segment_load (store sample_app) 0 None = 0"
  by code_simp

lemma sample_capacity: "trucks (store sample_app) 2 = sample_truck" "capacity sample_truck = 42000"
  by (simp_all add: sample_truck_def)

lemma sample_carriable: "carriable sample_app"
  using sample_load f64_ok_unit by (simp add: carriable_def sample_capacity f64_inf_def del: sample_app_simps(1))

lemma sample_measurable: "measurable sample_app"
proof -
  have "f64_of_int 42000 = 42000 * f64_unit"
    using f64_ok_scaled [of 42000 1074] by (simp add: f64_of_int_def f64_ok_def f64_unit_def f64_inf_def)
  then have "f64_of_int 42000 < f64_inf" by (simp add: f64_unit_def f64_inf_def)
  then show ?thesis by (simp add: measurable_def sample_truck_def)
qed

lemma sample_places: "places_typed sample_app"
  using sample_codes by (simp add: places_typed_def sample_truck_def)

lemma sample_allowed: "missing_permissions (identity sample_app) [p] = None \<longleftrightarrow> p \<in> set manager_permissions"
  by (simp add: missing_permissions_def current_user_def has_permission_def role_permissions_def sample_manager_def)

definition sample_io :: world_io where
  "sample_io = \<lparr>io_app = sample_app, io_files = [''w'' \<mapsto> Stored (raw_from_snapshot sample_snapshot)], io_events = []\<rparr>"

lemma sample_snapshot_back: "snapshot_from_raw (raw_from_snapshot sample_snapshot) = Inr sample_snapshot"
proof (rule snapshot_back)
  show "snapshot_values_ok (ws_world sample_snapshot)"
    using sample_codes by (simp add: snapshot_values_ok_def sample_snapshot_def sample_path_def)
qed (simp add: sample_snapshot_def)

lemma sample_files_ok: "\<forall>file \<in> ran (io_files sample_io). file_ok file"
proof -
  have "json_ok (raw_from_snapshot sample_snapshot)" by code_simp
  then show ?thesis
    using sample_snapshot_complete [of 2] sample_snapshot_back
    by (simp add: sample_io_def file_ok_def)
qed

end
