(* ===== verification/Spec2Isabelle.thy ===== *)
theory Spec2Isabelle
  imports Outcomes SampleEvents Messaging AuditLog UserStore SampleQueries
begin

text \<open>
  FleetFlow, a parcel logistics backend: the domain model of routes, trucks, packages and customers, the
  use cases that change it, the heartbeat that moves it with the clock, and the events that leave it.
  Paths are relative to \<open>src/src/\<close>.

  Parts and how they interact.  Entities (\<open>domain/entities/\<close>) are objects that refer to each other and
  record events; policies, the scheduler and the load calculator (\<open>domain/services/\<close>) decide what an
  entity accepts.  A use case (\<open>application/use_cases/\<close>) checks the permission of the caller, looks
  entities up in the repositories, changes them, persists, and rolls the objects back when
  persistence fails; it tracks the entities it touched in the recorder scope of its execution.  The
  heartbeat reconciles every scheduled route with the clock.  The buses route a message to an
  executor, the executor runs the use case in a fresh scope and drains the recorded events to the
  dispatcher, which hands them to logging and to the audit trail; the outbox codecs write events as
  JSON and read them back.

  Theories, in the order of the code.
  Text, Validation, Float64: strings, the runtime values of Python and every \<open>require_\<close> helper
  (\<open>shared/validation.py\<close>, \<open>domain/validation.py\<close>), IEEE doubles as exact multiples of the least one.
  Geography, Schedule, Load, Contacts: the value objects and services of \<open>domain/\<close>.
  Fleet: the object store.  An object is a record in the store, an attribute that holds an object holds
  its reference, and an operation maps a store to a result and the store it leaves, also when it
  raises.  Parcels, Policies, Routes: the entities and both assignment policies.
  World: the invariant of a consistent world; every entity operation keeps it.
  Reconciliation, Settling: \<open>application/services/world_state_reconciliation_service.py\<close> with the
  rollback of a failing route, and the state a heartbeat leaves.
  Repositories, Customers, Authorization, Application: the dictionary-backed repositories, the identity
  and permissions, the application state and the recorder scope.
  UseCases: the commands that change the world, whole, with their rollbacks.  AppInvariant, Resolution,
  Lifecycle, Seeding, Reachability, Outcomes: the invariant of the application, the state machine of all
  commands, what each command achieves or leaves alone.
  Calendar, Json, Events, Payload, CodecsFleet, CodecsAccess, CodecsWorld, Codecs, Outbox: ISO times, JSON
  objects, the 41 event classes with every field, the codecs of \<open>application/eventing/outbox/codecs/\<close>
  in both directions and the registry.
  Delivery, Publication: envelopes, context, collector, executors, dispatcher, subscriptions.
  Messaging: the command and query bus and their composed routing tables.
  Pagination, AuditMapping, AuditLog: page requests, the audit descriptor of every event
  (\<open>application/services/audit_mapping/\<close>), the audit store and its reader.
  Passwords, Users, Authentication: \<open>password_hasher.py\<close> with base 64, the user repository, the
  authentication service and its use cases.  Tokens: configuration, issuing and checking of tokens, the
  principal of a request.  UserStore: the JSON user store with its file.
  Snapshot, Restore: saved worlds, their validators (\<open>application/services/validators/\<close>) with the
  declarative form of what they accept, and rebuilding, linking and swapping
  (\<open>world_state_snapshot_rebuilder.py\<close>, \<open>world_state_linker.py\<close>, \<open>world_state_snapshot_preparer.py\<close>,
  \<open>memory/world_state_gateway.py\<close>).  Loading, TruckLinks, LoadedWorld, WorldSwap, Loads: each of these
  stages keeps what exists and builds one more part of a consistent world.
  SnapshotFile, WorldFiles: the JSON form of a saved world
  (\<open>adapters/driven/persistence/json/world_state_persistence.py\<close>) and the use cases that save and load it
  (\<open>application/use_cases/state/\<close>).
  Overview, Queries: the fleet overview (\<open>memory/fleet_overview_query.py\<close>), the listings, views and searches.
  What the lemmas show.  Each theory ends with the facts its operations are used by: exact outcomes on
  every branch, preservation of the invariant, equivalence with a reference definition.  The contracts
  between components are locales (\<open>event_recorder\<close>, the repositories, \<open>wire_enum\<close>, \<open>message_bus\<close>), each
  interpreted on the model of the code that provides it.  The properties C1 to C40 below are about whole
  operations, runs of the heartbeat, sequences of commands and executions.

  Parameters and bounds.  The clock readings of a call are arguments; a persistence failure is an
  argument (the exception the unit of work raises, or none), because in memory it never fails.  Fresh
  identifiers of envelopes come from a supply, the publisher is an action on a state of its own.  Integers
  are unbounded as in Python; a time is its count of microseconds and leaves the calendar with
  OverflowError; there is no fuel anywhere, and the only measure is that of the dispersal of the default
  fleet.  Strings are lists of ASCII characters.  \<open>fromisoformat\<close> is given on the extended calendar
  forms, which are all that \<open>isoformat\<close> writes.  Texts of exceptions are modelled where the code returns
  them as data, otherwise the class alone.

  Not modelled.  The database adapter (its behaviour lives in the server), the paths and the file operations of
  the operating system (parameters here), the key derivation and the token signing (library calls, parameters here), logging, the CLI and the HTTP schemas and
  routers (glue over their frameworks), dependency wiring.  The quarantine and the startup restore of snapshots in the composition root.
\<close>

section \<open>Reconciliation of the world with the clock\<close>

text \<open>C1. One heartbeat over any selection of routes of a consistent world returns without raising,
  keeps the world consistent, and leaves every selected route settled: its status, its truck and
  each of its packages are where the schedule says they are at that instant. The only exception is
  a completed route whose clock has been moved back into its travel window.\<close>

theorem heartbeat_settles_world:
  assumes w: "world_ok R P T h" and rs: "set rs \<subseteq> R" "distinct rs"
  shows "\<exists>s h'. reconcile_routes rs now upd h = (Inr s, h') \<and> world_ok R P T h' \<and>
    (\<forall>r \<in> set rs. regressed r now h' \<or> settled r now upd h')"
proof -
  obtain s h' where run: "reconcile_routes rs now upd h = (Inr s, h')" and w': "world_ok R P T h'"
    using yieldsD [OF reconcile_routes_world [OF w rs(1), of now upd]] by blast
  have "\<forall>r \<in> set rs. at_rest r now upd h'"
    using reconcile_loop_rests [OF w rs, of now upd empty_summary s h'] run rs(1)
    by (auto simp: reconcile_routes_def)
  with run w' show ?thesis by (auto simp: at_rest_def)
qed

theorem heartbeat_settles_world_witness:
  "\<exists>s h'. reconcile_routes [0] 2000 True sample_heap = (Inr s, h') \<and> world_ok {0} {1} {2} h' \<and>
    (\<forall>r \<in> set [0]. regressed r 2000 h' \<or> settled r 2000 True h')"
  by (rule heartbeat_settles_world [OF sample_world]) simp_all

text \<open>C2. A heartbeat is idempotent: repeating it at the same instant changes nothing, records no event
  and reports an empty summary.\<close>

theorem heartbeat_idempotent:
  assumes "world_ok R P T h" and "set rs \<subseteq> R" and "distinct rs"
    and "reconcile_routes rs now upd h = (Inr s, h')"
  shows "reconcile_routes rs now upd h' = (Inr empty_summary, h')"
  by (rule reconcile_routes_idempotent [OF assms])

theorem heartbeat_idempotent_witness:
  "\<exists>s h'. reconcile_routes [0] 2000 True sample_heap = (Inr s, h') \<and>
     reconcile_routes [0] 2000 True h' = (Inr empty_summary, h')"
  using reconcile_routes_total [of "[0]" sample_heap 2000 True]
    heartbeat_idempotent [OF sample_world, of "[0]" 2000 True] by fastforce

text \<open>C3. The heartbeat isolates failures: a route that cannot be reconciled is put back exactly as it
  was, events, packages and truck included, and a route that can be touches only itself, the
  packages on its list and its own truck.\<close>

theorem failing_route_restored:
  assumes "route_ok (routes h r)"
  shows "\<exists>out h'. reconcile_route r now upd h = (Inr out, h') \<and>
    (case reconcile_route_body r now upd h of
       (Inl _, _) \<Rightarrow> out = None \<and> h' = h
     | (Inr o', h1) \<Rightarrow> out = Some o' \<and> h' = h1 \<and> route_region r h h1)"
proof (cases "reconcile_route_body r now upd h")
  case (Pair res h1)
  show ?thesis
  proof (cases res)
    case (Inl e)
    then show ?thesis using reconcile_route_failure [OF assms, of now upd e h1] Pair by simp
  next
    case (Inr o')
    then show ?thesis
      using Pair reconcile_route_body_region [of r h now upd] by (simp add: reconcile_route_def)
  qed
qed

theorem failing_route_restored_witness:
  "\<exists>out h'. reconcile_route 0 2000 True sample_heap = (Inr out, h') \<and>
    (case reconcile_route_body 0 2000 True sample_heap of
       (Inl _, _) \<Rightarrow> out = None \<and> h' = sample_heap
     | (Inr o', h1) \<Rightarrow> out = Some o' \<and> h' = h1 \<and> route_region 0 sample_heap h1)"
  by (rule failing_route_restored) simp

text \<open>C4. Reconciliation never raises, whatever state packages and trucks are in: the runtime error its
  callers catch cannot reach them.\<close>

theorem heartbeat_never_raises:
  assumes "\<forall>r \<in> set rs. route_ok (routes h r)"
  shows "\<exists>s h'. reconcile_routes rs now upd h = (Inr s, h')"
  by (rule reconcile_routes_total [OF assms])

theorem heartbeat_never_raises_witness:
  "\<exists>s h'. reconcile_routes [0, 1] 7 False sample_heap = (Inr s, h')"
  by (rule heartbeat_never_raises) simp

text \<open>A completed route seen at an instant inside its travel window is left alone by every
  heartbeat: the transition back to in-progress is refused by the route and rolled back.\<close>

theorem regressed_route_left_alone:
  assumes "world_ok R P T h" and "r \<in> R" and "regressed r now h"
  shows "reconcile_route r now upd h = (Inr None, h)"
  by (rule regressed_route_unchanged [OF assms])

theorem regressed_route_left_alone_witness:
  "reconcile_route 0 2000 True (upd_route 0 (\<lambda>x. x\<lparr>route_status := COMPLETED\<rparr>) sample_heap) =
     (Inr None, upd_route 0 (\<lambda>x. x\<lparr>route_status := COMPLETED\<rparr>) sample_heap)"
  by (rule regressed_route_left_alone [OF sample_world_completed])
    (simp_all add: regressed_def sample_eta)

section \<open>Assignments keep the world consistent\<close>

text \<open>C5. Assigning a package that is on no route either puts it on the route, linked both ways, with
  its arrival time, within the truck's capacity and range and before its pickup has passed, or
  raises a conflict and changes nothing; the world stays consistent in both cases.\<close>

theorem assign_package_consistent:
  assumes "world_ok R P T h" and "r \<in> R" and "p \<in> P" and "pkg_route (packages h p) = None"
    and "assign_package r p now t h = (res, h')"
  shows "world_ok R P T h' \<and>
    (case res of
       Inl e \<Rightarrow> h' = h \<and> (\<exists>m. e = DomainConflictError m)
     | Inr _ \<Rightarrow> pkg_route (packages h' p) = Some r \<and> package_fits h r (packages h p) now)"
  by (rule assign_package_world [OF assms])

theorem assign_package_consistent_witness:
  "world_ok {0} {1} {2} (snd (assign_package 0 1 999 999 sample_heap))"
  using assign_package_consistent [OF sample_world, of 0 1 999 999]
  by (cases "assign_package 0 1 999 999 sample_heap") (simp add: sample_package_def)

text \<open>C6. Detaching a package that is on a route succeeds, takes it off the list of that route, returns it
  to its origin with no route, no arrival time and status to-do, and keeps the world consistent.\<close>

theorem detach_package_consistent:
  assumes w: "world_ok R P T h" and "r \<in> R" and "p \<in> P" and on: "pkg_route (packages h p) = Some r"
  shows "\<exists>h'. detach_package r p reason t h = (Inr (), h') \<and> world_ok R P T h' \<and>
    p \<notin> set (route_packages (routes h' r)) \<and> pkg_route (packages h' p) = None \<and>
    pkg_status (packages h' p) = TODO \<and> pkg_expected_arrival (packages h' p) = None \<and>
    current_location (packages h' p) = pkg_start (packages h p)"
proof -
  obtain e where e: "detach_package r p reason t h = (Inr (), detached r p e h)"
    and w': "world_ok R P T (detached r p e h)"
    using detach_package_world [OF assms] by blast
  have "distinct (route_packages (routes h r))"
    using world_okD(1) [OF w assms(2)] by (simp add: route_links_ok_def)
  then have "p \<notin> set (route_packages (routes (detached r p e h) r))"
    by (simp add: detached_store)
  with e w' show ?thesis by (simp add: detached_store current_location_def)
qed

theorem detach_package_consistent_witness:
  "\<exists>h'. detach_package 0 1 DETACH_ROUTE_REMOVED 7 (snd (assign_package 0 1 999 999 sample_heap)) = (Inr (), h') \<and>
     world_ok {0} {1} {2} h' \<and> pkg_route (packages h' 1) = None"
proof -
  obtain h' where "assign_package 0 1 999 999 sample_heap = (Inr (), h')"
    "world_ok {0} {1} {2} h'" "pkg_route (packages h' 1) = Some 0"
    using sample_assigned .
  then show ?thesis
    using detach_package_consistent [of "{0}" "{1}" "{2}" h' 0 1 DETACH_ROUTE_REMOVED 7] by auto
qed

text \<open>Scheduling is all or nothing: it succeeds exactly on an unscheduled route whose last arrival can
  be represented, it keeps the world consistent, and when it raises nothing has changed.\<close>

theorem schedule_route_consistent:
  assumes w: "world_ok R P T h" and r: "r \<in> R" and t: "0 \<le> dep" "dep \<le> time_max"
  shows "\<exists>res h'. schedule_route r (naive dep) t h = (res, h') \<and> world_ok R P T h' \<and>
    (res = Inr () \<longleftrightarrow>
       schedule (routes h r) = None \<and> dep + travel_time (path (routes h r)) \<le> time_max) \<and>
    (res = Inr () \<longrightarrow> departure_time (routes h' r) = Some dep \<and> route_status (routes h' r) = SCHEDULED \<and>
       eta_final (routes h' r) = Some (dep + travel_time (path (routes h r)))) \<and>
    (res \<noteq> Inr () \<longrightarrow> h' = h)"
proof -
  have p: "path_ok (path (routes h r))"
    using world_okD(1) [OF w r] by (simp add: route_links_ok_def route_ok_def)
  show ?thesis
  proof (cases "schedule (routes h r) = None \<and> dep + travel_time (path (routes h r)) \<le> time_max")
    case True
    then obtain s where s: "build_schedule (path (routes h r)) (naive dep) (PyInt DEFAULT_SPEED_KMPH) = Inr s"
      "sched_departure_time s = dep" "sched_eta_final s = dep + travel_time (path (routes h r))"
      using build_schedule_ok [OF p t(1)] by metis
    then obtain e where run: "schedule_route r (naive dep) t h = (Inr (), scheduled r s e h)"
      using True schedule_route_iff [of r "naive dep" t h] by (auto simp: SPEED_KMPH_def)
    show ?thesis
      using schedule_route_world(1) [OF w r run] True run s
      by (auto simp: scheduled_store departure_time_def eta_final_def)
  next
    case False
    have "\<exists>e. schedule_route r (naive dep) t h = (Inl e, h)"
      using False build_schedule_overflow [OF p t]
      by (auto simp: schedule_route_def SPEED_KMPH_def Let_def not_le)
    with False w show ?thesis by auto
  qed
qed

theorem schedule_route_consistent_witness:
  "\<exists>res h'. schedule_route 0 (naive 5) 7 sample_heap = (res, h') \<and> world_ok {0} {1} {2} h' \<and> res \<noteq> Inr ()"
  using schedule_route_consistent [OF sample_world, of 0 5 7]
  by (auto simp: time_max_def sample_route_def)

text \<open>C7. A free truck that the truck policy accepts for a scheduled route without a truck is linked to it
  by \<open>assign_truck\<close>: on the way, busy from departure to the final arrival, still standing where it
  was; the capacity and range bounds of the world hold for the new pair.\<close>

theorem assign_truck_consistent:
  assumes w: "world_ok R P T h" and r: "r \<in> R" and t: "t \<in> T"
    and suits: "truck_suits h t r" and sch: "schedule (routes h r) \<noteq> None"
    and none: "route_truck (routes h r) = None" and free: "truck_route (trucks h t) = None"
  shows "\<exists>h'. assign_truck r t oc h = (Inr (), h') \<and> world_ok R P T h' \<and>
    route_truck (routes h' r) = Some t \<and> truck_route (trucks h' t) = Some r \<and>
    truck_status (trucks h' t) = ON_THE_WAY \<and>
    truck_location (trucks h' t) = Some (path_start (path (routes h r))) \<and>
    busy_from (trucks h' t) = departure_time (routes h r) \<and>
    busy_until (trucks h' t) = eta_final (routes h r)"
proof -
  have loc: "truck_location (trucks h t) = Some (path_start (path (routes h r)))"
    and range: "\<exists>d. total_distance_km (routes h r) = Inr d \<and> d \<le> max_range (trucks h t)"
    and cap: "\<not> f64_gt_int (route_maximum_segment_load h r None) (capacity (trucks h t))"
    using suits free by (simp_all add: truck_suits_def)
  have status: "truck_status (trucks h t) = FREE"
    using world_okD(3) [OF w t] free by (simp add: truck_links_ok_def)
  obtain e where "assign_truck r t oc h = (Inr (), truck_linked r t e h)"
    using assign_truck_iff [of r t oc h] none status free loc by blast
  with truck_linked_world [OF w r t free none sch cap range, of e] loc show ?thesis
    by (simp add: truck_linked_store)
qed

theorem assign_truck_consistent_witness:
  "\<exists>h'. assign_truck 0 2 7 sample_heap = (Inr (), h') \<and> world_ok {0} {1} {2} h' \<and>
     busy_until (trucks h' 2) = Some 66289656172"
  using assign_truck_consistent [OF sample_world, of 0 2 7] sample_truck_suits
  by (auto simp: sample_route_def sample_truck_def eta_final_def sample_schedule_def sched_eta_final_def)

text \<open>Releasing the truck of a route succeeds exactly when it is forced or the final arrival has been
  reached; then the pair is unlinked on both sides and the world stays consistent, otherwise the
  answer is False and nothing changes.\<close>

theorem release_truck_consistent:
  assumes "world_ok R P T h" and "r \<in> R" and "release_truck r now force reason oc h = (res, h')"
  shows "world_ok R P T h' \<and>
    (if route_truck (routes h r) \<noteq> None \<and> release_due (routes h r) now force
     then res = Inr True \<and> route_truck (routes h' r) = None
     else res = Inr False \<and> h' = h)"
  by (rule release_truck_world [OF assms])

theorem release_truck_consistent_witness:
  "world_ok {0} {1} {2} (snd (release_truck 0 9 True RELEASE_ROUTE_REMOVED 9 sample_heap)) \<and>
     fst (release_truck 0 9 True RELEASE_ROUTE_REMOVED 9 sample_heap) = Inr False"
  using release_truck_consistent [OF sample_world, of 0 9 True RELEASE_ROUTE_REMOVED 9]
  by (cases "release_truck 0 9 True RELEASE_ROUTE_REMOVED 9 sample_heap") (simp add: sample_route_def)

section \<open>Assignment policies\<close>

text \<open>C8. The package policy never raises on a well-formed route, always returns a well-formed decision,
  and accepts exactly when pickup precedes delivery on the route, the pickup stop has not been
  passed, and the load and range of the assigned truck admit the package.\<close>

theorem package_policy_exact:
  assumes "route_ok (routes h r)"
  shows "\<exists>d. evaluate_package h r p now = Inr d \<and> decision_ok d \<and> (accepted d \<longleftrightarrow> package_fits h r p now)"
  using evaluate_package_decides [OF assms, of p now] by (simp add: decides_def)

theorem package_policy_exact_witness:
  "\<exists>d. evaluate_package sample_heap 0 sample_package 999 = Inr d \<and> decision_ok d \<and>
    (accepted d \<longleftrightarrow> package_fits sample_heap 0 sample_package 999)"
  by (rule package_policy_exact) simp

text \<open>C9. The truck policy never raises on a well-formed route and accepts exactly the trucks that reach
  far enough, carry the heaviest segment, and are at the start of the route, now or strictly before
  its departure at the end of the route they drive.\<close>

theorem truck_policy_exact:
  assumes "route_ok (routes h r)"
  shows "\<exists>d. evaluate_truck h t r = Inr d \<and> decision_ok d \<and> (accepted d \<longleftrightarrow> truck_suits h t r)"
  using evaluate_truck_decides [OF assms, of t] by (simp add: decides_def)

theorem truck_policy_exact_witness:
  "\<exists>d. evaluate_truck sample_heap 2 0 = Inr d \<and> decision_ok d \<and> (accepted d \<longleftrightarrow> truck_suits sample_heap 2 0)"
  by (rule truck_policy_exact) simp

text \<open>C10. The load calculator returns the largest over the segments of the route of the double-precision
  sum of the packages aboard on that segment, each package aboard from its pickup stop up to its
  delivery stop; a route without segments carries nothing.\<close>

theorem segment_load_exact:
  "maximum_segment_load locs ps extra =
     py_max (map (segment_load locs (ps @ (case extra of None \<Rightarrow> [] | Some p \<Rightarrow> [p])))
       [0..<length locs - 1])"
  by (rule maximum_segment_load_eq)

text \<open>Adding a package never lowers the reported load, although the sums are rounded.\<close>

theorem segment_load_monotone:
  assumes "list_all load_ok ps" and "load_ok p"
  shows "maximum_segment_load locs ps None \<le> maximum_segment_load locs ps (Some p)"
  by (rule maximum_segment_load_extra [OF assms])

theorem segment_load_monotone_witness:
  "maximum_segment_load sample_path [] None \<le>
     maximum_segment_load sample_path [] (Some \<lparr>load_start = ''SYD'', load_end = ''ADL'', load_weight = f64_unit\<rparr>)"
  by (rule segment_load_monotone) (simp_all add: load_ok_def f64_ok_unit)

section \<open>Schedules and positions\<close>

text \<open>The scheduler succeeds on every valid path whose last arrival is representable: the schedule it
  builds visits the path in order, is internally consistent, leaves at the given instant and arrives
  after exactly the sum of the travel times of the legs.\<close>

theorem scheduler_total:
  assumes "path_ok p" and "0 \<le> t" and "t + travel_time p \<le> time_max"
  shows "\<exists>s. build_schedule p (naive t) (PyInt DEFAULT_SPEED_KMPH) = Inr s \<and> schedule_ok s \<and>
    map stop_location (sched_stops s) = p \<and> sched_departure_time s = t \<and>
    sched_eta_final s = t + travel_time p"
  using build_schedule_ok [OF assms] by metis

theorem scheduler_total_witness:
  "\<exists>s. build_schedule sample_path (naive 1000) (PyInt DEFAULT_SPEED_KMPH) = Inr s \<and> schedule_ok s \<and>
    map stop_location (sched_stops s) = sample_path \<and> sched_departure_time s = 1000 \<and>
    sched_eta_final s = 1000 + travel_time sample_path"
  by (rule scheduler_total) (simp_all add: sample_travel_time time_max_def)

text \<open>Beyond the end of the calendar the scheduler raises OverflowError, not a domain error.\<close>

theorem scheduler_overflow:
  assumes "path_ok p" and "0 \<le> t" and "t \<le> time_max" and "time_max < t + travel_time p"
  shows "build_schedule p (naive t) (PyInt DEFAULT_SPEED_KMPH) = Inl PyOverflowError"
  by (rule build_schedule_overflow [OF assms])

theorem scheduler_overflow_witness:
  "build_schedule sample_path (naive time_max) (PyInt DEFAULT_SPEED_KMPH) = Inl PyOverflowError"
  by (rule scheduler_overflow) (simp_all add: sample_travel_time time_max_def)

text \<open>C11. The travel time of a leg, computed in double precision and rounded to microseconds, is for every
  distance up to 712704 km the exact quotient of distance and speed rounded half to even.\<close>

theorem leg_time_correctly_rounded:
  assumes "0 \<le> d" and "d \<le> 712704"
  shows "leg_duration d 87 = rne (d * us_per_hour) 87"
  by (rule leg_duration_exact [OF assms])

theorem leg_time_correctly_rounded_witness: "leg_duration 877 87 = 36289655172"
  using leg_time_correctly_rounded [of 877] by (simp add: rne_def us_per_hour_def)

text \<open>C12. A schedule that the constructor accepts is well formed, and the position it reports at any
  instant is the one read off the arrival times: waiting before departure, finished after the last
  arrival, at an intermediate or final stop exactly at its arrival, otherwise on the leg after the
  last stop reached.\<close>

theorem position_exact:
  assumes "route_schedule_create dep segs raw = Inr s"
  shows "schedule_ok s \<and> position_at s (naive t) = Inr (position_spec s t)"
  using route_schedule_create_ok [OF assms] position_at_spec by blast

theorem position_exact_witness:
  "position_at sample_schedule (naive 1000) = Inr (in_transit_from sample_schedule 0)"
  using position_exact [OF sample_schedule_create, of 1000]
  by (simp add: position_spec_def last_reached_stop_def sample_schedule_def sched_eta_final_def)



section \<open>Entities and values\<close>

text \<open>C14. A route is built only from at least two distinct supported cities and a positive identifier; it
  then has the schedule of its departure time, no truck, no packages, and is planned or scheduled
  accordingly.\<close>

theorem route_constructor:
  assumes "route_init locs departure rid = Inr r"
  shows "route_ok r \<and> departure_time r = map_option dt_us departure \<and> route_truck r = None \<and>
    route_packages r = [] \<and> route_status r = (if departure = None then PLANNED else SCHEDULED) \<and>
    route_events r = [] \<and> rid = PyInt (route_id r)"
  using route_init_ok [OF assms] by simp

theorem route_constructor_witness: "route_ok sample_route \<and> departure_time sample_route = Some 1000"
  using route_constructor [OF sample_route_init] by simp

text \<open>A package is built only with a positive identifier, distinct supported endpoints and a positive
  finite weight, and every rejection is a domain validation error.\<close>

theorem package_constructor:
  assumes "pyval_ok weight"
  shows "case package_init s e weight cust pid rid of
      Inl x \<Rightarrow> x = DomainValidationError
    | Inr p \<Rightarrow> package_ok p \<and> current_location p = pkg_start p \<and> pkg_route p = None \<and>
        pkg_status p = TODO \<and> pkg_events p = [] \<and> pkg_customer p = cust"
  using package_init_ok [OF _ assms] package_init_Inl by (auto split: sum.split)

theorem package_constructor_witness: "package_ok sample_package \<and> pkg_status sample_package = TODO"
  using package_constructor [OF sample_weight_ok, where s = "PyStr ''SYD''" and e = "PyStr ''MEL''"
      and cust = 0 and pid = "PyInt 1" and rid = PyNone]
  by (simp add: sample_package_init)


text \<open>Moving a package to a customer keeps ownership consistent: every listed package names its
  customer, no list has duplicates, and the package ends on the list of the new owner.\<close>

theorem customer_ownership:
  assumes "ownership_ok h" and "customer_add_package c p h = (Inr (), h')"
    and "\<And>d. customer_id (customers h d) = customer_id (customers h c) \<Longrightarrow> d = c"
  shows "ownership_ok h' \<and> p \<in> set (delivery_packages (customers h' c)) \<and> pkg_customer (packages h' p) = c"
  by (rule customer_add_package_ok [OF assms])

theorem customer_ownership_witness:
  "ownership_ok (snd (customer_add_package 0 1 (sample_heap\<lparr>customers := \<lambda>c. sample_customer\<lparr>customer_id := int c\<rparr>\<rparr>)))"
proof -
  let ?h = "sample_heap\<lparr>customers := \<lambda>c. sample_customer\<lparr>customer_id := int c\<rparr>\<rparr>"
  have "customer_add_package 0 1 ?h = (Inr (), customer_link 0 1 ?h)"
    by (simp add: customer_add_package_def sample_package_def sample_customer_def Let_def)
  with customer_ownership [of ?h 0 1 "customer_link 0 1 ?h"] show ?thesis
    by (simp add: ownership_ok_def sample_customer_def)
qed

text \<open>Contact details are accepted exactly when each field is valid after cleaning, and what is stored
  is its own cleaned form, so that reading a stored contact back changes nothing.\<close>

theorem contact_normal_form:
  "(contact_info_create name email phone = Inr c \<longleftrightarrow>
     clean_name name = Inr (ci_name c) \<and> clean_email email = Inr (ci_email c) \<and>
     clean_phone phone = Inr (ci_phone c)) \<and>
   (contact_info_create name email phone = Inr c \<longrightarrow> contact_ok c)"
  using contact_info_create_iff contact_info_create_ok by blast

theorem contact_normal_form_witness: "contact_ok sample_contact"
  using contact_normal_form sample_contact_create by blast

text \<open>Every two supported cities have a distance, the same in both directions, at most 4311 km and
  zero only from a city to itself.\<close>

theorem distances_total:
  assumes "a \<in> set locations" and "b \<in> set locations"
  shows "\<exists>d. get_distance (PyStr a) (PyStr b) = Inr d \<and> 0 \<le> d \<and> d \<le> 4311 \<and> (d = 0 \<longleftrightarrow> a = b) \<and>
    get_distance (PyStr b) (PyStr a) = Inr d"
  by (rule get_distance_supported [OF assms])

theorem distances_total_witness:
  "\<exists>d. get_distance (PyStr ''SYD'') (PyStr ''PER'') = Inr d \<and> 0 \<le> d \<and> d \<le> 4311 \<and>
    (d = 0 \<longleftrightarrow> ''SYD'' = ''PER'') \<and> get_distance (PyStr ''PER'') (PyStr ''SYD'') = Inr d"
  by (rule distances_total) (simp_all add: locations_def)

section \<open>The application as a state machine\<close>







text \<open>C19. When persisting the changes of a truck assignment, of a route removal or of a heartbeat fails,
  the in-memory objects are put back exactly as they were: routes with their schedules, packages,
  trucks and the events that were pending.\<close>

theorem failed_persistence_leaves_no_trace:
  assumes "app_ok a"
  shows "(\<forall>res b. assign_truck_to_route vid rid now clock (Some x) a = (res, b) \<longrightarrow>
        (\<exists>e. res = Inl e) \<and> store b = store a) \<and>
    (\<forall>res b. remove_route rid clock (Some x) a = (res, b) \<longrightarrow>
        (\<exists>e. res = Inl e) \<and> store b = store a \<and> route_repo b = route_repo a) \<and>
    (\<forall>res b. advance_world_state clock (Some x) a = (res, b) \<longrightarrow>
        (case res of Inl e \<Rightarrow> e = x \<and> b = a | Inr summary \<Rightarrow> \<not> state_changed summary))"
  using assign_truck_no_trace [OF assms] remove_route_no_trace [OF assms] heartbeat_no_trace [OF assms] by blast

theorem failed_persistence_leaves_no_trace_witness:
  "store (snd (assign_truck_to_route 1001 1 7 7 (Some DatabaseError) sample_app)) = store sample_app"
  using failed_persistence_leaves_no_trace [OF sample_app_ok, of 1001 1 7 7 DatabaseError] by (metis prod.collapse)



section \<open>What the commands achieve\<close>

text \<open>C21. Assigning a list of packages to a route never raises in memory, and the report accounts for every
  requested identifier exactly once, as a success or as an error; every reported success is on
  the route in the final state.\<close>

theorem assignment_report_complete:
  assumes "app_ok a" and "has_permission (identity a) ROUTE_ASSIGN_PACKAGE"
    and "repo_get rid (route_repo a) = Some r"
  shows "\<exists>res b. assign_packages rid pids clock (\<lambda>_. None) a = (Inr res, b) \<and> app_ok b \<and>
    set (report_ids res) = set pids \<and> distinct (report_ids res) \<and>
    (\<forall>s \<in> set (successes res). on_route r b (success_package_id s))"
  by (rule assign_packages_report [OF assms])

theorem assignment_report_complete_witness:
  "\<exists>res b. assign_packages 1 [1, 7, 1] 7 (\<lambda>_. None) sample_app = (Inr res, b) \<and>
     set (report_ids res) = {1, 7} \<and> length (report_ids res) = 2"
proof -
  have "has_permission (identity sample_app) ROUTE_ASSIGN_PACKAGE"
    by (simp add: has_permission_def current_user_def role_permissions_def sample_manager_def
        manager_permissions_def employee_permissions_def)
  from assignment_report_complete [OF sample_app_ok this, of 1 0 "[1, 7, 1]" 7] obtain res b where
    "assign_packages 1 [1, 7, 1] 7 (\<lambda>_. None) sample_app = (Inr res, b)"
    "set (report_ids res) = {1, 7}" "distinct (report_ids res)" by auto
  then show ?thesis using distinct_card [of "report_ids res"] by auto
qed

text \<open>C22. A package request ends in one of two ways. Either a new package is registered, between the
  normalised locations, to do, on no route, and owned by a registered customer; or the request
  raises a validation error or a conflict and no package is added. An internal ValueError or
  KeyError of the repositories never escapes.\<close>

theorem package_request_outcome:
  assumes "app_ok a" and "pyval_ok weight" and "has_permission (identity a) PACKAGE_CREATE"
    and "create_package start end_location weight name email phone clock a = (res, b)"
  shows "app_ok b \<and> (case res of
      Inl e \<Rightarrow> (e = DomainValidationError \<or> (\<exists>m. e = ConflictError m)) \<and> live_packages b = live_packages a
    | Inr p \<Rightarrow> p \<notin> live_packages a \<and> live_packages b = insert p (live_packages a) \<and>
        pkg_customer (packages (store b) p) \<in> live_customers b \<and> pkg_route (packages (store b) p) = None \<and>
        pkg_status (packages (store b) p) = TODO \<and>
        location_code (PyStr start) = Inr (pkg_start (packages (store b) p)) \<and>
        location_code (PyStr end_location) = Inr (pkg_end (packages (store b) p)))"
  by (rule create_package_done [OF assms])

theorem package_request_outcome_witness:
  "app_ok (snd (create_package '' syd'' ''MEL'' (PyFloat (FFin f64_unit)) ''Ada'' ''ada@x.io'' [] 7 sample_app))"
proof -
  have "has_permission (identity sample_app) PACKAGE_CREATE"
    by (simp add: has_permission_def current_user_def role_permissions_def sample_manager_def
        manager_permissions_def employee_permissions_def)
  from package_request_outcome [OF sample_app_ok sample_weight_ok this prod.collapse [symmetric]]
  show ?thesis by blast
qed

text \<open>The request is not atomic: when the customer is new and the weight is refused, the error is raised
  after the customer has been registered, and an orphan customer without packages stays behind.\<close>

theorem refused_package_leaves_customer:
  assumes "app_ok a" and "has_permission (identity a) PACKAGE_CREATE"
    and "location_code (PyStr start) = Inr s" and "location_code (PyStr end_location) = Inr e"
    and "find_existing_customer (store a) (customer_dir a) name email phone = Inr None"
    and "contact_info_create (PyStr name) (PyStr email) (PyStr phone) = Inr info"
    and "domain_require_positive_finite_float weight = Inl err"
  shows "\<exists>b c. create_package start end_location weight name email phone clock a = (Inl DomainValidationError, b) \<and>
    c \<notin> live_customers a \<and> c \<in> live_customers b \<and> delivery_packages (customers (store b) c) = []"
  by (rule orphan_customer [OF assms])

theorem refused_package_leaves_customer_witness:
  "\<exists>b c. create_package ''SYD'' ''MEL'' (PyInt 0) ''Bob'' ''bob@x.io'' [] 7 sample_app = (Inl DomainValidationError, b) \<and>
     c \<notin> live_customers sample_app \<and> c \<in> live_customers b"
proof -
  have perm: "has_permission (identity sample_app) PACKAGE_CREATE"
    by (simp add: has_permission_def current_user_def role_permissions_def sample_manager_def
        manager_permissions_def employee_permissions_def)
  have loc: "location_code (PyStr ''SYD'') = Inr ''SYD''" "location_code (PyStr ''MEL'') = Inr ''MEL''"
    by code_simp+
  have norm: "lower (strip ''bob@x.io'') = ''bob@x.io''" "strip ''Bob'' = ''Bob''" by code_simp+
  have none: "find_existing_customer (store sample_app) (customer_dir sample_app) ''Bob'' ''bob@x.io'' [] = Inr None"
    unfolding find_existing_customer_def Let_def norm
    by (simp add: get_by_email_def customer_at_def sample_app_def resolve_name_only_def)
  have info: "contact_info_create (PyStr ''Bob'') (PyStr ''bob@x.io'') (PyStr []) =
      Inr \<lparr>ci_name = ''Bob'', ci_email = ''bob@x.io'', ci_phone = []\<rparr>" by code_simp
  have bad: "domain_require_positive_finite_float (PyInt 0) = Inl DomainValidationError" by code_simp
  show ?thesis
    using refused_package_leaves_customer [OF sample_app_ok perm loc none info bad, of 7] by blast
qed

text \<open>Customer resolution is stable: a request with an email address or a phone number that found or
  created a customer finds the same customer when it is repeated, and the repetition changes
  nothing, so that no customer is registered twice.\<close>

theorem customer_resolution_stable:
  assumes "app_ok a" and "resolve_customer name email phone clock a = (Inr c, b)"
    and "lower (strip email) \<noteq> [] \<or> filter is_digit phone \<noteq> []"
  shows "resolve_customer name email phone clock' b = (Inr c, b)"
  by (rule resolve_customer_stable [OF assms])

theorem customer_resolution_stable_witness:
  "resolve_customer ''Ada'' '' ADA@x.io'' [] 9 sample_app = (Inr 0, sample_app)"
proof -
  have norm: "lower (strip '' ADA@x.io'') = ''ada@x.io''" "strip ''Ada'' = ''Ada''" by code_simp+
  have "resolve_customer ''Ada'' '' ADA@x.io'' [] 5 sample_app = (Inr 0, sample_app)"
    unfolding resolve_customer_def find_existing_customer_def Let_def norm
    by (simp add: get_by_email_def customer_at_def sample_app_def ensure_name_matches_def same_name_def
        customer_name_def sample_customer_def sample_contact_def repo_get_def)
  from customer_resolution_stable [OF sample_app_ok this] show ?thesis by (simp add: norm)
qed

text \<open>C23. Removals are complete. A removed package is on no route and in no customer's collection any more;
  the packages of a removed route are back at their origins and unassigned, and its truck is free.\<close>

theorem removals_complete:
  assumes ok: "app_ok a"
    and perm: "\<forall>p \<in> {PACKAGE_REMOVE, PACKAGE_VIEW, ROUTE_REMOVE, ROUTE_VIEW}. has_permission (identity a) p"
  shows "(\<forall>p. repo_get i (package_repo a) = Some p \<longrightarrow>
      (\<exists>out b. remove_package i clock None a = (Inr out, b) \<and> app_ok b \<and> live_packages b = live_packages a - {p} \<and>
        (\<forall>r \<in> live_routes b. p \<notin> set (route_packages (routes (store b) r))) \<and>
        (\<forall>c \<in> live_customers b. p \<notin> set (delivery_packages (customers (store b) c))))) \<and>
    (\<forall>r. repo_get i (route_repo a) = Some r \<longrightarrow>
      (\<exists>b. remove_route i clock None a = (Inr r, b) \<and> app_ok b \<and> live_routes b = live_routes a - {r} \<and>
        live_packages b = live_packages a \<and>
        (\<forall>p \<in> set (route_packages (routes (store a) r)). pkg_route (packages (store b) p) = None \<and>
           pkg_status (packages (store b) p) = TODO \<and>
           current_location (packages (store b) p) = pkg_start (packages (store b) p)) \<and>
        (\<forall>t. route_truck (routes (store a) r) = Some t \<longrightarrow>
           truck_route (trucks (store b) t) = None \<and> truck_status (trucks (store b) t) = FREE)))"
proof (intro conjI allI impI)
  fix p assume p: "repo_get i (package_repo a) = Some p"
  from remove_package_done [OF ok _ _ p, of clock] perm obtain out b where
    b: "remove_package i clock None a = (Inr out, b)" "app_ok b" "live_packages b = live_packages a - {p}" by auto
  with removed_package_unlinked [OF b(2), of p] show
    "\<exists>out b. remove_package i clock None a = (Inr out, b) \<and> app_ok b \<and> live_packages b = live_packages a - {p} \<and>
        (\<forall>r \<in> live_routes b. p \<notin> set (route_packages (routes (store b) r))) \<and>
        (\<forall>c \<in> live_customers b. p \<notin> set (delivery_packages (customers (store b) c)))" by blast
next
  fix r assume r: "repo_get i (route_repo a) = Some r"
  from remove_route_done [OF ok _ _ r, of clock] perm obtain b where
    b: "remove_route i clock None a = (Inr r, b)" "app_ok b" "live_routes b = live_routes a - {r}"
    "live_packages b = live_packages a" "fleet b = fleet a" "removal_region r (store a) (store b)" by auto
  with removed_route_freed [OF ok b(2) refsI [OF r] b(3-6)] show
    "\<exists>b. remove_route i clock None a = (Inr r, b) \<and> app_ok b \<and> live_routes b = live_routes a - {r} \<and>
        live_packages b = live_packages a \<and>
        (\<forall>p \<in> set (route_packages (routes (store a) r)). pkg_route (packages (store b) p) = None \<and>
           pkg_status (packages (store b) p) = TODO \<and>
           current_location (packages (store b) p) = pkg_start (packages (store b) p)) \<and>
        (\<forall>t. route_truck (routes (store a) r) = Some t \<longrightarrow>
           truck_route (trucks (store b) t) = None \<and> truck_status (trucks (store b) t) = FREE)" by blast
qed

theorem removals_complete_witness:
  "\<exists>out b. remove_package 1 9 None sample_app = (Inr out, b) \<and> live_packages b = {}"
proof -
  have "\<forall>p \<in> {PACKAGE_REMOVE, PACKAGE_VIEW, ROUTE_REMOVE, ROUTE_VIEW}. has_permission (identity sample_app) p"
    by (simp add: has_permission_def current_user_def role_permissions_def sample_manager_def
        manager_permissions_def employee_permissions_def)
  from removals_complete [OF sample_app_ok this, of 1 9] show ?thesis by auto
qed

section \<open>World snapshots\<close>

text \<open>C24. The five validators together accept a snapshot exactly when it is well formed: the schema is
  supported, the identifiers are positive and without duplicates below their counters, routes and
  packages refer to each other and to what is saved, no truck serves two routes, every package
  travels forward along its route, every truck with a route can drive it and carry it, and no two
  customers share a contact.\<close>

theorem snapshot_validation_exact: "validate_snapshot h ts s supported = Inr () \<longleftrightarrow> snapshot_wf h ts supported s"
  by (rule validate_snapshot_exact)



text \<open>A refused snapshot changes nothing: whatever fails, the validation, the rebuilding, the linking,
  the reconciliation or the swap, the registries, the fleet and the session are the ones from before,
  and every object that existed before has its old value; only unreachable candidates are left.\<close>

theorem refused_snapshot_changes_nothing:
  assumes "app_ok a" and "set (fleet a) \<subseteq> {..<next_ref (store a)}"
    and "snapshot_typed (ws_world s)" and "snapshot_complete (ws_world s)"
    and "apply_snapshot now s a = (Inl e, a')"
  shows "a' = a\<lparr>store := store a'\<rparr> \<and> untouched (next_ref (store a)) (store a) (store a')"
  using apply_snapshot_spec(1) [OF assms] by blast

theorem refused_snapshot_changes_nothing_witness:
  "trucks (store (snd (apply_snapshot 7 (sample_snapshot\<lparr>ws_version := 3\<rparr>) sample_app))) 2 = sample_truck"
proof -
  obtain a' where run: "apply_snapshot 7 (sample_snapshot\<lparr>ws_version := 3\<rparr>) sample_app =
      (Inl (Corruption CORRUPT_UNSUPPORTED_SCHEMA), a')"
    using sample_snapshot_refused by (cases "apply_snapshot 7 (sample_snapshot\<lparr>ws_version := 3\<rparr>) sample_app") simp
  from refused_snapshot_changes_nothing [OF sample_app_ok _ sample_snapshot_typed sample_snapshot_complete run]
  have "untouched 3 (store sample_app) (store a')" by simp
  then show ?thesis by (simp add: run untouched_def)
qed

text \<open>C26. A saved world can be read: the file that a successful save has written is parsed, under the same
  name and whatever surrounds it, to exactly the snapshot of the world at the time of the save.\<close>

theorem saved_world_readable:
  assumes "app_ok (io_app s)" and "places_typed (io_app s)"
    and "save_world resolve fault file_name clock s = (Inr written, s')" and "strip other = strip file_name"
  shows "persistence_read resolve None (strip other) (io_files s') = Inr (written, build_snapshot (io_app s))"
  by (rule saved_readable [OF assms])

theorem saved_world_readable_witness:
  "persistence_read id None ''v'' (io_files (snd (save_world id None ''v'' 5 sample_io))) =
     Inr (''v'', build_snapshot sample_app)"
proof -
  have v: "strip ''v'' = ''v''" by code_simp
  have "has_permission (identity sample_app) APP_SAVE_STATE"
    by (simp add: has_permission_def current_user_def role_permissions_def sample_manager_def manager_permissions_def)
  then obtain s' where run: "save_world id None ''v'' 5 sample_io = (Inr ''v'', s')"
    by (auto simp: save_world_def requires_path_def sample_io_def validate_world_state_path_def v persistence_write_def Let_def)
  have "app_ok (io_app sample_io)" "places_typed (io_app sample_io)"
    using sample_app_ok sample_places by (simp_all add: sample_io_def)
  from saved_world_readable [OF this run refl] show ?thesis by (simp add: run v) (simp add: sample_io_def)
qed





section \<open>Queries\<close>



text \<open>C30. The overview at the instant of a heartbeat agrees with the statuses the heartbeat has set: no route is
  past due, every active route is in progress, and as many are shown as are in progress, up to the limit.\<close>

theorem overview_after_heartbeat:
  assumes "app_ok a" and "carriable a" and "advance_world_state now persist a = (Inr s, a')"
    and "1 \<le> limit" and "limit \<le> 100"
  shows "\<exists>v. get_overview now limit a' = Inr v \<and> routes_past_due (overview_routes v) = 0 \<and>
    (\<forall>x \<in> set (overview_active v). active_status x = IN_PROGRESS) \<and>
    length (overview_active v) = min (nat limit) (nat (routes_in_progress (route_counts (overview_routes v))))"
  using overview_settled [OF assms] by blast

theorem overview_after_heartbeat_witness:
  "\<exists>s a' v. advance_world_state 66289656172 None sample_app = (Inr s, a') \<and>
     get_overview 66289656172 5 a' = Inr v \<and> routes_past_due (overview_routes v) = 0"
proof -
  obtain s a' where run: "advance_world_state 66289656172 None sample_app = (Inr s, a')"
    using heartbeat_completes [OF sample_app_ok, of 0 sample_schedule 66289656172]
    by (auto simp: sample_route_def sample_schedule_def sched_eta_final_def)
  obtain v where "get_overview 66289656172 5 a' = Inr v" "routes_past_due (overview_routes v) = 0"
    using overview_after_heartbeat [OF sample_app_ok sample_carriable run, of 5] by auto
  with run show ?thesis by blast
qed



section \<open>Events\<close>

text \<open>C32. Events survive persistence. The composed registry has a current writer for every event, and an
  event whose fields its decoder accepts is written to a JSON payload from which the reader found
  under the persisted name and version restores exactly that event, metadata included. An event
  the decoder would not accept is refused at writing time, never stored unreadable.\<close>

theorem outbox_roundtrip:
  assumes "event_ok e" and "times_in_range (event_fields e)"
  shows "\<exists>R c. build_codec_registry = Inr R \<and> for_event R e = Inr c \<and>
    for_identity R (PyStr (codec_type c)) (PyInt (codec_version c)) = Inr c \<and>
    (if replayable (event_fields e)
     then \<exists>p. adapter_encode c e = Inr p \<and>
       adapter_decode c (JObj p) (PyUuid (event_id e)) (PyDatetime (occurred_at e))
         (PyDatetime (recorded_at e)) = Inr e
     else \<not> is_ok (adapter_encode c e))"
  by (rule write_then_read [OF assms])

theorem outbox_roundtrip_witness:
  "\<exists>R c p. build_codec_registry = Inr R \<and> for_event R sample_event = Inr c \<and>
     adapter_encode c sample_event = Inr p \<and>
     adapter_decode c (JObj p) (PyUuid 7) (PyDatetime (naive 66289600000000000))
       (PyDatetime (PyDt 66289600000000000 (Some (Some 0)))) = Inr sample_event"
  using outbox_roundtrip [OF sample_event_ok] by (auto simp: sample_event_def)

text \<open>In every registry that registrations can build, of whatever codecs and historical decoders, the
  payload written for an event is read back as that event through its persisted identity: no
  registration of another reader can take the place of a current writer.\<close>

theorem any_registry_reads_its_writes:
  assumes "built R" and "for_event R e = Inr c" and "adapter_encode c e = Inr p"
  shows "\<exists>d. for_identity R (PyStr (codec_type c)) (PyInt (codec_version c)) = Inr d \<and>
    adapter_decode d (JObj p) (PyUuid (event_id e)) (PyDatetime (occurred_at e))
      (PyDatetime (recorded_at e)) = Inr e"
  using for_event_identity [OF built_ok [OF assms(1)] assms(2)] adapter_encode_decodes [OF assms(3)] by blast

theorem any_registry_reads_its_writes_witness:
  "\<exists>R c p d. built R \<and> for_event R sample_event = Inr c \<and> adapter_encode c sample_event = Inr p \<and>
     for_identity R (PyStr (codec_type c)) (PyInt (codec_version c)) = Inr d \<and>
     adapter_decode d (JObj p) (PyUuid 7) (PyDatetime (naive 66289600000000000))
       (PyDatetime (PyDt 66289600000000000 (Some (Some 0)))) = Inr sample_event"
proof -
  obtain R c p where "built R" "for_event R sample_event = Inr c" "adapter_encode c sample_event = Inr p"
    by (rule sample_event_written)
  then show ?thesis
    using any_registry_reads_its_writes [of R sample_event c p] by (auto simp: sample_event_def)
qed



text \<open>When the publisher refuses the batch of a successful command, the executor reports that failure, and
  every event recorded on an entity is still pending there for a later attempt.\<close>

theorem refused_publication_keeps_entity_events:
  assumes "forward m" and "m ((world d)\<lparr>scope := Some new_scope\<rparr>) = (Inr x, a)"
    and "event_ctx d = Some c" and "recorded_events a \<noteq> []"
    and "publish (wrap_all uuid (issued d) c (recorded_events a)) (sink d) = (Inl e, s)"
  shows "\<exists>d'. event_draining_execute uuid publish m d = (Inl e, d') \<and> sink d' = s \<and>
    store (world d') = store a \<and> scope (world d') = scope (world d)"
  using draining_refused [where publish = publish, OF assms(1-4)] assms(5) by blast

theorem refused_publication_keeps_entity_events_witness:
  "\<exists>x a d'. create_route [''SYD'', ''MEL''] None 5 (sample_app\<lparr>scope := Some new_scope\<rparr>) = (Inr x, a) \<and>
     event_draining_execute int (\<lambda>_ s. (Inl DatabaseError, s)) (create_route [''SYD'', ''MEL''] None 5)
       (sample_delivery :: pending_event envelope list delivery) = (Inl DatabaseError, d') \<and>
     store (world d') = store a"
proof -
  obtain x a where run: "create_route [''SYD'', ''MEL''] None 5 (sample_app\<lparr>scope := Some new_scope\<rparr>) = (Inr x, a)"
      and some: "recorded_events a \<noteq> []"
    by (rule sample_route_recorded)
  have "\<exists>d'. event_draining_execute int (\<lambda>_ s. (Inl DatabaseError, s)) (create_route [''SYD'', ''MEL''] None 5)
      (sample_delivery :: pending_event envelope list delivery) = (Inl DatabaseError, d') \<and> sink d' = [] \<and>
    store (world d') = store a \<and> scope (world d') = scope (world sample_delivery)"
    using refused_publication_keeps_entity_events [where publish = "\<lambda>_ s. (Inl DatabaseError, s)"
        and m = "create_route [''SYD'', ''MEL''] None 5" and d = sample_delivery and uuid = int
        and c = sample_context and x = x and a = a and e = DatabaseError and s = "[]"]
    by (simp add: sample_delivery_def run some forward_use_cases)
  then show ?thesis using run by blast
qed

text \<open>The composed command bus accepts every registration, and a message dispatched under a key of the
  catalog reaches the executor of that key if it is of the exact class of the key, and is refused
  otherwise.\<close>

theorem commands_routed_exactly:
  shows "\<exists>bus. build_command_bus type_of executor = Inr bus \<and>
    (\<forall>k \<in> set command_keys. command_dispatch type_of bus k m =
       (if type_of m = key_type k then executor (key_name k) m else act_raise MessageTypeMismatchError)) \<and>
    map key_type command_keys = published_command_types"
proof -
  obtain bus where "build_command_bus type_of executor = Inr bus"
      "\<forall>k \<in> set command_keys. \<forall>m. command_dispatch type_of bus k m =
        (if type_of m = key_type k then executor (key_name k) m else act_raise MessageTypeMismatchError)"
    by (rule command_bus_built)
  then show ?thesis using catalogs_match(1) by blast
qed

theorem commands_routed_exactly_witness:
  "\<exists>bus. build_command_bus (\<lambda>c. c) (\<lambda>n m. act_return n) = Inr bus \<and>
     command_dispatch (\<lambda>c. c) bus (key ''create_route'' ''CreateRouteCommand'') ''CreateRouteCommand'' (0::nat) =
       (Inr ''create_route'', 0)"
  using commands_routed_exactly [of "\<lambda>c. c" "\<lambda>n m. act_return n" "''CreateRouteCommand''"]
  by (auto simp: command_keys_def key_def act_return_def)

section \<open>The audit trail\<close>



text \<open>C35. What a caller sees of the audit log: a successful reading changes nothing, returns only stored
  records, and a caller without the permission to view the log gets records of its own actions
  only, whatever filters were asked for.\<close>

theorem audit_visibility:
  assumes "view_audit_logs q f clock s a = (Inr page, b)"
  shows "b = a \<and> set (page_items page) \<subseteq> snd ` set (audit_records s) \<and>
    (\<exists>user. current_user (identity a) = Some user \<and>
      (\<not> has_permission (identity a) AUDIT_VIEW \<longrightarrow>
         (\<forall>r \<in> set (page_items page). draft_actor_user_id r = Some (user_id user))))"
  by (rule visible_records [OF assms])

theorem audit_visibility_witness:
  "\<exists>page. view_audit_logs \<lparr>page_limit = None, page_offset = 0, include_total = False\<rparr> no_filter 5
      empty_audit_repo sample_app = (Inr page, sample_app) \<and> page_items page = []"
proof -
  have "has_permission \<lparr>session_user = Some sample_manager, bound_user = None\<rparr> AUDIT_VIEW"
    by (simp add: has_permission_def current_user_def role_permissions_def sample_manager_def
        manager_permissions_def employee_permissions_def)
  then have "\<exists>page. view_audit_logs \<lparr>page_limit = None, page_offset = 0, include_total = False\<rparr> no_filter 5
      empty_audit_repo sample_app = (Inr page, sample_app)"
    by (simp add: view_audit_logs_def current_user_def execute_audit_query_def audit_lister.page_query_exact)
  then obtain page where p: "view_audit_logs \<lparr>page_limit = None, page_offset = 0, include_total = False\<rparr>
      no_filter 5 empty_audit_repo sample_app = (Inr page, sample_app)" by blast
  then have "set (page_items page) \<subseteq> {}"
    using audit_visibility [OF p] by (auto simp: empty_audit_repo_def)
  then show ?thesis using p by auto
qed

section \<open>Accounts and tokens\<close>

text \<open>C36. The password change is effective and exact: when it succeeds, the caller's current password was
  verified and the new one differs from it; afterwards the account accepts exactly the passwords whose
  derived key is that of the new one, its token version is one higher, every other account is as it
  was, and the change is recorded.\<close>

theorem password_change_effective:
  assumes "users_ok (accounts s)" and "good_kdf kdf salt"
    and "change_password kdf salt old new clock s = (Inr (), s')"
  shows "\<exists>u r r'. current_user (caller s) = Some u \<and>
    get_by_username (username u) (accounts s) = Some r \<and>
    accepts kdf (username u) old (accounts s) \<and> \<not> accepts kdf (username u) new (accounts s) \<and>
    rec_user_id r' = rec_user_id r \<and> rec_token_version r' = rec_token_version r + 1 \<and>
    (\<forall>n. get_by_username n (accounts s') =
       (if normalize_username (Some n) = normalize_username (Some (username u)) then Some r'
        else get_by_username n (accounts s))) \<and>
    (\<forall>p. accepts kdf (username u) p (accounts s') \<longleftrightarrow>
       kdf PBKDF2_ALGO p salt PBKDF2_ITERATIONS = kdf PBKDF2_ALGO new salt PBKDF2_ITERATIONS) \<and>
    auth_events s' = auth_events s @ [(EvUserPasswordChanged (rec_user_id r) (rec_username r), clock)]"
  by (rule change_succeeds [OF assms])

theorem password_change_effective_witness:
  "\<exists>s. change_password sample_kdf sample_salt ''Secret1!'' ''Secret2!'' 5 sample_auth = (Inr (), s) \<and>
     accepts sample_kdf ''boss'' ''Secret2!'' (accounts s)"
proof -
  obtain s where s: "change_password sample_kdf sample_salt ''Secret1!'' ''Secret2!'' 5 sample_auth = (Inr (), s)"
    using sample_change by blast
  show ?thesis
    using password_change_effective [OF _ sample_kdf_good s] sample_accounts_ok s by auto
qed

text \<open>C37. Revocation is final: once the owner of an accepted token logs out, changes the password, or has it
  reset, that token is answered with 401, whatever use cases run later, by whomever, and at whatever
  time.\<close>

theorem revoked_tokens_stay_refused:
  assumes "jose_laws enc dec" and "users_ok (accounts s)"
    and "principal_from_token cfg dec now (accounts s) token t = Inr h"
    and "revokes kdf (rec_user_id (hp_record h)) s s1" and "(auth_step kdf)\<^sup>*\<^sup>* s1 s2"
  shows "\<exists>detail. principal_from_token cfg dec later (accounts s2) token t = Inl (unauthorized detail)"
  by (rule revoked_forever [OF assms])

theorem revoked_tokens_stay_refused_witness:
  "\<exists>token h s. principal_from_token sample_jwt sample_dec 0 sample_accounts token ACCESS = Inr h \<and>
     logout 5 sample_auth = (Inr (), s) \<and>
     (\<exists>detail. principal_from_token sample_jwt sample_dec 0 (accounts s) token ACCESS = Inl (unauthorized detail))"
proof -
  obtain token h where h: "principal_from_token sample_jwt sample_dec 0 sample_accounts token ACCESS = Inr h"
    "hp_record h = sample_account"
    using sample_token_accepted by blast
  obtain s where s: "logout 5 sample_auth = (Inr (), s)" using sample_out by blast
  have "revokes sample_kdf (rec_user_id (hp_record h)) sample_auth s"
    by (rule LogoutRevokes [OF sample_auth_simps(3) _ s])
      (simp only: sample_manager_name h(2) sample_account_def user_record.select_convs)
  then have "\<exists>detail. principal_from_token sample_jwt sample_dec 0 (accounts s) token ACCESS = Inl (unauthorized detail)"
    using revoked_tokens_stay_refused [OF sample_jose, of sample_auth sample_jwt 0 token ACCESS h sample_kdf s s 0]
      sample_accounts_ok h(1) by simp
  then show ?thesis using h(1) s by blast
qed

text \<open>C38. Tokens are exact: the token that is issued for an account, of either kind, identifies that account
  until its expiry, not a second longer, and never as a token of the other kind.\<close>

theorem issued_token_accepted:
  assumes "jose_laws enc dec" and "users_ok repo" and "get_user_by_id i repo = Some r"
    and "length (str_int i) \<le> 4300" and "unix_epoch \<le> start" and "0 \<le> now"
    and "create_token cfg enc start jti (token_input_of r) t = Inr token"
    and "expiration_time cfg t start = Inr e"
  shows "(\<exists>h. principal_from_token cfg dec now repo token t' = Inr h \<and> hp_record h = r) \<longleftrightarrow>
    t' = t \<and> now \<le> timestamp_seconds e"
  by (rule issued_exact [OF assms])

theorem issued_token_accepted_witness:
  "\<exists>token. create_token sample_jwt sample_enc unix_epoch ''j'' (token_input_of sample_account) ACCESS = Inr token \<and>
     (\<exists>h. principal_from_token sample_jwt sample_dec 0 sample_accounts token ACCESS = Inr h \<and>
        hp_record h = sample_account)"
proof -
  obtain token e where t: "create_token sample_jwt sample_enc unix_epoch ''j'' (token_input_of sample_account) ACCESS
      = Inr token" "expiration_time sample_jwt ACCESS unix_epoch = Inr e" "unix_epoch \<le> e"
    using sample_token by blast
  then show ?thesis
    using issued_token_accepted [OF sample_jose sample_accounts_ok sample_lookup(1) sample_small order_refl
        order_refl t(1,2)] timestamp_nonneg [OF t(3)] by blast
qed



text \<open>A failing login, logout, registration, password change or reset has no effect but at most one
  recorded event: no account, no session and no version changes.\<close>

theorem refused_auth_only_records:
  "(login kdf name password t s = (Inl e1, s1) \<longrightarrow> only_records s s1) \<and>
   (logout t s = (Inl e2, s2) \<longrightarrow> only_records s s2) \<and>
   (register_user kdf salt name role display email phone password t s = (Inl e3, s3) \<longrightarrow> only_records s s3) \<and>
   (change_password kdf salt old new t s = (Inl e4, s4) \<longrightarrow> only_records s s4) \<and>
   (reset_password kdf salt name new t s = (Inl e5, s5) \<longrightarrow> only_records s s5)"
  by (intro conjI impI; erule refusals)

theorem refused_auth_only_records_witness:
  "\<exists>e s. login sample_kdf ''nobody'' ''x'' 5 sample_auth = (Inl e, s) \<and> only_records sample_auth s"
proof -
  obtain e s where e: "login sample_kdf ''nobody'' ''x'' 5 sample_auth = (Inl e, s)"
    by (simp add: login_def service_login_def authenticate_def sample_nobody)
  then have "only_records sample_auth s"
    using refused_auth_only_records [where s = sample_auth and kdf = sample_kdf and name = "''nobody''" and
        password = "''x''" and t = 5 and ?e1.0 = e and ?s1.0 = s] by blast
  then show ?thesis using e by blast
qed

text \<open>The two indexes of the accounts stay in step: after any sequence of use cases every account is
  found under its identifier and its normalised name, so no two accounts share either, identifiers are
  positive and below the next one, and stored contact details, role and version are valid.\<close>

theorem accounts_stay_consistent:
  assumes "users_ok (accounts s)" and "(auth_step kdf)\<^sup>*\<^sup>* s s'"
  shows "users_ok (accounts s')"
  using auth_steps_grown [OF assms(2,1)] by (rule conjunct1)

theorem accounts_stay_consistent_witness:
  "\<exists>s. auth_step sample_kdf sample_auth s \<and> logout 5 sample_auth = (Inr (), s) \<and> users_ok (accounts s)"
proof -
  obtain s where s: "logout 5 sample_auth = (Inr (), s)" using sample_out by blast
  have step: "auth_step sample_kdf sample_auth s" using Logout [of sample_kdf sample_auth 5] by (simp add: s)
  then show ?thesis
    using accounts_stay_consistent [of sample_auth sample_kdf s] sample_accounts_ok s by auto
qed

text \<open>C40. A restart loses nothing: after any sequence of successful writes the file of the user store is read
  back to a store with the same accounts under the same identifiers and names and the same next
  identifier, whatever passwords and names were stored.\<close>

theorem user_store_restarts:
  assumes "user_store_step\<^sup>*\<^sup>* new_user_store st"
  shows "\<exists>s. load_users (store_file st) = Inr s \<and> user_next_id s = user_next_id (store_users st) \<and>
    (\<forall>i. get_user_by_id i s = get_user_by_id i (store_users st)) \<and>
    (\<forall>n. get_by_username n s = get_by_username n (store_users st))"
  by (rule store_restarts [OF assms])

theorem user_store_restarts_witness:
  "\<exists>r st s. store_create True ''boss'' (Inl MANAGER) (PyStr ''Boss'') (PyStr ''b@x.io'') (PyStr ''0400000001'')
     sample_hash new_user_store = (Inr r, st) \<and> load_users (store_file st) = Inr s \<and>
     get_user_by_id (rec_user_id r) s = Some r"
proof -
  obtain r st where st: "store_create True ''boss'' (Inl MANAGER) (PyStr ''Boss'') (PyStr ''b@x.io'')
      (PyStr ''0400000001'') sample_hash new_user_store = (Inr r, st)" "get_user_by_id (rec_user_id r) (store_users st) = Some r"
    using sample_create by blast
  have "made_hash sample_hash" by (simp add: made_hash_def sample_parsed)
  then have "user_store_step new_user_store st" using st(1) by (rule Create)
  then have "user_store_step\<^sup>*\<^sup>* new_user_store st" by (rule r_into_rtranclp)
  then show ?thesis using user_store_restarts [of st] st by metis
qed

end
